(* ===== verification/Prelude.thy ===== *)
theory Prelude
  imports Complex_Main "HOL-Library.State_Monad" "HOL-Library.AList"
begin

text \<open>
  Shared vocabulary of the development: Python dictionaries as insertion-ordered association
  lists, JSON values, the few string operations the code uses, and a small calculus of effects
  for programs written in the state monad of the library.

  Strings are \<^typ>\<open>string\<close>; the identifiers, keys and states the code compares are ASCII.
  Python floats (clock readings and delays) are \<^typ>\<open>real\<close>: rounding is not modelled.
\<close>

named_theorems effect_intros \<open>closure rules of the effect calculus\<close>
named_theorems op_defs \<open>definitions of the ledger operations\<close>

subsection \<open>Strings\<close>

fun str_nat :: "nat \<Rightarrow> string" where
  "str_nat n = (if n < 10 then [char_of (48 + n)] else str_nat (n div 10) @ [char_of (48 + n mod 10)])"

declare str_nat.simps [simp del]

definition str_int :: "int \<Rightarrow> string" where
  "str_int i = (if i < 0 then ''-'' @ str_nat (nat (- i)) else str_nat (nat i))"

text \<open>Python's \<open>a or b\<close> on strings.\<close>

definition str_or :: "string \<Rightarrow> string \<Rightarrow> string" where
  "str_or a b = (if a = [] then b else a)"

lemma str_or_simps [simp]: "str_or [] b = b" "a \<noteq> [] \<Longrightarrow> str_or a b = a"
  by (simp_all add: str_or_def)

definition starts_with :: "string \<Rightarrow> string \<Rightarrow> bool" where
  "starts_with p s \<longleftrightarrow> take (length p) s = p"

fun join_with :: "string \<Rightarrow> string list \<Rightarrow> string" where
  "join_with sep [] = []"
| "join_with sep [x] = x"
| "join_with sep (x # y # xs) = x @ sep @ join_with sep (y # xs)"

definition replace_char :: "char \<Rightarrow> char \<Rightarrow> string \<Rightarrow> string" where
  "replace_char a b s = map (\<lambda>c. if c = a then b else c) s"

lemma str_nat_nonempty [simp]: "str_nat n \<noteq> []"
  by (subst str_nat.simps) simp

lemma digit_inj: "a < 10 \<Longrightarrow> b < 10 \<Longrightarrow> (char_of (48 + a) :: char) = char_of (48 + b) \<Longrightarrow> a = (b :: nat)"
  by (drule arg_cong [where f = "of_char :: char \<Rightarrow> nat"]) (simp add: of_char_of)

lemma str_nat_inj: "str_nat m = str_nat n \<Longrightarrow> m = n"
proof (induction m arbitrary: n rule: str_nat.induct)
  case (1 m)
  show ?case
  proof (cases "m < 10")
    case True
    then have m: "str_nat m = [char_of (48 + m)]" by (subst str_nat.simps) simp
    have "n < 10"
    proof (rule ccontr)
      assume n: "\<not> n < 10"
      then have "str_nat n = str_nat (n div 10) @ [char_of (48 + n mod 10)]"
        by (subst str_nat.simps) simp
      then have "butlast (str_nat n) = str_nat (n div 10)" by simp
      with "1.prems" [symmetric] m have "str_nat (n div 10) = []" by simp
      then show False by simp
    qed
    moreover from this have "str_nat n = [char_of (48 + n)]" by (subst str_nat.simps) simp
    ultimately show ?thesis using m "1.prems" True by (auto intro: digit_inj)
  next
    case False
    then have m: "str_nat m = str_nat (m div 10) @ [char_of (48 + m mod 10)]"
      by (subst str_nat.simps) simp
    have "\<not> n < 10"
    proof
      assume n: "n < 10"
      then have n': "str_nat n = [char_of (48 + n)]" by (subst str_nat.simps) simp
      from m have "butlast (str_nat m) = str_nat (m div 10)" by simp
      with "1.prems" n' have "str_nat (m div 10) = []" by simp
      then show False by simp
    qed
    then have n: "str_nat n = str_nat (n div 10) @ [char_of (48 + n mod 10)]"
      by (subst str_nat.simps) simp
    from "1.prems" m n have "str_nat (m div 10) = str_nat (n div 10)"
      and "(char_of (48 + m mod 10) :: char) = char_of (48 + n mod 10)" by auto
    then have "m div 10 = n div 10" and "m mod 10 = n mod 10"
      using "1.IH" [OF False] by (auto intro: digit_inj)
    then show ?thesis by (metis div_mult_mod_eq)
  qed
qed

text \<open>\<open>str.isdigit\<close> on ASCII text, \<open>int(text)\<close> of a digit string, \<open>str.strip\<close> and \<open>str.lower\<close>.\<close>

definition digit_value :: "char \<Rightarrow> nat option" where
  "digit_value c = (let n = of_char c :: nat in if 48 \<le> n \<and> n \<le> 57 then Some (n - 48) else None)"

definition all_digits :: "string \<Rightarrow> bool" where
  "all_digits s \<longleftrightarrow> s \<noteq> [] \<and> (\<forall>c \<in> set s. digit_value c \<noteq> None)"

definition digits_value :: "string \<Rightarrow> nat" where
  "digits_value s = foldl (\<lambda>n c. 10 * n + the (digit_value c)) 0 s"

definition nat_of_str :: "string \<Rightarrow> nat option" where
  "nat_of_str s = (if all_digits s then Some (digits_value s) else None)"

definition is_space :: "char \<Rightarrow> bool" where
  "is_space c \<longleftrightarrow> (let n = of_char c :: nat in n = 32 \<or> (9 \<le> n \<and> n \<le> 13) \<or> (28 \<le> n \<and> n \<le> 31))"

definition py_strip :: "string \<Rightarrow> string" where
  "py_strip s = rev (dropWhile is_space (rev (dropWhile is_space s)))"

definition lower_char :: "char \<Rightarrow> char" where
  "lower_char c =
     (let n = of_char c :: nat in if 65 \<le> n \<and> n \<le> 90 then char_of (n + 32) else c)"

definition py_lower :: "string \<Rightarrow> string" where
  "py_lower s = map lower_char s"

text \<open>\<open>str.splitlines\<close>: a carriage return followed by a line feed is one line break.\<close>

definition is_line_break :: "char \<Rightarrow> bool" where
  "is_line_break c \<longleftrightarrow> (let n = of_char c :: nat in (10 \<le> n \<and> n \<le> 13) \<or> (28 \<le> n \<and> n \<le> 30))"

fun split_lines_acc :: "string \<Rightarrow> string \<Rightarrow> string list" where
  "split_lines_acc acc [] = (if acc = [] then [] else [rev acc])"
| "split_lines_acc acc (c # cs) =
     (if c = CHR 0x0D \<and> cs \<noteq> [] \<and> hd cs = CHR 0x0A then rev acc # split_lines_acc [] (tl cs)
      else if is_line_break c then rev acc # split_lines_acc [] cs
      else split_lines_acc (c # acc) cs)"

definition py_splitlines :: "string \<Rightarrow> string list" where
  "py_splitlines s = split_lines_acc [] s"

lemma digit_value_char [simp]: "d < 10 \<Longrightarrow> digit_value (char_of (48 + d)) = Some d"
  by (simp add: digit_value_def of_char_of Let_def)

lemma digits_value_snoc: "digits_value (s @ [c]) = 10 * digits_value s + the (digit_value c)"
  by (simp add: digits_value_def)

lemma all_digits_str_nat: "all_digits (str_nat n)"
proof (induction n rule: str_nat.induct)
  case (1 n)
  then show ?case
    by (subst str_nat.simps) (auto simp: all_digits_def)
qed

lemma digits_value_str_nat: "digits_value (str_nat n) = n"
proof (induction n rule: str_nat.induct)
  case (1 n)
  show ?case
  proof (cases "n < 10")
    case True
    then show ?thesis by (subst str_nat.simps) (simp add: digits_value_def)
  next
    case False
    then have "str_nat n = str_nat (n div 10) @ [char_of (48 + n mod 10)]"
      by (subst str_nat.simps) simp
    with 1 [OF False] show ?thesis by (simp add: digits_value_snoc)
  qed
qed

lemma nat_of_str_nat [simp]: "nat_of_str (str_nat n) = Some n"
  by (simp add: nat_of_str_def all_digits_str_nat digits_value_str_nat)

subsection \<open>Dictionaries and JSON values\<close>

text \<open>
  A Python \<open>dict\<close> with string keys keeps insertion order: assignment to a present key keeps its
  position, a new key goes last, which is \<^const>\<open>AList.update\<close>.
\<close>

type_synonym 'v dict = "(string \<times> 'v) list"

definition dict_get :: "'v dict \<Rightarrow> string \<Rightarrow> 'v option" where
  "dict_get d k = map_of d k"

definition dict_set :: "string \<Rightarrow> 'v \<Rightarrow> 'v dict \<Rightarrow> 'v dict" where
  "dict_set k v d = AList.update k v d"

definition dict_keys :: "'v dict \<Rightarrow> string list" where
  "dict_keys d = map fst d"

lemma dict_get_set [simp]: "dict_get (dict_set k v d) k' = (if k' = k then Some v else dict_get d k')"
  by (simp add: dict_get_def dict_set_def update_conv')

lemma distinct_dict_set [simp]: "distinct (dict_keys d) \<Longrightarrow> distinct (dict_keys (dict_set k v d))"
  by (simp add: dict_keys_def dict_set_def distinct_update)

lemma set_dict_keys_set [simp]: "set (dict_keys (dict_set k v d)) = insert k (set (dict_keys d))"
  by (simp add: dict_keys_def dict_set_def dom_update)

lemma dict_get_None_iff: "dict_get d k = None \<longleftrightarrow> k \<notin> set (dict_keys d)"
  by (simp add: dict_get_def dict_keys_def map_of_eq_None_iff)

datatype json =
    JNull
  | JBool bool
  | JInt int
  | JFloat real string
  | JStr string
  | JArr "json list"
  | JObj "(string \<times> json) list"

text \<open>
  \<open>JFloat r t\<close> is the float \<open>r\<close> whose \<open>repr\<close> is \<open>t\<close>.

  Truth value, and the numeric reading Python's equality uses (\<open>True == 1 == 1.0\<close>).\<close>

fun truthy :: "json \<Rightarrow> bool" where
  "truthy JNull = False"
| "truthy (JBool b) = b"
| "truthy (JInt i) = (i \<noteq> 0)"
| "truthy (JFloat r _) = (r \<noteq> 0)"
| "truthy (JStr s) = (s \<noteq> [])"
| "truthy (JArr xs) = (xs \<noteq> [])"
| "truthy (JObj xs) = (xs \<noteq> [])"

fun num_of :: "json \<Rightarrow> real option" where
  "num_of (JBool b) = Some (if b then 1 else 0)"
| "num_of (JInt i) = Some (of_int i)"
| "num_of (JFloat r _) = Some r"
| "num_of _ = None"

text \<open>Python's \<open>==\<close> on parsed JSON: numbers by value, lists pointwise, dicts ignoring order.\<close>

function (sequential) py_eq :: "json \<Rightarrow> json \<Rightarrow> bool" where
  "py_eq JNull JNull = True"
| "py_eq (JStr s) (JStr t) = (s = t)"
| "py_eq (JArr xs) (JArr ys) =
     (length xs = length ys \<and> list_all (\<lambda>(x, y). py_eq x y) (zip xs ys))"
| "py_eq (JObj xs) (JObj ys) =
     (length xs = length ys \<and>
      list_all (\<lambda>(k, v). case map_of ys k of None \<Rightarrow> False | Some w \<Rightarrow> py_eq v w) xs)"
| "py_eq a b = (case (num_of a, num_of b) of (Some x, Some y) \<Rightarrow> x = y | _ \<Rightarrow> False)"
  by pat_completeness auto

lemma size_in_zip: "(x, y) \<in> set (zip xs ys) \<Longrightarrow> size x < Suc (size_list size (xs :: json list))"
  by (drule set_zip_leftD) (simp add: size_list_estimation' less_Suc_eq_le)

lemma size_in_obj: "(k, v) \<in> set xs \<Longrightarrow>
    size v < Suc (size_list (size_prod (\<lambda>_. 0) size) (xs :: (string \<times> json) list))"
  by (induction xs) auto

termination py_eq
  by (relation "measure (\<lambda>(a, b). size a)") (auto dest: size_in_zip size_in_obj)

text \<open>Python's \<open>repr\<close> and \<open>str\<close>, and \<open>str(d.get(k) or "")\<close>.\<close>

definition hex_digit :: "nat \<Rightarrow> char" where
  "hex_digit n = (if n < 10 then char_of (48 + n) else char_of (87 + n))"

definition repr_char :: "char \<Rightarrow> char \<Rightarrow> string" where
  "repr_char q c =
     (let n = of_char c :: nat in
      if c = q \<or> n = 92 then [char_of (92 :: nat), c]
      else if n = 10 then [char_of (92 :: nat), CHR ''n'']
      else if n = 13 then [char_of (92 :: nat), CHR ''r'']
      else if n = 9 then [char_of (92 :: nat), CHR ''t'']
      else if n < 32 \<or> n = 127
        then [char_of (92 :: nat), CHR ''x'', hex_digit (n div 16), hex_digit (n mod 16)]
      else [c])"

definition repr_str :: "string \<Rightarrow> string" where
  "repr_str s =
     (let squote = char_of (39 :: nat); dquote = char_of (34 :: nat);
          q = (if squote \<in> set s \<and> dquote \<notin> set s then dquote else squote)
      in [q] @ concat (map (repr_char q) s) @ [q])"

fun py_repr :: "json \<Rightarrow> string" where
  "py_repr JNull = ''None''"
| "py_repr (JBool b) = (if b then ''True'' else ''False'')"
| "py_repr (JInt i) = str_int i"
| "py_repr (JFloat _ t) = t"
| "py_repr (JStr s) = repr_str s"
| "py_repr (JArr xs) = ''['' @ join_with '', '' (map py_repr xs) @ '']''"
| "py_repr (JObj kvs) =
     ''{'' @ join_with '', '' (map (\<lambda>(k, v). repr_str k @ '': '' @ py_repr v) kvs) @ ''}''"

definition py_str :: "json \<Rightarrow> string" where
  "py_str v = (case v of JStr s \<Rightarrow> s | _ \<Rightarrow> py_repr v)"

definition get_str :: "json dict \<Rightarrow> string \<Rightarrow> string" where
  "get_str d k = (case dict_get d k of None \<Rightarrow> [] | Some v \<Rightarrow> if truthy v then py_str v else [])"

lemma py_str_JStr [simp]: "py_str (JStr s) = s"
  by (simp add: py_str_def)

lemma get_str_JStr: "dict_get d k = Some (JStr s) \<Longrightarrow> get_str d k = s"
  by (simp add: get_str_def)

text \<open>
  Iterating \<open>x or ()\<close>: a list gives its items, a string its characters, a dictionary its keys;
  a truthy number raises \<open>TypeError\<close>, which is \<open>None\<close>.
\<close>

definition iterate_json :: "json option \<Rightarrow> json list option" where
  "iterate_json j =
     (case j of
        None \<Rightarrow> Some []
      | Some v \<Rightarrow>
          if \<not> truthy v then Some []
          else (case v of
                  JArr xs \<Rightarrow> Some xs
                | JStr s \<Rightarrow> Some (map (\<lambda>c. JStr [c]) s)
                | JObj m \<Rightarrow> Some (map (\<lambda>(k, _). JStr k) m)
                | _ \<Rightarrow> None))"

text \<open>The exceptions of the modelled code.\<close>

datatype py_error =
  KeyError | ValueError | TypeError | AssertionError | IntegrityError | AttributeError

subsection \<open>The state monad and its effects\<close>

abbreviation ret :: "'a \<Rightarrow> ('s, 'a) state" where
  "ret \<equiv> State_Monad.return"

definition gets :: "('s \<Rightarrow> 'a) \<Rightarrow> ('s, 'a) state" where
  "gets f = State (\<lambda>s. (f s, s))"

definition modify :: "('s \<Rightarrow> 's) \<Rightarrow> ('s, unit) state" where
  "modify f = State (\<lambda>s. ((), f s))"

definition whenM :: "bool \<Rightarrow> ('s, unit) state \<Rightarrow> ('s, unit) state" where
  "whenM b m = (if b then m else ret ())"

lemma run_gets [simp]: "run_state (gets f) s = (f s, s)"
  by (simp add: gets_def)

lemma run_modify [simp]: "run_state (modify f) s = ((), f s)"
  by (simp add: modify_def)

lemma run_whenM [simp]: "run_state (whenM b m) s = (if b then run_state m s else ((), s))"
  by (simp add: whenM_def)

text \<open>\<open>for x in xs: body(x)\<close>.\<close>

fun for_each :: "'a list \<Rightarrow> ('a \<Rightarrow> ('s, unit) state) \<Rightarrow> ('s, unit) state" where
  "for_each [] body = ret ()"
| "for_each (x # xs) body = do { body x; for_each xs body }"

text \<open>\<open>[body(x) for x in xs]\<close>, in order.\<close>

fun map_each :: "'a list \<Rightarrow> ('a \<Rightarrow> ('s, 'b) state) \<Rightarrow> ('s, 'b list) state" where
  "map_each [] body = ret []"
| "map_each (x # xs) body = do { y \<leftarrow> body x; ys \<leftarrow> map_each xs body; ret (y # ys) }"

text \<open>
  The contract between a program and its effect: a preorder \<open>R\<close> on states, so that whatever
  every step respects, the whole program respects. An invariant \<open>P\<close> is the preorder
  \<open>\<lambda>s t. P s \<longrightarrow> P t\<close>.
\<close>

definition effect :: "('s \<Rightarrow> 's \<Rightarrow> bool) \<Rightarrow> ('s, 'a) state \<Rightarrow> bool" where
  "effect R m \<longleftrightarrow> (\<forall>s. R s (snd (run_state m s)))"

definition keeps :: "('s \<Rightarrow> bool) \<Rightarrow> 's \<Rightarrow> 's \<Rightarrow> bool" where
  "keeps P s t \<longleftrightarrow> (P s \<longrightarrow> P t)"

text \<open>The same from the states in \<open>Q\<close> only.\<close>

definition effect_on :: "('s \<Rightarrow> bool) \<Rightarrow> ('s \<Rightarrow> 's \<Rightarrow> bool) \<Rightarrow> ('s, 'a) state \<Rightarrow> bool" where
  "effect_on Q R m \<longleftrightarrow> (\<forall>s. Q s \<longrightarrow> R s (snd (run_state m s)))"

lemma effectI: "(\<And>s. R s (snd (run_state m s))) \<Longrightarrow> effect R m"
  by (simp add: effect_def)

lemma effectD: "effect R m \<Longrightarrow> run_state m s = (r, s') \<Longrightarrow> R s s'"
  by (metis effect_def snd_conv)

locale effect_order =
  fixes R :: "'s \<Rightarrow> 's \<Rightarrow> bool"
  assumes refl: "R s s"
    and trans: "R s t \<Longrightarrow> R t u \<Longrightarrow> R s u"
begin

lemma eff_ret: "effect R (ret x)"
  by (simp add: effect_def refl)

lemma eff_gets: "effect R (gets f)"
  by (simp add: effect_def refl)

lemma eff_bind:
  assumes "effect R m" and "\<And>x. effect R (f x)"
  shows "effect R (State_Monad.bind m f)"
proof (rule effectI)
  fix s
  obtain x t where m: "run_state m s = (x, t)" by (cases "run_state m s")
  from assms(1) m have "R s t" by (rule effectD)
  moreover have "R t (snd (run_state (f x) t))"
    using assms(2) by (simp add: effect_def)
  ultimately show "R s (snd (run_state (State_Monad.bind m f) s))"
    using m by (auto intro: trans)
qed

lemma eff_bind_on:
  assumes "\<And>s x t. Q s \<Longrightarrow> run_state m s = (x, t) \<Longrightarrow> R s t \<and> Q' x t" and "\<And>x. effect_on (Q' x) R (f x)"
  shows "effect_on Q R (State_Monad.bind m f)"
  unfolding effect_on_def
proof (intro allI impI)
  fix s assume "Q s"
  obtain x t where m: "run_state m s = (x, t)" by (cases "run_state m s")
  with assms(1) \<open>Q s\<close> have "R s t" "Q' x t" by blast+
  moreover from this(2) have "R t (snd (run_state (f x) t))"
    using assms(2) by (simp add: effect_on_def)
  ultimately show "R s (snd (run_state (State_Monad.bind m f) s))"
    using m by (auto intro: trans)
qed

lemma eff_on_pure: "(p \<Longrightarrow> effect_on Q R m) \<Longrightarrow> effect_on (\<lambda>s. Q s \<and> p) R m"
  by (simp add: effect_on_def)

lemma eff_everywhere: "effect_on (\<lambda>_. True) R m \<Longrightarrow> effect R m"
  by (simp add: effect_def effect_on_def)

lemma eff_on: "effect R m \<Longrightarrow> effect_on Q R m"
  by (simp add: effect_def effect_on_def)

lemma eff_if: "(b \<Longrightarrow> effect R m) \<Longrightarrow> (\<not> b \<Longrightarrow> effect R n) \<Longrightarrow> effect R (if b then m else n)"
  by simp

lemma eff_when: "effect R m \<Longrightarrow> effect R (whenM b m)"
  by (simp add: whenM_def eff_ret)

lemma eff_option: "(z = None \<Longrightarrow> effect R m) \<Longrightarrow> (\<And>x. z = Some x \<Longrightarrow> effect R (f x)) \<Longrightarrow>
    effect R (case z of None \<Rightarrow> m | Some x \<Rightarrow> f x)"
  by (cases z) auto

lemma eff_sum: "(\<And>x. effect R (f x)) \<Longrightarrow> (\<And>y. effect R (g y)) \<Longrightarrow>
    effect R (case z of Inl x \<Rightarrow> f x | Inr y \<Rightarrow> g y)"
  by (cases z) auto

lemma eff_list: "effect R m \<Longrightarrow> (\<And>x xs. effect R (f x xs)) \<Longrightarrow>
    effect R (case z of [] \<Rightarrow> m | x # xs \<Rightarrow> f x xs)"
  by (cases z) auto

lemma eff_prod: "(\<And>x y. effect R (f x y)) \<Longrightarrow> effect R (case z of (x, y) \<Rightarrow> f x y)"
  by (cases z) auto

lemma eff_let: "(\<And>x. effect R (f x)) \<Longrightarrow> effect R (let x = z in f x)"
  by simp

lemma eff_for_each: "(\<And>x. effect R (body x)) \<Longrightarrow> effect R (for_each xs body)"
  by (induction xs) (auto intro!: eff_ret eff_bind)

lemma eff_map_each: "(\<And>x. effect R (body x)) \<Longrightarrow> effect R (map_each xs body)"
  by (induction xs) (auto intro!: eff_ret eff_bind)

lemmas eff_intros = eff_ret eff_gets eff_bind eff_if eff_when eff_option eff_sum eff_list
  eff_prod eff_let eff_for_each eff_map_each

end

interpretation keeping: effect_order "keeps P"
  by unfold_locales (auto simp: keeps_def)

text \<open>Partial correctness with a postcondition on the result: every program here terminates.\<close>

definition triple :: "('s \<Rightarrow> bool) \<Rightarrow> ('s, 'a) state \<Rightarrow> ('a \<Rightarrow> 's \<Rightarrow> bool) \<Rightarrow> bool" where
  "triple Q m P \<longleftrightarrow> (\<forall>s x t. Q s \<longrightarrow> run_state m s = (x, t) \<longrightarrow> P x t)"

lemma tripleD: "triple Q m P \<Longrightarrow> Q s \<Longrightarrow> run_state m s = (x, t) \<Longrightarrow> P x t"
  by (simp add: triple_def)

lemma triple_ret: "(\<And>s. Q s \<Longrightarrow> P x s) \<Longrightarrow> triple Q (ret x) P"
  by (simp add: triple_def)

lemma triple_bind: "triple Q m Q' \<Longrightarrow> (\<And>x. triple (Q' x) (f x) P) \<Longrightarrow> triple Q (State_Monad.bind m f) P"
  by (fastforce simp: triple_def split: prod.splits)

lemma triple_pre: "triple Q' m P \<Longrightarrow> (\<And>s. Q s \<Longrightarrow> Q' s) \<Longrightarrow> triple Q m P"
  unfolding triple_def by blast

lemma triple_conj: "triple Q m P \<Longrightarrow> triple Q' m P' \<Longrightarrow>
    triple (\<lambda>s. Q s \<and> Q' s) m (\<lambda>x s. P x s \<and> P' x s)"
  unfolding triple_def by blast

lemma triple_pure: "(p \<Longrightarrow> triple Q m P) \<Longrightarrow> triple (\<lambda>s. Q s \<and> p) m P"
  unfolding triple_def by blast

lemma triple_post: "triple Q m P' \<Longrightarrow> (\<And>x s. P' x s \<Longrightarrow> P x s) \<Longrightarrow> triple Q m P"
  unfolding triple_def by blast

lemma triple_if: "(b \<Longrightarrow> triple Q m P) \<Longrightarrow> (\<not> b \<Longrightarrow> triple Q n P) \<Longrightarrow> triple Q (if b then m else n) P"
  by simp

lemma triple_when: "(b \<Longrightarrow> triple Q m (\<lambda>_. P)) \<Longrightarrow> (\<And>s. \<not> b \<Longrightarrow> Q s \<Longrightarrow> P s) \<Longrightarrow> triple Q (whenM b m) (\<lambda>_. P)"
  by (simp add: triple_def)

lemma triple_option: "(z = None \<Longrightarrow> triple Q m P) \<Longrightarrow> (\<And>x. z = Some x \<Longrightarrow> triple Q (f x) P) \<Longrightarrow>
    triple Q (case z of None \<Rightarrow> m | Some x \<Rightarrow> f x) P"
  by (cases z) auto

lemma triple_sum: "(\<And>x. z = Inl x \<Longrightarrow> triple Q (f x) P) \<Longrightarrow> (\<And>y. z = Inr y \<Longrightarrow> triple Q (g y) P) \<Longrightarrow>
    triple Q (case z of Inl x \<Rightarrow> f x | Inr y \<Rightarrow> g y) P"
  by (cases z) auto

lemma triple_effect: "effect R m \<Longrightarrow> (\<And>s x t. Q s \<Longrightarrow> R s t \<Longrightarrow> P x t) \<Longrightarrow> triple Q m P"
  unfolding triple_def using effectD by metis

lemmas triple_intros = triple_if triple_option triple_sum

end
