(* ===== verification/Tables.thy ===== *)
theory Tables
  imports Prelude
begin

text \<open>
  The tables of the SQLite ledgers. A table is its rows in insertion order and the value of its
  \<open>autoincrement\<close> counter. Every attempted insert draws a number from the counter, also an
  \<open>insert or ignore\<close> or an upsert that finds its key taken; a refused number is never reused.
  \<open>order by id\<close> is the order of the list.

  The locale \<open>keyed_table\<close> is the contract of a table with a unique index: how a row is built
  from its data and which key the index reads. It is interpreted once per table of the ledger.
\<close>

record 'r table =
  rows :: "'r list"
  counter :: nat

definition empty_table :: "'r table" where
  "empty_table = \<lparr>rows = [], counter = 0\<rparr>"

definition select_where :: "('r \<Rightarrow> bool) \<Rightarrow> 'r table \<Rightarrow> 'r list" where
  "select_where P t = filter P (rows t)"

definition select_one :: "('r \<Rightarrow> bool) \<Rightarrow> 'r table \<Rightarrow> 'r option" where
  "select_one P t = find P (rows t)"

definition insert_row :: "(nat \<Rightarrow> 'r) \<Rightarrow> 'r table \<Rightarrow> 'r \<times> 'r table" where
  "insert_row mk t =
     (let i = Suc (counter t); r = mk i in (r, t\<lparr>rows := rows t @ [r], counter := i\<rparr>))"

definition update_where :: "('r \<Rightarrow> bool) \<Rightarrow> ('r \<Rightarrow> 'r) \<Rightarrow> 'r table \<Rightarrow> 'r table" where
  "update_where P f t = t\<lparr>rows := map (\<lambda>r. if P r then f r else r) (rows t)\<rparr>"

text \<open>\<open>insert or ignore\<close>: the Boolean is the statement's row count.\<close>

definition insert_or_ignore :: "('r \<Rightarrow> bool) \<Rightarrow> (nat \<Rightarrow> 'r) \<Rightarrow> 'r table \<Rightarrow> bool \<times> 'r table" where
  "insert_or_ignore clash mk t =
     (if \<exists>r \<in> set (rows t). clash r then (False, t\<lparr>counter := Suc (counter t)\<rparr>)
      else (True, snd (insert_row mk t)))"

text \<open>\<open>insert ... on conflict do update\<close>.\<close>

definition upsert :: "('r \<Rightarrow> bool) \<Rightarrow> ('r \<Rightarrow> 'r) \<Rightarrow> (nat \<Rightarrow> 'r) \<Rightarrow> 'r table \<Rightarrow> 'r table" where
  "upsert clash f mk t =
     (if \<exists>r \<in> set (rows t). clash r
      then (update_where clash f t)\<lparr>counter := Suc (counter t)\<rparr>
      else snd (insert_row mk t))"

text \<open>\<open>coalesce(max(column), 0)\<close> over the selected rows.\<close>

definition max_column :: "('r \<Rightarrow> nat) \<Rightarrow> ('r \<Rightarrow> bool) \<Rightarrow> 'r table \<Rightarrow> nat" where
  "max_column col P t = foldr max (map col (select_where P t)) 0"

definition table_ok :: "('r \<Rightarrow> nat) \<Rightarrow> ('r \<Rightarrow> 'k) \<Rightarrow> 'r table \<Rightarrow> bool" where
  "table_ok rid key t \<longleftrightarrow>
     (\<forall>r \<in> set (rows t). 0 < rid r \<and> rid r \<le> counter t) \<and>
     distinct (map rid (rows t)) \<and> distinct (map key (rows t))"

subsection \<open>Laws of the statements\<close>

lemma table_ok_empty [simp]: "table_ok rid key empty_table"
  by (simp add: table_ok_def empty_table_def)

lemma insert_row_simps [simp]:
  "fst (insert_row mk t) = mk (Suc (counter t))"
  "rows (snd (insert_row mk t)) = rows t @ [mk (Suc (counter t))]"
  "counter (snd (insert_row mk t)) = Suc (counter t)"
  by (simp_all add: insert_row_def Let_def)

lemma update_where_simps [simp]:
  "rows (update_where P f t) = map (\<lambda>r. if P r then f r else r) (rows t)"
  "counter (update_where P f t) = counter t"
  by (simp_all add: update_where_def)

lemma find_append: "find P (xs @ ys) = (case find P xs of None \<Rightarrow> find P ys | Some x \<Rightarrow> Some x)"
  by (induction xs) auto

lemma map_if_same:
  assumes "\<And>r. g (f r) = g r"
  shows "map (g \<circ> (\<lambda>r. if P r then f r else r)) xs = map g xs"
  using assms by (induction xs) auto

lemma find_map_if:
  assumes "\<And>r. P (f r) = P r"
  shows "find P (map (\<lambda>r. if Q r then f r else r) xs) =
    map_option (\<lambda>r. if Q r then f r else r) (find P xs)"
  using assms by (induction xs) auto

lemma filter_map_if:
  assumes "\<And>r. P (f r) = P r"
  shows "filter P (map (\<lambda>r. if Q r then f r else r) xs) =
    map (\<lambda>r. if Q r then f r else r) (filter P xs)"
  using assms by (induction xs) auto

lemma select_one_SomeD: "select_one P t = Some r \<Longrightarrow> r \<in> set (rows t) \<and> P r"
  by (auto simp: select_one_def find_Some_iff)

lemma select_one_None_iff: "select_one P t = None \<longleftrightarrow> (\<forall>r \<in> set (rows t). \<not> P r)"
  by (auto simp: select_one_def find_None_iff)

lemma foldr_max_ge: "x \<in> set xs \<Longrightarrow> x \<le> foldr max xs (0 :: nat)"
  by (induction xs) auto

lemma max_column_ge: "r \<in> set (rows t) \<Longrightarrow> P r \<Longrightarrow> col r \<le> max_column col P t"
  unfolding max_column_def by (rule foldr_max_ge) (auto simp: select_where_def)

lemma table_ok_id_unique:
  assumes "table_ok rid key t" "r \<in> set (rows t)" "q \<in> set (rows t)" "rid r = rid q"
  shows "r = q"
  using assms by (auto simp: table_ok_def distinct_map inj_on_def)

lemma table_ok_key_unique:
  assumes "table_ok rid key t" "r \<in> set (rows t)" "q \<in> set (rows t)" "key r = key q"
  shows "r = q"
  using assms by (auto simp: table_ok_def distinct_map inj_on_def)

lemma select_one_by_id:
  assumes "table_ok rid key t" "r \<in> set (rows t)"
  shows "select_one (\<lambda>q. rid q = rid r) t = Some r"
proof -
  obtain q where q: "select_one (\<lambda>q. rid q = rid r) t = Some q"
    using assms(2) by (cases "select_one (\<lambda>q. rid q = rid r) t") (auto simp: select_one_None_iff)
  then have "q \<in> set (rows t)" "rid q = rid r" by (auto dest: select_one_SomeD)
  with assms q show ?thesis by (metis table_ok_id_unique)
qed

lemma table_ok_bump: "table_ok rid key t \<Longrightarrow> table_ok rid key (t\<lparr>counter := Suc (counter t)\<rparr>)"
  by (auto simp: table_ok_def)

lemma table_ok_update:
  assumes "table_ok rid key t" and "\<And>r. rid (f r) = rid r" and "\<And>r. key (f r) = key r"
  shows "table_ok rid key (update_where P f t)"
  using assms by (auto simp: table_ok_def map_if_same)

subsection \<open>The contract of a table with a unique index\<close>

locale keyed_table =
  fixes mk :: "'d \<Rightarrow> nat \<Rightarrow> 'r"
    and rid :: "'r \<Rightarrow> nat"
    and key :: "'r \<Rightarrow> 'k"
    and dkey :: "'d \<Rightarrow> 'k"
  assumes rid_mk: "rid (mk d i) = i"
    and key_mk: "key (mk d i) = dkey d"
begin

lemma insert_ok:
  assumes "table_ok rid key t" and "dkey d \<notin> key ` set (rows t)"
  shows "table_ok rid key (snd (insert_row (mk d) t))"
  using assms by (auto simp: table_ok_def rid_mk key_mk le_SucI)

lemma insert_or_ignore_ok:
  assumes "table_ok rid key t" and "\<And>r. clash r \<longleftrightarrow> key r = dkey d"
  shows "table_ok rid key (snd (insert_or_ignore clash (mk d) t))"
  using assms by (auto simp: insert_or_ignore_def intro!: insert_ok table_ok_bump)

lemma upsert_ok:
  assumes "table_ok rid key t" and "\<And>r. clash r \<longleftrightarrow> key r = dkey d"
    and "\<And>r. rid (f r) = rid r" and "\<And>r. key (f r) = key r"
  shows "table_ok rid key (upsert clash f (mk d) t)"
proof (cases "\<exists>r \<in> set (rows t). clash r")
  case True
  have "table_ok rid key (update_where clash f t)"
    using assms by (intro table_ok_update) auto
  from table_ok_bump [OF this] True show ?thesis by (simp add: upsert_def)
next
  case False
  then show ?thesis using assms(1,2) by (auto simp: upsert_def intro!: insert_ok)
qed

lemma insert_fresh_id: "table_ok rid key t \<Longrightarrow> r \<in> set (rows t) \<Longrightarrow> rid r \<noteq> rid (mk d (Suc (counter t)))"
  by (auto simp: table_ok_def rid_mk)

lemma insert_select_id:
  assumes "table_ok rid key t"
  shows "select_one (\<lambda>r. rid r = Suc (counter t)) (snd (insert_row (mk d) t)) = Some (mk d (Suc (counter t)))"
proof -
  have "select_one (\<lambda>r. rid r = Suc (counter t)) t = None"
    using assms by (auto simp: select_one_None_iff table_ok_def)
  then show ?thesis by (simp add: select_one_def find_append rid_mk)
qed

lemma upsert_length: "length (rows t) \<le> length (rows (upsert clash f (mk d) t))"
  by (simp add: upsert_def)

end

end
