(* ===== verification/Ledger.thy ===== *)
theory Ledger
  imports Tables
begin

text \<open>
  The durable continuation ledger of \<open>continuation_store.py\<close>: its rows, the continuation state
  machine, and the operations on instances, steps, owner receipts and events. The tables of
  \<open>ContinuationStore\<close> are the fields of \<open>store\<close>; an operation takes the clock readings the code
  makes and returns its result with the new store.
\<close>

subsection \<open>Continuation states\<close>

datatype cstate =
    DETECTED
  | WAITING_OWNER
  | INPUT_ACCEPTED
  | MATERIALIZING
  | WAITING_REVIEW
  | RESUMABLE
  | RESUMED
  | BLOCKED_INVALID
  | FAILED_RETRYABLE

fun cstate_value :: "cstate \<Rightarrow> string" where
  "cstate_value DETECTED = ''detected''"
| "cstate_value WAITING_OWNER = ''waiting_owner''"
| "cstate_value INPUT_ACCEPTED = ''input_accepted''"
| "cstate_value MATERIALIZING = ''materializing''"
| "cstate_value WAITING_REVIEW = ''waiting_review''"
| "cstate_value RESUMABLE = ''resumable''"
| "cstate_value RESUMED = ''resumed''"
| "cstate_value BLOCKED_INVALID = ''blocked_invalid''"
| "cstate_value FAILED_RETRYABLE = ''failed_retryable''"

definition TERMINAL_STATES :: "cstate list" where
  "TERMINAL_STATES = [RESUMED, BLOCKED_INVALID]"

fun ALLOWED_TRANSITIONS :: "cstate \<Rightarrow> cstate list" where
  "ALLOWED_TRANSITIONS DETECTED = [WAITING_OWNER, MATERIALIZING]"
| "ALLOWED_TRANSITIONS WAITING_OWNER = [INPUT_ACCEPTED]"
| "ALLOWED_TRANSITIONS INPUT_ACCEPTED = [MATERIALIZING]"
| "ALLOWED_TRANSITIONS MATERIALIZING = [WAITING_REVIEW, RESUMABLE, FAILED_RETRYABLE]"
| "ALLOWED_TRANSITIONS WAITING_REVIEW = [RESUMABLE, FAILED_RETRYABLE]"
| "ALLOWED_TRANSITIONS RESUMABLE = [RESUMED]"
| "ALLOWED_TRANSITIONS FAILED_RETRYABLE = [MATERIALIZING, WAITING_REVIEW]"
| "ALLOWED_TRANSITIONS RESUMED = []"
| "ALLOWED_TRANSITIONS BLOCKED_INVALID = []"

definition legal :: "cstate \<Rightarrow> cstate \<Rightarrow> bool" where
  "legal current new =
     (if current \<in> set TERMINAL_STATES then False
      else if new = BLOCKED_INVALID then True
      else new \<in> set (ALLOWED_TRANSITIONS current))"

subsection \<open>Rows\<close>

record instance_row =
  ci_id :: nat
  ci_board :: string
  ci_source_task_id :: string
  ci_source_event_id :: string
  ci_source_graph_id :: string
  ci_contract_ref :: string
  ci_verdict :: string
  ci_continuation_kind :: string
  ci_state :: cstate
  ci_origin_ref :: string
  ci_return_to_ref :: string
  ci_workspace_ref :: string
  ci_idempotency_key :: string
  ci_created_at :: real
  ci_updated_at :: real

text \<open>The keyword arguments of \<open>create_instance\<close>.\<close>

record new_instance =
  ni_board :: string
  ni_source_task_id :: string
  ni_source_event_id :: string
  ni_source_graph_id :: string
  ni_contract_ref :: string
  ni_verdict :: string
  ni_continuation_kind :: string
  ni_origin_ref :: string
  ni_return_to_ref :: string
  ni_workspace_ref :: string

record step_row =
  cs_id :: nat
  cs_continuation_id :: nat
  cs_step_kind :: string
  cs_state :: string
  cs_board_task_id :: string
  cs_parent_step_id :: "nat option"
  cs_idempotency_key :: string
  cs_created_at :: real
  cs_updated_at :: real

record receipt_row =
  or_id :: nat
  or_continuation_id :: nat
  or_version :: nat
  or_owner_ref :: string
  or_fields :: "json dict"
  or_source_ref :: string
  or_created_at :: real
  or_supersedes_receipt_id :: "nat option"

text \<open>An event's \<open>kind\<close> text and \<open>payload_json\<close>, for the three kinds the store writes.\<close>

datatype ledger_event =
    Created cstate
  | State_Transition (ev_from: cstate) (ev_to: cstate) (ev_reason: string)
  | Owner_Receipt (ev_version: nat) (ev_owner_ref: string)

fun event_kind :: "ledger_event \<Rightarrow> string" where
  "event_kind (Created _) = ''created''"
| "event_kind (State_Transition _ _ _) = ''state_transition''"
| "event_kind (Owner_Receipt _ _) = ''owner_receipt''"

fun event_payload :: "ledger_event \<Rightarrow> json dict" where
  "event_payload (Created s) = [(''state'', JStr (cstate_value s))]"
| "event_payload (State_Transition a b reason) =
     [(''from'', JStr (cstate_value a)), (''to'', JStr (cstate_value b)), (''reason'', JStr reason)]"
| "event_payload (Owner_Receipt v owner) =
     [(''version'', JInt (int v)), (''owner_ref'', JStr owner)]"

record event_row =
  ce_id :: nat
  ce_continuation_id :: nat
  ce_seq :: nat
  ce_event :: ledger_event
  ce_created_at :: real

record cursor_row =
  bc_board :: string
  bc_db_identity :: string
  bc_last_event_id :: nat
  bc_updated_at :: real

record outbox_row =
  ob_id :: nat
  ob_continuation_id :: nat
  ob_step_id :: string
  ob_operation :: string
  ob_payload :: "json dict"
  ob_idempotency_key :: string
  ob_state :: string
  ob_board_task_id :: string
  ob_attempts :: nat
  ob_next_attempt_at :: real
  ob_last_error :: string
  ob_created_at :: real
  ob_updated_at :: real

record satisfaction_row =
  rs_id :: nat
  rs_continuation_id :: nat
  rs_field_name :: string
  rs_value :: json
  rs_source_kind :: string
  rs_source_ref :: string
  rs_policy_id :: string
  rs_created_at :: real

record policy_row =
  sp_id :: nat
  sp_policy_id :: string
  sp_version :: nat
  sp_owner_ref :: string
  sp_project_scope :: string
  sp_action_scope :: string
  sp_conditions :: "json dict"
  sp_decision :: json
  sp_enabled :: bool
  sp_source_message_ref :: string
  sp_created_at :: real

record case_row =
  ic_id :: string
  ic_endpoint :: string
  ic_batch_key :: string
  ic_state :: string
  ic_question_count :: nat
  ic_created_at :: real
  ic_asked_at :: "real option"
  ic_answered_at :: "real option"
  ic_applied_at :: "real option"

record member_row =
  im_id :: nat
  im_case_id :: string
  im_continuation_id :: nat
  im_requirements :: "json list"
  im_created_at :: real

record reply_row =
  ir_id :: nat
  ir_case_id :: string
  ir_message_ref :: string
  ir_content_sha256 :: string
  ir_compile_result :: json
  ir_created_at :: real

record wait_row =
  ew_id :: nat
  ew_continuation_id :: nat
  ew_kind :: string
  ew_target :: string
  ew_desired :: string
  ew_poll_interval_seconds :: real
  ew_resume_transition :: string
  ew_state :: string
  ew_last_checked_at :: real
  ew_created_at :: real
  ew_updated_at :: real

record store =
  instances :: "instance_row table"
  steps :: "step_row table"
  receipts :: "receipt_row table"
  events :: "event_row table"
  cursors :: "cursor_row list"
  outbox :: "outbox_row table"
  satisfactions :: "satisfaction_row table"
  policies :: "policy_row table"
  cases :: "case_row list"
  members :: "member_row table"
  replies :: "reply_row table"
  waits :: "wait_row table"

definition empty_store :: store where
  "empty_store = \<lparr>instances = empty_table, steps = empty_table, receipts = empty_table,
     events = empty_table, cursors = [], outbox = empty_table, satisfactions = empty_table,
     policies = empty_table, cases = [], members = empty_table, replies = empty_table,
     waits = empty_table\<rparr>"

subsection \<open>Events\<close>

definition mk_event :: "(nat \<times> nat \<times> ledger_event \<times> real) \<Rightarrow> nat \<Rightarrow> event_row" where
  "mk_event = (\<lambda>(iid, seq, ev, now) i.
     \<lparr>ce_id = i, ce_continuation_id = iid, ce_seq = seq, ce_event = ev, ce_created_at = now\<rparr>)"

definition record_event :: "nat \<Rightarrow> ledger_event \<Rightarrow> real \<Rightarrow> store \<Rightarrow> store" where
  "record_event iid ev now st =
     (let seq = max_column ce_seq (\<lambda>e. ce_continuation_id e = iid) (events st) + 1
      in st\<lparr>events := snd (insert_row (mk_event (iid, seq, ev, now)) (events st))\<rparr>)"

definition list_events :: "nat \<Rightarrow> store \<Rightarrow> event_row list" where
  "list_events iid st = sort_key ce_seq (select_where (\<lambda>e. ce_continuation_id e = iid) (events st))"

subsection \<open>Instances\<close>

definition source_tuple :: "instance_row \<Rightarrow> string \<times> string \<times> string \<times> string" where
  "source_tuple r = (ci_board r, ci_source_task_id r, ci_source_event_id r, ci_contract_ref r)"

definition new_source_tuple :: "new_instance \<Rightarrow> string \<times> string \<times> string \<times> string" where
  "new_source_tuple a =
     (ni_board a, ni_source_task_id a, ni_source_event_id a, ni_contract_ref a)"

definition instance_key :: "new_instance \<Rightarrow> string" where
  "instance_key a = ''continuation:'' @ ni_board a @ '':'' @ ni_source_task_id a @ '':'' @
     ni_source_event_id a @ '':'' @ ni_contract_ref a"

definition mk_instance :: "new_instance \<times> real \<Rightarrow> nat \<Rightarrow> instance_row" where
  "mk_instance = (\<lambda>(a, now) i.
     \<lparr>ci_id = i, ci_board = ni_board a, ci_source_task_id = ni_source_task_id a,
      ci_source_event_id = ni_source_event_id a, ci_source_graph_id = ni_source_graph_id a,
      ci_contract_ref = ni_contract_ref a, ci_verdict = ni_verdict a,
      ci_continuation_kind = ni_continuation_kind a, ci_state = DETECTED,
      ci_origin_ref = ni_origin_ref a, ci_return_to_ref = ni_return_to_ref a,
      ci_workspace_ref = ni_workspace_ref a, ci_idempotency_key = instance_key a,
      ci_created_at = now, ci_updated_at = now\<rparr>)"

text \<open>The Boolean is the \<open>created\<close> entry of the returned dictionary.\<close>

definition create_instance ::
    "new_instance \<Rightarrow> real \<Rightarrow> real \<Rightarrow> store \<Rightarrow> (bool \<times> instance_row) \<times> store" where
  "create_instance a now ev_now st =
     (case select_one (\<lambda>r. source_tuple r = new_source_tuple a) (instances st) of
        Some r \<Rightarrow> ((False, r), st)
      | None \<Rightarrow>
          (let (r, t) = insert_row (mk_instance (a, now)) (instances st)
           in ((True, r), record_event (ci_id r) (Created DETECTED) ev_now (st\<lparr>instances := t\<rparr>))))"

definition get_instance :: "nat \<Rightarrow> store \<Rightarrow> instance_row option" where
  "get_instance iid st = select_one (\<lambda>r. ci_id r = iid) (instances st)"

definition list_instances :: "cstate option \<Rightarrow> store \<Rightarrow> instance_row list" where
  "list_instances s st =
     (case s of None \<Rightarrow> rows (instances st)
      | Some x \<Rightarrow> select_where (\<lambda>r. ci_state r = x) (instances st))"

datatype transition_result =
    Transition_Refused string
  | Transition_Applied cstate

definition set_instance_state :: "nat \<Rightarrow> cstate \<Rightarrow> real \<Rightarrow> store \<Rightarrow> store" where
  "set_instance_state iid new now st =
     st\<lparr>instances := update_where (\<lambda>r. ci_id r = iid)
          (\<lambda>r. r\<lparr>ci_state := new, ci_updated_at := now\<rparr>) (instances st)\<rparr>"

definition transition ::
    "nat \<Rightarrow> cstate \<Rightarrow> string \<Rightarrow> real \<Rightarrow> real \<Rightarrow> store \<Rightarrow> transition_result \<times> store" where
  "transition iid new reason now ev_now st =
     (case get_instance iid st of
        None \<Rightarrow> (Transition_Refused ''unknown_instance'', st)
      | Some r \<Rightarrow>
          if ci_state r \<in> set TERMINAL_STATES then (Transition_Refused ''already_terminal'', st)
          else if \<not> legal (ci_state r) new then (Transition_Refused ''illegal_transition'', st)
          else (Transition_Applied new,
                record_event iid (State_Transition (ci_state r) new reason) ev_now
                  (set_instance_state iid new now st)))"

subsection \<open>Steps\<close>

definition mk_step ::
    "(nat \<times> string \<times> string \<times> string \<times> nat option \<times> real) \<Rightarrow> nat \<Rightarrow> step_row" where
  "mk_step = (\<lambda>(iid, kind, key, task, parent, now) i.
     \<lparr>cs_id = i, cs_continuation_id = iid, cs_step_kind = kind, cs_state = ''pending'',
      cs_board_task_id = task, cs_parent_step_id = parent, cs_idempotency_key = key,
      cs_created_at = now, cs_updated_at = now\<rparr>)"

definition step_key :: "step_row \<Rightarrow> nat \<times> string" where
  "step_key s = (cs_continuation_id s, cs_idempotency_key s)"

definition add_step ::
    "nat \<Rightarrow> string \<Rightarrow> string \<Rightarrow> nat option \<Rightarrow> real \<Rightarrow> store \<Rightarrow> (bool \<times> step_row) \<times> store" where
  "add_step iid kind key parent now st =
     (case select_one (\<lambda>s. step_key s = (iid, key)) (steps st) of
        Some s \<Rightarrow> ((False, s), st)
      | None \<Rightarrow>
          (let (s, t) = insert_row (mk_step (iid, kind, key, '''', parent, now)) (steps st)
           in ((True, s), st\<lparr>steps := t\<rparr>)))"

text \<open>
  \<open>mark_step\<close>: a missing row makes the final \<open>dict(row)\<close> raise, which is \<open>None\<close> here; the
  update has touched nothing then.
\<close>

definition mark_step ::
    "nat \<Rightarrow> string option \<Rightarrow> string \<Rightarrow> real \<Rightarrow> store \<Rightarrow> step_row option \<times> store" where
  "mark_step sid state task now st =
     (let t = update_where (\<lambda>s. cs_id s = sid)
                (\<lambda>s. s\<lparr>cs_state := (case state of None \<Rightarrow> cs_state s | Some x \<Rightarrow> x),
                       cs_board_task_id := str_or task (cs_board_task_id s),
                       cs_updated_at := now\<rparr>) (steps st)
      in (select_one (\<lambda>s. cs_id s = sid) t, st\<lparr>steps := t\<rparr>))"

definition count_steps :: "nat \<Rightarrow> string \<Rightarrow> store \<Rightarrow> nat" where
  "count_steps iid kind st =
     length (select_where (\<lambda>s. cs_continuation_id s = iid \<and> (kind = [] \<or> cs_step_kind s = kind))
       (steps st))"

definition list_steps :: "nat \<Rightarrow> store \<Rightarrow> step_row list" where
  "list_steps iid st = select_where (\<lambda>s. cs_continuation_id s = iid) (steps st)"

subsection \<open>Owner receipts\<close>

definition mk_receipt ::
    "(nat \<times> nat \<times> string \<times> json dict \<times> string \<times> nat option \<times> real) \<Rightarrow> nat \<Rightarrow> receipt_row" where
  "mk_receipt = (\<lambda>(iid, version, owner, vals, src, supersedes, now) i.
     \<lparr>or_id = i, or_continuation_id = iid, or_version = version, or_owner_ref = owner,
      or_fields = vals, or_source_ref = src, or_created_at = now,
      or_supersedes_receipt_id = supersedes\<rparr>)"

definition add_owner_receipt ::
    "nat \<Rightarrow> string \<Rightarrow> json dict \<Rightarrow> string \<Rightarrow> nat option \<Rightarrow> real \<Rightarrow> real \<Rightarrow> store \<Rightarrow>
       receipt_row \<times> store" where
  "add_owner_receipt iid owner vals src supersedes now ev_now st =
     (let version = max_column or_version (\<lambda>r. or_continuation_id r = iid) (receipts st) + 1;
          (r, t) = insert_row (mk_receipt (iid, version, owner, vals, src, supersedes, now)) (receipts st)
      in (r, record_event iid (Owner_Receipt version owner) ev_now (st\<lparr>receipts := t\<rparr>)))"

definition list_owner_receipts :: "nat \<Rightarrow> store \<Rightarrow> receipt_row list" where
  "list_owner_receipts iid st =
     sort_key or_version (select_where (\<lambda>r. or_continuation_id r = iid) (receipts st))"

definition latest_owner_receipt :: "nat \<Rightarrow> store \<Rightarrow> receipt_row option" where
  "latest_owner_receipt iid st =
     (let rs = list_owner_receipts iid st in if rs = [] then None else Some (last rs))"

end
