(* ===== verification/Ledger_Control.thy ===== *)
theory Ledger_Control
  imports Ledger
begin

text \<open>
  The control-plane operations of \<open>ContinuationStore\<close>: board cursors, the durable outbox with its
  retry schedule, requirement satisfactions, standing policies and the interaction inbox tables.
\<close>

subsection \<open>Board cursors\<close>

definition cursor_exists :: "string \<Rightarrow> string \<Rightarrow> store \<Rightarrow> bool" where
  "cursor_exists b db st \<longleftrightarrow> find (\<lambda>c. bc_board c = b \<and> bc_db_identity c = db) (cursors st) \<noteq> None"

definition get_cursor :: "string \<Rightarrow> string \<Rightarrow> store \<Rightarrow> nat" where
  "get_cursor b db st =
     (case find (\<lambda>c. bc_board c = b \<and> bc_db_identity c = db) (cursors st) of
        None \<Rightarrow> 0 | Some c \<Rightarrow> bc_last_event_id c)"

text \<open>The upsert on \<open>(board, db_identity)\<close>, whose update is guarded by \<open>excluded > current\<close>.\<close>

definition upsert_cursor :: "string \<Rightarrow> string \<Rightarrow> nat \<Rightarrow> real \<Rightarrow> cursor_row list \<Rightarrow> cursor_row list" where
  "upsert_cursor b db v now cs =
     (if \<exists>c \<in> set cs. bc_board c = b \<and> bc_db_identity c = db
      then map (\<lambda>c. if bc_board c = b \<and> bc_db_identity c = db \<and> bc_last_event_id c < v
                     then c\<lparr>bc_last_event_id := v, bc_updated_at := now\<rparr> else c) cs
      else cs @ [\<lparr>bc_board = b, bc_db_identity = db, bc_last_event_id = v, bc_updated_at = now\<rparr>])"

definition advance_cursor :: "string \<Rightarrow> string \<Rightarrow> nat \<Rightarrow> real \<Rightarrow> store \<Rightarrow> nat \<times> store" where
  "advance_cursor b db last_event now st =
     (let new_value = max (get_cursor b db st) last_event
      in (new_value, st\<lparr>cursors := upsert_cursor b db new_value now (cursors st)\<rparr>))"

subsection \<open>Outbox\<close>

definition mk_outbox ::
    "(nat \<times> string \<times> string \<times> json dict \<times> string \<times> real) \<Rightarrow> nat \<Rightarrow> outbox_row" where
  "mk_outbox = (\<lambda>(iid, step, op, payload, key, now) i.
     \<lparr>ob_id = i, ob_continuation_id = iid, ob_step_id = step, ob_operation = op,
      ob_payload = payload, ob_idempotency_key = key, ob_state = ''pending'',
      ob_board_task_id = '''', ob_attempts = 0, ob_next_attempt_at = 0, ob_last_error = '''',
      ob_created_at = now, ob_updated_at = now\<rparr>)"

definition outbox_enqueue ::
    "nat \<Rightarrow> string \<Rightarrow> string \<Rightarrow> json dict \<Rightarrow> string \<Rightarrow> real \<Rightarrow> store \<Rightarrow> (bool \<times> outbox_row) \<times> store" where
  "outbox_enqueue iid step op payload key now st =
     (case select_one (\<lambda>r. ob_idempotency_key r = key) (outbox st) of
        Some r \<Rightarrow> ((False, r), st)
      | None \<Rightarrow>
          (let (r, t) = insert_row (mk_outbox (iid, step, op, payload, key, now)) (outbox st)
           in ((True, r), st\<lparr>outbox := t\<rparr>)))"

definition mark_outbox_row ::
    "string \<Rightarrow> string \<Rightarrow> real option \<Rightarrow> string option \<Rightarrow> real \<Rightarrow> outbox_row \<Rightarrow> outbox_row" where
  "mark_outbox_row state task next err now r =
     (let applied = (state = ''applied'')
      in r\<lparr>ob_state := state,
           ob_board_task_id := str_or task (ob_board_task_id r),
           ob_attempts := ob_attempts r + 1,
           ob_next_attempt_at :=
             (if applied then 0 else case next of None \<Rightarrow> ob_next_attempt_at r | Some x \<Rightarrow> x),
           ob_last_error :=
             (if applied then '''' else case err of None \<Rightarrow> ob_last_error r | Some e \<Rightarrow> e),
           ob_updated_at := now\<rparr>)"

text \<open>\<open>dict(row)\<close> of a missing row raises: \<open>None\<close>.\<close>

definition outbox_mark ::
    "nat \<Rightarrow> string \<Rightarrow> string \<Rightarrow> real option \<Rightarrow> string option \<Rightarrow> real \<Rightarrow> store \<Rightarrow>
       outbox_row option \<times> store" where
  "outbox_mark oid state task next err now st =
     (let t = update_where (\<lambda>r. ob_id r = oid) (mark_outbox_row state task next err now) (outbox st)
      in (select_one (\<lambda>r. ob_id r = oid) t, st\<lparr>outbox := t\<rparr>))"

text \<open>SQL \<open>LIKE\<close>: \<open>%\<close> any run, \<open>_\<close> any character, ASCII letters without case.\<close>

definition ascii_lower :: "char \<Rightarrow> char" where
  "ascii_lower c =
     (let n = of_char c :: nat in if 65 \<le> n \<and> n \<le> 90 then char_of (n + 32) else c)"

function (sequential) like_match :: "string \<Rightarrow> string \<Rightarrow> bool" where
  "like_match [] s = (s = [])"
| "like_match (p # ps) s =
     (if p = CHR ''%''
      then like_match ps s \<or> (case s of [] \<Rightarrow> False | c # cs \<Rightarrow> like_match (p # ps) cs)
      else (case s of [] \<Rightarrow> False
            | c # cs \<Rightarrow> (p = CHR ''_'' \<or> ascii_lower p = ascii_lower c) \<and> like_match ps cs))"
  by pat_completeness auto
termination
  by (relation "measure (\<lambda>(p, s). length p + length s)") auto

definition outbox_reinterpret_pending ::
    "nat \<Rightarrow> string \<Rightarrow> string \<Rightarrow> string \<Rightarrow> string \<Rightarrow> real \<Rightarrow> store \<Rightarrow> outbox_row option \<times> store" where
  "outbox_reinterpret_pending iid from_op key_prefix to_op new_key now st =
     (case select_one (\<lambda>r. ob_idempotency_key r = new_key) (outbox st) of
        Some r \<Rightarrow> (Some r, st)
      | None \<Rightarrow>
          (case rev (select_where (\<lambda>r. ob_continuation_id r = iid \<and> ob_operation r = from_op \<and>
                      like_match (key_prefix @ ''%'') (ob_idempotency_key r) \<and>
                      ob_state r \<noteq> ''applied'') (outbox st)) of
             [] \<Rightarrow> (None, st)
           | row # _ \<Rightarrow>
               (let t = update_where (\<lambda>r. ob_id r = ob_id row)
                          (\<lambda>r. r\<lparr>ob_operation := to_op, ob_idempotency_key := new_key,
                                 ob_updated_at := now\<rparr>) (outbox st)
                in (select_one (\<lambda>r. ob_id r = ob_id row) t, st\<lparr>outbox := t\<rparr>))))"

definition outbox_pending_retry_at :: "nat \<Rightarrow> real \<Rightarrow> store \<Rightarrow> real option" where
  "outbox_pending_retry_at iid due st =
     (case map ob_next_attempt_at
             (select_where (\<lambda>r. ob_continuation_id r = iid \<and> ob_state r = ''pending'') (outbox st)) of
        [] \<Rightarrow> None
      | x # xs \<Rightarrow> (let earliest = fold min xs x in if earliest \<le> due then None else Some earliest))"

definition list_outbox :: "string \<Rightarrow> store \<Rightarrow> outbox_row list" where
  "list_outbox state st =
     (if state = [] then rows (outbox st) else select_where (\<lambda>r. ob_state r = state) (outbox st))"

definition list_due_outbox :: "string \<Rightarrow> real \<Rightarrow> store \<Rightarrow> outbox_row list" where
  "list_due_outbox state due_at st =
     select_where (\<lambda>r. ob_state r = state \<and> ob_next_attempt_at r \<le> due_at) (outbox st)"

subsection \<open>Requirement satisfactions\<close>

definition mk_satisfaction ::
    "(nat \<times> string \<times> json \<times> string \<times> string \<times> string \<times> real) \<Rightarrow> nat \<Rightarrow> satisfaction_row" where
  "mk_satisfaction = (\<lambda>(iid, field, v, kind, src, pol, now) i.
     \<lparr>rs_id = i, rs_continuation_id = iid, rs_field_name = field, rs_value = v,
      rs_source_kind = kind, rs_source_ref = src, rs_policy_id = pol, rs_created_at = now\<rparr>)"

definition satisfaction_key :: "satisfaction_row \<Rightarrow> nat \<times> string" where
  "satisfaction_key r = (rs_continuation_id r, rs_field_name r)"

definition record_requirement_satisfaction ::
    "nat \<Rightarrow> string \<Rightarrow> json \<Rightarrow> string \<Rightarrow> string \<Rightarrow> string \<Rightarrow> real \<Rightarrow> store \<Rightarrow>
       satisfaction_row option \<times> store" where
  "record_requirement_satisfaction iid field v kind src pol now st =
     (let t = upsert (\<lambda>r. satisfaction_key r = (iid, field))
                (\<lambda>r. r\<lparr>rs_value := v, rs_source_kind := kind, rs_source_ref := src,
                       rs_policy_id := pol, rs_created_at := now\<rparr>)
                (mk_satisfaction (iid, field, v, kind, src, pol, now)) (satisfactions st)
      in (select_one (\<lambda>r. satisfaction_key r = (iid, field)) t, st\<lparr>satisfactions := t\<rparr>))"

definition list_requirement_satisfactions :: "nat \<Rightarrow> store \<Rightarrow> satisfaction_row list" where
  "list_requirement_satisfactions iid st =
     select_where (\<lambda>r. rs_continuation_id r = iid) (satisfactions st)"

subsection \<open>Standing policies\<close>

definition mk_policy ::
    "(string \<times> nat \<times> string \<times> string \<times> string \<times> json dict \<times> json \<times> bool \<times> string \<times> real) \<Rightarrow>
       nat \<Rightarrow> policy_row" where
  "mk_policy = (\<lambda>(pid, version, owner, project, action, conds, decision, en, src, now) i.
     \<lparr>sp_id = i, sp_policy_id = pid, sp_version = version, sp_owner_ref = owner,
      sp_project_scope = project, sp_action_scope = action, sp_conditions = conds,
      sp_decision = decision, sp_enabled = en, sp_source_message_ref = src, sp_created_at = now\<rparr>)"

definition create_standing_policy ::
    "string \<Rightarrow> string \<Rightarrow> string \<Rightarrow> string \<Rightarrow> json dict \<Rightarrow> json \<Rightarrow> string \<Rightarrow> bool \<Rightarrow> real \<Rightarrow> store \<Rightarrow>
       policy_row \<times> store" where
  "create_standing_policy pid owner project action conds decision src en now st =
     (let version = max_column sp_version (\<lambda>p. sp_policy_id p = pid) (policies st) + 1;
          (p, t) = insert_row (mk_policy (pid, version, owner, project, action, conds, decision, en,
                     src, now)) (policies st)
      in (p, st\<lparr>policies := t\<rparr>))"

definition list_standing_policies :: "bool \<Rightarrow> store \<Rightarrow> policy_row list" where
  "list_standing_policies enabled_only st =
     (if enabled_only then select_where sp_enabled (policies st) else rows (policies st))"

definition latest_standing_policy :: "string \<Rightarrow> store \<Rightarrow> policy_row option" where
  "latest_standing_policy pid st =
     (case sort_key (\<lambda>p. - int (sp_version p)) (select_where (\<lambda>p. sp_policy_id p = pid) (policies st)) of
        [] \<Rightarrow> None | p # _ \<Rightarrow> Some p)"

subsection \<open>Interaction inbox\<close>

text \<open>The case id is the primary key: a taken id raises \<open>IntegrityError\<close>, \<open>None\<close> here.\<close>

definition create_interaction_case ::
    "string \<Rightarrow> string \<Rightarrow> string \<Rightarrow> string \<Rightarrow> nat \<Rightarrow> real \<Rightarrow> store \<Rightarrow> case_row option \<times> store" where
  "create_interaction_case cid endpoint bkey state qcount now st =
     (if \<exists>c \<in> set (cases st). ic_id c = cid then (None, st)
      else let c = \<lparr>ic_id = cid, ic_endpoint = endpoint, ic_batch_key = bkey, ic_state = state,
                    ic_question_count = qcount, ic_created_at = now, ic_asked_at = None,
                    ic_answered_at = None, ic_applied_at = None\<rparr>
           in (Some c, st\<lparr>cases := cases st @ [c]\<rparr>))"

definition get_interaction_case :: "string \<Rightarrow> store \<Rightarrow> case_row option" where
  "get_interaction_case cid st = find (\<lambda>c. ic_id c = cid) (cases st)"

definition list_interaction_cases :: "string \<Rightarrow> string \<Rightarrow> store \<Rightarrow> case_row list" where
  "list_interaction_cases state endpoint st =
     sort_key ic_created_at
       (filter (\<lambda>c. (state = [] \<or> ic_state c = state) \<and> (endpoint = [] \<or> ic_endpoint c = endpoint))
         (cases st))"

definition coalesce :: "'a option \<Rightarrow> 'a \<Rightarrow> 'a" where
  "coalesce new old = (case new of None \<Rightarrow> old | Some x \<Rightarrow> x)"

definition update_interaction_case ::
    "string \<Rightarrow> string option \<Rightarrow> nat option \<Rightarrow> real option \<Rightarrow> real option \<Rightarrow> real option \<Rightarrow> store \<Rightarrow>
       case_row option \<times> store" where
  "update_interaction_case cid state qcount asked answered applied st =
     (let cs = map (\<lambda>c. if ic_id c = cid
                 then c\<lparr>ic_state := coalesce state (ic_state c),
                        ic_question_count := coalesce qcount (ic_question_count c),
                        ic_asked_at := (case asked of None \<Rightarrow> ic_asked_at c | Some t \<Rightarrow> Some t),
                        ic_answered_at := (case answered of None \<Rightarrow> ic_answered_at c | Some t \<Rightarrow> Some t),
                        ic_applied_at := (case applied of None \<Rightarrow> ic_applied_at c | Some t \<Rightarrow> Some t)\<rparr>
                 else c) (cases st)
      in (find (\<lambda>c. ic_id c = cid) cs, st\<lparr>cases := cs\<rparr>))"

definition mk_member :: "(string \<times> nat \<times> json list \<times> real) \<Rightarrow> nat \<Rightarrow> member_row" where
  "mk_member = (\<lambda>(cid, iid, reqs, now) i.
     \<lparr>im_id = i, im_case_id = cid, im_continuation_id = iid, im_requirements = reqs,
      im_created_at = now\<rparr>)"

definition member_key :: "member_row \<Rightarrow> string \<times> nat" where
  "member_key m = (im_case_id m, im_continuation_id m)"

definition add_interaction_member ::
    "string \<Rightarrow> nat \<Rightarrow> json list \<Rightarrow> real \<Rightarrow> store \<Rightarrow> member_row option \<times> store" where
  "add_interaction_member cid iid reqs now st =
     (let t = upsert (\<lambda>m. member_key m = (cid, iid)) (\<lambda>m. m\<lparr>im_requirements := reqs\<rparr>)
                (mk_member (cid, iid, reqs, now)) (members st)
      in (select_one (\<lambda>m. member_key m = (cid, iid)) t, st\<lparr>members := t\<rparr>))"

definition list_interaction_members :: "string \<Rightarrow> store \<Rightarrow> member_row list" where
  "list_interaction_members cid st = select_where (\<lambda>m. im_case_id m = cid) (members st)"

definition mk_reply :: "(string \<times> string \<times> string \<times> json \<times> real) \<Rightarrow> nat \<Rightarrow> reply_row" where
  "mk_reply = (\<lambda>(cid, msg, sha, res, now) i.
     \<lparr>ir_id = i, ir_case_id = cid, ir_message_ref = msg, ir_content_sha256 = sha,
      ir_compile_result = res, ir_created_at = now\<rparr>)"

definition record_inbound_reply_receipt ::
    "string \<Rightarrow> string \<Rightarrow> string \<Rightarrow> json \<Rightarrow> real \<Rightarrow> store \<Rightarrow> reply_row \<times> store" where
  "record_inbound_reply_receipt cid msg sha res now st =
     (let (r, t) = insert_row (mk_reply (cid, msg, sha, res, now)) (replies st)
      in (r, st\<lparr>replies := t\<rparr>))"

definition list_inbound_reply_receipts :: "string \<Rightarrow> store \<Rightarrow> reply_row list" where
  "list_inbound_reply_receipts cid st = select_where (\<lambda>r. ir_case_id r = cid) (replies st)"

end
