(* ===== verification/Ledger_Inv.thy ===== *)
theory Ledger_Inv
  imports Ledger_Control
begin

text \<open>
  The invariant of the continuation ledger and its preservation by every store operation.
  \<open>tables_ok\<close>: ids and unique keys of every table, and contiguous sequence numbers of events,
  receipt versions and policy versions. \<open>log_ok\<close>: the event log of an instance is a legal run of
  the state machine from \<open>DETECTED\<close> that ends in the state the instance row holds.
\<close>

subsection \<open>The event log as a run of the state machine\<close>

fun replay :: "cstate \<Rightarrow> ledger_event list \<Rightarrow> cstate option" where
  "replay a [] = Some a"
| "replay a (State_Transition x y _ # es) = (if x = a \<and> legal a y then replay y es else None)"
| "replay a (Owner_Receipt _ _ # es) = replay a es"
| "replay a (Created _ # es) = None"

definition log_state :: "ledger_event list \<Rightarrow> cstate option" where
  "log_state es = (case es of Created DETECTED # es' \<Rightarrow> replay DETECTED es' | _ \<Rightarrow> None)"

definition instance_log :: "nat \<Rightarrow> store \<Rightarrow> ledger_event list" where
  "instance_log iid st = map ce_event (select_where (\<lambda>e. ce_continuation_id e = iid) (events st))"

definition known :: "nat \<Rightarrow> store \<Rightarrow> bool" where
  "known iid st \<longleftrightarrow> get_instance iid st \<noteq> None"

definition event_key :: "event_row \<Rightarrow> nat \<times> nat" where
  "event_key e = (ce_continuation_id e, ce_seq e)"

definition receipt_key :: "receipt_row \<Rightarrow> nat \<times> nat" where
  "receipt_key r = (or_continuation_id r, or_version r)"

definition policy_key :: "policy_row \<Rightarrow> string \<times> nat" where
  "policy_key p = (sp_policy_id p, sp_version p)"

definition cursor_key :: "cursor_row \<Rightarrow> string \<times> string" where
  "cursor_key c = (bc_board c, bc_db_identity c)"

text \<open>Numbers drawn per group: 1, 2, 3 and so on, in the order of the rows.\<close>

definition numbered :: "('r \<Rightarrow> 'g) \<Rightarrow> ('r \<Rightarrow> nat) \<Rightarrow> 'r table \<Rightarrow> bool" where
  "numbered grp num t \<longleftrightarrow>
     (\<forall>g. let rs = select_where (\<lambda>r. grp r = g) t in map num rs = [1..<Suc (length rs)])"

definition tables_ok :: "store \<Rightarrow> bool" where
  "tables_ok st \<longleftrightarrow>
     table_ok ci_id source_tuple (instances st) \<and>
     table_ok cs_id step_key (steps st) \<and>
     table_ok or_id receipt_key (receipts st) \<and> numbered or_continuation_id or_version (receipts st) \<and>
     table_ok ce_id event_key (events st) \<and> numbered ce_continuation_id ce_seq (events st) \<and>
     distinct (map cursor_key (cursors st)) \<and>
     table_ok ob_id ob_idempotency_key (outbox st) \<and>
     table_ok rs_id satisfaction_key (satisfactions st) \<and>
     table_ok sp_id policy_key (policies st) \<and> numbered sp_policy_id sp_version (policies st) \<and>
     distinct (map ic_id (cases st)) \<and>
     table_ok im_id member_key (members st)"

definition log_ok :: "store \<Rightarrow> bool" where
  "log_ok st \<longleftrightarrow>
     (\<forall>r \<in> set (rows (instances st)). log_state (instance_log (ci_id r) st) = Some (ci_state r)) \<and>
     (\<forall>e \<in> set (rows (events st)). known (ce_continuation_id e) st)"

definition ledger_ok :: "store \<Rightarrow> bool" where
  "ledger_ok st \<longleftrightarrow> tables_ok st \<and> log_ok st"

subsection \<open>Numbering\<close>

lemma foldr_max_init: "foldr max (xs :: nat list) m = max (foldr max xs 0) m"
  by (induction xs) (auto simp: max.assoc)

lemma foldr_max_upt: "foldr max [1..<Suc n] 0 = n"
proof (induction n)
  case (Suc n)
  have "foldr max [1..<Suc (Suc n)] 0 = foldr max [1..<Suc n] (Suc n)" by simp
  also have "\<dots> = max n (Suc n)" by (subst foldr_max_init) (simp only: Suc.IH)
  finally show ?case by simp
qed simp

lemma numberedD:
  assumes "numbered grp num t"
  shows "map num (select_where (\<lambda>r. grp r = g) t) =
    [1..<Suc (length (select_where (\<lambda>r. grp r = g) t))]"
  using assms by (simp add: numbered_def Let_def)

lemma numbered_max:
  assumes "numbered grp num t"
  shows "max_column num (\<lambda>r. grp r = g) t = length (select_where (\<lambda>r. grp r = g) t)"
  unfolding max_column_def by (simp only: numberedD [OF assms] foldr_max_upt)

lemma numbered_insert:
  assumes "numbered grp num t" and "grp (mk (Suc (counter t))) = g"
    and "num (mk (Suc (counter t))) = max_column num (\<lambda>r. grp r = g) t + 1"
  shows "numbered grp num (snd (insert_row mk t))"
  unfolding numbered_def Let_def
proof
  fix h
  let ?rs = "select_where (\<lambda>r. grp r = h) t"
  show "map num (select_where (\<lambda>r. grp r = h) (snd (insert_row mk t))) =
      [1..<Suc (length (select_where (\<lambda>r. grp r = h) (snd (insert_row mk t))))]"
  proof (cases "h = g")
    case True
    with assms(2,3) numberedD [OF assms(1), of h] numbered_max [OF assms(1), of h] show ?thesis
      by (simp add: select_where_def)
  next
    case False
    with assms(2) numberedD [OF assms(1), of h] show ?thesis
      by (simp add: select_where_def)
  qed
qed

lemma numbered_fresh:
  assumes "r \<in> set (rows t)"
  shows "num r \<noteq> max_column num (\<lambda>q. grp q = grp r) t + 1"
  using max_column_ge [OF assms, of "\<lambda>q. grp q = grp r" num] by simp

lemma numbered_empty [simp]: "numbered grp num empty_table"
  by (simp add: numbered_def empty_table_def select_where_def)

text \<open>A table whose unique key is a group and a number drawn as \<open>max + 1\<close> within the group.\<close>

locale numbered_table = keyed_table mk rid key dkey
  for mk :: "'d \<Rightarrow> nat \<Rightarrow> 'r" and rid :: "'r \<Rightarrow> nat" and key :: "'r \<Rightarrow> 'g \<times> nat"
    and dkey :: "'d \<Rightarrow> 'g \<times> nat" +
  fixes grp :: "'r \<Rightarrow> 'g" and num :: "'r \<Rightarrow> nat"
  assumes key_split: "key r = (grp r, num r)"
begin

lemma grp_mk: "grp (mk d i) = fst (dkey d)" and num_mk: "num (mk d i) = snd (dkey d)"
  using key_mk [of d i] by (metis fst_conv key_split) (metis key_mk key_split snd_conv)

lemma next_ok:
  assumes "table_ok rid key t" and "numbered grp num t"
    and "dkey d = (g, max_column num (\<lambda>r. grp r = g) t + 1)"
  shows "table_ok rid key (snd (insert_row (mk d) t)) \<and> numbered grp num (snd (insert_row (mk d) t))"
proof
  have "dkey d \<notin> key ` set (rows t)"
    using assms(3) by (auto simp: key_split dest: numbered_fresh [where num = num and grp = grp])
  with assms(1) show "table_ok rid key (snd (insert_row (mk d) t))" by (rule insert_ok)
  show "numbered grp num (snd (insert_row (mk d) t))"
    by (rule numbered_insert [where g = g]) (simp_all add: assms grp_mk num_mk)
qed

end

subsection \<open>The tables of the ledger keep the contract of a keyed table\<close>

interpretation instance_table: keyed_table mk_instance ci_id source_tuple "\<lambda>(a, now). new_source_tuple a"
  by unfold_locales (auto simp: mk_instance_def source_tuple_def new_source_tuple_def)

interpretation step_table: keyed_table mk_step cs_id step_key "\<lambda>(iid, kind, key, rest). (iid, key)"
  by unfold_locales (auto simp: mk_step_def step_key_def)

interpretation receipt_table: numbered_table mk_receipt or_id receipt_key
    "\<lambda>(iid, v, rest). (iid, v)" or_continuation_id or_version
  by unfold_locales (auto simp: mk_receipt_def receipt_key_def)

interpretation event_table: numbered_table mk_event ce_id event_key
    "\<lambda>(iid, seq, rest). (iid, seq)" ce_continuation_id ce_seq
  by unfold_locales (auto simp: mk_event_def event_key_def)

interpretation outbox_table: keyed_table mk_outbox ob_id ob_idempotency_key
    "\<lambda>(iid, step, op, payload, key, now). key"
  by unfold_locales (auto simp: mk_outbox_def)

interpretation satisfaction_table: keyed_table mk_satisfaction rs_id satisfaction_key
    "\<lambda>(iid, field, rest). (iid, field)"
  by unfold_locales (auto simp: mk_satisfaction_def satisfaction_key_def)

interpretation policy_table: numbered_table mk_policy sp_id policy_key
    "\<lambda>(pid, v, rest). (pid, v)" sp_policy_id sp_version
  by unfold_locales (auto simp: mk_policy_def policy_key_def)

interpretation member_table: keyed_table mk_member im_id member_key "\<lambda>(cid, iid, rest). (cid, iid)"
  by unfold_locales (auto simp: mk_member_def member_key_def)

subsection \<open>Every operation keeps the tables\<close>

lemma tables_ok_empty: "tables_ok empty_store"
  by (simp add: tables_ok_def empty_store_def)

lemma tables_ok_record_event: "tables_ok st \<Longrightarrow> tables_ok (record_event iid ev now st)"
  using event_table.next_ok [of "events st"] by (simp add: tables_ok_def record_event_def Let_def)

lemma tables_ok_set_state: "tables_ok st \<Longrightarrow> tables_ok (set_instance_state iid new now st)"
  by (auto simp: tables_ok_def set_instance_state_def source_tuple_def intro!: table_ok_update)

lemma tables_ok_create_instance: "tables_ok st \<Longrightarrow> tables_ok (snd (create_instance a now ev_now st))"
  by (auto simp: create_instance_def Let_def case_prod_beta select_one_None_iff
      split: option.split intro!: tables_ok_record_event)
     (auto simp: tables_ok_def intro!: instance_table.insert_ok)

lemma tables_ok_transition: "tables_ok st \<Longrightarrow> tables_ok (snd (transition iid new reason now ev_now st))"
  by (auto simp: transition_def split: option.split intro: tables_ok_record_event tables_ok_set_state)

lemma tables_ok_add_step: "tables_ok st \<Longrightarrow> tables_ok (snd (add_step iid kind key parent now st))"
  by (auto simp: add_step_def Let_def case_prod_beta select_one_None_iff tables_ok_def
      split: option.split intro!: step_table.insert_ok)

lemma tables_ok_mark_step: "tables_ok st \<Longrightarrow> tables_ok (snd (mark_step sid state task now st))"
  by (auto simp: mark_step_def Let_def tables_ok_def step_key_def intro!: table_ok_update)

lemma tables_ok_add_owner_receipt:
  "tables_ok st \<Longrightarrow> tables_ok (snd (add_owner_receipt iid owner vals src par now ev_now st))"
  unfolding add_owner_receipt_def Let_def case_prod_beta snd_conv
  by (rule tables_ok_record_event)
     (use receipt_table.next_ok [of "receipts st"] in \<open>simp add: tables_ok_def\<close>)

lemma map_keep_key:
  assumes "\<And>r. k (f r) = k r"
  shows "map (\<lambda>r. k (if P r then f r else r)) xs = map k xs"
  using assms by (induction xs) auto

lemma cursor_keys_upsert:
  "map cursor_key (upsert_cursor b db v now cs) =
     (if (b, db) \<in> set (map cursor_key cs) then map cursor_key cs else map cursor_key cs @ [(b, db)])"
proof -
  have "(\<exists>c \<in> set cs. bc_board c = b \<and> bc_db_identity c = db) \<longleftrightarrow> (b, db) \<in> set (map cursor_key cs)"
    by (auto simp: cursor_key_def image_iff)
  then show ?thesis
    by (auto simp: upsert_cursor_def comp_def map_keep_key [where k = cursor_key] cursor_key_def)
qed

lemma tables_ok_advance_cursor: "tables_ok st \<Longrightarrow> tables_ok (snd (advance_cursor b db v now st))"
  by (simp add: advance_cursor_def Let_def tables_ok_def cursor_keys_upsert del: set_map)

lemma tables_ok_outbox_enqueue:
  "tables_ok st \<Longrightarrow> tables_ok (snd (outbox_enqueue iid step op payload key now st))"
  by (auto simp: outbox_enqueue_def Let_def case_prod_beta select_one_None_iff tables_ok_def
      split: option.split intro!: outbox_table.insert_ok)

lemma tables_ok_outbox_mark:
  "tables_ok st \<Longrightarrow> tables_ok (snd (outbox_mark oid state task next err now st))"
  by (auto simp: outbox_mark_def Let_def tables_ok_def mark_outbox_row_def intro!: table_ok_update)

lemma tables_ok_satisfaction:
  "tables_ok st \<Longrightarrow> tables_ok (snd (record_requirement_satisfaction iid field v kind src pol now st))"
  by (auto simp: record_requirement_satisfaction_def Let_def tables_ok_def satisfaction_key_def
      intro!: satisfaction_table.upsert_ok)

lemma tables_ok_policy:
  "tables_ok st \<Longrightarrow>
   tables_ok (snd (create_standing_policy pid owner project action conds decision src en now st))"
  using policy_table.next_ok [of "policies st"]
  by (simp add: create_standing_policy_def Let_def case_prod_beta tables_ok_def)

lemma tables_ok_create_case:
  "tables_ok st \<Longrightarrow> tables_ok (snd (create_interaction_case cid ep bk state q now st))"
  by (auto simp: create_interaction_case_def Let_def tables_ok_def)

lemma tables_ok_update_case:
  "tables_ok st \<Longrightarrow> tables_ok (snd (update_interaction_case cid state q t1 t2 t3 st))"
  by (simp add: update_interaction_case_def Let_def tables_ok_def comp_def map_keep_key [where k = ic_id])

lemma tables_ok_member: "tables_ok st \<Longrightarrow> tables_ok (snd (add_interaction_member cid iid reqs now st))"
  by (auto simp: add_interaction_member_def Let_def tables_ok_def member_key_def
      intro!: member_table.upsert_ok)

lemma tables_ok_reply: "tables_ok st \<Longrightarrow> tables_ok (snd (record_inbound_reply_receipt cid msg sha r now st))"
  by (auto simp: record_inbound_reply_receipt_def Let_def case_prod_beta tables_ok_def)

subsection \<open>Every operation keeps the event log\<close>

lemma record_event_frame [simp]:
  "instances (record_event iid ev now st) = instances st"
  "steps (record_event iid ev now st) = steps st"
  "receipts (record_event iid ev now st) = receipts st"
  "cursors (record_event iid ev now st) = cursors st"
  "outbox (record_event iid ev now st) = outbox st"
  "satisfactions (record_event iid ev now st) = satisfactions st"
  "policies (record_event iid ev now st) = policies st"
  "cases (record_event iid ev now st) = cases st"
  "members (record_event iid ev now st) = members st"
  "replies (record_event iid ev now st) = replies st"
  "waits (record_event iid ev now st) = waits st"
  by (simp_all add: record_event_def Let_def)

lemma replay_append: "replay a (xs @ ys) = Option.bind (replay a xs) (\<lambda>b. replay b ys)"
  by (induction a xs rule: replay.induct) auto

lemma log_state_snoc:
  assumes "log_state es = Some a"
  shows "log_state (es @ [e]) = replay a [e]"
proof -
  from assms obtain es' where es: "es = Created DETECTED # es'" and "replay DETECTED es' = Some a"
    unfolding log_state_def by (cases es) (auto split: ledger_event.split_asm cstate.split_asm)
  then show ?thesis by (simp add: log_state_def replay_append)
qed

lemma instance_log_record:
  "instance_log i (record_event iid ev now st) = instance_log i st @ (if i = iid then [ev] else [])"
  by (auto simp: instance_log_def record_event_def Let_def select_where_def mk_event_def)

lemma instance_log_cong: "events st' = events st \<Longrightarrow> instance_log i st' = instance_log i st"
  by (simp add: instance_log_def)

lemma known_cong: "instances st' = instances st \<Longrightarrow> known i st' = known i st"
  by (simp add: known_def get_instance_def)

lemma get_instance_record [simp]: "get_instance i (record_event iid ev now st) = get_instance i st"
  by (simp add: get_instance_def record_event_def Let_def)

lemma known_record [simp]: "known i (record_event iid ev now st) = known i st"
  by (simp add: known_def)

lemma get_instance_set_state:
  "get_instance i (set_instance_state iid new now st) =
     map_option (\<lambda>r. if ci_id r = iid then r\<lparr>ci_state := new, ci_updated_at := now\<rparr> else r) (get_instance i st)"
  by (simp add: get_instance_def set_instance_state_def select_one_def find_map_if)

lemma known_set_state [simp]: "known i (set_instance_state iid new now st) = known i st"
  by (simp add: known_def get_instance_set_state)

lemma instance_log_set_state [simp]: "instance_log i (set_instance_state iid new now st) = instance_log i st"
  by (rule instance_log_cong) (simp add: set_instance_state_def)

lemma get_instance_SomeD: "get_instance i st = Some r \<Longrightarrow> r \<in> set (rows (instances st)) \<and> ci_id r = i"
  unfolding get_instance_def by (drule select_one_SomeD)

lemma known_iff: "known i st \<longleftrightarrow> (\<exists>r \<in> set (rows (instances st)). ci_id r = i)"
  using select_one_None_iff [of "\<lambda>r. ci_id r = i" "instances st"] by (auto simp: known_def get_instance_def)

lemma ledger_ok_get:
  assumes "ledger_ok st" "get_instance i st = Some r"
  shows "log_state (instance_log i st) = Some (ci_state r)"
  using assms get_instance_SomeD [of i st r] by (auto simp: ledger_ok_def log_ok_def)

lemma ledger_ok_get_id:
  assumes "ledger_ok st" "r \<in> set (rows (instances st))"
  shows "get_instance (ci_id r) st = Some r"
  using assms select_one_by_id [where rid = ci_id]
  by (auto simp: ledger_ok_def tables_ok_def get_instance_def)

lemma ledger_ok_empty: "ledger_ok empty_store"
  by (simp add: ledger_ok_def tables_ok_empty log_ok_def) (simp add: empty_store_def empty_table_def)

lemma ledger_ok_frame:
  assumes "ledger_ok st" "tables_ok st'" "instances st' = instances st" "events st' = events st"
  shows "ledger_ok st'"
  using assms by (simp add: ledger_ok_def log_ok_def instance_log_cong [of st' st] known_cong [of st' st])

lemma ledger_ok_create_instance:
  assumes "ledger_ok st"
  shows "ledger_ok (snd (create_instance a now ev_now st))"
proof (cases "select_one (\<lambda>r. source_tuple r = new_source_tuple a) (instances st)")
  case (Some r)
  then show ?thesis using assms by (simp add: create_instance_def)
next
  case None
  let ?i = "Suc (counter (instances st))"
  have tab: "table_ok ci_id source_tuple (instances st)"
    using assms by (simp add: ledger_ok_def tables_ok_def)
  have fresh: "ci_id r \<noteq> ?i" if "r \<in> set (rows (instances st))" for r
    using that tab by (auto simp: table_ok_def)
  have "\<not> known ?i st" using fresh by (auto simp: known_iff)
  then have nolog: "instance_log ?i st = []"
    using assms by (auto simp: ledger_ok_def log_ok_def instance_log_def select_where_def filter_empty_conv)
  define st' where "st' = st\<lparr>instances := snd (insert_row (mk_instance (a, now)) (instances st))\<rparr>"
  have new: "snd (create_instance a now ev_now st) = record_event ?i (Created DETECTED) ev_now st'"
    using None by (simp add: create_instance_def Let_def case_prod_beta st'_def mk_instance_def)
  have "log_ok (record_event ?i (Created DETECTED) ev_now st')"
    unfolding log_ok_def
  proof (intro conjI ballI)
    fix r assume "r \<in> set (rows (instances (record_event ?i (Created DETECTED) ev_now st')))"
    then have "r \<in> set (rows (instances st)) \<or> r = mk_instance (a, now) ?i"
      by (auto simp: record_event_def Let_def st'_def)
    then show "log_state (instance_log (ci_id r) (record_event ?i (Created DETECTED) ev_now st')) = Some (ci_state r)"
    proof
      assume r: "r \<in> set (rows (instances st))"
      then have "ci_id r \<noteq> ?i" by (rule fresh)
      then show ?thesis using r assms instance_log_cong [of st' st]
        by (simp add: instance_log_record ledger_ok_def log_ok_def st'_def)
    next
      assume "r = mk_instance (a, now) ?i"
      then show ?thesis using nolog instance_log_cong [of st' st]
        by (simp add: instance_log_record mk_instance_def log_state_def st'_def)
    qed
  next
    fix e assume "e \<in> set (rows (events (record_event ?i (Created DETECTED) ev_now st')))"
    then have "e \<in> set (rows (events st)) \<or> ce_continuation_id e = ?i"
      by (auto simp: record_event_def Let_def st'_def mk_event_def)
    then show "known (ce_continuation_id e) (record_event ?i (Created DETECTED) ev_now st')"
      using assms by (auto simp: ledger_ok_def log_ok_def known_iff st'_def mk_instance_def)
  qed
  then show ?thesis
    using new tables_ok_create_instance [of st a now ev_now] assms by (simp add: ledger_ok_def)
qed

lemma transition_AppliedD:
  assumes "transition iid new reason now ev_now st = (Transition_Applied x, st')"
  shows "\<exists>r. get_instance iid st = Some r \<and> legal (ci_state r) new \<and> x = new \<and>
    st' = record_event iid (State_Transition (ci_state r) new reason) ev_now (set_instance_state iid new now st)"
  using assms by (auto simp: transition_def split: option.splits if_splits)

lemma transition_refused_same:
  "transition iid new reason now ev_now st = (Transition_Refused e, st') \<Longrightarrow> st' = st"
  by (auto simp: transition_def split: option.splits if_splits)

lemma ledger_ok_transition:
  assumes ok: "ledger_ok st"
  shows "ledger_ok (snd (transition iid new reason now ev_now st))"
proof (cases "transition iid new reason now ev_now st")
  case (Pair res st')
  show ?thesis
  proof (cases res)
    case (Transition_Refused e)
    with Pair ok show ?thesis by (auto dest: transition_refused_same)
  next
    case (Transition_Applied x)
    with Pair obtain r where r: "get_instance iid st = Some r" "legal (ci_state r) new"
      and st': "st' = record_event iid (State_Transition (ci_state r) new reason) ev_now
                  (set_instance_state iid new now st)"
      by (auto dest: transition_AppliedD)
    have log: "log_state (instance_log iid st) = Some (ci_state r)" by (rule ledger_ok_get [OF ok r(1)])
    have "log_ok st'"
      unfolding log_ok_def
    proof (intro conjI ballI)
      fix q assume "q \<in> set (rows (instances st'))"
      then obtain q0 where q0: "q0 \<in> set (rows (instances st))"
        and q: "q = (if ci_id q0 = iid then q0\<lparr>ci_state := new, ci_updated_at := now\<rparr> else q0)"
        by (auto simp: st' record_event_def Let_def set_instance_state_def)
      show "log_state (instance_log (ci_id q) st') = Some (ci_state q)"
      proof (cases "ci_id q0 = iid")
        case True
        with q r(2) log show ?thesis by (simp add: st' instance_log_record log_state_snoc)
      next
        case False
        with q q0 ok show ?thesis by (simp add: st' instance_log_record ledger_ok_def log_ok_def)
      qed
    next
      fix e assume "e \<in> set (rows (events st'))"
      then have "e \<in> set (rows (events st)) \<or> ce_continuation_id e = iid"
        by (auto simp: st' record_event_def Let_def mk_event_def set_instance_state_def)
      then show "known (ce_continuation_id e) st'"
        using ok r(1) by (auto simp: st' ledger_ok_def log_ok_def) (simp add: known_def)
    qed
    moreover have "tables_ok st'"
      using tables_ok_transition [of st iid new reason now ev_now] ok Pair by (simp add: ledger_ok_def)
    ultimately show ?thesis using Pair by (simp add: ledger_ok_def)
  qed
qed

lemma ledger_ok_add_owner_receipt:
  assumes ok: "ledger_ok st" and "known iid st"
  shows "ledger_ok (snd (add_owner_receipt iid owner vals src par now ev_now st))"
proof -
  define st0 where "st0 = st\<lparr>receipts := snd (insert_row (mk_receipt (iid,
    max_column or_version (\<lambda>r. or_continuation_id r = iid) (receipts st) + 1, owner, vals, src, par, now))
    (receipts st))\<rparr>"
  define v where "v = max_column or_version (\<lambda>r. or_continuation_id r = iid) (receipts st) + 1"
  have st': "snd (add_owner_receipt iid owner vals src par now ev_now st) =
      record_event iid (Owner_Receipt v owner) ev_now st0"
    by (simp add: add_owner_receipt_def Let_def case_prod_beta st0_def v_def)
  have same: "instances st0 = instances st" "events st0 = events st" by (simp_all add: st0_def)
  have "log_ok (record_event iid (Owner_Receipt v owner) ev_now st0)"
    unfolding log_ok_def
  proof (intro conjI ballI)
    fix r assume "r \<in> set (rows (instances (record_event iid (Owner_Receipt v owner) ev_now st0)))"
    then have "log_state (instance_log (ci_id r) st) = Some (ci_state r)"
      using ok by (simp add: record_event_def Let_def same ledger_ok_def log_ok_def)
    then show "log_state (instance_log (ci_id r) (record_event iid (Owner_Receipt v owner) ev_now st0)) = Some (ci_state r)"
      by (auto simp: instance_log_record instance_log_cong [OF same(2)] log_state_snoc)
  next
    fix e assume "e \<in> set (rows (events (record_event iid (Owner_Receipt v owner) ev_now st0)))"
    then have "e \<in> set (rows (events st)) \<or> ce_continuation_id e = iid"
      by (auto simp: record_event_def Let_def mk_event_def same)
    then show "known (ce_continuation_id e) (record_event iid (Owner_Receipt v owner) ev_now st0)"
      using ok assms(2) by (auto simp: known_cong [OF same(1)] ledger_ok_def log_ok_def)
  qed
  with st' tables_ok_add_owner_receipt ok show ?thesis by (metis ledger_ok_def)
qed

end
