(* ===== verification/Board.thy ===== *)
theory Board
  imports Ledger_Inv
begin

text \<open>
  The running system: the ledger, the board behind the adapter and the clock. Store operations
  are lifted into the state monad with the clock readings the code makes.

  The adapter is the interface \<open>BoardAdapterLike\<close> of \<open>continuations/base.py\<close>: a record of
  functions over an arbitrary board \<open>'w\<close>; the optional methods the code looks up with
  \<open>getattr(adapter, name, None)\<close> are options. \<open>FakeBoardAdapter\<close> of \<open>board_adapter.py\<close> is one
  concrete adapter.
\<close>

record 'w sys =
  db :: store
  world :: 'w
  clk :: "nat \<Rightarrow> real"
  readings :: nat

subsection \<open>Store operations and clock readings\<close>

definition time_now :: "('w sys, real) state" where
  "time_now = State (\<lambda>s. (clk s (readings s), s\<lparr>readings := Suc (readings s)\<rparr>))"

definition query :: "(store \<Rightarrow> 'a) \<Rightarrow> ('w sys, 'a) state" where
  "query f = gets (\<lambda>s. f (db s))"

definition op0 :: "(store \<Rightarrow> 'a \<times> store) \<Rightarrow> ('w sys, 'a) state" where
  "op0 f = State (\<lambda>s. case f (db s) of (r, st) \<Rightarrow> (r, s\<lparr>db := st\<rparr>))"

definition op1 :: "(real \<Rightarrow> store \<Rightarrow> 'a \<times> store) \<Rightarrow> ('w sys, 'a) state" where
  "op1 f = do { now \<leftarrow> time_now; op0 (f now) }"

definition op2 :: "(real \<Rightarrow> real \<Rightarrow> store \<Rightarrow> 'a \<times> store) \<Rightarrow> ('w sys, 'a) state" where
  "op2 f = do { now \<leftarrow> time_now; ev_now \<leftarrow> time_now; op0 (f now ev_now) }"

definition board_call :: "('w \<Rightarrow> 'r \<times> 'w) \<Rightarrow> ('w sys, 'r) state" where
  "board_call f = State (\<lambda>s. case f (world s) of (r, w) \<Rightarrow> (r, s\<lparr>world := w\<rparr>))"

lemma run_time_now [simp]:
  "run_state time_now s = (clk s (readings s), s\<lparr>readings := Suc (readings s)\<rparr>)"
  by (simp add: time_now_def)

lemma run_query [simp]: "run_state (query f) s = (f (db s), s)"
  by (simp add: query_def)

lemma run_op0 [simp]: "run_state (op0 f) s = (fst (f (db s)), s\<lparr>db := snd (f (db s))\<rparr>)"
  by (simp add: op0_def case_prod_beta)

lemma run_op1 [simp]:
  "run_state (op1 f) s =
     (fst (f (clk s (readings s)) (db s)),
      s\<lparr>readings := Suc (readings s), db := snd (f (clk s (readings s)) (db s))\<rparr>)"
  by (simp add: op1_def)

lemma run_op2 [simp]:
  "run_state (op2 f) s =
     (fst (f (clk s (readings s)) (clk s (Suc (readings s))) (db s)),
      s\<lparr>readings := Suc (Suc (readings s)),
        db := snd (f (clk s (readings s)) (clk s (Suc (readings s))) (db s))\<rparr>)"
  by (simp add: op2_def)

lemma run_board_call [simp]:
  "run_state (board_call f) s = (fst (f (world s)), s\<lparr>world := snd (f (world s))\<rparr>)"
  by (simp add: board_call_def case_prod_beta)

subsection \<open>The adapter interface\<close>

text \<open>
  What the code reads of an adapter's result dictionary: \<open>success\<close>, \<open>task_id\<close>, \<open>error\<close> and the
  nested \<open>ack\<close>, which may be absent, not a dictionary, or a dictionary with its own \<open>success\<close>
  and \<open>error\<close>.
\<close>

datatype nested_ack = No_Ack | Malformed_Ack | Ack bool "string option"

record board_result =
  br_success :: bool
  br_task_id :: "string option"
  br_error :: "string option"
  br_ack :: nested_ack

definition br_ok :: "string option \<Rightarrow> board_result" where
  "br_ok task = \<lparr>br_success = True, br_task_id = task, br_error = None, br_ack = No_Ack\<rparr>"

definition br_fail :: "string \<Rightarrow> board_result" where
  "br_fail e = \<lparr>br_success = False, br_task_id = None, br_error = Some e, br_ack = No_Ack\<rparr>"

definition opt_str :: "string option \<Rightarrow> string" where
  "opt_str x = (case x of None \<Rightarrow> '''' | Some s \<Rightarrow> s)"

record 'w adapter =
  a_create_task :: "json dict \<Rightarrow> 'w \<Rightarrow> board_result \<times> 'w"
  a_subscribe :: "string \<Rightarrow> string \<Rightarrow> 'w \<Rightarrow> board_result \<times> 'w"
  a_complete_owner_anchor :: "string \<Rightarrow> string \<Rightarrow> 'w \<Rightarrow> board_result \<times> 'w"
  a_schedule_origin_wake :: "(string \<Rightarrow> string \<Rightarrow> 'w \<Rightarrow> board_result \<times> 'w) option"
  a_origin_wake_satisfied :: "(string \<Rightarrow> string \<Rightarrow> 'w \<Rightarrow> board_result option \<times> 'w) option"
  a_consumer_ack_satisfied :: "(string \<Rightarrow> string \<Rightarrow> string \<Rightarrow> 'w \<Rightarrow> board_result option \<times> 'w) option"
  a_record_consumer_ack :: "(string \<Rightarrow> string \<Rightarrow> string \<Rightarrow> 'w \<Rightarrow> board_result \<times> 'w) option"

subsection \<open>The in-memory adapter\<close>

text \<open>
  \<open>FakeBoardAdapter\<close>: tasks by idempotency key, and the lists it keeps. \<open>h\<close> stands for
  \<open>hashlib.sha256(_).hexdigest()\<close>.
\<close>

record fake_board =
  fb_tasks :: "(json dict) dict"
  fb_subscriptions :: "(string \<times> string) list"
  fb_scheduled_origin_wakes :: "(string \<times> string) list"
  fb_satisfied_origin_wakes :: "(string \<times> string) list"
  fb_consumer_acks :: "(string \<times> string \<times> string) list"
  fb_blocked :: "(string \<times> string) list"
  fb_comments :: "(string \<times> string) list"
  fb_completed :: "(string \<times> string) list"

definition empty_board :: fake_board where
  "empty_board = \<lparr>fb_tasks = [], fb_subscriptions = [], fb_scheduled_origin_wakes = [],
     fb_satisfied_origin_wakes = [], fb_consumer_acks = [], fb_blocked = [], fb_comments = [],
     fb_completed = []\<rparr>"

definition add_new :: "'a \<Rightarrow> 'a list \<Rightarrow> 'a list" where
  "add_new x xs = (if x \<in> set xs then xs else xs @ [x])"

definition fake_task_id :: "(string \<Rightarrow> string) \<Rightarrow> string \<Rightarrow> string" where
  "fake_task_id h key = ''task:'' @ take 12 (h key)"

definition fake_create_task ::
    "(string \<Rightarrow> string) \<Rightarrow> json dict \<Rightarrow> fake_board \<Rightarrow> board_result \<times> fake_board" where
  "fake_create_task h intent w =
     (let key = get_str intent ''idempotency_key'' in
      case dict_get (fb_tasks w) key of
        Some existing \<Rightarrow> (br_ok (Some (get_str existing ''task_id'')), w)
      | None \<Rightarrow>
          (let task_id = fake_task_id h key;
               task = foldl (\<lambda>d (k, v). dict_set k v d) [(''task_id'', JStr task_id)] intent
           in (br_ok (Some task_id), w\<lparr>fb_tasks := dict_set key task (fb_tasks w)\<rparr>)))"

definition fake_block_task :: "string \<Rightarrow> string \<Rightarrow> fake_board \<Rightarrow> board_result \<times> fake_board" where
  "fake_block_task task reason w = (br_ok None, w\<lparr>fb_blocked := add_new (task, reason) (fb_blocked w)\<rparr>)"

definition fake_subscribe :: "string \<Rightarrow> string \<Rightarrow> fake_board \<Rightarrow> board_result \<times> fake_board" where
  "fake_subscribe task endpoint w =
     (br_ok None, w\<lparr>fb_subscriptions := add_new (task, endpoint) (fb_subscriptions w)\<rparr>)"

definition fake_origin_wake_satisfied ::
    "string \<Rightarrow> string \<Rightarrow> fake_board \<Rightarrow> board_result option \<times> fake_board" where
  "fake_origin_wake_satisfied task endpoint w =
     (if (task, endpoint) \<in> set (fb_satisfied_origin_wakes w) then (Some (br_ok None), w)
      else (Some (br_fail ''origin_wake_not_satisfied''), w))"

definition fake_schedule_origin_wake ::
    "string \<Rightarrow> string \<Rightarrow> fake_board \<Rightarrow> board_result \<times> fake_board" where
  "fake_schedule_origin_wake task endpoint w =
     (br_ok None,
      w\<lparr>fb_scheduled_origin_wakes := add_new (task, endpoint) (fb_scheduled_origin_wakes w),
        fb_satisfied_origin_wakes := add_new (task, endpoint) (fb_satisfied_origin_wakes w)\<rparr>)"

definition fake_consumer_ack_satisfied ::
    "string \<Rightarrow> string \<Rightarrow> string \<Rightarrow> fake_board \<Rightarrow> board_result option \<times> fake_board" where
  "fake_consumer_ack_satisfied task endpoint status w =
     (if (task, endpoint, status) \<in> set (fb_consumer_acks w) then (Some (br_ok None), w)
      else (Some (br_fail ''consumer_ack_missing''), w))"

definition fake_record_consumer_ack ::
    "string \<Rightarrow> string \<Rightarrow> string \<Rightarrow> fake_board \<Rightarrow> board_result \<times> fake_board" where
  "fake_record_consumer_ack task endpoint status w =
     (br_ok None, w\<lparr>fb_consumer_acks := add_new (task, endpoint, status) (fb_consumer_acks w)\<rparr>)"

definition fake_comment :: "string \<Rightarrow> string \<Rightarrow> fake_board \<Rightarrow> board_result \<times> fake_board" where
  "fake_comment task body w = (br_ok None, w\<lparr>fb_comments := add_new (task, body) (fb_comments w)\<rparr>)"

definition fake_complete_owner_anchor ::
    "string \<Rightarrow> string \<Rightarrow> fake_board \<Rightarrow> board_result \<times> fake_board" where
  "fake_complete_owner_anchor task receipt w =
     (br_ok None, w\<lparr>fb_completed := add_new (task, receipt) (fb_completed w)\<rparr>)"

definition fake_adapter :: "(string \<Rightarrow> string) \<Rightarrow> fake_board adapter" where
  "fake_adapter h =
     \<lparr>a_create_task = fake_create_task h, a_subscribe = fake_subscribe,
      a_complete_owner_anchor = fake_complete_owner_anchor,
      a_schedule_origin_wake = Some fake_schedule_origin_wake,
      a_origin_wake_satisfied = Some fake_origin_wake_satisfied,
      a_consumer_ack_satisfied = Some fake_consumer_ack_satisfied,
      a_record_consumer_ack = Some fake_record_consumer_ack\<rparr>"

end
