(* ===== verification/Delivery.thy ===== *)
theory Delivery
  imports Board
begin

text \<open>
  The durable outbox cycle of \<open>continuations/base.py\<close>: every board mutation is enqueued under its
  idempotency key before the adapter is called, and the row records the outcome of each attempt.
  Callback-only operations have a bounded retry cap and end in \<open>callback_deadletter\<close>.
\<close>

definition CALLBACK_ONLY_OPERATIONS :: "string list" where
  "CALLBACK_ONLY_OPERATIONS = [''schedule_origin_wake'', ''record_consumer_ack'']"

definition CALLBACK_RETRY_CAP :: nat where
  "CALLBACK_RETRY_CAP = 5"

definition CALLBACK_UNROUTABLE_ERRORS :: "string list" where
  "CALLBACK_UNROUTABLE_ERRORS =
     [''typed_origin_missing'', ''consumer_ack_missing'', ''unparseable_origin_endpoint'']"

text \<open>
  The result dictionary of an outbox application: \<open>Op_Ok task_id\<close>, or \<open>Op_Failed error state\<close>
  where \<open>state\<close> is its optional \<open>state\<close> entry.
\<close>

datatype op_result =
    Op_Ok (op_task_id: string)
  | Op_Failed (op_error: string) (op_state: "string option")

fun op_success :: "op_result \<Rightarrow> bool" where
  "op_success (Op_Ok _) = True"
| "op_success (Op_Failed _ _) = False"

fun callback_status_for :: "op_result \<Rightarrow> string" where
  "callback_status_for (Op_Ok _) = ''callback_deferred''"
| "callback_status_for (Op_Failed err state) =
     (if opt_str state = ''callback_deadletter'' then ''callback_deadletter''
      else if err \<in> set CALLBACK_UNROUTABLE_ERRORS then ''callback_unroutable''
      else ''callback_deferred'')"

definition pending_outbox_retry_not_due :: "nat \<Rightarrow> ('w sys, bool) state" where
  "pending_outbox_retry_not_due iid =
     do { now \<leftarrow> time_now; query (\<lambda>st. outbox_pending_retry_at iid now st \<noteq> None) }"

text \<open>\<open>min(300.0, max(5.0, 5.0 * (2 ** min(attempts_after - 1, 6))))\<close>.\<close>

definition retry_delay :: "nat \<Rightarrow> real" where
  "retry_delay attempts_after = min 300 (max 5 (5 * 2 ^ min (attempts_after - 1) 6))"

definition mark_outbox_pending :: "outbox_row \<Rightarrow> string \<Rightarrow> ('w sys, string) state" where
  "mark_outbox_pending row err =
     (let attempts_after = ob_attempts row + 1 in
      if ob_operation row \<in> set CALLBACK_ONLY_OPERATIONS \<and> CALLBACK_RETRY_CAP \<le> attempts_after
      then do {
        op1 (outbox_mark (ob_id row) ''callback_deadletter'' [] (Some 0) (Some err));
        ret ''callback_deadletter''
      }
      else do {
        now \<leftarrow> time_now;
        op1 (outbox_mark (ob_id row) ''pending'' [] (Some (now + retry_delay attempts_after)) (Some err));
        ret ''pending''
      })"

definition deadletter_result :: "outbox_row \<Rightarrow> op_result" where
  "deadletter_result row =
     Op_Failed (str_or (ob_last_error row) ''callback_deadletter'') (Some ''callback_deadletter'')"

definition has_failed_nested_ack :: "board_result \<Rightarrow> bool" where
  "has_failed_nested_ack r =
     (case br_ack r of No_Ack \<Rightarrow> False | Malformed_Ack \<Rightarrow> True | Ack ok _ \<Rightarrow> \<not> ok)"

text \<open>\<open>row["state"] == "pending" and next_attempt_at > time.time()\<close>; the clock is read only for a pending row.\<close>

definition row_not_due :: "outbox_row \<Rightarrow> ('w sys, bool) state" where
  "row_not_due row =
     (if ob_state row = ''pending''
      then do { now \<leftarrow> time_now; ret (now < ob_next_attempt_at row) }
      else ret False)"

definition origin_wake_satisfied :: "'w adapter option \<Rightarrow> string \<Rightarrow> string \<Rightarrow> ('w sys, bool) state" where
  "origin_wake_satisfied ad task endpoint =
     (case Option.bind ad a_origin_wake_satisfied of
        None \<Rightarrow> ret False
      | Some check \<Rightarrow> do {
          result \<leftarrow> board_call (check task endpoint);
          ret (case result of None \<Rightarrow> False | Some r \<Rightarrow> br_success r)
        })"

definition apply_schedule_origin_wake ::
    "'w adapter option \<Rightarrow> outbox_row \<Rightarrow> json dict \<Rightarrow> ('w sys, op_result) state" where
  "apply_schedule_origin_wake ad row payload =
     (let task = get_str payload ''task_id''; endpoint = get_str payload ''endpoint'';
          not_accepted = ''origin_wake_not_yet_accepted'' in
      if ob_state row = ''callback_deadletter'' then ret (deadletter_result row)
      else if ob_state row = ''applied'' then do {
        sat \<leftarrow> origin_wake_satisfied ad task endpoint;
        if sat then ret (Op_Ok (ob_board_task_id row))
        else do { mark_outbox_pending row not_accepted; ret (Op_Failed not_accepted None) }
      }
      else do {
        wait \<leftarrow> row_not_due row;
        if wait then ret (Op_Failed ''outbox_retry_not_due'' None)
        else (case ad of
          None \<Rightarrow> ret (Op_Failed ''no_adapter'' None)
        | Some a \<Rightarrow> do {
            sat \<leftarrow> origin_wake_satisfied ad task endpoint;
            if sat then do {
              op1 (outbox_mark (ob_id row) ''applied'' [] None None);
              ret (Op_Ok (ob_board_task_id row))
            }
            else if ob_last_error row = not_accepted then do {
              mark_outbox_pending row not_accepted;
              ret (Op_Failed not_accepted None)
            }
            else (case a_schedule_origin_wake a of
              None \<Rightarrow> ret (Op_Failed ''adapter_missing_schedule_origin_wake'' None)
            | Some schedule \<Rightarrow> do {
                result \<leftarrow> board_call (schedule task endpoint);
                sat2 \<leftarrow> (if br_success result then origin_wake_satisfied ad task endpoint else ret False);
                if sat2 then do {
                  op1 (outbox_mark (ob_id row) ''applied'' [] None None);
                  ret (Op_Ok (ob_board_task_id row))
                }
                else do {
                  let err = take 200 (str_or (opt_str (br_error result)) not_accepted);
                  state \<leftarrow> mark_outbox_pending row err;
                  ret (Op_Failed err (Some state))
                }
              })
          })
      })"

text \<open>\<open>verified and verified.get("success")\<close>.\<close>

definition verified_ok :: "board_result option \<Rightarrow> bool" where
  "verified_ok v = (case v of None \<Rightarrow> False | Some r \<Rightarrow> br_success r)"

definition apply_record_consumer_ack ::
    "'w adapter option \<Rightarrow> outbox_row \<Rightarrow> json dict \<Rightarrow> ('w sys, op_result) state" where
  "apply_record_consumer_ack ad row payload =
     (let task = get_str payload ''task_id''; endpoint = get_str payload ''endpoint'';
          status = get_str payload ''status''; not_verified = ''consumer_ack_not_verified'' in
      if ob_state row = ''callback_deadletter'' then ret (deadletter_result row)
      else (case ad of
        None \<Rightarrow> ret (Op_Failed ''no_adapter'' None)
      | Some a \<Rightarrow>
          if ob_state row = ''applied'' then do {
            verified \<leftarrow> (case a_consumer_ack_satisfied a of
                None \<Rightarrow> ret None | Some check \<Rightarrow> board_call (check task endpoint status));
            if verified_ok verified then ret (Op_Ok (ob_board_task_id row))
            else do {
              state \<leftarrow> mark_outbox_pending row not_verified;
              ret (Op_Failed not_verified (Some state))
            }
          }
          else do {
            wait \<leftarrow> row_not_due row;
            if wait then ret (Op_Failed ''outbox_retry_not_due'' None)
            else (case a_record_consumer_ack a of
              None \<Rightarrow> ret (Op_Failed ''adapter_missing_record_consumer_ack'' None)
            | Some record_ack \<Rightarrow> do {
                result \<leftarrow> board_call (record_ack task endpoint status);
                if br_success result then do {
                  verified \<leftarrow> (case a_consumer_ack_satisfied a of
                      None \<Rightarrow> ret (Some result) | Some check \<Rightarrow> board_call (check task endpoint status));
                  if verified_ok verified then do {
                    op1 (outbox_mark (ob_id row) ''applied'' [] None None);
                    ret (Op_Ok (ob_board_task_id row))
                  }
                  else do {
                    state \<leftarrow> mark_outbox_pending row not_verified;
                    ret (Op_Failed not_verified (Some state))
                  }
                }
                else do {
                  let err = take 200 (str_or (opt_str (br_error result)) ''consumer_ack_failed'');
                  state \<leftarrow> mark_outbox_pending row err;
                  ret (Op_Failed err (Some state))
                }
              })
          }))"

text \<open>The adapter call of a plain operation.\<close>

definition call_adapter :: "'w adapter \<Rightarrow> string \<Rightarrow> json dict \<Rightarrow> ('w sys, board_result) state" where
  "call_adapter a operation payload =
     (if operation = ''create_task'' then board_call (a_create_task a payload)
      else if operation = ''subscribe''
        then board_call (a_subscribe a (get_str payload ''task_id'') (get_str payload ''endpoint''))
      else if operation = ''complete_owner_anchor''
        then board_call (a_complete_owner_anchor a (get_str payload ''task_id'') (get_str payload ''receipt_ref''))
      else ret (br_fail ''unknown_outbox_operation''))"

text \<open>\<open>result.get("error")\<close>, or the error of a failed nested acknowledgement.\<close>

definition delivery_error :: "board_result \<Rightarrow> string" where
  "delivery_error r =
     (let err = opt_str (br_error r);
          err' = (if err = [] \<and> has_failed_nested_ack r
                  then (case br_ack r of
                          Ack _ e \<Rightarrow> (case e of None \<Rightarrow> ''ack_ensure_failed'' | Some x \<Rightarrow> x)
                        | _ \<Rightarrow> ''ack_malformed'')
                  else err)
      in take 200 (str_or err' ''adapter_error''))"

text \<open>One attempt of a plain operation whose row is not applied.\<close>

definition attempt_plain ::
    "'w adapter option \<Rightarrow> outbox_row \<Rightarrow> string \<Rightarrow> json dict \<Rightarrow> ('w sys, op_result) state" where
  "attempt_plain ad row operation payload = do {
     wait \<leftarrow> row_not_due row;
     if wait then ret (Op_Failed ''outbox_retry_not_due'' None)
     else (case ad of
       None \<Rightarrow> ret (Op_Failed ''no_adapter'' None)
     | Some a \<Rightarrow> do {
         result \<leftarrow> call_adapter a operation payload;
         if br_success result \<and> \<not> has_failed_nested_ack result then do {
           let task_id = opt_str (br_task_id result);
           op1 (outbox_mark (ob_id row) ''applied'' task_id None None);
           ret (Op_Ok task_id)
         }
         else do {
           let err = delivery_error result;
           now \<leftarrow> time_now;
           op1 (outbox_mark (ob_id row) ''pending'' []
                 (Some (now + retry_delay (ob_attempts row + 1))) (Some err));
           ret (Op_Failed err None)
         }
       })
   }"

definition apply_board_operation ::
    "'w adapter option \<Rightarrow> nat \<Rightarrow> string \<Rightarrow> string \<Rightarrow> json dict \<Rightarrow> string \<Rightarrow> ('w sys, op_result) state" where
  "apply_board_operation ad iid step_id operation payload key = do {
     enqueued \<leftarrow> op1 (outbox_enqueue iid step_id operation payload key);
     let row = snd enqueued;
     if operation = ''schedule_origin_wake'' then apply_schedule_origin_wake ad row payload
     else if operation = ''record_consumer_ack'' then apply_record_consumer_ack ad row payload
     else if ob_state row = ''applied'' then ret (Op_Ok (ob_board_task_id row))
     else attempt_plain ad row operation payload
   }"

end
