(* ===== verification/Requirements.thy ===== *)
theory Requirements
  imports Prelude
begin

text \<open>
  Requirements and input contracts: the data of \<open>requirements.py\<close> and \<open>input_contract.py\<close>, the
  dynamic contract built from an outcome's requirements, and the validation of an owner's
  submission. A \<open>ValueError\<close> of an enum lookup is \<open>None\<close>. \<open>value in allowed_values\<close> compares with \<open>==\<close>.
\<close>

subsection \<open>Requirements\<close>

datatype requirement_kind = FACT | EVIDENCE | PREFERENCE | AUTHORIZATION | CORRECTION

fun requirement_kind_value :: "requirement_kind \<Rightarrow> string" where
  "requirement_kind_value FACT = ''fact''"
| "requirement_kind_value EVIDENCE = ''evidence''"
| "requirement_kind_value PREFERENCE = ''preference''"
| "requirement_kind_value AUTHORIZATION = ''authorization''"
| "requirement_kind_value CORRECTION = ''correction''"

definition requirement_kind_of :: "string \<Rightarrow> requirement_kind option" where
  "requirement_kind_of s =
     find (\<lambda>k. requirement_kind_value k = s) [FACT, EVIDENCE, PREFERENCE, AUTHORIZATION, CORRECTION]"

datatype satisfaction_source =
  SYSTEM_DERIVED | VERIFIED_ARTIFACT | STANDING_POLICY | CURRENT_OWNER_REPLY | VERIFIER_SOURCE

fun satisfaction_source_value :: "satisfaction_source \<Rightarrow> string" where
  "satisfaction_source_value SYSTEM_DERIVED = ''system_derived''"
| "satisfaction_source_value VERIFIED_ARTIFACT = ''verified_artifact''"
| "satisfaction_source_value STANDING_POLICY = ''standing_policy''"
| "satisfaction_source_value CURRENT_OWNER_REPLY = ''current_owner_reply''"
| "satisfaction_source_value VERIFIER_SOURCE = ''verifier''"

definition POLICY_INELIGIBLE_KINDS :: "requirement_kind list" where
  "POLICY_INELIGIBLE_KINDS = [FACT, EVIDENCE]"

record requirement =
  rq_name :: string
  rq_kind :: requirement_kind
  rq_authority :: string
  rq_question :: string
  rq_answer_hint :: string
  rq_allowed_values :: "json list"
  rq_required :: bool
  rq_description :: string

record satisfied_requirement =
  sr_requirement :: requirement
  sr_value :: json
  sr_source :: satisfaction_source
  sr_source_ref :: string
  sr_policy_id :: string

record contradiction =
  cd_name :: string
  cd_reason :: string
  cd_candidates :: "json list"

record resolution_result =
  rr_satisfied :: "satisfied_requirement list"
  rr_unresolved :: "requirement list"
  rr_contradictions :: "contradiction list"
  rr_evidence_refs :: "string list"
  rr_interaction_needed :: bool

text \<open>\<open>{s.requirement.name: s.value for s in self.satisfied}\<close>.\<close>

definition satisfied_values :: "satisfied_requirement list \<Rightarrow> json dict" where
  "satisfied_values ss = foldl (\<lambda>d s. dict_set (rq_name (sr_requirement s)) (sr_value s) d) [] ss"

definition is_h0 :: "resolution_result \<Rightarrow> bool" where
  "is_h0 r \<longleftrightarrow> \<not> rr_interaction_needed r \<and> rr_unresolved r = [] \<and> rr_contradictions r = []"

subsection \<open>Input contracts\<close>

datatype field_authority = SYSTEM | OWNER | VERIFIER

fun field_authority_value :: "field_authority \<Rightarrow> string" where
  "field_authority_value SYSTEM = ''system''"
| "field_authority_value OWNER = ''owner''"
| "field_authority_value VERIFIER = ''verifier''"

definition field_authority_of :: "string \<Rightarrow> field_authority option" where
  "field_authority_of s = find (\<lambda>a. field_authority_value a = s) [SYSTEM, OWNER, VERIFIER]"

record input_field =
  if_name :: string
  if_value_type :: string
  if_authority :: field_authority
  if_required :: bool
  if_allowed_values :: "json list"
  if_description :: string
  if_secret :: bool
  if_kind :: requirement_kind
  if_question :: string
  if_answer_hint :: string

record artifact_spec =
  ar_artifact_id :: string
  ar_template_path :: string
  ar_final_path :: string
  ar_fields :: "input_field list"
  ar_write_mode :: string

record input_contract =
  co_contract_ref :: string
  co_version :: int
  co_owner_role :: string
  co_fields :: "input_field list"
  co_artifacts :: "artifact_spec list"
  co_resume_transition :: string

definition contract_field :: "input_contract \<Rightarrow> string \<Rightarrow> input_field option" where
  "contract_field c n = find (\<lambda>f. if_name f = n) (co_fields c)"

definition owner_fields :: "input_contract \<Rightarrow> input_field list" where
  "owner_fields c = filter (\<lambda>f. if_authority f = OWNER) (co_fields c)"

definition field_from_requirement :: "requirement \<Rightarrow> input_field option" where
  "field_from_requirement r =
     (case field_authority_of (rq_authority r) of
        None \<Rightarrow> None
      | Some auth \<Rightarrow> Some
          \<lparr>if_name = rq_name r,
           if_value_type = (if rq_allowed_values r \<noteq> [] then ''enum'' else ''text''),
           if_authority = auth, if_required = rq_required r,
           if_allowed_values = rq_allowed_values r, if_description = rq_description r,
           if_secret = False, if_kind = rq_kind r, if_question = rq_question r,
           if_answer_hint = rq_answer_hint r\<rparr>)"

fun map_option_list :: "('a \<Rightarrow> 'b option) \<Rightarrow> 'a list \<Rightarrow> 'b list option" where
  "map_option_list f [] = Some []"
| "map_option_list f (x # xs) =
     (case f x of None \<Rightarrow> None
      | Some y \<Rightarrow> (case map_option_list f xs of None \<Rightarrow> None | Some ys \<Rightarrow> Some (y # ys)))"

definition dynamic_owner_input ::
    "string \<Rightarrow> string \<Rightarrow> string \<Rightarrow> requirement list \<Rightarrow> int \<Rightarrow> input_contract option" where
  "dynamic_owner_input ref role resume reqs version =
     (case map_option_list field_from_requirement reqs of
        None \<Rightarrow> None
      | Some fs \<Rightarrow> Some \<lparr>co_contract_ref = ref, co_version = version, co_owner_role = role,
                         co_fields = fs, co_artifacts = [], co_resume_transition = resume\<rparr>)"

subsection \<open>Owner submissions\<close>

definition known_fields :: "input_contract \<Rightarrow> input_field dict" where
  "known_fields c = foldl (\<lambda>d f. dict_set (if_name f) f d) [] (co_fields c)"

datatype field_error =
    Unknown_Field string
  | Field_Not_Owner_Authority string
  | Value_Not_Allowed string
  | Missing_Required_Owner_Field string

fun field_error_text :: "field_error \<Rightarrow> string" where
  "field_error_text (Unknown_Field n) = ''unknown_field:'' @ n"
| "field_error_text (Field_Not_Owner_Authority n) = ''field_not_owner_authority:'' @ n"
| "field_error_text (Value_Not_Allowed n) = ''value_not_allowed:'' @ n"
| "field_error_text (Missing_Required_Owner_Field n) = ''missing_required_owner_field:'' @ n"

text \<open>One submitted value: the error it raises, or acceptance.\<close>

definition check_value :: "input_field dict \<Rightarrow> string \<Rightarrow> json \<Rightarrow> field_error option" where
  "check_value known name v =
     (case dict_get known name of
        None \<Rightarrow> Some (Unknown_Field name)
      | Some f \<Rightarrow>
          if if_authority f \<noteq> OWNER then Some (Field_Not_Owner_Authority name)
          else if if_allowed_values f \<noteq> [] \<and> \<not> list_ex (py_eq v) (if_allowed_values f)
          then Some (Value_Not_Allowed name)
          else None)"

fun check_values ::
    "input_field dict \<Rightarrow> json dict \<Rightarrow> json dict \<Rightarrow> field_error list \<Rightarrow> json dict \<times> field_error list" where
  "check_values known [] clean errs = (clean, errs)"
| "check_values known ((name, v) # vs) clean errs =
     (case check_value known name v of
        Some e \<Rightarrow> check_values known vs clean (errs @ [e])
      | None \<Rightarrow> check_values known vs (dict_set name v clean) errs)"

text \<open>
  The names of the owner fields form a Python set; the order in which it is walked only orders
  the last errors, and the model walks it in the order of the contract.
\<close>

definition missing_fields :: "input_contract \<Rightarrow> json dict \<Rightarrow> field_error list" where
  "missing_fields c vs =
     map Missing_Required_Owner_Field
       (filter (\<lambda>n. (case dict_get (known_fields c) n of None \<Rightarrow> False | Some f \<Rightarrow> if_required f) \<and>
                    n \<notin> set (dict_keys vs))
         (remdups (map if_name (owner_fields c))))"

definition validate_owner_submission ::
    "input_contract \<Rightarrow> json dict \<Rightarrow> json dict \<times> field_error list" where
  "validate_owner_submission c vs =
     (let (clean, errs) = check_values (known_fields c) vs [] [];
          errs' = errs @ missing_fields c vs
      in if errs' \<noteq> [] then ([], errs') else (clean, []))"

subsection \<open>Lemmas\<close>

lemma requirement_kind_roundtrip: "requirement_kind_of (requirement_kind_value k) = Some k"
  by (cases k) (simp_all add: requirement_kind_of_def)

lemma field_authority_roundtrip: "field_authority_of (field_authority_value a) = Some a"
  by (cases a) (simp_all add: field_authority_of_def)

lemma foldl_known_mem:
  "dict_get (foldl (\<lambda>d f. dict_set (if_name f) f d) d fs) n = Some f \<Longrightarrow>
     dict_get d n = Some f \<or> (f \<in> set fs \<and> if_name f = n)"
proof (induction fs arbitrary: d)
  case (Cons g gs)
  from Cons.IH [of "dict_set (if_name g) g d"] Cons.prems show ?case by (auto split: if_splits)
qed simp

lemma known_fields_mem:
  "dict_get (known_fields c) n = Some f \<Longrightarrow> f \<in> set (co_fields c) \<and> if_name f = n"
  unfolding known_fields_def by (drule foldl_known_mem) (auto simp: dict_get_def)

lemma check_values_errs:
  "snd (check_values known vs clean errs) = errs @ List.map_filter (\<lambda>(n, v). check_value known n v) vs"
  by (induction vs arbitrary: clean errs)
    (auto simp: map_filter_simps split: option.split)

lemma check_values_clean:
  assumes "List.map_filter (\<lambda>(n, v). check_value known n v) vs = []"
  shows "fst (check_values known vs clean errs) = foldl (\<lambda>d (n, v). dict_set n v d) clean vs"
  using assms by (induction vs arbitrary: clean errs) (auto simp: map_filter_simps split: option.splits)

lemma update_append_nonkey: "n \<notin> fst ` set xs \<Longrightarrow> AList.update n v xs = xs @ [(n, v)]"
  by (induction xs) auto

lemma foldl_dict_set_same:
  assumes "distinct (map fst (xs @ vs))"
  shows "foldl (\<lambda>d (n, v). dict_set n v d) xs vs = xs @ vs"
  using assms
proof (induction vs arbitrary: xs)
  case (Cons p vs)
  obtain n v where p: "p = (n, v)" by (cases p)
  have "n \<notin> fst ` set xs" using Cons.prems by (auto simp: p)
  then have "dict_set n v xs = xs @ [(n, v)]" by (simp add: dict_set_def update_append_nonkey)
  with Cons.IH [of "xs @ [(n, v)]"] Cons.prems show ?case by (simp add: p)
qed simp

lemma map_filter_empty_iff: "List.map_filter f xs = [] \<longleftrightarrow> (\<forall>x \<in> set xs. f x = None)"
  by (induction xs) (auto simp: map_filter_simps split: option.split)

lemma map_filter_mem: "y \<in> set (List.map_filter f xs) \<longleftrightarrow> (\<exists>x \<in> set xs. f x = Some y)"
  by (induction xs) (auto simp: map_filter_simps split: option.split)

end
