(* ===== verification/Inbox.thy ===== *)
theory Inbox
  imports Board Requirements
begin

text \<open>
  The interaction inbox of \<open>interaction.py\<close>: owner questions of compatible continuations are
  batched into one case within a coalescing window, and an accepted reply is applied to every
  continuation of the case. Exceptions of the code are \<open>Inl\<close> results.
\<close>

definition STATE_COLLECTING :: string where "STATE_COLLECTING = ''collecting''"
definition STATE_ASKED :: string where "STATE_ASKED = ''asked''"
definition STATE_ANSWERED :: string where "STATE_ANSWERED = ''answered''"
definition STATE_APPLIED :: string where "STATE_APPLIED = ''applied''"
definition STATE_NEEDS_CLARIFICATION :: string where
  "STATE_NEEDS_CLARIFICATION = ''needs_clarification''"

lemmas inbox_states = STATE_COLLECTING_def STATE_ASKED_def STATE_ANSWERED_def STATE_APPLIED_def
  STATE_NEEDS_CLARIFICATION_def

record interaction_case =
  ca_id :: string
  ca_origin_endpoint :: string
  ca_continuation_ids :: "nat list"
  ca_unresolved_fields :: "requirement list"
  ca_state :: string
  ca_batch_key :: string
  ca_question_count :: nat
  ca_created_at :: real
  ca_asked_at :: "real option"

definition make_batch_key :: "string \<Rightarrow> string \<Rightarrow> string \<Rightarrow> string \<Rightarrow> string" where
  "make_batch_key endpoint owner project authority =
     join_with ''|'' [endpoint, owner, project, authority]"

definition requirement_to_dict :: "requirement \<Rightarrow> json" where
  "requirement_to_dict r = JObj
     [(''name'', JStr (rq_name r)),
      (''kind'', JStr (requirement_kind_value (rq_kind r))),
      (''authority'', JStr (rq_authority r)),
      (''question'', JStr (rq_question r)),
      (''answer_hint'', JStr (rq_answer_hint r)),
      (''allowed_values'', JArr (rq_allowed_values r)),
      (''required'', JBool (rq_required r)),
      (''description'', JStr (rq_description r))]"

text \<open>The payload is a dictionary; any other JSON value has no \<open>[]\<close> with a string key.\<close>

definition requirement_from_dict :: "json \<Rightarrow> py_error + requirement" where
  "requirement_from_dict payload =
     (case payload of
        JObj d \<Rightarrow>
          (case dict_get d ''name'' of
             None \<Rightarrow> Inl KeyError
           | Some n \<Rightarrow>
               (case requirement_kind_of (str_or (get_str d ''kind'') ''fact'') of
                  None \<Rightarrow> Inl ValueError
                | Some k \<Rightarrow>
                    (case iterate_json (dict_get d ''allowed_values'') of
                       None \<Rightarrow> Inl TypeError
                     | Some allowed \<Rightarrow> Inr
                         \<lparr>rq_name = py_str n, rq_kind = k,
                          rq_authority = str_or (get_str d ''authority'') ''owner'',
                          rq_question = get_str d ''question'',
                          rq_answer_hint = get_str d ''answer_hint'',
                          rq_allowed_values = allowed,
                          rq_required = (case dict_get d ''required'' of None \<Rightarrow> True | Some b \<Rightarrow> truthy b),
                          rq_description = get_str d ''description''\<rparr>)))
      | _ \<Rightarrow> Inl TypeError)"

definition classify_effort :: "int \<Rightarrow> string" where
  "classify_effort n =
     (if n \<le> 0 then ''H0'' else if n = 1 then ''H1'' else if n = 2 then ''H2'' else ''H3+'')"

definition field_prompt :: "requirement \<Rightarrow> string" where
  "field_prompt r = str_or (rq_question r) (replace_char CHR ''_'' CHR '' '' (rq_name r))"

definition compose_question :: "interaction_case \<Rightarrow> string list \<Rightarrow> string \<Rightarrow> string" where
  "compose_question c resolved resume =
     (let fields = ca_unresolved_fields c;
          remaining =
            (if 1 < length fields
             then join_with ''; '' (map (\<lambda>(i, f). str_nat (i + 1) @ '') '' @ field_prompt f)
                    (zip [0..<length fields] fields))
             else case fields of f # _ \<Rightarrow> field_prompt f | [] \<Rightarrow> ''the missing input'');
          parts = [''Blocked on: '' @ remaining @ ''.''] @
            (if resolved \<noteq> [] then [''Already resolved automatically: '' @ join_with ''; '' resolved @ ''.''] else []) @
            [''Reply with: '' @ remaining @ ''.''] @
            [str_or resume (''I'' @ [char_of (39 :: nat)] @ ''ll resume automatically once you reply.'')]
      in join_with '' '' parts)"

subsection \<open>The inbox\<close>

text \<open>
  \<open>id_factory\<close> draws a fresh id for every call; here it is indexed by the number of clock
  readings so far, which the code advances before each draw.
\<close>

record inbox =
  ib_window_seconds :: real
  ib_id_factory :: "nat \<Rightarrow> string"

definition find_open_batch :: "inbox \<Rightarrow> string \<Rightarrow> real \<Rightarrow> store \<Rightarrow> case_row option" where
  "find_open_batch ib bkey now st =
     find (\<lambda>c. ic_batch_key c = bkey \<and> now - ic_created_at c \<le> ib_window_seconds ib)
       (list_interaction_cases STATE_COLLECTING [] st)"

fun sum_list_of :: "(py_error + 'a) list \<Rightarrow> py_error + 'a list" where
  "sum_list_of [] = Inr []"
| "sum_list_of (Inl e # _) = Inl e"
| "sum_list_of (Inr x # xs) = (case sum_list_of xs of Inl e \<Rightarrow> Inl e | Inr ys \<Rightarrow> Inr (x # ys))"

definition get_case :: "string \<Rightarrow> store \<Rightarrow> py_error + interaction_case option" where
  "get_case cid st =
     (case get_interaction_case cid st of
        None \<Rightarrow> Inr None
      | Some row \<Rightarrow>
          (let ms = list_interaction_members cid st in
           case sum_list_of (map requirement_from_dict (concat (map im_requirements ms))) of
             Inl e \<Rightarrow> Inl e
           | Inr reqs \<Rightarrow> Inr (Some
               \<lparr>ca_id = ic_id row, ca_origin_endpoint = ic_endpoint row,
                ca_continuation_ids = map im_continuation_id ms, ca_unresolved_fields = reqs,
                ca_state = ic_state row, ca_batch_key = ic_batch_key row,
                ca_question_count = ic_question_count row, ca_created_at = ic_created_at row,
                ca_asked_at = ic_asked_at row\<rparr>)))"

text \<open>\<open>case = self.get_case(case_id); assert case is not None\<close>.\<close>

definition the_case :: "string \<Rightarrow> ('w sys, py_error + interaction_case) state" where
  "the_case cid = do {
     r \<leftarrow> query (get_case cid);
     ret (case r of Inl e \<Rightarrow> Inl e | Inr None \<Rightarrow> Inl AssertionError | Inr (Some c) \<Rightarrow> Inr c)
   }"

definition open_or_batch_case ::
    "inbox \<Rightarrow> string \<Rightarrow> string \<Rightarrow> string \<Rightarrow> string \<Rightarrow> nat \<Rightarrow> requirement list \<Rightarrow>
       ('w sys, py_error + interaction_case) state" where
  "open_or_batch_case ib endpoint owner project authority iid unresolved = do {
     let bkey = make_batch_key endpoint owner project authority;
     now \<leftarrow> time_now;
     existing \<leftarrow> query (find_open_batch ib bkey now);
     n \<leftarrow> gets readings;
     opened \<leftarrow> (case existing of
         Some row \<Rightarrow> ret (Inr (ic_id row))
       | None \<Rightarrow> do {
           let cid = ib_id_factory ib n;
           row \<leftarrow> op0 (create_interaction_case cid endpoint bkey STATE_COLLECTING 0 now);
           ret (case row of None \<Rightarrow> Inl IntegrityError | Some _ \<Rightarrow> Inr cid)
         });
     case opened of
       Inl e \<Rightarrow> ret (Inl e)
     | Inr cid \<Rightarrow> do {
         op1 (add_interaction_member cid iid (map requirement_to_dict unresolved));
         the_case cid
       }
   }"

definition list_cases :: "string \<Rightarrow> string \<Rightarrow> store \<Rightarrow> py_error + interaction_case list" where
  "list_cases endpoint state st =
     (case sum_list_of (map (\<lambda>r. get_case (ic_id r) st) (list_interaction_cases state endpoint st)) of
        Inl e \<Rightarrow> Inl e
      | Inr cs \<Rightarrow> Inr (List.map_filter (\<lambda>x. x) cs))"

definition mark_asked :: "string \<Rightarrow> ('w sys, py_error + interaction_case) state" where
  "mark_asked cid = do {
     row \<leftarrow> query (get_interaction_case cid);
     case row of
       None \<Rightarrow> ret (Inl AssertionError)
     | Some r \<Rightarrow> do {
         now \<leftarrow> time_now;
         op0 (update_interaction_case cid (Some STATE_ASKED) (Some (ic_question_count r + 1)) (Some now) None None);
         the_case cid
       }
   }"

definition mark_needs_clarification :: "string \<Rightarrow> ('w sys, py_error + interaction_case) state" where
  "mark_needs_clarification cid = do {
     op0 (update_interaction_case cid (Some STATE_NEEDS_CLARIFICATION) None None None None);
     the_case cid
   }"

definition mark_answered :: "string \<Rightarrow> ('w sys, py_error + interaction_case) state" where
  "mark_answered cid = do {
     now \<leftarrow> time_now;
     op0 (update_interaction_case cid (Some STATE_ANSWERED) None None (Some now) None);
     the_case cid
   }"

definition mark_applied :: "string \<Rightarrow> ('w sys, py_error + interaction_case) state" where
  "mark_applied cid = do {
     now \<leftarrow> time_now;
     op0 (update_interaction_case cid (Some STATE_APPLIED) None None None (Some now));
     the_case cid
   }"

text \<open>\<open>h\<close> is \<open>hashlib.sha256(_).hexdigest()\<close>; the raw text itself is not stored.\<close>

definition record_inbound_reply ::
    "(string \<Rightarrow> string) \<Rightarrow> string \<Rightarrow> string \<Rightarrow> string \<Rightarrow> json dict \<Rightarrow> ('w sys, reply_row) state" where
  "record_inbound_reply h cid msg raw compiled =
     op1 (record_inbound_reply_receipt cid msg (h raw) (JObj compiled))"

definition apply_fields ::
    "string \<Rightarrow> (nat \<times> json dict) list \<Rightarrow> string \<Rightarrow> string \<Rightarrow> ('w sys, py_error + interaction_case) state" where
  "apply_fields cid by_continuation source source_ref = do {
     for_each by_continuation (\<lambda>(iid, vals).
       for_each vals (\<lambda>(name, v). do {
         op1 (record_requirement_satisfaction iid name v source source_ref []);
         ret ()
       }));
     mark_answered cid
   }"

end
