(* ===== verification/Outcome.thy ===== *)
theory Outcome
  imports Ledger
begin

text \<open>
  The structured outcome model of \<open>outcome.py\<close>: verdicts, continuation kinds, the envelope with
  the structural checks of \<open>__post_init__\<close>, and the parser of authoritative run metadata.
\<close>

datatype verdict = GO | BLOCK | NEED_MORE | VERDICT_UNKNOWN

fun verdict_value :: "verdict \<Rightarrow> string" where
  "verdict_value GO = ''GO''"
| "verdict_value BLOCK = ''BLOCK''"
| "verdict_value NEED_MORE = ''NEED_MORE''"
| "verdict_value VERDICT_UNKNOWN = ''UNKNOWN''"

definition verdict_of :: "string \<Rightarrow> verdict option" where
  "verdict_of s = find (\<lambda>v. verdict_value v = s) [GO, BLOCK, NEED_MORE, VERDICT_UNKNOWN]"

datatype continuation_kind =
    COMPLETE
  | ROADMAP_NEXT
  | CODE_FIX
  | NEEDS_INPUT
  | APPROVAL_REQUIRED
  | EXTERNAL_WAIT
  | SEMANTIC_REFUSAL
  | KIND_UNKNOWN

fun continuation_kind_value :: "continuation_kind \<Rightarrow> string" where
  "continuation_kind_value COMPLETE = ''complete''"
| "continuation_kind_value ROADMAP_NEXT = ''roadmap_next''"
| "continuation_kind_value CODE_FIX = ''code_fix''"
| "continuation_kind_value NEEDS_INPUT = ''needs_input''"
| "continuation_kind_value APPROVAL_REQUIRED = ''approval_required''"
| "continuation_kind_value EXTERNAL_WAIT = ''external_wait''"
| "continuation_kind_value SEMANTIC_REFUSAL = ''semantic_refusal''"
| "continuation_kind_value KIND_UNKNOWN = ''unknown''"

definition continuation_kind_of :: "string \<Rightarrow> continuation_kind option" where
  "continuation_kind_of s = find (\<lambda>k. continuation_kind_value k = s)
     [COMPLETE, ROADMAP_NEXT, CODE_FIX, NEEDS_INPUT, APPROVAL_REQUIRED, EXTERNAL_WAIT,
      SEMANTIC_REFUSAL, KIND_UNKNOWN]"

definition CONFIDENCE_LEVELS :: "string list" where
  "CONFIDENCE_LEVELS = [''structured'', ''flat_metadata'', ''text_explicit'',
     ''deterministic_grammar'', ''model_compiled'', ''none'']"

definition GENERIC_OWNER_INPUT_CONTRACT :: string where
  "GENERIC_OWNER_INPUT_CONTRACT = ''generic.owner-input.v1''"

record requirement_ref =
  rf_name :: string
  rf_authority :: string

record envelope =
  oe_schema_version :: int
  oe_event_id :: string
  oe_board :: string
  oe_source_task_id :: string
  oe_source_graph_id :: string
  oe_verdict :: verdict
  oe_kind :: continuation_kind
  oe_contract_ref :: string
  oe_origin_ref :: string
  oe_return_to_ref :: string
  oe_workspace_ref :: string
  oe_assignee :: string
  oe_occurred_at :: real
  oe_requirements :: "requirement_ref list"
  oe_next_transition :: string
  oe_confidence :: string

text \<open>\<open>__post_init__\<close>: the message of the \<open>OutcomeEnvelopeError\<close>, or the envelope itself.\<close>

definition check_envelope :: "envelope \<Rightarrow> string + envelope" where
  "check_envelope e =
     (if oe_event_id e = [] then Inl ''event_id is required''
      else if oe_board e = [] then Inl ''board is required''
      else if oe_source_task_id e = [] then Inl ''source_task_id is required''
      else if oe_source_graph_id e = [] then Inl ''source_graph_id is required''
      else if oe_confidence e \<notin> set CONFIDENCE_LEVELS
        then Inl (''invalid confidence: '' @ repr_str (oe_confidence e))
      else if oe_verdict e = GO \<and> oe_kind e = CODE_FIX
        then Inl ''GO + code_fix is not a valid continuation''
      else if oe_kind e = NEEDS_INPUT \<and> oe_contract_ref e = []
        then Inl ''needs_input requires contract_ref''
      else if oe_kind e = ROADMAP_NEXT \<and> oe_next_transition e = []
        then Inl ''roadmap_next requires next_transition''
      else Inr e)"

text \<open>The arguments every constructor call shares (\<open>common\<close> in the code).\<close>

record envelope_common =
  ec_event_id :: string
  ec_board :: string
  ec_source_task_id :: string
  ec_source_graph_id :: string
  ec_origin_ref :: string
  ec_return_to_ref :: string
  ec_workspace_ref :: string
  ec_assignee :: string
  ec_occurred_at :: real

definition build_envelope ::
    "verdict \<Rightarrow> continuation_kind \<Rightarrow> string \<Rightarrow> requirement_ref list \<Rightarrow> string \<Rightarrow> string \<Rightarrow>
       envelope_common \<Rightarrow> string + envelope" where
  "build_envelope v k contract reqs next conf c = check_envelope
     \<lparr>oe_schema_version = 1, oe_event_id = ec_event_id c, oe_board = ec_board c,
      oe_source_task_id = ec_source_task_id c, oe_source_graph_id = ec_source_graph_id c,
      oe_verdict = v, oe_kind = k, oe_contract_ref = contract, oe_origin_ref = ec_origin_ref c,
      oe_return_to_ref = ec_return_to_ref c, oe_workspace_ref = ec_workspace_ref c,
      oe_assignee = ec_assignee c, oe_occurred_at = ec_occurred_at c, oe_requirements = reqs,
      oe_next_transition = next, oe_confidence = conf\<rparr>"

definition unknown_envelope :: "verdict \<Rightarrow> envelope_common \<Rightarrow> string + envelope" where
  "unknown_envelope v c = build_envelope v KIND_UNKNOWN [] [] [] ''none'' c"

definition extract_structured :: "json option \<Rightarrow> json dict option" where
  "extract_structured run_metadata =
     (case run_metadata of
        Some (JObj m) \<Rightarrow> (case dict_get m ''agentflow_outcome'' of Some (JObj b) \<Rightarrow> Some b | _ \<Rightarrow> None)
      | _ \<Rightarrow> None)"

definition requirement_ref_of :: "json \<Rightarrow> requirement_ref option" where
  "requirement_ref_of item =
     (case item of
        JObj m \<Rightarrow>
          if get_str m ''name'' = [] \<and> (case dict_get m ''name'' of None \<Rightarrow> True | Some v \<Rightarrow> \<not> truthy v) then None
          else Some \<lparr>rf_name = get_str m ''name'', rf_authority = str_or (get_str m ''authority'') ''owner''\<rparr>
      | JStr s \<Rightarrow> Some \<lparr>rf_name = s, rf_authority = ''owner''\<rparr>
      | _ \<Rightarrow> None)"

datatype structured_result =
    Structured_Raises
  | Structured_Invalid
  | Structured_Envelope envelope

definition from_structured :: "json dict \<Rightarrow> envelope_common \<Rightarrow> structured_result" where
  "from_structured block c =
     (if \<not> (case dict_get block ''schema_version'' of None \<Rightarrow> False | Some v \<Rightarrow> py_eq v (JInt 1))
      then Structured_Invalid
      else (case (verdict_of (get_str block ''verdict''), continuation_kind_of (get_str block ''continuation_kind'')) of
        (Some v, Some k) \<Rightarrow>
          (case iterate_json (dict_get block ''required_inputs'') of
             None \<Rightarrow> Structured_Raises
           | Some items \<Rightarrow>
               (let reqs = List.map_filter requirement_ref_of items;
                    ref0 = get_str block ''contract_ref'';
                    ref = (if k = NEEDS_INPUT \<and> ref0 = [] then GENERIC_OWNER_INPUT_CONTRACT else ref0);
                    next = str_or (get_str block ''resume_transition'') (get_str block ''next_transition'')
                in case build_envelope v k ref reqs next ''structured'' c of
                     Inl _ \<Rightarrow> Structured_Invalid
                   | Inr e \<Rightarrow> Structured_Envelope e))
      | _ \<Rightarrow> Structured_Invalid))"

text \<open>The keyword arguments with which every handler calls \<open>create_instance\<close>.\<close>

definition instance_args :: "envelope \<Rightarrow> string \<Rightarrow> new_instance" where
  "instance_args e contract =
     \<lparr>ni_board = oe_board e, ni_source_task_id = oe_source_task_id e,
      ni_source_event_id = oe_event_id e, ni_source_graph_id = oe_source_graph_id e,
      ni_contract_ref = contract, ni_verdict = verdict_value (oe_verdict e),
      ni_continuation_kind = continuation_kind_value (oe_kind e),
      ni_origin_ref = oe_origin_ref e, ni_return_to_ref = oe_return_to_ref e,
      ni_workspace_ref = oe_workspace_ref e\<rparr>"

subsection \<open>Lemmas\<close>

lemma verdict_roundtrip: "verdict_of (verdict_value v) = Some v"
  by (cases v) (simp_all add: verdict_of_def)

lemma continuation_kind_roundtrip: "continuation_kind_of (continuation_kind_value k) = Some k"
  by (cases k) (simp_all add: continuation_kind_of_def)

lemma check_envelope_Inr: "check_envelope e = Inr e' \<Longrightarrow> e' = e"
  by (auto simp: check_envelope_def split: if_splits)

lemma check_envelope_sound:
  assumes "check_envelope e = Inr e'"
  shows "oe_event_id e \<noteq> [] \<and> oe_board e \<noteq> [] \<and> oe_source_task_id e \<noteq> [] \<and>
    oe_source_graph_id e \<noteq> [] \<and> oe_confidence e \<in> set CONFIDENCE_LEVELS \<and>
    \<not> (oe_verdict e = GO \<and> oe_kind e = CODE_FIX) \<and>
    (oe_kind e = NEEDS_INPUT \<longrightarrow> oe_contract_ref e \<noteq> []) \<and>
    (oe_kind e = ROADMAP_NEXT \<longrightarrow> oe_next_transition e \<noteq> [])"
  using assms by (auto simp: check_envelope_def split: if_splits)

end
