(* ===== verification/Owner_Input.thy ===== *)
theory Owner_Input
  imports Delivery Inbox Outcome
begin

text \<open>
  \<open>OwnerInputHandler\<close> (\<open>continuations/owner_input.py\<close>): one owner anchor per source event, the
  validated owner receipt, and the lazily created materialization, review and rerun tasks.
  \<open>h\<close> is \<open>hashlib.sha256(_).hexdigest()\<close>, an arbitrary function here.
\<close>

record continuation_plan =
  cp_instance_id :: nat
  cp_created :: bool
  cp_state :: string
  cp_step_intents :: "json dict list"

record step_result =
  st_success :: bool
  st_reason :: string
  st_state :: string
  st_created_step_ids :: "string list"
  st_metadata :: "json dict"

record submission =
  su_owner_ref :: string
  su_fields :: "json dict"
  su_source_ref :: string

definition digest_base :: "instance_row \<Rightarrow> string" where
  "digest_base i = str_or (ci_idempotency_key i)
     (''instance:'' @ ci_board i @ '':'' @ str_nat (ci_id i))"

definition stable_digest :: "(string \<Rightarrow> string) \<Rightarrow> instance_row \<Rightarrow> string" where
  "stable_digest h i = take 16 (h (digest_base i))"

text \<open>\<open>store.get_instance(instance_id)["state"]\<close>.\<close>

definition state_text :: "nat \<Rightarrow> store \<Rightarrow> string" where
  "state_text iid st = (case get_instance iid st of None \<Rightarrow> [] | Some r \<Rightarrow> cstate_value (ci_state r))"

definition owner_anchor_intent ::
    "instance_row \<Rightarrow> input_contract \<Rightarrow> string \<Rightarrow> interaction_case option \<Rightarrow> json dict" where
  "owner_anchor_intent i c key ic =
     [(''kind'', JStr ''owner_anchor''),
      (''title'', JStr (''[owner-input] '' @ co_contract_ref c @ '' evidence/approval anchor'')),
      (''idempotency_key'', JStr key),
      (''status'', JStr ''blocked''),
      (''blocked_reason'', JStr ''awaiting_owner_input''),
      (''assignee'', JStr (co_owner_role c)),
      (''origin_ref'', JStr (ci_origin_ref i)),
      (''return_to_ref'', JStr (ci_return_to_ref i)),
      (''contract_ref'', JStr (co_contract_ref c)),
      (''required_owner_fields'', JArr (map (JStr \<circ> if_name) (owner_fields c))),
      (''owner_anchor'', JBool True)] @
     (case ic of
        None \<Rightarrow> []
      | Some k \<Rightarrow> [(''agentflow_interaction'', JObj
          [(''case_id'', JStr (ca_id k)),
           (''origin_endpoint'', JStr (ca_origin_endpoint k)),
           (''continuation_ids'', JArr (map (JInt \<circ> int) (ca_continuation_ids k))),
           (''reply_mode'', JStr ''natural_language'')])])"

definition materialization_intent ::
    "instance_row \<Rightarrow> input_contract \<Rightarrow> receipt_row \<Rightarrow> string \<Rightarrow> json dict" where
  "materialization_intent i c r key =
     (let receipt_ref = ''receipt:'' @ str_nat (or_id r) @ '':v'' @ str_nat (or_version r) in
      [(''kind'', JStr ''materialization''),
       (''title'', JStr (co_contract_ref c @ '' materialize artifacts'')),
       (''body'', JStr (''Resume authorized by owner receipt '' @ receipt_ref @ ''.'')),
       (''idempotency_key'', JStr key),
       (''contract_ref'', JStr (co_contract_ref c)),
       (''origin_ref'', JStr (ci_origin_ref i)),
       (''return_to_ref'', JStr (ci_return_to_ref i)),
       (''receipt_ref'', JStr receipt_ref),
       (''owner_receipt_id'', JInt (int (or_id r))),
       (''owner_receipt_version'', JInt (int (or_version r))),
       (''artifact_ids'', JArr (map (JStr \<circ> ar_artifact_id) (co_artifacts c)))])"

text \<open>
  Create the board task of a step that has just been added and mark the step on success; the
  result is the created task id, or the empty string.
\<close>

definition create_step_task ::
    "'w adapter option \<Rightarrow> nat \<Rightarrow> nat \<Rightarrow> json dict \<Rightarrow> string \<Rightarrow> ('w sys, bool \<times> string) state" where
  "create_step_task ad iid sid intent key = do {
     result \<leftarrow> apply_board_operation ad iid (str_nat sid) ''create_task'' intent key;
     case result of
       Op_Ok task \<Rightarrow> do { op1 (mark_step sid (Some ''applied'') task); ret (True, task) }
     | Op_Failed _ _ \<Rightarrow> ret (False, [])
   }"

text \<open>The optional batching of the open questions into an interaction case.\<close>

definition batch_questions ::
    "inbox option \<Rightarrow> instance_row \<Rightarrow> requirement list \<Rightarrow> string \<Rightarrow> string \<Rightarrow>
       ('w sys, py_error + interaction_case option) state" where
  "batch_questions ib i unresolved owner project =
     (case (ib, unresolved) of
        (Some b, r # _) \<Rightarrow> do {
          c \<leftarrow> open_or_batch_case b (ci_origin_ref i) owner project (rq_authority r) (ci_id i) unresolved;
          ret (case c of Inl e \<Rightarrow> Inl e | Inr k \<Rightarrow> Inr (Some k))
        }
      | _ \<Rightarrow> ret (Inr None))"

definition plan_owner_input ::
    "(string \<Rightarrow> string) \<Rightarrow> 'w adapter option \<Rightarrow> envelope \<Rightarrow> input_contract \<Rightarrow> inbox option \<Rightarrow>
       requirement list \<Rightarrow> string \<Rightarrow> string \<Rightarrow> ('w sys, py_error + continuation_plan) state" where
  "plan_owner_input h ad e c ib unresolved owner project = do {
     creation \<leftarrow> op2 (create_instance (instance_args e (oe_contract_ref e)));
     let iid = ci_id (snd creation);
     refreshed \<leftarrow> (if fst creation
       then do {
         op2 (transition iid WAITING_OWNER ''needs_input_detected'');
         query (get_instance iid)
       }
       else ret (Some (snd creation)));
     case refreshed of
       None \<Rightarrow> ret (Inl AssertionError)
     | Some i \<Rightarrow> do {
         batched \<leftarrow> batch_questions ib i unresolved owner project;
         case batched of
           Inl err \<Rightarrow> ret (Inl err)
         | Inr ic \<Rightarrow> do {
             let anchor_key = ''owner_anchor:'' @ stable_digest h i;
             let intent = owner_anchor_intent i c anchor_key ic;
             step \<leftarrow> op1 (add_step iid ''owner_anchor'' anchor_key None);
             whenM (fst step) (do {
               result \<leftarrow> create_step_task ad iid (cs_id (snd step)) intent anchor_key;
               whenM (fst result \<and> ci_origin_ref i \<noteq> [] \<and> ad \<noteq> None) (do {
                 apply_board_operation ad iid (str_nat (cs_id (snd step))) ''subscribe''
                   [(''task_id'', JStr (snd result)), (''endpoint'', JStr (ci_origin_ref i))]
                   (''subscribe:'' @ anchor_key @ '':'' @ ci_origin_ref i);
                 ret ()
               })
             });
             state \<leftarrow> query (state_text iid);
             ret (Inr \<lparr>cp_instance_id = iid, cp_created = fst creation, cp_state = state,
                       cp_step_intents = [intent]\<rparr>)
           }
       }
   }"

definition on_receipt ::
    "(string \<Rightarrow> string) \<Rightarrow> 'w adapter option \<Rightarrow> instance_row \<Rightarrow> submission \<Rightarrow> input_contract \<Rightarrow>
       ('w sys, step_result) state" where
  "on_receipt h ad i sub c =
     (let iid = ci_id i; refuse = (\<lambda>reason meta.
            \<lparr>st_success = False, st_reason = reason, st_state = cstate_value (ci_state i),
             st_created_step_ids = [], st_metadata = meta\<rparr>) in
      if ci_state i \<noteq> WAITING_OWNER then ret (refuse ''not_waiting_owner'' [])
      else (let (clean, errs) = validate_owner_submission c (su_fields sub) in
        if errs \<noteq> []
        then ret (refuse ''invalid_owner_submission''
               [(''errors'', JArr (map (JStr \<circ> field_error_text) errs))])
        else do {
          receipt \<leftarrow> op2 (add_owner_receipt iid (su_owner_ref sub) clean (su_source_ref sub) None);
          op2 (transition iid INPUT_ACCEPTED ''owner_receipt_accepted'');
          anchors \<leftarrow> query (\<lambda>st. filter (\<lambda>s. cs_step_kind s = ''owner_anchor'') (list_steps iid st));
          (case anchors of
             [] \<Rightarrow> ret ()
           | anchor # _ \<Rightarrow> whenM (cs_board_task_id anchor \<noteq> [] \<and> ad \<noteq> None) (do {
               apply_board_operation ad iid (str_nat (cs_id anchor)) ''complete_owner_anchor''
                 [(''task_id'', JStr (cs_board_task_id anchor)),
                  (''receipt_ref'', JStr (''receipt:'' @ str_nat (or_id receipt)))]
                 (''complete_owner_anchor:'' @ cs_board_task_id anchor @ '':receipt:'' @ str_nat (or_id receipt));
               ret ()
             }));
          let mat_key = ''materialize:'' @ stable_digest h i;
          step \<leftarrow> op1 (add_step iid ''materialization'' mat_key None);
          created \<leftarrow> (if fst step
            then create_step_task ad iid (cs_id (snd step)) (materialization_intent i c receipt mat_key) mat_key
            else ret (False, []));
          op2 (transition iid MATERIALIZING ''materialization_task_created'');
          ret \<lparr>st_success = True, st_reason = [], st_state = cstate_value MATERIALIZING,
               st_created_step_ids = [str_nat (cs_id (snd step))],
               st_metadata = [(''materialization_task_id'', JStr (snd created)),
                              (''receipt_id'', JInt (int (or_id receipt)))]\<rparr>
        }))"

text \<open>
  \<open>advance_after_materialization\<close> and \<open>advance_after_review\<close> share their shape: a guard on the
  state, a failure on any verdict but \<open>GO\<close>, and one task created at most once.
\<close>

definition advance_after_materialization ::
    "(string \<Rightarrow> string) \<Rightarrow> 'w adapter option \<Rightarrow> instance_row \<Rightarrow> string \<Rightarrow> ('w sys, step_result) state" where
  "advance_after_materialization h ad i v =
     (let iid = ci_id i in
      if ci_state i \<noteq> MATERIALIZING
      then ret \<lparr>st_success = False, st_reason = ''not_materializing'',
                st_state = cstate_value (ci_state i), st_created_step_ids = [], st_metadata = []\<rparr>
      else if v \<noteq> ''GO'' then do {
        op2 (transition iid FAILED_RETRYABLE ''materialization_not_go'');
        state \<leftarrow> query (state_text iid);
        ret \<lparr>st_success = False, st_reason = ''materialization_not_go'', st_state = state,
             st_created_step_ids = [], st_metadata = []\<rparr>
      }
      else do {
        op2 (transition iid WAITING_REVIEW ''materialization_go'');
        let review_key = ''review:'' @ stable_digest h i;
        step \<leftarrow> op1 (add_step iid ''review'' review_key None);
        created \<leftarrow> (if fst step
          then create_step_task ad iid (cs_id (snd step))
                 [(''kind'', JStr ''review''),
                  (''title'', JStr ''Review owner-bound artifact/marker''),
                  (''idempotency_key'', JStr review_key),
                  (''origin_ref'', JStr (ci_origin_ref i)),
                  (''return_to_ref'', JStr (ci_return_to_ref i))] review_key
          else ret (False, []));
        state \<leftarrow> query (state_text iid);
        ret \<lparr>st_success = True, st_reason = [], st_state = state,
             st_created_step_ids = [str_nat (cs_id (snd step))],
             st_metadata = [(''review_task_id'', JStr (snd created))]\<rparr>
      })"

definition advance_after_review ::
    "(string \<Rightarrow> string) \<Rightarrow> 'w adapter option \<Rightarrow> instance_row \<Rightarrow> string \<Rightarrow> ('w sys, step_result) state" where
  "advance_after_review h ad i v =
     (let iid = ci_id i in
      if ci_state i \<noteq> WAITING_REVIEW
      then ret \<lparr>st_success = False, st_reason = ''not_waiting_review'',
                st_state = cstate_value (ci_state i), st_created_step_ids = [], st_metadata = []\<rparr>
      else if v \<noteq> ''GO'' then do {
        op2 (transition iid FAILED_RETRYABLE ''review_not_go'');
        state \<leftarrow> query (state_text iid);
        ret \<lparr>st_success = False, st_reason = ''review_not_go'', st_state = state,
             st_created_step_ids = [], st_metadata = []\<rparr>
      }
      else do {
        op2 (transition iid RESUMABLE ''review_go'');
        let rerun_key = ''packet_rerun:'' @ stable_digest h i;
        step \<leftarrow> op1 (add_step iid ''packet_rerun'' rerun_key None);
        created \<leftarrow> (if fst step \<and> ad \<noteq> None
          then create_step_task ad iid (cs_id (snd step))
                 [(''kind'', JStr ''packet_rerun''),
                  (''title'', JStr (ci_contract_ref i @ '' packet rerun'')),
                  (''idempotency_key'', JStr rerun_key),
                  (''origin_ref'', JStr (ci_origin_ref i)),
                  (''return_to_ref'', JStr (ci_return_to_ref i))] rerun_key
          else ret (False, []));
        op2 (transition iid RESUMED ''packet_rerun_created'');
        state \<leftarrow> query (state_text iid);
        ret \<lparr>st_success = True, st_reason = [], st_state = state,
             st_created_step_ids = [str_nat (cs_id (snd step))],
             st_metadata = [(''packet_rerun_task_id'', JStr (snd created))]\<rparr>
      })"

end
