(* ===== verification/Code_Fix.thy ===== *)
theory Code_Fix
  imports Owner_Input
begin

text \<open>
  \<open>CodeFixHandler\<close> (\<open>continuations/code_fix.py\<close>): a runnable fix task, an independent review task
  linked to it, and the subscription of the review task to the source's origin, all through the
  durable outbox; any failed mutation parks the instance in \<open>FAILED_RETRYABLE\<close>.
\<close>

definition newline :: string where
  "newline = [CHR 0x0A]"

definition blocker_lines :: "string list \<Rightarrow> string" where
  "blocker_lines bs =
     (if bs = [] then []
      else join_with newline (''Blocking findings:'' # map (\<lambda>b. ''- '' @ b) bs))"

definition find_parent_step :: "nat \<Rightarrow> string \<Rightarrow> store \<Rightarrow> nat option" where
  "find_parent_step iid key st =
     (if key = [] then None
      else map_option cs_id (find (\<lambda>s. cs_idempotency_key s = key) (list_steps iid st)))"

text \<open>\<open>_create\<close>: the task id of the step, \<open>None\<close> when the board mutation failed.\<close>

definition create_graph_step ::
    "'w adapter option \<Rightarrow> nat \<Rightarrow> string \<Rightarrow> string \<Rightarrow> json dict \<Rightarrow> string \<Rightarrow> ('w sys, string option) state" where
  "create_graph_step ad iid kind key payload parent_key = do {
     parent \<leftarrow> query (find_parent_step iid parent_key);
     step \<leftarrow> op1 (add_step iid kind key parent);
     if \<not> fst step \<and> cs_board_task_id (snd step) \<noteq> [] then ret (Some (cs_board_task_id (snd step)))
     else do {
       result \<leftarrow> apply_board_operation ad iid (str_nat (cs_id (snd step))) ''create_task'' payload key;
       case result of
         Op_Failed _ _ \<Rightarrow> ret None
       | Op_Ok task \<Rightarrow> do {
           whenM (task \<noteq> []) (do {
             op1 (mark_step (cs_id (snd step)) (Some ''applied'') task);
             ret ()
           });
           ret (Some task)
         }
     }
   }"

definition fail_materialization :: "nat \<Rightarrow> string \<Rightarrow> ('w sys, step_result) state" where
  "fail_materialization iid reason = do {
     op2 (transition iid FAILED_RETRYABLE reason);
     state \<leftarrow> query (state_text iid);
     ret \<lparr>st_success = False, st_reason = reason, st_state = state, st_created_step_ids = [],
          st_metadata = [(''instance_id'', JInt (int iid))]\<rparr>
   }"

definition fix_payload :: "envelope \<Rightarrow> string list \<Rightarrow> string \<Rightarrow> json dict" where
  "fix_payload e blockers key =
     [(''kind'', JStr ''code_fix''),
      (''title'', JStr (''[code-fix] remediate BLOCK on '' @ oe_source_task_id e)),
      (''body'', JStr (join_with (newline @ newline) (filter (\<lambda>x. x \<noteq> [])
         [''Runnable fix for BLOCK on source '' @ oe_source_task_id e @ ''.'',
          blocker_lines blockers,
          ''Independent review follows; do not self-approve.'']))),
      (''idempotency_key'', JStr key),
      (''origin_ref'', JStr (oe_origin_ref e)),
      (''return_to_ref'', JStr (oe_return_to_ref e)),
      (''source_task_id'', JStr (oe_source_task_id e))]"

definition review_payload :: "envelope \<Rightarrow> string \<Rightarrow> string \<Rightarrow> json dict" where
  "review_payload e fix_task key =
     [(''kind'', JStr ''review''),
      (''title'', JStr (''[code-fix review] verify remediation of '' @ oe_source_task_id e)),
      (''body'', JStr (''Independently review the runnable fix task '' @ fix_task @
                       ''. Report Verdict: GO/BLOCK.'')),
      (''idempotency_key'', JStr key),
      (''origin_ref'', JStr (oe_origin_ref e)),
      (''return_to_ref'', JStr (oe_return_to_ref e)),
      (''parent_task_id'', JStr fix_task),
      (''source_task_id'', JStr (oe_source_task_id e))]"

text \<open>
  Steps 3 and 4: the subscription, whose failure is a failure of the materialization (\<open>None\<close>),
  and the best-effort consumer acknowledgement. The result is
  \<open>(subscribed, consumer_ack_status, callback_status, callback_errors)\<close>.
\<close>

definition return_edge ::
    "'w adapter option \<Rightarrow> nat \<Rightarrow> envelope \<Rightarrow> string \<Rightarrow> string \<Rightarrow> string \<Rightarrow>
       ('w sys, (bool \<times> string \<times> string \<times> string list) option) state" where
  "return_edge ad iid e review_task review_key endpoint =
     (if endpoint = []
      then ret (Some (False, ''not_requested'', ''callback_unroutable'', [''code_fix_origin_missing'']))
      else do {
        sub \<leftarrow> apply_board_operation ad iid ''0'' ''subscribe''
          [(''task_id'', JStr review_task), (''endpoint'', JStr endpoint)]
          (''code_fix_subscribe:'' @ review_key @ '':'' @ endpoint);
        if \<not> op_success sub then ret None
        else do {
          ack \<leftarrow> apply_board_operation ad iid ''0'' ''record_consumer_ack''
            [(''task_id'', JStr (oe_source_task_id e)), (''endpoint'', JStr endpoint),
             (''status'', JStr ''semantic_block_remediation_created'')]
            (''code_fix_consumer_ack:'' @ review_key @ '':'' @ endpoint);
          case ack of
            Op_Ok _ \<Rightarrow> ret (Some (True, ''semantic_block_remediation_created'', ''delivered'', []))
          | Op_Failed err _ \<Rightarrow>
              (let status = callback_status_for ack
               in ret (Some (True, status, status, [str_or err ''consumer_ack_failed''])))
        }
      })"

text \<open>The part of \<open>materialize\<close> after the instance is in \<open>MATERIALIZING\<close> (or already beyond it).\<close>

definition build_fix_graph ::
    "(string \<Rightarrow> string) \<Rightarrow> 'w adapter option \<Rightarrow> envelope \<Rightarrow> string list \<Rightarrow> bool \<Rightarrow> instance_row \<Rightarrow>
       ('w sys, step_result) state" where
  "build_fix_graph h ad e blockers created i = do {
     let iid = ci_id i;
     let digest = stable_digest h i;
     let fix_key = ''code_fix_fix:'' @ digest;
     let review_key = ''code_fix_review:'' @ digest;
     let endpoint = str_or (oe_return_to_ref e) (oe_origin_ref e);
     fix \<leftarrow> create_graph_step ad iid ''code_fix'' fix_key (fix_payload e blockers fix_key) [];
     case fix of
       None \<Rightarrow> fail_materialization iid ''fix_create_failed''
     | Some fix_task \<Rightarrow> do {
         review \<leftarrow> create_graph_step ad iid ''review'' review_key (review_payload e fix_task review_key) fix_key;
         case review of
           None \<Rightarrow> fail_materialization iid ''review_create_failed''
         | Some review_task \<Rightarrow> do {
             edge \<leftarrow> return_edge ad iid e review_task review_key endpoint;
             case edge of
               None \<Rightarrow> fail_materialization iid ''review_subscribe_failed''
             | Some (subscribed, ack_status, cb_status, cb_errors) \<Rightarrow> do {
                 whenM (ci_state i = MATERIALIZING) (do {
                   op2 (transition iid WAITING_REVIEW ''code_fix_graph_materialized'');
                   ret ()
                 });
                 state \<leftarrow> query (state_text iid);
                 ret \<lparr>st_success = True, st_reason = [], st_state = state, st_created_step_ids = [],
                      st_metadata =
                        [(''instance_id'', JInt (int iid)), (''created'', JBool created),
                         (''fix_task_id'', JStr fix_task), (''review_task_id'', JStr review_task),
                         (''subscribed'', JBool subscribed),
                         (''consumer_ack_status'', JStr ack_status),
                         (''callback_status'', JStr cb_status),
                         (''callback_errors'', JArr (map JStr cb_errors)),
                         (''endpoint'', JStr endpoint)]\<rparr>
               }
           }
       }
   }"

definition materialize_code_fix ::
    "(string \<Rightarrow> string) \<Rightarrow> 'w adapter option \<Rightarrow> envelope \<Rightarrow> string list \<Rightarrow>
       ('w sys, py_error + step_result) state" where
  "materialize_code_fix h ad e blockers = do {
     creation \<leftarrow> op2 (create_instance (instance_args e (oe_contract_ref e)));
     let created = fst creation;
     let i0 = snd creation;
     let iid = ci_id i0;
     let refuse = (\<lambda>reason extra.
       \<lparr>st_success = False, st_reason = reason, st_state = cstate_value (ci_state i0),
        st_created_step_ids = [],
        st_metadata = [(''instance_id'', JInt (int iid)), (''created'', JBool created)] @ extra\<rparr>);
     if ad = None then ret (Inr (refuse ''no_adapter'' []))
     else do {
       not_due \<leftarrow> (if ci_state i0 = FAILED_RETRYABLE then pending_outbox_retry_not_due iid else ret False);
       if not_due then ret (Inr (refuse ''outbox_retry_not_due'' [(''retry_due'', JBool False)]))
       else do {
         refreshed \<leftarrow> (if ci_state i0 \<in> {DETECTED, FAILED_RETRYABLE}
           then do {
             op2 (transition iid MATERIALIZING ''code_fix_detected'');
             query (get_instance iid)
           }
           else ret (Some i0));
         case refreshed of
           None \<Rightarrow> ret (Inl AssertionError)
         | Some i \<Rightarrow> do {
             r \<leftarrow> build_fix_graph h ad e blockers created i;
             ret (Inr r)
           }
       }
     }
   }"

end
