(* ===== verification/Semantic_Refusal.thy ===== *)
theory Semantic_Refusal
  imports Code_Fix
begin

text \<open>
  \<open>SemanticRefusalHandler\<close> (\<open>continuations/semantic_refusal.py\<close>): an unsafe BLOCK is recorded as a
  durable refusal, parked in \<open>BLOCKED_INVALID\<close>, and the origin is woken on a best-effort basis. No
  fix, review or activation task is created.
\<close>

definition mark_wake_pending :: "outbox_row \<Rightarrow> string \<Rightarrow> ('w sys, unit) state" where
  "mark_wake_pending row err = do {
     now \<leftarrow> time_now;
     op1 (outbox_mark (ob_id row) ''pending'' []
           (Some (now + retry_delay (ob_attempts row + 1))) (Some err));
     ret ()
   }"

definition ensure_origin_wake ::
    "'w adapter option \<Rightarrow> nat \<Rightarrow> string \<Rightarrow> string \<Rightarrow> string \<Rightarrow> string \<Rightarrow> ('w sys, op_result) state" where
  "ensure_origin_wake ad iid task endpoint key legacy_prefix =
     (let not_accepted = ''origin_wake_not_yet_accepted'';
          retry_later = (\<lambda>row err. do { mark_wake_pending row err; ret (Op_Failed err None) }) in
      do {
        op1 (outbox_reinterpret_pending iid ''subscribe'' legacy_prefix ''schedule_origin_wake'' key);
        enqueued \<leftarrow> op1 (outbox_enqueue iid ''0'' ''schedule_origin_wake''
          [(''task_id'', JStr task), (''endpoint'', JStr endpoint)] key);
        let row = snd enqueued;
        sat \<leftarrow> origin_wake_satisfied ad task endpoint;
        if ob_state row = ''applied'' then
          (if sat then ret (Op_Ok []) else retry_later row not_accepted)
        else if sat then do {
          op1 (outbox_mark (ob_id row) ''applied'' [] None None);
          ret (Op_Ok [])
        }
        else do {
          now \<leftarrow> time_now;
          if now < ob_next_attempt_at row then ret (Op_Failed ''outbox_retry_not_due'' None)
          else if ob_last_error row = not_accepted then retry_later row not_accepted
          else (case Option.bind ad a_schedule_origin_wake of
            None \<Rightarrow> ret (Op_Failed ''adapter_missing_schedule_origin_wake'' None)
          | Some schedule \<Rightarrow> do {
              scheduled \<leftarrow> board_call (schedule task endpoint);
              if \<not> br_success scheduled
              then retry_later row (take 200 (str_or (opt_str (br_error scheduled)) ''origin_wake_schedule_failed''))
              else do {
                sat2 \<leftarrow> origin_wake_satisfied ad task endpoint;
                if sat2 then do {
                  op1 (outbox_mark (ob_id row) ''applied'' [] None None);
                  ret (Op_Ok [])
                }
                else retry_later row not_accepted
              }
            })
        }
      })"

text \<open>
  The callback routing ledger: \<open>(wake_satisfied, consumer_ack_status, callback_status, errors)\<close>.
\<close>

definition refusal_callbacks ::
    "'w adapter option \<Rightarrow> nat \<Rightarrow> envelope \<Rightarrow> string \<Rightarrow> string \<Rightarrow>
       ('w sys, bool \<times> string \<times> string \<times> string list) state" where
  "refusal_callbacks ad iid e digest endpoint =
     (if endpoint = []
      then ret (False, ''not_requested'', ''callback_unroutable'', [''semantic_refusal_origin_missing''])
      else do {
        wake \<leftarrow> ensure_origin_wake ad iid (oe_source_task_id e) endpoint
          (''semantic_refusal_wake:'' @ digest @ '':'' @ endpoint)
          (''semantic_refusal_notify:'' @ digest @ '':'');
        let woken = op_success wake;
        let status1 = (if woken then ''wake_satisfied'' else ''callback_deferred'');
        let errs1 = (case wake of Op_Ok _ \<Rightarrow> []
                     | Op_Failed err _ \<Rightarrow> [str_or err ''refusal_wake_not_yet_accepted'']);
        ack \<leftarrow> apply_board_operation ad iid ''0'' ''record_consumer_ack''
          [(''task_id'', JStr (oe_source_task_id e)), (''endpoint'', JStr endpoint),
           (''status'', JStr ''semantic_refusal_ack'')]
          (''semantic_refusal_consumer_ack:'' @ digest @ '':'' @ endpoint);
        case ack of
          Op_Ok _ \<Rightarrow>
            ret (woken, ''semantic_refusal_ack'', (if woken then ''delivered'' else status1), errs1)
        | Op_Failed err0 _ \<Rightarrow>
            (let err = str_or err0 ''consumer_ack_failed'';
                 status = (if err \<in> set CALLBACK_UNROUTABLE_ERRORS then ''callback_unroutable''
                           else if status1 \<noteq> ''callback_unroutable'' then ''callback_deferred''
                           else status1)
             in ret (woken, ''callback_deferred'', status, errs1 @ [err]))
      })"

definition materialize_refusal ::
    "(string \<Rightarrow> string) \<Rightarrow> 'w adapter option \<Rightarrow> envelope \<Rightarrow> string list \<Rightarrow> string list \<Rightarrow>
       ('w sys, py_error + step_result) state" where
  "materialize_refusal h ad e blockers categories = do {
     creation \<leftarrow> op2 (create_instance (instance_args e (oe_contract_ref e)));
     let created = fst creation;
     let i0 = snd creation;
     let iid = ci_id i0;
     if ad = None
     then ret (Inr \<lparr>st_success = False, st_reason = ''no_adapter'',
            st_state = cstate_value (ci_state i0), st_created_step_ids = [],
            st_metadata = [(''instance_id'', JInt (int iid)), (''created'', JBool created)]\<rparr>)
     else do {
       refreshed \<leftarrow> (if ci_state i0 \<in> {DETECTED, FAILED_RETRYABLE}
         then do {
           op2 (transition iid MATERIALIZING ''semantic_refusal_detected'');
           query (get_instance iid)
         }
         else ret (Some i0));
       case refreshed of
         None \<Rightarrow> ret (Inl AssertionError)
       | Some i \<Rightarrow> do {
           let endpoint = str_or (oe_return_to_ref e) (oe_origin_ref e);
           op1 (record_requirement_satisfaction iid ''semantic_refusal''
             (JObj [(''categories'', JArr (map JStr categories)), (''blockers'', JArr (map JStr blockers))])
             ''semantic_refusal_ack'' (join_with '','' categories) []);
           whenM (ci_state i \<noteq> BLOCKED_INVALID) (do {
             op2 (transition iid BLOCKED_INVALID ''semantic_refusal_quarantined'');
             ret ()
           });
           callbacks \<leftarrow> refusal_callbacks ad iid e (stable_digest h i) endpoint;
           let (woken, ack_status, cb_status, cb_errors) = callbacks;
           state \<leftarrow> query (state_text iid);
           ret (Inr \<lparr>st_success = True, st_reason = [], st_state = state, st_created_step_ids = [],
             st_metadata =
               [(''instance_id'', JInt (int iid)), (''created'', JBool created),
                (''refusal_ack'', JBool True), (''consumer_ack_status'', JStr ack_status),
                (''callback_status'', JStr cb_status),
                (''callback_errors'', JArr (map JStr cb_errors)),
                (''refusal_categories'', JArr (map JStr categories)),
                (''subscribed'', JBool woken), (''endpoint'', JStr endpoint),
                (''created_tasks'', JInt 0)]\<rparr>)
         }
     }
   }"

end
