(* ===== verification/Policies.thy ===== *)
theory Policies
  imports Ledger_Control Requirements
begin

text \<open>
  Standing policies (\<open>standing_policy.py\<close>) and the requirement resolver
  (\<open>requirement_resolver.py\<close>): the fixed ladder system derivation, verified artifact, standing
  policy, context candidate, owner question.
\<close>

subsection \<open>Standing policies\<close>

record standing_policy =
  po_policy_id :: string
  po_version :: nat
  po_owner_ref :: string
  po_project_scope :: string
  po_action_scope :: string
  po_conditions :: "json dict"
  po_decision :: string
  po_created_from_message_ref :: string
  po_enabled :: bool

definition row_to_policy :: "policy_row \<Rightarrow> standing_policy" where
  "row_to_policy r =
     (let decision = (case sp_decision r of
            JObj d \<Rightarrow> (case dict_get d ''decision'' of None \<Rightarrow> [] | Some v \<Rightarrow> py_str v)
          | v \<Rightarrow> py_str v)
      in \<lparr>po_policy_id = sp_policy_id r, po_version = sp_version r, po_owner_ref = sp_owner_ref r,
          po_project_scope = sp_project_scope r, po_action_scope = sp_action_scope r,
          po_conditions = sp_conditions r, po_decision = decision,
          po_created_from_message_ref = sp_source_message_ref r, po_enabled = sp_enabled r\<rparr>)"

definition new_standing_policy ::
    "string \<Rightarrow> string \<Rightarrow> string \<Rightarrow> string \<Rightarrow> string \<Rightarrow> json dict \<Rightarrow> string \<Rightarrow> real \<Rightarrow> store \<Rightarrow>
       standing_policy \<times> store" where
  "new_standing_policy pid owner project action decision conds src now st =
     (let (row, st') = create_standing_policy pid owner project action conds
            (JObj [(''decision'', JStr decision)]) src True now st
      in (row_to_policy row, st'))"

text \<open>\<open>candidate.get(key) != value\<close>: an absent key reads as \<open>None\<close>.\<close>

definition conditions_match :: "json dict \<Rightarrow> json dict \<Rightarrow> bool" where
  "conditions_match policy candidate \<longleftrightarrow>
     (\<forall>(k, v) \<in> set policy. py_eq (case dict_get candidate k of None \<Rightarrow> JNull | Some c \<Rightarrow> c) v)"

definition can_satisfy :: "requirement \<Rightarrow> bool" where
  "can_satisfy r \<longleftrightarrow> rq_kind r \<notin> set POLICY_INELIGIBLE_KINDS"

text \<open>The dictionary of the latest enabled version of each policy id, in order of first appearance.\<close>

definition latest_by_id :: "policy_row list \<Rightarrow> policy_row dict" where
  "latest_by_id ps =
     foldl (\<lambda>d p. case dict_get d (sp_policy_id p) of
                    None \<Rightarrow> dict_set (sp_policy_id p) p d
                  | Some q \<Rightarrow> if sp_version q < sp_version p then dict_set (sp_policy_id p) p d else d)
       [] ps"

definition policy_matches :: "string \<Rightarrow> string \<Rightarrow> string \<Rightarrow> json dict \<Rightarrow> policy_row \<Rightarrow> bool" where
  "policy_matches owner project action conds p \<longleftrightarrow>
     sp_owner_ref p = owner \<and> sp_project_scope p = project \<and> sp_action_scope p = action \<and>
     conditions_match (sp_conditions p) conds"

definition find_match ::
    "store \<Rightarrow> string \<Rightarrow> string \<Rightarrow> string \<Rightarrow> json dict \<Rightarrow> standing_policy option" where
  "find_match st owner project action conds =
     map_option row_to_policy
       (find (policy_matches owner project action conds)
          (map snd (latest_by_id (list_standing_policies True st))))"

definition resolve_policy ::
    "store \<Rightarrow> requirement \<Rightarrow> string \<Rightarrow> string \<Rightarrow> string \<Rightarrow> json dict \<Rightarrow> standing_policy option" where
  "resolve_policy st r owner project action conds =
     (if \<not> can_satisfy r then None else find_match st owner project action conds)"

subsection \<open>The resolver\<close>

text \<open>
  The context dictionary: its four sections. A lookup that finds \<open>None\<close> (JSON \<open>null\<close>) counts as
  no hit. An artifact hit that is a dictionary is read as \<open>value\<close> and \<open>source_ref\<close>.
\<close>

record resolver_context =
  rc_system_derived :: "json dict"
  rc_verified_artifacts :: "json dict"
  rc_context_candidates :: "json dict"
  rc_policy_conditions :: "json dict"

definition get_value :: "json dict \<Rightarrow> string \<Rightarrow> json option" where
  "get_value d k = (case dict_get d k of None \<Rightarrow> None | Some JNull \<Rightarrow> None | Some v \<Rightarrow> Some v)"

definition default_system_deriver :: "requirement \<Rightarrow> resolver_context \<Rightarrow> json option" where
  "default_system_deriver r ctx = get_value (rc_system_derived ctx) (rq_name r)"

definition default_artifact_lookup :: "requirement \<Rightarrow> resolver_context \<Rightarrow> (json option \<times> string) option" where
  "default_artifact_lookup r ctx =
     (case get_value (rc_verified_artifacts ctx) (rq_name r) of
        None \<Rightarrow> None
      | Some (JObj m) \<Rightarrow> Some (get_value m ''value'', get_str m ''source_ref'')
      | Some v \<Rightarrow> Some (Some v, []))"

definition default_context_extractor :: "requirement \<Rightarrow> resolver_context \<Rightarrow> json option" where
  "default_context_extractor r ctx = get_value (rc_context_candidates ctx) (rq_name r)"

text \<open>The three injectable lookups of \<open>HumanEffortResolver\<close>.\<close>

record lookups =
  lk_system_deriver :: "requirement \<Rightarrow> resolver_context \<Rightarrow> json option"
  lk_artifact_lookup :: "requirement \<Rightarrow> resolver_context \<Rightarrow> (json option \<times> string) option"
  lk_context_extractor :: "requirement \<Rightarrow> resolver_context \<Rightarrow> json option"

definition default_lookups :: lookups where
  "default_lookups = \<lparr>lk_system_deriver = default_system_deriver,
     lk_artifact_lookup = default_artifact_lookup, lk_context_extractor = default_context_extractor\<rparr>"

definition resolve_one ::
    "lookups \<Rightarrow> store option \<Rightarrow> resolver_context \<Rightarrow> string \<Rightarrow> string \<Rightarrow> string \<Rightarrow> requirement \<Rightarrow>
       satisfied_requirement option" where
  "resolve_one lk matcher ctx owner project action r =
     (let hit = (\<lambda>v src ref pid. Some \<lparr>sr_requirement = r, sr_value = v, sr_source = src,
                   sr_source_ref = ref, sr_policy_id = pid\<rparr>);
          ask = (case lk_context_extractor lk r ctx of
                   Some v \<Rightarrow> hit v CURRENT_OWNER_REPLY [] []
                 | None \<Rightarrow> None);
          policy = (case matcher of
                      None \<Rightarrow> ask
                    | Some st \<Rightarrow>
                        (case resolve_policy st r owner project action (rc_policy_conditions ctx) of
                           Some p \<Rightarrow> hit (JStr (po_decision p)) STANDING_POLICY [] (po_policy_id p)
                         | None \<Rightarrow> ask))
      in case lk_system_deriver lk r ctx of
           Some v \<Rightarrow> hit v SYSTEM_DERIVED [] []
         | None \<Rightarrow>
             (case lk_artifact_lookup lk r ctx of
                Some (Some v, ref) \<Rightarrow> hit v VERIFIED_ARTIFACT ref []
              | _ \<Rightarrow> policy))"

definition resolve ::
    "lookups \<Rightarrow> store option \<Rightarrow> resolver_context \<Rightarrow> string \<Rightarrow> string \<Rightarrow> string \<Rightarrow> requirement list \<Rightarrow>
       resolution_result" where
  "resolve lk matcher ctx owner project action reqs =
     (let one = resolve_one lk matcher ctx owner project action;
          sat = List.map_filter one reqs;
          unres = filter (\<lambda>r. one r = None) reqs
      in \<lparr>rr_satisfied = sat, rr_unresolved = unres, rr_contradictions = [],
          rr_evidence_refs = filter (\<lambda>x. x \<noteq> []) (map sr_source_ref sat),
          rr_interaction_needed = (unres \<noteq> [])\<rparr>)"

end
