(* ===== verification/Events.thy ===== *)
theory Events
  imports Prelude
begin

text \<open>
  Board events (\<open>board_events.py\<close>): event references and their numeric identity, the event
  sources (in-memory, and the read-only view of a board's kanban database), and the resolution of
  an operator's event reference to one event.

  JSON columns hold the parsed value, \<open>None\<close> for text that is empty or does not parse; a table
  that does not exist is the empty list.
\<close>

record board_event =
  be_event_id :: string
  be_event_seq :: nat
  be_source_task_id :: string
  be_source_graph_id :: string
  be_summary :: string
  be_run_metadata :: "json option"
  be_origin_ref :: string
  be_return_to_ref :: string
  be_workspace_ref :: string
  be_assignee :: string
  be_occurred_at :: real
  be_event_kind :: string
  be_title :: string

subsection \<open>Event references\<close>

definition CANONICAL_EVENT_PREFIX :: string where
  "CANONICAL_EVENT_PREFIX = ''kanban-event-''"

definition canonical_board_event_id :: "nat \<Rightarrow> string" where
  "canonical_board_event_id n = CANONICAL_EVENT_PREFIX @ str_nat n"

definition parse_ref_text :: "string \<Rightarrow> nat option" where
  "parse_ref_text value =
     (let text = py_strip value;
          tail = (if starts_with CANONICAL_EVENT_PREFIX text
                  then drop (length CANONICAL_EVENT_PREFIX) text else text)
      in case nat_of_str tail of None \<Rightarrow> None | Some n \<Rightarrow> if 0 < n then Some n else None)"

definition parse_board_event_ref :: "json \<Rightarrow> nat option" where
  "parse_board_event_ref value =
     (case value of
        JInt i \<Rightarrow> (if 0 < i then Some (nat i) else None)
      | JStr s \<Rightarrow> parse_ref_text s
      | _ \<Rightarrow> None)"

definition board_event_numeric_identity :: "board_event \<Rightarrow> nat option" where
  "board_event_numeric_identity e =
     (case parse_board_event_ref (JStr (be_event_id e)) of
        Some n \<Rightarrow> Some n
      | None \<Rightarrow> if 0 < be_event_seq e then Some (be_event_seq e) else None)"

subsection \<open>Event sources\<close>

text \<open>
  The protocol \<open>BoardEventSource\<close>, with the optional attribute \<open>board\<close> of the live source (the
  empty string when the source has none).
\<close>

record event_source =
  es_board :: string
  es_db_identity :: string
  es_fetch_events_since :: "nat \<Rightarrow> board_event list"
  es_fetch_events_by_seq :: "nat \<Rightarrow> board_event list"
  es_fetch_event_by_id :: "string \<Rightarrow> board_event option"
  es_current_max_seq :: nat

text \<open>\<open>FakeBoardEventSource\<close>.\<close>

definition fake_fetch_since :: "board_event list \<Rightarrow> nat \<Rightarrow> board_event list" where
  "fake_fetch_since es n = sort_key be_event_seq (filter (\<lambda>e. n < be_event_seq e) es)"

definition fake_fetch_by_seq :: "board_event list \<Rightarrow> nat \<Rightarrow> board_event list" where
  "fake_fetch_by_seq es n =
     sort_key be_event_seq (filter (\<lambda>e. board_event_numeric_identity e = Some n) es)"

definition fake_fetch_by_id :: "board_event list \<Rightarrow> string \<Rightarrow> board_event option" where
  "fake_fetch_by_id es ref =
     (case filter (\<lambda>e. be_event_id e = py_strip ref) es of [e] \<Rightarrow> Some e | _ \<Rightarrow> None)"

definition fake_source :: "string \<Rightarrow> board_event list \<Rightarrow> event_source" where
  "fake_source identity es =
     \<lparr>es_board = [], es_db_identity = identity, es_fetch_events_since = fake_fetch_since es,
      es_fetch_events_by_seq = fake_fetch_by_seq es, es_fetch_event_by_id = fake_fetch_by_id es,
      es_current_max_seq = foldr max (map be_event_seq es) 0\<rparr>"

text \<open>The kanban database of a board: the columns the live source reads.\<close>

record task_event_row =
  te_id :: nat
  te_task_id :: string
  te_run_id :: "nat option"
  te_kind :: string
  te_payload :: "json option"
  te_created_at :: real

record kanban_task_row =
  kt_id :: string
  kt_assignee :: string
  kt_title :: string
  kt_workspace_path :: string
  kt_workflow_template_id :: string

record task_run_row =
  tr_id :: nat
  tr_step_key :: string
  tr_summary :: string
  tr_metadata :: "json option"

record notify_sub_row =
  ns_task_id :: string
  ns_platform :: string
  ns_chat_id :: string
  ns_thread_id :: string
  ns_created_at :: real

record kanban_db =
  kb_events :: "task_event_row list"
  kb_tasks :: "kanban_task_row list"
  kb_runs :: "task_run_row list"
  kb_subs :: "notify_sub_row list"

definition TERMINAL_KINDS :: "string list" where
  "TERMINAL_KINDS = [''completed'', ''blocked'', ''failed'', ''crashed'', ''timed_out'']"

definition parse_json_dict :: "json option \<Rightarrow> json dict option" where
  "parse_json_dict raw = (case raw of Some (JObj m) \<Rightarrow> Some m | _ \<Rightarrow> None)"

definition payload_summary :: "json option \<Rightarrow> string" where
  "payload_summary raw =
     (case parse_json_dict raw of
        None \<Rightarrow> []
      | Some m \<Rightarrow>
          (case List.map_filter (\<lambda>k. case dict_get m k of Some (JStr s) \<Rightarrow> if s \<noteq> [] then Some s else None
                                                | _ \<Rightarrow> None)
                 [''summary'', ''verdict'', ''message''] of
             [] \<Rightarrow> [] | s # _ \<Rightarrow> s))"

text \<open>\<open>order by created_at desc limit 1\<close>.\<close>

definition typed_notify_endpoint :: "kanban_db \<Rightarrow> string \<Rightarrow> string" where
  "typed_notify_endpoint k task =
     (if task = [] then []
      else (case sort_key (\<lambda>r. - ns_created_at r) (filter (\<lambda>r. ns_task_id r = task) (kb_subs k)) of
              [] \<Rightarrow> []
            | r # _ \<Rightarrow>
                if ns_platform r = [] \<or> ns_chat_id r = [] then []
                else ns_platform r @ '':'' @ ns_chat_id r @
                     (if ns_thread_id r = [] then [] else '':'' @ ns_thread_id r)))"

definition resolve_endpoint :: "kanban_db \<Rightarrow> string \<Rightarrow> string \<Rightarrow> string" where
  "resolve_endpoint k dflt task = str_or (typed_notify_endpoint k task) dflt"

text \<open>
  The query: terminal events joined to their task, and to their run; an event that names a run is
  dropped when the run is missing.
\<close>

definition row_to_event :: "kanban_db \<Rightarrow> string \<Rightarrow> task_event_row \<Rightarrow> board_event option" where
  "row_to_event k dflt e =
     (case find (\<lambda>t. kt_id t = te_task_id e) (kb_tasks k) of
        None \<Rightarrow> None
      | Some t \<Rightarrow>
          (let run = Option.bind (te_run_id e) (\<lambda>i. find (\<lambda>r. tr_id r = i) (kb_runs k));
               endpoint = resolve_endpoint k dflt (te_task_id e);
               run_summary = (case run of None \<Rightarrow> [] | Some r \<Rightarrow> tr_summary r);
               step_key = (case run of None \<Rightarrow> [] | Some r \<Rightarrow> tr_step_key r)
           in if te_kind e \<notin> set TERMINAL_KINDS \<or> (te_run_id e \<noteq> None \<and> run = None) then None
              else Some
                \<lparr>be_event_id = canonical_board_event_id (te_id e), be_event_seq = te_id e,
                 be_source_task_id = te_task_id e,
                 be_source_graph_id =
                   str_or step_key (str_or (kt_workflow_template_id t) (''graph:'' @ te_task_id e)),
                 be_summary = str_or run_summary (payload_summary (te_payload e)),
                 be_run_metadata =
                   map_option JObj (parse_json_dict (Option.bind run tr_metadata)),
                 be_origin_ref = endpoint, be_return_to_ref = endpoint,
                 be_workspace_ref = kt_workspace_path t, be_assignee = kt_assignee t,
                 be_occurred_at = te_created_at e, be_event_kind = te_kind e,
                 be_title = kt_title t\<rparr>))"

definition live_fetch_since :: "kanban_db \<Rightarrow> string \<Rightarrow> nat \<Rightarrow> nat \<Rightarrow> board_event list" where
  "live_fetch_since k dflt limit n =
     take (max 1 limit)
       (List.map_filter (row_to_event k dflt)
          (sort_key te_id (filter (\<lambda>e. n < te_id e) (kb_events k))))"

definition live_fetch_by_seq :: "kanban_db \<Rightarrow> string \<Rightarrow> nat \<Rightarrow> board_event list" where
  "live_fetch_by_seq k dflt n =
     take 1 (List.map_filter (row_to_event k dflt) (filter (\<lambda>e. te_id e = n) (kb_events k)))"

definition live_fetch_by_id :: "kanban_db \<Rightarrow> string \<Rightarrow> string \<Rightarrow> board_event option" where
  "live_fetch_by_id k dflt ref =
     (case parse_board_event_ref (JStr ref) of
        None \<Rightarrow> None
      | Some n \<Rightarrow> (case live_fetch_by_seq k dflt n of [e] \<Rightarrow> Some e | _ \<Rightarrow> None))"

text \<open>\<open>LiveBoardEventSource\<close>; a missing database file is \<open>None\<close>.\<close>

definition live_source :: "string \<Rightarrow> string \<Rightarrow> string \<Rightarrow> nat \<Rightarrow> kanban_db option \<Rightarrow> event_source" where
  "live_source board identity dflt limit file =
     \<lparr>es_board = board, es_db_identity = str_or identity board,
      es_fetch_events_since = (\<lambda>n. case file of None \<Rightarrow> [] | Some k \<Rightarrow> live_fetch_since k dflt limit n),
      es_fetch_events_by_seq = (\<lambda>n. case file of None \<Rightarrow> [] | Some k \<Rightarrow> live_fetch_by_seq k dflt n),
      es_fetch_event_by_id = (\<lambda>r. case file of None \<Rightarrow> None | Some k \<Rightarrow> live_fetch_by_id k dflt r),
      es_current_max_seq = (case file of None \<Rightarrow> 0 | Some k \<Rightarrow> foldr max (map te_id (kb_events k)) 0)\<rparr>"

subsection \<open>Resolving an operator's reference\<close>

definition resolve_board_event :: "event_source \<Rightarrow> json \<Rightarrow> int option \<Rightarrow> string + board_event" where
  "resolve_board_event src event_id event_seq =
     (let has_id = (event_id \<noteq> JNull \<and> py_strip (py_str event_id) \<noteq> []);
          has_seq = (event_seq \<noteq> None);
          from_seq = Option.bind event_seq (\<lambda>i. parse_board_event_ref (JInt i));
          from_id = (if has_id then parse_board_event_ref event_id else None);
          by_seq = (\<lambda>n. case es_fetch_events_by_seq src n of
                      [] \<Rightarrow> Inl ''event_not_found''
                    | [e] \<Rightarrow> Inr e
                    | _ \<Rightarrow> Inl ''event_reference_ambiguous'')
      in if \<not> has_id \<and> \<not> has_seq then Inl ''event_reference_required''
         else if has_seq \<and> from_seq = None then Inl ''event_reference_invalid''
         else if has_id \<and> has_seq \<and> from_id \<noteq> None \<and> from_id \<noteq> from_seq
           then Inl ''event_reference_mismatch''
         else if has_id \<and> from_id = None then
           (case es_fetch_event_by_id src (py_strip (py_str event_id)) of
              None \<Rightarrow> Inl ''event_reference_invalid''
            | Some e \<Rightarrow> if has_seq \<and> Some (be_event_seq e) \<noteq> from_seq
                        then Inl ''event_reference_mismatch'' else Inr e)
         else (case (from_id, from_seq) of
                 (Some n, _) \<Rightarrow> by_seq n
               | (None, Some n) \<Rightarrow> by_seq n
               | (None, None) \<Rightarrow> Inl ''event_reference_invalid''))"

subsection \<open>Lemmas\<close>

lemma digit_not_space:
  assumes "digit_value c \<noteq> None"
  shows "\<not> is_space c"
proof -
  define n where "n = (of_char c :: nat)"
  from assms have "48 \<le> n \<and> n \<le> 57"
    by (simp add: digit_value_def Let_def n_def split: if_splits)
  then show ?thesis by (simp add: is_space_def Let_def n_def)
qed

lemma py_strip_same:
  assumes "s \<noteq> []" and "\<not> is_space (hd s)" and "\<not> is_space (List.last s)"
  shows "py_strip s = s"
proof -
  have 1: "dropWhile is_space s = s" using assms(1,2) by (cases s) auto
  have "rev s = List.last s # rev (butlast s)"
    using assms(1) by (metis append_butlast_last_id rev.simps(2) rev_rev_ident rev_append append_Cons append_Nil rev_singleton_conv)
  then have "dropWhile is_space (rev s) = rev s" using assms(3) by (metis dropWhile.simps(2))
  with 1 show ?thesis by (simp add: py_strip_def)
qed

lemma last_digit_str_nat: "\<not> is_space (List.last (str_nat n))"
  using all_digits_str_nat [of n] by (intro digit_not_space) (simp add: all_digits_def)

lemma hd_digit_str_nat: "\<not> is_space (hd (str_nat n))"
  using all_digits_str_nat [of n] by (intro digit_not_space) (simp add: all_digits_def)

lemma strip_str_nat: "py_strip (str_nat n) = str_nat n"
  by (simp add: py_strip_same hd_digit_str_nat last_digit_str_nat)

lemma strip_canonical: "py_strip (canonical_board_event_id n) = canonical_board_event_id n"
proof (rule py_strip_same)
  show "canonical_board_event_id n \<noteq> []"
    by (simp add: canonical_board_event_id_def CANONICAL_EVENT_PREFIX_def)
  show "\<not> is_space (hd (canonical_board_event_id n))"
    by (simp add: canonical_board_event_id_def CANONICAL_EVENT_PREFIX_def is_space_def Let_def)
  show "\<not> is_space (List.last (canonical_board_event_id n))"
    by (simp add: canonical_board_event_id_def last_digit_str_nat)
qed

lemma starts_with_append [simp]: "starts_with p (p @ s)"
  by (simp add: starts_with_def)

lemma parse_canonical: "0 < n \<Longrightarrow> parse_ref_text (canonical_board_event_id n) = Some n"
  unfolding parse_ref_text_def Let_def strip_canonical by (simp add: canonical_board_event_id_def)

lemma str_nat_not_prefixed: "\<not> starts_with CANONICAL_EVENT_PREFIX (str_nat n)"
proof
  assume "starts_with CANONICAL_EVENT_PREFIX (str_nat n)"
  then have "take (length CANONICAL_EVENT_PREFIX) (str_nat n) = CANONICAL_EVENT_PREFIX"
    by (simp add: starts_with_def)
  then have "hd (str_nat n) = CHR ''k''"
    by (cases "str_nat n") (simp_all add: CANONICAL_EVENT_PREFIX_def)
  moreover have "digit_value (hd (str_nat n)) \<noteq> None"
    using all_digits_str_nat [of n] by (simp add: all_digits_def)
  ultimately show False by (simp add: digit_value_def Let_def)
qed

lemma parse_plain: "0 < n \<Longrightarrow> parse_ref_text (str_nat n) = Some n"
  by (simp add: parse_ref_text_def strip_str_nat str_nat_not_prefixed)

end
