(* ===== verification/Regex.thy ===== *)
theory Regex
  imports Prelude
begin

text \<open>
  The regular expressions of Python's \<open>re\<close> module, as far as the program uses them: character
  classes, sequence, alternation, greedy and lazy repetition, capture groups, word boundaries, the
  anchors, and look-ahead.

  \<open>re_step r st\<close> lists the ways \<open>r\<close> matches at a position in the order in which the backtracking
  engine of Python tries them, so the first element is the match Python reports and a later part of
  a sequence backtracks into the earlier one. A position is the text before it (reversed), the text
  after it, and the groups captured so far. Case is ignored over ASCII.
\<close>

type_synonym mstate = "string \<times> string \<times> (nat \<times> string) list"

text \<open>Character classes; \<open>CFold c\<close> is the character \<open>c\<close> in either case.\<close>

datatype cclass =
    CLit char
  | CFold char
  | COf string
  | CSpace
  | CDigit
  | CAlpha
  | CWord
  | CNot cclass
  | CUnion cclass cclass
  | CAny

datatype regex =
    RChar cclass
  | REmpty
  | RSeq regex regex
  | RAlt regex regex
  | RStar bool regex
  | RGroup nat regex
  | RBound
  | RTextBegin
  | RTextEnd
  | RLineBegin
  | RLineEnd
  | RAhead regex

definition is_digit :: "char \<Rightarrow> bool" where
  "is_digit c \<longleftrightarrow> (let n = of_char c :: nat in 48 \<le> n \<and> n \<le> 57)"

definition is_alpha :: "char \<Rightarrow> bool" where
  "is_alpha c \<longleftrightarrow> (let n = of_char c :: nat in (65 \<le> n \<and> n \<le> 90) \<or> (97 \<le> n \<and> n \<le> 122))"

definition is_alnum :: "char \<Rightarrow> bool" where
  "is_alnum c \<longleftrightarrow> is_alpha c \<or> is_digit c"

definition is_word :: "char \<Rightarrow> bool" where
  "is_word c \<longleftrightarrow> is_alnum c \<or> c = CHR ''_''"

fun in_class :: "cclass \<Rightarrow> char \<Rightarrow> bool" where
  "in_class (CLit c) x = (x = c)"
| "in_class (CFold c) x = (lower_char x = lower_char c)"
| "in_class (COf s) x = list_ex (\<lambda>c. x = c) s"
| "in_class CSpace x = is_space x"
| "in_class CDigit x = is_digit x"
| "in_class CAlpha x = is_alpha x"
| "in_class CWord x = is_word x"
| "in_class (CNot k) x = (\<not> in_class k x)"
| "in_class (CUnion k l) x = (in_class k x \<or> in_class l x)"
| "in_class CAny x = True"

definition word_at :: "string \<Rightarrow> bool" where
  "word_at s \<longleftrightarrow> (case s of [] \<Rightarrow> False | c # _ \<Rightarrow> is_word c)"

definition line_feed :: char where
  "line_feed = CHR 0x0A"

text \<open>
  Repetition: every further round must consume something, so the number of rounds is bounded by the
  length of the text that is left.
\<close>

fun re_rounds :: "bool \<Rightarrow> (mstate \<Rightarrow> mstate list) \<Rightarrow> nat \<Rightarrow> mstate \<Rightarrow> mstate list" where
  "re_rounds greedy m 0 st = [st]"
| "re_rounds greedy m (Suc n) st =
     (let more = concat (map (re_rounds greedy m n)
        (filter (\<lambda>t. length (fst (snd t)) < length (fst (snd st))) (m st)))
      in if greedy then more @ [st] else st # more)"

fun re_step :: "regex \<Rightarrow> mstate \<Rightarrow> mstate list" where
  "re_step (RChar k) (pre, rest, caps) =
     (case rest of [] \<Rightarrow> [] | c # cs \<Rightarrow> (if in_class k c then [(c # pre, cs, caps)] else []))"
| "re_step REmpty st = [st]"
| "re_step (RSeq r q) st = concat (map (re_step q) (re_step r st))"
| "re_step (RAlt r q) st = re_step r st @ re_step q st"
| "re_step (RStar greedy r) st = re_rounds greedy (re_step r) (length (fst (snd st))) st"
| "re_step (RGroup n r) st = map (\<lambda>(pre, rest, caps).
     (pre, rest, (n, take (length (fst (snd st)) - length rest) (fst (snd st))) # caps)) (re_step r st)"
| "re_step RBound st = (if word_at (fst st) \<noteq> word_at (fst (snd st)) then [st] else [])"
| "re_step RTextBegin st = (if fst st = [] then [st] else [])"
| "re_step RTextEnd st = (if fst (snd st) = [] \<or> fst (snd st) = [line_feed] then [st] else [])"
| "re_step RLineBegin st = (if fst st = [] \<or> hd (fst st) = line_feed then [st] else [])"
| "re_step RLineEnd st = (if fst (snd st) = [] \<or> hd (fst (snd st)) = line_feed then [st] else [])"
| "re_step (RAhead r) st = (if re_step r st = [] then [] else [st])"

subsection \<open>Pattern syntax\<close>

fun re_seq :: "regex list \<Rightarrow> regex" where
  "re_seq [] = REmpty"
| "re_seq [r] = r"
| "re_seq (r # q # rs) = RSeq r (re_seq (q # rs))"

fun re_alts :: "regex list \<Rightarrow> regex" where
  "re_alts [] = RChar (CNot CAny)"
| "re_alts [r] = r"
| "re_alts (r # q # rs) = RAlt r (re_alts (q # rs))"

definition re_lit :: "string \<Rightarrow> regex" where
  "re_lit s = re_seq (map (\<lambda>c. RChar (CLit c)) s)"

text \<open>A literal under \<open>re.IGNORECASE\<close>.\<close>

definition re_ilit :: "string \<Rightarrow> regex" where
  "re_ilit s = re_seq (map (\<lambda>c. RChar (CFold c)) s)"

definition re_words :: "string list \<Rightarrow> regex" where
  "re_words ws = re_alts (map re_ilit ws)"

definition re_one_of :: "string \<Rightarrow> regex" where
  "re_one_of s = RChar (COf s)"

definition re_opt :: "regex \<Rightarrow> regex" where
  "re_opt r = RAlt r REmpty"

definition re_many :: "regex \<Rightarrow> regex" where
  "re_many r = RStar True r"

definition re_plus :: "regex \<Rightarrow> regex" where
  "re_plus r = RSeq r (RStar True r)"

definition re_many_lazy :: "regex \<Rightarrow> regex" where
  "re_many_lazy r = RStar False r"

definition re_plus_lazy :: "regex \<Rightarrow> regex" where
  "re_plus_lazy r = RSeq r (RStar False r)"

fun re_times :: "nat \<Rightarrow> regex \<Rightarrow> regex" where
  "re_times 0 r = REmpty"
| "re_times (Suc n) r = RSeq r (re_times n r)"

definition re_at_least :: "nat \<Rightarrow> regex \<Rightarrow> regex" where
  "re_at_least n r = RSeq (re_times n r) (RStar True r)"

definition re_space :: regex where "re_space = RChar CSpace"
definition re_non_space :: regex where "re_non_space = RChar (CNot CSpace)"
definition re_digit :: regex where "re_digit = RChar CDigit"
definition re_word :: regex where "re_word = RChar CWord"
definition re_dot :: regex where "re_dot = RChar (CNot (CLit line_feed))"
definition re_any :: regex where "re_any = RChar CAny"
definition re_spaces :: regex where "re_spaces = re_many re_space"

subsection \<open>Searching\<close>

definition re_match_at :: "regex \<Rightarrow> string \<Rightarrow> string \<Rightarrow> mstate option" where
  "re_match_at r pre rest = (case re_step r (pre, rest, []) of [] \<Rightarrow> None | m # _ \<Rightarrow> Some m)"

text \<open>A match: the matched text, which is group 0, and the captured groups, the latest first.\<close>

type_synonym re_match = "string \<times> (nat \<times> string) list"

definition match_of :: "string \<Rightarrow> mstate \<Rightarrow> re_match" where
  "match_of rest m = (case m of (pre', rest', caps) \<Rightarrow> (take (length rest - length rest') rest, caps))"

definition group :: "nat \<Rightarrow> re_match \<Rightarrow> string" where
  "group n m = (case map_of (snd m) n of Some s \<Rightarrow> s | None \<Rightarrow> [])"

fun re_search_from :: "regex \<Rightarrow> string \<Rightarrow> string \<Rightarrow> re_match option" where
  "re_search_from r pre [] = map_option (match_of []) (re_match_at r pre [])"
| "re_search_from r pre (c # cs) =
     (case re_match_at r pre (c # cs) of
        Some m \<Rightarrow> Some (match_of (c # cs) m)
      | None \<Rightarrow> re_search_from r (c # pre) cs)"

definition re_search :: "regex \<Rightarrow> string \<Rightarrow> re_match option" where
  "re_search r s = re_search_from r [] s"

definition re_test :: "regex \<Rightarrow> string \<Rightarrow> bool" where
  "re_test r s \<longleftrightarrow> re_search r s \<noteq> None"

definition re_match :: "regex \<Rightarrow> string \<Rightarrow> re_match option" where
  "re_match r s = map_option (match_of s) (re_match_at r [] s)"

definition re_fullmatch :: "regex \<Rightarrow> string \<Rightarrow> bool" where
  "re_fullmatch r s \<longleftrightarrow> (\<exists>m \<in> set (re_step r ([], s, [])). fst (snd m) = [])"

text \<open>\<open>finditer\<close>: the matches from left to right, none overlapping an earlier one.\<close>

function (sequential) re_finditer_from :: "regex \<Rightarrow> string \<Rightarrow> string \<Rightarrow> re_match list" where
  "re_finditer_from r pre rest =
     (case re_match_at r pre rest of
        Some (pre', rest', caps) \<Rightarrow>
          match_of rest (pre', rest', caps) #
          (if length rest' < length rest then re_finditer_from r pre' rest'
           else (case rest of [] \<Rightarrow> [] | c # cs \<Rightarrow> re_finditer_from r (c # pre) cs))
      | None \<Rightarrow> (case rest of [] \<Rightarrow> [] | c # cs \<Rightarrow> re_finditer_from r (c # pre) cs))"
  by pat_completeness auto

termination re_finditer_from
  by (relation "measure (\<lambda>(r, pre, rest). length rest)") auto

declare re_finditer_from.simps [simp del]

definition re_finditer :: "regex \<Rightarrow> string \<Rightarrow> re_match list" where
  "re_finditer r s = re_finditer_from r [] s"

text \<open>\<open>re.sub\<close> with a constant replacement, for patterns that match no empty text.\<close>

function (sequential) re_sub_from :: "regex \<Rightarrow> string \<Rightarrow> string \<Rightarrow> string \<Rightarrow> string" where
  "re_sub_from r by pre rest =
     (case re_match_at r pre rest of
        Some (pre', rest', caps) \<Rightarrow>
          (if length rest' < length rest then by @ re_sub_from r by pre' rest'
           else (case rest of [] \<Rightarrow> by | c # cs \<Rightarrow> by @ c # re_sub_from r by (c # pre) cs))
      | None \<Rightarrow> (case rest of [] \<Rightarrow> [] | c # cs \<Rightarrow> c # re_sub_from r by (c # pre) cs))"
  by pat_completeness auto

termination re_sub_from
  by (relation "measure (\<lambda>(r, b, pre, rest). length rest)") auto

declare re_sub_from.simps [simp del]

definition re_sub :: "regex \<Rightarrow> string \<Rightarrow> string \<Rightarrow> string" where
  "re_sub r by s = re_sub_from r by [] s"

subsection \<open>Lemmas\<close>

text \<open>The classes by the bits of a character, for evaluation.\<close>

lemma lower_char_bits [code]:
  "lower_char (Char b0 b1 b2 b3 b4 b5 b6 b7) =
     Char b0 b1 b2 b3 b4
       (b5 \<or> \<not> b7 \<and> b6 \<and> (b0 \<or> b1 \<or> b2 \<or> b3 \<or> b4) \<and>
         \<not> (b4 \<and> b3 \<and> (b2 \<or> b1 \<and> b0))) b6 b7"
  by (cases b0; cases b1; cases b2; cases b3; cases b4; cases b5; cases b6; cases b7;
      simp add: lower_char_def char_of_def bit_0)

lemma is_digit_bits [code]:
  "is_digit (Char b0 b1 b2 b3 b4 b5 b6 b7) =
     (\<not> b7 \<and> \<not> b6 \<and> b5 \<and> b4 \<and> \<not> (b3 \<and> (b2 \<or> b1)))"
  by (cases b0; cases b1; cases b2; cases b3; cases b4; cases b5; cases b6; cases b7;
      simp add: is_digit_def)

lemma is_alpha_bits [code]:
  "is_alpha (Char b0 b1 b2 b3 b4 b5 b6 b7) =
     (\<not> b7 \<and> b6 \<and> (b0 \<or> b1 \<or> b2 \<or> b3 \<or> b4) \<and> \<not> (b4 \<and> b3 \<and> (b2 \<or> b1 \<and> b0)))"
  by (cases b0; cases b1; cases b2; cases b3; cases b4; cases b5; cases b6; cases b7;
      simp add: is_alpha_def)

lemma is_line_break_bits [code]:
  "is_line_break (Char b0 b1 b2 b3 b4 b5 b6 b7) \<longleftrightarrow>
     \<not> b7 \<and> \<not> b6 \<and> \<not> b5 \<and> b3 \<and> (\<not> b4 \<and> b1 \<noteq> b2 \<or> b4 \<and> b2 \<and> \<not> (b1 \<and> b0))"
  by (cases b0; cases b1; cases b2; cases b3; cases b4; cases b5; cases b6; cases b7;
      simp add: is_line_break_def)

lemma is_space_bits [code]:
  "is_space (Char b0 b1 b2 b3 b4 b5 b6 b7) =
     (\<not> b7 \<and> \<not> b6 \<and>
       (b5 \<and> \<not> b4 \<and> \<not> b3 \<and> \<not> b2 \<and> \<not> b1 \<and> \<not> b0 \<or>
        \<not> b5 \<and> b3 \<and> (b4 \<and> b2 \<or> \<not> b4 \<and> (b2 \<and> \<not> b1 \<or> \<not> b2 \<and> (b1 \<or> b0)))))"
  by (cases b0; cases b1; cases b2; cases b3; cases b4; cases b5; cases b6; cases b7;
      simp add: is_space_def)

text \<open>Matching only moves forward in the text.\<close>

definition advances :: "mstate \<Rightarrow> mstate \<Rightarrow> bool" where
  "advances st t \<longleftrightarrow> (\<exists>u. fst (snd st) = u @ fst (snd t) \<and> fst t = rev u @ fst st)"

lemma advances_refl [simp]: "advances st st"
  by (simp add: advances_def)

lemma advances_trans: "advances r s \<Longrightarrow> advances s t \<Longrightarrow> advances r t"
  by (force simp: advances_def)

lemma re_rounds_advances:
  assumes "\<And>st t. t \<in> set (m st) \<Longrightarrow> advances st t" and "t \<in> set (re_rounds g m n st)"
  shows "advances st t"
  using assms(2)
proof (induction n arbitrary: st)
  case (Suc n)
  then consider "t = st" | u where "u \<in> set (m st)" "t \<in> set (re_rounds g m n u)"
    by (auto simp: Let_def split: if_splits)
  then show ?case by cases (auto intro: advances_trans assms(1) Suc.IH)
qed simp

lemma re_step_advances: "t \<in> set (re_step r st) \<Longrightarrow> advances st t"
proof (induction r arbitrary: st t)
  case (RChar P)
  then show ?case by (cases st) (auto simp: advances_def split: list.splits if_splits)
next
  case (RSeq r q)
  then obtain u where "u \<in> set (re_step r st)" "t \<in> set (re_step q u)" by auto
  then show ?case using RSeq.IH advances_trans by blast
next
  case (RStar g r)
  from RStar.prems have "t \<in> set (re_rounds g (re_step r) (length (fst (snd st))) st)" by simp
  then show ?case by (rule re_rounds_advances [rotated]) (rule RStar.IH)
next
  case (RGroup n r)
  then obtain pre rest caps where "(pre, rest, caps) \<in> set (re_step r st)" "fst t = pre" "fst (snd t) = rest"
    by auto
  with RGroup.IH [of "(pre, rest, caps)" st] show ?case by (simp add: advances_def)
qed (auto split: if_splits)

lemma re_search_Some_infix:
  assumes "re_search_from r pre s = Some m"
  shows "\<exists>a b. s = a @ fst m @ b"
  using assms
proof (induction s arbitrary: pre)
  case Nil
  then show ?case by (auto simp: match_of_def split: prod.splits)
next
  case (Cons c cs)
  show ?case
  proof (cases "re_match_at r pre (c # cs)")
    case None
    with Cons.prems have "re_search_from r (c # pre) cs = Some m" by simp
    from Cons.IH [OF this] obtain a b where "cs = a @ fst m @ b" by auto
    then have "c # cs = (c # a) @ fst m @ b" by simp
    then show ?thesis by blast
  next
    case (Some t)
    then have "fst m = take (length (c # cs) - length (fst (snd t))) (c # cs)"
      using Cons.prems by (auto simp: match_of_def split: prod.splits)
    then show ?thesis by (metis append_Nil append_take_drop_id)
  qed
qed

text \<open>The text a search finds is part of the text searched.\<close>

lemma re_search_infix: "re_search r s = Some m \<Longrightarrow> \<exists>a b. s = a @ fst m @ b"
  unfolding re_search_def by (rule re_search_Some_infix)

end
