(* ===== verification/Sanitize.thy ===== *)
theory Sanitize
  imports Regex
begin

text \<open>
  The durable-text gate of \<open>live/sanitize.py\<close>: what the code lets into its ledgers, receipts and
  messages. \<open>h\<close> stands for \<open>hashlib.sha256(_.encode()).hexdigest()\<close>.
\<close>

subsection \<open>Patterns\<close>

definition PRIVATE_PATH_RE :: regex where
  "PRIVATE_PATH_RE = re_seq [re_opt (re_ilit ''file://''), re_lit ''/'',
     re_words [''home'', ''users'', ''var/folders'', ''tmp'', ''private'', ''mnt'', ''media''],
     re_lit ''/'', re_plus re_non_space]"

definition backslash :: char where
  "backslash = CHR 0x5C"

text \<open>The raw string spells every separator as two backslashes.\<close>

definition WINDOWS_PRIVATE_PATH_RE :: regex where
  "WINDOWS_PRIVATE_PATH_RE = re_seq [RBound, RChar CAlpha, re_lit '':'', re_lit [backslash, backslash],
     re_words [''users'', ''documents and settings''], re_lit [backslash, backslash], re_plus re_non_space]"

definition re_api_key :: regex where
  "re_api_key = re_seq [re_ilit ''api'', re_opt (re_one_of ''_-''), re_ilit ''key'']"

definition SECRET_RE :: regex where
  "SECRET_RE = re_alts
     [re_seq [RBound, re_alts [re_ilit ''token'', re_api_key, re_ilit ''secret''], RBound],
      re_seq [RBound, re_alts [re_ilit ''token'', re_api_key, re_ilit ''secret'', re_ilit ''password'',
          re_ilit ''passwd'', re_ilit ''authorization'', re_ilit ''bearer'', re_ilit ''session'', re_ilit ''cookie''],
        RBound, re_spaces, re_one_of '':='', re_spaces, re_plus re_non_space],
      re_seq [RBound, re_ilit ''bearer'', re_plus re_space, re_plus re_non_space],
      re_seq [RBound, re_alts [re_ilit ''sk'', re_ilit ''ghp'', re_ilit ''gho'', re_ilit ''github_pat'',
          RSeq (re_ilit ''xox'') (RChar (COf ''baprsBAPRS''))],
        re_lit ''-'', re_at_least 12 (RChar (CUnion CWord (CLit CHR ''-'')))]]"

text \<open>\<open>_SAFE_REF_RE.fullmatch\<close>: one letter or digit, then at most 239 characters of the class.\<close>

definition safe_ref_char :: "char \<Rightarrow> bool" where
  "safe_ref_char c \<longleftrightarrow> is_alnum c \<or> c \<in> set ''._:/#@+=-''"

definition safe_ref_text :: "string \<Rightarrow> bool" where
  "safe_ref_text s \<longleftrightarrow> (case s of [] \<Rightarrow> False
     | c # cs \<Rightarrow> is_alnum c \<and> length cs \<le> 239 \<and> list_all safe_ref_char cs)"

subsection \<open>Text\<close>

text \<open>\<open>" ".join(text.split())[:max_len]\<close>.\<close>

fun split_words_acc :: "string \<Rightarrow> string \<Rightarrow> string list" where
  "split_words_acc acc [] = (if acc = [] then [] else [rev acc])"
| "split_words_acc acc (c # cs) =
     (if is_space c then (if acc = [] then split_words_acc [] cs else rev acc # split_words_acc [] cs)
      else split_words_acc (c # acc) cs)"

definition py_split :: "string \<Rightarrow> string list" where
  "py_split s = split_words_acc [] s"

definition short_text :: "nat \<Rightarrow> string \<Rightarrow> string" where
  "short_text max_len s = take max_len (join_with '' '' (py_split s))"

definition contains_sensitive_text :: "string \<Rightarrow> bool" where
  "contains_sensitive_text s \<longleftrightarrow>
     re_test SECRET_RE s \<or> re_test PRIVATE_PATH_RE s \<or> re_test WINDOWS_PRIVATE_PATH_RE s"

definition sanitize_summary :: "string \<Rightarrow> string \<Rightarrow> string \<times> bool" where
  "sanitize_summary v fallback =
     (let text = short_text 240 v in
      if text = [] then (fallback, False)
      else if contains_sensitive_text text then (fallback, True)
      else (text, False))"

definition safe_source_ref :: "(string \<Rightarrow> string) \<Rightarrow> string \<Rightarrow> string \<times> bool" where
  "safe_source_ref h v =
     (let ref = short_text 240 v in
      if ref = [] then ([], False)
      else if contains_sensitive_text ref \<or> \<not> safe_ref_text ref
        then (''ref:sha256:'' @ take 16 (h ref), True)
      else (ref, False))"

definition sanitize_string :: "nat \<Rightarrow> string \<Rightarrow> string \<Rightarrow> string" where
  "sanitize_string max_len fallback v =
     (let text = short_text max_len v in
      if text = [] then text
      else if contains_sensitive_text text then fallback
      else text)"

definition safe_job_field :: "string \<Rightarrow> nat \<Rightarrow> string \<Rightarrow> string \<times> bool" where
  "safe_job_field field max_len v =
     (let text = short_text max_len v in
      if text = [] then (text, False)
      else if contains_sensitive_text text then (field @ '':redacted'', True)
      else (text, False))"

definition safe_durable_ref :: "(string \<Rightarrow> string) \<Rightarrow> string \<Rightarrow> string \<Rightarrow> string \<times> bool" where
  "safe_durable_ref h source_hash v =
     (let ref = short_text 240 v in
      if ref = [] then ([], False)
      else if contains_sensitive_text ref \<or> \<not> safe_ref_text ref
        then (''ref:sha256:'' @ take 16 (h (ref @ '':'' @ source_hash)), True)
      else (ref, False))"

definition line_feed_text :: string where
  "line_feed_text = [line_feed]"

definition safe_body_for_delivery :: "(string \<Rightarrow> string) \<Rightarrow> string \<Rightarrow> string \<Rightarrow> string \<Rightarrow> string \<Rightarrow> string" where
  "safe_body_for_delivery h body job_id source_ref source_hash =
     (let kept = filter (\<lambda>line. \<not> contains_sensitive_text line) (py_splitlines (short_text 2000 body));
          safe0 = join_with line_feed_text kept;
          safe = (if py_strip safe0 = [] then ''AgentFlow dispatch notification'' else safe0)
      in ''job_id: '' @ short_text 240 job_id @ line_feed_text @
         ''source_ref: '' @ fst (safe_source_ref h source_ref) @ line_feed_text @
         ''source_hash: '' @ short_text 240 source_hash @ line_feed_text @ safe)"

subsection \<open>Payloads\<close>

definition ends_with :: "string \<Rightarrow> string \<Rightarrow> bool" where
  "ends_with suffix s \<longleftrightarrow> drop (length s - length suffix) s = suffix \<and> length suffix \<le> length s"

text \<open>\<open>_safe_value\<close>: the other two tests of its key are subsumed by the suffix \<open>ref\<close>.\<close>

definition safe_string :: "(string \<Rightarrow> string) \<Rightarrow> string \<Rightarrow> string \<Rightarrow> string" where
  "safe_string h key s =
     (let lowered = py_lower key in
      if ends_with ''ref'' lowered \<or> ends_with ''_ref'' lowered \<or> lowered \<in> {''raw_ref'', ''source_ref''}
      then fst (safe_durable_ref h [] s)
      else fst (safe_job_field key 2000 s))"

fun safe_value :: "(string \<Rightarrow> string) \<Rightarrow> string \<Rightarrow> json \<Rightarrow> json" where
  "safe_value h key (JStr s) = JStr (safe_string h key s)"
| "safe_value h key (JObj d) = JObj (map (\<lambda>(k, v). (k, safe_value h k v)) d)"
| "safe_value h key (JArr xs) = JArr (map (safe_value h key) xs)"
| "safe_value h key v = v"

definition safe_event_payload :: "(string \<Rightarrow> string) \<Rightarrow> json dict \<Rightarrow> json dict" where
  "safe_event_payload h payload = map (\<lambda>(k, v). (k, safe_value h k v)) payload"

text \<open>
  The values of a snapshot: strings, and lists whose elements are turned into strings; everything
  else passes.
\<close>

definition value_text :: "json \<Rightarrow> string" where
  "value_text v = (case v of JNull \<Rightarrow> [] | _ \<Rightarrow> py_str v)"

definition snapshot_text :: "string \<Rightarrow> json" where
  "snapshot_text s = JStr (if contains_sensitive_text s then ''redacted'' else short_text 240 s)"

definition policy_snapshot :: "json dict \<Rightarrow> json dict" where
  "policy_snapshot d = map (\<lambda>(k, v). (k, case v of
      JStr s \<Rightarrow> snapshot_text s
    | JArr xs \<Rightarrow> JArr (map (\<lambda>x. snapshot_text (value_text x)) xs)
    | _ \<Rightarrow> v)) d"

subsection \<open>Lemmas\<close>

fun leaves :: "string \<Rightarrow> json \<Rightarrow> (string \<times> string) list" where
  "leaves key (JStr s) = [(key, s)]"
| "leaves key (JObj d) = concat (map (\<lambda>(k, v). leaves k v) d)"
| "leaves key (JArr xs) = concat (map (leaves key) xs)"
| "leaves key v = []"

definition payload_leaves :: "json dict \<Rightarrow> (string \<times> string) list" where
  "payload_leaves d = concat (map (\<lambda>(k, v). leaves k v) d)"

text \<open>A text that may stand in a durable payload under a key.\<close>

definition durable :: "(string \<Rightarrow> string) \<Rightarrow> string \<Rightarrow> string \<Rightarrow> bool" where
  "durable h key s \<longleftrightarrow> \<not> contains_sensitive_text s \<and> length s \<le> 2000 \<or> s = key @ '':redacted'' \<or>
     (\<exists>x. s = ''ref:sha256:'' @ take 16 (h x))"

lemma length_short_text [simp]: "length (short_text n s) \<le> n"
  by (simp add: short_text_def)

lemma split_words_acc_first: "acc \<noteq> [] \<Longrightarrow> \<exists>w ws. split_words_acc acc s = w # ws \<and> w \<noteq> []"
  by (induction acc s rule: split_words_acc.induct) auto

lemma short_text_nonempty:
  assumes "\<not> is_space c" and "0 < n"
  shows "short_text n (c # cs) \<noteq> []"
proof -
  have "split_words_acc [] (c # cs) = split_words_acc [c] cs" using assms(1) by simp
  then obtain w ws where "py_split (c # cs) = w # ws" "w \<noteq> []"
    using split_words_acc_first [of "[c]" cs] by (auto simp: py_split_def)
  then have "join_with '' '' (py_split (c # cs)) \<noteq> []" by (cases ws) auto
  then show ?thesis using assms(2) by (simp add: short_text_def)
qed

lemma split_words_acc_words:
  "w \<in> set (split_words_acc acc s) \<Longrightarrow> list_all (\<lambda>c. \<not> is_space c) acc \<Longrightarrow> w \<noteq> [] \<and> list_all (\<lambda>c. \<not> is_space c) w"
proof (induction acc s rule: split_words_acc.induct)
  case (2 acc c cs)
  then show ?case by (cases "is_space c"; cases "acc = []") auto
qed (simp split: if_splits)

lemma short_text_first:
  assumes "short_text n s = c # cs"
  shows "\<not> is_space c"
proof -
  obtain w ws where w: "py_split s = w # ws"
    using assms by (cases "py_split s") (auto simp: short_text_def)
  then have "w \<noteq> [] \<and> list_all (\<lambda>c. \<not> is_space c) w"
    using split_words_acc_words [of w "[]" s] by (simp add: py_split_def)
  then obtain d ds where d: "w = d # ds" "\<not> is_space d" by (cases w) auto
  then have "\<exists>t. join_with '' '' (py_split s) = d # t" using w by (cases ws) auto
  then show ?thesis using assms d by (cases n) (auto simp: short_text_def)
qed

lemma short_text_again: "short_text n s \<noteq> [] \<Longrightarrow> 0 < m \<Longrightarrow> short_text m (short_text n s) \<noteq> []"
  by (cases "short_text n s") (auto dest: short_text_first simp: short_text_nonempty)

text \<open>A word is its own text.\<close>

lemma short_text_word:
  assumes "list_all (\<lambda>c. \<not> is_space c) s" and "length s \<le> n"
  shows "short_text n s = s"
proof -
  have "split_words_acc acc s = (if rev acc @ s = [] then [] else [rev acc @ s])" for acc
    using assms(1) by (induction s arbitrary: acc) auto
  from this [of "[]"] show ?thesis using assms(2) by (simp add: short_text_def py_split_def)
qed

lemma not_sensitive_empty: "\<not> contains_sensitive_text []"
  by code_simp

lemma safe_string_durable: "durable h key (safe_string h key s)"
proof -
  have "durable h key (fst (safe_durable_ref h [] s))"
    using not_sensitive_empty le_trans [OF length_short_text [of 240 s], of 2000]
    by (auto simp: durable_def safe_durable_ref_def Let_def)
  moreover have "durable h key (fst (safe_job_field key 2000 s))"
    using not_sensitive_empty by (auto simp: durable_def safe_job_field_def Let_def)
  ultimately show ?thesis by (simp add: safe_string_def Let_def)
qed

lemma safe_value_durable: "(k, s) \<in> set (leaves key (safe_value h key v)) \<Longrightarrow> durable h k s"
proof (induction h key v rule: safe_value.induct)
  case (2 h key d)
  then show ?case by fastforce
qed (auto simp: safe_string_durable)

end
