(* ===== verification/Verdicts.thy ===== *)
theory Verdicts
  imports Sanitize Outcome "HOL-Library.List_Lexorder" "HOL-Library.Char_ord"
begin

text \<open>
  Reviewer verdicts in free text (\<open>remediation.py\<close>): the verdict marker, the four named blockers, the
  dry-run remediation plan; and the text fallback of \<open>outcome.py\<close> that reads an outcome from
  explicit markers when the run metadata has no structured one.
\<close>

definition upper_char :: "char \<Rightarrow> char" where
  "upper_char c = (let n = of_char c :: nat in if 97 \<le> n \<and> n \<le> 122 then char_of (n - 32) else c)"

definition py_upper :: "string \<Rightarrow> string" where
  "py_upper s = map upper_char s"

lemma upper_char_bits [code]:
  "upper_char (Char b0 b1 b2 b3 b4 b5 b6 b7) =
     Char b0 b1 b2 b3 b4
       (b5 \<and> \<not> (\<not> b7 \<and> b6 \<and> (b0 \<or> b1 \<or> b2 \<or> b3 \<or> b4) \<and>
         \<not> (b4 \<and> b3 \<and> (b2 \<or> b1 \<and> b0)))) b6 b7"
  by (cases b0; cases b1; cases b2; cases b3; cases b4; cases b5; cases b6; cases b7;
      simp add: upper_char_def char_of_def bit_0)

subsection \<open>Verdicts and named blockers\<close>

definition re_verdicts :: regex where
  "re_verdicts = RGroup 1 (re_words [''go'', ''block'', ''need_more''])"

definition VERDICT_RE :: regex where
  "VERDICT_RE = re_seq [RBound, re_ilit ''verdict'', re_spaces, re_lit '':'', re_spaces, re_verdicts, RBound]"

definition re_sep :: regex where
  "re_sep = re_opt (re_one_of ''_ -'')"

definition BLOCKER_PATTERNS :: "(string \<times> regex) list" where
  "BLOCKER_PATTERNS =
     [(''stale_inline_route'', re_alts
        [re_seq [RBound, re_ilit ''stale'', re_sep, re_ilit ''inline'', re_sep, re_ilit ''route'', RBound],
         re_ilit ''claude-openrouter-opus'', re_ilit ''claude-venice-opus'',
         re_seq [re_ilit ''openrouter'', re_spaces, re_lit '','', re_spaces, re_ilit ''anthropic''],
         re_seq [RBound, re_words [''moonshot'', ''kimi''], RBound]]),
      (''stale_trust_grant_wording'', re_alts
        [re_seq [RBound, re_ilit ''stale'', re_sep, re_ilit ''trust'', re_sep, re_ilit ''grant'', re_sep,
           re_ilit ''wording'', RBound],
         re_seq [re_ilit ''trust'', re_one_of ''- '', re_ilit ''grant'', re_many re_dot, re_ilit ''wording''],
         re_seq [re_ilit ''wording'', re_many re_dot, re_ilit ''trust'', re_one_of ''- '', re_ilit ''grant'']]),
      (''missing_subscription'', re_alts
        [re_seq [RBound, re_ilit ''missing'', re_sep, re_ilit ''subscription'', RBound],
         re_ilit ''subscription edge'', re_ilit ''never reliably subscribed'']),
      (''stale_final_fanin'', re_alts
        [re_seq [RBound, re_ilit ''stale'', re_sep, re_ilit ''final'', re_sep, re_ilit ''fanin'', RBound],
         re_ilit ''stale final'',
         re_seq [re_ilit ''final fan'', re_opt (re_one_of ''- ''), re_ilit ''in'']])]"

definition detect_blockers :: "string \<Rightarrow> string list" where
  "detect_blockers text =
     foldl (\<lambda>found (name, r). if re_test r text \<and> name \<notin> set found then found @ [name] else found) []
       BLOCKER_PATTERNS"

record parsed_verdict =
  pv_verdict :: string
  pv_confidence :: string
  pv_blockers :: "string list"
  pv_source_ref :: string

definition parse_verdict_summary :: "string \<Rightarrow> string \<Rightarrow> parsed_verdict" where
  "parse_verdict_summary text source_ref =
     (let m = re_search VERDICT_RE text;
          v = (case m of Some x \<Rightarrow> py_upper (group 1 x) | None \<Rightarrow> ''UNKNOWN'') in
      \<lparr>pv_verdict = v, pv_confidence = (if m \<noteq> None then ''explicit'' else ''none''),
       pv_blockers = (if v \<in> {''BLOCK'', ''NEED_MORE''} then detect_blockers text else []),
       pv_source_ref = source_ref\<rparr>)"

definition parsed_verdict_dict :: "(string \<Rightarrow> string) \<Rightarrow> parsed_verdict \<Rightarrow> json dict" where
  "parsed_verdict_dict h p =
     [(''verdict'', JStr (pv_verdict p)), (''confidence'', JStr (pv_confidence p)),
      (''blockers'', JArr (map JStr (pv_blockers p))),
      (''source_ref'', JStr (fst (safe_durable_ref h [] (pv_source_ref p))))]"

subsection \<open>The remediation plan\<close>

record remediation_proposal =
  rp_kind :: string
  rp_blocker :: string
  rp_title :: string
  rp_action :: string
  rp_idempotency_key :: string
  rp_metadata :: "json dict"

definition proposal_dict :: "(string \<Rightarrow> string) \<Rightarrow> remediation_proposal \<Rightarrow> json dict" where
  "proposal_dict h p = safe_event_payload h
     [(''kind'', JStr (rp_kind p)), (''blocker'', JStr (rp_blocker p)), (''title'', JStr (rp_title p)),
      (''action'', JStr (rp_action p)), (''idempotency_key'', JStr (rp_idempotency_key p)),
      (''metadata'', JObj (rp_metadata p))]"

definition action_by_blocker :: "string dict" where
  "action_by_blocker =
     [(''stale_inline_route'', ''append_policy_refs_and_migrate_inline_route_preview''),
      (''stale_trust_grant_wording'', ''narrow_doc_fix_trust_grant_wording''),
      (''missing_subscription'', ''propose_subscription_edge_review''),
      (''stale_final_fanin'', ''propose_final_v2_supersession_review'')]"

definition title_by_blocker :: "string dict" where
  "title_by_blocker =
     [(''stale_inline_route'', ''PolicyRef migration for stale inline route''),
      (''stale_trust_grant_wording'', ''Fix stale trust-grant wording''),
      (''missing_subscription'', ''Add missing ACK subscription edge''),
      (''stale_final_fanin'', ''Create final-v2 supersession proposal'')]"

definition candidate_sequence :: "string \<Rightarrow> string list" where
  "candidate_sequence blocker =
     (if blocker = ''stale_trust_grant_wording'' then [''fix'', ''review'']
      else [''fix'', ''review'', ''final-vN''])"

definition remediation_key :: "(string \<Rightarrow> string) \<Rightarrow> string \<Rightarrow> string \<Rightarrow> string" where
  "remediation_key h blocker source =
     ''remediation:'' @ blocker @ '':'' @ take 16 (h (blocker @ '':'' @ source))"

text \<open>\<open>None\<close> is the \<open>KeyError\<close> of the two lookups.\<close>

definition proposal_for_blocker ::
    "(string \<Rightarrow> string) \<Rightarrow> string \<Rightarrow> string \<Rightarrow> string \<Rightarrow> nat \<Rightarrow> remediation_proposal option" where
  "proposal_for_blocker h blocker summary source_ref repeat_count =
     (let idem = remediation_key h blocker (str_or source_ref summary) in
      case (dict_get title_by_blocker blocker, dict_get action_by_blocker blocker) of
        (Some title, Some action) \<Rightarrow> Some
          \<lparr>rp_kind = ''remediation_proposal'', rp_blocker = blocker, rp_title = title, rp_action = action,
           rp_idempotency_key = idem,
           rp_metadata =
             [(''dedupe_key'', JStr idem),
              (''same_blocker_repeat_count'', JInt (int repeat_count)),
              (''source_ref'', JStr (short_text 240 (str_or source_ref ''summary''))),
              (''candidate_sequence'', JArr (map JStr (candidate_sequence blocker))),
              (''dry_run_only'', JBool True)]\<rparr>
      | _ \<Rightarrow> None)"

datatype remediation_result =
    Remediation_Refused string "parsed_verdict option"
  | Remediation_Proposed parsed_verdict "remediation_proposal list"

definition plan_remediation ::
    "(string \<Rightarrow> string) \<Rightarrow> string \<Rightarrow> string \<Rightarrow> string list \<Rightarrow> bool \<Rightarrow> py_error + remediation_result" where
  "plan_remediation h summary source_ref prior dry_run =
     (let parsed = parse_verdict_summary summary source_ref in
      if \<not> dry_run then Inr (Remediation_Refused ''live_mutation_disabled'' None)
      else if pv_verdict parsed \<notin> {''BLOCK'', ''NEED_MORE''} \<or> pv_confidence parsed \<noteq> ''explicit''
        then Inr (Remediation_Refused ''no_blocking_verdict'' (Some parsed))
      else if pv_blockers parsed = []
        then Inr (Remediation_Refused ''block_has_no_named_blocker'' (Some parsed))
      else (case those (map (\<lambda>b. proposal_for_blocker h b summary source_ref (count_list prior b + 1))
              (pv_blockers parsed)) of
          None \<Rightarrow> Inl KeyError
        | Some ps \<Rightarrow> Inr (Remediation_Proposed parsed ps)))"

subsection \<open>The text fallback of the outcome parser\<close>

definition OUTCOME_KIND_RE :: regex where
  "OUTCOME_KIND_RE = re_seq [RBound, re_ilit ''outcome-kind'', re_spaces, re_lit '':'', re_spaces,
     RGroup 1 (re_plus (RChar (CUnion CAlpha (CLit CHR ''_''))))]"

definition CONTINUATION_CONTRACT_RE :: regex where
  "CONTINUATION_CONTRACT_RE = re_seq [RBound, re_ilit ''continuation-contract'', re_spaces, re_lit '':'', re_spaces,
     RGroup 1 (re_plus (RChar (CUnion CWord (COf ''.-''))))]"

definition OPERATOR_MUST_RE :: regex where
  "OPERATOR_MUST_RE = re_seq [RBound, re_ilit ''operator'', re_plus re_space, re_ilit ''must'', re_plus re_space,
     re_words [''provide'', ''approve'', ''confirm''], RBound]"

text \<open>\<open>Inl\<close> is an \<open>OutcomeEnvelopeError\<close> that the code does not catch.\<close>

definition from_text_fallback :: "string \<Rightarrow> envelope_common \<Rightarrow> string + envelope" where
  "from_text_fallback text c =
     (let parsed = parse_verdict_summary text [];
          v = (case verdict_of (pv_verdict parsed) of Some x \<Rightarrow> x | None \<Rightarrow> VERDICT_UNKNOWN);
          contract_match = map_option (group 1) (re_search CONTINUATION_CONTRACT_RE text);
          marked = Option.bind (re_search OUTCOME_KIND_RE text)
            (\<lambda>m. continuation_kind_of (py_lower (group 1 m)));
          without_marker =
            (if v \<in> {BLOCK, NEED_MORE} \<and> re_test OPERATOR_MUST_RE text
             then build_envelope v NEEDS_INPUT
               (case contract_match of Some r \<Rightarrow> r | None \<Rightarrow> GENERIC_OWNER_INPUT_CONTRACT) [] [] ''text_explicit'' c
             else if v = BLOCK \<and> pv_blockers parsed \<noteq> []
             then build_envelope v CODE_FIX [] [] [] ''text_explicit'' c
             else if v = GO
             then build_envelope v COMPLETE [] [] [] ''text_explicit'' c
             else unknown_envelope v c)
      in case marked of
           Some k \<Rightarrow>
             (if contract_match \<noteq> None \<or> k = NEEDS_INPUT
              then (let ref0 = (case contract_match of Some r \<Rightarrow> r | None \<Rightarrow> []);
                        ref = (if k = NEEDS_INPUT \<and> ref0 = [] then GENERIC_OWNER_INPUT_CONTRACT else ref0)
                    in case build_envelope v k ref [] [] ''text_explicit'' c of
                         Inl _ \<Rightarrow> unknown_envelope VERDICT_UNKNOWN c
                       | Inr e \<Rightarrow> Inr e)
              else without_marker)
         | None \<Rightarrow> without_marker)"

definition parse_outcome_envelope ::
    "json option \<Rightarrow> string \<Rightarrow> envelope_common \<Rightarrow> py_error + envelope" where
  "parse_outcome_envelope meta summary c =
     (let lift = (\<lambda>r. case r of Inl _ \<Rightarrow> Inl ValueError | Inr e \<Rightarrow> Inr e) in
      case extract_structured meta of
        Some block \<Rightarrow>
          (case from_structured block c of
             Structured_Raises \<Rightarrow> Inl TypeError
           | Structured_Invalid \<Rightarrow> lift (unknown_envelope VERDICT_UNKNOWN c)
           | Structured_Envelope e \<Rightarrow> Inr e)
      | None \<Rightarrow> lift (from_text_fallback summary c))"

subsection \<open>Lemmas\<close>

lemma detect_blockers_named: "set (detect_blockers text) \<subseteq> set (map fst BLOCKER_PATTERNS)"
proof -
  have "set (foldl (\<lambda>found (name, r). if re_test r text \<and> name \<notin> set found then found @ [name] else found) acc ps)
      \<subseteq> set acc \<union> set (map fst ps)" for acc ps
  proof (induction ps arbitrary: acc)
    case (Cons p ps)
    obtain n r where p: "p = (n, r)" by (cases p)
    from Cons.IH [of "if re_test r text \<and> n \<notin> set acc then acc @ [n] else acc"] show ?case
      by (auto simp: p split: if_splits)
  qed simp
  from this [of "[]" BLOCKER_PATTERNS] show ?thesis by (simp add: detect_blockers_def)
qed

lemma blocker_names: "map fst BLOCKER_PATTERNS =
    [''stale_inline_route'', ''stale_trust_grant_wording'', ''missing_subscription'', ''stale_final_fanin'']"
  by (simp add: BLOCKER_PATTERNS_def)

lemma build_envelope_kind: "build_envelope v k ref reqs next conf c = Inr e \<Longrightarrow> oe_kind e = k \<and> oe_verdict e = v"
  by (auto simp: build_envelope_def dest: check_envelope_Inr)

text \<open>Every blocker the code detects has a title and an action, so no lookup fails.\<close>

lemma proposal_for_named:
  assumes "b \<in> set (detect_blockers text)"
  shows "\<exists>p. proposal_for_blocker h b s r n = Some p \<and> rp_blocker p = b"
  using subsetD [OF detect_blockers_named assms]
  by (auto simp: blocker_names proposal_for_blocker_def title_by_blocker_def action_by_blocker_def
      dict_get_def Let_def)

lemma those_map_Some:
  assumes "\<And>x. x \<in> set xs \<Longrightarrow> \<exists>y. f x = Some y \<and> P x y"
  shows "\<exists>ys. those (map f xs) = Some ys \<and> list_all2 P xs ys"
  using assms
proof (induction xs)
  case (Cons x xs)
  then obtain y ys where "f x = Some y" "P x y" "those (map f xs) = Some ys" "list_all2 P xs ys" by force
  then show ?case by simp
qed simp

end
