(* ===== verification/Values.thy ===== *)
theory Values
  imports Prelude
begin

text \<open>
  Python's substring test, \<open>int\<close> on floats, strings and parsed JSON values, and the splitting of texts,
  as the readers of policies, registries and reports use them.
\<close>

text \<open>Whether \<open>needle in text\<close>.\<close>

fun contains_text :: "string \<Rightarrow> string \<Rightarrow> bool" where
  "contains_text needle [] = (needle = [])"
| "contains_text needle (c # cs) = (starts_with needle (c # cs) \<or> contains_text needle cs)"

text \<open>Truncation towards zero.\<close>

definition py_trunc :: "real \<Rightarrow> int" where
  "py_trunc x = (if x < 0 then - \<lfloor>- x\<rfloor> else \<lfloor>x\<rfloor>)"

text \<open>The digits of an integer literal, with single underscores between digits.\<close>

fun digit_groups :: "string \<Rightarrow> string \<Rightarrow> string list" where
  "digit_groups acc [] = [rev acc]"
| "digit_groups acc (c # cs) =
     (if c = CHR ''_'' then rev acc # digit_groups [] cs else digit_groups (c # acc) cs)"

definition int_digits :: "string \<Rightarrow> nat option" where
  "int_digits s =
     (let gs = digit_groups [] s in if list_all all_digits gs then Some (digits_value (concat gs)) else None)"

definition int_of_str :: "string \<Rightarrow> int option" where
  "int_of_str s =
     (let t = py_strip s in
      case t of
        c # r \<Rightarrow> (if c = CHR ''-'' then map_option (\<lambda>n. - int n) (int_digits r)
                   else if c = CHR ''+'' then map_option int (int_digits r)
                   else map_option int (int_digits t))
      | [] \<Rightarrow> None)"

text \<open>\<open>int(value)\<close> of a parsed JSON value.\<close>

fun py_int :: "json \<Rightarrow> py_error + int" where
  "py_int (JInt i) = Inr i"
| "py_int (JBool b) = Inr (if b then 1 else 0)"
| "py_int (JFloat r _) = Inr (py_trunc r)"
| "py_int (JStr s) = (case int_of_str s of None \<Rightarrow> Inl ValueError | Some i \<Rightarrow> Inr i)"
| "py_int _ = Inl TypeError"

definition int_field :: "json dict \<Rightarrow> string \<Rightarrow> int \<Rightarrow> py_error + int" where
  "int_field raw key dflt = (case dict_get raw key of None \<Rightarrow> Inr dflt | Some v \<Rightarrow> py_int v)"

text \<open>\<open>str.rstrip()\<close>, \<open>str.strip(chars)\<close>, and the text before and after the first character of a kind.\<close>

definition py_rstrip :: "string \<Rightarrow> string" where
  "py_rstrip s = rev (dropWhile is_space (rev s))"

definition strip_chars :: "string \<Rightarrow> string \<Rightarrow> string" where
  "strip_chars cs s = rev (dropWhile (\<lambda>c. c \<in> set cs) (rev (dropWhile (\<lambda>c. c \<in> set cs) s)))"

definition split_at_char :: "(char \<Rightarrow> bool) \<Rightarrow> string \<Rightarrow> string \<times> string option" where
  "split_at_char p s =
     (case dropWhile (\<lambda>c. \<not> p c) s of [] \<Rightarrow> (s, None) | _ # r \<Rightarrow> (takeWhile (\<lambda>c. \<not> p c) s, Some r))"

text \<open>\<open>_summary_marker\<close>: the value of the first \<open>Marker: value\<close> line.\<close>

definition marker_value :: "string \<Rightarrow> string \<Rightarrow> string option" where
  "marker_value wanted line =
     (case split_at_char (\<lambda>c. c = CHR '':'') line of
        (_, None) \<Rightarrow> None
      | (key, Some v) \<Rightarrow> if py_lower (py_strip key) = wanted then Some (py_strip v) else None)"

definition summary_marker :: "string \<Rightarrow> string \<Rightarrow> string" where
  "summary_marker text marker =
     (case List.map_filter (marker_value (py_lower (py_strip marker))) (py_splitlines text) of
        [] \<Rightarrow> [] | v # _ \<Rightarrow> v)"

end
