(* ===== verification/Compiler.thy ===== *)
theory Compiler
  imports Verdicts Requirements Values
begin

text \<open>
  The outcome compiler (\<open>outcome_compiler.py\<close>): structured metadata, flat reviewer metadata, the
  deterministic grammar of natural summaries, and the injectable model compiler, in this order, with
  the unsafe-category gate that turns a BLOCK into a refusal instead of a code fix.
\<close>

subsection \<open>Stages\<close>

datatype stage = STRUCTURED | FLAT | DETERMINISTIC | MODEL | UNRESOLVED

fun stage_value :: "stage \<Rightarrow> string" where
  "stage_value STRUCTURED = ''structured_metadata''"
| "stage_value FLAT = ''flat_reviewer_metadata''"
| "stage_value DETERMINISTIC = ''deterministic_grammar''"
| "stage_value MODEL = ''model_compiled''"
| "stage_value UNRESOLVED = ''unresolved''"

fun stage_confidence :: "stage \<Rightarrow> real" where
  "stage_confidence STRUCTURED = 1"
| "stage_confidence FLAT = 95 / 100"
| "stage_confidence DETERMINISTIC = 9 / 10"
| "stage_confidence MODEL = 1 / 2"
| "stage_confidence UNRESOLVED = 0"

record compiled_outcome =
  oc_envelope :: envelope
  oc_stage :: stage
  oc_confidence :: real
  oc_requirements :: "requirement list"
  oc_blockers :: "string list"
  oc_refusal_categories :: "string list"

definition mk_compiled :: "envelope \<Rightarrow> stage \<Rightarrow> requirement list \<Rightarrow> string list \<Rightarrow> string list \<Rightarrow> compiled_outcome" where
  "mk_compiled e st reqs blockers categories =
     \<lparr>oc_envelope = e, oc_stage = st, oc_confidence = stage_confidence st, oc_requirements = reqs,
      oc_blockers = blockers, oc_refusal_categories = categories\<rparr>"

subsection \<open>Patterns\<close>

definition BARE_VERDICT_RE :: regex where
  "BARE_VERDICT_RE = re_seq [RTextBegin, re_spaces,
     re_opt (re_seq [re_ilit ''verdict'', re_spaces, re_lit '':'', re_spaces]), re_verdicts, RBound]"

definition PENDING_OWNER_RE :: regex where
  "PENDING_OWNER_RE = re_seq [re_ilit ''pending'', re_plus re_space,
     re_opt (RSeq (re_ilit ''the'') (re_plus re_space)),
     re_ilit ''owner'', re_opt (RChar (CLit CHR 0x27)), re_opt (re_ilit ''s''), re_plus re_space,
     RGroup 1 (RSeq (RChar CAlpha) (re_many_lazy (RChar (CUnion CWord (COf '' -''))))),
     RAlt (RAhead (RChar (CUnion (COf ''.,;'') (CLit line_feed)))) RTextEnd]"

definition BLOCKER_FIELD_RE :: regex where
  "BLOCKER_FIELD_RE = re_seq [RLineBegin, re_spaces,
     re_alts [RSeq (re_ilit ''blocker'') (re_opt (re_ilit ''s'')),
       RSeq (re_ilit ''blocking finding'') (re_opt (re_ilit ''s'')),
       re_ilit ''failure'', re_ilit ''issue'', re_ilit ''reason''],
     re_spaces, re_lit '':'', re_spaces, RGroup 1 (re_plus_lazy re_dot), re_spaces, RLineEnd]"

definition BULLET_RE :: regex where
  "BULLET_RE = re_seq [RLineBegin, re_spaces, re_one_of ''-*'', re_plus re_space,
     RGroup 1 (re_plus_lazy re_dot), re_spaces, RLineEnd]"

definition BLOCKERS_HEADING_RE :: regex where
  "BLOCKERS_HEADING_RE = re_seq [RLineBegin, re_spaces, re_ilit ''blocker'', re_opt (re_ilit ''s''),
     re_spaces, re_lit '':'', re_spaces, RLineEnd]"

definition OWNER_EXTERNAL_RE :: regex where
  "OWNER_EXTERNAL_RE = re_seq [RBound, re_alts
     [re_words [''owner'', ''operator'', ''human'', ''approval'', ''approve'', ''confirm'', ''input''],
      RSeq (re_ilit ''credential'') (re_opt (re_ilit ''s'')),
      re_seq [re_ilit ''external'', re_sep, re_ilit ''wait''],
      re_seq [re_ilit ''waiting'', re_plus re_space, re_ilit ''for''],
      re_seq [re_ilit ''pending'', re_plus re_space, re_ilit ''owner'']], RBound]"

definition NO_BLOCKER_RE :: regex where
  "NO_BLOCKER_RE = re_seq [RBound, re_alts
     [re_ilit ''none'', RSeq (re_ilit ''no blocker'') (re_opt (re_ilit ''s'')),
      re_seq [re_ilit ''n'', re_opt (re_lit ''/''), re_ilit ''a''], re_ilit ''not applicable''], RBound]"

definition re_dash :: regex where
  "re_dash = re_opt (re_one_of ''- '')"

definition re_key_of :: "string \<Rightarrow> regex" where
  "re_key_of s = re_seq [re_ilit s, re_sep, re_ilit ''key'']"

definition UNSAFE_CATEGORY_RES :: "(string \<times> regex) list" where
  "UNSAFE_CATEGORY_RES =
     [(''credentials_secrets'', re_seq [RBound, re_alts
        [RSeq (re_ilit ''credential'') (re_opt (re_ilit ''s'')), re_ilit ''secret'', re_ilit ''secrets'',
         re_key_of ''api'', re_key_of ''access'', re_key_of ''private'', re_key_of ''ssh'',
         re_ilit ''password'', re_ilit ''passphrase'', re_ilit ''token'', re_ilit ''oauth'',
         RSeq (re_ilit ''.env'') RBound,
         re_seq [re_ilit ''env'', re_plus re_space, re_ilit ''var'', re_opt (re_ilit ''iable''),
           re_opt (re_ilit ''s'')]], RBound]),
      (''destructive_data_loss'', re_seq [RBound, re_alts
        [re_ilit ''destructive'', re_seq [re_ilit ''data'', re_sep, re_ilit ''loss''],
         re_words [''irreversible'', ''unrecoverable'', ''delete'', ''deletion'', ''drop'', ''truncate'',
           ''wipe'', ''purge'', ''destroy''],
         re_seq [re_ilit ''rm'', re_plus re_space, re_ilit ''-rf''],
         re_seq [re_ilit ''drop'', re_plus re_space, re_ilit ''table'']], RBound]),
      (''owner_user_proof'', re_alts
        [re_seq [RBound, re_words [''owner'', ''operator'', ''human'', ''user''], RBound, re_many_lazy re_dot,
           RBound, re_alts [RSeq (re_ilit ''approv'') (re_many re_word),
             re_seq [re_ilit ''sign'', re_dash, re_ilit ''off''], re_ilit ''proof'',
             RSeq (re_ilit ''attest'') (re_many re_word), re_ilit ''input'',
             RSeq (re_ilit ''confirm'') (re_many re_word), re_ilit ''decision'',
             RSeq (re_ilit ''authoriz'') (re_many re_word), re_ilit ''permission''], RBound],
         re_seq [RBound, re_ilit ''owner'', re_dash, re_ilit ''only'', RBound],
         re_seq [RBound, RAlt (re_seq [re_ilit ''sign'', re_dash, re_ilit ''off'']) (re_ilit ''attestation''),
           RBound]]),
      (''live_money_financial'', RAlt
        (re_seq [RBound, re_alts
          [re_words [''money'', ''monetary'', ''financial'', ''finance''],
           RSeq (re_ilit ''fund'') (re_opt (re_ilit ''s'')), re_words [''payment'', ''payout''],
           re_seq [re_ilit ''pay'', re_dash, re_ilit ''out''],
           re_words [''invoice'', ''billing'', ''charge'', ''refund''],
           re_seq [re_ilit ''wire'', re_dash, re_ilit ''transfer''],
           re_seq [re_ilit ''live'', re_dash, re_ilit ''money''],
           re_words [''purchase'', ''transaction'']], RBound])
        (RSeq (RChar (CLit CHR 0x24)) re_digit))]"

text \<open>\<open>sorted(found)\<close>: the names are ASCII, so Python's order is the lexicographic one.\<close>

definition unsafe_blocker_categories :: "string list \<Rightarrow> string list" where
  "unsafe_blocker_categories candidates = sort (foldl
     (\<lambda>found text. foldl (\<lambda>found (name, r).
        if name \<notin> set found \<and> re_test r text then found @ [name] else found) found UNSAFE_CATEGORY_RES)
     [] candidates)"

subsection \<open>Text helpers\<close>

text \<open>\<open>str.strip(chars)\<close> and \<open>tuple(dict.fromkeys(xs))\<close>.\<close>

definition first_occurrences :: "'a list \<Rightarrow> 'a list" where
  "first_occurrences xs = rev (remdups (rev xs))"

definition slugify_field_name :: "string \<Rightarrow> string" where
  "slugify_field_name phrase = strip_chars ''_''
     (re_sub (re_plus (RChar (CNot (CUnion (COf ''abcdefghijklmnopqrstuvwxyz'') CDigit)))) ''_''
        (py_lower (py_strip phrase)))"

definition no_blocker :: "string \<Rightarrow> bool" where
  "no_blocker s \<longleftrightarrow> re_fullmatch NO_BLOCKER_RE s \<or> re_test NO_BLOCKER_RE s"

definition named_candidates :: "regex \<Rightarrow> string \<Rightarrow> string list" where
  "named_candidates r text =
     filter (\<lambda>c. c \<noteq> [] \<and> \<not> no_blocker c) (map (\<lambda>m. py_strip (group 1 m)) (re_finditer r text))"

definition blocker_candidates_from_text :: "string \<Rightarrow> string list" where
  "blocker_candidates_from_text text =
     (let candidates = named_candidates BLOCKER_FIELD_RE text
      in first_occurrences
        (if candidates = [] \<and> re_test BLOCKERS_HEADING_RE text then named_candidates BULLET_RE text
         else candidates))"

definition is_concrete_code_blocker :: "string \<Rightarrow> bool" where
  "is_concrete_code_blocker candidate =
     (let c = strip_chars ''.;'' (py_strip candidate) in
      if length c < 8 then False
      else if no_blocker c then False
      else if re_test OWNER_EXTERNAL_RE c then False
      else True)"

definition generic_blockers_from_text :: "string \<Rightarrow> string list" where
  "generic_blockers_from_text text = filter is_concrete_code_blocker (blocker_candidates_from_text text)"

subsection \<open>Requirements of an envelope\<close>

definition input_kind :: "json dict \<Rightarrow> requirement_kind" where
  "input_kind m = (case requirement_kind_of (str_or (get_str m ''kind'') ''fact'') of
     Some k \<Rightarrow> k | None \<Rightarrow> FACT)"

definition has_name :: "json dict \<Rightarrow> bool" where
  "has_name m \<longleftrightarrow> (case dict_get m ''name'' of None \<Rightarrow> False | Some v \<Rightarrow> truthy v)"

text \<open>The last input of a name wins, as in the two dictionaries of the code.\<close>

definition input_of_name :: "json list \<Rightarrow> string \<Rightarrow> json dict option" where
  "input_of_name items name =
     map_of (rev (List.map_filter (\<lambda>j. case j of
        JObj m \<Rightarrow> if has_name m then Some (get_str m ''name'', m) else None | _ \<Rightarrow> None) items)) name"

definition plain_requirement :: "string \<Rightarrow> requirement_kind \<Rightarrow> string \<Rightarrow> string \<Rightarrow> requirement" where
  "plain_requirement name kind authority question =
     \<lparr>rq_name = name, rq_kind = kind, rq_authority = authority, rq_question = question,
      rq_answer_hint = [], rq_allowed_values = [], rq_required = True, rq_description = []\<rparr>"

definition requirements_from_envelope :: "envelope \<Rightarrow> json list \<Rightarrow> requirement list" where
  "requirements_from_envelope e items = map (\<lambda>r.
     case input_of_name items (rf_name r) of
       None \<Rightarrow> plain_requirement (rf_name r) FACT (rf_authority r) []
     | Some m \<Rightarrow> plain_requirement (rf_name r) (input_kind m) (rf_authority r) (get_str m ''question''))
     (oe_requirements e)"

subsection \<open>Flat reviewer metadata\<close>

definition flat_blocker_list :: "json option \<Rightarrow> string list" where
  "flat_blocker_list raw =
     (case raw of
        Some (JArr xs) \<Rightarrow> filter (\<lambda>b. b \<noteq> []) (map (\<lambda>b. py_strip (py_str b)) xs)
      | Some (JStr s) \<Rightarrow> (if py_strip s = [] then [] else [py_strip s])
      | _ \<Rightarrow> [])"

definition extract_flat_blockers :: "json option \<Rightarrow> string list option" where
  "extract_flat_blockers meta =
     (case meta of
        Some (JObj m) \<Rightarrow>
          (if dict_get m ''verdict'' = None \<or>
              (case dict_get m ''agentflow_outcome'' of Some (JObj _) \<Rightarrow> True | _ \<Rightarrow> False)
           then None
           else Some (flat_blocker_list (dict_get m ''blockers'')))
      | _ \<Rightarrow> None)"

definition ok_envelope :: "string + envelope \<Rightarrow> envelope option" where
  "ok_envelope r = (case r of Inl _ \<Rightarrow> None | Inr e \<Rightarrow> Some e)"

definition metadata_verdict :: "json option \<Rightarrow> verdict option" where
  "metadata_verdict meta =
     (case meta of Some (JObj m) \<Rightarrow> verdict_of (py_upper (get_str m ''verdict'')) | _ \<Rightarrow> None)"

definition compile_flat_reviewer ::
    "json option \<Rightarrow> envelope_common \<Rightarrow> (envelope \<times> string list) option" where
  "compile_flat_reviewer meta c =
     (case extract_flat_blockers meta of
        None \<Rightarrow> None
      | Some blockers \<Rightarrow>
          (case metadata_verdict meta of
             None \<Rightarrow> None
           | Some v \<Rightarrow>
               if v \<in> {BLOCK, NEED_MORE} \<and> blockers \<noteq> []
               then map_option (\<lambda>e. (e, blockers)) (ok_envelope (build_envelope v
                 (if unsafe_blocker_categories blockers \<noteq> [] then SEMANTIC_REFUSAL else CODE_FIX)
                 [] [] [] ''flat_metadata'' c))
               else if v = GO
               then map_option (\<lambda>e. (e, [])) (ok_envelope (build_envelope v COMPLETE [] [] [] ''flat_metadata'' c))
               else None))"

subsection \<open>The deterministic grammar\<close>

definition compile_generic_blocker_prose ::
    "string \<Rightarrow> envelope_common \<Rightarrow> (envelope \<times> requirement list) option" where
  "compile_generic_blocker_prose text c =
     (case verdict_of (pv_verdict (parse_verdict_summary text [])) of
        None \<Rightarrow> None
      | Some v \<Rightarrow>
          if v \<notin> {BLOCK, NEED_MORE} then None
          else (let candidates = blocker_candidates_from_text text in
            if unsafe_blocker_categories candidates \<noteq> []
            then map_option (\<lambda>e. (e, []))
              (ok_envelope (build_envelope v SEMANTIC_REFUSAL [] [] [] ''deterministic_grammar'' c))
            else if filter is_concrete_code_blocker candidates = [] then None
            else map_option (\<lambda>e. (e, []))
              (ok_envelope (build_envelope v CODE_FIX [] [] [] ''deterministic_grammar'' c))))"

definition compile_natural_prose ::
    "string \<Rightarrow> envelope_common \<Rightarrow> (envelope \<times> requirement list) option" where
  "compile_natural_prose text c =
     (case Option.bind (re_search BARE_VERDICT_RE text) (\<lambda>m. verdict_of (py_upper (group 1 m))) of
        None \<Rightarrow> None
      | Some v \<Rightarrow>
          if v \<notin> {BLOCK, NEED_MORE} then None
          else (case re_search PENDING_OWNER_RE text of
            None \<Rightarrow> None
          | Some m \<Rightarrow>
              (let name = slugify_field_name (group 1 m) in
               if name = [] then None
               else map_option
                 (\<lambda>e. (e, [plain_requirement name FACT ''owner'' (replace_char CHR ''_'' CHR '' '' name @ ''?'')]))
                 (ok_envelope (build_envelope v NEEDS_INPUT GENERIC_OWNER_INPUT_CONTRACT
                    [\<lparr>rf_name = name, rf_authority = ''owner''\<rparr>] [] ''deterministic_grammar'' c)))))"

text \<open>\<open>Inl\<close> is an \<open>OutcomeEnvelopeError\<close> of the text fallback.\<close>

definition compile_deterministic ::
    "string \<Rightarrow> envelope_common \<Rightarrow> string + (envelope \<times> requirement list) option" where
  "compile_deterministic text c =
     (case from_text_fallback text c of
        Inl err \<Rightarrow> Inl err
      | Inr fallback \<Rightarrow>
          if oe_kind fallback \<noteq> KIND_UNKNOWN
          then Inr (Some (fallback, requirements_from_envelope fallback []))
          else (case compile_generic_blocker_prose text c of
            Some r \<Rightarrow> Inr (Some r)
          | None \<Rightarrow> Inr (compile_natural_prose text c)))"

subsection \<open>The model stage\<close>

type_synonym model_compiler = "string \<Rightarrow> string \<Rightarrow> string \<Rightarrow> string \<Rightarrow> string list \<Rightarrow> json dict option"

definition default_model_compiler :: model_compiler where
  "default_model_compiler = (\<lambda>title summary kind_text assignee refs. None)"

definition candidate_requirement :: "json \<Rightarrow> requirement option" where
  "candidate_requirement j =
     (case j of
        JObj m \<Rightarrow> if has_name m
          then Some (plain_requirement (get_str m ''name'') (input_kind m)
            (str_or (get_str m ''authority'') ''owner'') (get_str m ''question''))
          else None
      | _ \<Rightarrow> None)"

text \<open>\<open>Inl\<close> is the \<open>TypeError\<close> of iterating over a number or a Boolean.\<close>

definition compile_model_candidate ::
    "json dict \<Rightarrow> envelope_common \<Rightarrow> py_error + (envelope \<times> requirement list) option" where
  "compile_model_candidate candidate c =
     (case (verdict_of (get_str candidate ''verdict''),
            continuation_kind_of (get_str candidate ''continuation_kind'')) of
        (Some v, Some k) \<Rightarrow>
          if k \<noteq> NEEDS_INPUT then Inr None
          else (case iterate_json (dict_get candidate ''required_inputs'') of
            None \<Rightarrow> Inl TypeError
          | Some items \<Rightarrow>
              (let reqs = List.map_filter candidate_requirement items;
                   refs = map (\<lambda>r. \<lparr>rf_name = rq_name r, rf_authority = rq_authority r\<rparr>) reqs
               in Inr (map_option (\<lambda>e. (e, reqs)) (ok_envelope (build_envelope v k
                    (str_or (get_str candidate ''contract_ref'') GENERIC_OWNER_INPUT_CONTRACT) refs
                    (get_str candidate ''resume_transition'') ''model_compiled'' c)))))
      | _ \<Rightarrow> Inr None)"

text \<open>
  \<open>float(text)\<close> of a decimal literal: sign, digits, fraction, exponent. The words \<open>inf\<close> and \<open>nan\<close>
  and underscores between digits are refused here.
\<close>

definition unsign :: "string \<Rightarrow> bool \<times> string" where
  "unsign s = (case s of c # r \<Rightarrow> if c = CHR ''-'' then (True, r) else if c = CHR ''+'' then (False, r)
                                  else (False, s) | [] \<Rightarrow> (False, []))"

definition float_of_str :: "string \<Rightarrow> real option" where
  "float_of_str text =
     (let (neg, body) = unsign (py_strip text);
          (mant, expo) = split_at_char (\<lambda>c. c = CHR ''e'' \<or> c = CHR ''E'') body;
          (whole, frac) = split_at_char (\<lambda>c. c = CHR ''.'') mant;
          f = (case frac of None \<Rightarrow> [] | Some x \<Rightarrow> x);
          scale = (case expo of None \<Rightarrow> Some 0
                   | Some x \<Rightarrow> (let (eneg, digits) = unsign x in
                       map_option (\<lambda>n. if eneg then - int n else int n) (nat_of_str digits)))
      in case (nat_of_str (whole @ f), scale) of
           (Some n, Some k) \<Rightarrow>
             Some ((if neg then - 1 else 1) * real n * 10 powi (k - int (length f)))
         | _ \<Rightarrow> None)"

definition py_float :: "json \<Rightarrow> py_error + real" where
  "py_float v =
     (case v of
        JStr s \<Rightarrow> (case float_of_str s of None \<Rightarrow> Inl ValueError | Some r \<Rightarrow> Inr r)
      | _ \<Rightarrow> (case num_of v of None \<Rightarrow> Inl TypeError | Some r \<Rightarrow> Inr r))"

definition candidate_confidence :: "json dict \<Rightarrow> py_error + real" where
  "candidate_confidence candidate =
     (case dict_get candidate ''confidence'' of
        None \<Rightarrow> Inr (stage_confidence MODEL)
      | Some v \<Rightarrow> if truthy v then py_float v else Inr (stage_confidence MODEL))"

subsection \<open>The pipeline\<close>

definition unresolved_outcome :: "envelope_common \<Rightarrow> py_error + compiled_outcome" where
  "unresolved_outcome c =
     (case unknown_envelope VERDICT_UNKNOWN c of
        Inl _ \<Rightarrow> Inl ValueError
      | Inr e \<Rightarrow> Inr (mk_compiled e UNRESOLVED [] [] []))"

definition compile_model ::
    "model_compiler \<Rightarrow> string \<Rightarrow> string \<Rightarrow> string \<Rightarrow> string list \<Rightarrow> envelope_common \<Rightarrow> py_error + compiled_outcome" where
  "compile_model model title summary kind_text refs c =
     (case model title summary kind_text (ec_assignee c) refs of
        None \<Rightarrow> unresolved_outcome c
      | Some candidate \<Rightarrow>
          (case compile_model_candidate candidate c of
             Inl err \<Rightarrow> Inl err
           | Inr None \<Rightarrow> unresolved_outcome c
           | Inr (Some (e, reqs)) \<Rightarrow>
               (case candidate_confidence candidate of
                  Inl err \<Rightarrow> Inl err
                | Inr conf \<Rightarrow> Inr ((mk_compiled e MODEL reqs [] [])\<lparr>oc_confidence := conf\<rparr>))))"

definition deterministic_outcome :: "string \<Rightarrow> envelope \<Rightarrow> requirement list \<Rightarrow> compiled_outcome" where
  "deterministic_outcome summary e reqs =
     (case oe_kind e of
        CODE_FIX \<Rightarrow>
          (let named = pv_blockers (parse_verdict_summary summary [])
           in mk_compiled e DETERMINISTIC reqs
                (if named = [] then generic_blockers_from_text summary else named) [])
      | SEMANTIC_REFUSAL \<Rightarrow>
          (let candidates = blocker_candidates_from_text summary
           in mk_compiled e DETERMINISTIC reqs (filter (\<lambda>b. unsafe_blocker_categories [b] \<noteq> []) candidates)
                (unsafe_blocker_categories candidates))
      | _ \<Rightarrow> mk_compiled e DETERMINISTIC reqs [] [])"

definition compile_outcome ::
    "model_compiler \<Rightarrow> json option \<Rightarrow> string \<Rightarrow> string \<Rightarrow> string \<Rightarrow> string list \<Rightarrow> envelope_common \<Rightarrow>
       py_error + compiled_outcome" where
  "compile_outcome model meta summary title kind_text refs c =
     (case extract_structured meta of
        Some block \<Rightarrow>
          (case from_structured block c of
             Structured_Raises \<Rightarrow> Inl TypeError
           | Structured_Invalid \<Rightarrow> unresolved_outcome c
           | Structured_Envelope e \<Rightarrow>
               (case iterate_json (dict_get block ''required_inputs'') of
                  None \<Rightarrow> Inl TypeError
                | Some items \<Rightarrow> Inr (mk_compiled e STRUCTURED (requirements_from_envelope e items) [] [])))
      | None \<Rightarrow>
          (case compile_flat_reviewer meta c of
             Some (e, blockers) \<Rightarrow> Inr (mk_compiled e FLAT [] blockers
               (if oe_kind e = SEMANTIC_REFUSAL then unsafe_blocker_categories blockers else []))
           | None \<Rightarrow>
               (case compile_deterministic summary c of
                  Inl _ \<Rightarrow> Inl ValueError
                | Inr (Some (e, reqs)) \<Rightarrow> Inr (deterministic_outcome summary e reqs)
                | Inr None \<Rightarrow> compile_model model title summary kind_text refs c)))"

end
