(* ===== verification/Engine.thy ===== *)
theory Engine
  imports Semantic_Refusal Policies Events Compiler
begin

text \<open>
  The board-aware router (\<open>continuation_engine.py\<close>): one event, one routing decision; the
  external-wait conditions; and the reconciliation of the outbox. The two graph routers and the
  roadmap promotion are fields of \<open>ingest_options\<close>: any functions of the event.
  The routers act on the board only, so their type gives them no access to the ledger.

  A section of the run metadata that is neither absent, falsy nor a dictionary makes the lookups of
  the resolver raise; the model raises \<open>AttributeError\<close> when it reads the context.
\<close>

subsection \<open>The resolution ladder of a NEEDS_INPUT outcome\<close>

definition metadata_section :: "json option \<Rightarrow> string \<Rightarrow> json dict option" where
  "metadata_section meta key =
     (case meta of
        Some (JObj m) \<Rightarrow>
          (case dict_get m key of
             None \<Rightarrow> Some []
           | Some (JObj d) \<Rightarrow> Some d
           | Some v \<Rightarrow> if truthy v then None else Some [])
      | _ \<Rightarrow> Some [])"

definition context_for :: "json option \<Rightarrow> resolver_context option" where
  "context_for meta =
     (case (metadata_section meta ''system_derived'', metadata_section meta ''verified_artifacts'',
            metadata_section meta ''context_candidates'', metadata_section meta ''policy_conditions'') of
        (Some a, Some b, Some c, Some d) \<Rightarrow> Some
          \<lparr>rc_system_derived = a, rc_verified_artifacts = b, rc_context_candidates = c,
           rc_policy_conditions = d\<rparr>
      | _ \<Rightarrow> None)"

text \<open>\<open>ContractRegistry.get\<close>; an unknown reference raises \<open>UnknownContractError\<close>.\<close>

definition registry_get :: "input_contract dict \<Rightarrow> string \<Rightarrow> input_contract option" where
  "registry_get contracts ref = dict_get contracts ref"

definition requirement_of_field :: "input_field \<Rightarrow> requirement" where
  "requirement_of_field f =
     \<lparr>rq_name = if_name f, rq_kind = if_kind f, rq_authority = field_authority_value (if_authority f),
      rq_question = if_question f, rq_answer_hint = [], rq_allowed_values = [], rq_required = True,
      rq_description = []\<rparr>"

text \<open>The requirements to resolve and the contract to ask under; \<open>None\<close> is the \<open>ValueError\<close> of an
unknown authority.\<close>

definition effective_contract ::
    "string \<Rightarrow> input_contract \<Rightarrow> requirement list \<Rightarrow> (requirement list \<times> input_contract) option" where
  "effective_contract ref c reqs0 =
     (let reqs = (if reqs0 = [] then map requirement_of_field (owner_fields c) else reqs0)
      in if ref = GENERIC_OWNER_INPUT_CONTRACT \<and> reqs \<noteq> []
         then map_option (Pair reqs)
                (dynamic_owner_input (co_contract_ref c) (co_owner_role c) (co_resume_transition c) reqs 1)
         else Some (reqs, c))"

datatype event_result =
    Noop string
  | Auto_Resolved nat bool string
  | Owner_Input_Planned nat bool string
  | Roadmap_Routed bool "json dict"
  | Code_Fix_Applied step_result
  | Code_Fix_Routed bool
  | Semantic_Refusal_Applied step_result
  | Semantic_Refusal_Detected "string list"
  | External_Wait_Registered nat bool

text \<open>Every requirement resolved: the instance, its satisfactions and the automatic receipt.\<close>

definition record_satisfied :: "nat \<Rightarrow> satisfied_requirement list \<Rightarrow> ('w sys, unit) state" where
  "record_satisfied iid sat = for_each sat (\<lambda>s. do {
     op1 (record_requirement_satisfaction iid (rq_name (sr_requirement s)) (sr_value s)
       (satisfaction_source_value (sr_source s)) (sr_source_ref s) (sr_policy_id s));
     ret ()
   })"

definition auto_resolve ::
    "(string \<Rightarrow> string) \<Rightarrow> 'w adapter option \<Rightarrow> envelope \<Rightarrow> string \<Rightarrow> input_contract \<Rightarrow>
       satisfied_requirement list \<Rightarrow> ('w sys, py_error + event_result) state" where
  "auto_resolve h ad e ref c sat = do {
     creation \<leftarrow> op2 (create_instance (instance_args e ref));
     let iid = ci_id (snd creation);
     refreshed \<leftarrow> (if fst creation
       then do { op2 (transition iid WAITING_OWNER ''needs_input_detected_h0''); query (get_instance iid) }
       else ret (Some (snd creation)));
     record_satisfied iid sat;
     case refreshed of
       None \<Rightarrow> ret (Inl TypeError)
     | Some i \<Rightarrow> do {
         r \<leftarrow> on_receipt h ad i \<lparr>su_owner_ref = ''system:auto-resolved'', su_fields = satisfied_values sat,
                su_source_ref = ''requirement_resolver''\<rparr> c;
         ret (Inr (Auto_Resolved iid (fst creation) (str_or (st_state r) (cstate_value (ci_state i)))))
       }
   }"

definition owner_input_like ::
    "(string \<Rightarrow> string) \<Rightarrow> 'w adapter option \<Rightarrow> envelope \<Rightarrow> requirement list \<Rightarrow> json option \<Rightarrow> string \<Rightarrow>
       input_contract dict \<Rightarrow> inbox option \<Rightarrow> ('w sys, py_error + event_result) state" where
  "owner_input_like h ad e reqs0 meta board contracts ib =
     (let ref = str_or (oe_contract_ref e) GENERIC_OWNER_INPUT_CONTRACT in
      case registry_get contracts ref of
        None \<Rightarrow> ret (Inr (Noop ''unknown_contract_ref''))
      | Some c0 \<Rightarrow>
          (case effective_contract ref c0 reqs0 of
             None \<Rightarrow> ret (Inl ValueError)
           | Some (reqs, c) \<Rightarrow>
               (case context_for meta of
                  None \<Rightarrow> ret (Inl AttributeError)
                | Some ctx \<Rightarrow> do {
                    result \<leftarrow> query (\<lambda>st. resolve default_lookups (Some st) ctx [] board ref reqs);
                    if \<not> rr_interaction_needed result
                    then auto_resolve h ad e ref c (rr_satisfied result)
                    else do {
                      plan \<leftarrow> plan_owner_input h ad e c ib (rr_unresolved result) [] [];
                      ret (case plan of
                             Inl err \<Rightarrow> Inl err
                           | Inr p \<Rightarrow> Inr (Owner_Input_Planned (cp_instance_id p) (cp_created p) (cp_state p)))
                    }
                  })))"

subsection \<open>External waits\<close>

record wait_intent =
  wi_kind :: string
  wi_target :: string
  wi_desired :: string
  wi_poll_interval_seconds :: real
  wi_resume_transition :: string

definition external_wait_block :: "json option \<Rightarrow> json dict" where
  "external_wait_block meta =
     (case extract_structured meta of
        None \<Rightarrow> []
      | Some b \<Rightarrow> (case dict_get b ''external_wait'' of Some (JObj w) \<Rightarrow> w | _ \<Rightarrow> []))"

definition external_wait_intent :: "json option \<Rightarrow> envelope \<Rightarrow> py_error + wait_intent" where
  "external_wait_intent meta e =
     (let w = external_wait_block meta;
          interval = (case dict_get w ''poll_interval_seconds'' of
                        Some v \<Rightarrow> if truthy v then v else JInt 60 | None \<Rightarrow> JInt 60)
      in case py_float interval of
           Inl err \<Rightarrow> Inl err
         | Inr r \<Rightarrow> Inr
             \<lparr>wi_kind = get_str w ''kind'', wi_target = get_str w ''target'',
              wi_desired = get_str w ''desired'', wi_poll_interval_seconds = r,
              wi_resume_transition = str_or (get_str w ''resume_transition'') (oe_next_transition e)\<rparr>)"

definition mk_wait :: "(nat \<times> wait_intent \<times> real) \<Rightarrow> nat \<Rightarrow> wait_row" where
  "mk_wait = (\<lambda>(iid, w, now) i.
     \<lparr>ew_id = i, ew_continuation_id = iid, ew_kind = wi_kind w, ew_target = wi_target w,
      ew_desired = wi_desired w, ew_poll_interval_seconds = wi_poll_interval_seconds w,
      ew_resume_transition = wi_resume_transition w, ew_state = ''pending'',
      ew_last_checked_at = 0, ew_created_at = now, ew_updated_at = now\<rparr>)"

definition register_wait :: "nat \<Rightarrow> wait_intent \<Rightarrow> real \<Rightarrow> store \<Rightarrow> unit \<times> store" where
  "register_wait iid w now st =
     (case select_one (\<lambda>r. ew_continuation_id r = iid) (waits st) of
        Some _ \<Rightarrow> ((), st)
      | None \<Rightarrow> ((), st\<lparr>waits := snd (insert_row (mk_wait (iid, w, now)) (waits st))\<rparr>))"

definition handle_external_wait ::
    "envelope \<Rightarrow> json option \<Rightarrow> ('w sys, py_error + event_result) state" where
  "handle_external_wait e meta = do {
     creation \<leftarrow> op2 (create_instance (instance_args e (oe_contract_ref e)));
     let iid = ci_id (snd creation);
     let done = Inr (External_Wait_Registered iid (fst creation));
     if \<not> fst creation then ret done
     else do {
       op2 (transition iid MATERIALIZING ''external_wait_registered'');
       case external_wait_intent meta e of
         Inl err \<Rightarrow> ret (Inl err)
       | Inr w \<Rightarrow> do { op1 (register_wait iid w); ret done }
     }
   }"

definition mark_wait :: "nat \<Rightarrow> string option \<Rightarrow> real \<Rightarrow> store \<Rightarrow> unit \<times> store" where
  "mark_wait wid outcome now st =
     ((), st\<lparr>waits := update_where (\<lambda>r. ew_id r = wid)
        (\<lambda>r. r\<lparr>ew_last_checked_at := now, ew_updated_at := now,
               ew_state := (if outcome = Some ''satisfied'' then ''satisfied''
                            else if outcome = Some ''failed'' then ''failed_permanent''
                            else ew_state r)\<rparr>) (waits st)\<rparr>)"

definition wait_due :: "real \<Rightarrow> wait_row \<Rightarrow> bool" where
  "wait_due now r \<longleftrightarrow>
     (if ew_poll_interval_seconds r = 0 then 60 else ew_poll_interval_seconds r)
       \<le> now - ew_last_checked_at r"

definition poll_condition ::
    "(wait_row \<Rightarrow> 'w \<Rightarrow> string option \<times> 'w) \<Rightarrow> real \<Rightarrow> wait_row \<Rightarrow> ('w sys, nat \<times> nat \<times> string) state" where
  "poll_condition checker now r = do {
     outcome \<leftarrow> board_call (checker r);
     op0 (mark_wait (ew_id r) outcome now);
     let iid = ew_continuation_id r;
     (if outcome = Some ''satisfied'' then do {
       op2 (transition iid RESUMABLE ''external_wait_satisfied'');
       op2 (transition iid RESUMED ''external_wait_resumed'');
       ret ()
     }
     else whenM (outcome = Some ''failed'') (do {
       op2 (transition iid FAILED_RETRYABLE ''external_wait_failed_permanent'');
       ret ()
     }));
     ret (ew_id r, iid, str_or (opt_str outcome) ''pending'')
   }"

definition poll_external_wait_conditions ::
    "(wait_row \<Rightarrow> 'w \<Rightarrow> string option \<times> 'w) \<Rightarrow> real option \<Rightarrow> ('w sys, (nat \<times> nat \<times> string) list) state" where
  "poll_external_wait_conditions checker now0 = do {
     now \<leftarrow> (case now0 of None \<Rightarrow> time_now | Some t \<Rightarrow> ret t);
     pending \<leftarrow> query (\<lambda>st. select_where (\<lambda>r. ew_state r = ''pending'') (waits st));
     map_each (filter (wait_due now) pending) (poll_condition checker now)
   }"

definition default_external_wait_checker :: "wait_row \<Rightarrow> 'w \<Rightarrow> string option \<times> 'w" where
  "default_external_wait_checker r w = (None, w)"

subsection \<open>Reconciling the outbox\<close>

definition due_outbox :: "real \<Rightarrow> store \<Rightarrow> (outbox_row \<times> string) list" where
  "due_outbox now st =
     List.map_filter (\<lambda>r. map_option (\<lambda>i. (r, ci_board i)) (get_instance (ob_continuation_id r) st))
       (list_due_outbox ''pending'' now st)"

text \<open>One row; a mandatory method that the adapter lacks raises.\<close>

definition reconcile_wake ::
    "'w adapter \<Rightarrow> outbox_row \<Rightarrow> string \<Rightarrow> string \<Rightarrow> ('w sys, py_error + board_result) state" where
  "reconcile_wake a row task endpoint = do {
     sat \<leftarrow> origin_wake_satisfied (Some a) task endpoint;
     if sat then ret (Inr (br_ok None))
     else if ob_last_error row = ''origin_wake_not_yet_accepted''
     then ret (Inr (br_fail ''origin_wake_not_yet_accepted''))
     else (case a_schedule_origin_wake a of
       None \<Rightarrow> ret (Inl AttributeError)
     | Some schedule \<Rightarrow> do {
         result \<leftarrow> board_call (schedule task endpoint);
         if br_success result then do {
           sat2 \<leftarrow> origin_wake_satisfied (Some a) task endpoint;
           ret (Inr (if sat2 then result else br_fail ''origin_wake_not_yet_accepted''))
         }
         else ret (Inr result)
       })
   }"

definition reconcile_ack ::
    "'w adapter \<Rightarrow> string \<Rightarrow> string \<Rightarrow> string \<Rightarrow> ('w sys, board_result) state" where
  "reconcile_ack a task endpoint status =
     (let missing = br_fail ''adapter_missing_record_consumer_ack'' in
      case a_consumer_ack_satisfied a of
        None \<Rightarrow> (case a_record_consumer_ack a of
                   None \<Rightarrow> ret missing | Some record_ack \<Rightarrow> board_call (record_ack task endpoint status))
      | Some check \<Rightarrow> do {
          verified \<leftarrow> board_call (check task endpoint status);
          if verified_ok verified then ret (br_ok None)
          else (case a_record_consumer_ack a of
            None \<Rightarrow> ret missing
          | Some record_ack \<Rightarrow> do {
              result \<leftarrow> board_call (record_ack task endpoint status);
              if br_success result then do {
                after \<leftarrow> board_call (check task endpoint status);
                ret (if verified_ok after then result else br_fail ''consumer_ack_not_verified'')
              }
              else ret result
            })
        })"

definition reconcile_call ::
    "'w adapter \<Rightarrow> outbox_row \<Rightarrow> ('w sys, py_error + board_result) state" where
  "reconcile_call a row =
     (let operation = str_or (ob_operation row) ''create_task'';
          payload = ob_payload row;
          task = get_str payload ''task_id''; endpoint = get_str payload ''endpoint'';
          inr = (\<lambda>m. do { r \<leftarrow> m; ret (Inr r) }) in
      if operation = ''create_task'' then inr (board_call (a_create_task a payload))
      else if operation = ''subscribe'' then inr (board_call (a_subscribe a task endpoint))
      else if operation = ''schedule_origin_wake'' then reconcile_wake a row task endpoint
      else if operation = ''complete_owner_anchor''
        then inr (board_call (a_complete_owner_anchor a task (get_str payload ''receipt_ref'')))
      else if operation = ''record_consumer_ack''
        then inr (reconcile_ack a task endpoint (get_str payload ''status''))
      else ret (Inr (br_fail ''unknown_outbox_operation'')))"

definition reconcile_row :: "'w adapter \<Rightarrow> outbox_row \<Rightarrow> ('w sys, py_error + bool) state" where
  "reconcile_row a row = do {
     called \<leftarrow> reconcile_call a row;
     case called of
       Inl err \<Rightarrow> ret (Inl err)
     | Inr result \<Rightarrow>
         if br_success result then do {
           let task = opt_str (br_task_id result);
           op1 (outbox_mark (ob_id row) ''applied'' task None None);
           (case nat_of_str (ob_step_id row) of
              None \<Rightarrow> ret ()
            | Some sid \<Rightarrow> do { op1 (mark_step sid (Some ''applied'') task); ret () });
           ret (Inr True)
         }
         else do {
           mark_outbox_pending row (take 200 (str_or (opt_str (br_error result)) ''adapter_error''));
           ret (Inr False)
         }
   }"

fun reconcile_rows ::
    "(string \<Rightarrow> 'w adapter option) \<Rightarrow> (outbox_row \<times> string) list \<Rightarrow>
       ('w sys, py_error + string list \<times> string list) state" where
  "reconcile_rows adapter_of [] = ret (Inr ([], []))"
| "reconcile_rows adapter_of ((row, board) # rest) =
     (case adapter_of board of
        None \<Rightarrow> reconcile_rows adapter_of rest
      | Some a \<Rightarrow> do {
          done \<leftarrow> reconcile_row a row;
          case done of
            Inl err \<Rightarrow> ret (Inl err)
          | Inr good \<Rightarrow> do {
              r \<leftarrow> reconcile_rows adapter_of rest;
              ret (case r of
                Inl err \<Rightarrow> Inl err
              | Inr (retried, failed) \<Rightarrow>
                  Inr (if good then (ob_idempotency_key row # retried, failed)
                       else (retried, ob_idempotency_key row # failed)))
            }
        })"

definition reconcile_outbox ::
    "(string \<Rightarrow> 'w adapter option) \<Rightarrow> ('w sys, (py_error + string list \<times> string list) \<times> nat) state" where
  "reconcile_outbox adapter_of = do {
     now \<leftarrow> time_now;
     due \<leftarrow> query (due_outbox now);
     r \<leftarrow> reconcile_rows adapter_of due;
     ret (r, length due)
   }"

end
