(* ===== verification/Ingest.thy ===== *)
theory Ingest
  imports Engine
begin

text \<open>
  The ingestion loop (\<open>ingest_board_once\<close>, \<open>ingest_all_boards\<close>) and the operator commands that
  account for one historical event (\<open>backfill_code_fix_event\<close>, \<open>record_operator_resolution_receipt\<close>).
\<close>

text \<open>The fields of \<open>RepoRoadmapConfig\<close> the router itself reads.\<close>

record roadmap_switches =
  rg_enabled :: bool
  rg_kill_switch :: bool
  rg_expected_origin :: string
  rg_expected_return_to :: string

text \<open>The arguments of the promotion that the router computes.\<close>

record promotion =
  pm_event :: board_event
  pm_origin :: string
  pm_return_to :: string
  pm_subscription_status :: string
  pm_policy_resolution_ref :: string
  pm_apply :: bool

record 'w ingest_options =
  io_hash :: "string \<Rightarrow> string"
  io_contracts :: "input_contract dict"
  io_adapter :: "'w adapter option"
  io_roadmap_router :: "(board_event \<Rightarrow> string \<Rightarrow> string \<Rightarrow> 'w \<Rightarrow> json dict \<times> 'w) option"
  io_code_fix_router :: "board_event \<Rightarrow> string \<Rightarrow> string \<Rightarrow> 'w \<Rightarrow> json dict \<times> 'w"
  io_handle_kinds :: "continuation_kind list option"
  io_default_endpoint :: string
  io_inbox :: "inbox option"
  io_roadmap_config :: "roadmap_switches option"
  io_promote :: "promotion \<Rightarrow> 'w \<Rightarrow> json dict \<times> 'w"
  io_apply :: bool

definition router_success :: "json dict \<Rightarrow> bool" where
  "router_success r = (case dict_get r ''success'' of None \<Rightarrow> False | Some v \<Rightarrow> truthy v)"

definition roadmap_noop :: "string \<Rightarrow> json dict" where
  "roadmap_noop reason =
     [(''success'', JBool True), (''action'', JStr ''noop''), (''reason'', JStr reason),
      (''created_task_ids'', JArr [])]"

definition route_roadmap ::
    "'w ingest_options \<Rightarrow> board_event \<Rightarrow> string \<Rightarrow> string \<Rightarrow> ('w sys, json dict) state" where
  "route_roadmap io e origin return_to =
     (case (io_roadmap_config io, io_roadmap_router io) of
        (None, Some router) \<Rightarrow> board_call (router e origin return_to)
      | (None, None) \<Rightarrow> ret (roadmap_noop ''no_transition_config'')
      | (Some cfg, _) \<Rightarrow>
          if \<not> rg_enabled cfg \<or> rg_kill_switch cfg
          then ret (roadmap_noop ''transition_config_disabled'')
          else board_call (io_promote io
            \<lparr>pm_event = e, pm_origin = str_or (rg_expected_origin cfg) origin,
             pm_return_to = str_or (rg_expected_return_to cfg) return_to,
             pm_subscription_status =
               str_or (summary_marker (be_summary e) ''Subscription-Status'') ''unverified'',
             pm_policy_resolution_ref = summary_marker (be_summary e) ''Policy-Resolution-Ref'',
             pm_apply = io_apply io\<rparr>))"

text \<open>The three callers of \<open>compile_outcome\<close> pass the event's own fields and no model compiler.\<close>

definition event_common :: "board_event \<Rightarrow> string \<Rightarrow> string \<Rightarrow> string \<Rightarrow> envelope_common" where
  "event_common e board origin return_to =
     \<lparr>ec_event_id = be_event_id e, ec_board = board, ec_source_task_id = be_source_task_id e,
      ec_source_graph_id = be_source_graph_id e, ec_origin_ref = origin, ec_return_to_ref = return_to,
      ec_workspace_ref = be_workspace_ref e, ec_assignee = be_assignee e,
      ec_occurred_at = be_occurred_at e\<rparr>"

definition compile_event ::
    "board_event \<Rightarrow> string \<Rightarrow> string \<Rightarrow> string \<Rightarrow> py_error + compiled_outcome" where
  "compile_event e board origin return_to =
     compile_outcome default_model_compiler (be_run_metadata e) (be_summary e) (be_title e)
       (be_event_kind e) [] (event_common e board origin return_to)"

text \<open>
  One event: its result, and whether the loop goes on (\<open>False\<close> is the fail-closed \<open>break\<close>, which
  leaves the cursor before this event).
\<close>

definition going_on :: "('w sys, py_error + event_result) state \<Rightarrow>
    ('w sys, py_error + event_result \<times> bool) state" where
  "going_on m = do { r \<leftarrow> m; ret (case r of Inl e \<Rightarrow> Inl e | Inr x \<Rightarrow> Inr (x, True)) }"

definition route_step :: "(step_result \<Rightarrow> event_result) \<Rightarrow>
    ('w sys, py_error + step_result) state \<Rightarrow> ('w sys, py_error + event_result \<times> bool) state" where
  "route_step mk m = do { r \<leftarrow> m; ret (case r of Inl e \<Rightarrow> Inl e | Inr s \<Rightarrow> Inr (mk s, st_success s)) }"

definition route_event ::
    "'w ingest_options \<Rightarrow> string \<Rightarrow> board_event \<Rightarrow> string \<Rightarrow> string \<Rightarrow> compiled_outcome \<Rightarrow>
       ('w sys, py_error + event_result \<times> bool) state" where
  "route_event io board e origin return_to oc =
     (let env = oc_envelope oc; h = io_hash io; ad = io_adapter io;
          live = (io_apply io \<and> ad \<noteq> None) in
      case oe_kind env of
        NEEDS_INPUT \<Rightarrow> going_on (owner_input_like h ad env (oc_requirements oc) (be_run_metadata e) board
                          (io_contracts io) (io_inbox io))
      | APPROVAL_REQUIRED \<Rightarrow> going_on (owner_input_like h ad env (oc_requirements oc) (be_run_metadata e) board
                          (io_contracts io) (io_inbox io))
      | ROADMAP_NEXT \<Rightarrow> do {
          r \<leftarrow> route_roadmap io e origin return_to;
          ret (Inr (Roadmap_Routed (router_success r) r, router_success r))
        }
      | COMPLETE \<Rightarrow> do {
          r \<leftarrow> route_roadmap io e origin return_to;
          ret (Inr (Roadmap_Routed (router_success r) r, router_success r))
        }
      | CODE_FIX \<Rightarrow>
          if live then route_step Code_Fix_Applied (materialize_code_fix h ad env (oc_blockers oc))
          else do {
            r \<leftarrow> board_call (io_code_fix_router io e origin return_to);
            ret (Inr (Code_Fix_Routed (router_success r), True))
          }
      | SEMANTIC_REFUSAL \<Rightarrow>
          if live
          then route_step Semantic_Refusal_Applied
                 (materialize_refusal h ad env (oc_blockers oc) (oc_refusal_categories oc))
          else ret (Inr (Semantic_Refusal_Detected (oc_refusal_categories oc), True))
      | EXTERNAL_WAIT \<Rightarrow> going_on (handle_external_wait env (be_run_metadata e))
      | KIND_UNKNOWN \<Rightarrow> ret (Inr (Noop ''unknown_outcome'', True)))"

definition process_event ::
    "'w ingest_options \<Rightarrow> string \<Rightarrow> board_event \<Rightarrow> ('w sys, py_error + event_result \<times> bool) state" where
  "process_event io board e =
     (let origin = str_or (be_origin_ref e) (io_default_endpoint io);
          return_to = str_or (be_return_to_ref e) (io_default_endpoint io) in
      case compile_event e board origin return_to of
        Inl err \<Rightarrow> ret (Inl err)
      | Inr oc \<Rightarrow>
          if (case io_handle_kinds io of None \<Rightarrow> False | Some ks \<Rightarrow> oe_kind (oc_envelope oc) \<notin> set ks)
          then ret (Inr (Noop ''kind_not_handled'', True))
          else route_event io board e origin return_to oc)"

fun ingest_events ::
    "'w ingest_options \<Rightarrow> string \<Rightarrow> board_event list \<Rightarrow> nat \<Rightarrow>
       ('w sys, py_error + event_result list \<times> nat) state" where
  "ingest_events io board [] seq = ret (Inr ([], seq))"
| "ingest_events io board (e # es) seq = do {
     r \<leftarrow> process_event io board e;
     case r of
       Inl err \<Rightarrow> ret (Inl err)
     | Inr (res, go) \<Rightarrow>
         if \<not> go then ret (Inr ([res], seq))
         else do {
           more \<leftarrow> ingest_events io board es (max seq (be_event_seq e));
           ret (case more of Inl err \<Rightarrow> Inl err | Inr (rs, m) \<Rightarrow> Inr (res # rs, m))
         }
   }"

text \<open>The results and the cursor; an exception leaves the cursor row as it was.\<close>

definition ingest_board_once ::
    "'w ingest_options \<Rightarrow> string \<Rightarrow> event_source \<Rightarrow> ('w sys, py_error + event_result list \<times> nat) state" where
  "ingest_board_once io board src = do {
     let identity = es_db_identity src;
     last_seq \<leftarrow> query (get_cursor board identity);
     r \<leftarrow> ingest_events io board (es_fetch_events_since src last_seq) last_seq;
     case r of
       Inl err \<Rightarrow> ret (Inl err)
     | Inr (results, max_seq) \<Rightarrow> do {
         op1 (advance_cursor board identity max_seq);
         ret (Inr (results, max_seq))
       }
   }"

subsection \<open>All boards\<close>

record registry_entry =
  re_board :: string
  re_db_identity :: string
  re_outcome_handlers :: "string list"
  re_enabled :: bool
  re_default_endpoint :: string
  re_db_path :: string
  re_roadmap_config_path :: string
  re_roadmap_receipts_file :: string

datatype board_outcome =
    Seeded string nat
  | Ingested string "event_result list" nat

fun ingest_boards ::
    "'w ingest_options \<Rightarrow> (string \<Rightarrow> registry_entry \<Rightarrow> event_source) \<Rightarrow>
       (string \<Rightarrow> registry_entry \<Rightarrow> 'w adapter) option \<Rightarrow> nat dict \<Rightarrow> (string \<times> registry_entry) list \<Rightarrow>
       ('w sys, py_error + board_outcome list) state" where
  "ingest_boards io source_factory adapter_factory seeds [] = ret (Inr [])"
| "ingest_boards io source_factory adapter_factory seeds ((board, entry) # rest) =
     (if \<not> re_enabled entry then ingest_boards io source_factory adapter_factory seeds rest
      else do {
        let src = source_factory board entry;
        let identity = es_db_identity src;
        seen \<leftarrow> query (cursor_exists board identity);
        r \<leftarrow> (if \<not> seen then do {
                let seed = (case dict_get seeds board of None \<Rightarrow> es_current_max_seq src | Some n \<Rightarrow> n);
                op1 (advance_cursor board identity seed);
                ret (Inr (Seeded board seed))
              }
              else do {
                x \<leftarrow> ingest_board_once
                  (io\<lparr>io_adapter := map_option (\<lambda>f. f board entry) adapter_factory,
                      io_default_endpoint := re_default_endpoint entry, io_roadmap_router := None,
                      io_roadmap_config := None, io_apply := False\<rparr>) board src;
                ret (case x of Inl err \<Rightarrow> Inl err | Inr (rs, n) \<Rightarrow> Inr (Ingested board rs n))
              });
        case r of
          Inl err \<Rightarrow> ret (Inl err)
        | Inr b \<Rightarrow> do {
            more \<leftarrow> ingest_boards io source_factory adapter_factory seeds rest;
            ret (case more of Inl err \<Rightarrow> Inl err | Inr bs \<Rightarrow> Inr (b # bs))
          }
      })"

definition ingest_all_boards ::
    "'w ingest_options \<Rightarrow> (string \<Rightarrow> registry_entry \<Rightarrow> event_source) \<Rightarrow>
       (string \<Rightarrow> registry_entry \<Rightarrow> 'w adapter) option \<Rightarrow> nat dict \<Rightarrow> registry_entry dict \<Rightarrow>
       ('w sys, py_error + board_outcome list) state" where
  "ingest_all_boards io source_factory adapter_factory seeds registry =
     ingest_boards io source_factory adapter_factory seeds registry"

subsection \<open>One historical event\<close>

datatype operator_result =
    Operator_Refused string
  | Operator_Linked nat bool string
  | Operator_Materialized step_result

text \<open>The walk from \<open>DETECTED\<close> to \<open>RESUMED\<close> that both commands record for an event already resolved.\<close>

definition walk_resolved :: "instance_row \<Rightarrow> string \<Rightarrow> string \<Rightarrow> string \<Rightarrow> ('w sys, unit) state" where
  "walk_resolved i r1 r2 r3 = whenM (ci_state i = DETECTED) (do {
     op2 (transition (ci_id i) MATERIALIZING r1);
     op2 (transition (ci_id i) RESUMABLE r2);
     op2 (transition (ci_id i) RESUMED r3);
     ret ()
   })"

definition backfill_code_fix_event ::
    "'w ingest_options \<Rightarrow> string \<Rightarrow> event_source \<Rightarrow> string \<Rightarrow> nat option \<Rightarrow> string list \<Rightarrow> bool \<Rightarrow>
       ('w sys, py_error + operator_result) state" where
  "backfill_code_fix_event io board src event_id event_seq existing do_apply =
     (let manual_ids = filter (\<lambda>x. x \<noteq> []) existing in
      case find (\<lambda>e. (event_id \<noteq> [] \<and> be_event_id e = event_id) \<or> event_seq = Some (be_event_seq e))
             (es_fetch_events_since src 0) of
        None \<Rightarrow> ret (Inr (Operator_Refused ''event_not_found''))
      | Some e \<Rightarrow>
          (case compile_event e board (be_origin_ref e) (be_return_to_ref e) of
             Inl err \<Rightarrow> ret (Inl err)
           | Inr oc \<Rightarrow>
               if oe_kind (oc_envelope oc) \<noteq> CODE_FIX then ret (Inr (Operator_Refused ''not_code_fix''))
               else if manual_ids \<noteq> [] then do {
                 creation \<leftarrow> op2 (create_instance
                   (instance_args (oc_envelope oc) (oe_contract_ref (oc_envelope oc))));
                 let i = snd creation;
                 op1 (record_requirement_satisfaction (ci_id i) ''manual_remediation''
                   (JArr (map JStr manual_ids)) ''manual_remediation'' (join_with '','' manual_ids) []);
                 walk_resolved i ''backfill_manual_remediation'' ''manual_remediation_linked''
                   ''manual_remediation_satisfied'';
                 final \<leftarrow> query (get_instance (ci_id i));
                 ret (case final of
                        None \<Rightarrow> Inl TypeError
                      | Some r \<Rightarrow> Inr (Operator_Linked (ci_id i) (fst creation) (cstate_value (ci_state r))))
               }
               else do {
                 r \<leftarrow> materialize_code_fix (io_hash io) (if do_apply then io_adapter io else None)
                   (oc_envelope oc) (oc_blockers oc);
                 ret (case r of Inl err \<Rightarrow> Inl err | Inr s \<Rightarrow> Inr (Operator_Materialized s))
               }))"

definition record_operator_resolution_receipt ::
    "'w ingest_options \<Rightarrow> string \<Rightarrow> event_source \<Rightarrow> json \<Rightarrow> int option \<Rightarrow> string \<Rightarrow> string \<Rightarrow>
       ('w sys, py_error + operator_result) state" where
  "record_operator_resolution_receipt io board src event_id event_seq receipt_ref resolution =
     (if es_board src \<noteq> [] \<and> es_board src \<noteq> board then ret (Inr (Operator_Refused ''board_mismatch''))
      else (case resolve_board_event src event_id event_seq of
        Inl err \<Rightarrow> ret (Inr (Operator_Refused err))
      | Inr e \<Rightarrow>
          (case compile_event e board (be_origin_ref e) (be_return_to_ref e) of
             Inl err \<Rightarrow> ret (Inl err)
           | Inr oc \<Rightarrow> do {
               let env = oc_envelope oc;
               creation \<leftarrow> op2 (create_instance (instance_args env (oe_contract_ref env)));
               let i = snd creation;
               op1 (record_requirement_satisfaction (ci_id i) ''operator_resolution_receipt''
                 (JObj [(''board'', JStr board), (''source_event_id'', JStr (oe_event_id env)),
                        (''source_task_id'', JStr (oe_source_task_id env)),
                        (''resolution'', JStr resolution),
                        (''operator_receipt_ref'', JStr receipt_ref)])
                 ''operator_resolution_receipt'' (board @ '':'' @ oe_event_id env) []);
               walk_resolved i ''operator_resolution_receipt'' resolution ''operator_resolution_satisfied'';
               final \<leftarrow> query (get_instance (ci_id i));
               ret (Inr (Operator_Linked (ci_id i) (fst creation)
                 (cstate_value (ci_state (case final of None \<Rightarrow> i | Some r \<Rightarrow> r)))))
             })))"

end
