(* ===== verification/Effects.thy ===== *)
theory Effects
  imports Ingest
begin

text \<open>
  What a program that only uses the ledger's operations, the clock and the adapter may do to the
  system. \<open>delivery_client\<close> is the interface of the outbox cycle, \<open>graph_client\<close> adds steps,
  \<open>callback_client\<close> adds instances and satisfactions, \<open>ledger_client\<close> joins them with receipts, the
  inbox and the waits, and \<open>ledger_ingest\<close> adds the board cursor: a preorder that respects every
  operation of an interface is respected by every handler that uses no other.
\<close>

text \<open>The adapter calls of the callback operations stay within \<open>W\<close>.\<close>

definition callbacks_within :: "('w \<Rightarrow> 'w \<Rightarrow> bool) \<Rightarrow> 'w adapter \<Rightarrow> bool" where
  "callbacks_within W a \<longleftrightarrow>
     (\<forall>f t e w. a_schedule_origin_wake a = Some f \<longrightarrow> W w (snd (f t e w))) \<and>
     (\<forall>f t e w. a_origin_wake_satisfied a = Some f \<longrightarrow> W w (snd (f t e w))) \<and>
     (\<forall>f t e x w. a_consumer_ack_satisfied a = Some f \<longrightarrow> W w (snd (f t e x w))) \<and>
     (\<forall>f t e x w. a_record_consumer_ack a = Some f \<longrightarrow> W w (snd (f t e x w)))"

lemma callbacks_within_True [simp]: "callbacks_within (\<lambda>_ _. True) a"
  by (simp add: callbacks_within_def)

locale delivery_client = effect_order R for R :: "'w sys \<Rightarrow> 'w sys \<Rightarrow> bool" +
  fixes W :: "'w \<Rightarrow> 'w \<Rightarrow> bool"
  assumes clock: "R s (s\<lparr>readings := n\<rparr>)"
    and board: "W (world s) w \<Longrightarrow> R s (s\<lparr>world := w\<rparr>)"
    and enqueue: "R s (s\<lparr>db := snd (outbox_enqueue iid step op payload key t1 (db s))\<rparr>)"
    and mark: "R s (s\<lparr>db := snd (outbox_mark oid state task next err t1 (db s))\<rparr>)"
    and reinterpret_pending:
      "R s (s\<lparr>db := snd (outbox_reinterpret_pending iid op1' pre op2' key t1 (db s))\<rparr>)"
begin

lemma eff_time_now: "effect R time_now"
  by (rule effectI) (simp add: clock)

lemma eff_query: "effect R (query f)"
  by (rule effectI) (simp add: refl)

lemma eff_op0: "(\<And>s. R s (s\<lparr>db := snd (f (db s))\<rparr>)) \<Longrightarrow> effect R (op0 f)"
  by (rule effectI) simp

lemma eff_op1: "(\<And>s now. R s (s\<lparr>db := snd (f now (db s))\<rparr>)) \<Longrightarrow> effect R (op1 f)"
  unfolding op1_def by (intro eff_bind eff_time_now eff_op0)

lemma eff_op2: "(\<And>s now ev. R s (s\<lparr>db := snd (f now ev (db s))\<rparr>)) \<Longrightarrow> effect R (op2 f)"
  unfolding op2_def by (intro eff_bind eff_time_now eff_op0)

lemma eff_board_call: "(\<And>w. W w (snd (f w))) \<Longrightarrow> effect R (board_call f)"
  by (rule effectI) (simp add: board)

lemma eff_op_result: "(\<And>x. effect R (f x)) \<Longrightarrow> (\<And>x y. effect R (g x y)) \<Longrightarrow>
    effect R (case z of Op_Ok x \<Rightarrow> f x | Op_Failed x y \<Rightarrow> g x y)"
  by (cases z) auto

lemmas delivery_intros = eff_intros eff_op_result eff_time_now eff_query
  eff_op1 [OF enqueue] eff_op1 [OF mark] eff_op1 [OF reinterpret_pending]

lemma eff_mark_outbox_pending: "effect R (mark_outbox_pending row err)"
  unfolding mark_outbox_pending_def by (intro delivery_intros)

lemma eff_row_not_due: "effect R (row_not_due row)"
  unfolding row_not_due_def by (intro delivery_intros)

lemma eff_origin_wake_satisfied:
  assumes "\<And>a. ad = Some a \<Longrightarrow> callbacks_within W a"
  shows "effect R (origin_wake_satisfied ad task endpoint)"
proof (cases "Option.bind ad a_origin_wake_satisfied")
  case None
  then show ?thesis by (simp add: origin_wake_satisfied_def eff_ret)
next
  case (Some check)
  then obtain a where "ad = Some a" "a_origin_wake_satisfied a = Some check" by (cases ad) auto
  with assms have "W w (snd (check task endpoint w))" for w by (auto simp: callbacks_within_def)
  with Some show ?thesis
    unfolding origin_wake_satisfied_def by (auto intro!: eff_bind eff_board_call eff_ret)
qed

lemma eff_schedule:
  "callbacks_within W a \<Longrightarrow> a_schedule_origin_wake a = Some f \<Longrightarrow> effect R (board_call (f t e))"
  by (rule eff_board_call) (simp add: callbacks_within_def)

lemma eff_ack_satisfied:
  "callbacks_within W a \<Longrightarrow> a_consumer_ack_satisfied a = Some f \<Longrightarrow> effect R (board_call (f t e x))"
  by (rule eff_board_call) (simp add: callbacks_within_def)

lemma eff_record_ack:
  "callbacks_within W a \<Longrightarrow> a_record_consumer_ack a = Some f \<Longrightarrow> effect R (board_call (f t e x))"
  by (rule eff_board_call) (simp add: callbacks_within_def)

lemma eff_apply_schedule_origin_wake:
  assumes "\<And>a. ad = Some a \<Longrightarrow> callbacks_within W a"
  shows "effect R (apply_schedule_origin_wake ad row payload)"
  unfolding apply_schedule_origin_wake_def Let_def
  by (intro delivery_intros eff_mark_outbox_pending eff_row_not_due eff_origin_wake_satisfied
      eff_schedule assms | assumption)+

lemma eff_apply_record_consumer_ack:
  assumes "\<And>a. ad = Some a \<Longrightarrow> callbacks_within W a"
  shows "effect R (apply_record_consumer_ack ad row payload)"
  unfolding apply_record_consumer_ack_def Let_def
  by (intro delivery_intros eff_mark_outbox_pending eff_row_not_due eff_ack_satisfied eff_record_ack
      assms | assumption)+

lemma eff_mark_wake_pending: "effect R (mark_wake_pending row err)"
  unfolding mark_wake_pending_def by (intro delivery_intros)

lemma eff_ensure_origin_wake:
  assumes "\<And>a. ad = Some a \<Longrightarrow> callbacks_within W a"
  shows "effect R (ensure_origin_wake ad iid task endpoint key pre)"
proof -
  have sched: "effect R (board_call (f t e))" if bound: "Option.bind ad a_schedule_origin_wake = Some f"
    for f t e
  proof -
    from bound obtain a where "ad = Some a" "a_schedule_origin_wake a = Some f" by (cases ad) auto
    with assms show ?thesis by (auto intro: eff_schedule)
  qed
  show ?thesis
    unfolding ensure_origin_wake_def Let_def
    by (intro delivery_intros eff_mark_wake_pending eff_origin_wake_satisfied sched assms | assumption)+
qed

lemma eff_consumer_ack:
  assumes "\<And>a. ad = Some a \<Longrightarrow> callbacks_within W a"
  shows "effect R (apply_board_operation ad iid step ''record_consumer_ack'' payload key)"
  using eff_apply_record_consumer_ack [OF assms]
  unfolding apply_board_operation_def attempt_plain_def Let_def
  by (intro delivery_intros) (auto intro: eff_apply_record_consumer_ack)

lemma eff_refusal_callbacks:
  assumes "\<And>a. ad = Some a \<Longrightarrow> callbacks_within W a"
  shows "effect R (refusal_callbacks ad iid e digest endpoint)"
  unfolding refusal_callbacks_def Let_def
  by (intro delivery_intros eff_ensure_origin_wake eff_consumer_ack assms | assumption)+

lemma eff_call_adapter: "(\<And>w w'. W w w') \<Longrightarrow> effect R (call_adapter a operation payload)"
  unfolding call_adapter_def by (intro delivery_intros eff_board_call)

lemma eff_apply_any:
  assumes "\<And>w w'. W w w'"
  shows "effect R (apply_board_operation ad iid step operation payload key)"
proof -
  have "callbacks_within W a" for a using assms by (simp add: callbacks_within_def)
  then show ?thesis
    unfolding apply_board_operation_def attempt_plain_def Let_def
    by (intro delivery_intros eff_apply_schedule_origin_wake eff_apply_record_consumer_ack
        eff_row_not_due eff_call_adapter assms)
qed

lemma eff_pending_not_due: "effect R (pending_outbox_retry_not_due iid)"
  unfolding pending_outbox_retry_not_due_def by (intro delivery_intros)

end

subsection \<open>Tasks\<close>

locale graph_client = delivery_client R "\<lambda>_ _. True" for R :: "'w sys \<Rightarrow> 'w sys \<Rightarrow> bool" +
  assumes step: "R s (s\<lparr>db := snd (add_step iid kind key parent t1 (db s))\<rparr>)"
    and step_mark: "R s (s\<lparr>db := snd (mark_step sid st task t1 (db s))\<rparr>)"
begin

lemma eff_board: "effect R (board_call f)"
  by (rule eff_board_call) simp

lemmas graph_intros = delivery_intros eff_board eff_op1 [OF step] eff_op1 [OF step_mark]

lemma eff_apply_board_operation: "effect R (apply_board_operation ad iid step operation payload key)"
  by (rule eff_apply_any) simp

lemma eff_create_step_task: "effect R (create_step_task ad iid sid intent key)"
  unfolding create_step_task_def Let_def by (intro graph_intros eff_apply_board_operation)

lemma eff_create_graph_step: "effect R (create_graph_step ad iid kind key payload parent)"
  unfolding create_graph_step_def Let_def by (intro graph_intros eff_apply_board_operation)

lemma eff_return_edge: "effect R (return_edge ad iid e review_task review_key endpoint)"
  unfolding return_edge_def Let_def by (intro graph_intros eff_apply_board_operation)

lemma eff_reconcile_row: "effect R (reconcile_row a row)"
  unfolding reconcile_row_def reconcile_call_def reconcile_wake_def reconcile_ack_def Let_def
  by (intro graph_intros eff_origin_wake_satisfied eff_mark_outbox_pending callbacks_within_True)

lemma eff_reconcile_rows: "effect R (reconcile_rows adapter_of xs)"
  by (induction xs rule: reconcile_rows.induct [of _ adapter_of])
     (auto intro!: graph_intros eff_reconcile_row)

lemma eff_reconcile_outbox: "effect R (reconcile_outbox adapter_of)"
  unfolding reconcile_outbox_def by (intro graph_intros eff_reconcile_rows)

end

subsection \<open>Instances and satisfactions\<close>

locale callback_client = delivery_client R W for R :: "'w sys \<Rightarrow> 'w sys \<Rightarrow> bool" and W +
  assumes create: "R s (s\<lparr>db := snd (create_instance a t1 t2 (db s))\<rparr>)"
    and advance: "new \<noteq> INPUT_ACCEPTED \<Longrightarrow> R s (s\<lparr>db := snd (transition iid new reason t1 t2 (db s))\<rparr>)"
    and satisfy: "R s (s\<lparr>db := snd (record_requirement_satisfaction iid field v kind src pol t1 (db s))\<rparr>)"
begin

lemmas client_intros = delivery_intros eff_op2 [OF create] eff_op2 [OF advance] eff_op1 [OF satisfy]

lemma eff_materialize_refusal:
  assumes "\<And>a. ad = Some a \<Longrightarrow> callbacks_within W a"
  shows "effect R (materialize_refusal h ad e blockers categories)"
  unfolding materialize_refusal_def Let_def
  by (intro client_intros eff_refusal_callbacks assms | simp | assumption)+

lemma eff_walk_resolved: "effect R (walk_resolved i r1 r2 r3)"
  unfolding walk_resolved_def by (intro client_intros | simp)+

lemma eff_record_operator_resolution_receipt:
  "effect R (record_operator_resolution_receipt io board src event_id event_seq receipt_ref resolution)"
  unfolding record_operator_resolution_receipt_def Let_def
  by (intro client_intros eff_walk_resolved | simp)+

end

subsection \<open>Handlers that create tasks and accept receipts\<close>

locale ledger_client = callback_client R "\<lambda>_ _. True" + graph_client R
  for R :: "'w sys \<Rightarrow> 'w sys \<Rightarrow> bool" +
  assumes accept: "known iid (db s) \<Longrightarrow>
      R s (s\<lparr>db := snd (transition iid INPUT_ACCEPTED reason t3 t4
                (snd (add_owner_receipt iid owner vals src par t1 t2 (db s))))\<rparr>)"
    and open_case: "R s (s\<lparr>db := snd (create_interaction_case cid ep bk cst q t1 (db s))\<rparr>)"
    and join_case: "R s (s\<lparr>db := snd (add_interaction_member cid iid reqs t1 (db s))\<rparr>)"
    and edit_case: "R s (s\<lparr>db := snd (update_interaction_case cid cst' q' t1' t2' t3' (db s))\<rparr>)"
    and reply: "R s (s\<lparr>db := snd (record_inbound_reply_receipt cid msg sha res t1 (db s))\<rparr>)"
    and policy: "R s (s\<lparr>db := snd (create_standing_policy pid owner project action conds dec src en t1 (db s))\<rparr>)"
    and wait: "R s (s\<lparr>db := snd (register_wait iid wi t1 (db s))\<rparr>)"
    and wait_mark: "R s (s\<lparr>db := snd (mark_wait wid outcome t1 (db s))\<rparr>)"
begin

lemmas task_intros = client_intros eff_board eff_op1 [OF step] eff_op1 [OF step_mark]
  eff_op0 [OF open_case] eff_op1 [OF join_case] eff_op0 [OF edit_case]
  eff_op1 [OF reply] eff_op1 [OF policy] eff_op1 [OF wait] eff_op0 [OF wait_mark]

lemma eff_batch_questions: "effect R (batch_questions ib i unresolved owner project)"
  unfolding batch_questions_def open_or_batch_case_def the_case_def Let_def by (intro task_intros)

lemma eff_open_or_batch_case: "effect R (open_or_batch_case ib endpoint owner project authority iid unresolved)"
  unfolding open_or_batch_case_def the_case_def Let_def by (intro task_intros)

lemma eff_mark_asked: "effect R (mark_asked cid)"
  unfolding mark_asked_def the_case_def by (intro task_intros)

lemma eff_mark_needs_clarification: "effect R (mark_needs_clarification cid)"
  unfolding mark_needs_clarification_def the_case_def by (intro task_intros)

lemma eff_mark_answered: "effect R (mark_answered cid)"
  unfolding mark_answered_def the_case_def by (intro task_intros)

lemma eff_mark_applied: "effect R (mark_applied cid)"
  unfolding mark_applied_def the_case_def by (intro task_intros)

lemma eff_record_inbound_reply: "effect R (record_inbound_reply h cid msg raw compiled)"
  unfolding record_inbound_reply_def by (intro task_intros)

lemma eff_apply_fields: "effect R (apply_fields cid by_continuation source source_ref)"
  unfolding apply_fields_def by (intro task_intros eff_mark_answered)

lemma eff_plan_owner_input: "effect R (plan_owner_input h ad e c ib unresolved owner project)"
  unfolding plan_owner_input_def Let_def
  by (intro task_intros eff_batch_questions eff_create_step_task eff_apply_board_operation | simp)+

text \<open>A receipt is accepted for a known instance only.\<close>

lemma eff_accept:
  assumes "\<And>r. effect R (k r)"
  shows "effect_on (\<lambda>s. known iid (db s)) R
    (do { r \<leftarrow> op2 (add_owner_receipt iid owner vals src par);
          op2 (transition iid INPUT_ACCEPTED reason);
          k r })"
  unfolding effect_on_def
proof (intro allI impI)
  fix s :: "'w sys" assume "known iid (db s)"
  define r where "r = fst (add_owner_receipt iid owner vals src par (clk s (readings s))
    (clk s (Suc (readings s))) (db s))"
  define s0 where "s0 = s\<lparr>readings := readings s + 4\<rparr>"
  define t where "t = s0\<lparr>db := snd (transition iid INPUT_ACCEPTED reason (clk s (readings s + 2))
    (clk s (readings s + 3)) (snd (add_owner_receipt iid owner vals src par (clk s (readings s))
      (clk s (readings s + 1)) (db s0))))\<rparr>"
  have "R s s0" unfolding s0_def by (rule clock)
  also have "R s0 t"
    unfolding t_def using \<open>known iid (db s)\<close> by (intro accept) (simp add: s0_def)
  finally (trans) have "R s t" .
  moreover have "R t (snd (run_state (k r) t))" using assms [of r] by (simp add: effect_def)
  ultimately show "R s (snd (run_state (do { r \<leftarrow> op2 (add_owner_receipt iid owner vals src par);
      op2 (transition iid INPUT_ACCEPTED reason); k r }) s))"
    by (auto intro: trans simp: r_def t_def s0_def add.commute numeral_eq_Suc)
qed

lemma eff_on_receipt: "effect_on (\<lambda>s. known (ci_id i) (db s)) R (on_receipt h ad i sub c)"
proof -
  have if_on: "effect_on Q R (if b then m else n)" if "effect_on Q R m" "effect_on Q R n"
    for Q b and m n :: "('w sys, step_result) state"
    using that by simp
  show ?thesis
    unfolding on_receipt_def Let_def
    by (intro if_on eff_on [OF eff_ret] | simp only: split: prod.split | intro allI impI if_on
        eff_accept task_intros eff_apply_board_operation eff_create_step_task eff_on [OF eff_ret] | simp)+
qed

lemma eff_advance_after_materialization: "effect R (advance_after_materialization h ad i v)"
  unfolding advance_after_materialization_def Let_def
  by (intro task_intros eff_create_step_task | simp)+

lemma eff_advance_after_review: "effect R (advance_after_review h ad i v)"
  unfolding advance_after_review_def Let_def
  by (intro task_intros eff_create_step_task | simp)+

lemma eff_materialize_code_fix: "effect R (materialize_code_fix h ad e blockers)"
  unfolding materialize_code_fix_def build_fix_graph_def fail_materialization_def Let_def
  by (intro task_intros eff_create_graph_step eff_return_edge eff_pending_not_due | simp)+

lemma eff_handle_external_wait: "effect R (handle_external_wait e meta)"
  unfolding handle_external_wait_def Let_def by (intro task_intros | simp)+

lemma eff_poll: "effect R (poll_external_wait_conditions checker now)"
  unfolding poll_external_wait_conditions_def poll_condition_def Let_def
  by (intro task_intros | simp)+

lemma eff_record_satisfied: "effect R (record_satisfied iid sat)"
  unfolding record_satisfied_def by (intro task_intros)

end

end
