(* ===== verification/Ledger_Growth.thy ===== *)
theory Ledger_Growth
  imports Effects "HOL-Library.Sublist"
begin

text \<open>
  The ledger only grows: instances keep their source and, once terminal, their state; event logs and
  owner receipts are extended at the end; steps, outbox rows, satisfactions, cases and waits are
  never deleted; cursors never move back. \<open>grows\<close> is proved for every store operation and reaches
  every handler through the interfaces of \<open>Effects\<close>, as does the ledger invariant.
\<close>

definition instance_source :: "instance_row \<Rightarrow> (string \<times> string \<times> string \<times> string) \<times> string" where
  "instance_source r = (source_tuple r, ci_idempotency_key r)"

definition instances_grow :: "store \<Rightarrow> store \<Rightarrow> bool" where
  "instances_grow st st' \<longleftrightarrow>
     (\<forall>i r. get_instance i st = Some r \<longrightarrow>
        (\<exists>r'. get_instance i st' = Some r' \<and> instance_source r' = instance_source r \<and>
              (ci_state r \<in> set TERMINAL_STATES \<longrightarrow> ci_state r' = ci_state r)))"

definition step_identity :: "step_row \<Rightarrow> nat \<times> (nat \<times> string) \<times> string \<times> nat option" where
  "step_identity s = (cs_id s, step_key s, cs_step_kind s, cs_parent_step_id s)"

definition outbox_identity :: "outbox_row \<Rightarrow> nat \<times> nat \<times> json dict" where
  "outbox_identity r = (ob_id r, ob_continuation_id r, ob_payload r)"

definition wait_identity :: "wait_row \<Rightarrow> nat \<times> nat" where
  "wait_identity r = (ew_id r, ew_continuation_id r)"

text \<open>Every row of the old table is still there, up to the columns \<open>f\<close> does not read.\<close>

definition kept :: "('r \<Rightarrow> 'k) \<Rightarrow> 'r list \<Rightarrow> 'r list \<Rightarrow> bool" where
  "kept f xs ys \<longleftrightarrow> f ` set xs \<subseteq> f ` set ys"

definition rows_grow :: "store \<Rightarrow> store \<Rightarrow> bool" where
  "rows_grow st st' \<longleftrightarrow>
     kept step_identity (rows (steps st)) (rows (steps st')) \<and>
     prefix (rows (receipts st)) (rows (receipts st')) \<and>
     prefix (rows (policies st)) (rows (policies st')) \<and>
     prefix (rows (replies st)) (rows (replies st')) \<and>
     kept outbox_identity (rows (outbox st)) (rows (outbox st')) \<and>
     kept satisfaction_key (rows (satisfactions st)) (rows (satisfactions st')) \<and>
     kept ic_id (cases st) (cases st') \<and>
     kept member_key (rows (members st)) (rows (members st')) \<and>
     kept wait_identity (rows (waits st)) (rows (waits st'))"

definition grows :: "store \<Rightarrow> store \<Rightarrow> bool" where
  "grows st st' \<longleftrightarrow>
     instances_grow st st' \<and>
     (\<forall>i. prefix (instance_log i st) (instance_log i st')) \<and>
     rows_grow st st' \<and>
     (\<forall>b d. get_cursor b d st \<le> get_cursor b d st')"

subsection \<open>A preorder\<close>

lemma kept_refl [simp]: "kept f xs xs"
  by (simp add: kept_def)

lemma kept_trans: "kept f xs ys \<Longrightarrow> kept f ys zs \<Longrightarrow> kept f xs zs"
  by (auto simp: kept_def)

lemma kept_append [simp]: "kept f xs (xs @ ys)"
  by (auto simp: kept_def)

lemma kept_insert [simp]: "kept f (rows t) (rows (snd (insert_row mk t)))"
  by simp

lemma kept_map:
  assumes "\<And>r. P r \<Longrightarrow> f (g r) = f r"
  shows "kept f xs (map (\<lambda>r. if P r then g r else r) xs)"
proof -
  have "f x \<in> f ` set (map (\<lambda>r. if P r then g r else r) xs)" if "x \<in> set xs" for x
    using that assms [of x] by (intro rev_image_eqI [of "if P x then g x else x"]) auto
  then show ?thesis unfolding kept_def by blast
qed

lemma kept_update:
  "(\<And>r. P r \<Longrightarrow> f (g r) = f r) \<Longrightarrow> kept f (rows t) (rows (update_where P g t))"
  by (simp add: kept_map)

lemma kept_upsert:
  assumes "\<And>r. P r \<Longrightarrow> f (g r) = f r"
  shows "kept f (rows t) (rows (upsert P g mk t))"
  using kept_map [of P f g "rows t", OF assms] by (simp add: upsert_def)

lemma instances_grow_refl [simp]: "instances_grow st st"
  by (simp add: instances_grow_def)

lemma instances_grow_trans: "instances_grow s t \<Longrightarrow> instances_grow t u \<Longrightarrow> instances_grow s u"
  unfolding instances_grow_def by metis

lemma rows_grow_refl [simp]: "rows_grow st st"
  by (simp add: rows_grow_def)

lemma rows_grow_trans: "rows_grow s t \<Longrightarrow> rows_grow t u \<Longrightarrow> rows_grow s u"
  unfolding rows_grow_def by (meson kept_trans prefix_order.trans)

lemma grows_refl [simp]: "grows st st"
  by (simp add: grows_def)

lemma grows_trans: "grows s t \<Longrightarrow> grows t u \<Longrightarrow> grows s u"
  unfolding grows_def by (meson instances_grow_trans rows_grow_trans prefix_order.trans order.trans)

lemma instances_grow_cong: "instances st' = instances st \<Longrightarrow> instances_grow st st'"
  by (simp add: instances_grow_def get_instance_def)

lemma get_cursor_cong: "cursors st' = cursors st \<Longrightarrow> get_cursor b d st' = get_cursor b d st"
  by (simp add: get_cursor_def)

text \<open>An operation that touches neither instances, events nor cursors.\<close>

lemma grows_rows:
  assumes "instances st' = instances st" "events st' = events st" "cursors st' = cursors st"
    and "rows_grow st st'"
  shows "grows st st'"
  using assms
  by (simp add: grows_def instances_grow_cong instance_log_cong [of st' st] get_cursor_cong [of st' st])

subsection \<open>Every operation\<close>

lemma grows_record_event: "grows st (record_event iid ev now st)"
  by (simp add: grows_def instances_grow_def instance_log_record rows_grow_def get_cursor_def)

lemma grows_create_instance: "grows st (snd (create_instance a t1 t2 st))"
proof (cases "select_one (\<lambda>r. source_tuple r = new_source_tuple a) (instances st)")
  case None
  define st0 where "st0 = st\<lparr>instances := snd (insert_row (mk_instance (a, t1)) (instances st))\<rparr>"
  have "instances_grow st st0"
    by (auto simp: instances_grow_def st0_def get_instance_def select_one_def find_append)
  then have "grows st st0"
    by (simp add: grows_def instance_log_cong [of st0 st] get_cursor_cong [of st0 st] rows_grow_def)
       (simp add: st0_def instance_log_def get_cursor_def)
  with grows_record_event [of st0] show ?thesis
    by (auto simp: create_instance_def None Let_def case_prod_beta st0_def intro: grows_trans)
qed (simp add: create_instance_def)

lemma grows_transition: "grows st (snd (transition iid new reason t1 t2 st))"
proof (cases "transition iid new reason t1 t2 st")
  case (Pair res st')
  show ?thesis
  proof (cases res)
    case (Transition_Refused x)
    with Pair transition_refused_same show ?thesis by fastforce
  next
    case (Transition_Applied x)
    with Pair obtain r where r: "get_instance iid st = Some r" "legal (ci_state r) new"
      and st': "st' = record_event iid (State_Transition (ci_state r) new reason) t2
                  (set_instance_state iid new t1 st)"
      by (auto dest: transition_AppliedD)
    define st0 where "st0 = set_instance_state iid new t1 st"
    have nonterm: "ci_state q \<notin> set TERMINAL_STATES" if "get_instance iid st = Some q" for q
      using that r by (auto simp: legal_def split: if_splits)
    have "instances_grow st st0"
      unfolding instances_grow_def st0_def get_instance_set_state
      using nonterm by (auto simp: instance_source_def source_tuple_def dest: get_instance_SomeD)
    then have "grows st st0"
      by (auto simp: grows_def st0_def rows_grow_def get_cursor_def set_instance_state_def instance_log_def)
    with grows_record_event [of st0] show ?thesis using Pair st' st0_def by (auto intro: grows_trans)
  qed
qed

lemma grows_add_owner_receipt: "grows st (snd (add_owner_receipt iid owner vals src par t1 t2 st))"
proof -
  define st0 where "st0 = st\<lparr>receipts := snd (insert_row (mk_receipt (iid,
    max_column or_version (\<lambda>r. or_continuation_id r = iid) (receipts st) + 1, owner, vals, src, par, t1))
    (receipts st))\<rparr>"
  have "grows st st0" by (rule grows_rows) (simp_all add: st0_def rows_grow_def)
  with grows_record_event [of st0] show ?thesis
    by (auto simp: add_owner_receipt_def Let_def case_prod_beta st0_def intro: grows_trans)
qed

lemma grows_add_step: "grows st (snd (add_step iid kind key parent t1 st))"
  by (auto simp: add_step_def Let_def case_prod_beta rows_grow_def split: option.split intro!: grows_rows)

lemma grows_mark_step: "grows st (snd (mark_step sid state task t1 st))"
  by (rule grows_rows) (auto simp: mark_step_def Let_def rows_grow_def step_identity_def step_key_def
      intro!: kept_map)

lemma grows_outbox_enqueue: "grows st (snd (outbox_enqueue iid step op payload key t1 st))"
  by (auto simp: outbox_enqueue_def Let_def case_prod_beta rows_grow_def split: option.split
      intro!: grows_rows)

lemma grows_outbox_mark: "grows st (snd (outbox_mark oid state task next err t1 st))"
  by (rule grows_rows) (auto simp: outbox_mark_def Let_def rows_grow_def outbox_identity_def
      mark_outbox_row_def intro!: kept_map)

lemma grows_reinterpret: "grows st (snd (outbox_reinterpret_pending iid from_op pre to_op key t1 st))"
  by (auto simp: outbox_reinterpret_pending_def Let_def rows_grow_def outbox_identity_def
      split: option.split list.split intro!: grows_rows kept_map)

lemma grows_satisfaction:
  "grows st (snd (record_requirement_satisfaction iid field v kind src pol t1 st))"
  by (rule grows_rows) (auto simp: record_requirement_satisfaction_def Let_def rows_grow_def
      satisfaction_key_def intro!: kept_upsert)

lemma grows_create_case: "grows st (snd (create_interaction_case cid ep bk state q t1 st))"
  by (rule grows_rows) (auto simp: create_interaction_case_def Let_def rows_grow_def)

lemma grows_add_member: "grows st (snd (add_interaction_member cid iid reqs t1 st))"
  by (rule grows_rows) (auto simp: add_interaction_member_def Let_def rows_grow_def member_key_def
      intro!: kept_upsert)

lemma grows_update_case: "grows st (snd (update_interaction_case cid state q t1 t2 t3 st))"
  by (rule grows_rows) (auto simp: update_interaction_case_def Let_def rows_grow_def intro!: kept_map)

lemma grows_reply: "grows st (snd (record_inbound_reply_receipt cid msg sha res t1 st))"
  by (rule grows_rows) (auto simp: record_inbound_reply_receipt_def Let_def case_prod_beta rows_grow_def)

lemma grows_policy: "grows st (snd (create_standing_policy pid owner project action conds dec src en t1 st))"
  by (rule grows_rows) (auto simp: create_standing_policy_def Let_def case_prod_beta rows_grow_def)

lemma grows_register_wait: "grows st (snd (register_wait iid wi t1 st))"
  by (rule grows_rows) (auto simp: register_wait_def rows_grow_def split: option.split)

lemma grows_mark_wait: "grows st (snd (mark_wait wid outcome t1 st))"
  by (rule grows_rows) (auto simp: mark_wait_def rows_grow_def wait_identity_def intro!: kept_map)

lemma find_upsert_cursor:
  "find (\<lambda>c. bc_board c = b \<and> bc_db_identity c = d) (upsert_cursor b' d' v now cs) =
     (case find (\<lambda>c. bc_board c = b \<and> bc_db_identity c = d) cs of
        None \<Rightarrow> if b = b' \<and> d = d' then Some \<lparr>bc_board = b, bc_db_identity = d, bc_last_event_id = v,
                  bc_updated_at = now\<rparr> else None
      | Some c \<Rightarrow> Some (if bc_board c = b' \<and> bc_db_identity c = d' \<and> bc_last_event_id c < v
                        then c\<lparr>bc_last_event_id := v, bc_updated_at := now\<rparr> else c))"
proof (cases "\<exists>c \<in> set cs. bc_board c = b' \<and> bc_db_identity c = d'")
  case True
  then have "b = b' \<and> d = d' \<Longrightarrow> find (\<lambda>c. bc_board c = b \<and> bc_db_identity c = d) cs \<noteq> None"
    by (auto simp: find_None_iff)
  with True show ?thesis
    by (auto simp: upsert_cursor_def find_map_if split: option.split)
next
  case False
  then show ?thesis
    by (auto simp: upsert_cursor_def find_append split: option.split dest!: iffD1 [OF find_Some_iff])
qed

lemma get_cursor_advance:
  "get_cursor b d (snd (advance_cursor b' d' v now st)) =
     (if b = b' \<and> d = d' then max (get_cursor b d st) v else get_cursor b d st)"
proof -
  let ?v = "max (get_cursor b' d' st) v"
  have cur: "get_cursor b d (snd (advance_cursor b' d' v now st)) =
      (case find (\<lambda>c. bc_board c = b \<and> bc_db_identity c = d) (upsert_cursor b' d' ?v now (cursors st)) of
        None \<Rightarrow> 0 | Some c \<Rightarrow> bc_last_event_id c)"
    by (simp add: advance_cursor_def get_cursor_def Let_def)
  show ?thesis
  proof (cases "find (\<lambda>c. bc_board c = b \<and> bc_db_identity c = d) (cursors st)")
    case None
    then have "get_cursor b d st = 0" by (simp add: get_cursor_def)
    with None show ?thesis unfolding cur find_upsert_cursor by simp
  next
    case (Some c)
    then have "bc_board c = b" "bc_db_identity c = d" by (auto simp: find_Some_iff)
    moreover from Some have "get_cursor b d st = bc_last_event_id c" by (simp add: get_cursor_def)
    ultimately show ?thesis using Some unfolding cur find_upsert_cursor by (auto simp: max_def)
  qed
qed

lemma grows_advance_cursor: "grows st (snd (advance_cursor b d v now st))"
proof -
  define st' where "st' = snd (advance_cursor b d v now st)"
  have "instances st' = instances st" "events st' = events st" "rows_grow st st'"
    by (simp_all add: st'_def advance_cursor_def Let_def rows_grow_def)
  moreover have "get_cursor b' d' st \<le> get_cursor b' d' st'" for b' d'
    by (simp add: st'_def get_cursor_advance)
  ultimately show ?thesis
    by (simp add: grows_def instances_grow_cong instance_log_cong [of st' st] flip: st'_def)
qed

end
