(* ===== verification/Ledger_Safety.thy ===== *)
theory Ledger_Safety
  imports Ledger_Growth
begin

text \<open>
  The interfaces of \<open>Effects\<close> interpreted on the ledger: growth and the invariant \<open>ledger_ok\<close>.
  From them, the properties of every handler and of the ingestion loop.
\<close>

interpretation growing: ledger_client "\<lambda>s t. grows (db s) (db t)"
  by unfold_locales
    (auto intro: grows_trans grows_create_instance grows_transition grows_satisfaction
      grows_outbox_enqueue grows_outbox_mark grows_reinterpret grows_add_step grows_mark_step
      grows_add_owner_receipt grows_create_case grows_add_member grows_update_case
      grows_reply grows_policy grows_register_wait grows_mark_wait)

lemma grows_known: "grows st st' \<Longrightarrow> known i st \<Longrightarrow> known i st'"
  unfolding grows_def instances_grow_def known_def by blast

lemma known_create: "known (ci_id (snd (fst (create_instance a t1 t2 st)))) (snd (create_instance a t1 t2 st))"
proof (cases "select_one (\<lambda>r. source_tuple r = new_source_tuple a) (instances st)")
  case None
  then show ?thesis by (auto simp: create_instance_def Let_def case_prod_beta known_iff)
next
  case (Some r)
  then show ?thesis by (auto simp: create_instance_def known_iff dest: select_one_SomeD)
qed

subsection \<open>The rest of the router\<close>

context ledger_client
begin

lemma eff_auto_resolve: "effect R (auto_resolve h ad e ref c sat)"
proof -
  let ?K = "\<lambda>iid s. known iid (db s)"
  have rest: "effect_on (?K iid) R (do {
      record_satisfied iid sat;
      case x of None \<Rightarrow> ret (Inl TypeError)
      | Some i \<Rightarrow> do { r \<leftarrow> on_receipt h ad i su c;
                      ret (Inr (Auto_Resolved iid created (str_or (st_state r) (cstate_value (ci_state i))))) } })"
    if x: "\<And>i. x = Some i \<Longrightarrow> ci_id i = iid" for iid x su created
  proof (rule eff_bind_on [where Q' = "\<lambda>_. ?K iid"])
    fix s t :: "'w sys" and y assume s: "?K iid s" and m: "run_state (record_satisfied iid sat) s = (y, t)"
    have "grows (db s) (db t)" by (rule effectD [OF growing.eff_record_satisfied m])
    with s grows_known effectD [OF eff_record_satisfied m] show "R s t \<and> ?K iid t" by blast
  next
    fix y :: unit
    show "effect_on (?K iid) R (case x of None \<Rightarrow> ret (Inl TypeError)
      | Some i \<Rightarrow> do { r \<leftarrow> on_receipt h ad i su c;
                      ret (Inr (Auto_Resolved iid created (str_or (st_state r) (cstate_value (ci_state i))))) })"
    proof (cases x)
      case (Some i)
      with x have i: "ci_id i = iid" by simp
      show ?thesis unfolding Some option.case
      proof (rule eff_bind_on [where Q' = "\<lambda>_ _. True"])
        fix s t :: "'w sys" and r assume s: "?K iid s" and m: "run_state (on_receipt h ad i su c) s = (r, t)"
        with i eff_on_receipt [of i h ad su c] show "R s t \<and> True"
          unfolding effect_on_def by (metis snd_conv)
      qed (intro eff_on eff_ret)
    qed (simp add: eff_on eff_ret)
  qed
  have refresh: "effect_on (?K (ci_id (snd creation))) R (do {
      refreshed \<leftarrow> (if fst creation
        then do { op2 (transition (ci_id (snd creation)) WAITING_OWNER ''needs_input_detected_h0'');
                  query (get_instance (ci_id (snd creation))) }
        else ret (Some (snd creation)));
      record_satisfied (ci_id (snd creation)) sat;
      case refreshed of
        None \<Rightarrow> ret (Inl TypeError)
      | Some i \<Rightarrow> do {
          r \<leftarrow> on_receipt h ad i \<lparr>su_owner_ref = ''system:auto-resolved'', su_fields = satisfied_values sat,
                su_source_ref = ''requirement_resolver''\<rparr> c;
          ret (Inr (Auto_Resolved (ci_id (snd creation)) (fst creation)
            (str_or (st_state r) (cstate_value (ci_state i))))) } })" for creation
  proof (rule eff_bind_on [where Q' = "\<lambda>x s. ?K (ci_id (snd creation)) s \<and>
        (\<forall>i. x = Some i \<longrightarrow> ci_id i = ci_id (snd creation))"])
    let ?m = "if fst creation
        then do { op2 (transition (ci_id (snd creation)) WAITING_OWNER ''needs_input_detected_h0'');
                  query (get_instance (ci_id (snd creation))) }
        else ret (Some (snd creation))"
    fix s t :: "'w sys" and x assume s: "?K (ci_id (snd creation)) s" and m: "run_state ?m s = (x, t)"
    have "effect R ?m" by (intro task_intros) simp
    moreover have "effect (\<lambda>s t. grows (db s) (db t)) ?m" by (intro growing.task_intros) simp
    moreover from m have "x = Some i \<Longrightarrow> ci_id i = ci_id (snd creation)" for i
      by (auto split: if_splits dest: get_instance_SomeD)
    ultimately show "R s t \<and> ?K (ci_id (snd creation)) t \<and>
        (\<forall>i. x = Some i \<longrightarrow> ci_id i = ci_id (snd creation))"
      using s m grows_known effectD by fast
  qed (intro eff_on_pure rest, blast)
  show ?thesis
    unfolding auto_resolve_def Let_def
  proof (rule eff_everywhere, rule eff_bind_on [where Q' = "\<lambda>x s. ?K (ci_id (snd x)) s"], goal_cases)
    case (1 s x t)
    then show ?case
      using effectD [OF eff_op2 [OF create]] by (auto simp: known_create)
  qed (rule refresh)
qed

lemma eff_owner_input_like: "effect R (owner_input_like h ad e reqs meta board contracts ib)"
  unfolding owner_input_like_def Let_def
  by (intro task_intros eff_auto_resolve eff_plan_owner_input)

lemma eff_route_event: "effect R (route_event io board e origin return_to oc)"
proof -
  have split: "effect R (case k of NEEDS_INPUT \<Rightarrow> a1 | APPROVAL_REQUIRED \<Rightarrow> a2 | ROADMAP_NEXT \<Rightarrow> a3
      | COMPLETE \<Rightarrow> a4 | CODE_FIX \<Rightarrow> a5 | SEMANTIC_REFUSAL \<Rightarrow> a6 | EXTERNAL_WAIT \<Rightarrow> a7 | KIND_UNKNOWN \<Rightarrow> a8)"
    if "effect R a1" "effect R a2" "effect R a3" "effect R a4" "effect R a5" "effect R a6" "effect R a7"
      "effect R a8" for k and a1 a2 a3 a4 a5 a6 a7 a8 :: "('w sys, py_error + event_result \<times> bool) state"
    using that by (cases k) auto
  show ?thesis
    unfolding route_event_def going_on_def route_step_def route_roadmap_def Let_def
    by (intro split task_intros eff_owner_input_like eff_materialize_code_fix eff_materialize_refusal
        eff_handle_external_wait callbacks_within_True)
qed

lemma eff_process_event: "effect R (process_event io board e)"
  unfolding process_event_def Let_def by (intro task_intros eff_route_event)

lemma eff_ingest_events: "effect R (ingest_events io board es seq)"
  by (induction es arbitrary: seq)
     (auto intro!: task_intros eff_process_event split: sum.split prod.split)

lemma eff_backfill: "effect R (backfill_code_fix_event io board src event_id event_seq existing do_apply)"
  unfolding backfill_code_fix_event_def Let_def
  by (intro task_intros eff_walk_resolved eff_materialize_code_fix)

end

locale ledger_ingest = ledger_client R for R :: "'w sys \<Rightarrow> 'w sys \<Rightarrow> bool" +
  assumes cursor: "R s (s\<lparr>db := snd (advance_cursor b d v t1 (db s))\<rparr>)"
begin

lemma eff_ingest_board_once: "effect R (ingest_board_once io board src)"
  unfolding ingest_board_once_def Let_def
  by (intro task_intros eff_ingest_events eff_op1 [OF cursor])

lemma eff_ingest_boards: "effect R (ingest_boards io source_factory adapter_factory seeds entries)"
  by (induction entries rule: ingest_boards.induct [of _ io source_factory adapter_factory seeds])
     (auto simp: Let_def intro!: task_intros eff_ingest_board_once eff_op1 [OF cursor])

end

interpretation growing: ledger_ingest "\<lambda>s t. grows (db s) (db t)"
  by unfold_locales (simp add: grows_advance_cursor)

subsection \<open>The ledger invariant\<close>

lemma table_ok_rekey:
  assumes ok: "table_ok rid key t" and fresh: "\<And>r. r \<in> set (rows t) \<Longrightarrow> key r \<noteq> k"
    and new: "\<And>r. rid (f r) = rid r \<and> key (f r) = k"
  shows "table_ok rid key (update_where (\<lambda>r. rid r = i) f t)"
proof -
  have ids: "map rid (map (\<lambda>r. if rid r = i then f r else r) xs) = map rid xs" for xs
    using new by (induction xs) auto
  have keys: "distinct (map key (map (\<lambda>r. if rid r = i then f r else r) xs))"
    if "distinct (map rid xs)" "distinct (map key xs)" "\<And>r. r \<in> set xs \<Longrightarrow> key r \<noteq> k" for xs
    using that
  proof (induction xs)
    case (Cons x xs)
    show ?case
    proof (cases "rid x = i")
      case True
      with Cons.prems(1) have "map (\<lambda>r. if rid r = i then f r else r) xs = xs"
        by (intro map_idI) (auto simp: image_iff)
      with True Cons.prems new show ?thesis by auto
    next
      case False
      have "key (if rid r = i then f r else r) \<noteq> key x" if "r \<in> set xs" for r
        using that Cons.prems new by (auto simp: image_iff)
      then have "key x \<notin> set (map key (map (\<lambda>r. if rid r = i then f r else r) xs))"
        unfolding set_map image_image image_iff by metis
      with False Cons show ?thesis by simp
    qed
  qed simp
  have "\<forall>r \<in> set (rows (update_where (\<lambda>r. rid r = i) f t)). 0 < rid r \<and> rid r \<le> counter t"
    using ok new by (auto simp: table_ok_def)
  moreover have "distinct (map rid (rows (update_where (\<lambda>r. rid r = i) f t)))"
    unfolding update_where_simps ids using ok by (simp add: table_ok_def)
  moreover have "distinct (map key (rows (update_where (\<lambda>r. rid r = i) f t)))"
    unfolding update_where_simps using ok fresh by (intro keys) (simp_all add: table_ok_def)
  ultimately show ?thesis by (simp add: table_ok_def)
qed

lemma tables_ok_reinterpret:
  assumes "tables_ok st"
  shows "tables_ok (snd (outbox_reinterpret_pending iid from_op pre to_op key t1 st))"
proof (cases "select_one (\<lambda>r. ob_idempotency_key r = key) (outbox st)")
  case None
  then have "table_ok ob_id ob_idempotency_key (update_where (\<lambda>r. ob_id r = j)
      (\<lambda>r. r\<lparr>ob_operation := to_op, ob_idempotency_key := key, ob_updated_at := t1\<rparr>) (outbox st))" for j
    using assms by (intro table_ok_rekey) (auto simp: tables_ok_def select_one_None_iff)
  with assms show ?thesis
    by (auto simp: outbox_reinterpret_pending_def None Let_def tables_ok_def split: list.split)
qed (simp add: outbox_reinterpret_pending_def assms)

lemma frame_simps [simp]:
  "instances (snd (record_requirement_satisfaction iid field v kind src pol t1 st)) = instances st"
  "events (snd (record_requirement_satisfaction iid field v kind src pol t1 st)) = events st"
  "instances (snd (outbox_mark oid state task next err t1 st)) = instances st"
  "events (snd (outbox_mark oid state task next err t1 st)) = events st"
  "instances (snd (mark_step sid sst task t1 st)) = instances st"
  "events (snd (mark_step sid sst task t1 st)) = events st"
  "instances (snd (add_interaction_member cid iid reqs t1 st)) = instances st"
  "events (snd (add_interaction_member cid iid reqs t1 st)) = events st"
  "instances (snd (update_interaction_case cid cst q a1 a2 a3 st)) = instances st"
  "events (snd (update_interaction_case cid cst q a1 a2 a3 st)) = events st"
  "instances (snd (record_inbound_reply_receipt cid msg sha res t1 st)) = instances st"
  "events (snd (record_inbound_reply_receipt cid msg sha res t1 st)) = events st"
  "instances (snd (create_standing_policy pid owner project action conds dec src en t1 st)) = instances st"
  "events (snd (create_standing_policy pid owner project action conds dec src en t1 st)) = events st"
  "instances (snd (mark_wait wid outcome t1 st)) = instances st"
  "events (snd (mark_wait wid outcome t1 st)) = events st"
  "instances (snd (advance_cursor b d c t1 st)) = instances st"
  "events (snd (advance_cursor b d c t1 st)) = events st"
  by (simp_all add: record_requirement_satisfaction_def outbox_mark_def mark_step_def
      add_interaction_member_def update_interaction_case_def record_inbound_reply_receipt_def
      create_standing_policy_def mark_wait_def advance_cursor_def Let_def case_prod_beta)

lemma frame_cases [simp]:
  "instances (snd (outbox_enqueue iid stp op' payload key t1 st)) = instances st"
  "events (snd (outbox_enqueue iid stp op' payload key t1 st)) = events st"
  "instances (snd (outbox_reinterpret_pending iid from_op pre to_op key t1 st)) = instances st"
  "events (snd (outbox_reinterpret_pending iid from_op pre to_op key t1 st)) = events st"
  "instances (snd (add_step iid kind key par t1 st)) = instances st"
  "events (snd (add_step iid kind key par t1 st)) = events st"
  "instances (snd (create_interaction_case cid ep bk cst q t1 st)) = instances st"
  "events (snd (create_interaction_case cid ep bk cst q t1 st)) = events st"
  "instances (snd (register_wait iid wi t1 st)) = instances st"
  "events (snd (register_wait iid wi t1 st)) = events st"
  by (simp_all add: outbox_enqueue_def outbox_reinterpret_pending_def add_step_def
      create_interaction_case_def register_wait_def Let_def case_prod_beta split: option.split list.split)

text \<open>An invariant of instances and events: all that a preserving operation has to show.\<close>

lemma tables_ok_register_wait: "tables_ok st \<Longrightarrow> tables_ok (snd (register_wait iid wi t1 st))"
  by (auto simp: register_wait_def tables_ok_def split: option.split)

lemma tables_ok_mark_wait: "tables_ok st \<Longrightarrow> tables_ok (snd (mark_wait wid outcome t1 st))"
  by (simp add: mark_wait_def tables_ok_def)

lemmas tables_ok_ops = tables_ok_satisfaction tables_ok_outbox_enqueue tables_ok_outbox_mark
  tables_ok_reinterpret tables_ok_add_step tables_ok_mark_step tables_ok_create_case tables_ok_member
  tables_ok_update_case tables_ok_reply tables_ok_policy tables_ok_register_wait tables_ok_mark_wait
  tables_ok_advance_cursor

lemma ledger_ok_accept:
  assumes "ledger_ok st" "known iid st"
  shows "ledger_ok (snd (transition iid new reason t3 t4 (snd (add_owner_receipt iid owner vals src par t1 t2 st))))"
  by (intro ledger_ok_transition ledger_ok_add_owner_receipt assms)

lemma ledger_ok_tables: "ledger_ok st \<Longrightarrow> tables_ok st"
  by (simp add: ledger_ok_def)

interpretation invariant: ledger_ingest "keeps (\<lambda>s. ledger_ok (db s))"
  by (unfold_locales; simp add: keeps_def del: frame_simps frame_cases; intro impI;
      ((rule ledger_ok_create_instance ledger_ok_transition, assumption) |
       (rule ledger_ok_accept, assumption, assumption) |
       (rule ledger_ok_frame, assumption, rule tables_ok_ops, rule ledger_ok_tables, assumption,
        simp, simp)))

end
