(* ===== verification/Receipt_Gate.thy ===== *)
theory Receipt_Gate
  imports Ledger_Safety
begin

text \<open>
  The owner gate: a transition into \<open>INPUT_ACCEPTED\<close> is recorded only right after the event of an
  owner receipt whose row is in the receipt table. With the ledger invariant, a continuation that
  waited for its owner has resumed only on such a receipt.
\<close>

fun gated_from :: "bool \<Rightarrow> ledger_event list \<Rightarrow> bool" where
  "gated_from b [] = True"
| "gated_from b (Owner_Receipt _ _ # es) = gated_from True es"
| "gated_from b (State_Transition _ y _ # es) = ((y = INPUT_ACCEPTED \<longrightarrow> b) \<and> gated_from False es)"
| "gated_from b (Created _ # es) = gated_from False es"

definition receipts_backed :: "nat \<Rightarrow> store \<Rightarrow> bool" where
  "receipts_backed i st \<longleftrightarrow>
     (\<forall>v owner. Owner_Receipt v owner \<in> set (instance_log i st) \<longrightarrow>
        (\<exists>r \<in> set (rows (receipts st)). receipt_key r = (i, v) \<and> or_owner_ref r = owner))"

definition receipt_gate :: "store \<Rightarrow> bool" where
  "receipt_gate st \<longleftrightarrow> (\<forall>i. gated_from False (instance_log i st) \<and> receipts_backed i st)"

lemma gated_snoc:
  assumes "\<And>a r. e \<noteq> State_Transition a INPUT_ACCEPTED r"
  shows "gated_from b (es @ [e]) = gated_from b es"
  using assms by (induction b es rule: gated_from.induct) (cases e; auto)+

lemma gated_accept:
  "gated_from b (es @ [Owner_Receipt v owner, State_Transition x y r]) = gated_from b es"
  by (induction b es rule: gated_from.induct) auto

lemma receipt_gate_empty: "receipt_gate empty_store"
  by (simp add: receipt_gate_def receipts_backed_def instance_log_def empty_store_def empty_table_def
      select_where_def)

lemma receipt_gate_frame:
  assumes "receipt_gate st" "events st' = events st" "receipts st' = receipts st"
  shows "receipt_gate st'"
  using assms by (simp add: receipt_gate_def receipts_backed_def instance_log_cong [of st' st])

lemma receipt_gate_record:
  assumes "receipt_gate st" and "\<And>a r. e \<noteq> State_Transition a INPUT_ACCEPTED r"
    and "\<And>v owner. e = Owner_Receipt v owner \<Longrightarrow>
      \<exists>r \<in> set (rows (receipts st)). receipt_key r = (iid, v) \<and> or_owner_ref r = owner"
  shows "receipt_gate (record_event iid e t st)"
  using assms by (auto simp: receipt_gate_def receipts_backed_def instance_log_record gated_snoc)

lemma receipt_gate_create:
  assumes "receipt_gate st"
  shows "receipt_gate (snd (create_instance a t1 t2 st))"
  using assms
  by (auto simp: create_instance_def Let_def case_prod_beta split: option.split
      intro!: receipt_gate_record intro: receipt_gate_frame)

lemma receipt_gate_transition:
  assumes "receipt_gate st" "new \<noteq> INPUT_ACCEPTED"
  shows "receipt_gate (snd (transition iid new reason t1 t2 st))"
  using assms
  by (auto simp: transition_def set_instance_state_def split: option.split
      intro!: receipt_gate_record intro: receipt_gate_frame)

lemma receipt_gate_add_receipt:
  assumes "receipt_gate st"
  shows "receipt_gate (snd (add_owner_receipt iid owner vals src par t1 t2 st))"
proof -
  define st0 where "st0 = st\<lparr>receipts := snd (insert_row (mk_receipt (iid,
    max_column or_version (\<lambda>r. or_continuation_id r = iid) (receipts st) + 1, owner, vals, src, par, t1))
    (receipts st))\<rparr>"
  have "receipt_gate st0"
    using assms by (auto simp: receipt_gate_def receipts_backed_def st0_def instance_log_def)
  then show ?thesis
    by (auto simp: add_owner_receipt_def Let_def case_prod_beta st0_def mk_receipt_def receipt_key_def
        intro!: receipt_gate_record)
qed

text \<open>Accepting: the transition directly after the receipt.\<close>

lemma receipt_gate_accept:
  assumes "receipt_gate st"
  shows "receipt_gate (snd (transition iid INPUT_ACCEPTED reason t3 t4
    (snd (add_owner_receipt iid owner vals src par t1 t2 st))))"
proof -
  define st1 where "st1 = snd (add_owner_receipt iid owner vals src par t1 t2 st)"
  have st1: "receipt_gate st1" unfolding st1_def by (rule receipt_gate_add_receipt [OF assms])
  obtain v where log1: "instance_log i st1 = instance_log i st @ (if i = iid then [Owner_Receipt v owner] else [])" for i
    by (auto simp: st1_def add_owner_receipt_def Let_def case_prod_beta instance_log_record)
       (simp add: instance_log_def)
  define st2 where "st2 = snd (transition iid INPUT_ACCEPTED reason t3 t4 st1)"
  have "receipts st2 = receipts st1"
    by (simp add: st2_def transition_def set_instance_state_def split: option.split)
  moreover have "\<exists>es. (es = [] \<or> (\<exists>a. es = [State_Transition a INPUT_ACCEPTED reason])) \<and>
      (\<forall>i. instance_log i st2 = instance_log i st1 @ (if i = iid then es else []))"
    by (auto simp: st2_def transition_def instance_log_record split: option.split)
  then obtain es where es: "es = [] \<or> (\<exists>a. es = [State_Transition a INPUT_ACCEPTED reason])"
    and log2: "\<And>i. instance_log i st2 = instance_log i st1 @ (if i = iid then es else [])" by blast
  have "gated_from False (instance_log i st2)" for i
    using es st1 assms by (auto simp: log2 log1 receipt_gate_def gated_accept gated_snoc)
  moreover have "receipts_backed i st2" for i
    using es st1 calculation(1) unfolding receipt_gate_def receipts_backed_def by (auto simp: log2)
  ultimately show ?thesis by (simp add: receipt_gate_def st2_def st1_def)
qed

lemma receipts_frame [simp]:
  "receipts (snd (record_requirement_satisfaction iid field v kind src pol t1 st)) = receipts st"
  "receipts (snd (outbox_mark oid state task next err t1 st)) = receipts st"
  "receipts (snd (mark_step sid sst task t1 st)) = receipts st"
  "receipts (snd (add_interaction_member cid iid reqs t1 st)) = receipts st"
  "receipts (snd (update_interaction_case cid cst q a1 a2 a3 st)) = receipts st"
  "receipts (snd (record_inbound_reply_receipt cid msg sha res t1 st)) = receipts st"
  "receipts (snd (create_standing_policy pid owner project action conds dec src en t1 st)) = receipts st"
  "receipts (snd (mark_wait wid outcome t1 st)) = receipts st"
  "receipts (snd (advance_cursor b d c t1 st)) = receipts st"
  "receipts (snd (outbox_enqueue iid stp op' payload key t1 st)) = receipts st"
  "receipts (snd (outbox_reinterpret_pending iid from_op pre to_op key t1 st)) = receipts st"
  "receipts (snd (add_step iid kind key par t1 st)) = receipts st"
  "receipts (snd (create_interaction_case cid ep bk cst2 q2 t1 st)) = receipts st"
  "receipts (snd (register_wait iid wi t1 st)) = receipts st"
  by (simp_all add: record_requirement_satisfaction_def outbox_mark_def mark_step_def
      add_interaction_member_def update_interaction_case_def record_inbound_reply_receipt_def
      create_standing_policy_def mark_wait_def advance_cursor_def outbox_enqueue_def
      outbox_reinterpret_pending_def add_step_def create_interaction_case_def register_wait_def
      Let_def case_prod_beta split: option.split list.split)

interpretation gate: ledger_ingest "keeps (\<lambda>s. receipt_gate (db s))"
  by (unfold_locales; simp add: keeps_def del: frame_simps frame_cases receipts_frame; intro impI;
      ((rule receipt_gate_create receipt_gate_accept, assumption) |
       (rule receipt_gate_transition, assumption, assumption) |
       (rule receipt_gate_frame, assumption, simp, simp)))

subsection \<open>What a resumed continuation has behind it\<close>

lemma replay_terminal:
  "replay a es = Some x \<Longrightarrow> a \<in> set TERMINAL_STATES \<Longrightarrow> x = a"
  by (induction a es rule: replay.induct) (auto simp: legal_def split: if_splits)

lemma replay_waiting:
  assumes "replay WAITING_OWNER es = Some x" "x \<noteq> WAITING_OWNER" "x \<noteq> BLOCKED_INVALID"
  shows "\<exists>r. State_Transition WAITING_OWNER INPUT_ACCEPTED r \<in> set es"
  using assms
proof (induction es)
  case (Cons e es)
  show ?case
  proof (cases e)
    case (State_Transition a b r)
    with Cons.prems have "a = WAITING_OWNER" "legal a b" and rest: "replay b es = Some x"
      by (auto split: if_splits)
    then have "b = INPUT_ACCEPTED \<or> b = BLOCKED_INVALID"
      by (auto simp: legal_def split: if_splits)
    with replay_terminal [OF rest] Cons.prems(3) State_Transition \<open>a = WAITING_OWNER\<close> show ?thesis
      by (auto simp: TERMINAL_STATES_def)
  qed (use Cons in auto)
qed simp

lemma replay_through:
  assumes "replay a es = Some x" "State_Transition b c r \<in> set es"
  shows "\<exists>es'. replay c es' = Some x \<and> set es' \<subseteq> set es"
  using assms
proof (induction a es rule: replay.induct)
  case (2 a x' y r' es)
  then show ?case by (auto split: if_splits)
qed auto

lemma gated_backed:
  "gated_from b es \<Longrightarrow> State_Transition a INPUT_ACCEPTED r \<in> set es \<Longrightarrow>
     b \<or> (\<exists>v owner. Owner_Receipt v owner \<in> set es)"
  by (induction b es rule: gated_from.induct) auto

lemma gate_reached:
  assumes "ledger_ok st" "receipt_gate st" "get_instance i st = Some r"
    and "State_Transition a WAITING_OWNER why \<in> set (instance_log i st)"
    and "ci_state r \<noteq> WAITING_OWNER" "ci_state r \<noteq> BLOCKED_INVALID"
  shows "\<exists>v owner. Owner_Receipt v owner \<in> set (instance_log i st)"
proof -
  have "log_state (instance_log i st) = Some (ci_state r)" using assms(1,3) by (rule ledger_ok_get)
  then obtain es where log: "instance_log i st = Created DETECTED # es" "replay DETECTED es = Some (ci_state r)"
    unfolding log_state_def
    by (auto split: list.splits ledger_event.splits cstate.splits)
  with assms(4) replay_through obtain es' where "replay WAITING_OWNER es' = Some (ci_state r)" "set es' \<subseteq> set es"
    by fastforce
  with replay_waiting assms(5,6) have "\<exists>r. State_Transition WAITING_OWNER INPUT_ACCEPTED r \<in> set es" by blast
  moreover from assms(2) have "gated_from False (instance_log i st)" by (simp add: receipt_gate_def)
  ultimately show ?thesis using gated_backed [of False es] by (auto simp: log(1))
qed

end
