(* ===== verification/Samples.thy ===== *)
theory Samples
  imports Ingest
begin

text \<open>
  A concrete system for the witnesses: the in-memory board with its adapter, a clock that stands still,
  a structured outcome per event and the generic owner-input contract.
\<close>

definition sample_hash :: "string \<Rightarrow> string" where
  "sample_hash s = take 4 s"

definition sample_sys :: "fake_board sys" where
  "sample_sys = \<lparr>db = empty_store, world = empty_board, clk = (\<lambda>n. 0), readings = 0\<rparr>"

definition sample_field :: input_field where
  "sample_field = \<lparr>if_name = ''approve'', if_value_type = ''text'', if_authority = OWNER,
     if_required = True, if_allowed_values = [], if_description = [], if_secret = False,
     if_kind = FACT, if_question = ''Approve?'', if_answer_hint = []\<rparr>"

definition sample_contract :: input_contract where
  "sample_contract = \<lparr>co_contract_ref = GENERIC_OWNER_INPUT_CONTRACT, co_version = 1,
     co_owner_role = ''owner'', co_fields = [sample_field], co_artifacts = [],
     co_resume_transition = []\<rparr>"

text \<open>An event whose metadata carries a structured outcome of the given verdict and kind.\<close>

definition sample_event :: "nat \<Rightarrow> verdict \<Rightarrow> continuation_kind \<Rightarrow> board_event" where
  "sample_event n v k = \<lparr>be_event_id = canonical_board_event_id n, be_event_seq = n,
     be_source_task_id = ''t'' @ str_nat n, be_source_graph_id = ''g'', be_summary = [],
     be_run_metadata = Some (JObj [(''agentflow_outcome'', JObj
       [(''schema_version'', JInt 1), (''verdict'', JStr (verdict_value v)),
        (''continuation_kind'', JStr (continuation_kind_value k)),
        (''contract_ref'', JStr GENERIC_OWNER_INPUT_CONTRACT),
        (''next_transition'', JStr ''next'')])]),
     be_origin_ref = ''chat:1'', be_return_to_ref = ''chat:1'', be_workspace_ref = [],
     be_assignee = [], be_occurred_at = 0, be_event_kind = ''completed'', be_title = []\<rparr>"

definition sample_io :: "fake_board ingest_options" where
  "sample_io = \<lparr>io_hash = sample_hash, io_contracts = [(GENERIC_OWNER_INPUT_CONTRACT, sample_contract)],
     io_adapter = Some (fake_adapter sample_hash), io_roadmap_router = None,
     io_code_fix_router = (\<lambda>e origin return_to w. ([(''success'', JBool True)], w)),
     io_handle_kinds = None, io_default_endpoint = [], io_inbox = None, io_roadmap_config = None,
     io_promote = (\<lambda>p w. ([], w)), io_apply = True\<rparr>"

definition sample_source :: event_source where
  "sample_source = fake_source ''kanban'' [sample_event 1 NEED_MORE NEEDS_INPUT]"

definition sample_waiting :: "fake_board sys" where
  "sample_waiting = snd (run_state (ingest_board_once sample_io ''b'' sample_source) sample_sys)"

definition sample_envelope :: "continuation_kind \<Rightarrow> envelope" where
  "sample_envelope k = \<lparr>oe_schema_version = 1, oe_event_id = ''e1'', oe_board = ''b'',
     oe_source_task_id = ''t1'', oe_source_graph_id = ''g'', oe_verdict = BLOCK, oe_kind = k,
     oe_contract_ref = GENERIC_OWNER_INPUT_CONTRACT, oe_origin_ref = ''chat:1'',
     oe_return_to_ref = ''chat:1'', oe_workspace_ref = [], oe_assignee = [], oe_occurred_at = 0,
     oe_requirements = [], oe_next_transition = [], oe_confidence = ''structured''\<rparr>"

abbreviation sample_adapter :: "fake_board adapter" where
  "sample_adapter \<equiv> fake_adapter sample_hash"

definition sample_instance :: instance_row where
  "sample_instance = the (get_instance 1 (db sample_waiting))"

definition sample_submission :: submission where
  "sample_submission = \<lparr>su_owner_ref = ''owner'', su_fields = [(''approve'', JStr ''yes'')], su_source_ref = ''msg''\<rparr>"

lemma sample_waiting_run:
  "state_text 1 (db sample_waiting) = ''waiting_owner'' \<and>
   instance_log 1 (db sample_waiting) =
     [Created DETECTED, State_Transition DETECTED WAITING_OWNER ''needs_input_detected'']"
  by code_simp

lemmas sample_waiting_state = sample_waiting_run [THEN conjunct1]
  and sample_waiting_log = sample_waiting_run [THEN conjunct2]

lemma sample_instance: "get_instance 1 (db sample_waiting) = Some sample_instance"
  "ci_id sample_instance = 1" "ci_state sample_instance = WAITING_OWNER"
proof -
  obtain r where r: "get_instance 1 (db sample_waiting) = Some r" "cstate_value (ci_state r) = ''waiting_owner''"
    using sample_waiting_state by (auto simp: state_text_def split: option.splits)
  then have "ci_state r = WAITING_OWNER" by (cases "ci_state r") simp_all
  with r show "get_instance 1 (db sample_waiting) = Some sample_instance"
    "ci_id sample_instance = 1" "ci_state sample_instance = WAITING_OWNER"
    by (auto simp: sample_instance_def dest: get_instance_SomeD)
qed

lemma sample_submission_valid:
  "validate_owner_submission sample_contract (su_fields sample_submission) = ([(''approve'', JStr ''yes'')], [])"
  by code_simp

end
