(* ===== verification/Delivery_Props.thy ===== *)
theory Delivery_Props
  imports Receipt_Gate Samples
begin

text \<open>
  Properties of the outbox cycle: what it may write, exactly-once delivery, the retry schedule, and
  the callback cap.
\<close>

subsection \<open>The footprint of the cycle\<close>

definition only_graph :: "store \<Rightarrow> store \<Rightarrow> bool" where
  "only_graph st st' \<longleftrightarrow>
     instances st' = instances st \<and> events st' = events st \<and> receipts st' = receipts st \<and>
     cursors st' = cursors st \<and> satisfactions st' = satisfactions st \<and> policies st' = policies st \<and>
     cases st' = cases st \<and> members st' = members st \<and> replies st' = replies st \<and> waits st' = waits st"

definition only_outbox :: "store \<Rightarrow> store \<Rightarrow> bool" where
  "only_outbox st st' \<longleftrightarrow> only_graph st st' \<and> steps st' = steps st"

lemma only_outbox_ops:
  "only_outbox st (snd (outbox_enqueue iid step op payload key now st))"
  "only_outbox st (snd (outbox_mark oid state task next err now st))"
  "only_outbox st (snd (outbox_reinterpret_pending iid from_op pre to_op key now st))"
  by (simp_all add: only_outbox_def only_graph_def outbox_enqueue_def outbox_mark_def
      outbox_reinterpret_pending_def Let_def case_prod_beta split: option.split list.split)

lemma only_graph_steps:
  "only_graph st (snd (add_step iid kind key parent now st))"
  "only_graph st (snd (mark_step sid state task now st))"
  by (simp_all add: only_graph_def add_step_def mark_step_def Let_def case_prod_beta split: option.split)

interpretation outbox_only: delivery_client "\<lambda>s t. only_outbox (db s) (db t)" "\<lambda>_ _. True"
  by unfold_locales (simp_all add: only_outbox_ops, simp_all add: only_outbox_def only_graph_def)

interpretation graph_only: graph_client "\<lambda>s t. only_graph (db s) (db t)"
  by unfold_locales
    (simp_all add: only_graph_steps only_outbox_ops [unfolded only_outbox_def], simp_all add: only_graph_def)

lemma only_graph_state:
  assumes "only_graph st st'"
  shows "get_instance i st' = get_instance i st" "state_text i st' = state_text i st"
    "instance_log i st' = instance_log i st"
  using assms by (simp_all add: only_graph_def get_instance_def state_text_def instance_log_def)

subsection \<open>Rows of the outbox\<close>

lemma mark_row_simps [simp]:
  "ob_id (mark_outbox_row state task next err now r) = ob_id r"
  "ob_continuation_id (mark_outbox_row state task next err now r) = ob_continuation_id r"
  "ob_step_id (mark_outbox_row state task next err now r) = ob_step_id r"
  "ob_operation (mark_outbox_row state task next err now r) = ob_operation r"
  "ob_payload (mark_outbox_row state task next err now r) = ob_payload r"
  "ob_idempotency_key (mark_outbox_row state task next err now r) = ob_idempotency_key r"
  "ob_state (mark_outbox_row state task next err now r) = state"
  "ob_attempts (mark_outbox_row state task next err now r) = Suc (ob_attempts r)"
  "ob_board_task_id (mark_outbox_row state task next err now r) = str_or task (ob_board_task_id r)"
  by (simp_all add: mark_outbox_row_def Let_def)

definition row_of :: "string \<Rightarrow> store \<Rightarrow> outbox_row option" where
  "row_of key st = select_one (\<lambda>r. ob_idempotency_key r = key) (outbox st)"

lemma row_of_enqueue:
  "row_of key (snd (outbox_enqueue iid step op payload key now st)) =
     Some (snd (fst (outbox_enqueue iid step op payload key now st)))"
  by (auto simp: row_of_def outbox_enqueue_def Let_def case_prod_beta select_one_def find_append mk_outbox_def
      split: option.split)

lemma row_of_mark:
  "row_of key (snd (outbox_mark oid state task next err now st)) =
     map_option (\<lambda>r. if ob_id r = oid then mark_outbox_row state task next err now r else r) (row_of key st)"
  by (simp add: row_of_def outbox_mark_def Let_def select_one_def find_map_if mark_outbox_row_def)

lemma enqueue_existing:
  "row_of key st = Some r \<Longrightarrow> outbox_enqueue iid step op payload key now st = ((False, r), st)"
  by (simp add: row_of_def outbox_enqueue_def)


subsection \<open>Plain operations\<close>

lemma run_row_not_due:
  "run_state (row_not_due row) s =
     (if ob_state row = ''pending''
      then (clk s (readings s) < ob_next_attempt_at row, s\<lparr>readings := Suc (readings s)\<rparr>)
      else (False, s))"
  by (simp add: row_not_due_def)

lemma run_call_adapter [simp]:
  "db (snd (run_state (call_adapter a operation payload) s)) = db s"
  "clk (snd (run_state (call_adapter a operation payload) s)) = clk s"
  "readings (snd (run_state (call_adapter a operation payload) s)) = readings s"
  by (simp_all add: call_adapter_def)

lemma apply_plain:
  assumes "operation \<notin> set CALLBACK_ONLY_OPERATIONS"
    and "e = outbox_enqueue iid step operation payload key (clk s (readings s)) (db s)"
    and "row = snd (fst e)" and "s1 = s\<lparr>readings := Suc (readings s), db := snd e\<rparr>"
  shows "run_state (apply_board_operation ad iid step operation payload key) s =
    (if ob_state row = ''applied'' then (Op_Ok (ob_board_task_id row), s1)
     else run_state (attempt_plain ad row operation payload) s1)"
  using assms by (simp add: apply_board_operation_def CALLBACK_ONLY_OPERATIONS_def Let_def)

lemma call_adapter_same:
  "run_state (call_adapter a operation payload) s = (x, t) \<Longrightarrow>
     db t = db s \<and> clk t = clk s \<and> readings t = readings s"
  by (metis run_call_adapter snd_conv)

text \<open>What an attempt leaves in the ledger.\<close>

lemma attempt_plain_ok:
  assumes "run_state (attempt_plain ad row operation payload) s = (Op_Ok task, t)"
  shows "\<exists>now. db t = snd (outbox_mark (ob_id row) ''applied'' task None None now (db s))"
  using assms
  by (auto simp: attempt_plain_def run_row_not_due Let_def split: if_splits option.splits prod.splits
      dest!: call_adapter_same)

definition marked_pending :: "outbox_row \<Rightarrow> string \<Rightarrow> store \<Rightarrow> store \<Rightarrow> bool" where
  "marked_pending row err st st' \<longleftrightarrow> (\<exists>now now'. st' = snd (outbox_mark (ob_id row) ''pending'' []
     (Some (now + retry_delay (ob_attempts row + 1))) (Some err) now' st))"

lemma marked_pendingI: "marked_pending row err st (snd (outbox_mark (ob_id row) ''pending'' []
    (Some (now + retry_delay (Suc (ob_attempts row)))) (Some err) now' st))"
  by (auto simp: marked_pending_def)

lemma attempt_plain_failed:
  assumes "run_state (attempt_plain ad row operation payload) s = (Op_Failed err z, t)"
  shows "db t = db s \<or> marked_pending row err (db s) (db t)"
  using assms
  by (auto simp: attempt_plain_def run_row_not_due Let_def split: if_splits option.splits prod.splits
      dest!: call_adapter_same intro: marked_pendingI)

lemma row_of_apply:
  assumes "operation \<notin> set CALLBACK_ONLY_OPERATIONS"
    and "run_state (apply_board_operation ad iid step operation payload key) s = (Op_Ok task, t)"
  shows "\<exists>r. row_of key (db t) = Some r \<and> ob_state r = ''applied'' \<and> (task \<noteq> [] \<longrightarrow> ob_board_task_id r = task)"
proof -
  define e where "e = outbox_enqueue iid step operation payload key (clk s (readings s)) (db s)"
  define row where "row = snd (fst e)"
  define s1 where "s1 = s\<lparr>readings := Suc (readings s), db := snd e\<rparr>"
  have row: "row_of key (db s1) = Some row" by (simp add: s1_def row_def e_def row_of_enqueue)
  have run: "(if ob_state row = ''applied'' then (Op_Ok (ob_board_task_id row), s1)
      else run_state (attempt_plain ad row operation payload) s1) = (Op_Ok task, t)"
    using assms(2) unfolding apply_plain [OF assms(1) e_def row_def s1_def] .
  show ?thesis
  proof (cases "ob_state row = ''applied''")
    case True
    with run row show ?thesis by auto
  next
    case False
    with run attempt_plain_ok obtain now where
      "db t = snd (outbox_mark (ob_id row) ''applied'' task None None now (db s1))" by fastforce
    with row show ?thesis by (simp add: row_of_mark mark_outbox_row_def)
  qed
qed

subsection \<open>Exactly once\<close>

lemma applied_returns:
  assumes "operation \<notin> set CALLBACK_ONLY_OPERATIONS" and "row_of key (db u) = Some r" "ob_state r = ''applied''"
  shows "run_state (apply_board_operation ad iid step operation payload key) u =
    (Op_Ok (ob_board_task_id r), u\<lparr>readings := Suc (readings u)\<rparr>)"
proof -
  have "outbox_enqueue iid step operation payload key now (db u) = ((False, r), db u)" for now
    using assms(2) by (rule enqueue_existing)
  with assms(3) show ?thesis by (simp add: apply_plain [OF assms(1) refl refl refl])
qed

text \<open>Programs that read the ledger only.\<close>

definition reads :: "('w sys, 'a) state \<Rightarrow> bool" where
  "reads m \<longleftrightarrow> effect (\<lambda>s t. db t = db s) m"

lemma reads_base:
  "reads time_now" "reads (board_call f)" "reads (query g)" "reads (ret x)"
  "reads (row_not_due row)" "reads (origin_wake_satisfied ad task endpoint)"
  "reads (call_adapter a operation payload)"
  by (auto simp: reads_def effect_def run_row_not_due origin_wake_satisfied_def split: option.split)

lemma reads_cases:
  "reads m \<Longrightarrow> reads n \<Longrightarrow> reads (if b then m else n)"
  "reads m \<Longrightarrow> (\<And>x. reads (f x)) \<Longrightarrow> reads (case z of None \<Rightarrow> m | Some x \<Rightarrow> f x)"
  by (auto split: option.split)

lemma triple_reads:
  assumes "reads m" and "\<And>x. triple (\<lambda>s. J (db s)) (f x) P"
  shows "triple (\<lambda>s. J (db s)) (State_Monad.bind m f) P"
proof (rule triple_bind [where Q' = "\<lambda>_ s. J (db s)"])
  show "triple (\<lambda>s. J (db s)) m (\<lambda>_ s. J (db s))"
    by (rule triple_effect [OF assms(1) [unfolded reads_def]]) simp
qed (rule assms(2))

subsection \<open>The callback cap\<close>

definition callback_bounded :: "outbox_row \<Rightarrow> bool" where
  "callback_bounded r \<longleftrightarrow>
     (ob_operation r \<in> set CALLBACK_ONLY_OPERATIONS \<and> ob_state r = ''pending'' \<longrightarrow>
      ob_attempts r < CALLBACK_RETRY_CAP)"

definition callbacks_bounded :: "store \<Rightarrow> bool" where
  "callbacks_bounded st \<longleftrightarrow> (\<forall>r \<in> set (rows (outbox st)). callback_bounded r)"

text \<open>The ledger still holds the row that was read.\<close>

definition current :: "outbox_row \<Rightarrow> store \<Rightarrow> bool" where
  "current row st \<longleftrightarrow> (\<forall>r \<in> set (rows (outbox st)). ob_id r = ob_id row \<longrightarrow> r = row)"

lemma callbacks_bounded_mark:
  assumes "callbacks_bounded st" and "current row st"
    and "callback_bounded (mark_outbox_row state task next err now row)"
  shows "callbacks_bounded (snd (outbox_mark (ob_id row) state task next err now st))"
  using assms by (auto simp: callbacks_bounded_def current_def outbox_mark_def Let_def)

abbreviation holds_row :: "outbox_row \<Rightarrow> store \<Rightarrow> bool" where
  "holds_row row st \<equiv> callbacks_bounded st \<and> current row st"

lemma mark_done_bounded:
  assumes "state \<noteq> ''pending''"
  shows "triple (\<lambda>s. holds_row row (db s)) (op1 (outbox_mark (ob_id row) state task next err))
    (\<lambda>_ s. callbacks_bounded (db s))"
  using assms callbacks_bounded_mark [of _ row]
  by (auto simp: triple_def callback_bounded_def)

lemma mark_outbox_pending_bounded:
  "triple (\<lambda>s. holds_row row (db s)) (mark_outbox_pending row err) (\<lambda>_ s. callbacks_bounded (db s))"
  unfolding mark_outbox_pending_def Let_def
  by (auto simp: triple_def callback_bounded_def intro!: callbacks_bounded_mark)


lemma triple_last:
  "triple Q m (\<lambda>_ s. P s) \<Longrightarrow> triple Q (State_Monad.bind m (\<lambda>x. ret (g x))) (\<lambda>_ s. P s)"
  by (erule triple_bind) (simp add: triple_def)




lemma current_unique:
  assumes "tables_ok st" "row \<in> set (rows (outbox st))"
  shows "current row st"
  using assms table_ok_id_unique [of ob_id ob_idempotency_key "outbox st"]
  by (auto simp: current_def tables_ok_def)

lemma row_of_mem: "row_of key st = Some row \<Longrightarrow> row \<in> set (rows (outbox st)) \<and> ob_idempotency_key row = key"
  unfolding row_of_def by (drule select_one_SomeD)













subsection \<open>Reconciliation\<close>

text \<open>Working on one row leaves every other row as it is.\<close>

definition spares :: "outbox_row \<Rightarrow> 'w sys \<Rightarrow> 'w sys \<Rightarrow> bool" where
  "spares q s t \<longleftrightarrow> (current q (db s) \<longrightarrow> current q (db t))"

interpretation sparing: effect_order "spares q"
  by unfold_locales (auto simp: spares_def)

lemma spares_reads: "reads m \<Longrightarrow> effect (spares q) m"
  by (auto simp: reads_def effect_def spares_def)

lemma spares_mark: "oid \<noteq> ob_id q \<Longrightarrow> effect (spares q) (op1 (outbox_mark oid state task next err))"
  by (rule effectI) (auto simp: spares_def current_def outbox_mark_def Let_def)

lemma spares_mark_step: "effect (spares q) (op1 (mark_step sid state task))"
  by (rule effectI) (auto simp: spares_def current_def mark_step_def Let_def)

lemma spares_mark_outbox_pending: "ob_id row \<noteq> ob_id q \<Longrightarrow> effect (spares q) (mark_outbox_pending row err)"
  unfolding mark_outbox_pending_def Let_def
  by (intro sparing.eff_intros spares_mark spares_reads reads_base) simp_all

interpretation reading: effect_order "\<lambda>s t. db t = db s"
  by unfold_locales auto

lemma reads_bind: "reads m \<Longrightarrow> (\<And>x. reads (f x)) \<Longrightarrow> reads (State_Monad.bind m f)"
  unfolding reads_def by (rule reading.eff_bind)

lemma reads_reconcile_call: "reads (reconcile_call a row)"
  unfolding reconcile_call_def reconcile_wake_def reconcile_ack_def Let_def
  by (intro reads_base reads_cases reads_bind)

lemma spares_reconcile_row:
  "ob_id row \<noteq> ob_id q \<Longrightarrow> effect (spares q) (reconcile_row a row)"
  unfolding reconcile_row_def Let_def
  by (intro sparing.eff_intros spares_reads [OF reads_reconcile_call] spares_mark spares_mark_step
      spares_mark_outbox_pending)

lemma spares_reconcile_rows:
  "(\<And>row b. (row, b) \<in> set xs \<Longrightarrow> ob_id row \<noteq> ob_id q) \<Longrightarrow> effect (spares q) (reconcile_rows adapter_of xs)"
proof (induction xs rule: reconcile_rows.induct [of _ adapter_of])
  case (2 adapter_of row board rest)
  then have "ob_id row \<noteq> ob_id q" "effect (spares q) (reconcile_rows adapter_of rest)"
    by (auto split: option.split)
  then show ?case
    unfolding reconcile_rows.simps
    by (intro sparing.eff_intros spares_reconcile_row)
qed (simp add: sparing.eff_ret)

lemma due_rows:
  assumes "(row, b) \<in> set (due_outbox now st)"
  shows "row \<in> set (rows (outbox st)) \<and> ob_state row = ''pending'' \<and> ob_next_attempt_at row \<le> now"
  using assms by (auto simp: due_outbox_def map_filter_mem list_due_outbox_def select_where_def)

lemma run_reconcile:
  "snd (run_state (reconcile_outbox adapter_of) s) =
     snd (run_state (reconcile_rows adapter_of (due_outbox (clk s (readings s)) (db s)))
       (s\<lparr>readings := Suc (readings s)\<rparr>))"
  by (simp add: reconcile_outbox_def case_prod_beta)

text \<open>
  reconciliation works on due pending rows only. A row that is applied, dead-lettered or not yet
  due when \<open>reconcile_outbox\<close> reads the clock is in the outbox afterwards, unchanged in every column.
\<close>

theorem reconcile_spares:
  assumes "tables_ok (db s)" and "q \<in> set (rows (outbox (db s)))"
    and "ob_state q \<noteq> ''pending'' \<or> clk s (readings s) < ob_next_attempt_at q"
  shows "q \<in> set (rows (outbox (db (snd (run_state (reconcile_outbox adapter_of) s)))))"
proof -
  let ?due = "due_outbox (clk s (readings s)) (db s)" and ?s = "s\<lparr>readings := Suc (readings s)\<rparr>"
  have cur: "current q (db s)" by (rule current_unique [OF assms(1,2)])
  have "ob_id row \<noteq> ob_id q" if "(row, b) \<in> set ?due" for row b
    using due_rows [OF that] cur assms(3) by (auto simp: current_def)
  then have "spares q ?s (snd (run_state (reconcile_rows adapter_of ?due) ?s))"
    using spares_reconcile_rows [of ?due q adapter_of] by (simp add: effect_def)
  moreover define t where "t = snd (run_state (reconcile_outbox adapter_of) s)"
  ultimately have same: "current q (db t)" using cur by (simp add: run_reconcile spares_def)
  have "grows (db s) (db t)"
    unfolding t_def by (rule growing.eff_reconcile_outbox [unfolded effect_def, rule_format])
  then have "outbox_identity ` set (rows (outbox (db s))) \<subseteq> outbox_identity ` set (rows (outbox (db t)))"
    by (simp add: grows_def rows_grow_def kept_def)
  then have "outbox_identity q \<in> outbox_identity ` set (rows (outbox (db t)))"
    using assms(2) by blast
  then obtain q' where "q' \<in> set (rows (outbox (db t)))" "outbox_identity q' = outbox_identity q"
    by fastforce
  moreover from this(2) have "ob_id q' = ob_id q" by (simp add: outbox_identity_def)
  ultimately have "q \<in> set (rows (outbox (db t)))" using same unfolding current_def by metis
  then show ?thesis by (simp add: t_def)
qed

subsection \<open>A delivered row stays delivered\<close>

text \<open>A row that is spared by a step that only grows the outbox is still there, unchanged.\<close>

lemma spared_stays:
  assumes "tables_ok (db s)" and "q \<in> set (rows (outbox (db s)))" and "spares q s t" and "grows (db s) (db t)"
  shows "q \<in> set (rows (outbox (db t)))"
proof -
  have same: "current q (db t)" using assms(3) current_unique [OF assms(1,2)] by (simp add: spares_def)
  have "outbox_identity q \<in> outbox_identity ` set (rows (outbox (db t)))"
    using assms(2,4) by (auto simp: grows_def rows_grow_def kept_def)
  then obtain q' where "q' \<in> set (rows (outbox (db t)))" "outbox_identity q' = outbox_identity q" by fastforce
  moreover from this(2) have "ob_id q' = ob_id q" by (simp add: outbox_identity_def)
  ultimately show ?thesis using same unfolding current_def by metis
qed

lemmas spares_base = reads_base [THEN spares_reads]

lemma spares_origin_wake: "ob_id row \<noteq> ob_id q \<Longrightarrow> effect (spares q) (apply_schedule_origin_wake ad row payload)"
  unfolding apply_schedule_origin_wake_def Let_def
  by (intro spares_base sparing.eff_intros spares_mark spares_mark_outbox_pending)

lemma spares_consumer_ack: "ob_id row \<noteq> ob_id q \<Longrightarrow> effect (spares q) (apply_record_consumer_ack ad row payload)"
  unfolding apply_record_consumer_ack_def Let_def
  by (intro spares_base sparing.eff_intros spares_mark spares_mark_outbox_pending)

lemma spares_attempt: "ob_id row \<noteq> ob_id q \<Longrightarrow> effect (spares q) (attempt_plain ad row operation payload)"
  unfolding attempt_plain_def Let_def
  by (intro spares_base sparing.eff_intros spares_mark)

lemma run_effect: "effect R m \<Longrightarrow> R s (snd (run_state m s))"
  by (simp add: effect_def)

lemma spares_apply:
  assumes "tables_ok (db s)" and "q \<in> set (rows (outbox (db s)))" and "ob_idempotency_key q \<noteq> key"
  shows "spares q s (snd (run_state (apply_board_operation ad iid step operation payload key) s))"
proof -
  define e where "e = outbox_enqueue iid step operation payload key (clk s (readings s)) (db s)"
  define row where "row = snd (fst e)"
  define s1 where "s1 = s\<lparr>readings := Suc (readings s), db := snd e\<rparr>"
  have ok: "tables_ok (db s1)" using assms(1) by (simp add: s1_def e_def tables_ok_outbox_enqueue)
  have row: "row \<in> set (rows (outbox (db s1)))" "ob_idempotency_key row = key"
    using row_of_mem [of key "db s1" row] by (simp_all add: s1_def row_def e_def row_of_enqueue)
  have q: "q \<in> set (rows (outbox (db s1)))"
    using assms(2) by (simp add: s1_def e_def outbox_enqueue_def Let_def case_prod_beta split: option.split)
  with current_unique [OF ok] have cur: "current q (db s1)" "current row (db s1)" using row(1) by blast+
  with q row(2) assms(3) have other: "ob_id row \<noteq> ob_id q" by (auto simp: current_def)
  have run: "run_state (apply_board_operation ad iid step operation payload key) s =
      run_state (if operation = ''schedule_origin_wake'' then apply_schedule_origin_wake ad row payload
        else if operation = ''record_consumer_ack'' then apply_record_consumer_ack ad row payload
        else if ob_state row = ''applied'' then ret (Op_Ok (ob_board_task_id row))
        else attempt_plain ad row operation payload) s1"
    by (simp add: apply_board_operation_def Let_def e_def row_def s1_def)
  have "spares q s1 (snd (run_state (apply_board_operation ad iid step operation payload key) s))"
    unfolding run
    by (rule run_effect) (simp add: spares_origin_wake [OF other] spares_consumer_ack [OF other] spares_attempt [OF other]
        sparing.eff_ret)
  with cur(1) show ?thesis by (simp add: spares_def)
qed

text \<open>
  What may happen to the ledger while the row of \<open>key\<close> is applied: deliveries under other keys,
  plain deliveries under this one, reconciliations, and everything that leaves the outbox alone.
\<close>

inductive outbox_step :: "string \<Rightarrow> 'w sys \<Rightarrow> 'w sys \<Rightarrow> bool" for key where
  other_key: "key' \<noteq> key \<Longrightarrow>
    outbox_step key s (snd (run_state (apply_board_operation ad iid step operation payload key') s))"
| same_key: "operation \<notin> set CALLBACK_ONLY_OPERATIONS \<Longrightarrow>
    outbox_step key s (snd (run_state (apply_board_operation ad iid step operation payload key) s))"
| reconciled: "outbox_step key s (snd (run_state (reconcile_outbox adapter_of) s))"
| elsewhere: "outbox (db t) = outbox (db s) \<Longrightarrow> ledger_ok (db t) \<Longrightarrow> outbox_step key s t"

definition delivered_row :: "string \<Rightarrow> outbox_row \<Rightarrow> store \<Rightarrow> bool" where
  "delivered_row key r st \<longleftrightarrow> ledger_ok st \<and> row_of key st = Some r \<and> ob_state r = ''applied''"

lemma row_of_key:
  assumes "tables_ok st" and "q \<in> set (rows (outbox st))"
  shows "row_of (ob_idempotency_key q) st = Some q"
proof (cases "row_of (ob_idempotency_key q) st")
  case None
  with assms(2) show ?thesis by (auto simp: row_of_def select_one_None_iff)
next
  case (Some r)
  from row_of_mem [OF this] assms table_ok_key_unique [of ob_id ob_idempotency_key "outbox st" r q] Some
  show ?thesis by (auto simp: tables_ok_def)
qed

lemma outbox_step_keeps:
  assumes "outbox_step key s t" and "delivered_row key r (db s)"
  shows "delivered_row key r (db t)"
proof -
  have ok: "ledger_ok (db s)" "tables_ok (db s)" and row: "row_of key (db s) = Some r" "ob_state r = ''applied''"
    and mem: "r \<in> set (rows (outbox (db s)))" "ob_idempotency_key r = key"
    using assms(2) row_of_mem by (auto simp: delivered_row_def ledger_ok_def)
  have still: "delivered_row key r (db t)" if "ledger_ok (db t)" "r \<in> set (rows (outbox (db t)))"
    using that row_of_key [of "db t" r] row(2) mem(2) by (simp add: delivered_row_def ledger_ok_def)
  from assms(1) show ?thesis
  proof cases
    case (other_key key' ad iid step operation payload)
    let ?m = "apply_board_operation ad iid step operation payload key'"
    from run_effect [OF growing.eff_apply_board_operation] have "grows (db s) (db (snd (run_state ?m s)))" .
    moreover from run_effect [OF invariant.eff_apply_board_operation]
    have "keeps (\<lambda>s. ledger_ok (db s)) s (snd (run_state ?m s))" .
    moreover have "spares r s (snd (run_state ?m s))" using spares_apply [OF ok(2) mem(1)] mem(2) other_key(2) by simp
    ultimately show ?thesis using still spared_stays [OF ok(2) mem(1)] ok(1) by (simp only: keeps_def other_key(1))
  next
    case (same_key operation ad iid step payload)
    with applied_returns [OF same_key(2) row] assms(2) show ?thesis by simp
  next
    case (reconciled adapter_of)
    have "keeps (\<lambda>s. ledger_ok (db s)) s t"
      unfolding reconciled by (rule run_effect [OF invariant.eff_reconcile_outbox])
    moreover have "r \<in> set (rows (outbox (db t)))"
      unfolding reconciled using reconcile_spares [OF ok(2) mem(1)] row(2) by simp
    ultimately show ?thesis using still ok(1) by (simp add: keeps_def)
  next
    case elsewhere
    with row show ?thesis by (simp add: delivered_row_def row_of_def)
  qed
qed

lemma outbox_steps_keep: "(outbox_step key)\<^sup>*\<^sup>* s t \<Longrightarrow> delivered_row key r (db s) \<Longrightarrow> delivered_row key r (db t)"
  by (induction rule: rtranclp_induct) (auto intro: outbox_step_keeps)

text \<open>
  C4: a plain operation that succeeded is delivered exactly once. After \<open>apply_board_operation\<close> has
  returned a task id for a key, come what may to the outbox through deliveries under other keys,
  further plain deliveries under this key and reconciliations, with any adapters and answers, and
  to the rest of the ledger and the board through anything else, a later plain call under that key
  with any adapter and payload returns the same task id, calls no adapter, and writes nothing.
\<close>

theorem applied_once:
  assumes "ledger_ok (db s)" and "operation \<notin> set CALLBACK_ONLY_OPERATIONS" and "task \<noteq> []"
    and "run_state (apply_board_operation ad iid step operation payload key) s = (Op_Ok task, t)"
    and "(outbox_step key)\<^sup>*\<^sup>* t u" and "operation' \<notin> set CALLBACK_ONLY_OPERATIONS"
  shows "run_state (apply_board_operation ad' iid' step' operation' payload' key) u =
    (Op_Ok task, u\<lparr>readings := Suc (readings u)\<rparr>)"
proof -
  from row_of_apply [OF assms(2,4)] assms(3) obtain r where
    r: "row_of key (db t) = Some r" "ob_state r = ''applied''" "ob_board_task_id r = task" by auto
  have "keeps (\<lambda>s. ledger_ok (db s)) s (snd (run_state (apply_board_operation ad iid step operation payload key) s))"
    by (rule run_effect [OF invariant.eff_apply_board_operation])
  with assms(1,4) r have "delivered_row key r (db t)" by (simp add: keeps_def delivered_row_def)
  from outbox_steps_keep [OF assms(5) this] show ?thesis
    using applied_returns [OF assms(6)] r(3) by (auto simp: delivered_row_def)
qed

lemma reconcile_row_bounded:
  "triple (\<lambda>s. holds_row row (db s)) (reconcile_row a row) (\<lambda>_ s. callbacks_bounded (db s))"
proof -
  have step: "triple (\<lambda>s. callbacks_bounded (db s)) (case z of None \<Rightarrow> ret () | Some sid \<Rightarrow>
      do { op1 (mark_step sid state task); ret () }) (\<lambda>_ s. callbacks_bounded (db s))" for z state task
    by (auto simp: triple_def callbacks_bounded_def mark_step_def Let_def split: option.splits)
  show ?thesis
    unfolding reconcile_row_def Let_def
    by (intro triple_reads reads_reconcile_call triple_sum triple_if triple_last mark_outbox_pending_bounded
        triple_ret triple_bind [OF mark_done_bounded] triple_bind [OF step]) simp_all
qed

lemma reconcile_rows_bounded:
  assumes "distinct (map (ob_id \<circ> fst) xs)"
  shows "triple (\<lambda>s. callbacks_bounded (db s) \<and> (\<forall>(row, b) \<in> set xs. current row (db s)))
    (reconcile_rows adapter_of xs) (\<lambda>_ s. callbacks_bounded (db s))"
  using assms
proof (induction xs rule: reconcile_rows.induct [of _ adapter_of])
  case (2 adapter_of row board rest)
  show ?case
  proof (cases "adapter_of board")
    case None
    with 2 show ?thesis by (auto intro!: triple_pre [OF 2(1) [OF None]])
  next
    case (Some a)
    let ?Q = "\<lambda>s. callbacks_bounded (db s) \<and> (\<forall>(row, b) \<in> set rest. current row (db s))"
    have "triple (\<lambda>s. callbacks_bounded (db s) \<and> (\<forall>(row, b) \<in> set ((row, board) # rest). current row (db s)))
        (reconcile_row a row) (\<lambda>_. ?Q)"
      unfolding triple_def
    proof (intro allI impI, elim conjE)
      fix s t :: "'a sys" and x
      assume run: "run_state (reconcile_row a row) s = (x, t)" and "callbacks_bounded (db s)"
        and cur: "\<forall>(row, b) \<in> set ((row, board) # rest). current row (db s)"
      then have "callbacks_bounded (db t)" using tripleD [OF reconcile_row_bounded _ run] by auto
      moreover have "current q (db t)" if "(q, b) \<in> set rest" for q b
      proof -
        have "ob_id row \<noteq> ob_id q" using 2(3) that by (force simp: image_iff)
        from effectD [OF spares_reconcile_row [OF this] run] cur that show ?thesis
          by (auto simp: spares_def)
      qed
      ultimately show "?Q t" by auto
    qed
    moreover have "triple ?Q (reconcile_rows adapter_of rest) (\<lambda>_ s. callbacks_bounded (db s))"
      using 2 Some by simp
    ultimately show ?thesis
      unfolding reconcile_rows.simps Some option.case
      by (intro triple_bind triple_sum triple_last triple_ret) simp_all
  qed
qed (simp add: triple_def)

lemma due_outbox_distinct:
  assumes "tables_ok st"
  shows "distinct (map (ob_id \<circ> fst) (due_outbox now st))"
proof -
  have ids: "distinct (map ob_id (rows (outbox st)))" using assms by (simp add: tables_ok_def table_ok_def)
  have sub: "distinct (map (ob_id \<circ> fst) (List.map_filter (\<lambda>r. map_option (Pair r) (f r)) xs))"
    if "distinct (map ob_id xs)" for f :: "outbox_row \<Rightarrow> string option" and xs
    using that
  proof (induction xs)
    case (Cons x xs)
    moreover have "ob_id x \<notin> set (map (ob_id \<circ> fst) (List.map_filter (\<lambda>r. map_option (Pair r) (f r)) xs))"
      using Cons.prems by (auto simp: map_filter_mem image_iff)
    ultimately show ?case by (auto simp: map_filter_simps split: option.split)
  qed (simp add: map_filter_simps)
  have due: "due_outbox now st = List.map_filter (\<lambda>r. map_option (Pair r) (map_option ci_board (get_instance (ob_continuation_id r) st)))
      (list_due_outbox ''pending'' now st)"
    by (simp add: due_outbox_def option.map_comp comp_def)
  have "distinct (map ob_id (list_due_outbox ''pending'' now st))"
    using ids by (simp add: list_due_outbox_def select_where_def distinct_map_filter)
  then show ?thesis unfolding due by (rule sub)
qed

lemma reconcile_callbacks_bounded:
  assumes "tables_ok (db s)" and "callbacks_bounded (db s)"
  shows "callbacks_bounded (db (snd (run_state (reconcile_outbox adapter_of) s)))"
proof -
  let ?due = "due_outbox (clk s (readings s)) (db s)" and ?s = "s\<lparr>readings := Suc (readings s)\<rparr>"
  have "\<forall>(row, b) \<in> set ?due. current row (db ?s)"
    using due_rows current_unique [OF assms(1)] by (fastforce simp: current_def)
  moreover obtain x t where run: "run_state (reconcile_rows adapter_of ?due) ?s = (x, t)"
    by (cases "run_state (reconcile_rows adapter_of ?due) ?s")
  ultimately have "callbacks_bounded (db t)"
    using assms(2) tripleD [OF reconcile_rows_bounded [OF due_outbox_distinct [OF assms(1)]] _ run] by simp
  then show ?thesis by (simp add: run_reconcile run)
qed

subsection \<open>The retry schedule\<close>

lemma retry_delay_bounds: "5 \<le> retry_delay n" "retry_delay n \<le> 300"
  by (simp_all add: retry_delay_def)

lemma retry_delay_mono: "m \<le> n \<Longrightarrow> retry_delay m \<le> retry_delay n"
  unfolding retry_delay_def
  by (intro min.mono max.mono order.refl mult_left_mono power_increasing) auto

lemma retry_delay_small:
  assumes "n \<le> 5"
  shows "retry_delay (Suc n) = 5 * 2 ^ n"
proof -
  have "(2::real) ^ n \<le> 2 ^ 5" using assms by (rule power_increasing) simp
  moreover have "1 \<le> (2::real) ^ n" by simp
  ultimately show ?thesis using assms by (simp add: retry_delay_def)
qed

text \<open>
  the back-off is between five seconds and five minutes, never shrinks as attempts grow, doubles
  from attempt to attempt until the ceiling, and stays there.
\<close>

theorem retry_delay_schedule:
  "5 \<le> retry_delay n \<and> retry_delay n \<le> 300 \<and> retry_delay n \<le> retry_delay (n + k) \<and>
   retry_delay (Suc (min n 5)) = 5 * 2 ^ min n 5 \<and> retry_delay (n + 7) = 300"
proof -
  have "retry_delay (n + 7) = 300" by (simp add: retry_delay_def)
  then show ?thesis by (simp add: retry_delay_bounds retry_delay_mono retry_delay_small)
qed

text \<open>
  a failed attempt is rescheduled. When the adapter of a due plain operation refuses, the row
  stays pending with one more attempt, the adapter's error, and a next attempt between five seconds
  and five minutes after the clock reading; nothing but the outbox row changes.
\<close>

theorem failure_reschedules:
  assumes "operation \<notin> set CALLBACK_ONLY_OPERATIONS" and "row_of key (db s) = Some row"
    and "ob_state row \<noteq> ''applied''" and "\<And>n. ob_next_attempt_at row \<le> clk s n"
    and "run_state (call_adapter a operation payload) (s\<lparr>readings := m\<rparr>) = (refusal, u)"
    and "m = readings s + (if ob_state row = ''pending'' then 2 else 1)"
    and "\<not> br_success refusal"
    and "run_state (apply_board_operation (Some a) iid step operation payload key) s = (res, t)"
  shows "res = Op_Failed (delivery_error refusal) None \<and> only_outbox (db s) (db t) \<and>
    (\<exists>r. row_of key (db t) = Some r \<and> ob_state r = ''pending'' \<and> ob_attempts r = Suc (ob_attempts row) \<and>
       ob_last_error r = delivery_error refusal \<and>
       clk s m + 5 \<le> ob_next_attempt_at r \<and> ob_next_attempt_at r \<le> clk s m + 300)"
proof -
  have enq: "outbox_enqueue iid step operation payload key now (db s) = ((False, row), db s)" for now
    by (rule enqueue_existing [OF assms(2)])
  have u: "db u = db s" "clk u = clk s" "readings u = m"
    using call_adapter_same [OF assms(5)] by auto
  let ?s1 = "s\<lparr>readings := Suc (readings s)\<rparr>"
  have "run_state (attempt_plain (Some a) row operation payload) ?s1 = (res, t)"
    using assms(3,8) unfolding apply_plain [OF assms(1) refl refl refl] by (simp add: enq)
  moreover have "snd (run_state (row_not_due row) ?s1) = s\<lparr>readings := m\<rparr>"
    and "\<not> fst (run_state (row_not_due row) ?s1)"
    using assms(4,6) by (auto simp: run_row_not_due not_less)
  ultimately have out: "res = Op_Failed (delivery_error refusal) None"
      "db t = snd (outbox_mark (ob_id row) ''pending'' []
         (Some (clk s m + retry_delay (ob_attempts row + 1))) (Some (delivery_error refusal)) (clk s (Suc m)) (db s))"
    using assms(5,7) u by (auto simp: attempt_plain_def Let_def case_prod_beta)
  have "row_of key (db t) = Some (mark_outbox_row ''pending'' []
         (Some (clk s m + retry_delay (ob_attempts row + 1))) (Some (delivery_error refusal)) (clk s (Suc m)) row)"
    using assms(2) by (simp add: out(2) row_of_mark)
  moreover have "only_outbox (db s) (db t)" unfolding out(2) by (rule only_outbox_ops)
  ultimately show ?thesis
    using out(1) retry_delay_bounds [of "Suc (ob_attempts row)"] by (simp add: mark_outbox_row_def)
qed

subsection \<open>Dead letters\<close>

text \<open>
  a dead-lettered callback is final for \<open>apply_board_operation\<close>: the call reports the dead
  letter with its last error, calls no adapter and writes nothing.
\<close>

theorem deadletter_final:
  assumes "operation \<in> set CALLBACK_ONLY_OPERATIONS" and "row_of key (db s) = Some row"
    and "ob_state row = ''callback_deadletter''"
  shows "run_state (apply_board_operation ad iid step operation payload key) s =
    (Op_Failed (str_or (ob_last_error row) ''callback_deadletter'') (Some ''callback_deadletter''),
     s\<lparr>readings := Suc (readings s)\<rparr>)"
proof -
  have "outbox_enqueue iid step operation payload key now (db s) = ((False, row), db s)" for now
    by (rule enqueue_existing [OF assms(2)])
  with assms(1,3) show ?thesis
    by (auto simp: apply_board_operation_def CALLBACK_ONLY_OPERATIONS_def apply_schedule_origin_wake_def
        apply_record_consumer_ack_def deadletter_result_def Let_def)
qed

text \<open>
  the wake of a semantic refusal does not share the cap. \<open>_ensure_origin_wake\<close> takes a row that
  has been dead-lettered back to \<open>pending\<close>, with one attempt more than the cap allows.
\<close>

theorem refusal_wake_revives_deadletter:
  assumes "row_of key (db s) = Some row" and "ob_state row = ''callback_deadletter''"
    and "ob_last_error row = ''origin_wake_not_yet_accepted''"
    and "\<And>n. ob_next_attempt_at row \<le> clk s n"
    and "Option.bind ad a_origin_wake_satisfied = None"
  shows "\<exists>r. row_of key (db (snd (run_state (ensure_origin_wake ad iid task endpoint key pre) s))) = Some r \<and>
    ob_state r = ''pending'' \<and> ob_attempts r = Suc (ob_attempts row)"
proof -
  have enq: "outbox_enqueue iid step operation payload key now (db s) = ((False, row), db s)"
    for now step operation payload by (rule enqueue_existing [OF assms(1)])
  have re: "outbox_reinterpret_pending iid from_op pre to_op key now (db s) = (Some row, db s)" for now from_op to_op
    using assms(1) by (simp add: outbox_reinterpret_pending_def row_of_def)
  have late: "\<not> clk s n < ob_next_attempt_at row" for n using assms(4) [of n] by simp
  show ?thesis
    using assms(1,2,3,5)
    by (simp add: ensure_origin_wake_def Let_def re enq late origin_wake_satisfied_def mark_wake_pending_def row_of_mark)
qed

subsection \<open>Witnesses\<close>

definition sample_row :: "string \<Rightarrow> string \<Rightarrow> nat \<Rightarrow> outbox_row" where
  "sample_row operation state attempts =
     (mk_outbox (1, ''0'', operation, [], ''k'', 0) 1)
       \<lparr>ob_state := state, ob_attempts := attempts, ob_last_error := ''origin_wake_not_yet_accepted''\<rparr>"

definition row_sys :: "outbox_row \<Rightarrow> fake_board sys" where
  "row_sys row = sample_sys\<lparr>db := empty_store\<lparr>outbox := \<lparr>rows = [row], counter = 1\<rparr>\<rparr>\<rparr>"

lemma row_sys_simps [simp]:
  "outbox (db (row_sys row)) = \<lparr>rows = [row], counter = 1\<rparr>" "clk (row_sys row) = (\<lambda>n. 0)" "readings (row_sys row) = 0"
  by (simp_all add: row_sys_def sample_sys_def)

lemma sample_row_simps [simp]:
  "ob_state (sample_row operation state attempts) = state"
  "ob_operation (sample_row operation state attempts) = operation"
  "ob_attempts (sample_row operation state attempts) = attempts"
  "ob_id (sample_row operation state attempts) = 1"
  "ob_idempotency_key (sample_row operation state attempts) = ''k''"
  "ob_next_attempt_at (sample_row operation state attempts) = 0"
  "ob_last_error (sample_row operation state attempts) = ''origin_wake_not_yet_accepted''"
  by (simp_all add: sample_row_def mk_outbox_def)

lemma row_sys_row: "row_of ''k'' (db (row_sys (sample_row operation state attempts))) = Some (sample_row operation state attempts)"
  by (simp add: row_of_def select_one_def)

lemma row_sys_tables: "tables_ok (db (row_sys (sample_row operation state attempts)))"
  by (simp add: tables_ok_def row_sys_def sample_sys_def empty_store_def) (simp add: table_ok_def)

theorem applied_once_witness:
  "\<exists>task t. run_state (apply_board_operation (Some sample_adapter) 1 ''1'' ''create_task''
      [(''idempotency_key'', JStr ''k'')] ''k'') sample_sys = (Op_Ok task, t) \<and>
    (let u = snd (run_state (reconcile_outbox (\<lambda>_. Some sample_adapter)) t) in
     run_state (apply_board_operation None 1 ''1'' ''create_task'' [] ''k'') u = (Op_Ok task, u\<lparr>readings := Suc (readings u)\<rparr>))"
proof -
  obtain res t where run: "run_state (apply_board_operation (Some sample_adapter) 1 ''1'' ''create_task''
      [(''idempotency_key'', JStr ''k'')] ''k'') sample_sys = (res, t)"
    by (metis prod.collapse)
  have "fst (run_state (apply_board_operation (Some sample_adapter) 1 ''1'' ''create_task''
      [(''idempotency_key'', JStr ''k'')] ''k'') sample_sys) = Op_Ok ''task:k''"
    by code_simp
  with run have res: "res = Op_Ok ''task:k''" by simp
  have plain: "''create_task'' \<notin> set CALLBACK_ONLY_OPERATIONS" by (simp add: CALLBACK_ONLY_OPERATIONS_def)
  have ok: "ledger_ok (db sample_sys)" by (simp add: sample_sys_def ledger_ok_empty)
  from applied_once [OF ok plain _ run [unfolded res] r_into_rtranclp [of "outbox_step ''k''", OF reconciled] plain]
  show ?thesis using run res by (simp add: Let_def)
qed


theorem reconcile_spares_witness:
  "sample_row ''schedule_origin_wake'' ''callback_deadletter'' 5 \<in> set (rows (outbox (db (snd (run_state
     (reconcile_outbox (\<lambda>_. Some sample_adapter))
     (row_sys (sample_row ''schedule_origin_wake'' ''callback_deadletter'' 5)))))))"
  by (rule reconcile_spares) (simp_all add: row_sys_tables)

theorem failure_reschedules_witness:
  "\<exists>r. row_of ''k'' (db (snd (run_state (apply_board_operation (Some (sample_adapter
        \<lparr>a_create_task := \<lambda>p w. (br_fail ''busy'', w)\<rparr>)) 1 ''0'' ''create_task'' [] ''k'')
      (row_sys (sample_row ''create_task'' ''pending'' 0))))) = Some r \<and> ob_attempts r = 1 \<and>
    5 \<le> ob_next_attempt_at r \<and> ob_next_attempt_at r \<le> 300"
proof -
  let ?a = "sample_adapter\<lparr>a_create_task := \<lambda>p w. (br_fail ''busy'', w)\<rparr>"
    and ?s = "row_sys (sample_row ''create_task'' ''pending'' 0)"
  obtain u where call: "run_state (call_adapter ?a ''create_task'' []) (?s\<lparr>readings := 2\<rparr>) = (br_fail ''busy'', u)"
    by (simp add: call_adapter_def)
  obtain res t where run: "run_state (apply_board_operation (Some ?a) 1 ''0'' ''create_task'' [] ''k'') ?s = (res, t)"
    by (metis prod.collapse)
  have "\<exists>r. row_of ''k'' (db t) = Some r \<and> ob_state r = ''pending'' \<and> ob_attempts r = Suc 0 \<and>
      ob_last_error r = delivery_error (br_fail ''busy'') \<and>
      clk ?s 2 + 5 \<le> ob_next_attempt_at r \<and> ob_next_attempt_at r \<le> clk ?s 2 + 300"
    using failure_reschedules [OF _ row_sys_row _ _ call _ _ run]
    by (simp add: CALLBACK_ONLY_OPERATIONS_def br_fail_def)
  then show ?thesis by (auto simp: run [unfolded One_nat_def])
qed

theorem deadletter_final_witness:
  "run_state (apply_board_operation (Some sample_adapter) 1 ''0'' ''record_consumer_ack'' [] ''k'')
     (row_sys (sample_row ''record_consumer_ack'' ''callback_deadletter'' 5)) =
   (Op_Failed ''origin_wake_not_yet_accepted'' (Some ''callback_deadletter''),
    (row_sys (sample_row ''record_consumer_ack'' ''callback_deadletter'' 5))\<lparr>readings := 1\<rparr>)"
  by (subst deadletter_final [OF _ row_sys_row]) (simp_all add: CALLBACK_ONLY_OPERATIONS_def)

theorem refusal_wake_revives_deadletter_witness:
  "\<exists>r. row_of ''k'' (db (snd (run_state (ensure_origin_wake (None :: fake_board adapter option) 1 ''t'' ''e'' ''k'' ''p'')
     (row_sys (sample_row ''schedule_origin_wake'' ''callback_deadletter'' 5))))) = Some r \<and>
   ob_state r = ''pending'' \<and> ob_attempts r = 6"
  using refusal_wake_revives_deadletter [OF row_sys_row [of "''schedule_origin_wake''" "''callback_deadletter''" 5],
      of "None :: fake_board adapter option" 1 "''t''" "''e''" "''p''"] by simp

end
