(* ===== verification/Owner_Props.thy ===== *)
theory Owner_Props
  imports Delivery_Props
begin

text \<open>
  Properties of the owner-input continuation: refusals leave no trace, an accepted receipt moves the
  continuation exactly along the legal path, and planning is idempotent.
\<close>

subsection \<open>Where an instance stands\<close>

definition stands :: "nat \<Rightarrow> cstate \<Rightarrow> ledger_event list \<Rightarrow> receipt_row list \<Rightarrow> 'w sys \<Rightarrow> bool" where
  "stands iid a L RS s \<longleftrightarrow>
     (\<exists>r. get_instance iid (db s) = Some r \<and> ci_state r = a) \<and> instance_log iid (db s) = L \<and>
     rows (receipts (db s)) = RS"

lemma stands_graph:
  assumes "effect (\<lambda>s t. only_graph (db s) (db t)) m"
  shows "triple (stands iid a L RS) m (\<lambda>_. stands iid a L RS)"
  using assms
proof (rule triple_effect)
  fix s t :: "'a sys"
  assume s: "stands iid a L RS s" and g: "only_graph (db s) (db t)"
  show "stands iid a L RS t"
    using s g only_graph_state(1,3) [OF g, of iid] by (simp add: stands_def only_graph_def)
qed

lemma run_transition:
  assumes "get_instance iid st = Some r" and "legal (ci_state r) b"
  shows "transition iid b why t1 t2 st = (Transition_Applied b,
    record_event iid (State_Transition (ci_state r) b why) t2 (set_instance_state iid b t1 st))"
  using assms by (auto simp: transition_def legal_def split: if_splits)

lemma set_state_receipts [simp]: "receipts (set_instance_state iid b t1 st) = receipts st"
  by (simp add: set_instance_state_def)

lemma stands_transition:
  assumes "legal a b"
  shows "triple (stands iid a L RS) (op2 (transition iid b why)) (\<lambda>_. stands iid b (L @ [State_Transition a b why]) RS)"
  using assms
  by (auto simp: triple_def stands_def run_transition get_instance_set_state instance_log_record
      dest: get_instance_SomeD)

lemma stands_bind_graph:
  assumes "effect (\<lambda>s t. only_graph (db s) (db t)) m" and "\<And>x. triple (stands iid a L RS) (f x) P"
  shows "triple (stands iid a L RS) (State_Monad.bind m f) P"
  using stands_graph [OF assms(1)] assms(2) by (rule triple_bind)

lemma stands_bind_transition:
  assumes "legal a b" and "\<And>x. triple (stands iid b (L @ [State_Transition a b why]) RS) (f x) P"
  shows "triple (stands iid a L RS) (State_Monad.bind (op2 (transition iid b why)) f) P"
  using stands_transition [OF assms(1)] assms(2) by (rule triple_bind)

lemma stands_text: "stands iid a L RS s \<Longrightarrow> state_text iid (db s) = cstate_value a"
  by (auto simp: stands_def state_text_def)

subsection \<open>Owner receipts\<close>

text \<open>
  C6: a submission the contract refuses, or one for a continuation that is not waiting for its
  owner, is refused in full: the result says so and the whole system, board and clock included, is
  exactly as before.
\<close>

theorem receipt_refused_unchanged:
  assumes "ci_state i \<noteq> WAITING_OWNER \<or> snd (validate_owner_submission c (su_fields sub)) \<noteq> []"
  shows "snd (run_state (on_receipt h ad i sub c) s) = s \<and>
    \<not> st_success (fst (run_state (on_receipt h ad i sub c) s)) \<and>
    st_state (fst (run_state (on_receipt h ad i sub c) s)) = cstate_value (ci_state i)"
proof (cases "ci_state i = WAITING_OWNER")
  case True
  with assms have "snd (validate_owner_submission c (su_fields sub)) \<noteq> []" by simp
  then show ?thesis by (simp add: on_receipt_def Let_def True case_prod_beta)
qed (simp add: on_receipt_def)

lemma add_receipt_stands:
  "triple (stands iid a L RS) (op2 (add_owner_receipt iid owner vals src par))
    (\<lambda>q s. stands iid a (L @ [Owner_Receipt (or_version q) owner]) (RS @ [q]) s \<and>
       or_continuation_id q = iid \<and> or_fields q = vals \<and> or_owner_ref q = owner \<and> or_source_ref q = src \<and>
       or_version q = Suc (foldr max (map or_version (filter (\<lambda>r. or_continuation_id r = iid) RS)) 0))"
proof -
  have "get_instance i (st\<lparr>receipts := x\<rparr>) = get_instance i st"
    "instance_log i (st\<lparr>receipts := x\<rparr>) = instance_log i st" for i st x
    by (simp_all add: get_instance_def instance_log_def)
  then show ?thesis
    by (auto simp: triple_def stands_def add_owner_receipt_def Let_def case_prod_beta mk_receipt_def
        instance_log_record max_column_def select_where_def)
qed

definition accepted_log :: "nat \<Rightarrow> string \<Rightarrow> ledger_event list" where
  "accepted_log v owner = [Owner_Receipt v owner,
     State_Transition WAITING_OWNER INPUT_ACCEPTED ''owner_receipt_accepted'',
     State_Transition INPUT_ACCEPTED MATERIALIZING ''materialization_task_created'']"

lemma on_receipt_accepts_triple:
  assumes "ci_state i = WAITING_OWNER" and "validate_owner_submission c (su_fields sub) = (clean, [])"
  shows "triple (stands (ci_id i) WAITING_OWNER L RS) (on_receipt h ad i sub c)
    (\<lambda>res s. \<exists>q. st_success res \<and> st_state res = cstate_value MATERIALIZING \<and>
       stands (ci_id i) MATERIALIZING (L @ accepted_log (or_version q) (su_owner_ref sub)) (RS @ [q]) s \<and>
       or_continuation_id q = ci_id i \<and> or_fields q = clean \<and> or_owner_ref q = su_owner_ref sub \<and>
       or_version q = Suc (foldr max (map or_version (filter (\<lambda>r. or_continuation_id r = ci_id i) RS)) 0))"
  (is "triple _ _ ?Post")
proof -
  let ?L = "\<lambda>q. L @ [Owner_Receipt (or_version q) (su_owner_ref sub)]"
  have final: "triple (stands (ci_id i) INPUT_ACCEPTED (?L q @ [State_Transition WAITING_OWNER INPUT_ACCEPTED
        ''owner_receipt_accepted'']) (RS @ [q]))
      (State_Monad.bind (op2 (transition (ci_id i) MATERIALIZING ''materialization_task_created'')) (\<lambda>_. ret res)) ?Post"
    if q: "or_continuation_id q = ci_id i \<and> or_fields q = clean \<and> or_owner_ref q = su_owner_ref sub \<and>
       or_source_ref q = su_source_ref sub \<and>
       or_version q = Suc (foldr max (map or_version (filter (\<lambda>r. or_continuation_id r = ci_id i) RS)) 0)"
      and res: "st_success res" "st_state res = cstate_value MATERIALIZING" for q res
  proof (rule stands_bind_transition)
    show "triple (stands (ci_id i) MATERIALIZING ((?L q @ [State_Transition WAITING_OWNER INPUT_ACCEPTED
        ''owner_receipt_accepted'']) @ [State_Transition INPUT_ACCEPTED MATERIALIZING
        ''materialization_task_created'']) (RS @ [q])) (ret res) ?Post"
      by (rule triple_ret, rule exI [of _ q]) (use q res in \<open>simp add: accepted_log_def\<close>)
  qed (simp add: legal_def TERMINAL_STATES_def)
  show ?thesis
    unfolding on_receipt_def Let_def assms(2) prod.case
    apply (simp only: assms(1) not_True_eq_False simp_thms if_False)
    apply (rule triple_bind [OF add_receipt_stands])
    apply (rule triple_pure)
    apply (rule stands_bind_transition, simp add: legal_def TERMINAL_STATES_def)
    apply (rule final stands_bind_graph graph_only.graph_intros graph_only.eff_create_step_task
        graph_only.eff_apply_board_operation | assumption | simp)+
    done
qed

lemma stands_here: "get_instance iid (db s) = Some r \<Longrightarrow>
    stands iid (ci_state r) (instance_log iid (db s)) (rows (receipts (db s))) s"
  by (simp add: stands_def)

text \<open>
  C5: an accepted submission. For a waiting continuation and fields the contract accepts,
  \<open>on_receipt\<close> succeeds whatever the board does: it appends one receipt holding exactly the accepted
  fields, under the next version number of that continuation, takes the continuation through
  \<open>INPUT_ACCEPTED\<close> to \<open>MATERIALIZING\<close>, and logs the receipt before the two transitions.
\<close>

theorem receipt_accepted:
  assumes "get_instance (ci_id i) (db s) = Some r" and "ci_state r = WAITING_OWNER"
    and "ci_state i = WAITING_OWNER" and "validate_owner_submission c (su_fields sub) = (clean, [])"
    and "run_state (on_receipt h ad i sub c) s = (res, t)"
  shows "st_success res \<and> (\<exists>r' q. get_instance (ci_id i) (db t) = Some r' \<and> ci_state r' = MATERIALIZING \<and>
    rows (receipts (db t)) = rows (receipts (db s)) @ [q] \<and>
    or_continuation_id q = ci_id i \<and> or_fields q = clean \<and> or_owner_ref q = su_owner_ref sub \<and>
    or_version q = max_column or_version (\<lambda>x. or_continuation_id x = ci_id i) (receipts (db s)) + 1 \<and>
    instance_log (ci_id i) (db t) = instance_log (ci_id i) (db s) @ accepted_log (or_version q) (su_owner_ref sub))"
proof -
  have "stands (ci_id i) WAITING_OWNER (instance_log (ci_id i) (db s)) (rows (receipts (db s))) s"
    using stands_here [OF assms(1)] assms(2) by simp
  from tripleD [OF on_receipt_accepts_triple [OF assms(3,4)] this assms(5)] show ?thesis
    unfolding stands_def max_column_def select_where_def by auto
qed

subsection \<open>Materialization and review\<close>

definition materialized_log :: "ledger_event list" where
  "materialized_log = [State_Transition MATERIALIZING WAITING_REVIEW ''materialization_go'']"

definition resumed_log :: "ledger_event list" where
  "resumed_log = [State_Transition WAITING_REVIEW RESUMABLE ''review_go'',
     State_Transition RESUMABLE RESUMED ''packet_rerun_created'']"

lemma materialization_go_triple:
  assumes "ci_state i = MATERIALIZING"
  shows "triple (stands (ci_id i) MATERIALIZING L RS) (advance_after_materialization h ad i ''GO'')
    (\<lambda>res s. st_success res \<and> st_state res = cstate_value WAITING_REVIEW \<and>
       stands (ci_id i) WAITING_REVIEW (L @ materialized_log) RS s)"
proof -
  have final: "triple (stands (ci_id i) WAITING_REVIEW (L @ materialized_log) RS)
      (State_Monad.bind (query (state_text (ci_id i))) (\<lambda>state. ret (f state)))
      (\<lambda>res s. st_success res \<and> st_state res = cstate_value WAITING_REVIEW \<and>
       stands (ci_id i) WAITING_REVIEW (L @ materialized_log) RS s)"
    if "\<And>x. st_success (f x)" "\<And>x. st_state (f x) = x" for f
    using that by (auto simp: triple_def dest: stands_text)
  show ?thesis
    unfolding advance_after_materialization_def Let_def
    apply (simp only: assms not_True_eq_False simp_thms if_False)
    apply (rule stands_bind_transition, simp add: legal_def TERMINAL_STATES_def)
    apply (fold materialized_log_def)
    apply (rule final stands_bind_graph graph_only.graph_intros graph_only.eff_create_step_task
        | assumption | simp)+
    done
qed

lemma review_go_triple:
  assumes "ci_state i = WAITING_REVIEW"
  shows "triple (stands (ci_id i) WAITING_REVIEW L RS) (advance_after_review h ad i ''GO'')
    (\<lambda>res s. st_success res \<and> st_state res = cstate_value RESUMED \<and>
       stands (ci_id i) RESUMED (L @ resumed_log) RS s)"
proof -
  have final: "triple (stands (ci_id i) RESUMABLE (L @ [State_Transition WAITING_REVIEW RESUMABLE ''review_go'']) RS)
      (State_Monad.bind (op2 (transition (ci_id i) RESUMED ''packet_rerun_created''))
        (\<lambda>_. State_Monad.bind (query (state_text (ci_id i))) (\<lambda>state. ret (f state))))
      (\<lambda>res s. st_success res \<and> st_state res = cstate_value RESUMED \<and>
       stands (ci_id i) RESUMED (L @ resumed_log) RS s)"
    if "\<And>x. st_success (f x)" "\<And>x. st_state (f x) = x" for f
  proof (rule stands_bind_transition)
    show "triple (stands (ci_id i) RESUMED ((L @ [State_Transition WAITING_REVIEW RESUMABLE ''review_go'']) @
        [State_Transition RESUMABLE RESUMED ''packet_rerun_created'']) RS)
      (State_Monad.bind (query (state_text (ci_id i))) (\<lambda>state. ret (f state)))
      (\<lambda>res s. st_success res \<and> st_state res = cstate_value RESUMED \<and> stands (ci_id i) RESUMED (L @ resumed_log) RS s)"
      using that by (auto simp: triple_def resumed_log_def dest: stands_text)
  qed (simp add: legal_def TERMINAL_STATES_def)
  show ?thesis
    unfolding advance_after_review_def Let_def
    apply (simp only: assms not_True_eq_False simp_thms if_False)
    apply (rule stands_bind_transition, simp add: legal_def TERMINAL_STATES_def)
    apply (rule final stands_bind_graph graph_only.graph_intros graph_only.eff_create_step_task
        | assumption | simp)+
    done
qed

text \<open>Any other verdict, in either stage, parks the continuation.\<close>

lemma not_go_triple:
  "ci_state i = MATERIALIZING \<Longrightarrow> v \<noteq> ''GO'' \<Longrightarrow>
   triple (stands (ci_id i) MATERIALIZING L RS) (advance_after_materialization h ad i v)
     (\<lambda>res s. \<not> st_success res \<and> stands (ci_id i) FAILED_RETRYABLE
        (L @ [State_Transition MATERIALIZING FAILED_RETRYABLE ''materialization_not_go'']) RS s)"
  "ci_state i = WAITING_REVIEW \<Longrightarrow> v \<noteq> ''GO'' \<Longrightarrow>
   triple (stands (ci_id i) WAITING_REVIEW L RS) (advance_after_review h ad i v)
     (\<lambda>res s. \<not> st_success res \<and> stands (ci_id i) FAILED_RETRYABLE
        (L @ [State_Transition WAITING_REVIEW FAILED_RETRYABLE ''review_not_go'']) RS s)"
  unfolding advance_after_materialization_def advance_after_review_def Let_def
  by (simp_all only: not_True_eq_False simp_thms if_False if_True)
     (rule stands_bind_transition, simp add: legal_def TERMINAL_STATES_def, simp add: triple_def)+

text \<open>
  C7: the owner-input life cycle runs to its end. A waiting continuation whose owner submits
  fields the contract accepts, and whose materialization and review both report \<open>GO\<close>, is
  \<open>RESUMED\<close> at the end, whatever the adapters of the three calls answer; its log gains exactly the
  receipt and the six legal transitions, in order.
\<close>

theorem owner_input_resumes:
  assumes "get_instance iid (db s) = Some i" and "ci_state i = WAITING_OWNER"
    and "validate_owner_submission c (su_fields sub) = (clean, [])"
    and "run_state (on_receipt h ad i sub c) s = (r1, s1)" and "get_instance iid (db s1) = Some i1"
    and "run_state (advance_after_materialization h ad1 i1 ''GO'') s1 = (r2, s2)"
    and "get_instance iid (db s2) = Some i2"
    and "run_state (advance_after_review h ad2 i2 ''GO'') s2 = (r3, s3)"
  shows "st_success r3 \<and> state_text iid (db s3) = ''resumed'' \<and>
    (\<exists>v. instance_log iid (db s3) = instance_log iid (db s) @ accepted_log v (su_owner_ref sub) @
       materialized_log @ resumed_log)"
proof -
  have ids: "ci_id i = iid" "ci_id i1 = iid" "ci_id i2 = iid"
    using assms(1,5,7) by (auto dest: get_instance_SomeD)
  let ?L = "instance_log iid (db s)" and ?RS = "rows (receipts (db s))"
  have "stands iid WAITING_OWNER ?L ?RS s" using stands_here [OF assms(1)] assms(2) by simp
  with tripleD [OF on_receipt_accepts_triple [OF assms(2,3)] _ assms(4)] ids obtain q where
    s1: "stands iid MATERIALIZING (?L @ accepted_log (or_version q) (su_owner_ref sub)) (?RS @ [q]) s1"
    by blast
  with assms(5) have "ci_state i1 = MATERIALIZING" by (simp add: stands_def)
  from tripleD [OF materialization_go_triple [OF this] s1 [folded ids(2)] assms(6)]
  have s2: "stands iid WAITING_REVIEW ((?L @ accepted_log (or_version q) (su_owner_ref sub)) @ materialized_log)
      (?RS @ [q]) s2" unfolding ids(2) by blast
  with assms(7) have "ci_state i2 = WAITING_REVIEW" by (simp add: stands_def)
  from tripleD [OF review_go_triple [OF this] s2 [folded ids(3)] assms(8)]
  have "st_success r3" and s3: "stands iid RESUMED (((?L @ accepted_log (or_version q) (su_owner_ref sub)) @
      materialized_log) @ resumed_log) (?RS @ [q]) s3" unfolding ids(3) by blast+
  moreover have "state_text iid (db s3) = ''resumed''" using stands_text [OF s3] by simp
  moreover have "instance_log iid (db s3) = ?L @ accepted_log (or_version q) (su_owner_ref sub) @
      materialized_log @ resumed_log" using s3 by (simp add: stands_def)
  ultimately show ?thesis by blast
qed

subsection \<open>Witnesses\<close>

definition sample_accepted :: "fake_board sys" where
  "sample_accepted = snd (run_state (on_receipt sample_hash (Some sample_adapter) sample_instance
     sample_submission sample_contract) sample_waiting)"

lemma sample_receipt_run: "run_state (on_receipt sample_hash (Some sample_adapter) sample_instance
     sample_submission sample_contract) sample_waiting =
   (fst (run_state (on_receipt sample_hash (Some sample_adapter) sample_instance
     sample_submission sample_contract) sample_waiting), sample_accepted)"
  by (simp add: sample_accepted_def)

lemma sample_waiting_stands:
  "stands 1 WAITING_OWNER (instance_log 1 (db sample_waiting)) (rows (receipts (db sample_waiting))) sample_waiting"
  using stands_here [OF sample_instance(1)] by (simp add: sample_instance)

lemma sample_accepted_stands:
  "\<exists>L RS. stands 1 MATERIALIZING (instance_log 1 (db sample_waiting) @ L) RS sample_accepted \<and>
    State_Transition DETECTED WAITING_OWNER ''needs_input_detected'' \<in> set (instance_log 1 (db sample_waiting))"
  using tripleD [OF on_receipt_accepts_triple [OF sample_instance(3) sample_submission_valid]
      sample_waiting_stands [folded sample_instance(2)] sample_receipt_run]
  unfolding sample_waiting_log sample_instance(2) by auto

theorem receipt_refused_unchanged_witness:
  "snd (run_state (on_receipt sample_hash None sample_instance (sample_submission\<lparr>su_fields := []\<rparr>) sample_contract)
     sample_waiting) = sample_waiting"
proof -
  have "snd (validate_owner_submission sample_contract (su_fields (sample_submission\<lparr>su_fields := []\<rparr>))) \<noteq> []"
    by code_simp
  with receipt_refused_unchanged show ?thesis by blast
qed

theorem receipt_accepted_witness:
  "\<exists>r' q. get_instance 1 (db sample_accepted) = Some r' \<and> ci_state r' = MATERIALIZING \<and>
    rows (receipts (db sample_accepted)) = rows (receipts (db sample_waiting)) @ [q]"
  using receipt_accepted [OF sample_instance(1) [folded sample_instance(2)] sample_instance(3)
      sample_instance(3) sample_submission_valid sample_receipt_run]
  unfolding sample_instance(2) by blast

theorem owner_input_resumes_witness:
  "\<exists>i1 i2 s2 s3 r2 r3.
     run_state (advance_after_materialization sample_hash (Some sample_adapter) i1 ''GO'') sample_accepted = (r2, s2) \<and>
     run_state (advance_after_review sample_hash (Some sample_adapter) i2 ''GO'') s2 = (r3, s3) \<and>
     get_instance 1 (db sample_accepted) = Some i1 \<and> get_instance 1 (db s2) = Some i2 \<and>
     state_text 1 (db s3) = ''resumed''"
proof -
  obtain i1 L RS where i1: "get_instance 1 (db sample_accepted) = Some i1" "ci_state i1 = MATERIALIZING"
    and st1: "stands 1 MATERIALIZING L RS sample_accepted"
    using sample_accepted_stands by (auto simp: stands_def)
  from i1 have id1: "ci_id i1 = 1" by (auto dest: get_instance_SomeD)
  obtain r2 s2 where run2: "run_state (advance_after_materialization sample_hash (Some sample_adapter) i1 ''GO'')
    sample_accepted = (r2, s2)" by (metis prod.collapse)
  from tripleD [OF materialization_go_triple [OF i1(2)] st1 [folded id1] run2] obtain i2 where
    i2: "get_instance 1 (db s2) = Some i2" by (auto simp: stands_def id1)
  obtain r3 s3 where run3: "run_state (advance_after_review sample_hash (Some sample_adapter) i2 ''GO'') s2 = (r3, s3)"
    by (metis prod.collapse)
  from owner_input_resumes [OF sample_instance(1,3) sample_submission_valid sample_receipt_run i1(1) run2 i2 run3]
  have "state_text 1 (db s3) = ''resumed''" by simp
  with i1(1) run2 i2 run3 show ?thesis by blast
qed

end
