(* ===== verification/Engine_System.thy ===== *)
theory Engine_System
  imports Owner_Props
begin

text \<open>
  The engine as a transition system: every entry point of the continuation engine, in any order and
  with any arguments, against a board that may change on its own between two calls. A handler is
  one step; the adapters, options, event sources and contracts are arbitrary in every step.
\<close>

inductive engine_step :: "'w sys \<Rightarrow> 'w sys \<Rightarrow> bool" where
  ingest: "engine_step s (snd (run_state (ingest_board_once io board src) s))"
| ingest_all: "engine_step s (snd (run_state (ingest_all_boards io sf af seeds registry) s))"
| receipt: "known (ci_id i) (db s) \<Longrightarrow> engine_step s (snd (run_state (on_receipt h ad i sub c) s))"
| materialized: "engine_step s (snd (run_state (advance_after_materialization h ad i v) s))"
| reviewed: "engine_step s (snd (run_state (advance_after_review h ad i v) s))"
| poll: "engine_step s (snd (run_state (poll_external_wait_conditions checker now) s))"
| reconcile: "engine_step s (snd (run_state (reconcile_outbox adapter_of) s))"
| backfill: "engine_step s
    (snd (run_state (backfill_code_fix_event io board src event_id event_seq existing do_apply) s))"
| operator: "engine_step s
    (snd (run_state (record_operator_resolution_receipt io board src ref event_seq receipt_ref resolution) s))"
| asked: "engine_step s (snd (run_state (mark_asked cid) s))"
| clarify: "engine_step s (snd (run_state (mark_needs_clarification cid) s))"
| case_applied: "engine_step s (snd (run_state (mark_applied cid) s))"
| reply: "engine_step s (snd (run_state (record_inbound_reply h cid msg raw compiled) s))"
| reply_applied: "engine_step s (snd (run_state (apply_fields cid by_continuation source source_ref) s))"
| policy: "engine_step s (snd (run_state
    (op1 (new_standing_policy pid owner project action decision conds source_ref)) s))"
| board_moves: "engine_step s (s\<lparr>world := w\<rparr>)"
| clock_read: "engine_step s (s\<lparr>readings := n\<rparr>)"

definition initial :: "'w sys \<Rightarrow> bool" where
  "initial s \<longleftrightarrow> db s = empty_store"

subsection \<open>Steps respect what the operations respect\<close>

lemma snd_new_standing_policy:
  "snd (new_standing_policy pid owner project action decision conds src now st) =
     snd (create_standing_policy pid owner project action conds (JObj [(''decision'', JStr decision)]) src True now st)"
  by (simp add: new_standing_policy_def case_prod_beta Let_def)

context ledger_ingest
begin

lemma eff_new_standing_policy:
  "effect R (op1 (new_standing_policy pid owner project action decision conds src))"
  by (rule eff_op1) (simp add: snd_new_standing_policy policy)

lemma eff_known_on: "effect_on Q R m \<Longrightarrow> Q s \<Longrightarrow> R s (snd (run_state m s))"
  by (simp add: effect_on_def)

lemma eff_run: "effect R m \<Longrightarrow> R s (snd (run_state m s))"
  by (simp add: effect_def)

lemma step_respects: "engine_step s t \<Longrightarrow> R s t"
proof (induction rule: engine_step.induct)
  case (receipt i s h ad sub c)
  then show ?case by (intro eff_known_on [OF eff_on_receipt])
next
  case (ingest_all io sf af seeds registry s)
  then show ?case unfolding ingest_all_boards_def by (intro eff_run eff_ingest_boards)
qed (intro board clock TrueI eff_run eff_ingest_board_once eff_advance_after_materialization
      eff_advance_after_review eff_poll eff_reconcile_outbox eff_backfill
      eff_record_operator_resolution_receipt eff_mark_asked eff_mark_needs_clarification
      eff_mark_applied eff_record_inbound_reply eff_apply_fields eff_new_standing_policy)+

lemma steps_respect: "engine_step\<^sup>*\<^sup>* s t \<Longrightarrow> R s t"
  by (induction rule: rtranclp_induct) (auto intro: refl trans step_respects)

end

subsection \<open>The properties of all runs\<close>

text \<open>
  C1: whatever the adapters, contracts, event sources and inputs, every state the engine reaches
  from an empty ledger satisfies the ledger invariant: ids and unique keys of all tables, contiguous
  event, receipt and policy numbering, and every instance's event log is a legal run of the state
  machine from \<open>DETECTED\<close> that ends in the state of its row.
\<close>

theorem engine_invariant:
  assumes "initial s" and "engine_step\<^sup>*\<^sup>* s t"
  shows "ledger_ok (db t)"
  using invariant.steps_respect [OF assms(2)] assms(1) ledger_ok_empty
  by (simp add: keeps_def initial_def)

text \<open>
  C3: along every run the ledger only grows: no instance loses its source, a terminal instance
  keeps its state for ever, event logs and owner receipts are only appended to, no step, outbox
  row, satisfaction, case or wait is deleted, and no board cursor moves back.
\<close>

theorem engine_grows: "engine_step\<^sup>*\<^sup>* s t \<Longrightarrow> grows (db s) (db t)"
  by (rule growing.steps_respect)

text \<open>
  C2: a continuation that has waited for its owner and has gone on (it is materializing, in review,
  failed, resumable or resumed) has an accepted owner receipt: a row of the receipt table of that
  continuation, whose event is in its log. Only quarantine bypasses the owner.
\<close>

theorem resume_needs_receipt:
  assumes "initial s" and "engine_step\<^sup>*\<^sup>* s t" and "get_instance i (db t) = Some r"
    and "State_Transition a WAITING_OWNER why \<in> set (instance_log i (db t))"
    and "ci_state r \<notin> {WAITING_OWNER, BLOCKED_INVALID}"
  shows "\<exists>q \<in> set (rows (receipts (db t))). or_continuation_id q = i \<and>
    Owner_Receipt (or_version q) (or_owner_ref q) \<in> set (instance_log i (db t))"
proof -
  have "keeps (\<lambda>s. ledger_ok (db s)) s t" by (rule invariant.steps_respect [OF assms(2)])
  then have ok: "ledger_ok (db t)" using assms(1) ledger_ok_empty by (simp add: keeps_def initial_def)
  have gated: "receipt_gate (db t)"
    using gate.steps_respect [OF assms(2)] assms(1) receipt_gate_empty by (simp add: keeps_def initial_def)
  then obtain v owner where ev: "Owner_Receipt v owner \<in> set (instance_log i (db t))"
    using gate_reached [OF ok _ assms(3,4)] assms(5) by auto
  with gated show ?thesis unfolding receipt_gate_def receipts_backed_def receipt_key_def by fastforce
qed

subsection \<open>Programs over the engine\<close>

text \<open>A program that calls only entry points of the engine makes a run of it.\<close>

interpretation runs: effect_order "engine_step\<^sup>*\<^sup>*"
  by unfold_locales auto

lemma runs_step: "(\<And>s. engine_step s (snd (run_state m s))) \<Longrightarrow> effect engine_step\<^sup>*\<^sup>* m"
  by (rule effectI) (rule r_into_rtranclp)

lemma runs_time_now: "effect engine_step\<^sup>*\<^sup>* time_now"
  by (rule runs_step) (simp add: engine_step.clock_read)

lemma runs_query: "effect engine_step\<^sup>*\<^sup>* (query f)"
  by (rule effectI) simp

subsection \<open>Witnesses\<close>

lemma sample_initial: "initial sample_sys"
  by (simp add: initial_def sample_sys_def)

lemma sample_ingest_step: "engine_step sample_sys sample_waiting"
  unfolding sample_waiting_def by (rule engine_step.ingest)

lemma sample_steps: "engine_step\<^sup>*\<^sup>* sample_sys sample_accepted"
proof -
  have "known (ci_id sample_instance) (db sample_waiting)"
    unfolding known_def sample_instance(2) using sample_instance(1) by simp
  then have "engine_step sample_waiting sample_accepted"
    unfolding sample_accepted_def by (rule engine_step.receipt)
  with sample_ingest_step show ?thesis by simp
qed

theorem engine_invariant_witness:
  "ledger_ok (db sample_waiting) \<and> state_text 1 (db sample_waiting) = ''waiting_owner''"
  using engine_invariant [OF sample_initial r_into_rtranclp [of engine_step, OF sample_ingest_step]]
    sample_waiting_state by simp

theorem engine_grows_witness: "grows (db sample_sys) (db sample_accepted)"
  by (rule engine_grows [OF sample_steps])

theorem resume_needs_receipt_witness:
  "\<exists>q \<in> set (rows (receipts (db sample_accepted))). or_continuation_id q = 1"
proof -
  from sample_accepted_stands obtain r L RS where "get_instance 1 (db sample_accepted) = Some r" "ci_state r = MATERIALIZING"
    "State_Transition DETECTED WAITING_OWNER ''needs_input_detected'' \<in> set (instance_log 1 (db sample_accepted))"
    by (auto simp: stands_def)
  from resume_needs_receipt [OF sample_initial sample_steps this(1,3)] this(2) show ?thesis by auto
qed

end
