(* ===== verification/Plan_Props.thy ===== *)
theory Plan_Props
  imports Owner_Props
begin

text \<open>
  Creating an instance and planning its owner anchor are idempotent: a replay of the same event finds
  both and does nothing.
\<close>

subsection \<open>Finding an instance and a step again\<close>

lemma create_again:
  assumes "ledger_ok st" and "get_instance iid st = Some r" and "source_tuple r = new_source_tuple a"
  shows "create_instance a t1 t2 st = ((False, r), st)"
proof -
  have r: "r \<in> set (rows (instances st))" using assms(2) by (auto dest: get_instance_SomeD)
  then obtain q where q: "select_one (\<lambda>x. source_tuple x = new_source_tuple a) (instances st) = Some q"
    using assms(3) by (cases "select_one (\<lambda>x. source_tuple x = new_source_tuple a) (instances st)")
      (auto simp: select_one_None_iff)
  then have "q \<in> set (rows (instances st))" "source_tuple q = source_tuple r"
    using assms(3) by (auto dest: select_one_SomeD)
  then have "q = r"
    using table_ok_key_unique [of ci_id source_tuple "instances st"] assms(1) r
    by (auto simp: ledger_ok_def tables_ok_def)
  with q show ?thesis by (simp add: create_instance_def)
qed

definition has_step :: "nat \<Rightarrow> string \<Rightarrow> store \<Rightarrow> bool" where
  "has_step iid key st \<longleftrightarrow> (iid, key) \<in> step_key ` set (rows (steps st))"

lemma add_step_again:
  assumes "has_step iid key st"
  shows "\<exists>x. add_step iid kind key par t1 st = ((False, x), st) \<and>
    select_one (\<lambda>x. step_key x = (iid, key)) (steps st) = Some x"
proof -
  obtain x where "select_one (\<lambda>x. step_key x = (iid, key)) (steps st) = Some x"
    using assms by (cases "select_one (\<lambda>x. step_key x = (iid, key)) (steps st)")
      (auto simp: has_step_def select_one_None_iff)
  then show ?thesis by (simp add: add_step_def)
qed

lemma has_step_added: "has_step iid key (snd (add_step iid kind key par t1 st))"
  by (auto simp: has_step_def add_step_def Let_def case_prod_beta mk_step_def step_key_def
      split: option.split dest: select_one_SomeD)

lemma has_step_grows: "grows st st' \<Longrightarrow> has_step iid key st \<Longrightarrow> has_step iid key st'"
proof -
  assume g: "grows st st'" and "has_step iid key st"
  then obtain x where "x \<in> set (rows (steps st))" "step_key x = (iid, key)" by (auto simp: has_step_def)
  moreover from g have "step_identity ` set (rows (steps st)) \<subseteq> step_identity ` set (rows (steps st'))"
    by (simp add: grows_def rows_grow_def kept_def)
  ultimately have "step_identity x \<in> step_identity ` set (rows (steps st'))" by blast
  then obtain y where "y \<in> set (rows (steps st'))" "step_identity y = step_identity x" by fastforce
  with \<open>step_key x = (iid, key)\<close> show ?thesis by (auto simp: has_step_def step_identity_def intro: rev_image_eqI)
qed

text \<open>The instance of a source is in a good ledger.\<close>

definition holds_instance :: "instance_row \<Rightarrow> store \<Rightarrow> bool" where
  "holds_instance i st \<longleftrightarrow> ledger_ok st \<and>
     (\<exists>r. get_instance (ci_id i) st = Some r \<and> instance_source r = instance_source i)"

lemma holds_instance_grows:
  assumes "holds_instance i st" and "grows st st'" and "ledger_ok st'"
  shows "holds_instance i st'"
  using assms unfolding holds_instance_def grows_def instances_grow_def by metis

lemma create_holds:
  assumes "ledger_ok st"
  shows "holds_instance (snd (fst (create_instance a t1 t2 st))) (snd (create_instance a t1 t2 st)) \<and>
    source_tuple (snd (fst (create_instance a t1 t2 st))) = new_source_tuple a"
proof (cases "select_one (\<lambda>r. source_tuple r = new_source_tuple a) (instances st)")
  case None
  define st' where "st' = snd (create_instance a t1 t2 st)"
  define r where "r = snd (fst (create_instance a t1 t2 st))"
  have ok: "ledger_ok st'" unfolding st'_def by (rule ledger_ok_create_instance [OF assms])
  have "r \<in> set (rows (instances st'))"
    by (auto simp: r_def st'_def create_instance_def None Let_def case_prod_beta)
  then have "get_instance (ci_id r) st' = Some r" by (rule ledger_ok_get_id [OF ok])
  moreover have "source_tuple r = new_source_tuple a"
    unfolding r_def create_instance_def None option.case Let_def case_prod_beta fst_conv snd_conv
      insert_row_simps by (simp add: mk_instance_def source_tuple_def new_source_tuple_def)
  ultimately show ?thesis using ok by (simp add: holds_instance_def r_def st'_def)
next
  case (Some r)
  then have "r \<in> set (rows (instances st))" "source_tuple r = new_source_tuple a"
    by (auto dest: select_one_SomeD)
  with Some assms show ?thesis
    by (auto simp: create_instance_def holds_instance_def ledger_ok_get_id)
qed

lemma digest_of_source:
  assumes "instance_source r = instance_source i" and "ci_id r = ci_id i"
  shows "stable_digest h r = stable_digest h i" "source_tuple r = source_tuple i"
  using assms by (auto simp: stable_digest_def digest_base_def instance_source_def source_tuple_def)

text \<open>Programs that keep the ledger invariant and let the ledger grow.\<close>

definition tame :: "('w sys, 'a) state \<Rightarrow> bool" where
  "tame m \<longleftrightarrow> effect (\<lambda>s t. grows (db s) (db t) \<and> (ledger_ok (db s) \<longrightarrow> ledger_ok (db t))) m"

lemma tameI:
  "effect (\<lambda>s t. grows (db s) (db t)) m \<Longrightarrow> effect (keeps (\<lambda>s. ledger_ok (db s))) m \<Longrightarrow> tame m"
  by (simp add: tame_def effect_def keeps_def)

lemma tame_holds: "tame m \<Longrightarrow> triple (\<lambda>s. holds_instance i (db s)) m (\<lambda>_ s. holds_instance i (db s))"
  unfolding tame_def by (erule triple_effect) (meson holds_instance_def holds_instance_grows)

lemma tame_step: "tame m \<Longrightarrow> triple (\<lambda>s. holds_instance i (db s) \<and> has_step iid key (db s)) m
    (\<lambda>_ s. holds_instance i (db s) \<and> has_step iid key (db s))"
  unfolding tame_def
  by (erule triple_effect) (meson holds_instance_def holds_instance_grows has_step_grows)

lemma tame_intros:
  "tame (op2 (transition iid WAITING_OWNER why))" "tame (query f)" "tame (ret x)"
  "tame (op1 (add_step iid kind key par))"
  "tame (create_step_task ad iid sid intent key)"
  "tame (apply_board_operation ad iid step operation payload key)"
  "tame (op2 (transition iid MATERIALIZING why))"
  by (rule tameI; (rule growing.client_intros growing.task_intros growing.eff_create_step_task
      growing.eff_apply_board_operation invariant.client_intros invariant.task_intros
      invariant.eff_create_step_task invariant.eff_apply_board_operation; simp)+)+

lemma tame_bind: "tame m \<Longrightarrow> (\<And>x. tame (f x)) \<Longrightarrow> tame (State_Monad.bind m f)"
  and tame_when: "tame (m' :: ('w sys, unit) state) \<Longrightarrow> tame (whenM b m')"
  for m' :: "('w sys, unit) state" and m :: "('w sys, 'a) state" and f :: "'a \<Rightarrow> ('w sys, 'b) state"
proof -
  have order: "effect_order (\<lambda>s t :: 'w sys. grows (db s) (db t) \<and> (ledger_ok (db s) \<longrightarrow> ledger_ok (db t)))"
    by unfold_locales (auto intro: grows_trans)
  show "tame m \<Longrightarrow> (\<And>x. tame (f x)) \<Longrightarrow> tame (State_Monad.bind m f)"
    unfolding tame_def by (rule effect_order.eff_bind [OF order])
  show "tame m' \<Longrightarrow> tame (whenM b m')"
    unfolding tame_def by (rule effect_order.eff_when [OF order])
qed

subsection \<open>Planning\<close>

lemma batch_questions_None: "batch_questions None r reqs owner project = ret (Inr None)"
  by (simp add: batch_questions_def split: list.split)

definition planned :: "new_instance \<Rightarrow> (instance_row \<Rightarrow> string) \<Rightarrow> nat \<Rightarrow> store \<Rightarrow> bool" where
  "planned a key iid st \<longleftrightarrow> (\<exists>i. ci_id i = iid \<and> source_tuple i = new_source_tuple a \<and>
     holds_instance i st \<and> has_step iid (key i) st)"

definition anchor_key :: "(string \<Rightarrow> string) \<Rightarrow> instance_row \<Rightarrow> string" where
  "anchor_key h i = ''owner_anchor:'' @ stable_digest h i"

lemma plan_triple:
  "triple (\<lambda>s. ledger_ok (db s)) (plan_owner_input h ad e c None reqs owner project)
    (\<lambda>res s. \<exists>plan. res = Inr plan \<and>
       planned (instance_args e (oe_contract_ref e)) (anchor_key h) (cp_instance_id plan) (db s))"
  (is "triple _ _ ?Post")
proof -
  let ?a = "instance_args e (oe_contract_ref e)"
  let ?H = "\<lambda>i s. holds_instance i (db s)"
  have create: "triple (\<lambda>s. ledger_ok (db s)) (op2 (create_instance ?a))
      (\<lambda>x s. ?H (snd x) s \<and> source_tuple (snd x) = new_source_tuple ?a)"
    by (auto simp: triple_def create_holds)
  have refresh: "triple (?H i) (if b then do { op2 (transition (ci_id i) WAITING_OWNER why); query (get_instance (ci_id i)) }
        else ret (Some i))
      (\<lambda>x s. ?H i s \<and> (\<exists>r. x = Some r \<and> ci_id r = ci_id i \<and> instance_source r = instance_source i))" for b i why
  proof (rule triple_if)
    have "triple (?H i) (op2 (transition (ci_id i) WAITING_OWNER why)) (\<lambda>_. ?H i)"
      by (rule tame_holds) (rule tame_intros)
    then show "triple (?H i) (do { op2 (transition (ci_id i) WAITING_OWNER why); query (get_instance (ci_id i)) })
      (\<lambda>x s. ?H i s \<and> (\<exists>r. x = Some r \<and> ci_id r = ci_id i \<and> instance_source r = instance_source i))"
      by (rule triple_bind) (auto simp: triple_def holds_instance_def dest: get_instance_SomeD)
  qed (simp add: triple_def)
  have step: "triple (?H i) (op1 (add_step iid kind key par)) (\<lambda>_ s. ?H i s \<and> has_step iid key (db s))"
    for i iid kind key par
    using tame_holds [OF tame_intros(4), of i iid kind key par]
    by (fastforce simp: triple_def has_step_added)
  have rest: "triple (?H i) (do {
        step \<leftarrow> op1 (add_step (ci_id i) ''owner_anchor'' (anchor_key h r) None);
        whenM (fst step) (m step);
        state \<leftarrow> query (state_text (ci_id i));
        ret (Inr (plan state)) }) ?Post"
    if r: "ci_id r = ci_id i" "instance_source r = instance_source i" "source_tuple i = new_source_tuple ?a"
      and m: "\<And>x. tame (m x)" and plan: "\<And>x. cp_instance_id (plan x) = ci_id i" for i r m plan
  proof (rule triple_bind [OF step])
    fix x :: "bool \<times> step_row"
    let ?J = "\<lambda>s. ?H i s \<and> has_step (ci_id i) (anchor_key h r) (db s)"
    have "triple ?J (whenM (fst x) (m x)) (\<lambda>_. ?J)"
      by (rule tame_step) (rule tame_when [OF m])
    moreover have "triple ?J (query (state_text (ci_id i))) (\<lambda>_. ?J)"
      by (rule tame_step) (rule tame_intros)
    moreover have "triple ?J (ret (Inr (plan y))) ?Post" for y
      using r plan digest_of_source(1) [OF r(2,1)]
      by (auto simp: triple_def planned_def anchor_key_def)
    ultimately show "triple ?J (do { whenM (fst x) (m x); state \<leftarrow> query (state_text (ci_id i)); ret (Inr (plan state)) }) ?Post"
      by (intro triple_bind)
  qed
  have tail: "tame (do { result \<leftarrow> create_step_task ad iid sid intent key;
      whenM (B result) (do { apply_board_operation ad iid step op1' (payload result) key'; ret () }) })"
    for iid sid intent key B step op1' payload key'
    by (intro tame_bind tame_when tame_intros)
  show ?thesis
    unfolding plan_owner_input_def Let_def batch_questions_None
    apply (rule triple_bind [OF create], rule triple_pure)
    apply (rule triple_bind [OF refresh])
    subgoal for creation refreshed
      apply (cases refreshed)
       apply (simp add: triple_def)
      apply (simp only: option.case bind_left_identity sum.case option.inject ex_simps)
      apply (rule triple_pure)
      apply (fold anchor_key_def)
      apply (rule rest [OF _ _ _ tail])
      apply auto
      done
    done
qed

text \<open>
  an owner is asked once. However often the same outcome is planned, and whatever the adapters
  did the first time, every later plan finds the instance and its anchor: it returns the same
  instance, creates nothing, calls no adapter and writes nothing to the ledger.
\<close>

theorem plan_once:
  assumes "ledger_ok (db s)"
    and "run_state (plan_owner_input h ad e c None reqs owner project) s = (res, t)"
    and "db u = db t"
  shows "\<exists>plan plan' n. res = Inr plan \<and>
    run_state (plan_owner_input h ad' e c' None reqs' owner' project') u = (Inr plan', u\<lparr>readings := n\<rparr>) \<and>
    cp_instance_id plan' = cp_instance_id plan \<and> \<not> cp_created plan'"
proof -
  let ?a = "instance_args e (oe_contract_ref e)"
  from tripleD [OF plan_triple assms(1,2)] obtain plan i where res: "res = Inr plan"
    and i: "ci_id i = cp_instance_id plan" "source_tuple i = new_source_tuple ?a"
    and hold: "holds_instance i (db t)" and step: "has_step (cp_instance_id plan) (anchor_key h i) (db t)"
    unfolding planned_def by blast
  from hold obtain r where r: "get_instance (ci_id i) (db t) = Some r" "instance_source r = instance_source i"
    and ok: "ledger_ok (db t)" unfolding holds_instance_def by blast
  have id: "ci_id r = ci_id i" using r(1) by (auto dest: get_instance_SomeD)
  have src: "source_tuple r = new_source_tuple ?a" using digest_of_source(2) [OF r(2) id] i(2) by simp
  have create: "create_instance ?a t1 t2 (db u) = ((False, r), db u)" for t1 t2
    unfolding assms(3) by (rule create_again [OF ok r(1) src])
  have key: "''owner_anchor:'' @ stable_digest h r = anchor_key h i"
    using digest_of_source(1) [OF r(2) id] by (simp add: anchor_key_def)
  have "\<exists>x. add_step (cp_instance_id plan) ''owner_anchor'' (anchor_key h i) None t1 (db u) = ((False, x), db u)" for t1
    unfolding assms(3) using add_step_again [OF step] by blast
  then obtain x where add: "add_step (cp_instance_id plan) ''owner_anchor'' (anchor_key h i) None t1 (db u) = ((False, x t1), db u)" for t1
    by metis
  show ?thesis
    using res id i(1)
    by (simp add: plan_owner_input_def Let_def create key add batch_questions_None del: append_Cons append.simps) (rule exI, rule refl)
qed

lemma stands_bind_get:
  assumes "\<And>r. triple (stands iid a L RS) (f (Some r)) P"
  shows "triple (stands iid a L RS) (State_Monad.bind (query (get_instance iid)) f) P"
  unfolding triple_def
proof (intro allI impI)
  fix s t :: "'a sys" and x
  assume s: "stands iid a L RS s" and run: "run_state (State_Monad.bind (query (get_instance iid)) f) s = (x, t)"
  then obtain r where "get_instance iid (db s) = Some r" by (auto simp: stands_def)
  with run tripleD [OF assms s] show "P x t" by simp
qed

lemma fresh_log:
  assumes "ledger_ok st"
  shows "instance_log (Suc (counter (instances st))) st = []"
proof -
  have "ce_continuation_id x \<noteq> Suc (counter (instances st))" if "x \<in> set (rows (events st))" for x
  proof -
    have "known (ce_continuation_id x) st" using assms that by (auto simp: ledger_ok_def log_ok_def)
    then show ?thesis using assms by (auto simp: known_iff ledger_ok_def tables_ok_def table_ok_def)
  qed
  then show ?thesis by (simp add: instance_log_def select_where_def)
qed

lemma create_fresh:
  "triple (\<lambda>s. ledger_ok (db s) \<and> rows (receipts (db s)) = RS \<and>
      (\<forall>r \<in> set (rows (instances (db s))). source_tuple r \<noteq> new_source_tuple a))
    (op2 (create_instance a))
    (\<lambda>x s. (stands (ci_id (snd x)) DETECTED [Created DETECTED] RS s \<and>
         get_instance (ci_id (snd x)) (db s) = Some (snd x)) \<and>
       (fst x \<and> ci_state (snd x) = DETECTED \<and> source_tuple (snd x) = new_source_tuple a))"
  unfolding triple_def
proof (intro allI impI, elim conjE)
  fix s t :: "'w sys" and x
  assume ok: "ledger_ok (db s)" and RS: "rows (receipts (db s)) = RS"
    and new: "\<forall>r \<in> set (rows (instances (db s))). source_tuple r \<noteq> new_source_tuple a"
    and run: "run_state (op2 (create_instance a)) s = (x, t)"
  define st where "st = db s"
  define i where "i = mk_instance (a, clk s (readings s)) (Suc (counter (instances st)))"
  have none: "select_one (\<lambda>r. source_tuple r = new_source_tuple a) (instances st) = None"
    using new by (simp add: select_one_None_iff st_def)
  have x: "x = (True, i)" and t: "db t = record_event (ci_id i) (Created DETECTED) (clk s (Suc (readings s)))
      (st\<lparr>instances := snd (insert_row (mk_instance (a, clk s (readings s))) (instances st))\<rparr>)"
    using run none by (auto simp: create_instance_def i_def st_def Let_def case_prod_beta)
  have "ledger_ok (db t)"
    using run ledger_ok_create_instance [OF ok] by auto
  moreover have "i \<in> set (rows (instances (db t)))" by (simp add: t i_def)
  ultimately have "get_instance (ci_id i) (db t) = Some i" by (rule ledger_ok_get_id)
  moreover have "instance_log (ci_id i) (db t) = [Created DETECTED]"
    using fresh_log [OF ok] by (simp add: t i_def st_def instance_log_record mk_instance_def)
      (simp add: instance_log_def)
  moreover have "ci_state i = DETECTED" "source_tuple i = new_source_tuple a"
    by (simp_all add: i_def mk_instance_def source_tuple_def new_source_tuple_def)
  moreover have "rows (receipts (db t)) = RS" using RS by (simp add: t st_def)
  ultimately show "(stands (ci_id (snd x)) DETECTED [Created DETECTED] RS t \<and>
         get_instance (ci_id (snd x)) (db t) = Some (snd x)) \<and>
       (fst x \<and> ci_state (snd x) = DETECTED \<and> source_tuple (snd x) = new_source_tuple a)"
    by (simp add: x stands_def)
qed

lemma create_fresh_triple:
  "triple (\<lambda>s. ledger_ok (db s) \<and> rows (receipts (db s)) = RS \<and>
      (\<forall>r \<in> set (rows (instances (db s))). source_tuple r \<noteq> new_source_tuple a))
    (op2 (create_instance a))
    (\<lambda>x s. stands (ci_id (snd x)) DETECTED [Created DETECTED] RS s \<and> fst x)"
  by (rule triple_post [OF create_fresh]) simp

text \<open>Moving a known row and reading it back.\<close>

lemma move_and_get:
  assumes "legal a b"
    and "\<And>t1. triple (stands (ci_id i) b (L @ [State_Transition a b why]) RS)
      (f (Some (i\<lparr>ci_state := b, ci_updated_at := t1\<rparr>))) P"
  shows "triple (\<lambda>s. stands (ci_id i) a L RS s \<and> get_instance (ci_id i) (db s) = Some i)
    (State_Monad.bind (op2 (transition (ci_id i) b why)) (\<lambda>_. State_Monad.bind (query (get_instance (ci_id i))) f)) P"
  unfolding triple_def
proof (intro allI impI, elim conjE)
  fix s t :: "'a sys" and x
  assume at1: "stands (ci_id i) a L RS s" and get: "get_instance (ci_id i) (db s) = Some i"
    and run: "run_state (State_Monad.bind (op2 (transition (ci_id i) b why))
      (\<lambda>_. State_Monad.bind (query (get_instance (ci_id i))) f)) s = (x, t)"
  define u where "u = snd (run_state (op2 (transition (ci_id i) b why)) s)"
  have "ci_state i = a" using at1 get by (simp add: stands_def)
  then have "get_instance (ci_id i) (db u) = Some (i\<lparr>ci_state := b, ci_updated_at := clk s (readings s)\<rparr>)"
    using assms(1) get by (simp add: u_def run_transition get_instance_set_state)
  moreover have "stands (ci_id i) b (L @ [State_Transition a b why]) RS u"
    using tripleD [OF stands_transition [OF assms(1)] at1] unfolding u_def by (metis prod.collapse)
  moreover have "run_state (State_Monad.bind (query (get_instance (ci_id i))) f) u = (x, t)"
    using run by (simp add: u_def)
  ultimately show "P x t" using tripleD [OF assms(2)] by fastforce
qed

text \<open>
  the first plan of an outcome, in a ledger that has not seen its source, records a new
  continuation that waits for its owner, whatever the adapter answers.
\<close>

theorem plan_waits_for_owner:
  assumes "ledger_ok (db s)"
    and "\<And>r. r \<in> set (rows (instances (db s))) \<Longrightarrow> source_tuple r \<noteq> new_source_tuple (instance_args e (oe_contract_ref e))"
    and "run_state (plan_owner_input h ad e c None reqs owner project) s = (res, t)"
  shows "\<exists>plan. res = Inr plan \<and> cp_created plan \<and> cp_state plan = ''waiting_owner'' \<and>
    instance_log (cp_instance_id plan) (db t) =
      [Created DETECTED, State_Transition DETECTED WAITING_OWNER ''needs_input_detected'']"
proof -
  let ?a = "instance_args e (oe_contract_ref e)"
  let ?Post = "\<lambda>res s. \<exists>plan. res = Inr plan \<and> cp_created plan \<and> cp_state plan = ''waiting_owner'' \<and>
    instance_log (cp_instance_id plan) (db s) =
      [Created DETECTED, State_Transition DETECTED WAITING_OWNER ''needs_input_detected'']"
  have final: "triple (stands iid WAITING_OWNER ([Created DETECTED] @ [State_Transition DETECTED WAITING_OWNER
        ''needs_input_detected'']) RS)
      (State_Monad.bind (query (state_text iid)) (\<lambda>state. ret (Inr (f state)))) ?Post"
    if "\<And>x. cp_instance_id (f x) = iid" "\<And>x. cp_created (f x)" "\<And>x. cp_state (f x) = x" for iid f RS
    using that by (auto simp: triple_def stands_def state_text_def)
  have "triple (\<lambda>s. ledger_ok (db s) \<and> rows (receipts (db s)) = RS \<and>
      (\<forall>r \<in> set (rows (instances (db s))). source_tuple r \<noteq> new_source_tuple ?a))
    (plan_owner_input h ad e c None reqs owner project) ?Post" for RS
    unfolding plan_owner_input_def Let_def batch_questions_None
    apply (rule triple_bind [OF create_fresh_triple], rule triple_pure)
    subgoal for creation
      apply (simp only: if_True bind_assoc)
      apply (rule stands_bind_transition, simp add: legal_def TERMINAL_STATES_def)
      apply (rule stands_bind_get)
      apply (simp only: option.case bind_left_identity sum.case)
      apply (rule final stands_bind_graph graph_only.graph_intros graph_only.eff_create_step_task
          graph_only.eff_apply_board_operation | simp)+
      done
    done
  from tripleD [OF this _ assms(3), of "rows (receipts (db s))"] assms(1,2) show ?thesis by blast
qed

subsection \<open>Witnesses\<close>

lemma sample_ledger_ok: "ledger_ok (db sample_sys)"
  by (simp add: sample_sys_def ledger_ok_empty)

lemma sample_no_instances: "rows (instances (db sample_sys)) = []"
  by (simp add: sample_sys_def empty_store_def empty_table_def)

abbreviation sample_plan where
  "sample_plan ad \<equiv> plan_owner_input sample_hash ad (sample_envelope NEEDS_INPUT) sample_contract None [] [] []"

theorem plan_once_witness:
  "\<exists>res t plan plan' n. run_state (sample_plan (Some sample_adapter)) sample_sys = (res, t) \<and> res = Inr plan \<and>
     run_state (sample_plan None) t = (Inr plan', t\<lparr>readings := n\<rparr>) \<and>
     cp_instance_id plan' = cp_instance_id plan \<and> \<not> cp_created plan'"
proof -
  obtain res t where run: "run_state (sample_plan (Some sample_adapter)) sample_sys = (res, t)"
    by (metis prod.collapse)
  from plan_once [OF sample_ledger_ok run refl, of None sample_contract "[]" "[]" "[]"]
  obtain plan plan' n where "res = Inr plan" "run_state (sample_plan None) t = (Inr plan', t\<lparr>readings := n\<rparr>)"
    "cp_instance_id plan' = cp_instance_id plan" "\<not> cp_created plan'" by blast
  with run show ?thesis by blast
qed

theorem plan_waits_for_owner_witness:
  "\<exists>plan t. run_state (sample_plan None) sample_sys = (Inr plan, t) \<and> cp_created plan \<and>
     cp_state plan = ''waiting_owner''"
proof -
  obtain res t where run: "run_state (sample_plan None) sample_sys = (res, t)"
    by (metis prod.collapse)
  with plan_waits_for_owner [OF sample_ledger_ok _ run] sample_no_instances show ?thesis by auto
qed

end
