(* ===== verification/Remediation_Props.thy ===== *)
theory Remediation_Props
  imports Plan_Props
begin

text \<open>
  Properties of the two BLOCK handlers: a code fix ends with its review graph or retryable, and a
  semantic refusal ends quarantined without touching a task.
\<close>

subsection \<open>Code fixes\<close>


















subsection \<open>Semantic refusals\<close>





lemma callback_frames [simp]:
  "steps (snd (create_instance a t1 t2 st)) = steps st"
  "receipts (snd (create_instance a t1 t2 st)) = receipts st"
  "steps (snd (transition iid new reason t1 t2 st)) = steps st"
  "receipts (snd (transition iid new reason t1 t2 st)) = receipts st"
  "steps (snd (record_requirement_satisfaction iid field v kind src pol t1 st)) = steps st"
  "steps (snd (outbox_enqueue iid stp op' payload key t1 st)) = steps st"
  "steps (snd (outbox_mark oid state task next err t1 st)) = steps st"
  "steps (snd (outbox_reinterpret_pending iid from_op pre to_op key t1 st)) = steps st"
  by (simp_all add: create_instance_def transition_def set_instance_state_def outbox_enqueue_def outbox_mark_def
      outbox_reinterpret_pending_def record_requirement_satisfaction_def Let_def case_prod_beta
      split: option.split list.split)

interpretation quiet: callback_client
  "\<lambda>s t. steps (db t) = steps (db s) \<and> receipts (db t) = receipts (db s) \<and> W\<^sup>*\<^sup>* (world s) (world t)" W
  for W :: "'w \<Rightarrow> 'w \<Rightarrow> bool"
  by unfold_locales auto

text \<open>
  a refusal touches no task. It records no step and no receipt, and what happens to the board
  is a sequence of the adapter's wake and acknowledgement calls only: whatever those calls keep
  between them, the refusal keeps, whatever \<open>create_task\<close>, \<open>subscribe\<close> and
  \<open>complete_owner_anchor\<close> would do.
\<close>

theorem refusal_touches_no_task:
  assumes "callbacks_within W a"
    and "run_state (materialize_refusal h (Some a) e blockers categories) s = (res, t)"
  shows "steps (db t) = steps (db s) \<and> receipts (db t) = receipts (db s) \<and> W\<^sup>*\<^sup>* (world s) (world t)"
proof -
  have "effect (\<lambda>s t. steps (db t) = steps (db s) \<and> receipts (db t) = receipts (db s) \<and> W\<^sup>*\<^sup>* (world s) (world t))
      (materialize_refusal h (Some a) e blockers categories)"
    by (rule quiet.eff_materialize_refusal) (use assms(1) in simp)
  then show ?thesis using assms(2) by (rule effectD)
qed

subsection \<open>Witnesses\<close>



text \<open>The adapter of the in-memory board leaves the tasks alone in its wake and acknowledgement calls.\<close>

lemma sample_callbacks_within:
  "callbacks_within (\<lambda>w w'. fb_tasks w' = fb_tasks w \<and> fb_subscriptions w' = fb_subscriptions w) sample_adapter"
  by (auto simp: callbacks_within_def fake_adapter_def fake_schedule_origin_wake_def
      fake_origin_wake_satisfied_def fake_consumer_ack_satisfied_def fake_record_consumer_ack_def)

lemma rtranclp_tasks:
  "(\<lambda>w w'. fb_tasks w' = fb_tasks w \<and> fb_subscriptions w' = fb_subscriptions w)\<^sup>*\<^sup>* w w' \<Longrightarrow>
     fb_tasks w' = fb_tasks w \<and> fb_subscriptions w' = fb_subscriptions w"
  by (induction rule: rtranclp_induct) auto

theorem refusal_touches_no_task_witness:
  "\<exists>res t. run_state (materialize_refusal sample_hash (Some sample_adapter) (sample_envelope SEMANTIC_REFUSAL) [] [])
      sample_sys = (res, t) \<and> rows (steps (db t)) = [] \<and> fb_tasks (world t) = []"
proof -
  obtain res t where run: "run_state (materialize_refusal sample_hash (Some sample_adapter)
      (sample_envelope SEMANTIC_REFUSAL) [] []) sample_sys = (res, t)"
    by (metis prod.collapse)
  from refusal_touches_no_task [OF sample_callbacks_within run] run show ?thesis
    by (auto dest!: rtranclp_tasks simp: sample_sys_def empty_store_def empty_table_def empty_board_def)
qed

end
