(* ===== verification/Jobs.thy ===== *)
theory Jobs
  imports Sanitize Tables Values
begin

text \<open>
  The job ledger of \<open>AgentFlowStore\<close> (\<open>store.py\<close>, \<open>states.py\<close>) with its throttle
  (\<open>live/throttle.py\<close>) and the policy that arms live dispatch (\<open>live/policy.py\<close>). Every operation is
  one transaction; a \<open>sqlite3.IntegrityError\<close> rolls it back. The gateway is a function over an
  arbitrary outside world; \<open>None\<close> is an exception it raises.

  The \<open>created_at\<close> entry that \<open>record_event\<close> adds to a payload is the row's own time column.
\<close>

subsection \<open>Job states\<close>

datatype job_status = QUEUED | DISPATCHED | JOB_WAITING_REVIEW | WAITING_USER | SUCCEEDED | FAILED

fun job_status_value :: "job_status \<Rightarrow> string" where
  "job_status_value QUEUED = ''queued''"
| "job_status_value DISPATCHED = ''dispatched''"
| "job_status_value JOB_WAITING_REVIEW = ''waiting_review''"
| "job_status_value WAITING_USER = ''waiting_user''"
| "job_status_value SUCCEEDED = ''succeeded''"
| "job_status_value FAILED = ''failed''"

definition FINAL_STATES :: "job_status set" where
  "FINAL_STATES = {SUCCEEDED, FAILED}"

fun JOB_TRANSITIONS :: "job_status \<Rightarrow> job_status list" where
  "JOB_TRANSITIONS QUEUED = [DISPATCHED, SUCCEEDED, FAILED]"
| "JOB_TRANSITIONS DISPATCHED = [JOB_WAITING_REVIEW, WAITING_USER, SUCCEEDED, FAILED]"
| "JOB_TRANSITIONS JOB_WAITING_REVIEW = [DISPATCHED, SUCCEEDED, FAILED]"
| "JOB_TRANSITIONS WAITING_USER = [DISPATCHED, SUCCEEDED, FAILED]"
| "JOB_TRANSITIONS SUCCEEDED = []"
| "JOB_TRANSITIONS FAILED = []"

text \<open>\<open>None\<close> is the \<open>ValueError\<close> of an unknown status.\<close>

definition normalize_status :: "string \<Rightarrow> job_status option" where
  "normalize_status v = find (\<lambda>s. job_status_value s = py_lower v)
     [QUEUED, DISPATCHED, JOB_WAITING_REVIEW, WAITING_USER, SUCCEEDED, FAILED]"

subsection \<open>Rows\<close>

record job_row =
  jb_id :: string
  jb_title :: string
  jb_body :: string
  jb_target :: string
  jb_origin_return :: string
  jb_dedupe_key :: string
  jb_status :: job_status
  jb_created_at :: real
  jb_updated_at :: real
  jb_correlation_id :: string
  jb_causation_id :: string
  jb_source_kind :: string
  jb_source_id :: string
  jb_source_ref :: string
  jb_source_hash :: string
  jb_attempt :: nat
  jb_final_at :: "real option"
  jb_live_delivered_at :: "real option"
  jb_live_delivery_ref :: string

record job_event_row =
  je_id :: nat
  je_job_id :: string
  je_kind :: string
  je_payload :: "json dict"
  je_created_at :: real
  je_seq :: nat
  je_prev_status :: string
  je_new_status :: string

record deadletter_row =
  dl_id :: nat
  dl_job_id :: string
  dl_reason :: string
  dl_raw_ref :: string
  dl_payload :: "json dict"
  dl_created_at :: real

record operator_receipt_row =
  op_id :: nat
  op_job_id :: string
  op_channel :: string
  op_phase :: string
  op_target :: string
  op_idempotency_key :: string
  op_policy_snapshot :: "json dict"
  op_delivery_ref :: string
  op_reason :: string
  op_created_at :: real

record idempotency_row =
  ik_key :: string
  ik_job_id :: string
  ik_channel :: string
  ik_target :: string
  ik_delivery_ref :: string
  ik_created_at :: real

record job_store =
  jobs :: "job_row list"
  job_events :: "job_event_row table"
  deadletters :: "deadletter_row table"
  operator_receipts :: "operator_receipt_row table"
  idempotency_keys :: "idempotency_row list"
  meta_values :: "(string \<times> real) dict"

record 'w job_sys =
  jdb :: job_store
  outside :: 'w
  jclk :: "nat \<Rightarrow> real"
  jreadings :: nat

definition empty_job_store :: job_store where
  "empty_job_store = \<lparr>jobs = [], job_events = empty_table, deadletters = empty_table,
     operator_receipts = empty_table, idempotency_keys = [], meta_values = []\<rparr>"

definition j_now :: "('w job_sys, real) state" where
  "j_now = State (\<lambda>s. (jclk s (jreadings s), s\<lparr>jreadings := Suc (jreadings s)\<rparr>))"

definition j_query :: "(job_store \<Rightarrow> 'a) \<Rightarrow> ('w job_sys, 'a) state" where
  "j_query f = gets (\<lambda>s. f (jdb s))"

definition j_update :: "(job_store \<Rightarrow> job_store) \<Rightarrow> ('w job_sys, unit) state" where
  "j_update f = modify (\<lambda>s. s\<lparr>jdb := f (jdb s)\<rparr>)"

definition j_call :: "('w \<Rightarrow> 'r \<times> 'w) \<Rightarrow> ('w job_sys, 'r) state" where
  "j_call f = State (\<lambda>s. case f (outside s) of (r, w) \<Rightarrow> (r, s\<lparr>outside := w\<rparr>))"

lemma run_j_now [simp]: "run_state j_now s = (jclk s (jreadings s), s\<lparr>jreadings := Suc (jreadings s)\<rparr>)"
  by (simp add: j_now_def)

lemma run_j_query [simp]: "run_state (j_query f) s = (f (jdb s), s)"
  by (simp add: j_query_def)

lemma run_j_update [simp]: "run_state (j_update f) s = ((), s\<lparr>jdb := f (jdb s)\<rparr>)"
  by (simp add: j_update_def)

lemma run_j_call [simp]:
  "run_state (j_call f) s = (fst (f (outside s)), s\<lparr>outside := snd (f (outside s))\<rparr>)"
  by (simp add: j_call_def case_prod_beta)

subsection \<open>Events and dead letters\<close>

definition mk_job_event ::
    "(string \<times> string \<times> json dict \<times> real \<times> nat \<times> string \<times> string) \<Rightarrow> nat \<Rightarrow> job_event_row" where
  "mk_job_event = (\<lambda>(job, kind, payload, now, seq, prev, new) i.
     \<lparr>je_id = i, je_job_id = job, je_kind = kind, je_payload = payload, je_created_at = now,
      je_seq = seq, je_prev_status = prev, je_new_status = new\<rparr>)"

definition append_job_event ::
    "(string \<Rightarrow> string) \<Rightarrow> string \<Rightarrow> string \<Rightarrow> json dict \<Rightarrow> string \<Rightarrow> string \<Rightarrow> real \<Rightarrow> job_store \<Rightarrow> job_store" where
  "append_job_event h job kind payload prev new now st =
     (let seq = max_column je_seq (\<lambda>e. je_job_id e = job) (job_events st) + 1
      in st\<lparr>job_events := snd (insert_row
           (mk_job_event (job, kind, safe_event_payload h payload, now, seq, prev, new)) (job_events st))\<rparr>)"

definition record_job_event ::
    "(string \<Rightarrow> string) \<Rightarrow> string \<Rightarrow> string \<Rightarrow> json dict \<Rightarrow> string \<Rightarrow> string \<Rightarrow> ('w job_sys, unit) state" where
  "record_job_event h job kind payload prev new = do {
     now \<leftarrow> j_now;
     j_update (append_job_event h job kind payload prev new now)
   }"

definition mk_deadletter :: "(string \<times> string \<times> string \<times> json dict \<times> real) \<Rightarrow> nat \<Rightarrow> deadletter_row" where
  "mk_deadletter = (\<lambda>(job, reason, raw, payload, now) i.
     \<lparr>dl_id = i, dl_job_id = job, dl_reason = reason, dl_raw_ref = raw, dl_payload = payload,
      dl_created_at = now\<rparr>)"

definition add_deadletter :: "string \<Rightarrow> string \<Rightarrow> string \<Rightarrow> json dict \<Rightarrow> real \<Rightarrow> job_store \<Rightarrow> job_store" where
  "add_deadletter job reason raw payload now st =
     st\<lparr>deadletters := snd (insert_row (mk_deadletter (job, reason, raw, payload, now)) (deadletters st))\<rparr>"

definition deadletter :: "string \<Rightarrow> string \<Rightarrow> string \<Rightarrow> json dict \<Rightarrow> ('w job_sys, unit) state" where
  "deadletter reason job raw payload = do {
     now \<leftarrow> j_now;
     j_update (add_deadletter job reason raw payload now)
   }"

subsection \<open>Enqueue\<close>

record new_job =
  nj_title :: string
  nj_body :: string
  nj_target :: string
  nj_origin_return :: string
  nj_dedupe_key :: string
  nj_correlation_id :: string
  nj_causation_id :: string
  nj_source_kind :: string
  nj_source_id :: string
  nj_source_ref :: string
  nj_source_hash :: string

text \<open>\<open>f"job_{int(now * 1000):x}"\<close>.\<close>

fun str_hex :: "nat \<Rightarrow> string" where
  "str_hex n = (if n < 16 then [hex_digit n] else str_hex (n div 16) @ [hex_digit (n mod 16)])"

declare str_hex.simps [simp del]

definition job_id_at :: "real \<Rightarrow> string" where
  "job_id_at now = (let n = py_trunc (now * 1000) in
     ''job_'' @ (if n < 0 then ''-'' @ str_hex (nat (- n)) else str_hex (nat n)))"

definition safe_field :: "string \<Rightarrow> nat \<Rightarrow> string \<Rightarrow> string" where
  "safe_field field max_len v = fst (safe_job_field field max_len v)"

definition mk_job :: "(string \<Rightarrow> string) \<Rightarrow> new_job \<Rightarrow> real \<Rightarrow> job_row" where
  "mk_job h a now =
     \<lparr>jb_id = job_id_at now, jb_title = safe_field ''title'' 240 (nj_title a),
      jb_body = safe_field ''body'' 4000 (nj_body a), jb_target = safe_field ''target'' 240 (nj_target a),
      jb_origin_return = safe_field ''origin_return'' 240 (nj_origin_return a),
      jb_dedupe_key = safe_field ''dedupe_key'' 240 (nj_dedupe_key a), jb_status = QUEUED,
      jb_created_at = now, jb_updated_at = now,
      jb_correlation_id = safe_field ''correlation_id'' 240 (str_or (nj_correlation_id a) (job_id_at now)),
      jb_causation_id = safe_field ''causation_id'' 240 (nj_causation_id a),
      jb_source_kind = safe_field ''source_kind'' 120 (nj_source_kind a),
      jb_source_id = safe_field ''source_id'' 240 (nj_source_id a),
      jb_source_ref = fst (safe_durable_ref h (nj_source_hash a) (nj_source_ref a)),
      jb_source_hash = safe_field ''source_hash'' 128 (nj_source_hash a), jb_attempt = 0,
      jb_final_at = None, jb_live_delivered_at = None, jb_live_delivery_ref = []\<rparr>"

definition enqueued_payload :: "job_row \<Rightarrow> bool \<Rightarrow> json dict" where
  "enqueued_payload j redacted =
     [(''title'', JStr (jb_title j)), (''body'', JStr (jb_body j)), (''target'', JStr (jb_target j)),
      (''origin_return'', JStr (jb_origin_return j)), (''correlation_id'', JStr (jb_correlation_id j)),
      (''causation_id'', JStr (jb_causation_id j)), (''source_kind'', JStr (jb_source_kind j)),
      (''source_id'', JStr (jb_source_id j)), (''source_ref'', JStr (jb_source_ref j)),
      (''source_hash'', JStr (jb_source_hash j)), (''dedupe_key'', JStr (jb_dedupe_key j)),
      (''source_ref_redacted'', JBool redacted)]"

text \<open>The primary key, and the partial unique index on a source hash that is not empty.\<close>

definition job_clash :: "job_row \<Rightarrow> job_store \<Rightarrow> bool" where
  "job_clash j st \<longleftrightarrow> (\<exists>r \<in> set (jobs st). jb_id r = jb_id j \<or>
     (jb_source_hash j \<noteq> [] \<and> jb_source_hash r = jb_source_hash j))"

definition enqueue :: "(string \<Rightarrow> string) \<Rightarrow> new_job \<Rightarrow> ('w job_sys, py_error + string) state" where
  "enqueue h a = do {
     now \<leftarrow> j_now;
     let j = mk_job h a now;
     clash \<leftarrow> j_query (job_clash j);
     if clash then ret (Inl IntegrityError)
     else do {
       j_update (\<lambda>st. st\<lparr>jobs := jobs st @ [j]\<rparr>);
       record_job_event h (jb_id j) ''enqueued''
         (safe_event_payload h (enqueued_payload j
            (snd (safe_durable_ref h (nj_source_hash a) (nj_source_ref a))))) [] [];
       ret (Inr (jb_id j))
     }
   }"

definition get_job :: "string \<Rightarrow> job_store \<Rightarrow> job_row option" where
  "get_job job st = find (\<lambda>j. jb_id j = job) (jobs st)"

definition get_job_by_source_hash :: "string \<Rightarrow> job_store \<Rightarrow> job_row option" where
  "get_job_by_source_hash hash st = find (\<lambda>j. jb_source_hash j = hash) (jobs st)"

text \<open>\<open>order by updated_at desc limit n\<close>; ties, which the statement leaves open, by insertion.\<close>

definition list_jobs :: "nat \<Rightarrow> job_store \<Rightarrow> job_row list" where
  "list_jobs limit st = take limit (sort_key (\<lambda>j. - jb_updated_at j) (jobs st))"

definition update_job :: "string \<Rightarrow> (job_row \<Rightarrow> job_row) \<Rightarrow> job_store \<Rightarrow> job_store" where
  "update_job job f st = st\<lparr>jobs := map (\<lambda>j. if jb_id j = job then f j else j) (jobs st)\<rparr>"

subsection \<open>Acknowledgements\<close>

datatype ack_result =
    Ack_Error string
  | Ack_Duplicate job_status
  | Ack_Applied job_status

definition ack_meta :: "job_status \<Rightarrow> string \<Rightarrow> json dict" where
  "ack_meta new summary = [(''status'', JStr (job_status_value new)), (''summary'', JStr summary)]"

definition reject_ack ::
    "(string \<Rightarrow> string) \<Rightarrow> job_row \<Rightarrow> job_status \<Rightarrow> string \<Rightarrow> json dict \<Rightarrow> real \<Rightarrow> ('w job_sys, ack_result) state" where
  "reject_ack h j new reason meta now = do {
     record_job_event h (jb_id j) ''ack_rejected'' meta (job_status_value (jb_status j)) (job_status_value new);
     j_update (add_deadletter (jb_id j) reason (jb_source_hash j) meta now);
     ret (Ack_Error reason)
   }"

definition ack :: "(string \<Rightarrow> string) \<Rightarrow> string \<Rightarrow> string \<Rightarrow> string \<Rightarrow> json dict \<Rightarrow> ('w job_sys, ack_result) state" where
  "ack h job status summary payload =
     (case normalize_status status of
        None \<Rightarrow> do {
          deadletter ''invalid_status'' job [] [(''status'', JStr status), (''summary'', JStr summary)];
          ret (Ack_Error ''invalid_status'')
        }
      | Some new \<Rightarrow> do {
          now \<leftarrow> j_now;
          found \<leftarrow> j_query (get_job job);
          case found of
            None \<Rightarrow> do {
              let meta = ack_meta new summary @ [(''source_hash'', JStr [])];
              record_job_event h [] ''ack_rejected'' meta [] [];
              j_update (add_deadletter job ''unknown_job'' [] meta now);
              ret (Ack_Error ''unknown_job'')
            }
          | Some j \<Rightarrow>
              if new = jb_status j then do {
                record_job_event h job ''duplicate_ack'' (ack_meta new summary)
                  (job_status_value (jb_status j)) (job_status_value new);
                ret (Ack_Duplicate new)
              }
              else if jb_status j \<in> FINAL_STATES then reject_ack h j new ''already_final'' (ack_meta new summary) now
              else if new \<notin> set (JOB_TRANSITIONS (jb_status j))
              then reject_ack h j new ''illegal_transition''
                (ack_meta new summary @ [(''current'', JStr (job_status_value (jb_status j)))]) now
              else do {
                j_update (update_job job (\<lambda>r. r\<lparr>jb_status := new, jb_updated_at := now,
                  jb_final_at := if new \<in> FINAL_STATES then Some now else None\<rparr>));
                record_job_event h job ''ack_applied'' (dict_set ''summary'' (JStr summary) payload)
                  (job_status_value (jb_status j)) (job_status_value new);
                ret (Ack_Applied new)
              }
        })"

subsection \<open>Dry-run dispatch\<close>

datatype dispatch_result =
    Unknown_Job
  | Dry_Run bool job_status
  | Refused string
  | Already_Delivered string
  | Delivery_Failed string
  | Delivered string

definition dispatch_dry_run :: "(string \<Rightarrow> string) \<Rightarrow> string \<Rightarrow> ('w job_sys, dispatch_result) state" where
  "dispatch_dry_run h job = do {
     now \<leftarrow> j_now;
     found \<leftarrow> j_query (get_job job);
     case found of
       None \<Rightarrow> ret Unknown_Job
     | Some j \<Rightarrow>
         if jb_status j = QUEUED then do {
           j_update (update_job job (\<lambda>r. r\<lparr>jb_status := DISPATCHED, jb_updated_at := now\<rparr>));
           record_job_event h job ''dispatched_dry_run'' [(''mode'', JStr ''dry-run'')]
             (job_status_value (jb_status j)) (job_status_value DISPATCHED);
           ret (Dry_Run True DISPATCHED)
         }
         else do {
           record_job_event h job ''dispatched_dry_run''
             [(''mode'', JStr ''dry-run''), (''current_status'', JStr (job_status_value (jb_status j)))]
             (job_status_value (jb_status j)) (job_status_value (jb_status j));
           ret (Dry_Run False (jb_status j))
         }
   }"

end
