(* ===== verification/Live_Dispatch.thy ===== *)
theory Live_Dispatch
  imports Jobs
begin

text \<open>
  Gated live dispatch: the operator policy and its fail-closed loader (\<open>live/policy.py\<close>), the
  throttle and circuit breaker (\<open>live/throttle.py\<close>), and \<open>AgentFlowStore.dispatch_live\<close>.
\<close>

subsection \<open>The policy\<close>

record live_policy =
  lp_live_dispatch_enabled :: bool
  lp_active_wake_enabled :: bool
  lp_kanban_apply_enabled :: bool
  lp_allowed_targets :: "json list"
  lp_canary_targets :: "json list"
  lp_max_sends_per_min :: int
  lp_max_sends_per_target_per_hour :: int
  lp_kill_switch :: bool

definition default_live_policy :: live_policy where
  "default_live_policy = \<lparr>lp_live_dispatch_enabled = False, lp_active_wake_enabled = False,
     lp_kanban_apply_enabled = False, lp_allowed_targets = [], lp_canary_targets = [],
     lp_max_sends_per_min = 3, lp_max_sends_per_target_per_hour = 10, lp_kill_switch = False\<rparr>"

definition live_policy_dict :: "live_policy \<Rightarrow> json dict" where
  "live_policy_dict p =
     [(''live_dispatch_enabled'', JBool (lp_live_dispatch_enabled p)),
      (''active_wake_enabled'', JBool (lp_active_wake_enabled p)),
      (''kanban_apply_enabled'', JBool (lp_kanban_apply_enabled p)),
      (''allowed_targets'', JArr (lp_allowed_targets p)),
      (''canary_targets'', JArr (lp_canary_targets p)),
      (''max_sends_per_min'', JInt (lp_max_sends_per_min p)),
      (''max_sends_per_target_per_hour'', JInt (lp_max_sends_per_target_per_hour p)),
      (''kill_switch'', JBool (lp_kill_switch p))]"

text \<open>\<open>_strict_bool\<close>: absent, a literal Boolean, or malformed.\<close>

definition strict_bool :: "json option \<Rightarrow> bool \<Rightarrow> bool option \<Rightarrow> bool" where
  "strict_bool v dflt malformed =
     (case v of
        None \<Rightarrow> dflt
      | Some (JBool b) \<Rightarrow> b
      | _ \<Rightarrow> (case malformed of Some m \<Rightarrow> m | None \<Rightarrow> dflt))"

definition env_bool :: "(string \<Rightarrow> string option) \<Rightarrow> string \<Rightarrow> bool option" where
  "env_bool env name = map_option (\<lambda>v. py_lower (py_strip v) \<in> {''1'', ''true''}) (env name)"

text \<open>
  \<open>load_policy\<close>: \<open>raw\<close> is the parsed file, \<open>None\<close> when there is none; a file that does not parse
  counts as the empty object. An \<open>Inl\<close> is the exception of \<open>tuple\<close> or \<open>int\<close> on a malformed field.
\<close>

definition policy_of_file :: "json option \<Rightarrow> py_error + live_policy" where
  "policy_of_file raw =
     (case raw of
        Some (JObj m) \<Rightarrow>
          (let d = default_live_policy in
           case (iterate_json (dict_get m ''allowed_targets''), iterate_json (dict_get m ''canary_targets'')) of
             (Some allowed, Some canary) \<Rightarrow>
               (case (int_field m ''max_sends_per_min'' (lp_max_sends_per_min d),
                      int_field m ''max_sends_per_target_per_hour'' (lp_max_sends_per_target_per_hour d)) of
                  (Inr a, Inr b) \<Rightarrow> Inr
                    \<lparr>lp_live_dispatch_enabled = strict_bool (dict_get m ''live_dispatch_enabled'') False None,
                     lp_active_wake_enabled = strict_bool (dict_get m ''active_wake_enabled'') False None,
                     lp_kanban_apply_enabled = strict_bool (dict_get m ''kanban_apply_enabled'') False None,
                     lp_allowed_targets = allowed, lp_canary_targets = canary,
                     lp_max_sends_per_min = a, lp_max_sends_per_target_per_hour = b,
                     lp_kill_switch = strict_bool (dict_get m ''kill_switch'') False (Some True)\<rparr>
                | (Inl e, _) \<Rightarrow> Inl e
                | (_, Inl e) \<Rightarrow> Inl e)
           | _ \<Rightarrow> Inl TypeError)
      | _ \<Rightarrow> Inr default_live_policy)"

definition override :: "bool option \<Rightarrow> bool \<Rightarrow> bool" where
  "override e b = (case e of None \<Rightarrow> b | Some v \<Rightarrow> v)"

definition load_policy :: "json option \<Rightarrow> (string \<Rightarrow> string option) \<Rightarrow> py_error + live_policy" where
  "load_policy raw env =
     (case policy_of_file raw of
        Inl e \<Rightarrow> Inl e
      | Inr p \<Rightarrow> Inr (p\<lparr>
          lp_live_dispatch_enabled := override (env_bool env ''AGENTFLOW_LIVE_DISPATCH'') (lp_live_dispatch_enabled p),
          lp_active_wake_enabled := override (env_bool env ''AGENTFLOW_LIVE_WAKE'') (lp_active_wake_enabled p),
          lp_kanban_apply_enabled := override (env_bool env ''AGENTFLOW_LIVE_KANBAN_APPLY'') (lp_kanban_apply_enabled p),
          lp_kill_switch := override (env_bool env ''AGENTFLOW_KILL_SWITCH'') (lp_kill_switch p)\<rparr>))"

subsection \<open>The throttle\<close>

definition bucket_start :: "real \<Rightarrow> int \<Rightarrow> real" where
  "bucket_start now width = of_int (py_trunc now div width * width)"

definition count_receipts :: "string \<Rightarrow> real \<Rightarrow> job_store \<Rightarrow> nat" where
  "count_receipts phase now st =
     (let start = bucket_start now 60 in length (select_where (\<lambda>r. op_phase r = phase \<and>
        start \<le> op_created_at r \<and> op_created_at r < start + 60) (operator_receipts st)))"

definition count_target_receipts :: "string \<Rightarrow> real \<Rightarrow> job_store \<Rightarrow> nat" where
  "count_target_receipts target now st =
     (let start = bucket_start now 3600 in length (select_where (\<lambda>r. op_phase r = ''attempt'' \<and>
        op_target r = target \<and> start \<le> op_created_at r \<and> op_created_at r < start + 3600)
        (operator_receipts st)))"

definition is_degraded :: "job_store \<Rightarrow> bool" where
  "is_degraded st \<longleftrightarrow> map_option fst (dict_get (meta_values st) ''degraded'') = Some ''1''"

definition set_degraded :: "bool \<Rightarrow> real \<Rightarrow> job_store \<Rightarrow> job_store" where
  "set_degraded b now st =
     st\<lparr>meta_values := dict_set ''degraded'' (if b then ''1'' else ''0'', now) (meta_values st)\<rparr>"

text \<open>\<open>None\<close> is \<open>(True, "")\<close>, otherwise the reason of the refusal.\<close>

definition check_throttle :: "live_policy \<Rightarrow> string \<Rightarrow> real \<Rightarrow> bool \<Rightarrow> job_store \<Rightarrow> string option" where
  "check_throttle p target now force_degraded st =
     (if force_degraded \<or> is_degraded st then Some ''circuit_breaker_degraded''
      else if lp_max_sends_per_min p \<le> int (count_receipts ''attempt'' now st) then Some ''throttled_per_minute''
      else if lp_max_sends_per_target_per_hour p \<le> int (count_target_receipts target now st)
        then Some ''throttled_per_target_hour''
      else None)"

definition mk_operator_receipt ::
    "(string \<times> string \<times> string \<times> string \<times> string \<times> json dict \<times> string \<times> string \<times> real) \<Rightarrow> nat \<Rightarrow>
       operator_receipt_row" where
  "mk_operator_receipt = (\<lambda>(job, channel, phase, target, key, snapshot, ref, reason, now) i.
     \<lparr>op_id = i, op_job_id = job, op_channel = channel, op_phase = phase, op_target = target,
      op_idempotency_key = key, op_policy_snapshot = snapshot, op_delivery_ref = ref,
      op_reason = reason, op_created_at = now\<rparr>)"

definition add_operator_receipt ::
    "(string \<times> string \<times> string \<times> string \<times> string \<times> json dict \<times> string \<times> string \<times> real) \<Rightarrow> job_store \<Rightarrow> job_store" where
  "add_operator_receipt d st =
     st\<lparr>operator_receipts := snd (insert_row (mk_operator_receipt d) (operator_receipts st))\<rparr>"

definition record_failure :: "string \<Rightarrow> real \<Rightarrow> job_store \<Rightarrow> job_store" where
  "record_failure target now =
     add_operator_receipt ([], ''live_dispatch'', ''failed'', target, [], [], [], ''gateway_failure'', now)"

definition live_phase_count :: "string \<Rightarrow> real \<Rightarrow> job_store \<Rightarrow> nat" where
  "live_phase_count phase cutoff st = length (select_where (\<lambda>r. op_channel r = ''live_dispatch'' \<and>
     op_phase r = phase \<and> cutoff \<le> op_created_at r) (operator_receipts st))"

text \<open>\<open>max(0, attempts - applied)\<close> over the last five minutes.\<close>

definition consecutive_failures :: "real \<Rightarrow> job_store \<Rightarrow> nat" where
  "consecutive_failures now st =
     live_phase_count ''attempt'' (now - 300) st - live_phase_count ''applied'' (now - 300) st"

subsection \<open>Live dispatch\<close>

record delivery =
  dv_success :: bool
  dv_receipt_ref :: string

type_synonym 'w gateway = "string \<Rightarrow> string \<Rightarrow> string \<Rightarrow> 'w \<Rightarrow> delivery option \<times> 'w"

definition make_idempotency_key :: "(string \<Rightarrow> string) \<Rightarrow> string \<Rightarrow> string \<Rightarrow> string \<Rightarrow> string \<Rightarrow> string" where
  "make_idempotency_key h channel job target correlation =
     take 24 (h (channel @ '':'' @ job @ '':'' @ target @ '':'' @ correlation))"

definition live_key :: "(string \<Rightarrow> string) \<Rightarrow> job_row \<Rightarrow> string" where
  "live_key h j = make_idempotency_key h ''live_dispatch'' (jb_id j) (jb_target j)
     (str_or (jb_correlation_id j) (jb_id j))"

text \<open>A receipt of this dispatch in a phase, with its delivery reference and reason.\<close>

definition record_receipt ::
    "(string \<Rightarrow> string) \<Rightarrow> live_policy \<Rightarrow> job_row \<Rightarrow> string \<Rightarrow> string \<Rightarrow> string \<Rightarrow> ('w job_sys, unit) state" where
  "record_receipt h p j phase ref reason = do {
     now \<leftarrow> j_now;
     j_update (add_operator_receipt (jb_id j, ''live_dispatch'', phase, jb_target j, live_key h j,
       policy_snapshot (live_policy_dict p), ref, reason, now))
   }"

definition refuse_dispatch ::
    "(string \<Rightarrow> string) \<Rightarrow> live_policy \<Rightarrow> job_row \<Rightarrow> string \<Rightarrow> ('w job_sys, dispatch_result) state" where
  "refuse_dispatch h p j reason = do { record_receipt h p j ''refused'' [] reason; ret (Refused reason) }"

text \<open>The gates in front of the gateway, in the order of the code; \<open>None\<close> lets the dispatch pass.\<close>

definition policy_gate :: "live_policy \<Rightarrow> job_row \<Rightarrow> string option" where
  "policy_gate p j =
     (if lp_kill_switch p then Some ''kill_switch''
      else if \<not> lp_live_dispatch_enabled p then Some ''live_dispatch_disabled''
      else if JStr (jb_target j) \<notin> set (lp_allowed_targets p) \<or> JStr (jb_target j) \<notin> set (lp_canary_targets p)
        then Some ''target_not_allowed''
      else None)"

definition key_row :: "string \<Rightarrow> job_store \<Rightarrow> idempotency_row option" where
  "key_row key st = find (\<lambda>r. ik_key r = key) (idempotency_keys st)"

definition delivery_failed ::
    "(string \<Rightarrow> string) \<Rightarrow> live_policy \<Rightarrow> job_row \<Rightarrow> real \<Rightarrow> string \<Rightarrow> string \<Rightarrow> ('w job_sys, dispatch_result) state" where
  "delivery_failed h p j now ref reason = do {
     j_update (record_failure (jb_target j) now);
     failures \<leftarrow> j_query (consecutive_failures now);
     whenM (3 \<le> failures) (do { t \<leftarrow> j_now; j_update (set_degraded True t) });
     record_receipt h p j ''failed'' ref reason;
     ret (Delivery_Failed reason)
   }"

definition delivery_applied ::
    "(string \<Rightarrow> string) \<Rightarrow> live_policy \<Rightarrow> job_row \<Rightarrow> real \<Rightarrow> string \<Rightarrow> ('w job_sys, dispatch_result) state" where
  "delivery_applied h p j now ref = do {
     j_update (\<lambda>st. st\<lparr>idempotency_keys := idempotency_keys st @
       [\<lparr>ik_key = live_key h j, ik_job_id = jb_id j, ik_channel = ''live_dispatch'',
         ik_target = jb_target j, ik_delivery_ref = ref, ik_created_at = now\<rparr>]\<rparr>);
     j_update (update_job (jb_id j) (\<lambda>r. r\<lparr>jb_status := DISPATCHED, jb_updated_at := now,
       jb_live_delivered_at := Some now, jb_live_delivery_ref := ref\<rparr>));
     record_receipt h p j ''applied'' ref ''delivered'';
     record_job_event h (jb_id j) ''passive_delivery''
       [(''channel'', JStr ''live_dispatch''), (''delivery_ref'', JStr ref), (''target'', JStr (jb_target j)),
        (''mode'', JStr ''live'')] (job_status_value (jb_status j)) (job_status_value DISPATCHED);
     ret (Delivered ref)
   }"

definition send_job ::
    "(string \<Rightarrow> string) \<Rightarrow> 'w gateway \<Rightarrow> live_policy \<Rightarrow> job_row \<Rightarrow> real \<Rightarrow> ('w job_sys, dispatch_result) state" where
  "send_job h gateway p j now = do {
     record_receipt h p j ''attempt'' [] [];
     outcome \<leftarrow> j_call (gateway (jb_target j)
       (safe_body_for_delivery h (jb_body j) (jb_id j) (jb_source_ref j) (jb_source_hash j)) (live_key h j));
     case outcome of
       None \<Rightarrow> delivery_failed h p j now [] ''gateway_failure''
     | Some d \<Rightarrow>
         if \<not> dv_success d then delivery_failed h p j now (dv_receipt_ref d) ''delivery_failed''
         else delivery_applied h p j now (dv_receipt_ref d)
   }"

definition dispatch_live ::
    "(string \<Rightarrow> string) \<Rightarrow> 'w gateway option \<Rightarrow> live_policy \<Rightarrow> bool \<Rightarrow> string \<Rightarrow>
       ('w job_sys, dispatch_result) state" where
  "dispatch_live h gateway p live job = do {
     now \<leftarrow> j_now;
     found \<leftarrow> j_query (get_job job);
     case found of
       None \<Rightarrow> ret Unknown_Job
     | Some j \<Rightarrow>
         if \<not> live then dispatch_dry_run h job
         else (case policy_gate p j of
           Some reason \<Rightarrow> refuse_dispatch h p j reason
         | None \<Rightarrow> do {
             key \<leftarrow> j_query (key_row (live_key h j));
             case key of
               Some k \<Rightarrow> do {
                 record_receipt h p j ''refused'' (ik_delivery_ref k) ''duplicate'';
                 ret (Already_Delivered (ik_delivery_ref k))
               }
             | None \<Rightarrow>
                 if jb_live_delivered_at j \<noteq> None \<or> jb_live_delivery_ref j \<noteq> [] then do {
                   record_receipt h p j ''refused'' [] ''duplicate'';
                   ret (Already_Delivered [])
                 }
                 else do {
                   throttled \<leftarrow> j_query (check_throttle p (jb_target j) now False);
                   case throttled of
                     Some reason \<Rightarrow> refuse_dispatch h p j reason
                   | None \<Rightarrow>
                       (case gateway of
                          None \<Rightarrow> refuse_dispatch h p j ''gateway_unavailable''
                        | Some g \<Rightarrow> send_job h g p j now)
                 }
           })
   }"

subsection \<open>The prompt of a dispatched job\<close>

definition line :: "string \<Rightarrow> string" where
  "line s = s @ [line_feed]"

definition render_dispatch_prompt :: "job_row \<Rightarrow> string" where
  "render_dispatch_prompt j = concat (map line
     [''You are working an AgentFlow job. Return an explicit [JOB ACK] block when done.'', [],
      ''[JOB]'', ''job_id: '' @ jb_id j,
      ''correlation_id: '' @ str_or (jb_correlation_id j) (jb_id j),
      ''causation_id: '' @ jb_causation_id j, ''source_kind: '' @ str_or (jb_source_kind j) ''manual'',
      ''source_id: '' @ jb_source_id j, ''source_ref: '' @ jb_source_ref j,
      ''source_hash: '' @ jb_source_hash j, ''target: '' @ jb_target j,
      ''origin_return: '' @ jb_origin_return j, ''title: '' @ jb_title j, [], jb_body j, [],
      ''[JOB ACK FORMAT]'', ''[JOB ACK]'', ''job_id: '' @ jb_id j,
      ''status: succeeded|failed|waiting_review|waiting_user'', ''summary: <short result>'', ''artifacts:'',
      ''- <files/links/tests>'', ''blockers: <none or exact blocker>''])"

end
