(* ===== verification/Jobs_Props.thy ===== *)
theory Jobs_Props
  imports Live_Dispatch
begin

text \<open>
  The job ledger as a transition system, its invariant, and the gates of live dispatch.
\<close>

subsection \<open>The invariant of the job ledger\<close>

definition job_log :: "string \<Rightarrow> job_store \<Rightarrow> job_event_row list" where
  "job_log job st = filter (\<lambda>e. je_job_id e = job) (rows (job_events st))"

definition status_kinds :: "string list" where
  "status_kinds = [''ack_applied'', ''dispatched_dry_run'', ''passive_delivery'']"

text \<open>The status that the event log of a job tells.\<close>

definition replayed :: "string \<Rightarrow> job_store \<Rightarrow> string" where
  "replayed job st = foldl (\<lambda>s e. if je_kind e \<in> set status_kinds then je_new_status e else s)
     (job_status_value QUEUED) (job_log job st)"

definition jobs_ok :: "job_store \<Rightarrow> bool" where
  "jobs_ok st \<longleftrightarrow> distinct (map jb_id (jobs st)) \<and> [] \<notin> jb_id ` set (jobs st) \<and>
     distinct (filter (\<lambda>x. x \<noteq> []) (map jb_source_hash (jobs st)))"

definition events_ok :: "job_store \<Rightarrow> bool" where
  "events_ok st \<longleftrightarrow>
     (\<forall>e \<in> set (rows (job_events st)). je_job_id e = [] \<or> je_job_id e \<in> jb_id ` set (jobs st)) \<and>
     (\<forall>job. map je_seq (job_log job st) = [1..<Suc (length (job_log job st))])"

definition status_ok :: "job_store \<Rightarrow> bool" where
  "status_ok st \<longleftrightarrow> (\<forall>j \<in> set (jobs st). replayed (jb_id j) st = job_status_value (jb_status j) \<and>
     (jb_status j \<in> FINAL_STATES \<longrightarrow> jb_final_at j \<noteq> None))"

definition keys_ok :: "(string \<Rightarrow> string) \<Rightarrow> job_store \<Rightarrow> bool" where
  "keys_ok h st \<longleftrightarrow> distinct (map ik_key (idempotency_keys st)) \<and>
     (\<forall>k \<in> set (idempotency_keys st). \<exists>j \<in> set (jobs st). jb_id j = ik_job_id k \<and> live_key h j = ik_key k \<and>
        jb_live_delivered_at j \<noteq> None)"

definition job_ledger_ok :: "(string \<Rightarrow> string) \<Rightarrow> job_store \<Rightarrow> bool" where
  "job_ledger_ok h st \<longleftrightarrow> jobs_ok st \<and> events_ok st \<and> status_ok st \<and> keys_ok h st"

lemmas ledger_defs = jobs_ok_def events_ok_def status_ok_def keys_ok_def replayed_def job_log_def

lemma job_ledger_ok_frame [simp]:
  "job_ledger_ok h (st\<lparr>deadletters := x\<rparr>) = job_ledger_ok h st"
  "job_ledger_ok h (st\<lparr>operator_receipts := y\<rparr>) = job_ledger_ok h st"
  "job_ledger_ok h (st\<lparr>meta_values := z\<rparr>) = job_ledger_ok h st"
  "job_ledger_ok h (add_deadletter job reason raw payload now st) = job_ledger_ok h st"
  "job_ledger_ok h (add_operator_receipt d st) = job_ledger_ok h st"
  "job_ledger_ok h (record_failure target now st) = job_ledger_ok h st"
  "job_ledger_ok h (set_degraded b now st) = job_ledger_ok h st"
  by (simp_all add: job_ledger_ok_def ledger_defs add_deadletter_def add_operator_receipt_def
      record_failure_def set_degraded_def)

lemma get_job_SomeD: "get_job job st = Some j \<Longrightarrow> j \<in> set (jobs st) \<and> jb_id j = job"
  by (auto simp: get_job_def find_Some_iff)

lemma job_log_append:
  "job_log job (append_job_event h job' kind payload prev new now st) =
     (if job = job' then job_log job st @ [mk_job_event (job', kind, safe_event_payload h payload, now,
          max_column je_seq (\<lambda>e. je_job_id e = job') (job_events st) + 1, prev, new) (Suc (counter (job_events st)))]
      else job_log job st)"
  by (auto simp: job_log_def append_job_event_def Let_def mk_job_event_def)

lemma max_seq:
  assumes "events_ok st"
  shows "max_column je_seq (\<lambda>e. je_job_id e = job) (job_events st) = length (job_log job st)"
proof -
  have "max_column je_seq (\<lambda>e. je_job_id e = job) (job_events st) = foldr max (map je_seq (job_log job st)) 0"
    by (simp add: max_column_def select_where_def job_log_def)
  also have "map je_seq (job_log job st) = [1..<Suc (length (job_log job st))]"
    using assms by (simp add: events_ok_def)
  also have "foldr max [1..<Suc n] 0 = n" for n :: nat
  proof (induction n)
    case (Suc n)
    have "foldr max xs (m :: nat) = max (foldr max xs 0) m" for xs m by (induction xs) (simp_all add: max.assoc)
    from this [of "[1..<Suc n]" "Suc n"] Suc show ?case by simp
  qed simp
  finally show ?thesis .
qed

lemma events_ok_append:
  assumes "events_ok st" and "job = [] \<or> job \<in> jb_id ` set (jobs st)"
  shows "events_ok (append_job_event h job kind payload prev new now st)"
proof -
  let ?st = "append_job_event h job kind payload prev new now st"
  have "je_job_id e = [] \<or> je_job_id e \<in> jb_id ` set (jobs ?st)" if "e \<in> set (rows (job_events ?st))" for e
    using assms that by (auto simp: events_ok_def append_job_event_def Let_def mk_job_event_def)
  moreover have "map je_seq (job_log job' ?st) = [1..<Suc (length (job_log job' ?st))]" for job'
  proof (cases "job' = job")
    case True
    have "map je_seq (job_log job st) = [1..<Suc (length (job_log job st))]" using assms(1) by (simp add: events_ok_def)
    with True show ?thesis by (simp add: job_log_append mk_job_event_def max_seq [OF assms(1)])
  next
    case False
    with assms(1) show ?thesis by (simp add: job_log_append events_ok_def del: upt_Suc)
  qed
  ultimately show ?thesis by (simp add: events_ok_def)
qed

lemma replayed_append:
  "replayed job (append_job_event h job' kind payload prev new now st) =
     (if job = job' \<and> kind \<in> set status_kinds then new else replayed job st)"
  by (simp add: replayed_def job_log_append mk_job_event_def)

lemma append_jobs [simp]:
  "jobs (append_job_event h job kind payload prev new now st) = jobs st"
  "idempotency_keys (append_job_event h job kind payload prev new now st) = idempotency_keys st"
  by (simp_all add: append_job_event_def Let_def)

text \<open>An event that records no status change.\<close>

lemma job_ledger_ok_event:
  assumes "job_ledger_ok h st" and "job = [] \<or> job \<in> jb_id ` set (jobs st)"
    and "kind \<notin> set status_kinds \<or> (\<exists>j \<in> set (jobs st). jb_id j = job \<and> new = job_status_value (jb_status j))"
  shows "job_ledger_ok h (append_job_event h job kind payload prev new now st)"
proof -
  have "\<forall>j \<in> set (jobs st). replayed (jb_id j) (append_job_event h job kind payload prev new now st) =
      job_status_value (jb_status j)"
  proof
    fix j assume j: "j \<in> set (jobs st)"
    have "new = job_status_value (jb_status j)" if "jb_id j = job" "kind \<in> set status_kinds"
      using assms(1,3) j that by (auto simp: job_ledger_ok_def jobs_ok_def distinct_map inj_on_def)
    then show "replayed (jb_id j) (append_job_event h job kind payload prev new now st) = job_status_value (jb_status j)"
      using assms(1) j by (auto simp: replayed_append job_ledger_ok_def status_ok_def)
  qed
  with assms events_ok_append [of st job h kind payload prev new now] show ?thesis
    by (auto simp: job_ledger_ok_def jobs_ok_def status_ok_def keys_ok_def)
qed

text \<open>A status change and its event.\<close>

lemma job_ledger_ok_status:
  assumes ok: "job_ledger_ok h st" and j: "j \<in> set (jobs st)" and kind: "kind \<in> set status_kinds"
    and f: "\<And>r. jb_id (f r) = jb_id r" "\<And>r. jb_source_hash (f r) = jb_source_hash r"
      "\<And>r. jb_status (f r) = new" "\<And>r. live_key h (f r) = live_key h r"
      "\<And>r. jb_live_delivered_at r \<noteq> None \<Longrightarrow> jb_live_delivered_at (f r) \<noteq> None"
      "\<And>r. new \<in> FINAL_STATES \<Longrightarrow> jb_final_at (f r) \<noteq> None"
  shows "job_ledger_ok h (append_job_event h (jb_id j) kind payload prev (job_status_value new) now
    (update_job (jb_id j) f st))" (is "job_ledger_ok h (append_job_event h _ _ _ _ _ _ ?st)")
proof -
  have ids: "map jb_id (jobs ?st) = map jb_id (jobs st)"
    "map jb_source_hash (jobs ?st) = map jb_source_hash (jobs st)"
    by (simp_all add: update_job_def f)
  have logs: "job_events ?st = job_events st" "idempotency_keys ?st = idempotency_keys st"
    by (simp_all add: update_job_def)
  have img: "jb_id ` set (jobs ?st) = jb_id ` set (jobs st)" using ids(1) by (metis set_map)
  have "jobs_ok ?st" using ok unfolding job_ledger_ok_def jobs_ok_def ids img by simp
  moreover have "events_ok ?st" using ok unfolding job_ledger_ok_def events_ok_def job_log_def logs img by simp
  moreover have "keys_ok h ?st"
  proof -
    have "\<exists>r \<in> set (jobs ?st). jb_id r = ik_job_id k \<and> live_key h r = ik_key k \<and> jb_live_delivered_at r \<noteq> None"
      if "k \<in> set (idempotency_keys st)" for k
    proof -
      from ok that obtain r where r: "r \<in> set (jobs st)" "jb_id r = ik_job_id k" "live_key h r = ik_key k"
        "jb_live_delivered_at r \<noteq> None" by (auto simp: job_ledger_ok_def keys_ok_def)
      then have "(if jb_id r = jb_id j then f r else r) \<in> set (jobs ?st)" by (auto simp: update_job_def)
      moreover have "jb_id (if jb_id r = jb_id j then f r else r) = ik_job_id k \<and>
          live_key h (if jb_id r = jb_id j then f r else r) = ik_key k \<and>
          jb_live_delivered_at (if jb_id r = jb_id j then f r else r) \<noteq> None" using r f(1,4,5) by simp
      ultimately show ?thesis by blast
    qed
    with ok show ?thesis by (simp add: job_ledger_ok_def keys_ok_def logs)
  qed
  moreover have "status_ok (append_job_event h (jb_id j) kind payload prev (job_status_value new) now ?st)"
  proof -
    have "replayed job ?st = replayed job st" for job by (simp add: replayed_def job_log_def logs)
    with ok kind f(1,3,6) show ?thesis
      by (auto simp: status_ok_def replayed_append job_ledger_ok_def update_job_def)
  qed
  moreover have "events_ok (append_job_event h (jb_id j) kind payload prev (job_status_value new) now ?st)"
    using \<open>events_ok ?st\<close> j img by (intro events_ok_append) auto
  ultimately show ?thesis by (simp add: job_ledger_ok_def jobs_ok_def keys_ok_def)
qed

subsection \<open>Every operation keeps the invariant\<close>

lemma job_id_at_nonempty [simp]: "job_id_at now \<noteq> []"
  by (simp add: job_id_at_def Let_def)

lemma job_ledger_ok_new:
  assumes ok: "job_ledger_ok h st" and fresh: "\<not> job_clash j st"
    and j: "jb_id j \<noteq> []" "jb_status j = QUEUED"
  shows "job_ledger_ok h (st\<lparr>jobs := jobs st @ [j]\<rparr>)" (is "job_ledger_ok h ?st")
proof -
  have "jb_id j \<notin> jb_id ` set (jobs st)" using fresh by (auto simp: job_clash_def)
  with ok j(1) have "je_job_id e \<noteq> jb_id j" if "e \<in> set (rows (job_events st))" for e
    using that unfolding job_ledger_ok_def events_ok_def by metis
  then have none: "job_log (jb_id j) st = []" by (simp add: job_log_def filter_empty_conv)
  have "jobs_ok ?st" using ok fresh j(1) by (auto simp: job_ledger_ok_def jobs_ok_def job_clash_def)
  moreover have "events_ok ?st" using ok by (auto simp: job_ledger_ok_def events_ok_def job_log_def)
  moreover have "replayed job ?st = replayed job st" for job by (simp add: replayed_def job_log_def)
  then have "status_ok ?st" using ok j(2) none
    by (auto simp: job_ledger_ok_def status_ok_def replayed_def FINAL_STATES_def)
  moreover have "keys_ok h ?st" using ok by (auto simp: job_ledger_ok_def keys_ok_def)
  ultimately show ?thesis by (simp add: job_ledger_ok_def)
qed

lemma run_record_job_event [simp]:
  "run_state (record_job_event h job kind payload prev new) s =
     ((), s\<lparr>jreadings := Suc (jreadings s),
       jdb := append_job_event h job kind payload prev new (jclk s (jreadings s)) (jdb s)\<rparr>)"
  by (simp add: record_job_event_def)

lemma run_deadletter [simp]:
  "run_state (deadletter reason job raw payload) s =
     ((), s\<lparr>jreadings := Suc (jreadings s), jdb := add_deadletter job reason raw payload (jclk s (jreadings s)) (jdb s)\<rparr>)"
  by (simp add: deadletter_def)

lemma enqueue_keeps:
  assumes "job_ledger_ok h (jdb s)"
  shows "job_ledger_ok h (jdb (snd (run_state (enqueue h a) s)))"
proof -
  let ?j = "mk_job h a (jclk s (jreadings s))"
  have "job_ledger_ok h (append_job_event h (jb_id ?j) ''enqueued'' payload [] [] now (jdb s\<lparr>jobs := jobs (jdb s) @ [?j]\<rparr>))"
    if "\<not> job_clash ?j (jdb s)" for payload now
    using assms that by (intro job_ledger_ok_event job_ledger_ok_new) (auto simp: mk_job_def status_kinds_def)
  then show ?thesis using assms by (simp add: enqueue_def Let_def)
qed

lemma reject_keeps:
  assumes "job_ledger_ok h (jdb s)" and "j \<in> set (jobs (jdb s))"
  shows "job_ledger_ok h (jdb (snd (run_state (reject_ack h j new reason meta now) s)))"
  using assms by (auto simp: reject_ack_def status_kinds_def intro!: job_ledger_ok_event)

lemma live_key_update [simp]:
  "live_key h (r\<lparr>jb_status := a, jb_updated_at := b, jb_final_at := c\<rparr>) = live_key h r"
  "live_key h (r\<lparr>jb_status := a, jb_updated_at := b\<rparr>) = live_key h r"
  "live_key h (r\<lparr>jb_status := a, jb_updated_at := b, jb_live_delivered_at := d, jb_live_delivery_ref := e\<rparr>) = live_key h r"
  by (simp_all add: live_key_def)

lemma ack_keeps:
  assumes "job_ledger_ok h (jdb s)"
  shows "job_ledger_ok h (jdb (snd (run_state (ack h job status summary payload) s)))"
proof (cases "normalize_status status")
  case None
  then show ?thesis using assms by (simp add: ack_def)
next
  case (Some new)
  let ?s = "s\<lparr>jreadings := Suc (jreadings s)\<rparr>" and ?now = "jclk s (jreadings s)"
  show ?thesis
  proof (cases "get_job job (jdb s)")
    case None
    then show ?thesis using assms Some
      by (auto simp: ack_def Let_def status_kinds_def intro!: job_ledger_ok_event)
  next
    case (Some j)
    from get_job_SomeD [OF this] have j: "j \<in> set (jobs (jdb s))" "jb_id j = job" by auto
    consider "new = jb_status j" | "new \<noteq> jb_status j" "jb_status j \<in> FINAL_STATES"
      | "new \<noteq> jb_status j" "jb_status j \<notin> FINAL_STATES" "new \<notin> set (JOB_TRANSITIONS (jb_status j))"
      | "new \<noteq> jb_status j" "jb_status j \<notin> FINAL_STATES" "new \<in> set (JOB_TRANSITIONS (jb_status j))" by blast
    then show ?thesis
    proof cases
      case 1
      with assms j Some \<open>normalize_status status = Some new\<close> show ?thesis
        by (auto simp: ack_def status_kinds_def intro!: job_ledger_ok_event)
    next
      case 2
      with Some \<open>normalize_status status = Some new\<close> reject_keeps [of h ?s j] assms j show ?thesis
        by (simp add: ack_def)
    next
      case 3
      with Some \<open>normalize_status status = Some new\<close> reject_keeps [of h ?s j] assms j show ?thesis
        by (simp add: ack_def)
    next
      case 4
      have "job_ledger_ok h (append_job_event h (jb_id j) ''ack_applied'' p v (job_status_value new) t
          (update_job (jb_id j) (\<lambda>r. r\<lparr>jb_status := new, jb_updated_at := ?now,
            jb_final_at := if new \<in> FINAL_STATES then Some ?now else None\<rparr>) (jdb s)))" for p v t
        using assms j by (intro job_ledger_ok_status) (auto simp: status_kinds_def)
      with 4 Some \<open>normalize_status status = Some new\<close> j show ?thesis by (simp add: ack_def)
    qed
  qed
qed

lemma dry_run_keeps:
  assumes "job_ledger_ok h (jdb s)"
  shows "job_ledger_ok h (jdb (snd (run_state (dispatch_dry_run h job) s)))"
proof (cases "get_job job (jdb s)")
  case None
  then show ?thesis using assms by (simp add: dispatch_dry_run_def)
next
  case (Some j)
  from get_job_SomeD [OF this] have j: "j \<in> set (jobs (jdb s))" "jb_id j = job" by auto
  show ?thesis
  proof (cases "jb_status j = QUEUED")
    case True
    have "job_ledger_ok h (append_job_event h (jb_id j) ''dispatched_dry_run'' p v (job_status_value DISPATCHED) t
        (update_job (jb_id j) (\<lambda>r. r\<lparr>jb_status := DISPATCHED, jb_updated_at := u\<rparr>) (jdb s)))" for p v t u
      using assms j by (intro job_ledger_ok_status) (auto simp: status_kinds_def FINAL_STATES_def)
    with Some True j show ?thesis by (simp add: dispatch_dry_run_def)
  next
    case False
    with Some assms j show ?thesis
      by (auto simp: dispatch_dry_run_def intro!: job_ledger_ok_event)
  qed
qed

lemma run_record_receipt [simp]:
  "run_state (record_receipt h p j phase ref reason) s =
     ((), s\<lparr>jreadings := Suc (jreadings s), jdb := add_operator_receipt (jb_id j, ''live_dispatch'', phase,
       jb_target j, live_key h j, policy_snapshot (live_policy_dict p), ref, reason, jclk s (jreadings s)) (jdb s)\<rparr>)"
  by (simp add: record_receipt_def)

lemma add_operator_receipt_jobs [simp]:
  "jobs (add_operator_receipt d st) = jobs st"
  "job_events (add_operator_receipt d st) = job_events st"
  "idempotency_keys (add_operator_receipt d st) = idempotency_keys st"
  by (simp_all add: add_operator_receipt_def)

lemma failed_keeps:
  "job_ledger_ok h (jdb s) \<Longrightarrow> job_ledger_ok h (jdb (snd (run_state (delivery_failed h p j now ref reason) s)))"
  by (simp add: delivery_failed_def)

lemma job_ledger_ok_cong:
  assumes "jobs st = jobs st'" and "job_events st = job_events st'" and "idempotency_keys st = idempotency_keys st'"
  shows "job_ledger_ok h st = job_ledger_ok h st'"
  using assms by (simp add: job_ledger_ok_def ledger_defs)

lemma job_ledger_ok_keys:
  assumes "job_ledger_ok h st" and "idempotency_keys st = ks" and "ik_key k \<notin> ik_key ` set ks"
    and "\<exists>r \<in> set (jobs st). jb_id r = ik_job_id k \<and> live_key h r = ik_key k \<and> jb_live_delivered_at r \<noteq> None"
  shows "job_ledger_ok h (st\<lparr>idempotency_keys := ks @ [k]\<rparr>)"
  using assms by (auto simp: job_ledger_ok_def ledger_defs)

lemma applied_keeps:
  assumes ok: "job_ledger_ok h (jdb s)" and j: "j \<in> set (jobs (jdb s))"
    and fresh: "key_row (live_key h j) (jdb s) = None"
  shows "job_ledger_ok h (jdb (snd (run_state (delivery_applied h p j now ref) s)))"
proof -
  let ?f = "\<lambda>r. r\<lparr>jb_status := DISPATCHED, jb_updated_at := now, jb_live_delivered_at := Some now, jb_live_delivery_ref := ref\<rparr>"
  let ?k = "\<lparr>ik_key = live_key h j, ik_job_id = jb_id j, ik_channel = ''live_dispatch'', ik_target = jb_target j,
     ik_delivery_ref = ref, ik_created_at = now\<rparr>"
  have upd: "job_ledger_ok h (append_job_event h (jb_id j) ''passive_delivery'' q v (job_status_value DISPATCHED) t
      (update_job (jb_id j) ?f (add_operator_receipt d (jdb s))))" for q v t d
    using ok j by (intro job_ledger_ok_status) (auto simp: status_kinds_def FINAL_STATES_def)
  have "job_ledger_ok h (append_job_event h (jb_id j) ''passive_delivery'' q v (job_status_value DISPATCHED) t
      (update_job (jb_id j) ?f (add_operator_receipt d (jdb s)))\<lparr>idempotency_keys := idempotency_keys (jdb s) @ [?k]\<rparr>)"
    for q v t d
  proof (rule job_ledger_ok_keys [OF upd])
    have "?f j \<in> set (jobs (update_job (jb_id j) ?f (jdb s)))" using j by (force simp: update_job_def)
    then show "\<exists>r \<in> set (jobs (append_job_event h (jb_id j) ''passive_delivery'' q v (job_status_value DISPATCHED) t
        (update_job (jb_id j) ?f (add_operator_receipt d (jdb s))))).
        jb_id r = ik_job_id ?k \<and> live_key h r = ik_key ?k \<and> jb_live_delivered_at r \<noteq> None"
      by (intro bexI [of _ "?f j"]) (simp_all add: update_job_def)
  qed (use fresh in \<open>auto simp: key_row_def find_None_iff update_job_def\<close>)
  note final = this
  show ?thesis
    by (rule job_ledger_ok_cong [THEN iffD1, OF _ _ _ final])
      (simp_all add: delivery_applied_def update_job_def append_job_event_def add_operator_receipt_def Let_def)
qed

text \<open>What reaches the gateway: every gate has let the dispatch pass.\<close>

definition gates_open ::
    "(string \<Rightarrow> string) \<Rightarrow> 'w gateway option \<Rightarrow> live_policy \<Rightarrow> bool \<Rightarrow> job_row \<Rightarrow> real \<Rightarrow> job_store \<Rightarrow> bool" where
  "gates_open h gateway p live j now st \<longleftrightarrow> live \<and> policy_gate p j = None \<and>
     key_row (live_key h j) st = None \<and> jb_live_delivered_at j = None \<and> jb_live_delivery_ref j = [] \<and>
     check_throttle p (jb_target j) now False st = None \<and> gateway \<noteq> None"

lemma dispatch_open:
  assumes "get_job job (jdb s) = Some j" and "gates_open h (Some g) p live j (jclk s (jreadings s)) (jdb s)"
  shows "run_state (dispatch_live h (Some g) p live job) s =
    run_state (send_job h g p j (jclk s (jreadings s))) (s\<lparr>jreadings := Suc (jreadings s)\<rparr>)"
  using assms by (simp add: dispatch_live_def gates_open_def)

text \<open>When a gate is closed, only the audit of receipts and the dry-run bookkeeping happen.\<close>

lemma dispatch_closed:
  assumes "\<And>j. get_job job (jdb s) = Some j \<Longrightarrow> \<not> gates_open h gateway p live j (jclk s (jreadings s)) (jdb s)"
  shows "(\<exists>x n. snd (run_state (dispatch_live h gateway p live job) s) =
      s\<lparr>jreadings := n, jdb := (jdb s)\<lparr>operator_receipts := x\<rparr>\<rparr> \<and>
      fst (run_state (dispatch_live h gateway p live job) s) \<notin> range Delivered) \<or>
    (\<not> live \<and> run_state (dispatch_live h gateway p live job) s =
       run_state (dispatch_dry_run h job) (s\<lparr>jreadings := Suc (jreadings s)\<rparr>))"
proof (cases "get_job job (jdb s)")
  case None
  then show ?thesis
    by (auto simp: dispatch_live_def intro!: exI [of _ "operator_receipts (jdb s)"])
next
  case (Some j)
  with assms have closed: "\<not> gates_open h gateway p live j (jclk s (jreadings s)) (jdb s)" by blast
  show ?thesis
  proof (cases live)
    case False
    with Some show ?thesis by (simp add: dispatch_live_def)
  next
    case True
    with Some closed show ?thesis
      by (auto simp: dispatch_live_def gates_open_def refuse_dispatch_def add_operator_receipt_def
          split: option.splits)
  qed
qed

lemma dispatch_live_keeps:
  assumes ok: "job_ledger_ok h (jdb s)"
  shows "job_ledger_ok h (jdb (snd (run_state (dispatch_live h gateway p live job) s)))"
proof (cases "\<exists>j. get_job job (jdb s) = Some j \<and> gates_open h gateway p live j (jclk s (jreadings s)) (jdb s)")
  case False
  then consider x n where "snd (run_state (dispatch_live h gateway p live job) s) =
      s\<lparr>jreadings := n, jdb := (jdb s)\<lparr>operator_receipts := x\<rparr>\<rparr>"
    | "run_state (dispatch_live h gateway p live job) s =
       run_state (dispatch_dry_run h job) (s\<lparr>jreadings := Suc (jreadings s)\<rparr>)"
    using dispatch_closed [of job s h gateway p live] by blast
  then show ?thesis using ok by cases (auto intro: dry_run_keeps)
next
  case True
  then obtain j g where j: "get_job job (jdb s) = Some j" and g: "gateway = Some g"
    and o: "gates_open h (Some g) p live j (jclk s (jreadings s)) (jdb s)" by (auto simp: gates_open_def)
  from get_job_SomeD [OF j] have jin: "j \<in> set (jobs (jdb s))" by simp
  have key: "key_row (live_key h j) (add_operator_receipt d (jdb s)) = None" for d
    using o by (simp add: gates_open_def key_row_def)
  show ?thesis
    unfolding g dispatch_open [OF j o] send_job_def using ok jin key
    by (auto split: option.splits intro!: failed_keeps applied_keeps)
qed

subsection \<open>Runs of the job ledger\<close>

inductive job_step :: "(string \<Rightarrow> string) \<Rightarrow> 'w job_sys \<Rightarrow> 'w job_sys \<Rightarrow> bool" for h where
  enqueue_step: "job_step h s (snd (run_state (enqueue h a) s))"
| ack_step: "job_step h s (snd (run_state (ack h job status summary payload) s))"
| dry_run_step: "job_step h s (snd (run_state (dispatch_dry_run h job) s))"
| live_step: "job_step h s (snd (run_state (dispatch_live h gateway p live job) s))"
| deadletter_step: "job_step h s (snd (run_state (deadletter reason job raw payload) s))"
| outside_step: "job_step h s (s\<lparr>outside := w\<rparr>)"

lemma job_step_keeps: "job_step h s t \<Longrightarrow> job_ledger_ok h (jdb s) \<Longrightarrow> job_ledger_ok h (jdb t)"
  by (induction rule: job_step.induct)
    (auto intro: enqueue_keeps ack_keeps dry_run_keeps dispatch_live_keeps)

lemma job_steps_keep: "(job_step h)\<^sup>*\<^sup>* s t \<Longrightarrow> job_ledger_ok h (jdb s) \<Longrightarrow> job_ledger_ok h (jdb t)"
  by (induction rule: rtranclp_induct) (auto intro: job_step_keeps)

lemma job_ledger_ok_empty: "job_ledger_ok h empty_job_store"
  by (simp add: job_ledger_ok_def ledger_defs empty_job_store_def empty_table_def)

text \<open>
  C11: the job ledger explains itself. In every state that any sequence of enqueues,
  acknowledgements, dry-run and live dispatches reaches from an empty ledger, job ids and source
  hashes are unique, the events of a job are numbered from one without a gap, replaying them gives
  the status in the job's row, a finished job has its time of completion, and every claimed
  idempotency key belongs to a delivered job.
\<close>

theorem job_ledger_invariant:
  assumes "jdb s = empty_job_store" and "(job_step h)\<^sup>*\<^sup>* s t"
  shows "job_ledger_ok h (jdb t)"
  using job_steps_keep [OF assms(2)] assms(1) job_ledger_ok_empty by simp

subsection \<open>The gates of live dispatch\<close>

lemma dispatch_closed_outside:
  assumes "\<And>j. get_job job (jdb s) = Some j \<Longrightarrow> \<not> gates_open h gateway p live j (jclk s (jreadings s)) (jdb s)"
  shows "outside (snd (run_state (dispatch_live h gateway p live job) s)) = outside s \<and>
    fst (run_state (dispatch_live h gateway p live job) s) \<notin> range Delivered"
proof -
  have "fst (run_state (dispatch_dry_run h job) (s\<lparr>jreadings := Suc (jreadings s)\<rparr>)) \<notin> range Delivered"
    and "outside (snd (run_state (dispatch_dry_run h job) (s\<lparr>jreadings := Suc (jreadings s)\<rparr>))) = outside s"
    by (auto simp: dispatch_dry_run_def split: option.splits)
  then show ?thesis using dispatch_closed [of job s h gateway p live] assms by fastforce
qed

text \<open>The receipts of the attempts under one key; only \<open>send_job\<close> adds one, before the gateway is called.\<close>

definition attempts_under :: "string \<Rightarrow> job_store \<Rightarrow> nat" where
  "attempts_under key st =
     length (filter (\<lambda>r. op_phase r = ''attempt'' \<and> op_idempotency_key r = key) (rows (operator_receipts st)))"

lemma attempts_under_add: "attempts_under key (add_operator_receipt d st) =
    attempts_under key st + of_bool (op_phase (mk_operator_receipt d 0) = ''attempt'' \<and>
      op_idempotency_key (mk_operator_receipt d 0) = key)"
  by (simp add: attempts_under_def add_operator_receipt_def insert_row_def mk_operator_receipt_def Let_def
      split: prod.splits)

lemma attempts_under_other [simp]:
  "attempts_under key (set_degraded b now st) = attempts_under key st"
  "attempts_under key (update_job i f st) = attempts_under key st"
  "attempts_under key (st\<lparr>idempotency_keys := ks\<rparr>) = attempts_under key st"
  "attempts_under key (append_job_event h job ev d a c now st) = attempts_under key st"
  by (simp_all add: attempts_under_def set_degraded_def update_job_def append_job_event_def Let_def)

lemma send_job_effect:
  assumes "gateway (jb_target j)
      (safe_body_for_delivery h (jb_body j) (jb_id j) (jb_source_ref j) (jb_source_hash j)) (live_key h j)
      (outside s) = (outcome, w)"
  shows "outside (snd (run_state (send_job h gateway p j now) s)) = w \<and>
    attempts_under (live_key h j) (jdb (snd (run_state (send_job h gateway p j now) s))) =
      Suc (attempts_under (live_key h j) (jdb s))"
  using assms
  by (auto simp: send_job_def delivery_failed_def delivery_applied_def record_failure_def attempts_under_add
      mk_operator_receipt_def split: option.splits)

text \<open>
  C12: live dispatch is gated. Whatever is outside changes only when the call asked for a live
  dispatch, the kill switch is off and live dispatch enabled, the job exists and was never delivered,
  its target is on both the allow list and the canary list, its idempotency key is unclaimed, the
  circuit breaker is closed, both the limit per minute and the limit per target and hour still have
  room, and a gateway is there. Then the gateway was called exactly once, with the sanitised body
  and the key of the job, and exactly one attempt receipt was added under that key.
\<close>

theorem live_dispatch_gated:
  assumes "run_state (dispatch_live h gateway p live job) s = (res, t)" and "outside t \<noteq> outside s"
  shows "live \<and> \<not> lp_kill_switch p \<and> lp_live_dispatch_enabled p \<and>
    (\<exists>j g. get_job job (jdb s) = Some j \<and> JStr (jb_target j) \<in> set (lp_allowed_targets p) \<and>
       JStr (jb_target j) \<in> set (lp_canary_targets p) \<and>
       jb_live_delivered_at j = None \<and> jb_live_delivery_ref j = [] \<and>
       key_row (live_key h j) (jdb s) = None \<and> \<not> is_degraded (jdb s) \<and>
       int (count_receipts ''attempt'' (jclk s (jreadings s)) (jdb s)) < lp_max_sends_per_min p \<and>
       int (count_target_receipts (jb_target j) (jclk s (jreadings s)) (jdb s)) < lp_max_sends_per_target_per_hour p \<and>
       gateway = Some g \<and>
       outside t = snd (g (jb_target j)
         (safe_body_for_delivery h (jb_body j) (jb_id j) (jb_source_ref j) (jb_source_hash j))
         (live_key h j) (outside s)) \<and>
       attempts_under (live_key h j) (jdb t) = Suc (attempts_under (live_key h j) (jdb s)))"
proof (cases "\<exists>j. get_job job (jdb s) = Some j \<and> gates_open h gateway p live j (jclk s (jreadings s)) (jdb s)")
  case False
  then have "outside t = outside s"
    using dispatch_closed_outside [of job s h gateway p live] assms(1) by (metis snd_conv)
  with assms(2) show ?thesis by simp
next
  case True
  then obtain j g where j: "get_job job (jdb s) = Some j" and g: "gateway = Some g"
    and o: "gates_open h (Some g) p live j (jclk s (jreadings s)) (jdb s)" by (auto simp: gates_open_def)
  have run: "t = snd (run_state (send_job h g p j (jclk s (jreadings s))) (s\<lparr>jreadings := Suc (jreadings s)\<rparr>))"
    using assms(1) dispatch_open [OF j o] g by simp
  obtain outcome w where "g (jb_target j)
      (safe_body_for_delivery h (jb_body j) (jb_id j) (jb_source_ref j) (jb_source_hash j)) (live_key h j)
      (outside s) = (outcome, w)" by fastforce
  with send_job_effect [of g j h "s\<lparr>jreadings := Suc (jreadings s)\<rparr>" outcome w p "jclk s (jreadings s)"]
  have "outside t = snd (g (jb_target j)
      (safe_body_for_delivery h (jb_body j) (jb_id j) (jb_source_ref j) (jb_source_hash j))
      (live_key h j) (outside s)) \<and>
    attempts_under (live_key h j) (jdb t) = Suc (attempts_under (live_key h j) (jdb s))" by (simp add: run)
  with j g o show ?thesis
    by (auto simp: gates_open_def policy_gate_def check_throttle_def split: if_splits)
qed

lemma delivery_failed_keys: "idempotency_keys (jdb (snd (run_state (delivery_failed h p j now ref reason) s))) =
    idempotency_keys (jdb s)"
  by (simp add: delivery_failed_def record_failure_def set_degraded_def)

lemma delivery_applied_keys: "idempotency_keys (jdb (snd (run_state (delivery_applied h p j now ref) s))) =
    idempotency_keys (jdb s) @ [\<lparr>ik_key = live_key h j, ik_job_id = jb_id j, ik_channel = ''live_dispatch'',
      ik_target = jb_target j, ik_delivery_ref = ref, ik_created_at = now\<rparr>]"
  by (simp add: delivery_applied_def update_job_def)

lemma dispatch_live_keys:
  "set (idempotency_keys (jdb s)) \<subseteq> set (idempotency_keys (jdb (snd (run_state (dispatch_live h gateway p live job) s))))"
proof (cases "\<exists>j. get_job job (jdb s) = Some j \<and> gates_open h gateway p live j (jclk s (jreadings s)) (jdb s)")
  case False
  then consider x n where "snd (run_state (dispatch_live h gateway p live job) s) =
      s\<lparr>jreadings := n, jdb := (jdb s)\<lparr>operator_receipts := x\<rparr>\<rparr>"
    | "run_state (dispatch_live h gateway p live job) s =
       run_state (dispatch_dry_run h job) (s\<lparr>jreadings := Suc (jreadings s)\<rparr>)"
    using dispatch_closed [of job s h gateway p live] by blast
  then show ?thesis
    by cases (auto simp: dispatch_dry_run_def update_job_def split: option.splits)
next
  case True
  then obtain j g where j: "get_job job (jdb s) = Some j" and g: "gateway = Some g"
    and o: "gates_open h (Some g) p live j (jclk s (jreadings s)) (jdb s)" by (auto simp: gates_open_def)
  show ?thesis unfolding g dispatch_open [OF j o] send_job_def
    by (auto simp: delivery_failed_keys delivery_applied_keys split: option.splits)
qed

lemma enqueue_keys [simp]: "idempotency_keys (jdb (snd (run_state (enqueue h a) s))) = idempotency_keys (jdb s)"
  by (simp add: enqueue_def Let_def)

lemma update_job_keys [simp]: "idempotency_keys (update_job job f st) = idempotency_keys st"
  by (simp add: update_job_def)

lemma add_deadletter_keys [simp]: "idempotency_keys (add_deadletter job reason raw payload now st) = idempotency_keys st"
  by (simp add: add_deadletter_def)

lemma reject_ack_keys [simp]:
  "idempotency_keys (jdb (snd (run_state (reject_ack h j new reason meta now) s))) = idempotency_keys (jdb s)"
  by (simp add: reject_ack_def)

lemma ack_keys [simp]:
  "idempotency_keys (jdb (snd (run_state (ack h job status summary payload) s))) = idempotency_keys (jdb s)"
  by (cases "normalize_status status"; cases "get_job job (jdb s)") (simp_all add: ack_def Let_def)

lemma dry_run_keys [simp]:
  "idempotency_keys (jdb (snd (run_state (dispatch_dry_run h job) s))) = idempotency_keys (jdb s)"
  by (cases "get_job job (jdb s)") (simp_all add: dispatch_dry_run_def)

lemma job_step_keys: "job_step h s t \<Longrightarrow> set (idempotency_keys (jdb s)) \<subseteq> set (idempotency_keys (jdb t))"
proof (induction rule: job_step.induct)
  case (live_step s gateway p live job)
  then show ?case by (rule dispatch_live_keys)
qed simp_all

lemma job_steps_keys:
  "(job_step h)\<^sup>*\<^sup>* s t \<Longrightarrow> set (idempotency_keys (jdb s)) \<subseteq> set (idempotency_keys (jdb t))"
  by (induction rule: rtranclp_induct) (auto dest: job_step_keys)

subsection \<open>A job is delivered once\<close>

lemma send_failed_not_delivered [simp]:
  "fst (run_state (delivery_failed h p j now ref reason) s) = Delivery_Failed reason"
  by (simp add: delivery_failed_def)

lemma send_job_delivered:
  assumes "run_state (send_job h g p j now) s = (Delivered ref, t)"
  shows "\<exists>k \<in> set (idempotency_keys (jdb t)). ik_job_id k = jb_id j"
proof -
  let ?w = "outside s"
  define out where "out = fst (g (jb_target j)
    (safe_body_for_delivery h (jb_body j) (jb_id j) (jb_source_ref j) (jb_source_hash j)) (live_key h j) ?w)"
  note out = out_def [symmetric]
  show ?thesis
  proof (cases out)
    case None
    with assms have "fst (run_state (send_job h g p j now) s) = Delivered ref" by simp
    with None show ?thesis by (simp add: send_job_def out)
  next
    case (Some d)
    show ?thesis
    proof (cases "dv_success d")
      case False
      from assms have "fst (run_state (send_job h g p j now) s) = Delivered ref" by simp
      with Some False show ?thesis by (simp add: send_job_def out)
    next
      case True
      from assms have "jdb t = jdb (snd (run_state (send_job h g p j now) s))" by simp
      with Some True show ?thesis by (simp add: send_job_def out delivery_applied_keys)
    qed
  qed
qed

text \<open>
  C13: a job is delivered once. After a delivery, and after whatever the ledger did since, another
  live dispatch of the job under any policy and with any gateway leaves the outside world as it is
  and does not report a delivery.
\<close>

theorem delivered_once:
  assumes ok: "job_ledger_ok h (jdb s)"
    and sent: "run_state (dispatch_live h gateway p live job) s = (Delivered ref, t)"
    and later: "(job_step h)\<^sup>*\<^sup>* t u"
    and again: "run_state (dispatch_live h gateway' p' live' job) u = (res, v)"
  shows "outside v = outside u \<and> res \<notin> range Delivered"
proof -
  from sent obtain j g where j: "get_job job (jdb s) = Some j" and g: "gateway = Some g"
    and o: "gates_open h gateway p live j (jclk s (jreadings s)) (jdb s)"
    using dispatch_closed_outside [of job s h gateway p live]
    by (metis fst_conv gates_open_def not_None_eq rangeI)
  have "run_state (send_job h g p j (jclk s (jreadings s))) (s\<lparr>jreadings := Suc (jreadings s)\<rparr>) = (Delivered ref, t)"
    using sent dispatch_open [OF j] o g by simp
  from send_job_delivered [OF this] obtain k where k: "k \<in> set (idempotency_keys (jdb t))" "ik_job_id k = job"
    using get_job_SomeD [OF j] by auto
  have "job_ledger_ok h (jdb t)" using dispatch_live_keeps [OF ok, of gateway p live job] sent by simp
  with later have u: "job_ledger_ok h (jdb u)" by (rule job_steps_keep)
  from k later have ku: "k \<in> set (idempotency_keys (jdb u))" using job_steps_keys by blast
  have "\<not> gates_open h gateway' p' live' r (jclk u (jreadings u)) (jdb u)" if "get_job job (jdb u) = Some r" for r
  proof -
    from u ku obtain q where q: "q \<in> set (jobs (jdb u))" "jb_id q = job" "jb_live_delivered_at q \<noteq> None"
      using k(2) by (auto simp: job_ledger_ok_def keys_ok_def)
    moreover have "r \<in> set (jobs (jdb u))" "jb_id r = job" using get_job_SomeD [OF that] by auto
    ultimately have "q = r" using u by (auto simp: job_ledger_ok_def jobs_ok_def distinct_map inj_on_def)
    with q show ?thesis by (simp add: gates_open_def)
  qed
  from dispatch_closed_outside [OF this] again show ?thesis by (metis fst_conv snd_conv)
qed

subsection \<open>Acknowledgements and the transition table\<close>

lemma get_job_update:
  assumes "\<And>r. jb_id (f r) = jb_id r"
  shows "get_job job (update_job job f st) = map_option f (get_job job st)"
proof -
  have "find (\<lambda>j. jb_id j = job) (map (\<lambda>j. if jb_id j = job then f j else j) xs) =
      map_option f (find (\<lambda>j. jb_id j = job) xs)" for xs
    by (induction xs) (auto simp: assms)
  then show ?thesis by (simp add: get_job_def update_job_def)
qed

text \<open>
  an acknowledgement follows the transition table. For a known job and a valid status, it is
  applied exactly when the table allows the step, and then sets the status, the time and the time
  of completion; repeating the current status changes no job; any other status changes no job and
  leaves one dead letter that names why.
\<close>

theorem ack_follows_table:
  assumes "get_job job (jdb s) = Some j" and "normalize_status status = Some new"
    and "run_state (ack h job status summary payload) s = (res, t)"
  shows "(case res of
      Ack_Applied st \<Rightarrow> st = new \<and> new \<in> set (JOB_TRANSITIONS (jb_status j)) \<and> new \<noteq> jb_status j \<and>
        get_job job (jdb t) = Some (j\<lparr>jb_status := new, jb_updated_at := jclk s (jreadings s),
          jb_final_at := if new \<in> FINAL_STATES then Some (jclk s (jreadings s)) else None\<rparr>)
    | Ack_Duplicate st \<Rightarrow> st = new \<and> new = jb_status j \<and> jobs (jdb t) = jobs (jdb s) \<and>
        deadletters (jdb t) = deadletters (jdb s)
    | Ack_Error reason \<Rightarrow> new \<notin> set (JOB_TRANSITIONS (jb_status j)) \<and> new \<noteq> jb_status j \<and> jobs (jdb t) = jobs (jdb s) \<and>
        reason = (if jb_status j \<in> FINAL_STATES then ''already_final'' else ''illegal_transition'') \<and>
        (\<exists>d. rows (deadletters (jdb t)) = rows (deadletters (jdb s)) @ [d] \<and> dl_job_id d = job \<and> dl_reason d = reason \<and>
           dl_raw_ref d = jb_source_hash j))"
proof -
  have id: "jb_id j = job" using get_job_SomeD [OF assms(1)] by simp
  have final: "new \<notin> set (JOB_TRANSITIONS (jb_status j))" if "jb_status j \<in> FINAL_STATES"
    using that by (auto simp: FINAL_STATES_def)
  have upd: "get_job job (update_job job f (jdb s)) = Some (f j)" if "\<And>r. jb_id (f r) = jb_id r" for f
    using assms(1) get_job_update [OF that] by simp
  consider "new = jb_status j" | "new \<noteq> jb_status j" "jb_status j \<in> FINAL_STATES"
    | "new \<noteq> jb_status j" "jb_status j \<notin> FINAL_STATES" "new \<notin> set (JOB_TRANSITIONS (jb_status j))"
    | "new \<noteq> jb_status j" "jb_status j \<notin> FINAL_STATES" "new \<in> set (JOB_TRANSITIONS (jb_status j))" by blast
  then show ?thesis
  proof cases
    case 1
    with assms show ?thesis by (auto simp: ack_def append_job_event_def Let_def)
  next
    case 2
    with assms id final show ?thesis
      by (auto simp: ack_def reject_ack_def append_job_event_def add_deadletter_def mk_deadletter_def Let_def)
  next
    case 3
    with assms id show ?thesis
      by (auto simp: ack_def reject_ack_def append_job_event_def add_deadletter_def mk_deadletter_def Let_def)
  next
    case 4
    with assms upd show ?thesis by (auto simp: ack_def get_job_def)
  qed
qed

subsection \<open>Finished jobs\<close>

text \<open>
  a live dispatch does not look at the status of the job. A job that has already succeeded or
  failed, when every other gate is open and the gateway delivers, is sent and goes back to the
  dispatched status, from which its acknowledgement can be applied a second time.
\<close>

theorem live_dispatch_revives_finished_job:
  assumes "get_job job (jdb s) = Some j" and "jb_status j \<in> FINAL_STATES"
    and "gates_open h (Some g) p live j (jclk s (jreadings s)) (jdb s)"
    and "\<And>body w. \<exists>w'. g (jb_target j) body (live_key h j) w = (Some \<lparr>dv_success = True, dv_receipt_ref = ref\<rparr>, w')"
  shows "\<exists>t r. run_state (dispatch_live h (Some g) p live job) s = (Delivered ref, t) \<and>
    get_job job (jdb t) = Some r \<and> jb_status r = DISPATCHED \<and> jb_final_at r = jb_final_at j"
proof -
  have id: "jb_id j = job" using get_job_SomeD [OF assms(1)] by simp
  have found: "get_job job (update_job job f st) = Some (f j)"
    if "\<And>r. jb_id (f r) = jb_id r" "jobs st = jobs (jdb s)" for f st
    using assms(1) get_job_update [OF that(1)] that(2) by (simp add: get_job_def)
  have g: "fst (g (jb_target j) body (live_key h j) w) = Some \<lparr>dv_success = True, dv_receipt_ref = ref\<rparr>" for body w
    using assms(4) [of body w] by (metis fst_conv)
  show ?thesis
    unfolding dispatch_open [OF assms(1,3)]
    by (simp add: send_job_def g delivery_applied_def id get_job_def)
      (simp add: found [unfolded get_job_def])
qed

subsection \<open>The policy loader fails closed\<close>





subsection \<open>A sample ledger\<close>

definition sample_new_job :: new_job where
  "sample_new_job = \<lparr>nj_title = ''build'', nj_body = ''run the tests'', nj_target = ''bot'',
     nj_origin_return = [], nj_dedupe_key = [], nj_correlation_id = [], nj_causation_id = [],
     nj_source_kind = ''manual'', nj_source_id = [], nj_source_ref = [], nj_source_hash = []\<rparr>"

definition sample_job :: job_row where
  "sample_job = \<lparr>jb_id = ''job_1'', jb_title = ''build'', jb_body = ''run the tests'', jb_target = ''bot'',
     jb_origin_return = [], jb_dedupe_key = [], jb_status = SUCCEEDED, jb_created_at = 1, jb_updated_at = 2,
     jb_correlation_id = ''job_1'', jb_causation_id = [], jb_source_kind = ''manual'', jb_source_id = [],
     jb_source_ref = [], jb_source_hash = [], jb_attempt = 0, jb_final_at = Some 2,
     jb_live_delivered_at = None, jb_live_delivery_ref = []\<rparr>"

definition sample_policy :: live_policy where
  "sample_policy = default_live_policy\<lparr>lp_live_dispatch_enabled := True, lp_allowed_targets := [JStr ''bot''],
     lp_canary_targets := [JStr ''bot'']\<rparr>"

text \<open>A gateway that always delivers and counts its deliveries.\<close>

definition counting_gateway :: "nat gateway" where
  "counting_gateway = (\<lambda>target body key w. (Some \<lparr>dv_success = True, dv_receipt_ref = ''r1''\<rparr>, Suc w))"

definition sample_job_sys :: "job_store \<Rightarrow> nat job_sys" where
  "sample_job_sys st = \<lparr>jdb = st, outside = 0, jclk = (\<lambda>_. 100), jreadings = 0\<rparr>"

definition finished_store :: job_store where
  "finished_store = empty_job_store\<lparr>jobs := [sample_job], job_events := \<lparr>rows = [\<lparr>je_id = 1, je_job_id = ''job_1'',
     je_kind = ''ack_applied'', je_payload = [], je_created_at = 2, je_seq = 1, je_prev_status = ''queued'',
     je_new_status = ''succeeded''\<rparr>], counter = 1\<rparr>\<rparr>"

lemmas sample_defs = sample_job_sys_def finished_store_def empty_job_store_def empty_table_def sample_job_def

lemma finished_get: "get_job ''job_1'' finished_store = Some sample_job"
  by (simp add: sample_defs get_job_def)

lemma finished_ok: "job_ledger_ok h finished_store"
  by (auto simp: job_ledger_ok_def ledger_defs sample_defs status_kinds_def FINAL_STATES_def)

lemma finished_gates:
  "gates_open h (Some g) sample_policy True sample_job (jclk (sample_job_sys finished_store) (jreadings (sample_job_sys finished_store)))
     (jdb (sample_job_sys finished_store))"
  by (simp add: gates_open_def policy_gate_def sample_policy_def default_live_policy_def key_row_def
      check_throttle_def is_degraded_def count_receipts_def count_target_receipts_def select_where_def dict_get_def
      sample_defs Let_def)

lemma finished_sent: "\<exists>t. run_state (dispatch_live h (Some counting_gateway) sample_policy True ''job_1'')
    (sample_job_sys finished_store) = (Delivered ''r1'', t) \<and> outside t = 1"
proof -
  have "get_job ''job_1'' (jdb (sample_job_sys finished_store)) = Some sample_job"
    using finished_get by (simp add: sample_job_sys_def)
  note dispatch_open [OF this finished_gates]
  then show ?thesis by (simp add: send_job_def counting_gateway_def delivery_applied_def sample_job_sys_def)
qed

theorem job_ledger_invariant_witness:
  "\<exists>t. job_ledger_ok id (jdb (t :: nat job_sys)) \<and> length (jobs (jdb t)) = 1"
proof -
  let ?s = "sample_job_sys empty_job_store"
  let ?t = "snd (run_state (enqueue id sample_new_job) ?s)"
  have "jdb ?s = empty_job_store" by (simp add: sample_job_sys_def)
  moreover have "(job_step id)\<^sup>*\<^sup>* ?s ?t" by (intro r_into_rtranclp enqueue_step)
  ultimately have "job_ledger_ok id (jdb ?t)" by (rule job_ledger_invariant)
  moreover have "length (jobs (jdb ?t)) = 1"
    by (simp add: enqueue_def Let_def job_clash_def sample_job_sys_def empty_job_store_def)
  ultimately show ?thesis by blast
qed

theorem live_dispatch_gated_witness:
  "\<exists>t. run_state (dispatch_live id (Some counting_gateway) sample_policy True ''job_1'')
      (sample_job_sys finished_store) = (Delivered ''r1'', t) \<and>
    attempts_under (live_key id sample_job) (jdb t) = Suc (attempts_under (live_key id sample_job) finished_store)"
proof -
  obtain t where t: "run_state (dispatch_live id (Some counting_gateway) sample_policy True ''job_1'')
    (sample_job_sys finished_store) = (Delivered ''r1'', t)" "outside t = 1"
    using finished_sent by blast
  then have "outside t \<noteq> outside (sample_job_sys finished_store)" by (simp add: sample_job_sys_def)
  with live_dispatch_gated [OF t(1)] finished_get t(1) show ?thesis by (auto simp: sample_job_sys_def)
qed

theorem delivered_once_witness:
  "\<exists>t v res. run_state (dispatch_live id (Some counting_gateway) sample_policy True ''job_1'')
      (sample_job_sys finished_store) = (Delivered ''r1'', t) \<and>
    run_state (dispatch_live id (Some counting_gateway) sample_policy True ''job_1'') t = (res, v) \<and> outside v = 1"
proof -
  obtain t where t: "run_state (dispatch_live id (Some counting_gateway) sample_policy True ''job_1'')
    (sample_job_sys finished_store) = (Delivered ''r1'', t)" "outside t = 1"
    using finished_sent by blast
  have ok: "job_ledger_ok id (jdb (sample_job_sys finished_store))" using finished_ok by (simp add: sample_job_sys_def)
  obtain res v where v: "run_state (dispatch_live id (Some counting_gateway) sample_policy True ''job_1'') t = (res, v)"
    by (cases "run_state (dispatch_live id (Some counting_gateway) sample_policy True ''job_1'') t")
  from delivered_once [OF ok t(1) rtranclp.rtrancl_refl v] t v show ?thesis by auto
qed

theorem ack_follows_table_witness:
  "\<exists>res t. run_state (ack id ''job_1'' ''failed'' [] []) (sample_job_sys finished_store) = (res, t) \<and>
    res \<notin> range Ack_Applied \<and> get_job ''job_1'' (jdb t) = Some sample_job"
proof -
  obtain res t where r: "run_state (ack id ''job_1'' ''failed'' [] []) (sample_job_sys finished_store) = (res, t)"
    by (cases "run_state (ack id ''job_1'' ''failed'' [] []) (sample_job_sys finished_store)")
  have j: "get_job ''job_1'' (jdb (sample_job_sys finished_store)) = Some sample_job"
    using finished_get by (simp add: sample_job_sys_def)
  have "normalize_status ''failed'' = Some FAILED" by code_simp
  from ack_follows_table [OF j this r] have "res \<notin> range Ack_Applied \<and> jobs (jdb t) = jobs finished_store"
    by (auto simp: sample_job_def sample_job_sys_def split: ack_result.splits)
  with r finished_get show ?thesis by (auto simp: get_job_def)
qed

theorem live_dispatch_revives_finished_job_witness:
  "\<exists>t r. run_state (dispatch_live id (Some counting_gateway) sample_policy True ''job_1'')
      (sample_job_sys finished_store) = (Delivered ''r1'', t) \<and>
    get_job ''job_1'' (jdb t) = Some r \<and> jb_status r = DISPATCHED \<and> jb_final_at r = Some 2"
proof -
  have j: "get_job ''job_1'' (jdb (sample_job_sys finished_store)) = Some sample_job"
    using finished_get by (simp add: sample_job_sys_def)
  have "jb_status sample_job \<in> FINAL_STATES" by (simp add: sample_job_def FINAL_STATES_def)
  from live_dispatch_revives_finished_job [OF j this finished_gates, of counting_gateway id "''r1''"]
  show ?thesis by (simp add: counting_gateway_def sample_job_def)
qed


end
