(* ===== verification/Acks.thy ===== *)
theory Acks
  imports Jobs
begin

text \<open>
  The acknowledgement block of a worker (\<open>ack.py\<close>) and the command that ingests it
  (\<open>ack ingest\<close> in \<open>cli.py\<close>): the marker, the field grammar with its continuation lines, the
  validation, and the hand-over to the job ledger. A block printed in the format of the dispatch
  prompt is read back field by field.
\<close>

subsection \<open>The grammar\<close>

definition ACK_RE :: regex where
  "ACK_RE = RSeq (re_ilit ''[JOB ACK]'') (RGroup 1 (re_many re_any))"

definition re_key_start :: regex where
  "re_key_start = RChar (CUnion CAlpha (CLit (CHR ''_'')))"

definition re_key_char :: regex where
  "re_key_char = RChar (CUnion CWord (CLit (CHR ''-'')))"

definition FIELD_RE :: regex where
  "FIELD_RE = re_seq [RTextBegin, RGroup 1 (RSeq re_key_start (re_many re_key_char)), RChar (CLit (CHR '':'')),
     re_spaces, RGroup 2 (re_many re_dot), RTextEnd]"

definition CONTINUATION_RE :: regex where
  "CONTINUATION_RE = re_seq [RTextBegin, re_alts
     [re_plus re_space,
      RSeq (re_one_of ''-*+'') (re_plus re_space),
      re_seq [re_plus re_digit, re_one_of ''.)'', re_plus re_space]], re_many re_dot, RTextEnd]"

subsection \<open>The block\<close>

record ack_error =
  ae_reason :: string
  ae_deadletter :: bool
  ae_payload :: "string dict"

text \<open>One line: a field, a continuation of the field before it, or nothing.\<close>

definition ack_line :: "string \<Rightarrow> string \<times> string list dict \<Rightarrow> string \<times> string list dict" where
  "ack_line raw st = (case st of (current, fs) \<Rightarrow>
     (case re_match FIELD_RE (py_strip raw) of
        Some m \<Rightarrow> (let key = py_lower (replace_char (CHR ''-'') (CHR ''_'') (group 1 m))
                    in (key, dict_set key [py_strip (group 2 m)] fs))
      | None \<Rightarrow>
          if current \<noteq> [] \<and> (py_strip raw = [] \<or> re_match CONTINUATION_RE raw \<noteq> None)
          then (current, dict_set current (the (dict_get fs current) @ [py_rstrip raw]) fs)
          else (current, fs)))"

definition parse_ack_block :: "string \<Rightarrow> ack_error + string dict" where
  "parse_ack_block text =
     (case re_search ACK_RE text of
        None \<Rightarrow> Inl \<lparr>ae_reason = ''missing [JOB ACK] block'', ae_deadletter = False, ae_payload = []\<rparr>
      | Some m \<Rightarrow> Inr (map (\<lambda>(k, v). (k, py_strip (join_with [line_feed] v)))
          (snd (fold ack_line (py_splitlines (group 1 m)) ([], [])))))"

record ack_payload =
  ap_job_id :: string
  ap_status :: job_status
  ap_summary :: string
  ap_artifacts :: string
  ap_blockers :: string
  ap_raw_fields :: "string dict"

definition ack_field :: "string dict \<Rightarrow> string \<Rightarrow> string" where
  "ack_field fs key = py_strip (case dict_get fs key of None \<Rightarrow> [] | Some v \<Rightarrow> v)"

definition invalid_status_error :: "string \<Rightarrow> string \<Rightarrow> ack_error" where
  "invalid_status_error job status = \<lparr>ae_reason = ''invalid_status'', ae_deadletter = True,
     ae_payload = [(''job_id'', job), (''status'', status)]\<rparr>"

definition validate_ack :: "string dict \<Rightarrow> ack_error + ack_payload" where
  "validate_ack fs =
     (let job = ack_field fs ''job_id''; status = ack_field fs ''status'' in
      if job = [] then Inl \<lparr>ae_reason = ''missing_job_id'', ae_deadletter = False, ae_payload = []\<rparr>
      else if status = [] then Inl \<lparr>ae_reason = ''missing_status'', ae_deadletter = False, ae_payload = []\<rparr>
      else case normalize_status status of
        None \<Rightarrow> Inl (invalid_status_error job status)
      | Some st \<Rightarrow>
          if st = DISPATCHED then Inl (invalid_status_error job status)
          else Inr \<lparr>ap_job_id = job, ap_status = st, ap_summary = ack_field fs ''summary'',
            ap_artifacts = ack_field fs ''artifacts'', ap_blockers = ack_field fs ''blockers'',
            ap_raw_fields = fs\<rparr>)"

text \<open>\<open>ack ingest\<close>: what cannot be read is reported, and dead-lettered when it names a job.\<close>

definition text_dict :: "string dict \<Rightarrow> json dict" where
  "text_dict d = map (\<lambda>(k, v). (k, JStr v)) d"

definition ingest_ack :: "(string \<Rightarrow> string) \<Rightarrow> string \<Rightarrow> ('w job_sys, ack_result) state" where
  "ingest_ack h text =
     (case (case parse_ack_block text of Inl e \<Rightarrow> Inl e | Inr fs \<Rightarrow> validate_ack fs) of
        Inl e \<Rightarrow> do {
          whenM (ae_deadletter e)
            (deadletter (ae_reason e) (case dict_get (ae_payload e) ''job_id'' of None \<Rightarrow> [] | Some j \<Rightarrow> j) []
              (text_dict (ae_payload e)));
          ret (Ack_Error (ae_reason e))
        }
      | Inr p \<Rightarrow> ack h (ap_job_id p) (job_status_value (ap_status p)) (ap_summary p) (text_dict (ap_raw_fields p)))"

subsection \<open>The first match\<close>

definition first_match :: "regex \<Rightarrow> mstate \<Rightarrow> mstate \<Rightarrow> bool" where
  "first_match r st t \<longleftrightarrow> (\<exists>ts. re_step r st = t # ts)"

lemma first_seq: "first_match r st t \<Longrightarrow> first_match q t u \<Longrightarrow> first_match (RSeq r q) st u"
  by (auto simp: first_match_def)

lemma first_class: "in_class k c \<Longrightarrow> first_match (RChar k) (pre, c # cs, caps) (c # pre, cs, caps)"
  by (simp add: first_match_def)

text \<open>A greedy run of a character class stops where the class stops.\<close>

lemma re_rounds_run:
  assumes "\<forall>c \<in> set xs. in_class k c" and "ys = [] \<or> \<not> in_class k (hd ys)" and "length xs \<le> n"
  shows "\<exists>ts. re_rounds True (re_step (RChar k)) n (pre, xs @ ys, caps) = (rev xs @ pre, ys, caps) # ts"
  using assms(1,3)
proof (induction xs arbitrary: n pre)
  case Nil
  then show ?case using assms(2) by (cases n; cases ys) auto
next
  case (Cons x xs)
  then obtain m where n: "n = Suc m" "length xs \<le> m" by (cases n) auto
  have step: "re_step (RChar k) (pre, (x # xs) @ ys, caps) = [(x # pre, xs @ ys, caps)]"
    using Cons.prems by simp
  have "\<forall>c \<in> set xs. in_class k c" using Cons.prems by simp
  from Cons.IH [OF this n(2), of "x # pre"] obtain ts where
    "re_rounds True (re_step (RChar k)) m (x # pre, xs @ ys, caps) = (rev xs @ x # pre, ys, caps) # ts" by auto
  then show ?case unfolding n(1) re_rounds.simps(2) step by simp
qed

lemma first_run:
  assumes "\<forall>c \<in> set xs. in_class k c" and "ys = [] \<or> \<not> in_class k (hd ys)"
  shows "first_match (re_many (RChar k)) (pre, xs @ ys, caps) (rev xs @ pre, ys, caps)"
  using re_rounds_run [OF assms, of "length (xs @ ys)" pre caps]
  by (simp add: first_match_def re_many_def del: re_step.simps(1))

lemma first_group:
  assumes "first_match r (pre, xs @ ys, caps) (rev xs @ pre, ys, caps)"
  shows "first_match (RGroup n r) (pre, xs @ ys, caps) (rev xs @ pre, ys, (n, xs) # caps)"
  using assms by (auto simp: first_match_def)

lemma re_match_first:
  "first_match r ([], s, []) (pre, rest, caps) \<Longrightarrow> re_match r s = Some (take (length s - length rest) s, caps)"
  by (auto simp: first_match_def re_match_def re_match_at_def match_of_def)

subsection \<open>Reading one line\<close>

definition ack_key :: "string \<Rightarrow> bool" where
  "ack_key k \<longleftrightarrow> k \<noteq> [] \<and> in_class (CUnion CAlpha (CLit (CHR ''_''))) (hd k) \<and>
     (\<forall>c \<in> set k. is_word c) \<and> py_lower k = k"

definition ack_value :: "string \<Rightarrow> bool" where
  "ack_value v \<longleftrightarrow> py_strip v = v \<and> (\<forall>c \<in> set v. \<not> is_line_break c)"

lemma ack_key_class: "ack_key k \<Longrightarrow> \<exists>c cs. k = c # cs \<and> in_class (CUnion CAlpha (CLit (CHR ''_''))) c \<and>
    (\<forall>x \<in> set cs. in_class (CUnion CWord (CLit (CHR ''-''))) x)"
  by (cases k) (auto simp: ack_key_def)

lemma stripped_ends:
  assumes "py_strip v = v" and "v \<noteq> []"
  shows "\<not> is_space (hd v)" and "\<not> is_space (last v)"
proof -
  let ?w = "dropWhile is_space v"
  have "length (py_strip v) \<le> length ?w" unfolding py_strip_def by (metis length_dropWhile_le length_rev)
  then have "length v \<le> length ?w" using assms(1) by simp
  moreover have "length (takeWhile is_space v) + length ?w = length v"
    by (metis length_append takeWhile_dropWhile_id)
  ultimately have "length (takeWhile is_space v) = 0" by linarith
  then have "takeWhile is_space v = []" by (rule length_0_conv [THEN iffD1])
  then have w: "?w = v" by (metis append_Nil takeWhile_dropWhile_id)
  then show "\<not> is_space (hd v)" using assms(2) by (metis hd_dropWhile)
  have "dropWhile is_space (rev v) = rev v" using assms(1) w unfolding py_strip_def by (metis rev_rev_ident)
  then show "\<not> is_space (last v)" using assms(2) by (metis hd_dropWhile hd_rev rev_is_Nil_conv)
qed

lemma strip_ends:
  assumes "v \<noteq> []" and "\<not> is_space (hd v)" and "\<not> is_space (last v)"
  shows "py_strip v = v"
proof -
  have d: "dropWhile is_space w = w" if "w = [] \<or> \<not> is_space (hd w)" for w
    using that by (cases w) auto
  show ?thesis using assms by (simp add: py_strip_def d hd_rev)
qed

text \<open>The line of a field, and the bulleted or numbered lines that may follow it.\<close>

definition head_line :: "string \<Rightarrow> string \<Rightarrow> string" where
  "head_line k v = k @ CHR '':'' # (if v = [] then [] else CHR '' '' # v)"

definition bullet_line :: "string \<times> string \<Rightarrow> string" where
  "bullet_line = (\<lambda>(mark, v). mark @ CHR '' '' # v)"

definition ack_mark :: "string \<Rightarrow> bool" where
  "ack_mark m \<longleftrightarrow> m \<in> set [''-'', ''*'', ''+''] \<or>
     (m \<noteq> [] \<and> butlast m \<noteq> [] \<and> list_all is_digit (butlast m) \<and> last m \<in> set ''.)'')"

definition ack_item :: "string \<times> string \<Rightarrow> bool" where
  "ack_item = (\<lambda>(mark, v). ack_mark mark \<and> ack_value v \<and> v \<noteq> [])"

lemma ack_key_start: "ack_key k \<Longrightarrow> \<exists>c cs. k = c # cs \<and> \<not> is_space c"
  by (cases k) (auto simp: ack_key_def is_word_def is_alnum_def is_alpha_def is_digit_def is_space_def Let_def)

lemma head_line_strip:
  assumes "ack_key k" and "ack_value v"
  shows "py_strip (head_line k v) = head_line k v"
proof -
  from ack_key_start [OF assms(1)] obtain c cs where k: "k = c # cs" "\<not> is_space c" by blast
  have "\<not> is_space (last (head_line k v))"
    using assms(2) stripped_ends(2) [of v] by (auto simp: head_line_def ack_value_def is_space_def)
  then show ?thesis by (intro strip_ends) (simp_all add: head_line_def k)
qed

lemma first_anchor: "first_match RTextBegin ([], rest, caps) ([], rest, caps)"
  "first_match RTextEnd (pre, [], caps) (pre, [], caps)"
  by (simp_all add: first_match_def)

lemma field_match:
  assumes "ack_key k" and "ack_value v"
  shows "\<exists>m. re_match FIELD_RE (head_line k v) = Some m \<and> group 1 m = k \<and> group 2 m = v"
proof -
  let ?sp = "if v = [] then [] else '' ''"
  from ack_key_class [OF assms(1)] obtain c cs where k: "k = c # cs"
    "in_class (CUnion CAlpha (CLit (CHR ''_''))) c" "\<forall>x \<in> set cs. in_class (CUnion CWord (CLit (CHR ''-''))) x"
    by blast
  have sp: "v = [] \<or> \<not> in_class CSpace (hd v)"
    using assms(2) stripped_ends(1) [of v] by (auto simp: ack_value_def)
  have nl: "\<forall>x \<in> set v. in_class (CNot (CLit line_feed)) x"
    using assms(2) by (auto simp: ack_value_def is_line_break_def line_feed_def Let_def)
  have colon: "\<not> in_class (CUnion CWord (CLit (CHR ''-''))) (CHR '':'')" by code_simp
  have key: "first_match (RGroup 1 (RSeq re_key_start (re_many re_key_char)))
      ([], k @ CHR '':'' # ?sp @ v, []) (rev k @ [], CHR '':'' # ?sp @ v, [(1, k)])"
    unfolding re_key_start_def re_key_char_def k(1) using k(2,3) colon
    by (intro first_group) (auto intro!: first_seq [OF first_class first_run] simp del: in_class.simps)
  have val: "first_match (RSeq (RGroup 2 (re_many re_dot)) RTextEnd) (pre, v, caps) (rev v @ pre, [], (2, v) # caps)"
    for pre caps
  proof (rule first_seq [OF _ first_anchor(2)])
    show "first_match (RGroup 2 (re_many re_dot)) (pre, v, caps) (rev v @ pre, [], (2, v) # caps)"
      using first_group [OF first_run [of v _ "[]"]] nl unfolding re_dot_def by fastforce
  qed
  have rest: "first_match (RSeq re_spaces (RSeq (RGroup 2 (re_many re_dot)) RTextEnd)) (pre, ?sp @ v, caps)
      (rev v @ rev ?sp @ pre, [], (2, v) # caps)" for pre caps
  proof (rule first_seq [OF _ val])
    show "first_match re_spaces (pre, ?sp @ v, caps) (rev ?sp @ pre, v, caps)"
      unfolding re_spaces_def re_space_def by (rule first_run) (use sp in \<open>auto simp: is_space_def\<close>)
  qed
  have "first_match FIELD_RE ([], k @ CHR '':'' # ?sp @ v, []) (rev v @ rev ?sp @ CHR '':'' # rev k @ [], [], [(2, v), (1, k)])"
    unfolding FIELD_RE_def re_seq.simps
    by (rule first_seq [OF first_anchor(1)], rule first_seq [OF key], rule first_seq [OF first_class rest]) simp
  then have "re_match FIELD_RE (k @ CHR '':'' # ?sp @ v) = Some (k @ CHR '':'' # ?sp @ v, [(2, v), (1, k)])"
    using re_match_first by fastforce
  moreover have "k @ CHR '':'' # ?sp @ v = head_line k v" by (simp add: head_line_def)
  ultimately show ?thesis by (auto simp: group_def)
qed

lemma ack_line_field:
  assumes "ack_key k" and "ack_value v"
  shows "ack_line (head_line k v) (current, fs) = (k, dict_set k [v] fs)"
proof -
  from field_match [OF assms] obtain m where
    m: "re_match FIELD_RE (py_strip (head_line k v)) = Some m" "group 1 m = k" "group 2 m = v"
    using head_line_strip [OF assms] by auto
  have "replace_char (CHR ''-'') (CHR ''_'') k = k"
  proof -
    have "\<not> is_word (CHR ''-'')" by code_simp
    with assms(1) have "CHR ''-'' \<notin> set k" by (auto simp: ack_key_def)
    then show ?thesis by (auto simp: replace_char_def intro!: map_idI)
  qed
  then show ?thesis using assms unfolding ack_line_def prod.case m(1) option.case m(2,3)
    by (simp add: ack_key_def ack_value_def)
qed

text \<open>A bulleted or numbered line is no field, and continues the field before it.\<close>

lemma ack_mark_cases:
  assumes "ack_mark m"
  obtains c where "m = [c]" "c \<in> set ''-*+''"
  | d ds c where "m = d # ds @ [c]" "\<forall>x \<in> set (d # ds). is_digit x" "c \<in> set ''.)''"
proof (cases "m \<in> set [''-'', ''*'', ''+'']")
  case True
  then have "\<exists>c. m = [c] \<and> c \<in> set ''-*+''" by auto
  then show ?thesis using that(1) by blast
next
  case False
  with assms have m: "m \<noteq> []" "butlast m \<noteq> []" "\<forall>x \<in> set (butlast m). is_digit x" "last m \<in> set ''.)''"
    by (simp_all only: ack_mark_def list_all_iff) blast+
  obtain d ds where "butlast m = d # ds" using m(2) by (cases "butlast m") auto
  moreover from m(1) have "m = butlast m @ [last m]" by simp
  ultimately show ?thesis using that(2) m(3,4) by (metis append_Cons)
qed

lemma mark_start:
  assumes "ack_mark m"
  obtains c cs where "m = c # cs" "\<not> is_space c" "\<not> in_class (CUnion CAlpha (CLit (CHR ''_''))) c"
proof (rule ack_mark_cases [OF assms])
  fix c assume c: "m = [c]" "c \<in> set ''-*+''"
  have "list_all (\<lambda>c. \<not> is_space c \<and> \<not> in_class (CUnion CAlpha (CLit (CHR ''_''))) c) ''-*+''" by code_simp
  with c(2) have "\<not> is_space c \<and> \<not> in_class (CUnion CAlpha (CLit (CHR ''_''))) c" by (auto simp: list_all_iff)
  with c(1) show thesis using that by blast
next
  fix d ds c assume d: "m = d # ds @ [c]" "\<forall>x \<in> set (d # ds). is_digit x"
  then have "is_digit d" by simp
  then have "\<not> is_space d \<and> \<not> in_class (CUnion CAlpha (CLit (CHR ''_''))) d"
    by (auto simp: is_digit_def is_space_def is_alpha_def Let_def)
  with d(1) show thesis using that by blast
qed

lemma first_alt_left: "first_match r st t \<Longrightarrow> first_match (RAlt r q) st t"
  by (auto simp: first_match_def)

lemma first_alt_right: "re_step r st = [] \<Longrightarrow> first_match q st t \<Longrightarrow> first_match (RAlt r q) st t"
  by (simp add: first_match_def)

lemma first_plus:
  assumes "in_class k c" "\<forall>x \<in> set xs. in_class k x" and "ys = [] \<or> \<not> in_class k (hd ys)"
  shows "first_match (re_plus (RChar k)) (pre, c # xs @ ys, caps) (rev xs @ c # pre, ys, caps)"
  unfolding re_plus_def
  by (rule first_seq [OF first_class [OF assms(1)] first_run [OF assms(2,3), unfolded re_many_def]])

lemma item_continues:
  assumes "ack_item it"
  shows "re_match CONTINUATION_RE (bullet_line it) \<noteq> None"
proof -
  obtain m v where it: "it = (m, v)" by (cases it)
  with assms have m: "ack_mark m" and v: "ack_value v" "v \<noteq> []" by (auto simp: ack_item_def)
  have vhd: "\<not> in_class CSpace (hd v)" using v stripped_ends(1) [of v] by (simp add: ack_value_def)
  have blank: "in_class CSpace (CHR '' '')" by code_simp
  have tail: "first_match (re_plus re_space) (pre, CHR '' '' # v, caps) (CHR '' '' # pre, v, caps)" for pre caps
    using first_plus [of CSpace "CHR '' ''" "[]" v] blank vhd unfolding re_space_def by simp
  have nl: "\<forall>x \<in> set v. in_class (CNot (CLit line_feed)) x"
    using v(1) by (auto simp: ack_value_def is_line_break_def line_feed_def Let_def)
  have stop: "first_match (RSeq (re_many re_dot) RTextEnd) (pre, v, caps) (rev v @ pre, [], caps)" for pre caps
  proof (rule first_seq [OF _ first_anchor(2)])
    show "first_match (re_many re_dot) (pre, v, caps) (rev v @ pre, [], caps)"
      using first_run [of v _ "[]"] nl unfolding re_dot_def by fastforce
  qed
  let ?A = "re_plus re_space" and ?B = "RSeq (re_one_of ''-*+'') (re_plus re_space)"
    and ?C = "RSeq (re_plus re_digit) (RSeq (re_one_of ''.)'') (re_plus re_space))"
  obtain c cs where c: "m = c # cs" "\<not> is_space c" using mark_start [OF m] by blast
  have noA: "re_step ?A ([], m @ CHR '' '' # v, []) = []" using c by (simp add: re_plus_def re_space_def)
  have "first_match (RAlt ?B ?C) ([], m @ CHR '' '' # v, []) (CHR '' '' # rev m, v, [])"
  proof (rule ack_mark_cases [OF m])
    fix c assume c: "m = [c]" "c \<in> set ''-*+''"
    then have "in_class (COf ''-*+'') c" by auto
    with c(1) show ?thesis unfolding re_one_of_def
      by (auto intro!: first_alt_left first_seq [OF first_class tail] simp del: in_class.simps)
  next
    fix d ds c assume d: "m = d # ds @ [c]" "\<forall>x \<in> set (d # ds). is_digit x" "c \<in> set ''.)''"
    have sep: "in_class (COf ''.)'') c" using d(3) by auto
    have "list_all (\<lambda>c. \<not> in_class CDigit c) ''.)''" by code_simp
    with d(3) have cd: "\<not> in_class CDigit c" by (auto simp: list_all_iff)
    have "list_all (\<lambda>c. \<not> is_digit c) ''-*+''" by code_simp
    with d(2) have "d \<notin> set ''-*+''" by (auto simp: list_all_iff)
    then have noB: "re_step ?B ([], m @ CHR '' '' # v, []) = []" using d(1) by (auto simp: re_one_of_def)
    have digits: "first_match (re_plus re_digit) ([], d # ds @ c # CHR '' '' # v, []) (rev ds @ [d], c # CHR '' '' # v, [])"
      using first_plus [of CDigit d ds "c # CHR '' '' # v" "[]" "[]"] d(2) cd unfolding re_digit_def by simp
    have "first_match ?C ([], m @ CHR '' '' # v, []) (CHR '' '' # c # rev ds @ [d], v, [])"
      unfolding d(1) re_one_of_def using first_seq [OF digits first_seq [OF first_class [OF sep] tail]] by simp
    then show ?thesis using first_alt_right [OF noB] by (simp add: d(1))
  qed
  from first_alt_right [OF noA this]
  have "first_match CONTINUATION_RE ([], bullet_line it, []) (rev v @ CHR '' '' # rev m, [], [])"
    unfolding CONTINUATION_RE_def re_seq.simps re_alts.simps it bullet_line_def prod.case
    by (intro first_seq [OF first_anchor(1) first_seq [OF _ stop]])
  from re_match_first [OF this] show ?thesis by simp
qed

lemma item_ends:
  assumes "ack_item it"
  shows "bullet_line it \<noteq> []" "\<not> is_space (hd (bullet_line it))" "\<not> is_space (last (bullet_line it))"
    and "py_strip (bullet_line it) = bullet_line it" "py_rstrip (bullet_line it) = bullet_line it"
proof -
  obtain m v where it: "it = (m, v)" by (cases it)
  with assms have m: "ack_mark m" and v: "ack_value v" "v \<noteq> []" by (auto simp: ack_item_def)
  obtain c cs where c: "m = c # cs" "\<not> is_space c" using mark_start [OF m] by blast
  show n: "bullet_line it \<noteq> []" and h: "\<not> is_space (hd (bullet_line it))" by (simp_all add: bullet_line_def it c)
  show l: "\<not> is_space (last (bullet_line it))" using v stripped_ends(2) [of v] by (simp add: bullet_line_def it ack_value_def)
  show "py_strip (bullet_line it) = bullet_line it" by (rule strip_ends [OF n h l])
  have "dropWhile is_space (rev (bullet_line it)) = rev (bullet_line it)"
    using n l by (cases "rev (bullet_line it)") (auto simp: last_rev hd_rev [symmetric])
  then show "py_rstrip (bullet_line it) = bullet_line it" by (simp add: py_rstrip_def)
qed

lemma item_no_field:
  assumes "ack_item it"
  shows "re_match FIELD_RE (bullet_line it) = None"
proof -
  obtain m v where it: "it = (m, v)" by (cases it)
  with assms have m: "ack_mark m" by (auto simp: ack_item_def)
  obtain c cs where c: "m = c # cs" "\<not> in_class (CUnion CAlpha (CLit (CHR ''_''))) c" using mark_start [OF m] by blast
  have "re_step FIELD_RE ([], bullet_line it, []) = []"
    using c(2) unfolding FIELD_RE_def re_seq.simps it bullet_line_def prod.case c(1)
    by (simp add: re_key_start_def del: in_class.simps)
  then show ?thesis by (simp add: re_match_def re_match_at_def)
qed

lemma dict_set_new: "k \<notin> set (dict_keys d) \<Longrightarrow> dict_set k v d = d @ [(k, v)]"
  unfolding dict_set_def dict_keys_def by (induction d) auto

lemma dict_last:
  assumes "k \<notin> set (dict_keys d)"
  shows "dict_get (d @ [(k, v)]) k = Some v" and "dict_set k w (d @ [(k, v)]) = d @ [(k, w)]"
  using assms by (induction d) (auto simp: dict_get_def dict_set_def dict_keys_def)

lemma ack_lines_items:
  assumes "list_all ack_item its" and "k \<noteq> []" and "k \<notin> set (dict_keys fs)"
  shows "fold ack_line (map bullet_line its) (k, fs @ [(k, ls)]) = (k, fs @ [(k, ls @ map bullet_line its)])"
  using assms(1)
proof (induction its arbitrary: ls)
  case (Cons it its)
  have "ack_line (bullet_line it) (k, fs @ [(k, ls)]) = (k, fs @ [(k, ls @ [bullet_line it])])"
    using Cons.prems assms(2) item_no_field [of it] item_continues [of it] item_ends [of it]
      dict_last [OF assms(3)]
    by (simp add: ack_line_def)
  with Cons show ?case by simp
qed simp

text \<open>A field with its lines, and its value as the code stores it.\<close>

type_synonym ack_entry = "string \<times> string \<times> (string \<times> string) list"

definition entry_ok :: "ack_entry \<Rightarrow> bool" where
  "entry_ok = (\<lambda>(k, v, its). ack_key k \<and> ack_value v \<and> list_all ack_item its)"

definition ack_entry_lines :: "ack_entry \<Rightarrow> string list" where
  "ack_entry_lines = (\<lambda>(k, v, its). head_line k v # map bullet_line its)"

definition entry_field :: "ack_entry \<Rightarrow> string \<times> string" where
  "entry_field = (\<lambda>(k, v, its). (k, join_with [line_feed] ((if v = [] then [] else [v]) @ map bullet_line its)))"

lemma ack_lines_fields:
  assumes "list_all entry_ok kvs" and "distinct (map fst kvs)" and "set (map fst kvs) \<inter> set (dict_keys fs) = {}"
  shows "snd (fold ack_line (concat (map ack_entry_lines kvs)) (current, fs)) =
    fs @ map (\<lambda>(k, v, its). (k, v # map bullet_line its)) kvs"
  using assms
proof (induction kvs arbitrary: current fs)
  case (Cons kv kvs)
  obtain k v its where kv: "kv = (k, v, its)" by (cases kv)
  have ok: "ack_key k" "ack_value v" "list_all ack_item its" and new: "k \<notin> set (dict_keys fs)"
    using Cons.prems unfolding kv by (auto simp: entry_ok_def)
  from ok(1) have "k \<noteq> []" by (simp add: ack_key_def)
  then have entry: "fold ack_line (ack_entry_lines kv) (current, fs) = (k, fs @ [(k, v # map bullet_line its)])"
    using ack_line_field [OF ok(1,2)] ack_lines_items [OF ok(3) _ new, of "[v]"] new
    by (simp add: kv ack_entry_lines_def dict_set_new)
  have "snd (fold ack_line (concat (map ack_entry_lines kvs)) (k, fs @ [(k, v # map bullet_line its)])) =
      (fs @ [(k, v # map bullet_line its)]) @ map (\<lambda>(k, v, its). (k, v # map bullet_line its)) kvs"
    using Cons.prems unfolding kv by (intro Cons.IH) (auto simp: dict_keys_def)
  with entry show ?case by (simp add: kv)
qed simp

subsection \<open>Reading a whole block\<close>

lemma split_lines_run:
  "\<forall>c \<in> set l. \<not> is_line_break c \<Longrightarrow> split_lines_acc acc (l @ rest) = split_lines_acc (rev l @ acc) rest"
proof (induction l arbitrary: acc)
  case (Cons c l)
  then have "\<not> is_line_break c" by simp
  moreover from this have "c \<noteq> CHR 0x0D" by (auto simp: is_line_break_def)
  ultimately show ?case using Cons by simp
qed simp

lemma split_lines_lines:
  assumes "\<forall>l \<in> set ls. l \<noteq> [] \<and> (\<forall>c \<in> set l. \<not> is_line_break c)"
  shows "split_lines_acc acc (concat (map (\<lambda>l. line_feed # l) ls)) = (if acc = [] \<and> ls = [] then [] else rev acc # ls)"
  using assms
proof (induction ls arbitrary: acc)
  case (Cons l ls)
  have "line_feed \<noteq> CHR 0x0D" "is_line_break line_feed" by (simp_all add: line_feed_def is_line_break_def)
  then have "split_lines_acc acc (concat (map (\<lambda>l. line_feed # l) (l # ls))) =
      rev acc # split_lines_acc [] (l @ concat (map (\<lambda>l. line_feed # l) ls))" by simp
  also have "split_lines_acc [] (l @ concat (map (\<lambda>l. line_feed # l) ls)) = l # ls"
    using Cons by (simp add: split_lines_run)
  finally show ?case by simp
qed simp

lemma marker_first:
  "first_match (re_ilit ''[JOB ACK]'') (pre, ''[JOB ACK]'' @ rest, caps) (rev ''[JOB ACK]'' @ pre, rest, caps)"
  by (simp add: first_match_def re_ilit_def)

lemma lower_bracket: "lower_char c = CHR ''['' \<longleftrightarrow> c = CHR ''[''"
proof -
  have "lower_char (CHR ''['') = CHR ''[''" by (simp add: lower_char_def)
  moreover have "c = CHR ''[''" if "lower_char c = CHR ''[''"
  proof (rule ccontr)
    assume "c \<noteq> CHR ''[''"
    with that obtain n :: nat where "n \<le> 90" "65 \<le> n" "char_of (n + 32) = CHR ''[''"
      by (auto simp: lower_char_def Let_def split: if_splits)
    then have "of_char (char_of (n + 32) :: char) = (91 :: nat)" by simp
    with \<open>n \<le> 90\<close> \<open>65 \<le> n\<close> show False by (simp add: of_char_of)
  qed
  ultimately show ?thesis by blast
qed

lemma marker_skip: "c \<noteq> CHR ''['' \<Longrightarrow> re_match_at ACK_RE pre (c # cs) = None"
proof -
  assume "c \<noteq> CHR ''[''"
  moreover have "lower_char (CHR ''['') = CHR ''[''" using lower_bracket by blast
  ultimately have "\<not> in_class (CFold (CHR ''['')) c" using lower_bracket [of c] by simp
  then show ?thesis by (simp add: re_match_at_def ACK_RE_def re_ilit_def del: in_class.simps)
qed

lemma marker_found: "re_match_at ACK_RE pre (''[JOB ACK]'' @ rest) = Some (rev rest @ rev ''[JOB ACK]'' @ pre, [], [(1, rest)])"
proof -
  have "first_match (RGroup 1 (re_many re_any)) (rev ''[JOB ACK]'' @ pre, rest, []) (rev rest @ rev ''[JOB ACK]'' @ pre, [], [(1, rest)])"
    using first_group [OF first_run [of rest CAny "[]"]] unfolding re_any_def by fastforce
  from first_seq [OF marker_first this] show ?thesis
    unfolding ACK_RE_def first_match_def re_match_at_def by auto
qed

lemma marker_search:
  "CHR ''['' \<notin> set pre \<Longrightarrow> \<exists>m. re_search_from ACK_RE before (pre @ ''[JOB ACK]'' @ rest) = Some m \<and> group 1 m = rest"
proof (induction pre arbitrary: before)
  case Nil
  have "re_search_from ACK_RE before (c # cs) = Some (match_of (c # cs) t)"
    if "re_match_at ACK_RE before (c # cs) = Some t" for c cs t using that by simp
  from this [of _ _, OF marker_found [simplified]] show ?case by (simp add: match_of_def group_def)
next
  case (Cons c pre)
  have "re_match_at ACK_RE before (c # (pre @ ''[JOB ACK]'' @ rest)) = None"
    using Cons.prems by (intro marker_skip) auto
  then have "re_search_from ACK_RE before ((c # pre) @ ''[JOB ACK]'' @ rest) =
      re_search_from ACK_RE (c # before) (pre @ ''[JOB ACK]'' @ rest)"
    by (simp only: append_Cons re_search_from.simps option.case)
  with Cons show ?case by (metis list.set_intros(2))
qed

lemma entry_line_plain:
  assumes "entry_ok kv" and "l \<in> set (ack_entry_lines kv)"
  shows "l \<noteq> [] \<and> (\<forall>c \<in> set l. \<not> is_line_break c)"
proof -
  obtain k v its where kv: "kv = (k, v, its)" by (cases kv)
  have val: "\<not> is_line_break c" if "ack_value w" "c \<in> set w" for w c using that by (simp add: ack_value_def)
  have key: "\<not> is_line_break c" if "ack_key k" "c \<in> set k" for c
    using that by (fastforce simp: ack_key_def is_line_break_def is_word_def is_alnum_def is_alpha_def is_digit_def Let_def)
  have mark: "\<not> is_line_break c" if "ack_mark m" "c \<in> set m" for m c
  proof (rule ack_mark_cases [OF that(1)])
    fix x assume "m = [x]" "x \<in> set ''-*+''"
    with that(2) show ?thesis by (auto simp: is_line_break_def Let_def)
  next
    fix d ds x assume "m = d # ds @ [x]" "\<forall>y \<in> set (d # ds). is_digit y" "x \<in> set ''.)''"
    with that(2) show ?thesis by (auto simp: is_line_break_def is_digit_def Let_def)
  qed
  have sep: "\<not> is_line_break (CHR '':'')" "\<not> is_line_break (CHR '' '')" by (code_simp, code_simp)
  from assms(2) consider "l = head_line k v" | m w where "(m, w) \<in> set its" "l = bullet_line (m, w)"
    unfolding kv by (auto simp: ack_entry_lines_def)
  then show ?thesis
  proof cases
    case 1
    moreover have "c = CHR '':'' \<or> c = CHR '' '' \<or> c \<in> set k \<or> c \<in> set v" if "c \<in> set (head_line k v)" for c
      using that by (auto simp: head_line_def split: if_splits)
    ultimately show ?thesis using assms(1) sep key val [of v] unfolding kv
      by (fastforce simp: entry_ok_def head_line_def)
  next
    case 2
    with assms(1) have "ack_item (m, w)" unfolding kv by (auto simp: entry_ok_def list_all_iff)
    with 2(2) show ?thesis using sep mark [of m] val [of w] by (auto simp: ack_item_def bullet_line_def)
  qed
qed

definition print_ack :: "ack_entry list \<Rightarrow> string" where
  "print_ack kvs = ''[JOB ACK]'' @ concat (map (\<lambda>l. line_feed # l) (concat (map ack_entry_lines kvs)))"

lemma join_ends:
  assumes "xs \<noteq> []" and "\<And>x. x \<in> set xs \<Longrightarrow> x \<noteq> [] \<and> \<not> is_space (hd x) \<and> \<not> is_space (last x)"
  shows "join_with sep xs \<noteq> [] \<and> \<not> is_space (hd (join_with sep xs)) \<and> \<not> is_space (last (join_with sep xs))"
  using assms
proof (induction xs rule: induct_list012)
  case (3 x y zs)
  from "3.prems"(2) [of x] have x: "x \<noteq> [] \<and> \<not> is_space (hd x)" by simp
  from "3.IH"(2) "3.prems"(2) have "join_with sep (y # zs) \<noteq> [] \<and> \<not> is_space (last (join_with sep (y # zs)))" by simp
  with x show ?case by simp
qed auto

lemma entry_value:
  assumes "entry_ok (k, v, its)"
  shows "(k, py_strip (join_with [line_feed] (v # map bullet_line its))) = entry_field (k, v, its)"
proof -
  let ?ls = "(if v = [] then [] else [v]) @ map bullet_line its"
  have v: "ack_value v" and its: "list_all ack_item its" using assms by (auto simp: entry_ok_def)
  have blank: "is_space line_feed" by code_simp
  have drop: "py_strip (line_feed # s) = py_strip s" for s using blank by (simp add: py_strip_def)
  have ends: "x \<noteq> [] \<and> \<not> is_space (hd x) \<and> \<not> is_space (last x)" if "x \<in> set ?ls" for x
    using that its item_ends v stripped_ends [of v] by (auto simp: ack_value_def list_all_iff split: if_splits)
  have strip: "py_strip (join_with [line_feed] ?ls) = join_with [line_feed] ?ls"
  proof (cases "?ls = []")
    case False
    from join_ends [OF this ends] show ?thesis by (intro strip_ends) auto
  qed (simp add: py_strip_def)
  have "py_strip (join_with [line_feed] (v # map bullet_line its)) = py_strip (join_with [line_feed] ?ls)"
    by (cases its) (auto simp: drop)
  with strip show ?thesis by (simp add: entry_field_def)
qed

text \<open>
  C17: an acknowledgement in the format of the dispatch prompt is read back. After any text without
  an opening bracket, a block of distinct lower-case fields, each with a stripped value on its line
  (or none, as for a list of artifacts) and any number of bulleted or numbered lines below it, gives
  exactly its fields in their order, the lines of a list kept and joined by line feeds.
\<close>

theorem ack_block_roundtrip:
  assumes "list_all entry_ok kvs" and "distinct (map fst kvs)" and "CHR ''['' \<notin> set pre"
  shows "parse_ack_block (pre @ print_ack kvs) = Inr (map entry_field kvs)"
proof -
  let ?lines = "concat (map ack_entry_lines kvs)"
  let ?body = "concat (map (\<lambda>l. line_feed # l) ?lines)"
  obtain m where m: "re_search ACK_RE (pre @ print_ack kvs) = Some m" "group 1 m = ?body"
    using marker_search [OF assms(3), of "[]" ?body] by (auto simp: print_ack_def re_search_def)
  have "\<forall>l \<in> set ?lines. l \<noteq> [] \<and> (\<forall>c \<in> set l. \<not> is_line_break c)"
    using assms(1) entry_line_plain by (fastforce simp: list_all_iff)
  from split_lines_lines [OF this, of "[]"]
  have split: "py_splitlines ?body = (if ?lines = [] then [] else [] # ?lines)" by (simp add: py_splitlines_def)
  have empty: "ack_line [] ([], []) = ([], [])" by code_simp
  have lines_none: "?lines = [] \<Longrightarrow> kvs = []" by (cases kvs) (auto simp: ack_entry_lines_def)
  have "snd (fold ack_line (py_splitlines ?body) ([], [])) = map (\<lambda>(k, v, its). (k, v # map bullet_line its)) kvs"
    unfolding split using ack_lines_fields [OF assms(1,2), of "[]"] empty lines_none
    by (auto simp: dict_keys_def)
  moreover have "map (\<lambda>(k, v). (k, py_strip (join_with [line_feed] v)))
      (map (\<lambda>(k, v, its). (k, v # map bullet_line its)) kvs) = map entry_field kvs"
    using assms(1) entry_value by (auto simp: list_all_iff)
  ultimately show ?thesis unfolding parse_ack_block_def m(1) option.case m(2) by (simp only:)
qed

theorem ack_block_roundtrip_witness:
  "parse_ack_block (''done'' @ print_ack [(''job_id'', ''job_1'', []), (''artifacts'', [], [(''-'', ''a.py''), (''2.'', ''b: 3'')])]) =
     Inr [(''job_id'', ''job_1''), (''artifacts'', ''- a.py'' @ line_feed # ''2. b: 3'')]"
proof -
  let ?kvs = "[(''job_id'', ''job_1'', []), (''artifacts'', [], [(''-'', ''a.py''), (''2.'', ''b: 3'')])]"
  have "entry_ok (''job_id'', ''job_1'', [])" "entry_ok (''artifacts'', [], [(''-'', ''a.py''), (''2.'', ''b: 3'')])"
    by (code_simp, code_simp)
  then have "list_all entry_ok ?kvs" by simp
  from ack_block_roundtrip [OF this, of "''done''"] show ?thesis by (simp add: entry_field_def bullet_line_def)
qed

text \<open>
  an acknowledgement that reaches the ledger is valid. The ingest command hands over only a
  block with a job id and a status other than dispatched; every other block changes no job, and is
  dead-lettered exactly when it names a job with a status that is not one of the protocol.
\<close>

theorem ingest_ack_guards:
  assumes "parse_ack_block text = Inr fs" and "run_state (ingest_ack h text) s = (res, t)"
    and "normalize_status (ack_field fs ''status'') \<in> {None, Some DISPATCHED} \<or> ack_field fs ''job_id'' = []"
  shows "jobs (jdb t) = jobs (jdb s) \<and> job_events (jdb t) = job_events (jdb s) \<and>
    (\<exists>reason. res = Ack_Error reason) \<and>
    length (rows (deadletters (jdb t))) = length (rows (deadletters (jdb s))) +
      (if ack_field fs ''job_id'' \<noteq> [] \<and> ack_field fs ''status'' \<noteq> [] then 1 else 0)"
  using assms
  by (auto simp: ingest_ack_def validate_ack_def invalid_status_error_def deadletter_def add_deadletter_def
      dict_get_def Let_def split: if_splits)

theorem ingest_ack_guards_witness:
  "\<exists>res t. run_state (ingest_ack id (''x'' @ print_ack [(''job_id'', ''job_1'', []), (''status'', ''dispatched'', [])]))
      \<lparr>jdb = empty_job_store, outside = (), jclk = (\<lambda>_. 1), jreadings = 0\<rparr> = (res, t) \<and> jobs (jdb t) = []"
proof -
  let ?s = "\<lparr>jdb = empty_job_store, outside = (), jclk = (\<lambda>_. 1), jreadings = 0\<rparr>"
  let ?fs = "[(''job_id'', ''job_1''), (''status'', ''dispatched'')]"
  let ?ls = "[(''job_id'', ''job_1'', []), (''status'', ''dispatched'', [])]"
  obtain res t where r: "run_state (ingest_ack id (''x'' @ print_ack ?ls)) ?s = (res, t)"
    by (cases "run_state (ingest_ack id (''x'' @ print_ack ?ls)) ?s")
  have p: "parse_ack_block (''x'' @ print_ack ?ls) = Inr ?fs" by code_simp
  have "normalize_status (ack_field ?fs ''status'') \<in> {None, Some DISPATCHED} \<or> ack_field ?fs ''job_id'' = []"
    by code_simp
  from ingest_ack_guards [OF p r this] r show ?thesis by (auto simp: empty_job_store_def)
qed

end
