(* ===== verification/Graph_Intents.thy ===== *)
theory Graph_Intents
  imports Verdicts
begin

text \<open>
  Graph intents (\<open>graph_creator.py\<close>): the candidates for board tasks, the fail-closed policy that
  gates their creation, the request-only proposal of a remediation graph with its storm guards, the
  supersession of a stale final card, and the two in-memory adapters.

  An adapter is a record of its two operations over its own state. The adapters of the code catch
  every exception, so the operations are total here.
\<close>

subsection \<open>Intents\<close>

record graph_intent =
  gi_kind :: string
  gi_blocker :: string
  gi_title :: string
  gi_key :: string
  gi_origin :: string
  gi_return_to :: string
  gi_policy_refs :: "string list"
  gi_subscription_required :: bool
  gi_supersedes :: string
  gi_metadata :: "json dict"
  gi_body :: string
  gi_parent_key :: string

definition intent_dict :: "(string \<Rightarrow> string) \<Rightarrow> graph_intent \<Rightarrow> json dict" where
  "intent_dict h i = safe_event_payload h
     [(''kind'', JStr (gi_kind i)), (''blocker'', JStr (gi_blocker i)), (''title'', JStr (gi_title i)),
      (''idempotency_key'', JStr (gi_key i)), (''origin'', JStr (gi_origin i)),
      (''return_to'', JStr (gi_return_to i)), (''policy_refs'', JArr (map JStr (gi_policy_refs i))),
      (''subscription_required'', JBool (gi_subscription_required i)),
      (''supersedes'', JStr (gi_supersedes i)), (''parent_key'', JStr (gi_parent_key i)),
      (''body'', JStr (gi_body i)),
      (''metadata'', JObj (dict_set ''request_only'' (JBool True)
         (dict_set ''dry_run_only'' (JBool True) (gi_metadata i)))),
      (''mutations'', JArr [])]"

definition BLOCKER_POLICY_REFS :: "string list dict" where
  "BLOCKER_POLICY_REFS =
     [(''stale_inline_route'', [''design_opus'', ''implementation_default'']),
      (''stale_trust_grant_wording'', []),
      (''missing_subscription'', [''implementation_default'']),
      (''stale_final_fanin'', [''design_opus'', ''implementation_default''])]"

definition blocker_refs :: "string \<Rightarrow> string list" where
  "blocker_refs b = (case dict_get BLOCKER_POLICY_REFS b of None \<Rightarrow> [] | Some rs \<Rightarrow> rs)"

definition policy_ref_body :: "string list \<Rightarrow> string" where
  "policy_ref_body refs =
     (if refs = [] then []
      else join_with line_feed_text ([''Policy refs:''] @ map (\<lambda>r. ''- policy:model.'' @ r) refs @
        [''Resolved preview: informational, non-binding, redacted.'',
         ''Workers must resolve PolicyRef values at run time.'']))"

definition resolved_preview :: json where
  "resolved_preview = JObj [(''binding'', JBool False), (''redacted'', JBool True)]"

subsection \<open>The policy\<close>

record graph_policy =
  gp_apply_enabled :: bool
  gp_active_mode :: string
  gp_kill_switch :: bool
  gp_allowlisted_blockers :: "string list"
  gp_max_per_source :: int
  gp_max_per_class :: int
  gp_max_auto_creates :: int

definition default_graph_policy :: graph_policy where
  "default_graph_policy = \<lparr>gp_apply_enabled = False, gp_active_mode = ''request_only'', gp_kill_switch = False,
     gp_allowlisted_blockers = [], gp_max_per_source = 3, gp_max_per_class = 2, gp_max_auto_creates = 5\<rparr>"

definition FAIL_CLOSED_POLICY :: graph_policy where
  "FAIL_CLOSED_POLICY = default_graph_policy\<lparr>gp_kill_switch := True\<rparr>"

text \<open>\<open>Policy_Wrong_Type\<close>: not a policy, or one with a field of another type.\<close>

datatype graph_policy_arg = Policy_None | Policy_Wrong_Type | Policy_Given graph_policy

definition coerce_graph_policy :: "graph_policy_arg \<Rightarrow> graph_policy" where
  "coerce_graph_policy a =
     (case a of
        Policy_None \<Rightarrow> default_graph_policy
      | Policy_Wrong_Type \<Rightarrow> FAIL_CLOSED_POLICY
      | Policy_Given p \<Rightarrow>
          if gp_active_mode p \<notin> {''request_only'', ''observe_only'', ''apply''} then FAIL_CLOSED_POLICY
          else if gp_max_per_source p < 0 \<or> gp_max_per_class p < 0 \<or> gp_max_auto_creates p < 0
            then FAIL_CLOSED_POLICY
          else p)"

definition is_apply_gated :: "graph_policy \<Rightarrow> string \<Rightarrow> bool" where
  "is_apply_gated p blocker \<longleftrightarrow> gp_apply_enabled p \<and> gp_active_mode p = ''apply'' \<and> \<not> gp_kill_switch p \<and>
     blocker \<noteq> [] \<and> blocker \<in> set (gp_allowlisted_blockers p) \<and> 0 < gp_max_auto_creates p"

subsection \<open>Adapters\<close>

record 'w graph_adapter =
  ga_create :: "graph_intent \<Rightarrow> 'w \<Rightarrow> json dict \<times> 'w"
  ga_existing :: "string \<Rightarrow> 'w \<Rightarrow> json dict list"

text \<open>A proposal under a key or under a key that extends it.\<close>

definition key_or_extension :: "string \<Rightarrow> json dict \<Rightarrow> bool" where
  "key_or_extension key p \<longleftrightarrow> dict_get p ''idempotency_key'' = Some (JStr key) \<or>
     starts_with (key @ '':'') (get_str p ''idempotency_key'')"

definition existing_proposals :: "string \<Rightarrow> json dict list \<Rightarrow> json dict list" where
  "existing_proposals key ps = filter (key_or_extension key) ps"

record noop_board =
  nb_existing :: "json dict list"
  nb_created :: "graph_intent list"

definition noop_create :: "bool \<Rightarrow> graph_intent \<Rightarrow> noop_board \<Rightarrow> json dict \<times> noop_board" where
  "noop_create apply_enabled i b =
     (if \<not> apply_enabled then
        ([(''success'', JBool False), (''error'', JStr ''adapter_apply_disabled''), (''mutations'', JArr [])], b)
      else ([(''success'', JBool True), (''action'', JStr ''adapter_noop''),
             (''idempotency_key'', JStr (gi_key i)), (''mutations'', JArr [])],
            b\<lparr>nb_created := nb_created b @ [i]\<rparr>))"

definition kanban_graph_adapter :: "bool \<Rightarrow> noop_board graph_adapter" where
  "kanban_graph_adapter apply_enabled =
     \<lparr>ga_create = noop_create apply_enabled, ga_existing = (\<lambda>key b. existing_proposals key (nb_existing b))\<rparr>"

record fake_graph_board =
  fb_calls :: "graph_intent list"
  fb_tasks :: "json dict list"
  fb_links :: "(string \<times> string) list"
  fb_subscriptions :: "(string \<times> string) list"
  fb_proposals :: "json dict list"

definition empty_fake_graph_board :: fake_graph_board where
  "empty_fake_graph_board = \<lparr>fb_calls = [], fb_tasks = [], fb_links = [], fb_subscriptions = [], fb_proposals = []\<rparr>"

definition metadata_or_empty :: "graph_intent \<Rightarrow> string \<Rightarrow> json" where
  "metadata_or_empty i key = (case dict_get (gi_metadata i) key of None \<Rightarrow> JStr [] | Some v \<Rightarrow> v)"

definition fake_graph_task_id :: "(string \<Rightarrow> string) \<Rightarrow> string \<Rightarrow> string" where
  "fake_graph_task_id h key = ''task:'' @ take 12 (h key)"

definition fake_task :: "(string \<Rightarrow> string) \<Rightarrow> graph_intent \<Rightarrow> json dict" where
  "fake_task h i =
     [(''task_id'', JStr (fake_graph_task_id h (gi_key i))), (''idempotency_key'', JStr (gi_key i)),
      (''blocker'', JStr (gi_blocker i)), (''kind'', JStr (gi_kind i)), (''origin'', JStr (gi_origin i)),
      (''return_to'', JStr (gi_return_to i)), (''assignee'', metadata_or_empty i ''assignee''),
      (''acceptance_criteria'', metadata_or_empty i ''acceptance_criteria''),
      (''ack_trigger_agent'', metadata_or_empty i ''ack_trigger_agent''),
      (''subscription_required'', JBool (gi_subscription_required i)),
      (''notify_subscribe_required'', JBool (gi_subscription_required i)),
      (''supersedes'', JStr (gi_supersedes i))]"

definition fake_create :: "(string \<Rightarrow> string) \<Rightarrow> graph_intent \<Rightarrow> fake_graph_board \<Rightarrow> json dict \<times> fake_graph_board" where
  "fake_create h i b =
     (let task = fake_graph_task_id h (gi_key i) in
      ([(''success'', JBool True), (''action'', JStr ''fake_noop''), (''task_id'', JStr task),
        (''idempotency_key'', JStr (gi_key i)), (''mutations'', JArr [])],
       \<lparr>fb_calls = fb_calls b @ [i], fb_tasks = fb_tasks b @ [fake_task h i],
        fb_links = fb_links b @ (if gi_parent_key i \<noteq> [] then [(gi_parent_key i, gi_key i)] else []),
        fb_subscriptions = fb_subscriptions b @
          (if gi_subscription_required i then [(gi_key i, gi_return_to i)] else []),
        fb_proposals = fb_proposals b @ [[(''task_id'', JStr task), (''idempotency_key'', JStr (gi_key i)),
          (''blocker'', JStr (gi_blocker i)), (''kind'', JStr (gi_kind i))]]\<rparr>))"

definition fake_graph_adapter :: "(string \<Rightarrow> string) \<Rightarrow> fake_graph_board graph_adapter" where
  "fake_graph_adapter h = \<lparr>ga_create = fake_create h, ga_existing = (\<lambda>key b. existing_proposals key (fb_proposals b))\<rparr>"

subsection \<open>The remediation graph\<close>

datatype graph_candidate =
    Noop_Candidate string string string
  | Intent_Candidate graph_intent

record 'w storm =
  sm_candidates :: "graph_candidate list"
  sm_class_count :: "string \<Rightarrow> nat"
  sm_source_count :: nat
  sm_attempts :: nat
  sm_board :: 'w

definition safe_src_ref :: "(string \<Rightarrow> string) \<Rightarrow> string \<Rightarrow> string" where
  "safe_src_ref h s = (if s = [] then [] else fst (safe_durable_ref h [] s))"

definition sub_dict :: "json dict \<Rightarrow> string \<Rightarrow> json dict" where
  "sub_dict d key = (case dict_get d key of Some (JObj m) \<Rightarrow> m | _ \<Rightarrow> [])"

definition prior_class_count :: "json dict list \<Rightarrow> string \<Rightarrow> nat" where
  "prior_class_count prior b =
     length (filter (\<lambda>p. b \<noteq> [] \<and> dict_get p ''blocker'' = Some (JStr b)) prior)"

definition prior_source_count :: "json dict list \<Rightarrow> string \<Rightarrow> nat" where
  "prior_source_count prior src =
     length (filter (\<lambda>p. src \<noteq> [] \<and> dict_get (sub_dict p ''metadata'') ''source_ref_safe'' = Some (JStr src)) prior)"

definition add_noop :: "string \<Rightarrow> string \<Rightarrow> string \<Rightarrow> 'w storm \<Rightarrow> 'w storm" where
  "add_noop key blocker reason st =
     st\<lparr>sm_candidates := sm_candidates st @ [Noop_Candidate key blocker reason]\<rparr>"

definition mk_remediation_intent ::
    "json dict \<Rightarrow> string \<Rightarrow> string \<Rightarrow> string \<Rightarrow> string \<Rightarrow> string \<Rightarrow> graph_intent" where
  "mk_remediation_intent prop src origin return_to prev kind =
     (let blocker = get_str prop ''blocker''; base = get_str prop ''idempotency_key'' in
      \<lparr>gi_kind = kind, gi_blocker = blocker,
       gi_title = (case dict_get prop ''title'' of None \<Rightarrow> blocker | Some v \<Rightarrow> py_str v) @ '' ['' @ kind @ '']'',
       gi_key = base @ '':'' @ kind, gi_origin = short_text 240 (str_or origin ''remediation''),
       gi_return_to = short_text 240 (str_or return_to origin), gi_policy_refs = blocker_refs blocker,
       gi_subscription_required = True, gi_supersedes = [],
       gi_metadata = [(''base_idempotency_key'', JStr base), (''source_ref_safe'', JStr src),
         (''action'', JStr (get_str prop ''action'')), (''resolved_preview'', resolved_preview)],
       gi_body = policy_ref_body (blocker_refs blocker), gi_parent_key = prev\<rparr>)"

text \<open>One kind of the sequence of a proposal; \<open>prev\<close> is the key of the task before it.\<close>

fun propose_kinds ::
    "'w graph_adapter option \<Rightarrow> graph_policy \<Rightarrow> json dict \<Rightarrow> string \<Rightarrow> string \<Rightarrow> string \<Rightarrow> string list \<Rightarrow> string \<Rightarrow>
       'w storm \<Rightarrow> 'w storm" where
  "propose_kinds adapter p prop src origin return_to [] prev st = st"
| "propose_kinds adapter p prop src origin return_to (kind # kinds) prev st =
     (let blocker = get_str prop ''blocker'';
          i = mk_remediation_intent prop src origin return_to prev kind;
          gated = (adapter \<noteq> None \<and> is_apply_gated p blocker)
      in if gp_max_per_class p \<le> int (sm_class_count st blocker) then
           propose_kinds adapter p prop src origin return_to kinds prev
             (add_noop (gi_key i) blocker ''max_proposals_per_blocker_class'' st)
         else if src \<noteq> [] \<and> gp_max_per_source p \<le> int (sm_source_count st) then
           propose_kinds adapter p prop src origin return_to kinds prev
             (add_noop (gi_key i) blocker ''max_proposals_per_source'' st)
         else if gated \<and> gp_max_auto_creates p \<le> int (sm_attempts st) then
           propose_kinds adapter p prop src origin return_to kinds prev
             (add_noop (gi_key i) blocker ''max_auto_creates_per_run'' st)
         else
           propose_kinds adapter p prop src origin return_to kinds (gi_key i)
             (st\<lparr>sm_candidates := sm_candidates st @ [Intent_Candidate i],
                sm_class_count := (sm_class_count st)(blocker := sm_class_count st blocker + 1),
                sm_source_count := sm_source_count st + (if src \<noteq> [] then 1 else 0),
                sm_attempts := sm_attempts st + (if gated then 1 else 0),
                sm_board := (if gated then snd (ga_create (the adapter) i (sm_board st)) else sm_board st)\<rparr>))"

definition proposal_sequence :: "json dict \<Rightarrow> string list" where
  "proposal_sequence prop =
     (case dict_get (sub_dict prop ''metadata'') ''candidate_sequence'' of
        Some (JArr xs) \<Rightarrow> if xs = [] then [''fix'', ''review'', ''final-vN''] else map py_str xs
      | _ \<Rightarrow> [''fix'', ''review'', ''final-vN''])"

definition propose_one ::
    "'w graph_adapter option \<Rightarrow> graph_policy \<Rightarrow> json dict list \<Rightarrow> string \<Rightarrow> string \<Rightarrow> string \<Rightarrow> json dict \<Rightarrow>
       'w storm \<Rightarrow> 'w storm" where
  "propose_one adapter p prior src origin return_to prop st =
     (let base = get_str prop ''idempotency_key''; blocker = get_str prop ''blocker'';
          known = (case adapter of None \<Rightarrow> [] | Some a \<Rightarrow> ga_existing a base (sm_board st))
      in if known \<noteq> [] \<or> existing_proposals base prior \<noteq> [] then add_noop base blocker ''existing_proposal'' st
         else propose_kinds adapter p prop src origin return_to (proposal_sequence prop) [] st)"

datatype 'w graph_result =
    Graph_Refused string 'w
  | Graph_Proposed "graph_candidate list" nat 'w

text \<open>\<open>Inl\<close> is the \<open>KeyError\<close> of the remediation plan.\<close>

definition propose_remediation_graph ::
    "(string \<Rightarrow> string) \<Rightarrow> string \<Rightarrow> string \<Rightarrow> string \<Rightarrow> string \<Rightarrow> json dict list \<Rightarrow> graph_policy_arg \<Rightarrow>
       'w graph_adapter option \<Rightarrow> 'w \<Rightarrow> py_error + 'w graph_result" where
  "propose_remediation_graph h summary source_ref origin return_to prior policy adapter w =
     (let p = coerce_graph_policy policy; src = safe_src_ref h source_ref in
      case plan_remediation h summary source_ref [] True of
        Inl e \<Rightarrow> Inl e
      | Inr (Remediation_Refused e _) \<Rightarrow> Inr (Graph_Refused e w)
      | Inr (Remediation_Proposed _ ps) \<Rightarrow>
          (let st = fold (propose_one adapter p prior src origin return_to) (map (proposal_dict h) ps)
             \<lparr>sm_candidates = [], sm_class_count = prior_class_count prior,
              sm_source_count = prior_source_count prior src, sm_attempts = 0, sm_board = w\<rparr>
           in Inr (Graph_Proposed (sm_candidates st) (sm_attempts st) (sm_board st))))"

definition apply_remediation_graph ::
    "graph_intent \<Rightarrow> graph_policy_arg \<Rightarrow> 'w graph_adapter option \<Rightarrow> 'w \<Rightarrow> json dict \<times> 'w" where
  "apply_remediation_graph i policy adapter w =
     (if \<not> is_apply_gated (coerce_graph_policy policy) (gi_blocker i) then
        ([(''success'', JBool False), (''error'', JStr ''apply_disabled_by_policy''), (''mutations'', JArr [])], w)
      else case adapter of
        None \<Rightarrow> ([(''success'', JBool False), (''error'', JStr ''no_adapter_provided''), (''mutations'', JArr [])], w)
      | Some a \<Rightarrow> ga_create a i w)"

subsection \<open>Stale final cards\<close>

definition GO_VERDICT_RE :: regex where
  "GO_VERDICT_RE = re_seq [RBound, re_ilit ''verdict'', re_spaces, re_lit '':'', re_spaces, re_ilit ''go'', RBound]"

definition final_v2_intent ::
    "(string \<Rightarrow> string) \<Rightarrow> string \<Rightarrow> string \<Rightarrow> string \<Rightarrow> string \<Rightarrow> graph_intent" where
  "final_v2_intent h old_id old_status origin return_to =
     (let safe_old = fst (safe_durable_ref h [] (str_or old_id ''stale_final''));
          refs = blocker_refs ''stale_final_fanin'' in
      \<lparr>gi_kind = ''final-v2'', gi_blocker = ''stale_final_fanin'',
       gi_title = ''final-v2 supersession for '' @ short_text 40 (str_or old_id ''unknown''),
       gi_key = ''remediation:stale_final_fanin:final-v2:'' @ take 16 (h (''final-v2:'' @ safe_old)),
       gi_origin = short_text 240 (str_or origin ''remediation''),
       gi_return_to = short_text 240 (str_or return_to origin), gi_policy_refs = refs,
       gi_subscription_required = True, gi_supersedes = safe_old,
       gi_metadata = [(''supersedes_final'', JStr safe_old), (''old_final_status'', JStr old_status),
         (''resolved_preview'', resolved_preview)],
       gi_body = policy_ref_body refs, gi_parent_key = []\<rparr>)"

datatype final_result =
    Final_Refused string
  | Final_Proposed graph_intent nat

definition review_text :: "json dict \<Rightarrow> string" where
  "review_text review = join_with '' '' (map (get_str review) [''title'', ''body'', ''summary'', ''result''])"

definition resolve_stale_final_candidate ::
    "(string \<Rightarrow> string) \<Rightarrow> json dict \<Rightarrow> json dict \<Rightarrow> string \<Rightarrow> string \<Rightarrow> graph_policy_arg \<Rightarrow>
       'w graph_adapter option \<Rightarrow> 'w \<Rightarrow> final_result \<times> 'w" where
  "resolve_stale_final_candidate h old_card review_card origin return_to policy adapter w =
     (let status = py_lower (get_str old_card ''status'') in
      if status \<notin> {''done'', ''completed'', ''blocked'', ''block''} then (Final_Refused ''old_final_not_done_or_blocked'', w)
      else if \<not> re_test GO_VERDICT_RE (review_text review_card)
        then (Final_Refused ''remediation_review_no_go_verdict'', w)
      else
        (let i = final_v2_intent h (get_str old_card ''id'') status origin return_to in
         if adapter \<noteq> None \<and> is_apply_gated (coerce_graph_policy policy) ''stale_final_fanin''
         then (Final_Proposed i 1, snd (ga_create (the adapter) i w))
         else (Final_Proposed i 0, w)))"

end
