(* ===== verification/Graph_Cli.thy ===== *)
theory Graph_Cli
  imports Graph_Intents Tables Values
begin

text \<open>
  The armed adapter of \<open>graph_creator.py\<close>: the endpoint grammar, the command lines it builds, the
  steps of \<open>create_graph\<close> (create the task, subscribe its endpoint, repair the acknowledgement rows
  of the board) and the repair itself on the board's tables.

  The command-line runner (\<open>None\<close> is an exception), the JSON parser (\<open>None\<close> is a parse error) and the
  location of the board file are parameters. A statement on the board file can fail in SQLite for
  reasons outside the program; that the repair then reports \<open>ack_ensure_failed\<close> is not modelled.
\<close>

subsection \<open>Endpoints\<close>

definition ORIGIN_PLATFORMS :: "string list" where
  "ORIGIN_PLATFORMS = [''discord'', ''slack'', ''telegram'']"

definition ORIGIN_CHAT_RE :: regex where
  "ORIGIN_CHAT_RE = RSeq (re_lit ''#'') (RGroup 1 (re_plus (RChar (CUnion CAlpha (CUnion CDigit (COf ''_-''))))))"

definition re_endpoint_part :: regex where
  "re_endpoint_part = re_plus (RChar (CNot (CUnion (CLit (CHR '':'')) CSpace)))"

definition ORIGIN_COMPACT_RE :: regex where
  "ORIGIN_COMPACT_RE = re_seq [RBound, RGroup 1 (re_words ORIGIN_PLATFORMS), re_lit '':'', RGroup 2 re_endpoint_part,
     re_opt (RSeq (re_lit '':'') (RGroup 3 re_endpoint_part)),
     re_opt (RSeq (re_lit '':'') (RGroup 4 re_endpoint_part)), RBound]"

definition ORIGIN_KV_RE :: regex where
  "ORIGIN_KV_RE = re_seq [RBound, re_opt (RGroup 1 (re_ilit ''origin-'')), RGroup 2 (re_words [''thread'', ''user'']),
     re_opt (re_one_of ''_-''), re_ilit ''id'', re_lit ''='',
     RGroup 3 (re_plus (RChar (CNot (CUnion CSpace (COf '',;'')))))]"

definition map_origin_to_flags :: "string \<Rightarrow> string \<Rightarrow> string dict" where
  "map_origin_to_flags origin return_to =
     (let txt = str_or origin return_to in
      case re_search ORIGIN_COMPACT_RE txt of
        Some m \<Rightarrow>
          [(''platform'', py_lower (group 1 m)),
           (''chat_id'', dropWhile (\<lambda>c. c = CHR ''#'') (group 2 m))] @
          (if group 3 m \<noteq> [] then [(''thread_id'', group 3 m)] else []) @
          (if group 4 m \<noteq> [] then [(''user_id'', group 4 m)] else [])
      | None \<Rightarrow>
          (case find (\<lambda>p. contains_text p (py_lower txt)) ORIGIN_PLATFORMS of
             None \<Rightarrow> []
           | Some platform \<Rightarrow>
               (case re_search ORIGIN_CHAT_RE txt of
                  None \<Rightarrow> []
                | Some m \<Rightarrow> foldl (\<lambda>d kv. dict_set (py_lower (group 2 kv) @ ''_id'') (group 3 kv) d)
                    [(''platform'', platform), (''chat_id'', group 1 m)] (re_finditer ORIGIN_KV_RE txt))))"

definition flag :: "string dict \<Rightarrow> string \<Rightarrow> string" where
  "flag flags k = (case dict_get flags k of None \<Rightarrow> [] | Some v \<Rightarrow> v)"

subsection \<open>The board's acknowledgement tables\<close>

record board_notify_row =
  ns_task_id :: string
  ns_platform :: string
  ns_chat_id :: string
  ns_thread_id :: string
  ns_notifier_profile :: string
  ns_trigger_agent :: bool
  ns_created_at :: int

record ack_subscription_row =
  as_id :: nat
  as_task_id :: string
  as_platform :: string
  as_chat_id :: string
  as_thread_id :: string
  as_notifier_profile :: string
  as_delivery_mode :: string
  as_active_wake_required :: bool
  as_created_at :: int

record ack_wake_row =
  aw_id :: nat
  aw_task_id :: string
  aw_subscription_id :: nat
  aw_triggered_agent :: bool
  aw_correlation_id :: string
  aw_status :: string
  aw_created_at :: int

text \<open>\<open>None\<close> is a table the board does not have; \<open>bd_has_trigger\<close> a column it may not have.\<close>

record board_acks =
  bd_notify_subs :: "board_notify_row list option"
  bd_has_trigger :: bool
  bd_subscriptions :: "ack_subscription_row table option"
  bd_wakes :: "ack_wake_row table option"

definition endpoint_of_notify :: "board_notify_row \<Rightarrow> string \<times> string \<times> string \<times> string" where
  "endpoint_of_notify r = (ns_task_id r, ns_platform r, ns_chat_id r, ns_thread_id r)"

definition endpoint_of_sub :: "ack_subscription_row \<Rightarrow> string \<times> string \<times> string \<times> string" where
  "endpoint_of_sub r = (as_task_id r, as_platform r, as_chat_id r, as_thread_id r)"

definition ensure_notify ::
    "string \<times> string \<times> string \<times> string \<Rightarrow> int \<Rightarrow> bool \<Rightarrow> board_notify_row list \<Rightarrow> board_notify_row list" where
  "ensure_notify ep now has_trigger subs =
     (if list_ex (\<lambda>r. endpoint_of_notify r = ep) subs then
        (if has_trigger
         then map (\<lambda>r. if endpoint_of_notify r = ep
           then r\<lparr>ns_trigger_agent := True, ns_notifier_profile := ''default''\<rparr> else r) subs
         else subs)
      else (case ep of (task, platform, chat, thread) \<Rightarrow> subs @
        [\<lparr>ns_task_id = task, ns_platform = platform, ns_chat_id = chat, ns_thread_id = thread,
          ns_notifier_profile = ''default'', ns_trigger_agent = has_trigger, ns_created_at = now\<rparr>]))"

definition default_sub :: "string \<times> string \<times> string \<times> string \<Rightarrow> ack_subscription_row \<Rightarrow> bool" where
  "default_sub ep r \<longleftrightarrow> endpoint_of_sub r = ep \<and> as_notifier_profile r = ''default''"

definition wake_mode :: string where "wake_mode = ''passive+active_wake''"

definition ensure_subscription ::
    "string \<times> string \<times> string \<times> string \<Rightarrow> int \<Rightarrow> ack_subscription_row table \<Rightarrow> nat \<times> ack_subscription_row table" where
  "ensure_subscription ep now t =
     (case find (default_sub ep) (rows t) of
        Some r \<Rightarrow> (as_id r, t\<lparr>rows := map (\<lambda>x. if as_id x = as_id r
           then x\<lparr>as_delivery_mode := wake_mode, as_active_wake_required := True\<rparr> else x) (rows t)\<rparr>)
      | None \<Rightarrow> (case ep of (task, platform, chat, thread) \<Rightarrow> map_prod as_id id (insert_row (\<lambda>i.
          \<lparr>as_id = i, as_task_id = task, as_platform = platform, as_chat_id = chat, as_thread_id = thread,
           as_notifier_profile = ''default'', as_delivery_mode = wake_mode, as_active_wake_required = True,
           as_created_at = now\<rparr>) t)))"

definition wake_correlation :: "string \<Rightarrow> string \<times> string \<times> string \<times> string \<Rightarrow> string" where
  "wake_correlation board ep = (case ep of (task, platform, chat, thread) \<Rightarrow>
     ''roadmap-autopromote:'' @ board @ '':'' @ task @ '':'' @ platform @ '':'' @ chat @ '':'' @ thread)"

definition wake_for :: "string \<Rightarrow> nat \<Rightarrow> string \<Rightarrow> ack_wake_row \<Rightarrow> bool" where
  "wake_for task sub corr r \<longleftrightarrow> aw_task_id r = task \<and> aw_subscription_id r = sub \<and> aw_correlation_id r = corr"

definition ensure_wake ::
    "string \<Rightarrow> string \<times> string \<times> string \<times> string \<Rightarrow> nat \<Rightarrow> int \<Rightarrow> ack_wake_row table \<Rightarrow> ack_wake_row table" where
  "ensure_wake board ep sub now t =
     (if list_ex (wake_for (fst ep) sub (wake_correlation board ep)) (rows t) then t
      else snd (insert_row (\<lambda>i. \<lparr>aw_id = i, aw_task_id = fst ep, aw_subscription_id = sub,
        aw_triggered_agent = False, aw_correlation_id = wake_correlation board ep, aw_status = ''pending'',
        aw_created_at = now\<rparr>) t))"

definition flags_endpoint :: "string \<Rightarrow> string dict \<Rightarrow> string \<times> string \<times> string \<times> string" where
  "flags_endpoint task flags = (task, short_text 240 (flag flags ''platform''),
     short_text 240 (flag flags ''chat_id''), short_text 240 (flag flags ''thread_id''))"

text \<open>
  \<open>_ensure_active_wake_ack\<close>: whether the rows were ensured, and the tables after it. \<open>None\<close> is a board
  file that does not exist.
\<close>

definition ensure_active_wake_ack ::
    "string \<Rightarrow> string \<Rightarrow> string dict \<Rightarrow> int \<Rightarrow> board_acks option \<Rightarrow> bool \<times> board_acks option" where
  "ensure_active_wake_ack board task flags now file =
     (case file of
        None \<Rightarrow> (False, None)
      | Some b \<Rightarrow>
          (case (bd_subscriptions b, bd_wakes b) of
             (Some subs, Some wakes) \<Rightarrow>
               (let ep = flags_endpoint task flags; (sub, subs') = ensure_subscription ep now subs
                in (True, Some (b\<lparr>
                     bd_notify_subs := map_option (ensure_notify ep now (bd_has_trigger b)) (bd_notify_subs b),
                     bd_subscriptions := Some subs', bd_wakes := Some (ensure_wake board ep sub now wakes)\<rparr>)))
           | _ \<Rightarrow> (False, Some b)))"

subsection \<open>The adapter\<close>

text \<open>The outside world of the adapter: what the runner acts on and the board file it repairs.\<close>

record 'w cli_world =
  cw_outside :: 'w
  cw_board_file :: "board_acks option"
  cw_clock :: int

record 'w cli_adapter =
  ca_runner :: "string list \<Rightarrow> 'w cli_world \<Rightarrow> (int \<times> string) option \<times> 'w cli_world"
  ca_loads :: "string \<Rightarrow> json option"
  ca_board :: string
  ca_created_by :: string
  ca_hermes_bin :: string
  ca_subscription_endpoint :: string

record 'w cli_state =
  cs_world :: "'w cli_world"
  cs_calls :: "graph_intent list"
  cs_task_ids :: "string dict"

definition build_argv :: "'w cli_adapter \<Rightarrow> graph_intent \<Rightarrow> string \<Rightarrow> string list" where
  "build_argv a i parent =
     (let assignee = short_text 240 (get_str (gi_metadata i) ''assignee'');
          acceptance = get_str (gi_metadata i) ''acceptance_criteria'';
          criteria = ''Acceptance criteria:'' @ line_feed_text @ acceptance;
          body = (if acceptance = [] then gi_body i
                  else if gi_body i = [] then criteria
                  else gi_body i @ line_feed_text @ line_feed_text @ criteria)
      in [ca_hermes_bin a, ''kanban'', ''--board'', ca_board a, ''create'', gi_title i, ''--body'', body,
          ''--assignee'', assignee] @
         (if parent \<noteq> [] then [''--parent'', parent] else []) @
         [''--idempotency-key'', gi_key i] @
         (if ca_created_by a \<noteq> [] then [''--created-by'', ca_created_by a] else []) @ [''--json''])"

definition subscribe_argv :: "'w cli_adapter \<Rightarrow> string \<Rightarrow> string dict \<Rightarrow> string list" where
  "subscribe_argv a task flags =
     [ca_hermes_bin a, ''kanban'', ''--board'', ca_board a, ''notify-subscribe'', task,
      ''--platform'', flag flags ''platform'', ''--chat-id'', flag flags ''chat_id''] @
     (if flag flags ''thread_id'' \<noteq> [] then [''--thread-id'', flag flags ''thread_id''] else []) @
     (if flag flags ''user_id'' \<noteq> [] then [''--user-id'', flag flags ''user_id''] else [])"

definition task_id_from_result :: "json dict \<Rightarrow> string" where
  "task_id_from_result r =
     short_text 240 (str_or (get_str r ''task_id'') (str_or (get_str r ''id'') (get_str r ''task'')))"

text \<open>\<open>Inl\<close> is the error of the subscription, otherwise the mutations it reports.\<close>

definition op_on :: "string \<Rightarrow> string \<Rightarrow> json" where
  "op_on kind task = JObj [(''op'', JStr kind), (''task_id'', JStr task)]"

definition op_at :: "string \<Rightarrow> string \<Rightarrow> string \<Rightarrow> json" where
  "op_at kind task endpoint = JObj [(''op'', JStr kind), (''task_id'', JStr task), (''endpoint'', JStr endpoint)]"

definition subscribe_if_needed ::
    "'w cli_adapter \<Rightarrow> graph_intent \<Rightarrow> string \<Rightarrow> 'w cli_world \<Rightarrow> (string + json list) \<times> 'w cli_world" where
  "subscribe_if_needed a i task w =
     (if \<not> gi_subscription_required i then (Inr [], w)
      else
        (let endpoint = str_or (ca_subscription_endpoint a) (str_or (gi_return_to i) (gi_origin i));
             flags = map_origin_to_flags endpoint []
         in if flags = [] then (Inl ''subscription_endpoint_unresolved'', w)
            else (case ca_runner a (subscribe_argv a task flags) w of
              (None, w') \<Rightarrow> (Inl ''cli_subscribe_runner_error'', w')
            | (Some (rc, out), w') \<Rightarrow>
                if rc \<noteq> 0 then (Inl ''cli_subscribe_failed'', w')
                else (case ensure_active_wake_ack (ca_board a) task flags (cw_clock w') (cw_board_file w') of
                  (ensured, file) \<Rightarrow>
                    (Inr (op_at ''notify_subscribe'' task endpoint #
                       (if ensured then [op_at ''ack_active_wake'' task endpoint] else [])),
                     w'\<lparr>cw_board_file := file\<rparr>)))))"

definition create_error :: "string \<Rightarrow> json list \<Rightarrow> json dict" where
  "create_error e mutations = [(''success'', JBool False), (''error'', JStr e), (''mutations'', JArr mutations)]"

text \<open>The task id of the answer of the command line, or the error.\<close>

definition created_task :: "'w cli_adapter \<Rightarrow> (int \<times> string) option \<Rightarrow> string + string" where
  "created_task a answer =
     (case answer of
        None \<Rightarrow> Inl ''cli_runner_error''
      | Some (rc, out) \<Rightarrow>
          if rc \<noteq> 0 then Inl ''cli_runner_failed''
          else (case ca_loads a out of
            Some (JObj r) \<Rightarrow>
              if task_id_from_result r = [] then Inl ''cli_missing_task_id'' else Inr (task_id_from_result r)
          | _ \<Rightarrow> Inl ''cli_invalid_json''))"

definition cli_create :: "'w cli_adapter \<Rightarrow> graph_intent \<Rightarrow> 'w cli_state \<Rightarrow> json dict \<times> 'w cli_state" where
  "cli_create a i s =
     (let parent = (if gi_parent_key i = [] then [] else flag (cs_task_ids s) (gi_parent_key i));
          s1 = s\<lparr>cs_calls := cs_calls s @ [i]\<rparr>
      in case ca_runner a (build_argv a i parent) (cs_world s) of (answer, w) \<Rightarrow>
        (case created_task a answer of
           Inl e \<Rightarrow> (create_error e [], s1\<lparr>cs_world := w\<rparr>)
         | Inr task \<Rightarrow>
             (case subscribe_if_needed a i task w of
                (Inl e, w') \<Rightarrow> (create_error e [op_on ''create_task'' task], s1\<lparr>cs_world := w'\<rparr>)
              | (Inr mutations, w') \<Rightarrow>
                  ([(''success'', JBool True), (''action'', JStr ''real_create''), (''task_id'', JStr task),
                    (''idempotency_key'', JStr (gi_key i)),
                    (''mutations'', JArr (op_on ''create_task'' task # mutations))],
                   s1\<lparr>cs_world := w', cs_task_ids := dict_set (gi_key i) task (cs_task_ids s)\<rparr>))))"

definition cli_graph_adapter :: "'w cli_adapter \<Rightarrow> 'w cli_state graph_adapter" where
  "cli_graph_adapter a = \<lparr>ga_create = cli_create a, ga_existing = (\<lambda>_ _. [])\<rparr>"

end
