(* ===== verification/Templates.thy ===== *)
theory Templates
  imports Regex
begin

text \<open>
  The closed registry of roadmap templates (\<open>roadmap_templates.py\<close>): the presets, the resolution of
  a transition's sequence into steps with roles, and the validation every resolved template passes.
  A \<open>ValueError\<close> is its message.
\<close>

subsection \<open>Steps and presets\<close>

definition ROLE_WORK :: string where "ROLE_WORK = ''work''"
definition ROLE_REVIEW :: string where "ROLE_REVIEW = ''review''"
definition ROLE_TERMINAL :: string where "ROLE_TERMINAL = ''terminal''"
definition LEGACY_PRESET :: string where "LEGACY_PRESET = ''impl-review-fanin''"

definition VALID_ROLES :: "string set" where
  "VALID_ROLES = {ROLE_WORK, ROLE_REVIEW, ROLE_TERMINAL}"

record template_step =
  ts_kind :: string
  ts_role :: string
  ts_objective :: string

record template_preset =
  tp_name :: string
  tp_lane :: string
  tp_slice_template :: "string list"
  tp_steps :: "template_step list"
  tp_goal_anchor :: string

record resolved_template =
  rt_name :: string
  rt_lane :: string
  rt_goal_anchor :: string
  rt_steps :: "template_step list"

definition mk_template_step :: "string \<Rightarrow> string \<Rightarrow> string \<Rightarrow> template_step" where
  "mk_template_step kind role objective = \<lparr>ts_kind = kind, ts_role = role, ts_objective = objective\<rparr>"

definition rt_slice_template :: "resolved_template \<Rightarrow> string list" where
  "rt_slice_template t = map ts_kind (rt_steps t)"

definition find_step :: "string \<Rightarrow> template_step list \<Rightarrow> template_step option" where
  "find_step kind steps = find (\<lambda>s. ts_kind s = kind) steps"

definition preset_step_for :: "template_preset \<Rightarrow> string \<Rightarrow> string + template_step" where
  "preset_step_for p kind =
     (case find_step kind (tp_steps p) of
        None \<Rightarrow> Inl (''template preset '' @ tp_name p @ '' has no step: '' @ kind)
      | Some s \<Rightarrow> Inr s)"

definition resolved_step_for :: "resolved_template \<Rightarrow> string \<Rightarrow> string + template_step" where
  "resolved_step_for t kind =
     (case find_step kind (rt_steps t) of
        None \<Rightarrow> Inl (''resolved template '' @ rt_name t @ '' has no step: '' @ kind)
      | Some s \<Rightarrow> Inr s)"

definition legacy_preset :: template_preset where
  "legacy_preset = \<lparr>tp_name = LEGACY_PRESET, tp_lane = ''#hermes-main / agentflow-hermes'',
     tp_slice_template = [''impl'', ''review'', ''fanin''],
     tp_steps =
       [mk_template_step ''impl'' ROLE_WORK ''Implement the bounded slice and produce concrete commit/test evidence.'',
        mk_template_step ''review'' ROLE_REVIEW ''Review the implementation fail-closed and emit GO/BLOCK/NEED_MORE with continuation markers when GO.'',
        mk_template_step ''fanin'' ROLE_TERMINAL ''Fan in implementation and review evidence, verify the ACK edge, and report the final roadmap continuation state.''],
     tp_goal_anchor = ''#hermes-main / agentflow-hermes exists to ship reviewed, ACKed AgentFlow-Hermes implementation slices without channel-policy sprawl.''\<rparr>"

definition research_preset :: template_preset where
  "research_preset = \<lparr>tp_name = ''research-loop'', tp_lane = ''#research / warroom-os'',
     tp_slice_template = [''scout'', ''evidence'', ''scorecard'', ''review'', ''brief''],
     tp_steps =
       [mk_template_step ''scout'' ROLE_WORK ''Find the candidate topic/source/event, define the research question, and bound the scope.'',
        mk_template_step ''evidence'' ROLE_WORK ''Collect primary-source links, citations, numbers, contradictions, and uncertainty notes.'',
        mk_template_step ''scorecard'' ROLE_WORK ''Rank confidence, impact, actionability, and red flags from the gathered evidence.'',
        mk_template_step ''review'' ROLE_REVIEW ''Review source quality, evidence sufficiency, scorecard logic, and lane fit; fail closed on unsupported claims.'',
        mk_template_step ''brief'' ROLE_TERMINAL ''Produce the concise final research brief with citations, scorecard outcome, ACK evidence, and continuation markers.''],
     tp_goal_anchor = ''#research / warroom-os exists to turn signals into sourced, scored, operator-useful research briefs; do not drift into generic implementation tasks or unverified speculation.''\<rparr>"

definition shaman_preset :: template_preset where
  "shaman_preset = \<lparr>tp_name = ''shaman-loop'', tp_lane = ''#shaman / oracle-lab'',
     tp_slice_template = [''design'', ''impl'', ''browser_e2e'', ''review'', ''fanin''],
     tp_steps =
       [mk_template_step ''design'' ROLE_WORK ''Design the bounded artifact UX/IA/content contract for oracle-lab/wiki/KB experiences.'',
        mk_template_step ''impl'' ROLE_WORK ''Implement the bounded artifact, config, or template slice with concrete evidence.'',
        mk_template_step ''browser_e2e'' ROLE_WORK ''Run browser/user-flow smoke for generated or UI artifacts and capture runtime evidence.'',
        mk_template_step ''review'' ROLE_REVIEW ''Review drift, safety, raw-envelope leaks, browser/e2e evidence, and final-report readiness.'',
        mk_template_step ''fanin'' ROLE_TERMINAL ''Fan in design, implementation, browser smoke, and review evidence into the final ACK report.''],
     tp_goal_anchor = ''#shaman / oracle-lab exists to build accumulated oracle/wiki/KB artifacts with browser-verifiable UX; do not drift into generic guardrail work or unsupported esoteric claims.''\<rparr>"

definition PRESETS :: "template_preset dict" where
  "PRESETS = [(LEGACY_PRESET, legacy_preset), (''research-loop'', research_preset), (''shaman-loop'', shaman_preset)]"

definition get_template_preset :: "string \<Rightarrow> string + template_preset" where
  "get_template_preset name =
     (case dict_get PRESETS (str_or name LEGACY_PRESET) of
        None \<Rightarrow> Inl (''unknown template_preset: '' @ str_or name LEGACY_PRESET)
      | Some p \<Rightarrow> Inr p)"

subsection \<open>Validation\<close>

definition identifier_safe :: "string \<Rightarrow> bool" where
  "identifier_safe kind = (let s = filter (\<lambda>c. c \<noteq> CHR ''_'' \<and> c \<noteq> CHR ''-'') kind in s \<noteq> [] \<and> list_all is_alnum s)"

definition count_role :: "string \<Rightarrow> template_step list \<Rightarrow> nat" where
  "count_role role steps = length (filter (\<lambda>s. ts_role s = role) steps)"

text \<open>The per-step checks in the order of the loop.\<close>

fun check_steps :: "template_step list \<Rightarrow> string option" where
  "check_steps [] = None"
| "check_steps (s # ss) =
     (if \<not> identifier_safe (ts_kind s) then Some ''template step kind must be identifier-safe''
      else if ts_role s \<notin> VALID_ROLES then Some ''template step role must be work/review/terminal''
      else check_steps ss)"

definition validate_resolved :: "resolved_template \<Rightarrow> string option" where
  "validate_resolved t =
     (let steps = rt_steps t in
      if steps = [] then Some ''template requires at least one step''
      else if \<not> distinct (map ts_kind steps) then Some ''template step kinds must be unique''
      else case check_steps steps of
        Some e \<Rightarrow> Some e
      | None \<Rightarrow>
          if count_role ROLE_REVIEW steps \<noteq> 1 then Some ''template requires exactly one review step''
          else if count_role ROLE_TERMINAL steps \<noteq> 1 then Some ''template requires exactly one terminal step''
          else if ts_role (last steps) \<noteq> ROLE_TERMINAL then Some ''terminal step must be final''
          else None)"

subsection \<open>Resolution\<close>

definition legacy_role :: "string \<Rightarrow> bool \<Rightarrow> string" where
  "legacy_role kind final =
     (if kind = ROLE_REVIEW then ROLE_REVIEW else if final then ROLE_TERMINAL else ROLE_WORK)"

definition legacy_objective :: "string \<Rightarrow> string \<Rightarrow> string" where
  "legacy_objective role kind =
     (if role = ROLE_REVIEW then ''Review the '' @ kind @ '' step and emit a fail-closed verdict.''
      else if role = ROLE_TERMINAL then ''Complete terminal fan-in/ACK for the '' @ kind @ '' step.''
      else ''Complete the '' @ kind @ '' work step with concrete evidence.'')"

definition inferred_step :: "string \<Rightarrow> bool \<Rightarrow> template_step" where
  "inferred_step kind final =
     mk_template_step kind (legacy_role kind final) (legacy_objective (legacy_role kind final) kind)"

definition legacy_step :: "string \<Rightarrow> nat \<Rightarrow> nat \<Rightarrow> template_preset \<Rightarrow> string + template_step" where
  "legacy_step kind index size_of preset =
     (if kind \<in> set (tp_slice_template preset) then
        (case preset_step_for preset kind of
           Inl e \<Rightarrow> Inl e
         | Inr s \<Rightarrow>
             if tp_slice_template preset = [''impl'', ''review'', ''fanin''] then Inr s
             else Inr (inferred_step kind (Suc index = size_of)))
      else Inr (inferred_step kind (Suc index = size_of)))"

fun legacy_steps :: "nat \<Rightarrow> nat \<Rightarrow> template_preset \<Rightarrow> string list \<Rightarrow> string + template_step list" where
  "legacy_steps index size_of preset [] = Inr []"
| "legacy_steps index size_of preset (k # ks) =
     (case legacy_step k index size_of preset of
        Inl e \<Rightarrow> Inl e
      | Inr s \<Rightarrow> (case legacy_steps (Suc index) size_of preset ks of Inl e \<Rightarrow> Inl e | Inr ss \<Rightarrow> Inr (s # ss)))"

definition finish_template ::
    "template_preset \<Rightarrow> string \<Rightarrow> string \<Rightarrow> template_step list \<Rightarrow> string + resolved_template" where
  "finish_template preset name goal steps =
     (let t = \<lparr>rt_name = name, rt_lane = tp_lane preset, rt_goal_anchor = str_or goal (tp_goal_anchor preset),
               rt_steps = steps\<rparr>
      in case validate_resolved t of Some e \<Rightarrow> Inl e | None \<Rightarrow> Inr t)"

definition resolve_template :: "string \<Rightarrow> string list \<Rightarrow> string \<Rightarrow> string + resolved_template" where
  "resolve_template preset_name explicit goal =
     (case get_template_preset (str_or preset_name LEGACY_PRESET) of
        Inl e \<Rightarrow> Inl e
      | Inr preset \<Rightarrow>
          if preset_name \<noteq> [] then
            (if explicit \<noteq> [] \<and> explicit \<noteq> tp_slice_template preset
             then Inl ''slice_template does not match template_preset''
             else finish_template preset (tp_name preset) goal (tp_steps preset))
          else
            (let sequence = (if explicit \<noteq> [] then explicit else tp_slice_template preset);
                 name = (if explicit = [] \<or> explicit = tp_slice_template preset then tp_name preset
                         else ''legacy-inferred'')
             in case legacy_steps 0 (length sequence) preset sequence of
                  Inl e \<Rightarrow> Inl e
                | Inr steps \<Rightarrow> finish_template preset name goal steps))"

subsection \<open>What a resolved template is\<close>

definition template_ok :: "resolved_template \<Rightarrow> bool" where
  "template_ok t \<longleftrightarrow> rt_steps t \<noteq> [] \<and> distinct (rt_slice_template t) \<and>
     (\<exists>!s. s \<in> set (rt_steps t) \<and> ts_role s = ROLE_REVIEW) \<and>
     (\<forall>s \<in> set (butlast (rt_steps t)). ts_role s \<in> {ROLE_WORK, ROLE_REVIEW}) \<and>
     ts_role (last (rt_steps t)) = ROLE_TERMINAL"

lemma count_role_one:
  assumes "count_role role steps = 1"
  shows "\<exists>!s. s \<in> set steps \<and> ts_role s = role"
proof -
  obtain s where s: "filter (\<lambda>s. ts_role s = role) steps = [s]"
    using assms unfolding count_role_def by (metis One_nat_def length_0_conv length_Suc_conv)
  have "x \<in> set steps \<and> ts_role x = role \<longleftrightarrow> x = s" for x
    using arg_cong [OF s, of "\<lambda>xs. x \<in> set xs"] by auto
  then show ?thesis by (intro ex1I [of _ s]) (simp_all only:)
qed

lemma check_steps_roles: "check_steps steps = None \<Longrightarrow> s \<in> set steps \<Longrightarrow>
    ts_role s \<in> VALID_ROLES \<and> identifier_safe (ts_kind s)"
  by (induction steps) (auto split: if_splits)

lemma roles_differ: "ROLE_WORK \<noteq> ROLE_REVIEW" "ROLE_WORK \<noteq> ROLE_TERMINAL" "ROLE_REVIEW \<noteq> ROLE_TERMINAL"
  by (simp_all add: ROLE_WORK_def ROLE_REVIEW_def ROLE_TERMINAL_def)

lemma validate_resolved_ok:
  assumes "validate_resolved t = None"
  shows "template_ok t"
proof -
  have ne: "rt_steps t \<noteq> []" and d: "distinct (map ts_kind (rt_steps t))" and c: "check_steps (rt_steps t) = None"
    and rev: "count_role ROLE_REVIEW (rt_steps t) = 1" and final: "count_role ROLE_TERMINAL (rt_steps t) = 1"
    and last: "ts_role (last (rt_steps t)) = ROLE_TERMINAL"
    using assms by (auto simp: validate_resolved_def Let_def split: if_splits option.splits)
  have one: "\<exists>!s. s \<in> set (rt_steps t) \<and> ts_role s = ROLE_REVIEW" using rev by (rule count_role_one)
  have "ts_role s \<noteq> ROLE_TERMINAL" if "s \<in> set (butlast (rt_steps t))" for s
  proof
    assume s: "ts_role s = ROLE_TERMINAL"
    have "count_role ROLE_TERMINAL (rt_steps t) =
        count_role ROLE_TERMINAL (butlast (rt_steps t)) + count_role ROLE_TERMINAL [last (rt_steps t)]"
      using ne unfolding count_role_def by (metis append_butlast_last_id filter_append length_append)
    moreover have "count_role ROLE_TERMINAL (butlast (rt_steps t)) \<noteq> 0"
      using that s by (auto simp: count_role_def filter_empty_conv)
    ultimately show False using final last by (simp add: count_role_def)
  qed
  moreover have "ts_role s \<in> VALID_ROLES" if "s \<in> set (butlast (rt_steps t))" for s
    using check_steps_roles [OF c] in_set_butlastD [OF that] by blast
  ultimately have "\<forall>s \<in> set (butlast (rt_steps t)). ts_role s \<in> {ROLE_WORK, ROLE_REVIEW}"
    by (auto simp: VALID_ROLES_def)
  with ne d one last show ?thesis by (simp add: template_ok_def rt_slice_template_def)
qed

lemma resolve_template_ok: "resolve_template name explicit goal = Inr t \<Longrightarrow> template_ok t"
  by (auto simp: resolve_template_def finish_template_def Let_def split: sum.splits if_splits option.splits
      intro: validate_resolved_ok)

lemma legacy_steps_kinds: "legacy_steps i n p ks = Inr ss \<Longrightarrow> map ts_kind ss = ks"
proof (induction ks arbitrary: i ss)
  case (Cons k ks)
  have "ts_kind s = k" if "legacy_step k j n p = Inr s" for j s
    using that by (auto simp: legacy_step_def preset_step_for_def find_step_def inferred_step_def mk_template_step_def
        find_Some_iff split: if_splits sum.splits option.splits)
  with Cons show ?case by (auto split: sum.splits)
qed simp

lemma resolved_kinds:
  assumes "resolve_template name explicit goal = Inr t" and "explicit \<noteq> []"
  shows "rt_slice_template t = explicit"
proof -
  have presets: "map ts_kind (tp_steps p) = tp_slice_template p" if "get_template_preset x = Inr p" for x p
    using that by (auto simp: get_template_preset_def PRESETS_def dict_get_def legacy_preset_def research_preset_def
        shaman_preset_def mk_template_step_def split: option.splits if_splits)
  show ?thesis using assms presets legacy_steps_kinds
    by (auto simp: resolve_template_def finish_template_def rt_slice_template_def Let_def
        split: sum.splits if_splits option.splits)
qed

lemma presets_known:
  "get_template_preset x = Inr p \<Longrightarrow> p = legacy_preset \<or> p = research_preset \<or> p = shaman_preset"
  by (auto simp: get_template_preset_def PRESETS_def dict_get_def split: option.splits if_splits)

lemma resolve_again:
  assumes "resolve_template name explicit goal = Inr t"
  shows "resolve_template name (rt_slice_template t) goal = Inr t"
    and "explicit = [] \<Longrightarrow> rt_slice_template t \<in> tp_slice_template ` {legacy_preset, research_preset, shaman_preset}"
proof -
  have kinds: "map ts_kind (tp_steps p) = tp_slice_template p" "tp_slice_template p \<noteq> []"
    if "get_template_preset x = Inr p" for x p
    using presets_known [OF that] by (auto simp: legacy_preset_def research_preset_def shaman_preset_def mk_template_step_def)
  have "resolve_template name (rt_slice_template t) goal = Inr t \<and>
    (explicit = [] \<longrightarrow> rt_slice_template t \<in> tp_slice_template ` {legacy_preset, research_preset, shaman_preset})"
  proof (cases "name = []")
    case False
    with assms obtain p where p: "get_template_preset name = Inr p" "explicit = [] \<or> explicit = tp_slice_template p"
      "finish_template p (tp_name p) goal (tp_steps p) = Inr t"
      by (auto simp: resolve_template_def split: sum.splits if_splits)
    then have "rt_steps t = tp_steps p" by (auto simp: finish_template_def Let_def split: option.splits)
    then have "rt_slice_template t = tp_slice_template p" using kinds [OF p(1)] by (simp add: rt_slice_template_def)
    with False p presets_known [OF p(1)] show ?thesis by (auto simp: resolve_template_def)
  next
    case True
    obtain p where p: "get_template_preset LEGACY_PRESET = Inr p" "p = legacy_preset"
      by (simp add: get_template_preset_def PRESETS_def dict_get_def LEGACY_PRESET_def)
    let ?seq = "if explicit \<noteq> [] then explicit else tp_slice_template p"
    from assms True p obtain steps where steps: "legacy_steps 0 (length ?seq) p ?seq = Inr steps"
      "finish_template p (if explicit = [] \<or> explicit = tp_slice_template p then tp_name p else ''legacy-inferred'')
         goal steps = Inr t"
      by (auto simp: resolve_template_def Let_def split: sum.splits)
    then have "rt_steps t = steps" by (auto simp: finish_template_def Let_def split: option.splits)
    with legacy_steps_kinds [OF steps(1)] have seq: "rt_slice_template t = ?seq" by (simp add: rt_slice_template_def)
    have "resolve_template name ?seq goal = Inr t"
      using steps True p kinds [OF p(1)] by (simp add: resolve_template_def split: if_splits)
    with seq p(2) show ?thesis by simp
  qed
  then show "resolve_template name (rt_slice_template t) goal = Inr t"
    and "explicit = [] \<Longrightarrow> rt_slice_template t \<in> tp_slice_template ` {legacy_preset, research_preset, shaman_preset}"
    by auto
qed

text \<open>
  C21: a resolved template is a reviewed chain. Whatever preset or explicit sequence a transition
  names, resolution either refuses it or gives distinct steps with exactly one review, exactly one
  terminal step, which is the last, and otherwise work; its sequence is the explicit one when one
  is given, and resolving that sequence under the same preset changes nothing.
\<close>

theorem resolved_template_reviewed:
  assumes "resolve_template name explicit goal = Inr t"
  shows "template_ok t \<and> (explicit \<noteq> [] \<longrightarrow> rt_slice_template t = explicit) \<and>
    resolve_template name (rt_slice_template t) goal = Inr t"
  using resolve_template_ok [OF assms] resolve_again(1) [OF assms] resolved_kinds [OF assms] by blast

theorem resolved_template_reviewed_witness:
  "\<exists>t. resolve_template [] [''plan'', ''review'', ''ship''] [] = Inr t \<and> template_ok t \<and>
     rt_slice_template t = [''plan'', ''review'', ''ship'']"
proof -
  have "\<exists>t. resolve_template [] [''plan'', ''review'', ''ship''] [] = Inr t"
    by (rule exI, code_simp)
  then obtain t where "resolve_template [] [''plan'', ''review'', ''ship''] [] = Inr t" by blast
  with resolved_template_reviewed [OF this] show ?thesis by auto
qed

end
