(* ===== verification/Roadmap.thy ===== *)
theory Roadmap
  imports Graph_Intents Templates Values
begin

text \<open>
  Roadmap promotion (\<open>roadmap.py\<close>): transitions and their registry, the markers of a final report,
  the promotion and apply ledgers, the gates of \<open>propose_roadmap_promotion\<close>, the plan it builds, and
  the guarded \<open>apply_roadmap_promotion\<close>.

  \<open>h\<close> is the hexadecimal SHA-256. Receipts and results are records whose texts have passed
  \<open>safe_event_payload\<close>, field by field under the field's own key. Times are reals.
\<close>

subsection \<open>Transitions\<close>

record road_transition =
  tr_id :: string
  tr_roadmap_id :: string
  tr_from_slice :: string
  tr_to_slice :: string
  tr_slice_template :: "string list"
  tr_policy_refs :: "string list"
  tr_max_chain_depth :: int
  tr_version :: string
  tr_template_preset :: string
  tr_goal_anchor :: string

record registry =
  rg_version :: string
  rg_transitions :: "road_transition dict"
  rg_content_hash :: string
  rg_source_ref :: string

definition transition_template :: "road_transition \<Rightarrow> string + resolved_template" where
  "transition_template t = resolve_template (tr_template_preset t) (tr_slice_template t) (tr_goal_anchor t)"

definition route_tokens :: "string list" where
  "route_tokens = [''openrouter'', ''kimi'', ''moonshot'', ''claude-'']"

definition symbolic_ref :: "string \<Rightarrow> bool" where
  "symbolic_ref ref \<longleftrightarrow> ref \<noteq> [] \<and> \<not> list_ex (\<lambda>t. contains_text t (py_lower ref)) route_tokens"

text \<open>\<open>_validate_transition\<close>; \<open>Some\<close> is the message of its \<open>ValueError\<close>.\<close>

definition validate_transition :: "road_transition \<Rightarrow> string option" where
  "validate_transition t =
     (if tr_id t = [] \<or> tr_roadmap_id t = [] \<or> tr_from_slice t = [] \<or> tr_to_slice t = []
      then Some ''transition requires ids''
      else if tr_slice_template t = [] \<and> tr_template_preset t = [] then Some ''transition requires slice template''
      else case transition_template t of
        Inl e \<Rightarrow> Some e
      | Inr _ \<Rightarrow>
          if \<not> list_all symbolic_ref (tr_policy_refs t) then Some ''transition policy_refs must be symbolic refs''
          else if tr_max_chain_depth t < 0 then Some ''invalid max_chain_depth''
          else None)"

text \<open>\<open>load_roadmap_transition_registry\<close> on the parsed file; the error is a message or a Python error.\<close>

datatype registry_error = Registry_Invalid string | Registry_Raises py_error

definition required_text :: "json dict \<Rightarrow> string \<Rightarrow> registry_error + string" where
  "required_text raw key = (case dict_get raw key of None \<Rightarrow> Inl (Registry_Raises KeyError) | Some v \<Rightarrow> Inr (py_str v))"

definition text_or_empty :: "json dict \<Rightarrow> string \<Rightarrow> string" where
  "text_or_empty raw key = (case dict_get raw key of None \<Rightarrow> [] | Some v \<Rightarrow> py_str v)"

text \<open>\<open>tuple(str(x) for x in v)\<close>.\<close>

definition text_tuple :: "json \<Rightarrow> registry_error + string list" where
  "text_tuple v =
     (case v of
        JArr xs \<Rightarrow> Inr (map py_str xs)
      | JStr s \<Rightarrow> Inr (map (\<lambda>c. [c]) s)
      | JObj m \<Rightarrow> Inr (map fst m)
      | _ \<Rightarrow> Inl (Registry_Raises TypeError))"

definition load_transition :: "json dict \<Rightarrow> registry_error + road_transition" where
  "load_transition raw =
     (let preset = get_str raw ''template_preset''; goal = get_str raw ''goal_anchor'' in
      case (case dict_get raw ''slice_template'' of
              None \<Rightarrow> Inr []
            | Some v \<Rightarrow> if truthy v then text_tuple v else Inr []) of
        Inl e \<Rightarrow> Inl e
      | Inr explicit \<Rightarrow>
          (case resolve_template preset explicit goal of
             Inl e \<Rightarrow> Inl (Registry_Invalid e)
           | Inr template \<Rightarrow>
               (case (required_text raw ''transition_id'', required_text raw ''roadmap_id'',
                      required_text raw ''from_slice'', required_text raw ''to_slice'') of
                  (Inr tid, Inr rid, Inr from_slice, Inr to_slice) \<Rightarrow>
                    (case (case dict_get raw ''policy_refs'' of
                             None \<Rightarrow> Inl (Registry_Raises KeyError) | Some v \<Rightarrow> text_tuple v) of
                       Inl e \<Rightarrow> Inl e
                     | Inr refs \<Rightarrow>
                         (case int_field raw ''max_chain_depth'' 3 of
                            Inl e \<Rightarrow> Inl (Registry_Raises e)
                          | Inr depth \<Rightarrow> Inr
                              \<lparr>tr_id = tid, tr_roadmap_id = rid, tr_from_slice = from_slice,
                               tr_to_slice = to_slice, tr_slice_template = rt_slice_template template,
                               tr_policy_refs = refs, tr_max_chain_depth = depth,
                               tr_version = text_or_empty raw ''version'', tr_template_preset = preset,
                               tr_goal_anchor = goal\<rparr>))
                | _ \<Rightarrow> Inl (Registry_Raises KeyError))))"

fun load_transitions :: "json dict \<Rightarrow> registry_error + road_transition dict" where
  "load_transitions [] = Inr []"
| "load_transitions ((key, raw) # rest) =
     (case raw of
        JObj m \<Rightarrow>
          (case load_transition m of
             Inl e \<Rightarrow> Inl e
           | Inr t \<Rightarrow>
               if key \<noteq> tr_id t then Inl (Registry_Invalid ''transition key must match transition_id'')
               else case validate_transition t of
                 Some e \<Rightarrow> Inl (Registry_Invalid e)
               | None \<Rightarrow> (case load_transitions rest of Inl e \<Rightarrow> Inl e | Inr ts \<Rightarrow> Inr ((key, t) # ts)))
      | _ \<Rightarrow> Inl (Registry_Invalid (''invalid transition '' @ key)))"

text \<open>The content hash of a loaded registry is computed from its transitions, here by a parameter.\<close>

definition load_registry ::
    "(string \<Rightarrow> road_transition dict \<Rightarrow> string) \<Rightarrow> string \<Rightarrow> json dict \<Rightarrow> registry_error + registry" where
  "load_registry content_hash path payload =
     (case dict_get payload ''transitions'' of
        Some (JObj m) \<Rightarrow>
          (case load_transitions m of
             Inl e \<Rightarrow> Inl e
           | Inr ts \<Rightarrow> Inr \<lparr>rg_version = get_str payload ''version'', rg_transitions = ts,
               rg_content_hash = content_hash (get_str payload ''version'') ts, rg_source_ref = path\<rparr>)
      | _ \<Rightarrow> Inl (Registry_Invalid ''roadmap transition registry requires transitions object''))"

subsection \<open>The markers of a report\<close>

definition MARKER_RE :: regex where
  "MARKER_RE = re_seq [RLineBegin, re_spaces,
     RGroup 1 (re_seq [RChar CAlpha, re_many (RChar (CUnion CAlpha (COf '' -''))), RChar CAlpha]),
     re_spaces, re_lit '':'', re_spaces, RGroup 2 (re_many_lazy re_dot), re_spaces, RLineEnd]"

definition marker_key :: "string \<Rightarrow> string" where
  "marker_key k = replace_char (CHR '' '') (CHR ''-'') (py_lower (py_strip k))"

definition markers_of :: "string \<Rightarrow> string dict" where
  "markers_of txt = foldl (\<lambda>d m. dict_set (marker_key (group 1 m)) (py_strip (group 2 m)) d) [] (re_finditer MARKER_RE txt)"

definition marker :: "string dict \<Rightarrow> string \<Rightarrow> string" where
  "marker d k = (case dict_get d k of None \<Rightarrow> [] | Some v \<Rightarrow> v)"

definition is_true_marker :: "string \<Rightarrow> bool" where
  "is_true_marker v \<longleftrightarrow> py_lower (py_strip v) \<in> {''true'', ''yes'', ''verified'', ''present'', ''ok''}"

record directive =
  nd_transition_id :: string
  nd_next_slice :: string
  nd_review_edge :: bool
  nd_ack_edge :: bool
  nd_parent_go :: bool
  nd_auto_continue :: bool
  nd_confidence :: string
  nd_source_ref :: string

definition safe_ref :: "(string \<Rightarrow> string) \<Rightarrow> string \<Rightarrow> string" where
  "safe_ref h v = fst (safe_durable_ref h [] v)"

definition directive_of_markers :: "string dict \<Rightarrow> string \<Rightarrow> directive" where
  "directive_of_markers ms src =
     (let tid = marker ms ''roadmap-transition''; next_slice = marker ms ''next-slice'' in
      if tid = [] \<or> next_slice = [] then
        \<lparr>nd_transition_id = [], nd_next_slice = [], nd_review_edge = False, nd_ack_edge = False,
         nd_parent_go = False, nd_auto_continue = False, nd_confidence = ''none'', nd_source_ref = src\<rparr>
      else
        \<lparr>nd_transition_id = tid, nd_next_slice = next_slice,
         nd_review_edge = is_true_marker (marker ms ''review-edge''),
         nd_ack_edge = is_true_marker (marker ms ''ack-edge''),
         nd_parent_go = is_true_marker (marker ms ''parent-go''),
         nd_auto_continue = is_true_marker (marker ms ''auto-continue''),
         nd_confidence = ''explicit'', nd_source_ref = src\<rparr>)"

definition parse_next_slice_directive :: "(string \<Rightarrow> string) \<Rightarrow> string \<Rightarrow> string \<Rightarrow> directive" where
  "parse_next_slice_directive h txt source_ref = directive_of_markers (markers_of txt) (safe_ref h source_ref)"

subsection \<open>The policy\<close>

record promotion_policy =
  pp_auto_continue :: bool
  pp_allowlisted_transitions :: "string list"
  pp_max_chain_depth :: int
  pp_max_promotions :: int
  pp_cooldown_seconds :: int
  pp_require_review_edge :: bool
  pp_require_ack_edge :: bool
  pp_require_trusted_assignee :: bool
  pp_trusted_assignees :: "string list"
  pp_require_origin_match :: bool
  pp_expected_origin :: string
  pp_expected_return_to :: string
  pp_require_policy_resolution :: bool
  pp_apply_enabled :: bool
  pp_impl_assignee :: string
  pp_review_assignee :: string
  pp_ack_trigger_agent :: string
  pp_max_apply_tasks :: int

definition default_promotion_policy :: promotion_policy where
  "default_promotion_policy =
     \<lparr>pp_auto_continue = False, pp_allowlisted_transitions = [], pp_max_chain_depth = 3, pp_max_promotions = 6,
      pp_cooldown_seconds = 900, pp_require_review_edge = True, pp_require_ack_edge = True,
      pp_require_trusted_assignee = True, pp_trusted_assignees = [], pp_require_origin_match = True,
      pp_expected_origin = [], pp_expected_return_to = [], pp_require_policy_resolution = True,
      pp_apply_enabled = False, pp_impl_assignee = [], pp_review_assignee = [], pp_ack_trigger_agent = [],
      pp_max_apply_tasks = 5\<rparr>"

text \<open>\<open>Promotion_Wrong_Type\<close>: not a policy, or one with a field of another type.\<close>

datatype promotion_policy_arg = Promotion_None | Promotion_Wrong_Type | Promotion_Given promotion_policy

definition coerce_promotion_policy :: "promotion_policy_arg \<Rightarrow> promotion_policy \<times> bool" where
  "coerce_promotion_policy a =
     (case a of
        Promotion_None \<Rightarrow> (default_promotion_policy, False)
      | Promotion_Wrong_Type \<Rightarrow> (default_promotion_policy, True)
      | Promotion_Given p \<Rightarrow>
          if pp_max_chain_depth p < 0 \<or> pp_max_promotions p < 0 \<or> pp_cooldown_seconds p < 0 \<or> pp_max_apply_tasks p < 0
          then (default_promotion_policy, True) else (p, False))"

subsection \<open>Receipts and their ledger\<close>

record decision_payload =
  dp_action :: string
  dp_reason :: string
  dp_key :: string
  dp_transition_id :: string

record promotion_receipt =
  pr_event_id :: string
  pr_key :: string
  pr_source_final_ref :: string
  pr_roadmap_id :: string
  pr_transition_id :: string
  pr_chain_depth :: int
  pr_decision :: string
  pr_reason :: string
  pr_origin_ref :: string
  pr_return_to_ref :: string
  pr_subscription_status :: string
  pr_policy_resolution_ref :: string
  pr_registry_ref :: string
  pr_registry_hash :: string
  pr_created_at :: real
  pr_payload :: decision_payload

definition safe_decision :: "(string \<Rightarrow> string) \<Rightarrow> decision_payload \<Rightarrow> decision_payload" where
  "safe_decision h d =
     \<lparr>dp_action = safe_string h ''action'' (dp_action d), dp_reason = safe_string h ''reason'' (dp_reason d),
      dp_key = safe_string h ''idempotency_key'' (dp_key d),
      dp_transition_id = safe_string h ''transition_id'' (dp_transition_id d)\<rparr>"

definition safe_receipt :: "(string \<Rightarrow> string) \<Rightarrow> promotion_receipt \<Rightarrow> promotion_receipt" where
  "safe_receipt h r =
     \<lparr>pr_event_id = safe_string h ''event_id'' (pr_event_id r),
      pr_key = safe_string h ''idempotency_key'' (pr_key r),
      pr_source_final_ref = safe_string h ''source_final_ref'' (pr_source_final_ref r),
      pr_roadmap_id = safe_string h ''roadmap_id'' (pr_roadmap_id r),
      pr_transition_id = safe_string h ''transition_id'' (pr_transition_id r),
      pr_chain_depth = pr_chain_depth r,
      pr_decision = safe_string h ''decision'' (pr_decision r), pr_reason = safe_string h ''reason'' (pr_reason r),
      pr_origin_ref = safe_string h ''origin_ref'' (pr_origin_ref r),
      pr_return_to_ref = safe_string h ''return_to_ref'' (pr_return_to_ref r),
      pr_subscription_status = safe_string h ''subscription_status'' (pr_subscription_status r),
      pr_policy_resolution_ref = safe_string h ''policy_resolution_ref'' (pr_policy_resolution_ref r),
      pr_registry_ref = safe_string h ''registry_ref'' (pr_registry_ref r),
      pr_registry_hash = safe_string h ''registry_hash'' (pr_registry_hash r),
      pr_created_at = pr_created_at r, pr_payload = safe_decision h (pr_payload r)\<rparr>"

type_synonym promotion_ledger = "promotion_receipt list"

definition has_event :: "(string \<Rightarrow> string) \<Rightarrow> string \<Rightarrow> promotion_ledger \<Rightarrow> bool" where
  "has_event h event l \<longleftrightarrow> list_ex (\<lambda>r. pr_event_id r = safe_ref h event) l"

definition decision_for_event :: "(string \<Rightarrow> string) \<Rightarrow> string \<Rightarrow> promotion_ledger \<Rightarrow> decision_payload option" where
  "decision_for_event h event l =
     map_option pr_payload (find (\<lambda>r. pr_event_id r = safe_ref h event) (rev l))"

definition has_promotion_key :: "(string \<Rightarrow> string) \<Rightarrow> string \<Rightarrow> promotion_ledger \<Rightarrow> bool" where
  "has_promotion_key h key l \<longleftrightarrow> list_ex (\<lambda>r. pr_key r = safe_ref h key) l"

definition promotions_of :: "(string \<Rightarrow> string) \<Rightarrow> string \<Rightarrow> promotion_ledger \<Rightarrow> promotion_ledger" where
  "promotions_of h roadmap l = filter (\<lambda>r. pr_roadmap_id r = safe_ref h roadmap \<and> pr_decision r = ''propose'') l"

definition count_promotions :: "(string \<Rightarrow> string) \<Rightarrow> string \<Rightarrow> promotion_ledger \<Rightarrow> nat" where
  "count_promotions h roadmap l = length (promotions_of h roadmap l)"

definition current_chain_depth :: "(string \<Rightarrow> string) \<Rightarrow> string \<Rightarrow> promotion_ledger \<Rightarrow> int" where
  "current_chain_depth h roadmap l =
     (case map pr_chain_depth (filter (\<lambda>r. pr_roadmap_id r = safe_ref h roadmap) l) of
        [] \<Rightarrow> 0
      | d # ds \<Rightarrow> fold max ds d)"

definition last_promotion_time :: "(string \<Rightarrow> string) \<Rightarrow> string \<Rightarrow> promotion_ledger \<Rightarrow> real option" where
  "last_promotion_time h roadmap l =
     (case map pr_created_at (promotions_of h roadmap l) of [] \<Rightarrow> None | t # ts \<Rightarrow> Some (fold max ts t))"

definition record_receipts :: "(string \<Rightarrow> string) \<Rightarrow> promotion_receipt \<Rightarrow> promotion_ledger \<Rightarrow> promotion_ledger" where
  "record_receipts h r l = l @ [safe_receipt h r]"

subsection \<open>The plan\<close>

record next_slice_plan =
  np_transition_id :: string
  np_roadmap_id :: string
  np_chain_depth :: int
  np_key :: string
  np_candidates :: "graph_intent list"

definition candidate_body ::
    "string \<Rightarrow> road_transition \<Rightarrow> resolved_template \<Rightarrow> template_step \<Rightarrow> string \<Rightarrow> string \<Rightarrow> string \<Rightarrow> string" where
  "candidate_body base t template step source origin return_to =
     join_with line_feed_text
       ((if base = [] then [] else [base]) @
        [''Roadmap context:'', ''Lane: '' @ rt_lane template, ''Template-Preset: '' @ rt_name template,
         ''Goal anchor: '' @ take 700 (short_text 240 (rt_goal_anchor template)),
         ''Roadmap-Transition: '' @ tr_id t, ''Slice: '' @ tr_to_slice t, ''Step: '' @ ts_kind step,
         ''Role: '' @ ts_role step, ''Source-Final-Ref: '' @ source, [], ''Step objective:'',
         take 700 (short_text 240 (ts_objective step))] @
        (if ts_role step = ROLE_REVIEW then
           [[], ''Review output requirements:'', ''- Emit Verdict: GO or Verdict: BLOCK/NEED_MORE.'',
            ''- If GO, include the continuation markers exactly so the terminal step can preserve them:'',
            ''  Review-Edge: verified'', ''  Parent-GO: verified'', ''  Roadmap-Transition: '' @ tr_id t,
            ''  Next-Slice: '' @ tr_to_slice t,
            ''- Do not set Auto-Continue: true unless this is the final terminal ACK and the next transition is intentionally approved.'']
         else []) @
        (if ts_role step = ROLE_TERMINAL then
           [[], ''Final ACK schema (fill all fields; use none/n/a explicitly when absent):'',
            ''Verdict: GO|BLOCK|NEED_MORE'', ''Slice: '' @ tr_to_slice t, ''Evidence: <sources/artifacts or n/a>'',
            ''Commit: <sha or none>'', ''Tests: <commands/results or n/a>'',
            ''Runtime smoke: <command/result or n/a>'', ''Next: <human-readable next action>'',
            ''Roadmap-Transition: '' @ tr_id t, ''Next-Slice: '' @ tr_to_slice t,
            ''Review-Edge: verified|missing'', ''ACK-Edge: verified|missing'', ''Parent-GO: verified|missing'',
            ''Auto-Continue: false'', ''Origin/return_to: '' @ short_text 240 origin,
            ''Return-To: '' @ short_text 240 return_to, ''Subscription-Status: verified'',
            ''Policy-Resolution-Ref: <central policy/config ref>'']
         else []))"

definition plan_step_key :: "string \<Rightarrow> string \<Rightarrow> string" where
  "plan_step_key key kind = key @ '':'' @ kind"

definition plan_intent ::
    "road_transition \<Rightarrow> resolved_template \<Rightarrow> string \<Rightarrow> int \<Rightarrow> string \<Rightarrow> string \<Rightarrow> string \<Rightarrow> string \<Rightarrow> template_step \<Rightarrow>
       graph_intent" where
  "plan_intent t template key depth origin return_to source parent step =
     \<lparr>gi_kind = ts_kind step, gi_blocker = ''roadmap_promotion'',
      gi_title = tr_to_slice t @ '' '' @ ts_kind step @ '' ['' @ tr_id t @ '']'',
      gi_key = plan_step_key key (ts_kind step), gi_origin = short_text 240 origin,
      gi_return_to = short_text 240 (str_or return_to origin), gi_policy_refs = tr_policy_refs t,
      gi_subscription_required = True, gi_supersedes = source,
      gi_metadata =
        [(''roadmap_id'', JStr (tr_roadmap_id t)), (''transition_id'', JStr (tr_id t)),
         (''from_slice'', JStr (tr_from_slice t)), (''to_slice'', JStr (tr_to_slice t)),
         (''chain_depth'', JInt depth), (''source_final_ref'', JStr source),
         (''template_preset'', JStr (str_or (tr_template_preset t) (rt_name template))),
         (''template_role'', JStr (ts_role step)), (''goal_anchor'', JStr (rt_goal_anchor template)),
         (''resolved_preview'', resolved_preview)],
      gi_body = candidate_body (policy_ref_body (tr_policy_refs t)) t template step source origin (str_or return_to origin),
      gi_parent_key = parent\<rparr>"

fun plan_steps ::
    "road_transition \<Rightarrow> resolved_template \<Rightarrow> string \<Rightarrow> int \<Rightarrow> string \<Rightarrow> string \<Rightarrow> string \<Rightarrow> string \<Rightarrow> template_step list \<Rightarrow>
       graph_intent list" where
  "plan_steps t template key depth origin return_to source parent [] = []"
| "plan_steps t template key depth origin return_to source parent (s # ss) =
     plan_intent t template key depth origin return_to source parent s #
     plan_steps t template key depth origin return_to source (plan_step_key key (ts_kind s)) ss"

text \<open>\<open>Inl\<close> is the \<open>ValueError\<close> of an unresolvable template.\<close>

definition build_plan ::
    "road_transition \<Rightarrow> string \<Rightarrow> int \<Rightarrow> string \<Rightarrow> string \<Rightarrow> string \<Rightarrow> string + next_slice_plan" where
  "build_plan t key depth origin return_to source =
     (case transition_template t of
        Inl e \<Rightarrow> Inl e
      | Inr template \<Rightarrow> Inr
          \<lparr>np_transition_id = tr_id t, np_roadmap_id = tr_roadmap_id t, np_chain_depth = depth, np_key = key,
           np_candidates = plan_steps t template key depth origin return_to source [] (rt_steps template)\<rparr>)"

subsection \<open>The gates\<close>

record promotion_event =
  ev_summary :: string
  ev_event_id :: string
  ev_source_final_ref :: string
  ev_source_assignee :: string
  ev_origin :: string
  ev_return_to :: string
  ev_subscription_status :: string
  ev_policy_resolution_ref :: string
  ev_chain_depth :: int
  ev_occurred_at :: real

definition STALE_INLINE_POLICY_RE :: regex where
  "STALE_INLINE_POLICY_RE = re_seq [RBound, re_alts
     [re_ilit ''claude-openrouter-opus'', re_ilit ''claude-venice-opus'',
      re_seq [re_ilit ''openrouter'', re_spaces, re_lit '','', re_spaces, re_ilit ''anthropic''],
      re_ilit ''Moonshot'', re_ilit ''Kimi''], RBound]"

definition VERDICT_BLOCK_RE :: regex where
  "VERDICT_BLOCK_RE = re_seq [RBound, re_ilit ''verdict'', re_spaces, re_lit '':'', re_spaces,
     RGroup 1 (re_words [''block'', ''need_more'', ''unknown'', ''go'']), RBound]"

definition extract_verdict :: "string \<Rightarrow> string" where
  "extract_verdict txt = (case re_search VERDICT_BLOCK_RE txt of None \<Rightarrow> ''UNKNOWN'' | Some m \<Rightarrow> py_upper (group 1 m))"

definition origin_ok :: "string \<Rightarrow> string \<Rightarrow> promotion_policy \<Rightarrow> bool" where
  "origin_ok origin return_to p \<longleftrightarrow>
     (if \<not> pp_require_origin_match p then True
      else if pp_expected_origin p \<noteq> [] \<and> origin \<noteq> pp_expected_origin p then False
      else if pp_expected_return_to p \<noteq> [] \<and> return_to \<noteq> pp_expected_return_to p then False
      else origin \<noteq> [] \<and> return_to \<noteq> [])"

text \<open>The text after the first colon of a line.\<close>

definition after_colon :: "string \<Rightarrow> string" where
  "after_colon l = drop 1 (dropWhile (\<lambda>c. c \<noteq> CHR '':'') l)"

definition origin_line :: "string \<Rightarrow> string option" where
  "origin_line summary =
     map_option (\<lambda>l. py_strip (after_colon l))
       (find (\<lambda>l. starts_with ''origin/return_to:'' (py_lower l)) (py_splitlines summary))"

definition summary_origin_evidence_ok :: "string \<Rightarrow> promotion_policy \<Rightarrow> bool" where
  "summary_origin_evidence_ok summary p \<longleftrightarrow>
     (if \<not> pp_require_origin_match p then True
      else
        (let ms = markers_of summary;
             origin = (case origin_line summary of
               Some v \<Rightarrow> v | None \<Rightarrow> str_or (marker ms ''origin-return-to'') (marker ms ''origin''));
             return_to = str_or (marker ms ''return-to'') (str_or (marker ms ''return_to'') origin)
         in if pp_expected_origin p \<noteq> [] \<and> origin \<noteq> pp_expected_origin p then False
            else if pp_expected_return_to p \<noteq> [] \<and> return_to \<noteq> pp_expected_return_to p then False
            else origin \<noteq> [] \<and> return_to \<noteq> []))"

definition promotion_key :: "(string \<Rightarrow> string) \<Rightarrow> road_transition \<Rightarrow> string \<Rightarrow> int \<Rightarrow> string" where
  "promotion_key h t source depth =
     safe_ref h (''roadmap:'' @ tr_roadmap_id t @ '':promote:'' @ tr_id t @ '':'' @ py_str (JInt depth) @ '':'' @
       take 16 (h (tr_id t @ '':'' @ source)))"

definition normal_subscription :: "string \<Rightarrow> string" where
  "normal_subscription s =
     (if s \<in> {''verified'', ''missing'', ''unverified'', ''not_required''} then s else ''unverified'')"

text \<open>
  The decision: stopped with an action and a reason, or passed with the transition, the depth and
  the key of the promotion.
\<close>

record stop =
  st_action :: string
  st_reason :: string
  st_verdict :: string
  st_roadmap :: string
  st_transition :: string
  st_key :: string
  st_next_eligible :: "real option"

datatype gate_result = Stopped stop | Passed road_transition int string

definition stop_at :: "string \<Rightarrow> string \<Rightarrow> string \<Rightarrow> string \<Rightarrow> string \<Rightarrow> gate_result" where
  "stop_at action reason verdict roadmap tid =
     Stopped \<lparr>st_action = action, st_reason = reason, st_verdict = verdict, st_roadmap = roadmap,
       st_transition = tid, st_key = [], st_next_eligible = None\<rparr>"

text \<open>The gates on what the report, the caller and the policy say about a known transition.\<close>

definition evidence_gate :: "promotion_policy \<Rightarrow> promotion_event \<Rightarrow> directive \<Rightarrow> road_transition \<Rightarrow> string option" where
  "evidence_gate p e d t =
     (if nd_next_slice d \<noteq> tr_to_slice t then Some ''unknown_transition''
      else if \<not> summary_origin_evidence_ok (ev_summary e) p then Some ''foreign_origin''
      else if pp_require_review_edge p \<and> (\<not> nd_review_edge d \<or> \<not> nd_parent_go d) then Some ''missing_review_edge''
      else if pp_require_ack_edge p \<and> \<not> nd_ack_edge d then Some ''missing_ack_edge''
      else if pp_require_ack_edge p \<and> ev_subscription_status e \<noteq> ''verified'' then Some ''subscription_unverified''
      else if pp_require_trusted_assignee p \<and> ev_source_assignee e \<notin> set (pp_trusted_assignees p)
        then Some ''untrusted_assignee''
      else if \<not> origin_ok (ev_origin e) (ev_return_to e) p then Some ''foreign_origin''
      else if pp_require_policy_resolution p \<and> ev_policy_resolution_ref e = [] then Some ''policy_unresolved''
      else if re_test STALE_INLINE_POLICY_RE (ev_summary e) then Some ''stale_inline_route''
      else None)"

definition effective_depth :: "(string \<Rightarrow> string) \<Rightarrow> promotion_event \<Rightarrow> road_transition \<Rightarrow> promotion_ledger \<Rightarrow> int" where
  "effective_depth h e t l = max (ev_chain_depth e) (current_chain_depth h (tr_roadmap_id t) l)"

text \<open>The gates on the ledger: depth, number, cool-down and an existing promotion.\<close>

definition ledger_gate ::
    "(string \<Rightarrow> string) \<Rightarrow> promotion_policy \<Rightarrow> promotion_event \<Rightarrow> road_transition \<Rightarrow> string \<Rightarrow> promotion_ledger \<Rightarrow>
       gate_result" where
  "ledger_gate h p e t src l =
     (let roadmap = tr_roadmap_id t; depth = effective_depth h e t l; key = promotion_key h t src (depth + 1);
          now = ev_occurred_at e; cool = of_int (pp_cooldown_seconds p)
      in if min (pp_max_chain_depth p) (tr_max_chain_depth t) \<le> depth
         then stop_at ''refuse'' ''max_chain_depth'' ''GO'' roadmap (tr_id t)
         else if pp_max_promotions p \<le> int (count_promotions h roadmap l)
         then stop_at ''refuse'' ''max_promotions_per_roadmap'' ''GO'' roadmap (tr_id t)
         else case (case last_promotion_time h roadmap l of
             Some t0 \<Rightarrow> if now - t0 < cool then Some (t0 + cool) else None
           | None \<Rightarrow> None) of
           Some eligible \<Rightarrow> Stopped \<lparr>st_action = ''noop'', st_reason = ''cooldown'', st_verdict = ''GO'',
             st_roadmap = roadmap, st_transition = tr_id t, st_key = [], st_next_eligible = Some eligible\<rparr>
         | None \<Rightarrow>
             if has_promotion_key h key l
             then Stopped \<lparr>st_action = ''noop'', st_reason = ''existing_promotion'', st_verdict = ''GO'',
               st_roadmap = roadmap, st_transition = tr_id t, st_key = key, st_next_eligible = None\<rparr>
             else Passed t (depth + 1) key)"

text \<open>A transition that the policy allows, the registry has and the validation accepts.\<close>

definition known_transition :: "promotion_policy \<Rightarrow> registry option \<Rightarrow> string \<Rightarrow> road_transition option" where
  "known_transition p reg tid =
     (case reg of
        None \<Rightarrow> None
      | Some rg \<Rightarrow>
          if tid \<notin> set (pp_allowlisted_transitions p) then None
          else case dict_get (rg_transitions rg) tid of
            None \<Rightarrow> None
          | Some t \<Rightarrow> if validate_transition t = None then Some t else None)"

definition promotion_gate ::
    "(string \<Rightarrow> string) \<Rightarrow> promotion_policy \<Rightarrow> bool \<Rightarrow> registry option \<Rightarrow> promotion_event \<Rightarrow> string \<Rightarrow>
       promotion_ledger \<Rightarrow> gate_result" where
  "promotion_gate h p malformed reg e src l =
     (if malformed then stop_at ''refuse'' ''malformed_policy'' [] [] []
      else
        (let verdict = str_or (pv_verdict (parse_verdict_summary (ev_summary e) src)) (extract_verdict (ev_summary e)) in
         if verdict \<noteq> ''GO'' then stop_at ''refuse'' ''not_go'' (str_or verdict ''UNKNOWN'') [] []
         else if \<not> pp_auto_continue p then stop_at ''noop'' ''autopromote_disabled'' ''GO'' [] []
         else
           (let d = parse_next_slice_directive h (ev_summary e) src in
            if nd_confidence d \<noteq> ''explicit'' then stop_at ''refuse'' ''missing_next_slice'' ''GO'' [] []
            else if \<not> nd_auto_continue d
              then stop_at ''noop'' ''autopromote_disabled'' ''GO'' [] (nd_transition_id d)
            else case known_transition p reg (nd_transition_id d) of
              None \<Rightarrow> stop_at ''refuse'' ''unknown_transition'' ''GO'' [] (nd_transition_id d)
            | Some t \<Rightarrow>
                (case evidence_gate p e d t of
                   Some reason \<Rightarrow> stop_at ''refuse'' reason ''GO'' (tr_roadmap_id t) (nd_transition_id d)
                 | None \<Rightarrow> ledger_gate h p e t src l))))"

subsection \<open>Proposing\<close>

record promotion_result =
  rs_action :: string
  rs_reason :: string
  rs_verdict :: string
  rs_transition_id :: string
  rs_roadmap_id :: string
  rs_event_id :: string
  rs_source_final_ref :: string
  rs_key :: string
  rs_chain_depth :: int
  rs_next_eligible :: "real option"
  rs_receipt :: "promotion_receipt option"
  rs_prior :: "decision_payload option"
  rs_plan :: "next_slice_plan option"
  rs_created_at :: real

text \<open>
  Every text of a result passes the sanitiser under its key, nested receipts and decisions included.
  The plan is kept as it was built; the code shows it through \<open>intent_dict\<close>.
\<close>

definition safe_result :: "(string \<Rightarrow> string) \<Rightarrow> promotion_result \<Rightarrow> promotion_result" where
  "safe_result h r =
     \<lparr>rs_action = safe_string h ''action'' (rs_action r), rs_reason = safe_string h ''reason'' (rs_reason r),
      rs_verdict = safe_string h ''verdict'' (rs_verdict r),
      rs_transition_id = safe_string h ''transition_id'' (rs_transition_id r),
      rs_roadmap_id = safe_string h ''roadmap_id'' (rs_roadmap_id r),
      rs_event_id = safe_string h ''event_id'' (rs_event_id r),
      rs_source_final_ref = safe_string h ''source_final_ref'' (rs_source_final_ref r),
      rs_key = safe_string h ''idempotency_key'' (rs_key r), rs_chain_depth = rs_chain_depth r,
      rs_next_eligible = rs_next_eligible r, rs_receipt = map_option (safe_receipt h) (rs_receipt r),
      rs_prior = map_option (safe_decision h) (rs_prior r), rs_plan = rs_plan r,
      rs_created_at = rs_created_at r\<rparr>"

definition mk_promotion_receipt ::
    "(string \<Rightarrow> string) \<Rightarrow> string \<Rightarrow> string \<Rightarrow> string \<Rightarrow> string \<Rightarrow> string \<Rightarrow> real \<Rightarrow> string \<Rightarrow> string \<Rightarrow>
       promotion_receipt" where
  "mk_promotion_receipt h action reason event roadmap src now tid key0 =
     (let key = str_or key0 (''roadmap:'' @ action @ '':'' @ event) in
      \<lparr>pr_event_id = event, pr_key = key, pr_source_final_ref = src, pr_roadmap_id = roadmap,
       pr_transition_id = tid, pr_chain_depth = 0, pr_decision = action, pr_reason = reason,
       pr_origin_ref = [], pr_return_to_ref = [], pr_subscription_status = ''unverified'',
       pr_policy_resolution_ref = [], pr_registry_ref = [], pr_registry_hash = [], pr_created_at = now,
       pr_payload = \<lparr>dp_action = action, dp_reason = reason, dp_key = key, dp_transition_id = tid\<rparr>\<rparr>)"

definition mk_result ::
    "string \<Rightarrow> string \<Rightarrow> string \<Rightarrow> string \<Rightarrow> string \<Rightarrow> real \<Rightarrow> promotion_result" where
  "mk_result action reason event roadmap src now =
     \<lparr>rs_action = action, rs_reason = reason, rs_verdict = [], rs_transition_id = [], rs_roadmap_id = roadmap,
      rs_event_id = event, rs_source_final_ref = src, rs_key = [], rs_chain_depth = 0, rs_next_eligible = None,
      rs_receipt = None, rs_prior = None, rs_plan = None, rs_created_at = now\<rparr>"

definition record_and_result ::
    "(string \<Rightarrow> string) \<Rightarrow> stop \<Rightarrow> string \<Rightarrow> string \<Rightarrow> real \<Rightarrow> promotion_ledger \<Rightarrow>
       promotion_result \<times> promotion_ledger" where
  "record_and_result h s event src now l =
     (let r = safe_receipt h (mk_promotion_receipt h (st_action s) (st_reason s) event (st_roadmap s) src now
                (st_transition s) (st_key s))
      in (safe_result h ((mk_result (st_action s) (st_reason s) event (st_roadmap s) src now)
            \<lparr>rs_verdict := st_verdict s, rs_transition_id := st_transition s,
             rs_next_eligible := st_next_eligible s, rs_receipt := Some r\<rparr>),
          record_receipts h r l))"

definition propose_receipt ::
    "(string \<Rightarrow> string) \<Rightarrow> promotion_event \<Rightarrow> registry option \<Rightarrow> string \<Rightarrow> string \<Rightarrow> road_transition \<Rightarrow> int \<Rightarrow>
       string \<Rightarrow> promotion_receipt" where
  "propose_receipt h e reg event src t depth key = safe_receipt h
     ((mk_promotion_receipt h ''propose'' ''roadmap_promotion_proposed'' event (tr_roadmap_id t) src (ev_occurred_at e)
         (tr_id t) key)
      \<lparr>pr_chain_depth := depth, pr_origin_ref := safe_ref h (ev_origin e),
       pr_return_to_ref := safe_ref h (ev_return_to e),
       pr_subscription_status := normal_subscription (ev_subscription_status e),
       pr_policy_resolution_ref := safe_ref h (ev_policy_resolution_ref e),
       pr_registry_ref := (case reg of None \<Rightarrow> [] | Some rg \<Rightarrow> rg_source_ref rg),
       pr_registry_hash := (case reg of None \<Rightarrow> [] | Some rg \<Rightarrow> rg_content_hash rg)\<rparr>)"

definition safe_event_id :: "(string \<Rightarrow> string) \<Rightarrow> promotion_event \<Rightarrow> string" where
  "safe_event_id h e = str_or (safe_ref h (ev_event_id e)) ''missing_event_id''"

definition safe_source :: "(string \<Rightarrow> string) \<Rightarrow> promotion_event \<Rightarrow> string" where
  "safe_source h e = str_or (safe_ref h (ev_source_final_ref e)) ''source_final''"

text \<open>\<open>Inl\<close> is the \<open>ValueError\<close> of \<open>_build_plan\<close>.\<close>

definition propose_roadmap_promotion ::
    "(string \<Rightarrow> string) \<Rightarrow> promotion_policy_arg \<Rightarrow> registry option \<Rightarrow> promotion_event \<Rightarrow> promotion_ledger \<Rightarrow>
       string + promotion_result \<times> promotion_ledger" where
  "propose_roadmap_promotion h arg reg e l =
     (let (p, malformed) = coerce_promotion_policy arg; event = safe_event_id h e; src = safe_source h e;
          now = ev_occurred_at e
      in if has_event h event l then
           Inr (safe_result h ((mk_result ''noop'' ''duplicate_event'' event [] src now)
             \<lparr>rs_prior := decision_for_event h event l\<rparr>), l)
         else case promotion_gate h p malformed reg e src l of
           Stopped s \<Rightarrow> Inr (record_and_result h s event src now l)
         | Passed t depth key \<Rightarrow>
             (case build_plan t key depth (ev_origin e) (ev_return_to e) src of
                Inl err \<Rightarrow> Inl err
              | Inr plan \<Rightarrow>
                  (let r = propose_receipt h e reg event src t depth key in
                   Inr (safe_result h ((mk_result ''propose'' ''roadmap_promotion_proposed'' [] (tr_roadmap_id t) [] 0)
                     \<lparr>rs_verdict := ''GO'', rs_transition_id := tr_id t, rs_key := key, rs_chain_depth := depth,
                      rs_receipt := Some r, rs_plan := Some plan\<rparr>), record_receipts h r l))))"

text \<open>\<open>propose_next_slice_graph\<close> of \<open>graph_creator.py\<close>: the same decision, without the adapter.\<close>

definition propose_next_slice_graph ::
    "(string \<Rightarrow> string) \<Rightarrow> promotion_policy_arg \<Rightarrow> registry option \<Rightarrow> promotion_event \<Rightarrow> promotion_ledger \<Rightarrow>
       string + promotion_result \<times> promotion_ledger" where
  "propose_next_slice_graph h arg reg e l =
     (case propose_roadmap_promotion h arg reg e l of
        Inl err \<Rightarrow> Inl err
      | Inr (r, l') \<Rightarrow> Inr (safe_result h r, l'))"

subsection \<open>Applying\<close>

record apply_receipt =
  ar_event_id :: string
  ar_key :: string
  ar_source_final_ref :: string
  ar_roadmap_id :: string
  ar_transition_id :: string
  ar_template_id :: string
  ar_policy_resolution_ref :: string
  ar_created_task_ids :: "string list"
  ar_summary :: string
  ar_chain_depth :: int
  ar_registry_ref :: string
  ar_registry_hash :: string
  ar_created_at :: real

record created_record =
  cr_task_id :: string
  cr_kind :: string
  cr_key :: string
  cr_assignee :: string
  cr_acceptance :: string
  cr_ack_agent :: string
  cr_parent_task_id :: string
  cr_origin :: string
  cr_return_to :: string

record apply_entry =
  al_created_task_ids :: "string list"
  al_tasks :: "created_record list"
  al_receipt :: apply_receipt

type_synonym apply_ledger = "apply_entry dict"

definition safe_apply_receipt :: "(string \<Rightarrow> string) \<Rightarrow> apply_receipt \<Rightarrow> apply_receipt" where
  "safe_apply_receipt h r =
     \<lparr>ar_event_id = safe_string h ''event_id'' (ar_event_id r),
      ar_key = safe_string h ''idempotency_key'' (ar_key r),
      ar_source_final_ref = safe_string h ''source_final_ref'' (ar_source_final_ref r),
      ar_roadmap_id = safe_string h ''roadmap_id'' (ar_roadmap_id r),
      ar_transition_id = safe_string h ''transition_id'' (ar_transition_id r),
      ar_template_id = safe_string h ''template_id'' (ar_template_id r),
      ar_policy_resolution_ref = safe_string h ''policy_resolution_ref'' (ar_policy_resolution_ref r),
      ar_created_task_ids = map (safe_string h ''created_task_ids'') (ar_created_task_ids r),
      ar_summary = safe_string h ''summary'' (ar_summary r), ar_chain_depth = ar_chain_depth r,
      ar_registry_ref = safe_string h ''registry_ref'' (ar_registry_ref r),
      ar_registry_hash = safe_string h ''registry_hash'' (ar_registry_hash r), ar_created_at = ar_created_at r\<rparr>"

definition safe_created :: "(string \<Rightarrow> string) \<Rightarrow> created_record \<Rightarrow> created_record" where
  "safe_created h c =
     \<lparr>cr_task_id = safe_string h ''task_id'' (cr_task_id c), cr_kind = safe_string h ''kind'' (cr_kind c),
      cr_key = safe_string h ''idempotency_key'' (cr_key c),
      cr_assignee = safe_string h ''assignee'' (cr_assignee c),
      cr_acceptance = safe_string h ''acceptance_criteria'' (cr_acceptance c),
      cr_ack_agent = safe_string h ''ack_trigger_agent'' (cr_ack_agent c),
      cr_parent_task_id = safe_string h ''parent_task_id'' (cr_parent_task_id c),
      cr_origin = safe_string h ''origin'' (cr_origin c), cr_return_to = safe_string h ''return_to'' (cr_return_to c)\<rparr>"

definition safe_entry :: "(string \<Rightarrow> string) \<Rightarrow> apply_entry \<Rightarrow> apply_entry" where
  "safe_entry h a =
     \<lparr>al_created_task_ids = map (safe_string h ''created_task_ids'') (al_created_task_ids a),
      al_tasks = map (safe_created h) (al_tasks a), al_receipt = safe_apply_receipt h (al_receipt a)\<rparr>"

definition apply_record :: "(string \<Rightarrow> string) \<Rightarrow> string \<Rightarrow> apply_entry \<Rightarrow> apply_ledger \<Rightarrow> apply_ledger" where
  "apply_record h key a l = dict_set (safe_ref h key) (safe_entry h a) l"

definition apply_get :: "(string \<Rightarrow> string) \<Rightarrow> string \<Rightarrow> apply_ledger \<Rightarrow> apply_entry option" where
  "apply_get h key l = dict_get l (safe_ref h key)"

text \<open>The assignee, the acceptance criteria and the acknowledging agent of a step.\<close>

definition apply_task_profile ::
    "string \<Rightarrow> road_transition \<Rightarrow> promotion_policy \<Rightarrow> string + string \<times> string \<times> string" where
  "apply_task_profile kind t p =
     (let trusted = (case pp_trusted_assignees p of [] \<Rightarrow> [] | a # _ \<Rightarrow> a);
          agent = str_or (pp_ack_trigger_agent p) trusted
      in case transition_template t of
        Inl e \<Rightarrow> Inl e
      | Inr template \<Rightarrow>
          (case resolved_step_for template kind of
             Inl e \<Rightarrow> Inl e
           | Inr step \<Rightarrow>
               if ts_role step = ROLE_WORK then
                 Inr (str_or (pp_impl_assignee p) trusted,
                   ''Complete '' @ kind @ '' work step for '' @ tr_to_slice t @ '' per template '' @ tr_id t, [])
               else if ts_role step = ROLE_REVIEW then
                 Inr (str_or (pp_review_assignee p) trusted,
                   ''Review '' @ tr_to_slice t @ '' '' @ kind @ '' step and emit GO/BLOCK/NEED_MORE verdict for '' @ tr_id t, [])
               else
                 Inr (agent, ''Complete terminal '' @ kind @ '' ACK for '' @ tr_to_slice t @
                   '', confirm review GO, emit ACK for '' @ tr_id t, agent)))"

definition enrich_intent :: "graph_intent \<Rightarrow> string \<times> string \<times> string \<Rightarrow> graph_intent" where
  "enrich_intent i prof = (case prof of (assignee, acceptance, agent) \<Rightarrow>
     i\<lparr>gi_metadata := dict_set ''ack_trigger_agent'' (JStr agent)
        (dict_set ''acceptance_criteria'' (JStr acceptance) (dict_set ''assignee'' (JStr assignee) (gi_metadata i)))\<rparr>)"

text \<open>What the creation loop ends in: an unresolvable step, a failure with the tasks made so far, or all tasks.\<close>

datatype creation =
    Creation_Raises string
  | Creation_Failed string "string list"
  | Created "created_record list"

definition mk_created ::
    "graph_intent \<Rightarrow> string \<times> string \<times> string \<Rightarrow> string dict \<Rightarrow> string \<Rightarrow> created_record" where
  "mk_created i prof ids task = (case prof of (assignee, acceptance, agent) \<Rightarrow>
     \<lparr>cr_task_id = task, cr_kind = gi_kind i, cr_key = gi_key i, cr_assignee = assignee,
      cr_acceptance = acceptance, cr_ack_agent = agent,
      cr_parent_task_id = (if gi_parent_key i = [] then []
        else case dict_get (dict_set (gi_key i) task ids) (gi_parent_key i) of None \<Rightarrow> [] | Some x \<Rightarrow> x),
      cr_origin = gi_origin i, cr_return_to = gi_return_to i\<rparr>)"

fun create_tasks ::
    "'w graph_adapter \<Rightarrow> road_transition \<Rightarrow> promotion_policy \<Rightarrow> graph_intent list \<Rightarrow> string dict \<Rightarrow> created_record list \<Rightarrow>
       'w \<Rightarrow> creation \<times> 'w" where
  "create_tasks a t p [] ids made w = (Created made, w)"
| "create_tasks a t p (i # is) ids made w =
     (case apply_task_profile (gi_kind i) t p of
        Inl e \<Rightarrow> (Creation_Raises e, w)
      | Inr prof \<Rightarrow>
          (case ga_create a (enrich_intent i prof) w of (r, w') \<Rightarrow>
             if dict_get r ''success'' \<noteq> Some (JBool True)
             then (Creation_Failed ''adapter_create_failed'' (map cr_task_id made), w')
             else (let task = get_str r ''task_id'' in
               if task = [] then (Creation_Failed ''missing_task_id'' (map cr_task_id made), w')
               else create_tasks a t p is (dict_set (gi_key i) task ids) (made @ [mk_created i prof ids task]) w')))"

datatype apply_outcome =
    Not_Applied promotion_result bool string
  | Apply_Failed promotion_result string string "string list"
  | Apply_Duplicate promotion_result string apply_entry
  | Applied promotion_result string apply_entry

record 'w apply_state =
  as_ledger :: promotion_ledger
  as_applied :: apply_ledger
  as_board :: 'w

definition key_of_proposal :: "promotion_result \<Rightarrow> string" where
  "key_of_proposal r =
     str_or (rs_key r) (str_or (case rs_receipt r of None \<Rightarrow> [] | Some x \<Rightarrow> pr_key x)
       (case rs_prior r of None \<Rightarrow> [] | Some d \<Rightarrow> dp_key d))"

definition mk_apply_receipt ::
    "(string \<Rightarrow> string) \<Rightarrow> promotion_event \<Rightarrow> registry \<Rightarrow> road_transition \<Rightarrow> string \<Rightarrow> int \<Rightarrow> string list \<Rightarrow> apply_receipt" where
  "mk_apply_receipt h e rg t key depth ids = safe_apply_receipt h
     \<lparr>ar_event_id = safe_event_id h e, ar_key = key, ar_source_final_ref = safe_source h e,
      ar_roadmap_id = tr_roadmap_id t, ar_transition_id = tr_id t, ar_template_id = str_or (tr_version t) (tr_id t),
      ar_policy_resolution_ref = safe_ref h (ev_policy_resolution_ref e), ar_created_task_ids = ids,
      ar_summary = fst (sanitize_summary (ev_summary e) ''material event''),
      ar_chain_depth = depth, ar_registry_ref = rg_source_ref rg, ar_registry_hash = rg_content_hash rg,
      ar_created_at = ev_occurred_at e\<rparr>"

text \<open>
  The armed part: plan, create every task, and only then commit both ledgers and tell the adapter.
  \<open>l'\<close> is the ledger with the receipt of the proposal.
\<close>

definition apply_plan ::
    "(string \<Rightarrow> string) \<Rightarrow> 'w graph_adapter \<Rightarrow> (apply_receipt \<Rightarrow> 'w \<Rightarrow> 'w) option \<Rightarrow> promotion_policy \<Rightarrow> registry \<Rightarrow>
       road_transition \<Rightarrow> promotion_event \<Rightarrow> promotion_result \<Rightarrow> string \<Rightarrow> promotion_ledger \<Rightarrow> 'w apply_state \<Rightarrow>
       string + apply_outcome \<times> 'w apply_state" where
  "apply_plan h a recorder p rg t e proposal key l' s =
     (case build_plan t key (rs_chain_depth proposal) (ev_origin e) (ev_return_to e) (safe_source h e) of
        Inl err \<Rightarrow> Inl err
      | Inr plan \<Rightarrow>
          if pp_max_apply_tasks p < int (length (np_candidates plan))
          then Inr (Not_Applied (safe_result h proposal) True ''max_apply_tasks_per_graph'', s)
          else (case create_tasks a t p (np_candidates plan) [] [] (as_board s) of
            (Creation_Raises err, w) \<Rightarrow> Inl err
          | (Creation_Failed reason ids, w) \<Rightarrow>
              Inr (Apply_Failed (safe_result h proposal) key reason (map (safe_string h ''uncommitted_task_ids'') ids),
                   s\<lparr>as_board := w\<rparr>)
          | (Created made, w) \<Rightarrow>
              (let receipt = mk_apply_receipt h e rg t key (rs_chain_depth proposal) (map cr_task_id made);
                   entry = \<lparr>al_created_task_ids = map cr_task_id made, al_tasks = made, al_receipt = receipt\<rparr>
               in Inr (Applied (safe_result h proposal) key (safe_entry h entry),
                    \<lparr>as_ledger = l', as_applied = apply_record h key entry (as_applied s),
                     as_board = (case recorder of None \<Rightarrow> w | Some f \<Rightarrow> f receipt w)\<rparr>))))"

definition apply_roadmap_promotion ::
    "(string \<Rightarrow> string) \<Rightarrow> 'w graph_adapter option \<Rightarrow> (apply_receipt \<Rightarrow> 'w \<Rightarrow> 'w) option \<Rightarrow> promotion_policy_arg \<Rightarrow>
       registry option \<Rightarrow> promotion_event \<Rightarrow> 'w apply_state \<Rightarrow> string + apply_outcome \<times> 'w apply_state" where
  "apply_roadmap_promotion h adapter recorder arg reg e s =
     (let p = fst (coerce_promotion_policy arg) in
      case propose_roadmap_promotion h arg reg e (as_ledger s) of
        Inl err \<Rightarrow> Inl err
      | Inr (proposal, l') \<Rightarrow>
          (let key = key_of_proposal proposal; committed = s\<lparr>as_ledger := l'\<rparr> in
           case (if key = [] then None else apply_get h key (as_applied s)) of
             Some entry \<Rightarrow> Inr (Apply_Duplicate (safe_result h proposal) key (safe_entry h entry), s)
           | None \<Rightarrow>
               if rs_action proposal \<noteq> ''propose'' then
                 Inr (Not_Applied (safe_result h proposal) (pp_apply_enabled p) [], committed)
               else if \<not> pp_apply_enabled p then
                 Inr (Not_Applied (safe_result h proposal) False ''apply_disabled'', committed)
               else (case Option.bind reg (\<lambda>rg. map_option (Pair rg) (dict_get (rg_transitions rg) (rs_transition_id proposal))) of
                   None \<Rightarrow> Inr (Not_Applied (safe_result h proposal) True ''unknown_transition'', s)
                 | Some (rg, t) \<Rightarrow>
                     (case adapter of
                        None \<Rightarrow> Inr (Not_Applied (safe_result h proposal) True ''no_adapter'', s)
                      | Some a \<Rightarrow> apply_plan h a recorder p rg t e proposal key l' s))))"

end
