(* ===== verification/Roadmap_Props.thy ===== *)
theory Roadmap_Props
  imports Roadmap
begin

text \<open>
  Roadmap promotion: what a proposal has passed, the bounds along every sequence of reports, the
  chain a plan is, and the all-or-nothing application of a plan to a board.
\<close>

subsection \<open>Texts that pass unchanged\<close>

definition clean_ref :: "string \<Rightarrow> bool" where
  "clean_ref s \<longleftrightarrow> s \<noteq> [] \<and> length s \<le> 240 \<and> short_text 2000 s = s \<and> \<not> contains_sensitive_text s \<and> safe_ref_text s"

lemma clean_short: "clean_ref s \<Longrightarrow> 240 \<le> n \<Longrightarrow> short_text n s = s"
proof -
  assume c: "clean_ref s" and n: "240 \<le> n"
  let ?j = "join_with '' '' (py_split s)"
  have "take 2000 ?j = s" "length s \<le> 240" using c by (simp_all add: clean_ref_def short_text_def)
  then have "length (take 2000 ?j) \<le> 240" by simp
  then have "length ?j \<le> 240" by (simp add: min_def split: if_splits)
  with \<open>take 2000 ?j = s\<close> n show ?thesis by (simp add: short_text_def)
qed

lemma clean_safe_ref [simp]: "clean_ref s \<Longrightarrow> safe_ref h s = s"
  using clean_short [of s 240] by (simp add: safe_ref_def safe_durable_ref_def clean_ref_def Let_def)

lemma clean_safe_string [simp]: "clean_ref s \<Longrightarrow> safe_string h k s = s"
  using clean_short [of s 240] clean_short [of s 2000]
  by (simp add: safe_string_def safe_durable_ref_def safe_job_field_def clean_ref_def Let_def)

lemma clean_nonempty: "clean_ref s \<Longrightarrow> s \<noteq> []"
  by (simp add: clean_ref_def)

lemma clean_words [simp]: "clean_ref ''propose''" "clean_ref ''refuse''" "clean_ref ''noop''"
  by (code_simp, code_simp, code_simp)

lemma safe_empty [simp]: "safe_string h k [] = []" "safe_ref h [] = []"
  by (simp_all add: safe_string_def safe_ref_def safe_durable_ref_def safe_job_field_def short_text_def py_split_def Let_def)

subsection \<open>The gates\<close>

text \<open>What a proposal at a depth has passed.\<close>

definition gates_passed ::
    "(string \<Rightarrow> string) \<Rightarrow> promotion_policy \<Rightarrow> registry option \<Rightarrow> promotion_event \<Rightarrow> promotion_ledger \<Rightarrow>
       road_transition \<Rightarrow> int \<Rightarrow> bool" where
  "gates_passed h p reg e l t depth \<longleftrightarrow>
     (let d = parse_next_slice_directive h (ev_summary e) (safe_source h e) in
      pp_auto_continue p \<and>
      str_or (pv_verdict (parse_verdict_summary (ev_summary e) (safe_source h e))) (extract_verdict (ev_summary e)) = ''GO'' \<and>
      nd_confidence d = ''explicit'' \<and> nd_auto_continue d \<and>
      known_transition p reg (nd_transition_id d) = Some t \<and> evidence_gate p e d t = None \<and>
      depth = effective_depth h e t l + 1 \<and> depth \<le> pp_max_chain_depth p \<and> depth \<le> tr_max_chain_depth t \<and>
      int (count_promotions h (tr_roadmap_id t) l) < pp_max_promotions p \<and>
      (\<forall>t0. last_promotion_time h (tr_roadmap_id t) l = Some t0 \<longrightarrow>
         of_int (pp_cooldown_seconds p) \<le> ev_occurred_at e - t0))"

lemma ledger_gate_passed:
  assumes "ledger_gate h p e t src l = Passed u depth key"
  shows "u = t \<and> depth = effective_depth h e t l + 1 \<and> depth \<le> pp_max_chain_depth p \<and> depth \<le> tr_max_chain_depth t \<and>
    key = promotion_key h t src depth \<and> \<not> has_promotion_key h key l \<and>
    int (count_promotions h (tr_roadmap_id t) l) < pp_max_promotions p \<and>
    (\<forall>t0. last_promotion_time h (tr_roadmap_id t) l = Some t0 \<longrightarrow>
       of_int (pp_cooldown_seconds p) \<le> ev_occurred_at e - t0)"
  using assms by (auto simp: ledger_gate_def stop_at_def Let_def split: if_splits option.splits)

lemma promotion_gate_passed:
  assumes "promotion_gate h p m reg e (safe_source h e) l = Passed t depth key"
  shows "\<not> m \<and> gates_passed h p reg e l t depth \<and> key = promotion_key h t (safe_source h e) depth \<and>
    \<not> has_promotion_key h key l"
proof -
  let ?d = "parse_next_slice_directive h (ev_summary e) (safe_source h e)"
  have "\<not> m \<and> pp_auto_continue p \<and>
      str_or (pv_verdict (parse_verdict_summary (ev_summary e) (safe_source h e))) (extract_verdict (ev_summary e)) = ''GO'' \<and>
      nd_confidence ?d = ''explicit'' \<and> nd_auto_continue ?d \<and>
      (\<exists>u. known_transition p reg (nd_transition_id ?d) = Some u \<and> evidence_gate p e ?d u = None \<and>
         ledger_gate h p e u (safe_source h e) l = Passed t depth key)"
    using assms by (auto simp: promotion_gate_def stop_at_def Let_def split: if_splits option.splits)
  then show ?thesis using ledger_gate_passed [of h p e _ "safe_source h e" l t depth key]
    by (fastforce simp: gates_passed_def Let_def)
qed

lemma stop_actions: "promotion_gate h p m reg e src l = Stopped s \<Longrightarrow> st_action s \<in> {''refuse'', ''noop''}"
  by (auto simp: promotion_gate_def ledger_gate_def stop_at_def Let_def split: if_splits option.splits)

lemma stop_roadmap:
  assumes "promotion_gate h p m reg e src l = Stopped s"
  shows "st_roadmap s = [] \<or> (\<exists>tid t. known_transition p reg tid = Some t \<and> st_roadmap s = tr_roadmap_id t)"
proof -
  have ledger: "st_roadmap s = tr_roadmap_id t" if "ledger_gate h p e t src l = Stopped s" for t
    using that by (auto simp: ledger_gate_def stop_at_def Let_def split: if_splits option.splits)
  show ?thesis
    using assms by (auto simp: promotion_gate_def stop_at_def Let_def split: if_splits option.splits dest: ledger) blast+
qed

text \<open>The three ways a proposal ends.\<close>

lemma propose_cases:
  assumes "propose_roadmap_promotion h arg reg e l = Inr (r, l')"
  obtains (duplicate) "has_event h (safe_event_id h e) l" "l' = l" "rs_action r = ''noop''" "rs_key r = []"
      "rs_receipt r = None" "rs_prior r = map_option (safe_decision h) (decision_for_event h (safe_event_id h e) l)"
  | (stopped) s :: stop where "\<not> has_event h (safe_event_id h e) l" "rs_action r = st_action s" "st_action s \<in> {''refuse'', ''noop''}"
      "promotion_gate h (fst (coerce_promotion_policy arg)) (snd (coerce_promotion_policy arg)) reg e (safe_source h e) l = Stopped s"
      "l' = record_receipts h (safe_receipt h (mk_promotion_receipt h (st_action s) (st_reason s) (safe_event_id h e)
         (st_roadmap s) (safe_source h e) (ev_occurred_at e) (st_transition s) (st_key s))) l"
      "rs_receipt r = Some (safe_receipt h (safe_receipt h (mk_promotion_receipt h (st_action s) (st_reason s) (safe_event_id h e)
         (st_roadmap s) (safe_source h e) (ev_occurred_at e) (st_transition s) (st_key s))))"
      "rs_key r = []"
  | (proposed) t :: road_transition and depth :: int and plan :: next_slice_plan where "\<not> has_event h (safe_event_id h e) l" "rs_action r = ''propose''"
      "gates_passed h (fst (coerce_promotion_policy arg)) reg e l t depth" "\<not> snd (coerce_promotion_policy arg)"
      "build_plan t (promotion_key h t (safe_source h e) depth) depth (ev_origin e) (ev_return_to e) (safe_source h e) = Inr plan"
      "l' = record_receipts h (propose_receipt h e reg (safe_event_id h e) (safe_source h e) t depth
         (promotion_key h t (safe_source h e) depth)) l"
      "rs_plan r = Some plan" "rs_chain_depth r = depth" "rs_transition_id r = safe_string h ''transition_id'' (tr_id t)"
      "rs_key r = safe_string h ''idempotency_key'' (promotion_key h t (safe_source h e) depth)"
proof (cases "has_event h (safe_event_id h e) l")
  case True
  with assms show ?thesis
    by (intro duplicate) (auto simp: propose_roadmap_promotion_def case_prod_beta safe_result_def mk_result_def Let_def)
next
  case False
  note fresh = this
  obtain p m where pm: "coerce_promotion_policy arg = (p, m)" by (cases "coerce_promotion_policy arg")
  show ?thesis
  proof (cases "promotion_gate h p m reg e (safe_source h e) l")
    case (Stopped s)
    with stop_actions [OF this] assms fresh pm show ?thesis
      by (intro stopped [of s]) (auto simp: propose_roadmap_promotion_def record_and_result_def safe_result_def
          mk_result_def Let_def)
  next
    case (Passed t depth key)
    from promotion_gate_passed [OF this] have g: "\<not> m" "gates_passed h p reg e l t depth"
      "key = promotion_key h t (safe_source h e) depth" by auto
    with assms fresh pm Passed show ?thesis
      by (auto simp: propose_roadmap_promotion_def safe_result_def mk_result_def Let_def split: sum.splits
          intro!: proposed [of t depth])
  qed
qed

lemma known_transition_ok:
  assumes "known_transition p reg tid = Some t"
  shows "validate_transition t = None \<and> tid \<in> set (pp_allowlisted_transitions p) \<and>
    (\<exists>rg. reg = Some rg \<and> dict_get (rg_transitions rg) tid = Some t)"
  using assms by (auto simp: known_transition_def split: option.splits if_splits)

lemma valid_transition_resolves: "validate_transition t = None \<Longrightarrow> \<exists>tmpl. transition_template t = Inr tmpl"
  by (auto simp: validate_transition_def split: if_splits sum.splits)

lemma gates_passed_known: "gates_passed h p reg e l t depth \<Longrightarrow> \<exists>tid. known_transition p reg tid = Some t"
  by (auto simp: gates_passed_def Let_def)

text \<open>A validated transition always resolves, so a proposal raises nothing.\<close>

lemma propose_returns: "\<exists>r l'. propose_roadmap_promotion h arg reg e l = Inr (r, l')"
proof -
  obtain p m where pm: "coerce_promotion_policy arg = (p, m)" by (cases "coerce_promotion_policy arg")
  show ?thesis
  proof (cases "promotion_gate h p m reg e (safe_source h e) l")
    case (Passed t depth key)
    from promotion_gate_passed [OF this] obtain tid where "known_transition p reg tid = Some t"
      using gates_passed_known by blast
    then obtain tmpl where "transition_template t = Inr tmpl"
      using known_transition_ok valid_transition_resolves by blast
    with Passed pm show ?thesis by (auto simp: propose_roadmap_promotion_def build_plan_def Let_def)
  qed (auto simp: propose_roadmap_promotion_def pm Let_def record_and_result_def)
qed

subsection \<open>Bounds along every sequence of reports\<close>

fun run_proposals ::
    "(string \<Rightarrow> string) \<Rightarrow> promotion_policy_arg \<Rightarrow> registry option \<Rightarrow> promotion_event list \<Rightarrow> promotion_ledger \<Rightarrow>
       string + promotion_ledger" where
  "run_proposals h arg reg [] l = Inr l"
| "run_proposals h arg reg (e # es) l =
     (case propose_roadmap_promotion h arg reg e l of
        Inl err \<Rightarrow> Inl err
      | Inr (_, l') \<Rightarrow> run_proposals h arg reg es l')"

definition well_spaced :: "promotion_policy \<Rightarrow> promotion_receipt \<Rightarrow> promotion_receipt \<Rightarrow> bool" where
  "well_spaced p a b \<longleftrightarrow> pr_chain_depth a < pr_chain_depth b \<and>
     of_int (pp_cooldown_seconds p) \<le> pr_created_at b - pr_created_at a"

definition ledger_bounded :: "(string \<Rightarrow> string) \<Rightarrow> promotion_policy \<Rightarrow> promotion_ledger \<Rightarrow> bool" where
  "ledger_bounded h p l \<longleftrightarrow>
     (\<forall>r \<in> set l. 0 \<le> pr_chain_depth r \<and> pr_chain_depth r \<le> pp_max_chain_depth p \<and>
        (pr_decision r = ''propose'' \<longrightarrow> 0 < pr_chain_depth r)) \<and>
     (\<forall>roadmap. int (count_promotions h roadmap l) \<le> pp_max_promotions p \<and>
        sorted_wrt (well_spaced p) (promotions_of h roadmap l))"

lemma fold_max_ge: "x \<in> set (d # ds) \<Longrightarrow> x \<le> fold max ds (d :: 'a :: linorder)"
proof (induction ds arbitrary: d x)
  case (Cons y ys)
  have "max y d \<le> fold max ys (max y d)" by (rule Cons.IH) simp
  moreover have "x \<le> fold max ys (max y d)" if "x \<in> set ys" using that by (intro Cons.IH) simp
  ultimately show ?case using Cons.prems by auto
qed simp

lemma current_depth_ge: "r \<in> set (promotions_of h roadmap l) \<Longrightarrow> pr_chain_depth r \<le> current_chain_depth h roadmap l"
proof -
  assume r: "r \<in> set (promotions_of h roadmap l)"
  let ?ds = "map pr_chain_depth (filter (\<lambda>r. pr_roadmap_id r = safe_ref h roadmap) l)"
  have "pr_chain_depth r \<in> set ?ds" using r by (auto simp: promotions_of_def)
  then obtain d ds where ds: "?ds = d # ds" and x: "pr_chain_depth r \<in> set (d # ds)" by (cases ?ds) auto
  have "pr_chain_depth r \<le> fold max ds d" using x by (rule fold_max_ge)
  then show ?thesis unfolding current_chain_depth_def ds by simp
qed

lemma last_time_ge:
  assumes "r \<in> set (promotions_of h roadmap l)"
  shows "\<exists>t0. last_promotion_time h roadmap l = Some t0 \<and> pr_created_at r \<le> t0"
proof -
  let ?ts = "map pr_created_at (promotions_of h roadmap l)"
  have "pr_created_at r \<in> set ?ts" using assms by auto
  then obtain t ts where ts: "?ts = t # ts" and x: "pr_created_at r \<in> set (t # ts)" by (cases ?ts) auto
  have "pr_created_at r \<le> fold max ts t" using x by (rule fold_max_ge)
  then show ?thesis unfolding last_promotion_time_def ts by simp
qed

lemma depth_nonneg:
  assumes "\<forall>r \<in> set l. 0 \<le> pr_chain_depth r"
  shows "0 \<le> current_chain_depth h roadmap l"
proof (cases "map pr_chain_depth (filter (\<lambda>r. pr_roadmap_id r = safe_ref h roadmap) l)")
  case (Cons d ds)
  have "d \<in> set (map pr_chain_depth (filter (\<lambda>r. pr_roadmap_id r = safe_ref h roadmap) l))" by (simp add: Cons)
  then have "0 \<le> d" using assms by auto
  moreover have "d \<le> fold max ds d" by (rule fold_max_ge) simp
  ultimately show ?thesis by (simp add: current_chain_depth_def Cons)
qed (simp add: current_chain_depth_def)

lemma promotions_of_record:
  "promotions_of h roadmap (record_receipts h r l) =
     promotions_of h roadmap l @ (if pr_roadmap_id (safe_receipt h r) = safe_ref h roadmap \<and>
       pr_decision (safe_receipt h r) = ''propose'' then [safe_receipt h r] else [])"
  by (simp add: promotions_of_def record_receipts_def)

lemma stopped_decision:
  assumes "st_action s \<in> {''refuse'', ''noop''}"
  shows "pr_decision (safe_receipt h (safe_receipt h (mk_promotion_receipt h (st_action s) a b c d e f g))) \<noteq> ''propose''"
    and "pr_chain_depth (safe_receipt h (safe_receipt h (mk_promotion_receipt h (st_action s) a b c d e f g))) = 0"
  using assms by (auto simp: safe_receipt_def mk_promotion_receipt_def Let_def)

lemma proposed_receipt:
  assumes "clean_ref (tr_roadmap_id t)"
  shows "pr_roadmap_id (safe_receipt h (propose_receipt h e reg ev src t depth key)) = tr_roadmap_id t"
    and "pr_decision (safe_receipt h (propose_receipt h e reg ev src t depth key)) = ''propose''"
    and "pr_chain_depth (safe_receipt h (propose_receipt h e reg ev src t depth key)) = depth"
    and "pr_created_at (safe_receipt h (propose_receipt h e reg ev src t depth key)) = ev_occurred_at e"
  using assms by (simp_all add: safe_receipt_def propose_receipt_def mk_promotion_receipt_def Let_def)

lemma propose_bounded:
  assumes ok: "ledger_bounded h p l" and p: "coerce_promotion_policy (Promotion_Given p) = (p, False)"
    and clean: "\<forall>t \<in> snd ` set (rg_transitions rg). clean_ref (tr_roadmap_id t)"
    and step: "propose_roadmap_promotion h (Promotion_Given p) (Some rg) e l = Inr (r, l')"
  shows "ledger_bounded h p l'"
  using step
proof (cases rule: propose_cases)
  case duplicate
  with ok show ?thesis by simp
next
  case (stopped s)
  have "0 \<le> pp_max_chain_depth p" using p by (auto simp: coerce_promotion_policy_def split: if_splits)
  with ok stopped_decision [OF stopped(3)] show ?thesis unfolding stopped(5)
    by (auto simp: ledger_bounded_def count_promotions_def promotions_of_record)
      (auto simp: record_receipts_def)
next
  case (proposed t depth plan)
  have g: "gates_passed h p (Some rg) e l t depth" using proposed(3) p by simp
  from gates_passed_known [OF this] obtain tid where "dict_get (rg_transitions rg) tid = Some t"
    using known_transition_ok by fastforce
  then have "(tid, t) \<in> set (rg_transitions rg)" by (auto simp: dict_get_def dest: map_of_SomeD)
  then have c: "clean_ref (tr_roadmap_id t)" using clean by force
  let ?x = "safe_receipt h (propose_receipt h e (Some rg) (safe_event_id h e) (safe_source h e) t depth
    (promotion_key h t (safe_source h e) depth))"
  note x = proposed_receipt [OF c]
  have depth: "current_chain_depth h (tr_roadmap_id t) l < depth" "depth \<le> pp_max_chain_depth p"
    using g by (auto simp: gates_passed_def effective_depth_def Let_def)
  have pos: "0 < depth" using depth depth_nonneg [of l h "tr_roadmap_id t"] ok by (force simp: ledger_bounded_def)
  have "well_spaced p a ?x" if "a \<in> set (promotions_of h (tr_roadmap_id t) l)" for a
    using current_depth_ge [OF that] last_time_ge [OF that] depth g
    by (fastforce simp: well_spaced_def x gates_passed_def Let_def)
  moreover have "int (count_promotions h (tr_roadmap_id t) l) < pp_max_promotions p"
    using g by (simp add: gates_passed_def Let_def)
  moreover have "promotions_of h roadmap l' = promotions_of h roadmap l @
      (if tr_roadmap_id t = safe_ref h roadmap then [?x] else [])" for roadmap
    unfolding proposed(6) by (simp add: promotions_of_record x)
  moreover have "promotions_of h roadmap l = promotions_of h (tr_roadmap_id t) l" if "tr_roadmap_id t = safe_ref h roadmap" for roadmap
    using that c by (simp add: promotions_of_def)
  ultimately have "int (count_promotions h roadmap l') \<le> pp_max_promotions p \<and> sorted_wrt (well_spaced p) (promotions_of h roadmap l')"
    for roadmap using ok by (cases "tr_roadmap_id t = safe_ref h roadmap")
      (auto simp: ledger_bounded_def count_promotions_def sorted_wrt_append)
  then show ?thesis using ok pos depth unfolding ledger_bounded_def
    by (auto simp: proposed(6) record_receipts_def x)
qed

lemma run_proposals_bounded:
  assumes p: "coerce_promotion_policy (Promotion_Given p) = (p, False)"
    and clean: "\<forall>t \<in> snd ` set (rg_transitions rg). clean_ref (tr_roadmap_id t)"
    and run: "run_proposals h (Promotion_Given p) (Some rg) es l = Inr l'" and ok: "ledger_bounded h p l"
  shows "ledger_bounded h p l'"
  using run ok
proof (induction es arbitrary: l)
  case (Cons e es)
  then obtain r l1 where "propose_roadmap_promotion h (Promotion_Given p) (Some rg) e l = Inr (r, l1)"
    "run_proposals h (Promotion_Given p) (Some rg) es l1 = Inr l'"
    by (auto split: sum.splits)
  with Cons propose_bounded [OF _ p clean] show ?case by blast
qed simp

lemma run_proposals_returns: "\<exists>l'. run_proposals h arg reg es l = Inr l'"
proof (induction es arbitrary: l)
  case (Cons e es)
  obtain r l1 where "propose_roadmap_promotion h arg reg e l = Inr (r, l1)" using propose_returns by blast
  with Cons show ?case by simp
qed simp

text \<open>
  C19: promotions are bounded. Whatever reports arrive, none makes the proposer raise, and in the
  ledger they leave, a roadmap whose id is stored unchanged has at most the allowed number of
  promotions, each at a depth from one to the allowed one, each deeper than the one before and
  separated from it by the cool-down.
\<close>

theorem promotions_bounded:
  assumes "coerce_promotion_policy (Promotion_Given p) = (p, False)"
    and "\<forall>t \<in> snd ` set (rg_transitions rg). clean_ref (tr_roadmap_id t)"
  shows "\<exists>l. run_proposals h (Promotion_Given p) (Some rg) es [] = Inr l \<and>
    (\<forall>roadmap. int (length (promotions_of h roadmap l)) \<le> pp_max_promotions p \<and>
       sorted_wrt (\<lambda>a b. pr_chain_depth a < pr_chain_depth b \<and>
         of_int (pp_cooldown_seconds p) \<le> pr_created_at b - pr_created_at a) (promotions_of h roadmap l) \<and>
       (\<forall>r \<in> set (promotions_of h roadmap l). 1 \<le> pr_chain_depth r \<and> pr_chain_depth r \<le> pp_max_chain_depth p))"
proof -
  obtain l where l: "run_proposals h (Promotion_Given p) (Some rg) es [] = Inr l" using run_proposals_returns by blast
  have "0 \<le> pp_max_promotions p" using assms(1) by (auto simp: coerce_promotion_policy_def split: if_splits)
  then have "ledger_bounded h p []" by (simp add: ledger_bounded_def count_promotions_def promotions_of_def)
  from run_proposals_bounded [OF assms l this] have ok: "ledger_bounded h p l" .
  then have "int (length (promotions_of h roadmap l)) \<le> pp_max_promotions p \<and>
       sorted_wrt (\<lambda>a b. pr_chain_depth a < pr_chain_depth b \<and>
         of_int (pp_cooldown_seconds p) \<le> pr_created_at b - pr_created_at a) (promotions_of h roadmap l)" for roadmap
    by (simp add: ledger_bounded_def count_promotions_def well_spaced_def [abs_def])
  moreover have "1 \<le> pr_chain_depth r \<and> pr_chain_depth r \<le> pp_max_chain_depth p"
    if "r \<in> set (promotions_of h roadmap l)" for r roadmap
    using ok that by (force simp: ledger_bounded_def promotions_of_def)
  ultimately show ?thesis using l by blast
qed

text \<open>The conditions of a promotion, as a list: what policy, report, registry, event and ledger must show.\<close>

definition promotable ::
    "(string \<Rightarrow> string) \<Rightarrow> promotion_policy \<Rightarrow> registry \<Rightarrow> promotion_event \<Rightarrow> road_transition \<Rightarrow> promotion_ledger \<Rightarrow> bool" where
  "promotable h p rg e t l \<longleftrightarrow>
     (let src = safe_source h e; d = parse_next_slice_directive h (ev_summary e) src;
          depth = effective_depth h e t l
      in pp_auto_continue p \<and>
         str_or (pv_verdict (parse_verdict_summary (ev_summary e) src)) (extract_verdict (ev_summary e)) = ''GO'' \<and>
         nd_confidence d = ''explicit'' \<and> nd_auto_continue d \<and>
         nd_transition_id d \<in> set (pp_allowlisted_transitions p) \<and>
         dict_get (rg_transitions rg) (nd_transition_id d) = Some t \<and> validate_transition t = None \<and>
         nd_next_slice d = tr_to_slice t \<and>
         summary_origin_evidence_ok (ev_summary e) p \<and> origin_ok (ev_origin e) (ev_return_to e) p \<and>
         (pp_require_review_edge p \<longrightarrow> nd_review_edge d \<and> nd_parent_go d) \<and>
         (pp_require_ack_edge p \<longrightarrow> nd_ack_edge d \<and> ev_subscription_status e = ''verified'') \<and>
         (pp_require_trusted_assignee p \<longrightarrow> ev_source_assignee e \<in> set (pp_trusted_assignees p)) \<and>
         (pp_require_policy_resolution p \<longrightarrow> ev_policy_resolution_ref e \<noteq> []) \<and>
         \<not> re_test STALE_INLINE_POLICY_RE (ev_summary e) \<and>
         depth < pp_max_chain_depth p \<and> depth < tr_max_chain_depth t \<and>
         int (count_promotions h (tr_roadmap_id t) l) < pp_max_promotions p \<and>
         (case last_promotion_time h (tr_roadmap_id t) l of
            None \<Rightarrow> True | Some t0 \<Rightarrow> of_int (pp_cooldown_seconds p) \<le> ev_occurred_at e - t0) \<and>
         \<not> has_promotion_key h (promotion_key h t src (depth + 1)) l)"

lemma evidence_gate_open: "evidence_gate p e d t = None \<longleftrightarrow>
    nd_next_slice d = tr_to_slice t \<and> summary_origin_evidence_ok (ev_summary e) p \<and>
    origin_ok (ev_origin e) (ev_return_to e) p \<and>
    (pp_require_review_edge p \<longrightarrow> nd_review_edge d \<and> nd_parent_go d) \<and>
    (pp_require_ack_edge p \<longrightarrow> nd_ack_edge d \<and> ev_subscription_status e = ''verified'') \<and>
    (pp_require_trusted_assignee p \<longrightarrow> ev_source_assignee e \<in> set (pp_trusted_assignees p)) \<and>
    (pp_require_policy_resolution p \<longrightarrow> ev_policy_resolution_ref e \<noteq> []) \<and>
    \<not> re_test STALE_INLINE_POLICY_RE (ev_summary e)"
  by (auto simp: evidence_gate_def)

lemma ledger_gate_open: "(\<exists>u depth key. ledger_gate h p e t src l = Passed u depth key) \<longleftrightarrow>
    effective_depth h e t l < pp_max_chain_depth p \<and> effective_depth h e t l < tr_max_chain_depth t \<and>
    int (count_promotions h (tr_roadmap_id t) l) < pp_max_promotions p \<and>
    (case last_promotion_time h (tr_roadmap_id t) l of
       None \<Rightarrow> True | Some t0 \<Rightarrow> of_int (pp_cooldown_seconds p) \<le> ev_occurred_at e - t0) \<and>
    \<not> has_promotion_key h (promotion_key h t src (effective_depth h e t l + 1)) l"
  by (auto simp: ledger_gate_def stop_at_def Let_def split: if_splits option.splits)

lemma promotion_gate_open: "(\<exists>t depth key. promotion_gate h p m (Some rg) e (safe_source h e) l = Passed t depth key) \<longleftrightarrow>
    \<not> m \<and> (\<exists>t. promotable h p rg e t l)"
proof -
  let ?d = "parse_next_slice_directive h (ev_summary e) (safe_source h e)"
  let ?go = "str_or (pv_verdict (parse_verdict_summary (ev_summary e) (safe_source h e))) (extract_verdict (ev_summary e)) = ''GO''"
  have "(\<exists>t depth key. promotion_gate h p m (Some rg) e (safe_source h e) l = Passed t depth key) \<longleftrightarrow>
      \<not> m \<and> ?go \<and> pp_auto_continue p \<and> nd_confidence ?d = ''explicit'' \<and> nd_auto_continue ?d \<and>
      (\<exists>t. known_transition p (Some rg) (nd_transition_id ?d) = Some t \<and> evidence_gate p e ?d t = None \<and>
         (\<exists>u depth key. ledger_gate h p e t (safe_source h e) l = Passed u depth key))"
    by (auto simp: promotion_gate_def stop_at_def Let_def split: if_splits option.splits)
  also have "\<dots> \<longleftrightarrow> \<not> m \<and> (\<exists>t. promotable h p rg e t l)"
    unfolding ledger_gate_open evidence_gate_open promotable_def Let_def
    by (auto simp: known_transition_def split: if_splits option.splits)
  finally show ?thesis .
qed

text \<open>
  C18: a promotion happens exactly when every gate is open. A report is turned into a promotion if and
  only if it was not decided before, the policy is well formed, the registry loaded, and policy,
  report, registry entry, event and ledger satisfy the whole list of conditions above: the verdict
  is GO, the directive is explicit and asks for it, the transition is allowed, known and names
  exactly this next slice, origins match, the required edges, subscription, assignee and resolution
  are there, the report has no stale route, and depth, number, cool-down and key leave room. A
  promotion is recorded one level deeper; every other report leaves no promotion in the ledger.
\<close>

theorem promotion_gated:
  assumes "propose_roadmap_promotion h arg reg e l = Inr (r, l')"
  shows "(rs_action r = ''propose'' \<longleftrightarrow>
      \<not> has_event h (safe_event_id h e) l \<and> \<not> snd (coerce_promotion_policy arg) \<and>
      (\<exists>p rg t. arg = Promotion_Given p \<and> reg = Some rg \<and> promotable h p rg e t l)) \<and>
    (if rs_action r = ''propose''
     then \<exists>t. rs_chain_depth r = effective_depth h e t l + 1 \<and>
        l' = record_receipts h (propose_receipt h e reg (safe_event_id h e) (safe_source h e) t (rs_chain_depth r)
          (promotion_key h t (safe_source h e) (rs_chain_depth r))) l
     else \<forall>x \<in> set (drop (length l) l'). pr_decision x \<noteq> ''propose'')"
proof -
  have given: "\<exists>p rg. arg = Promotion_Given p \<and> reg = Some rg \<and> fst (coerce_promotion_policy arg) = p"
    if "promotion_gate h (fst (coerce_promotion_policy arg)) m reg e src l = Passed t depth key" for m src t depth key
  proof -
    have "pp_auto_continue (fst (coerce_promotion_policy arg))" and "reg \<noteq> None"
      using that by (auto simp: promotion_gate_def stop_at_def known_transition_def Let_def split: if_splits option.splits)
    then show ?thesis
      by (cases arg; cases reg) (auto simp: coerce_promotion_policy_def default_promotion_policy_def split: if_splits)
  qed
  from assms show ?thesis
  proof (cases rule: propose_cases)
    case duplicate
    then show ?thesis by simp
  next
    case (stopped s)
    have "\<not> (\<not> snd (coerce_promotion_policy arg) \<and> (\<exists>p rg t. arg = Promotion_Given p \<and> reg = Some rg \<and> promotable h p rg e t l))"
    proof
      assume a: "\<not> snd (coerce_promotion_policy arg) \<and> (\<exists>p rg t. arg = Promotion_Given p \<and> reg = Some rg \<and> promotable h p rg e t l)"
      then obtain p rg t where p: "arg = Promotion_Given p" "reg = Some rg" "promotable h p rg e t l"
        "fst (coerce_promotion_policy arg) = p"
        by (auto simp: coerce_promotion_policy_def split: if_splits)
      with a stopped(4) promotion_gate_open [of h p "snd (coerce_promotion_policy arg)" rg e l] show False by auto
    qed
    moreover from stopped have "rs_action r \<noteq> ''propose''" by auto
    ultimately show ?thesis using stopped_decision(1) [OF stopped(3)] by (auto simp: stopped(5) record_receipts_def)
  next
    case (proposed t depth plan)
    have "\<exists>u depth key. promotion_gate h (fst (coerce_promotion_policy arg)) (snd (coerce_promotion_policy arg)) reg e
        (safe_source h e) l = Passed u depth key"
      using assms proposed(1,2)
      by (auto simp: propose_roadmap_promotion_def case_prod_beta Let_def record_and_result_def safe_result_def mk_result_def
          dest!: stop_actions split: gate_result.splits)
    then obtain p rg where p: "arg = Promotion_Given p" "reg = Some rg" "\<exists>u. promotable h p rg e u l"
      using given promotion_gate_open by metis
    have "depth = effective_depth h e t l + 1" using proposed(3) by (simp add: gates_passed_def Let_def)
    then have "\<exists>t. rs_chain_depth r = effective_depth h e t l + 1 \<and>
        l' = record_receipts h (propose_receipt h e reg (safe_event_id h e) (safe_source h e) t (rs_chain_depth r)
          (promotion_key h t (safe_source h e) (rs_chain_depth r))) l"
      using proposed(6,8) by (intro exI [of _ t]) simp
    moreover have "\<not> has_event h (safe_event_id h e) l \<and> \<not> snd (coerce_promotion_policy arg) \<and>
        (\<exists>p rg t. arg = Promotion_Given p \<and> reg = Some rg \<and> promotable h p rg e t l)"
      using p proposed(1,4) by blast
    ultimately show ?thesis unfolding proposed(2) by simp
  qed
qed

subsection \<open>A roadmap whose id is not stored unchanged\<close>

definition spaced_roadmap :: string where
  "spaced_roadmap = ''road map''"

lemma spaced_roadmap_stored: "safe_string h ''roadmap_id'' spaced_roadmap = spaced_roadmap"
proof -
  have "short_text 2000 spaced_roadmap = spaced_roadmap" "\<not> contains_sensitive_text spaced_roadmap"
    "\<not> ends_with ''ref'' (py_lower ''roadmap_id'')" "\<not> ends_with ''_ref'' (py_lower ''roadmap_id'')"
    "py_lower ''roadmap_id'' \<notin> {''raw_ref'', ''source_ref''}" "spaced_roadmap \<noteq> []"
    by (code_simp, code_simp, code_simp, code_simp, code_simp, code_simp)
  then show ?thesis by (simp add: safe_string_def safe_job_field_def Let_def)
qed

lemma spaced_roadmap_looked_up: "safe_ref h spaced_roadmap = ''ref:sha256:'' @ take 16 (h (spaced_roadmap @ '':''))"
proof -
  have "short_text 240 spaced_roadmap = spaced_roadmap" "spaced_roadmap \<noteq> []" "\<not> safe_ref_text spaced_roadmap"
    by (code_simp, code_simp, code_simp)
  then show ?thesis by (simp add: safe_ref_def safe_durable_ref_def Let_def)
qed

text \<open>
  the limits of a roadmap do not hold when its id has a space. Receipts store such an id as it
  is, the three look-ups hash it, so that after any number of reports the proposer counts no
  promotion of it, sees depth zero and no earlier promotion.
\<close>

theorem spaced_roadmap_unbounded:
  assumes "\<forall>t \<in> snd ` set (rg_transitions rg). tr_roadmap_id t = spaced_roadmap"
    and "run_proposals h arg (Some rg) es [] = Inr l"
  shows "count_promotions h spaced_roadmap l = 0 \<and> current_chain_depth h spaced_roadmap l = 0 \<and>
    last_promotion_time h spaced_roadmap l = None"
proof -
  have "set (map pr_roadmap_id l') \<subseteq> {[], spaced_roadmap}"
    if "set (map pr_roadmap_id l0) \<subseteq> {[], spaced_roadmap}" "run_proposals h arg (Some rg) es l0 = Inr l'" for es l0 l'
    using that
  proof (induction es arbitrary: l0)
    case (Cons e es)
    then obtain r l1 where step: "propose_roadmap_promotion h arg (Some rg) e l0 = Inr (r, l1)"
      and rest: "run_proposals h arg (Some rg) es l1 = Inr l'" by (auto split: sum.splits)
    have in_reg: "tr_roadmap_id t = spaced_roadmap" if "known_transition p (Some rg) tid = Some t" for p tid t
    proof -
      from known_transition_ok [OF that] have "(tid, t) \<in> set (rg_transitions rg)"
        by (auto simp: dict_get_def dest: map_of_SomeD)
      with assms(1) show ?thesis by force
    qed
    from step have "set (map pr_roadmap_id l1) \<subseteq> {[], spaced_roadmap}"
    proof (cases rule: propose_cases)
      case (stopped s)
      have "st_roadmap s \<in> {[], spaced_roadmap}" using stop_roadmap [OF stopped(4)] in_reg by auto
      with Cons.prems(1) show ?thesis unfolding stopped(5)
        by (auto simp: record_receipts_def safe_receipt_def mk_promotion_receipt_def Let_def spaced_roadmap_stored)
    next
      case (proposed t depth plan)
      from gates_passed_known [OF proposed(3)] in_reg have "tr_roadmap_id t = spaced_roadmap" by blast
      with Cons.prems(1) show ?thesis unfolding proposed(6)
        by (auto simp: record_receipts_def safe_receipt_def propose_receipt_def mk_promotion_receipt_def Let_def spaced_roadmap_stored)
    qed (use Cons.prems in simp)
    with rest show ?case by (rule Cons.IH [rotated])
  qed simp
  from this [of "[]" es l] assms(2) have ids: "set (map pr_roadmap_id l) \<subseteq> {[], spaced_roadmap}" by simp
  have "safe_ref h spaced_roadmap \<notin> {[], spaced_roadmap}"
    unfolding spaced_roadmap_looked_up by (simp add: spaced_roadmap_def)
  with ids have "filter (\<lambda>r. pr_roadmap_id r = safe_ref h spaced_roadmap) l = []"
    "promotions_of h spaced_roadmap l = []"
    by (auto simp: filter_empty_conv promotions_of_def)
  then show ?thesis by (simp add: count_promotions_def current_chain_depth_def last_promotion_time_def)
qed

subsection \<open>One decision per report\<close>

lemma recorded_event:
  assumes "clean_ref (safe_event_id h e)"
  shows "pr_event_id (safe_receipt h (safe_receipt h (mk_promotion_receipt h a b (safe_event_id h e) c d f g k))) = safe_event_id h e"
    and "pr_event_id (safe_receipt h (propose_receipt h e reg (safe_event_id h e) src t depth key)) = safe_event_id h e"
  using assms by (simp_all add: safe_receipt_def mk_promotion_receipt_def propose_receipt_def Let_def)

lemma propose_records_event:
  assumes c: "clean_ref (safe_event_id h e)" and "propose_roadmap_promotion h arg reg e l = Inr (r, l')"
  shows "has_event h (safe_event_id h e) l'"
  using assms(2)
proof (cases rule: propose_cases)
  case duplicate
  then show ?thesis by simp
next
  case (stopped s)
  show ?thesis unfolding stopped(5)
    using c by (simp add: has_event_def record_receipts_def recorded_event)
next
  case (proposed t depth plan)
  show ?thesis unfolding proposed(6)
    using c by (simp add: has_event_def record_receipts_def recorded_event)
qed

lemma propose_duplicate:
  "has_event h (safe_event_id h e) l \<Longrightarrow> \<exists>r. propose_roadmap_promotion h arg reg e l = Inr (r, l) \<and>
     rs_action r = ''noop'' \<and> rs_key r = [] \<and> rs_receipt r = None \<and>
     rs_prior r = map_option (safe_decision h) (decision_for_event h (safe_event_id h e) l)"
  by (simp add: propose_roadmap_promotion_def case_prod_beta Let_def safe_result_def mk_result_def)

text \<open>
  a report is decided once. After the proposer has seen a report, the same report under any
  policy and registry is a no-op that leaves the ledger as it is, provided its event id is one that
  the sanitiser stores unchanged.
\<close>

theorem report_decided_once:
  assumes "clean_ref (safe_event_id h e)" and "propose_roadmap_promotion h arg reg e l = Inr (r, l')"
    and "safe_event_id h e' = safe_event_id h e"
  shows "\<exists>r'. propose_roadmap_promotion h arg' reg' e' l' = Inr (r', l') \<and> rs_action r' = ''noop''"
  using propose_records_event [OF assms(1,2)] propose_duplicate [of h e' l' arg' reg'] assms(3) by auto

subsection \<open>A plan is a chain\<close>

lemma plan_steps_map:
  "map gi_kind (plan_steps t tmpl key d o1 o2 src par ss) = map ts_kind ss"
  "map gi_key (plan_steps t tmpl key d o1 o2 src par ss) = map (plan_step_key key) (map ts_kind ss)"
  "map gi_parent_key (plan_steps t tmpl key d o1 o2 src par ss) =
     (if ss = [] then [] else par # map (plan_step_key key) (map ts_kind (butlast ss)))"
  by (induction ss arbitrary: par) (auto simp: plan_intent_def)

definition chained :: "graph_intent list \<Rightarrow> bool" where
  "chained is \<longleftrightarrow> distinct (map gi_key is) \<and>
     map gi_parent_key is = (if is = [] then [] else [] # map gi_key (butlast is))"

lemma plan_is_chain_kinds:
  assumes "build_plan t key depth origin return_to src = Inr plan"
  shows "\<exists>tmpl. transition_template t = Inr tmpl \<and> map gi_kind (np_candidates plan) = rt_slice_template tmpl"
  using assms by (auto simp: build_plan_def plan_steps_map rt_slice_template_def split: sum.splits)

text \<open>
  a plan is a reviewed chain. Its tasks have distinct keys, the first has no parent and every
  other one hangs on the task before it; their kinds are the steps of a template with exactly one
  review and the terminal step at the end; all carry the transition's policy references and ask
  for a subscription.
\<close>

theorem plan_is_reviewed_chain:
  assumes "build_plan t key depth origin return_to src = Inr plan"
  shows "chained (np_candidates plan) \<and> np_candidates plan \<noteq> [] \<and>
    (\<exists>tmpl. transition_template t = Inr tmpl \<and> template_ok tmpl \<and>
       map gi_kind (np_candidates plan) = rt_slice_template tmpl) \<and>
    (\<forall>i \<in> set (np_candidates plan). gi_policy_refs i = tr_policy_refs t \<and> gi_subscription_required i)"
proof -
  from assms obtain tmpl where tmpl: "transition_template t = Inr tmpl"
    and cs: "np_candidates plan = plan_steps t tmpl key depth origin return_to src [] (rt_steps tmpl)"
    by (auto simp: build_plan_def split: sum.splits)
  have ok: "template_ok tmpl" using tmpl resolve_template_ok by (auto simp: transition_template_def)
  have inj: "inj (plan_step_key key)" by (auto simp: inj_def plan_step_key_def)
  have keys: "map gi_key (np_candidates plan) = map (plan_step_key key) (rt_slice_template tmpl)"
    unfolding cs plan_steps_map rt_slice_template_def by simp
  have "distinct (map gi_key (np_candidates plan))"
    unfolding keys using ok inj by (simp add: template_ok_def distinct_map inj_on_def)
  moreover have "np_candidates plan \<noteq> []"
    using arg_cong [OF plan_steps_map(1), of length t tmpl key depth origin return_to src "[]" "rt_steps tmpl"] ok
    by (auto simp: cs template_ok_def)
  moreover from this have "map gi_parent_key (np_candidates plan) = [] # map gi_key (butlast (np_candidates plan))"
  proof -
    have "map gi_key (butlast (np_candidates plan)) = butlast (map (plan_step_key key) (map ts_kind (rt_steps tmpl)))"
      using keys by (simp add: map_butlast rt_slice_template_def)
    moreover have "map gi_parent_key (np_candidates plan) = [] # map (plan_step_key key) (map ts_kind (butlast (rt_steps tmpl)))"
      unfolding cs plan_steps_map using ok by (simp add: template_ok_def)
    ultimately show ?thesis by (simp add: map_butlast)
  qed
  moreover have "gi_policy_refs i = tr_policy_refs t \<and> gi_subscription_required i"
    if "i \<in> set (plan_steps t tmpl key depth origin return_to src par ss)" for i par ss
    using that by (induction ss arbitrary: par) (auto simp: plan_intent_def)
  ultimately show ?thesis
    using ok tmpl cs by (auto simp: chained_def plan_steps_map rt_slice_template_def)
qed

subsection \<open>Applying a plan\<close>

text \<open>The calls an adapter sees, and the state they leave.\<close>

fun call_all :: "'w graph_adapter \<Rightarrow> graph_intent list \<Rightarrow> 'w \<Rightarrow> 'w" where
  "call_all a [] w = w"
| "call_all a (i # is) w = call_all a is (snd (ga_create a i w))"

lemma create_tasks_calls:
  "\<exists>js. map gi_key js = map gi_key (take (length js) is) \<and> length js \<le> length is \<and>
     snd (create_tasks a t p is ids made w) = call_all a js w \<and>
     (\<forall>cs. fst (create_tasks a t p is ids made w) = Created cs \<longrightarrow>
        length js = length is \<and> (\<exists>new. cs = made @ new \<and> map cr_key new = map gi_key is))"
proof (induction "is" arbitrary: ids made w)
  case Nil
  show ?case by (rule exI [of _ "[]"]) simp
next
  case (Cons i "is")
  show ?case
  proof (cases "apply_task_profile (gi_kind i) t p")
    case (Inl e)
    then show ?thesis by (intro exI [of _ "[]"]) simp
  next
    case (Inr prof)
    obtain r w' where c: "ga_create a (enrich_intent i prof) w = (r, w')"
      by (cases "ga_create a (enrich_intent i prof) w")
    have key: "gi_key (enrich_intent i prof) = gi_key i" by (simp add: enrich_intent_def case_prod_beta)
    show ?thesis
    proof (cases "dict_get r ''success'' = Some (JBool True) \<and> get_str r ''task_id'' \<noteq> []")
      case False
      with Inr c key show ?thesis by (intro exI [of _ "[enrich_intent i prof]"]) (auto simp: Let_def)
    next
      case True
      let ?task = "get_str r ''task_id''"
      from Cons.IH [of "dict_set (gi_key i) ?task ids" "made @ [mk_created i prof ids ?task]" w'] obtain js where js:
        "map gi_key js = map gi_key (take (length js) is)" "length js \<le> length is"
        "snd (create_tasks a t p is (dict_set (gi_key i) ?task ids) (made @ [mk_created i prof ids ?task]) w') = call_all a js w'"
        "\<forall>cs. fst (create_tasks a t p is (dict_set (gi_key i) ?task ids) (made @ [mk_created i prof ids ?task]) w') = Created cs \<longrightarrow>
          length js = length is \<and> (\<exists>new. cs = (made @ [mk_created i prof ids ?task]) @ new \<and> map cr_key new = map gi_key is)"
        by blast
      have "cr_key (mk_created i prof ids ?task) = gi_key i" by (simp add: mk_created_def case_prod_beta)
      with js True Inr c key show ?thesis
        by (intro exI [of _ "enrich_intent i prof # js"]) (auto simp: Let_def)
    qed
  qed
qed

text \<open>Applying the built plan either leaves the applied graphs alone or records the whole graph.\<close>

lemma apply_plan_cases:
  assumes run: "apply_plan h a recorder p rg t e proposal key l' s = Inr (outcome, s')"
  obtains (short) "as_applied s' = as_applied s"
      "case outcome of Not_Applied r _ _ \<Rightarrow> as_board s' = as_board s
        | Apply_Failed r _ _ _ \<Rightarrow> as_ledger s' = as_ledger s | _ \<Rightarrow> False"
    | (whole) plan entry where
      "build_plan t key (rs_chain_depth proposal) (ev_origin e) (ev_return_to e) (safe_source h e) = Inr plan"
      "int (length (np_candidates plan)) \<le> pp_max_apply_tasks p"
      "outcome = Applied (safe_result h proposal) key entry" "length (al_tasks entry) = length (np_candidates plan)"
      "as_ledger s' = l'" "as_applied s' = dict_set (safe_ref h key) entry (as_applied s)"
proof -
  from run obtain plan where plan:
    "build_plan t key (rs_chain_depth proposal) (ev_origin e) (ev_return_to e) (safe_source h e) = Inr plan"
    by (auto simp: apply_plan_def split: sum.splits)
  obtain c w where cw: "create_tasks a t p (np_candidates plan) [] [] (as_board s) = (c, w)"
    by (cases "create_tasks a t p (np_candidates plan) [] [] (as_board s)")
  show ?thesis
  proof (cases "pp_max_apply_tasks p < int (length (np_candidates plan))")
    case True
    with run plan show ?thesis by (intro short) (auto simp: apply_plan_def)
  next
    case False
    note fits = this
    show ?thesis
    proof (cases c)
      case (Creation_Raises err)
      with run plan cw fits show ?thesis by (simp add: apply_plan_def)
    next
      case (Creation_Failed reason ids)
      with run plan cw fits show ?thesis by (intro short) (auto simp: apply_plan_def)
    next
      case (Created made)
      from create_tasks_calls [of "np_candidates plan" a t p "[]" "[]" "as_board s"] cw Created
      have "length made = length (np_candidates plan)" by (auto dest: map_eq_imp_length_eq)
      with run plan cw fits Created show ?thesis
        by (intro whole) (auto simp: apply_plan_def apply_record_def safe_entry_def Let_def)
    qed
  qed
qed

text \<open>A call reaches the plan only when the promotion is new, proposed, armed and given an adapter.\<close>

lemma apply_promotion_cases:
  assumes run: "apply_roadmap_promotion h adapter recorder arg reg e s = Inr (outcome, s')"
    and proposed: "propose_roadmap_promotion h arg reg e (as_ledger s) = Inr (proposal, l')"
  obtains (early) "as_applied s' = as_applied s" "as_board s' = as_board s"
      "case outcome of Not_Applied r _ _ \<Rightarrow> True | Apply_Duplicate r _ _ \<Rightarrow> s' = s | _ \<Rightarrow> False"
    | (planned) a rg t where "rs_action proposal = ''propose''" "pp_apply_enabled (fst (coerce_promotion_policy arg))"
      "apply_plan h a recorder (fst (coerce_promotion_policy arg)) rg t e proposal (key_of_proposal proposal) l' s
        = Inr (outcome, s')"
proof (cases "(if key_of_proposal proposal = [] then None else apply_get h (key_of_proposal proposal) (as_applied s)) = None \<and>
    rs_action proposal = ''propose'' \<and> pp_apply_enabled (fst (coerce_promotion_policy arg)) \<and>
    Option.bind reg (\<lambda>rg. map_option (Pair rg) (dict_get (rg_transitions rg) (rs_transition_id proposal))) \<noteq> None \<and>
    adapter \<noteq> None")
  case False
  with run proposed show ?thesis
    by (intro early) (auto simp: apply_roadmap_promotion_def Let_def split: option.splits if_splits)
next
  case True
  then obtain rgt a where "Option.bind reg (\<lambda>rg. map_option (Pair rg) (dict_get (rg_transitions rg) (rs_transition_id proposal)))
      = Some rgt" "adapter = Some a" by blast
  with run proposed True show ?thesis
    by (intro planned [of a "fst rgt" "snd rgt"])
      (auto simp: apply_roadmap_promotion_def Let_def split: if_splits prod.splits)
qed

text \<open>
  C20: a plan is applied whole or not at all. Unless every task of the plan was created, the
  application reports no applied graph and its ledger stays as it was; a failure of the board
  leaves the promotion ledger as it was too. An applied graph has one task per step of a plan that
  passed every gate and is recorded under the key of the promotion.
\<close>

theorem apply_all_or_nothing:
  assumes "apply_roadmap_promotion h adapter recorder arg reg e s = Inr (outcome, s')"
  shows "(case outcome of
      Not_Applied r _ _ \<Rightarrow> as_applied s' = as_applied s \<and> as_board s' = as_board s
    | Apply_Failed r _ _ _ \<Rightarrow> as_applied s' = as_applied s \<and> as_ledger s' = as_ledger s
    | Apply_Duplicate r _ _ \<Rightarrow> s' = s
    | Applied r key entry \<Rightarrow>
        (\<exists>p t plan. arg = Promotion_Given p \<and> pp_apply_enabled p \<and>
           build_plan t key (rs_chain_depth r) (ev_origin e) (ev_return_to e) (safe_source h e) = Inr plan \<and>
           length (al_tasks entry) = length (np_candidates plan) \<and>
           int (length (np_candidates plan)) \<le> pp_max_apply_tasks p \<and>
           as_applied s' = dict_set (safe_ref h key) entry (as_applied s) \<and>
           length (as_ledger s') = Suc (length (as_ledger s))))"
proof -
  obtain proposal l' where proposed: "propose_roadmap_promotion h arg reg e (as_ledger s) = Inr (proposal, l')"
    using propose_returns by blast
  from assms proposed show ?thesis
  proof (cases rule: apply_promotion_cases)
    case early
    then show ?thesis by (cases outcome) auto
  next
    case (planned a rg t)
    note armed = planned(1,2)
    from planned(3) show ?thesis
    proof (cases rule: apply_plan_cases)
      case short
      then show ?thesis by (cases outcome) auto
    next
      case (whole plan entry)
      from armed obtain p where p: "arg = Promotion_Given p" "fst (coerce_promotion_policy arg) = p"
        by (cases arg) (auto simp: coerce_promotion_policy_def default_promotion_policy_def split: if_splits)
      from proposed armed(1) have grown: "length l' = Suc (length (as_ledger s))"
        by (cases rule: propose_cases) (auto simp: record_receipts_def)
      show ?thesis unfolding whole(3) apply_outcome.case using armed p whole(1,2,4-6) grown
        by (intro exI [of _ p] exI [of _ t] exI [of _ plan]) (auto simp: safe_result_def)
    qed
  qed
qed

lemma applied_cases:
  assumes "apply_roadmap_promotion h adapter recorder arg reg e s = Inr (Applied r key entry, s')"
  obtains proposal l' where "propose_roadmap_promotion h arg reg e (as_ledger s) = Inr (proposal, l')"
    "rs_action proposal = ''propose''" "key = key_of_proposal proposal" "as_ledger s' = l'"
    "as_applied s' = dict_set (safe_ref h key) entry (as_applied s)"
proof -
  obtain proposal l' where proposed: "propose_roadmap_promotion h arg reg e (as_ledger s) = Inr (proposal, l')"
    using propose_returns by blast
  with assms have "rs_action proposal = ''propose'' \<and> key = key_of_proposal proposal \<and> as_ledger s' = l' \<and>
      as_applied s' = dict_set (safe_ref h key) entry (as_applied s)"
    by (auto simp: apply_roadmap_promotion_def apply_plan_def apply_record_def Let_def
        split: option.splits if_splits sum.splits prod.splits creation.splits)
  with proposed show ?thesis by (intro that) auto
qed

lemma safe_string_nonempty: "\<not> is_space c \<Longrightarrow> safe_string h k (c # cs) \<noteq> []"
  using short_text_nonempty [of c 240 cs] short_text_nonempty [of c 2000 cs]
  by (simp add: safe_string_def safe_durable_ref_def safe_job_field_def Let_def)

lemma promotion_key_first: "\<exists>c cs. promotion_key h t src depth = c # cs \<and> \<not> is_space c"
proof -
  let ?x = "''roadmap:'' @ tr_roadmap_id t @ '':promote:'' @ tr_id t @ '':'' @ py_str (JInt depth) @ '':'' @
       take 16 (h (tr_id t @ '':'' @ src))"
  have r: "\<not> is_space (CHR ''r'')" by code_simp
  have "\<exists>c cs. x = c # cs \<and> \<not> is_space c" if "safe_ref_text x" for x
    using that by (cases x) (auto simp: safe_ref_text_def is_alnum_def is_alpha_def is_digit_def is_space_def Let_def)
  moreover have "short_text 240 ?x \<noteq> []" using short_text_nonempty [OF r, of 240] by simp
  ultimately show ?thesis using r unfolding promotion_key_def safe_ref_def
    by (auto simp: safe_durable_ref_def Let_def)
qed

text \<open>
  a promotion is applied once. After a report was applied, the same report again, with any
  adapter, policy and registry, calls no board and changes nothing: it reports the duplicate with
  the task ids on record.
\<close>

theorem applied_graph_is_reused:
  assumes first: "apply_roadmap_promotion h adapter recorder arg reg e s = Inr (Applied r key entry, s')"
    and clean: "clean_ref (safe_event_id h e)" "clean_ref key"
  shows "\<exists>r'. apply_roadmap_promotion h adapter' recorder' arg' reg' e s' = Inr (Apply_Duplicate r' key (safe_entry h entry), s')"
proof -
  from first obtain proposal l' where prop1: "propose_roadmap_promotion h arg reg e (as_ledger s) = Inr (proposal, l')"
    "rs_action proposal = ''propose''" "key = key_of_proposal proposal" "as_ledger s' = l'"
    "as_applied s' = dict_set (safe_ref h key) entry (as_applied s)"
    by (rule applied_cases)
  have prior: "map_option dp_key (decision_for_event h (safe_event_id h e) l') = Some key"
    using prop1(1)
  proof (cases rule: propose_cases)
    case (proposed t depth plan)
    let ?pk = "promotion_key h t (safe_source h e) depth"
    obtain c cs where pk: "?pk = c # cs" "\<not> is_space c" using promotion_key_first by blast
    then have "key = safe_string h ''idempotency_key'' ?pk"
      using prop1(3) proposed(10) safe_string_nonempty by (simp add: key_of_proposal_def)
    moreover have "decision_for_event h (safe_event_id h e) l' =
        Some (pr_payload (safe_receipt h (propose_receipt h e reg (safe_event_id h e) (safe_source h e) t depth ?pk)))"
      unfolding proposed(6) using clean(1) by (simp add: decision_for_event_def record_receipts_def recorded_event)
    ultimately show ?thesis using clean(2) pk
      by (simp add: safe_receipt_def propose_receipt_def mk_promotion_receipt_def safe_decision_def Let_def)
  qed (use prop1(2) in auto)
  have event: "has_event h (safe_event_id h e) l'" using propose_records_event [OF clean(1) prop1(1)] .
  from propose_duplicate [OF event, of arg' reg'] obtain r' where r': "propose_roadmap_promotion h arg' reg' e l' = Inr (r', l')"
    "rs_key r' = []" "rs_receipt r' = None" "rs_prior r' = map_option (safe_decision h) (decision_for_event h (safe_event_id h e) l')"
    by blast
  from prior obtain d where d: "decision_for_event h (safe_event_id h e) l' = Some d" "dp_key d = key" by blast
  have "key_of_proposal r' = key" using r' d clean(2) by (simp add: key_of_proposal_def safe_decision_def)
  then show ?thesis using r'(1) prop1(4,5) clean_nonempty [OF clean(2)]
    by (simp add: apply_roadmap_promotion_def apply_get_def Let_def)
qed

subsection \<open>Boards that name tasks by their keys\<close>

lemma profile_of_step:
  assumes "transition_template t = Inr tmpl" and "kind \<in> set (rt_slice_template tmpl)"
  shows "\<exists>prof. apply_task_profile kind t p = Inr prof"
proof -
  have "find_step kind (rt_steps tmpl) \<noteq> None" using assms(2)
    by (auto simp: find_step_def find_None_iff rt_slice_template_def)
  with assms(1) show ?thesis by (auto simp: apply_task_profile_def resolved_step_for_def Let_def split: option.splits)
qed

text \<open>
  The contract of a board for the application loop: it creates what it is given and answers with a
  task id that is a function of the key.
\<close>

locale task_board =
  fixes create :: "graph_intent \<Rightarrow> 'w \<Rightarrow> json dict \<times> 'w"
    and task_of :: "string \<Rightarrow> string"
  assumes creates: "dict_get (fst (create i w)) ''success'' = Some (JBool True)"
    and names: "dict_get (fst (create i w)) ''task_id'' = Some (JStr (task_of (gi_key i)))"
    and named: "task_of key \<noteq> []"
begin

lemma answer: "get_str (fst (create i w)) ''task_id'' = task_of (gi_key i)"
  using names named by (simp add: get_str_JStr)

lemma creates_all:
  assumes "\<forall>i \<in> set is. \<exists>prof. apply_task_profile (gi_kind i) t p = Inr prof"
  shows "\<exists>new w'. create_tasks \<lparr>ga_create = create, ga_existing = existing\<rparr> t p is ids made w = (Created (made @ new), w') \<and>
    map cr_task_id new = map task_of (map gi_key is) \<and> map cr_key new = map gi_key is"
  using assms
proof (induction "is" arbitrary: ids made w)
  case (Cons i "is")
  then obtain prof where prof: "apply_task_profile (gi_kind i) t p = Inr prof" by auto
  obtain r w1 where r: "create (enrich_intent i prof) w = (r, w1)" by (cases "create (enrich_intent i prof) w")
  have key: "gi_key (enrich_intent i prof) = gi_key i" by (simp add: enrich_intent_def case_prod_beta)
  have ok: "dict_get r ''success'' = Some (JBool True)" "get_str r ''task_id'' = task_of (gi_key i)"
    using creates [of "enrich_intent i prof" w] answer [of "enrich_intent i prof" w] r key by auto
  let ?c = "mk_created i prof ids (task_of (gi_key i))"
  have "\<forall>i \<in> set is. \<exists>prof. apply_task_profile (gi_kind i) t p = Inr prof" using Cons.prems by simp
  from Cons.IH [OF this, of "dict_set (gi_key i) (task_of (gi_key i)) ids" "made @ [?c]" w1] obtain new w' where n:
    "create_tasks \<lparr>ga_create = create, ga_existing = existing\<rparr> t p is (dict_set (gi_key i) (task_of (gi_key i)) ids) (made @ [?c]) w1 =
      (Created (made @ (?c # new)), w')"
    "map cr_task_id new = map task_of (map gi_key is)" "map cr_key new = map gi_key is" by auto
  have "cr_task_id ?c = task_of (gi_key i) \<and> cr_key ?c = gi_key i" by (simp add: mk_created_def case_prod_beta)
  with n prof r ok named show ?case by (intro exI [of _ "?c # new"] exI [of _ w']) simp
qed simp

lemma armed:
  assumes "propose_roadmap_promotion h (Promotion_Given p) (Some rg) e (as_ledger s) = Inr (r, l')"
    and "rs_action r = ''propose''" and "pp_apply_enabled p"
    and "dict_get (rg_transitions rg) (rs_transition_id r) = Some t"
    and "build_plan t (rs_key r) (rs_chain_depth r) (ev_origin e) (ev_return_to e) (safe_source h e) = Inr plan"
    and "int (length (np_candidates plan)) \<le> pp_max_apply_tasks p" and "apply_get h (rs_key r) (as_applied s) = None"
  shows "\<exists>r' entry s'. apply_roadmap_promotion h (Some \<lparr>ga_create = create, ga_existing = existing\<rparr>) None
      (Promotion_Given p) (Some rg) e s = Inr (Applied r' (rs_key r) (safe_entry h entry), s') \<and>
    al_created_task_ids entry = map task_of (map gi_key (np_candidates plan)) \<and> as_ledger s' = l'"
proof -
  have coerced: "fst (coerce_promotion_policy (Promotion_Given p)) = p"
    using assms(1,2) by (cases rule: propose_cases) (auto simp: coerce_promotion_policy_def split: if_splits)
  have "rs_key r \<noteq> []" using assms(1)
  proof (cases rule: propose_cases)
    case (proposed u depth q)
    then show ?thesis using promotion_key_first safe_string_nonempty by metis
  qed (use assms(2) in auto)
  then have key: "key_of_proposal r = rs_key r" by (simp add: key_of_proposal_def)
  from plan_is_chain_kinds [OF assms(5)] obtain tmpl where tmpl: "transition_template t = Inr tmpl"
    "map gi_kind (np_candidates plan) = rt_slice_template tmpl" by blast
  have "\<exists>prof. apply_task_profile (gi_kind i) t p = Inr prof" if "i \<in> set (np_candidates plan)" for i
  proof (rule profile_of_step [OF tmpl(1)])
    show "gi_kind i \<in> set (rt_slice_template tmpl)" using that tmpl(2) by (metis image_eqI list.set_map)
  qed
  with creates_all [of "np_candidates plan" t p existing "[]" "[]" "as_board s"] obtain new w' where made:
    "create_tasks \<lparr>ga_create = create, ga_existing = existing\<rparr> t p (np_candidates plan) [] [] (as_board s) = (Created new, w')"
    "map cr_task_id new = map task_of (map gi_key (np_candidates plan))"
    by fastforce
  with assms coerced key \<open>rs_key r \<noteq> []\<close> show ?thesis
    by (auto simp: apply_roadmap_promotion_def apply_plan_def Let_def)
qed

end

interpretation fake: task_board "fake_create h" "fake_graph_task_id h" for h
  by unfold_locales (simp_all add: fake_create_def fake_graph_task_id_def dict_get_def Let_def)

text \<open>
  an armed promotion reaches the board. When the proposer promotes a report, apply mode is on,
  the plan fits the limit and its key was not applied before, then on a board that creates what it
  is given the application succeeds and records one task per step, named by the board after its key.
\<close>

theorem armed_promotion_applies:
  assumes "propose_roadmap_promotion h (Promotion_Given p) (Some rg) e (as_ledger s) = Inr (r, l')"
    and "rs_action r = ''propose''" and "pp_apply_enabled p"
    and "dict_get (rg_transitions rg) (rs_transition_id r) = Some t"
    and "build_plan t (rs_key r) (rs_chain_depth r) (ev_origin e) (ev_return_to e) (safe_source h e) = Inr plan"
    and "int (length (np_candidates plan)) \<le> pp_max_apply_tasks p" and "apply_get h (rs_key r) (as_applied s) = None"
  shows "\<exists>r' entry s'. apply_roadmap_promotion h (Some (fake_graph_adapter h)) None (Promotion_Given p) (Some rg) e s =
      Inr (Applied r' (rs_key r) (safe_entry h entry), s') \<and>
    al_created_task_ids entry = map (fake_graph_task_id h) (map gi_key (np_candidates plan)) \<and> as_ledger s' = l'"
  unfolding fake_graph_adapter_def using assms by (rule fake.armed)

subsection \<open>A sample promotion\<close>

definition sample_report :: string where
  "sample_report = join_with line_feed_text [''Verdict: GO'', ''Roadmap-Transition: t1'', ''Next-Slice: s2'',
     ''Review-Edge: verified'', ''ACK-Edge: verified'', ''Parent-GO: verified'', ''Auto-Continue: true'']"

definition sample_transition :: road_transition where
  "sample_transition = \<lparr>tr_id = ''t1'', tr_roadmap_id = ''r1'', tr_from_slice = ''s1'', tr_to_slice = ''s2'',
     tr_slice_template = [''impl'', ''review'', ''fanin''], tr_policy_refs = [''design_opus''], tr_max_chain_depth = 3,
     tr_version = [], tr_template_preset = [], tr_goal_anchor = []\<rparr>"

definition sample_registry :: registry where
  "sample_registry = \<lparr>rg_version = ''1'', rg_transitions = [(''t1'', sample_transition)], rg_content_hash = [],
     rg_source_ref = []\<rparr>"

definition sample_promotion_policy :: promotion_policy where
  "sample_promotion_policy = default_promotion_policy\<lparr>pp_auto_continue := True, pp_allowlisted_transitions := [''t1''],
     pp_trusted_assignees := [''bot''], pp_require_origin_match := False, pp_apply_enabled := True\<rparr>"

definition sample_report_event :: promotion_event where
  "sample_report_event = \<lparr>ev_summary = sample_report, ev_event_id = ''ev1'', ev_source_final_ref = ''final1'',
     ev_source_assignee = ''bot'', ev_origin = ''discord:main'', ev_return_to = ''discord:main'',
     ev_subscription_status = ''verified'', ev_policy_resolution_ref = ''ref1'', ev_chain_depth = 0, ev_occurred_at = 0\<rparr>"

definition sample_key :: string where
  "sample_key = ''roadmap:r1:promote:t1:1:t1:final1''"

lemma sample_clean [simp]: "clean_ref ''ev1''" "clean_ref ''final1''" "clean_ref ''t1''" "clean_ref sample_key"
  by (code_simp, code_simp, code_simp, code_simp)

lemma sample_ids [simp]: "safe_event_id h sample_report_event = ''ev1''" "safe_source h sample_report_event = ''final1''"
  by (simp_all add: safe_event_id_def safe_source_def sample_report_event_def)

lemma sample_promotion_key: "promotion_key id sample_transition ''final1'' 1 = sample_key"
proof -
  have "''roadmap:'' @ tr_roadmap_id sample_transition @ '':promote:'' @ tr_id sample_transition @ '':'' @ py_str (JInt 1) @ '':'' @
       take 16 (id (tr_id sample_transition @ '':'' @ ''final1'')) = sample_key" by code_simp
  then show ?thesis unfolding promotion_key_def using clean_safe_ref [OF sample_clean(4)] by simp
qed

lemma sample_directive: "parse_next_slice_directive h sample_report ''final1'' =
    \<lparr>nd_transition_id = ''t1'', nd_next_slice = ''s2'', nd_review_edge = True, nd_ack_edge = True, nd_parent_go = True,
     nd_auto_continue = True, nd_confidence = ''explicit'', nd_source_ref = ''final1''\<rparr>"
proof -
  have "markers_of sample_report = [(''verdict'', ''GO''), (''roadmap-transition'', ''t1''), (''next-slice'', ''s2''),
    (''review-edge'', ''verified''), (''ack-edge'', ''verified''), (''parent-go'', ''verified''), (''auto-continue'', ''true'')]"
    by code_simp
  moreover have "is_true_marker ''verified''" "is_true_marker ''true''" by (code_simp, code_simp)
  ultimately show ?thesis
    by (simp add: parse_next_slice_directive_def directive_of_markers_def marker_def dict_get_def)
qed

lemma sample_verdict: "pv_verdict (parse_verdict_summary sample_report src) = ''GO''"
proof -
  have "(case re_search VERDICT_RE sample_report of Some x \<Rightarrow> py_upper (group 1 x) | None \<Rightarrow> ''UNKNOWN'') = ''GO''" by code_simp
  then show ?thesis by (simp add: parse_verdict_summary_def Let_def)
qed

lemma sample_valid: "validate_transition sample_transition = None"
  by code_simp

lemma sample_not_stale: "\<not> re_test STALE_INLINE_POLICY_RE sample_report"
  by code_simp

lemma sample_gate: "promotion_gate id sample_promotion_policy False (Some sample_registry) sample_report_event ''final1'' [] =
    Passed sample_transition 1 sample_key"
proof -
  have "known_transition sample_promotion_policy (Some sample_registry) ''t1'' = Some sample_transition"
    by (simp add: known_transition_def sample_promotion_policy_def sample_registry_def sample_valid dict_get_def)
  moreover have "evidence_gate sample_promotion_policy sample_report_event
      (parse_next_slice_directive id sample_report ''final1'') sample_transition = None"
    using sample_not_stale
    by (simp add: evidence_gate_def sample_directive sample_transition_def summary_origin_evidence_ok_def origin_ok_def
        sample_promotion_policy_def default_promotion_policy_def sample_report_event_def)
  moreover have "ledger_gate id sample_promotion_policy sample_report_event sample_transition ''final1'' [] =
      Passed sample_transition 1 sample_key"
  proof -
    have "tr_max_chain_depth sample_transition = 3" "pp_max_chain_depth sample_promotion_policy = 3"
      "pp_max_promotions sample_promotion_policy = 6" "ev_chain_depth sample_report_event = 0"
      by (simp_all add: sample_promotion_policy_def default_promotion_policy_def sample_transition_def sample_report_event_def)
    then show ?thesis
      by (simp add: ledger_gate_def effective_depth_def current_chain_depth_def count_promotions_def promotions_of_def
          last_promotion_time_def has_promotion_key_def sample_promotion_key Let_def)
  qed
  ultimately show ?thesis
    using sample_verdict [of "''final1''"] sample_directive
    by (simp add: promotion_gate_def Let_def sample_report_event_def)
      (simp add: sample_promotion_policy_def default_promotion_policy_def)
qed


lemma sample_policy_coerced:
  "coerce_promotion_policy (Promotion_Given sample_promotion_policy) = (sample_promotion_policy, False)"
  by (simp add: coerce_promotion_policy_def sample_promotion_policy_def default_promotion_policy_def)

lemma sample_plan: "\<exists>plan. build_plan sample_transition sample_key 1 o1 o2 ''final1'' = Inr plan \<and>
    map gi_kind (np_candidates plan) = [''impl'', ''review'', ''fanin'']"
proof -
  obtain tmpl where tmpl: "transition_template sample_transition = Inr tmpl"
    using valid_transition_resolves [OF sample_valid] by blast
  then have "rt_slice_template tmpl = [''impl'', ''review'', ''fanin'']"
    using resolved_kinds [of "[]" "[''impl'', ''review'', ''fanin'']" "[]" tmpl]
    by (simp add: transition_template_def sample_transition_def)
  with tmpl show ?thesis by (simp add: build_plan_def plan_steps_map rt_slice_template_def)
qed

lemma sample_proposed:
  "\<exists>r l'. propose_roadmap_promotion id (Promotion_Given sample_promotion_policy) (Some sample_registry) sample_report_event [] = Inr (r, l') \<and>
     rs_action r = ''propose'' \<and> rs_key r = sample_key \<and> rs_transition_id r = ''t1'' \<and> rs_chain_depth r = 1"
proof -
  have "tr_id sample_transition = ''t1''" by (simp add: sample_transition_def)
  with sample_plan [of "ev_origin sample_report_event" "ev_return_to sample_report_event"] show ?thesis
    by (auto simp: propose_roadmap_promotion_def sample_policy_coerced has_event_def sample_gate safe_result_def
        mk_result_def Let_def)
qed

theorem promotion_gated_witness:
  "(\<exists>t. promotable id sample_promotion_policy sample_registry sample_report_event t []) \<and>
    extract_verdict sample_report = ''GO''"
proof -
  obtain r l' where r: "propose_roadmap_promotion id (Promotion_Given sample_promotion_policy) (Some sample_registry)
      sample_report_event [] = Inr (r, l')" "rs_action r = ''propose''" using sample_proposed by blast
  have "extract_verdict sample_report = ''GO''" by code_simp
  with promotion_gated [OF r(1)] r(2) show ?thesis by auto
qed

theorem promotions_bounded_witness:
  "\<exists>l. run_proposals id (Promotion_Given sample_promotion_policy) (Some sample_registry) [sample_report_event] [] = Inr l \<and>
     length (promotions_of id ''r1'' l) \<le> 6"
proof -
  have "clean_ref ''r1''" by code_simp
  then have "\<forall>t \<in> snd ` set (rg_transitions sample_registry). clean_ref (tr_roadmap_id t)"
    by (simp add: sample_registry_def sample_transition_def)
  from promotions_bounded [OF sample_policy_coerced this, of id "[sample_report_event]"] obtain l where
    l: "run_proposals id (Promotion_Given sample_promotion_policy) (Some sample_registry) [sample_report_event] [] = Inr l"
    and "int (length (promotions_of id ''r1'' l)) \<le> pp_max_promotions sample_promotion_policy" by blast
  then have "length (promotions_of id ''r1'' l) \<le> 6"
    by (simp add: sample_promotion_policy_def default_promotion_policy_def)
  with l show ?thesis by blast
qed

theorem spaced_roadmap_unbounded_witness:
  "\<exists>l. run_proposals id (Promotion_Given sample_promotion_policy)
       (Some (sample_registry\<lparr>rg_transitions := [(''t1'', sample_transition\<lparr>tr_roadmap_id := spaced_roadmap\<rparr>)]\<rparr>)) [sample_report_event] [] = Inr l \<and>
     count_promotions id spaced_roadmap l = 0"
proof -
  let ?rg = "sample_registry\<lparr>rg_transitions := [(''t1'', sample_transition\<lparr>tr_roadmap_id := spaced_roadmap\<rparr>)]\<rparr>"
  obtain l where l: "run_proposals id (Promotion_Given sample_promotion_policy) (Some ?rg) [sample_report_event] [] = Inr l"
    using run_proposals_returns by blast
  have "\<forall>t \<in> snd ` set (rg_transitions ?rg). tr_roadmap_id t = spaced_roadmap" by simp
  from spaced_roadmap_unbounded [OF this l] l show ?thesis by blast
qed

theorem report_decided_once_witness:
  "\<exists>r l' r'. propose_roadmap_promotion id (Promotion_Given sample_promotion_policy) (Some sample_registry) sample_report_event [] = Inr (r, l') \<and>
     propose_roadmap_promotion id Promotion_None None sample_report_event l' = Inr (r', l') \<and> rs_action r' = ''noop''"
proof -
  obtain r l' where r: "propose_roadmap_promotion id (Promotion_Given sample_promotion_policy) (Some sample_registry)
      sample_report_event [] = Inr (r, l')" using sample_proposed by blast
  have "clean_ref (safe_event_id id sample_report_event)" by simp
  from report_decided_once [OF this r, of sample_report_event Promotion_None None] r show ?thesis by blast
qed

theorem plan_is_reviewed_chain_witness:
  "\<exists>plan. build_plan sample_transition sample_key 1 [] [] ''final1'' = Inr plan \<and> length (np_candidates plan) = 3 \<and>
     chained (np_candidates plan)"
proof -
  obtain plan where plan: "build_plan sample_transition sample_key 1 [] [] ''final1'' = Inr plan"
    "map gi_kind (np_candidates plan) = [''impl'', ''review'', ''fanin'']" using sample_plan [of "[]" "[]"] by (elim exE conjE) (rule that)
  have "length (np_candidates plan) = 3" using arg_cong [OF plan(2), of length] by simp
  with plan_is_reviewed_chain [OF plan(1)] plan(1) show ?thesis by blast
qed

definition sample_apply_state :: "fake_graph_board apply_state" where
  "sample_apply_state = \<lparr>as_ledger = [], as_applied = [], as_board = empty_fake_graph_board\<rparr>"

lemma sample_inputs:
  obtains r l' plan where "propose_roadmap_promotion id (Promotion_Given sample_promotion_policy) (Some sample_registry)
      sample_report_event (as_ledger sample_apply_state) = Inr (r, l')" "rs_action r = ''propose''" "rs_key r = sample_key"
    "pp_apply_enabled sample_promotion_policy"
    "dict_get (rg_transitions sample_registry) (rs_transition_id r) = Some sample_transition"
    "build_plan sample_transition (rs_key r) (rs_chain_depth r) (ev_origin sample_report_event) (ev_return_to sample_report_event)
       (safe_source id sample_report_event) = Inr plan"
    "int (length (np_candidates plan)) \<le> pp_max_apply_tasks sample_promotion_policy"
    "apply_get id (rs_key r) (as_applied sample_apply_state) = None" "length (np_candidates plan) = 3"
proof -
  obtain r l' where r: "propose_roadmap_promotion id (Promotion_Given sample_promotion_policy) (Some sample_registry)
      sample_report_event (as_ledger sample_apply_state) = Inr (r, l')" "rs_action r = ''propose''" "rs_key r = sample_key"
    "rs_transition_id r = ''t1''" "rs_chain_depth r = 1"
    using sample_proposed by (auto simp: sample_apply_state_def)
  obtain plan where plan: "build_plan sample_transition sample_key 1 (ev_origin sample_report_event) (ev_return_to sample_report_event) ''final1'' = Inr plan"
    "map gi_kind (np_candidates plan) = [''impl'', ''review'', ''fanin'']"
    using sample_plan [of "ev_origin sample_report_event" "ev_return_to sample_report_event"] by (elim exE conjE) (rule that)
  have "length (np_candidates plan) = 3" using arg_cong [OF plan(2), of length] by simp
  note len = this
  show ?thesis
  proof (rule that [of r l' plan])
    show "dict_get (rg_transitions sample_registry) (rs_transition_id r) = Some sample_transition"
      by (simp add: r(4) sample_registry_def dict_get_def)
    show "apply_get id (rs_key r) (as_applied sample_apply_state) = None"
      by (simp add: sample_apply_state_def apply_get_def dict_get_def)
  qed (use r(1-3,5) plan(1) len in \<open>simp_all add: sample_promotion_policy_def default_promotion_policy_def\<close>)
qed

theorem armed_promotion_applies_witness:
  "\<exists>r' entry s'. apply_roadmap_promotion id (Some (fake_graph_adapter id)) None (Promotion_Given sample_promotion_policy)
      (Some sample_registry) sample_report_event sample_apply_state = Inr (Applied r' sample_key (safe_entry id entry), s') \<and>
    length (al_created_task_ids entry) = 3"
proof (rule sample_inputs)
  fix r l' plan
  assume i: "propose_roadmap_promotion id (Promotion_Given sample_promotion_policy) (Some sample_registry)
      sample_report_event (as_ledger sample_apply_state) = Inr (r, l')" "rs_action r = ''propose''" "rs_key r = sample_key"
    "pp_apply_enabled sample_promotion_policy"
    "dict_get (rg_transitions sample_registry) (rs_transition_id r) = Some sample_transition"
    "build_plan sample_transition (rs_key r) (rs_chain_depth r) (ev_origin sample_report_event) (ev_return_to sample_report_event)
       (safe_source id sample_report_event) = Inr plan"
    "int (length (np_candidates plan)) \<le> pp_max_apply_tasks sample_promotion_policy"
    "apply_get id (rs_key r) (as_applied sample_apply_state) = None" "length (np_candidates plan) = 3"
  from armed_promotion_applies [OF i(1,2,4-8)] i(3,9) show ?thesis by fastforce
qed

lemma sample_applied:
  obtains r' entry s' where "apply_roadmap_promotion id (Some (fake_graph_adapter id)) None
      (Promotion_Given sample_promotion_policy) (Some sample_registry) sample_report_event sample_apply_state =
        Inr (Applied r' sample_key entry, s')"
proof (rule sample_inputs)
  fix r l' plan
  assume i: "propose_roadmap_promotion id (Promotion_Given sample_promotion_policy) (Some sample_registry)
      sample_report_event (as_ledger sample_apply_state) = Inr (r, l')" "rs_action r = ''propose''" "rs_key r = sample_key"
    "pp_apply_enabled sample_promotion_policy"
    "dict_get (rg_transitions sample_registry) (rs_transition_id r) = Some sample_transition"
    "build_plan sample_transition (rs_key r) (rs_chain_depth r) (ev_origin sample_report_event) (ev_return_to sample_report_event)
       (safe_source id sample_report_event) = Inr plan"
    "int (length (np_candidates plan)) \<le> pp_max_apply_tasks sample_promotion_policy"
    "apply_get id (rs_key r) (as_applied sample_apply_state) = None"
  from fake.armed [OF i(1,2,4-8)] i(3) that show thesis unfolding fake_graph_adapter_def by metis
qed

theorem apply_all_or_nothing_witness:
  "\<exists>r' entry s'. apply_roadmap_promotion id (Some (fake_graph_adapter id)) None (Promotion_Given sample_promotion_policy)
      (Some sample_registry) sample_report_event sample_apply_state = Inr (Applied r' sample_key entry, s') \<and>
    length (as_ledger s') = 1"
proof -
  obtain r' entry s' where a: "apply_roadmap_promotion id (Some (fake_graph_adapter id)) None
      (Promotion_Given sample_promotion_policy) (Some sample_registry) sample_report_event sample_apply_state =
        Inr (Applied r' sample_key entry, s')" by (rule sample_applied)
  with apply_all_or_nothing [OF a] show ?thesis by (auto simp: sample_apply_state_def)
qed

theorem applied_graph_is_reused_witness:
  "\<exists>r' entry s' r''. apply_roadmap_promotion id (Some (fake_graph_adapter id)) None (Promotion_Given sample_promotion_policy)
      (Some sample_registry) sample_report_event sample_apply_state = Inr (Applied r' sample_key entry, s') \<and>
    apply_roadmap_promotion id (None :: fake_graph_board graph_adapter option) None Promotion_None None sample_report_event s' =
      Inr (Apply_Duplicate r'' sample_key (safe_entry id entry), s')"
proof -
  obtain r' entry s' where a: "apply_roadmap_promotion id (Some (fake_graph_adapter id)) None
      (Promotion_Given sample_promotion_policy) (Some sample_registry) sample_report_event sample_apply_state =
        Inr (Applied r' sample_key entry, s')" by (rule sample_applied)
  have "clean_ref (safe_event_id id sample_report_event)" by simp
  from applied_graph_is_reused [OF a this sample_clean(4), of None None Promotion_None None] a show ?thesis by blast
qed

end
