(* ===== verification/Mini_Yaml.thy ===== *)
theory Mini_Yaml
  imports Regex Values "HOL-Library.Sublist"
begin

text \<open>
  The dependency-free YAML subset of \<open>roadmap_config.py\<close>, which every repository configuration goes
  through when it is not JSON: cleaning of lines and comments, scalars, lists, and mappings nested by
  indentation. A \<open>ValueError\<close> is its message. The parser's pair of a value and the next index is a
  value and the lines that are left.

  \<open>fl\<close> is \<open>float(text)\<close> with the \<open>repr\<close> of the result; \<open>int(text)\<close> has no limit on its digits.
\<close>

subsection \<open>Lines\<close>

text \<open>The line up to a \<open>#\<close> outside quotes that starts it or follows a space; \<open>prev\<close> is the character before.\<close>

fun cut_comment :: "char option \<Rightarrow> bool \<Rightarrow> bool \<Rightarrow> string \<Rightarrow> string" where
  "cut_comment prev sq dq [] = []"
| "cut_comment prev sq dq (c # cs) =
     (if c = CHR 0x27 \<and> \<not> dq then c # cut_comment (Some c) (\<not> sq) dq cs
      else if c = CHR 0x22 \<and> \<not> sq then c # cut_comment (Some c) sq (\<not> dq) cs
      else if c = CHR ''#'' \<and> \<not> sq \<and> \<not> dq \<and> (prev = None \<or> prev = Some CHR '' '') then []
      else c # cut_comment (Some c) sq dq cs)"

definition clean_line :: "string \<Rightarrow> string option" where
  "clean_line raw =
     (let line = py_rstrip raw; stripped = py_strip line in
      if stripped = [] \<or> starts_with ''#'' stripped then None
      else let cut = py_rstrip (cut_comment None False False line)
           in if py_strip cut = [] then None else Some cut)"

definition clean_lines :: "string \<Rightarrow> string list" where
  "clean_lines text = List.map_filter clean_line (py_splitlines text)"

definition indent_of :: "string \<Rightarrow> nat" where
  "indent_of line = length (takeWhile (\<lambda>c. c = CHR '' '') line)"

subsection \<open>Values\<close>

definition INT_RE :: regex where
  "INT_RE = RSeq (re_opt (re_lit ''-'')) (re_plus re_digit)"

definition FLOAT_RE :: regex where
  "FLOAT_RE = re_seq [re_opt (re_lit ''-''), re_plus re_digit, re_lit ''.'', re_plus re_digit]"

definition quoted :: "string \<Rightarrow> bool" where
  "quoted text \<longleftrightarrow> 2 \<le> length text \<and>
     (hd text = CHR 0x22 \<and> last text = CHR 0x22 \<or> hd text = CHR 0x27 \<and> last text = CHR 0x27)"

definition int_literal :: "string \<Rightarrow> int" where
  "int_literal text =
     (if starts_with ''-'' text then - int (digits_value (tl text)) else int (digits_value text))"

definition parse_scalar :: "(string \<Rightarrow> real \<times> string) \<Rightarrow> string \<Rightarrow> json" where
  "parse_scalar fl raw =
     (let text = py_strip raw; low = py_lower text in
      if quoted text then JStr (butlast (tl text))
      else if low \<in> {''true'', ''yes''} then JBool True
      else if low \<in> {''false'', ''no''} then JBool False
      else if low \<in> {''null'', ''~'', ''''} then JNull
      else if re_fullmatch INT_RE text then JInt (int_literal text)
      else if re_fullmatch FLOAT_RE text then (case fl text of (r, t) \<Rightarrow> JFloat r t)
      else JStr text)"

subsection \<open>Blocks\<close>

fun parse_list ::
    "(string \<Rightarrow> real \<times> string) \<Rightarrow> string list \<Rightarrow> nat \<Rightarrow> json list \<Rightarrow> string + json \<times> string list" where
  "parse_list fl [] indent acc = Inr (JArr acc, [])"
| "parse_list fl (line # rest) indent acc =
     (if indent_of line \<noteq> indent then Inr (JArr acc, line # rest)
      else let stripped = py_strip line in
        if \<not> starts_with ''- '' stripped then Inl (''expected list item: '' @ line)
        else parse_list fl rest indent (acc @ [parse_scalar fl (py_strip (drop 2 stripped))]))"

definition yaml_entry :: "string \<Rightarrow> (string \<times> string) option" where
  "yaml_entry content =
     (case split_at_char (\<lambda>c. c = CHR '':'') content of
        (_, None) \<Rightarrow> None
      | (key, Some rest) \<Rightarrow> Some (strip_chars [CHR 0x22, CHR 0x27] (py_strip key), py_strip rest))"

function (sequential) parse_block :: "(string \<Rightarrow> real \<times> string) \<Rightarrow> string list \<Rightarrow> nat \<Rightarrow> string + json \<times> string list"
  and parse_mapping ::
    "(string \<Rightarrow> real \<times> string) \<Rightarrow> string list \<Rightarrow> nat \<Rightarrow> json dict \<Rightarrow> string + json \<times> string list"
where
  "parse_block fl [] indent = Inr (JObj [], [])"
| "parse_block fl (line # rest) indent =
     (if indent_of line < indent then Inr (JObj [], line # rest)
      else if starts_with ''- '' (py_strip line) then parse_list fl (line # rest) (indent_of line) []
      else parse_mapping fl (line # rest) (indent_of line) [])"
| "parse_mapping fl [] indent acc = Inr (JObj acc, [])"
| "parse_mapping fl (line # rest) indent acc =
     (if indent_of line \<noteq> indent then Inr (JObj acc, line # rest)
      else case yaml_entry (py_strip line) of
        None \<Rightarrow> Inl (''expected mapping entry: '' @ py_strip line)
      | Some (key, v) \<Rightarrow>
          if v \<noteq> [] then parse_mapping fl rest indent (dict_set key (parse_scalar fl v) acc)
          else if rest \<noteq> [] \<and> indent < indent_of (hd rest) then
            (case parse_block fl rest (indent_of (hd rest)) of
               Inl e \<Rightarrow> Inl e
             | Inr (u, rest') \<Rightarrow> parse_mapping fl rest' indent (dict_set key u acc))
          else parse_mapping fl rest indent (dict_set key JNull acc))"
  by pat_completeness auto

lemma parse_list_suffix: "parse_list fl ls indent acc = Inr (v, rest) \<Longrightarrow> suffix rest ls"
  by (induction fl ls indent acc rule: parse_list.induct)
     (auto simp: Let_def suffix_ConsI split: if_splits)

lemma suffix_Cons_trans: "suffix xs ys \<Longrightarrow> suffix ys zs \<Longrightarrow> suffix xs (z # zs)"
  by (auto intro: suffix_ConsI suffix_order.trans)

text \<open>Whatever the loops return is what they were given without some lines at its front.\<close>

lemma parse_suffix_dom:
  "parse_block_parse_mapping_dom (Inl (fl, ls, i)) \<Longrightarrow>
     parse_block fl ls i = Inr (v, rest) \<Longrightarrow> suffix rest ls"
  "parse_block_parse_mapping_dom (Inr (fl, ls, i, acc)) \<Longrightarrow>
     parse_mapping fl ls i acc = Inr (w, rest') \<Longrightarrow> suffix rest' ls"
proof (induction fl ls i and fl ls i acc arbitrary: v rest and w rest'
    rule: parse_block_parse_mapping.pinduct)
  case (2 fl line rest indent)
  then show ?case
    by (auto simp: parse_block.psimps simp del: parse_list.simps split: if_splits dest: parse_list_suffix)
next
  case (4 fl line rest indent acc)
  then show ?case
    by (auto simp: parse_mapping.psimps suffix_ConsI split: if_splits option.splits sum.splits)
      (metis suffix_Cons_trans)
qed (auto simp: parse_block.psimps parse_mapping.psimps)

termination parse_block
  by (relation "measures [\<lambda>x. case x of Inl (fl, ls, i) \<Rightarrow> length ls | Inr (fl, ls, i, acc) \<Rightarrow> length ls,
    \<lambda>x. case x of Inl _ \<Rightarrow> 1 | Inr _ \<Rightarrow> 0]") (auto dest!: parse_suffix_dom(1) suffix_length_le)

lemma parse_suffix:
  "parse_block fl ls i = Inr (v, rest) \<Longrightarrow> suffix rest ls"
  "parse_mapping fl ls i acc = Inr (w, rest') \<Longrightarrow> suffix rest' ls"
proof (induction fl ls i and fl ls i acc arbitrary: v rest and w rest'
    rule: parse_block_parse_mapping.induct)
  case (2 fl line rest indent)
  then show ?case by (auto simp del: parse_list.simps split: if_splits dest: parse_list_suffix)
next
  case (4 fl line rest indent acc)
  then show ?case
    by (auto simp: suffix_ConsI split: if_splits option.splits sum.splits) (metis suffix_Cons_trans)
qed auto

lemma parse_list_consumes:
  "parse_list fl (line # ls) (indent_of line) acc = Inr (v, rest) \<Longrightarrow> suffix rest ls"
  by (auto simp: Let_def split: if_splits dest: parse_list_suffix)

lemma parse_mapping_consumes:
  "parse_mapping fl (line # ls) (indent_of line) acc = Inr (v, rest) \<Longrightarrow> suffix rest ls"
  by (auto split: if_splits option.splits sum.splits dest!: parse_suffix intro: suffix_order.trans)

text \<open>
  C23: The YAML parser stops on every text: a block that starts at a line and returns has read that
  line, and leaves lines of what followed it, so each block the parser enters shortens the document.
\<close>

theorem yaml_block_consumes:
  assumes "parse_block fl (line # ls) (indent_of line) = Inr (v, rest)"
  shows "suffix rest ls \<and> length rest < length (line # ls)"
proof -
  from assms have "suffix rest ls"
    by (auto simp del: parse_list.simps parse_mapping.simps split: if_splits
        dest: parse_list_consumes parse_mapping_consumes)
  then show ?thesis by (auto dest: suffix_length_le)
qed

definition parse_minimal_yaml :: "(string \<Rightarrow> real \<times> string) \<Rightarrow> string \<Rightarrow> string + json" where
  "parse_minimal_yaml fl text =
     (case clean_lines text of
        [] \<Rightarrow> Inr (JObj [])
      | line # rest \<Rightarrow>
          (case parse_block fl (line # rest) (indent_of line) of
             Inl e \<Rightarrow> Inl e
           | Inr (v, _) \<Rightarrow> Inr v))"

theorem yaml_block_consumes_witness:
  "\<exists>v rest. parse_block (\<lambda>_. (0, [])) [''a:'', ''  b: c'', ''d: e''] (indent_of ''a:'') = Inr (v, rest) \<and>
    suffix rest [''  b: c'', ''d: e'']"
proof -
  have "\<exists>v rest. parse_block (\<lambda>_. (0, [])) [''a:'', ''  b: c'', ''d: e''] (indent_of ''a:'') = Inr (v, rest)"
    by (rule exI, rule exI, code_simp)
  then show ?thesis using yaml_block_consumes by blast
qed

end
