(* ===== verification/Repo_Config.thy ===== *)
theory Repo_Config
  imports Mini_Yaml Roadmap Requirements
begin

text \<open>
  The repository configurations read through JSON or the YAML subset: the roadmap configuration and
  its transitions (\<open>roadmap_config.py\<close>), the promotion policy the engine derives from it
  (\<open>_roadmap_policy_from_config\<close>), and the input contracts (\<open>continuation_config.py\<close>).

  A file is its text. \<open>js\<close> is \<open>json.loads\<close>, \<open>None\<close> when it raises; \<open>fl\<close> is \<open>float(text)\<close> with its \<open>repr\<close>.
  An error is the message of a \<open>ValueError\<close> or another Python error.
\<close>

subsection \<open>Files\<close>

definition load_payload ::
    "(string \<Rightarrow> json option) \<Rightarrow> (string \<Rightarrow> real \<times> string) \<Rightarrow> string \<Rightarrow> string \<Rightarrow> registry_error + json dict" where
  "load_payload js fl kind text =
     (case (case js text of Some v \<Rightarrow> Inr v | None \<Rightarrow> parse_minimal_yaml fl text) of
        Inl e \<Rightarrow> Inl (Registry_Invalid e)
      | Inr (JObj m) \<Rightarrow> Inr m
      | Inr _ \<Rightarrow> Inl (Registry_Invalid (kind @ '' config root must be a mapping'')))"

definition cfg_bool :: "json dict \<Rightarrow> string \<Rightarrow> bool \<Rightarrow> bool" where
  "cfg_bool m key dflt = (case dict_get m key of Some (JBool b) \<Rightarrow> b | _ \<Rightarrow> dflt)"

definition cfg_int :: "json dict \<Rightarrow> string \<Rightarrow> int \<Rightarrow> int" where
  "cfg_int m key dflt = (case dict_get m key of Some (JInt i) \<Rightarrow> i | _ \<Rightarrow> dflt)"

definition cfg_str_tuple :: "json dict \<Rightarrow> string \<Rightarrow> string list" where
  "cfg_str_tuple m key = (case dict_get m key of Some (JArr xs) \<Rightarrow> map py_str xs | _ \<Rightarrow> [])"

subsection \<open>The roadmap configuration\<close>

record repo_config =
  rc_enabled :: bool
  rc_kill_switch :: bool
  rc_board :: string
  rc_apply_mode :: bool
  rc_same_board_only :: bool
  rc_allowed_transitions :: "string list"
  rc_transitions :: "road_transition dict"
  rc_impl_assignee :: string
  rc_review_assignee :: string
  rc_ack_trigger_agent :: string
  rc_trusted_assignees :: "string list"
  rc_expected_origin :: string
  rc_expected_return_to :: string
  rc_max_chain_depth :: int
  rc_max_promotions :: int
  rc_cooldown_seconds :: int
  rc_require_review_edge :: bool
  rc_require_ack_edge :: bool
  rc_require_trusted_assignee :: bool
  rc_require_origin_match :: bool
  rc_require_policy_resolution :: bool
  rc_source_ref :: string

text \<open>\<open>tuple(str(x) for x in (value.get(key) or ()))\<close>.\<close>

definition cfg_iter :: "json dict \<Rightarrow> string \<Rightarrow> registry_error + string list" where
  "cfg_iter m key =
     (case dict_get m key of None \<Rightarrow> Inr [] | Some v \<Rightarrow> if truthy v then text_tuple v else Inr [])"

definition config_transition :: "string \<Rightarrow> json dict \<Rightarrow> registry_error + road_transition" where
  "config_transition key m =
     (let preset = get_str m ''template_preset''; goal = get_str m ''goal_anchor'' in
      case cfg_iter m ''slice_template'' of
        Inl e \<Rightarrow> Inl e
      | Inr explicit \<Rightarrow>
          (case resolve_template preset explicit goal of
             Inl e \<Rightarrow> Inl (Registry_Invalid e)
           | Inr template \<Rightarrow>
               (case cfg_iter m ''policy_refs'' of
                  Inl e \<Rightarrow> Inl e
                | Inr refs \<Rightarrow> Inr
                    \<lparr>tr_id = str_or (get_str m ''transition_id'') key, tr_roadmap_id = get_str m ''roadmap_id'',
                     tr_from_slice = get_str m ''from_slice'', tr_to_slice = get_str m ''to_slice'',
                     tr_slice_template = rt_slice_template template, tr_policy_refs = refs,
                     tr_max_chain_depth = cfg_int m ''max_chain_depth'' 3, tr_version = get_str m ''version'',
                     tr_template_preset = preset, tr_goal_anchor = goal\<rparr>)))"

fun config_transitions :: "json dict \<Rightarrow> road_transition dict \<Rightarrow> registry_error + road_transition dict" where
  "config_transitions [] acc = Inr acc"
| "config_transitions ((key, raw) # rest) acc =
     (case raw of
        JObj m \<Rightarrow>
          (case config_transition key m of
             Inl e \<Rightarrow> Inl e
           | Inr t \<Rightarrow> config_transitions rest (dict_set key t acc))
      | _ \<Rightarrow> Inl (Registry_Invalid (''invalid transition entry: '' @ key)))"

definition ack_agent :: "json dict \<Rightarrow> string \<Rightarrow> string list \<Rightarrow> string" where
  "ack_agent m review trusted =
     (case dict_get m ''ack_trigger_agent'' of
        Some (JBool True) \<Rightarrow> str_or review (case trusted of [] \<Rightarrow> [] | a # _ \<Rightarrow> a)
      | Some (JStr s) \<Rightarrow> s
      | _ \<Rightarrow> [])"

definition repo_config_of :: "string \<Rightarrow> json dict \<Rightarrow> registry_error + repo_config" where
  "repo_config_of path m =
     (let trusted = cfg_str_tuple m ''trusted_assignees''; review = get_str m ''review_assignee'' in
      case (case dict_get m ''transitions'' of Some (JObj ts) \<Rightarrow> config_transitions ts [] | _ \<Rightarrow> Inr []) of
        Inl e \<Rightarrow> Inl e
      | Inr ts \<Rightarrow> Inr
          \<lparr>rc_enabled = cfg_bool m ''enabled'' False, rc_kill_switch = cfg_bool m ''kill_switch'' False,
           rc_board = get_str m ''board'', rc_apply_mode = cfg_bool m ''apply_mode'' False,
           rc_same_board_only = cfg_bool m ''same_board_only'' True,
           rc_allowed_transitions = cfg_str_tuple m ''allowed_transitions'', rc_transitions = ts,
           rc_impl_assignee = get_str m ''impl_assignee'', rc_review_assignee = review,
           rc_ack_trigger_agent = ack_agent m review trusted, rc_trusted_assignees = trusted,
           rc_expected_origin = get_str m ''expected_origin'',
           rc_expected_return_to = get_str m ''expected_return_to'',
           rc_max_chain_depth = cfg_int m ''max_chain_depth'' 3,
           rc_max_promotions = cfg_int m ''max_promotions_per_roadmap'' 6,
           rc_cooldown_seconds = cfg_int m ''promote_cooldown_seconds'' 900,
           rc_require_review_edge = cfg_bool m ''require_review_edge'' True,
           rc_require_ack_edge = cfg_bool m ''require_ack_edge'' True,
           rc_require_trusted_assignee = cfg_bool m ''require_trusted_assignee'' True,
           rc_require_origin_match = cfg_bool m ''require_origin_match'' True,
           rc_require_policy_resolution = cfg_bool m ''require_policy_resolution'' True,
           rc_source_ref = path\<rparr>)"

definition load_repo_roadmap_config ::
    "(string \<Rightarrow> json option) \<Rightarrow> (string \<Rightarrow> real \<times> string) \<Rightarrow> string \<Rightarrow> string \<Rightarrow> registry_error + repo_config" where
  "load_repo_roadmap_config js fl path text =
     (case load_payload js fl ''roadmap'' text of Inl e \<Rightarrow> Inl e | Inr m \<Rightarrow> repo_config_of path m)"

definition build_registry :: "(string \<Rightarrow> road_transition dict \<Rightarrow> string) \<Rightarrow> repo_config \<Rightarrow> registry" where
  "build_registry content_hash c = \<lparr>rg_version = ''repo-config'', rg_transitions = rc_transitions c,
     rg_content_hash = content_hash ''repo-config'' (rc_transitions c), rg_source_ref = rc_source_ref c\<rparr>"

text \<open>The promotion policy of the engine; the number of tasks of one apply keeps its default.\<close>

definition roadmap_policy_from_config :: "repo_config \<Rightarrow> bool \<Rightarrow> promotion_policy" where
  "roadmap_policy_from_config c apply = default_promotion_policy
     \<lparr>pp_auto_continue := True, pp_allowlisted_transitions := rc_allowed_transitions c,
      pp_max_chain_depth := rc_max_chain_depth c, pp_max_promotions := rc_max_promotions c,
      pp_cooldown_seconds := rc_cooldown_seconds c, pp_require_review_edge := rc_require_review_edge c,
      pp_require_ack_edge := rc_require_ack_edge c,
      pp_require_trusted_assignee := rc_require_trusted_assignee c,
      pp_trusted_assignees := rc_trusted_assignees c, pp_require_origin_match := rc_require_origin_match c,
      pp_expected_origin := rc_expected_origin c, pp_expected_return_to := rc_expected_return_to c,
      pp_require_policy_resolution := rc_require_policy_resolution c,
      pp_apply_enabled := apply \<and> rc_apply_mode c, pp_impl_assignee := rc_impl_assignee c,
      pp_review_assignee := rc_review_assignee c, pp_ack_trigger_agent := rc_ack_trigger_agent c\<rparr>"

subsection \<open>Input contracts\<close>

definition config_field :: "string \<Rightarrow> json dict \<Rightarrow> string + input_field" where
  "config_field name spec =
     (let a = str_or (get_str spec ''authority'') ''owner'' in
      case field_authority_of a of
        None \<Rightarrow> Inl (repr_str a @ '' is not a valid FieldAuthority'')
      | Some authority \<Rightarrow> Inr
          \<lparr>if_name = name, if_value_type = get_str spec ''type'', if_authority = authority,
           if_required = cfg_bool spec ''required'' True,
           if_allowed_values = map JStr (cfg_str_tuple spec ''allowed_values''),
           if_description = get_str spec ''description'', if_secret = cfg_bool spec ''secret'' False,
           if_kind = FACT, if_question = [], if_answer_hint = []\<rparr>)"

fun config_entries :: "string \<Rightarrow> (string \<Rightarrow> json dict \<Rightarrow> string + 'a) \<Rightarrow> json dict \<Rightarrow> string + 'a list" where
  "config_entries what f [] = Inr []"
| "config_entries what f ((name, raw) # rest) =
     (case raw of
        JObj spec \<Rightarrow>
          (case f name spec of
             Inl e \<Rightarrow> Inl e
           | Inr x \<Rightarrow> (case config_entries what f rest of Inl e \<Rightarrow> Inl e | Inr xs \<Rightarrow> Inr (x # xs)))
      | _ \<Rightarrow> Inl (''invalid '' @ what @ '' entry: '' @ name))"

definition load_fields :: "json option \<Rightarrow> string + input_field list" where
  "load_fields raw = (case raw of Some (JObj m) \<Rightarrow> config_entries ''field'' config_field m | _ \<Rightarrow> Inr [])"

definition config_artifact :: "string \<Rightarrow> json dict \<Rightarrow> string + artifact_spec" where
  "config_artifact artifact_id spec =
     (case load_fields (dict_get spec ''fields'') of
        Inl e \<Rightarrow> Inl e
      | Inr fs \<Rightarrow> Inr
          \<lparr>ar_artifact_id = artifact_id, ar_template_path = get_str spec ''template_path'',
           ar_final_path = get_str spec ''final_path'', ar_fields = fs,
           ar_write_mode = str_or (get_str spec ''write_mode'') ''materialize''\<rparr>)"

definition load_artifacts :: "json option \<Rightarrow> string + artifact_spec list" where
  "load_artifacts raw =
     (case raw of Some (JObj m) \<Rightarrow> config_entries ''artifact'' config_artifact m | _ \<Rightarrow> Inr [])"

definition contract_of_payload :: "json dict \<Rightarrow> registry_error + input_contract" where
  "contract_of_payload m =
     (case py_int (case dict_get m ''version'' of Some v \<Rightarrow> if truthy v then v else JInt 1 | None \<Rightarrow> JInt 1) of
        Inl e \<Rightarrow> Inl (Registry_Raises e)
      | Inr version \<Rightarrow>
          (case load_fields (dict_get m ''fields'') of
             Inl e \<Rightarrow> Inl (Registry_Invalid e)
           | Inr fs \<Rightarrow>
               (case load_artifacts (dict_get m ''artifacts'') of
                  Inl e \<Rightarrow> Inl (Registry_Invalid e)
                | Inr arts \<Rightarrow> Inr
                    \<lparr>co_contract_ref = get_str m ''contract_ref'', co_version = version,
                     co_owner_role = get_str m ''owner_role'', co_fields = fs, co_artifacts = arts,
                     co_resume_transition = get_str m ''resume_transition''\<rparr>)))"

definition load_input_contract ::
    "(string \<Rightarrow> json option) \<Rightarrow> (string \<Rightarrow> real \<times> string) \<Rightarrow> string \<Rightarrow> registry_error + input_contract" where
  "load_input_contract js fl text =
     (case load_payload js fl ''input contract'' text of Inl e \<Rightarrow> Inl e | Inr m \<Rightarrow> contract_of_payload m)"

text \<open>A registry of contracts under their references; a later file replaces an earlier one. The files are read in order.\<close>

fun load_contracts ::
    "(string \<Rightarrow> json option) \<Rightarrow> (string \<Rightarrow> real \<times> string) \<Rightarrow> string list \<Rightarrow> input_contract dict \<Rightarrow>
       registry_error + input_contract dict" where
  "load_contracts js fl [] acc = Inr acc"
| "load_contracts js fl (text # texts) acc =
     (case load_input_contract js fl text of
        Inl e \<Rightarrow> Inl e
      | Inr c \<Rightarrow> load_contracts js fl texts (dict_set (co_contract_ref c) c acc))"

definition load_contract_registry ::
    "(string \<Rightarrow> json option) \<Rightarrow> (string \<Rightarrow> real \<times> string) \<Rightarrow> string list \<Rightarrow> registry_error + input_contract dict" where
  "load_contract_registry js fl texts = load_contracts js fl texts []"

end
