(* ===== verification/Register.thy ===== *)
theory Register
  imports Repo_Config
begin

text \<open>
  The scaffold and the watchdog registry of the roadmap autopromoter (\<open>roadmap_register.py\<close>): the
  validation of the caller's values, the configuration text written for them, and the list of
  configurations the cron script iterates.

  A file system is a map from paths to texts; \<open>wr\<close> is the error of a failing write. Paths are in the
  normal form of \<open>pathlib\<close>; \<open>resolve\<close> is \<open>Path.resolve\<close>.
\<close>

subsection \<open>Values\<close>

definition origin_char :: "char \<Rightarrow> bool" where
  "origin_char c \<longleftrightarrow> c \<notin> {CHR 0x22, CHR 0x27, CHR 0x5C, CHR 0x0D, CHR 0x0A, CHR 0x09}"

definition origin_text :: "string \<Rightarrow> bool" where
  "origin_text s \<longleftrightarrow> 1 \<le> length s \<and> length s \<le> 240 \<and> list_all origin_char s"

definition ident_char :: "char \<Rightarrow> bool" where
  "ident_char c \<longleftrightarrow> is_alnum c \<or> c \<in> set ''._:>#/+-''"

definition ident_text :: "string \<Rightarrow> bool" where
  "ident_text s \<longleftrightarrow> (case s of [] \<Rightarrow> False | c # cs \<Rightarrow> is_alnum c \<and> length cs \<le> 120 \<and> list_all ident_char cs)"

definition safe_origin :: "string \<Rightarrow> string option" where
  "safe_origin v = (let text = py_strip v in if origin_text text then Some text else None)"

definition safe_ident :: "string \<Rightarrow> string option" where
  "safe_ident v = (let text = py_strip v in if ident_text text then Some text else None)"

record render_args =
  ra_board :: string
  ra_origin :: string
  ra_transition :: string
  ra_from_slice :: string
  ra_to_slice :: string
  ra_return_to :: string
  ra_impl_assignee :: string
  ra_review_assignee :: string
  ra_roadmap_id :: string
  ra_template_preset :: string
  ra_goal_anchor :: string
  ra_apply_mode :: bool

text \<open>The values after validation and with their defaults; every refused value has the same message.\<close>

definition optional_value :: "(string \<Rightarrow> string option) \<Rightarrow> string \<Rightarrow> string \<Rightarrow> string option" where
  "optional_value f dflt v = (if v = [] then Some dflt else f v)"

definition validated :: "render_args \<Rightarrow> render_args option" where
  "validated a =
     (case (safe_ident (ra_board a), safe_ident (ra_transition a), safe_ident (ra_from_slice a),
            safe_ident (ra_to_slice a), safe_ident (ra_impl_assignee a), safe_ident (ra_review_assignee a),
            safe_origin (ra_origin a)) of
        (Some board, Some tid, Some from_slice, Some to_slice, Some impl, Some review, Some origin) \<Rightarrow>
          (case (optional_value safe_origin origin (ra_return_to a),
                 optional_value safe_ident (board @ ''.roadmap'') (ra_roadmap_id a),
                 optional_value safe_ident [] (ra_template_preset a),
                 optional_value safe_origin [] (ra_goal_anchor a)) of
             (Some return_to, Some roadmap, Some preset, Some goal) \<Rightarrow> Some
               \<lparr>ra_board = board, ra_origin = origin, ra_transition = tid, ra_from_slice = from_slice,
                ra_to_slice = to_slice, ra_return_to = return_to, ra_impl_assignee = impl,
                ra_review_assignee = review, ra_roadmap_id = roadmap, ra_template_preset = preset,
                ra_goal_anchor = goal, ra_apply_mode = ra_apply_mode a\<rparr>
           | _ \<Rightarrow> None)
      | _ \<Rightarrow> None)"

subsection \<open>The configuration text\<close>

definition quote_text :: "string \<Rightarrow> string" where
  "quote_text s = [CHR 0x22] @ s @ [CHR 0x22]"

definition config_lines :: "render_args \<Rightarrow> string list \<Rightarrow> string list" where
  "config_lines a sequence =
     [''# agentflow-hermes repo-config roadmap GO autopromoter.'',
      ''#'',
      ''# Consumed by `agentflow-hermes roadmap promote|watch --config <this file>`.'',
      ''# `enabled: false` is the kill switch: no board read or write happens when'',
      ''# it is false, regardless of --apply.'',
      ''enabled: true'',
      ''kill_switch: false'',
      [],
      ''# same_board_only: true means promote/watch only ever read/write this board.'',
      ''board: '' @ ra_board a,
      ''same_board_only: true'',
      [],
      ''# apply_mode is the repo-level arm for board writes. A real create also'',
      ''# requires the operator to pass --apply on the CLI; both gates must be open.'',
      ''apply_mode: '' @ (if ra_apply_mode a then ''true'' else ''false''),
      [],
      ''expected_origin: '' @ quote_text (ra_origin a),
      ''expected_return_to: '' @ quote_text (ra_return_to a),
      [],
      ''impl_assignee: '' @ ra_impl_assignee a,
      ''review_assignee: '' @ ra_review_assignee a,
      ''# true means derive the ack agent from review_assignee/trusted_assignees.'',
      ''ack_trigger_agent: true'',
      ''trusted_assignees:'',
      ''  - '' @ ra_review_assignee a,
      [],
      ''allowed_transitions:'',
      ''  - '' @ ra_transition a,
      [],
      ''max_chain_depth: 3'',
      ''max_promotions_per_roadmap: 6'',
      ''promote_cooldown_seconds: 900'',
      ''require_review_edge: true'',
      ''require_ack_edge: true'',
      ''require_trusted_assignee: true'',
      ''require_origin_match: true'',
      ''require_policy_resolution: true'',
      [],
      ''transitions:'',
      ''  '' @ ra_transition a @ '':'',
      ''    roadmap_id: '' @ ra_roadmap_id a,
      ''    from_slice: '' @ ra_from_slice a,
      ''    to_slice: '' @ ra_to_slice a] @
     (if ra_template_preset a = [] then [] else [''    template_preset: '' @ ra_template_preset a]) @
     (if ra_goal_anchor a = [] then [] else [''    goal_anchor: '' @ quote_text (ra_goal_anchor a)]) @
     [''    slice_template:''] @
     map (\<lambda>kind. ''      - '' @ kind) sequence @
     [''    policy_refs:'',
      ''      - design_opus'',
      ''      - implementation_default'',
      ''    max_chain_depth: 3'',
      ''    version: '' @ (if ra_template_preset a = [] then ''template-v1'' else ''template-v2''),
      []]"

definition render_roadmap_config :: "render_args \<Rightarrow> string + string" where
  "render_roadmap_config args =
     (case validated args of
        None \<Rightarrow> Inl ''invalid_value''
      | Some a \<Rightarrow>
          (case resolve_template (ra_template_preset a) [] (ra_goal_anchor a) of
             Inl e \<Rightarrow> Inl e
           | Inr template \<Rightarrow> Inr (join_with [line_feed] (config_lines a (rt_slice_template template)))))"

subsection \<open>Writing a configuration\<close>

type_synonym files = "string \<Rightarrow> string option"

datatype init_result =
    Init_Exists
  | Init_Refused string
  | Init_Write_Failed string
  | Init_Written string string bool bool
  | Init_Raises py_error

text \<open>
  \<open>run_roadmap_init_config\<close>. The new file stays when it does not load. \<open>Init_Written\<close> carries the
  board, the transition as the caller gave it, and the two switches of the loaded configuration.
\<close>

definition run_init_config ::
    "(string \<Rightarrow> json option) \<Rightarrow> (string \<Rightarrow> real \<times> string) \<Rightarrow> string option \<Rightarrow> string \<Rightarrow> bool \<Rightarrow> render_args \<Rightarrow>
       files \<Rightarrow> init_result \<times> files" where
  "run_init_config js fl wr output force args fs =
     (if fs output \<noteq> None \<and> \<not> force then (Init_Exists, fs)
      else case render_roadmap_config args of
        Inl e \<Rightarrow> (Init_Refused e, fs)
      | Inr content \<Rightarrow>
          (case wr of
             Some e \<Rightarrow> (Init_Write_Failed (sanitize_string 2000 ''redacted'' e), fs)
           | None \<Rightarrow>
               (case load_repo_roadmap_config js fl output content of
                  Inl (Registry_Invalid e) \<Rightarrow>
                    (Init_Write_Failed (sanitize_string 2000 ''redacted'' e), fs(output \<mapsto> content))
                | Inl (Registry_Raises e) \<Rightarrow> (Init_Raises e, fs(output \<mapsto> content))
                | Inr c \<Rightarrow>
                    (Init_Written (rc_board c) (ra_transition args) (rc_apply_mode c) (rc_enabled c),
                     fs(output \<mapsto> content)))))"

subsection \<open>The watchdog registry\<close>

definition REGISTRY_VERSION :: int where "REGISTRY_VERSION = 1"

record watchdogs =
  wd_version :: json
  wd_configs :: "json dict list"

definition entry_config :: "json dict \<Rightarrow> string" where
  "entry_config entry =
     (case (case dict_get entry ''config'' of Some v \<Rightarrow> if truthy v then Some v else dict_get entry ''path''
                                            | None \<Rightarrow> dict_get entry ''path'') of
        Some (JStr s) \<Rightarrow> s
      | _ \<Rightarrow> [])"

fun normalize_entries :: "json list \<Rightarrow> string + json dict list" where
  "normalize_entries [] = Inr []"
| "normalize_entries (x # xs) =
     (case (case x of JStr s \<Rightarrow> Some [(''config'', JStr s)]
                    | JObj m \<Rightarrow> if entry_config m \<noteq> [] then Some m else None
                    | _ \<Rightarrow> None) of
        None \<Rightarrow> Inl ''registry.configs entries must be paths or mappings''
      | Some e \<Rightarrow> (case normalize_entries xs of Inl m \<Rightarrow> Inl m | Inr es \<Rightarrow> Inr (e # es)))"

text \<open>
  \<open>load_registry\<close> on the text of the file; \<open>js\<close> gives \<open>Inl\<close> of its message when \<open>json.loads\<close> raises.
\<close>

definition load_watchdogs :: "(string \<Rightarrow> string + json) \<Rightarrow> string option \<Rightarrow> string + watchdogs" where
  "load_watchdogs js file =
     (case file of
        None \<Rightarrow> Inr \<lparr>wd_version = JInt REGISTRY_VERSION, wd_configs = []\<rparr>
      | Some text \<Rightarrow>
          (case js text of
             Inl e \<Rightarrow> Inl (''malformed registry: '' @ e)
           | Inr (JObj m) \<Rightarrow>
               (case dict_get m ''configs'' of
                  Some (JArr xs) \<Rightarrow>
                    (case normalize_entries xs of
                       Inl e \<Rightarrow> Inl e
                     | Inr es \<Rightarrow> Inr
                         \<lparr>wd_version = (case dict_get m ''version'' of
                             Some (JInt i) \<Rightarrow> JInt i | Some (JBool b) \<Rightarrow> JBool b | _ \<Rightarrow> JInt REGISTRY_VERSION),
                          wd_configs = es\<rparr>)
                | _ \<Rightarrow> Inl ''registry.configs must be a list'')
           | Inr _ \<Rightarrow> Inl ''registry root must be a mapping''))"

definition watchdogs_json :: "watchdogs \<Rightarrow> json" where
  "watchdogs_json w = JObj [(''version'', wd_version w), (''configs'', JArr (map JObj (wd_configs w)))]"

text \<open>The last component of a path, the path before it, and the last component without its suffix.\<close>

definition path_name :: "string \<Rightarrow> string" where
  "path_name p = rev (takeWhile (\<lambda>c. c \<noteq> CHR ''/'') (rev p))"

definition path_parent :: "string \<Rightarrow> string" where
  "path_parent p =
     (case dropWhile (\<lambda>c. c \<noteq> CHR ''/'') (rev p) of
        [] \<Rightarrow> ''.''
      | c # r \<Rightarrow> if r = [] then ''/'' else rev r)"

definition path_stem :: "string \<Rightarrow> string" where
  "path_stem p =
     (let name = path_name p; tail_rev = takeWhile (\<lambda>c. c \<noteq> CHR ''.'') (rev name);
          stem = take (length name - Suc (length tail_rev)) name
      in if CHR ''.'' \<in> set name \<and> stem \<noteq> [] \<and> tail_rev \<noteq> [] then stem else name)"

definition path_join :: "string \<Rightarrow> string \<Rightarrow> string" where
  "path_join dir name = (if dir = ''.'' then name else if dir = ''/'' then ''/'' @ name else dir @ ''/'' @ name)"

definition default_receipts_file :: "string \<Rightarrow> string" where
  "default_receipts_file config_path = path_join (path_parent config_path) ''.agentflow-roadmap-receipts.json''"

datatype register_result =
    Malformed_Config string
  | Malformed_Registry string
  | Write_Failed string
  | Already_Registered string
  | Registered "json dict"
  | Unregistered bool string
  | Register_Raises py_error

definition watchdog_entry :: "repo_config \<Rightarrow> string \<Rightarrow> string \<Rightarrow> string \<Rightarrow> json dict" where
  "watchdog_entry c config_path resolved rcpt =
     [(''name'', JStr (str_or (rc_board c) (path_stem config_path))), (''config'', JStr resolved),
      (''workdir'', JStr (path_parent resolved)),
      (''receipts_file'', JStr (str_or rcpt (default_receipts_file config_path))),
      (''board'', JStr (rc_board c)), (''enabled'', JBool (rc_enabled c))]"

text \<open>
  The two commands on the file of the registry; \<open>dumps\<close> writes JSON, \<open>cfg\<close> is the loaded configuration.
\<close>

definition run_register ::
    "(string \<Rightarrow> string + json) \<Rightarrow> (json \<Rightarrow> string) \<Rightarrow> string option \<Rightarrow> registry_error + repo_config \<Rightarrow>
       string \<Rightarrow> string \<Rightarrow> string \<Rightarrow> string option \<Rightarrow> register_result \<times> string option" where
  "run_register js dumps wr cfg config_path resolved rcpt file =
     (case cfg of
        Inl (Registry_Invalid e) \<Rightarrow> (Malformed_Config (sanitize_string 2000 ''redacted'' e), file)
      | Inl (Registry_Raises e) \<Rightarrow> (Register_Raises e, file)
      | Inr c \<Rightarrow>
          (case load_watchdogs js file of
             Inl e \<Rightarrow> (Malformed_Registry (sanitize_string 2000 ''redacted'' e), file)
           | Inr w \<Rightarrow>
               if resolved \<in> set (map entry_config (wd_configs w)) then (Already_Registered resolved, file)
               else let entry = watchdog_entry c config_path resolved rcpt in
                 (case wr of
                    Some e \<Rightarrow> (Write_Failed (sanitize_string 2000 ''redacted'' e), file)
                  | None \<Rightarrow> (Registered entry, Some (dumps (watchdogs_json
                      \<lparr>wd_version = JInt REGISTRY_VERSION, wd_configs = wd_configs w @ [entry]\<rparr>))))))"

definition run_unregister ::
    "(string \<Rightarrow> string + json) \<Rightarrow> (json \<Rightarrow> string) \<Rightarrow> string option \<Rightarrow> string \<Rightarrow> string option \<Rightarrow>
       register_result \<times> string option" where
  "run_unregister js dumps wr resolved file =
     (case load_watchdogs js file of
        Inl e \<Rightarrow> (Malformed_Registry (sanitize_string 2000 ''redacted'' e), file)
      | Inr w \<Rightarrow>
          let kept = filter (\<lambda>e. entry_config e \<noteq> resolved) (wd_configs w);
              removed = (length kept \<noteq> length (wd_configs w))
          in if \<not> removed then (Unregistered False resolved, file)
             else case wr of
               Some e \<Rightarrow> (Write_Failed (sanitize_string 2000 ''redacted'' e), file)
             | None \<Rightarrow> (Unregistered True resolved,
                 Some (dumps (watchdogs_json \<lparr>wd_version = JInt REGISTRY_VERSION, wd_configs = kept\<rparr>))))"

end
