(* ===== verification/Register_Props.thy ===== *)
theory Register_Props
  imports Register
begin

text \<open>
  What the scaffolded configuration and the watchdog registry promise: the text written for plain
  values reads back as exactly those values, what an accepted value can still do to the text, what
  the parser does with a wrongly indented line, and the registry as a set of configurations.
\<close>

subsection \<open>Lines of a rendered document\<close>

definition one_line :: "string \<Rightarrow> bool" where
  "one_line s \<longleftrightarrow> list_all (\<lambda>c. \<not> is_line_break c) s"

lemma split_lines_one_line:
  assumes "b \<in> {line_feed, CHR 0x0C}"
  shows "one_line s \<Longrightarrow> split_lines_acc acc (s @ b # t) = (rev acc @ s) # split_lines_acc [] t"
proof (induction s arbitrary: acc)
  case Nil
  show ?case using assms by (auto simp: line_feed_def is_line_break_def)
next
  case (Cons c s)
  then have "\<not> is_line_break c" "one_line s" by (auto simp: one_line_def)
  moreover from this have "c \<noteq> CHR 0x0D" by (auto simp: is_line_break_def)
  ultimately show ?case using Cons.IH by simp
qed

lemma join_lines: "join_with [line_feed] (ls @ [[]]) = concat (map (\<lambda>l. l @ [line_feed]) ls)"
proof (induction ls)
  case (Cons l ls)
  then show ?case by (cases ls) auto
qed simp

lemma split_lines_joined:
  "list_all one_line ls \<Longrightarrow>
    split_lines_acc [] (concat (map (\<lambda>l. l @ [line_feed]) ls) @ t) = ls @ split_lines_acc [] t"
  by (induction ls) (auto simp: split_lines_one_line)

text \<open>A line \<open>key: value\<close> at an indentation, an item line and a header line.\<close>

definition spaces :: "nat \<Rightarrow> string" where
  "spaces n = replicate n CHR '' ''"

definition entry_line :: "nat \<Rightarrow> string \<Rightarrow> string \<Rightarrow> string" where
  "entry_line i k v = spaces i @ k @ '': '' @ v"

definition item_line :: "nat \<Rightarrow> string \<Rightarrow> string" where
  "item_line i v = spaces i @ ''- '' @ v"

definition header_line :: "nat \<Rightarrow> string \<Rightarrow> string" where
  "header_line i k = spaces i @ k @ '':''"

definition bare_char :: "char \<Rightarrow> bool" where
  "bare_char c \<longleftrightarrow> \<not> is_space c \<and> c \<notin> {CHR 0x22, CHR 0x27}"

text \<open>A key that needs no quoting, and a value that the comment scan of a line leaves alone.\<close>

definition bare_key :: "string \<Rightarrow> bool" where
  "bare_key k \<longleftrightarrow> k \<noteq> [] \<and> list_all bare_char k \<and> hd k \<noteq> CHR ''#'' \<and> CHR '':'' \<notin> set k"

definition bare_value :: "string \<Rightarrow> bool" where
  "bare_value v \<longleftrightarrow> v \<noteq> [] \<and> \<not> is_space (hd v) \<and> \<not> is_space (last v) \<and> 
     cut_comment (Some CHR '' '') False False v = v"

lemma space_is_space [simp]: "is_space CHR '' ''"
  by (simp add: is_space_def)

lemma strip_stripped:
  assumes "s \<noteq> []" "\<not> is_space (hd s)" "\<not> is_space (last s)"
  shows "py_strip s = s" and "py_rstrip s = s" and "py_strip (spaces n @ s) = s"
    and "py_rstrip (spaces n @ s) = spaces n @ s"
proof -
  have d: "dropWhile is_space s = s" using assms(1,2) by (cases s) auto
  have r: "dropWhile is_space (rev s) = rev s" using assms(1,3) by (cases s rule: rev_cases) auto
  have f: "dropWhile is_space (spaces n @ s) = dropWhile is_space s" by (induction n) (auto simp: spaces_def)
  show "py_strip s = s" "py_rstrip s = s" using d r by (simp_all add: py_strip_def py_rstrip_def)
  show "py_strip (spaces n @ s) = s" using d r f by (simp add: py_strip_def)
  have "dropWhile is_space (rev s @ rev (spaces n)) = rev s @ rev (spaces n)"
    using assms(1,3) by (cases s rule: rev_cases) auto
  then show "py_rstrip (spaces n @ s) = spaces n @ s" by (simp add: py_rstrip_def)
qed

lemma cut_comment_bare:
  "list_all bare_char k \<Longrightarrow> prev \<noteq> None \<Longrightarrow> prev \<noteq> Some CHR '' '' \<Longrightarrow>
    cut_comment prev False False (k @ s) =
      k @ cut_comment (if k = [] then prev else Some (last k)) False False s"
proof (induction k arbitrary: prev)
  case (Cons c k)
  from Cons.prems(1) have "bare_char c" "list_all bare_char k" by simp_all
  moreover from this have "c \<noteq> CHR '' ''" "c \<noteq> CHR 0x22" "c \<noteq> CHR 0x27" by (auto simp: bare_char_def)
  moreover note Cons.prems(2,3)
  ultimately show ?case using Cons.IH [of "Some c"] by simp
qed simp

lemma cut_comment_key:
  assumes "list_all bare_char k" "k \<noteq> []" "hd k \<noteq> CHR ''#''"
  shows "cut_comment prev False False (k @ s) = k @ cut_comment (Some (last k)) False False s"
proof -
  obtain c cs where k: "k = c # cs" using assms(2) by (cases k) auto
  have "cut_comment (Some c) False False (cs @ s) =
      cs @ cut_comment (if cs = [] then Some c else Some (last cs)) False False s"
    using assms k by (intro cut_comment_bare) (auto simp: bare_char_def)
  with assms k show ?thesis by (auto simp: bare_char_def)
qed

lemma cut_comment_spaces: "\<exists>p. cut_comment prev False False (spaces n @ s) = spaces n @ cut_comment p False False s"
  by (induction n arbitrary: prev) (auto simp: spaces_def)

lemma clean_lineI:
  assumes "s \<noteq> []" "\<not> is_space (hd s)" "\<not> is_space (last s)" "hd s \<noteq> CHR ''#''"
    and "\<And>p. cut_comment p False False s = s"
  shows "clean_line (spaces n @ s) = Some (spaces n @ s)"
proof -
  have "cut_comment None False False (spaces n @ s) = spaces n @ s"
    using cut_comment_spaces [of None n s] assms(5) by auto
  moreover have "\<not> starts_with ''#'' s" using assms(1,4) by (cases s) (auto simp: starts_with_def)
  ultimately show ?thesis using assms(1) strip_stripped [OF assms(1-3)]
    by (simp add: clean_line_def Let_def)
qed

lemma clean_entry:
  assumes "bare_key k" "bare_value v"
  shows "clean_line (entry_line i k v) = Some (entry_line i k v)"
proof -
  have "cut_comment p False False (k @ '': '' @ v) = k @ '': '' @ v" for p
    using assms cut_comment_key [of k p "'': '' @ v"] by (simp add: bare_key_def bare_value_def)
  moreover have "hd (k @ '': '' @ v) = hd k" "last (k @ '': '' @ v) = last v" "\<not> is_space (hd k)"
    using assms by (auto simp: bare_key_def bare_value_def bare_char_def neq_Nil_conv)
  ultimately show ?thesis using assms clean_lineI [of "k @ '': '' @ v" i]
    by (simp add: bare_key_def bare_value_def entry_line_def)
qed

lemma clean_item:
  assumes "bare_value v"
  shows "clean_line (item_line i v) = Some (item_line i v)"
  using assms clean_lineI [of "''- '' @ v" i] by (simp add: bare_value_def item_line_def is_space_def)

lemma clean_header:
  assumes "bare_key k"
  shows "clean_line (header_line i k) = Some (header_line i k)"
proof -
  have "cut_comment p False False (k @ '':'') = k @ '':''" for p
    using assms cut_comment_key [of k p "'':''"] by (simp add: bare_key_def)
  moreover have "hd (k @ '':'') = hd k" "\<not> is_space (hd k)"
    using assms by (auto simp: bare_key_def bare_char_def neq_Nil_conv)
  ultimately show ?thesis using assms clean_lineI [of "k @ '':''" i]
    by (simp add: bare_key_def header_line_def is_space_def)
qed

lemma strip_keeps_head:
  assumes "\<not> is_space c"
  shows "\<exists>t. py_strip (c # s) = c # t" and "\<exists>t. py_rstrip (c # s) = c # t"
proof -
  have "\<exists>t. rev (dropWhile is_space (rev s @ [c])) = c # t"
    using assms by (auto simp: dropWhile_append intro: exI [of _ "rev (dropWhile is_space (rev s))"])
  then show "\<exists>t. py_strip (c # s) = c # t" "\<exists>t. py_rstrip (c # s) = c # t"
    using assms by (simp_all add: py_strip_def py_rstrip_def)
qed

lemma clean_comment: "clean_line (CHR ''#'' # s) = None"
proof -
  have n: "\<not> is_space CHR ''#''" by (simp add: is_space_def)
  obtain t where t: "py_rstrip (CHR ''#'' # s) = CHR ''#'' # t" using strip_keeps_head(2) [OF n] by blast
  obtain u where "py_strip (CHR ''#'' # t) = CHR ''#'' # u" using strip_keeps_head(1) [OF n] by blast
  with t show ?thesis by (simp add: clean_line_def starts_with_def)
qed

lemma clean_blank: "clean_line [] = None"
  by (simp add: clean_line_def py_strip_def py_rstrip_def)

subsection \<open>Reading the lines\<close>

lemma py_strip_Nil [simp]: "py_strip [] = []"
  by (simp add: py_strip_def)

lemma bare_key_facts:
  assumes "bare_key k"
  shows "k \<noteq> []" "\<not> is_space (hd k)" "\<not> is_space (last k)" "py_strip k = k"
    "strip_chars [CHR 0x22, CHR 0x27] k = k" "CHR '':'' \<notin> set k" "hd k \<noteq> CHR '' ''"
proof -
  have all: "list_all bare_char k" and ne: "k \<noteq> []" using assms by (auto simp: bare_key_def)
  then have h: "bare_char (hd k)" "bare_char (last k)" by (auto simp: list_all_iff)
  show "k \<noteq> []" "\<not> is_space (hd k)" "\<not> is_space (last k)" "CHR '':'' \<notin> set k" "hd k \<noteq> CHR '' ''"
    using assms h by (auto simp: bare_key_def bare_char_def)
  then show "py_strip k = k" by (intro strip_stripped(1))
  show "strip_chars [CHR 0x22, CHR 0x27] k = k"
  proof -
    have "dropWhile (\<lambda>c. c \<in> set [CHR 0x22, CHR 0x27]) k = k"
      using h(1) ne by (cases k) (auto simp: bare_char_def)
    moreover have "dropWhile (\<lambda>c. c \<in> set [CHR 0x22, CHR 0x27]) (rev k) = rev k"
      using h(2) ne by (cases k rule: rev_cases) (auto simp: bare_char_def)
    ultimately show ?thesis by (simp add: strip_chars_def)
  qed
qed

lemma indent_spaces: "s \<noteq> [] \<Longrightarrow> hd s \<noteq> CHR '' '' \<Longrightarrow> indent_of (spaces i @ s) = i"
  by (induction i) (auto simp: indent_of_def spaces_def neq_Nil_conv)

lemma split_colon: "CHR '':'' \<notin> set k \<Longrightarrow> split_at_char (\<lambda>c. c = CHR '':'') (k @ CHR '':'' # r) = (k, Some r)"
  by (induction k) (auto simp: split_at_char_def split: list.splits)

lemma bare_key_no_item: "bare_key k \<Longrightarrow> \<not> starts_with ''- '' (k @ CHR '':'' # r)"
proof (cases k)
  case (Cons c cs)
  assume "bare_key k"
  with Cons have "list_all bare_char cs" by (simp add: bare_key_def)
  with Cons show ?thesis by (cases cs) (auto simp: starts_with_def bare_char_def)
qed (simp add: starts_with_def)

lemma strip_entry:
  assumes "bare_key k" "bare_value v"
  shows "indent_of (entry_line i k v) = i" "yaml_entry (py_strip (entry_line i k v)) = Some (k, v)"
    "\<not> starts_with ''- '' (py_strip (entry_line i k v))"
proof -
  note k = bare_key_facts [OF assms(1)]
  have v: "v \<noteq> []" "\<not> is_space (hd v)" "\<not> is_space (last v)" using assms(2) by (auto simp: bare_value_def)
  have strip: "py_strip (entry_line i k v) = k @ '': '' @ v"
    unfolding entry_line_def using k v by (intro strip_stripped(3)) (auto simp: neq_Nil_conv)
  show "indent_of (entry_line i k v) = i"
    unfolding entry_line_def using k by (intro indent_spaces) (auto simp: neq_Nil_conv)
  have "py_strip (spaces 1 @ v) = v" using v by (rule strip_stripped(3))
  then show "yaml_entry (py_strip (entry_line i k v)) = Some (k, v)"
    using k by (simp add: strip yaml_entry_def split_colon spaces_def)
  show "\<not> starts_with ''- '' (py_strip (entry_line i k v))"
    unfolding strip using bare_key_no_item [OF assms(1)] by simp
qed

lemma strip_header:
  assumes "bare_key k"
  shows "indent_of (header_line i k) = i" "yaml_entry (py_strip (header_line i k)) = Some (k, [])"
    "\<not> starts_with ''- '' (py_strip (header_line i k))"
proof -
  note k = bare_key_facts [OF assms]
  have strip: "py_strip (header_line i k) = k @ '':''"
    unfolding header_line_def using k by (intro strip_stripped(3)) (auto simp: neq_Nil_conv is_space_def)
  show "indent_of (header_line i k) = i"
    unfolding header_line_def using k by (intro indent_spaces) (auto simp: neq_Nil_conv)
  show "yaml_entry (py_strip (header_line i k)) = Some (k, [])"
    using k by (simp add: strip yaml_entry_def split_colon)
  show "\<not> starts_with ''- '' (py_strip (header_line i k))"
    unfolding strip using bare_key_no_item [OF assms] by simp
qed

lemma strip_item:
  assumes "bare_value v"
  shows "indent_of (item_line i v) = i" "py_strip (item_line i v) = ''- '' @ v" "py_strip v = v"
proof -
  have v: "v \<noteq> []" "\<not> is_space (hd v)" "\<not> is_space (last v)" using assms by (auto simp: bare_value_def)
  show "indent_of (item_line i v) = i" unfolding item_line_def by (rule indent_spaces) auto
  show "py_strip (item_line i v) = ''- '' @ v"
    unfolding item_line_def by (rule strip_stripped(3)) (use v in \<open>auto simp: is_space_def\<close>)
  show "py_strip v = v" using v by (rule strip_stripped(1))
qed

type_synonym entries = "(string \<times> string) list"

definition entry_lines :: "nat \<Rightarrow> entries \<Rightarrow> string list" where
  "entry_lines i es = map (\<lambda>(k, v). entry_line i k v) es"

definition bare_entries :: "entries \<Rightarrow> bool" where
  "bare_entries es \<longleftrightarrow> list_all (\<lambda>(k, v). bare_key k \<and> bare_value v) es"

definition read_entries :: "(string \<Rightarrow> real \<times> string) \<Rightarrow> entries \<Rightarrow> json dict \<Rightarrow> json dict" where
  "read_entries fl es d = foldl (\<lambda>d (k, v). dict_set k (parse_scalar fl v) d) d es"

lemma parse_entries:
  "bare_entries es \<Longrightarrow>
    parse_mapping fl (entry_lines i es @ rest) i acc = parse_mapping fl rest i (read_entries fl es acc)"
proof (induction es arbitrary: acc)
  case (Cons e es)
  obtain k v where e: "e = (k, v)" by (cases e)
  with Cons.prems have b: "bare_key k" "bare_value v" "v \<noteq> []" "bare_entries es"
    by (auto simp: bare_entries_def bare_value_def)
  from Cons.IH [OF b(4)] strip_entry [OF b(1,2), of i] b(3) show ?case
    by (simp add: e entry_lines_def read_entries_def)
qed (simp add: entry_lines_def read_entries_def)

lemma parse_items:
  "list_all bare_value vs \<Longrightarrow> rest = [] \<or> indent_of (hd rest) \<noteq> i \<Longrightarrow>
    parse_list fl (map (item_line i) vs @ rest) i acc = Inr (JArr (acc @ map (parse_scalar fl) vs), rest)"
proof (induction vs arbitrary: acc)
  case Nil
  then show ?case by (cases rest) auto
next
  case (Cons v vs)
  then have b: "bare_value v" "list_all bare_value vs" by auto
  from Cons.IH [OF b(2) Cons.prems(2)] strip_item(1,2) [OF b(1), of i] strip_item(3) [OF b(1)] show ?case
    by (simp add: starts_with_def)
qed

text \<open>A key with an indented list, and one with an indented mapping.\<close>

lemma parse_list_entry:
  assumes "bare_key k" "list_all bare_value (v # vs)" "i < j" "rest = [] \<or> indent_of (hd rest) = i"
  shows "parse_mapping fl (header_line i k # map (item_line j) (v # vs) @ rest) i acc =
    parse_mapping fl rest i (dict_set k (JArr (map (parse_scalar fl) (v # vs))) acc)"
proof -
  have v: "bare_value v" using assms(2) by simp
  have "parse_block fl (map (item_line j) (v # vs) @ rest) j =
      Inr (JArr (map (parse_scalar fl) (v # vs)), rest)"
    using parse_items [OF assms(2), of rest j fl "[]"] assms(3,4) strip_item(1,2) [OF v, of j]
    by (auto simp: starts_with_def simp del: parse_list.simps)
  then show ?thesis using strip_header [OF assms(1), of i] strip_item(1) [OF v, of j] assms(3)
    by (simp del: parse_block.simps)
qed

lemma parse_mapping_entry:
  assumes "bare_key k" "i < j" "indent_of (hd ls) = j" "ls \<noteq> []" "\<not> starts_with ''- '' (py_strip (hd ls))"
    and "parse_mapping fl (ls @ rest) j [] = Inr (m, rest)"
  shows "parse_mapping fl (header_line i k # ls @ rest) i acc = parse_mapping fl rest i (dict_set k m acc)"
proof -
  obtain l ls' where ls: "ls = l # ls'" using assms(4) by (cases ls) auto
  have "parse_block fl (ls @ rest) j = Inr (m, rest)"
    using assms(3,5,6) ls by (simp del: parse_mapping.simps)
  then show ?thesis using strip_header [OF assms(1), of i] assms(2,3) ls
    by (simp del: parse_block.simps)
qed

subsection \<open>The rendered document\<close>

text \<open>An identifier that the scalar reader takes for a string.\<close>

definition plain_text :: "string \<Rightarrow> bool" where
  "plain_text s \<longleftrightarrow> ident_text s \<and>
     py_lower s \<notin> {''true'', ''yes'', ''false'', ''no'', ''null'', ''~'', []} \<and>
     \<not> re_fullmatch INT_RE s \<and> \<not> re_fullmatch FLOAT_RE s"

lemma ident_char_bare: "ident_char c \<Longrightarrow> bare_char c"
  by (auto simp: ident_char_def bare_char_def is_alnum_def is_alpha_def is_digit_def is_space_def Let_def)

lemma bare_char_no_break: "bare_char c \<Longrightarrow> \<not> is_line_break c"
  by (auto simp: bare_char_def is_space_def is_line_break_def Let_def)

lemma bare_text_one_line: "list_all bare_char s \<Longrightarrow> one_line s"
  by (auto simp: one_line_def list_all_iff bare_char_no_break)

lemma ident_text_facts:
  assumes "ident_text s"
  shows "s \<noteq> []" "list_all bare_char s" "hd s \<noteq> CHR ''#''" "bare_value s" "one_line s"
proof -
  obtain c cs where s: "s = c # cs" "is_alnum c" "list_all ident_char cs"
    using assms by (auto simp: ident_text_def split: list.splits)
  then have "ident_char c" by (simp add: ident_char_def)
  with s have all: "list_all ident_char s" by simp
  show ne: "s \<noteq> []" using s by simp
  show bare: "list_all bare_char s" using all by (auto simp: list_all_iff ident_char_bare)
  show h: "hd s \<noteq> CHR ''#''"
    using s(1,2) by (auto simp: is_alnum_def is_alpha_def is_digit_def Let_def)
  show "one_line s" using bare by (rule bare_text_one_line)
  have "cut_comment (Some CHR '' '') False False (s @ []) = s @ cut_comment (Some (last s)) False False []"
    using bare ne h by (rule cut_comment_key)
  moreover have "bare_char (hd s)" "bare_char (last s)" using bare ne by (auto simp: list_all_iff)
  ultimately show "bare_value s" using ne by (simp add: bare_value_def bare_char_def)
qed

lemma ident_text_key: "ident_text s \<Longrightarrow> CHR '':'' \<notin> set s \<Longrightarrow> bare_key s"
  using ident_text_facts by (simp add: bare_key_def)

lemma cut_comment_quoted:
  "list_all origin_char s \<Longrightarrow> cut_comment prev False True (s @ [CHR 0x22]) = s @ [CHR 0x22]"
  by (induction s arbitrary: prev) (auto simp: origin_char_def)

lemma quote_text_facts:
  assumes "origin_text s"
  shows "bare_value (quote_text s)" "parse_scalar fl (quote_text s) = JStr s"
proof -
  have "list_all origin_char s" using assms by (simp add: origin_text_def)
  then have "cut_comment p False False (quote_text s) = quote_text s" for p
    using cut_comment_quoted by (simp add: quote_text_def)
  then show "bare_value (quote_text s)" by (simp add: bare_value_def quote_text_def is_space_def)
  have "py_strip (quote_text s) = quote_text s"
    by (rule strip_stripped(1)) (auto simp: quote_text_def is_space_def)
  then show "parse_scalar fl (quote_text s) = JStr s"
    by (simp add: parse_scalar_def quoted_def quote_text_def)
qed

lemma plain_text_facts:
  assumes "plain_text s"
  shows "ident_text s" "bare_value s" "one_line s" "parse_scalar fl s = JStr s"
proof -
  show i: "ident_text s" using assms by (simp add: plain_text_def)
  note f = ident_text_facts [OF this]
  show "bare_value s" "one_line s" by fact+
  have h: "bare_char (hd s)" using f(1,2) by (auto simp: list_all_iff)
  then have "\<not> quoted s" by (auto simp: quoted_def bare_char_def)
  moreover have "py_strip s = s"
    using f(4) by (intro strip_stripped(1)) (auto simp: bare_value_def)
  ultimately show "parse_scalar fl s = JStr s"
    using assms by (auto simp: parse_scalar_def plain_text_def Let_def)
qed

lemma scalar_literals [simp]:
  "parse_scalar fl ''true'' = JBool True" "parse_scalar fl ''false'' = JBool False"
  "parse_scalar fl ''3'' = JInt 3" "parse_scalar fl ''6'' = JInt 6" "parse_scalar fl ''900'' = JInt 900"
  by code_simp+

definition known_words :: "string list" where
  "known_words = [''impl'', ''review'', ''fanin'', ''scout'', ''evidence'', ''scorecard'', ''brief'', ''design'',
     ''browser_e2e'', ''design_opus'', ''implementation_default'', ''template-v1'', ''template-v2'',
     ''impl-review-fanin'', ''research-loop'', ''shaman-loop'']"

lemma known_words_plain: "list_all plain_text known_words"
  by code_simp

definition front_entries :: "render_args \<Rightarrow> entries" where
  "front_entries a =
     [(''enabled'', ''true''), (''kill_switch'', ''false''), (''board'', ra_board a), (''same_board_only'', ''true''),
      (''apply_mode'', if ra_apply_mode a then ''true'' else ''false'')]"

definition back_entries :: "render_args \<Rightarrow> entries" where
  "back_entries a =
     [(''expected_return_to'', quote_text (ra_return_to a)), (''impl_assignee'', ra_impl_assignee a),
      (''review_assignee'', ra_review_assignee a), (''ack_trigger_agent'', ''true'')]"

definition top_entries :: "entries \<Rightarrow> render_args \<Rightarrow> entries" where
  "top_entries origin a = front_entries a @ origin @ back_entries a"

definition origin_entries :: "render_args \<Rightarrow> entries" where
  "origin_entries a = [(''expected_origin'', quote_text (ra_origin a))]"

definition limit_entries :: entries where
  "limit_entries =
     [(''max_chain_depth'', ''3''), (''max_promotions_per_roadmap'', ''6''), (''promote_cooldown_seconds'', ''900''),
      (''require_review_edge'', ''true''), (''require_ack_edge'', ''true''), (''require_trusted_assignee'', ''true''),
      (''require_origin_match'', ''true''), (''require_policy_resolution'', ''true'')]"

definition slice_entries :: "render_args \<Rightarrow> entries" where
  "slice_entries a =
     [(''roadmap_id'', ra_roadmap_id a), (''from_slice'', ra_from_slice a), (''to_slice'', ra_to_slice a)] @
     (if ra_template_preset a = [] then [] else [(''template_preset'', ra_template_preset a)]) @
     (if ra_goal_anchor a = [] then [] else [(''goal_anchor'', quote_text (ra_goal_anchor a))])"

definition last_entries :: "render_args \<Rightarrow> entries" where
  "last_entries a =
     [(''max_chain_depth'', ''3''),
      (''version'', if ra_template_preset a = [] then ''template-v1'' else ''template-v2'')]"

definition transition_lines :: "render_args \<Rightarrow> string list \<Rightarrow> string list" where
  "transition_lines a sequence =
     entry_lines 4 (slice_entries a) @
     header_line 4 ''slice_template'' # map (item_line 6) sequence @
     header_line 4 ''policy_refs'' # map (item_line 6) [''design_opus'', ''implementation_default''] @
     entry_lines 4 (last_entries a)"

definition config_body :: "entries \<Rightarrow> render_args \<Rightarrow> string list \<Rightarrow> string list" where
  "config_body heads a sequence =
     entry_lines 0 heads @
     header_line 0 ''trusted_assignees'' # map (item_line 2) [ra_review_assignee a] @
     header_line 0 ''allowed_transitions'' # map (item_line 2) [ra_transition a] @
     entry_lines 0 limit_entries @
     header_line 0 ''transitions'' # header_line 2 (ra_transition a) # transition_lines a sequence"

text \<open>The values of a document that reads back, all but its origin: plain identifiers, quoted texts on one line.\<close>

definition readable :: "render_args \<Rightarrow> bool" where
  "readable a \<longleftrightarrow>
     list_all plain_text [ra_board a, ra_transition a, ra_from_slice a, ra_to_slice a, ra_impl_assignee a,
       ra_review_assignee a, ra_roadmap_id a] \<and>
     CHR '':'' \<notin> set (ra_transition a) \<and>
     (ra_template_preset a = [] \<or> plain_text (ra_template_preset a)) \<and>
     origin_text (ra_return_to a) \<and> one_line (ra_return_to a) \<and>
     (ra_goal_anchor a = [] \<or> origin_text (ra_goal_anchor a) \<and> one_line (ra_goal_anchor a))"

lemma map_filter_append: "List.map_filter f (xs @ ys) = List.map_filter f xs @ List.map_filter f ys"
  by (simp add: List.map_filter_def)

lemma map_filter_all: "list_all (\<lambda>x. f x = Some x) xs \<Longrightarrow> List.map_filter f xs = xs"
  by (induction xs) (auto simp: List.map_filter_simps)

lemma clean_entries: "bare_entries es \<Longrightarrow> List.map_filter clean_line (entry_lines i es) = entry_lines i es"
  by (rule map_filter_all) (auto simp: bare_entries_def entry_lines_def list_all_iff clean_entry)

lemma clean_items: "list_all bare_value vs \<Longrightarrow> List.map_filter clean_line (map (item_line i) vs) = map (item_line i) vs"
  by (rule map_filter_all) (auto simp: list_all_iff clean_item)

text \<open>The lines before and after the line of the origin.\<close>

definition config_front :: "render_args \<Rightarrow> string list" where
  "config_front a =
     [''# agentflow-hermes repo-config roadmap GO autopromoter.'', ''#'',
      ''# Consumed by `agentflow-hermes roadmap promote|watch --config <this file>`.'',
      ''# `enabled: false` is the kill switch: no board read or write happens when'',
      ''# it is false, regardless of --apply.''] @
     entry_lines 0 (take 2 (front_entries a)) @
     [[], ''# same_board_only: true means promote/watch only ever read/write this board.''] @
     entry_lines 0 (take 2 (drop 2 (front_entries a))) @
     [[], ''# apply_mode is the repo-level arm for board writes. A real create also'',
      ''# requires the operator to pass --apply on the CLI; both gates must be open.''] @
     entry_lines 0 (drop 4 (front_entries a)) @ [[]]"

definition config_back :: "render_args \<Rightarrow> string list \<Rightarrow> string list" where
  "config_back a sequence =
     entry_lines 0 (take 1 (back_entries a)) @ [[]] @
     entry_lines 0 (take 2 (drop 1 (back_entries a))) @
     [''# true means derive the ack agent from review_assignee/trusted_assignees.''] @
     entry_lines 0 (drop 3 (back_entries a)) @
     header_line 0 ''trusted_assignees'' # map (item_line 2) [ra_review_assignee a] @ [[]] @
     header_line 0 ''allowed_transitions'' # map (item_line 2) [ra_transition a] @ [[]] @
     entry_lines 0 limit_entries @ [[]] @
     header_line 0 ''transitions'' # header_line 2 (ra_transition a) # transition_lines a sequence"

lemma config_lines_shape:
  "config_lines a sequence =
     config_front a @ entry_line 0 ''expected_origin'' (quote_text (ra_origin a)) # config_back a sequence @ [[]]"
  by (simp add: config_lines_def config_front_def config_back_def front_entries_def back_entries_def limit_entries_def
      slice_entries_def last_entries_def transition_lines_def entry_lines_def entry_line_def item_line_def
      header_line_def spaces_def eval_nat_numeral)

lemma literal_keys:
  "list_all bare_key [''enabled'', ''kill_switch'', ''board'', ''same_board_only'', ''apply_mode'', ''expected_origin'',
     ''expected_return_to'', ''impl_assignee'', ''review_assignee'', ''ack_trigger_agent'', ''max_chain_depth'',
     ''max_promotions_per_roadmap'', ''promote_cooldown_seconds'', ''require_review_edge'', ''require_ack_edge'',
     ''require_trusted_assignee'', ''require_origin_match'', ''require_policy_resolution'', ''roadmap_id'',
     ''from_slice'', ''to_slice'', ''template_preset'', ''goal_anchor'', ''version'', ''trusted_assignees'',
     ''allowed_transitions'', ''transitions'', ''slice_template'', ''policy_refs'']"
  by code_simp

lemma literal_values:
  "list_all (\<lambda>v. bare_value v \<and> one_line v)
     [''true'', ''false'', ''3'', ''6'', ''900'', ''template-v1'', ''template-v2'', ''design_opus'', ''implementation_default'']"
  by code_simp

lemmas literal_texts = literal_keys [simplified list.pred_inject] literal_values [simplified list.pred_inject]

lemma readable_entries:
  assumes "readable a"
  shows "bare_entries (front_entries a)" "bare_entries (back_entries a)" "bare_entries limit_entries"
    "bare_entries (slice_entries a)" "bare_entries (last_entries a)"
  using assms
  by (auto simp: readable_def bare_entries_def front_entries_def back_entries_def limit_entries_def slice_entries_def last_entries_def
      literal_texts plain_text_facts(2) quote_text_facts(1))

lemma bare_entries_parts: "bare_entries es \<Longrightarrow> bare_entries (take n es)" "bare_entries es \<Longrightarrow> bare_entries (drop n es)"
  by (auto simp: bare_entries_def list_all_iff dest: in_set_takeD in_set_dropD)

lemma config_clean:
  assumes "readable a" "list_all plain_text sequence"
  shows "List.map_filter clean_line (config_front a) = entry_lines 0 (front_entries a)"
    and "entry_lines 0 (front_entries a) @ entry_lines 0 origin @
      List.map_filter clean_line (config_back a sequence) = config_body (top_entries origin a) a sequence"
proof -
  note e = readable_entries [OF assms(1)]
  have p: "plain_text (ra_review_assignee a)" "plain_text (ra_transition a)" "bare_key (ra_transition a)"
    using assms(1) by (auto simp: readable_def plain_text_def intro: ident_text_key)
  have seq: "list_all bare_value sequence" using assms(2) by (auto simp: list_all_iff plain_text_facts(2))
  show "List.map_filter clean_line (config_front a) = entry_lines 0 (front_entries a)"
    unfolding config_front_def
    using e by (simp add: map_filter_append clean_entries List.map_filter_simps clean_comment clean_blank
        bare_entries_parts del: take_Suc_Cons drop_Suc_Cons)
      (simp add: front_entries_def entry_lines_def)
  have "List.map_filter clean_line (transition_lines a sequence) = transition_lines a sequence"
    using e seq by (simp add: transition_lines_def map_filter_append clean_entries clean_items List.map_filter_simps
        clean_header clean_item literal_texts)
  then show "entry_lines 0 (front_entries a) @ entry_lines 0 origin @
      List.map_filter clean_line (config_back a sequence) = config_body (top_entries origin a) a sequence"
    unfolding config_back_def config_body_def top_entries_def
    using e p by (simp add: map_filter_append clean_entries clean_items List.map_filter_simps clean_header clean_item
        literal_texts clean_comment clean_blank bare_entries_parts plain_text_facts(2) del: take_Suc_Cons drop_Suc_Cons)
      (simp add: back_entries_def entry_lines_def)
qed

lemma one_line_append [simp]: "one_line (s @ t) \<longleftrightarrow> one_line s \<and> one_line t"
  by (simp add: one_line_def)

lemma one_line_parts [simp]: "one_line (spaces n)" "one_line '': ''" "one_line '':''" "one_line ''- ''" "one_line []"
  by (auto simp: one_line_def spaces_def list_all_iff is_line_break_def)

lemma one_line_seps [simp]:
  "one_line (CHR '':'' # CHR '' '' # v) = one_line v" "one_line (CHR ''-'' # CHR '' '' # v) = one_line v"
  by (simp_all add: one_line_def is_line_break_def)

lemma bare_key_one_line: "bare_key k \<Longrightarrow> one_line k"
  by (simp add: bare_key_def bare_text_one_line)

lemma one_line_entries:
  "bare_entries es \<Longrightarrow> list_all (\<lambda>(k, v). one_line v) es \<Longrightarrow> list_all one_line (entry_lines i es)"
  unfolding bare_entries_def entry_lines_def entry_line_def list_all_iff
  by (fastforce intro: bare_key_one_line)

lemma list_all_parts: "list_all P xs \<Longrightarrow> list_all P (take n xs)" "list_all P xs \<Longrightarrow> list_all P (drop n xs)"
  by (auto simp: list_all_iff dest: in_set_takeD in_set_dropD)

lemma one_line_quote: "one_line (quote_text s) = one_line s"
  by (simp add: quote_text_def) (simp add: one_line_def is_line_break_def)

lemma readable_one_line:
  assumes "readable a"
  shows "list_all (\<lambda>(k, v). one_line v) (front_entries a)" "list_all (\<lambda>(k, v). one_line v) (back_entries a)"
    "list_all (\<lambda>(k, v). one_line v) limit_entries" "list_all (\<lambda>(k, v). one_line v) (slice_entries a)"
    "list_all (\<lambda>(k, v). one_line v) (last_entries a)"
  using assms
  by (auto simp: readable_def front_entries_def back_entries_def limit_entries_def slice_entries_def last_entries_def
      literal_texts plain_text_facts(3) one_line_quote)

lemma one_line_entry: "bare_key k \<Longrightarrow> one_line v \<Longrightarrow> one_line (entry_line i k v)"
  unfolding entry_line_def by (simp only: one_line_append one_line_parts bare_key_one_line)

lemma one_line_header: "bare_key k \<Longrightarrow> one_line (header_line i k)"
  unfolding header_line_def by (simp only: one_line_append one_line_parts bare_key_one_line)

lemma literal_comments:
  "list_all one_line
     [''# agentflow-hermes repo-config roadmap GO autopromoter.'', ''#'',
      ''# Consumed by `agentflow-hermes roadmap promote|watch --config <this file>`.'',
      ''# `enabled: false` is the kill switch: no board read or write happens when'',
      ''# it is false, regardless of --apply.'',
      ''# same_board_only: true means promote/watch only ever read/write this board.'',
      ''# apply_mode is the repo-level arm for board writes. A real create also'',
      ''# requires the operator to pass --apply on the CLI; both gates must be open.'',
      ''# true means derive the ack agent from review_assignee/trusted_assignees.'']"
  by (simp add: one_line_def is_line_break_def)

lemma config_one_line:
  assumes "readable a" "list_all plain_text sequence"
  shows "list_all one_line (config_front a)" "list_all one_line (config_back a sequence)"
proof -
  note b = readable_entries [OF assms(1)] and o = readable_one_line [OF assms(1)]
  have p: "one_line (ra_review_assignee a)" "one_line (ra_transition a)" "bare_key (ra_transition a)"
    using assms(1) by (auto simp: readable_def plain_text_facts(1,3) ident_text_key)
  have part: "list_all one_line (entry_lines 0 (take n (drop m es)))"
    if "bare_entries es" "list_all (\<lambda>(k, v). one_line v) es" for n m es
    using that by (intro one_line_entries bare_entries_parts list_all_parts)
  note f = part [OF b(1) o(1)] and k = part [OF b(2) o(2)]
  have seq: "list_all one_line (map (item_line 6) sequence)"
    using assms(2) by (auto simp: list_all_iff item_line_def plain_text_facts(3))
  show "list_all one_line (config_front a)"
    unfolding config_front_def
    using f [of 2 0] f [of 2 2] f [of "length (front_entries a)" 4] literal_comments [simplified list.pred_inject]
    by (simp del: take_Suc_Cons drop_Suc_Cons)
  have "list_all one_line (transition_lines a sequence)"
    using one_line_entries [OF b(4) o(4), of 4] one_line_entries [OF b(5) o(5), of 4] seq
    by (simp add: transition_lines_def item_line_def literal_texts one_line_header)
  then show "list_all one_line (config_back a sequence)"
    unfolding config_back_def
    using k [of 1 0] k [of 2 1] k [of "length (back_entries a)" 3]
      one_line_entries [OF b(3) o(3), of 0] p literal_comments [simplified list.pred_inject]
    by (simp add: item_line_def literal_texts one_line_header del: take_Suc_Cons drop_Suc_Cons)
qed

definition transition_dict :: "(string \<Rightarrow> real \<times> string) \<Rightarrow> render_args \<Rightarrow> string list \<Rightarrow> json dict" where
  "transition_dict fl a sequence =
     read_entries fl (last_entries a)
       (dict_set ''policy_refs'' (JArr [JStr ''design_opus'', JStr ''implementation_default''])
         (dict_set ''slice_template'' (JArr (map JStr sequence)) (read_entries fl (slice_entries a) [])))"

definition config_dict ::
    "(string \<Rightarrow> real \<times> string) \<Rightarrow> entries \<Rightarrow> render_args \<Rightarrow> string list \<Rightarrow> json dict" where
  "config_dict fl heads a sequence =
     dict_set ''transitions'' (JObj [(ra_transition a, JObj (transition_dict fl a sequence))])
       (read_entries fl limit_entries
         (dict_set ''allowed_transitions'' (JArr [JStr (ra_transition a)])
           (dict_set ''trusted_assignees'' (JArr [JStr (ra_review_assignee a)])
             (read_entries fl heads []))))"

lemma plain_words: "plain_text ''design_opus''" "plain_text ''implementation_default''"
  using known_words_plain by (auto simp: known_words_def)

lemma known_scalars: "list_all plain_text vs \<Longrightarrow> map (parse_scalar fl) vs = map JStr vs"
  by (auto simp: list_all_iff plain_text_facts(4))

lemma entry_lines_hd: "es \<noteq> [] \<Longrightarrow> bare_entries es \<Longrightarrow> indent_of (hd (entry_lines i es @ rest)) = i"
  by (cases es) (auto simp: entry_lines_def bare_entries_def strip_entry)

lemma parse_transition:
  assumes "readable a" "list_all plain_text sequence" "sequence \<noteq> []"
  shows "parse_mapping fl (transition_lines a sequence) 4 [] = Inr (JObj (transition_dict fl a sequence), [])"
proof -
  note e = readable_entries(2-5) [OF assms(1)]
  obtain v vs where s: "sequence = v # vs" using assms(3) by (cases sequence) auto
  have bare: "list_all bare_value (v # vs)" using assms(2) s by (auto simp: list_all_iff plain_text_facts(2))
  have refs: "list_all bare_value [''design_opus'', ''implementation_default'']" by (simp add: literal_texts)
  let ?tail = "entry_lines 4 (last_entries a)"
  have last: "parse_mapping fl ?tail 4 acc = Inr (JObj (read_entries fl (last_entries a) acc), [])" for acc
    using parse_entries [OF e(4), of fl 4 "[]"] by simp
  have tail: "?tail = [] \<or> indent_of (hd ?tail) = 4"
    using entry_lines_hd [OF _ e(4), of 4 "[]"] by (simp add: last_entries_def)
  have "parse_mapping fl (header_line 4 ''policy_refs'' #
      map (item_line 6) [''design_opus'', ''implementation_default''] @ ?tail) 4 acc =
    Inr (JObj (read_entries fl (last_entries a)
      (dict_set ''policy_refs'' (JArr [JStr ''design_opus'', JStr ''implementation_default'']) acc)), [])" for acc
    using parse_list_entry [OF _ refs _ tail, of "''policy_refs''" 6 fl acc]
    by (simp add: literal_texts last plain_words plain_text_facts(4) del: parse_mapping.simps)
  moreover have "parse_mapping fl (header_line 4 ''slice_template'' # map (item_line 6) sequence @ rest) 4 acc =
      parse_mapping fl rest 4 (dict_set ''slice_template'' (JArr (map JStr sequence)) acc)"
    if "rest = [] \<or> indent_of (hd rest) = 4" for rest acc
    using parse_list_entry [OF _ bare _ that, of "''slice_template''" 6 fl acc] known_scalars [OF assms(2), of fl]
    unfolding s by (simp add: literal_texts del: parse_mapping.simps map_eq_conv)
  ultimately show ?thesis
    unfolding transition_lines_def transition_dict_def
    by (simp add: parse_entries [OF e(3)] strip_header literal_texts del: parse_mapping.simps)
qed

lemma parse_config:
  assumes "readable a" "list_all plain_text sequence" "sequence \<noteq> []" and heads: "bare_entries heads" "heads \<noteq> []"
  shows "parse_block fl (config_body heads a sequence) 0 = Inr (JObj (config_dict fl heads a sequence), [])"
proof -
  note e = heads(1) readable_entries(3-5) [OF assms(1)]
  have p: "bare_value (ra_review_assignee a)" "bare_value (ra_transition a)" "bare_key (ra_transition a)"
    "parse_scalar fl (ra_review_assignee a) = JStr (ra_review_assignee a)"
    "parse_scalar fl (ra_transition a) = JStr (ra_transition a)"
    using assms(1) by (auto simp: readable_def plain_text_facts ident_text_key)
  let ?t = "transition_lines a sequence"
  have "bare_key ''roadmap_id''" "bare_value (ra_roadmap_id a)"
    using assms(1) by (auto simp: literal_texts readable_def plain_text_facts(2))
  from strip_entry [OF this, of 4]
  have t: "?t \<noteq> []" "indent_of (hd ?t) = 4" "\<not> starts_with ''- '' (py_strip (hd ?t))"
    by (auto simp: transition_lines_def slice_entries_def entry_lines_def)
  have inner: "parse_mapping fl (header_line 2 (ra_transition a) # ?t) 2 [] =
      Inr (JObj [(ra_transition a, JObj (transition_dict fl a sequence))], [])"
    using parse_mapping_entry [OF p(3) _ t(2,1,3), of 2 fl "[]"] parse_transition [OF assms(1-3)]
    by (simp add: dict_set_def)
  have outer: "parse_mapping fl (header_line 0 ''transitions'' # header_line 2 (ra_transition a) # ?t) 0 acc =
      Inr (JObj (dict_set ''transitions'' (JObj [(ra_transition a, JObj (transition_dict fl a sequence))]) acc), [])" for acc
    using parse_mapping_entry [of "''transitions''" 0 2 "header_line 2 (ra_transition a) # ?t" fl "[]"] inner
      strip_header [OF p(3), of 2] by (simp add: literal_texts)
  let ?tr = "header_line 0 ''transitions'' # header_line 2 (ra_transition a) # ?t"
  have limits: "parse_mapping fl (entry_lines 0 limit_entries @ ?tr) 0 acc =
      parse_mapping fl ?tr 0 (read_entries fl limit_entries acc)" for acc
    by (rule parse_entries [OF e(2)])
  have l0: "indent_of (hd (entry_lines 0 limit_entries @ ?tr)) = 0"
    by (rule entry_lines_hd [OF _ e(2)]) (simp add: limit_entries_def)
  let ?l = "entry_lines 0 limit_entries @ ?tr"
  let ?al = "header_line 0 ''allowed_transitions'' # map (item_line 2) [ra_transition a] @ ?l"
  have allowed: "parse_mapping fl ?al 0 acc =
      parse_mapping fl ?l 0 (dict_set ''allowed_transitions'' (JArr [JStr (ra_transition a)]) acc)" for acc
    using parse_list_entry [of "''allowed_transitions''" "ra_transition a" "[]" 0 2 ?l fl acc] p l0
    by (simp add: literal_texts del: parse_mapping.simps)
  have trusted: "parse_mapping fl (header_line 0 ''trusted_assignees'' # map (item_line 2) [ra_review_assignee a] @ ?al) 0 acc =
      parse_mapping fl ?al 0 (dict_set ''trusted_assignees'' (JArr [JStr (ra_review_assignee a)]) acc)" for acc
    using parse_list_entry [of "''trusted_assignees''" "ra_review_assignee a" "[]" 0 2 ?al fl acc] p
    by (simp add: literal_texts strip_header del: parse_mapping.simps)
  have "parse_mapping fl (config_body heads a sequence) 0 [] = Inr (JObj (config_dict fl heads a sequence), [])"
    unfolding config_body_def config_dict_def
    by (simp only: append_Cons append_assoc parse_entries [OF e(1)] trusted allowed limits outer)
  moreover obtain k v es where t: "heads = (k, v) # es" using heads(2) by (cases heads) auto
  moreover from t obtain ls where "config_body heads a sequence = entry_line 0 k v # ls"
    by (simp add: config_body_def entry_lines_def)
  ultimately show ?thesis
    using strip_entry [of k v 0] heads(1) by (simp add: bare_entries_def del: parse_mapping.simps)
qed

lemma parse_document:
  assumes "readable a" "list_all plain_text sequence" "sequence \<noteq> []" "bare_entries heads" "heads \<noteq> []"
    and "clean_lines content = config_body heads a sequence"
  shows "parse_minimal_yaml fl content = Inr (JObj (config_dict fl heads a sequence))"
proof -
  obtain k v es where t: "heads = (k, v) # es" using assms(5) by (cases heads) auto
  with assms(4) strip_entry(1) [of k v 0] have "indent_of (hd (config_body heads a sequence)) = 0"
    "config_body heads a sequence \<noteq> []"
    by (auto simp: bare_entries_def config_body_def entry_lines_def)
  with parse_config [OF assms(1-5), of fl] assms(6) show ?thesis
    by (cases "config_body heads a sequence") (auto simp: parse_minimal_yaml_def simp del: parse_block.simps)
qed

subsection \<open>The scaffolded configuration\<close>

definition scaffold_transition :: "render_args \<Rightarrow> string list \<Rightarrow> road_transition" where
  "scaffold_transition a sequence =
     \<lparr>tr_id = ra_transition a, tr_roadmap_id = ra_roadmap_id a, tr_from_slice = ra_from_slice a,
      tr_to_slice = ra_to_slice a, tr_slice_template = sequence,
      tr_policy_refs = [''design_opus'', ''implementation_default''], tr_max_chain_depth = 3,
      tr_version = (if ra_template_preset a = [] then ''template-v1'' else ''template-v2''),
      tr_template_preset = ra_template_preset a, tr_goal_anchor = ra_goal_anchor a\<rparr>"

definition scaffold_config :: "string \<Rightarrow> render_args \<Rightarrow> string list \<Rightarrow> repo_config" where
  "scaffold_config path a sequence =
     \<lparr>rc_enabled = True, rc_kill_switch = False, rc_board = ra_board a, rc_apply_mode = ra_apply_mode a,
      rc_same_board_only = True, rc_allowed_transitions = [ra_transition a],
      rc_transitions = [(ra_transition a, scaffold_transition a sequence)],
      rc_impl_assignee = ra_impl_assignee a, rc_review_assignee = ra_review_assignee a,
      rc_ack_trigger_agent = ra_review_assignee a, rc_trusted_assignees = [ra_review_assignee a],
      rc_expected_origin = ra_origin a, rc_expected_return_to = ra_return_to a, rc_max_chain_depth = 3,
      rc_max_promotions = 6, rc_cooldown_seconds = 900, rc_require_review_edge = True,
      rc_require_ack_edge = True, rc_require_trusted_assignee = True, rc_require_origin_match = True,
      rc_require_policy_resolution = True, rc_source_ref = path\<rparr>"

lemma preset_sequences:
  "sequence \<in> tp_slice_template ` {legacy_preset, research_preset, shaman_preset} \<Longrightarrow>
    list_all plain_text sequence \<and> sequence \<noteq> []"
  using known_words_plain
  by (auto simp: legacy_preset_def research_preset_def shaman_preset_def known_words_def)

lemma version_words: "plain_text ''template-v1''" "plain_text ''template-v2''"
  using known_words_plain by (auto simp: known_words_def)

lemma transition_dict_loads:
  assumes "readable a" and "resolve_template (ra_template_preset a) sequence (ra_goal_anchor a) = Inr template"
    and "sequence \<noteq> []"
  shows "config_transition (ra_transition a) (transition_dict fl a sequence) =
    Inr (scaffold_transition a (rt_slice_template template))"
proof -
  have p: "parse_scalar fl (ra_roadmap_id a) = JStr (ra_roadmap_id a)" "ra_roadmap_id a \<noteq> []"
    "parse_scalar fl (ra_from_slice a) = JStr (ra_from_slice a)" "ra_from_slice a \<noteq> []"
    "parse_scalar fl (ra_to_slice a) = JStr (ra_to_slice a)" "ra_to_slice a \<noteq> []"
    using assms(1) plain_text_facts ident_text_facts(1) by (auto simp: readable_def)
  have preset: "ra_template_preset a \<noteq> [] \<Longrightarrow>
      parse_scalar fl (ra_template_preset a) = JStr (ra_template_preset a)"
    and goal: "ra_goal_anchor a \<noteq> [] \<Longrightarrow> parse_scalar fl (quote_text (ra_goal_anchor a)) = JStr (ra_goal_anchor a)"
    using assms(1) plain_text_facts(4) quote_text_facts(2) by (auto simp: readable_def)
  have v: "parse_scalar fl ''template-v1'' = JStr ''template-v1''" "parse_scalar fl ''template-v2'' = JStr ''template-v2''"
    using version_words plain_text_facts(4) by auto
  note d = transition_dict_def read_entries_def slice_entries_def last_entries_def
  have g: "get_str (transition_dict fl a sequence) ''template_preset'' = ra_template_preset a"
    "get_str (transition_dict fl a sequence) ''goal_anchor'' = ra_goal_anchor a"
    "get_str (transition_dict fl a sequence) ''transition_id'' = []"
    "get_str (transition_dict fl a sequence) ''roadmap_id'' = ra_roadmap_id a"
    "get_str (transition_dict fl a sequence) ''from_slice'' = ra_from_slice a"
    "get_str (transition_dict fl a sequence) ''to_slice'' = ra_to_slice a"
    "get_str (transition_dict fl a sequence) ''version'' =
       (if ra_template_preset a = [] then ''template-v1'' else ''template-v2'')"
    using p preset goal v by (auto simp: get_str_def d dict_get_def [of "[]"])
  have "cfg_iter (transition_dict fl a sequence) ''slice_template'' = Inr sequence"
    "cfg_iter (transition_dict fl a sequence) ''policy_refs'' = Inr [''design_opus'', ''implementation_default'']"
    "cfg_int (transition_dict fl a sequence) ''max_chain_depth'' 3 = 3"
    using assms(3) by (simp_all add: cfg_iter_def cfg_int_def d text_tuple_def comp_def)
  with g assms(2) show ?thesis
    by (simp add: config_transition_def scaffold_transition_def Let_def)
qed

text \<open>
  The document as entries: the line of the origin reads as the entries \<open>origin\<close>, one of them when the
  origin has no line break.
\<close>

definition origin_reads :: "render_args \<Rightarrow> entries \<Rightarrow> bool" where
  "origin_reads a origin \<longleftrightarrow> bare_entries origin \<and>
     (\<forall>t. split_lines_acc [] (entry_line 0 ''expected_origin'' (quote_text (ra_origin a)) @ line_feed # t) =
        entry_lines 0 origin @ split_lines_acc [] t)"

lemma config_document:
  assumes "readable a" "list_all plain_text sequence" "sequence \<noteq> []" "origin_reads a origin"
    and "content = join_with [line_feed] (config_lines a sequence)"
  shows "parse_minimal_yaml fl content = Inr (JObj (config_dict fl (top_entries origin a) a sequence))"
proof -
  let ?l = "entry_line 0 ''expected_origin'' (quote_text (ra_origin a))"
  have o: "bare_entries origin" "split_lines_acc [] (?l @ line_feed # t) = entry_lines 0 origin @ split_lines_acc [] t" for t
    using assms(4) by (auto simp: origin_reads_def)
  have "content = concat (map (\<lambda>l. l @ [line_feed]) (config_front a @ ?l # config_back a sequence))"
    unfolding assms(5) config_lines_shape using join_lines [of "config_front a @ ?l # config_back a sequence"] by simp
  then have "py_splitlines content = config_front a @ entry_lines 0 origin @ config_back a sequence"
    using config_one_line [OF assms(1,2)] o(2)
      split_lines_joined [of "config_back a sequence" "[]"] split_lines_joined [of "config_front a"]
    by (simp add: py_splitlines_def)
  then have "clean_lines content = config_body (top_entries origin a) a sequence"
    using config_clean(1) [OF assms(1,2)] config_clean(2) [OF assms(1,2), of origin] o(1)
    by (simp add: clean_lines_def map_filter_append clean_entries)
  moreover have "bare_entries (top_entries origin a)" "top_entries origin a \<noteq> []"
    using readable_entries(1,2) [OF assms(1)] o(1) by (auto simp: bare_entries_def top_entries_def front_entries_def)
  ultimately show ?thesis using parse_document [OF assms(1-3)] by blast
qed

text \<open>Entries that set nothing but the channel, the arm switch and keys nobody reads.\<close>

definition harmless_keys :: "entries \<Rightarrow> bool" where
  "harmless_keys es \<longleftrightarrow> fst ` set es \<subseteq> {''expected_origin'', ''apply_mode'', ''x''}"

lemma read_entries_append: "read_entries fl (es @ fs) d = read_entries fl fs (read_entries fl es d)"
  by (simp add: read_entries_def)

lemma dict_get_read_entries: "k \<notin> fst ` set es \<Longrightarrow> dict_get (read_entries fl es d) k = dict_get d k"
  by (induction es arbitrary: d) (auto simp: read_entries_def)

lemma config_dict_loads:
  assumes "readable a" and "resolve_template (ra_template_preset a) sequence (ra_goal_anchor a) = Inr template"
    and "sequence \<noteq> []" and "harmless_keys origin" and m: "m = config_dict fl (top_entries origin a) a sequence"
  shows "repo_config_of path m = Inr ((scaffold_config path a (rt_slice_template template))
    \<lparr>rc_expected_origin := get_str m ''expected_origin'', rc_apply_mode := cfg_bool m ''apply_mode'' False\<rparr>)"
proof -
  have p: "parse_scalar fl (ra_board a) = JStr (ra_board a)" "ra_board a \<noteq> []"
    "parse_scalar fl (ra_impl_assignee a) = JStr (ra_impl_assignee a)" "ra_impl_assignee a \<noteq> []"
    "parse_scalar fl (ra_review_assignee a) = JStr (ra_review_assignee a)" "ra_review_assignee a \<noteq> []"
    "parse_scalar fl (quote_text (ra_return_to a)) = JStr (ra_return_to a)" "ra_return_to a \<noteq> []"
    using assms(1) plain_text_facts ident_text_facts(1) quote_text_facts(2)
    by (auto simp: readable_def origin_text_def)
  have g: "dict_get (read_entries fl origin d) k = dict_get d k"
    if "k \<notin> {''expected_origin'', ''apply_mode'', ''x''}" for k d
    using that assms(4) by (intro dict_get_read_entries) (auto simp: harmless_keys_def)
  have get: "dict_get m k =
      dict_get (read_entries fl limit_entries
        (dict_set ''transitions'' (JObj [(ra_transition a, JObj (transition_dict fl a sequence))])
        (dict_set ''allowed_transitions'' (JArr [JStr (ra_transition a)])
        (dict_set ''trusted_assignees'' (JArr [JStr (ra_review_assignee a)])
        (read_entries fl (back_entries a) (read_entries fl (front_entries a) [])))))) k"
    if "k \<notin> {''expected_origin'', ''apply_mode'', ''x''}" for k
    using that g [OF that]
    by (simp add: m config_dict_def top_entries_def read_entries_append)
      (simp add: read_entries_def limit_entries_def back_entries_def)
  note d = read_entries_def front_entries_def back_entries_def limit_entries_def
  have s: "get_str m ''board'' = ra_board a" "get_str m ''impl_assignee'' = ra_impl_assignee a"
    "get_str m ''review_assignee'' = ra_review_assignee a" "get_str m ''expected_return_to'' = ra_return_to a"
    using p by (simp_all add: get_str_def get) (simp_all add: d)
  have b: "cfg_bool m ''enabled'' x" "\<not> cfg_bool m ''kill_switch'' x" "cfg_bool m ''same_board_only'' x"
    "cfg_bool m ''require_review_edge'' x" "cfg_bool m ''require_ack_edge'' x"
    "cfg_bool m ''require_trusted_assignee'' x" "cfg_bool m ''require_origin_match'' x"
    "cfg_bool m ''require_policy_resolution'' x" for x
    by (simp_all add: cfg_bool_def get) (simp_all add: d)
  have i: "cfg_int m ''max_chain_depth'' x = 3" "cfg_int m ''max_promotions_per_roadmap'' x = 6"
    "cfg_int m ''promote_cooldown_seconds'' x = 900" for x
    by (simp_all add: cfg_int_def get) (simp_all add: d)
  have t: "cfg_str_tuple m ''trusted_assignees'' = [ra_review_assignee a]"
    "cfg_str_tuple m ''allowed_transitions'' = [ra_transition a]"
    "dict_get m ''transitions'' = Some (JObj [(ra_transition a, JObj (transition_dict fl a sequence))])"
    "dict_get m ''ack_trigger_agent'' = Some (JBool True)"
    by (simp_all add: cfg_str_tuple_def get) (simp_all add: d)
  show ?thesis
    using transition_dict_loads [OF assms(1-3), of fl] p(6)
    by (simp add: repo_config_of_def Let_def s b i t ack_agent_def scaffold_config_def dict_set_def)
qed

lemma rendered_reads:
  assumes "render_roadmap_config args = Inr content" "validated args = Some a" "readable a" "js content = None"
    "origin_reads a origin" "harmless_keys origin"
  shows "\<exists>template m. resolve_template (ra_template_preset a) [] (ra_goal_anchor a) = Inr template \<and>
    m = config_dict fl (top_entries origin a) a (rt_slice_template template) \<and>
    load_repo_roadmap_config js fl path content = Inr ((scaffold_config path a (rt_slice_template template))
      \<lparr>rc_expected_origin := get_str m ''expected_origin'', rc_apply_mode := cfg_bool m ''apply_mode'' False\<rparr>)"
proof -
  obtain template where t: "resolve_template (ra_template_preset a) [] (ra_goal_anchor a) = Inr template"
    and content: "content = join_with [line_feed] (config_lines a (rt_slice_template template))"
    using assms(1,2) by (auto simp: render_roadmap_config_def split: sum.splits)
  note seq = preset_sequences [OF resolve_again(2) [OF t refl]]
  have "parse_minimal_yaml fl content =
      Inr (JObj (config_dict fl (top_entries origin a) a (rt_slice_template template)))"
    using seq by (intro config_document [OF assms(3) _ _ assms(5) content]) auto
  with config_dict_loads [OF assms(3) resolve_again(1) [OF t] _ assms(6) refl] seq assms(4) t
  show ?thesis by (auto simp: load_repo_roadmap_config_def load_payload_def)
qed

text \<open>
  C22: the configuration scaffolded for plain values reads back as exactly those values. When every
  identifier is one the scalar reader takes for a string, the transition has no colon, and the
  quoted texts hold no line break of any kind, the rendered text loads as a configuration with the
  caller's board, channel, agents, transition and template, armed only as asked.
\<close>

theorem rendered_config_loads:
  assumes "render_roadmap_config args = Inr content" "validated args = Some a" "readable a"
    "origin_text (ra_origin a)" "one_line (ra_origin a)" "js content = None"
  shows "\<exists>template. resolve_template (ra_template_preset a) [] (ra_goal_anchor a) = Inr template \<and>
    load_repo_roadmap_config js fl path content = Inr (scaffold_config path a (rt_slice_template template))"
proof -
  let ?o = "origin_entries a"
  have "origin_reads a ?o"
    using assms(4,5) quote_text_facts(1)
      split_lines_one_line [of line_feed "entry_line 0 ''expected_origin'' (quote_text (ra_origin a))" "[]"]
    by (simp add: origin_reads_def origin_entries_def bare_entries_def literal_texts one_line_entry one_line_quote
        entry_lines_def)
  moreover have "harmless_keys ?o" by (simp add: harmless_keys_def origin_entries_def)
  moreover have "get_str (config_dict fl (top_entries ?o a) a seq) ''expected_origin'' = ra_origin a"
    "cfg_bool (config_dict fl (top_entries ?o a) a seq) ''apply_mode'' False = ra_apply_mode a" for seq
    using quote_text_facts(2) [OF assms(4), of fl] assms(4)
    by (simp_all add: get_str_def cfg_bool_def config_dict_def top_entries_def origin_entries_def read_entries_def
        front_entries_def back_entries_def limit_entries_def origin_text_def)
  ultimately show ?thesis
    using rendered_reads [where js = js and origin = ?o and fl = fl and path = path, OF assms(1-3,6)]
    by (auto simp: scaffold_config_def)
qed

definition sample_render :: render_args where
  "sample_render = \<lparr>ra_board = ''agentflow'', ra_origin = ''slack #ops: roadmap'', ra_transition = ''m1-to-m2'',
     ra_from_slice = ''m1'', ra_to_slice = ''m2'', ra_return_to = [], ra_impl_assignee = ''ccsupervisor'',
     ra_review_assignee = ''ccreviewer'', ra_roadmap_id = [], ra_template_preset = [],
     ra_goal_anchor = ''Ship # slices'', ra_apply_mode = False\<rparr>"

definition sample_validated :: render_args where
  "sample_validated = sample_render\<lparr>ra_return_to := ''slack #ops: roadmap'', ra_roadmap_id := ''agentflow.roadmap''\<rparr>"

lemma sample_render_valid: "validated sample_render = Some sample_validated"
  by code_simp

lemma sample_readable: "readable sample_validated" "origin_text (ra_origin sample_validated)"
  "one_line (ra_origin sample_validated)"
  by code_simp+

lemma render_validated:
  "validated args = Some a \<Longrightarrow> ra_template_preset a = [] \<Longrightarrow> \<exists>content. render_roadmap_config args = Inr content"
proof -
  have "\<exists>t. resolve_template [] [] goal = Inr t" for goal
    by (simp add: resolve_template_def get_template_preset_def PRESETS_def dict_get_def LEGACY_PRESET_def
        finish_template_def validate_resolved_def legacy_preset_def mk_template_step_def ROLE_WORK_def ROLE_REVIEW_def
        ROLE_TERMINAL_def legacy_step_def preset_step_for_def find_step_def identifier_safe_def is_alnum_def
        is_alpha_def VALID_ROLES_def count_role_def Let_def)
  then show "validated args = Some a \<Longrightarrow> ra_template_preset a = [] \<Longrightarrow> ?thesis"
    by (metis (lifting) old.sum.simps(6) option.simps(5) render_roadmap_config_def)
qed

theorem rendered_config_loads_witness:
  "\<exists>content template. render_roadmap_config sample_render = Inr content \<and>
    load_repo_roadmap_config (\<lambda>_. None) (\<lambda>_. (0, [])) ''roadmap.yaml'' content =
      Inr (scaffold_config ''roadmap.yaml'' sample_validated (rt_slice_template template))"
proof -
  obtain content where c: "render_roadmap_config sample_render = Inr content"
    using render_validated [OF sample_render_valid] by (auto simp: sample_validated_def sample_render_def)
  show ?thesis
    using rendered_config_loads [OF c sample_render_valid sample_readable, where js = "\<lambda>_. None" and fl = "\<lambda>_. (0, [])"
        and path = "''roadmap.yaml''"] c by auto
qed

lemma cut_comment_open: "list_all origin_char s \<Longrightarrow> cut_comment prev False True s = s"
  by (induction s arbitrary: prev) (auto simp: origin_char_def)

text \<open>
  an accepted origin can arm the configuration. The origin is refused when it holds a line feed,
  a carriage return or a quote, but a form feed is also a line break for the reader of the
  configuration: an origin that carries one hands the document a line of its own, and the line
  \<open>apply_mode: true\<close> wins over the switch the operator left off.
\<close>

theorem origin_smuggles_apply_mode:
  assumes "render_roadmap_config args = Inr content" "validated args = Some a" "readable a" "js content = None"
    and "ra_origin a = p @ [CHR 0x0C] @ ''apply_mode: true'' @ [CHR 0x0C] @ ''x: '' @ q"
    and p: "list_all origin_char p" "one_line p" "p \<noteq> []" "\<not> is_space (last p)" and q: "ident_text q"
  shows "\<exists>c. load_repo_roadmap_config js fl path content = Inr c \<and> rc_enabled c \<and> rc_apply_mode c"
proof -
  let ?o = "[(''expected_origin'', CHR 0x22 # p), (''apply_mode'', ''true''), (''x'', q @ [CHR 0x22])]"
  note qf = ident_text_facts [OF q]
  have "cut_comment (Some CHR '' '') False False (q @ [CHR 0x22]) = q @ [CHR 0x22]"
    using cut_comment_key [OF qf(2,1,3), of "Some CHR '' ''" "[CHR 0x22]"] by simp
  then have bare: "bare_value (q @ [CHR 0x22])" "bare_value (CHR 0x22 # p)"
    using p qf(1,4) cut_comment_open [OF p(1)] by (auto simp: bare_value_def is_space_def)
  have x: "bare_key ''x''" by (simp add: bare_key_def bare_char_def is_space_def)
  have ol: "one_line (CHR 0x22 # p)" "one_line (q @ [CHR 0x22])"
    using p(2) qf(5) by (simp_all add: one_line_def is_line_break_def)
  have lines: "one_line (entry_line 0 ''expected_origin'' (CHR 0x22 # p))" "one_line (entry_line 0 ''apply_mode'' ''true'')"
    "one_line (entry_line 0 ''x'' (q @ [CHR 0x22]))"
    using ol x by (auto simp: literal_texts intro!: one_line_entry)
  have "entry_line 0 ''expected_origin'' (quote_text (ra_origin a)) @ line_feed # t =
      entry_line 0 ''expected_origin'' (CHR 0x22 # p) @ CHR 0x0C # entry_line 0 ''apply_mode'' ''true'' @ CHR 0x0C #
      entry_line 0 ''x'' (q @ [CHR 0x22]) @ line_feed # t" for t
    by (simp add: assms(5) entry_line_def quote_text_def spaces_def)
  then have "origin_reads a ?o"
    using bare x lines by (simp add: origin_reads_def bare_entries_def literal_texts split_lines_one_line entry_lines_def)
  moreover have "harmless_keys ?o" by (simp add: harmless_keys_def)
  moreover have "cfg_bool (config_dict fl (top_entries ?o a) a seq) ''apply_mode'' False" for seq
    by (simp add: cfg_bool_def config_dict_def top_entries_def read_entries_def
        front_entries_def back_entries_def limit_entries_def)
  ultimately show ?thesis
    using rendered_reads [where js = js and origin = ?o and fl = fl and path = path, OF assms(1-4)]
    by (auto simp: scaffold_config_def)
qed

definition smuggling_render :: render_args where
  "smuggling_render = sample_render
     \<lparr>ra_origin := ''chat'' @ [CHR 0x0C] @ ''apply_mode: true'' @ [CHR 0x0C] @ ''x: y'', ra_return_to := ''chat''\<rparr>"

theorem origin_smuggles_apply_mode_witness:
  "\<exists>content c. \<not> ra_apply_mode smuggling_render \<and> render_roadmap_config smuggling_render = Inr content \<and>
    load_repo_roadmap_config (\<lambda>_. None) (\<lambda>_. (0, [])) ''roadmap.yaml'' content = Inr c \<and> rc_apply_mode c"
proof -
  let ?a = "smuggling_render\<lparr>ra_roadmap_id := ''agentflow.roadmap''\<rparr>"
  have v: "validated smuggling_render = Some ?a" by code_simp
  have r: "readable ?a" by code_simp
  obtain content where c: "render_roadmap_config smuggling_render = Inr content"
    using render_validated [OF v] by (auto simp: smuggling_render_def sample_render_def)
  have "\<not> ra_apply_mode smuggling_render" by (simp add: smuggling_render_def sample_render_def)
  moreover have "ra_origin ?a = ''chat'' @ [CHR 0x0C] @ ''apply_mode: true'' @ [CHR 0x0C] @ ''x: '' @ ''y''"
    by (simp add: smuggling_render_def)
  moreover have "list_all origin_char ''chat''" "one_line ''chat''" "''chat'' \<noteq> []" "\<not> is_space (last ''chat'')"
    "ident_text ''y''" by code_simp+
  ultimately show ?thesis
    using origin_smuggles_apply_mode [OF c v r, where js = "\<lambda>_. None" and fl = "\<lambda>_. (0, [])"
        and path = "''roadmap.yaml''" and p = "''chat''" and q = "''y''"] c by blast
qed

text \<open>
  a wrongly indented line silently ends the document. A configuration whose entries are followed
  by a line indented one step too far is read as if it stopped there, whatever that line and the
  lines after it say, a kill switch among them.
\<close>

theorem bad_indent_ends_config:
  assumes "clean_lines text = entry_lines 0 es @ bad # rest" "bare_entries es" "es \<noteq> []" "0 < indent_of bad"
    "js text = None"
  shows "load_repo_roadmap_config js fl path text = repo_config_of path (read_entries fl es [])"
proof -
  obtain k v es' where es: "es = (k, v) # es'" using assms(3) by (cases es) auto
  let ?ls = "entry_lines 0 es' @ bad # rest"
  have kv: "bare_key k" "bare_value v" using assms(2) by (auto simp: es bare_entries_def)
  note e = strip_entry [OF kv, of 0]
  have "parse_mapping fl (entry_lines 0 es @ bad # rest) 0 [] = Inr (JObj (read_entries fl es []), bad # rest)"
    using assms(4) by (simp add: parse_entries [OF assms(2)])
  then have "parse_block fl (entry_line 0 k v # ?ls) 0 = Inr (JObj (read_entries fl es []), bad # rest)"
    using e by (simp add: es entry_lines_def del: parse_mapping.simps)
  then show ?thesis
    using assms(1,5) e(1)
    by (simp add: load_repo_roadmap_config_def load_payload_def parse_minimal_yaml_def es entry_lines_def
        del: parse_block.simps)
qed

definition misindented :: string where
  "misindented = join_with [line_feed] [''enabled: true'', '' board: agentflow'', ''kill_switch: true'']"

theorem bad_indent_ends_config_witness:
  "\<exists>c. load_repo_roadmap_config (\<lambda>_. None) (\<lambda>_. (0, [])) ''roadmap.yaml'' misindented = Inr c \<and>
    rc_enabled c \<and> \<not> rc_kill_switch c"
proof -
  have "clean_lines misindented = entry_lines 0 [(''enabled'', ''true'')] @ '' board: agentflow'' # [''kill_switch: true'']"
    by code_simp
  moreover have "bare_entries [(''enabled'', ''true'')]" by code_simp
  moreover have "0 < indent_of '' board: agentflow''" by code_simp
  ultimately have "load_repo_roadmap_config (\<lambda>_. None) (\<lambda>_. (0, [])) ''roadmap.yaml'' misindented =
      repo_config_of ''roadmap.yaml'' (read_entries (\<lambda>_. (0, [])) [(''enabled'', ''true'')] [])"
    by (intro bad_indent_ends_config) auto
  then show ?thesis
    by (simp add: read_entries_def dict_set_def repo_config_of_def cfg_bool_def dict_get_def Let_def)
qed

subsection \<open>The registry\<close>

text \<open>
  the watchdog registry is a set of configurations. Registering a configuration that is not in
  the registry appends one entry that points to it; doing it again changes nothing and says so; and
  unregistering it gives back exactly the entries there were before. The JSON text is only assumed
  to read back as what was written.
\<close>

theorem register_roundtrip:
  assumes "load_watchdogs js file = Inr w" "resolved \<notin> set (map entry_config (wd_configs w))" "resolved \<noteq> []"
    and "new = watchdogs_json \<lparr>wd_version = JInt REGISTRY_VERSION,
           wd_configs = wd_configs w @ [watchdog_entry c config_path resolved rcpt]\<rparr>"
    and "old = watchdogs_json \<lparr>wd_version = JInt REGISTRY_VERSION, wd_configs = wd_configs w\<rparr>"
    and "js (dumps new) = Inr new" "js (dumps old) = Inr old"
    and "list_all (\<lambda>e. entry_config e \<noteq> []) (wd_configs w)"
  shows "run_register js dumps None (Inr c) config_path resolved rcpt file =
      (Registered (watchdog_entry c config_path resolved rcpt), Some (dumps new)) \<and>
    run_register js dumps wr (Inr c') config_path' resolved rcpt' (Some (dumps new)) =
      (Already_Registered resolved, Some (dumps new)) \<and>
    run_unregister js dumps None resolved (Some (dumps new)) = (Unregistered True resolved, Some (dumps old)) \<and>
    map_option wd_configs (case load_watchdogs js (Some (dumps old)) of Inr v \<Rightarrow> Some v | Inl _ \<Rightarrow> None) =
      Some (wd_configs w)"
proof -
  let ?e = "watchdog_entry c config_path resolved rcpt"
  have e: "entry_config ?e = resolved"
    using assms(3) by (simp add: entry_config_def watchdog_entry_def dict_get_def)
  have norm: "list_all (\<lambda>e. entry_config e \<noteq> []) es \<Longrightarrow> normalize_entries (map JObj es) = Inr es" for es
    by (induction es) auto
  have "load_watchdogs js (Some (dumps new)) = Inr \<lparr>wd_version = JInt REGISTRY_VERSION, wd_configs = wd_configs w @ [?e]\<rparr>"
    using norm [of "wd_configs w @ [?e]"] assms(3,4,6,8) e
    by (simp add: load_watchdogs_def watchdogs_json_def dict_get_def)
  moreover have "load_watchdogs js (Some (dumps old)) = Inr \<lparr>wd_version = JInt REGISTRY_VERSION, wd_configs = wd_configs w\<rparr>"
    using norm [of "wd_configs w"] assms(5,7,8) by (simp add: load_watchdogs_def watchdogs_json_def dict_get_def)
  moreover have "filter (\<lambda>e. entry_config e \<noteq> resolved) (wd_configs w) = wd_configs w"
    using assms(2) by (intro filter_True) auto
  ultimately show ?thesis
    using assms(1,2,4,5) e by (simp add: run_register_def run_unregister_def Let_def)
qed

definition sample_registry_text :: "json \<Rightarrow> string" where
  "sample_registry_text v = (case v of JObj [_, (_, JArr [])] \<Rightarrow> ''empty'' | _ \<Rightarrow> ''one'')"

theorem register_roundtrip_witness:
  "\<exists>c file js dumps entry. run_register js dumps None (Inr c) ''/repo/roadmap.yaml'' ''/repo/roadmap.yaml'' [] None =
      (Registered entry, file) \<and>
    snd (run_unregister js dumps None ''/repo/roadmap.yaml'' file) = Some ''empty''"
proof -
  let ?c = "scaffold_config ''/repo/roadmap.yaml'' sample_validated [''impl'', ''review'', ''fanin'']"
  let ?p = "''/repo/roadmap.yaml''"
  let ?old = "watchdogs_json \<lparr>wd_version = JInt REGISTRY_VERSION, wd_configs = []\<rparr>"
  let ?new = "watchdogs_json \<lparr>wd_version = JInt REGISTRY_VERSION, wd_configs = [] @ [watchdog_entry ?c ?p ?p []]\<rparr>"
  let ?js = "\<lambda>s. if s = ''empty'' then Inr ?old else (Inr ?new :: string + json)"
  have t: "sample_registry_text ?old = ''empty''" "sample_registry_text ?new = ''one''"
    by (simp_all add: sample_registry_text_def watchdogs_json_def)
  have "load_watchdogs ?js None = Inr \<lparr>wd_version = JInt REGISTRY_VERSION, wd_configs = []\<rparr>"
    by (simp add: load_watchdogs_def)
  from register_roundtrip [OF this, where resolved = ?p and dumps = sample_registry_text and new = ?new and old = ?old
      and c = ?c and config_path = ?p and rcpt = "[]"] t
  show ?thesis by fastforce
qed

end
