(* ===== verification/Release.thy ===== *)
theory Release
  imports Repo_Config Verdicts
begin

text \<open>
  The release trigger (\<open>release_action.py\<close>): the directive of a final review, the repository's
  configuration, the gates, and the bounded sequence of \<open>git\<close> and \<open>gh\<close> commands behind them.

  The command runner is a parameter that takes a command line and the state of the world; \<open>None\<close> is
  an exception. \<open>pm pattern text\<close> is \<open>re.compile(pattern).fullmatch(text)\<close>, \<open>None\<close> for a malformed
  pattern.
\<close>

subsection \<open>The directive and the configuration\<close>

record release_directive =
  rd_verdict :: string
  rd_action :: string
  rd_version :: string
  rd_approved :: bool
  rd_title :: string
  rd_notes :: string
  rd_target :: string
  rd_confidence :: string
  rd_source_ref :: string

record release_config =
  rl_enabled :: bool
  rl_apply_mode :: bool
  rl_allowed_actions :: "string list"
  rl_allowed_versions :: "string list"
  rl_version_pattern :: string
  rl_source_ref :: string

definition load_release_config ::
    "(string \<Rightarrow> json option) \<Rightarrow> (string \<Rightarrow> real \<times> string) \<Rightarrow> string \<Rightarrow> string \<Rightarrow> registry_error + release_config" where
  "load_release_config js fl path text =
     (case load_payload js fl ''release action'' text of
        Inl e \<Rightarrow> Inl e
      | Inr m \<Rightarrow> Inr
          \<lparr>rl_enabled = cfg_bool m ''release_actions_enabled'' False, rl_apply_mode = cfg_bool m ''apply_mode'' False,
           rl_allowed_actions = cfg_str_tuple m ''allowed_actions'',
           rl_allowed_versions = cfg_str_tuple m ''allowed_versions'',
           rl_version_pattern = get_str m ''allowed_version_pattern'', rl_source_ref = path\<rparr>)"

definition DEFAULT_VERSION_RE :: regex where
  "DEFAULT_VERSION_RE = re_seq [RTextBegin, re_lit ''v'', re_plus re_digit, re_lit ''.'', re_plus re_digit,
     re_lit ''.'', re_plus re_digit,
     re_opt (RSeq (re_lit ''-'') (re_plus (RChar (CUnion (CUnion CAlpha CDigit) (COf ''.-''))))), RTextEnd]"

definition release_marker :: "string \<Rightarrow> string \<Rightarrow> string" where
  "release_marker text name = summary_marker text name"

definition parse_release_directive :: "string \<Rightarrow> string \<Rightarrow> release_directive" where
  "parse_release_directive text src =
     (let verdict = re_search VERDICT_RE text; action = release_marker text ''Release-Action'';
          version = release_marker text ''Release-Version''; approved = release_marker text ''Release-Approved''
      in \<lparr>rd_verdict = (case verdict of Some m \<Rightarrow> py_upper (group 1 m) | None \<Rightarrow> ''UNKNOWN''),
          rd_action = action, rd_version = version,
          rd_approved = (py_lower (py_strip approved) \<in> {''true'', ''yes'', ''1''}),
          rd_title = short_text 200 (release_marker text ''Release-Title''),
          rd_notes = short_text 2000 (release_marker text ''Release-Notes''),
          rd_target = short_text 200 (release_marker text ''Release-Target''),
          rd_confidence = (if verdict \<noteq> None \<and> action \<noteq> [] \<and> version \<noteq> [] \<and> approved \<noteq> [] then ''explicit''
                           else ''none''),
          rd_source_ref = src\<rparr>)"

definition release_key :: "string \<Rightarrow> string \<Rightarrow> string" where
  "release_key action version = ''release:'' @ action @ '':'' @ version"

definition version_allowed :: "(string \<Rightarrow> string \<Rightarrow> bool option) \<Rightarrow> string \<Rightarrow> release_config \<Rightarrow> bool" where
  "version_allowed pm version cfg =
     (if rl_allowed_versions cfg \<noteq> [] then version \<in> set (rl_allowed_versions cfg)
      else if rl_version_pattern cfg \<noteq> [] then pm (rl_version_pattern cfg) version = Some True
      else re_fullmatch DEFAULT_VERSION_RE version)"

subsection \<open>The result\<close>

record release_result =
  rel_success :: bool
  rel_decision :: string
  rel_reason :: string
  rel_action :: string
  rel_version :: string
  rel_key :: string
  rel_mutations :: "json dict list"
  rel_receipt :: "json option"

definition base_result :: "release_directive \<Rightarrow> string \<Rightarrow> string \<Rightarrow> release_result" where
  "base_result d decision reason =
     \<lparr>rel_success = (decision \<in> {''propose'', ''apply''}), rel_decision = decision, rel_reason = reason,
      rel_action = rd_action d, rel_version = rd_version d, rel_key = [], rel_mutations = [], rel_receipt = None\<rparr>"

definition refuse_with_key :: "release_directive \<Rightarrow> string \<Rightarrow> string \<Rightarrow> release_result" where
  "refuse_with_key d key reason = (base_result d ''refuse'' reason)\<lparr>rel_key := key\<rparr>"

definition succeeded :: "json dict \<Rightarrow> string \<Rightarrow> json option" where
  "succeeded ledger key =
     (case dict_get ledger key of
        Some (JObj m) \<Rightarrow> if dict_get m ''result'' = Some (JStr ''success'') then Some (JObj m) else None
      | _ \<Rightarrow> None)"

subsection \<open>The commands\<close>

type_synonym 'w cli_runner = "string list \<Rightarrow> 'w \<Rightarrow> (int \<times> string \<times> string) option \<times> 'w"

definition tag_list_cmd :: "release_directive \<Rightarrow> string list" where
  "tag_list_cmd d = [''git'', ''tag'', ''-l'', rd_version d]"

definition release_view_cmd :: "release_directive \<Rightarrow> string list" where
  "release_view_cmd d = [''gh'', ''release'', ''view'', rd_version d]"

definition tag_cmd :: "release_directive \<Rightarrow> string list" where
  "tag_cmd d = [''git'', ''tag'', ''-a'', rd_version d, ''-m'', str_or (rd_title d) (rd_version d)]"

definition push_cmd :: "release_directive \<Rightarrow> string list" where
  "push_cmd d = [''git'', ''push'', ''origin'', rd_version d]"

definition release_cmd :: "release_directive \<Rightarrow> string list" where
  "release_cmd d =
     [''gh'', ''release'', ''create'', rd_version d, ''--title'', str_or (rd_title d) (rd_version d),
      ''--notes'', rd_notes d] @ (if rd_target d = [] then [] else [''--target'', rd_target d])"

definition ran_ok :: "(int \<times> string \<times> string) option \<Rightarrow> bool" where
  "ran_ok r = (case r of Some (rc, _) \<Rightarrow> rc = 0 | None \<Rightarrow> False)"

text \<open>The live duplicate check: the reason to refuse, if any.\<close>

definition duplicate_check ::
    "'w cli_runner \<Rightarrow> release_directive \<Rightarrow> 'w \<Rightarrow> string option \<times> 'w" where
  "duplicate_check run d w =
     (case run (tag_list_cmd d) w of
        (None, w) \<Rightarrow> (Some ''runner_error'', w)
      | (Some (rc, out, _), w) \<Rightarrow>
          if rc = 0 \<and> rd_version d \<in> set (py_split out) then (Some ''duplicate_tag'', w)
          else (case run (release_view_cmd d) w of
              (None, w) \<Rightarrow> (Some ''runner_error'', w)
            | (Some (rc, _, _), w) \<Rightarrow> (if rc = 0 then Some ''duplicate_release'' else None, w)))"

definition publish :: "'w cli_runner \<Rightarrow> release_directive \<Rightarrow> 'w \<Rightarrow> string option \<times> 'w" where
  "publish run d w =
     (case run (tag_cmd d) w of (r, w) \<Rightarrow>
        if \<not> ran_ok r then (Some ''tag_failed'', w)
        else case run (push_cmd d) w of (r, w) \<Rightarrow>
          if \<not> ran_ok r then (Some ''push_failed'', w)
          else case run (release_cmd d) w of (r, w) \<Rightarrow>
            if \<not> ran_ok r then (Some ''release_create_failed'', w) else (None, w))"

definition release_receipt :: "release_directive \<Rightarrow> json" where
  "release_receipt d = JObj
     [(''action'', JStr (rd_action d)), (''version'', JStr (rd_version d)),
      (''idempotency_key'', JStr (release_key (rd_action d) (rd_version d))), (''result'', JStr ''success'')]"

definition release_plan :: "release_directive \<Rightarrow> json dict" where
  "release_plan d =
     [(''action'', JStr (rd_action d)), (''version'', JStr (rd_version d)), (''title'', JStr (rd_title d)),
      (''notes'', JStr (rd_notes d)), (''target'', JStr (rd_target d))]"

text \<open>The gates on the directive, in the order of the code.\<close>

definition release_gate :: "(string \<Rightarrow> string \<Rightarrow> bool option) \<Rightarrow> release_config \<Rightarrow> release_directive \<Rightarrow> (string \<times> string) option" where
  "release_gate pm cfg d =
     (if \<not> rl_enabled cfg then Some (''noop'', ''release_actions_disabled'')
      else if rd_verdict d \<noteq> ''GO'' then Some (''refuse'', ''not_go'')
      else if rd_confidence d \<noteq> ''explicit'' then Some (''refuse'', ''missing_directive'')
      else if rd_action d \<notin> set (rl_allowed_actions cfg) then Some (''refuse'', ''unknown_action'')
      else if \<not> rd_approved d then Some (''refuse'', ''missing_approval'')
      else if \<not> version_allowed pm (rd_version d) cfg then Some (''refuse'', ''invalid_version'')
      else None)"

definition evaluate_release ::
    "(string \<Rightarrow> string \<Rightarrow> bool option) \<Rightarrow> string \<Rightarrow> string \<Rightarrow> release_config \<Rightarrow> bool \<Rightarrow> 'w cli_runner option \<Rightarrow>
       json dict \<Rightarrow> 'w \<Rightarrow> release_result \<times> json dict \<times> 'w" where
  "evaluate_release pm src summary cfg apply runner ledger w =
     (let d = parse_release_directive summary src; key = release_key (rd_action d) (rd_version d) in
      case release_gate pm cfg d of
        Some (decision, reason) \<Rightarrow> (base_result d decision reason, ledger, w)
      | None \<Rightarrow>
          (case succeeded ledger key of
             Some existing \<Rightarrow>
               ((base_result d ''noop'' ''duplicate_receipt'')\<lparr>rel_key := key, rel_receipt := Some existing\<rparr>, ledger, w)
           | None \<Rightarrow>
               if \<not> apply \<or> \<not> rl_apply_mode cfg then
                 ((base_result d ''propose'' ''dry_run'')\<lparr>rel_key := key, rel_mutations := [release_plan d]\<rparr>, ledger, w)
               else case runner of
                 None \<Rightarrow> (refuse_with_key d key ''no_runner'', ledger, w)
               | Some run \<Rightarrow>
                   (case duplicate_check run d w of
                      (Some reason, w) \<Rightarrow> (refuse_with_key d key reason, ledger, w)
                    | (None, w) \<Rightarrow>
                        (case publish run d w of
                           (Some reason, w) \<Rightarrow> (refuse_with_key d key reason, ledger, w)
                         | (None, w) \<Rightarrow>
                             ((base_result d ''apply'' ''applied'')
                                \<lparr>rel_key := key,
                                 rel_mutations := [[(''kind'', JStr ''tag'')], [(''kind'', JStr ''push'')],
                                   [(''kind'', JStr ''gh_release'')]],
                                 rel_receipt := Some (release_receipt d)\<rparr>,
                              dict_set key (release_receipt d) ledger, w)))))"

text \<open>\<open>load_receipts_ledger\<close>: a missing, unreadable or foreign file is an empty ledger.\<close>

definition load_receipts_ledger :: "(string \<Rightarrow> json option) \<Rightarrow> string option \<Rightarrow> json dict" where
  "load_receipts_ledger js file =
     (case file of None \<Rightarrow> [] | Some text \<Rightarrow> (case js text of Some (JObj m) \<Rightarrow> m | _ \<Rightarrow> []))"

subsection \<open>What the trigger promises\<close>

text \<open>A runner that keeps the command lines it was given, each with its answer.\<close>

type_synonym transcript = "(string list \<times> (int \<times> string \<times> string) option) list"

definition logged :: "'w cli_runner \<Rightarrow> ('w \<times> transcript) cli_runner" where
  "logged run argv s = (case run argv (fst s) of (r, w) \<Rightarrow> (r, (w, snd s @ [(argv, r)])))"

definition release_commands :: "release_directive \<Rightarrow> string list list" where
  "release_commands d = [tag_list_cmd d, release_view_cmd d, tag_cmd d, push_cmd d, release_cmd d]"

text \<open>What the two checks must answer: the tag is not listed, and there is no such release.\<close>

definition tag_absent :: "release_directive \<Rightarrow> (int \<times> string \<times> string) option \<Rightarrow> bool" where
  "tag_absent d r \<longleftrightarrow> (case r of Some (rc, out, _) \<Rightarrow> \<not> (rc = 0 \<and> rd_version d \<in> set (py_split out)) | None \<Rightarrow> False)"

definition release_absent :: "(int \<times> string \<times> string) option \<Rightarrow> bool" where
  "release_absent r \<longleftrightarrow> (case r of Some (rc, _) \<Rightarrow> rc \<noteq> 0 | None \<Rightarrow> False)"

text \<open>
  The transcript of a run: a prefix of the five commands, each given exactly when the answer to the
  one before let it, and the verdict on the whole.
\<close>

definition proper_transcript :: "release_directive \<Rightarrow> transcript \<Rightarrow> bool \<Rightarrow> bool" where
  "proper_transcript d lg released \<longleftrightarrow>
     map fst lg = take (length lg) (release_commands d) \<and>
     (1 < length lg \<longleftrightarrow> 0 < length lg \<and> tag_absent d (snd (lg ! 0))) \<and>
     (2 < length lg \<longleftrightarrow> 1 < length lg \<and> release_absent (snd (lg ! 1))) \<and>
     (3 < length lg \<longleftrightarrow> 2 < length lg \<and> ran_ok (snd (lg ! 2))) \<and>
     (4 < length lg \<longleftrightarrow> 3 < length lg \<and> ran_ok (snd (lg ! 3))) \<and>
     (released \<longleftrightarrow> 4 < length lg \<and> ran_ok (snd (lg ! 4)))"

lemma duplicate_check_log:
  assumes "duplicate_check (logged run) d (w, []) = (q, (w', lg))"
  obtains r where "lg = [(tag_list_cmd d, r)]" "\<not> tag_absent d r" "q \<noteq> None"
  | r v where "lg = [(tag_list_cmd d, r), (release_view_cmd d, v)]" "tag_absent d r" "q = None \<longleftrightarrow> release_absent v"
  using assms
  by (auto simp: duplicate_check_def logged_def tag_absent_def release_absent_def
      split: prod.splits option.splits if_splits)

lemma publish_log:
  assumes "publish (logged run) d (w, lg) = (q, (w', lg'))"
  obtains r where "lg' = lg @ [(tag_cmd d, r)]" "\<not> ran_ok r" "q \<noteq> None"
  | r v where "lg' = lg @ [(tag_cmd d, r), (push_cmd d, v)]" "ran_ok r" "\<not> ran_ok v" "q \<noteq> None"
  | r v x where "lg' = lg @ [(tag_cmd d, r), (push_cmd d, v), (release_cmd d, x)]" "ran_ok r" "ran_ok v"
      "q = None \<longleftrightarrow> ran_ok x"
proof -
  obtain r u where r: "run (tag_cmd d) w = (r, u)" by fastforce
  obtain v u' where v: "run (push_cmd d) u = (v, u')" by fastforce
  obtain x u'' where x: "run (release_cmd d) u' = (x, u'')" by fastforce
  show ?thesis
    using assms that by (auto simp: publish_def logged_def r v x split: if_splits)
qed

definition release_armed :: "(string \<Rightarrow> string \<Rightarrow> bool option) \<Rightarrow> release_config \<Rightarrow> bool \<Rightarrow> json dict \<Rightarrow> release_directive \<Rightarrow> bool" where
  "release_armed pm cfg apply ledger d \<longleftrightarrow>
     apply \<and> rl_enabled cfg \<and> rl_apply_mode cfg \<and> rd_verdict d = ''GO'' \<and> rd_confidence d = ''explicit'' \<and>
     rd_action d \<in> set (rl_allowed_actions cfg) \<and> rd_approved d \<and> version_allowed pm (rd_version d) cfg \<and>
     succeeded ledger (release_key (rd_action d) (rd_version d)) = None"

lemma release_gate_None: "release_gate pm cfg d = None \<longleftrightarrow>
    rl_enabled cfg \<and> rd_verdict d = ''GO'' \<and> rd_confidence d = ''explicit'' \<and>
    rd_action d \<in> set (rl_allowed_actions cfg) \<and> rd_approved d \<and> version_allowed pm (rd_version d) cfg"
  by (auto simp: release_gate_def)

text \<open>
  C26: nothing is tagged, pushed or released unless every gate is open. Commands run exactly when the
  repository has enabled and armed releases, the caller asked to apply, the report is a GO that names
  an allowed action and version and carries the approval, and the ledger has no success for them.
  They are, in this order and at most once each, the two duplicate checks, the tag, the push and the
  release; each runs exactly when the one before answered well: the tag was not listed, the release
  was not found, the tag was made, it was pushed. The ledger gains its receipt, and the answer says
  applied, exactly when the release was created as well; otherwise it is as before.
\<close>

theorem release_gated:
  assumes "evaluate_release pm src summary cfg apply (Some (logged run)) ledger (w, []) = (r, ledger', (w', lg))"
    and "d = parse_release_directive summary src"
  shows "(lg \<noteq> [] \<longleftrightarrow> release_armed pm cfg apply ledger d) \<and>
    proper_transcript d lg (rel_decision r = ''apply'') \<and>
    ledger' = (if rel_decision r = ''apply''
      then dict_set (release_key (rd_action d) (rd_version d)) (release_receipt d) ledger else ledger)"
proof (cases "release_armed pm cfg apply ledger d")
  case False
  then have "lg = [] \<and> ledger' = ledger \<and> rel_decision r \<noteq> ''apply''"
    using assms
    by (auto simp: evaluate_release_def Let_def release_armed_def release_gate_def base_result_def
        split: if_splits option.splits)
  with False show ?thesis by (simp add: proper_transcript_def)
next
  case True
  then have gate: "release_gate pm cfg d = None" by (simp add: release_armed_def release_gate_None)
  note run = evaluate_release_def Let_def release_armed_def refuse_with_key_def base_result_def
  note ends = proper_transcript_def release_commands_def
  obtain q v l where c: "duplicate_check (logged run) d (w, []) = (q, (v, l))" by (cases "duplicate_check (logged run) d (w, [])") auto
  show ?thesis
  proof (cases q)
    case (Some reason)
    with True gate c assms have r: "rel_decision r = ''refuse'' \<and> ledger' = ledger \<and> lg = l" by (auto simp: run)
    show ?thesis by (rule duplicate_check_log [OF c]) (use r True Some in \<open>simp_all add: ends\<close>)
  next
    case None
    then obtain a b where l: "l = [(tag_list_cmd d, a), (release_view_cmd d, b)]" "tag_absent d a" "release_absent b"
      by (auto intro: duplicate_check_log [OF c])
    obtain q' v' l' where p: "publish (logged run) d (v, l) = (q', (v', l'))" by (cases "publish (logged run) d (v, l)") auto
    have r: "(rel_decision r = ''apply'' \<longleftrightarrow> q' = None) \<and> lg = l' \<and> ledger' = (if q' = None
        then dict_set (release_key (rd_action d) (rd_version d)) (release_receipt d) ledger else ledger)"
      using None True gate c p assms by (cases q') (auto simp: run)
    show ?thesis
      by (rule publish_log [OF p]) (use r True l in \<open>simp_all add: ends nth_append\<close>)
  qed
qed

text \<open>
  a version is released once. After a run that applied an action for a version, no later run for
  the same action and version runs a command or changes the ledger, whatever its report, its
  configuration and its runner.
\<close>

theorem release_once:
  assumes "evaluate_release pm src summary cfg apply runner ledger w = (r, ledger', w')" "rel_decision r = ''apply''"
    and "rel_action r = rd_action (parse_release_directive summary' src')"
    and "rel_version r = rd_version (parse_release_directive summary' src')"
  shows "\<exists>r'. evaluate_release pm' src' summary' cfg' apply' runner' ledger' v = (r', ledger', v) \<and>
    rel_decision r' \<in> {''noop'', ''refuse''}"
proof -
  let ?d = "parse_release_directive summary src" and ?e = "parse_release_directive summary' src'"
  have "ledger' = dict_set (release_key (rd_action ?d) (rd_version ?d)) (release_receipt ?d) ledger \<and>
      rel_action r = rd_action ?d \<and> rel_version r = rd_version ?d"
    using assms(1,2)
    by (auto simp: evaluate_release_def Let_def base_result_def refuse_with_key_def release_gate_def
        split: option.splits if_splits prod.splits)
  then have "succeeded ledger' (release_key (rd_action ?e) (rd_version ?e)) = Some (release_receipt ?d)"
    using assms(3,4) by (simp add: succeeded_def release_receipt_def dict_get_def [of "[_, _, _, _]"])
  then show ?thesis
    by (auto simp: evaluate_release_def Let_def base_result_def release_gate_def split: option.splits)
qed

definition sample_release_report :: string where
  "sample_release_report = join_with [line_feed]
     [''Verdict: GO'', ''Release-Action: github-release'', ''Release-Version: v1.2.0'', ''Release-Approved: yes'']"

definition sample_release_config :: release_config where
  "sample_release_config = \<lparr>rl_enabled = True, rl_apply_mode = True, rl_allowed_actions = [''github-release''],
     rl_allowed_versions = [''v1.2.0''], rl_version_pattern = [], rl_source_ref = []\<rparr>"

text \<open>A world in which the tag and the release do not exist and every command succeeds.\<close>

definition sample_cli :: "unit cli_runner" where
  "sample_cli argv w = (Some (if argv ! 1 = ''release'' \<and> argv ! 2 = ''view'' then 1 else 0, [], []), w)"

definition sample_directive :: release_directive where
  "sample_directive = \<lparr>rd_verdict = ''GO'', rd_action = ''github-release'', rd_version = ''v1.2.0'',
     rd_approved = True, rd_title = [], rd_notes = [], rd_target = [], rd_confidence = ''explicit'',
     rd_source_ref = []\<rparr>"

definition sample_transcript :: transcript where
  "sample_transcript =
     [(tag_list_cmd sample_directive, Some (0, [], [])), (release_view_cmd sample_directive, Some (1, [], [])),
      (tag_cmd sample_directive, Some (0, [], [])), (push_cmd sample_directive, Some (0, [], [])),
      (release_cmd sample_directive, Some (0, [], []))]"

lemma sample_report_directive: "parse_release_directive sample_release_report [] = sample_directive"
  by code_simp

lemma sample_release_run:
  "\<exists>r l. evaluate_release (\<lambda>_ _. None) [] sample_release_report sample_release_config True (Some (logged sample_cli)) [] ((), []) =
    (r, l, ((), sample_transcript)) \<and> rel_decision r = ''apply'' \<and>
    rel_action r = ''github-release'' \<and> rel_version r = ''v1.2.0''"
proof -
  let ?d = sample_directive
  let ?two = "[(tag_list_cmd ?d, Some (0, [], [])), (release_view_cmd ?d, Some (1, [], []))]"
  have g: "release_gate (\<lambda>_ _. None) sample_release_config ?d = None"
    by (simp add: release_gate_def sample_directive_def sample_release_config_def version_allowed_def)
  have c: "duplicate_check (logged sample_cli) ?d ((), []) = (None, ((), ?two))"
    by (simp add: duplicate_check_def logged_def sample_cli_def tag_list_cmd_def release_view_cmd_def py_split_def)
  have p: "publish (logged sample_cli) ?d ((), ?two) =
      (None, ((), sample_transcript))"
    by (simp add: publish_def logged_def sample_cli_def ran_ok_def sample_transcript_def tag_cmd_def push_cmd_def
        release_cmd_def)
  show ?thesis
    unfolding evaluate_release_def sample_report_directive
    by (simp add: Let_def g c p succeeded_def dict_get_def base_result_def)
      (simp add: sample_directive_def sample_release_config_def)
qed

theorem release_gated_witness:
  "\<exists>r l. evaluate_release (\<lambda>_ _. None) [] sample_release_report sample_release_config True (Some (logged sample_cli)) [] ((), []) =
    (r, l, ((), sample_transcript)) \<and>
    release_armed (\<lambda>_ _. None) sample_release_config True [] sample_directive \<and>
    proper_transcript sample_directive sample_transcript (rel_decision r = ''apply'')"
proof -
  obtain r l where run: "evaluate_release (\<lambda>_ _. None) [] sample_release_report sample_release_config True
      (Some (logged sample_cli)) [] ((), []) = (r, l, ((), sample_transcript))"
    using sample_release_run by blast
  have "sample_transcript \<noteq> []" by (simp add: sample_transcript_def)
  with release_gated [OF run sample_report_directive [symmetric]] run show ?thesis by blast
qed

theorem release_once_witness:
  "\<exists>r l r'. evaluate_release (\<lambda>_ _. None) [] sample_release_report sample_release_config True (Some (logged sample_cli)) [] ((), []) =
    (r, l, ((), sample_transcript)) \<and>
    evaluate_release (\<lambda>_ _. None) [] sample_release_report sample_release_config True (Some (logged sample_cli)) l ((), []) =
    (r', l, ((), []))"
proof -
  obtain r l where run: "evaluate_release (\<lambda>_ _. None) [] sample_release_report sample_release_config True
      (Some (logged sample_cli)) [] ((), []) = (r, l, ((), sample_transcript))"
      "rel_decision r = ''apply''" "rel_action r = ''github-release''" "rel_version r = ''v1.2.0''"
    using sample_release_run by blast
  have "rel_action r = rd_action (parse_release_directive sample_release_report [])"
    "rel_version r = rd_version (parse_release_directive sample_release_report [])"
    using run(3,4) by (simp_all add: sample_report_directive sample_directive_def)
  from release_once [OF run(1,2) this, of "\<lambda>_ _. None" sample_release_config True "Some (logged sample_cli)" "((), [])"]
  obtain r' where "evaluate_release (\<lambda>_ _. None) [] sample_release_report sample_release_config True
      (Some (logged sample_cli)) l ((), []) = (r', l, ((), []))" by blast
  with run(1) show ?thesis by blast
qed

end
