(* ===== verification/Loop_Supervisor.thy ===== *)
theory Loop_Supervisor
  imports Roadmap
begin

text \<open>
  The loop supervisor (\<open>loop_supervisor.py\<close>): its policy, events, receipts and their ledger, the gates
  of \<open>evaluate_loop_event\<close>, the supersession of a stale final card, and the promotion attached to a GO.

  The graph creator and the promoter are the module's defaults. The board adapter is the parameter of
  the graph creator. Receipts and metadata are records whose texts have passed \<open>safe_event_payload\<close>
  under their own keys. \<open>clock\<close> is \<open>time.time()\<close>. The mutations of a decision are always empty here,
  because both default creators return none; they are left out.
\<close>

subsection \<open>Policy\<close>

record loop_policy =
  sv_active_mode :: string
  sv_apply_enabled :: bool
  sv_kill_switch :: bool
  sv_allowlisted_blockers :: "string list"
  sv_max_rounds :: int
  sv_max_same_blocker :: int
  sv_max_auto_creates :: int
  sv_max_tasks :: int
  sv_cooldown_seconds :: int
  sv_backoff_multiplier :: real
  sv_require_subscription :: bool
  sv_require_origin_match :: bool
  sv_require_policy_resolution :: bool
  sv_request_only_by_default :: bool
  sv_expected_origin :: string
  sv_expected_return_to :: string
  sv_roadmap_auto_continue :: bool
  sv_roadmap_transitions :: "string list"
  sv_roadmap_max_chain_depth :: int
  sv_roadmap_max_promotions :: int
  sv_roadmap_cooldown_seconds :: int
  sv_roadmap_require_review_edge :: bool
  sv_roadmap_require_ack_edge :: bool
  sv_roadmap_require_trusted :: bool
  sv_roadmap_trusted :: "string list"
  sv_roadmap_require_policy_resolution :: bool
  sv_roadmap_apply_enabled :: bool
  sv_roadmap_impl_assignee :: string
  sv_roadmap_review_assignee :: string
  sv_roadmap_ack_agent :: string
  sv_roadmap_board_mode :: string

definition default_loop_policy :: loop_policy where
  "default_loop_policy =
     \<lparr>sv_active_mode = ''request_only'', sv_apply_enabled = False, sv_kill_switch = False,
      sv_allowlisted_blockers = [], sv_max_rounds = 2, sv_max_same_blocker = 1, sv_max_auto_creates = 3,
      sv_max_tasks = 9, sv_cooldown_seconds = 900, sv_backoff_multiplier = 2, sv_require_subscription = True,
      sv_require_origin_match = True, sv_require_policy_resolution = True, sv_request_only_by_default = True,
      sv_expected_origin = [], sv_expected_return_to = [], sv_roadmap_auto_continue = False,
      sv_roadmap_transitions = [], sv_roadmap_max_chain_depth = 3, sv_roadmap_max_promotions = 6,
      sv_roadmap_cooldown_seconds = 900, sv_roadmap_require_review_edge = True,
      sv_roadmap_require_ack_edge = True, sv_roadmap_require_trusted = True, sv_roadmap_trusted = [],
      sv_roadmap_require_policy_resolution = True, sv_roadmap_apply_enabled = False,
      sv_roadmap_impl_assignee = [], sv_roadmap_review_assignee = [], sv_roadmap_ack_agent = [],
      sv_roadmap_board_mode = ''fake''\<rparr>"

text \<open>\<open>Loop_Wrong_Type\<close>: not a policy, or one with a field of another type.\<close>

datatype loop_policy_arg = Loop_None | Loop_Wrong_Type | Loop_Given loop_policy

definition killed_policy :: loop_policy where
  "killed_policy = default_loop_policy\<lparr>sv_kill_switch := True\<rparr>"

definition coerce_loop_policy :: "loop_policy_arg \<Rightarrow> loop_policy \<times> bool" where
  "coerce_loop_policy a =
     (case a of
        Loop_None \<Rightarrow> (default_loop_policy, False)
      | Loop_Wrong_Type \<Rightarrow> (killed_policy, True)
      | Loop_Given p \<Rightarrow>
          if sv_active_mode p \<notin> {''disabled'', ''observe_only'', ''request_only'', ''apply''}
            then (killed_policy, True)
          else if sv_roadmap_board_mode p \<notin> {''fake'', ''real''} then (killed_policy, True)
          else if list_ex (\<lambda>v. v < 0)
              [sv_max_rounds p, sv_max_same_blocker p, sv_max_auto_creates p, sv_max_tasks p,
               sv_cooldown_seconds p, sv_roadmap_max_chain_depth p, sv_roadmap_max_promotions p,
               sv_roadmap_cooldown_seconds p]
            then (killed_policy, True)
          else if sv_backoff_multiplier p < 1 then (killed_policy, True)
          else (p, False))"

definition apply_effectively_enabled :: "loop_policy \<Rightarrow> bool" where
  "apply_effectively_enabled p \<longleftrightarrow> sv_active_mode p = ''apply'' \<and> sv_apply_enabled p"

definition loop_graph_policy :: "loop_policy \<Rightarrow> string \<Rightarrow> graph_policy" where
  "loop_graph_policy p blocker =
     \<lparr>gp_apply_enabled = apply_effectively_enabled p, gp_active_mode = sv_active_mode p,
      gp_kill_switch = sv_kill_switch p,
      gp_allowlisted_blockers = (if blocker \<in> set (sv_allowlisted_blockers p) then [blocker] else []),
      gp_max_per_source = sv_max_tasks p, gp_max_per_class = sv_max_tasks p,
      gp_max_auto_creates = sv_max_auto_creates p\<rparr>"

definition loop_roadmap_policy :: "loop_policy \<Rightarrow> promotion_policy" where
  "loop_roadmap_policy p =
     default_promotion_policy
       \<lparr>pp_auto_continue := sv_roadmap_auto_continue p, pp_allowlisted_transitions := sv_roadmap_transitions p,
        pp_max_chain_depth := sv_roadmap_max_chain_depth p, pp_max_promotions := sv_roadmap_max_promotions p,
        pp_cooldown_seconds := sv_roadmap_cooldown_seconds p,
        pp_require_review_edge := sv_roadmap_require_review_edge p,
        pp_require_ack_edge := sv_roadmap_require_ack_edge p,
        pp_require_trusted_assignee := sv_roadmap_require_trusted p,
        pp_trusted_assignees := sv_roadmap_trusted p, pp_require_origin_match := sv_require_origin_match p,
        pp_expected_origin := sv_expected_origin p, pp_expected_return_to := sv_expected_return_to p,
        pp_require_policy_resolution := sv_roadmap_require_policy_resolution p,
        pp_apply_enabled := sv_roadmap_apply_enabled p \<and> apply_effectively_enabled p,
        pp_impl_assignee := sv_roadmap_impl_assignee p, pp_review_assignee := sv_roadmap_review_assignee p,
        pp_ack_trigger_agent := sv_roadmap_ack_agent p\<rparr>"

subsection \<open>Events\<close>

text \<open>A card is empty where the code has \<open>None\<close> or an empty dictionary.\<close>

record loop_event =
  le_event_id :: string
  le_graph :: string
  le_verdict :: string
  le_summary :: string
  le_event_type :: string
  le_task :: string
  le_blocker_class :: string
  le_origin :: string
  le_return_to :: string
  le_subscription :: string
  le_policy_ref :: string
  le_round_no :: int
  le_occurred_at :: real
  le_source_final :: string
  le_review :: string
  le_assignee :: string
  le_chain_depth :: int
  le_old_card :: "json dict"
  le_review_card :: "json dict"

definition mk_loop_event :: "string \<Rightarrow> string \<Rightarrow> loop_event" where
  "mk_loop_event event graph =
     \<lparr>le_event_id = event, le_graph = graph, le_verdict = [], le_summary = [],
      le_event_type = ''terminal_task_verdict'', le_task = [], le_blocker_class = [], le_origin = [],
      le_return_to = [], le_subscription = ''unverified'', le_policy_ref = [], le_round_no = 0,
      le_occurred_at = 0, le_source_final = [], le_review = [], le_assignee = [], le_chain_depth = 0,
      le_old_card = [], le_review_card = []\<rparr>"

text \<open>A field of a dictionary at the type of its annotation; \<open>None\<close> is a value of another type.\<close>

definition text_at :: "json dict \<Rightarrow> string \<Rightarrow> string \<Rightarrow> string option" where
  "text_at d key dflt = (case dict_get d key of None \<Rightarrow> Some dflt | Some (JStr s) \<Rightarrow> Some s | _ \<Rightarrow> None)"

definition int_at :: "json dict \<Rightarrow> string \<Rightarrow> int option" where
  "int_at d key = (case dict_get d key of None \<Rightarrow> Some 0 | Some (JInt i) \<Rightarrow> Some i | _ \<Rightarrow> None)"

definition time_at :: "json dict \<Rightarrow> string \<Rightarrow> real option" where
  "time_at d key = (case dict_get d key of None \<Rightarrow> Some 0 | Some (JInt i) \<Rightarrow> Some (of_int i)
     | Some (JFloat r _) \<Rightarrow> Some r | _ \<Rightarrow> None)"

definition card_at :: "json dict \<Rightarrow> string \<Rightarrow> json dict option" where
  "card_at d key = (case dict_get d key of None \<Rightarrow> Some [] | Some JNull \<Rightarrow> Some []
     | Some (JObj m) \<Rightarrow> Some m | _ \<Rightarrow> None)"

definition event_of_dict :: "string \<Rightarrow> string \<Rightarrow> json dict \<Rightarrow> loop_event option" where
  "event_of_dict no_event no_graph d =
     (case (those (map (\<lambda>(k, v). text_at d k v)
              [(''event_id'', no_event), (''source_graph_id'', no_graph), (''verdict'', []), (''summary'', []),
               (''event_type'', ''terminal_task_verdict''), (''source_task_id'', []), (''blocker_class'', []),
               (''origin'', []), (''return_to'', []), (''subscription_status'', ''unverified''),
               (''policy_resolution_ref'', []), (''source_final_id'', []), (''remediation_review_id'', []),
               (''source_assignee'', [])]),
            int_at d ''round_no'', time_at d ''occurred_at'', int_at d ''chain_depth'',
            card_at d ''old_final_card'', card_at d ''remediation_review_card'') of
        (Some [event, graph, verdict, summary, kind, task, blocker, origin, return_to, subscription, ref, final,
            review, assignee], Some rnd, Some tm, Some depth, Some old_card, Some review_card) \<Rightarrow>
          Some \<lparr>le_event_id = event, le_graph = graph, le_verdict = verdict, le_summary = summary,
            le_event_type = kind, le_task = task, le_blocker_class = blocker, le_origin = origin,
            le_return_to = return_to, le_subscription = subscription, le_policy_ref = ref, le_round_no = rnd,
            le_occurred_at = tm, le_source_final = final, le_review = review, le_assignee = assignee,
            le_chain_depth = depth, le_old_card = old_card, le_review_card = review_card\<rparr>
      | _ \<Rightarrow> None)"

datatype loop_event_arg = Event_Given loop_event | Event_Dict "json dict" | Event_Other

definition coerce_loop_event :: "loop_event_arg \<Rightarrow> loop_event option" where
  "coerce_loop_event a =
     (case a of
        Event_Given e \<Rightarrow> Some e
      | Event_Dict d \<Rightarrow> event_of_dict ''malformed_event'' ''unknown'' d
      | Event_Other \<Rightarrow> Some ((mk_loop_event ''malformed_event'' ''unknown'')\<lparr>le_verdict := ''UNKNOWN''\<rparr>))"

definition loop_origin_ok :: "loop_event \<Rightarrow> loop_policy \<Rightarrow> bool" where
  "loop_origin_ok e p \<longleftrightarrow>
     (if \<not> sv_require_origin_match p then True
      else if sv_expected_origin p \<noteq> [] \<and> le_origin e \<noteq> sv_expected_origin p then False
      else if sv_expected_return_to p \<noteq> [] \<and> le_return_to e \<noteq> sv_expected_return_to p then False
      else True)"

subsection \<open>Receipts\<close>

text \<open>The receipt of a promotion: of a proposal, or of an applied graph.\<close>

datatype note_receipt = Proposal_Receipt promotion_receipt | Applied_Receipt apply_receipt

definition safe_note_receipt :: "(string \<Rightarrow> string) \<Rightarrow> note_receipt \<Rightarrow> note_receipt" where
  "safe_note_receipt h r = (case r of
     Proposal_Receipt x \<Rightarrow> Proposal_Receipt (safe_receipt h x)
   | Applied_Receipt x \<Rightarrow> Applied_Receipt (safe_apply_receipt h x))"

text \<open>The compact record of an attached promotion in the payload of a receipt.\<close>

record promotion_note =
  no_action :: string
  no_reason :: string
  no_transition :: string
  no_roadmap :: string
  no_template :: string
  no_key :: string
  no_applied :: bool
  no_duplicate :: bool
  no_task_ids :: "string list"
  no_receipt :: "note_receipt option"
  no_comment :: string

record loop_payload =
  ly_action :: string
  ly_reason :: string
  ly_key :: string
  ly_verdict :: string
  ly_blocker :: string
  ly_roadmap :: "promotion_note option"

record loop_receipt =
  lr_event_id :: string
  lr_task :: string
  lr_graph :: string
  lr_final :: string
  lr_blocker :: string
  lr_round_no :: int
  lr_same_blocker :: int
  lr_final_vn :: int
  lr_decision :: string
  lr_key :: string
  lr_policy_ref :: string
  lr_origin_ref :: string
  lr_return_to_ref :: string
  lr_subscription :: string
  lr_reason :: string
  lr_created_at :: real
  lr_payload :: loop_payload
  lr_mode :: string

definition safe_note :: "(string \<Rightarrow> string) \<Rightarrow> promotion_note \<Rightarrow> promotion_note" where
  "safe_note h n =
     \<lparr>no_action = safe_string h ''action'' (no_action n), no_reason = safe_string h ''reason'' (no_reason n),
      no_transition = safe_string h ''transition_id'' (no_transition n),
      no_roadmap = safe_string h ''roadmap_id'' (no_roadmap n),
      no_template = safe_string h ''template_id'' (no_template n),
      no_key = safe_string h ''idempotency_key'' (no_key n), no_applied = no_applied n,
      no_duplicate = no_duplicate n, no_task_ids = map (safe_string h ''created_task_ids'') (no_task_ids n),
      no_receipt = map_option (safe_note_receipt h) (no_receipt n),
      no_comment = safe_string h ''source_comment'' (no_comment n)\<rparr>"

definition safe_loop_payload :: "(string \<Rightarrow> string) \<Rightarrow> loop_payload \<Rightarrow> loop_payload" where
  "safe_loop_payload h y =
     \<lparr>ly_action = safe_string h ''action'' (ly_action y), ly_reason = safe_string h ''reason'' (ly_reason y),
      ly_key = safe_string h ''idempotency_key'' (ly_key y),
      ly_verdict = safe_string h ''verdict'' (ly_verdict y),
      ly_blocker = safe_string h ''blocker_class'' (ly_blocker y),
      ly_roadmap = map_option (safe_note h) (ly_roadmap y)\<rparr>"

definition safe_loop_receipt :: "(string \<Rightarrow> string) \<Rightarrow> loop_receipt \<Rightarrow> loop_receipt" where
  "safe_loop_receipt h r =
     \<lparr>lr_event_id = safe_string h ''event_id'' (lr_event_id r),
      lr_task = safe_string h ''source_task_id'' (lr_task r),
      lr_graph = safe_string h ''source_graph_id'' (lr_graph r),
      lr_final = safe_string h ''source_final_id'' (lr_final r),
      lr_blocker = safe_string h ''blocker_class'' (lr_blocker r), lr_round_no = lr_round_no r,
      lr_same_blocker = lr_same_blocker r, lr_final_vn = lr_final_vn r,
      lr_decision = safe_string h ''decision'' (lr_decision r),
      lr_key = safe_string h ''idempotency_key'' (lr_key r),
      lr_policy_ref = safe_string h ''policy_resolution_ref'' (lr_policy_ref r),
      lr_origin_ref = safe_string h ''origin_ref'' (lr_origin_ref r),
      lr_return_to_ref = safe_string h ''return_to_ref'' (lr_return_to_ref r),
      lr_subscription = safe_string h ''subscription_status'' (lr_subscription r),
      lr_reason = safe_string h ''reason'' (lr_reason r), lr_created_at = lr_created_at r,
      lr_payload = safe_loop_payload h (lr_payload r), lr_mode = safe_string h ''mode'' (lr_mode r)\<rparr>"

subsection \<open>The ledger\<close>

type_synonym loop_ledger = "loop_receipt list"

definition loop_has_event :: "(string \<Rightarrow> string) \<Rightarrow> string \<Rightarrow> loop_ledger \<Rightarrow> bool" where
  "loop_has_event h event l \<longleftrightarrow> list_ex (\<lambda>r. lr_event_id r = safe_ref h event) l"

definition loop_decision_for :: "(string \<Rightarrow> string) \<Rightarrow> string \<Rightarrow> loop_ledger \<Rightarrow> loop_payload option" where
  "loop_decision_for h event l =
     map_option lr_payload (find (\<lambda>r. lr_event_id r = safe_ref h event) (rev l))"

definition loop_has_key :: "(string \<Rightarrow> string) \<Rightarrow> string \<Rightarrow> loop_ledger \<Rightarrow> bool" where
  "loop_has_key h key l \<longleftrightarrow> list_ex (\<lambda>r. lr_key r = safe_ref h key) l"

definition ACTED :: "string list" where
  "ACTED = [''propose'', ''apply'', ''supersede'']"

definition acted_on :: "(string \<Rightarrow> string) \<Rightarrow> string \<Rightarrow> string \<Rightarrow> loop_ledger \<Rightarrow> loop_ledger" where
  "acted_on h graph blocker l =
     filter (\<lambda>r. lr_graph r = safe_ref h graph \<and> lr_blocker r = short_text 240 blocker \<and> lr_decision r \<in> set ACTED) l"

definition count_blocker :: "(string \<Rightarrow> string) \<Rightarrow> string \<Rightarrow> string \<Rightarrow> loop_ledger \<Rightarrow> nat" where
  "count_blocker h graph blocker l = length (acted_on h graph blocker l)"

text \<open>The maximum of a list, or a default for the empty list.\<close>

definition max_or :: "'a :: linorder \<Rightarrow> 'a list \<Rightarrow> 'a" where
  "max_or dflt xs = (case xs of [] \<Rightarrow> dflt | x # r \<Rightarrow> fold max r x)"

definition graph_receipts :: "(string \<Rightarrow> string) \<Rightarrow> string \<Rightarrow> loop_ledger \<Rightarrow> loop_ledger" where
  "graph_receipts h graph l = filter (\<lambda>r. lr_graph r = safe_ref h graph) l"

definition max_round_for_graph :: "(string \<Rightarrow> string) \<Rightarrow> string \<Rightarrow> loop_ledger \<Rightarrow> int" where
  "max_round_for_graph h graph l = max_or 0 (map lr_round_no (graph_receipts h graph l))"

definition last_action_time :: "(string \<Rightarrow> string) \<Rightarrow> string \<Rightarrow> string \<Rightarrow> loop_ledger \<Rightarrow> real option" where
  "last_action_time h graph blocker l =
     (case map lr_created_at (acted_on h graph blocker l) of [] \<Rightarrow> None | t # ts \<Rightarrow> Some (fold max ts t))"

definition current_final_vn :: "(string \<Rightarrow> string) \<Rightarrow> string \<Rightarrow> loop_ledger \<Rightarrow> int" where
  "current_final_vn h graph l =
     max_or 1 (map (\<lambda>r. if lr_final_vn r = 0 then 1 else lr_final_vn r) (graph_receipts h graph l))"

subsection \<open>Decisions\<close>

text \<open>What the graph creator reported (\<open>_safe_creator_result\<close>).\<close>

record creator_report =
  cp_success :: bool
  cp_dry_run :: bool
  cp_request_only :: bool
  cp_error :: string
  cp_candidate_count :: nat
  cp_attempts :: nat

definition safe_creator_report :: "(string \<Rightarrow> string) \<Rightarrow> creator_report \<Rightarrow> creator_report" where
  "safe_creator_report h c = c\<lparr>cp_error := safe_string h ''error'' (cp_error c)\<rparr>"

text \<open>The summary of a promotion (\<open>_safe_next_slice_result\<close>).\<close>

record next_slice_note =
  nn_action :: string
  nn_reason :: string
  nn_verdict :: string
  nn_transition :: string
  nn_roadmap :: string
  nn_template :: string
  nn_chain_depth :: int
  nn_key :: string
  nn_success :: bool
  nn_request_only :: bool
  nn_dry_run :: bool
  nn_applied :: bool
  nn_apply_enabled :: bool
  nn_duplicate :: bool
  nn_apply_reason :: string
  nn_candidates :: "json dict list"
  nn_task_ids :: "string list"
  nn_tasks :: "created_record list"
  nn_receipt :: "note_receipt option"
  nn_attempts :: nat

definition safe_next_slice :: "(string \<Rightarrow> string) \<Rightarrow> next_slice_note \<Rightarrow> next_slice_note" where
  "safe_next_slice h n = n
     \<lparr>nn_action := safe_string h ''action'' (nn_action n), nn_reason := safe_string h ''reason'' (nn_reason n),
      nn_verdict := safe_string h ''verdict'' (nn_verdict n),
      nn_transition := safe_string h ''transition_id'' (nn_transition n),
      nn_roadmap := safe_string h ''roadmap_id'' (nn_roadmap n),
      nn_template := safe_string h ''template_id'' (nn_template n),
      nn_key := safe_string h ''idempotency_key'' (nn_key n),
      nn_apply_reason := safe_string h ''apply_reason'' (nn_apply_reason n),
      nn_candidates := map (safe_event_payload h) (nn_candidates n),
      nn_task_ids := map (safe_string h ''created_task_ids'') (nn_task_ids n),
      nn_tasks := map (safe_created h) (nn_tasks n),
      nn_receipt := map_option (safe_note_receipt h) (nn_receipt n)\<rparr>"

record loop_meta =
  lm_prior :: "loop_payload option"
  lm_ledger_round :: "int option"
  lm_effective_round :: "int option"
  lm_receipt_round :: "int option"
  lm_round_derived :: "int option"
  lm_attempts :: nat
  lm_final_vn :: "int option"
  lm_next_eligible :: "real option"
  lm_creator :: "creator_report option"
  lm_roadmap :: "next_slice_note option"
  lm_applied :: bool
  lm_dry_run :: bool
  lm_noop_reason :: string
  lm_key :: string

definition no_meta :: loop_meta where
  "no_meta = \<lparr>lm_prior = None, lm_ledger_round = None, lm_effective_round = None, lm_receipt_round = None,
     lm_round_derived = None, lm_attempts = 0, lm_final_vn = None, lm_next_eligible = None, lm_creator = None,
     lm_roadmap = None, lm_applied = False, lm_dry_run = True, lm_noop_reason = [], lm_key = []\<rparr>"

record loop_decision =
  ld_action :: string
  ld_reason :: string
  ld_event_id :: string
  ld_graph :: string
  ld_key :: string
  ld_verdict :: string
  ld_blocker :: string
  ld_candidates :: "json dict list"
  ld_candidate :: "json dict option"
  ld_meta :: loop_meta
  ld_receipt :: loop_receipt

text \<open>\<open>safe_event_payload\<close> on metadata: the prior decision, the error of the graph creator,
  the attached promotion and two texts.\<close>

definition safe_meta :: "(string \<Rightarrow> string) \<Rightarrow> loop_meta \<Rightarrow> loop_meta" where
  "safe_meta h m = m\<lparr>lm_prior := map_option (safe_loop_payload h) (lm_prior m),
     lm_creator := map_option (safe_creator_report h) (lm_creator m),
     lm_roadmap := map_option (safe_next_slice h) (lm_roadmap m),
     lm_noop_reason := safe_string h ''noop_reason'' (lm_noop_reason m),
     lm_key := safe_string h ''idempotency_key'' (lm_key m)\<rparr>"

definition or_one :: "int option \<Rightarrow> int" where
  "or_one v = (case v of None \<Rightarrow> 1 | Some i \<Rightarrow> if i = 0 then 1 else i)"

definition mk_loop_receipt ::
    "(string \<Rightarrow> string) \<Rightarrow> loop_event \<Rightarrow> string \<Rightarrow> string \<Rightarrow> loop_policy \<Rightarrow> real \<Rightarrow> string \<Rightarrow> string \<Rightarrow> string \<Rightarrow>
       loop_meta \<Rightarrow> loop_receipt" where
  "mk_loop_receipt h e action reason p now key verdict blocker m = safe_loop_receipt h
     \<lparr>lr_event_id = str_or (safe_ref h (le_event_id e)) ''missing_event_id'',
      lr_task = safe_ref h (le_task e),
      lr_graph = str_or (safe_ref h (le_graph e)) ''unknown_graph'',
      lr_final = safe_ref h (le_source_final e), lr_blocker = blocker,
      lr_round_no = (case lm_receipt_round m of None \<Rightarrow> le_round_no e | Some n \<Rightarrow> n), lr_same_blocker = 0,
      lr_final_vn = or_one (lm_final_vn m), lr_decision = action, lr_key = key,
      lr_policy_ref = safe_ref h (le_policy_ref e), lr_origin_ref = safe_ref h (le_origin e),
      lr_return_to_ref = safe_ref h (le_return_to e),
      lr_subscription = normal_subscription (le_subscription e), lr_reason = reason, lr_created_at = now,
      lr_payload = \<lparr>ly_action = action, ly_reason = reason, ly_key = key, ly_verdict = verdict,
        ly_blocker = blocker, ly_roadmap = None\<rparr>,
      lr_mode = sv_active_mode p\<rparr>"

text \<open>
  \<open>_decision\<close>, without its candidates: the key defaults to the action on the event, and the
  metadata says whether the adapter was called.
\<close>

definition mk_decision ::
    "(string \<Rightarrow> string) \<Rightarrow> loop_event \<Rightarrow> string \<Rightarrow> string \<Rightarrow> loop_policy \<Rightarrow> real \<Rightarrow> string \<Rightarrow> string \<Rightarrow> string \<Rightarrow>
       loop_meta \<Rightarrow> loop_decision" where
  "mk_decision h e action reason p now key0 verdict blocker0 m =
     (let event = str_or (safe_ref h (le_event_id e)) ''missing_event_id'';
          graph = str_or (safe_ref h (le_graph e)) ''unknown_graph''; blocker = short_text 240 blocker0;
          key = safe_ref h (str_or key0 (''loop:'' @ action @ '':'' @ graph @ '':'' @ event));
          applied = (action \<in> {''apply'', ''supersede''} \<and> 0 < lm_attempts m);
          receipt_round = (case lm_receipt_round m of None \<Rightarrow> le_round_no e | Some n \<Rightarrow> n)
      in \<lparr>ld_action = action, ld_reason = reason, ld_event_id = event, ld_graph = graph, ld_key = key,
          ld_verdict = verdict, ld_blocker = blocker, ld_candidates = [], ld_candidate = None,
          ld_meta = safe_meta h (m\<lparr>lm_applied := applied, lm_dry_run := \<not> applied,
            lm_noop_reason := (if action \<in> {''noop'', ''escalate''} then reason else []), lm_key := key,
            lm_round_derived := Some (case lm_round_derived m of None \<Rightarrow> receipt_round | Some n \<Rightarrow> n)\<rparr>),
          ld_receipt = mk_loop_receipt h e action reason p now key verdict blocker m\<rparr>)"

subsection \<open>The promotion attached to a GO\<close>

definition plan_candidates :: "(string \<Rightarrow> string) \<Rightarrow> promotion_result \<Rightarrow> json dict list" where
  "plan_candidates h r = (case rs_plan r of None \<Rightarrow> [] | Some plan \<Rightarrow> map (intent_dict h) (np_candidates plan))"

definition note_of_proposal :: "(string \<Rightarrow> string) \<Rightarrow> promotion_result \<Rightarrow> next_slice_note" where
  "note_of_proposal h r =
     \<lparr>nn_action = rs_action r, nn_reason = rs_reason r, nn_verdict = rs_verdict r,
      nn_transition = rs_transition_id r, nn_roadmap = rs_roadmap_id r, nn_template = [],
      nn_chain_depth = rs_chain_depth r, nn_key = rs_key r, nn_success = True, nn_request_only = True,
      nn_dry_run = True, nn_applied = False, nn_apply_enabled = False, nn_duplicate = False,
      nn_apply_reason = [], nn_candidates = plan_candidates h r, nn_task_ids = [], nn_tasks = [],
      nn_receipt = map_option Proposal_Receipt (rs_receipt r), nn_attempts = 0\<rparr>"

text \<open>
  The result dictionaries of \<open>apply_roadmap_promotion\<close>. A failure names the transition it looked up
  in the registry; the number of mutations of an applied graph, one per task, counts as its attempts.
\<close>

definition note_of_outcome :: "(string \<Rightarrow> string) \<Rightarrow> registry option \<Rightarrow> apply_outcome \<Rightarrow> next_slice_note" where
  "note_of_outcome h reg out =
     (case out of
        Not_Applied r enabled reason \<Rightarrow>
          (note_of_proposal h r)\<lparr>nn_apply_enabled := enabled, nn_apply_reason := reason\<rparr>
      | Apply_Failed r key reason ids \<Rightarrow>
          (let t = Option.bind reg (\<lambda>rg. dict_get (rg_transitions rg) (rs_transition_id r)) in
           (note_of_proposal h r)
             \<lparr>nn_action := ''apply'', nn_reason := reason, nn_verdict := [],
              nn_transition := (case t of None \<Rightarrow> [] | Some x \<Rightarrow> tr_id x),
              nn_roadmap := (case t of None \<Rightarrow> [] | Some x \<Rightarrow> tr_roadmap_id x), nn_chain_depth := 0,
              nn_key := key, nn_success := False, nn_request_only := False, nn_dry_run := False,
              nn_apply_enabled := True, nn_apply_reason := reason, nn_receipt := None\<rparr>)
      | Apply_Duplicate r key entry \<Rightarrow>
          (note_of_proposal h r)
            \<lparr>nn_action := ''apply'', nn_reason := ''duplicate_graph'', nn_verdict := [], nn_chain_depth := 0,
             nn_key := key, nn_request_only := False, nn_apply_enabled := True, nn_duplicate := True,
             nn_task_ids := al_created_task_ids entry, nn_tasks := al_tasks entry,
             nn_receipt := Some (Applied_Receipt (al_receipt entry))\<rparr>
      | Applied r key entry \<Rightarrow>
          (note_of_proposal h r)
            \<lparr>nn_action := ''apply'', nn_reason := ''roadmap_graph_applied'', nn_verdict := ''GO'',
             nn_transition := ar_transition_id (al_receipt entry), nn_roadmap := ar_roadmap_id (al_receipt entry),
             nn_template := ar_template_id (al_receipt entry), nn_chain_depth := ar_chain_depth (al_receipt entry),
             nn_key := key, nn_request_only := False, nn_dry_run := False, nn_applied := True,
             nn_apply_enabled := True, nn_task_ids := al_created_task_ids entry, nn_tasks := al_tasks entry,
             nn_receipt := Some (Applied_Receipt (al_receipt entry)), nn_attempts := length (al_tasks entry)\<rparr>)"

definition roadmap_source_comment :: "next_slice_note \<Rightarrow> string" where
  "roadmap_source_comment n =
     (let ids = join_with '','' (nn_task_ids n); tid = short_text 240 (nn_transition n); key = short_text 240 (nn_key n) in
      if nn_applied n then short_text 240 (''roadmap-autopromote applied transition='' @ tid @ '' ids='' @ ids @
        '' idempotency_key='' @ key)
      else if nn_duplicate n then short_text 240 (''roadmap-autopromote duplicate transition='' @ tid @ '' ids='' @ ids @
        '' idempotency_key='' @ key)
      else short_text 240 (''roadmap-autopromote no-create transition='' @ tid @ '' reason='' @
        short_text 240 (nn_reason n) @ '' idempotency_key='' @ key))"

definition with_roadmap_receipt :: "(string \<Rightarrow> string) \<Rightarrow> loop_receipt \<Rightarrow> next_slice_note \<Rightarrow> loop_receipt" where
  "with_roadmap_receipt h r n = safe_loop_receipt h
     (r\<lparr>lr_payload := (lr_payload r)\<lparr>ly_roadmap := Some (safe_note h
        \<lparr>no_action = nn_action n, no_reason = nn_reason n, no_transition = nn_transition n,
         no_roadmap = nn_roadmap n, no_template = nn_template n, no_key = nn_key n, no_applied = nn_applied n,
         no_duplicate = nn_duplicate n, no_task_ids = nn_task_ids n,
         no_receipt = nn_receipt n, no_comment = roadmap_source_comment n\<rparr>)\<rparr>\<rparr>)"

record 'w loop_state =
  ls_receipts :: loop_ledger
  ls_roadmap :: "'w apply_state"

type_synonym 'w board_adapter = "'w graph_adapter \<times> (apply_receipt \<Rightarrow> 'w \<Rightarrow> 'w) option"

datatype loop_error = Remediation_Raises py_error | Promotion_Raises string

definition loop_promotion_event :: "loop_event \<Rightarrow> real \<Rightarrow> promotion_event" where
  "loop_promotion_event e now =
     \<lparr>ev_summary = le_summary e, ev_event_id = le_event_id e,
      ev_source_final_ref = str_or (le_source_final e) (str_or (le_task e) (le_graph e)),
      ev_source_assignee = le_assignee e, ev_origin = le_origin e, ev_return_to = le_return_to e,
      ev_subscription_status = le_subscription e, ev_policy_resolution_ref = le_policy_ref e,
      ev_chain_depth = le_chain_depth e, ev_occurred_at = now\<rparr>"

definition with_note :: "(string \<Rightarrow> string) \<Rightarrow> loop_decision \<Rightarrow> next_slice_note \<Rightarrow> loop_decision" where
  "with_note h d n0 =
     (let n = safe_next_slice h n0 in
      d\<lparr>ld_candidates := (if nn_action n0 \<in> {''propose'', ''apply''} then map (safe_event_payload h) (nn_candidates n0) else []),
        ld_meta := safe_meta h ((ld_meta d)\<lparr>lm_roadmap := Some n\<rparr>),
        ld_receipt := with_roadmap_receipt h (ld_receipt d) n\<rparr>)"

definition attach_roadmap_autopromote ::
    "(string \<Rightarrow> string) \<Rightarrow> 'w board_adapter option \<Rightarrow> registry option \<Rightarrow> loop_decision \<Rightarrow> loop_event \<Rightarrow> loop_policy \<Rightarrow>
       real \<Rightarrow> 'w apply_state \<Rightarrow> loop_error + loop_decision \<times> 'w apply_state" where
  "attach_roadmap_autopromote h adapter reg d e p now s =
     (let rp = loop_roadmap_policy p; pe = loop_promotion_event e now in
      if \<not> sv_roadmap_auto_continue p then Inr (d, s)
      else if pp_apply_enabled rp \<and> adapter \<noteq> None then
        (case apply_roadmap_promotion h (map_option fst adapter) (Option.bind adapter snd) (Promotion_Given rp) reg pe s of
           Inl err \<Rightarrow> Inl (Promotion_Raises err)
         | Inr (out, s') \<Rightarrow> Inr (with_note h d (note_of_outcome h reg out), s'))
      else
        (case propose_next_slice_graph h (Promotion_Given rp) reg pe (as_ledger s) of
           Inl err \<Rightarrow> Inl (Promotion_Raises err)
         | Inr (r, l) \<Rightarrow> Inr (with_note h d (note_of_proposal h r), s\<lparr>as_ledger := l\<rparr>)))"

subsection \<open>The gates of a BLOCK\<close>

type_synonym gate_stop = "string \<times> string \<times> loop_meta"

definition block_gate ::
    "(string \<Rightarrow> string) \<Rightarrow> loop_policy \<Rightarrow> loop_event \<Rightarrow> real \<Rightarrow> string \<Rightarrow> loop_ledger \<Rightarrow> gate_stop option" where
  "block_gate h p e now blocker l =
     (let ledger_round = max_round_for_graph h (le_graph e) l; effective = max (le_round_no e) ledger_round in
      if blocker = [] then Some (''escalate'', ''unknown_blocker'', no_meta)
      else if blocker \<notin> set (sv_allowlisted_blockers p)
        then Some (''escalate'', ''blocker_not_allowlisted'', no_meta)
      else if sv_require_policy_resolution p \<and> le_policy_ref e = []
        then Some (''escalate'', ''policy_resolution_missing'', no_meta)
      else if sv_require_subscription p \<and> le_subscription e \<noteq> ''verified''
        then Some (''escalate'', ''subscription_unverified'', no_meta)
      else if sv_max_rounds p \<le> effective
        then Some (''escalate'', ''max_rounds'',
          no_meta\<lparr>lm_ledger_round := Some ledger_round, lm_effective_round := Some effective\<rparr>)
      else if sv_max_same_blocker p \<le> int (count_blocker h (le_graph e) blocker l)
        then Some (''escalate'', ''max_same_blocker'', no_meta)
      else case last_action_time h (le_graph e) blocker l of
          Some t0 \<Rightarrow>
            if now - t0 < of_int (sv_cooldown_seconds p)
            then Some (''noop'', ''cooldown'',
              no_meta\<lparr>lm_next_eligible := Some (t0 + of_int (sv_cooldown_seconds p))\<rparr>)
            else if sv_active_mode p = ''observe_only'' then Some (''noop'', ''observe_only'', no_meta)
            else if sv_active_mode p = ''apply'' \<and> \<not> apply_effectively_enabled p
              then Some (''escalate'', ''apply_disabled_by_policy'', no_meta)
            else None
        | None \<Rightarrow>
            if sv_active_mode p = ''observe_only'' then Some (''noop'', ''observe_only'', no_meta)
            else if sv_active_mode p = ''apply'' \<and> \<not> apply_effectively_enabled p
              then Some (''escalate'', ''apply_disabled_by_policy'', no_meta)
            else None)"

text \<open>The candidates as dictionaries, and the report on what the creator returned.\<close>

definition candidate_dict :: "(string \<Rightarrow> string) \<Rightarrow> graph_candidate \<Rightarrow> json dict" where
  "candidate_dict h c =
     (case c of
        Noop_Candidate key blocker reason \<Rightarrow>
          [(''action'', JStr ''noop''), (''reason'', JStr reason), (''idempotency_key'', JStr key),
           (''blocker'', JStr blocker), (''mutations'', JArr [])]
      | Intent_Candidate i \<Rightarrow> intent_dict h i)"

definition refused_report :: "string \<Rightarrow> creator_report" where
  "refused_report err = \<lparr>cp_success = False, cp_dry_run = True, cp_request_only = True, cp_error = err,
     cp_candidate_count = 0, cp_attempts = 0\<rparr>"

definition success_report :: "nat \<Rightarrow> nat \<Rightarrow> creator_report" where
  "success_report candidates attempts = \<lparr>cp_success = True, cp_dry_run = True, cp_request_only = True,
     cp_error = [], cp_candidate_count = candidates, cp_attempts = attempts\<rparr>"

fun creator_outcome :: "'w graph_result \<Rightarrow> graph_candidate list \<times> creator_report \<times> 'w" where
  "creator_outcome (Graph_Refused err w) = ([], refused_report err, w)"
| "creator_outcome (Graph_Proposed cs attempts w) = (cs, success_report (length cs) attempts, w)"

definition with_board :: "'w \<Rightarrow> 'w loop_state \<Rightarrow> 'w loop_state" where
  "with_board w s = s\<lparr>ls_roadmap := (ls_roadmap s)\<lparr>as_board := w\<rparr>\<rparr>"

text \<open>\<open>_record\<close>: the receipt of the decision goes last.\<close>

definition record_loop :: "loop_decision \<Rightarrow> 'w loop_state \<Rightarrow> loop_decision \<times> 'w loop_state" where
  "record_loop d s = (d, s\<lparr>ls_receipts := ls_receipts s @ [ld_receipt d]\<rparr>)"

text \<open>The summary of an event without one; the dash is its UTF-8 code.\<close>

definition default_block_summary :: "string \<Rightarrow> string" where
  "default_block_summary blocker = ''Verdict: BLOCK '' @ [CHR 0xE2, CHR 0x80, CHR 0x94] @ '' '' @ blocker"

definition remediate ::
    "(string \<Rightarrow> string) \<Rightarrow> 'w board_adapter option \<Rightarrow> loop_policy \<Rightarrow> loop_event \<Rightarrow> real \<Rightarrow> string \<Rightarrow> string \<Rightarrow>
       'w loop_state \<Rightarrow> loop_error + loop_decision \<times> 'w loop_state" where
  "remediate h adapter p e now verdict blocker s =
     (case propose_remediation_graph h (str_or (le_summary e) (default_block_summary blocker))
             (str_or (le_task e) (le_graph e)) (le_origin e) (le_return_to e) []
             (Policy_Given (loop_graph_policy p blocker)) (map_option fst adapter) (as_board (ls_roadmap s)) of
        Inl err \<Rightarrow> Inl (Remediation_Raises err)
      | Inr res \<Rightarrow>
          (let (cs, report, w) = creator_outcome res;
               ledger_round = max_round_for_graph h (le_graph e) (ls_receipts s);
               effective = max (le_round_no e) ledger_round;
               m = no_meta\<lparr>lm_creator := Some (safe_creator_report h report), lm_ledger_round := Some ledger_round,
                 lm_effective_round := Some effective, lm_receipt_round := Some (effective + 1),
                 lm_round_derived := Some (effective + 1), lm_attempts := cp_attempts report\<rparr>;
               d = mk_decision h e (if apply_effectively_enabled p then ''apply'' else ''propose'')
                 ''bounded_remediation'' p now [] verdict blocker m
           in Inr (record_loop (d\<lparr>ld_candidates := map (safe_event_payload h \<circ> candidate_dict h) cs\<rparr>)
                (with_board w s))))"

subsection \<open>Supersession\<close>

definition FANIN :: string where
  "FANIN = ''stale_final_fanin''"

definition old_final_id :: "loop_event \<Rightarrow> string" where
  "old_final_id e = str_or (le_source_final e) (get_str (le_old_card e) ''id'')"

definition review_card_id :: "loop_event \<Rightarrow> string" where
  "review_card_id e = str_or (le_review e) (get_str (le_review_card e) ''id'')"

definition supersession_provenance_ok :: "(string \<Rightarrow> string) \<Rightarrow> loop_event \<Rightarrow> bool" where
  "supersession_provenance_ok h e \<longleftrightarrow> safe_ref h (old_final_id e) \<noteq> [] \<and> safe_ref h (review_card_id e) \<noteq> []"

definition final_supersession_key :: "(string \<Rightarrow> string) \<Rightarrow> loop_event \<Rightarrow> string" where
  "final_supersession_key h e =
     safe_ref h (''loop:final-vN:'' @ str_or (safe_ref h (le_graph e)) ''unknown_graph'' @ '':'' @
       str_or (safe_ref h (old_final_id e)) ''old_final'' @ '':'' @
       str_or (safe_ref h (review_card_id e)) (safe_ref h (le_event_id e)))"

definition supersession_gate :: "(string \<Rightarrow> string) \<Rightarrow> loop_policy \<Rightarrow> loop_event \<Rightarrow> string option" where
  "supersession_gate h p e =
     (if FANIN \<notin> set (sv_allowlisted_blockers p) then Some ''blocker_not_allowlisted''
      else if \<not> loop_origin_ok e p then Some ''foreign_origin''
      else if sv_require_policy_resolution p \<and> le_policy_ref e = [] then Some ''policy_resolution_missing''
      else if sv_require_subscription p \<and> le_subscription e \<noteq> ''verified'' then Some ''subscription_unverified''
      else if \<not> supersession_provenance_ok h e then Some ''supersession_provenance_missing''
      else if sv_active_mode p = ''apply'' \<and> \<not> apply_effectively_enabled p then Some ''apply_disabled_by_policy''
      else None)"

definition old_card_of :: "loop_event \<Rightarrow> json dict" where
  "old_card_of e = (if le_old_card e \<noteq> [] then le_old_card e
     else [(''id'', JStr (le_source_final e)), (''status'', JStr ''blocked'')])"

definition review_card_of :: "loop_event \<Rightarrow> json dict" where
  "review_card_of e = (if le_review_card e \<noteq> [] then le_review_card e
     else [(''id'', JStr (le_review e)), (''body'', JStr (str_or (le_summary e) ''Verdict: GO''))])"

definition evaluate_supersession ::
    "(string \<Rightarrow> string) \<Rightarrow> 'w board_adapter option \<Rightarrow> loop_policy \<Rightarrow> loop_event \<Rightarrow> real \<Rightarrow> 'w loop_state \<Rightarrow>
       loop_decision \<times> 'w loop_state" where
  "evaluate_supersession h adapter p e now s =
     (case supersession_gate h p e of
        Some reason \<Rightarrow> record_loop (mk_decision h e ''escalate'' reason p now [] [] FANIN no_meta) s
      | None \<Rightarrow>
          (let key = final_supersession_key h e in
           if loop_has_key h key (ls_receipts s)
           then record_loop (mk_decision h e ''noop'' ''existing_supersession'' p now key [] FANIN no_meta) s
           else
             (case resolve_stale_final_candidate h (old_card_of e) (review_card_of e) (le_origin e) (le_return_to e)
                     (Policy_Given (loop_graph_policy p FANIN))
                     (if apply_effectively_enabled p then map_option fst adapter else None)
                     (as_board (ls_roadmap s)) of
                (Final_Refused err, w) \<Rightarrow>
                  record_loop (mk_decision h e ''escalate'' err p now [] [] FANIN no_meta) (with_board w s)
              | (Final_Proposed i attempts, w) \<Rightarrow>
                  (let m = no_meta\<lparr>lm_final_vn := Some (current_final_vn h (le_graph e) (ls_receipts s) + 1),
                         lm_creator := Some (safe_creator_report h (success_report 1 attempts)),
                         lm_round_derived := Some (max_round_for_graph h (le_graph e) (ls_receipts s)),
                         lm_attempts := attempts\<rparr>;
                       d = mk_decision h e ''supersede'' ''final_vn_proposal'' p now key ''GO'' FANIN m
                   in record_loop (d\<lparr>ld_candidate := Some (safe_event_payload h (intent_dict h i))\<rparr>)
                        (with_board w s)))))"

subsection \<open>One event\<close>

definition event_time :: "real \<Rightarrow> loop_event \<Rightarrow> real" where
  "event_time clock e = (if le_occurred_at e \<noteq> 0 then le_occurred_at e else clock)"

definition loop_verdict :: "loop_event \<Rightarrow> string" where
  "loop_verdict e = py_upper (str_or (le_verdict e)
     (str_or (pv_verdict (parse_verdict_summary (le_summary e) (str_or (le_task e) (le_graph e)))) ''UNKNOWN''))"

definition loop_blocker :: "loop_event \<Rightarrow> string" where
  "loop_blocker e = short_text 240 (str_or (le_blocker_class e)
     (case pv_blockers (parse_verdict_summary (le_summary e) (str_or (le_task e) (le_graph e))) of
        [] \<Rightarrow> [] | b # _ \<Rightarrow> b))"

definition is_supersession :: "loop_event \<Rightarrow> bool" where
  "is_supersession e \<longleftrightarrow> le_event_type e \<in> {''remediation_review_go'', ''stale_final_block''} \<or>
     le_old_card e \<noteq> [] \<and> le_review_card e \<noteq> []"

text \<open>The gates before the verdict is read.\<close>

definition entry_gate :: "loop_policy \<Rightarrow> bool \<Rightarrow> loop_event \<Rightarrow> (string \<times> string) option" where
  "entry_gate p malformed e =
     (if malformed then Some (''escalate'', ''malformed_policy'')
      else if sv_kill_switch p then Some (''escalate'', ''kill_switch'')
      else if sv_active_mode p = ''disabled'' then Some (''noop'', ''disabled'')
      else if \<not> loop_origin_ok e p then Some (''escalate'', ''foreign_origin'')
      else None)"

definition evaluate_verdict ::
    "(string \<Rightarrow> string) \<Rightarrow> 'w board_adapter option \<Rightarrow> registry option \<Rightarrow> loop_policy \<Rightarrow> loop_event \<Rightarrow> real \<Rightarrow>
       'w loop_state \<Rightarrow> loop_error + loop_decision \<times> 'w loop_state" where
  "evaluate_verdict h adapter reg p e now s =
     (let verdict = loop_verdict e; blocker = loop_blocker e in
      if verdict = ''GO'' then
        (case attach_roadmap_autopromote h adapter reg (mk_decision h e ''stabilize'' ''go_terminal'' p now [] verdict [] no_meta)
                e p now (ls_roadmap s) of
           Inl err \<Rightarrow> Inl err
         | Inr (d, rs) \<Rightarrow> Inr (record_loop d (s\<lparr>ls_roadmap := rs\<rparr>)))
      else if verdict = ''NEED_MORE'' then
        Inr (record_loop (mk_decision h e ''escalate'' ''needs_input'' p now [] verdict [] no_meta) s)
      else if verdict \<noteq> ''BLOCK'' then
        Inr (record_loop (mk_decision h e ''escalate'' ''unknown_verdict'' p now [] verdict [] no_meta) s)
      else case block_gate h p e now blocker (ls_receipts s) of
        Some (action, reason, m) \<Rightarrow> Inr (record_loop (mk_decision h e action reason p now [] verdict blocker m) s)
      | None \<Rightarrow> remediate h adapter p e now verdict blocker s)"

definition evaluate_loop_event ::
    "(string \<Rightarrow> string) \<Rightarrow> 'w board_adapter option \<Rightarrow> registry option \<Rightarrow> loop_policy_arg \<Rightarrow> real \<Rightarrow> loop_event \<Rightarrow>
       'w loop_state \<Rightarrow> loop_error + loop_decision \<times> 'w loop_state" where
  "evaluate_loop_event h adapter reg arg clock e s =
     (let (p, malformed) = coerce_loop_policy arg; now = event_time clock e;
          gated = (if apply_effectively_enabled p then adapter else None) in
      if loop_has_event h (le_event_id e) (ls_receipts s) then
        Inr (mk_decision h e ''noop'' ''duplicate_event'' p now [] [] []
               (no_meta\<lparr>lm_prior := loop_decision_for h (le_event_id e) (ls_receipts s)\<rparr>), s)
      else case entry_gate p malformed e of
        Some (action, reason) \<Rightarrow> Inr (record_loop (mk_decision h e action reason p now [] [] [] no_meta) s)
      | None \<Rightarrow>
          if is_supersession e then Inr (evaluate_supersession h gated p e now s)
          else evaluate_verdict h gated reg p e now s)"

subsection \<open>The report\<close>

record loop_report =
  lo_action :: string
  lo_verdict :: string
  lo_reason :: string
  lo_dry_run :: bool
  lo_applied :: bool
  lo_noop_reason :: string
  lo_key :: string
  lo_round_derived :: int
  lo_attempts :: nat
  lo_blocker :: string
  lo_graph :: string
  lo_event_id :: string
  lo_candidate_count :: nat
  lo_candidates :: "json dict list"
  lo_candidate :: "json dict option"
  lo_receipt :: loop_receipt

text \<open>
  \<open>build_loop_report\<close>. The code sanitises twice, in \<open>as_dict\<close> and at the end, under the same keys; so
  does the model.
\<close>

definition safe_decision_dict :: "(string \<Rightarrow> string) \<Rightarrow> loop_decision \<Rightarrow> loop_decision" where
  "safe_decision_dict h d = d
     \<lparr>ld_action := safe_string h ''action'' (ld_action d), ld_reason := safe_string h ''reason'' (ld_reason d),
      ld_event_id := safe_string h ''event_id'' (ld_event_id d),
      ld_graph := safe_string h ''source_graph_id'' (ld_graph d),
      ld_key := safe_string h ''idempotency_key'' (ld_key d),
      ld_verdict := safe_string h ''verdict'' (ld_verdict d),
      ld_blocker := safe_string h ''blocker_class'' (ld_blocker d),
      ld_candidates := map (safe_event_payload h) (ld_candidates d),
      ld_candidate := map_option (safe_event_payload h) (ld_candidate d),
      ld_meta := safe_meta h (ld_meta d), ld_receipt := safe_loop_receipt h (ld_receipt d)\<rparr>"

definition build_loop_report :: "(string \<Rightarrow> string) \<Rightarrow> loop_decision \<Rightarrow> loop_report" where
  "build_loop_report h d0 =
     (let d = safe_decision_dict h (safe_decision_dict h d0); m = ld_meta d in
      \<lparr>lo_action = ld_action d, lo_verdict = ld_verdict d, lo_reason = ld_reason d, lo_dry_run = lm_dry_run m,
       lo_applied = lm_applied m, lo_noop_reason = lm_noop_reason m, lo_key = ld_key d,
       lo_round_derived = (case lm_round_derived m of None \<Rightarrow> 0 | Some n \<Rightarrow> n), lo_attempts = lm_attempts m,
       lo_blocker = ld_blocker d, lo_graph = ld_graph d, lo_event_id = ld_event_id d,
       lo_candidate_count = (if ld_candidates d \<noteq> [] then length (ld_candidates d)
         else if ld_candidate d \<noteq> None then 1 else 0),
       lo_candidates = ld_candidates d, lo_candidate = ld_candidate d, lo_receipt = ld_receipt d\<rparr>)"

end
