(* ===== verification/Loop_Props.thy ===== *)
theory Loop_Props
  imports Loop_Supervisor Roadmap_Props
begin

text \<open>
  The loop supervisor: what one event can do to the receipts and to the board, the bounds along every
  sequence of events, and the events for which the bounds are lost.
\<close>

subsection \<open>The receipts of one event\<close>

lemma clean_actions [simp]:
  "clean_ref ''apply''" "clean_ref ''supersede''" "clean_ref ''stabilize''" "clean_ref ''escalate''"
  by (code_simp, code_simp, code_simp, code_simp)

lemma receipt_of_decision [simp]:
  "lr_event_id (ld_receipt (mk_decision h e action reason p now key v b m)) =
     safe_string h ''event_id'' (str_or (safe_ref h (le_event_id e)) ''missing_event_id'')"
  "lr_graph (ld_receipt (mk_decision h e action reason p now key v b m)) =
     safe_string h ''source_graph_id'' (str_or (safe_ref h (le_graph e)) ''unknown_graph'')"
  "lr_decision (ld_receipt (mk_decision h e action reason p now key v b m)) = safe_string h ''decision'' action"
  "lr_blocker (ld_receipt (mk_decision h e action reason p now key v b m)) =
     safe_string h ''blocker_class'' (short_text 240 b)"
  "lr_created_at (ld_receipt (mk_decision h e action reason p now key v b m)) = now"
  "lr_round_no (ld_receipt (mk_decision h e action reason p now key v b m)) =
     (case lm_receipt_round m of None \<Rightarrow> le_round_no e | Some n \<Rightarrow> n)"
  by (simp_all add: mk_decision_def mk_loop_receipt_def safe_loop_receipt_def Let_def)

lemma decision_fields [simp]:
  "ld_action (mk_decision h e action reason p now key v b m) = action"
  "ld_reason (mk_decision h e action reason p now key v b m) = reason"
  "lm_attempts (ld_meta (mk_decision h e action reason p now key v b m)) = lm_attempts m"
  "lm_prior (ld_meta (mk_decision h e action reason p now key v b m)) = map_option (safe_loop_payload h) (lm_prior m)"
  by (simp_all add: mk_decision_def safe_meta_def Let_def)

lemma receipt_with_note [simp]:
  "lr_event_id (ld_receipt (with_note h d n)) = safe_string h ''event_id'' (lr_event_id (ld_receipt d))"
  "lr_graph (ld_receipt (with_note h d n)) = safe_string h ''source_graph_id'' (lr_graph (ld_receipt d))"
  "lr_decision (ld_receipt (with_note h d n)) = safe_string h ''decision'' (lr_decision (ld_receipt d))"
  "lr_round_no (ld_receipt (with_note h d n)) = lr_round_no (ld_receipt d)"
  "ld_action (with_note h d n) = ld_action d"
  by (simp_all add: with_note_def with_roadmap_receipt_def safe_loop_receipt_def Let_def)

lemma ls_receipts_record [simp]:
  "fst (record_loop d s) = d" "ls_receipts (snd (record_loop d s)) = ls_receipts s @ [ld_receipt d]"
  "ls_roadmap (snd (record_loop d s)) = ls_roadmap s"
  by (simp_all add: record_loop_def)

lemma with_board_simps [simp]:
  "ls_receipts (with_board w s) = ls_receipts s" "as_board (ls_roadmap (with_board w s)) = w"
  by (simp_all add: with_board_def)

lemma record_loop_eq [simp]:
  "(record_loop x s = (d, s')) = (d = x \<and> s' = s\<lparr>ls_receipts := ls_receipts s @ [ld_receipt x]\<rparr>)"
  by (auto simp: record_loop_def)

text \<open>
  The identity a receipt carries: a clean event id, and the placeholder for a blank graph. A decision
  that acts on nothing.
\<close>

definition names_event :: "(string \<Rightarrow> string) \<Rightarrow> loop_event \<Rightarrow> loop_receipt \<Rightarrow> bool" where
  "names_event h e r \<longleftrightarrow>
     (clean_ref (safe_ref h (le_event_id e)) \<longrightarrow> lr_event_id r = safe_ref h (le_event_id e)) \<and>
     (safe_ref h (le_graph e) = [] \<longrightarrow> lr_graph r = ''unknown_graph'')"

lemma clean_unknown [simp]: "clean_ref ''unknown_graph''"
  by code_simp

lemma names_event_decision: "names_event h e (ld_receipt (mk_decision h e a reason p now key v b m))"
  by (auto simp: names_event_def str_or_def clean_nonempty)

lemma names_event_note: "names_event h e (ld_receipt d) \<Longrightarrow> names_event h e (ld_receipt (with_note h d n))"
  by (auto simp: names_event_def)

definition idle :: "(string \<Rightarrow> string) \<Rightarrow> loop_event \<Rightarrow> loop_decision \<Rightarrow> bool" where
  "idle h e d \<longleftrightarrow> ld_action d \<in> {''noop'', ''escalate'', ''stabilize''} \<and>
     lr_decision (ld_receipt d) = ld_action d \<and> names_event h e (ld_receipt d)"

lemma idle_decision: "a \<in> {''noop'', ''escalate'', ''stabilize''} \<Longrightarrow> idle h e (mk_decision h e a reason p now key v b m)"
  by (auto simp: idle_def names_event_decision)

lemma supersession_cases:
  assumes "evaluate_supersession h ad p e now s = (d, s')"
  shows "ls_receipts s' = ls_receipts s @ [ld_receipt d] \<and>
    (idle h e d \<or> (\<exists>m i. d = (mk_decision h e ''supersede'' ''final_vn_proposal'' p now (final_supersession_key h e)
       ''GO'' FANIN m)\<lparr>ld_candidate := Some i\<rparr> \<and> lm_receipt_round m = None))"
proof (cases "supersession_gate h p e")
  case (Some reason)
  with assms show ?thesis by (auto simp: evaluate_supersession_def intro: idle_decision)
next
  case None
  show ?thesis
  proof (cases "loop_has_key h (final_supersession_key h e) (ls_receipts s)")
    case True
    with assms None show ?thesis by (auto simp: evaluate_supersession_def Let_def intro: idle_decision)
  next
    case False
    obtain res w where "resolve_stale_final_candidate h (old_card_of e) (review_card_of e) (le_origin e) (le_return_to e)
        (Policy_Given (loop_graph_policy p FANIN)) (if apply_effectively_enabled p then map_option fst ad else None)
        (as_board (ls_roadmap s)) = (res, w)" by fastforce
    with assms None False show ?thesis
      by (cases res) (auto simp: evaluate_supersession_def Let_def no_meta_def intro: idle_decision)
  qed
qed

lemma attach_cases:
  assumes "attach_roadmap_autopromote h ad reg d0 e p now s = Inr (d, s')"
  shows "d = d0 \<or> (\<exists>n. d = with_note h d0 n)"
  using assms by (auto simp: attach_roadmap_autopromote_def Let_def split: if_splits sum.splits)

lemma verdict_cases:
  assumes "evaluate_verdict h ad reg p e now s = Inr (d, s')"
  shows "ls_receipts s' = ls_receipts s @ [ld_receipt d] \<and>
    (idle h e d \<or> block_gate h p e now (loop_blocker e) (ls_receipts s) = None \<and>
       (\<exists>m cs. d = (mk_decision h e (if apply_effectively_enabled p then ''apply'' else ''propose'') ''bounded_remediation''
          p now [] (loop_verdict e) (loop_blocker e) m)\<lparr>ld_candidates := cs\<rparr> \<and>
          lm_receipt_round m = Some (max (le_round_no e) (max_round_for_graph h (le_graph e) (ls_receipts s)) + 1)))"
proof (cases "loop_verdict e = ''GO''")
  case True
  from assms True obtain rs where at: "attach_roadmap_autopromote h ad reg (mk_decision h e ''stabilize'' ''go_terminal'' p now []
      (loop_verdict e) [] no_meta) e p now (ls_roadmap s) = Inr (d, rs)" "s' = s\<lparr>ls_roadmap := rs, ls_receipts := ls_receipts s @ [ld_receipt d]\<rparr>"
    by (auto simp: evaluate_verdict_def Let_def split: sum.splits)
  have "idle h e d" using attach_cases [OF at(1)] by (auto simp: idle_def names_event_decision names_event_note)
  with at(2) show ?thesis by simp
next
  case False
  show ?thesis
  proof (cases "loop_verdict e = ''BLOCK'' \<and> block_gate h p e now (loop_blocker e) (ls_receipts s) = None")
    case True
    with assms have run: "remediate h ad p e now (loop_verdict e) (loop_blocker e) s = Inr (d, s')"
      by (simp add: evaluate_verdict_def Let_def)
    then show ?thesis using True
      by (auto simp: remediate_def Let_def case_prod_beta split: sum.splits)
  next
    case False
    have act: "block_gate h p e now b l = Some (a, reason, m) \<Longrightarrow> a \<in> {''noop'', ''escalate''}" for b l a reason m
      by (auto simp: block_gate_def Let_def split: if_splits option.splits)
    from assms False \<open>loop_verdict e \<noteq> ''GO''\<close> show ?thesis
      by (auto simp: evaluate_verdict_def Let_def intro!: idle_decision dest!: act split: if_splits option.splits)
  qed
qed

text \<open>What became of one event: seen before, stopped or stabilised, superseding, or acted upon.\<close>

lemma loop_step:
  assumes step: "evaluate_loop_event h ad reg arg clock e s = Inr (d, s')"
    and p: "coerce_loop_policy arg = (p, malformed)"
  obtains
    (duplicate) "loop_has_event h (le_event_id e) (ls_receipts s)" "s' = s" "ld_action d = ''noop''"
      "ld_reason d = ''duplicate_event''"
      "lm_prior (ld_meta d) =
         map_option (safe_loop_payload h) (loop_decision_for h (le_event_id e) (ls_receipts s))"
  | (recorded) "\<not> loop_has_event h (le_event_id e) (ls_receipts s)"
      "ls_receipts s' = ls_receipts s @ [ld_receipt d]" "idle h e d"
  | (superseded) m i where "\<not> loop_has_event h (le_event_id e) (ls_receipts s)"
      "ls_receipts s' = ls_receipts s @ [ld_receipt d]"
      "d = (mk_decision h e ''supersede'' ''final_vn_proposal'' p (event_time clock e) (final_supersession_key h e)
         ''GO'' FANIN m)\<lparr>ld_candidate := Some i\<rparr>" "lm_receipt_round m = None"
  | (acted) m cs where "\<not> loop_has_event h (le_event_id e) (ls_receipts s)"
      "block_gate h p e (event_time clock e) (loop_blocker e) (ls_receipts s) = None"
      "ls_receipts s' = ls_receipts s @ [ld_receipt d]"
      "d = (mk_decision h e (if apply_effectively_enabled p then ''apply'' else ''propose'')
         ''bounded_remediation'' p (event_time clock e) [] (loop_verdict e) (loop_blocker e) m)\<lparr>ld_candidates := cs\<rparr>"
      "lm_receipt_round m = Some (max (le_round_no e) (max_round_for_graph h (le_graph e) (ls_receipts s)) + 1)"
proof (cases "loop_has_event h (le_event_id e) (ls_receipts s)")
  case True
  with step p show ?thesis
    by (intro duplicate) (auto simp: evaluate_loop_event_def Let_def no_meta_def)
next
  case False
  note fresh = this
  let ?ad = "if apply_effectively_enabled p then ad else None" and ?now = "event_time clock e"
  show ?thesis
  proof (cases "entry_gate p malformed e")
    case (Some g)
    have "fst g \<in> {''noop'', ''escalate''}" using Some by (auto simp: entry_gate_def split: if_splits)
    with Some step p fresh show ?thesis
      by (intro recorded) (auto simp: evaluate_loop_event_def Let_def case_prod_beta intro!: idle_decision)
  next
    case None
    show ?thesis
    proof (cases "is_supersession e")
      case True
      with step p fresh None have "evaluate_supersession h ?ad p e ?now s = (d, s')"
        by (simp add: evaluate_loop_event_def Let_def)
      from supersession_cases [OF this] fresh show ?thesis by (auto intro: recorded superseded)
    next
      case False
      with step p fresh None have "evaluate_verdict h ?ad reg p e ?now s = Inr (d, s')"
        by (simp add: evaluate_loop_event_def Let_def)
      from verdict_cases [OF this] fresh show ?thesis by (auto intro: recorded acted)
    qed
  qed
qed

subsection \<open>Bounds along every sequence of events\<close>

fun run_loop ::
    "(string \<Rightarrow> string) \<Rightarrow> 'w board_adapter option \<Rightarrow> loop_policy_arg \<Rightarrow> (real \<times> registry option \<times> loop_event) list \<Rightarrow>
       'w loop_state \<Rightarrow> loop_error + 'w loop_state" where
  "run_loop h ad arg [] s = Inr s"
| "run_loop h ad arg ((clock, reg, e) # es) s =
     (case evaluate_loop_event h ad reg arg clock e s of
        Inl err \<Rightarrow> Inl err
      | Inr (d, s') \<Rightarrow> run_loop h ad arg es s')"

text \<open>The remediation rounds of a graph, and the texts the sanitiser stores as they are.\<close>

definition rounds_of :: "(string \<Rightarrow> string) \<Rightarrow> string \<Rightarrow> loop_ledger \<Rightarrow> loop_ledger" where
  "rounds_of h graph l = filter (\<lambda>r. lr_graph r = safe_ref h graph \<and> lr_decision r \<in> {''propose'', ''apply''}) l"

definition storable :: "(string \<Rightarrow> string) \<Rightarrow> string \<Rightarrow> bool" where
  "storable h b \<longleftrightarrow> short_text 240 b = b \<and> safe_string h ''blocker_class'' b = b"

definition loop_ledger_bounded :: "(string \<Rightarrow> string) \<Rightarrow> loop_policy \<Rightarrow> loop_ledger \<Rightarrow> bool" where
  "loop_ledger_bounded h p l \<longleftrightarrow>
     (\<forall>g. sorted_wrt (\<lambda>a b. lr_round_no a < lr_round_no b) (rounds_of h g l) \<and>
        (\<forall>r \<in> set (rounds_of h g l). 1 \<le> lr_round_no r \<and> lr_round_no r \<le> sv_max_rounds p)) \<and>
     (\<forall>g b. short_text 240 b \<noteq> FANIN \<longrightarrow>
        int (length (acted_on h g b l)) \<le> sv_max_same_blocker p \<and>
        sorted_wrt (\<lambda>a b. of_int (sv_cooldown_seconds p) \<le> lr_created_at b - lr_created_at a) (acted_on h g b l))"

lemma rounds_snoc: "rounds_of h g (l @ [r]) = rounds_of h g l @
    (if lr_graph r = safe_ref h g \<and> lr_decision r \<in> {''propose'', ''apply''} then [r] else [])"
  by (simp add: rounds_of_def)

lemma acted_snoc: "acted_on h g b (l @ [r]) = acted_on h g b l @
    (if lr_graph r = safe_ref h g \<and> lr_blocker r = short_text 240 b \<and> lr_decision r \<in> set ACTED then [r] else [])"
  by (simp add: acted_on_def)

lemma max_or_ge: "x \<in> set xs \<Longrightarrow> x \<le> max_or d xs"
  by (auto simp: max_or_def split: list.splits dest: fold_max_ge)

lemma max_round_ge: "r \<in> set (rounds_of h g l) \<Longrightarrow> lr_round_no r \<le> max_round_for_graph h g l"
  unfolding max_round_for_graph_def rounds_of_def graph_receipts_def by (rule max_or_ge) auto

lemma last_action_ge:
  "r \<in> set (acted_on h g b l) \<Longrightarrow> \<exists>t. last_action_time h g b l = Some t \<and> lr_created_at r \<le> t"
proof -
  assume "r \<in> set (acted_on h g b l)"
  then have m: "lr_created_at r \<in> set (map lr_created_at (acted_on h g b l))" by simp
  then obtain x xs where xs: "map lr_created_at (acted_on h g b l) = x # xs" by (cases "map lr_created_at (acted_on h g b l)") auto
  with m fold_max_ge [of "lr_created_at r" x xs] show ?thesis by (simp add: last_action_time_def)
qed

lemma block_gate_None:
  assumes "block_gate h p e now b l = None"
  shows "b \<in> set (sv_allowlisted_blockers p)" "max (le_round_no e) (max_round_for_graph h (le_graph e) l) < sv_max_rounds p"
    "int (count_blocker h (le_graph e) b l) < sv_max_same_blocker p"
    "last_action_time h (le_graph e) b l = Some t \<Longrightarrow> of_int (sv_cooldown_seconds p) \<le> now - t"
    "sv_require_policy_resolution p \<longrightarrow> le_policy_ref e \<noteq> []"
    "sv_require_subscription p \<longrightarrow> le_subscription e = ''verified''"
    "sv_active_mode p \<noteq> ''observe_only''"
  using assms by (auto simp: block_gate_def Let_def split: if_splits option.splits)

lemma idle_not_acted: "idle h e d \<Longrightarrow> lr_decision (ld_receipt d) \<notin> set ACTED"
  by (auto simp: idle_def ACTED_def)

lemma loop_step_bounded:
  assumes step: "evaluate_loop_event h ad reg arg clock e s = Inr (d, s')"
    and p: "coerce_loop_policy arg = (p, False)" and allow: "\<forall>b \<in> set (sv_allowlisted_blockers p). storable h b"
    and e: "clean_ref (safe_ref h (le_graph e))" "0 \<le> le_round_no e"
    and ok: "loop_ledger_bounded h p (ls_receipts s)"
  shows "loop_ledger_bounded h p (ls_receipts s')"
  using step p
proof (cases rule: loop_step)
  case duplicate
  with ok show ?thesis by simp
next
  case recorded
  from idle_not_acted [OF recorded(3)] ok show ?thesis
    by (simp add: recorded(2) loop_ledger_bounded_def rounds_snoc acted_snoc ACTED_def)
next
  case (superseded m i)
  have "lr_blocker (ld_receipt d) = FANIN" "lr_decision (ld_receipt d) = ''supersede''"
    by (simp_all add: superseded(3) FANIN_def) code_simp
  with ok show ?thesis
    by (auto simp: superseded(2) loop_ledger_bounded_def rounds_snoc acted_snoc)
next
  case (acted m cs)
  let ?r = "ld_receipt d" and ?g = "safe_ref h (le_graph e)" and ?b = "loop_blocker e"
  note gate = block_gate_None [OF acted(2)]
  have st: "short_text 240 ?b = ?b" "safe_string h ''blocker_class'' ?b = ?b"
    using allow gate(1) by (auto simp: storable_def)
  have r: "lr_graph ?r = ?g" "lr_blocker ?r = ?b" "lr_created_at ?r = event_time clock e"
    "lr_round_no ?r = max (le_round_no e) (max_round_for_graph h (le_graph e) (ls_receipts s)) + 1"
    using e(1) acted(5) by (simp_all add: acted(4) st str_or_def clean_nonempty)
  show ?thesis unfolding loop_ledger_bounded_def
  proof (intro conjI allI impI)
    fix g
    have "lr_round_no x < lr_round_no ?r" if "x \<in> set (rounds_of h g (ls_receipts s))" "?g = safe_ref h g" for x
      using max_round_ge [of x h "le_graph e" "ls_receipts s"] that by (simp add: r rounds_of_def)
    with ok show "sorted_wrt (\<lambda>a b. lr_round_no a < lr_round_no b) (rounds_of h g (ls_receipts s'))"
      by (auto simp: acted(3) rounds_snoc loop_ledger_bounded_def sorted_wrt_append r(1))
    show "\<forall>r\<in>set (rounds_of h g (ls_receipts s')). 1 \<le> lr_round_no r \<and> lr_round_no r \<le> sv_max_rounds p"
      using ok gate(2) e(2) by (auto simp: acted(3) rounds_snoc loop_ledger_bounded_def r)
  next
    fix g b assume b: "short_text 240 b \<noteq> FANIN"
    have same: "acted_on h g b (ls_receipts s) = acted_on h (le_graph e) ?b (ls_receipts s)"
      if "?g = safe_ref h g" "?b = short_text 240 b" using that st by (simp add: acted_on_def)
    show "int (length (acted_on h g b (ls_receipts s'))) \<le> sv_max_same_blocker p"
      using ok b gate(3) same by (auto simp: acted(3) acted_snoc loop_ledger_bounded_def r count_blocker_def)
    have "of_int (sv_cooldown_seconds p) \<le> lr_created_at ?r - lr_created_at x"
      if "x \<in> set (acted_on h g b (ls_receipts s))" "?g = safe_ref h g" "?b = short_text 240 b" for x
      using gate(4) last_action_ge [of x h "le_graph e" ?b "ls_receipts s"] same that by (fastforce simp: r)
    with ok b show "sorted_wrt (\<lambda>a b. of_int (sv_cooldown_seconds p) \<le> lr_created_at b - lr_created_at a)
        (acted_on h g b (ls_receipts s'))"
      by (auto simp: acted(3) acted_snoc loop_ledger_bounded_def sorted_wrt_append r(1,2))
  qed
qed

subsection \<open>The supervisor raises nothing\<close>

lemma plan_remediation_returns: "\<exists>r. plan_remediation h summary src prior True = Inr r"
proof (cases "pv_blockers (parse_verdict_summary summary src) = []")
  case True
  then show ?thesis by (simp add: plan_remediation_def Let_def)
next
  case False
  then have bs: "pv_blockers (parse_verdict_summary summary src) = detect_blockers summary"
    by (auto simp: parse_verdict_summary_def Let_def split: option.splits if_splits)
  have "\<exists>p. proposal_for_blocker h b summary src (count_list prior b + 1) = Some p \<and> rp_blocker p = b"
    if "b \<in> set (detect_blockers summary)" for b using proposal_for_named [OF that] by blast
  from those_map_Some [of "detect_blockers summary" _ "\<lambda>b p. rp_blocker p = b", OF this] obtain ps where
    "those (map (\<lambda>b. proposal_for_blocker h b summary src (count_list prior b + 1)) (detect_blockers summary)) = Some ps"
    by blast
  with bs show ?thesis by (simp add: plan_remediation_def Let_def)
qed

lemma remediate_returns: "\<exists>r. remediate h ad p e now v b s = Inr r"
proof -
  obtain r where "plan_remediation h (str_or (le_summary e) (default_block_summary b)) (str_or (le_task e) (le_graph e)) [] True = Inr r"
    using plan_remediation_returns by blast
  then show ?thesis
    by (cases r) (simp_all add: remediate_def propose_remediation_graph_def Let_def case_prod_beta)
qed

definition registry_valid :: "registry option \<Rightarrow> bool" where
  "registry_valid reg \<longleftrightarrow> (\<forall>rg. reg = Some rg \<longrightarrow> (\<forall>t \<in> snd ` set (rg_transitions rg). validate_transition t = None))"

lemma create_tasks_returns:
  "\<forall>i \<in> set is. \<exists>prof. apply_task_profile (gi_kind i) t p = Inr prof \<Longrightarrow>
     fst (create_tasks a t p is ids made w) \<noteq> Creation_Raises err"
proof (induction "is" arbitrary: ids made w)
  case (Cons i "is")
  then obtain prof where prof: "apply_task_profile (gi_kind i) t p = Inr prof" by auto
  obtain r w' where r: "ga_create a (enrich_intent i prof) w = (r, w')" by fastforce
  from Cons.prems have "\<forall>i \<in> set is. \<exists>prof. apply_task_profile (gi_kind i) t p = Inr prof" by simp
  from Cons.IH [OF this] show ?case by (simp add: prof r Let_def)
qed simp

lemma apply_plan_returns:
  assumes "validate_transition t = None"
  shows "\<exists>x. apply_plan h a recorder p rg t e proposal key l' s = Inr x"
proof -
  from valid_transition_resolves [OF assms] obtain tmpl where tmpl: "transition_template t = Inr tmpl" by blast
  let ?is = "plan_steps t tmpl key (rs_chain_depth proposal) (ev_origin e) (ev_return_to e) (safe_source h e) [] (rt_steps tmpl)"
  have kinds: "map gi_kind ?is = rt_slice_template tmpl" by (simp add: plan_steps_map rt_slice_template_def)
  then have "\<forall>i \<in> set ?is. \<exists>prof. apply_task_profile (gi_kind i) t p = Inr prof"
    using profile_of_step [OF tmpl] by (metis in_set_conv_nth length_map nth_map nth_mem)
  note raises = create_tasks_returns [OF this]
  obtain c w where c: "create_tasks a t p ?is [] [] (as_board s) = (c, w)" by fastforce
  with raises [of a "[]" "[]" "as_board s"] have "\<forall>err. c \<noteq> Creation_Raises err" by simp
  with c show ?thesis
    by (cases c) (simp_all add: apply_plan_def build_plan_def tmpl Let_def)
qed

lemma attach_returns:
  assumes "registry_valid reg"
  shows "\<exists>x. attach_roadmap_autopromote h ad reg d e p now s = Inr x"
proof -
  obtain r l' where proposed: "propose_roadmap_promotion h (Promotion_Given (loop_roadmap_policy p)) reg
      (loop_promotion_event e now) (as_ledger s) = Inr (r, l')" using propose_returns by blast
  have "\<exists>x. apply_roadmap_promotion h a rc (Promotion_Given (loop_roadmap_policy p)) reg (loop_promotion_event e now) s = Inr x"
    for a and rc :: "(apply_receipt \<Rightarrow> 'a \<Rightarrow> 'a) option"
  proof -
    have "\<exists>out s'. apply_plan h b rc q rg t f pr key l s = Inr (out, s')"
      if "Option.bind reg (\<lambda>rg. map_option (Pair rg) (dict_get (rg_transitions rg) tid)) = Some (rg, t)"
      for rg tid t b q f pr key l
    proof -
      from that have "reg = Some rg" "dict_get (rg_transitions rg) tid = Some t"
        by (auto simp: bind_eq_Some_conv)
      then have "reg = Some rg" "(tid, t) \<in> set (rg_transitions rg)" by (simp_all add: dict_get_def map_of_SomeD)
      then have "validate_transition t = None" using assms by (force simp: registry_valid_def)
      from apply_plan_returns [OF this] show ?thesis by (metis surj_pair)
    qed
    with proposed show ?thesis
      by (auto simp: apply_roadmap_promotion_def Let_def split: option.splits)
  qed
  then obtain x where "apply_roadmap_promotion h (map_option fst ad) (Option.bind ad snd)
      (Promotion_Given (loop_roadmap_policy p)) reg (loop_promotion_event e now) s = Inr x" by blast
  moreover from proposed have "propose_next_slice_graph h (Promotion_Given (loop_roadmap_policy p)) reg
      (loop_promotion_event e now) (as_ledger s) = Inr (safe_result h r, l')"
    by (simp add: propose_next_slice_graph_def)
  ultimately show ?thesis
    by (simp add: attach_roadmap_autopromote_def Let_def case_prod_beta)
qed

lemma evaluate_returns:
  assumes "registry_valid reg"
  shows "\<exists>d s'. evaluate_loop_event h ad reg arg clock e s = Inr (d, s')"
proof -
  have v: "\<exists>d s'. evaluate_verdict h a reg p e now s = Inr (d, s')" for a p now
  proof -
    obtain x where "attach_roadmap_autopromote h a reg (mk_decision h e ''stabilize'' ''go_terminal'' p now []
        (loop_verdict e) [] no_meta) e p now (ls_roadmap s) = Inr x" using attach_returns [OF assms] by blast
    moreover obtain y where "remediate h a p e now (loop_verdict e) (loop_blocker e) s = Inr y" using remediate_returns by blast
    ultimately show ?thesis
      by (cases x; cases y) (auto simp: evaluate_verdict_def Let_def record_loop_def split: option.splits)
  qed
  obtain p malformed where p: "coerce_loop_policy arg = (p, malformed)" by fastforce
  obtain d s' where "evaluate_verdict h (if apply_effectively_enabled p then ad else None) reg p e (event_time clock e) s = Inr (d, s')"
    using v by blast
  moreover obtain d1 s1 where "evaluate_supersession h (if apply_effectively_enabled p then ad else None) p e (event_time clock e) s = (d1, s1)"
    by fastforce
  ultimately show ?thesis
    by (auto simp: evaluate_loop_event_def Let_def p record_loop_def split: option.splits)
qed

lemma run_loop_bounded:
  assumes p: "coerce_loop_policy arg = (p, False)" and allow: "\<forall>b \<in> set (sv_allowlisted_blockers p). storable h b"
    and es: "\<forall>(clock, reg, e) \<in> set es. registry_valid reg \<and> clean_ref (safe_ref h (le_graph e)) \<and> 0 \<le> le_round_no e"
    and ok: "loop_ledger_bounded h p (ls_receipts s)"
  shows "\<exists>s'. run_loop h ad arg es s = Inr s' \<and> loop_ledger_bounded h p (ls_receipts s')"
  using es ok
proof (induction es arbitrary: s)
  case (Cons x es)
  obtain clock reg e where x: "x = (clock, reg, e)" by (cases x)
  with Cons.prems have e: "registry_valid reg" "clean_ref (safe_ref h (le_graph e))" "0 \<le> le_round_no e" by auto
  from evaluate_returns [OF e(1)] obtain d s1 where step: "evaluate_loop_event h ad reg arg clock e s = Inr (d, s1)" by blast
  from loop_step_bounded [OF this p allow e(2,3) Cons.prems(2)] have "loop_ledger_bounded h p (ls_receipts s1)" .
  with Cons x step show ?case by simp
qed simp

lemma increasing_length:
  assumes "sorted_wrt (\<lambda>a b. f a < f b) rs" and "\<forall>r \<in> set rs. 1 \<le> f r \<and> f r \<le> (n :: int)"
  shows "length rs \<le> nat n"
proof -
  have "distinct (map f rs)" using assms(1) by (induction rs) auto
  then have "card (set (map f rs)) = length rs" by (simp only: distinct_card length_map)
  moreover have "card (set (map f rs)) \<le> card {1..n}" using assms(2) by (intro card_mono) auto
  ultimately show ?thesis by simp
qed

text \<open>
  C24: remediation loops are bounded, for a valid registry, events that name a graph the sanitiser stores
  unchanged and no negative round, and an allowlist whose blockers are stored unchanged. On any board and in any
  order of such events the supervisor raises nothing, and in the ledger it leaves every graph has at most the
  allowed number of remediation rounds, numbered upwards, and every blocker of a graph other than the
  supersession of stale finals, which has its own key, was acted upon at most the allowed number of times, with
  the cool-down between any two of them.
\<close>

theorem loop_bounded:
  assumes "coerce_loop_policy arg = (p, False)" and "\<forall>b \<in> set (sv_allowlisted_blockers p). storable h b"
    and "\<forall>(clock, reg, e) \<in> set es. registry_valid reg \<and> clean_ref (safe_ref h (le_graph e)) \<and> 0 \<le> le_round_no e"
  shows "\<exists>s. run_loop h ad arg es \<lparr>ls_receipts = [], ls_roadmap = rs\<rparr> = Inr s \<and>
    (\<forall>g. length (rounds_of h g (ls_receipts s)) \<le> nat (sv_max_rounds p) \<and>
       sorted_wrt (\<lambda>a b. lr_round_no a < lr_round_no b) (rounds_of h g (ls_receipts s))) \<and>
    (\<forall>g b. short_text 240 b \<noteq> FANIN \<longrightarrow>
       int (count_blocker h g b (ls_receipts s)) \<le> sv_max_same_blocker p \<and>
       sorted_wrt (\<lambda>a b. of_int (sv_cooldown_seconds p) \<le> lr_created_at b - lr_created_at a)
         (acted_on h g b (ls_receipts s)))"
proof -
  have "0 \<le> sv_max_same_blocker p"
    using assms(1) by (auto simp: coerce_loop_policy_def killed_policy_def default_loop_policy_def
        split: loop_policy_arg.splits if_splits)
  then have "loop_ledger_bounded h p (ls_receipts \<lparr>ls_receipts = [], ls_roadmap = rs\<rparr>)"
    by (simp add: loop_ledger_bounded_def rounds_of_def acted_on_def)
  from run_loop_bounded [OF assms this] obtain s where
    "run_loop h ad arg es \<lparr>ls_receipts = [], ls_roadmap = rs\<rparr> = Inr s" "loop_ledger_bounded h p (ls_receipts s)" by blast
  then show ?thesis by (auto simp: loop_ledger_bounded_def count_blocker_def intro!: increasing_length)
qed

subsection \<open>One decision per event\<close>

lemma step_keeps_events:
  assumes "evaluate_loop_event h ad reg arg clock e s = Inr (d, s')" and "loop_has_event h event (ls_receipts s)"
  shows "loop_has_event h event (ls_receipts s')"
proof -
  obtain p m where "coerce_loop_policy arg = (p, m)" by fastforce
  with assms(1) show ?thesis
    by (cases rule: loop_step) (use assms(2) in \<open>auto simp: loop_has_event_def\<close>)
qed

lemma run_keeps_events:
  "run_loop h ad arg es s = Inr s' \<Longrightarrow> loop_has_event h event (ls_receipts s) \<Longrightarrow> loop_has_event h event (ls_receipts s')"
proof (induction es arbitrary: s)
  case (Cons x es)
  then show ?case by (cases x) (auto split: sum.splits dest: step_keeps_events)
qed simp

lemma step_names_event:
  assumes step: "evaluate_loop_event h ad reg arg clock e s = Inr (d, s')"
  shows "s' = s \<and> loop_has_event h (le_event_id e) (ls_receipts s) \<or>
    ls_receipts s' = ls_receipts s @ [ld_receipt d] \<and> names_event h e (ld_receipt d)"
proof -
  obtain p m where p: "coerce_loop_policy arg = (p, m)" by fastforce
  from step p show ?thesis
    by (cases rule: loop_step) (simp_all add: idle_def names_event_decision)
qed

text \<open>
  an event is decided once. After the supervisor has seen an event whose id the sanitiser stores
  unchanged, and whatever it was asked since, the same id is a no-op under any policy, board and
  registry: no receipt, no promotion, no call of the board.
\<close>

theorem loop_event_once:
  assumes "evaluate_loop_event h ad reg arg clock e s = Inr (d, s1)" and "clean_ref (safe_ref h (le_event_id e))"
    and "run_loop h ad' arg' es s1 = Inr s2" and "le_event_id e' = le_event_id e"
  shows "\<exists>d'. evaluate_loop_event h ad'' reg' arg'' clock' e' s2 = Inr (d', s2) \<and>
    ld_action d' = ''noop'' \<and> ld_reason d' = ''duplicate_event'' \<and>
    lm_prior (ld_meta d') = map_option (safe_loop_payload h) (loop_decision_for h (le_event_id e) (ls_receipts s2))"
proof -
  have "loop_has_event h (le_event_id e) (ls_receipts s1)"
    using step_names_event [OF assms(1)] assms(2) by (auto simp: names_event_def loop_has_event_def)
  then have "loop_has_event h (le_event_id e') (ls_receipts s2)"
    using run_keeps_events [OF assms(3)] assms(4) by simp
  then show ?thesis using assms(4) by (simp add: evaluate_loop_event_def case_prod_beta no_meta_def)
qed

subsection \<open>Events without a graph\<close>

text \<open>
  the limits are lost for events that name no graph. Their receipts carry a placeholder, the
  look-ups compare with the empty reference: after any sequence of such events the gates on rounds,
  repeated blockers and the cool-down decide as on an empty ledger.
\<close>

theorem blank_graph_unbounded:
  assumes "\<forall>(clock, reg, e) \<in> set es. safe_ref h (le_graph e) = []"
    and "run_loop h ad arg es \<lparr>ls_receipts = [], ls_roadmap = rs\<rparr> = Inr s" and "safe_ref h (le_graph e) = []"
  shows "block_gate h p e now blocker (ls_receipts s) = block_gate h p e now blocker []"
proof -
  have "\<forall>r \<in> set (ls_receipts s). lr_graph r \<noteq> []"
    if "run_loop h ad arg es s0 = Inr s" "\<forall>(clock, reg, e) \<in> set es. safe_ref h (le_graph e) = []"
      "\<forall>r \<in> set (ls_receipts s0). lr_graph r \<noteq> []" for s0
    using that
  proof (induction es arbitrary: s0)
    case (Cons x es)
    obtain clock reg e where x: "x = (clock, reg, e)" by (cases x)
    with Cons.prems(1) obtain d s1 where step: "evaluate_loop_event h ad reg arg clock e s0 = Inr (d, s1)"
      "run_loop h ad arg es s1 = Inr s" by (auto split: sum.splits)
    from step_names_event [OF step(1)] Cons.prems x have "\<forall>r \<in> set (ls_receipts s1). lr_graph r \<noteq> []"
      by (auto simp: names_event_def)
    with Cons.IH [OF step(2)] Cons.prems(2) show ?case by simp
  qed simp
  from this [OF assms(2,1)] have no: "filter (\<lambda>r. lr_graph r = [] \<and> P r) (ls_receipts s) = []" for P
    by (auto simp: filter_empty_conv)
  have "max_round_for_graph h (le_graph e) (ls_receipts s) = max_round_for_graph h (le_graph e) []"
    "count_blocker h (le_graph e) blocker (ls_receipts s) = count_blocker h (le_graph e) blocker []"
    "last_action_time h (le_graph e) blocker (ls_receipts s) = last_action_time h (le_graph e) blocker []"
    using no [of "\<lambda>_. True"]
    by (simp_all add: max_round_for_graph_def graph_receipts_def count_blocker_def last_action_time_def acted_on_def assms(3) no)
  then show ?thesis unfolding block_gate_def by presburger
qed

subsection \<open>The calls of the board\<close>

text \<open>An adapter that also keeps the intents it was called with.\<close>

definition logging :: "'w board_adapter \<Rightarrow> ('w \<times> graph_intent list) board_adapter" where
  "logging a =
     (\<lparr>ga_create = (\<lambda>i (w, l). (fst (ga_create (fst a) i w), (snd (ga_create (fst a) i w), l @ [i]))),
       ga_existing = (\<lambda>key (w, l). ga_existing (fst a) key w)\<rparr>,
      map_option (\<lambda>f r (w, l). (f r w, l)) (snd a))"

lemma create_logged [simp]:
  "snd (snd (ga_create (fst (logging a)) i w)) = snd w @ [i]"
  by (simp add: logging_def case_prod_beta)

text \<open>\<open>called P n w w'\<close>: from \<open>w\<close> to \<open>w'\<close> at most \<open>n\<close> calls were made, all with intents in \<open>P\<close>.\<close>

definition called :: "(graph_intent \<Rightarrow> bool) \<Rightarrow> nat \<Rightarrow> 'w \<times> graph_intent list \<Rightarrow> 'w \<times> graph_intent list \<Rightarrow> bool" where
  "called P n w w' \<longleftrightarrow> (\<exists>new. snd w' = snd w @ new \<and> length new \<le> n \<and> list_all P new)"

lemma called_refl [simp]: "called P n w w"
  by (simp add: called_def)

lemma called_trans: "called P m u v \<Longrightarrow> called P n v w \<Longrightarrow> called P (m + n) u w"
  by (fastforce simp: called_def)

lemma called_mono: "called P m u v \<Longrightarrow> m \<le> n \<Longrightarrow> called P n u v"
  by (auto simp: called_def)

lemma called_create: "P i \<Longrightarrow> called P 1 w (snd (ga_create (fst (logging a)) i w))"
  by (simp add: called_def)

text \<open>The storm guards count every call.\<close>

definition counted :: "graph_policy \<Rightarrow> ('w \<times> graph_intent list) storm \<Rightarrow> ('w \<times> graph_intent list) storm \<Rightarrow> bool" where
  "counted q st st' \<longleftrightarrow> sm_attempts st \<le> sm_attempts st' \<and>
     (int (sm_attempts st) \<le> gp_max_auto_creates q \<longrightarrow> int (sm_attempts st') \<le> gp_max_auto_creates q) \<and>
     called (\<lambda>i. is_apply_gated q (gi_blocker i)) (sm_attempts st' - sm_attempts st) (sm_board st) (sm_board st')"

lemma counted_refl: "counted q st st"
  by (simp add: counted_def)

lemma counted_trans: "counted q st st1 \<Longrightarrow> counted q st1 st2 \<Longrightarrow> counted q st st2"
  unfolding counted_def
  using called_trans [of _ "sm_attempts st1 - sm_attempts st" "sm_board st" "sm_board st1" "sm_attempts st2 - sm_attempts st1" "sm_board st2"]
  by simp

lemma counted_noop: "counted q (add_noop key b r st) st' = counted q st st'" "counted q st (add_noop key b r st)"
  by (simp_all add: counted_def add_noop_def)

lemma remediation_intent_blocker [simp]:
  "gi_blocker (mk_remediation_intent prop src origin return_to prev kind) = get_str prop ''blocker''"
  by (simp add: mk_remediation_intent_def Let_def)

lemma counted_if: "(c \<Longrightarrow> counted q st a) \<Longrightarrow> (\<not> c \<Longrightarrow> counted q st b) \<Longrightarrow> counted q st (if c then a else b)"
  by simp

lemma counted_intent:
  assumes "\<not> (is_apply_gated q (gi_blocker i) \<and> gp_max_auto_creates q \<le> int (sm_attempts st))"
    and "sm_attempts st' = sm_attempts st + (if is_apply_gated q (gi_blocker i) then 1 else 0)"
    and "sm_board st' = (if is_apply_gated q (gi_blocker i) then snd (ga_create (fst (logging a)) i (sm_board st)) else sm_board st)"
  shows "counted q st st'"
  using assms by (auto simp: counted_def called_def)

lemma propose_kinds_counted:
  "counted q st (propose_kinds (Some (fst (logging a))) q pr src origin return_to kinds prev st)"
proof (induction kinds arbitrary: prev st)
  case Nil
  show ?case by (simp add: counted_refl)
next
  case (Cons kind kinds)
  let ?i = "mk_remediation_intent pr src origin return_to prev kind" and ?b = "get_str pr ''blocker''"
  have skip: "counted q st (propose_kinds (Some (fst (logging a))) q pr src origin return_to kinds prev
      (add_noop (gi_key ?i) ?b reason st))" for reason
    using Cons.IH [where prev = prev and st = "add_noop (gi_key ?i) ?b reason st"] by (simp only: counted_noop(1))
  let ?st = "st\<lparr>sm_candidates := sm_candidates st @ [Intent_Candidate ?i],
      sm_class_count := (sm_class_count st)(?b := sm_class_count st ?b + 1),
      sm_source_count := sm_source_count st + (if src \<noteq> [] then 1 else 0),
      sm_attempts := sm_attempts st + (if is_apply_gated q ?b then 1 else 0),
      sm_board := (if is_apply_gated q ?b then snd (ga_create (fst (logging a)) ?i (sm_board st)) else sm_board st)\<rparr>"
  have go: "counted q st (propose_kinds (Some (fst (logging a))) q pr src origin return_to kinds (gi_key ?i) ?st)"
    if "\<not> (is_apply_gated q ?b \<and> gp_max_auto_creates q \<le> int (sm_attempts st))"
  proof -
    from that have "counted q st ?st" by (intro counted_intent [where i = ?i and a = a]) simp_all
    from counted_trans [OF this Cons.IH [where prev = "gi_key ?i" and st = ?st]] show ?thesis .
  qed
  show ?case
    by (simp only: propose_kinds.simps Let_def option.distinct option.sel not_False_eq_True simp_thms)
      (intro counted_if skip go)
qed

lemma propose_one_counted:
  "counted q st (propose_one (Some (fst (logging a))) q prior src origin return_to pr st)"
  by (simp add: propose_one_def Let_def propose_kinds_counted counted_noop(2) counted_refl)

lemma fold_counted:
  "counted q st (fold (propose_one (Some (fst (logging a))) q prior src origin return_to) prs st)"
proof (induction prs arbitrary: st)
  case (Cons pr prs)
  from counted_trans [OF propose_one_counted Cons] show ?case by simp
qed (simp add: counted_refl)

text \<open>The graph policy of a loop policy lets only the blocker it was made for through.\<close>

lemma gated_blocker:
  "is_apply_gated (coerce_graph_policy (Policy_Given (loop_graph_policy p b))) x \<Longrightarrow>
     x = b \<and> b \<in> set (sv_allowlisted_blockers p) \<and>
     coerce_graph_policy (Policy_Given (loop_graph_policy p b)) = loop_graph_policy p b"
  by (auto simp: is_apply_gated_def coerce_graph_policy_def loop_graph_policy_def FAIL_CLOSED_POLICY_def
      default_graph_policy_def split: if_splits)

lemma list_all_gated:
  "list_all (\<lambda>i. is_apply_gated (coerce_graph_policy (Policy_Given (loop_graph_policy p b))) (gi_blocker i)) is \<Longrightarrow>
     list_all (\<lambda>i. gi_blocker i = b) is"
  by (auto simp: list_all_iff dest: gated_blocker)

lemma propose_graph_called:
  assumes "propose_remediation_graph h summary src origin return_to []
      (Policy_Given (loop_graph_policy p b)) (Some (fst (logging a))) w = Inr res" and "0 \<le> sv_max_auto_creates p"
  shows "called (\<lambda>i. gi_blocker i = b) (nat (sv_max_auto_creates p)) w (snd (snd (creator_outcome res)))"
proof -
  let ?q = "coerce_graph_policy (Policy_Given (loop_graph_policy p b))"
  obtain r where plan: "plan_remediation h summary src [] True = Inr r" using plan_remediation_returns by blast
  show ?thesis
  proof (cases r)
    case (Remediation_Refused err x)
    with assms plan show ?thesis by (auto simp: propose_remediation_graph_def Let_def)
  next
    case (Remediation_Proposed v ps)
    let ?st = "\<lparr>sm_candidates = [], sm_class_count = prior_class_count [],
      sm_source_count = prior_source_count [] (safe_src_ref h src), sm_attempts = 0, sm_board = w\<rparr>"
    obtain st' where st': "st' = fold (propose_one (Some (fst (logging a))) ?q [] (safe_src_ref h src) origin return_to)
        (map (proposal_dict h) ps) ?st" by simp
    have res: "res = Graph_Proposed (sm_candidates st') (sm_attempts st') (sm_board st')"
      using assms(1) plan Remediation_Proposed by (simp add: propose_remediation_graph_def Let_def st')
    have "counted ?q ?st st'" unfolding st' by (rule fold_counted)
    then have c: "called (\<lambda>i. is_apply_gated ?q (gi_blocker i)) (sm_attempts st') w (sm_board st')"
      "0 \<le> gp_max_auto_creates ?q \<longrightarrow> int (sm_attempts st') \<le> gp_max_auto_creates ?q"
      by (simp_all add: counted_def)
    have cap: "0 \<le> gp_max_auto_creates ?q"
      using assms(2) by (auto simp: coerce_graph_policy_def loop_graph_policy_def FAIL_CLOSED_POLICY_def default_graph_policy_def)
    from c obtain new where new: "snd (sm_board st') = snd w @ new" "length new \<le> sm_attempts st'"
      "list_all (\<lambda>i. is_apply_gated ?q (gi_blocker i)) new"
      unfolding called_def by blast
    have "int (length new) \<le> sv_max_auto_creates p"
    proof (cases new)
      case (Cons i "is")
      with new(3) have "is_apply_gated ?q (gi_blocker i)" by simp
      from gated_blocker [OF this] have "?q = loop_graph_policy p b" by blast
      then have "gp_max_auto_creates ?q = gp_max_auto_creates (loop_graph_policy p b)" by (rule arg_cong)
      also have "\<dots> = sv_max_auto_creates p" by (simp add: loop_graph_policy_def)
      finally have "gp_max_auto_creates ?q = sv_max_auto_creates p" .
      with c(2) cap new(2) show ?thesis by linarith
    qed (simp add: assms(2))
    then have "length new \<le> nat (sv_max_auto_creates p)" by linarith
    with new(1) list_all_gated [OF new(3)] have "called (\<lambda>i. gi_blocker i = b) (nat (sv_max_auto_creates p)) w (sm_board st')"
      unfolding called_def by blast
    then show ?thesis unfolding res creator_outcome.simps snd_conv .
  qed
qed

lemma resolve_called:
  assumes "resolve_stale_final_candidate h old_card review origin return_to (Policy_Given (loop_graph_policy p FANIN))
      (Some (fst (logging a))) w = (res, w')" and "w' \<noteq> w"
  shows "called (\<lambda>i. gi_blocker i = FANIN) 1 w w' \<and> 1 \<le> sv_max_auto_creates p \<and>
    py_lower (get_str old_card ''status'') \<in> {''done'', ''completed'', ''blocked'', ''block''} \<and>
    re_test GO_VERDICT_RE (review_text review)"
proof -
  let ?i = "final_v2_intent h (get_str old_card ''id'') (py_lower (get_str old_card ''status'')) origin return_to"
  from assms have g: "is_apply_gated (coerce_graph_policy (Policy_Given (loop_graph_policy p FANIN))) FANIN"
    and w: "w' = snd (ga_create (fst (logging a)) ?i w)"
    and card: "py_lower (get_str old_card ''status'') \<in> {''done'', ''completed'', ''blocked'', ''block''}"
      "re_test GO_VERDICT_RE (review_text review)"
    by (auto simp: resolve_stale_final_candidate_def Let_def FANIN_def split: if_splits)
  have "gi_blocker ?i = FANIN" by (simp add: final_v2_intent_def FANIN_def Let_def)
  moreover have "1 \<le> sv_max_auto_creates p"
  proof -
    have "coerce_graph_policy (Policy_Given (loop_graph_policy p FANIN)) = loop_graph_policy p FANIN"
      using gated_blocker [OF g] by blast
    with g have "0 < gp_max_auto_creates (loop_graph_policy p FANIN)" by (simp add: is_apply_gated_def)
    then show ?thesis by (simp add: loop_graph_policy_def)
  qed
  ultimately show ?thesis using w card by (auto simp: called_def)
qed

lemma create_tasks_called:
  "\<forall>i \<in> set is. gi_blocker i = b \<Longrightarrow>
     called (\<lambda>i. gi_blocker i = b) (length is) w (snd (create_tasks (fst (logging a)) t p is ids made w))"
proof (induction "is" arbitrary: ids made w)
  case (Cons i "is")
  show ?case
  proof (cases "apply_task_profile (gi_kind i) t p")
    case (Inr prof)
    have b: "gi_blocker (enrich_intent i prof) = b" using Cons.prems by (simp add: enrich_intent_def case_prod_beta)
    obtain r w1 where c: "ga_create (fst (logging a)) (enrich_intent i prof) w = (r, w1)"
      by (cases "ga_create (fst (logging a)) (enrich_intent i prof) w")
    with called_create [of "\<lambda>i. gi_blocker i = b" "enrich_intent i prof" w a] b
    have one: "called (\<lambda>i. gi_blocker i = b) 1 w w1" by simp
    from Cons.prems have "\<forall>i \<in> set is. gi_blocker i = b" by simp
    from called_trans [OF one Cons.IH [OF this]] called_mono [OF one, of "Suc (length is)"] Inr c show ?thesis
      by (simp add: Let_def)
  qed simp
qed simp

lemma plan_blockers: "build_plan t key d origin return_to src = Inr plan \<Longrightarrow>
    \<forall>i \<in> set (np_candidates plan). gi_blocker i = ''roadmap_promotion''"
proof -
  have "\<forall>i \<in> set (plan_steps t tmpl key d origin return_to src par ss). gi_blocker i = ''roadmap_promotion''" for tmpl par ss
    by (induction ss arbitrary: par) (auto simp: plan_intent_def)
  then show "build_plan t key d origin return_to src = Inr plan \<Longrightarrow> ?thesis"
    by (auto simp: build_plan_def split: sum.splits)
qed

lemma recorder_logged: "snd (case snd (logging a) of None \<Rightarrow> w | Some f \<Rightarrow> f r w) = snd w"
  by (auto simp: logging_def case_prod_beta split: option.splits)

lemma apply_plan_called:
  assumes "apply_plan h (fst (logging a)) (snd (logging a)) q rg t e proposal key l' s = Inr (out, s')"
  shows "called (\<lambda>i. gi_blocker i = ''roadmap_promotion'') (nat (pp_max_apply_tasks q)) (as_board s) (as_board s')"
proof -
  from assms obtain plan where plan: "build_plan t key (rs_chain_depth proposal) (ev_origin e) (ev_return_to e) (safe_source h e) = Inr plan"
    by (auto simp: apply_plan_def split: sum.splits)
  obtain c w where cw: "create_tasks (fst (logging a)) t q (np_candidates plan) [] [] (as_board s) = (c, w)"
    by (cases "create_tasks (fst (logging a)) t q (np_candidates plan) [] [] (as_board s)")
  from create_tasks_called [OF plan_blockers [OF plan], where a = a and t = t and p = q and ids = "[]" and made = "[]" and w = "as_board s"]
  have called: "called (\<lambda>i. gi_blocker i = ''roadmap_promotion'') (length (np_candidates plan)) (as_board s) w"
    by (simp add: cw)
  show ?thesis
  proof (cases "pp_max_apply_tasks q < int (length (np_candidates plan))")
    case True
    with assms plan show ?thesis by (auto simp: apply_plan_def)
  next
    case False
    then have "called (\<lambda>i. gi_blocker i = ''roadmap_promotion'') (nat (pp_max_apply_tasks q)) (as_board s) w"
      by (intro called_mono [OF called]) linarith
    moreover have "snd (as_board s') = snd w"
    proof (cases c)
      case (Created made)
      with assms plan cw False obtain r where "as_board s' = (case snd (logging a) of None \<Rightarrow> w | Some f \<Rightarrow> f r w)"
        by (auto simp: apply_plan_def Let_def)
      then show ?thesis by (simp only: recorder_logged)
    qed (use assms plan cw False in \<open>auto simp: apply_plan_def\<close>)
    ultimately show ?thesis by (auto simp: called_def)
  qed
qed

lemma attach_called:
  assumes "attach_roadmap_autopromote h (if apply_effectively_enabled p then Some (logging a) else None) reg d0 e p now s = Inr (d, s')"
    and "as_board s' \<noteq> as_board s"
  shows "apply_effectively_enabled p \<and> sv_roadmap_auto_continue p \<and> sv_roadmap_apply_enabled p \<and>
    called (\<lambda>i. gi_blocker i = ''roadmap_promotion'') 5 (as_board s) (as_board s')"
proof -
  let ?q = "loop_roadmap_policy p"
  have five: "pp_max_apply_tasks (fst (coerce_promotion_policy (Promotion_Given ?q))) = 5"
    by (simp add: coerce_promotion_policy_def loop_roadmap_policy_def default_promotion_policy_def)
  have ap: "called (\<lambda>i. gi_blocker i = ''roadmap_promotion'') 5 (as_board s) (as_board s')"
    if "apply_roadmap_promotion h (Some (fst (logging a))) (snd (logging a)) (Promotion_Given ?q) reg (loop_promotion_event e now) s =
      Inr (out, s')" for out
    using that five
    by (auto simp: apply_roadmap_promotion_def Let_def split: sum.splits option.splits if_splits dest!: apply_plan_called)
  have armed: "pp_apply_enabled ?q = (sv_roadmap_apply_enabled p \<and> apply_effectively_enabled p)"
    by (simp add: loop_roadmap_policy_def)
  show ?thesis
  proof (cases "sv_roadmap_auto_continue p \<and> sv_roadmap_apply_enabled p \<and> apply_effectively_enabled p")
    case True
    with assms(1) obtain out where "apply_roadmap_promotion h (Some (fst (logging a))) (snd (logging a)) (Promotion_Given ?q) reg
        (loop_promotion_event e now) s = Inr (out, s')"
      by (simp add: attach_roadmap_autopromote_def Let_def armed split: sum.splits prod.splits)
    from ap [OF this] True show ?thesis by simp
  next
    case False
    with assms(1) have "as_board s' = as_board s"
      by (auto simp: attach_roadmap_autopromote_def Let_def armed split: sum.splits if_splits)
    with assms(2) show ?thesis by simp
  qed
qed

lemma supersession_called:
  assumes "evaluate_supersession h (if apply_effectively_enabled p then Some (logging a) else None) p e now s = (d, s')"
    and "as_board (ls_roadmap s') \<noteq> as_board (ls_roadmap s)"
  shows "apply_effectively_enabled p \<and> supersession_gate h p e = None \<and>
    \<not> loop_has_key h (final_supersession_key h e) (ls_receipts s) \<and>
    called (\<lambda>i. gi_blocker i = FANIN) 1 (as_board (ls_roadmap s)) (as_board (ls_roadmap s')) \<and>
    1 \<le> sv_max_auto_creates p \<and>
    py_lower (get_str (old_card_of e) ''status'') \<in> {''done'', ''completed'', ''blocked'', ''block''} \<and>
    re_test GO_VERDICT_RE (review_text (review_card_of e))"
proof -
  let ?ad = "if apply_effectively_enabled p then map_option fst (if apply_effectively_enabled p then Some (logging a) else None) else None"
  obtain res w where r: "resolve_stale_final_candidate h (old_card_of e) (review_card_of e) (le_origin e) (le_return_to e)
      (Policy_Given (loop_graph_policy p FANIN)) ?ad (as_board (ls_roadmap s)) = (res, w)"
    by (cases "resolve_stale_final_candidate h (old_card_of e) (review_card_of e) (le_origin e) (le_return_to e)
      (Policy_Given (loop_graph_policy p FANIN)) ?ad (as_board (ls_roadmap s))")
  have gate: "supersession_gate h p e = None \<and> \<not> loop_has_key h (final_supersession_key h e) (ls_receipts s) \<and>
      as_board (ls_roadmap s') = w"
    using assms r unfolding evaluate_supersession_def
    by (cases res) (auto simp: Let_def split: option.splits if_splits)
  with assms(2) have moved: "w \<noteq> as_board (ls_roadmap s)" by simp
  have armed: "apply_effectively_enabled p"
    using r moved by (auto simp: resolve_stale_final_candidate_def Let_def split: if_splits)
  with r resolve_called [OF _ moved, of h "old_card_of e" "review_card_of e" "le_origin e" "le_return_to e" p a res] gate
  show ?thesis by simp
qed

lemma noop_board [simp]: "sm_board (add_noop key b r st) = sm_board st"
  by (simp add: add_noop_def)

lemma propose_kinds_none: "sm_board (propose_kinds None q pr src origin return_to kinds prev st) = sm_board st"
  by (induction kinds arbitrary: prev st) (simp_all add: Let_def)

lemma propose_graph_none:
  "propose_remediation_graph h summary src origin return_to prior arg None w = Inr res \<Longrightarrow> snd (snd (creator_outcome res)) = w"
proof -
  have "sm_board (fold (propose_one None q prior src' origin return_to) prs st) = sm_board st" for q src' prs and st :: "'a storm"
    by (induction prs arbitrary: st) (auto simp: propose_one_def Let_def propose_kinds_none)
  then show "propose_remediation_graph h summary src origin return_to prior arg None w = Inr res \<Longrightarrow> ?thesis"
    by (auto simp: propose_remediation_graph_def Let_def split: sum.splits remediation_result.splits)
qed

lemma remediate_called:
  assumes "remediate h (if apply_effectively_enabled p then Some (logging a) else None) p e now v b s = Inr (d, s')"
    and "0 \<le> sv_max_auto_creates p" and "as_board (ls_roadmap s') \<noteq> as_board (ls_roadmap s)"
  shows "apply_effectively_enabled p \<and>
    called (\<lambda>i. gi_blocker i = b) (nat (sv_max_auto_creates p)) (as_board (ls_roadmap s)) (as_board (ls_roadmap s'))"
  using assms propose_graph_called [where a = a and p = p and b = b and h = h]
  by (auto simp: remediate_def Let_def case_prod_beta dest: propose_graph_none split: sum.splits if_splits)

lemma evaluate_fresh:
  "coerce_loop_policy arg = (p, malformed) \<Longrightarrow> \<not> loop_has_event h (le_event_id e) (ls_receipts s) \<Longrightarrow>
     entry_gate p malformed e = None \<Longrightarrow>
     evaluate_loop_event h ad reg arg clock e s =
       (if is_supersession e
        then Inr (evaluate_supersession h (if apply_effectively_enabled p then ad else None) p e (event_time clock e) s)
        else evaluate_verdict h (if apply_effectively_enabled p then ad else None) reg p e (event_time clock e) s)"
  by (simp add: evaluate_loop_event_def Let_def)

text \<open>What a BLOCK, or a supersession, has shown when its gates let it pass.\<close>

lemma block_gate_open:
  assumes "block_gate h p e now b l = None"
  shows "b \<noteq> [] \<and> b \<in> set (sv_allowlisted_blockers p) \<and>
    (sv_require_policy_resolution p \<longrightarrow> le_policy_ref e \<noteq> []) \<and>
    (sv_require_subscription p \<longrightarrow> le_subscription e = ''verified'') \<and>
    max (le_round_no e) (max_round_for_graph h (le_graph e) l) < sv_max_rounds p \<and>
    int (count_blocker h (le_graph e) b l) < sv_max_same_blocker p \<and>
    (case last_action_time h (le_graph e) b l of
       None \<Rightarrow> True | Some t0 \<Rightarrow> of_int (sv_cooldown_seconds p) \<le> now - t0)"
  using assms by (auto simp: block_gate_def Let_def split: if_splits option.splits)

lemma supersession_gate_open:
  assumes "supersession_gate h p e = None"
  shows "FANIN \<in> set (sv_allowlisted_blockers p) \<and> (sv_require_policy_resolution p \<longrightarrow> le_policy_ref e \<noteq> []) \<and>
    (sv_require_subscription p \<longrightarrow> le_subscription e = ''verified'') \<and>
    safe_ref h (old_final_id e) \<noteq> [] \<and> safe_ref h (review_card_id e) \<noteq> []"
  using assms by (auto simp: supersession_gate_def supersession_provenance_ok_def split: if_splits)

lemma evaluate_verdict_cases:
  assumes "evaluate_verdict h ad reg p e now s = Inr (d, s')"
  obtains (idle) "as_board (ls_roadmap s') = as_board (ls_roadmap s)"
  | (go) d0 rs where "loop_verdict e = ''GO''" "attach_roadmap_autopromote h ad reg d0 e p now (ls_roadmap s) = Inr (d, rs)"
      "ls_roadmap s' = rs"
  | (block) "loop_verdict e = ''BLOCK''" "block_gate h p e now (loop_blocker e) (ls_receipts s) = None"
      "remediate h ad p e now (loop_verdict e) (loop_blocker e) s = Inr (d, s')"
  using assms by (auto simp: evaluate_verdict_def Let_def split: if_splits sum.splits option.splits)

text \<open>
  C25: the board is out of reach unless every gate is open. An event that makes a single call has a
  well-formed policy in apply mode with the apply switch on and the kill switch off, comes from the
  expected origin and was not seen before, and is one of three. A supersession of a stale final, of
  an allowed kind, with policy and subscription where wanted, both cards named, the old final closed
  or blocked, the review a GO, and its key new: it makes one call, for a stale final, and only if the
  policy allows one. A GO, with promotions enabled and armed: at most five calls, the cap of the
  promotion policy, all for the promotion. A BLOCK on an allowed blocker past every gate on policy,
  subscription, rounds, repeats and cool-down: at most the number of creations the policy allows,
  all for this blocker.
\<close>

theorem loop_apply_gated:
  assumes "evaluate_loop_event h (Some (logging a)) reg arg clock e s = Inr (d, s')"
    and "coerce_loop_policy arg = (p, malformed)"
    and "as_board (ls_roadmap s) = (w, [])" "as_board (ls_roadmap s') = (w', calls)"
  shows "calls = [] \<or>
    \<not> malformed \<and> \<not> sv_kill_switch p \<and> sv_active_mode p = ''apply'' \<and> sv_apply_enabled p \<and>
    loop_origin_ok e p \<and> \<not> loop_has_event h (le_event_id e) (ls_receipts s) \<and>
    (is_supersession e \<and> length calls = 1 \<and> 1 \<le> sv_max_auto_creates p \<and> list_all (\<lambda>i. gi_blocker i = FANIN) calls \<and>
       FANIN \<in> set (sv_allowlisted_blockers p) \<and> (sv_require_policy_resolution p \<longrightarrow> le_policy_ref e \<noteq> []) \<and>
       (sv_require_subscription p \<longrightarrow> le_subscription e = ''verified'') \<and>
       safe_ref h (old_final_id e) \<noteq> [] \<and> safe_ref h (review_card_id e) \<noteq> [] \<and>
       py_lower (get_str (old_card_of e) ''status'') \<in> {''done'', ''completed'', ''blocked'', ''block''} \<and>
       re_test GO_VERDICT_RE (review_text (review_card_of e)) \<and>
       \<not> loop_has_key h (final_supersession_key h e) (ls_receipts s) \<or>
     \<not> is_supersession e \<and> loop_verdict e = ''GO'' \<and> sv_roadmap_auto_continue p \<and> sv_roadmap_apply_enabled p \<and>
       length calls \<le> 5 \<and> list_all (\<lambda>i. gi_blocker i = ''roadmap_promotion'') calls \<or>
     \<not> is_supersession e \<and> loop_verdict e = ''BLOCK'' \<and> int (length calls) \<le> sv_max_auto_creates p \<and>
       list_all (\<lambda>i. gi_blocker i = loop_blocker e) calls \<and> loop_blocker e \<in> set (sv_allowlisted_blockers p) \<and>
       (sv_require_policy_resolution p \<longrightarrow> le_policy_ref e \<noteq> []) \<and>
       (sv_require_subscription p \<longrightarrow> le_subscription e = ''verified'') \<and>
       max (le_round_no e) (max_round_for_graph h (le_graph e) (ls_receipts s)) < sv_max_rounds p \<and>
       int (count_blocker h (le_graph e) (loop_blocker e) (ls_receipts s)) < sv_max_same_blocker p \<and>
       (case last_action_time h (le_graph e) (loop_blocker e) (ls_receipts s) of
          None \<Rightarrow> True | Some t0 \<Rightarrow> of_int (sv_cooldown_seconds p) \<le> event_time clock e - t0))"
proof (cases "calls = []")
  case made: False
  let ?ad = "if apply_effectively_enabled p then Some (logging a) else None" and ?now = "event_time clock e"
  have moved: "as_board (ls_roadmap s') \<noteq> as_board (ls_roadmap s)" using assms(3,4) made by simp
  have open_entry: "\<not> loop_has_event h (le_event_id e) (ls_receipts s) \<and> entry_gate p malformed e = None"
    using assms made by (auto simp: evaluate_loop_event_def Let_def split: if_splits option.splits)
  then have fresh: "\<not> loop_has_event h (le_event_id e) (ls_receipts s)" "entry_gate p malformed e = None" by blast+
  then have gates: "\<not> malformed" "\<not> sv_kill_switch p" "loop_origin_ok e p" by (auto simp: entry_gate_def split: if_splits)
  then have pos: "0 \<le> sv_max_auto_creates p" using assms(2)
    by (auto simp: coerce_loop_policy_def default_loop_policy_def split: loop_policy_arg.splits if_splits)
  have armed: "sv_active_mode p = ''apply'' \<and> sv_apply_enabled p" if "apply_effectively_enabled p"
    using that by (simp add: apply_effectively_enabled_def)
  have calls: "length calls \<le> n \<and> list_all P calls"
    if "called P n (as_board (ls_roadmap s)) (as_board (ls_roadmap s'))" for P n
    using that assms(3,4) by (auto simp: called_def)
  note general = gates fresh(1)
  show ?thesis
  proof (cases "is_supersession e")
    case True
    with assms(1) have run: "evaluate_supersession h ?ad p e ?now s = (d, s')"
      by (simp only: evaluate_fresh [OF assms(2) fresh] if_True sum.inject)
    note c = supersession_called [OF run moved]
    then have "length calls \<le> 1 \<and> list_all (\<lambda>i. gi_blocker i = FANIN) calls" by (intro calls) simp
    moreover have "length calls \<noteq> 0" using made by simp
    ultimately have "length calls = 1 \<and> list_all (\<lambda>i. gi_blocker i = FANIN) calls" by linarith
    moreover from c have "supersession_gate h p e = None" by blast
    note supersession_gate_open [OF this]
    moreover have "sv_active_mode p = ''apply'' \<and> sv_apply_enabled p" by (rule armed [OF conjunct1 [OF c]])
    ultimately show ?thesis using c general True by simp
  next
    case False
    with assms(1) have run: "evaluate_verdict h ?ad reg p e ?now s = Inr (d, s')"
      by (simp only: evaluate_fresh [OF assms(2) fresh] if_False)
    then show ?thesis
    proof (cases rule: evaluate_verdict_cases)
      case idle
      with moved show ?thesis by simp
    next
      case (go d0 rs)
      with moved have m: "as_board rs \<noteq> as_board (ls_roadmap s)" by simp
      note c = attach_called [OF go(2) m]
      with go(3) have "length calls \<le> 5 \<and> list_all (\<lambda>i. gi_blocker i = ''roadmap_promotion'') calls" by (intro calls) simp
      with c general False armed go(1) show ?thesis by blast
    next
      case block
      note c = remediate_called [OF block(3) pos moved]
      then have "length calls \<le> nat (sv_max_auto_creates p) \<and> list_all (\<lambda>i. gi_blocker i = loop_blocker e) calls"
        by (intro calls) simp
      moreover from this pos have "int (length calls) \<le> sv_max_auto_creates p" by linarith
      moreover note block_gate_open [OF block(2)]
      ultimately show ?thesis using c general False armed block(1) by blast
    qed
  qed
qed simp

subsection \<open>Witnesses\<close>

definition sample_loop_policy :: loop_policy where
  "sample_loop_policy = default_loop_policy
     \<lparr>sv_active_mode := ''apply'', sv_apply_enabled := True, sv_allowlisted_blockers := [FANIN, ''missing_subscription''],
      sv_require_policy_resolution := False, sv_require_subscription := False\<rparr>"

definition sample_loop_event :: loop_event where
  "sample_loop_event = (mk_loop_event ''event1'' ''graph1'')
     \<lparr>le_event_type := ''remediation_review_go'', le_source_final := ''final1'', le_review := ''review1'',
      le_occurred_at := 1000\<rparr>"

definition empty_loop_state :: "'w \<Rightarrow> 'w loop_state" where
  "empty_loop_state w = \<lparr>ls_receipts = [], ls_roadmap = \<lparr>as_ledger = [], as_applied = [], as_board = w\<rparr>\<rparr>"

definition sample_loop_board :: "fake_graph_board board_adapter" where
  "sample_loop_board = (fake_graph_adapter id, None)"

lemma sample_loop_coerced: "coerce_loop_policy (Loop_Given sample_loop_policy) = (sample_loop_policy, False)"
  by (simp add: coerce_loop_policy_def sample_loop_policy_def default_loop_policy_def)

lemma sample_loop_clean [simp]: "clean_ref ''graph1''" "clean_ref ''event1''" "clean_ref ''review1''"
  by (code_simp, code_simp, code_simp)

lemma sample_loop_storable: "\<forall>b \<in> set (sv_allowlisted_blockers sample_loop_policy). storable id b"
proof -
  have "storable id FANIN" "storable id ''missing_subscription''" unfolding FANIN_def by (code_simp, code_simp)
  then show ?thesis by (simp add: sample_loop_policy_def)
qed

lemma sample_loop_fields [simp]:
  "le_event_id sample_loop_event = ''event1''" "le_graph sample_loop_event = ''graph1''" "le_round_no sample_loop_event = 0"
  by (simp_all add: sample_loop_event_def mk_loop_event_def)

theorem loop_bounded_witness:
  "\<exists>s. run_loop id (Some sample_loop_board) (Loop_Given sample_loop_policy)
      [(0, None, sample_loop_event), (0, None, sample_loop_event\<lparr>le_event_type := [], le_verdict := ''BLOCK''\<rparr>)]
      (empty_loop_state empty_fake_graph_board) = Inr s \<and>
    length (rounds_of id ''graph1'' (ls_receipts s)) \<le> 2 \<and>
    int (count_blocker id ''graph1'' ''missing_subscription'' (ls_receipts s)) \<le> 1"
proof -
  have es: "\<forall>(clock, reg, e) \<in> set [(0, None, sample_loop_event), (0, None, sample_loop_event\<lparr>le_event_type := [], le_verdict := ''BLOCK''\<rparr>)].
      registry_valid reg \<and> clean_ref (safe_ref id (le_graph e)) \<and> 0 \<le> le_round_no e"
    by (simp add: registry_valid_def)
  have b: "short_text 240 ''missing_subscription'' \<noteq> FANIN" unfolding FANIN_def by code_simp
  have "sv_max_rounds sample_loop_policy = 2" "sv_max_same_blocker sample_loop_policy = 1"
    by (simp_all add: sample_loop_policy_def default_loop_policy_def)
  with loop_bounded [OF sample_loop_coerced sample_loop_storable es, of "Some sample_loop_board"
      "\<lparr>as_ledger = [], as_applied = [], as_board = empty_fake_graph_board\<rparr>"] b
  show ?thesis by (fastforce simp: empty_loop_state_def)
qed

theorem loop_event_once_witness:
  "\<exists>d s d'. evaluate_loop_event id (Some sample_loop_board) None (Loop_Given sample_loop_policy) 0 sample_loop_event
      (empty_loop_state empty_fake_graph_board) = Inr (d, s) \<and>
    evaluate_loop_event id (Some sample_loop_board) None Loop_None 0 (sample_loop_event\<lparr>le_verdict := ''BLOCK''\<rparr>) s = Inr (d', s) \<and>
    ld_reason d' = ''duplicate_event''"
proof -
  have "registry_valid None" by (simp add: registry_valid_def)
  then obtain d s where step: "evaluate_loop_event id (Some sample_loop_board) None (Loop_Given sample_loop_policy) 0 sample_loop_event
      (empty_loop_state empty_fake_graph_board) = Inr (d, s)" using evaluate_returns by blast
  have "clean_ref (safe_ref id (le_event_id sample_loop_event))" by simp
  from loop_event_once [OF step this, where es = "[]" and e' = "sample_loop_event\<lparr>le_verdict := ''BLOCK''\<rparr>"] step
  show ?thesis by simp blast
qed

theorem blank_graph_unbounded_witness:
  "\<exists>s. run_loop id (Some sample_loop_board) (Loop_Given sample_loop_policy)
      [(0, None, sample_loop_event\<lparr>le_graph := [], le_event_type := [], le_verdict := ''BLOCK''\<rparr>)]
      (empty_loop_state empty_fake_graph_board) = Inr s \<and>
    block_gate id sample_loop_policy (sample_loop_event\<lparr>le_graph := []\<rparr>) 1001 FANIN (ls_receipts s) =
    block_gate id sample_loop_policy (sample_loop_event\<lparr>le_graph := []\<rparr>) 1001 FANIN []"
proof -
  let ?e = "sample_loop_event\<lparr>le_graph := [], le_event_type := [], le_verdict := ''BLOCK''\<rparr>"
  have "registry_valid None" by (simp add: registry_valid_def)
  then obtain d s where step: "evaluate_loop_event id (Some sample_loop_board) None (Loop_Given sample_loop_policy) 0 ?e
      (empty_loop_state empty_fake_graph_board) = Inr (d, s)" using evaluate_returns by blast
  then have run: "run_loop id (Some sample_loop_board) (Loop_Given sample_loop_policy) [(0, None, ?e)]
      \<lparr>ls_receipts = [], ls_roadmap = \<lparr>as_ledger = [], as_applied = [], as_board = empty_fake_graph_board\<rparr>\<rparr> = Inr s"
    by (simp add: empty_loop_state_def)
  have "\<forall>(clock, reg, e) \<in> set [(0, None, ?e)]. safe_ref id (le_graph e) = []" by simp
  from blank_graph_unbounded [OF this run] run show ?thesis by (simp add: empty_loop_state_def)
qed

theorem loop_apply_gated_witness:
  "\<exists>d s w i. evaluate_loop_event id (Some (logging sample_loop_board)) None (Loop_Given sample_loop_policy) 0 sample_loop_event
      (empty_loop_state (empty_fake_graph_board, [])) = Inr (d, s) \<and>
    as_board (ls_roadmap s) = (w, [i]) \<and> gi_blocker i = FANIN"
proof -
  let ?s = "empty_loop_state (empty_fake_graph_board, [])" and ?e = sample_loop_event and ?p = sample_loop_policy
  have armed: "apply_effectively_enabled ?p" by (simp add: apply_effectively_enabled_def sample_loop_policy_def)
  have entry: "\<not> loop_has_event id (le_event_id ?e) (ls_receipts ?s)" "entry_gate ?p False ?e = None" "is_supersession ?e"
    by (simp_all add: loop_has_event_def empty_loop_state_def entry_gate_def loop_origin_ok_def sample_loop_policy_def
        default_loop_policy_def is_supersession_def sample_loop_event_def)
  have gate: "supersession_gate id ?p ?e = None" "loop_has_key id k (ls_receipts ?s) = False" for k
    using armed by (simp_all add: supersession_gate_def loop_origin_ok_def sample_loop_policy_def default_loop_policy_def
        supersession_provenance_ok_def old_final_id_def review_card_id_def sample_loop_event_def mk_loop_event_def
        str_or_def clean_nonempty loop_has_key_def empty_loop_state_def)
  have go: "re_test GO_VERDICT_RE (review_text (review_card_of ?e))" "py_lower ''blocked'' = ''blocked''"
    unfolding sample_loop_event_def by (code_simp, code_simp)
  have gated: "is_apply_gated (coerce_graph_policy (Policy_Given (loop_graph_policy ?p FANIN))) ''stale_final_fanin''"
    using armed by (simp add: is_apply_gated_def coerce_graph_policy_def loop_graph_policy_def sample_loop_policy_def
        default_loop_policy_def FANIN_def)
  have "get_str (old_card_of ?e) ''status'' = ''blocked''"
    by (simp add: old_card_of_def sample_loop_event_def mk_loop_event_def get_str_def dict_get_def)
  then obtain i where "resolve_stale_final_candidate id (old_card_of ?e) (review_card_of ?e) (le_origin ?e) (le_return_to ?e)
      (Policy_Given (loop_graph_policy ?p FANIN)) (Some (fst (logging sample_loop_board))) (empty_fake_graph_board, []) =
      (Final_Proposed i 1, snd (ga_create (fst (logging sample_loop_board)) i (empty_fake_graph_board, [])))"
    using go gated by (simp add: resolve_stale_final_candidate_def Let_def)
  with gate armed obtain d s where run: "evaluate_supersession id (Some (logging sample_loop_board)) ?p ?e (event_time 0 ?e) ?s = (d, s)"
    "as_board (ls_roadmap s) = snd (ga_create (fst (logging sample_loop_board)) i (empty_fake_graph_board, []))"
    by (simp add: evaluate_supersession_def empty_loop_state_def Let_def)
  then have step: "evaluate_loop_event id (Some (logging sample_loop_board)) None (Loop_Given ?p) 0 ?e ?s = Inr (d, s)"
    by (simp only: evaluate_fresh [OF sample_loop_coerced entry(1,2)] entry(3) armed if_True)
  have "snd (as_board (ls_roadmap s)) = [i]"
    by (simp only: run(2) create_logged snd_conv append_Nil)
  then obtain w where w: "as_board (ls_roadmap s) = (w, [i])" by (metis prod.collapse)
  have start: "as_board (ls_roadmap ?s) = (empty_fake_graph_board, [])" by (simp add: empty_loop_state_def)
  from loop_apply_gated [OF step sample_loop_coerced start w] entry(3) have "gi_blocker i = FANIN" by simp
  with step w show ?thesis by blast
qed

end
