(* ===== verification/Maint_Policy.thy ===== *)
theory Maint_Policy
  imports Live_Dispatch Values
begin

text \<open>
  The maintenance policy and its trust grants (\<open>maintenance/policy.py\<close>, \<open>maintenance/trust.py\<close>), the
  unit files of the runner (\<open>maintenance/units.py\<close>), and the sync proposal of the upstream watcher
  (\<open>maintenance/gitprobe.py\<close>, \<open>maintenance/watcher.py\<close>).

  \<open>h\<close> is the hexadecimal SHA-256 and \<open>fmt6\<close> the format \<open>.6f\<close> of a float. Parsed JSON numbers are
  finite. Reading and writing the configuration file is the caller's: the functions here work on its
  parsed content.
\<close>

subsection \<open>The policy\<close>

record maint_policy =
  mp_mode :: string
  mp_kill_switch :: bool
  mp_allowed_services :: "string list"
  mp_repo_path :: string
  mp_error :: string
  mp_max_cycles :: int
  mp_min_seconds :: int
  mp_require_no_workers :: bool
  mp_require_reviewed_go :: bool
  mp_canary :: bool

definition default_maint_policy :: maint_policy where
  "default_maint_policy =
     \<lparr>mp_mode = ''request_only'', mp_kill_switch = False, mp_allowed_services = [], mp_repo_path = [],
      mp_error = [], mp_max_cycles = 2, mp_min_seconds = 1800, mp_require_no_workers = True,
      mp_require_reviewed_go = True, mp_canary = True\<rparr>"

definition MAINT_MODES :: "string list" where
  "MAINT_MODES = [''disabled'', ''observe_only'', ''request_only'', ''guarded_cycle'']"

text \<open>\<open>_strict_int\<close>: \<open>None\<close> is a malformed field.\<close>

definition strict_int :: "json option \<Rightarrow> int \<Rightarrow> int option" where
  "strict_int v dflt =
     (case v of
        None \<Rightarrow> Some dflt
      | Some (JBool _) \<Rightarrow> None
      | Some x \<Rightarrow> (case py_int x of Inr i \<Rightarrow> Some i | Inl _ \<Rightarrow> None))"

text \<open>Iterating \<open>raw.get("allowed_services") or []\<close>, keeping the strings.\<close>

definition service_list :: "json option \<Rightarrow> py_error + string list" where
  "service_list v =
     (case v of
        None \<Rightarrow> Inr []
      | Some x \<Rightarrow>
          if \<not> truthy x then Inr []
          else (case x of
              JArr xs \<Rightarrow> Inr (List.map_filter (\<lambda>y. case y of JStr s \<Rightarrow> Some s | _ \<Rightarrow> None) xs)
            | JStr s \<Rightarrow> Inr (map (\<lambda>c. [c]) s)
            | JObj d \<Rightarrow> Inr (map fst d)
            | _ \<Rightarrow> Inl TypeError))"

text \<open>Membership in the set of modes; a list or a dictionary is not hashable.\<close>

definition maint_mode :: "json option \<Rightarrow> py_error + string" where
  "maint_mode v =
     (case v of
        None \<Rightarrow> Inr ''request_only''
      | Some (JStr s) \<Rightarrow> Inr (if s \<in> set MAINT_MODES then s else ''request_only'')
      | Some (JArr _) \<Rightarrow> Inl TypeError
      | Some (JObj _) \<Rightarrow> Inl TypeError
      | _ \<Rightarrow> Inr ''request_only'')"

text \<open>The file: absent, unreadable or not JSON, or its parsed content.\<close>

datatype policy_file = No_File | Bad_File | Parsed_File json

definition malformed_policy :: maint_policy where
  "malformed_policy = default_maint_policy\<lparr>mp_kill_switch := True, mp_error := ''malformed_policy''\<rparr>"

definition load_maintenance_policy :: "policy_file \<Rightarrow> py_error + maint_policy" where
  "load_maintenance_policy f =
     (case f of
        No_File \<Rightarrow> Inr default_maint_policy
      | Bad_File \<Rightarrow> Inr malformed_policy
      | Parsed_File (JObj raw) \<Rightarrow>
          (case (maint_mode (dict_get raw ''mode''), service_list (dict_get raw ''allowed_services'')) of
             (Inl e, _) \<Rightarrow> Inl e
           | (_, Inl e) \<Rightarrow> Inl e
           | (Inr mode, Inr services) \<Rightarrow>
               (let repo = get_str raw ''repo_path'' in
                case (strict_int (dict_get raw ''max_cycles_per_day'') 2,
                      strict_int (dict_get raw ''min_seconds_between_cycles'') 1800) of
                  (Some cycles, Some seconds) \<Rightarrow> Inr
                    \<lparr>mp_mode = mode,
                     mp_kill_switch = strict_bool (dict_get raw ''maintenance_kill_switch'') False (Some True),
                     mp_allowed_services = services, mp_repo_path = repo, mp_error = [],
                     mp_max_cycles = cycles, mp_min_seconds = seconds,
                     mp_require_no_workers = strict_bool (dict_get raw ''require_no_active_workers'') True None,
                     mp_require_reviewed_go = strict_bool (dict_get raw ''require_reviewed_sync_go'') True None,
                     mp_canary = strict_bool (dict_get raw ''canary_before_cycle'') True None\<rparr>
                | _ \<Rightarrow> Inr (default_maint_policy
                    \<lparr>mp_mode := (if mode = ''disabled'' then ''disabled'' else ''request_only''),
                     mp_kill_switch := True, mp_allowed_services := services, mp_repo_path := repo,
                     mp_error := ''malformed_numeric_field''\<rparr>)))
      | Parsed_File _ \<Rightarrow> Inr malformed_policy)"

subsection \<open>Trust grants\<close>

definition TRUST_SCOPE :: string where
  "TRUST_SCOPE = ''service_cycle''"

definition TRUST_MODE :: string where
  "TRUST_MODE = ''guarded_cycle''"

definition unit_char :: "char \<Rightarrow> bool" where
  "unit_char c \<longleftrightarrow> is_alnum c \<or> c \<in> set ''@_.:-''"

text \<open>The error of a trust function is the code of its \<open>TrustGrantError\<close>.\<close>

definition validate_unit :: "json \<Rightarrow> string + string" where
  "validate_unit v =
     (let text = short_text 240 (value_text v) in
      if text = [] \<or> \<not> list_all unit_char text then Inl ''invalid_gateway_unit''
      else if \<not> ends_with ''.service'' text then Inl ''invalid_gateway_unit''
      else Inr text)"

definition strict_float :: "string \<Rightarrow> json \<Rightarrow> string + real" where
  "strict_float code v =
     (case v of
        JInt i \<Rightarrow> if i < 0 then Inl code else Inr (of_int i)
      | JFloat r _ \<Rightarrow> if r < 0 then Inl code else Inr r
      | _ \<Rightarrow> Inl code)"

definition sanitize_provenance :: "json \<Rightarrow> string" where
  "sanitize_provenance v =
     str_or (fst (safe_job_field ''provenance'' 2000
        (if truthy v then value_text v else ''operator CLI trust grant''))) ''operator CLI trust grant''"

definition grant_id :: "(string \<Rightarrow> string) \<Rightarrow> (real \<Rightarrow> string) \<Rightarrow> string \<Rightarrow> string \<Rightarrow> real \<Rightarrow> real \<Rightarrow> string" where
  "grant_id h fmt6 unit host created expires =
     ''grant_'' @ take 16 (h (unit @ '':'' @ host @ '':'' @ fmt6 created @ '':'' @ fmt6 expires))"

text \<open>The times are floats; \<open>fl\<close> is their representation.\<close>

definition build_trust_grant ::
    "(string \<Rightarrow> string) \<Rightarrow> (real \<Rightarrow> string) \<Rightarrow> (real \<Rightarrow> string) \<Rightarrow> string \<Rightarrow> string \<Rightarrow> json \<Rightarrow> json \<Rightarrow> string \<Rightarrow>
       string + json dict" where
  "build_trust_grant h fmt6 fl gateway_unit host created_at expires_at provenance =
     (case validate_unit (JStr gateway_unit) of
        Inl e \<Rightarrow> Inl e
      | Inr unit \<Rightarrow>
          (case strict_float ''invalid_created_at'' created_at of
             Inl e \<Rightarrow> Inl e
           | Inr created \<Rightarrow>
               (case strict_float ''invalid_expiry'' expires_at of
                  Inl e \<Rightarrow> Inl e
                | Inr expires \<Rightarrow>
                    if expires \<le> created then Inl ''expiry_not_after_created''
                    else
                      (let clean = fst (safe_job_field ''host_id'' 2000 host) in
                       Inr [(''grant_id'', JStr (grant_id h fmt6 unit clean created expires)),
                            (''mode'', JStr TRUST_MODE), (''action'', JStr TRUST_SCOPE),
                            (''scope'', JStr TRUST_SCOPE), (''gateway_unit'', JStr unit),
                            (''allowed_services'', JArr [JStr unit]), (''host_id'', JStr clean),
                            (''created_at'', JFloat created (fl created)),
                            (''expires_at'', JFloat expires (fl expires)),
                            (''provenance'', JStr (sanitize_provenance (JStr provenance)))]))))"

definition REQUIRED_GRANT_FIELDS :: "string list" where
  "REQUIRED_GRANT_FIELDS = [''grant_id'', ''mode'', ''action'', ''scope'', ''gateway_unit'', ''allowed_services'',
     ''host_id'', ''created_at'', ''expires_at'', ''provenance'']"

text \<open>\<open>d.get(key)\<close>.\<close>

definition value_at :: "json dict \<Rightarrow> string \<Rightarrow> json" where
  "value_at d k = (case dict_get d k of None \<Rightarrow> JNull | Some v \<Rightarrow> v)"

definition valid_grant_id_shape :: "json \<Rightarrow> bool" where
  "valid_grant_id_shape v =
     (case v of
        JStr s \<Rightarrow> starts_with ''grant_'' s \<and> length (drop 6 s) = 16 \<and>
          list_all (\<lambda>c. c \<in> set ''0123456789abcdef'') (drop 6 s)
      | _ \<Rightarrow> False)"

definition non_empty_sanitized :: "string \<Rightarrow> json \<Rightarrow> bool" where
  "non_empty_sanitized field v \<longleftrightarrow> v \<noteq> JNull \<and> fst (safe_job_field field 2000 (value_text v)) \<noteq> []"

definition grant_shape :: "json \<Rightarrow> bool" where
  "grant_shape entry =
     (case entry of
        JObj d \<Rightarrow>
          list_all (\<lambda>k. k \<in> set (dict_keys d)) REQUIRED_GRANT_FIELDS \<and>
          (case (validate_unit (value_at d ''gateway_unit''), strict_float [] (value_at d ''created_at''),
                 strict_float [] (value_at d ''expires_at'')) of
             (Inr unit, Inr created, Inr expires) \<Rightarrow>
               created < expires \<and> valid_grant_id_shape (value_at d ''grant_id'') \<and>
               value_at d ''mode'' = JStr TRUST_MODE \<and> value_at d ''action'' = JStr TRUST_SCOPE \<and>
               value_at d ''scope'' = JStr TRUST_SCOPE \<and>
               value_at d ''allowed_services'' = JArr [JStr unit] \<and>
               non_empty_sanitized ''host_id'' (value_at d ''host_id'') \<and>
               non_empty_sanitized ''provenance'' (value_at d ''provenance'')
           | _ \<Rightarrow> False)
      | _ \<Rightarrow> False)"

definition validate_trust_grants_shape :: "json \<Rightarrow> bool" where
  "validate_trust_grants_shape raw = (case raw of JArr xs \<Rightarrow> list_all grant_shape xs | _ \<Rightarrow> False)"

definition is_valid_service_cycle_grant ::
    "json dict \<Rightarrow> string \<Rightarrow> string list \<Rightarrow> string \<Rightarrow> real \<Rightarrow> bool" where
  "is_valid_service_cycle_grant g target allowed host now =
     (case (validate_unit (value_at g ''gateway_unit''), strict_float [] (value_at g ''created_at''),
            strict_float [] (value_at g ''expires_at'')) of
        (Inr unit, Inr created, Inr expires) \<Rightarrow>
          unit = target \<and> unit \<in> set allowed \<and> value_at g ''mode'' = JStr TRUST_MODE \<and>
          value_at g ''action'' = JStr TRUST_SCOPE \<and> value_at g ''scope'' = JStr TRUST_SCOPE \<and>
          value_at g ''allowed_services'' = JArr [JStr unit] \<and>
          (case value_at g ''grant_id'' of JStr s \<Rightarrow> starts_with ''grant_'' s | _ \<Rightarrow> False) \<and>
          fst (safe_job_field ''host_id'' 2000 (value_text (value_at g ''host_id''))) = host \<and>
          created < expires \<and> now < expires \<and> sanitize_provenance (value_at g ''provenance'') \<noteq> []
      | _ \<Rightarrow> False)"

subsection \<open>Granting and revoking\<close>

text \<open>\<open>validate_config_path\<close>: white space, a NUL or a relative path is refused.\<close>

definition valid_config_path :: "string \<Rightarrow> bool" where
  "valid_config_path p \<longleftrightarrow> list_all (\<lambda>c. \<not> is_space c \<and> c \<noteq> CHR 0x00) p \<and> starts_with ''/'' p"

definition default_maintenance_config :: "json dict" where
  "default_maintenance_config =
     [(''mode'', JStr ''request_only''), (''maintenance_kill_switch'', JBool False), (''allowed_services'', JArr []),
      (''trust_grants'', JArr []), (''requested_action'', JStr ''observe'')]"

definition load_policy_for_trust :: "policy_file \<Rightarrow> string + json dict" where
  "load_policy_for_trust f =
     (case f of
        No_File \<Rightarrow> Inr default_maintenance_config
      | Parsed_File (JObj raw) \<Rightarrow> Inr raw
      | _ \<Rightarrow> Inl ''malformed_grant_file'')"

definition summary_field :: "json dict \<Rightarrow> string \<times> json \<Rightarrow> string \<times> json" where
  "summary_field g kd = (fst kd, case dict_get g (fst kd) of None \<Rightarrow> snd kd | Some v \<Rightarrow> v)"

definition grant_summary :: "json dict \<Rightarrow> json dict" where
  "grant_summary g = map (summary_field g)
     [(''grant_id'', JStr []), (''mode'', JStr []), (''action'', JStr []), (''scope'', JStr []),
      (''gateway_unit'', JStr []), (''allowed_services'', JArr []), (''host_id'', JStr []),
      (''created_at'', JFloat 0 ''0.0''), (''expires_at'', JFloat 0 ''0.0''), (''provenance'', JStr [])]"

text \<open>\<open>_safe_result\<close>: two more fields, and the sanitiser.\<close>

definition trust_result :: "(string \<Rightarrow> string) \<Rightarrow> json dict \<Rightarrow> json dict" where
  "trust_result h d = safe_event_payload h
     (d @ [(''policy_ref'', JStr ''maintenance.json''), (''systemctl_calls'', JArr [])])"

definition trust_failure :: "(string \<Rightarrow> string) \<Rightarrow> string \<Rightarrow> bool \<Rightarrow> json dict" where
  "trust_failure h code dry = trust_result h
     [(''success'', JBool False), (''error'', JStr code), (''dry_run'', JBool dry), (''wrote_file'', JBool False)]"

text \<open>The dictionaries of \<open>policy.get("trust_grants", [])\<close>.\<close>

definition grant_dicts :: "json option \<Rightarrow> py_error + json dict list" where
  "grant_dicts v =
     (case v of
        None \<Rightarrow> Inr []
      | Some (JArr xs) \<Rightarrow> Inr (List.map_filter (\<lambda>x. case x of JObj d \<Rightarrow> Some d | _ \<Rightarrow> None) xs)
      | Some (JStr _) \<Rightarrow> Inr []
      | Some (JObj _) \<Rightarrow> Inr []
      | _ \<Rightarrow> Inl TypeError)"

definition granted_policy :: "json dict \<Rightarrow> string \<Rightarrow> json dict list \<Rightarrow> json dict" where
  "granted_policy policy unit grants =
     (let p = dict_set ''trust_grants'' (JArr (map JObj grants))
            (dict_set ''allowed_services'' (JArr [JStr unit])
              (dict_set ''target_unit'' (JStr unit)
                (dict_set ''requested_action'' (JStr TRUST_SCOPE) (dict_set ''mode'' (JStr TRUST_MODE) policy))))
      in if dict_get p ''maintenance_kill_switch'' = None
         then dict_set ''maintenance_kill_switch'' (JBool False) p else p)"

text \<open>
  \<open>create_trust_grant\<close>: the result and the file it leaves. \<open>host\<close> is the host binding; \<open>now\<close> is the
  creation time. \<open>Inl\<close> is the \<open>TypeError\<close> of grants that cannot be iterated.
\<close>

definition create_trust_grant ::
    "(string \<Rightarrow> string) \<Rightarrow> (real \<Rightarrow> string) \<Rightarrow> (real \<Rightarrow> string) \<Rightarrow> string \<Rightarrow> string \<Rightarrow> policy_file \<Rightarrow> string \<Rightarrow> json \<Rightarrow>
       string \<Rightarrow> bool \<Rightarrow> real \<Rightarrow> py_error + json dict \<times> policy_file" where
  "create_trust_grant h fmt6 fl host path file gateway_unit expires provenance write now =
     (if \<not> valid_config_path path then Inr (trust_failure h ''invalid_config_path'' (\<not> write), file)
      else case load_policy_for_trust file of
        Inl code \<Rightarrow> Inr (trust_failure h code (\<not> write), file)
      | Inr policy \<Rightarrow>
          (case validate_unit (JStr gateway_unit) of
             Inl code \<Rightarrow> Inr (trust_failure h code (\<not> write), file)
           | Inr unit \<Rightarrow>
               (case build_trust_grant h fmt6 fl unit host (JFloat now (fl now)) expires provenance of
                  Inl code \<Rightarrow> Inr (trust_failure h code (\<not> write), file)
                | Inr grant \<Rightarrow>
                    (case grant_dicts (dict_get policy ''trust_grants'') of
                       Inl e \<Rightarrow> Inl e
                     | Inr old \<Rightarrow>
                         (let grants = filter (\<lambda>g. value_at g ''gateway_unit'' \<noteq> JStr unit \<or>
                                value_at g ''scope'' \<noteq> JStr TRUST_SCOPE) old @ [grant];
                              p = granted_policy policy unit grants
                          in Inr (trust_result h
                               [(''success'', JBool True), (''error'', JStr (if write then [] else ''dry_run'')),
                                (''dry_run'', JBool (\<not> write)), (''wrote_file'', JBool write),
                                (''grant'', JObj (grant_summary grant)),
                                (''policy'', JObj
                                   [(''mode'', value_at p ''mode''), (''requested_action'', value_at p ''requested_action''),
                                    (''target_unit'', value_at p ''target_unit''),
                                    (''allowed_services'', value_at p ''allowed_services''),
                                    (''trust_grants'', JArr (map (JObj \<circ> grant_summary) grants))])],
                             if write then Parsed_File (JObj p) else file))))))"

text \<open>\<open>inspect_trust_grants\<close> reads only.\<close>

definition inspect_trust_grants ::
    "(string \<Rightarrow> string) \<Rightarrow> string \<Rightarrow> string \<Rightarrow> policy_file \<Rightarrow> real \<Rightarrow> py_error + json dict" where
  "inspect_trust_grants h host path file now =
     (if \<not> valid_config_path path then Inr (trust_failure h ''invalid_config_path'' True)
      else case load_policy_for_trust file of
        Inl code \<Rightarrow> Inr (trust_failure h code True)
      | Inr policy \<Rightarrow>
          (let gs = List.map_filter (\<lambda>x. case x of JObj d \<Rightarrow> Some d | _ \<Rightarrow> None)
                 (case dict_get policy ''trust_grants'' of Some (JArr xs) \<Rightarrow> xs | _ \<Rightarrow> []);
               answer = (\<lambda>allowed. trust_result h
                 [(''success'', JBool True), (''error'', JStr []),
                  (''mode'', case dict_get policy ''mode'' of None \<Rightarrow> JStr ''request_only'' | Some v \<Rightarrow> v),
                  (''allowed_services'', case dict_get policy ''allowed_services'' of None \<Rightarrow> JArr [] | Some v \<Rightarrow> v),
                  (''trust_grants'', JArr (map (\<lambda>g. JObj (grant_summary g @
                     [(''valid_now'', JBool (is_valid_service_cycle_grant g (get_str g ''gateway_unit'') allowed host now))])) gs)),
                  (''dry_run'', JBool True), (''wrote_file'', JBool False)])
           in if gs = [] then Inr (answer [])
              else case service_list (dict_get policy ''allowed_services'') of
                Inl e \<Rightarrow> Inl e | Inr allowed \<Rightarrow> Inr (answer allowed)))"

text \<open>\<open>revoke_trust_grant\<close>: anything that is not a grant of the unit stays in the list.\<close>

definition is_grant_of :: "string \<Rightarrow> json \<Rightarrow> bool" where
  "is_grant_of unit v = (case v of
     JObj g \<Rightarrow> value_at g ''gateway_unit'' = JStr unit \<and> value_at g ''scope'' = JStr TRUST_SCOPE | _ \<Rightarrow> False)"

definition revoked_policy :: "json dict \<Rightarrow> json list \<Rightarrow> string list \<Rightarrow> json dict" where
  "revoked_policy policy grants units =
     (let p = dict_set ''allowed_services'' (JArr (map JStr units)) (dict_set ''trust_grants'' (JArr grants) policy)
      in if grants = [] \<or> units = []
         then dict_set ''target_unit'' (JStr []) (dict_set ''requested_action'' (JStr ''observe'')
           (dict_set ''mode'' (JStr ''request_only'') p))
         else p)"

definition revoke_trust_grant ::
    "(string \<Rightarrow> string) \<Rightarrow> string \<Rightarrow> policy_file \<Rightarrow> string \<Rightarrow> bool \<Rightarrow> py_error + json dict \<times> policy_file" where
  "revoke_trust_grant h path file gateway_unit write =
     (if \<not> valid_config_path path then Inr (trust_failure h ''invalid_config_path'' (\<not> write), file)
      else case load_policy_for_trust file of
        Inl code \<Rightarrow> Inr (trust_failure h code (\<not> write), file)
      | Inr policy \<Rightarrow>
          (case validate_unit (JStr gateway_unit) of
             Inl code \<Rightarrow> Inr (trust_failure h code (\<not> write), file)
           | Inr unit \<Rightarrow>
               (let raw = (case dict_get policy ''trust_grants'' of Some (JArr xs) \<Rightarrow> xs | _ \<Rightarrow> []);
                    grants = filter (\<lambda>g. \<not> is_grant_of unit g) raw
                in case service_list (dict_get policy ''allowed_services'') of
                  Inl e \<Rightarrow> Inl e
                | Inr services \<Rightarrow>
                    (let units = filter (\<lambda>s. s \<noteq> unit) services; p = revoked_policy policy grants units
                     in Inr (trust_result h
                          [(''success'', JBool True), (''error'', JStr (if write then [] else ''dry_run'')),
                           (''dry_run'', JBool (\<not> write)), (''wrote_file'', JBool write),
                           (''revoked_gateway_unit'', JStr unit), (''mode'', value_at p ''mode''),
                           (''allowed_services'', JArr (map JStr units)),
                           (''trust_grants'', JArr (List.map_filter
                              (\<lambda>g. case g of JObj d \<Rightarrow> Some (JObj (grant_summary d)) | _ \<Rightarrow> None) grants))],
                        if write then Parsed_File (JObj p) else file)))))"

subsection \<open>The unit files of the runner\<close>

definition exec_name_ok :: "string \<Rightarrow> bool" where
  "exec_name_ok s = (case s of [] \<Rightarrow> False
     | c # cs \<Rightarrow> is_alnum c \<and> length cs \<le> 63 \<and> list_all (\<lambda>c. is_alnum c \<or> c \<in> set ''._-'') cs)"

definition exec_dir_ok :: "string \<Rightarrow> bool" where
  "exec_dir_ok d \<longleftrightarrow> list_all (\<lambda>c. \<not> is_space c \<and> c \<noteq> CHR 0x00) d \<and>
     (starts_with ''/'' d \<or> starts_with ''%h/'' d)"

definition SLICE_NAME :: string where
  "SLICE_NAME = ''agentflow-maintenance.slice''"

definition RUNNER_SERVICE_NAME :: string where
  "RUNNER_SERVICE_NAME = ''agentflow-runner.service''"

definition RUNNER_TIMER_NAME :: string where
  "RUNNER_TIMER_NAME = ''agentflow-runner.timer''"

definition unit_text :: "string list \<Rightarrow> string" where
  "unit_text ls = concat (map (\<lambda>l. l @ line_feed_text) ls)"

definition render_maintenance_slice_unit :: string where
  "render_maintenance_slice_unit = unit_text
     [''[Unit]'', ''Description=AgentFlow Hermes external maintenance runner slice'', ''Before=slices.target'']"

text \<open>
  \<open>None\<close> is the \<open>UnitRenderError\<close> of an unsafe path, name or directory. The path is in the normal
  form of \<open>pathlib\<close>.
\<close>

definition render_runner_service_unit :: "string \<Rightarrow> string \<Rightarrow> string \<Rightarrow> string option" where
  "render_runner_service_unit path name dir =
     (if \<not> valid_config_path path \<or> \<not> exec_name_ok name \<or> \<not> exec_dir_ok dir then None
      else Some (unit_text
        [''[Unit]'', ''Description=AgentFlow Hermes external maintenance runner (request-only evaluate)'', [],
         ''[Service]'', ''Type=oneshot'', ''Slice='' @ SLICE_NAME,
         ''ExecStart='' @ rev (dropWhile (\<lambda>c. c = CHR ''/'') (rev dir)) @ ''/'' @ name @
           '' maintenance runner evaluate --input-file '' @ path]))"

definition render_runner_timer_unit :: "string \<Rightarrow> string \<Rightarrow> string" where
  "render_runner_timer_unit active delay = unit_text
     [''[Unit]'', ''Description=AgentFlow Hermes external maintenance runner timer'', [], ''[Timer]'',
      ''OnBootSec='' @ active, ''OnUnitActiveSec='' @ active, ''RandomizedDelaySec='' @ delay,
      ''Unit='' @ RUNNER_SERVICE_NAME, [], ''[Install]'', ''WantedBy=timers.target'']"

text \<open>The plan of \<open>render_install_plan\<close>: the three files by their names.\<close>

definition render_runner_units :: "string \<Rightarrow> string dict option" where
  "render_runner_units path =
     map_option (\<lambda>service. [(SLICE_NAME, render_maintenance_slice_unit), (RUNNER_SERVICE_NAME, service),
         (RUNNER_TIMER_NAME, render_runner_timer_unit ''30min'' ''300'')])
       (render_runner_service_unit path ''agentflow-hermes'' ''%h/.local/bin'')"

subsection \<open>The upstream watcher\<close>

record git_probe =
  gq_repo_id :: string
  gq_upstream_sha :: string
  gq_behind :: int
  gq_ahead :: int
  gq_dirty :: bool
  gq_local_carried :: bool
  gq_ff_eligible :: bool

definition probe_repo_id :: "(string \<Rightarrow> string) \<Rightarrow> string \<Rightarrow> string" where
  "probe_repo_id h repo =
     (case safe_durable_ref h [] repo of (safe, redacted) \<Rightarrow>
        if safe \<noteq> [] \<and> \<not> redacted then safe else ''repo:'' @ take 16 (h repo))"

definition parse_counts :: "string \<Rightarrow> (int \<times> int) option" where
  "parse_counts raw =
     (case py_split raw of
        a # b # _ \<Rightarrow> (case (int_of_str a, int_of_str b) of (Some x, Some y) \<Rightarrow> Some (x, y) | _ \<Rightarrow> None)
      | _ \<Rightarrow> None)"

text \<open>
  \<open>GitProbe.probe\<close> over a runner of git commands; \<open>None\<close> is a failed command or unreadable counts.
\<close>

definition git_counts_cmd :: "string \<Rightarrow> string list" where
  "git_counts_cmd upstream = [''git'', ''rev-list'', ''--left-right'', ''--count'', upstream @ ''...HEAD'']"

definition git_probe_of ::
    "(string \<Rightarrow> string) \<Rightarrow> (string list \<Rightarrow> string option) \<Rightarrow> string \<Rightarrow> string \<Rightarrow> string \<Rightarrow> bool \<Rightarrow> git_probe option" where
  "git_probe_of h run repo remote branch fetch =
     (let upstream = remote @ ''/'' @ branch in
      if fetch \<and> run [''git'', ''fetch'', ''--quiet'', remote] = None then None
      else case (run [''git'', ''rev-parse'', upstream], run (git_counts_cmd upstream), run [''git'', ''status'', ''--porcelain'']) of
        (Some sha, Some counts, Some status) \<Rightarrow>
          map_option (\<lambda>(behind, ahead).
              (let dirty = (py_strip status \<noteq> []); carried = (0 < ahead) in
               \<lparr>gq_repo_id = probe_repo_id h repo, gq_upstream_sha = take 40 sha, gq_behind = behind,
                gq_ahead = ahead, gq_dirty = dirty, gq_local_carried = carried,
                gq_ff_eligible = (0 < behind \<and> \<not> dirty \<and> \<not> carried)\<rparr>))
            (parse_counts counts)
      | _ \<Rightarrow> None)"

definition OPEN_STATUSES :: "string list" where
  "OPEN_STATUSES = [''ready'', ''running'', ''blocked'', ''todo'', ''pending'', ''queued'', ''open'', ''new'']"

definition sync_dedupe_key :: "(string \<Rightarrow> string) \<Rightarrow> string \<Rightarrow> string \<Rightarrow> string" where
  "sync_dedupe_key h repo sha = ''maint:sync:'' @ take 16 (h (repo @ '':'' @ sha))"

definition card_has_key :: "string \<Rightarrow> json dict \<Rightarrow> bool" where
  "card_has_key key crd \<longleftrightarrow>
     (let status = py_lower (get_str crd ''status'');
          metadata = (case dict_get crd ''metadata'' of Some (JObj m) \<Rightarrow> m | _ \<Rightarrow> [])
      in \<not> (status \<noteq> [] \<and> status \<notin> set OPEN_STATUSES) \<and>
         (dict_get metadata ''dedupe_key'' = Some (JStr key) \<or> dict_get crd ''dedupe_key'' = Some (JStr key) \<or>
          contains_text key (get_str crd ''title'')))"

datatype sync_proposal =
    Sync_Noop string
  | Sync_Proposal string string "json dict"

definition propose_sync_graph ::
    "(string \<Rightarrow> string) \<Rightarrow> git_probe \<Rightarrow> json dict list \<Rightarrow> int \<Rightarrow> string \<Rightarrow> sync_proposal" where
  "propose_sync_graph h q cards threshold origin =
     (let key = sync_dedupe_key h (gq_repo_id q) (gq_upstream_sha q) in
      if gq_behind q < threshold then Sync_Noop ''behind_threshold_not_met''
      else if list_ex (card_has_key key) cards then Sync_Noop ''existing_sync_graph''
      else Sync_Proposal (safe_string h ''dedupe_key'' key)
        (safe_string h ''title'' (''Maintenance sync proposal '' @ take 12 (gq_upstream_sha q)))
        (safe_event_payload h
           [(''repo_id'', JStr (gq_repo_id q)), (''upstream_sha'', JStr (gq_upstream_sha q)),
            (''behind'', JInt (gq_behind q)), (''ahead'', JInt (gq_ahead q)), (''dirty'', JBool (gq_dirty q)),
            (''local_carried'', JBool (gq_local_carried q)), (''ff_eligible'', JBool (gq_ff_eligible q)),
            (''cycle_safe_now'', JBool False), (''origin_channel'', JStr (short_text 240 origin)),
            (''return_target'', JStr (short_text 240 origin)), (''wants_subscription'', JBool True),
            (''intent_kind'', JStr ''remediation''), (''dry_run_only'', JBool True)]))"

end
