(* ===== verification/Maint_Runner.thy ===== *)
theory Maint_Runner
  imports Maint_Policy Loop_Supervisor Tables
begin

text \<open>
  The external maintenance runner (\<open>maintenance/runner.py\<close>), its durable cycle table
  (\<open>maintenance/durable.py\<close>) and its action adapters (\<open>maintenance/adapter.py\<close>).

  A configuration with a database path uses the one database of the state. \<open>clock\<close> is the
  \<open>time.time()\<close> of the status updates; \<open>now\<close> is the caller's. An executor that raises answers \<open>None\<close>;
  an evaluation whose exception escapes answers \<open>None\<close> too and leaves the database as it was then.
\<close>

subsection \<open>Action adapters\<close>

record exec_result =
  xr_ok :: bool
  xr_detail :: string

type_synonym 'w executor = "string \<Rightarrow> 'w \<Rightarrow> exec_result option \<times> 'w"

record fake_executor_state =
  fx_healthy :: bool
  fx_fail_times :: nat
  fx_calls :: "string list"

definition fake_restart :: "fake_executor_state executor" where
  "fake_restart unit x =
     (let calls = fx_calls x @ [short_text 240 unit] in
      (Some (if length calls \<le> fx_fail_times x then \<lparr>xr_ok = False, xr_detail = ''canary_unhealthy''\<rparr>
         else \<lparr>xr_ok = fx_healthy x, xr_detail = (if fx_healthy x then ''ok'' else ''unhealthy'')\<rparr>),
       x\<lparr>fx_calls := calls\<rparr>))"

definition unavailable_restart :: "'w executor" where
  "unavailable_restart unit w = (None, w)"

record action_request =
  aq_action_id :: string
  aq_key :: string
  aq_unit :: string
  aq_budget :: int

record action_receipt =
  ax_action_id :: string
  ax_key :: string
  ax_target :: string
  ax_status :: string
  ax_dry_run :: bool
  ax_fake :: bool
  ax_noop :: bool
  ax_applied :: bool
  ax_executed :: bool
  ax_attempts :: nat
  ax_noop_reason :: string
  ax_detail :: string

type_synonym 'w action_adapter = "action_request \<Rightarrow> real \<Rightarrow> 'w \<Rightarrow> action_receipt option \<times> 'w"

text \<open>A receipt for a request that was not acted upon.\<close>

definition noop_receipt :: "action_request \<Rightarrow> string \<Rightarrow> bool \<Rightarrow> string \<Rightarrow> action_receipt" where
  "noop_receipt q status fake reason =
     \<lparr>ax_action_id = short_text 240 (aq_action_id q), ax_key = short_text 240 (aq_key q),
      ax_target = short_text 240 (aq_unit q), ax_status = status, ax_dry_run = True, ax_fake = fake, ax_noop = True,
      ax_applied = False, ax_executed = False, ax_attempts = 0, ax_noop_reason = reason, ax_detail = []\<rparr>"

definition noop_consider :: "'w action_adapter" where
  "noop_consider q now w = (Some (noop_receipt q ''NOOP'' False ''noop_adapter''), w)"

definition applied_receipt :: "action_request \<Rightarrow> bool \<Rightarrow> nat \<Rightarrow> string \<Rightarrow> action_receipt" where
  "applied_receipt q fake attempts detail = (noop_receipt q ''GO'' fake [])
     \<lparr>ax_dry_run := False, ax_noop := False, ax_applied := True, ax_executed := True, ax_attempts := attempts,
      ax_detail := short_text 240 detail\<rparr>"

definition failed_receipt :: "action_request \<Rightarrow> bool \<Rightarrow> nat \<Rightarrow> action_receipt" where
  "failed_receipt q fake attempts = (noop_receipt q ''BLOCK'' fake [])
     \<lparr>ax_noop := False, ax_attempts := attempts, ax_detail := ''service_action_failed''\<rparr>"

text \<open>The attempts: at most \<open>n\<close> calls, up to the first that succeeds.\<close>

fun attempt_restarts :: "'w executor \<Rightarrow> string \<Rightarrow> nat \<Rightarrow> nat \<Rightarrow> 'w \<Rightarrow> (nat \<times> exec_result) option \<times> 'w" where
  "attempt_restarts ex unit 0 k w = (Some (k, \<lparr>xr_ok = False, xr_detail = ''not_attempted''\<rparr>), w)"
| "attempt_restarts ex unit (Suc n) k w =
     (case ex unit w of
        (None, w') \<Rightarrow> (None, w')
      | (Some r, w') \<Rightarrow>
          if xr_ok r \<or> n = 0 then (Some (Suc k, r), w') else attempt_restarts ex unit n (Suc k) w')"

text \<open>The memory of a \<open>FakeActionAdapter\<close>.\<close>

record fake_memory =
  fk_applied :: "action_receipt dict"
  fk_last_action :: "real option"

definition fresh_memory :: fake_memory where
  "fresh_memory = \<lparr>fk_applied = [], fk_last_action = None\<rparr>"

definition fake_consider ::
    "'w executor \<Rightarrow> real \<Rightarrow> action_request \<Rightarrow> real \<Rightarrow> fake_memory \<times> 'w \<Rightarrow> action_receipt option \<times> fake_memory \<times> 'w" where
  "fake_consider ex cooldown q now mw =
     (case mw of (m, w) \<Rightarrow>
        (case dict_get (fk_applied m) (aq_key q) of
           Some prior \<Rightarrow>
             (Some ((noop_receipt q ''NOOP'' True ''idempotent_replay'')
                \<lparr>ax_applied := ax_applied prior, ax_executed := ax_executed prior, ax_detail := ax_detail prior\<rparr>), m, w)
         | None \<Rightarrow>
             if 0 < cooldown \<and> (\<exists>t. fk_last_action m = Some t \<and> now - t < cooldown)
             then (Some (noop_receipt q ''NOOP'' True ''cooldown_active''), m, w)
             else if aq_budget q \<le> 0 then (Some (noop_receipt q ''NOOP'' True ''no_attempt_budget''), m, w)
             else (case attempt_restarts ex (aq_unit q) (nat (aq_budget q)) 0 w of
                (None, w') \<Rightarrow> (None, m, w')
              | (Some (k, r), w') \<Rightarrow>
                  if xr_ok r
                  then (let receipt = applied_receipt q True k (xr_detail r) in
                    (Some receipt, \<lparr>fk_applied = dict_set (aq_key q) receipt (fk_applied m), fk_last_action = Some now\<rparr>, w'))
                  else (Some (failed_receipt q True k), m\<lparr>fk_last_action := Some now\<rparr>, w'))))"

definition live_consider :: "'w executor \<Rightarrow> bool \<Rightarrow> 'w action_adapter" where
  "live_consider ex enabled q now w =
     (if \<not> enabled then (Some (noop_receipt q ''BLOCK'' False ''live_adapter_disabled''), w)
      else case ex (aq_unit q) w of
        (None, w') \<Rightarrow> (Some ((noop_receipt q ''BLOCK'' False ''live_execution_unavailable'')\<lparr>ax_attempts := 1\<rparr>), w')
      | (Some r, w') \<Rightarrow>
          (Some (if xr_ok r then applied_receipt q False 1 (xr_detail r) else failed_receipt q False 1), w'))"

subsection \<open>The durable cycle table\<close>

record cycle_row =
  cy_id :: nat
  cy_key :: string
  cy_status :: string
  cy_reason :: string
  cy_unit :: string
  cy_repo :: string
  cy_dry_run :: bool
  cy_fake :: bool
  cy_source_ref :: string
  cy_policy_ref :: string
  cy_created_at :: real
  cy_updated_at :: real

record maint_deadletter =
  my_id :: nat
  my_reason :: string
  my_unit :: string
  my_key :: string
  my_ref :: string
  my_created_at :: real

record maint_db =
  md_cycles :: "cycle_row table"
  md_state :: "string dict"
  md_deadletters :: "maint_deadletter table"

definition empty_maint_db :: maint_db where
  "empty_maint_db = \<lparr>md_cycles = empty_table, md_state = [], md_deadletters = empty_table\<rparr>"

definition build_cycle_key :: "(string \<Rightarrow> string) \<Rightarrow> string \<Rightarrow> string \<Rightarrow> string \<Rightarrow> string" where
  "build_cycle_key h repo unit cycle = fst (safe_durable_ref h []
     (''maint:cycle:'' @ str_or repo ''default'' @ '':'' @ str_or cycle ''nocycle'' @ '':'' @ str_or unit ''observe''))"

definition day_bucket :: "real \<Rightarrow> real \<times> real" where
  "day_bucket now = (let start = 86400 * of_int \<lfloor>now / 86400\<rfloor> in (start, start + 86400))"

text \<open>\<open>_row_to_receipt\<close>.\<close>

definition safe_cycle :: "(string \<Rightarrow> string) \<Rightarrow> cycle_row \<Rightarrow> cycle_row" where
  "safe_cycle h r = r
     \<lparr>cy_key := safe_string h ''idempotency_key'' (cy_key r), cy_status := safe_string h ''status'' (cy_status r),
      cy_reason := safe_string h ''reason'' (cy_reason r), cy_unit := safe_string h ''target_unit'' (cy_unit r),
      cy_repo := safe_string h ''repo_id'' (cy_repo r), cy_source_ref := safe_string h ''source_ref'' (cy_source_ref r),
      cy_policy_ref := safe_string h ''policy_ref'' (cy_policy_ref r)\<rparr>"

definition get_cycle :: "string \<Rightarrow> maint_db \<Rightarrow> cycle_row option" where
  "get_cycle key db = select_one (\<lambda>r. cy_key r = key) (md_cycles db)"

definition claimed_row ::
    "(string \<Rightarrow> string) \<Rightarrow> string \<Rightarrow> string \<Rightarrow> string \<Rightarrow> string \<Rightarrow> bool \<Rightarrow> bool \<Rightarrow> string \<Rightarrow> string \<Rightarrow> real \<Rightarrow> nat \<Rightarrow>
       cycle_row" where
  "claimed_row h key unit repo reason dry fake source policy now i =
     \<lparr>cy_id = i, cy_key = key, cy_status = ''attempt'', cy_reason = short_text 240 reason,
      cy_unit = short_text 240 unit, cy_repo = short_text 240 repo, cy_dry_run = dry, cy_fake = fake,
      cy_source_ref = fst (safe_durable_ref h [] source), cy_policy_ref = short_text 240 policy,
      cy_created_at = now, cy_updated_at = now\<rparr>"

text \<open>\<open>claim_cycle\<close>: whether the row is new, the row as it is read back, and the database.\<close>

definition claim_cycle ::
    "(string \<Rightarrow> string) \<Rightarrow> string \<Rightarrow> string \<Rightarrow> string \<Rightarrow> string \<Rightarrow> bool \<Rightarrow> bool \<Rightarrow> string \<Rightarrow> string \<Rightarrow> real \<Rightarrow> maint_db \<Rightarrow>
       bool \<times> cycle_row \<times> maint_db" where
  "claim_cycle h key unit repo reason dry fake source policy now db =
     (case get_cycle key db of
        Some row \<Rightarrow> (False, safe_cycle h row, db)
      | None \<Rightarrow>
          (case insert_row (claimed_row h key unit repo reason dry fake source policy now) (md_cycles db) of
             (row, cycles) \<Rightarrow> (True, safe_cycle h row, db\<lparr>md_cycles := cycles\<rparr>)))"

definition update_cycle_status :: "real \<Rightarrow> string \<Rightarrow> string \<Rightarrow> string \<Rightarrow> maint_db \<Rightarrow> maint_db" where
  "update_cycle_status clock key status reason db = db
     \<lparr>md_cycles := update_where (\<lambda>r. cy_key r = key)
        (\<lambda>r. r\<lparr>cy_status := short_text 32 status, cy_reason := short_text 240 reason, cy_updated_at := clock\<rparr>)
        (md_cycles db)\<rparr>"

definition applied_cycles :: "string \<Rightarrow> string \<Rightarrow> maint_db \<Rightarrow> cycle_row list" where
  "applied_cycles repo unit db = select_where (\<lambda>r. cy_repo r = short_text 240 repo \<and>
     cy_unit r = short_text 240 unit \<and> cy_status r = ''applied'') (md_cycles db)"

definition count_cycles_today :: "string \<Rightarrow> string \<Rightarrow> real \<Rightarrow> real \<Rightarrow> maint_db \<Rightarrow> nat" where
  "count_cycles_today repo unit day_start day_end db =
     length (filter (\<lambda>r. day_start \<le> cy_created_at r \<and> cy_created_at r < day_end) (applied_cycles repo unit db))"

definition last_applied_at :: "string \<Rightarrow> string \<Rightarrow> maint_db \<Rightarrow> real option" where
  "last_applied_at repo unit db =
     (case map cy_created_at (applied_cycles repo unit db) of [] \<Rightarrow> None | t # ts \<Rightarrow> Some (fold max ts t))"

definition degraded_key :: "string \<Rightarrow> string \<Rightarrow> string" where
  "degraded_key repo unit =
     (if repo \<noteq> [] \<or> unit \<noteq> []
      then ''degraded:'' @ str_or (short_text 240 repo) ''default'' @ '':'' @ str_or (short_text 240 unit) ''observe''
      else ''degraded'')"

definition set_degraded :: "bool \<Rightarrow> string \<Rightarrow> string \<Rightarrow> maint_db \<Rightarrow> maint_db" where
  "set_degraded v repo unit db = db\<lparr>md_state := dict_set (degraded_key repo unit) (if v then ''1'' else ''0'') (md_state db)\<rparr>"

definition is_degraded :: "string \<Rightarrow> string \<Rightarrow> maint_db \<Rightarrow> bool" where
  "is_degraded repo unit db \<longleftrightarrow> dict_get (md_state db) (degraded_key repo unit) = Some ''1''"

definition write_deadletter :: "(string \<Rightarrow> string) \<Rightarrow> real \<Rightarrow> string \<Rightarrow> string \<Rightarrow> string \<Rightarrow> string \<Rightarrow> maint_db \<Rightarrow> maint_db" where
  "write_deadletter h clock reason unit key ref db = db
     \<lparr>md_deadletters := snd (insert_row (\<lambda>i.
        \<lparr>my_id = i, my_reason = short_text 240 reason, my_unit = short_text 240 unit, my_key = short_text 240 key,
         my_ref = fst (safe_durable_ref h [] ref), my_created_at = clock\<rparr>) (md_deadletters db))\<rparr>"

subsection \<open>The configuration of the runner\<close>

text \<open>
  The constructors \<open>LoopEvent(**event)\<close> and \<open>LoopPolicy(**policy)\<close> accept values of any type; they are the
  caller's, and a fixture is what they built, or that one of them raised.
\<close>

datatype loop_fixture = Fixture_Raises | Fixture loop_event loop_policy_arg

record runner_config =
  mc_mode :: string
  mc_kill_switch :: bool
  mc_allowed_services :: "string list"
  mc_trust_grants :: "json dict list"
  mc_grants_malformed :: bool
  mc_host_id :: string
  mc_requested_action :: string
  mc_target_unit :: string
  mc_attempt_budget :: int
  mc_cooldown_seconds :: real
  mc_allow_fake_execute :: bool
  mc_loop_fixture :: "loop_fixture option"
  mc_error :: string
  mc_repo_id :: string
  mc_cycle_ref :: string
  mc_db_path :: string
  mc_activity_active :: bool
  mc_reviewed_summary :: string
  mc_require_no_workers :: bool
  mc_require_reviewed_go :: bool
  mc_max_cycles :: int
  mc_min_seconds :: int
  mc_quiet_enabled :: bool
  mc_quiet_start :: int
  mc_quiet_end :: int

definition default_runner_config :: runner_config where
  "default_runner_config =
     \<lparr>mc_mode = ''request_only'', mc_kill_switch = False, mc_allowed_services = [], mc_trust_grants = [],
      mc_grants_malformed = False, mc_host_id = [], mc_requested_action = ''observe'', mc_target_unit = [],
      mc_attempt_budget = 1, mc_cooldown_seconds = 0, mc_allow_fake_execute = False, mc_loop_fixture = None,
      mc_error = [], mc_repo_id = [], mc_cycle_ref = [], mc_db_path = [], mc_activity_active = False,
      mc_reviewed_summary = [], mc_require_no_workers = True, mc_require_reviewed_go = True, mc_max_cycles = 2,
      mc_min_seconds = 1800, mc_quiet_enabled = False, mc_quiet_start = 0, mc_quiet_end = 0\<rparr>"

definition valid_grants :: "json option \<Rightarrow> json dict list" where
  "valid_grants v =
     (case v of Some (JArr xs) \<Rightarrow> List.map_filter (\<lambda>x. case x of JObj d \<Rightarrow> Some d | _ \<Rightarrow> None) xs | _ \<Rightarrow> [])"

text \<open>An absent budget is one attempt.\<close>

definition strict_budget :: "json option \<Rightarrow> int" where
  "strict_budget v = (case v of None \<Rightarrow> 1 | Some (JInt i) \<Rightarrow> max 0 i | _ \<Rightarrow> 0)"

definition strict_cooldown :: "json option \<Rightarrow> real" where
  "strict_cooldown v =
     (case v of
        Some (JInt i) \<Rightarrow> if i < 0 then 0 else of_int i
      | Some (JFloat r _) \<Rightarrow> if r < 0 then 0 else r
      | _ \<Rightarrow> 0)"

definition strict_hour :: "json option \<Rightarrow> int" where
  "strict_hour v = (case v of Some (JInt i) \<Rightarrow> max 0 (min 23 i) | _ \<Rightarrow> 0)"

definition dict_or_empty :: "json option \<Rightarrow> json dict" where
  "dict_or_empty v = (case v of Some (JObj d) \<Rightarrow> d | _ \<Rightarrow> [])"

text \<open>
  \<open>load_runner_config\<close>: \<open>host\<close> is the host binding of the file. \<open>Inl\<close> is the exception of the policy
  loader.
\<close>

definition load_runner_config ::
    "string \<Rightarrow> (json dict \<Rightarrow> loop_fixture) \<Rightarrow> policy_file \<Rightarrow> py_error + runner_config" where
  "load_runner_config host fixture file =
     (case file of
        Parsed_File (JObj raw) \<Rightarrow>
          (case load_maintenance_policy file of
             Inl e \<Rightarrow> Inl e
           | Inr p \<Rightarrow>
               (let activity = dict_or_empty (dict_get raw ''activity'');
                    quiet = dict_or_empty (dict_get raw ''quiet_hours'') in
                Inr \<lparr>mc_mode = mp_mode p, mc_kill_switch = mp_kill_switch p,
                  mc_allowed_services = mp_allowed_services p,
                  mc_trust_grants = valid_grants (dict_get raw ''trust_grants''),
                  mc_grants_malformed = \<not> (case dict_get raw ''trust_grants'' of None \<Rightarrow> True
                    | Some v \<Rightarrow> validate_trust_grants_shape v),
                  mc_host_id = short_text 240 (str_or (get_str raw ''host_id'') host),
                  mc_requested_action =
                    (if value_at raw ''requested_action'' = JStr ''service_cycle'' then ''service_cycle'' else ''observe''),
                  mc_target_unit = short_text 240 (get_str raw ''target_unit''),
                  mc_attempt_budget = strict_budget (dict_get raw ''attempt_budget''),
                  mc_cooldown_seconds = strict_cooldown (dict_get raw ''cooldown_seconds''),
                  mc_allow_fake_execute = (value_at raw ''allow_fake_execute'' = JBool True),
                  mc_loop_fixture = (case dict_or_empty (dict_get raw ''loop'') of [] \<Rightarrow> None | d \<Rightarrow> Some (fixture d)),
                  mc_error = mp_error p, mc_repo_id = short_text 240 (get_str raw ''repo_id''),
                  mc_cycle_ref = short_text 240 (get_str raw ''cycle_ref''),
                  mc_db_path = short_text 4000 (get_str raw ''db_path''),
                  mc_activity_active = (value_at activity ''active'' = JBool True),
                  mc_reviewed_summary = short_text 2000 (get_str raw ''reviewed_summary''),
                  mc_require_no_workers = mp_require_no_workers p,
                  mc_require_reviewed_go = mp_require_reviewed_go p, mc_max_cycles = mp_max_cycles p,
                  mc_min_seconds = mp_min_seconds p,
                  mc_quiet_enabled = (value_at quiet ''enabled'' = JBool True),
                  mc_quiet_start = strict_hour (dict_get quiet ''start_hour''),
                  mc_quiet_end = strict_hour (dict_get quiet ''end_hour'')\<rparr>))
      | _ \<Rightarrow> Inr (default_runner_config\<lparr>mc_kill_switch := True, mc_error := ''malformed_config''\<rparr>))"

subsection \<open>Reports\<close>

definition HARD_ATTEMPT_CAP :: int where
  "HARD_ATTEMPT_CAP = 3"

definition has_service_cycle_grant :: "runner_config \<Rightarrow> real \<Rightarrow> bool" where
  "has_service_cycle_grant c now \<longleftrightarrow>
     list_ex (\<lambda>g. is_valid_service_cycle_grant g (mc_target_unit c) (mc_allowed_services c) (mc_host_id c) now)
       (mc_trust_grants c)"

definition status_from_verdict :: "string \<Rightarrow> string \<Rightarrow> string" where
  "status_from_verdict action verdict =
     (if action = ''noop'' then ''noop''
      else if verdict \<in> {''GO'', ''BLOCK'', ''NEED_MORE''} then verdict else ''noop'')"

text \<open>
  The loop evaluation embedded in the configuration: over an empty ledger, with no adapter and no
  registry. \<open>clock\<close> stamps an event without a time.
\<close>

definition loop_eval_failed :: "json dict" where
  "loop_eval_failed = [(''status'', JStr ''noop''), (''action'', JStr ''noop''), (''reason'', JStr ''loop_eval_failed''),
     (''verdict'', JStr [])]"

definition loop_summary :: "(string \<Rightarrow> string) \<Rightarrow> real \<Rightarrow> runner_config \<Rightarrow> json dict option" where
  "loop_summary h clock c =
     (case mc_loop_fixture c of
        None \<Rightarrow> None
      | Some Fixture_Raises \<Rightarrow> Some loop_eval_failed
      | Some (Fixture e arg) \<Rightarrow>
          (case evaluate_loop_event h None None arg clock e
              (\<lparr>ls_receipts = [], ls_roadmap = \<lparr>as_ledger = [], as_applied = [], as_board = ()\<rparr>\<rparr>) of
             Inl _ \<Rightarrow> Some loop_eval_failed
           | Inr (d, _) \<Rightarrow>
               (let r = build_loop_report h d in
                Some [(''status'', JStr (status_from_verdict (lo_action r) (lo_verdict r))),
                      (''action'', JStr (lo_action r)), (''reason'', JStr (lo_reason r)),
                      (''verdict'', JStr (lo_verdict r)), (''idempotency_key'', JStr (lo_key r)),
                      (''policy_resolution_ref'', JStr (lr_policy_ref (lo_receipt r))),
                      (''dry_run'', JBool (lo_dry_run r))])))"

record runner_gates =
  gt_kill_clear :: bool
  gt_mode :: bool
  gt_allowlisted :: bool
  gt_trust_grant :: bool
  gt_no_workers :: bool
  gt_reviewed_go :: bool
  gt_under_cap :: "bool option"
  gt_interval :: "bool option"
  gt_quiet :: "bool option"

definition gates_json :: "runner_gates \<Rightarrow> json" where
  "gates_json g = JObj
     ([(''kill_switch_clear'', JBool (gt_kill_clear g)), (''mode_guarded_cycle'', JBool (gt_mode g)),
       (''service_allowlisted'', JBool (gt_allowlisted g)), (''trust_grant'', JBool (gt_trust_grant g)),
       (''no_active_workers'', JBool (gt_no_workers g)), (''reviewed_go'', JBool (gt_reviewed_go g)),
       (''fake_executor_only'', JBool True)] @
      List.map_filter (\<lambda>(k, v). map_option (\<lambda>b. (k, JBool b)) v)
        [(''cycles_under_cap'', gt_under_cap g), (''min_interval_elapsed'', gt_interval g),
         (''quiet_hours_clear'', gt_quiet g)])"

definition receipt_dict :: "action_receipt \<Rightarrow> json dict" where
  "receipt_dict x =
     [(''action_id'', JStr (ax_action_id x)), (''idempotency_key'', JStr (ax_key x)),
      (''target'', JStr (ax_target x)), (''status'', JStr (ax_status x)), (''dry_run'', JBool (ax_dry_run x)),
      (''fake'', JBool (ax_fake x)), (''noop'', JBool (ax_noop x)), (''applied'', JBool (ax_applied x)),
      (''executed'', JBool (ax_executed x)), (''attempts'', JInt (int (ax_attempts x))),
      (''noop_reason'', JStr (ax_noop_reason x)), (''detail'', JStr (ax_detail x))]"

text \<open>What a report is built from; \<open>_base_report\<close> takes the rest from the configuration.\<close>

record report_parts =
  rx_status :: string
  rx_reason :: string
  rx_dry_run :: bool
  rx_proposed :: "json list"
  rx_executed :: "json list"
  rx_attempts :: nat
  rx_receipt :: action_receipt

text \<open>\<open>_synth_receipt\<close> for a path without an action.\<close>

definition synth_receipt :: "runner_config \<Rightarrow> string \<Rightarrow> string \<Rightarrow> string \<Rightarrow> action_receipt" where
  "synth_receipt c key status reason =
     \<lparr>ax_action_id = [], ax_key = short_text 240 key, ax_target = short_text 240 (mc_target_unit c),
      ax_status = status, ax_dry_run = True, ax_fake = False, ax_noop = True, ax_applied = False,
      ax_executed = False, ax_attempts = 0, ax_noop_reason = reason, ax_detail = []\<rparr>"

definition base_report ::
    "(string \<Rightarrow> string) \<Rightarrow> runner_config \<Rightarrow> runner_gates \<Rightarrow> json dict option \<Rightarrow> string \<Rightarrow> report_parts \<Rightarrow> json dict" where
  "base_report h c g loop key x = safe_event_payload h
     [(''success'', JBool True), (''status'', JStr (rx_status x)), (''reason'', JStr (rx_reason x)),
      (''mode'', JStr (short_text 240 (mc_mode c))), (''dry_run'', JBool (rx_dry_run x)),
      (''actions'', JObj [(''proposed'', JArr (rx_proposed x)), (''executed'', JArr (rx_executed x))]),
      (''service_action'', JObj
        [(''requested'', JBool (mc_requested_action c = ''service_cycle'')),
         (''target'', JStr (short_text 240 (mc_target_unit c))), (''attempts'', JInt (int (rx_attempts x))),
         (''attempt_budget'', JInt (min (mc_attempt_budget c) HARD_ATTEMPT_CAP)),
         (''executed'', JBool (rx_executed x \<noteq> [])), (''dry_run'', JBool (rx_dry_run x))]),
      (''receipt'', JObj (receipt_dict (rx_receipt x))),
      (''loop'', case loop of None \<Rightarrow> JNull | Some l \<Rightarrow> JObj l), (''safety_gates'', gates_json g),
      (''policy_refs'', JObj
        [(''maintenance_policy'', JStr ''maintenance.json''),
         (''loop_policy_resolution_ref'', case loop of None \<Rightarrow> JStr [] | Some l \<Rightarrow>
            (case dict_get l ''policy_resolution_ref'' of None \<Rightarrow> JStr [] | Some v \<Rightarrow> v))]),
      (''idempotency_key'', JStr key)]"

text \<open>A report without an action, of the given status, reason and proposals.\<close>

definition idle_report :: "runner_config \<Rightarrow> string \<Rightarrow> string \<Rightarrow> string \<Rightarrow> json list \<Rightarrow> report_parts" where
  "idle_report c key status reason proposed =
     \<lparr>rx_status = status, rx_reason = reason, rx_dry_run = True, rx_proposed = proposed, rx_executed = [],
      rx_attempts = 0, rx_receipt = synth_receipt c key status reason\<rparr>"

definition PRIOR_CYCLE_STATUS_MAP :: "(string \<times> string \<times> bool) dict" where
  "PRIOR_CYCLE_STATUS_MAP =
     [(''applied'', ''GO'', ''duplicate_cycle_applied'', True), (''failed'', ''BLOCK'', ''service_action_failed'', False),
      (''degraded'', ''BLOCK'', ''post_smoke_failed'', False), (''refused'', ''BLOCK'', [], False),
      (''attempt'', ''BLOCK'', ''cycle_in_progress'', False)]"

definition prior_cycle_report :: "runner_config \<Rightarrow> string \<Rightarrow> cycle_row \<Rightarrow> json list \<Rightarrow> report_parts" where
  "prior_cycle_report c key row proposed =
     (let (status, reason0, applied) =
            (case dict_get PRIOR_CYCLE_STATUS_MAP (cy_status row) of
               Some m \<Rightarrow> m
             | None \<Rightarrow> (''BLOCK'', str_or (cy_reason row) ''duplicate_cycle_claim'', False));
          reason = (if cy_status row = ''refused'' then str_or (cy_reason row) ''duplicate_cycle_refused'' else reason0);
          x = idle_report c key status reason proposed
      in x\<lparr>rx_receipt := (rx_receipt x)\<lparr>ax_noop_reason := reason, ax_applied := applied\<rparr>\<rparr>)"

definition service_restart_entry :: "string \<Rightarrow> json" where
  "service_restart_entry unit = JObj [(''kind'', JStr ''service_restart''), (''target'', JStr unit)]"

text \<open>\<open>_report_from_receipt\<close>.\<close>

definition receipt_report :: "action_receipt \<Rightarrow> json list \<Rightarrow> report_parts" where
  "receipt_report x proposed =
     (let parts = (\<lambda>status reason dry executed.
        \<lparr>rx_status = status, rx_reason = reason, rx_dry_run = dry, rx_proposed = proposed, rx_executed = executed,
         rx_attempts = ax_attempts x, rx_receipt = x\<rparr>) in
      if ax_noop x then parts (ax_status x) (str_or (ax_noop_reason x) ''noop'') True []
      else if ax_applied x then parts ''GO'' ''service_action_applied'' False
        [JObj [(''kind'', JStr ''service_restart''), (''target'', JStr (ax_target x)), (''result'', JStr ''ok'')]]
      else parts ''BLOCK'' ''service_action_failed'' True [])"

subsection \<open>The evaluation\<close>

text \<open>
  What surrounds an evaluation: the readings of the kill-switch and activity providers, at the start and
  just before the effect (\<open>None\<close> without a provider), the post-smoke provider and the host's hour.
\<close>

record runner_env =
  en_kill :: "(bool \<times> bool) option"
  en_active :: "(bool \<times> bool) option"
  en_smoke :: "bool option"
  en_hour :: "int option"

record 'w maint_state =
  ms_db :: maint_db
  ms_world :: 'w

definition kill_readings :: "runner_config \<Rightarrow> runner_env \<Rightarrow> bool \<times> bool" where
  "kill_readings c en = (case en_kill en of None \<Rightarrow> (mc_kill_switch c, mc_kill_switch c) | Some r \<Rightarrow> r)"

definition active_readings :: "runner_config \<Rightarrow> runner_env \<Rightarrow> bool \<times> bool" where
  "active_readings c en = (case en_active en of None \<Rightarrow> (mc_activity_active c, mc_activity_active c) | Some r \<Rightarrow> r)"

definition has_reviewed_go :: "runner_config \<Rightarrow> bool" where
  "has_reviewed_go c \<longleftrightarrow>
     (if \<not> mc_require_reviewed_go c then True
      else let parsed = parse_verdict_summary (mc_reviewed_summary c) [] in
        pv_verdict parsed = ''GO'' \<and> pv_confidence parsed = ''explicit'')"

definition in_quiet_hours :: "int \<Rightarrow> int \<Rightarrow> int \<Rightarrow> bool" where
  "in_quiet_hours hour start stop =
     (if start = stop then False
      else if start < stop then start \<le> hour \<and> hour < stop
      else start \<le> hour \<or> hour < stop)"

definition service_requested :: "runner_config \<Rightarrow> bool" where
  "service_requested c \<longleftrightarrow> mc_requested_action c = ''service_cycle''"

definition initial_gates :: "runner_config \<Rightarrow> runner_env \<Rightarrow> real \<Rightarrow> runner_gates" where
  "initial_gates c en now =
     \<lparr>gt_kill_clear = (\<not> fst (kill_readings c en)), gt_mode = (mc_mode c = ''guarded_cycle''),
      gt_allowlisted = (mc_target_unit c \<noteq> [] \<and> mc_target_unit c \<in> set (mc_allowed_services c)),
      gt_trust_grant = has_service_cycle_grant c now,
      gt_no_workers = (\<not> (mc_require_no_workers c \<and> fst (active_readings c en))),
      gt_reviewed_go = has_reviewed_go c, gt_under_cap = None, gt_interval = None, gt_quiet = None\<rparr>"

definition runner_key :: "(string \<Rightarrow> string) \<Rightarrow> runner_config \<Rightarrow> string" where
  "runner_key h c = fst (safe_durable_ref h [] (''maint:runner:'' @ mc_mode c @ '':'' @ mc_requested_action c @ '':'' @
     str_or (mc_target_unit c) ''observe''))"

definition runner_action_id :: "(string \<Rightarrow> string) \<Rightarrow> runner_config \<Rightarrow> string" where
  "runner_action_id h c =
     fst (safe_durable_ref h [] (''action:service_cycle:'' @ str_or (mc_target_unit c) ''observe''))"

definition config_cycle_key :: "(string \<Rightarrow> string) \<Rightarrow> runner_config \<Rightarrow> string" where
  "config_cycle_key h c = build_cycle_key h (mc_repo_id c) (mc_target_unit c) (mc_cycle_ref c)"

definition claim_config_cycle ::
    "(string \<Rightarrow> string) \<Rightarrow> runner_config \<Rightarrow> string \<Rightarrow> bool \<Rightarrow> real \<Rightarrow> maint_db \<Rightarrow> bool \<times> cycle_row \<times> maint_db" where
  "claim_config_cycle h c reason fake now db = claim_cycle h (config_cycle_key h c) (mc_target_unit c) (mc_repo_id c)
     reason True fake [] ''maintenance.json'' now db"

text \<open>The inner \<open>block\<close>: a requested cycle is claimed and refused, unless its key is already taken.\<close>

definition refuse ::
    "(string \<Rightarrow> string) \<Rightarrow> real \<Rightarrow> runner_config \<Rightarrow> string \<Rightarrow> string \<Rightarrow> real \<Rightarrow> maint_db \<Rightarrow> report_parts \<times> maint_db" where
  "refuse h clock c key reason now db =
     (if service_requested c \<and> mc_db_path c \<noteq> []
      then (case claim_config_cycle h c reason False now db of
          (False, prior, db') \<Rightarrow> (prior_cycle_report c key prior [], db')
        | (True, _, db') \<Rightarrow>
            (idle_report c key ''BLOCK'' reason [],
             update_cycle_status clock (config_cycle_key h c) ''refused'' reason db'))
      else (idle_report c key ''BLOCK'' reason [], db))"

text \<open>The refusals that precede the choice between observing and a service cycle.\<close>

definition early_refusal :: "runner_config \<Rightarrow> runner_gates \<Rightarrow> (runner_gates \<times> string) option" where
  "early_refusal c g =
     (if mc_error c \<noteq> [] then Some (g\<lparr>gt_kill_clear := False\<rparr>, ''malformed_config'')
      else if mc_grants_malformed c then Some (g\<lparr>gt_trust_grant := False\<rparr>, ''malformed_trust_grants'')
      else if \<not> gt_kill_clear g then Some (g, ''kill_switch'')
      else None)"

definition observe_report :: "runner_config \<Rightarrow> string \<Rightarrow> json dict option \<Rightarrow> report_parts" where
  "observe_report c key loop =
     (let field = (\<lambda>k dflt. case loop of None \<Rightarrow> dflt | Some l \<Rightarrow> get_str l k) in
      idle_report c key (field ''status'' ''noop'') (field ''reason'' ''no_request'')
        (case loop of None \<Rightarrow> []
         | Some l \<Rightarrow> [JObj [(''kind'', JStr ''loop_proposal''), (''action'', JStr (get_str l ''action''))]]))"

text \<open>The caps, which need a database; then the quiet hours.\<close>

definition history_gate :: "runner_config \<Rightarrow> real \<Rightarrow> maint_db \<Rightarrow> runner_gates \<Rightarrow> runner_gates \<times> string option" where
  "history_gate c now db g =
     (if mc_db_path c = [] then (g, None)
      else let (day_start, day_end) = day_bucket now;
        under = int (count_cycles_today (mc_repo_id c) (mc_target_unit c) day_start day_end db) < mc_max_cycles c;
        g1 = g\<lparr>gt_under_cap := Some under\<rparr> in
      if \<not> under then (g1, Some ''max_cycles_exhausted'')
      else let elapsed = (case last_applied_at (mc_repo_id c) (mc_target_unit c) db of
             None \<Rightarrow> True | Some t \<Rightarrow> of_int (mc_min_seconds c) \<le> now - t) in
        (g1\<lparr>gt_interval := Some elapsed\<rparr>, if elapsed then None else Some ''min_interval_not_elapsed''))"

definition quiet_gate :: "runner_config \<Rightarrow> runner_env \<Rightarrow> runner_gates \<Rightarrow> runner_gates \<times> string option" where
  "quiet_gate c en g =
     (if \<not> mc_quiet_enabled c then (g, None)
      else case en_hour en of
        None \<Rightarrow> (g\<lparr>gt_quiet := Some False\<rparr>, Some ''quiet_hours_clock_missing'')
      | Some hour \<Rightarrow>
          let clear = \<not> in_quiet_hours hour (mc_quiet_start c) (mc_quiet_end c) in
          (g\<lparr>gt_quiet := Some clear\<rparr>, if clear then None else Some ''quiet_hours_active''))"

definition service_gate ::
    "runner_config \<Rightarrow> runner_env \<Rightarrow> real \<Rightarrow> maint_db \<Rightarrow> runner_gates \<Rightarrow> runner_gates \<times> string option" where
  "service_gate c en now db g =
     (if mc_mode c \<noteq> ''guarded_cycle'' then (g, Some ''mode_not_guarded_cycle'')
      else if \<not> gt_allowlisted g then (g, Some ''service_not_allowlisted'')
      else if \<not> gt_trust_grant g then (g, Some ''no_trust_grant'')
      else if \<not> gt_no_workers g then (g, Some ''active_workers_present'')
      else case history_gate c now db g of
        (g1, Some reason) \<Rightarrow> (g1, Some reason)
      | (g1, None) \<Rightarrow>
          (case quiet_gate c en g1 of
             (g2, Some reason) \<Rightarrow> (g2, Some reason)
           | (g2, None) \<Rightarrow> (g2, if \<not> gt_reviewed_go g2 then Some ''no_reviewed_go'' else None)))"

text \<open>The recheck just before the effect, and the circuit breaker.\<close>

definition effect_refusal :: "runner_config \<Rightarrow> runner_env \<Rightarrow> maint_db \<Rightarrow> string option" where
  "effect_refusal c en db =
     (if snd (kill_readings c en) then Some ''kill_switch''
      else if mc_require_no_workers c \<and> snd (active_readings c en) then Some ''active_workers_present''
      else if mc_db_path c \<noteq> [] \<and> is_degraded (mc_repo_id c) (mc_target_unit c) db then Some ''degraded_state_open''
      else None)"

text \<open>\<open>_resolve_adapter\<close>: a fake adapter is constructed anew, with an empty memory.\<close>

definition resolve_adapter ::
    "'w action_adapter option \<Rightarrow> 'w executor option \<Rightarrow> runner_config \<Rightarrow> 'w action_adapter option" where
  "resolve_adapter adapter ex c =
     (case adapter of
        Some a \<Rightarrow> Some a
      | None \<Rightarrow>
          (case ex of
             Some e \<Rightarrow>
               if mc_allow_fake_execute c
               then Some (\<lambda>q now w. case fake_consider e (mc_cooldown_seconds c) q now (fresh_memory, w) of
                 (r, _, w') \<Rightarrow> (r, w'))
               else None
           | None \<Rightarrow> None))"

definition runner_request :: "(string \<Rightarrow> string) \<Rightarrow> runner_config \<Rightarrow> action_request" where
  "runner_request h c = \<lparr>aq_action_id = runner_action_id h c, aq_key = runner_key h c, aq_unit = mc_target_unit c,
     aq_budget = min (mc_attempt_budget c) HARD_ATTEMPT_CAP\<rparr>"

text \<open>The status of the claimed cycle after the adapter, and the report.\<close>

definition settle ::
    "(string \<Rightarrow> string) \<Rightarrow> real \<Rightarrow> runner_config \<Rightarrow> runner_env \<Rightarrow> action_receipt \<Rightarrow> json list \<Rightarrow> maint_db \<Rightarrow>
       report_parts \<times> maint_db" where
  "settle h clock c en x proposed db =
     (let parts = receipt_report x proposed; key = config_cycle_key h c;
          healthy = (case en_smoke en of None \<Rightarrow> True | Some b \<Rightarrow> b) in
      if mc_db_path c = [] then (parts, db)
      else if ax_applied x then
        (if healthy then (parts, update_cycle_status clock key ''applied'' ''service_action_applied'' db)
         else
           (parts\<lparr>rx_status := ''BLOCK'', rx_reason := ''post_smoke_failed'', rx_dry_run := True,
              rx_executed := map (safe_value h ''executed'') (rx_executed parts)\<rparr>,
            write_deadletter h clock ''post_smoke_failed'' (mc_target_unit c) key
              (str_or (ax_detail x) ''post_smoke_unhealthy'')
              (set_degraded True (mc_repo_id c) (mc_target_unit c)
                (update_cycle_status clock key ''degraded'' ''post_smoke_failed'' db))))
      else if ax_noop x then (parts, update_cycle_status clock key ''refused'' (str_or (ax_noop_reason x) ''noop'') db)
      else (parts, update_cycle_status clock key ''failed'' ''service_action_failed'' db))"

text \<open>From the claim on: \<open>None\<close> is the exception of an adapter, after the claim.\<close>

definition guarded_effect ::
    "(string \<Rightarrow> string) \<Rightarrow> real \<Rightarrow> 'w action_adapter option \<Rightarrow> runner_config \<Rightarrow> runner_env \<Rightarrow> real \<Rightarrow> 'w maint_state \<Rightarrow>
       report_parts option \<times> 'w maint_state" where
  "guarded_effect h clock adapter c en now s =
     (let key = runner_key h c; db_key = config_cycle_key h c; db = ms_db s;
          durable_cycle = mc_db_path c \<noteq> [];
          mark = (\<lambda>status reason d. if durable_cycle then update_cycle_status clock db_key status reason d else d) in
      case effect_refusal c en db of
        Some reason \<Rightarrow>
          (case refuse h clock c key reason now (mark ''refused'' reason db) of
             (x, db') \<Rightarrow> (Some x, s\<lparr>ms_db := db'\<rparr>))
      | None \<Rightarrow>
          (let proposed = [service_restart_entry (short_text 240 (mc_target_unit c))] in
           case adapter of
             None \<Rightarrow>
               (let x = idle_report c key ''GO'' ''eligible_proposal'' proposed in
                (Some (x\<lparr>rx_receipt := (rx_receipt x)
                   \<lparr>ax_action_id := runner_action_id h c, ax_noop_reason := ''proposal_only''\<rparr>\<rparr>),
                 s\<lparr>ms_db := mark ''refused'' ''proposal_only'' db\<rparr>))
           | Some consider \<Rightarrow>
               (case consider (runner_request h c) now (ms_world s) of
                  (None, w) \<Rightarrow> (None, s\<lparr>ms_world := w\<rparr>)
                | (Some receipt, w) \<Rightarrow>
                    (case settle h clock c en receipt proposed db of
                       (x, db') \<Rightarrow> (Some x, \<lparr>ms_db = db', ms_world = w\<rparr>)))))"

text \<open>\<open>evaluate_runner\<close>.\<close>

definition evaluate_runner ::
    "(string \<Rightarrow> string) \<Rightarrow> real \<Rightarrow> 'w action_adapter option \<Rightarrow> 'w executor option \<Rightarrow> runner_config \<Rightarrow> runner_env \<Rightarrow>
       real \<Rightarrow> 'w maint_state \<Rightarrow> json dict option \<times> 'w maint_state" where
  "evaluate_runner h clock adapter ex c en now s =
     (let key = runner_key h c; loop = loop_summary h clock c; g0 = initial_gates c en now;
          report = (\<lambda>g x. base_report h c g loop key x);
          block = (\<lambda>g reason. case refuse h clock c key reason now (ms_db s) of
             (x, db) \<Rightarrow> (Some (report g x), s\<lparr>ms_db := db\<rparr>)) in
      case early_refusal c g0 of
        Some (g, reason) \<Rightarrow> block g reason
      | None \<Rightarrow>
          if \<not> service_requested c then (Some (report g0 (observe_report c key loop)), s)
          else (case service_gate c en now (ms_db s) g0 of
              (g, Some reason) \<Rightarrow> block g reason
            | (g, None) \<Rightarrow>
                if mc_db_path c = []
                then (case guarded_effect h clock (resolve_adapter adapter ex c) c en now s of
                    (x, s') \<Rightarrow> (map_option (report g) x, s'))
                else (case claim_config_cycle h c ''eligible'' True now (ms_db s) of
                    (False, prior, _) \<Rightarrow>
                      (Some (report g (prior_cycle_report c key prior
                         [service_restart_entry (short_text 240 (mc_target_unit c))])), s)
                  | (True, _, db) \<Rightarrow>
                      (case guarded_effect h clock (resolve_adapter adapter ex c) c en now (s\<lparr>ms_db := db\<rparr>) of
                         (x, s') \<Rightarrow> (map_option (report g) x, s')))))"

text \<open>\<open>run_runner_evaluate\<close>: the command passes no executor, no adapter, no clock; its time is 0.\<close>

definition run_runner_evaluate ::
    "(string \<Rightarrow> string) \<Rightarrow> real \<Rightarrow> runner_config \<Rightarrow> unit maint_state \<Rightarrow> (nat \<times> json dict option) \<times> unit maint_state" where
  "run_runner_evaluate h clock c s =
     (case evaluate_runner h clock None None c
         \<lparr>en_kill = None, en_active = None, en_smoke = None, en_hour = None\<rparr> 0 s of
        (report, s') \<Rightarrow> ((if mc_error c \<noteq> [] then 2 else 0, report), s'))"

end
