(* ===== verification/Maint_Props.thy ===== *)
theory Maint_Props
  imports Maint_Runner
begin

text \<open>
  What the maintenance runner guarantees: the order of its gates, its cycle table as a register of
  keys that are used once, the caps and the spacing of the applied cycles, and the grants it accepts.
\<close>

subsection \<open>The rows of the cycle table\<close>

definition cycle_rows :: "maint_db \<Rightarrow> cycle_row list" where
  "cycle_rows db = rows (md_cycles db)"

definition cycle_keys :: "maint_db \<Rightarrow> string set" where
  "cycle_keys db = cy_key ` set (cycle_rows db)"

definition new_cycle :: "(string \<Rightarrow> string) \<Rightarrow> runner_config \<Rightarrow> real \<Rightarrow> cycle_row \<Rightarrow> bool" where
  "new_cycle h c now r \<longleftrightarrow> cy_key r = config_cycle_key h c \<and> cy_unit r = short_text 240 (mc_target_unit c) \<and>
     cy_repo r = short_text 240 (mc_repo_id c) \<and> cy_created_at r = now"

text \<open>The rows after an evaluation that did not act: as before, or one more that is not applied.\<close>

definition idle_rows :: "(string \<Rightarrow> string) \<Rightarrow> runner_config \<Rightarrow> real \<Rightarrow> maint_db \<Rightarrow> maint_db \<Rightarrow> bool" where
  "idle_rows h c now db db' \<longleftrightarrow> md_state db' = md_state db \<and>
     (cycle_rows db' = cycle_rows db \<or>
      (\<exists>r. cycle_rows db' = cycle_rows db @ [r] \<and> new_cycle h c now r \<and> cy_status r \<noteq> ''applied'' \<and>
        config_cycle_key h c \<notin> cycle_keys db))"

lemma get_cycle_None_iff: "get_cycle key db = None \<longleftrightarrow> key \<notin> cycle_keys db"
  by (auto simp: get_cycle_def select_one_None_iff cycle_keys_def cycle_rows_def)

text \<open>An update of a key that only the last row has.\<close>

lemma cycle_rows_update:
  assumes "cycle_rows db = rs @ [r]" and "cy_key r = key" and "key \<notin> cy_key ` set rs"
  shows "cycle_rows (update_cycle_status clock key status reason db) =
    rs @ [r\<lparr>cy_status := short_text 32 status, cy_reason := short_text 240 reason, cy_updated_at := clock\<rparr>]"
proof -
  have "map (\<lambda>r. if cy_key r = key then f r else r) rs = rs" for f
    using assms(3) by (induction rs) auto
  with assms show ?thesis by (simp add: update_cycle_status_def cycle_rows_def)
qed

lemma md_state_update [simp]: "md_state (update_cycle_status clock key status reason db) = md_state db"
  by (simp add: update_cycle_status_def)

lemma claim_config_cycle_cases:
  obtains (taken) row where "config_cycle_key h c \<in> cycle_keys db"
      "claim_config_cycle h c reason fake now db = (False, row, db)"
  | (fresh) r row db' where "config_cycle_key h c \<notin> cycle_keys db"
      "claim_config_cycle h c reason fake now db = (True, row, db')"
      "cycle_rows db' = cycle_rows db @ [r]" "new_cycle h c now r" "cy_status r = ''attempt''"
      "md_state db' = md_state db" "md_deadletters db' = md_deadletters db"
proof (cases "get_cycle (config_cycle_key h c) db")
  case None
  obtain r cycles where ins: "insert_row (claimed_row h (config_cycle_key h c) (mc_target_unit c) (mc_repo_id c)
      reason True fake [] ''maintenance.json'' now) (md_cycles db) = (r, cycles)"
    by fastforce
  then have "r = claimed_row h (config_cycle_key h c) (mc_target_unit c) (mc_repo_id c) reason True fake []
      ''maintenance.json'' now (Suc (counter (md_cycles db)))" "rows cycles = rows (md_cycles db) @ [r]"
    by (auto simp: insert_row_def Let_def)
  with ins None show ?thesis
    by (intro fresh [of "safe_cycle h r" "db\<lparr>md_cycles := cycles\<rparr>" r])
      (auto simp: get_cycle_None_iff [symmetric] claim_config_cycle_def claim_cycle_def cycle_rows_def new_cycle_def
         claimed_row_def)
next
  case (Some row)
  then have "config_cycle_key h c \<in> cycle_keys db"
    using get_cycle_None_iff [of "config_cycle_key h c" db] by simp
  then show ?thesis by (rule taken) (simp add: claim_config_cycle_def claim_cycle_def Some)
qed

lemma short_status [simp]:
  "short_text 32 ''refused'' = ''refused''" "short_text 32 ''applied'' = ''applied''"
  "short_text 32 ''degraded'' = ''degraded''" "short_text 32 ''failed'' = ''failed''"
  by (code_simp)+

lemma idle_rows_refl [simp]: "idle_rows h c now db db"
  by (simp add: idle_rows_def)

lemma idle_rows_new:
  assumes "cycle_rows db' = cycle_rows db @ [r]" and "new_cycle h c now r" and "cy_status r \<noteq> ''applied''"
    and "config_cycle_key h c \<notin> cycle_keys db" and "md_state db' = md_state db"
  shows "idle_rows h c now db db'"
  using assms by (auto simp: idle_rows_def)

lemma new_cycle_update [simp]:
  "new_cycle h c now (r\<lparr>cy_status := a, cy_reason := b, cy_updated_at := d\<rparr>) \<longleftrightarrow> new_cycle h c now r"
  by (simp add: new_cycle_def)

lemma refuse_idle: "idle_rows h c now db (snd (refuse h clock c key reason now db))"
proof (cases "service_requested c \<and> mc_db_path c \<noteq> []")
  case True
  show ?thesis
  proof (rule claim_config_cycle_cases [where h = h and c = c and db = db and reason = reason and fake = False and now = now])
    fix row assume "claim_config_cycle h c reason False now db = (False, row, db)"
    with True show ?thesis by (simp add: refuse_def)
  next
    fix r row db'
    assume k: "config_cycle_key h c \<notin> cycle_keys db"
      and e: "claim_config_cycle h c reason False now db = (True, row, db')"
      and r: "cycle_rows db' = cycle_rows db @ [r]" "new_cycle h c now r" "md_state db' = md_state db"
    have "cy_key r = config_cycle_key h c" using r(2) by (simp add: new_cycle_def)
    from cycle_rows_update [OF r(1) this, of clock "''refused''" reason] k r True e show ?thesis
      by (auto simp: refuse_def cycle_keys_def intro!: idle_rows_new)
  qed
qed (auto simp: refuse_def)

subsection \<open>The gates\<close>

text \<open>What must hold for a service action to be considered.\<close>

definition gates_open :: "runner_config \<Rightarrow> runner_env \<Rightarrow> real \<Rightarrow> maint_db \<Rightarrow> bool" where
  "gates_open c en now db \<longleftrightarrow>
     mc_error c = [] \<and> \<not> mc_grants_malformed c \<and>
     \<not> fst (kill_readings c en) \<and> \<not> snd (kill_readings c en) \<and>
     service_requested c \<and> mc_mode c = ''guarded_cycle'' \<and>
     mc_target_unit c \<noteq> [] \<and> mc_target_unit c \<in> set (mc_allowed_services c) \<and>
     has_service_cycle_grant c now \<and>
     (mc_require_no_workers c \<longrightarrow> \<not> fst (active_readings c en) \<and> \<not> snd (active_readings c en)) \<and>
     (mc_quiet_enabled c \<longrightarrow>
        (\<exists>hour. en_hour en = Some hour \<and> \<not> in_quiet_hours hour (mc_quiet_start c) (mc_quiet_end c))) \<and>
     has_reviewed_go c \<and>
     (mc_db_path c \<noteq> [] \<longrightarrow>
        int (count_cycles_today (mc_repo_id c) (mc_target_unit c) (fst (day_bucket now)) (snd (day_bucket now)) db)
          < mc_max_cycles c \<and>
        (\<forall>t. last_applied_at (mc_repo_id c) (mc_target_unit c) db = Some t \<longrightarrow> of_int (mc_min_seconds c) \<le> now - t) \<and>
        \<not> is_degraded (mc_repo_id c) (mc_target_unit c) db)"

lemma history_gate_open:
  assumes "history_gate c now db g = (g', None)" and "mc_db_path c \<noteq> []"
  shows "int (count_cycles_today (mc_repo_id c) (mc_target_unit c) (fst (day_bucket now)) (snd (day_bucket now)) db)
      < mc_max_cycles c"
    and "\<forall>t. last_applied_at (mc_repo_id c) (mc_target_unit c) db = Some t \<longrightarrow> of_int (mc_min_seconds c) \<le> now - t"
  using assms by (auto simp: history_gate_def Let_def split_beta split: if_splits option.splits)

lemma history_gate_keeps:
  "history_gate c now db g = (g', x) \<Longrightarrow> gt_reviewed_go g' = gt_reviewed_go g"
  by (auto simp: history_gate_def Let_def split_beta split: if_splits)

lemma quiet_gate_open:
  assumes "quiet_gate c en g = (g', None)"
  shows "(mc_quiet_enabled c \<longrightarrow>
      (\<exists>hour. en_hour en = Some hour \<and> \<not> in_quiet_hours hour (mc_quiet_start c) (mc_quiet_end c))) \<and>
    gt_reviewed_go g' = gt_reviewed_go g"
  using assms by (auto simp: quiet_gate_def Let_def split: if_splits option.splits)

lemma service_gate_open:
  assumes "service_gate c en now db (initial_gates c en now) = (g, None)"
    and "early_refusal c (initial_gates c en now) = None" and "service_requested c"
    and "effect_refusal c en db' = None" and "md_state db' = md_state db"
  shows "gates_open c en now db"
proof -
  let ?g = "initial_gates c en now"
  obtain g1 where h: "history_gate c now db ?g = (g1, None)"
    using assms(1) by (cases "history_gate c now db ?g") (auto simp: service_gate_def split: if_splits option.splits)
  obtain g2 where q: "quiet_gate c en g1 = (g2, None)"
    using assms(1) h by (cases "quiet_gate c en g1") (auto simp: service_gate_def split: if_splits option.splits)
  note gq = quiet_gate_open [OF q] and gh = history_gate_keeps [OF h] and ho = history_gate_open [OF h]
  have "gt_reviewed_go ?g" using assms(1) h q gq gh by (auto simp: service_gate_def split: if_splits)
  moreover have "mc_mode c = ''guarded_cycle'' \<and> gt_allowlisted ?g \<and> gt_trust_grant ?g \<and> gt_no_workers ?g"
    using assms(1) by (auto simp: service_gate_def split: if_splits)
  moreover have "mc_error c = [] \<and> \<not> mc_grants_malformed c \<and> gt_kill_clear ?g"
    using assms(2) by (auto simp: early_refusal_def split: if_splits)
  moreover have "\<not> snd (kill_readings c en) \<and> \<not> (mc_require_no_workers c \<and> snd (active_readings c en)) \<and>
      \<not> (mc_db_path c \<noteq> [] \<and> is_degraded (mc_repo_id c) (mc_target_unit c) db)"
    using assms(4,5) by (auto simp: effect_refusal_def is_degraded_def split: if_splits)
  ultimately show ?thesis
    using gq ho assms(3) unfolding gates_open_def initial_gates_def runner_gates.simps by (intro conjI) blast+
qed

subsection \<open>From the claim to the settlement\<close>

text \<open>The claimed cycle: the last row, in status \<open>attempt\<close>.\<close>

definition claimed :: "(string \<Rightarrow> string) \<Rightarrow> runner_config \<Rightarrow> real \<Rightarrow> maint_db \<Rightarrow> maint_db \<Rightarrow> bool" where
  "claimed h c now db db1 \<longleftrightarrow>
     (if mc_db_path c = [] then db1 = db
      else \<exists>r. cycle_rows db1 = cycle_rows db @ [r] \<and> new_cycle h c now r \<and> cy_status r = ''attempt'' \<and>
        config_cycle_key h c \<notin> cycle_keys db \<and> md_state db1 = md_state db)"

lemma claimed_state: "claimed h c now db db1 \<Longrightarrow> md_state db1 = md_state db"
  by (auto simp: claimed_def split: if_splits)

lemma claimed_update_idle:
  assumes "claimed h c now db db1" and "mc_db_path c \<noteq> []" and "short_text 32 status \<noteq> ''applied''"
  shows "idle_rows h c now db (update_cycle_status clock (config_cycle_key h c) status reason db1)"
    and "config_cycle_key h c \<in> cycle_keys (update_cycle_status clock (config_cycle_key h c) status reason db1)"
proof -
  obtain r where r: "cycle_rows db1 = cycle_rows db @ [r]" "new_cycle h c now r" "config_cycle_key h c \<notin> cycle_keys db"
      "md_state db1 = md_state db"
    using assms by (auto simp: claimed_def)
  have k: "cy_key r = config_cycle_key h c" using r(2) by (simp add: new_cycle_def)
  note u = cycle_rows_update [OF r(1) k, of clock status reason]
  show "idle_rows h c now db (update_cycle_status clock (config_cycle_key h c) status reason db1)"
    using u r assms(3) by (auto simp: cycle_keys_def intro!: idle_rows_new)
  show "config_cycle_key h c \<in> cycle_keys (update_cycle_status clock (config_cycle_key h c) status reason db1)"
    using u r k by (auto simp: cycle_keys_def)
qed

lemma refuse_taken:
  assumes "config_cycle_key h c \<in> cycle_keys db" and "mc_db_path c \<noteq> []"
  shows "snd (refuse h clock c key reason now db) = db"
proof -
  obtain row where "get_cycle (config_cycle_key h c) db = Some row"
    using assms(1) get_cycle_None_iff by fastforce
  then show ?thesis using assms(2) by (auto simp: refuse_def claim_config_cycle_def claim_cycle_def)
qed

text \<open>The rows after an evaluation that considered an action: one more, of a new key.\<close>

definition acted_rows :: "(string \<Rightarrow> string) \<Rightarrow> runner_config \<Rightarrow> real \<Rightarrow> maint_db \<Rightarrow> maint_db \<Rightarrow> bool" where
  "acted_rows h c now db db' \<longleftrightarrow>
     (if mc_db_path c = [] then db' = db
      else (md_state db' = md_state db \<or>
          md_state db' = dict_set (degraded_key (mc_repo_id c) (mc_target_unit c)) ''1'' (md_state db)) \<and>
        (\<exists>r. cycle_rows db' = cycle_rows db @ [r] \<and> new_cycle h c now r \<and> config_cycle_key h c \<notin> cycle_keys db))"

lemma acted_update:
  assumes "claimed h c now db db1" and "mc_db_path c \<noteq> []"
    and "cycle_rows db' = cycle_rows (update_cycle_status clock (config_cycle_key h c) status reason db1)"
    and "md_state db' = md_state db1 \<or>
      md_state db' = dict_set (degraded_key (mc_repo_id c) (mc_target_unit c)) ''1'' (md_state db1)"
  shows "acted_rows h c now db db'"
proof -
  obtain r where r: "cycle_rows db1 = cycle_rows db @ [r]" "new_cycle h c now r" "config_cycle_key h c \<notin> cycle_keys db"
      "md_state db1 = md_state db"
    using assms by (auto simp: claimed_def)
  have k: "cy_key r = config_cycle_key h c" using r(2) by (simp add: new_cycle_def)
  from cycle_rows_update [OF r(1) k, of clock status reason] r assms show ?thesis
    by (auto simp: acted_rows_def cycle_keys_def)
qed

lemma settle_acted:
  assumes "claimed h c now db db1"
  shows "acted_rows h c now db (snd (settle h clock c en x proposed db1))"
proof (cases "mc_db_path c = []")
  case True
  with assms show ?thesis by (simp add: settle_def Let_def acted_rows_def claimed_def)
next
  case False
  let ?set = "\<lambda>status reason. update_cycle_status clock (config_cycle_key h c) status reason db1"
  let ?d = "snd (settle h clock c en x proposed db1)"
  have "(\<exists>status reason. ?d = ?set status reason) \<or>
      ?d = write_deadletter h clock ''post_smoke_failed'' (mc_target_unit c) (config_cycle_key h c)
        (str_or (ax_detail x) ''post_smoke_unhealthy'')
        (set_degraded True (mc_repo_id c) (mc_target_unit c) (?set ''degraded'' ''post_smoke_failed''))"
    using False by (auto simp: settle_def Let_def)
  then obtain status reason where "cycle_rows ?d = cycle_rows (?set status reason)"
    and "md_state ?d = md_state db1 \<or>
      md_state ?d = dict_set (degraded_key (mc_repo_id c) (mc_target_unit c)) ''1'' (md_state db1)"
    by (auto simp: cycle_rows_def write_deadletter_def set_degraded_def)
  then show ?thesis by (rule acted_update [OF assms False])
qed

lemma guarded_effect_step:
  assumes c: "claimed h c now db (ms_db s)" and s': "s' = snd (guarded_effect h clock a c en now s)"
  shows "(ms_world s' = ms_world s \<and> idle_rows h c now db (ms_db s')) \<or>
    (effect_refusal c en (ms_db s) = None \<and> acted_rows h c now db (ms_db s') \<and>
      (\<exists>consider. a = Some consider \<and> ms_world s' = snd (consider (runner_request h c) now (ms_world s))))"
proof (cases "effect_refusal c en (ms_db s)")
  case (Some reason)
  show ?thesis
  proof (cases "mc_db_path c = []")
    case True
    with Some c show ?thesis
      by (auto simp: s' guarded_effect_def Let_def refuse_def claimed_def)
  next
    case False
    note u = claimed_update_idle [OF c False, where status = "''refused''"]
    have "snd (refuse h clock c (runner_key h c) reason now
        (update_cycle_status clock (config_cycle_key h c) ''refused'' reason (ms_db s))) =
      update_cycle_status clock (config_cycle_key h c) ''refused'' reason (ms_db s)"
      using False u(2) by (simp add: refuse_taken)
    with Some False u(1) show ?thesis
      by (auto simp: s' guarded_effect_def Let_def split: prod.splits)
  qed
next
  case None
  show ?thesis
  proof (cases a)
    case a: None
    show ?thesis
    proof (cases "mc_db_path c = []")
      case True
      with None a c show ?thesis by (auto simp: s' guarded_effect_def Let_def claimed_def)
    next
      case False
      from claimed_update_idle(1) [OF c False, where status = "''refused''"] None a False show ?thesis
        by (simp add: s' guarded_effect_def Let_def)
    qed
  next
    case (Some act)
    obtain x w where k: "act (runner_request h c) now (ms_world s) = (x, w)" by fastforce
    have "acted_rows h c now db (ms_db s')"
    proof (cases x)
      case None
      have "acted_rows h c now db (ms_db s)"
        using c by (auto simp: claimed_def acted_rows_def split: if_splits)
      with None k Some \<open>effect_refusal c en (ms_db s) = None\<close> show ?thesis
        by (simp add: s' guarded_effect_def Let_def)
    next
      case (Some y)
      from settle_acted [OF c, of clock en y "[service_restart_entry (short_text 240 (mc_target_unit c))]"]
      show ?thesis using Some k \<open>a = Some act\<close> \<open>effect_refusal c en (ms_db s) = None\<close>
        by (simp add: s' guarded_effect_def Let_def split_beta)
    qed
    moreover have "ms_world s' = w"
      using k Some None by (simp add: s' guarded_effect_def Let_def split_beta split: option.splits)
    ultimately show ?thesis using k Some None by auto
  qed
qed

text \<open>Every evaluation either leaves the world alone, or passed every gate with a key that was free.\<close>

definition idle_step :: "(string \<Rightarrow> string) \<Rightarrow> runner_config \<Rightarrow> real \<Rightarrow> 'w maint_state \<Rightarrow> 'w maint_state \<Rightarrow> bool" where
  "idle_step h c now s s' \<longleftrightarrow> ms_world s' = ms_world s \<and> idle_rows h c now (ms_db s) (ms_db s')"

definition acting_step ::
    "(string \<Rightarrow> string) \<Rightarrow> 'w action_adapter option \<Rightarrow> runner_config \<Rightarrow> runner_env \<Rightarrow> real \<Rightarrow> 'w maint_state \<Rightarrow>
       'w maint_state \<Rightarrow> bool" where
  "acting_step h a c en now s s' \<longleftrightarrow> gates_open c en now (ms_db s) \<and> acted_rows h c now (ms_db s) (ms_db s') \<and>
     (\<exists>act. a = Some act \<and> ms_world s' = snd (act (runner_request h c) now (ms_world s)))"

lemma evaluate_runner_step:
  assumes s': "s' = snd (evaluate_runner h clock adapter ex c en now s)"
  shows "idle_step h c now s s' \<or> acting_step h (resolve_adapter adapter ex c) c en now s s'"
proof -
  note snds = snd_conv split_beta
  have block: "idle_step h c now s (s\<lparr>ms_db := snd (refuse h clock c key reason now (ms_db s))\<rparr>)" for key reason
    by (simp add: idle_step_def refuse_idle)
  have effect: "idle_step h c now s s1 \<or> acting_step h a c en now s s1"
    if e: "early_refusal c (initial_gates c en now) = None" "service_requested c"
      and g: "service_gate c en now (ms_db s) (initial_gates c en now) = (g, None)"
      and cl: "claimed h c now (ms_db s) (ms_db s0)" and w: "ms_world s0 = ms_world s"
      and s1: "s1 = snd (guarded_effect h clock a c en now s0)" for g s0 s1 a
    using guarded_effect_step [OF cl s1] service_gate_open [OF g e _ claimed_state [OF cl]] w
    unfolding idle_step_def acting_step_def by auto
  show ?thesis
  proof (cases "early_refusal c (initial_gates c en now)")
    case (Some gr)
    then show ?thesis using block by (simp add: s' evaluate_runner_def Let_def snds)
  next
    case e: None
    show ?thesis
    proof (cases "service_requested c")
      case False
      with e show ?thesis by (simp add: s' evaluate_runner_def Let_def idle_step_def)
    next
      case r: True
      obtain g v where g: "service_gate c en now (ms_db s) (initial_gates c en now) = (g, v)" by fastforce
      show ?thesis
      proof (cases v)
        case (Some reason)
        with e r g block show ?thesis by (simp add: s' evaluate_runner_def Let_def snds)
      next
        case v: None
        show ?thesis
        proof (cases "mc_db_path c = []")
          case True
          then have cl: "claimed h c now (ms_db s) (ms_db s)" by (simp add: claimed_def)
          have "s' = snd (guarded_effect h clock (resolve_adapter adapter ex c) c en now s)"
            using e r g v True by (simp add: s' evaluate_runner_def Let_def snds)
          from effect [OF e r g [unfolded v] cl refl this] show ?thesis .
        next
          case False
          show ?thesis
          proof (rule claim_config_cycle_cases [where h = h and c = c and db = "ms_db s"
                and reason = "''eligible''" and fake = True and now = now])
            fix row assume "claim_config_cycle h c ''eligible'' True now (ms_db s) = (False, row, ms_db s)"
            with e r g v False show ?thesis by (simp add: s' evaluate_runner_def Let_def idle_step_def)
          next
            fix rw row db
            assume cl: "claim_config_cycle h c ''eligible'' True now (ms_db s) = (True, row, db)"
              and rows: "config_cycle_key h c \<notin> cycle_keys (ms_db s)" "cycle_rows db = cycle_rows (ms_db s) @ [rw]"
                "new_cycle h c now rw" "cy_status rw = ''attempt''" "md_state db = md_state (ms_db s)"
            have c0: "claimed h c now (ms_db s) (ms_db (s\<lparr>ms_db := db\<rparr>))"
              using rows False by (simp add: claimed_def)
            have "s' = snd (guarded_effect h clock (resolve_adapter adapter ex c) c en now (s\<lparr>ms_db := db\<rparr>))"
              using e r g v False cl by (simp add: s' evaluate_runner_def Let_def snds)
            from effect [OF e r g [unfolded v] c0 _ this] show ?thesis by simp
          qed
        qed
      qed
    qed
  qed
qed

subsection \<open>Sequences of evaluations\<close>

record 'w runner_call =
  kc_clock :: real
  kc_adapter :: "'w action_adapter option"
  kc_executor :: "'w executor option"
  kc_config :: runner_config
  kc_env :: runner_env
  kc_now :: real

definition wired_adapter :: "'w runner_call \<Rightarrow> 'w action_adapter option" where
  "wired_adapter k = resolve_adapter (kc_adapter k) (kc_executor k) (kc_config k)"

definition evaluate_call :: "(string \<Rightarrow> string) \<Rightarrow> 'w runner_call \<Rightarrow> 'w maint_state \<Rightarrow> 'w maint_state" where
  "evaluate_call h k s =
     snd (evaluate_runner h (kc_clock k) (kc_adapter k) (kc_executor k) (kc_config k) (kc_env k) (kc_now k) s)"

definition evaluate_calls :: "(string \<Rightarrow> string) \<Rightarrow> 'w runner_call list \<Rightarrow> 'w maint_state \<Rightarrow> 'w maint_state" where
  "evaluate_calls h ks s = fold (evaluate_call h) ks s"

lemma evaluate_calls_simps [simp]:
  "evaluate_calls h [] s = s"
  "evaluate_calls h (k # ks) s = evaluate_calls h ks (evaluate_call h k s)"
  by (simp_all add: evaluate_calls_def)

lemmas evaluate_call_step = evaluate_runner_step [OF evaluate_call_def, folded wired_adapter_def]

text \<open>An invariant of one evaluation holds of any sequence.\<close>

lemma evaluate_calls_invariant:
  assumes "\<And>k s. k \<in> set ks \<Longrightarrow> I s \<Longrightarrow> I (evaluate_call h k s)" and "I s"
  shows "I (evaluate_calls h ks s)"
  using assms by (induction ks arbitrary: s) simp_all

subsection \<open>The table as a register of keys\<close>

text \<open>The abstract register: a key is spent once, and acted upon only as it is spent.\<close>

record once_register =
  or_spent :: "string set"
  or_acted :: "string list"

inductive once_step :: "once_register \<Rightarrow> once_register \<Rightarrow> bool" where
  rest: "once_step R R"
| spend: "k \<notin> or_spent R \<Longrightarrow> once_step R (R\<lparr>or_spent := insert k (or_spent R)\<rparr>)"
| act: "k \<notin> or_spent R \<Longrightarrow> once_step R \<lparr>or_spent = insert k (or_spent R), or_acted = or_acted R @ [k]\<rparr>"

definition register_ok :: "once_register \<Rightarrow> bool" where
  "register_ok R \<longleftrightarrow> distinct (or_acted R) \<and> set (or_acted R) \<subseteq> or_spent R"

lemma once_step_ok: "once_step R R' \<Longrightarrow> register_ok R \<Longrightarrow> register_ok R'"
  by (induction rule: once_step.induct) (auto simp: register_ok_def)

lemma once_steps_ok: "once_step\<^sup>*\<^sup>* R R' \<Longrightarrow> register_ok R \<Longrightarrow> register_ok R'"
  by (induction rule: rtranclp_induct) (auto intro: once_step_ok)

text \<open>The adapter of a call that also writes the cycle key of its call to a trace.\<close>

definition traced :: "string \<Rightarrow> 'w action_adapter \<Rightarrow> ('w \<times> string list) action_adapter" where
  "traced key a q now wt = (case a q now (fst wt) of (r, w) \<Rightarrow> (r, (w, snd wt @ [key])))"

definition traced_call :: "(string \<Rightarrow> string) \<Rightarrow> 'w runner_call \<Rightarrow> ('w \<times> string list) runner_call" where
  "traced_call h k =
     \<lparr>kc_clock = kc_clock k, kc_adapter = map_option (traced (config_cycle_key h (kc_config k))) (wired_adapter k),
      kc_executor = None, kc_config = kc_config k, kc_env = kc_env k, kc_now = kc_now k\<rparr>"

definition register_view :: "('w \<times> string list) maint_state \<Rightarrow> once_register" where
  "register_view s = \<lparr>or_spent = cycle_keys (ms_db s), or_acted = snd (ms_world s)\<rparr>"

lemma cycle_keys_new:
  assumes "cycle_rows db' = cycle_rows db @ [r]" and "new_cycle h c now r"
  shows "cycle_keys db' = insert (config_cycle_key h c) (cycle_keys db)"
  using assms by (auto simp: cycle_keys_def new_cycle_def)

lemma traced_call_step:
  assumes "mc_db_path (kc_config k) \<noteq> []"
  shows "once_step (register_view s) (register_view (evaluate_call h (traced_call h k) s))"
proof -
  let ?c = "kc_config k" and ?k = "traced_call h k" and ?key = "config_cycle_key h (kc_config k)"
  obtain s' where s': "s' = evaluate_call h ?k s" by simp
  have sel: "kc_config ?k = ?c" "kc_env ?k = kc_env k" "kc_now ?k = kc_now k"
    "wired_adapter ?k = map_option (traced ?key) (wired_adapter k)"
    by (auto simp: traced_call_def wired_adapter_def resolve_adapter_def split: option.splits)
  have "idle_step h ?c (kc_now k) s s' \<or>
      acting_step h (map_option (traced ?key) (wired_adapter k)) ?c (kc_env k) (kc_now k) s s'"
    using evaluate_call_step [of h ?k s] unfolding sel s' .
  then show ?thesis
  proof
    assume i: "idle_step h ?c (kc_now k) s s'"
    then consider "cycle_keys (ms_db s') = cycle_keys (ms_db s)"
      | "cycle_keys (ms_db s') = insert ?key (cycle_keys (ms_db s))" "?key \<notin> cycle_keys (ms_db s)"
      by (auto simp: idle_step_def idle_rows_def cycle_keys_new) (auto simp: cycle_keys_def)
    then show ?thesis
    proof cases
      case 1
      with i show ?thesis by (simp add: s' [symmetric] register_view_def idle_step_def once_step.rest)
    next
      case 2
      with i once_step.spend [of ?key "register_view s"] show ?thesis
        by (simp add: s' [symmetric] register_view_def idle_step_def)
    qed
  next
    assume a: "acting_step h (map_option (traced ?key) (wired_adapter k)) ?c (kc_env k) (kc_now k) s s'"
    then have "snd (ms_world s') = snd (ms_world s) @ [?key]"
      by (auto simp: acting_step_def traced_def split: prod.splits)
    moreover have "cycle_keys (ms_db s') = insert ?key (cycle_keys (ms_db s)) \<and> ?key \<notin> cycle_keys (ms_db s)"
      using a assms by (auto simp: acting_step_def acted_rows_def cycle_keys_new)
    ultimately show ?thesis
      using once_step.act [of ?key "register_view s"] by (simp add: s' [symmetric] register_view_def)
  qed
qed

lemma traced_calls_steps:
  assumes "\<forall>k \<in> set ks. mc_db_path (kc_config k) \<noteq> []"
  shows "once_step\<^sup>*\<^sup>* (register_view s) (register_view (evaluate_calls h (map (traced_call h) ks) s))"
  using assms
proof (induction ks arbitrary: s)
  case (Cons k ks)
  then have "once_step (register_view s) (register_view (evaluate_call h (traced_call h k) s))"
    by (intro traced_call_step) simp
  with Cons show ?case by (auto intro: converse_rtranclp_into_rtranclp)
qed simp

subsection \<open>Caps and spacing\<close>

definition cycles_of :: "string \<Rightarrow> string \<Rightarrow> cycle_row list \<Rightarrow> cycle_row list" where
  "cycles_of repo unit rs = filter (\<lambda>r. cy_repo r = short_text 240 repo \<and> cy_unit r = short_text 240 unit \<and>
     cy_status r = ''applied'') rs"

lemma applied_cycles_eq: "applied_cycles repo unit db = cycles_of repo unit (cycle_rows db)"
  by (simp add: applied_cycles_def cycles_of_def select_where_def cycle_rows_def)

definition in_day :: "real \<Rightarrow> real \<Rightarrow> bool" where
  "in_day t u \<longleftrightarrow> fst (day_bucket t) \<le> u \<and> u < snd (day_bucket t)"

lemma in_day_bucket: "in_day t u \<Longrightarrow> day_bucket t = day_bucket u"
proof -
  assume "in_day t u"
  then have "\<lfloor>u / 86400\<rfloor> = \<lfloor>t / 86400\<rfloor>"
    by (intro floor_unique) (auto simp: in_day_def day_bucket_def Let_def field_simps)
  then show ?thesis by (simp add: day_bucket_def Let_def)
qed

lemma count_cycles_eq:
  "count_cycles_today repo unit (fst (day_bucket t)) (snd (day_bucket t)) db =
    length (filter (\<lambda>r. in_day t (cy_created_at r)) (cycles_of repo unit (cycle_rows db)))"
  by (simp add: count_cycles_today_def applied_cycles_eq in_day_def)

lemma fold_max_upper: "(x :: real) \<le> t \<or> x \<in> set ts \<Longrightarrow> x \<le> fold max ts t"
proof (induction ts arbitrary: t)
  case (Cons a ts)
  from Cons.prems have "x \<le> max a t \<or> x \<in> set ts" by auto
  from Cons.IH [OF this] show ?case by simp
qed simp

lemma last_applied_ge:
  assumes "r \<in> set (cycles_of repo unit (cycle_rows db))"
  obtains t where "last_applied_at repo unit db = Some t" and "cy_created_at r \<le> t"
proof -
  from assms obtain q qs where q: "cycles_of repo unit (cycle_rows db) = q # qs"
    by (cases "cycles_of repo unit (cycle_rows db)") auto
  show thesis
  proof (rule that)
    show "last_applied_at repo unit db = Some (fold max (map cy_created_at qs) (cy_created_at q))"
      by (simp add: last_applied_at_def applied_cycles_eq q)
    show "cy_created_at r \<le> fold max (map cy_created_at qs) (cy_created_at q)"
      by (rule fold_max_upper) (use assms q in auto)
  qed
qed

text \<open>The applied cycles of every repository and unit: at most \<open>n\<close> in a day, \<open>m\<close> seconds apart.\<close>

definition cycles_bounded :: "int \<Rightarrow> int \<Rightarrow> maint_db \<Rightarrow> bool" where
  "cycles_bounded n m db \<longleftrightarrow>
     (\<forall>repo unit.
        (\<forall>t. int (count_cycles_today repo unit (fst (day_bucket t)) (snd (day_bucket t)) db) \<le> max 0 n) \<and>
        sorted_wrt (\<lambda>a b. of_int m \<le> b - a) (map cy_created_at (applied_cycles repo unit db)))"

lemma cycles_bounded_same:
  assumes "cycles_bounded n m db" and "\<And>repo unit. cycles_of repo unit (cycle_rows db') = cycles_of repo unit (cycle_rows db)"
  shows "cycles_bounded n m db'"
  using assms by (simp add: cycles_bounded_def count_cycles_eq applied_cycles_eq)

lemma cycles_bounded_new:
  assumes b: "cycles_bounded n m db" and r: "cycle_rows db' = cycle_rows db @ [r]" "new_cycle h c now r"
    and g: "gates_open c en now db" "mc_db_path c \<noteq> []" and lim: "mc_max_cycles c \<le> n" "m \<le> mc_min_seconds c"
  shows "cycles_bounded n m db'"
  unfolding cycles_bounded_def
proof (intro allI)
  fix repo unit
  let ?old = "cycles_of repo unit (cycle_rows db)" and ?new = "cycles_of repo unit (cycle_rows db')"
  let ?count = "\<lambda>t rs. int (length (filter (\<lambda>r. in_day t (cy_created_at r)) rs))"
  have old: "?count t ?old \<le> max 0 n" "sorted_wrt (\<lambda>a b. of_int m \<le> b - a) (map cy_created_at ?old)" for t
    using b unfolding cycles_bounded_def count_cycles_eq applied_cycles_eq by blast+
  show "(\<forall>t. int (count_cycles_today repo unit (fst (day_bucket t)) (snd (day_bucket t)) db') \<le> max 0 n) \<and>
      sorted_wrt (\<lambda>a b. of_int m \<le> b - a) (map cy_created_at (applied_cycles repo unit db'))"
  proof (cases "cy_repo r = short_text 240 repo \<and> cy_unit r = short_text 240 unit \<and> cy_status r = ''applied''")
    case False
    then have "?new = ?old" by (simp add: cycles_of_def r(1))
    with old show ?thesis unfolding count_cycles_eq applied_cycles_eq by simp
  next
    case True
    then have new: "?new = ?old @ [r]" by (simp add: cycles_of_def r(1))
    have at: "cy_created_at r = now" and same: "?old = cycles_of (mc_repo_id c) (mc_target_unit c) (cycle_rows db)"
      using True r(2) by (auto simp: new_cycle_def cycles_of_def)
    have today: "?count now ?old < n"
      using g lim by (auto simp: gates_open_def count_cycles_eq same)
    have "?count t ?new \<le> max 0 n" for t
    proof (cases "in_day t now")
      case True
      then have "day_bucket t = day_bucket now" by (rule in_day_bucket)
      then have "in_day t = in_day now" by (simp add: in_day_def fun_eq_iff)
      with today show ?thesis by (simp add: new at)
    qed (use old(1) [of t] in \<open>simp add: new at\<close>)
    moreover have "of_int m \<le> now - cy_created_at q" if "q \<in> set ?old" for q
    proof -
      from that obtain t where "last_applied_at (mc_repo_id c) (mc_target_unit c) db = Some t" "cy_created_at q \<le> t"
        unfolding same by (rule last_applied_ge)
      moreover from this g have "of_int (mc_min_seconds c) \<le> now - t" by (auto simp: gates_open_def)
      ultimately show ?thesis using lim by linarith
    qed
    ultimately show ?thesis
      using old(2) unfolding count_cycles_eq applied_cycles_eq by (simp add: new at sorted_wrt_append)
  qed
qed

lemma evaluate_call_bounded:
  assumes b: "cycles_bounded n m (ms_db s)"
    and lim: "mc_max_cycles (kc_config k) \<le> n" "m \<le> mc_min_seconds (kc_config k)"
  shows "cycles_bounded n m (ms_db (evaluate_call h k s))"
  using evaluate_call_step [of h k s]
proof
  assume "idle_step h (kc_config k) (kc_now k) s (evaluate_call h k s)"
  with b show ?thesis
    by (intro cycles_bounded_same [OF b]) (auto simp: idle_step_def idle_rows_def cycles_of_def)
next
  assume a: "acting_step h (wired_adapter k) (kc_config k) (kc_env k) (kc_now k) s (evaluate_call h k s)"
  show ?thesis
  proof (cases "mc_db_path (kc_config k) = []")
    case True
    with a b show ?thesis by (simp add: acting_step_def acted_rows_def)
  next
    case False
    with a obtain r where "cycle_rows (ms_db (evaluate_call h k s)) = cycle_rows (ms_db s) @ [r]"
        "new_cycle h (kc_config k) (kc_now k) r" "gates_open (kc_config k) (kc_env k) (kc_now k) (ms_db s)"
      by (auto simp: acting_step_def acted_rows_def)
    then show ?thesis using False by (intro cycles_bounded_new [OF b _ _ _ _ lim]) auto
  qed
qed

lemma evaluate_calls_bounded:
  assumes "\<forall>k \<in> set ks. mc_max_cycles (kc_config k) \<le> n \<and> m \<le> mc_min_seconds (kc_config k)"
    and "cycles_bounded n m (ms_db s)"
  shows "cycles_bounded n m (ms_db (evaluate_calls h ks s))"
  using assms by (intro evaluate_calls_invariant [where I = "\<lambda>s. cycles_bounded n m (ms_db s)"] evaluate_call_bounded) auto

lemma cycles_bounded_empty: "cycles_bounded n m empty_maint_db"
  by (simp add: cycles_bounded_def count_cycles_eq applied_cycles_eq cycles_of_def cycle_rows_def empty_maint_db_def
      empty_table_def)

subsection \<open>An open gate is passed\<close>

lemma history_gate_passes:
  assumes "gates_open c en now db"
  shows "snd (history_gate c now db g) = None"
  using assms by (auto simp: gates_open_def history_gate_def Let_def split_beta split: option.splits)

lemma quiet_gate_passes:
  assumes "gates_open c en now db"
  shows "snd (quiet_gate c en g) = None"
  using assms by (auto simp: gates_open_def quiet_gate_def Let_def split: option.splits)

lemma gates_open_passes:
  assumes g: "gates_open c en now db"
  shows "early_refusal c (initial_gates c en now) = None"
    and "service_requested c"
    and "snd (service_gate c en now db (initial_gates c en now)) = None"
    and "md_state db' = md_state db \<Longrightarrow> effect_refusal c en db' = None"
proof -
  let ?g = "initial_gates c en now"
  obtain g1 where h: "history_gate c now db ?g = (g1, None)"
    using history_gate_passes [OF g, of ?g] by (cases "history_gate c now db ?g") simp
  obtain g2 where q: "quiet_gate c en g1 = (g2, None)"
    using quiet_gate_passes [OF g, of g1] by (cases "quiet_gate c en g1") simp
  have "gt_reviewed_go g2"
    using g history_gate_keeps [OF h] quiet_gate_open [OF q] by (simp add: gates_open_def initial_gates_def)
  moreover have "mc_mode c = ''guarded_cycle''" "gt_allowlisted ?g" "gt_trust_grant ?g" "gt_no_workers ?g"
    using g by (auto simp: gates_open_def initial_gates_def)
  ultimately show "snd (service_gate c en now db ?g) = None"
    using h q by (simp add: service_gate_def)
  show "early_refusal c ?g = None" "service_requested c"
    using g by (auto simp: gates_open_def early_refusal_def initial_gates_def)
  show "effect_refusal c en db' = None" if "md_state db' = md_state db"
    using g that by (auto simp: gates_open_def effect_refusal_def is_degraded_def)
qed

lemma evaluate_runner_open:
  assumes g: "gates_open c en now (ms_db s)" and a: "resolve_adapter adapter ex c = Some act"
    and k: "mc_db_path c \<noteq> [] \<longrightarrow> config_cycle_key h c \<notin> cycle_keys (ms_db s)"
  shows "ms_world (snd (evaluate_runner h clock adapter ex c en now s)) =
    snd (act (runner_request h c) now (ms_world s))"
proof -
  note pass = gates_open_passes [OF g]
  obtain g' where gate: "service_gate c en now (ms_db s) (initial_gates c en now) = (g', None)"
    using pass(3) by (cases "service_gate c en now (ms_db s) (initial_gates c en now)") simp
  have effect: "ms_world (snd (guarded_effect h clock (Some act) c en now s0)) =
      snd (act (runner_request h c) now (ms_world s))"
    if "md_state (ms_db s0) = md_state (ms_db s)" and "ms_world s0 = ms_world s" for s0
    using pass(4) [OF that(1)] that(2) by (simp add: guarded_effect_def Let_def split_beta split: option.splits)
  show ?thesis
  proof (cases "mc_db_path c = []")
    case True
    with pass gate a effect [of s] show ?thesis by (simp add: evaluate_runner_def Let_def split_beta)
  next
    case False
    show ?thesis
    proof (rule claim_config_cycle_cases [where h = h and c = c and db = "ms_db s"
          and reason = "''eligible''" and fake = True and now = now])
      fix row assume "config_cycle_key h c \<in> cycle_keys (ms_db s)"
      with k False show ?thesis by simp
    next
      fix rw row db
      assume "claim_config_cycle h c ''eligible'' True now (ms_db s) = (True, row, db)"
        and "md_state db = md_state (ms_db s)"
      with pass gate a False effect [of "s\<lparr>ms_db := db\<rparr>"] show ?thesis
        by (simp add: evaluate_runner_def Let_def split_beta)
    qed
  qed
qed

subsection \<open>The executor behind the fake adapter\<close>

lemma attempt_restarts_iterates:
  "\<exists>k \<le> n. snd (attempt_restarts ex unit n j w) = ((\<lambda>w. snd (ex unit w)) ^^ k) w"
proof (induction n arbitrary: j w)
  case (Suc n)
  obtain r w' where e: "ex unit w = (r, w')" by fastforce
  have one: ?case if "snd (attempt_restarts ex unit (Suc n) j w) = w'"
    using e that by (intro exI [of _ 1]) simp
  show ?case
  proof (cases "r = None \<or> (\<exists>x. r = Some x \<and> (xr_ok x \<or> n = 0))")
    case True
    then show ?thesis using e by (intro one) (auto split: option.splits)
  next
    case False
    obtain k where "k \<le> n" "snd (attempt_restarts ex unit n (Suc j) w') = ((\<lambda>w. snd (ex unit w)) ^^ k) w'"
      using Suc by blast
    then show ?thesis using e False
      by (intro exI [of _ "Suc k"]) (auto simp: funpow_Suc_right simp del: funpow.simps split: option.splits)
  qed
qed (simp add: exI [of _ 0])

lemma fake_consider_iterates:
  assumes "aq_budget q \<le> HARD_ATTEMPT_CAP"
  shows "\<exists>k \<le> 3. snd (snd (fake_consider ex cd q now (m, w))) = ((\<lambda>w. snd (ex (aq_unit q) w)) ^^ k) w"
proof -
  obtain x w' where a: "attempt_restarts ex (aq_unit q) (nat (aq_budget q)) 0 w = (x, w')" by fastforce
  obtain k where "k \<le> nat (aq_budget q)" "w' = ((\<lambda>w. snd (ex (aq_unit q) w)) ^^ k) w"
    using attempt_restarts_iterates [of "nat (aq_budget q)" ex "aq_unit q" 0 w] a by auto
  moreover have "nat (aq_budget q) \<le> 3" using assms by (simp add: HARD_ATTEMPT_CAP_def)
  moreover have "snd (snd (fake_consider ex cd q now (m, w))) \<in> {w, w'}"
    using a by (auto simp: fake_consider_def Let_def split: option.splits)
  ultimately show ?thesis by (metis (no_types, lifting) funpow_0 insertE le_trans singletonD zero_le)
qed

subsection \<open>Grants\<close>

lemma not_space_alnum: "is_alnum c \<Longrightarrow> \<not> is_space c"
  by (auto simp: is_alnum_def is_alpha_def is_digit_def is_space_def Let_def)

lemma not_space_unit: "unit_char c \<Longrightarrow> \<not> is_space c"
  unfolding unit_char_def by (elim disjE) (simp add: not_space_alnum, auto simp: is_space_def)

lemma list_all_mono: "list_all P xs \<Longrightarrow> (\<And>x. P x \<Longrightarrow> Q x) \<Longrightarrow> list_all Q xs"
  by (auto simp: list_all_iff)

lemma validate_unit_word:
  assumes "validate_unit v = Inr u"
  shows "u \<noteq> []" and "short_text 240 u = u" and "validate_unit (JStr u) = Inr u"
proof -
  have u: "u \<noteq> []" "list_all unit_char u" "length u \<le> 240" "ends_with ''.service'' u"
    using assms by (auto simp: validate_unit_def Let_def split: if_splits)
  then show "u \<noteq> []" by simp
  show w: "short_text 240 u = u"
    using u by (intro short_text_word list_all_mono [OF u(2)]) (auto simp: not_space_unit)
  show "validate_unit (JStr u) = Inr u"
    using u w by (simp add: validate_unit_def value_text_def Let_def)
qed

lemma strict_float_code: "strict_float a v = Inr x \<Longrightarrow> strict_float b v = Inr x"
  by (auto simp: strict_float_def split: json.splits if_splits)

lemma safe_job_field_empty_iff: "fst (safe_job_field f n s) = [] \<longleftrightarrow> short_text n s = []"
  by (simp add: safe_job_field_def Let_def)

lemma provenance_kept: "non_empty_sanitized ''provenance'' (JStr (sanitize_provenance v))"
proof -
  have words: "short_text 2000 ''operator CLI trust grant'' \<noteq> []" "short_text 2000 ''provenance:redacted'' \<noteq> []"
    by (rule short_text_nonempty; simp add: is_space_def)+
  let ?s = "if truthy v then value_text v else ''operator CLI trust grant''"
  have "fst (safe_job_field ''provenance'' 2000 ?s) \<in> {[], ''provenance:redacted'', short_text 2000 ?s}"
    by (simp add: safe_job_field_def Let_def)
  then have "short_text 2000 (sanitize_provenance v) \<noteq> []"
    using words short_text_again [of 2000 ?s 2000]
    by (cases "fst (safe_job_field ''provenance'' 2000 ?s) = []") (auto simp: sanitize_provenance_def)
  then show ?thesis by (simp add: non_empty_sanitized_def safe_job_field_empty_iff value_text_def)
qed

definition host_name_ok :: "string \<Rightarrow> bool" where
  "host_name_ok s \<longleftrightarrow> s \<noteq> [] \<and> list_all is_alnum s \<and> length s \<le> 64 \<and> \<not> contains_sensitive_text s"

lemma host_name_text:
  assumes "host_name_ok s"
  shows "64 \<le> n \<Longrightarrow> short_text n s = s" and "fst (safe_job_field ''host_id'' 2000 s) = s"
proof -
  show t: "short_text n s = s" if "64 \<le> n" for n
    using assms that by (intro short_text_word) (auto simp: host_name_ok_def list_all_iff not_space_alnum)
  show "fst (safe_job_field ''host_id'' 2000 s) = s"
    using assms t [of 2000] by (simp add: safe_job_field_def host_name_ok_def Let_def)
qed

text \<open>What the code relies on of \<open>hexdigest\<close>.\<close>

definition hex_digest :: "(string \<Rightarrow> string) \<Rightarrow> bool" where
  "hex_digest h \<longleftrightarrow> (\<forall>s. length (h s) = 64 \<and> list_all (\<lambda>c. c \<in> set ''0123456789abcdef'') (h s))"

lemma grant_id_shape: "hex_digest h \<Longrightarrow> valid_grant_id_shape (JStr (grant_id h fmt6 u host a b))"
proof -
  let ?d = "h (u @ '':'' @ host @ '':'' @ fmt6 a @ '':'' @ fmt6 b)"
  assume "hex_digest h"
  then have d: "length ?d = 64" "list_all (\<lambda>c. c \<in> set ''0123456789abcdef'') ?d" by (simp_all add: hex_digest_def)
  from d(2) have "list_all (\<lambda>c. c \<in> set ''0123456789abcdef'') (take 16 ?d)"
    unfolding list_all_iff using in_set_takeD by fast
  moreover have "length (take 16 ?d) = 16" using d(1) by simp
  moreover have "grant_id h fmt6 u host a b = ''grant_'' @ take 16 ?d" by (simp only: grant_id_def)
  ultimately show ?thesis by (simp add: valid_grant_id_shape_def starts_with_def)
qed

lemma built_grant:
  assumes b: "build_trust_grant h fmt6 fl unit host created expires prov = Inr g"
    and h: "hex_digest h" and host: "host_name_ok host"
  obtains u e where "validate_unit (JStr unit) = Inr u" and "strict_float ''invalid_expiry'' expires = Inr e"
    and "value_at g ''gateway_unit'' = JStr u" and "value_at g ''scope'' = JStr TRUST_SCOPE"
    and "grant_shape (JObj g)"
    and "\<And>t. is_valid_service_cycle_grant g u [u] host t \<longleftrightarrow> t < e"
proof -
  obtain u c e where u: "validate_unit (JStr unit) = Inr u" and c: "strict_float ''invalid_created_at'' created = Inr c"
      and e: "strict_float ''invalid_expiry'' expires = Inr e" and le: "c < e"
    using b by (auto simp: build_trust_grant_def split: sum.splits if_splits)
  have pos: "0 \<le> c" "0 \<le> e"
    using c e by (auto simp: strict_float_def split: json.splits if_splits)
  have g: "g = [(''grant_id'', JStr (grant_id h fmt6 u host c e)),
      (''mode'', JStr TRUST_MODE), (''action'', JStr TRUST_SCOPE), (''scope'', JStr TRUST_SCOPE),
      (''gateway_unit'', JStr u), (''allowed_services'', JArr [JStr u]), (''host_id'', JStr host),
      (''created_at'', JFloat c (fl c)), (''expires_at'', JFloat e (fl e)),
      (''provenance'', JStr (sanitize_provenance (JStr prov)))]"
    using b u c e le host_name_text(2) [OF host] by (simp add: build_trust_grant_def Let_def)
  have at: "value_at g ''grant_id'' = JStr (grant_id h fmt6 u host c e)" "value_at g ''mode'' = JStr TRUST_MODE"
    "value_at g ''action'' = JStr TRUST_SCOPE" "value_at g ''scope'' = JStr TRUST_SCOPE"
    "value_at g ''gateway_unit'' = JStr u" "value_at g ''allowed_services'' = JArr [JStr u]"
    "value_at g ''host_id'' = JStr host" "value_at g ''created_at'' = JFloat c (fl c)"
    "value_at g ''expires_at'' = JFloat e (fl e)" "value_at g ''provenance'' = JStr (sanitize_provenance (JStr prov))"
    by (simp_all add: g value_at_def dict_get_def)
  have keys: "list_all (\<lambda>k. k \<in> set (dict_keys g)) REQUIRED_GRANT_FIELDS"
    by (simp add: g dict_keys_def REQUIRED_GRANT_FIELDS_def)
  have float: "strict_float [] (JFloat c (fl c)) = Inr c" "strict_float [] (JFloat e (fl e)) = Inr e"
    using pos by (simp_all add: strict_float_def)
  note unit = validate_unit_word [OF u] and hostn = host_name_text [OF host]
  have "non_empty_sanitized ''host_id'' (JStr host)"
    using hostn(2) host by (simp add: non_empty_sanitized_def value_text_def host_name_ok_def)
  then have "grant_shape (JObj g)"
    using keys at float unit(3) le grant_id_shape [OF h] provenance_kept by (simp add: grant_shape_def)
  moreover have "is_valid_service_cycle_grant g u [u] host t \<longleftrightarrow> t < e" for t
    using at float unit(3) le hostn(2)
    by (simp add: is_valid_service_cycle_grant_def value_text_def grant_id_def starts_with_def sanitize_provenance_def str_or_def)
  ultimately show thesis by (intro that [OF u e]) (simp_all add: at)
qed

text \<open>The configuration that a first grant writes, as the runner loads it.\<close>

lemma service_list_one: "service_list (Some (JArr [JStr u])) = Inr [u]"
  by (simp add: service_list_def)

lemma default_policy_fields:
  "dict_get default_maintenance_config k =
     (if k = ''mode'' then Some (JStr ''request_only'')
      else if k = ''maintenance_kill_switch'' then Some (JBool False)
      else if k = ''allowed_services'' then Some (JArr [])
      else if k = ''trust_grants'' then Some (JArr [])
      else if k = ''requested_action'' then Some (JStr ''observe'') else None)"
  by (simp add: default_maintenance_config_def dict_get_def)

lemma granted_fields:
  assumes "p = granted_policy default_maintenance_config u [g]"
  shows "dict_get p ''mode'' = Some (JStr TRUST_MODE)" "dict_get p ''requested_action'' = Some (JStr TRUST_SCOPE)"
    "dict_get p ''target_unit'' = Some (JStr u)" "dict_get p ''allowed_services'' = Some (JArr [JStr u])"
    "dict_get p ''trust_grants'' = Some (JArr [JObj g])" "dict_get p ''maintenance_kill_switch'' = Some (JBool False)"
    "dict_get p ''host_id'' = None" "dict_get p ''max_cycles_per_day'' = None"
    "dict_get p ''min_seconds_between_cycles'' = None" "dict_get p ''repo_path'' = None"
  using assms by (simp_all add: granted_policy_def Let_def default_policy_fields)

lemma load_granted_policy:
  assumes "p = granted_policy default_maintenance_config u [g]"
  shows "\<exists>q. load_maintenance_policy (Parsed_File (JObj p)) = Inr q \<and> mp_mode q = ''guarded_cycle'' \<and>
    mp_allowed_services q = [u] \<and> \<not> mp_kill_switch q \<and> mp_error q = []"
  using granted_fields [OF assms]
  by (simp add: load_maintenance_policy_def maint_mode_def MAINT_MODES_def TRUST_MODE_def service_list_one
      strict_int_def Let_def strict_bool_def)

lemma load_granted:
  assumes p: "p = granted_policy default_maintenance_config u [g]" and u: "short_text 240 u = u"
    and g: "grant_shape (JObj g)" and host: "short_text 240 host = host"
  shows "\<exists>c. load_runner_config host fixture (Parsed_File (JObj p)) = Inr c \<and> mc_mode c = ''guarded_cycle'' \<and>
    mc_allowed_services c = [u] \<and> mc_target_unit c = u \<and> service_requested c \<and> \<not> mc_kill_switch c \<and>
    mc_error c = [] \<and> \<not> mc_grants_malformed c \<and> mc_trust_grants c = [g] \<and> mc_host_id c = host"
proof -
  note f = granted_fields [OF p]
  obtain q where q: "load_maintenance_policy (Parsed_File (JObj p)) = Inr q" "mp_mode q = ''guarded_cycle''"
      "mp_allowed_services q = [u]" "\<not> mp_kill_switch q" "mp_error q = []"
    using load_granted_policy [OF p] by auto
  have "get_str p ''target_unit'' = u" "get_str p ''host_id'' = []"
    using f by (auto simp: get_str_JStr get_str_def)
  moreover have "value_at p ''requested_action'' = JStr ''service_cycle''"
    using f by (simp add: value_at_def TRUST_SCOPE_def)
  moreover have "validate_trust_grants_shape (JArr [JObj g])" "valid_grants (Some (JArr [JObj g])) = [g]"
    using g by (simp_all add: validate_trust_grants_shape_def valid_grants_def List.map_filter_def)
  ultimately show ?thesis using q f u host
    by (simp add: load_runner_config_def Let_def service_requested_def)
qed

lemma dict_get_safe_payload: "dict_get (safe_event_payload h d) k = map_option (safe_value h k) (dict_get d k)"
  by (induction d) (auto simp: safe_event_payload_def dict_get_def)

lemma value_at_trust_result:
  assumes "dict_get d ''success'' = Some (JBool b)"
  shows "value_at (trust_result h d) ''success'' = JBool b"
proof -
  have "dict_get (d @ e) ''success'' = Some (JBool b)" for e
    using assms by (simp add: dict_get_def map_add_def)
  then show ?thesis by (simp add: value_at_def trust_result_def dict_get_safe_payload)
qed

lemma granted_file:
  assumes "create_trust_grant h fmt6 fl host path No_File unit expires prov True now = Inr (res, file)"
    and "value_at res ''success'' = JBool True"
  obtains u g where "validate_unit (JStr unit) = Inr u"
    and "build_trust_grant h fmt6 fl u host (JFloat now (fl now)) expires prov = Inr g"
    and "file = Parsed_File (JObj (granted_policy default_maintenance_config u [g]))"
    and "valid_config_path path"
proof -
  have failed: "value_at (trust_failure h code dry) ''success'' \<noteq> JBool True" for code dry
    unfolding trust_failure_def by (subst value_at_trust_result [where b = False]) (simp_all add: dict_get_def)
  have old: "grant_dicts (dict_get default_maintenance_config ''trust_grants'') = Inr []"
    by (simp add: default_policy_fields grant_dicts_def List.map_filter_def)
  have ok: "valid_config_path path"
    using assms failed by (auto simp: create_trust_grant_def split: if_splits)
  note defs = create_trust_grant_def load_policy_for_trust_def
  have "\<exists>u. validate_unit (JStr unit) = Inr u"
  proof (cases "validate_unit (JStr unit)")
    case (Inl e)
    with assms(1) ok have "res = trust_failure h e False" by (simp add: defs)
    with failed assms(2) show ?thesis by simp
  qed simp
  then obtain u where u: "validate_unit (JStr unit) = Inr u" by blast
  have "\<exists>g. build_trust_grant h fmt6 fl u host (JFloat now (fl now)) expires prov = Inr g"
  proof (cases "build_trust_grant h fmt6 fl u host (JFloat now (fl now)) expires prov")
    case (Inl e)
    with assms(1) ok u have "res = trust_failure h e False" by (simp add: defs)
    with failed assms(2) show ?thesis by simp
  qed simp
  then obtain g where "build_trust_grant h fmt6 fl u host (JFloat now (fl now)) expires prov = Inr g" by blast
  with u ok assms(1) show thesis
    by (intro that [OF u]) (auto simp: defs old Let_def)
qed

lemma load_revoked:
  assumes p: "p = granted_policy default_maintenance_config u [g]" and u: "validate_unit (JStr unit) = Inr u"
    and path: "valid_config_path path"
    and g: "value_at g ''gateway_unit'' = JStr u" "value_at g ''scope'' = JStr TRUST_SCOPE"
  shows "\<exists>res file c. revoke_trust_grant h path (Parsed_File (JObj p)) unit True = Inr (res, file) \<and>
    load_runner_config host fixture file = Inr c \<and> mc_mode c = ''request_only'' \<and> \<not> service_requested c \<and>
    mc_trust_grants c = [] \<and> mc_allowed_services c = []"
proof -
  note f = granted_fields [OF p]
  let ?r = "revoked_policy p [] []"
  have "is_grant_of u (JObj g)" using g by (simp add: is_grant_of_def)
  then have "\<exists>res. revoke_trust_grant h path (Parsed_File (JObj p)) unit True = Inr (res, Parsed_File (JObj ?r))"
    using u path f by (simp add: revoke_trust_grant_def load_policy_for_trust_def service_list_one Let_def)
  moreover have r: "dict_get ?r ''mode'' = Some (JStr ''request_only'')" "dict_get ?r ''requested_action'' = Some (JStr ''observe'')"
    "dict_get ?r ''trust_grants'' = Some (JArr [])" "dict_get ?r ''allowed_services'' = Some (JArr [])"
    "dict_get ?r ''max_cycles_per_day'' = None" "dict_get ?r ''min_seconds_between_cycles'' = None"
    using f by (simp_all add: revoked_policy_def Let_def)
  moreover have "\<exists>q. load_maintenance_policy (Parsed_File (JObj ?r)) = Inr q \<and> mp_mode q = ''request_only'' \<and>
      mp_allowed_services q = []"
    using r by (simp add: load_maintenance_policy_def maint_mode_def MAINT_MODES_def service_list_def strict_int_def Let_def)
  ultimately show ?thesis
    by (fastforce simp: load_runner_config_def Let_def service_requested_def value_at_def valid_grants_def List.map_filter_def)
qed

lemma degraded_same: "md_state db' = md_state db \<Longrightarrow> is_degraded repo unit db' = is_degraded repo unit db"
  by (simp add: is_degraded_def)

text \<open>Once degraded, a repository and unit stay so and nothing acts for them.\<close>

lemma degraded_call:
  assumes "is_degraded repo unit (ms_db s)"
    and "mc_repo_id (kc_config k) = repo" "mc_target_unit (kc_config k) = unit" "mc_db_path (kc_config k) \<noteq> []"
  shows "ms_world (evaluate_call h k s) = ms_world s \<and> is_degraded repo unit (ms_db (evaluate_call h k s))"
  using evaluate_call_step [of h k s] assms
  by (auto simp: idle_step_def acting_step_def gates_open_def idle_rows_def is_degraded_def)

lemma degraded_calls:
  fixes s :: "'a maint_state"
  assumes "is_degraded repo unit (ms_db s)"
    and "\<forall>k \<in> set ks. mc_repo_id (kc_config k) = repo \<and> mc_target_unit (kc_config k) = unit \<and> mc_db_path (kc_config k) \<noteq> []"
  shows "ms_world (evaluate_calls h ks s) = ms_world s"
proof -
  let ?I = "\<lambda>t :: 'a maint_state. ms_world t = ms_world s \<and> is_degraded repo unit (ms_db t)"
  have "?I (evaluate_calls h ks s)"
  proof (rule evaluate_calls_invariant [where I = ?I])
    fix k t assume "k \<in> set ks" and "?I t"
    with assms(2) degraded_call [of repo unit t k h] show "?I (evaluate_call h k t)" by auto
  qed (use assms(1) in simp)
  then show ?thesis by blast
qed

lemma settle_degrades:
  assumes "ax_applied x" and "en_smoke en = Some False" and "mc_db_path c \<noteq> []"
  shows "is_degraded (mc_repo_id c) (mc_target_unit c) (snd (settle h clock c en x proposed db))"
  using assms by (simp add: settle_def Let_def is_degraded_def write_deadletter_def set_degraded_def)

text \<open>Quiet hours are an arc of the clock.\<close>

lemma in_quiet_hours_arc:
  assumes "0 \<le> hour" "hour < 24" "0 \<le> start" "start < 24" "0 \<le> stop" "stop < 24"
  shows "in_quiet_hours hour start stop \<longleftrightarrow> (hour - start) mod 24 < (stop - start) mod 24"
proof -
  have m: "(a - b) mod 24 = (if b \<le> a then a - b else a - b + 24)" if "0 \<le> a" "a < 24" "0 \<le> b" "b < 24" for a b :: int
  proof (cases "b \<le> a")
    case False
    have "(a - b) mod 24 = (a - b + 24) mod 24" by simp
    also have "\<dots> = a - b + 24" using False that by (intro mod_pos_pos_trivial) auto
    finally show ?thesis using False by simp
  qed (use that in simp)
  show ?thesis using assms by (simp add: m in_quiet_hours_def)
qed

subsection \<open>Properties\<close>

lemma traced_world: "snd (traced key a q now wt) = (snd (a q now (fst wt)), snd wt @ [key])"
  by (simp add: traced_def split_beta)

text \<open>
  C27: the runner and its declarative gates agree. An evaluation considers a service action, once, exactly
  when every gate is open (error, grants, kill switch and workers at both readings, mode, allowlist,
  grant, quiet hours, review, and with a database the daily cap, the interval and the circuit breaker),
  an adapter is wired and the cycle key is still free; otherwise nothing outside is touched.
\<close>

theorem runner_acts_iff:
  "snd (ms_world (evaluate_call h (traced_call h k) s)) = snd (ms_world s) @
     (if gates_open (kc_config k) (kc_env k) (kc_now k) (ms_db s) \<and> wired_adapter k \<noteq> None \<and>
         (if mc_db_path (kc_config k) = [] then True
          else config_cycle_key h (kc_config k) \<notin> cycle_keys (ms_db s))
      then [config_cycle_key h (kc_config k)] else [])"
proof -
  let ?c = "kc_config k" and ?k = "traced_call h k" and ?key = "config_cycle_key h (kc_config k)"
  have sel: "kc_config ?k = ?c" "kc_env ?k = kc_env k" "kc_now ?k = kc_now k"
    "wired_adapter ?k = map_option (traced ?key) (wired_adapter k)"
    by (auto simp: traced_call_def wired_adapter_def resolve_adapter_def split: option.splits)
  show ?thesis
  proof (cases "gates_open ?c (kc_env k) (kc_now k) (ms_db s) \<and> wired_adapter k \<noteq> None \<and>
      (mc_db_path ?c \<noteq> [] \<longrightarrow> ?key \<notin> cycle_keys (ms_db s))")
    case True
    then obtain a where "wired_adapter ?k = Some (traced ?key a)" by (auto simp: sel)
    then have "resolve_adapter (kc_adapter ?k) (kc_executor ?k) ?c = Some (traced ?key a)"
      by (simp only: wired_adapter_def sel)
    with True have "ms_world (evaluate_call h ?k s) = snd (traced ?key a (runner_request h ?c) (kc_now k) (ms_world s))"
      unfolding evaluate_call_def sel by (intro evaluate_runner_open) auto
    with True show ?thesis by (auto simp: traced_world)
  next
    case False
    then have "\<not> acting_step h (wired_adapter ?k) ?c (kc_env k) (kc_now k) s (evaluate_call h ?k s)"
      by (auto simp: acting_step_def acted_rows_def sel split: if_splits)
    then have "ms_world (evaluate_call h ?k s) = ms_world s"
      using evaluate_call_step [of h ?k s] by (simp add: sel idle_step_def)
    with False show ?thesis by auto
  qed
qed

text \<open>
  C28: with a database the runner refines a register in which a key is spent at most once and acted upon
  only as it is spent. Over any sequence of evaluations, whatever the configurations, adapters, clocks and
  readings, every concrete step is a step of the register, and no cycle key is acted upon twice.
\<close>

theorem runner_refines_register:
  assumes "\<forall>k \<in> set ks. mc_db_path (kc_config k) \<noteq> []"
  shows "once_step\<^sup>*\<^sup>* (register_view \<lparr>ms_db = db, ms_world = (w, [])\<rparr>)
      (register_view (evaluate_calls h (map (traced_call h) ks) \<lparr>ms_db = db, ms_world = (w, [])\<rparr>)) \<and>
    distinct (snd (ms_world (evaluate_calls h (map (traced_call h) ks) \<lparr>ms_db = db, ms_world = (w, [])\<rparr>)))"
proof -
  let ?s = "\<lparr>ms_db = db, ms_world = (w, [])\<rparr>"
  note steps = traced_calls_steps [OF assms, of ?s h]
  have "register_ok (register_view ?s)" by (simp add: register_ok_def register_view_def)
  from once_steps_ok [OF steps this] have "register_ok (register_view (evaluate_calls h (map (traced_call h) ks) ?s))" .
  with steps show ?thesis by (simp add: register_ok_def register_view_def)
qed

text \<open>
  C29: whatever is evaluated from an empty database under limits no looser than \<open>n\<close> a day and \<open>m\<close>
  seconds, every repository and unit has at most \<open>n\<close> applied cycles in each day, and any two of them are at
  least \<open>m\<close> seconds apart.
\<close>

theorem cycles_capped_and_spaced:
  assumes "\<forall>k \<in> set ks. mc_max_cycles (kc_config k) \<le> n \<and> m \<le> mc_min_seconds (kc_config k)"
    and "db = ms_db (evaluate_calls h ks \<lparr>ms_db = empty_maint_db, ms_world = w\<rparr>)"
  shows "int (count_cycles_today repo unit (fst (day_bucket t)) (snd (day_bucket t)) db) \<le> max 0 n \<and>
    sorted_wrt (\<lambda>a b. of_int m \<le> b - a) (map cy_created_at (applied_cycles repo unit db))"
proof -
  have "cycles_bounded n m db"
    unfolding assms(2) by (rule evaluate_calls_bounded [OF assms(1)]) (simp add: cycles_bounded_empty)
  then show ?thesis unfolding cycles_bounded_def by blast
qed

text \<open>
  C30: the circuit breaker latches. After an applied action whose smoke test failed, no evaluation for
  that repository and unit ever reaches an adapter again, under any cycle reference, adapter or reading.
\<close>

theorem smoke_failure_latches:
  assumes "ms_db s = snd (settle h clock c en x proposed db)"
    and "ax_applied x" and "en_smoke en = Some False" and "mc_db_path c \<noteq> []"
    and "\<forall>k \<in> set ks. mc_repo_id (kc_config k) = mc_repo_id c \<and> mc_target_unit (kc_config k) = mc_target_unit c \<and>
      mc_db_path (kc_config k) \<noteq> []"
  shows "ms_world (evaluate_calls h ks s) = ms_world s"
  using settle_degrades [OF assms(2-4), of h clock proposed db, folded assms(1)] assms(5) by (rule degraded_calls)

text \<open>
  C31: the life of a trust grant. The file that a first grant writes loads as an armed configuration for
  exactly the granted unit, whose grant is valid precisely until its expiry; revoking the unit writes a file
  that loads as request-only, with no grant, no service and nothing requested.
\<close>

theorem trust_grant_lifecycle:
  assumes "hex_digest h" and "host_name_ok host"
    and "create_trust_grant h fmt6 fl host path No_File unit expires prov True now = Inr (res, file)"
    and "value_at res ''success'' = JBool True"
  shows "\<exists>u e c. validate_unit (JStr unit) = Inr u \<and> strict_float ''invalid_expiry'' expires = Inr e \<and>
    load_runner_config host fixture file = Inr c \<and> mc_mode c = ''guarded_cycle'' \<and> service_requested c \<and>
    mc_target_unit c = u \<and> mc_allowed_services c = [u] \<and> \<not> mc_kill_switch c \<and> mc_error c = [] \<and>
    \<not> mc_grants_malformed c \<and> {t. has_service_cycle_grant c t} = {t. t < e} \<and>
    (\<exists>res2 file2 c2. revoke_trust_grant h path file unit True = Inr (res2, file2) \<and>
      load_runner_config host fixture file2 = Inr c2 \<and> mc_mode c2 = ''request_only'' \<and>
      \<not> service_requested c2 \<and> mc_trust_grants c2 = [] \<and> mc_allowed_services c2 = [])"
proof -
  obtain u g where u: "validate_unit (JStr unit) = Inr u"
    and b: "build_trust_grant h fmt6 fl u host (JFloat now (fl now)) expires prov = Inr g"
    and written: "file = Parsed_File (JObj (granted_policy default_maintenance_config u [g]))"
    and path: "valid_config_path path"
    by (rule granted_file [OF assms(3,4)])
  obtain u' e where "validate_unit (JStr u) = Inr u'" and e: "strict_float ''invalid_expiry'' expires = Inr e"
    and g': "value_at g ''gateway_unit'' = JStr u'" "value_at g ''scope'' = JStr TRUST_SCOPE" "grant_shape (JObj g)"
      "\<And>t. is_valid_service_cycle_grant g u' [u'] host t \<longleftrightarrow> t < e"
    using built_grant [OF b assms(1,2)] by metis
  then have "u' = u" using validate_unit_word(3) [OF u] by simp
  note g = g' [unfolded this]
  obtain c where c: "load_runner_config host fixture file = Inr c" "mc_mode c = ''guarded_cycle''" "service_requested c"
      "mc_target_unit c = u" "mc_allowed_services c = [u]" "\<not> mc_kill_switch c" "mc_error c = []"
      "\<not> mc_grants_malformed c" "mc_trust_grants c = [g]" "mc_host_id c = host"
    using load_granted [OF refl validate_unit_word(2) [OF u] g(3) host_name_text(1) [OF assms(2)]] written by fastforce
  have valid: "{t. has_service_cycle_grant c t} = {t. t < e}"
    using c g(4) by (simp add: has_service_cycle_grant_def)
  note revoked = load_revoked [OF refl u path g(1,2), of h host fixture, folded written]
  show ?thesis
    by (rule exI [of _ u], rule exI [of _ e], rule exI [of _ c], intro conjI u e c valid revoked)
qed

lemma executor_attempts_capped:
  "\<exists>n \<le> 3. ms_world (snd (evaluate_runner h clock None (Some ex) c en now s)) =
    ((\<lambda>w. snd (ex (mc_target_unit c) w)) ^^ n) (ms_world s)"
proof -
  let ?s = "snd (evaluate_runner h clock None (Some ex) c en now s)"
  have q: "aq_budget (runner_request h c) \<le> HARD_ATTEMPT_CAP" "aq_unit (runner_request h c) = mc_target_unit c"
    by (simp_all add: runner_request_def)
  from evaluate_runner_step [OF refl, where adapter = None and ex = "Some ex" and h = h and clock = clock and c = c
      and en = en and now = now and s = s] show ?thesis
  proof
    assume "idle_step h c now s ?s"
    then show ?thesis by (intro exI [of _ 0]) (simp add: idle_step_def)
  next
    assume "acting_step h (resolve_adapter None (Some ex) c) c en now s ?s"
    then have "ms_world ?s = snd (snd (fake_consider ex (mc_cooldown_seconds c) (runner_request h c) now (fresh_memory, ms_world s)))"
      by (auto simp: acting_step_def resolve_adapter_def split_beta split: if_splits)
    with fake_consider_iterates [OF q(1), of ex "mc_cooldown_seconds c" now fresh_memory "ms_world s"] q(2) show ?thesis
      by auto
  qed
qed

subsection \<open>Witnesses\<close>

definition sample_runner_config :: runner_config where
  "sample_runner_config = default_runner_config
     \<lparr>mc_mode := ''guarded_cycle'', mc_requested_action := ''service_cycle'', mc_target_unit := ''g.service'',
      mc_allowed_services := [''g.service''], mc_db_path := ''m.db''\<rparr>"

definition sample_call :: "nat runner_call" where
  "sample_call = \<lparr>kc_clock = 0, kc_adapter = Some noop_consider, kc_executor = None, kc_config = sample_runner_config,
     kc_env = \<lparr>en_kill = None, en_active = None, en_smoke = Some False, en_hour = None\<rparr>, kc_now = 100\<rparr>"

lemmas sample_call_fields = sample_call_def sample_runner_config_def default_runner_config_def

definition sample_digest :: "string \<Rightarrow> string" where
  "sample_digest s = replicate 64 (CHR ''a'')"

theorem runner_refines_register_witness:
  "once_step\<^sup>*\<^sup>* (register_view \<lparr>ms_db = empty_maint_db, ms_world = (0 :: nat, [])\<rparr>)
      (register_view (evaluate_calls sample_digest (map (traced_call sample_digest) [sample_call, sample_call])
        \<lparr>ms_db = empty_maint_db, ms_world = (0 :: nat, [])\<rparr>)) \<and>
    distinct (snd (ms_world (evaluate_calls sample_digest (map (traced_call sample_digest) [sample_call, sample_call])
      \<lparr>ms_db = empty_maint_db, ms_world = (0 :: nat, [])\<rparr>)))"
  by (rule runner_refines_register) (simp add: sample_call_fields)

theorem cycles_capped_and_spaced_witness:
  "int (count_cycles_today [] ''g.service'' (fst (day_bucket 100)) (snd (day_bucket 100))
      (ms_db (evaluate_calls sample_digest [sample_call, sample_call] \<lparr>ms_db = empty_maint_db, ms_world = 0\<rparr>)))
    \<le> max 0 2 \<and>
   sorted_wrt (\<lambda>a b. of_int 1800 \<le> b - a) (map cy_created_at (applied_cycles [] ''g.service''
      (ms_db (evaluate_calls sample_digest [sample_call, sample_call] \<lparr>ms_db = empty_maint_db, ms_world = 0\<rparr>))))"
  by (rule cycles_capped_and_spaced [OF _ refl]) (simp add: sample_call_fields)

definition sample_action_receipt :: action_receipt where
  "sample_action_receipt =
     applied_receipt \<lparr>aq_action_id = ''a'', aq_key = ''k'', aq_unit = ''g.service'', aq_budget = 1\<rparr> True 1 ''ok''"

theorem smoke_failure_latches_witness:
  "ms_world (evaluate_calls sample_digest [sample_call]
      \<lparr>ms_db = snd (settle sample_digest 0 sample_runner_config (kc_env sample_call) sample_action_receipt [] empty_maint_db),
       ms_world = 0\<rparr>) = 0"
proof -
  let ?s = "\<lparr>ms_db = snd (settle sample_digest 0 sample_runner_config (kc_env sample_call) sample_action_receipt []
      empty_maint_db), ms_world = 0 :: nat\<rparr>"
  have "ms_world (evaluate_calls sample_digest [sample_call] ?s) = ms_world ?s"
    by (rule smoke_failure_latches [where c = sample_runner_config and en = "kc_env sample_call"
          and x = sample_action_receipt and h = sample_digest and clock = 0 and proposed = "[]" and db = empty_maint_db])
      (simp_all add: sample_call_fields sample_action_receipt_def applied_receipt_def)
  then show ?thesis by simp
qed

lemma sample_grant_written:
  "\<exists>res file. create_trust_grant sample_digest (\<lambda>_. ''0'') (\<lambda>_. ''0'') ''abc'' ''/m'' No_File ''g.service'' (JInt 100) ''op''
      True 1 = Inr (res, file) \<and> value_at res ''success'' = JBool True"
proof -
  have u: "validate_unit (JStr ''g.service'') = Inr ''g.service''" and p: "valid_config_path ''/m''"
    by (code_simp, code_simp)
  have d: "value_at (trust_result sample_digest ((''success'', JBool True) # d)) ''success'' = JBool True" for d
    by (rule value_at_trust_result) (simp add: dict_get_def)
  show ?thesis
    by (simp add: create_trust_grant_def u p load_policy_for_trust_def build_trust_grant_def strict_float_def
        default_policy_fields grant_dicts_def List.map_filter_def Let_def d)
qed

theorem trust_grant_lifecycle_witness:
  "\<exists>res file u e c. create_trust_grant sample_digest (\<lambda>_. ''0'') (\<lambda>_. ''0'') ''abc'' ''/m'' No_File ''g.service'' (JInt 100)
      ''op'' True 1 = Inr (res, file) \<and>
    validate_unit (JStr ''g.service'') = Inr u \<and> strict_float ''invalid_expiry'' (JInt 100) = Inr e \<and>
    load_runner_config ''abc'' (\<lambda>_. Fixture_Raises) file = Inr c \<and> mc_mode c = ''guarded_cycle'' \<and>
    {t. has_service_cycle_grant c t} = {t. t < e}"
proof -
  obtain res written where f: "create_trust_grant sample_digest (\<lambda>_. ''0'') (\<lambda>_. ''0'') ''abc'' ''/m'' No_File ''g.service''
      (JInt 100) ''op'' True 1 = Inr (res, written)" "value_at res ''success'' = JBool True"
    using sample_grant_written by blast
  have "hex_digest sample_digest" by (simp add: hex_digest_def sample_digest_def list_all_iff)
  moreover have "host_name_ok ''abc''" by code_simp
  ultimately show ?thesis
    using trust_grant_lifecycle [OF _ _ f, of "\<lambda>_. Fixture_Raises"] f(1) by blast
qed

end
