(* ===== verification/Real_Board.thy ===== *)
theory Real_Board
  imports Graph_Cli Board
begin

text \<open>
  \<open>RealBoardAdapter\<close> of \<open>board_adapter.py\<close>: the command lines it runs, the board's own tables it
  reads to verify what a command did, and the acknowledgement rows it repairs there.

  The command-line runner and the JSON parser are parameters. The runner may change the board file; the
  adapter reads and repairs it. A table is \<open>None\<close> when the board does not have it, and knows which of
  its columns the board has; the columns of the endpoint are always there. A statement that fails in
  SQLite for reasons outside the program is not modelled.
\<close>

subsection \<open>The board file\<close>

record 'r sql_table =
  tb_cols :: "string list"
  tb_rows :: "'r list"

text \<open>A row of \<open>kanban_notify_subs\<close>; the empty text is also \<open>NULL\<close>.\<close>

record kanban_sub =
  kn_task :: string
  kn_platform :: string
  kn_chat :: string
  kn_thread :: string
  kn_profile :: string
  kn_trigger :: bool
  kn_mode :: string
  kn_chat_type :: string
  kn_user :: string
  kn_created_at :: int

record task_origin =
  ko_task :: string
  ko_platform :: string
  ko_chat :: string
  ko_thread :: string
  ko_chat_type :: string
  ko_user :: string

record notify_receipt =
  kr_task :: string
  kr_platform :: string
  kr_chat :: string
  kr_thread :: string
  kr_notify_status :: string
  kr_wake_status :: string
  kr_ack_status :: string
  kr_notify_at :: int
  kr_wake_at :: int
  kr_ack_at :: int
  kr_updated_at :: int

text \<open>\<open>bf_new_sub\<close> holds the board's defaults for the columns an insert does not name.\<close>

record board_file =
  bf_subs :: "kanban_sub sql_table option"
  bf_origins :: "task_origin sql_table option"
  bf_receipts :: "notify_receipt sql_table option"
  bf_ack_subs :: "ack_subscription_row table option"
  bf_wakes :: "ack_wake_row table option"
  bf_new_sub :: kanban_sub

type_synonym sub_key = "string \<times> string \<times> string \<times> string"

definition sub_endpoint :: "kanban_sub \<Rightarrow> sub_key" where
  "sub_endpoint r = (kn_task r, kn_platform r, kn_chat r, kn_thread r)"

definition origin_endpoint :: "task_origin \<Rightarrow> sub_key" where
  "origin_endpoint r = (ko_task r, ko_platform r, ko_chat r, ko_thread r)"

definition receipt_endpoint :: "notify_receipt \<Rightarrow> sub_key" where
  "receipt_endpoint r = (kr_task r, kr_platform r, kr_chat r, kr_thread r)"

subsection \<open>The command line\<close>

datatype cli_exception = Cli_Timeout | Cli_Sqlite string | Cli_Other

datatype cli_answer = Cli_Raises cli_exception | Cli_Answer int string string

text \<open>The adapter's state: the outside with the board file, and the caches of the adapter.\<close>

record 'w real_state =
  rb_outside :: 'w
  rb_file :: "board_file option"
  rb_task_ids :: "string dict"
  rb_mode_supported :: "bool option"

record 'w real_config =
  rb_runner :: "string list \<Rightarrow> 'w \<times> board_file option \<Rightarrow> cli_answer \<times> 'w \<times> board_file option"
  rb_loads :: "string \<Rightarrow> json option"
  rb_clock :: "'w \<Rightarrow> int"
  rb_board :: string
  rb_hermes_bin :: string
  rb_repair :: bool

definition run_cli :: "'w real_config \<Rightarrow> string list \<Rightarrow> 'w real_state \<Rightarrow> cli_answer \<times> 'w real_state" where
  "run_cli c argv s =
     (case rb_runner c argv (rb_outside s, rb_file s) of
        (a, w, file) \<Rightarrow> (a, s\<lparr>rb_outside := w, rb_file := file\<rparr>))"

text \<open>\<open>_sanitized_cli_error\<close> of an exception, and of an exit.\<close>

definition cli_exception_error :: "cli_exception \<Rightarrow> string" where
  "cli_exception_error e =
     (case e of
        Cli_Timeout \<Rightarrow> ''cli_runner_timeout''
      | Cli_Sqlite msg \<Rightarrow>
          if contains_text ''locked'' (py_lower msg) \<or> contains_text ''busy'' (py_lower msg)
          then ''cli_runner_db_locked'' else ''cli_runner_error''
      | Cli_Other \<Rightarrow> ''cli_runner_error'')"

definition stderr_error :: "string \<Rightarrow> string option" where
  "stderr_error stderr =
     (let msg = py_lower stderr in
      if list_ex (\<lambda>p. contains_text p msg) [''database is locked'', ''database table is locked'', ''sqlite_busy'']
        then Some ''cli_runner_db_locked''
      else if list_ex (\<lambda>p. contains_text p msg) [''timed out'', ''timeout''] then Some ''cli_runner_timeout''
      else None)"

definition cli_error :: "cli_answer \<Rightarrow> string option" where
  "cli_error a =
     (case a of
        Cli_Raises e \<Rightarrow> Some (cli_exception_error e)
      | Cli_Answer rc _ stderr \<Rightarrow>
          (case stderr_error stderr of
             Some e \<Rightarrow> Some e
           | None \<Rightarrow> if rc \<noteq> 0 then Some ''cli_runner_failed'' else None))"

definition ok_dict :: "json dict" where
  "ok_dict = [(''success'', JBool True)]"

definition error_dict :: "string \<Rightarrow> json dict" where
  "error_dict e = [(''success'', JBool False), (''error'', JStr e)]"

definition dict_success :: "json dict \<Rightarrow> bool" where
  "dict_success d \<longleftrightarrow> (case dict_get d ''success'' of None \<Rightarrow> False | Some v \<Rightarrow> truthy v)"

definition run_plain :: "'w real_config \<Rightarrow> string list \<Rightarrow> 'w real_state \<Rightarrow> json dict \<times> 'w real_state" where
  "run_plain c argv s =
     (case run_cli c argv s of
        (a, s') \<Rightarrow> (case cli_error a of Some e \<Rightarrow> error_dict e | None \<Rightarrow> ok_dict, s'))"

text \<open>\<open>{"success": True, **result}\<close>.\<close>

definition json_answer :: "'w real_config \<Rightarrow> cli_answer \<Rightarrow> json dict" where
  "json_answer c a =
     (case cli_error a of
        Some e \<Rightarrow> error_dict e
      | None \<Rightarrow>
          (case a of
             Cli_Answer _ out _ \<Rightarrow>
               (case rb_loads c out of
                  Some (JObj r) \<Rightarrow> foldl (\<lambda>d (k, v). dict_set k v d) ok_dict r
                | _ \<Rightarrow> error_dict ''cli_invalid_json'')
           | Cli_Raises _ \<Rightarrow> error_dict ''cli_invalid_json''))"

definition run_json :: "'w real_config \<Rightarrow> string list \<Rightarrow> 'w real_state \<Rightarrow> json dict \<times> 'w real_state" where
  "run_json c argv s = (case run_cli c argv s of (a, s') \<Rightarrow> (json_answer c a, s'))"

subsection \<open>Endpoints\<close>

definition DISCORD_CHANNEL_ALIASES :: "string dict" where
  "DISCORD_CHANNEL_ALIASES =
     [(''research'', ''1499390151393284106''), (''shaman'', ''1500539609413849200''),
      (''hermes-main'', ''1497895797579190357'')]"

definition aliased :: "string dict \<Rightarrow> string dict" where
  "aliased flags =
     (if flag flags ''platform'' = ''discord''
      then (let chat = flag flags ''chat_id'' in dict_set ''chat_id''
        (case dict_get DISCORD_CHANNEL_ALIASES (dropWhile (\<lambda>c. c = CHR ''#'') chat) of
           Some v \<Rightarrow> v | None \<Rightarrow> chat) flags)
      else flags)"

definition resolved_flags :: "string \<Rightarrow> string + string dict" where
  "resolved_flags endpoint =
     (let flags = map_origin_to_flags endpoint [] in
      if flags = [] then Inl ''unparseable_origin_endpoint''
      else if flag flags ''platform'' = ''discord'' \<and> \<not> all_digits (flag (aliased flags) ''chat_id'')
        then Inl ''discord_chat_id_not_numeric''
      else Inr (aliased flags))"

definition flags_key :: "string \<Rightarrow> string dict \<Rightarrow> sub_key" where
  "flags_key task flags = (task, flag flags ''platform'', flag flags ''chat_id'', flag flags ''thread_id'')"

definition chat_type_of :: "string dict \<Rightarrow> string" where
  "chat_type_of flags = (if flag flags ''thread_id'' \<noteq> [] then ''thread'' else ''channel'')"

definition board_argv :: "'w real_config \<Rightarrow> string list \<Rightarrow> string list" where
  "board_argv c rest = [rb_hermes_bin c, ''kanban'', ''--board'', rb_board c] @ rest"

definition endpoint_argv :: "string dict \<Rightarrow> string list" where
  "endpoint_argv flags =
     [''--platform'', flag flags ''platform'', ''--chat-id'', flag flags ''chat_id''] @
     (if flag flags ''thread_id'' \<noteq> [] then [''--thread-id'', flag flags ''thread_id''] else [])"

subsection \<open>Verification against the board\<close>

text \<open>
  \<open>_verify_existing_notify_wake_receipt\<close> (\<open>passive\<close>) and \<open>_verify_existing_origin_wake_receipt\<close>: a typed
  origin and a receipt of an accepted wake. \<open>None\<close> is the exception of a receipt table without the column
  of the consumer's acknowledgement.
\<close>

definition WAKE_ACCEPTED :: "string list" where
  "WAKE_ACCEPTED = [''accepted'', ''started'', ''completed'']"

definition verify_wake_receipt ::
    "bool \<Rightarrow> board_file \<Rightarrow> sub_key \<Rightarrow> string \<Rightarrow> string \<Rightarrow> json dict option" where
  "verify_wake_receipt passive b key chat_type user =
     (case (bf_origins b, bf_receipts b) of
        (Some origins, Some rts) \<Rightarrow>
          if ''active_wake_status'' \<notin> set (tb_cols rts) \<or> passive \<and> ''notify_delivery_status'' \<notin> set (tb_cols rts)
            then Some (error_dict ''receipt_schema_missing'')
          else (case find (\<lambda>x. origin_endpoint x = key) (tb_rows origins) of
              None \<Rightarrow> Some (error_dict ''typed_origin_missing'')
            | Some x \<Rightarrow>
                (let kind = (if ''chat_type'' \<in> set (tb_cols origins) then ko_chat_type x else []);
                     who = (if ''user_id'' \<in> set (tb_cols origins) then ko_user x else []) in
                 if chat_type \<noteq> [] \<and> kind \<noteq> [] \<and> kind \<noteq> chat_type \<and> kind \<noteq> ''group''
                   then Some (error_dict ''typed_origin_chat_type_mismatch'')
                 else if user \<noteq> [] \<and> who \<noteq> [] \<and> who \<noteq> user
                   then Some (error_dict ''typed_origin_user_id_mismatch'')
                 else if ''consumer_ack_status'' \<notin> set (tb_cols rts) then None
                 else (case find (\<lambda>r. receipt_endpoint r = key) (tb_rows rts) of
                     None \<Rightarrow> Some (error_dict
                       (if passive then ''notify_wake_receipt_missing'' else ''origin_wake_receipt_missing''))
                   | Some r \<Rightarrow>
                       if passive \<and> kr_notify_status r \<noteq> ''delivered'' \<or> kr_wake_status r \<notin> set WAKE_ACCEPTED
                       then Some (error_dict
                         (if passive then ''notify_wake_receipt_not_accepted'' else ''origin_wake_not_accepted''))
                       else Some (ok_dict @
                         [(''source'', JStr (if passive then ''existing_notify_wake_receipt''
                             else ''existing_origin_wake_receipt'')),
                          (''consumer_ack_status'', JStr (kr_ack_status r))]))))
      | _ \<Rightarrow> Some (error_dict ''receipt_schema_missing''))"

definition verify_origin_wake_receipt :: "board_file \<Rightarrow> sub_key \<Rightarrow> string \<Rightarrow> string \<Rightarrow> json dict option" where
  "verify_origin_wake_receipt = verify_wake_receipt False"

definition verify_canonical_sub :: "board_file option \<Rightarrow> string \<Rightarrow> string dict \<Rightarrow> json dict" where
  "verify_canonical_sub file task flags =
     (let key = flags_key task flags; kind = chat_type_of flags; who = flag flags ''user_id'' in
      case file of
        None \<Rightarrow> error_dict ''canonical_db_connect_failed''
      | Some b \<Rightarrow>
          (case bf_subs b of
             None \<Rightarrow> error_dict ''canonical_schema_missing''
           | Some subs \<Rightarrow>
               if ''delivery_mode'' \<notin> set (tb_cols subs) then error_dict ''canonical_schema_missing''
               else if \<not> {''chat_type'', ''user_id''} \<subseteq> set (tb_cols subs) then error_dict ''canonical_verify_failed''
               else (case find (\<lambda>r. sub_endpoint r = key) (tb_rows subs) of
                   None \<Rightarrow>
                     (case verify_wake_receipt True b key kind who of
                        None \<Rightarrow> error_dict ''canonical_verify_failed''
                      | Some r \<Rightarrow>
                          if dict_success r then r
                          else error_dict ''canonical_row_missing'' @ [(''receipt'', JObj r)])
                 | Some r \<Rightarrow>
                     if kn_mode r \<noteq> ''notify+wake'' then error_dict ''canonical_delivery_mode_mismatch''
                     else if kn_chat_type r \<noteq> [] \<and> kn_chat_type r \<noteq> kind then error_dict ''canonical_chat_type_mismatch''
                     else if who \<noteq> [] \<and> kn_user r \<noteq> [] \<and> kn_user r \<noteq> who then error_dict ''canonical_user_id_mismatch''
                     else ok_dict)))"

definition real_origin_wake_satisfied :: "string \<Rightarrow> string \<Rightarrow> board_file option \<Rightarrow> json dict option" where
  "real_origin_wake_satisfied task endpoint file =
     (case resolved_flags endpoint of
        Inl e \<Rightarrow> Some (error_dict e)
      | Inr flags \<Rightarrow>
          (case file of
             None \<Rightarrow> Some (error_dict ''canonical_db_connect_failed'')
           | Some b \<Rightarrow>
               (let key = flags_key task flags; kind = chat_type_of flags; who = flag flags ''user_id'' in
                case verify_wake_receipt True b key kind who of
                  None \<Rightarrow> None
                | Some r \<Rightarrow> if dict_success r then Some r else verify_origin_wake_receipt b key kind who)))"

definition real_consumer_ack_satisfied :: "string \<Rightarrow> string \<Rightarrow> string \<Rightarrow> board_file option \<Rightarrow> json dict" where
  "real_consumer_ack_satisfied task endpoint status file =
     (case resolved_flags endpoint of
        Inl e \<Rightarrow> error_dict e
      | Inr flags \<Rightarrow>
          (case file of
             None \<Rightarrow> error_dict ''canonical_db_connect_failed''
           | Some b \<Rightarrow>
               (case (bf_origins b, bf_receipts b) of
                  (Some origins, Some rts) \<Rightarrow>
                    if ''consumer_ack_status'' \<notin> set (tb_cols rts) then error_dict ''consumer_ack_verify_failed''
                    else if \<not> list_ex (\<lambda>x. origin_endpoint x = flags_key task flags) (tb_rows origins)
                      then error_dict ''consumer_ack_missing''
                    else (case find (\<lambda>r. receipt_endpoint r = flags_key task flags) (tb_rows rts) of
                        None \<Rightarrow> error_dict ''consumer_ack_missing''
                      | Some r \<Rightarrow>
                          if kr_ack_status r \<noteq> status
                          then error_dict ''consumer_ack_status_mismatch'' @ [(''consumer_ack_status'', JStr (kr_ack_status r))]
                          else ok_dict @ [(''consumer_ack_status'', JStr (kr_ack_status r))])
                | _ \<Rightarrow> error_dict ''receipt_schema_missing'')))"

subsection \<open>The acknowledgement rows\<close>

definition ensure_sub :: "sub_key \<Rightarrow> int \<Rightarrow> kanban_sub \<Rightarrow> kanban_sub sql_table \<Rightarrow> kanban_sub sql_table" where
  "ensure_sub key now new t =
     (let trigger = ''trigger_agent'' \<in> set (tb_cols t) in
      if list_ex (\<lambda>r. sub_endpoint r = key) (tb_rows t) then
        (if trigger
         then t\<lparr>tb_rows := map (\<lambda>r. if sub_endpoint r = key
           then r\<lparr>kn_trigger := True, kn_profile := ''default''\<rparr> else r) (tb_rows t)\<rparr>
         else t)
      else (case key of (task, platform, chat, thread) \<Rightarrow> t\<lparr>tb_rows := tb_rows t @
        [new\<lparr>kn_task := task, kn_platform := platform, kn_chat := chat, kn_thread := thread,
           kn_profile := ''default'', kn_trigger := trigger \<or> kn_trigger new, kn_created_at := now\<rparr>]\<rparr>))"

definition anchor_correlation :: "sub_key \<Rightarrow> string" where
  "anchor_correlation key =
     (case key of (task, platform, chat, thread) \<Rightarrow> ''owner-anchor:'' @ task @ '':'' @ platform @ '':'' @ chat)"

definition ensure_anchor_wake :: "sub_key \<Rightarrow> nat \<Rightarrow> int \<Rightarrow> ack_wake_row table \<Rightarrow> ack_wake_row table" where
  "ensure_anchor_wake key sub now t =
     (if list_ex (wake_for (fst key) sub (anchor_correlation key)) (rows t) then t
      else snd (insert_row (\<lambda>i. \<lparr>aw_id = i, aw_task_id = fst key, aw_subscription_id = sub,
        aw_triggered_agent = False, aw_correlation_id = anchor_correlation key, aw_status = ''pending'',
        aw_created_at = now\<rparr>) t))"

definition ensure_durable_ack_rows :: "sub_key \<Rightarrow> int \<Rightarrow> board_file option \<Rightarrow> json dict \<times> board_file option" where
  "ensure_durable_ack_rows key now file =
     (case file of
        None \<Rightarrow> (error_dict ''ack_db_connect_failed'', None)
      | Some b \<Rightarrow>
          (case (bf_subs b, bf_ack_subs b, bf_wakes b) of
             (Some subs, Some acks, Some wakes) \<Rightarrow>
               (case ensure_subscription key now acks of
                  (sub, acks') \<Rightarrow> (ok_dict, Some (b\<lparr>bf_subs := Some (ensure_sub key now (bf_new_sub b) subs),
                     bf_ack_subs := Some acks', bf_wakes := Some (ensure_anchor_wake key sub now wakes)\<rparr>)))
           | _ \<Rightarrow> (error_dict ''ack_schema_missing'', Some b)))"

subsection \<open>The operations\<close>

definition blocked_anchor_body :: "json dict \<Rightarrow> string" where
  "blocked_anchor_body intent =
     (let body = get_str intent ''body''; reason = get_str intent ''blocked_reason'';
          checklist = (case dict_get intent ''required_owner_fields'' of Some (JArr xs) \<Rightarrow> map py_str xs | _ \<Rightarrow> []);
          extra = join_with line_feed_text
            ((if reason = [] then ''Awaiting owner input.'' else ''Awaiting owner input: '' @ reason) #
             (if checklist = [] then []
              else ''Required owner fields:'' # map (\<lambda>name. ''- '' @ name) checklist))
      in if body = [] then extra else py_strip (body @ line_feed_text @ line_feed_text @ extra))"

definition create_argv :: "'w real_config \<Rightarrow> json dict \<Rightarrow> string list" where
  "create_argv c intent =
     (let blocked = (get_str intent ''status'' = ''blocked'');
          body = (if blocked then blocked_anchor_body intent else get_str intent ''body'');
          assignee = short_text 240 (get_str intent ''assignee'');
          parent = short_text 240 (get_str intent ''parent_task_id'');
          key = get_str intent ''idempotency_key''
      in board_argv c ([''create'', get_str intent ''title''] @
           (if body = [] then [] else [''--body'', body]) @
           (if assignee = [] then [] else [''--assignee'', assignee]) @
           (if parent = [] then [] else [''--parent'', parent]) @
           (if key = [] then [] else [''--idempotency-key'', key]) @
           (if blocked then [''--initial-status'', ''blocked''] else []) @ [''--json'']))"

definition real_create_task :: "'w real_config \<Rightarrow> json dict \<Rightarrow> 'w real_state \<Rightarrow> json dict \<times> 'w real_state" where
  "real_create_task c intent s =
     (let key = get_str intent ''idempotency_key''; cached = flag (rb_task_ids s) key in
      if cached \<noteq> [] then (ok_dict @ [(''task_id'', JStr cached)], s)
      else case run_json c (create_argv c intent) s of (result, s') \<Rightarrow>
        if \<not> dict_success result
          then ([(''success'', JBool False),
                 (''error'', case dict_get result ''error'' of None \<Rightarrow> JStr ''cli_error'' | Some v \<Rightarrow> v)], s')
        else (let task = short_text 240 (str_or (get_str result ''id'') (get_str result ''task_id'')) in
          if task = [] then (error_dict ''cli_missing_task_id'', s')
          else (ok_dict @ [(''task_id'', JStr task)],
                if key = [] then s' else s'\<lparr>rb_task_ids := dict_set key task (rb_task_ids s')\<rparr>)))"

definition real_block_task :: "'w real_config \<Rightarrow> string \<Rightarrow> string \<Rightarrow> string \<Rightarrow> 'w real_state \<Rightarrow> json dict \<times> 'w real_state" where
  "real_block_task c task reason kind = run_plain c (board_argv c ([''block'', task] @
     (if reason = [] then [] else [reason]) @ (if kind = [] then [] else [''--kind'', kind])))"

definition real_comment :: "'w real_config \<Rightarrow> string \<Rightarrow> string \<Rightarrow> 'w real_state \<Rightarrow> json dict \<times> 'w real_state" where
  "real_comment c task body = run_plain c (board_argv c [''comment'', task, body])"

text \<open>\<open>dumps\<close> is \<open>json.dumps\<close>.\<close>

definition real_complete_owner_anchor ::
    "(json \<Rightarrow> string) \<Rightarrow> 'w real_config \<Rightarrow> string \<Rightarrow> string \<Rightarrow> 'w real_state \<Rightarrow> json dict \<times> 'w real_state" where
  "real_complete_owner_anchor dumps c task receipt = run_plain c (board_argv c
     [''complete'', task, ''--summary'', ''owner_receipt:'' @ receipt,
      ''--metadata'', dumps (JObj [(''receipt_ref'', JStr receipt)])])"

definition real_schedule_origin_wake :: "'w real_config \<Rightarrow> string \<Rightarrow> string \<Rightarrow> 'w real_state \<Rightarrow> json dict \<times> 'w real_state" where
  "real_schedule_origin_wake c task endpoint =
     (let flags = map_origin_to_flags endpoint [] in
      run_json c (board_argv c ([''wake-origin'', task] @ (if flags = [] then [] else endpoint_argv flags) @ [''--json''])))"

definition dict_error :: "json dict \<Rightarrow> string \<Rightarrow> json" where
  "dict_error d dflt = (case dict_get d ''error'' of None \<Rightarrow> JStr dflt | Some v \<Rightarrow> v)"

definition failed_ack :: "json dict \<Rightarrow> string \<Rightarrow> json dict" where
  "failed_ack ack dflt = [(''success'', JBool False), (''error'', dict_error ack dflt), (''ack'', JObj ack)]"

definition real_record_consumer_ack ::
    "'w real_config \<Rightarrow> string \<Rightarrow> string \<Rightarrow> string \<Rightarrow> 'w real_state \<Rightarrow> json dict \<times> 'w real_state" where
  "real_record_consumer_ack c task endpoint status s =
     (let flags = map_origin_to_flags endpoint [];
          argv = board_argv c ([''consumer-ack-origin'', task, ''--status'', status] @
            (if flags = [] then [] else endpoint_argv (aliased flags)) @ [''--json''])
      in case run_json c argv s of (result, s') \<Rightarrow>
        if \<not> dict_success result then (result, s')
        else (let verified = real_consumer_ack_satisfied task endpoint status (rb_file s') in
          if dict_success verified then (dict_set ''ack'' (JObj verified) result, s')
          else (failed_ack verified ''consumer_ack_verify_failed'', s')))"

definition supports_delivery_mode :: "'w real_config \<Rightarrow> 'w real_state \<Rightarrow> bool \<times> 'w real_state" where
  "supports_delivery_mode c s =
     (case rb_mode_supported s of
        Some b \<Rightarrow> (b, s)
      | None \<Rightarrow>
          (case run_cli c [rb_hermes_bin c, ''kanban'', ''notify-subscribe'', ''--help''] s of
             (a, s') \<Rightarrow>
               (let b = (case a of Cli_Raises _ \<Rightarrow> False
                      | Cli_Answer rc out _ \<Rightarrow> rc = 0 \<and> contains_text ''--delivery-mode'' out)
                in (b, s'\<lparr>rb_mode_supported := Some b\<rparr>))))"

definition subscribe_cli_argv :: "'w real_config \<Rightarrow> string \<Rightarrow> string dict \<Rightarrow> bool \<Rightarrow> string list" where
  "subscribe_cli_argv c task flags canonical =
     board_argv c ([''notify-subscribe'', task] @ endpoint_argv flags @
       (if flag flags ''user_id'' \<noteq> [] then [''--user-id'', flag flags ''user_id''] else []) @
       (if canonical then [''--chat-type'', chat_type_of flags, ''--delivery-mode'', ''notify+wake''] else []))"

text \<open>\<open>subscribe\<close> from the command on; \<open>canonical\<close> says that the board verifies the subscription.\<close>

definition subscribe_and_verify ::
    "'w real_config \<Rightarrow> string \<Rightarrow> string dict \<Rightarrow> bool \<Rightarrow> 'w real_state \<Rightarrow> json dict \<times> 'w real_state" where
  "subscribe_and_verify c task flags canonical s =
     (case run_plain c (subscribe_cli_argv c task flags canonical) s of (result, s') \<Rightarrow>
        if \<not> (dict_success result \<and> rb_repair c \<and> flag flags ''platform'' = ''discord'' \<and>
              all_digits (flag flags ''chat_id'')) then (result, s')
        else if canonical then
          (let ack = verify_canonical_sub (rb_file s') task flags in
           (if dict_success ack then dict_set ''ack'' (JObj ack) result
            else failed_ack ack ''canonical_verification_failed'', s'))
        else (case ensure_durable_ack_rows (flags_key task flags) (rb_clock c (rb_outside s')) (rb_file s') of
            (ack, file) \<Rightarrow>
              (if dict_success ack then dict_set ''ack'' (JObj ack) result else failed_ack ack ''ack_ensure_failed'',
               s'\<lparr>rb_file := file\<rparr>)))"

definition real_subscribe :: "'w real_config \<Rightarrow> string \<Rightarrow> string \<Rightarrow> 'w real_state \<Rightarrow> json dict \<times> 'w real_state" where
  "real_subscribe c task endpoint s =
     (case resolved_flags endpoint of
        Inl e \<Rightarrow> (error_dict e, s)
      | Inr flags \<Rightarrow>
          (case (if rb_repair c then supports_delivery_mode c s else (False, s)) of
             (canonical, s1) \<Rightarrow>
               (let existing = verify_canonical_sub (rb_file s1) task flags in
                if canonical \<and> dict_success existing
                then (ok_dict @ [(''ack'', JObj existing), (''duplicate'', JBool True)], s1)
                else subscribe_and_verify c task flags canonical s1)))"

subsection \<open>The adapter the continuations use\<close>

definition optional_str :: "json dict \<Rightarrow> string \<Rightarrow> string option" where
  "optional_str d k = (if get_str d k = [] then None else Some (get_str d k))"

definition board_result_of :: "json dict \<Rightarrow> board_result" where
  "board_result_of d =
     \<lparr>br_success = dict_success d, br_task_id = optional_str d ''task_id'', br_error = optional_str d ''error'',
      br_ack = (case dict_get d ''ack'' of
          None \<Rightarrow> No_Ack
        | Some (JObj a) \<Rightarrow> Ack (dict_success a) (optional_str a ''error'')
        | Some _ \<Rightarrow> Malformed_Ack)\<rparr>"

definition lift_result :: "('w real_state \<Rightarrow> json dict \<times> 'w real_state) \<Rightarrow> 'w real_state \<Rightarrow> board_result \<times> 'w real_state" where
  "lift_result f s = map_prod board_result_of id (f s)"

definition real_adapter :: "(json \<Rightarrow> string) \<Rightarrow> 'w real_config \<Rightarrow> 'w real_state adapter" where
  "real_adapter dumps c =
     \<lparr>a_create_task = (\<lambda>intent. lift_result (real_create_task c intent)),
      a_subscribe = (\<lambda>task endpoint. lift_result (real_subscribe c task endpoint)),
      a_complete_owner_anchor = (\<lambda>task receipt. lift_result (real_complete_owner_anchor dumps c task receipt)),
      a_schedule_origin_wake = Some (\<lambda>task endpoint. lift_result (real_schedule_origin_wake c task endpoint)),
      a_origin_wake_satisfied = Some (\<lambda>task endpoint s.
        (map_option board_result_of (real_origin_wake_satisfied task endpoint (rb_file s)), s)),
      a_consumer_ack_satisfied = Some (\<lambda>task endpoint status s.
        (Some (board_result_of (real_consumer_ack_satisfied task endpoint status (rb_file s))), s)),
      a_record_consumer_ack = Some (\<lambda>task endpoint status. lift_result (real_record_consumer_ack c task endpoint status))\<rparr>"

end
