(* ===== verification/Real_Board_Props.thy ===== *)
theory Real_Board_Props
  imports Real_Board
begin

text \<open>
  What \<open>RealBoardAdapter\<close> promises: a subscription that reports success is one the board can wake on,
  the repair of the acknowledgement rows can be repeated, and a created task is not created again.
\<close>

subsection \<open>The repaired rows\<close>

definition sub_rows_ok :: "ack_subscription_row table \<Rightarrow> bool" where
  "sub_rows_ok t \<longleftrightarrow> distinct (map as_id (rows t)) \<and> (\<forall>i \<in> set (map as_id (rows t)). i \<le> counter t)"

text \<open>The rows on which the gateway's active wake acts.\<close>

definition wake_rows :: "sub_key \<Rightarrow> kanban_sub sql_table \<Rightarrow> ack_subscription_row table \<Rightarrow> ack_wake_row table \<Rightarrow> bool" where
  "wake_rows key subs acks wakes \<longleftrightarrow>
     (\<exists>r \<in> set (tb_rows subs). sub_endpoint r = key) \<and>
     (\<exists>a \<in> set (rows acks). default_sub key a \<and> as_active_wake_required a \<and> as_delivery_mode a = wake_mode \<and>
        (\<exists>w \<in> set (rows wakes). wake_for (fst key) (as_id a) (anchor_correlation key) w))"

definition board_wakes :: "sub_key \<Rightarrow> board_file option \<Rightarrow> bool" where
  "board_wakes key file \<longleftrightarrow>
     (\<exists>b subs acks wakes. file = Some b \<and> bf_subs b = Some subs \<and> bf_ack_subs b = Some acks \<and>
        bf_wakes b = Some wakes \<and> wake_rows key subs acks wakes)"

lemma ensure_sub_present: "\<exists>r \<in> set (tb_rows (ensure_sub key now new t)). sub_endpoint r = key"
proof (cases "list_ex (\<lambda>r. sub_endpoint r = key) (tb_rows t)")
  case True
  then obtain r where r: "r \<in> set (tb_rows t)" "sub_endpoint r = key" by (auto simp: list_ex_iff)
  have "sub_endpoint (q\<lparr>kn_trigger := True, kn_profile := ''default''\<rparr>) = sub_endpoint q" for q
    by (simp add: sub_endpoint_def)
  with r True show ?thesis by (auto simp: ensure_sub_def Let_def intro: bexI [of _ r])
next
  case False
  then show ?thesis by (cases key) (simp add: ensure_sub_def Let_def sub_endpoint_def)
qed

lemma ensure_sub_again: "ensure_sub key now' new (ensure_sub key now new t) = ensure_sub key now new t"
proof -
  let ?t = "ensure_sub key now new t"
  have cols: "tb_cols ?t = tb_cols t"
    by (auto simp: ensure_sub_def Let_def split: prod.split)
  have set: "map (\<lambda>r. if sub_endpoint r = key then r\<lparr>kn_trigger := True, kn_profile := ''default''\<rparr> else r) (tb_rows ?t) =
      tb_rows ?t" if "''trigger_agent'' \<in> set (tb_cols t)"
    using that by (cases key) (auto simp: ensure_sub_def Let_def list_ex_iff sub_endpoint_def intro!: map_idI)
  have "list_ex (\<lambda>r. sub_endpoint r = key) (tb_rows ?t)"
    using ensure_sub_present by (auto simp: list_ex_iff)
  then show ?thesis using set cols by (subst ensure_sub_def) (simp add: Let_def)
qed

lemma find_default_sub:
  assumes "ensure_subscription key now t = (sub, t')"
  obtains r where "find (default_sub key) (rows t') = Some r" "as_id r = sub"
    "as_active_wake_required r" "as_delivery_mode r = wake_mode" "r \<in> set (rows t')" "default_sub key r"
proof (cases "find (default_sub key) (rows t)")
  case None
  obtain task platform chat thread where k: "key = (task, platform, chat, thread)" by (cases key) auto
  obtain r where r: "r = \<lparr>as_id = Suc (counter t), as_task_id = task, as_platform = platform, as_chat_id = chat,
      as_thread_id = thread, as_notifier_profile = ''default'', as_delivery_mode = wake_mode,
      as_active_wake_required = True, as_created_at = now\<rparr>" by simp
  have t': "rows t' = rows t @ [r]" "sub = as_id r"
    using assms None by (auto simp: ensure_subscription_def k insert_row_def Let_def r)
  have d: "default_sub key r" by (simp add: default_sub_def endpoint_of_sub_def k r)
  then have "find (default_sub key) (rows t') = Some r" using None by (simp add: t' find_append)
  then show ?thesis using d by (intro that [of r]) (auto simp: t' r)
next
  case (Some q)
  let ?f = "\<lambda>x. x\<lparr>as_delivery_mode := wake_mode, as_active_wake_required := True\<rparr>"
  have t': "rows t' = map (\<lambda>x. if as_id x = as_id q then ?f x else x) (rows t)" "sub = as_id q"
    using assms Some by (auto simp: ensure_subscription_def)
  have same: "default_sub key (?f x) = default_sub key x" for x
    by (simp add: default_sub_def endpoint_of_sub_def)
  have "find (default_sub key) (rows t') = Some (?f q)"
    unfolding t' using find_map_if [of "default_sub key" ?f, OF same] by (simp add: Some)
  moreover from this have "?f q \<in> set (rows t')" "default_sub key (?f q)" by (auto simp: find_Some_iff)
  ultimately show ?thesis by (intro that [of "?f q"]) (auto simp: t')
qed

lemma ensure_subscription_ids:
  assumes "ensure_subscription key now t = (sub, t')" and "sub_rows_ok t"
  shows "sub_rows_ok t'"
proof (cases "find (default_sub key) (rows t)")
  case None
  with assms show ?thesis
    by (cases key) (fastforce simp: ensure_subscription_def insert_row_def Let_def sub_rows_ok_def)
next
  case (Some q)
  let ?f = "\<lambda>x. x\<lparr>as_delivery_mode := wake_mode, as_active_wake_required := True\<rparr>"
  have "map as_id (rows t') = map as_id (rows t)" "counter t' = counter t"
    using assms(1) Some by (auto simp: ensure_subscription_def map_if_same)
  with assms(2) show ?thesis unfolding sub_rows_ok_def by metis
qed

lemma ensure_subscription_again:
  assumes e: "ensure_subscription key now t = (sub, t')" and ok: "sub_rows_ok t"
  shows "ensure_subscription key now' t' = (sub, t')"
proof -
  obtain r where r: "find (default_sub key) (rows t') = Some r" "as_id r = sub" "as_active_wake_required r"
      "as_delivery_mode r = wake_mode" "r \<in> set (rows t')"
    by (rule find_default_sub [OF e])
  have uniq: "x = r" if "x \<in> set (rows t')" "as_id x = as_id r" for x
    using ensure_subscription_ids [OF e ok] that r(5) by (auto simp: sub_rows_ok_def distinct_map inj_on_def)
  have "map (\<lambda>x. if as_id x = as_id r then x\<lparr>as_delivery_mode := wake_mode, as_active_wake_required := True\<rparr> else x)
      (rows t') = rows t'"
    using uniq r(3,4) by (intro map_idI) (metis (full_types) ack_subscription_row.surjective ack_subscription_row.update_convs)
  with r show ?thesis by (simp add: ensure_subscription_def)
qed

lemma ensure_wake_present: "\<exists>w \<in> set (rows (ensure_anchor_wake key sub now t)). wake_for (fst key) sub (anchor_correlation key) w"
  by (auto simp: ensure_anchor_wake_def list_ex_iff wake_for_def)

lemma ensure_wake_again: "ensure_anchor_wake key sub now' (ensure_anchor_wake key sub now t) = ensure_anchor_wake key sub now t"
  using ensure_wake_present [of key sub now t] by (subst ensure_anchor_wake_def) (simp add: list_ex_iff)

lemma ensure_durable_cases:
  assumes "ensure_durable_ack_rows key now bfile = (ack, bfile')" and "dict_success ack"
  obtains b subs acks wakes sub acks' where "bfile = Some b" "bf_subs b = Some subs" "bf_ack_subs b = Some acks"
    "bf_wakes b = Some wakes" "ensure_subscription key now acks = (sub, acks')" "ack = ok_dict"
    "bfile' = Some (b\<lparr>bf_subs := Some (ensure_sub key now (bf_new_sub b) subs), bf_ack_subs := Some acks',
       bf_wakes := Some (ensure_anchor_wake key sub now wakes)\<rparr>)"
proof -
  have bad: "\<not> dict_success (error_dict e)" for e
    by (simp add: dict_success_def error_dict_def dict_get_def)
  obtain b where b: "bfile = Some b"
    using assms bad by (cases bfile) (auto simp: ensure_durable_ack_rows_def)
  have "\<exists>subs acks wakes. bf_subs b = Some subs \<and> bf_ack_subs b = Some acks \<and> bf_wakes b = Some wakes"
    using assms bad by (cases "bf_subs b"; cases "bf_ack_subs b"; cases "bf_wakes b")
      (auto simp: ensure_durable_ack_rows_def b)
  then obtain subs acks wakes where t: "bf_subs b = Some subs" "bf_ack_subs b = Some acks" "bf_wakes b = Some wakes"
    by blast
  obtain sub acks' where e: "ensure_subscription key now acks = (sub, acks')" by fastforce
  show thesis
    using assms(1) by (intro that [OF b t e]) (auto simp: ensure_durable_ack_rows_def b t e)
qed

lemma ensure_durable_wakes:
  assumes "ensure_durable_ack_rows key now bfile = (ack, bfile')" and "dict_success ack"
  shows "board_wakes key bfile'"
proof -
  obtain b subs acks wakes sub acks' where e: "ensure_subscription key now acks = (sub, acks')"
    and f: "bfile' = Some (b\<lparr>bf_subs := Some (ensure_sub key now (bf_new_sub b) subs), bf_ack_subs := Some acks',
       bf_wakes := Some (ensure_anchor_wake key sub now wakes)\<rparr>)"
    by (rule ensure_durable_cases [OF assms])
  obtain r where "as_id r = sub" "as_active_wake_required r" "as_delivery_mode r = wake_mode" "r \<in> set (rows acks')"
      "default_sub key r"
    by (rule find_default_sub [OF e])
  with ensure_sub_present [of key now "bf_new_sub b" subs] ensure_wake_present [of key sub now wakes] show ?thesis
    unfolding board_wakes_def wake_rows_def f by auto
qed

subsection \<open>Created tasks\<close>

lemma created_task_cached:
  assumes "real_create_task c i s = (r, s')" and "dict_success r"
    and "get_str i ''idempotency_key'' = key" "key \<noteq> []" and "get_str j ''idempotency_key'' = key"
  shows "real_create_task c j s' = (ok_dict @ [(''task_id'', JStr (flag (rb_task_ids s') key))], s')"
proof -
  have bad: "\<not> dict_success (error_dict e)" "\<not> dict_success [(''success'', JBool False), (''error'', v)]" for e v
    by (simp_all add: dict_success_def error_dict_def dict_get_def)
  have "flag (rb_task_ids s') key \<noteq> []"
  proof (cases "flag (rb_task_ids s) key = []")
    case True
    obtain result s1 where run: "run_json c (create_argv c i) s = (result, s1)" by fastforce
    let ?task = "short_text 240 (str_or (get_str result ''id'') (get_str result ''task_id''))"
    have ok: "dict_success result" "?task \<noteq> []"
      using assms(1-3) True run bad by (auto simp: real_create_task_def Let_def split: if_splits)
    then have "s' = s1\<lparr>rb_task_ids := dict_set key ?task (rb_task_ids s1)\<rparr>"
      using assms(1,3,4) True run by (simp add: real_create_task_def Let_def)
    with ok show ?thesis by (simp add: flag_def)
  next
    case False
    with assms(1,3) show ?thesis by (auto simp: real_create_task_def Let_def)
  qed
  with assms(5) show ?thesis by (simp add: real_create_task_def Let_def)
qed

subsection \<open>Subscriptions\<close>

lemma subscribe_and_verify_success:
  assumes "subscribe_and_verify c task flags canonical s = (r, s')" and "dict_success r"
    and "rb_repair c" and "flag flags ''platform'' = ''discord''" and "all_digits (flag flags ''chat_id'')"
  shows "if canonical then dict_success (verify_canonical_sub (rb_file s') task flags)
    else board_wakes (flags_key task flags) (rb_file s')"
proof -
  obtain result s1 where run: "run_plain c (subscribe_cli_argv c task flags canonical) s = (result, s1)" by fastforce
  have bad: "\<not> dict_success (failed_ack a e)" for a e
    by (simp add: dict_success_def failed_ack_def dict_get_def)
  have ok: "dict_success result"
    using assms(1,2) run by (auto simp: subscribe_and_verify_def split: if_splits)
  show ?thesis
  proof (cases canonical)
    case True
    with assms run ok bad show ?thesis by (auto simp: subscribe_and_verify_def Let_def split: if_splits)
  next
    case False
    obtain ack bfile where e: "ensure_durable_ack_rows (flags_key task flags) (rb_clock c (rb_outside s1)) (rb_file s1) =
        (ack, bfile)" by fastforce
    have "dict_success ack" "rb_file s' = bfile"
      using assms run ok bad e False by (auto simp: subscribe_and_verify_def split: if_splits)
    with ensure_durable_wakes [OF e] False show ?thesis by simp
  qed
qed

lemma aliased_platform: "flag (aliased flags) ''platform'' = flag flags ''platform''"
  by (auto simp: aliased_def Let_def flag_def)

lemma resolved_digits:
  assumes "resolved_flags endpoint = Inr flags" and "flag flags ''platform'' = ''discord''"
  shows "all_digits (flag flags ''chat_id'')"
  using assms by (auto simp: resolved_flags_def Let_def aliased_platform split: if_splits)

subsection \<open>Properties\<close>

text \<open>
  a subscription to a Discord endpoint that reports success, on a board the adapter repairs, is one the
  board can wake on: either the board's canonical row (or its receipt of a delivered wake) verifies, or the
  subscription, its acknowledgement record and a wake record for it are in the board file. An exit code
  of the command line alone is never taken for success.
\<close>

theorem subscribed_means_wakeable:
  assumes "real_subscribe c task endpoint s = (r, s')" and "dict_success r" and "rb_repair c"
    and "resolved_flags endpoint = Inr flags" and "flag flags ''platform'' = ''discord''"
  shows "dict_success (verify_canonical_sub (rb_file s') task flags) \<or> board_wakes (flags_key task flags) (rb_file s')"
proof -
  obtain canonical s1 where m: "supports_delivery_mode c s = (canonical, s1)" by fastforce
  show ?thesis
  proof (cases "canonical \<and> dict_success (verify_canonical_sub (rb_file s1) task flags)")
    case True
    with assms m show ?thesis by (auto simp: real_subscribe_def Let_def)
  next
    case False
    with assms m have "subscribe_and_verify c task flags canonical s1 = (r, s')"
      by (auto simp: real_subscribe_def Let_def)
    from subscribe_and_verify_success [OF this assms(2,3,5) resolved_digits [OF assms(4,5)]] show ?thesis
      by (cases canonical) auto
  qed
qed

text \<open>
  repairing the acknowledgement rows again, at any later time, succeeds and changes nothing; the first
  repair leaves the rows the active wake acts on and keeps the ids of the subscriptions unique.
\<close>

theorem ack_repair_idempotent:
  assumes "ensure_durable_ack_rows key now (Some b) = (ack, bfile)" and "dict_success ack"
    and "bf_ack_subs b = Some acks" and "sub_rows_ok acks"
  shows "board_wakes key bfile \<and> ensure_durable_ack_rows key now' bfile = (ok_dict, bfile) \<and>
    (\<exists>b' acks'. bfile = Some b' \<and> bf_ack_subs b' = Some acks' \<and> sub_rows_ok acks')"
proof -
  obtain b' subs acks' wakes sub acks2 where e: "Some b = Some b'" "bf_subs b' = Some subs" "bf_ack_subs b' = Some acks'"
      "bf_wakes b' = Some wakes" and s: "ensure_subscription key now acks' = (sub, acks2)"
    and f: "bfile = Some (b'\<lparr>bf_subs := Some (ensure_sub key now (bf_new_sub b') subs), bf_ack_subs := Some acks2,
       bf_wakes := Some (ensure_anchor_wake key sub now wakes)\<rparr>)"
    by (rule ensure_durable_cases [OF assms(1,2)])
  have ok: "sub_rows_ok acks'" using assms(3,4) e by simp
  have "ensure_durable_ack_rows key now' bfile = (ok_dict, bfile)"
    by (simp add: f ensure_durable_ack_rows_def ensure_subscription_again [OF s ok] ensure_sub_again ensure_wake_again)
  with ensure_durable_wakes [OF assms(1,2)] ensure_subscription_ids [OF s ok] show ?thesis by (simp add: f)
qed

subsection \<open>Witnesses\<close>

definition sample_sub_defaults :: kanban_sub where
  "sample_sub_defaults = \<lparr>kn_task = [], kn_platform = [], kn_chat = [], kn_thread = [], kn_profile = [], kn_trigger = False,
     kn_mode = [], kn_chat_type = [], kn_user = [], kn_created_at = 0\<rparr>"

definition sample_board_file :: board_file where
  "sample_board_file = \<lparr>bf_subs = Some \<lparr>tb_cols = [''trigger_agent''], tb_rows = []\<rparr>, bf_origins = None,
     bf_receipts = None, bf_ack_subs = Some empty_table, bf_wakes = Some empty_table, bf_new_sub = sample_sub_defaults\<rparr>"

definition sample_real_config :: "unit real_config" where
  "sample_real_config = \<lparr>rb_runner = (\<lambda>argv w. (Cli_Answer 0 [] [], w)), rb_loads = (\<lambda>_. None), rb_clock = (\<lambda>_. 7),
     rb_board = ''main'', rb_hermes_bin = ''hermes'', rb_repair = True\<rparr>"

definition sample_real_state :: "unit real_state" where
  "sample_real_state = \<lparr>rb_outside = (), rb_file = Some sample_board_file, rb_task_ids = [], rb_mode_supported = Some False\<rparr>"

lemma sample_flags: "resolved_flags ''discord:#42'' = Inr [(''platform'', ''discord''), (''chat_id'', ''42'')]"
  by code_simp

lemma sample_subscribed:
  "dict_success (fst (real_subscribe sample_real_config ''t'' ''discord:#42'' sample_real_state))"
proof -
  have st: "stderr_error [] = None" by code_simp
  have digits: "all_digits ''42''" by code_simp
  show ?thesis
    by (simp add: real_subscribe_def sample_flags supports_delivery_mode_def sample_real_config_def sample_real_state_def
        subscribe_and_verify_def run_plain_def run_cli_def cli_error_def st dict_success_def ok_dict_def dict_get_def
        digits flag_def Let_def ensure_durable_ack_rows_def sample_board_file_def flags_key_def ensure_subscription_def
        empty_table_def insert_row_def dict_set_def)
qed

theorem subscribed_means_wakeable_witness:
  "dict_success (verify_canonical_sub
      (rb_file (snd (real_subscribe sample_real_config ''t'' ''discord:#42'' sample_real_state))) ''t''
      [(''platform'', ''discord''), (''chat_id'', ''42'')]) \<or>
   board_wakes (flags_key ''t'' [(''platform'', ''discord''), (''chat_id'', ''42'')])
     (rb_file (snd (real_subscribe sample_real_config ''t'' ''discord:#42'' sample_real_state)))"
  by (rule subscribed_means_wakeable [where r = "fst (real_subscribe sample_real_config ''t'' ''discord:#42'' sample_real_state)"
        and c = sample_real_config and s = sample_real_state and endpoint = "''discord:#42''"])
    (simp_all add: sample_subscribed sample_flags, simp_all add: sample_real_config_def flag_def dict_get_def)

theorem ack_repair_idempotent_witness:
  "board_wakes (''t'', ''discord'', ''42'', []) (snd (ensure_durable_ack_rows (''t'', ''discord'', ''42'', []) 7 (Some sample_board_file)))"
  using ack_repair_idempotent [of "(''t'', ''discord'', ''42'', [])" 7 sample_board_file
      "fst (ensure_durable_ack_rows (''t'', ''discord'', ''42'', []) 7 (Some sample_board_file))"
      "snd (ensure_durable_ack_rows (''t'', ''discord'', ''42'', []) 7 (Some sample_board_file))" empty_table 8]
  by (simp add: ensure_durable_ack_rows_def sample_board_file_def ensure_subscription_def empty_table_def insert_row_def
      Let_def dict_success_def ok_dict_def dict_get_def sub_rows_ok_def)

end
