(* ===== verification/Gateways.thy ===== *)
theory Gateways
  imports Jobs_Props
begin

text \<open>
  The gateways of \<open>live/gateway.py\<close>: the in-memory gateway, the wrapper of a public \<open>send_message\<close>
  and its discovery on a plugin context; and what live dispatch does with an answer of each shape.

  \<open>'w\<close> is the state of the world that the capability acts on.
\<close>

subsection \<open>Answers\<close>

record delivery_result =
  dr_success :: bool
  dr_receipt_ref :: string
  dr_target :: string
  dr_detail :: string
  dr_delivered :: bool

text \<open>What a capability returns: a \<open>DeliveryResult\<close>, a dictionary, another value, or an exception.\<close>

datatype send_answer =
    Send_Result delivery_result
  | Send_Dict "json dict"
  | Send_Other
  | Send_Raises

type_synonym 'w sender = "string \<Rightarrow> string \<Rightarrow> string \<Rightarrow> 'w \<Rightarrow> send_answer \<times> 'w"

definition flag_field :: "json dict \<Rightarrow> string \<Rightarrow> bool" where
  "flag_field d k = (case dict_get d k of None \<Rightarrow> False | Some v \<Rightarrow> truthy v)"

text \<open>\<open>None\<close> is an exception, \<open>GatewayUnavailable\<close> for an unsupported shape.\<close>

definition result_of_answer :: "string \<Rightarrow> send_answer \<Rightarrow> delivery_result option" where
  "result_of_answer target a =
     (case a of
        Send_Result r \<Rightarrow> Some r
      | Send_Dict d \<Rightarrow> Some
          \<lparr>dr_success = flag_field d ''success'', dr_receipt_ref = get_str d ''receipt_ref'', dr_target = target,
           dr_detail = take 240 (get_str d ''detail''), dr_delivered = flag_field d ''delivered''\<rparr>
      | Send_Other \<Rightarrow> None
      | Send_Raises \<Rightarrow> None)"

text \<open>The part of a result that dispatch reads.\<close>

definition delivery_of :: "delivery_result \<Rightarrow> delivery" where
  "delivery_of r = \<lparr>dv_success = dr_success r, dv_receipt_ref = dr_receipt_ref r\<rparr>"

definition wrapped_gateway :: "'w sender \<Rightarrow> 'w gateway" where
  "wrapped_gateway send target body key w =
     (case send target body key w of (a, w') \<Rightarrow> (map_option delivery_of (result_of_answer target a), w'))"

subsection \<open>Discovery\<close>

text \<open>
  The \<open>tools\<close> of a context: nothing usable, a dictionary, or an object with \<open>get\<close>, whose look-up
  may raise (\<open>None\<close>).
\<close>

datatype 'w tools =
    No_Tools
  | Tool_Dict "'w sender option"
  | Tool_Lookup "'w sender option option"

record 'w plugin_ctx =
  px_send_message :: "'w sender option"
  px_tools :: "'w tools"

definition resolve_gateway :: "'w plugin_ctx option \<Rightarrow> 'w gateway option" where
  "resolve_gateway ctx =
     (case ctx of
        None \<Rightarrow> None
      | Some c \<Rightarrow>
          (case px_send_message c of
             Some send \<Rightarrow> Some (wrapped_gateway send)
           | None \<Rightarrow>
               (case px_tools c of
                  Tool_Dict (Some t) \<Rightarrow> Some (wrapped_gateway t)
                | Tool_Lookup (Some (Some t)) \<Rightarrow> Some (wrapped_gateway t)
                | _ \<Rightarrow> None)))"

subsection \<open>The in-memory gateway\<close>

record fake_gateway =
  fg_calls :: "(string \<times> string \<times> string) list"
  fg_results :: "delivery_result dict"
  fg_unavailable :: bool

definition fake_result :: "fake_gateway \<Rightarrow> string \<Rightarrow> string \<Rightarrow> delivery_result" where
  "fake_result g target key =
     (case dict_get (fg_results g) target of
        Some r \<Rightarrow> r
      | None \<Rightarrow> \<lparr>dr_success = True, dr_receipt_ref = ''fake:'' @ key, dr_target = target, dr_detail = [], dr_delivered = True\<rparr>)"

definition set_result :: "string \<Rightarrow> delivery_result \<Rightarrow> fake_gateway \<Rightarrow> fake_gateway" where
  "set_result target r g = g\<lparr>fg_results := dict_set target r (fg_results g)\<rparr>"

definition fake_send :: "fake_gateway gateway" where
  "fake_send target body key g =
     (if fg_unavailable g then (None, g)
      else (Some (delivery_of (fake_result g target key)), g\<lparr>fg_calls := fg_calls g @ [(target, body, key)]\<rparr>))"

subsection \<open>Dispatch over a discovered gateway\<close>

lemma no_capability: "resolve_gateway ctx = None \<Longrightarrow>
    outside (snd (run_state (dispatch_live h (resolve_gateway ctx) p live job) s)) = outside s"
  by (rule conjunct1 [OF dispatch_closed_outside]) (simp add: gates_open_def)

text \<open>An answer counts as a delivery only when it says so: an unsupported shape or an exception does not.\<close>

lemma wrapped_delivery:
  "fst (wrapped_gateway send target body key w) = Some d \<Longrightarrow> dv_success d \<Longrightarrow>
     (\<exists>r. fst (send target body key w) = Send_Result r \<and> dr_success r) \<or>
     (\<exists>kv. fst (send target body key w) = Send_Dict kv \<and> flag_field kv ''success'')"
  by (auto simp: wrapped_gateway_def result_of_answer_def delivery_of_def split: prod.splits send_answer.splits)

end
