(* ===== verification/Cron_Bridge.thy ===== *)
theory Cron_Bridge
  imports Live_Dispatch
begin

text \<open>
  The cron bridge (\<open>bridges/cron.py\<close>): the markers of a cron output, their classification, and the
  idempotent ingestion into the job ledger.

  \<open>h\<close> is the hexadecimal SHA-256. \<open>loads\<close> is the JSON parser, \<open>None\<close> a parse error.
\<close>

subsection \<open>Sanitisation\<close>

text \<open>The bridge has its own secret pattern, without the bare words of \<open>live/sanitize.py\<close>.\<close>

definition CRON_SECRET_RE :: regex where
  "CRON_SECRET_RE = re_alts
     [re_seq [RBound, re_alts [re_ilit ''token'', re_api_key, re_ilit ''secret'', re_ilit ''password'',
          re_ilit ''passwd'', re_ilit ''authorization'', re_ilit ''bearer'', re_ilit ''session'', re_ilit ''cookie''],
        RBound, re_spaces, re_one_of '':='', re_spaces, re_plus re_non_space],
      re_seq [RBound, re_ilit ''bearer'', re_plus re_space, re_plus re_non_space],
      re_seq [RBound, re_alts [re_ilit ''sk'', re_ilit ''ghp'', re_ilit ''gho'', re_ilit ''github_pat'',
          RSeq (re_ilit ''xox'') (RChar (COf ''baprsBAPRS''))],
        re_lit ''-'', re_at_least 12 (RChar (CUnion CWord (CLit CHR ''-'')))]]"

definition cron_sensitive :: "string \<Rightarrow> bool" where
  "cron_sensitive s \<longleftrightarrow> re_test CRON_SECRET_RE s \<or> re_test PRIVATE_PATH_RE s \<or> re_test WINDOWS_PRIVATE_PATH_RE s"

definition cron_summary :: "string \<Rightarrow> string \<Rightarrow> string \<times> bool" where
  "cron_summary v fallback =
     (let text = short_text 240 v in
      if text = [] then (fallback, False) else if cron_sensitive text then (fallback, True) else (text, False))"

definition cron_source_ref :: "(string \<Rightarrow> string) \<Rightarrow> string \<Rightarrow> string \<times> bool" where
  "cron_source_ref h v =
     (let ref = short_text 240 v in
      if ref = [] then ([], False)
      else if cron_sensitive ref \<or> \<not> safe_ref_text ref then (''ref:sha256:'' @ take 16 (h ref), True)
      else (ref, False))"

definition material_fallback :: string where
  "material_fallback = ''cron material event''"

definition present :: "json option \<Rightarrow> bool" where
  "present v \<longleftrightarrow> v \<noteq> None \<and> v \<noteq> Some JNull \<and> v \<noteq> Some (JStr [])"

definition wake_field :: "json dict \<Rightarrow> string \<Rightarrow> string dict \<Rightarrow> string dict" where
  "wake_field raw key d =
     (case dict_get raw key of
        None \<Rightarrow> d
      | Some v \<Rightarrow>
          if \<not> present (Some v) then d
          else (let value = short_text 240 (value_text v) in
            if cron_sensitive value
            then dict_set (key @ ''_redacted'') ''true'' (dict_set key (key @ '':redacted'') d)
            else dict_set key value d))"

definition safe_active_wake_metadata :: "json dict \<Rightarrow> string dict" where
  "safe_active_wake_metadata raw =
     (let d = fold (wake_field raw) [''event_key'', ''status'', ''target'', ''job_id'', ''run_id''] [] in
      case dict_get raw ''summary'' of
        None \<Rightarrow> d
      | Some v \<Rightarrow>
          if \<not> present (Some v) then d
          else (case cron_summary (value_text v) material_fallback of (s, redacted) \<Rightarrow>
            (let d' = dict_set ''summary'' s d in if redacted then dict_set ''summary_redacted'' ''true'' d' else d')))"

subsection \<open>Markers\<close>

definition AF_CRON_RE :: regex where
  "AF_CRON_RE = re_seq
     [re_ilit ''[AF-CRON]'', re_plus re_space, re_ilit ''kind='', RGroup 1 (re_plus re_word), re_plus re_space,
      re_ilit ''ref='', RGroup 2 (re_plus re_non_space), re_plus re_space,
      re_ilit ''hash='', RGroup 3 (re_plus re_non_space), re_plus re_space,
      re_ilit ''summary='', RGroup 4 (re_plus_lazy re_dot), re_spaces, RTextEnd]"

definition ACTIVE_WAKE_PREFIX :: string where
  "ACTIVE_WAKE_PREFIX = ''HERMES_ACTIVE_WAKE ''"

record cron_marker =
  cm_kind :: string
  cm_ref :: string
  cm_hash :: string
  cm_summary :: string
  cm_metadata :: "string dict"

definition merge_dict :: "'v dict \<Rightarrow> 'v dict \<Rightarrow> 'v dict" where
  "merge_dict d e = fold (\<lambda>(k, v). dict_set k v) e d"

definition first_of :: "string dict \<Rightarrow> string list \<Rightarrow> string \<Rightarrow> string" where
  "first_of d ks dflt =
     (case find (\<lambda>k. dict_get d k \<noteq> None \<and> dict_get d k \<noteq> Some []) ks of
        None \<Rightarrow> dflt | Some k \<Rightarrow> the (dict_get d k))"

definition wake_marker :: "string \<Rightarrow> string \<Rightarrow> json option \<Rightarrow> cron_marker" where
  "wake_marker ref hash payload =
     (case payload of
        None \<Rightarrow>
          \<lparr>cm_kind = ''noise'', cm_ref = ref, cm_hash = hash, cm_summary = ''malformed active wake marker'',
           cm_metadata = [(''marker'', ''active_wake''), (''malformed'', ''true'')]\<rparr>
      | Some v \<Rightarrow>
          (let metadata = safe_active_wake_metadata (case v of JObj d \<Rightarrow> d | _ \<Rightarrow> []) in
           \<lparr>cm_kind = ''material'', cm_ref = ref, cm_hash = hash,
            cm_summary = short_text 240 (first_of metadata [''summary'', ''status'', ''event_key''] material_fallback),
            cm_metadata = dict_set ''live_wake_disabled'' ''true''
              (merge_dict [(''marker'', ''active_wake'')] metadata)\<rparr>))"

definition marker_of_line ::
    "(string \<Rightarrow> string) \<Rightarrow> (string \<Rightarrow> json option) \<Rightarrow> string \<Rightarrow> string \<Rightarrow> string \<Rightarrow> cron_marker option" where
  "marker_of_line h loads ref hash raw =
     (let stripped = py_strip raw in
      if starts_with ACTIVE_WAKE_PREFIX stripped
      then Some (wake_marker ref hash (loads (py_strip (drop (length ACTIVE_WAKE_PREFIX) stripped))))
      else map_option (\<lambda>m.
          \<lparr>cm_kind = py_lower (group 1 m), cm_ref = fst (cron_source_ref h (py_strip (group 2 m))),
           cm_hash = py_strip (group 3 m), cm_summary = fst (cron_summary (group 4 m) material_fallback),
           cm_metadata = [(''marker'', ''af_cron'')]\<rparr>)
        (re_search AF_CRON_RE stripped))"

definition classify_markers ::
    "(string \<Rightarrow> string) \<Rightarrow> (string \<Rightarrow> json option) \<Rightarrow> string \<Rightarrow> string \<Rightarrow> string \<Rightarrow> cron_marker list" where
  "classify_markers h loads text ref hash = List.map_filter (marker_of_line h loads ref hash) (py_splitlines text)"

definition make_dedupe_key :: "string \<Rightarrow> string \<Rightarrow> string \<Rightarrow> string \<Rightarrow> string \<Rightarrow> string \<Rightarrow> string" where
  "make_dedupe_key kind correlation source_hash job run target =
     str_or kind ''cron'' @ '':'' @ short_text 96 (str_or job (str_or correlation ''unknown'')) @ '':'' @
     short_text 96 (str_or run (str_or source_hash ''unknown'')) @ '':'' @ short_text 96 (str_or target ''default'')"

subsection \<open>Ingestion\<close>

record cron_request =
  cq_source_ref :: string
  cq_source_hash :: string
  cq_marker_text :: string
  cq_source :: string
  cq_correlation :: string
  cq_target :: string
  cq_origin_return :: string
  cq_title :: string
  cq_job :: string
  cq_run :: string

text \<open>The answer: no material, the duplicate of a job, a new job, or an \<open>IntegrityError\<close> of the store.\<close>

datatype cron_answer = Cron_No_Material | Cron_Duplicate string string | Cron_Applied string string | Cron_Raises py_error

definition job_by_dedupe_key :: "string \<Rightarrow> job_store \<Rightarrow> job_row option" where
  "job_by_dedupe_key key st = (if key = [] then None else find (\<lambda>j. jb_dedupe_key j = key) (jobs st))"

definition cron_known :: "string \<Rightarrow> string \<Rightarrow> job_store \<Rightarrow> job_row option" where
  "cron_known key hash st =
     (case job_by_dedupe_key key st of Some j \<Rightarrow> Some j | None \<Rightarrow> get_job_by_source_hash hash st)"

definition request_hash :: "(string \<Rightarrow> string) \<Rightarrow> cron_request \<Rightarrow> string" where
  "request_hash h q = str_or (cq_source_hash q) (h (cq_marker_text q))"

definition request_markers :: "(string \<Rightarrow> string) \<Rightarrow> (string \<Rightarrow> json option) \<Rightarrow> cron_request \<Rightarrow> cron_marker list" where
  "request_markers h loads q =
     classify_markers h loads (cq_marker_text q) (fst (cron_source_ref h (cq_source_ref q))) (request_hash h q)"

definition material_marker :: "(string \<Rightarrow> string) \<Rightarrow> (string \<Rightarrow> json option) \<Rightarrow> cron_request \<Rightarrow> cron_marker option" where
  "material_marker h loads q = find (\<lambda>m. cm_kind m = ''material'') (request_markers h loads q)"

text \<open>What the first material marker makes of a request.\<close>

definition effective_hash :: "(string \<Rightarrow> string) \<Rightarrow> cron_request \<Rightarrow> cron_marker \<Rightarrow> string" where
  "effective_hash h q m = str_or (cm_hash m) (request_hash h q)"

definition effective_ref :: "(string \<Rightarrow> string) \<Rightarrow> cron_request \<Rightarrow> cron_marker \<Rightarrow> string \<times> bool" where
  "effective_ref h q m = cron_source_ref h (str_or (cm_ref m) (fst (cron_source_ref h (cq_source_ref q))))"

definition effective_job :: "(string \<Rightarrow> string) \<Rightarrow> cron_request \<Rightarrow> cron_marker \<Rightarrow> string" where
  "effective_job h q m = str_or (cq_job q) (str_or (first_of (cm_metadata m) [''job_id''] [])
     (str_or (cq_correlation q) (str_or (fst (cron_source_ref h (cq_source_ref q))) ''cron'')))"

definition request_key :: "(string \<Rightarrow> string) \<Rightarrow> cron_request \<Rightarrow> cron_marker \<Rightarrow> string" where
  "request_key h q m = make_dedupe_key (cq_source q) (cq_correlation q) (effective_hash h q m) (effective_job h q m)
     (str_or (cq_run q) (str_or (first_of (cm_metadata m) [''run_id''] []) (effective_hash h q m))) (cq_target q)"

definition cron_event_head :: "(string \<Rightarrow> string) \<Rightarrow> cron_request \<Rightarrow> cron_marker \<Rightarrow> json dict" where
  "cron_event_head h q m =
     [(''source'', JStr (cq_source q)), (''source_ref'', JStr (fst (effective_ref h q m))),
      (''source_hash'', JStr (effective_hash h q m)), (''dedupe_key'', JStr (request_key h q m)),
      (''marker'', JStr (first_of (cm_metadata m) [''marker''] []))]"

definition refs_redacted :: "(string \<Rightarrow> string) \<Rightarrow> cron_request \<Rightarrow> cron_marker \<Rightarrow> string \<times> json" where
  "refs_redacted h q m = (''source_ref_redacted'',
     JBool (snd (cron_source_ref h (cq_source_ref q)) \<or> snd (effective_ref h q m)))"

definition duplicate_event :: "(string \<Rightarrow> string) \<Rightarrow> cron_request \<Rightarrow> cron_marker \<Rightarrow> json dict" where
  "duplicate_event h q m = cron_event_head h q m @ [(''raw_output_stored'', JBool False), refs_redacted h q m]"

definition ingested_event :: "(string \<Rightarrow> string) \<Rightarrow> cron_request \<Rightarrow> cron_marker \<Rightarrow> json dict" where
  "ingested_event h q m = cron_event_head h q m @
     [(''material_event'', JObj (map (map_prod id JStr) (cm_metadata m))), (''raw_output_stored'', JBool False),
      (''live_wake_disabled'', JBool True), refs_redacted h q m,
      (''title_redacted'', JBool (snd (cron_summary (cq_title q) [])))]"

definition noise_event :: "(string \<Rightarrow> string) \<Rightarrow> cron_request \<Rightarrow> nat \<Rightarrow> json dict" where
  "noise_event h q n =
     [(''source'', JStr (cq_source q)), (''source_ref'', JStr (fst (cron_source_ref h (cq_source_ref q)))),
      (''source_hash'', JStr (request_hash h q)), (''markers'', JInt (int n)), (''raw_output_stored'', JBool False),
      (''source_ref_redacted'', JBool (snd (cron_source_ref h (cq_source_ref q))))]"

definition cron_body :: "(string \<Rightarrow> string) \<Rightarrow> cron_request \<Rightarrow> cron_marker \<Rightarrow> string" where
  "cron_body h q m = join_with line_feed_text
     [''Cron material event detected for AgentFlow dry-run dispatch.'', ''source_ref: '' @ fst (effective_ref h q m),
      ''source_hash: '' @ effective_hash h q m, ''summary: '' @ cm_summary m, ''live_wake_dispatch: disabled'']"

definition cron_job :: "(string \<Rightarrow> string) \<Rightarrow> cron_request \<Rightarrow> cron_marker \<Rightarrow> new_job" where
  "cron_job h q m =
     \<lparr>nj_title = str_or (fst (cron_summary (cq_title q) [])) (str_or (cm_summary m) (''cron:'' @ fst (effective_ref h q m))),
      nj_body = cron_body h q m, nj_target = str_or (cq_target q) (first_of (cm_metadata m) [''target''] []),
      nj_origin_return = cq_origin_return q, nj_dedupe_key = request_key h q m,
      nj_correlation_id = str_or (cq_correlation q) (effective_job h q m), nj_causation_id = [],
      nj_source_kind = cq_source q, nj_source_id = effective_job h q m, nj_source_ref = fst (effective_ref h q m),
      nj_source_hash = effective_hash h q m\<rparr>"

definition ingest_cron_output ::
    "(string \<Rightarrow> string) \<Rightarrow> (string \<Rightarrow> json option) \<Rightarrow> cron_request \<Rightarrow> ('w job_sys, cron_answer) state" where
  "ingest_cron_output h loads q =
     (case material_marker h loads q of
        None \<Rightarrow> do {
          record_job_event h [] ''cron_noise''
            (noise_event h q (length (filter (\<lambda>m. cm_kind m = ''noise'') (request_markers h loads q)))) [] [];
          ret Cron_No_Material
        }
      | Some m \<Rightarrow> do {
          known \<leftarrow> j_query (cron_known (request_key h q m) (effective_hash h q m));
          (case known of
             Some j \<Rightarrow> do {
               record_job_event h (jb_id j) ''cron_duplicate'' (duplicate_event h q m) [] [];
               ret (Cron_Duplicate (jb_id j) (request_key h q m))
             }
           | None \<Rightarrow> do {
               result \<leftarrow> enqueue h (cron_job h q m);
               (case result of
                  Inl e \<Rightarrow> ret (Cron_Raises e)
                | Inr job \<Rightarrow> do {
                    record_job_event h job ''cron_ingested'' (ingested_event h q m) [] [];
                    ret (Cron_Applied job (request_key h q m))
                  })
             })
        })"

text \<open>\<open>scan_cron_output\<close>: \<open>name\<close> and \<open>digest\<close> are those of the file, \<open>text\<close> its content; the correlation is the job.\<close>

definition scan_cron_output ::
    "(string \<Rightarrow> string) \<Rightarrow> (string \<Rightarrow> json option) \<Rightarrow> string \<Rightarrow> string \<Rightarrow> string \<Rightarrow> cron_request \<Rightarrow> bool \<Rightarrow>
       ('w job_sys, string + cron_answer) state" where
  "scan_cron_output h loads name digest content q dry_run =
     (if \<not> dry_run then ret (Inl ''live_dispatch_disabled'')
      else do {
        a \<leftarrow> ingest_cron_output h loads (q\<lparr>cq_source_ref := str_or (cq_source_ref q) (''file://'' @ name),
          cq_source_hash := str_or (cq_source_hash q) digest, cq_marker_text := content, cq_correlation := cq_job q\<rparr>);
        ret (Inr a)
      })"

end
