(* ===== verification/Cron_Props.thy ===== *)
theory Cron_Props
  imports Cron_Bridge Jobs_Props
begin

text \<open>
  The cron bridge on the job ledger: an ingestion keeps the ledger's invariant, source hashes are
  never lost, and so a material output becomes a job once.
\<close>

subsection \<open>The ledger with the bridge\<close>

inductive bridge_step ::
    "(string \<Rightarrow> string) \<Rightarrow> (string \<Rightarrow> json option) \<Rightarrow> 'w job_sys \<Rightarrow> 'w job_sys \<Rightarrow> bool" for h loads where
  ledger_step: "job_step h s t \<Longrightarrow> bridge_step h loads s t"
| ingest_step: "bridge_step h loads s (snd (run_state (ingest_cron_output h loads q) s))"

lemma find_SomeD: "find P xs = Some x \<Longrightarrow> x \<in> set xs \<and> P x"
  by (auto simp: find_Some_iff)

lemma cron_known_SomeD: "cron_known key hash st = Some j \<Longrightarrow> j \<in> set (jobs st)"
  by (auto simp: cron_known_def job_by_dedupe_key_def get_job_by_source_hash_def dest!: find_SomeD
      split: option.splits if_splits)

lemma enqueued_job:
  assumes "run_state (enqueue h a) s = (Inr job, t)"
  shows "\<exists>j \<in> set (jobs (jdb t)). jb_id j = job \<and> jb_source_hash j = safe_field ''source_hash'' 128 (nj_source_hash a)"
  using assms by (auto simp: enqueue_def Let_def mk_job_def split: if_splits)

lemma ingest_keeps:
  assumes ok: "job_ledger_ok h (jdb s)"
  shows "job_ledger_ok h (jdb (snd (run_state (ingest_cron_output h loads q) s)))"
proof (cases "material_marker h loads q")
  case None
  with ok show ?thesis
    by (simp add: ingest_cron_output_def record_job_event_def job_ledger_ok_event status_kinds_def)
next
  case (Some m)
  show ?thesis
  proof (cases "cron_known (request_key h q m) (effective_hash h q m) (jdb s)")
    case None
    obtain res t where e: "run_state (enqueue h (cron_job h q m)) s = (res, t)" by fastforce
    have t: "job_ledger_ok h (jdb t)" using enqueue_keeps [OF ok, of "cron_job h q m"] e by simp
    show ?thesis
    proof (cases res)
      case (Inl x)
      with Some None e t show ?thesis by (simp add: ingest_cron_output_def)
    next
      case (Inr job)
      with enqueued_job [of h "cron_job h q m" s job t] e have "job \<in> jb_id ` set (jobs (jdb t))" by auto
      with Some None e t Inr show ?thesis
        by (simp add: ingest_cron_output_def record_job_event_def job_ledger_ok_event status_kinds_def)
    qed
  next
    case known: (Some j)
    with Some ok cron_known_SomeD [OF known] show ?thesis
      by (simp add: ingest_cron_output_def record_job_event_def job_ledger_ok_event status_kinds_def)
  qed
qed

lemma bridge_steps_keep:
  "(bridge_step h loads)\<^sup>*\<^sup>* s t \<Longrightarrow> job_ledger_ok h (jdb s) \<Longrightarrow> job_ledger_ok h (jdb t)"
  by (induction rule: rtranclp_induct) (auto elim!: bridge_step.cases intro: job_step_keeps ingest_keeps)

subsection \<open>Source hashes are never lost\<close>

definition job_hashes :: "'w job_sys \<Rightarrow> string set" where
  "job_hashes s = jb_source_hash ` set (jobs (jdb s))"

lemma update_job_hashes:
  "(\<And>r. jb_source_hash (f r) = jb_source_hash r) \<Longrightarrow>
     jb_source_hash ` set (jobs (update_job job f st)) = jb_source_hash ` set (jobs st)"
  by (auto simp: update_job_def image_Un image_image intro: image_eqI)

lemma set_degraded_jobs [simp]: "jobs (set_degraded b now st) = jobs st"
  by (simp add: set_degraded_def)

lemma add_receipt_jobs [simp]:
  "jobs (add_operator_receipt d st) = jobs st"
  "jobs (record_failure target now st) = jobs st"
  "jobs (add_deadletter job reason raw payload now st) = jobs st"
  by (simp_all add: add_operator_receipt_def record_failure_def add_deadletter_def)

lemmas hash_simps = job_hashes_def record_job_event_def record_receipt_def update_job_hashes

lemma enqueue_hashes: "job_hashes s \<subseteq> job_hashes (snd (run_state (enqueue h a) s))"
  by (auto simp: enqueue_def Let_def hash_simps)

lemma ack_hashes: "job_hashes (snd (run_state (ack h job status summary payload) s)) = job_hashes s"
  by (cases "normalize_status status"; cases "get_job job (jdb s)")
    (simp_all add: ack_def reject_ack_def deadletter_def Let_def hash_simps)

lemma dry_run_hashes: "job_hashes (snd (run_state (dispatch_dry_run h job) s)) = job_hashes s"
  by (cases "get_job job (jdb s)") (simp_all add: dispatch_dry_run_def hash_simps)

lemma live_hashes: "job_hashes (snd (run_state (dispatch_live h gateway p live job) s)) = job_hashes s"
proof (cases "\<exists>j. get_job job (jdb s) = Some j \<and> gates_open h gateway p live j (jclk s (jreadings s)) (jdb s)")
  case False
  then consider x n where "snd (run_state (dispatch_live h gateway p live job) s) =
      s\<lparr>jreadings := n, jdb := (jdb s)\<lparr>operator_receipts := x\<rparr>\<rparr>"
    | "run_state (dispatch_live h gateway p live job) s =
       run_state (dispatch_dry_run h job) (s\<lparr>jreadings := Suc (jreadings s)\<rparr>)"
    using dispatch_closed [of job s h gateway p live] by blast
  then show ?thesis by cases (simp_all add: dry_run_hashes, simp_all add: job_hashes_def)
next
  case True
  then obtain j g where j: "get_job job (jdb s) = Some j" and g: "gateway = Some g"
    and o: "gates_open h (Some g) p live j (jclk s (jreadings s)) (jdb s)" by (auto simp: gates_open_def)
  show ?thesis unfolding g dispatch_open [OF j o] send_job_def
    by (simp add: delivery_failed_def delivery_applied_def hash_simps split: option.splits)
qed

lemma job_step_hashes: "job_step h s t \<Longrightarrow> job_hashes s \<subseteq> job_hashes t"
proof (induction rule: job_step.induct)
  case (enqueue_step s a)
  show ?case by (rule enqueue_hashes)
qed (simp_all add: ack_hashes dry_run_hashes live_hashes, simp_all add: job_hashes_def deadletter_def)

lemma ingest_hashes: "job_hashes s \<subseteq> job_hashes (snd (run_state (ingest_cron_output h loads q) s))"
proof -
  have "job_hashes s \<subseteq> job_hashes (snd (run_state (enqueue h (cron_job h q m)) s))" for m
    by (rule enqueue_hashes)
  then show ?thesis
    by (fastforce simp: ingest_cron_output_def record_job_event_def job_hashes_def case_prod_beta split: option.splits sum.splits)
qed

lemma bridge_steps_hashes: "(bridge_step h loads)\<^sup>*\<^sup>* s t \<Longrightarrow> job_hashes s \<subseteq> job_hashes t"
  by (induction rule: rtranclp_induct)
    (auto elim!: bridge_step.cases dest: subsetD [OF job_step_hashes] subsetD [OF ingest_hashes])

subsection \<open>A material output becomes a job once\<close>

lemma known_hash: "hash \<in> job_hashes s \<Longrightarrow> \<exists>j. cron_known key hash (jdb s) = Some j"
  by (cases "get_job_by_source_hash hash (jdb s)")
    (auto simp: cron_known_def get_job_by_source_hash_def job_hashes_def find_None_iff split: option.splits)

lemma applied_hash:
  assumes "run_state (ingest_cron_output h loads q) s = (Cron_Applied job key, t)"
    and "material_marker h loads q = Some m"
    and "safe_field ''source_hash'' 128 (effective_hash h q m) = effective_hash h q m"
  shows "effective_hash h q m \<in> job_hashes t"
proof (cases "cron_known (request_key h q m) (effective_hash h q m) (jdb s)")
  case None
  obtain res u where e: "run_state (enqueue h (cron_job h q m)) s = (res, u)" by fastforce
  with assms None have res: "res = Inr job" and "jobs (jdb t) = jobs (jdb u)"
    by (auto simp: ingest_cron_output_def record_job_event_def split: sum.splits)
  with enqueued_job [of h "cron_job h q m" s job u] e assms(3) show ?thesis
    by (force simp: job_hashes_def cron_job_def)
next
  case (Some j)
  with assms(1,2) show ?thesis by (simp add: ingest_cron_output_def)
qed

text \<open>
  C32: a material cron output becomes a job at most once. Once an ingestion has enqueued a job for an
  output, then after any sequence of enqueues, acknowledgements, dispatches and other ingestions,
  every ingestion whose material marker carries the same hash - whatever its job, run, target or
  title - is answered as the duplicate of a job of the ledger and adds no job. The hash has to
  survive the ledger's sanitisation, as a hexadecimal SHA-256 does.
\<close>

theorem cron_ingested_once:
  assumes "run_state (ingest_cron_output h loads q) s = (Cron_Applied job key, t)"
    and "material_marker h loads q = Some m"
    and "safe_field ''source_hash'' 128 (effective_hash h q m) = effective_hash h q m"
    and "(bridge_step h loads)\<^sup>*\<^sup>* t u"
    and "material_marker h loads q' = Some m'" and "effective_hash h q' m' = effective_hash h q m"
  shows "\<exists>j v. j \<in> set (jobs (jdb u)) \<and> jobs (jdb v) = jobs (jdb u) \<and>
    run_state (ingest_cron_output h loads q') u = (Cron_Duplicate (jb_id j) (request_key h q' m'), v)"
proof -
  have "effective_hash h q m \<in> job_hashes u"
    using applied_hash [OF assms(1-3)] bridge_steps_hashes [OF assms(4)] by blast
  then obtain j where j: "cron_known (request_key h q' m') (effective_hash h q m) (jdb u) = Some j"
    using known_hash by blast
  with assms(5,6) cron_known_SomeD [OF j] show ?thesis
    by (auto simp: ingest_cron_output_def record_job_event_def)
qed

definition sample_cron :: cron_request where
  "sample_cron = \<lparr>cq_source_ref = [], cq_source_hash = ''aa'',
     cq_marker_text = ''HERMES_ACTIVE_WAKE {}'', cq_source = ''cron'',
     cq_correlation = [], cq_target = ''bot'', cq_origin_return = [], cq_title = [], cq_job = ''j1'', cq_run = []\<rparr>"

definition sample_loads :: "string \<Rightarrow> json option" where
  "sample_loads s = Some (JObj [])"

lemma sample_material: "material_marker id sample_loads sample_cron =
    Some (wake_marker [] ''aa'' (Some (JObj [])))"
  by code_simp

lemma sample_effective: "effective_hash id sample_cron (wake_marker [] ''aa'' (Some (JObj []))) = ''aa''"
  by code_simp

lemma sample_fits: "safe_field ''source_hash'' 128 ''aa'' = ''aa''"
  by code_simp

theorem cron_ingested_once_witness:
  "\<exists>t j v. run_state (ingest_cron_output id sample_loads (sample_cron\<lparr>cq_job := ''j2''\<rparr>)) t =
      (Cron_Duplicate (jb_id (j :: job_row)) ''cron:j2:aa:bot'', v) \<and> jobs (jdb (v :: nat job_sys)) = jobs (jdb t)"
proof -
  let ?m = "wake_marker [] ''aa'' (Some (JObj []))"
  let ?s = "sample_job_sys empty_job_store :: nat job_sys"
  have none: "cron_known (request_key id sample_cron ?m) ''aa'' (jdb ?s) = None"
    by (simp add: cron_known_def job_by_dedupe_key_def get_job_by_source_hash_def sample_job_sys_def empty_job_store_def)
  obtain e where "run_state (enqueue id (cron_job id sample_cron ?m)) ?s = (Inr (job_id_at (jclk ?s (jreadings ?s))), e)"
    by (simp add: enqueue_def Let_def job_clash_def sample_job_sys_def empty_job_store_def mk_job_def)
  then obtain t where t: "run_state (ingest_cron_output id sample_loads sample_cron) ?s =
      (Cron_Applied (job_id_at (jclk ?s (jreadings ?s))) (request_key id sample_cron ?m), t)"
    by (auto simp: ingest_cron_output_def sample_material sample_effective none split: prod.splits)
  have m': "material_marker id sample_loads (sample_cron\<lparr>cq_job := ''j2''\<rparr>) = Some ?m" by code_simp
  have h': "effective_hash id (sample_cron\<lparr>cq_job := ''j2''\<rparr>) ?m = effective_hash id sample_cron ?m" by code_simp
  have k': "request_key id (sample_cron\<lparr>cq_job := ''j2''\<rparr>) ?m = ''cron:j2:aa:bot''" by code_simp
  have fits: "safe_field ''source_hash'' 128 (effective_hash id sample_cron ?m) = effective_hash id sample_cron ?m"
    by (simp add: sample_effective sample_fits)
  show ?thesis
    using cron_ingested_once [OF t sample_material fits rtranclp.rtrancl_refl m' h'] unfolding k' by blast
qed

end
