(* ===== verification/Kanban_Bridge.thy ===== *)
theory Kanban_Bridge
  imports Verdicts Values
begin

text \<open>
  The kanban resolver (\<open>bridges/kanban.py\<close>): whether a remediation review lets a blocked card be
  unblocked. It reads two cards and mutates nothing.

  A card is a JSON object. The refusals are values, and \<open>Card_Raises\<close> the \<open>TypeError\<close> of joining a
  field that is not a text, which the resolver does not catch.
\<close>

subsection \<open>Text of a card\<close>

definition CARD_GO_RE :: regex where
  "CARD_GO_RE = re_seq [RBound, re_ilit ''Verdict'', re_spaces, re_lit '':'', re_spaces, re_ilit ''GO'', RBound]"

definition CARD_BLOCK_RE :: regex where
  "CARD_BLOCK_RE = re_seq [RBound, re_ilit ''Verdict'', re_spaces, re_lit '':'', re_spaces, re_ilit ''BLOCK'', RBound]"

definition CARD_NEED_MORE_RE :: regex where
  "CARD_NEED_MORE_RE =
     re_seq [RBound, re_ilit ''Verdict'', re_spaces, re_lit '':'', re_spaces, re_ilit ''NEED_MORE'', RBound]"

definition REMEDIATION_RE :: regex where
  "REMEDIATION_RE = re_seq [RBound, re_ilit ''remediation'', RBound]"

definition FIX_RE :: regex where
  "FIX_RE = RAlt (re_seq [RBound, re_ilit ''fix'', RBound])
     (re_seq [RBound, re_ilit ''fix'', re_words [''ed'', ''es''], RBound])"

definition re_hex_char :: regex where
  "re_hex_char = re_one_of ''0123456789abcdefABCDEF''"

definition CARD_REF_RE :: regex where
  "CARD_REF_RE = re_seq [RBound,
     RAlt (RSeq (re_lit ''t_'') (re_times 8 re_hex_char)) (RSeq (re_lit ''card_'') (re_plus re_word)), RBound]"

definition card_short :: "string \<Rightarrow> string" where
  "card_short = short_text 480"

definition card_verdict :: "string \<Rightarrow> string" where
  "card_verdict t =
     (if re_test CARD_BLOCK_RE t then ''BLOCK''
      else if re_test CARD_NEED_MORE_RE t then ''NEED_MORE''
      else if re_test CARD_GO_RE t then ''GO'' else [])"

text \<open>\<open>ref.split("_", 1)[-1]\<close>.\<close>

definition compact_ref :: "string \<Rightarrow> string" where
  "compact_ref ref = (case split_at_char (\<lambda>c. c = CHR ''_'') ref of (_, Some t) \<Rightarrow> t | (t, None) \<Rightarrow> t)"

definition contains_ref :: "string \<Rightarrow> string \<Rightarrow> bool" where
  "contains_ref t ref \<longleftrightarrow> ref \<noteq> [] \<and> t \<noteq> [] \<and>
     (contains_text ref t \<or> (6 \<le> length (compact_ref ref) \<and> contains_text (compact_ref ref) t))"

definition card_metadata :: "json dict \<Rightarrow> json dict" where
  "card_metadata c = (case dict_get c ''metadata'' of Some (JObj d) \<Rightarrow> d | _ \<Rightarrow> [])"

definition card_comments :: "json dict \<Rightarrow> json list" where
  "card_comments c = (case dict_get c ''comments'' of Some (JArr xs) \<Rightarrow> xs | _ \<Rightarrow> [])"

definition card_field :: "json dict \<Rightarrow> string \<Rightarrow> json" where
  "card_field c k = (case dict_get c k of None \<Rightarrow> JStr [] | Some v \<Rightarrow> v)"

text \<open>The four fields, joined as they are: \<open>None\<close> when one of them is not a text.\<close>

definition card_fields :: "json dict \<Rightarrow> string list option" where
  "card_fields c = those (map (\<lambda>k. case card_field c k of JStr s \<Rightarrow> Some s | _ \<Rightarrow> None)
     [''title'', ''body'', ''summary'', ''result''])"

definition card_text :: "json dict \<Rightarrow> string option" where
  "card_text c = map_option (\<lambda>parts. join_with line_feed_text
     (parts @ map py_str (card_comments c) @ map (\<lambda>(k, v). k @ '': '' @ py_str v) (card_metadata c)))
     (card_fields c)"

definition card_blocked :: "json dict \<Rightarrow> bool" where
  "card_blocked c \<longleftrightarrow> py_lower (get_str c ''status'') \<in>
     set [''blocked'', ''waiting'', ''waiting_review'', ''on_hold'', ''hold'']"

definition mentions_remediation :: "string \<Rightarrow> bool" where
  "mentions_remediation t \<longleftrightarrow> re_test REMEDIATION_RE t \<or> re_test FIX_RE t"

definition card_blocker_id :: "json dict \<Rightarrow> string" where
  "card_blocker_id c = str_or (get_str c ''blocked_by'') (get_str c ''blocker_id'')"

text \<open>\<open>bt\<close> and \<open>rt\<close> are the texts of the blocked card and of the review.\<close>

definition mentions_blocked_card :: "json dict \<Rightarrow> json dict \<Rightarrow> string \<Rightarrow> string \<Rightarrow> bool" where
  "mentions_blocked_card blocked other bt rt \<longleftrightarrow>
     contains_ref rt (get_str blocked ''id'') \<or>
     (card_blocker_id blocked \<noteq> [] \<and> contains_ref rt (card_blocker_id blocked)) \<or>
     (get_str other ''id'' \<noteq> [] \<and>
       (contains_ref bt (get_str other ''id'') \<or> contains_ref rt (get_str other ''id'')))"

definition safe_card_ref :: "json dict \<Rightarrow> string" where
  "safe_card_ref c =
     (let ref = card_short (get_str c ''id'') in
      if ref = [] then [] else if safe_ref_text ref then ref else ''card:redacted'')"

definition card_summary :: "json dict \<Rightarrow> string" where
  "card_summary c = card_short (str_or (get_str c ''title'') (str_or (get_str c ''summary'') ''card''))"

subsection \<open>Structured references\<close>

fun values_as_refs :: "json \<Rightarrow> string list" where
  "values_as_refs JNull = []"
| "values_as_refs (JArr xs) = concat (map values_as_refs xs)"
| "values_as_refs (JObj kvs) = concat (map (\<lambda>(k, v). values_as_refs v) kvs)"
| "values_as_refs v =
     (let t = card_short (py_str v); found = map (group 0) (re_finditer CARD_REF_RE t) in
      if t = [] then [] else if found = [] then [t] else found)"

text \<open>A set in the code; only membership is asked.\<close>

definition metadata_refs :: "json dict \<Rightarrow> string list \<Rightarrow> string list" where
  "metadata_refs c ks = filter (\<lambda>r. r \<noteq> []) (concat (map (\<lambda>k.
     case dict_get (card_metadata c) k of None \<Rightarrow> [] | Some v \<Rightarrow> values_as_refs v) ks))"

definition structured_relation :: "json dict \<Rightarrow> json dict \<Rightarrow> string \<Rightarrow> bool" where
  "structured_relation blocked review bt \<longleftrightarrow>
     (let blocked_id = get_str blocked ''id''; review_id = get_str review ''id'';
          blocker_refs = metadata_refs blocked
            [''blocked_by'', ''blocker_id'', ''blockers'', ''blocking_review'', ''blocking_reviews''];
          remediates = metadata_refs review
            [''remediates'', ''remediate'', ''remediated'', ''remediated_blocker'', ''blocker_id'']
      in blocked_id \<noteq> [] \<and> review_id \<noteq> [] \<and>
         (review_id \<in> set (metadata_refs blocked [''remediation_review'', ''remediation_reviews'',
            ''blocking_review'', ''blocking_reviews'', ''review_id'', ''review_ids'', ''unblock_review'',
            ''unblock_reviews'']) \<or>
          blocked_id \<in> set (metadata_refs review
            [''unblock_ok'', ''unblocks'', ''downstream'', ''blocked_card'', ''blocked_cards'']) \<or>
          list_ex (\<lambda>r. r \<in> set blocker_refs) remediates \<or> list_ex (contains_ref bt) remediates))"

definition sorted_set :: "string list \<Rightarrow> string list" where
  "sorted_set xs = sort (remdups xs)"

definition listed_blockers :: "json dict \<Rightarrow> string \<Rightarrow> string list option" where
  "listed_blockers blocked k =
     (case dict_get (card_metadata blocked) k of
        Some (JArr xs) \<Rightarrow>
          (let refs = sorted_set (filter (\<lambda>r. r \<noteq> []) (map (\<lambda>v. card_short (value_text v)) xs)) in
           if 1 < length refs then Some refs else None)
      | _ \<Rightarrow> None)"

definition ambiguous_blockers :: "json dict \<Rightarrow> string \<Rightarrow> string list" where
  "ambiguous_blockers blocked bt =
     (case List.map_filter (listed_blockers blocked) [''blocked_by'', ''blocker_id'', ''blockers'', ''blocking_reviews''] of
        refs # _ \<Rightarrow> refs
      | [] \<Rightarrow>
          (let refs = sorted_set (filter (\<lambda>r. dict_get blocked ''id'' \<noteq> Some (JStr r))
                 (map (group 0) (re_finditer CARD_REF_RE bt)));
               blockerish = list_ex (\<lambda>w. contains_text w (py_lower bt)) [''blocked by'', ''blocker'', ''blocking review'']
           in if blockerish \<and> 1 < length refs then refs else []))"

subsection \<open>The resolver\<close>

record card_candidate =
  kb_blocked_card :: string
  kb_review :: string
  kb_verdict :: string
  kb_blocked_status :: string
  kb_blocked_summary :: string
  kb_review_summary :: string
  kb_structured :: bool

datatype card_answer =
    Card_Refused string bool "json dict"
  | Card_Raises py_error
  | Card_Resolved card_candidate

definition review_details :: "json dict \<Rightarrow> string \<Rightarrow> json dict" where
  "review_details review verdict =
     [(''remediation_review_id'', JStr (safe_card_ref review)), (''verdict'', JStr verdict)]"

definition blocked_details :: "json dict \<Rightarrow> json dict" where
  "blocked_details blocked = [(''blocked_card_id'', JStr (safe_card_ref blocked))]"

text \<open>What the review has to say.\<close>

definition judge_review ::
    "json dict \<Rightarrow> json dict \<Rightarrow> string \<Rightarrow> string \<Rightarrow> bool \<Rightarrow> bool \<Rightarrow> bool \<Rightarrow> card_answer" where
  "judge_review blocked review bt rt structured required_go require_provenance =
     (let verdict = card_verdict rt in
      if verdict = ''BLOCK''
      then Card_Refused ''remediation_review_has_block_verdict'' True (review_details review verdict)
      else if verdict = ''NEED_MORE''
      then Card_Refused ''remediation_review_needs_more_work'' True (review_details review verdict)
      else if required_go \<and> verdict \<noteq> ''GO''
      then Card_Refused ''missing_go_verdict'' True (review_details review (str_or verdict ''none''))
      else if require_provenance \<and> \<not> mentions_blocked_card blocked review bt rt
      then Card_Refused ''remediation_review_unrelated_to_blocked_card'' True
        (blocked_details blocked @ [(''remediation_review_id'', JStr (safe_card_ref review))])
      else Card_Resolved
        \<lparr>kb_blocked_card = safe_card_ref blocked, kb_review = safe_card_ref review, kb_verdict = verdict,
         kb_blocked_status = get_str blocked ''status'', kb_blocked_summary = card_summary blocked,
         kb_review_summary = card_summary review, kb_structured = structured\<rparr>)"

definition resolve_candidate :: "json dict \<Rightarrow> json dict \<Rightarrow> bool \<Rightarrow> bool \<Rightarrow> card_answer" where
  "resolve_candidate blocked review required_go require_provenance =
     (if py_strip (get_str blocked ''id'') = [] then Card_Refused ''missing_blocked_card_id'' True []
      else if py_strip (get_str review ''id'') = [] then Card_Refused ''missing_remediation_review_id'' True []
      else if \<not> card_blocked blocked
      then Card_Refused ''blocked_card_not_blocked'' False
        (blocked_details blocked @ [(''status'', JStr (get_str blocked ''status''))])
      else case card_text blocked of
        None \<Rightarrow> Card_Raises TypeError
      | Some bt \<Rightarrow>
          if \<not> mentions_remediation bt
          then Card_Refused ''blocked_card_lacks_remediation_reference'' False (blocked_details blocked)
          else
            (let structured = structured_relation blocked review bt;
                 ambiguous = (if structured then [] else ambiguous_blockers blocked bt) in
             if ambiguous \<noteq> []
             then Card_Refused ''ambiguous_multiple_blockers'' True
               (blocked_details blocked @ [(''blocker_refs'', JArr (map JStr (take 5 ambiguous)))])
             else case card_text review of
               None \<Rightarrow> Card_Raises TypeError
             | Some rt \<Rightarrow> judge_review blocked review bt rt structured required_go require_provenance))"

text \<open>An absent card is the empty one. The wake itself stays disabled.\<close>

definition resolve_blocked_remediation ::
    "json dict option \<Rightarrow> json dict option \<Rightarrow> bool \<Rightarrow> bool \<Rightarrow> bool \<Rightarrow> string + card_answer" where
  "resolve_blocked_remediation blocked review dry_run required_go require_provenance =
     (let card = (\<lambda>c. case c of None \<Rightarrow> [] | Some d \<Rightarrow> d) in
      if \<not> dry_run then Inl ''live_mutation_disabled''
      else Inr (resolve_candidate (card blocked) (card review) required_go require_provenance))"

subsection \<open>What a resolution means\<close>

lemma verdict_go: "card_verdict t = ''GO'' \<longleftrightarrow>
    re_test CARD_GO_RE t \<and> \<not> re_test CARD_BLOCK_RE t \<and> \<not> re_test CARD_NEED_MORE_RE t"
  by (simp add: card_verdict_def)

lemma verdict_clear: "card_verdict t \<noteq> ''BLOCK'' \<and> card_verdict t \<noteq> ''NEED_MORE'' \<longleftrightarrow>
    \<not> re_test CARD_BLOCK_RE t \<and> \<not> re_test CARD_NEED_MORE_RE t"
  by (simp add: card_verdict_def)

text \<open>
  C33: a blocked card is proposed for unblocking only on an explicit go. When the resolver resolves,
  the run is a dry run, the card was blocked and spoke of a remediation, its blocker was either
  named by structured metadata or not ambiguous, and the text of the review has a verdict of GO
  and, whatever else it says, none of BLOCK or NEED_MORE.
\<close>

theorem unblocked_only_on_go:
  assumes "resolve_blocked_remediation (Some blocked) (Some review) dry_run True provenance = Inr (Card_Resolved c)"
  shows "dry_run \<and> card_blocked blocked \<and> kb_verdict c = ''GO'' \<and>
    (\<exists>bt rt. card_text blocked = Some bt \<and> card_text review = Some rt \<and> mentions_remediation bt \<and>
      (structured_relation blocked review bt \<or> ambiguous_blockers blocked bt = []) \<and>
      re_test CARD_GO_RE rt \<and> \<not> re_test CARD_BLOCK_RE rt \<and> \<not> re_test CARD_NEED_MORE_RE rt)"
proof -
  from assms obtain bt rt where texts: "card_text blocked = Some bt" "card_text review = Some rt"
    and judged: "judge_review blocked review bt rt (structured_relation blocked review bt) True provenance = Card_Resolved c"
    and gates: "dry_run" "card_blocked blocked" "mentions_remediation bt"
      "structured_relation blocked review bt \<or> ambiguous_blockers blocked bt = []"
    by (auto simp: resolve_blocked_remediation_def resolve_candidate_def Let_def split: if_splits option.splits)
  from judged have "card_verdict rt = ''GO''" "kb_verdict c = card_verdict rt"
    by (auto simp: judge_review_def Let_def split: if_splits)
  with texts gates show ?thesis by (simp add: verdict_go)
qed

text \<open>
  The provenance check is met by a review that quotes its own id: the last disjunct looks for the id
  of the review in the text of the review.
\<close>

lemma own_id_is_provenance:
  assumes "contains_ref rt (get_str review ''id'')"
  shows "mentions_blocked_card blocked review bt rt"
  using assms by (simp add: mentions_blocked_card_def contains_ref_def)

definition sample_blocked :: "json dict" where
  "sample_blocked = [(''id'', JStr ''t_aaaaaaaa''), (''status'', JStr ''blocked''), (''body'', JStr ''needs a fix'')]"

definition sample_review :: "json dict" where
  "sample_review = [(''id'', JStr ''t_bbbbbbbb''), (''body'', JStr ''t_bbbbbbbb Verdict: GO'')]"

theorem unrelated_review_resolves:
  "resolve_blocked_remediation (Some sample_blocked) (Some sample_review) True True True = Inr (Card_Resolved
     \<lparr>kb_blocked_card = ''t_aaaaaaaa'', kb_review = ''t_bbbbbbbb'', kb_verdict = ''GO'', kb_blocked_status = ''blocked'',
      kb_blocked_summary = ''card'', kb_review_summary = ''card'', kb_structured = False\<rparr>)"
  by code_simp

theorem unblocked_only_on_go_witness:
  "\<exists>c. resolve_blocked_remediation (Some sample_blocked) (Some sample_review) True True True = Inr (Card_Resolved c) \<and>
    kb_verdict c = ''GO''"
proof -
  obtain c where c: "resolve_blocked_remediation (Some sample_blocked) (Some sample_review) True True True =
      Inr (Card_Resolved c)"
    using unrelated_review_resolves by blast
  with unblocked_only_on_go [OF c] show ?thesis by blast
qed

end
