(* ===== verification/Migration.thy ===== *)
theory Migration
  imports Ledger_Inv Jobs "HOL-Library.List_Lexorder" "HOL-Library.Char_ord"
begin

text \<open>
  The migration of a legacy continuation store into the canonical one (\<open>migrate_legacy_store\<close> and what
  belongs to it in \<open>continuation_store.py\<close>), the selection of the store, and the report on residue.

  A ledger file is the store with the two tables that live beside it in the same database: the
  idempotency keys and the receipts of migrations. A table that a legacy file lacks is an empty one;
  only \<open>continuation_instances\<close> is asked for. Foreign keys are not enforced by the connection.
\<close>

subsection \<open>Ledger files\<close>

record verification =
  ve_ok :: bool
  ve_legacy_instances :: nat
  ve_mapped_instances :: nat
  ve_missing :: "nat list"
  ve_duplicates :: nat

record migration_row =
  mg_id :: nat
  mg_legacy_path :: string
  mg_migrated_at :: real
  mg_counts :: "(string \<times> nat) list"
  mg_verification :: verification

record ledger_file =
  lf_tables :: bool
  lf_store :: store
  lf_keys :: "idempotency_row list"
  lf_migrations :: "migration_row table"

definition list_migration_receipts :: "ledger_file \<Rightarrow> migration_row list" where
  "list_migration_receipts f = rows (lf_migrations f)"

subsection \<open>Copying rows\<close>

text \<open>
  \<open>insert or ignore\<close> of the image of every row: \<open>img\<close> is \<open>None\<close> for a row of a continuation that was
  not mapped, otherwise the new row for its new id. The number counts the rows inserted.
\<close>

definition copy_row ::
    "('r \<Rightarrow> 'k) \<Rightarrow> ('q \<Rightarrow> (nat \<Rightarrow> 'r) option) \<Rightarrow> nat \<times> 'r table \<Rightarrow> 'q \<Rightarrow> nat \<times> 'r table" where
  "copy_row key img nt x =
     (case img x of
        None \<Rightarrow> nt
      | Some mk \<Rightarrow>
          (case insert_or_ignore (\<lambda>r. key r = key (mk 0)) mk (snd nt) of
             (inserted, t) \<Rightarrow> (fst nt + (if inserted then 1 else 0), t)))"

definition copy_rows :: "('r \<Rightarrow> 'k) \<Rightarrow> ('q \<Rightarrow> (nat \<Rightarrow> 'r) option) \<Rightarrow> 'q list \<Rightarrow> 'r table \<Rightarrow> nat \<times> 'r table" where
  "copy_rows key img xs t = foldl (copy_row key img) (0, t) xs"

text \<open>The same for tables whose key is a text of the row itself.\<close>

definition copy_listed :: "('r \<Rightarrow> 'k) \<Rightarrow> 'r list \<Rightarrow> 'r list \<Rightarrow> nat \<times> 'r list" where
  "copy_listed key xs ys = foldl (\<lambda>(n, ys) x.
     if key x \<in> key ` set ys then (n, ys) else (Suc n, ys @ [x])) (0, ys) xs"

subsection \<open>The tables\<close>

type_synonym id_map = "(nat \<times> nat) list"

definition copy_instance :: "id_map \<times> nat \<times> instance_row table \<Rightarrow> instance_row \<Rightarrow> id_map \<times> nat \<times> instance_row table" where
  "copy_instance s r =
     (case s of (m, n, t) \<Rightarrow>
        (case select_one (\<lambda>q. source_tuple q = source_tuple r) t of
           Some q \<Rightarrow> (AList.update (ci_id r) (ci_id q) m, n, t)
         | None \<Rightarrow>
             (case insert_row (\<lambda>i. r\<lparr>ci_id := i\<rparr>) t of
                (q, t') \<Rightarrow> (AList.update (ci_id r) (ci_id q) m, Suc n, t'))))"

definition copy_instances :: "instance_row list \<Rightarrow> instance_row table \<Rightarrow> id_map \<times> nat \<times> instance_row table" where
  "copy_instances rs t = foldl copy_instance ([], 0, t) rs"

definition step_image :: "id_map \<Rightarrow> step_row \<Rightarrow> (nat \<Rightarrow> step_row) option" where
  "step_image m r = map_option (\<lambda>c i. r\<lparr>cs_id := i, cs_continuation_id := c\<rparr>) (map_of m (cs_continuation_id r))"

definition receipt_image :: "id_map \<Rightarrow> receipt_row \<Rightarrow> (nat \<Rightarrow> receipt_row) option" where
  "receipt_image m r = map_option (\<lambda>c i. r\<lparr>or_id := i, or_continuation_id := c\<rparr>) (map_of m (or_continuation_id r))"

definition event_image :: "id_map \<Rightarrow> event_row \<Rightarrow> (nat \<Rightarrow> event_row) option" where
  "event_image m r = map_option (\<lambda>c i. r\<lparr>ce_id := i, ce_continuation_id := c\<rparr>) (map_of m (ce_continuation_id r))"

text \<open>The columns of the retries, which the statement does not name, take their defaults.\<close>

definition outbox_image :: "id_map \<Rightarrow> outbox_row \<Rightarrow> (nat \<Rightarrow> outbox_row) option" where
  "outbox_image m r = map_option (\<lambda>c i. r\<lparr>ob_id := i, ob_continuation_id := c, ob_next_attempt_at := 0,
     ob_last_error := []\<rparr>) (map_of m (ob_continuation_id r))"

definition satisfaction_image :: "id_map \<Rightarrow> satisfaction_row \<Rightarrow> (nat \<Rightarrow> satisfaction_row) option" where
  "satisfaction_image m r =
     map_option (\<lambda>c i. r\<lparr>rs_id := i, rs_continuation_id := c\<rparr>) (map_of m (rs_continuation_id r))"

definition policy_image :: "policy_row \<Rightarrow> (nat \<Rightarrow> policy_row) option" where
  "policy_image r = Some (\<lambda>i. r\<lparr>sp_id := i\<rparr>)"

definition member_image :: "id_map \<Rightarrow> member_row \<Rightarrow> (nat \<Rightarrow> member_row) option" where
  "member_image m r =
     map_option (\<lambda>c i. r\<lparr>im_id := i, im_continuation_id := c\<rparr>) (map_of m (im_continuation_id r))"

definition reply_key :: "reply_row \<Rightarrow> string \<times> string \<times> string" where
  "reply_key r = (ir_case_id r, ir_message_ref r, ir_content_sha256 r)"

text \<open>Replies have no unique index: the code looks before it inserts.\<close>

definition copy_reply :: "nat \<times> reply_row table \<Rightarrow> reply_row \<Rightarrow> nat \<times> reply_row table" where
  "copy_reply nt r =
     (if \<exists>q \<in> set (rows (snd nt)). reply_key q = reply_key r then nt
      else (Suc (fst nt), snd (insert_row (\<lambda>i. r\<lparr>ir_id := i\<rparr>) (snd nt))))"

definition copy_replies :: "reply_row list \<Rightarrow> reply_row table \<Rightarrow> nat \<times> reply_row table" where
  "copy_replies rs t = foldl copy_reply (0, t) rs"

definition copy_cursor :: "cursor_row list \<Rightarrow> cursor_row \<Rightarrow> cursor_row list" where
  "copy_cursor cs r =
     (let current = (case find (\<lambda>c. bc_board c = bc_board r \<and> bc_db_identity c = bc_db_identity r) cs of
            None \<Rightarrow> 0 | Some c \<Rightarrow> bc_last_event_id c)
      in upsert_cursor (bc_board r) (bc_db_identity r) (max current (bc_last_event_id r)) (bc_updated_at r) cs)"

definition copy_cursors :: "cursor_row list \<Rightarrow> cursor_row list \<Rightarrow> cursor_row list" where
  "copy_cursors rs cs = foldl copy_cursor cs rs"

text \<open>\<open>order by created_at, id\<close>.\<close>

definition ordered_cases :: "case_row list \<Rightarrow> case_row list" where
  "ordered_cases cs = sort_key ic_created_at (sort_key ic_id cs)"

subsection \<open>The migration\<close>

text \<open>One transaction; the counts in the order of the code. External waits are not copied.\<close>

definition copy_ledger :: "ledger_file \<Rightarrow> ledger_file \<Rightarrow> id_map \<times> (string \<times> nat) list \<times> ledger_file" where
  "copy_ledger legacy canonical =
     (let l = lf_store legacy; c = lf_store canonical;
          (m, instances_n, instances_t) = copy_instances (rows (instances l)) (instances c);
          (steps_n, steps_t) = copy_rows step_key (step_image m) (rows (steps l)) (steps c);
          (receipts_n, receipts_t) = copy_rows receipt_key (receipt_image m) (rows (receipts l)) (receipts c);
          (events_n, events_t) = copy_rows event_key (event_image m) (rows (events l)) (events c);
          cursors_t = copy_cursors (cursors l) (cursors c);
          (outbox_n, outbox_t) = copy_rows ob_idempotency_key (outbox_image m) (rows (outbox l)) (outbox c);
          (satisfactions_n, satisfactions_t) =
            copy_rows satisfaction_key (satisfaction_image m) (rows (satisfactions l)) (satisfactions c);
          (policies_n, policies_t) = copy_rows policy_key policy_image (rows (policies l)) (policies c);
          (cases_n, cases_t) = copy_listed ic_id (ordered_cases (cases l)) (cases c);
          (members_n, members_t) = copy_rows member_key (member_image m) (rows (members l)) (members c);
          (replies_n, replies_t) = copy_replies (rows (replies l)) (replies c);
          (keys_n, keys_t) = copy_listed ik_key (sort_key ik_key (lf_keys legacy)) (lf_keys canonical)
      in (m,
          [(''instances'', instances_n), (''steps'', steps_n), (''receipts'', receipts_n), (''events'', events_n),
           (''cursors'', length (cursors l)), (''outbox'', outbox_n), (''satisfactions'', satisfactions_n),
           (''standing_policies'', policies_n), (''interaction_cases'', cases_n), (''interaction_members'', members_n),
           (''inbound_reply_receipts'', replies_n), (''idempotency_keys'', keys_n)],
          canonical\<lparr>lf_keys := keys_t, lf_store := c\<lparr>instances := instances_t, steps := steps_t,
            receipts := receipts_t, events := events_t, cursors := cursors_t, outbox := outbox_t,
            satisfactions := satisfactions_t, policies := policies_t, cases := cases_t, members := members_t,
            replies := replies_t\<rparr>\<rparr>))"

definition duplicate_tuples :: "store \<Rightarrow> nat" where
  "duplicate_tuples st =
     (let ts = map source_tuple (rows (instances st))
      in length (filter (\<lambda>t. 1 < count_list ts t) (remdups ts)))"

definition verify_migration :: "store \<Rightarrow> store \<Rightarrow> id_map \<Rightarrow> verification" where
  "verify_migration canonical legacy m =
     (let ids = map ci_id (rows (instances legacy)); missing = filter (\<lambda>i. map_of m i = None) ids
      in \<lparr>ve_ok = (missing = [] \<and> duplicate_tuples canonical = 0), ve_legacy_instances = length ids,
          ve_mapped_instances = length m, ve_missing = missing, ve_duplicates = duplicate_tuples canonical\<rparr>)"

definition record_migration_receipt ::
    "string \<Rightarrow> real \<Rightarrow> (string \<times> nat) list \<Rightarrow> verification \<Rightarrow> ledger_file \<Rightarrow> migration_row \<times> ledger_file" where
  "record_migration_receipt path now counts v f =
     (case insert_row (\<lambda>i. \<lparr>mg_id = i, mg_legacy_path = path, mg_migrated_at = now, mg_counts = counts,
        mg_verification = v\<rparr>) (lf_migrations f) of (r, t) \<Rightarrow> (r, f\<lparr>lf_migrations := t\<rparr>))"

datatype migration_result = Not_Migrated string | Migrated migration_row

definition migration_success :: "migration_result \<Rightarrow> bool" where
  "migration_success r = (case r of Not_Migrated _ \<Rightarrow> True | Migrated row \<Rightarrow> ve_ok (mg_verification row))"

text \<open>
  A path is a resolved one; \<open>None\<close> is a path where nothing is. \<open>now\<close> is the clock at the receipt.
\<close>

definition migrate_legacy_store ::
    "string \<Rightarrow> string \<Rightarrow> ledger_file option \<Rightarrow> real \<Rightarrow> ledger_file \<Rightarrow> migration_result \<times> ledger_file" where
  "migrate_legacy_store canonical_path path legacy now canonical =
     (case legacy of
        None \<Rightarrow> (Not_Migrated ''legacy_path_missing'', canonical)
      | Some l \<Rightarrow>
          if path = canonical_path then (Not_Migrated ''legacy_path_is_canonical'', canonical)
          else if \<not> lf_tables l then (Not_Migrated ''no_continuation_tables'', canonical)
          else
            (case copy_ledger l canonical of
               (m, counts, canonical') \<Rightarrow>
                 (case record_migration_receipt path now counts
                     (verify_migration (lf_store canonical') (lf_store l) m) canonical' of
                    (row, canonical'') \<Rightarrow> (Migrated row, canonical''))))"

definition migrate_all_legacy_stores ::
    "string \<Rightarrow> (string \<Rightarrow> ledger_file option) \<Rightarrow> (string \<times> real) list \<Rightarrow> ledger_file \<Rightarrow>
       migration_result list \<times> ledger_file" where
  "migrate_all_legacy_stores canonical_path disk paths canonical =
     foldl (\<lambda>(rs, c) (path, now).
       case migrate_legacy_store canonical_path path (disk path) now c of (r, c') \<Rightarrow> (rs @ [r], c'))
     ([], canonical) paths"

subsection \<open>Selection and residue\<close>

definition active_rows :: "store \<Rightarrow> nat" where
  "active_rows st = length (filter (\<lambda>r. ci_state r \<notin> set TERMINAL_STATES) (rows (instances st)))"

definition has_active_state :: "ledger_file option \<Rightarrow> bool" where
  "has_active_state f = (case f of None \<Rightarrow> False | Some l \<Rightarrow> lf_tables l \<and> 0 < active_rows (lf_store l))"

text \<open>The selected path, or the two candidates of a split.\<close>

definition doctor_store_selection ::
    "(string \<Rightarrow> ledger_file option) \<Rightarrow> string \<Rightarrow> string \<Rightarrow> string \<Rightarrow> string list + string" where
  "doctor_store_selection disk canonical fallback explicit =
     (let ca = has_active_state (disk canonical); fa = fallback \<noteq> canonical \<and> has_active_state (disk fallback) in
      if explicit \<noteq> [] then Inr explicit
      else if ca \<and> fa then Inl [canonical, fallback]
      else if ca \<or> \<not> fa then Inr canonical else Inr fallback)"

text \<open>Path, rows and active rows of every legacy file that has the table.\<close>

definition legacy_residue_report :: "(string \<Rightarrow> ledger_file option) \<Rightarrow> string list \<Rightarrow> (string \<times> nat \<times> nat) list" where
  "legacy_residue_report disk paths = List.map_filter (\<lambda>p.
     case disk p of
       None \<Rightarrow> None
     | Some l \<Rightarrow> if lf_tables l then Some (p, length (rows (instances (lf_store l))), active_rows (lf_store l)) else None)
     paths"

text \<open>The paths of the legacy stores, each once and without the canonical one.\<close>

definition legacy_paths :: "string \<Rightarrow> string list \<Rightarrow> string list" where
  "legacy_paths canonical candidates =
     foldl (\<lambda>seen p. if p \<noteq> canonical \<and> p \<notin> set seen then seen @ [p] else seen) [] candidates"

end
