(* ===== verification/Migration_Props.thy ===== *)
theory Migration_Props
  imports Migration
begin

text \<open>
  The migration of a legacy store: what a copy does to a table, that a second migration inserts nothing,
  and that a migration of new sources keeps the invariant of the ledger.
\<close>

subsection \<open>Copying a table\<close>

lemma copy_rows_snoc: "copy_rows key img (xs @ [x]) t = copy_row key img (copy_rows key img xs t) x"
  by (simp add: copy_rows_def)

lemma copy_rows_Nil [simp]: "copy_rows key img [] t = (0, t)"
  by (simp add: copy_rows_def)

text \<open>The contract of an image: it has the id it is given, and a key that does not depend on it.\<close>

locale copied_table =
  fixes rid :: "'r \<Rightarrow> nat" and key :: "'r \<Rightarrow> 'k" and img :: "'q \<Rightarrow> (nat \<Rightarrow> 'r) option"
  assumes rid_img: "img x = Some mk \<Longrightarrow> rid (mk i) = i"
    and key_img: "img x = Some mk \<Longrightarrow> key (mk i) = key (mk 0)"
begin

lemma copy_row_cases:
  obtains (skip) "img x = None" "copy_row key img nt x = nt"
  | (clash) mk where "img x = Some mk" "key (mk 0) \<in> key ` set (rows (snd nt))"
      "copy_row key img nt x = (fst nt, (snd nt)\<lparr>counter := Suc (counter (snd nt))\<rparr>)"
  | (new) mk where "img x = Some mk" "key (mk 0) \<notin> key ` set (rows (snd nt))"
      "copy_row key img nt x = (Suc (fst nt), snd (insert_row mk (snd nt)))"
proof (cases "img x")
  case None
  then show ?thesis by (intro that(1)) (simp_all add: copy_row_def)
next
  case (Some mk)
  show ?thesis
  proof (cases "key (mk 0) \<in> key ` set (rows (snd nt))")
    case True
    then have "\<exists>r \<in> set (rows (snd nt)). key r = key (mk 0)" by force
    with Some True show ?thesis by (intro that(2)) (simp_all add: copy_row_def insert_or_ignore_def)
  next
    case False
    then have "\<not> (\<exists>r \<in> set (rows (snd nt)). key r = key (mk 0))" by (metis imageI)
    with Some False show ?thesis by (intro that(3)) (simp_all add: copy_row_def insert_or_ignore_def)
  qed
qed

lemma copy_appends:
  "\<exists>ys. rows (snd (copy_rows key img xs t)) = rows t @ ys \<and> length ys = fst (copy_rows key img xs t)"
proof (induction xs rule: rev_induct)
  case (snoc x xs)
  then show ?case
    by (cases rule: copy_row_cases [of x "copy_rows key img xs t"]) (auto simp: copy_rows_snoc)
qed simp

lemma copy_keeps: "set (rows t) \<subseteq> set (rows (snd (copy_rows key img xs t)))"
  using copy_appends [of xs t] by auto

lemma copy_present:
  assumes "x \<in> set xs" "img x = Some mk"
  shows "key (mk 0) \<in> key ` set (rows (snd (copy_rows key img xs t)))"
  using assms(1)
proof (induction xs rule: rev_induct)
  case (snoc y xs)
  show ?case
  proof (cases rule: copy_row_cases [of y "copy_rows key img xs t"])
    case (new mk')
    then have "rows (snd (copy_rows key img (xs @ [y]) t)) =
        rows (snd (copy_rows key img xs t)) @ [mk' (Suc (counter (snd (copy_rows key img xs t))))]"
      by (simp add: copy_rows_snoc)
    with snoc assms(2) new(1) key_img [of y mk' "Suc (counter (snd (copy_rows key img xs t)))"] show ?thesis by auto
  qed (use snoc assms(2) in \<open>auto simp: copy_rows_snoc\<close>)
qed simp

lemma copy_again:
  assumes "\<And>x mk. x \<in> set xs \<Longrightarrow> img x = Some mk \<Longrightarrow> key (mk 0) \<in> key ` set (rows t)"
  shows "fst (copy_rows key img xs t) = 0 \<and> rows (snd (copy_rows key img xs t)) = rows t"
  using assms
proof (induction xs rule: rev_induct)
  case (snoc x xs)
  have IH: "fst (copy_rows key img xs t) = 0 \<and> rows (snd (copy_rows key img xs t)) = rows t"
    by (rule snoc.IH) (rule snoc.prems, simp_all)
  show ?case
  proof (cases rule: copy_row_cases [of x "copy_rows key img xs t"])
    case (new mk)
    with IH snoc.prems [of x mk] show ?thesis by simp
  qed (use IH in \<open>simp_all add: copy_rows_snoc\<close>)
qed simp

lemma copy_ok: "table_ok rid key t \<Longrightarrow> table_ok rid key (snd (copy_rows key img xs t))"
proof (induction xs rule: rev_induct)
  case (snoc x xs)
  then have ok: "table_ok rid key (snd (copy_rows key img xs t))" by simp
  show ?case
  proof (cases rule: copy_row_cases [of x "copy_rows key img xs t"])
    case (new mk)
    let ?i = "Suc (counter (snd (copy_rows key img xs t)))"
    have "key (mk ?i) \<notin> key ` set (rows (snd (copy_rows key img xs t)))"
      using new(2) key_img [OF new(1), of ?i] by simp
    with ok rid_img [OF new(1), of ?i] new(3) show ?thesis
      by (auto simp: copy_rows_snoc table_ok_def le_SucI)
  qed (use ok in \<open>simp_all add: copy_rows_snoc table_ok_bump\<close>)
qed simp

definition images :: "'q list \<Rightarrow> 'r list" where
  "images xs = List.map_filter (\<lambda>x. map_option (\<lambda>mk. mk 0) (img x)) xs"

text \<open>Without clashes the images are appended, each with a new id.\<close>

lemma copy_fresh:
  assumes "distinct (map key (images xs))" and "key ` set (images xs) \<inter> key ` set (rows t) = {}"
    and body: "\<And>x mk i. img x = Some mk \<Longrightarrow> body (mk i) = body (mk 0)"
  shows "map body (rows (snd (copy_rows key img xs t))) = map body (rows t) @ map body (images xs) \<and>
    key ` set (rows (snd (copy_rows key img xs t))) = key ` set (rows t) \<union> key ` set (images xs)"
  using assms(1,2)
proof (induction xs rule: rev_induct)
  case (snoc x xs)
  have app: "images (xs @ [x]) = images xs @ images [x]" by (simp add: images_def map_filter_def)
  have IH: "map body (rows (snd (copy_rows key img xs t))) = map body (rows t) @ map body (images xs)"
    "key ` set (rows (snd (copy_rows key img xs t))) = key ` set (rows t) \<union> key ` set (images xs)"
    using snoc.IH snoc.prems by (auto simp: app)
  show ?case
  proof (cases rule: copy_row_cases [of x "copy_rows key img xs t"])
    case skip
    then have "images [x] = []" by (simp add: images_def map_filter_def)
    with IH skip show ?thesis by (simp add: copy_rows_snoc app)
  next
    case (clash mk)
    then have "images [x] = [mk 0]" by (simp add: images_def map_filter_def)
    with clash(2) IH(2) snoc.prems show ?thesis by (auto simp: app)
  next
    case (new mk)
    then have "images [x] = [mk 0]" by (simp add: images_def map_filter_def)
    moreover have "rows (snd (copy_rows key img (xs @ [x]) t)) =
        rows (snd (copy_rows key img xs t)) @ [mk (Suc (counter (snd (copy_rows key img xs t))))]"
      using new by (simp add: copy_rows_snoc)
    ultimately show ?thesis
      using IH body [OF new(1), of "Suc (counter (snd (copy_rows key img xs t)))"]
        key_img [OF new(1), of "Suc (counter (snd (copy_rows key img xs t)))"] by (simp add: app Un_assoc)
  qed
qed (simp add: images_def map_filter_def)

end

interpretation steps_copied: copied_table cs_id step_key "step_image m" for m
  by unfold_locales (auto simp: step_image_def step_key_def)

interpretation receipts_copied: copied_table or_id receipt_key "receipt_image m" for m
  by unfold_locales (auto simp: receipt_image_def receipt_key_def)

interpretation events_copied: copied_table ce_id event_key "event_image m" for m
  by unfold_locales (auto simp: event_image_def event_key_def)

interpretation outbox_copied: copied_table ob_id ob_idempotency_key "outbox_image m" for m
  by unfold_locales (auto simp: outbox_image_def)

interpretation satisfactions_copied: copied_table rs_id satisfaction_key "satisfaction_image m" for m
  by unfold_locales (auto simp: satisfaction_image_def satisfaction_key_def)

interpretation policies_copied: copied_table sp_id policy_key policy_image
  by unfold_locales (auto simp: policy_image_def policy_key_def)

interpretation members_copied: copied_table im_id member_key "member_image m" for m
  by unfold_locales (auto simp: member_image_def member_key_def)

subsection \<open>Tables with a textual key, replies and cursors\<close>

lemma copy_listed_snoc: "copy_listed key (xs @ [x]) ys = (case copy_listed key xs ys of (n, zs) \<Rightarrow>
    if key x \<in> key ` set zs then (n, zs) else (Suc n, zs @ [x]))"
  by (simp add: copy_listed_def case_prod_beta)

lemma copy_listed_facts:
  "set ys \<subseteq> set (snd (copy_listed key xs ys)) \<and> key ` set xs \<subseteq> key ` set (snd (copy_listed key xs ys)) \<and>
   (distinct (map key ys) \<longrightarrow> distinct (map key (snd (copy_listed key xs ys))))"
proof (induction xs rule: rev_induct)
  case (snoc x xs)
  then show ?case by (auto simp: copy_listed_snoc case_prod_beta)
qed (simp add: copy_listed_def)

lemma copy_listed_again: "key ` set xs \<subseteq> key ` set ys \<Longrightarrow> copy_listed key xs ys = (0, ys)"
proof (induction xs rule: rev_induct)
  case (snoc x xs)
  then show ?case by (simp add: copy_listed_snoc)
qed (simp add: copy_listed_def)

lemma copy_replies_snoc: "copy_replies (rs @ [r]) t = copy_reply (copy_replies rs t) r"
  by (simp add: copy_replies_def)

lemma reply_key_id [simp]: "reply_key (r\<lparr>ir_id := i\<rparr>) = reply_key r"
  by (simp add: reply_key_def)

lemma copy_replies_present:
  "set (rows t) \<subseteq> set (rows (snd (copy_replies rs t))) \<and>
   reply_key ` set rs \<subseteq> reply_key ` set (rows (snd (copy_replies rs t)))"
proof (induction rs rule: rev_induct)
  case (snoc r rs)
  show ?case
  proof (cases "\<exists>q \<in> set (rows (snd (copy_replies rs t))). reply_key q = reply_key r")
    case True
    then have "reply_key r \<in> reply_key ` set (rows (snd (copy_replies rs t)))" by (metis imageI)
    with snoc True show ?thesis by (simp add: copy_replies_snoc copy_reply_def)
  next
    case False
    then have "rows (snd (copy_replies (rs @ [r]) t)) = rows (snd (copy_replies rs t)) @
        [r\<lparr>ir_id := Suc (counter (snd (copy_replies rs t)))\<rparr>]"
      by (simp add: copy_replies_snoc copy_reply_def)
    with snoc show ?thesis by auto
  qed
qed (simp add: copy_replies_def)

lemma copy_replies_again:
  "reply_key ` set rs \<subseteq> reply_key ` set (rows t) \<Longrightarrow> copy_replies rs t = (0, t)"
proof (induction rs rule: rev_induct)
  case (snoc r rs)
  then have "\<exists>q \<in> set (rows t). reply_key q = reply_key r" by force
  with snoc show ?case by (simp add: copy_replies_snoc copy_reply_def)
qed (simp add: copy_replies_def)

lemma copy_cursors_snoc: "copy_cursors (rs @ [r]) cs = copy_cursor (copy_cursors rs cs) r"
  by (simp add: copy_cursors_def)

lemma copy_cursor_keys: "map cursor_key (copy_cursor cs r) =
    (if cursor_key r \<in> set (map cursor_key cs) then map cursor_key cs else map cursor_key cs @ [cursor_key r])"
  by (simp add: copy_cursor_def Let_def cursor_keys_upsert cursor_key_def del: set_map)

lemma copy_cursors_distinct: "distinct (map cursor_key cs) \<Longrightarrow> distinct (map cursor_key (copy_cursors rs cs))"
proof (induction rs rule: rev_induct)
  case (snoc r rs)
  then show ?case by (simp add: copy_cursors_snoc copy_cursor_keys del: set_map)
qed (simp add: copy_cursors_def)

text \<open>How far a cursor has come.\<close>

definition reached :: "cursor_row \<Rightarrow> cursor_row list \<Rightarrow> bool" where
  "reached r cs \<longleftrightarrow> (\<exists>c \<in> set cs. cursor_key c = cursor_key r \<and> bc_last_event_id r \<le> bc_last_event_id c)"

lemma copy_cursor_reaches: "reached r (copy_cursor cs r)"
proof -
  have "\<exists>c \<in> set (upsert_cursor (bc_board r) (bc_db_identity r) v now cs). cursor_key c = cursor_key r \<and>
      bc_last_event_id r \<le> bc_last_event_id c" if "bc_last_event_id r \<le> v" for v now
  proof (cases "\<exists>c \<in> set cs. bc_board c = bc_board r \<and> bc_db_identity c = bc_db_identity r")
    case True
    then obtain c where c: "c \<in> set cs" "bc_board c = bc_board r" "bc_db_identity c = bc_db_identity r" by blast
    let ?f = "\<lambda>c. if bc_board c = bc_board r \<and> bc_db_identity c = bc_db_identity r \<and> bc_last_event_id c < v
      then c\<lparr>bc_last_event_id := v, bc_updated_at := now\<rparr> else c"
    have "?f c \<in> set (upsert_cursor (bc_board r) (bc_db_identity r) v now cs)"
      using True c(1) by (simp add: upsert_cursor_def)
    moreover have "cursor_key (?f c) = cursor_key r \<and> bc_last_event_id r \<le> bc_last_event_id (?f c)"
      using c that by (auto simp: cursor_key_def)
    ultimately show ?thesis by blast
  next
    case False
    then show ?thesis using that by (auto simp: upsert_cursor_def cursor_key_def)
  qed
  then show ?thesis by (simp add: reached_def copy_cursor_def Let_def)
qed

lemma copy_cursor_advances: "reached q cs \<Longrightarrow> reached q (copy_cursor cs r)"
proof -
  have later: "\<exists>d \<in> set (upsert_cursor b db v now cs). cursor_key d = cursor_key c \<and> bc_last_event_id c \<le> bc_last_event_id d"
    if c: "c \<in> set cs" for c b db v now
  proof (cases "\<exists>c \<in> set cs. bc_board c = b \<and> bc_db_identity c = db")
    case True
    let ?f = "\<lambda>c. if bc_board c = b \<and> bc_db_identity c = db \<and> bc_last_event_id c < v
      then c\<lparr>bc_last_event_id := v, bc_updated_at := now\<rparr> else c"
    have "?f c \<in> set (upsert_cursor b db v now cs)" using True c by (simp add: upsert_cursor_def)
    moreover have "cursor_key (?f c) = cursor_key c \<and> bc_last_event_id c \<le> bc_last_event_id (?f c)"
      by (simp add: cursor_key_def)
    ultimately show ?thesis by blast
  next
    case False
    with c have "c \<in> set (upsert_cursor b db v now cs)" by (auto simp: upsert_cursor_def)
    then show ?thesis by blast
  qed
  have step: "\<And>c. c \<in> set cs \<Longrightarrow>
      \<exists>d \<in> set (copy_cursor cs r). cursor_key d = cursor_key c \<and> bc_last_event_id c \<le> bc_last_event_id d"
    unfolding copy_cursor_def Let_def by (rule later)
  assume "reached q cs"
  then obtain c where c: "c \<in> set cs" "cursor_key c = cursor_key q" "bc_last_event_id q \<le> bc_last_event_id c"
    by (auto simp: reached_def)
  from step [OF c(1)] obtain d where "d \<in> set (copy_cursor cs r)" "cursor_key d = cursor_key c"
    "bc_last_event_id c \<le> bc_last_event_id d"
    by blast
  with c show "reached q (copy_cursor cs r)" by (auto simp: reached_def)
qed

lemma copy_cursors_reach: "r \<in> set rs \<Longrightarrow> reached r (copy_cursors rs cs)"
proof (induction rs rule: rev_induct)
  case (snoc q rs)
  then show ?case by (auto simp: copy_cursors_snoc copy_cursor_reaches copy_cursor_advances)
qed simp

lemma copy_cursor_idle:
  assumes "distinct (map cursor_key cs)" and "reached r cs"
  shows "copy_cursor cs r = cs"
proof -
  obtain c where c: "c \<in> set cs" "cursor_key c = cursor_key r" "bc_last_event_id r \<le> bc_last_event_id c"
    using assms(2) by (auto simp: reached_def)
  have only: "d = c" if "d \<in> set cs" "bc_board d = bc_board r" "bc_db_identity d = bc_db_identity r" for d
    using assms(1) c that by (auto simp: distinct_map inj_on_def cursor_key_def)
  have "find (\<lambda>d. bc_board d = bc_board r \<and> bc_db_identity d = bc_db_identity r) cs = Some c"
  proof (cases "find (\<lambda>d. bc_board d = bc_board r \<and> bc_db_identity d = bc_db_identity r) cs")
    case None
    with c show ?thesis by (auto simp: find_None_iff cursor_key_def)
  next
    case (Some d)
    then have "d \<in> set cs" "bc_board d = bc_board r" "bc_db_identity d = bc_db_identity r"
      by (auto simp: find_Some_iff)
    with Some only show ?thesis by blast
  qed
  with c(3) have "copy_cursor cs r =
      upsert_cursor (bc_board r) (bc_db_identity r) (bc_last_event_id c) (bc_updated_at r) cs"
    by (simp add: copy_cursor_def max_absorb1)
  also have "\<dots> = map (\<lambda>d. if bc_board d = bc_board r \<and> bc_db_identity d = bc_db_identity r \<and>
      bc_last_event_id d < bc_last_event_id c
      then d\<lparr>bc_last_event_id := bc_last_event_id c, bc_updated_at := bc_updated_at r\<rparr> else d) cs"
    using c(1,2) by (auto simp: upsert_cursor_def cursor_key_def)
  also have "\<dots> = cs" by (rule map_idI) (use only in auto)
  finally show ?thesis .
qed

lemma copy_cursors_again:
  assumes "distinct (map cursor_key cs)" and "\<And>r. r \<in> set rs \<Longrightarrow> reached r cs"
  shows "copy_cursors rs cs = cs"
  using assms(2)
proof (induction rs rule: rev_induct)
  case (snoc r rs)
  with copy_cursor_idle [OF assms(1), of r] show ?case by (simp add: copy_cursors_snoc)
qed (simp add: copy_cursors_def)


subsection \<open>The instances\<close>

abbreviation same_source :: "instance_row \<Rightarrow> instance_row \<Rightarrow> bool" where
  "same_source r q \<equiv> source_tuple q = source_tuple r"

definition source_map :: "instance_row list \<Rightarrow> instance_row table \<Rightarrow> id_map" where
  "source_map rs t = foldl (\<lambda>m r. AList.update (ci_id r) (ci_id (the (select_one (same_source r) t))) m) [] rs"

lemma copy_instances_snoc: "copy_instances (rs @ [r]) t = copy_instance (copy_instances rs t) r"
  by (simp add: copy_instances_def)

lemma select_one_appended: "select_one P t = Some q \<Longrightarrow> rows t' = rows t @ ys \<Longrightarrow> select_one P t' = Some q"
  by (simp add: select_one_def find_append)

lemma source_map_cong:
  "(\<And>r. r \<in> set rs \<Longrightarrow> select_one (same_source r) t = select_one (same_source r) t') \<Longrightarrow> source_map rs t = source_map rs t'"
  unfolding source_map_def by (rule foldl_cong) simp_all

text \<open>What the loop over the instances has done.\<close>

lemma copy_instances_facts:
  assumes "copy_instances rs t = (m, n, t')"
  shows "(\<exists>ys. rows t' = rows t @ ys \<and> length ys = n \<and> (\<forall>y \<in> set ys. \<exists>r \<in> set rs. y = r\<lparr>ci_id := ci_id y\<rparr> \<and> counter t < ci_id y)) \<and>
    (\<forall>r \<in> set rs. select_one (same_source r) t' \<noteq> None) \<and> m = source_map rs t' \<and> counter t \<le> counter t' \<and>
    (table_ok ci_id source_tuple t \<longrightarrow> table_ok ci_id source_tuple t')"
  using assms
proof (induction rs arbitrary: m n t' rule: rev_induct)
  case Nil
  then show ?case by (simp add: copy_instances_def source_map_def)
next
  case (snoc r rs)
  obtain m1 n1 t1 where one: "copy_instances rs t = (m1, n1, t1)" by (cases "copy_instances rs t")
  from snoc.IH [OF one] obtain ys where ys: "rows t1 = rows t @ ys" "length ys = n1"
      "\<forall>y \<in> set ys. \<exists>p \<in> set rs. y = p\<lparr>ci_id := ci_id y\<rparr> \<and> counter t < ci_id y"
    and found: "\<forall>p \<in> set rs. select_one (same_source p) t1 \<noteq> None"
    and m1: "m1 = source_map rs t1" and c1: "counter t \<le> counter t1"
    and ok1: "table_ok ci_id source_tuple t \<longrightarrow> table_ok ci_id source_tuple t1"
    by blast
  have last: "source_map (rs @ [r]) t'' = AList.update (ci_id r) (ci_id (the (select_one (same_source r) t''))) (source_map rs t'')"
    for t'' by (simp add: source_map_def)
  show ?case
  proof (cases "select_one (same_source r) t1")
    case (Some q)
    with snoc.prems one have eqs: "m = AList.update (ci_id r) (ci_id q) m1" "n = n1" "t' = t1"
      by (simp_all add: copy_instances_snoc copy_instance_def)
    have "m = source_map (rs @ [r]) t1" using Some by (simp add: last eqs m1)
    moreover have "\<forall>p \<in> set (rs @ [r]). select_one (same_source p) t1 \<noteq> None" using found Some by simp
    moreover have "\<exists>ys. rows t1 = rows t @ ys \<and> length ys = n1 \<and>
        (\<forall>y \<in> set ys. \<exists>p \<in> set (rs @ [r]). y = p\<lparr>ci_id := ci_id y\<rparr> \<and> counter t < ci_id y)"
      using ys by (intro exI [of _ ys]) (simp add: bex_Un)
    ultimately show ?thesis unfolding eqs(2,3) using c1 ok1 by (intro conjI)
  next
    case None
    let ?q = "r\<lparr>ci_id := Suc (counter t1)\<rparr>"
    from None snoc.prems one have eqs: "m = AList.update (ci_id r) (Suc (counter t1)) m1" "n = Suc n1"
      and t': "t' = snd (insert_row (\<lambda>i. r\<lparr>ci_id := i\<rparr>) t1)"
      by (auto simp: copy_instances_snoc copy_instance_def insert_row_def Let_def)
    have tuple: "source_tuple ?q = source_tuple r" by (simp add: source_tuple_def)
    have rows': "rows t' = rows t1 @ [?q]" and counter': "counter t' = Suc (counter t1)" by (simp_all add: t')
    have sel: "select_one (same_source r) t' = Some ?q"
      using None by (simp add: select_one_def find_append rows' tuple)
    have old: "select_one (same_source p) t' = select_one (same_source p) t1" if p: "p \<in> set rs" for p
    proof -
      obtain q where q: "select_one (same_source p) t1 = Some q" using found p by blast
      with select_one_appended [OF q rows'] show ?thesis by simp
    qed
    have ok: "table_ok ci_id source_tuple t \<longrightarrow> table_ok ci_id source_tuple t'"
      using ok1 None by (auto simp: table_ok_def rows' counter' tuple select_one_None_iff le_SucI)
    have "source_map rs t' = source_map rs t1" by (rule source_map_cong) (rule old)
    then have "m = source_map (rs @ [r]) t'" by (simp add: last sel eqs m1)
    moreover have "\<forall>p \<in> set (rs @ [r]). select_one (same_source p) t' \<noteq> None" using found old sel by simp
    moreover have "\<exists>ys. rows t' = rows t @ ys \<and> length ys = n \<and>
        (\<forall>y \<in> set ys. \<exists>p \<in> set (rs @ [r]). y = p\<lparr>ci_id := ci_id y\<rparr> \<and> counter t < ci_id y)"
      using ys c1 by (intro exI [of _ "ys @ [?q]"]) (simp add: rows' eqs bex_Un)
    moreover have "counter t \<le> counter t'" using c1 counter' by simp
    ultimately show ?thesis using ok by (intro conjI)
  qed
qed

lemma copy_instances_again:
  assumes "\<And>r. r \<in> set rs \<Longrightarrow> select_one (same_source r) t \<noteq> None"
  shows "copy_instances rs t = (source_map rs t, 0, t)"
  using assms
proof (induction rs rule: rev_induct)
  case (snoc r rs)
  then obtain q where "select_one (same_source r) t = Some q" by fastforce
  with snoc show ?case by (simp add: copy_instances_snoc copy_instance_def source_map_def)
qed (simp add: copy_instances_def source_map_def)

lemma source_map_snoc:
  "source_map (rs @ [r]) t = AList.update (ci_id r) (ci_id (the (select_one (same_source r) t))) (source_map rs t)"
  by (simp add: source_map_def)

lemma source_map_in:
  "distinct (map ci_id rs) \<Longrightarrow> r \<in> set rs \<Longrightarrow>
     map_of (source_map rs t) (ci_id r) = Some (ci_id (the (select_one (same_source r) t)))"
proof (induction rs rule: rev_induct)
  case (snoc q rs)
  show ?case
  proof (cases "r = q")
    case False
    with snoc.prems have "r \<in> set rs" by simp
    moreover have "ci_id r \<noteq> ci_id q"
    proof
      assume "ci_id r = ci_id q"
      with \<open>r \<in> set rs\<close> have "ci_id q \<in> ci_id ` set rs" by (rule rev_image_eqI [OF _ sym])
      with snoc.prems(1) show False by simp
    qed
    ultimately show ?thesis using snoc by (simp add: source_map_snoc update_conv')
  qed (simp add: source_map_snoc update_conv')
qed simp

lemma source_map_out: "i \<notin> ci_id ` set rs \<Longrightarrow> map_of (source_map rs t) i = None"
proof (induction rs rule: rev_induct)
  case (snoc q rs)
  then show ?case by (auto simp: source_map_snoc update_conv')
qed (simp add: source_map_def)


subsection \<open>A second migration inserts nothing\<close>

definition same_rows :: "ledger_file \<Rightarrow> ledger_file \<Rightarrow> bool" where
  "same_rows f g \<longleftrightarrow> (let a = lf_store f; b = lf_store g in
     rows (instances a) = rows (instances b) \<and> rows (steps a) = rows (steps b) \<and>
     rows (receipts a) = rows (receipts b) \<and> rows (events a) = rows (events b) \<and> cursors a = cursors b \<and>
     rows (outbox a) = rows (outbox b) \<and> rows (satisfactions a) = rows (satisfactions b) \<and>
     rows (policies a) = rows (policies b) \<and> cases a = cases b \<and> rows (members a) = rows (members b) \<and>
     rows (replies a) = rows (replies b) \<and> waits a = waits b \<and> lf_keys f = lf_keys g)"

lemma copy_ledger_eq:
  assumes "copy_instances (rows (instances (lf_store l))) (instances (lf_store c)) = (m, n, t)"
  shows "copy_ledger l c = (m,
    [(''instances'', n),
     (''steps'', fst (copy_rows step_key (step_image m) (rows (steps (lf_store l))) (steps (lf_store c)))),
     (''receipts'', fst (copy_rows receipt_key (receipt_image m) (rows (receipts (lf_store l))) (receipts (lf_store c)))),
     (''events'', fst (copy_rows event_key (event_image m) (rows (events (lf_store l))) (events (lf_store c)))),
     (''cursors'', length (cursors (lf_store l))),
     (''outbox'', fst (copy_rows ob_idempotency_key (outbox_image m) (rows (outbox (lf_store l))) (outbox (lf_store c)))),
     (''satisfactions'', fst (copy_rows satisfaction_key (satisfaction_image m) (rows (satisfactions (lf_store l)))
        (satisfactions (lf_store c)))),
     (''standing_policies'', fst (copy_rows policy_key policy_image (rows (policies (lf_store l))) (policies (lf_store c)))),
     (''interaction_cases'', fst (copy_listed ic_id (ordered_cases (cases (lf_store l))) (cases (lf_store c)))),
     (''interaction_members'', fst (copy_rows member_key (member_image m) (rows (members (lf_store l))) (members (lf_store c)))),
     (''inbound_reply_receipts'', fst (copy_replies (rows (replies (lf_store l))) (replies (lf_store c)))),
     (''idempotency_keys'', fst (copy_listed ik_key (sort_key ik_key (lf_keys l)) (lf_keys c)))],
    c\<lparr>lf_keys := snd (copy_listed ik_key (sort_key ik_key (lf_keys l)) (lf_keys c)),
      lf_store := (lf_store c)\<lparr>instances := t,
        steps := snd (copy_rows step_key (step_image m) (rows (steps (lf_store l))) (steps (lf_store c))),
        receipts := snd (copy_rows receipt_key (receipt_image m) (rows (receipts (lf_store l))) (receipts (lf_store c))),
        events := snd (copy_rows event_key (event_image m) (rows (events (lf_store l))) (events (lf_store c))),
        cursors := copy_cursors (cursors (lf_store l)) (cursors (lf_store c)),
        outbox := snd (copy_rows ob_idempotency_key (outbox_image m) (rows (outbox (lf_store l))) (outbox (lf_store c))),
        satisfactions := snd (copy_rows satisfaction_key (satisfaction_image m) (rows (satisfactions (lf_store l)))
          (satisfactions (lf_store c))),
        policies := snd (copy_rows policy_key policy_image (rows (policies (lf_store l))) (policies (lf_store c))),
        cases := snd (copy_listed ic_id (ordered_cases (cases (lf_store l))) (cases (lf_store c))),
        members := snd (copy_rows member_key (member_image m) (rows (members (lf_store l))) (members (lf_store c))),
        replies := snd (copy_replies (rows (replies (lf_store l))) (replies (lf_store c)))\<rparr>\<rparr>)"
  unfolding copy_ledger_def Let_def assms by (simp only: prod.case case_prod_beta fst_conv snd_conv)

lemma surjective_triple: "p = (fst p, fst (snd p), snd (snd p))"
  by (cases p) simp

lemma copy_ledger_fields:
  assumes "copy_ledger l c = (m, counts, c1)"
  shows "m = fst (copy_instances (rows (instances (lf_store l))) (instances (lf_store c)))"
    "instances (lf_store c1) = snd (snd (copy_instances (rows (instances (lf_store l))) (instances (lf_store c))))"
    "steps (lf_store c1) = snd (copy_rows step_key (step_image m) (rows (steps (lf_store l))) (steps (lf_store c)))"
    "receipts (lf_store c1) = snd (copy_rows receipt_key (receipt_image m) (rows (receipts (lf_store l))) (receipts (lf_store c)))"
    "events (lf_store c1) = snd (copy_rows event_key (event_image m) (rows (events (lf_store l))) (events (lf_store c)))"
    "cursors (lf_store c1) = copy_cursors (cursors (lf_store l)) (cursors (lf_store c))"
    "outbox (lf_store c1) = snd (copy_rows ob_idempotency_key (outbox_image m) (rows (outbox (lf_store l))) (outbox (lf_store c)))"
    "satisfactions (lf_store c1) =
       snd (copy_rows satisfaction_key (satisfaction_image m) (rows (satisfactions (lf_store l))) (satisfactions (lf_store c)))"
    "policies (lf_store c1) = snd (copy_rows policy_key policy_image (rows (policies (lf_store l))) (policies (lf_store c)))"
    "cases (lf_store c1) = snd (copy_listed ic_id (ordered_cases (cases (lf_store l))) (cases (lf_store c)))"
    "members (lf_store c1) = snd (copy_rows member_key (member_image m) (rows (members (lf_store l))) (members (lf_store c)))"
    "replies (lf_store c1) = snd (copy_replies (rows (replies (lf_store l))) (replies (lf_store c)))"
    "waits (lf_store c1) = waits (lf_store c)"
    "lf_keys c1 = snd (copy_listed ik_key (sort_key ik_key (lf_keys l)) (lf_keys c))"
    "lf_migrations c1 = lf_migrations c"
  using assms unfolding copy_ledger_eq [OF surjective_triple] by auto

lemma copy_ledger_counts:
  assumes "copy_ledger l c = (m, counts, c1)"
  shows "counts =
    [(''instances'', fst (snd (copy_instances (rows (instances (lf_store l))) (instances (lf_store c))))),
     (''steps'', fst (copy_rows step_key (step_image m) (rows (steps (lf_store l))) (steps (lf_store c)))),
     (''receipts'', fst (copy_rows receipt_key (receipt_image m) (rows (receipts (lf_store l))) (receipts (lf_store c)))),
     (''events'', fst (copy_rows event_key (event_image m) (rows (events (lf_store l))) (events (lf_store c)))),
     (''cursors'', length (cursors (lf_store l))),
     (''outbox'', fst (copy_rows ob_idempotency_key (outbox_image m) (rows (outbox (lf_store l))) (outbox (lf_store c)))),
     (''satisfactions'', fst (copy_rows satisfaction_key (satisfaction_image m) (rows (satisfactions (lf_store l)))
        (satisfactions (lf_store c)))),
     (''standing_policies'', fst (copy_rows policy_key policy_image (rows (policies (lf_store l))) (policies (lf_store c)))),
     (''interaction_cases'', fst (copy_listed ic_id (ordered_cases (cases (lf_store l))) (cases (lf_store c)))),
     (''interaction_members'', fst (copy_rows member_key (member_image m) (rows (members (lf_store l))) (members (lf_store c)))),
     (''inbound_reply_receipts'', fst (copy_replies (rows (replies (lf_store l))) (replies (lf_store c)))),
     (''idempotency_keys'', fst (copy_listed ik_key (sort_key ik_key (lf_keys l)) (lf_keys c)))]"
  using assms unfolding copy_ledger_eq [OF surjective_triple] by auto

text \<open>Copying again into the result.\<close>

lemma copied_again:
  assumes one: "copy_ledger l c = (m, counts, c1)" and keys: "distinct (map cursor_key (cursors (lf_store c)))"
  shows "copy_instances (rows (instances (lf_store l))) (instances (lf_store c1)) = (m, 0, instances (lf_store c1))"
    "fst (copy_rows step_key (step_image m) (rows (steps (lf_store l))) (steps (lf_store c1))) = 0 \<and>
      rows (snd (copy_rows step_key (step_image m) (rows (steps (lf_store l))) (steps (lf_store c1)))) = rows (steps (lf_store c1))"
    "fst (copy_rows receipt_key (receipt_image m) (rows (receipts (lf_store l))) (receipts (lf_store c1))) = 0 \<and>
      rows (snd (copy_rows receipt_key (receipt_image m) (rows (receipts (lf_store l))) (receipts (lf_store c1)))) =
      rows (receipts (lf_store c1))"
    "fst (copy_rows event_key (event_image m) (rows (events (lf_store l))) (events (lf_store c1))) = 0 \<and>
      rows (snd (copy_rows event_key (event_image m) (rows (events (lf_store l))) (events (lf_store c1)))) =
      rows (events (lf_store c1))"
    "fst (copy_rows ob_idempotency_key (outbox_image m) (rows (outbox (lf_store l))) (outbox (lf_store c1))) = 0 \<and>
      rows (snd (copy_rows ob_idempotency_key (outbox_image m) (rows (outbox (lf_store l))) (outbox (lf_store c1)))) =
      rows (outbox (lf_store c1))"
    "fst (copy_rows satisfaction_key (satisfaction_image m) (rows (satisfactions (lf_store l))) (satisfactions (lf_store c1))) = 0 \<and>
      rows (snd (copy_rows satisfaction_key (satisfaction_image m) (rows (satisfactions (lf_store l)))
        (satisfactions (lf_store c1)))) = rows (satisfactions (lf_store c1))"
    "fst (copy_rows policy_key policy_image (rows (policies (lf_store l))) (policies (lf_store c1))) = 0 \<and>
      rows (snd (copy_rows policy_key policy_image (rows (policies (lf_store l))) (policies (lf_store c1)))) =
      rows (policies (lf_store c1))"
    "fst (copy_rows member_key (member_image m) (rows (members (lf_store l))) (members (lf_store c1))) = 0 \<and>
      rows (snd (copy_rows member_key (member_image m) (rows (members (lf_store l))) (members (lf_store c1)))) =
      rows (members (lf_store c1))"
    "copy_cursors (cursors (lf_store l)) (cursors (lf_store c1)) = cursors (lf_store c1)"
    "copy_listed ic_id (ordered_cases (cases (lf_store l))) (cases (lf_store c1)) = (0, cases (lf_store c1))"
    "copy_replies (rows (replies (lf_store l))) (replies (lf_store c1)) = (0, replies (lf_store c1))"
    "copy_listed ik_key (sort_key ik_key (lf_keys l)) (lf_keys c1) = (0, lf_keys c1)"
proof -
  note F = copy_ledger_fields [OF one]
  note facts = copy_instances_facts [OF surjective_triple [of "copy_instances (rows (instances (lf_store l))) (instances (lf_store c))"]]
  have found: "\<And>r. r \<in> set (rows (instances (lf_store l))) \<Longrightarrow> select_one (same_source r) (instances (lf_store c1)) \<noteq> None"
    and m: "m = source_map (rows (instances (lf_store l))) (instances (lf_store c1))"
    using facts unfolding F(1,2) by blast+
  show "copy_instances (rows (instances (lf_store l))) (instances (lf_store c1)) = (m, 0, instances (lf_store c1))"
    unfolding m by (rule copy_instances_again) (rule found)
  show "fst (copy_rows step_key (step_image m) (rows (steps (lf_store l))) (steps (lf_store c1))) = 0 \<and>
      rows (snd (copy_rows step_key (step_image m) (rows (steps (lf_store l))) (steps (lf_store c1)))) = rows (steps (lf_store c1))"
    unfolding F(3) by (rule steps_copied.copy_again) (erule (1) steps_copied.copy_present)
  show "fst (copy_rows receipt_key (receipt_image m) (rows (receipts (lf_store l))) (receipts (lf_store c1))) = 0 \<and>
      rows (snd (copy_rows receipt_key (receipt_image m) (rows (receipts (lf_store l))) (receipts (lf_store c1)))) =
      rows (receipts (lf_store c1))"
    unfolding F(4) by (rule receipts_copied.copy_again) (erule (1) receipts_copied.copy_present)
  show "fst (copy_rows event_key (event_image m) (rows (events (lf_store l))) (events (lf_store c1))) = 0 \<and>
      rows (snd (copy_rows event_key (event_image m) (rows (events (lf_store l))) (events (lf_store c1)))) =
      rows (events (lf_store c1))"
    unfolding F(5) by (rule events_copied.copy_again) (erule (1) events_copied.copy_present)
  show "fst (copy_rows ob_idempotency_key (outbox_image m) (rows (outbox (lf_store l))) (outbox (lf_store c1))) = 0 \<and>
      rows (snd (copy_rows ob_idempotency_key (outbox_image m) (rows (outbox (lf_store l))) (outbox (lf_store c1)))) =
      rows (outbox (lf_store c1))"
    unfolding F(7) by (rule outbox_copied.copy_again) (erule (1) outbox_copied.copy_present)
  show "fst (copy_rows satisfaction_key (satisfaction_image m) (rows (satisfactions (lf_store l))) (satisfactions (lf_store c1))) = 0 \<and>
      rows (snd (copy_rows satisfaction_key (satisfaction_image m) (rows (satisfactions (lf_store l)))
        (satisfactions (lf_store c1)))) = rows (satisfactions (lf_store c1))"
    unfolding F(8) by (rule satisfactions_copied.copy_again) (erule (1) satisfactions_copied.copy_present)
  show "fst (copy_rows policy_key policy_image (rows (policies (lf_store l))) (policies (lf_store c1))) = 0 \<and>
      rows (snd (copy_rows policy_key policy_image (rows (policies (lf_store l))) (policies (lf_store c1)))) =
      rows (policies (lf_store c1))"
    unfolding F(9) by (rule policies_copied.copy_again) (erule (1) policies_copied.copy_present)
  show "fst (copy_rows member_key (member_image m) (rows (members (lf_store l))) (members (lf_store c1))) = 0 \<and>
      rows (snd (copy_rows member_key (member_image m) (rows (members (lf_store l))) (members (lf_store c1)))) =
      rows (members (lf_store c1))"
    unfolding F(11) by (rule members_copied.copy_again) (erule (1) members_copied.copy_present)
  show "copy_cursors (cursors (lf_store l)) (cursors (lf_store c1)) = cursors (lf_store c1)"
    unfolding F(6) by (rule copy_cursors_again [OF copy_cursors_distinct [OF keys]]) (erule copy_cursors_reach)
  show "copy_listed ic_id (ordered_cases (cases (lf_store l))) (cases (lf_store c1)) = (0, cases (lf_store c1))"
    unfolding F(10) by (rule copy_listed_again) (rule copy_listed_facts [THEN conjunct2, THEN conjunct1])
  show "copy_replies (rows (replies (lf_store l))) (replies (lf_store c1)) = (0, replies (lf_store c1))"
    unfolding F(12) by (rule copy_replies_again) (rule copy_replies_present [THEN conjunct2])
  show "copy_listed ik_key (sort_key ik_key (lf_keys l)) (lf_keys c1) = (0, lf_keys c1)"
    unfolding F(14) by (rule copy_listed_again) (rule copy_listed_facts [THEN conjunct2, THEN conjunct1])
qed

lemma copy_ledger_again:
  assumes one: "copy_ledger l c = (m, counts, c1)" and keys: "distinct (map cursor_key (cursors (lf_store c)))"
  shows "\<exists>c2. copy_ledger l c1 = (m, map (\<lambda>(k, n). (k, if k = ''cursors'' then n else 0)) counts, c2) \<and> same_rows c1 c2 \<and>
    lf_migrations c2 = lf_migrations c1"
proof -
  note A = copied_again [OF one keys]
  obtain c2 counts2 where two: "copy_ledger l c1 = (m, counts2, c2)"
    using copy_ledger_eq [OF A(1)] by simp
  note F = copy_ledger_fields [OF two]
  have "same_rows c1 c2" unfolding same_rows_def Let_def F(2-14) by (simp only: A fst_conv snd_conv simp_thms)
  moreover have "counts2 = map (\<lambda>(k, n). (k, if k = ''cursors'' then n else 0)) counts"
    unfolding copy_ledger_counts [OF two] unfolding copy_ledger_counts [OF one]
    by (simp only: list.map prod.case A fst_conv snd_conv) simp
  ultimately show ?thesis using two F(15) by blast
qed


lemma copy_ledger_migrations: "copy_ledger l (c\<lparr>lf_migrations := t\<rparr>) =
    (case copy_ledger l c of (m, counts, d) \<Rightarrow> (m, counts, d\<lparr>lf_migrations := t\<rparr>))"
  by (simp add: copy_ledger_def Let_def case_prod_beta)

lemma verification_rows:
  "rows (instances a) = rows (instances b) \<Longrightarrow> verify_migration a l m = verify_migration b l m"
  by (simp add: verify_migration_def duplicate_tuples_def Let_def)

lemma migrated_copy:
  assumes "migrate_legacy_store p path (Some l) now c = (Migrated row, c1)"
  obtains m counts d where "path \<noteq> p" "lf_tables l" "copy_ledger l c = (m, counts, d)"
    "mg_counts row = counts" "mg_verification row = verify_migration (lf_store d) (lf_store l) m"
    "c1 = d\<lparr>lf_migrations := lf_migrations c1\<rparr>"
proof -
  obtain m counts d where d: "copy_ledger l c = (m, counts, d)" by (cases "copy_ledger l c")
  with assms show ?thesis
    by (intro that [of m counts d])
      (auto simp: migrate_legacy_store_def record_migration_receipt_def insert_row_def Let_def split: if_splits)
qed

lemma migrate_copies:
  assumes "path \<noteq> p" "lf_tables l" "copy_ledger l c = (m, counts, d)"
  shows "\<exists>row t. migrate_legacy_store p path (Some l) now c = (Migrated row, d\<lparr>lf_migrations := t\<rparr>) \<and>
    mg_counts row = counts \<and> mg_verification row = verify_migration (lf_store d) (lf_store l) m"
proof -
  let ?row = "\<lparr>mg_id = Suc (counter (lf_migrations d)), mg_legacy_path = path, mg_migrated_at = now, mg_counts = counts,
    mg_verification = verify_migration (lf_store d) (lf_store l) m\<rparr>"
  let ?t = "(lf_migrations d)\<lparr>rows := rows (lf_migrations d) @ [?row], counter := Suc (counter (lf_migrations d))\<rparr>"
  have "migrate_legacy_store p path (Some l) now c = (Migrated ?row, d\<lparr>lf_migrations := ?t\<rparr>)"
    using assms by (simp add: migrate_legacy_store_def record_migration_receipt_def insert_row_def Let_def)
  then show ?thesis by (intro exI [of _ ?row] exI [of _ ?t]) simp
qed

text \<open>
  C34: a migration can be repeated. After a legacy store has been migrated, migrating it again, at any
  later time, succeeds or fails in its verification as before, inserts no instance, step, receipt,
  event, outbox row, satisfaction, policy, case, member, reply or key, and moves no cursor; only the
  receipt of the run is new.
\<close>

theorem migration_repeats_nothing:
  assumes "migrate_legacy_store p path (Some l) now c = (Migrated row, c1)"
    and "distinct (map cursor_key (cursors (lf_store c)))"
  shows "\<exists>row2 c2. migrate_legacy_store p path (Some l) now2 c1 = (Migrated row2, c2) \<and> same_rows c1 c2 \<and>
    mg_counts row2 = map (\<lambda>(k, n). (k, if k = ''cursors'' then n else 0)) (mg_counts row) \<and>
    mg_verification row2 = mg_verification row"
proof -
  from assms(1) obtain m counts d where d: "path \<noteq> p" "lf_tables l" "copy_ledger l c = (m, counts, d)"
    and row: "mg_counts row = counts" "mg_verification row = verify_migration (lf_store d) (lf_store l) m"
    and c1: "c1 = d\<lparr>lf_migrations := lf_migrations c1\<rparr>"
    by (rule migrated_copy)
  from copy_ledger_again [OF d(3) assms(2)] obtain e
    where e: "copy_ledger l d = (m, map (\<lambda>(k, n). (k, if k = ''cursors'' then n else 0)) counts, e)" "same_rows d e"
    by blast
  from copy_ledger_migrations [where l = l and c = d and t = "lf_migrations c1"] e(1) c1
  have again: "copy_ledger l c1 = (m, map (\<lambda>(k, n). (k, if k = ''cursors'' then n else 0)) counts,
      e\<lparr>lf_migrations := lf_migrations c1\<rparr>)"
    by simp
  from migrate_copies [OF d(1,2) again, of now2] obtain row2 t
    where two: "migrate_legacy_store p path (Some l) now2 c1 = (Migrated row2, e\<lparr>lf_migrations := t\<rparr>)"
      "mg_counts row2 = map (\<lambda>(k, n). (k, if k = ''cursors'' then n else 0)) counts"
      "mg_verification row2 = verify_migration (lf_store e) (lf_store l) m"
    by auto
  have "lf_store c1 = lf_store d" "lf_keys c1 = lf_keys d" using c1 by (metis ledger_file.select_convs ledger_file.update_convs(4) ledger_file.surjective)+
  then have "same_rows c1 (e\<lparr>lf_migrations := t\<rparr>)" using e(2) by (simp add: same_rows_def Let_def)
  moreover have "mg_verification row2 = mg_verification row"
    using e(2) two(3) row(2) verification_rows by (metis same_rows_def)
  ultimately show ?thesis using two row by blast
qed

subsection \<open>Numbered logs\<close>

definition log_image :: "('r \<Rightarrow> 'g \<Rightarrow> nat \<Rightarrow> 'r) \<Rightarrow> ('r \<Rightarrow> 'g) \<Rightarrow> ('g \<Rightarrow> 'g option) \<Rightarrow> 'r \<Rightarrow> (nat \<Rightarrow> 'r) option" where
  "log_image re grp f x = map_option (re x) (f (grp x))"

text \<open>A table numbered within groups, whose copy renames the groups by \<open>f\<close>.\<close>

locale copied_log =
  fixes rid :: "'r \<Rightarrow> nat" and grp :: "'r \<Rightarrow> 'g" and num :: "'r \<Rightarrow> nat" and content :: "'r \<Rightarrow> 'c"
    and re :: "'r \<Rightarrow> 'g \<Rightarrow> nat \<Rightarrow> 'r"
  assumes rid_re: "rid (re x g i) = i" and grp_re: "grp (re x g i) = g" and num_re: "num (re x g i) = num x"
    and content_re: "content (re x g i) = content x"

sublocale copied_log \<subseteq> log: copied_table rid "\<lambda>r. (grp r, num r)" "log_image re grp f" for f
  by unfold_locales (auto simp: log_image_def rid_re grp_re num_re)

context copied_log
begin

definition part :: "'g \<Rightarrow> 'r list \<Rightarrow> (nat \<times> 'c) list" where
  "part g rs = map (\<lambda>r. (num r, content r)) (filter (\<lambda>r. grp r = g) rs)"

lemma part_bodies: "part g rs = map snd (filter (\<lambda>p. fst p = g) (map (\<lambda>r. (grp r, num r, content r)) rs))"
  by (induction rs) (simp_all add: part_def)

lemma log_images [simp]:
  "log.images f [] = []"
  "log.images f (x # xs) = (case f (grp x) of None \<Rightarrow> log.images f xs | Some c \<Rightarrow> re x c 0 # log.images f xs)"
  by (simp_all add: log.images_def map_filter_def log_image_def split: option.splits)

lemma part_Cons: "part g (r # rs) = (if grp r = g then [(num r, content r)] else []) @ part g rs"
  by (simp add: part_def)

lemma part_images:
  assumes "\<And>i. f i = Some c \<Longrightarrow> i = g" and "f g = Some c"
  shows "part c (log.images f xs) = part g xs"
proof (induction xs)
  case (Cons x xs)
  show ?case
  proof (cases "grp x = g")
    case True
    with Cons assms(2) show ?thesis by (simp add: part_Cons grp_re num_re content_re)
  next
    case False
    with Cons assms(1) show ?thesis by (auto simp: part_Cons grp_re split: option.split)
  qed
qed (simp add: part_def)

lemma part_no_image:
  assumes "\<And>i. f i \<noteq> Some c"
  shows "part c (log.images f xs) = []"
proof (induction xs)
  case (Cons x xs)
  with assms [of "grp x"] show ?case by (auto simp: part_Cons grp_re split: option.split)
qed (simp add: part_def)

lemma images_keys: "(\<lambda>r. (grp r, num r)) ` set (log.images f xs) =
    {(c, num x) | c x. x \<in> set xs \<and> f (grp x) = Some c}"
proof (induction xs)
  case (Cons x xs)
  have "{(c, num y) | c y. y \<in> set (x # xs) \<and> f (grp y) = Some c} =
      {(c, num x) | c. f (grp x) = Some c} \<union> {(c, num y) | c y. y \<in> set xs \<and> f (grp y) = Some c}" by auto
  with Cons show ?case by (auto simp: grp_re num_re split: option.split)
qed simp

lemma images_distinct:
  assumes "\<And>i j c. f i = Some c \<Longrightarrow> f j = Some c \<Longrightarrow> i = j" and "distinct (map (\<lambda>r. (grp r, num r)) xs)"
  shows "distinct (map (\<lambda>r. (grp r, num r)) (log.images f xs))"
  using assms(2)
proof (induction xs)
  case (Cons x xs)
  show ?case
  proof (cases "f (grp x)")
    case None
    with Cons show ?thesis by simp
  next
    case (Some c)
    have "(c, num x) \<notin> (\<lambda>r. (grp r, num r)) ` set (log.images f xs)"
    proof
      assume "(c, num x) \<in> (\<lambda>r. (grp r, num r)) ` set (log.images f xs)"
      then obtain y where y: "y \<in> set xs" "f (grp y) = Some c" "num y = num x" by (auto simp: images_keys)
      with assms(1) Some have "(grp y, num y) = (grp x, num x)" by simp
      with y(1) have "(grp x, num x) \<in> (\<lambda>r. (grp r, num r)) ` set xs" by (metis (no_types, lifting) image_eqI)
      with Cons.prems show False by simp
    qed
    then show ?thesis using Cons Some by (simp add: grp_re num_re)
  qed
qed simp

text \<open>The copy of a log under fresh names: every group keeps its numbers and contents.\<close>

lemma copied_parts:
  assumes inj: "\<And>i j c. f i = Some c \<Longrightarrow> f j = Some c \<Longrightarrow> i = j"
    and fresh: "\<And>r i. r \<in> set (rows t) \<Longrightarrow> f i \<noteq> Some (grp r)"
    and dist: "distinct (map (\<lambda>r. (grp r, num r)) xs)"
  shows "f g = Some c \<Longrightarrow> part c (rows (snd (copy_rows (\<lambda>r. (grp r, num r)) (log_image re grp f) xs t))) = part g xs"
    and "(\<And>i. f i \<noteq> Some c) \<Longrightarrow>
      part c (rows (snd (copy_rows (\<lambda>r. (grp r, num r)) (log_image re grp f) xs t))) = part c (rows t)"
proof -
  have disjoint: "(\<lambda>r. (grp r, num r)) ` set (log.images f xs) \<inter> (\<lambda>r. (grp r, num r)) ` set (rows t) = {}"
    using fresh by (auto simp: images_keys)
  have "map (\<lambda>r. (grp r, num r, content r)) (rows (snd (copy_rows (\<lambda>r. (grp r, num r)) (log_image re grp f) xs t))) =
      map (\<lambda>r. (grp r, num r, content r)) (rows t) @ map (\<lambda>r. (grp r, num r, content r)) (log.images f xs)"
    by (rule log.copy_fresh [THEN conjunct1, OF images_distinct [OF inj dist] disjoint])
      (auto simp: log_image_def grp_re num_re content_re)
  then have parts: "part h (rows (snd (copy_rows (\<lambda>r. (grp r, num r)) (log_image re grp f) xs t))) =
      part h (rows t) @ part h (log.images f xs)" for h
    by (simp add: part_bodies)
  show "part c (rows (snd (copy_rows (\<lambda>r. (grp r, num r)) (log_image re grp f) xs t))) = part g xs" if "f g = Some c"
  proof -
    have "part c (rows t) = []" using fresh that by (auto simp: part_def filter_empty_conv)
    then show ?thesis using part_images [of f c g xs] inj that by (simp add: parts)
  qed
  show "part c (rows (snd (copy_rows (\<lambda>r. (grp r, num r)) (log_image re grp f) xs t))) = part c (rows t)"
    if "\<And>i. f i \<noteq> Some c"
    using part_no_image [of f c xs] that by (simp add: parts)
qed

lemma numbered_part: "numbered grp num t \<longleftrightarrow> (\<forall>g. map fst (part g (rows t)) = [1..<Suc (length (part g (rows t)))])"
  by (simp add: numbered_def part_def select_where_def Let_def comp_def)

lemma copied_numbered:
  assumes "\<And>i j c. f i = Some c \<Longrightarrow> f j = Some c \<Longrightarrow> i = j" and "\<And>r i. r \<in> set (rows t) \<Longrightarrow> f i \<noteq> Some (grp r)"
    and "distinct (map (\<lambda>r. (grp r, num r)) (rows u))" and "numbered grp num t" and "numbered grp num u"
  shows "numbered grp num (snd (copy_rows (\<lambda>r. (grp r, num r)) (log_image re grp f) (rows u) t))"
proof -
  have "map fst (part c (rows (snd (copy_rows (\<lambda>r. (grp r, num r)) (log_image re grp f) (rows u) t)))) =
      [1..<Suc (length (part c (rows (snd (copy_rows (\<lambda>r. (grp r, num r)) (log_image re grp f) (rows u) t)))))]" for c
  proof (cases "\<exists>g. f g = Some c")
    case True
    then obtain g where "f g = Some c" by blast
    have "part c (rows (snd (copy_rows (\<lambda>r. (grp r, num r)) (log_image re grp f) (rows u) t))) = part g (rows u)"
      by (rule copied_parts(1)) (fact assms(1), fact assms(2), fact assms(3), fact)
    with assms(5) show ?thesis by (simp add: numbered_part)
  next
    case False
    then have none: "\<And>i. f i \<noteq> Some c" by blast
    have "part c (rows (snd (copy_rows (\<lambda>r. (grp r, num r)) (log_image re grp f) (rows u) t))) = part c (rows t)"
      by (rule copied_parts(2)) (fact assms(1), fact assms(2), fact assms(3), fact none)
    with assms(4) show ?thesis by (simp add: numbered_part)
  qed
  then show ?thesis unfolding numbered_part by blast
qed

end


interpretation event_log: copied_log ce_id ce_continuation_id ce_seq ce_event
    "\<lambda>r c i. r\<lparr>ce_id := i, ce_continuation_id := c\<rparr>"
  by unfold_locales simp_all

interpretation receipt_log: copied_log or_id or_continuation_id or_version or_fields
    "\<lambda>r c i. r\<lparr>or_id := i, or_continuation_id := c\<rparr>"
  by unfold_locales simp_all

interpretation policy_log: copied_log sp_id sp_policy_id sp_version sp_decision
    "\<lambda>r c i. r\<lparr>sp_id := i, sp_policy_id := c\<rparr>"
  by unfold_locales simp_all

lemma copy_rows_cong:
  "(\<And>x. x \<in> set xs \<Longrightarrow> img x = img' x) \<Longrightarrow> copy_rows key img xs t = copy_rows key img' xs t"
  unfolding copy_rows_def by (rule foldl_cong) (simp_all add: copy_row_def)

lemma log_images_eq:
  "event_image m = log_image (\<lambda>r c i. r\<lparr>ce_id := i, ce_continuation_id := c\<rparr>) ce_continuation_id (map_of m)"
  "receipt_image m = log_image (\<lambda>r c i. r\<lparr>or_id := i, or_continuation_id := c\<rparr>) or_continuation_id (map_of m)"
  by (simp_all add: fun_eq_iff event_image_def receipt_image_def log_image_def)

lemma log_keys_eq:
  "event_key = (\<lambda>r. (ce_continuation_id r, ce_seq r))" "receipt_key = (\<lambda>r. (or_continuation_id r, or_version r))"
  "policy_key = (\<lambda>r. (sp_policy_id r, sp_version r))"
  by (simp_all add: fun_eq_iff event_key_def receipt_key_def policy_key_def)

lemma instance_log_part: "instance_log i st = map snd (event_log.part i (rows (events st)))"
  by (simp add: instance_log_def select_where_def event_log.part_def comp_def)

subsection \<open>A migration of new sources keeps the ledger\<close>

definition new_sources :: "store \<Rightarrow> store \<Rightarrow> bool" where
  "new_sources l c \<longleftrightarrow> source_tuple ` set (rows (instances l)) \<inter> source_tuple ` set (rows (instances c)) = {} \<and>
     sp_policy_id ` set (rows (policies l)) \<inter> sp_policy_id ` set (rows (policies c)) = {}"

definition receipts_known :: "store \<Rightarrow> bool" where
  "receipts_known st \<longleftrightarrow> (\<forall>r \<in> set (rows (receipts st)). known (or_continuation_id r) st)"

lemma known_source_iff: "known i st \<longleftrightarrow> i \<in> ci_id ` set (rows (instances st))"
  by (auto simp: known_def get_instance_def select_one_None_iff)

lemma known_le: "table_ok ci_id source_tuple (instances st) \<Longrightarrow> known i st \<Longrightarrow> i \<le> counter (instances st)"
  by (auto simp: known_source_iff table_ok_def)

lemma migrated_instances:
  assumes one: "copy_ledger l c = (m, counts, d)"
    and ok: "table_ok ci_id source_tuple (instances (lf_store l))" "table_ok ci_id source_tuple (instances (lf_store c))"
    and new: "new_sources (lf_store l) (lf_store c)"
  shows "table_ok ci_id source_tuple (instances (lf_store d))"
    and "set (rows (instances (lf_store c))) \<subseteq> set (rows (instances (lf_store d)))"
    and "r \<in> set (rows (instances (lf_store l))) \<Longrightarrow> \<exists>q \<in> set (rows (instances (lf_store d))).
       q = r\<lparr>ci_id := ci_id q\<rparr> \<and> counter (instances (lf_store c)) < ci_id q \<and> map_of m (ci_id r) = Some (ci_id q)"
    and "q \<in> set (rows (instances (lf_store d))) \<Longrightarrow> q \<notin> set (rows (instances (lf_store c))) \<Longrightarrow>
       \<exists>r \<in> set (rows (instances (lf_store l))). q = r\<lparr>ci_id := ci_id q\<rparr> \<and> map_of m (ci_id r) = Some (ci_id q)"
    and "map_of m i = Some k \<Longrightarrow> i \<in> ci_id ` set (rows (instances (lf_store l))) \<and> counter (instances (lf_store c)) < k"
proof -
  let ?L = "rows (instances (lf_store l))" and ?C = "instances (lf_store c)" and ?D = "instances (lf_store d)"
  note F = copy_ledger_fields [OF one]
  have "copy_instances ?L ?C = (m, fst (snd (copy_instances ?L ?C)), ?D)" unfolding F(1,2) by simp
  note facts = copy_instances_facts [OF this]
  from facts obtain ys where ys: "rows ?D = rows ?C @ ys"
      "\<forall>y \<in> set ys. \<exists>r \<in> set ?L. y = r\<lparr>ci_id := ci_id y\<rparr> \<and> counter ?C < ci_id y"
    and found: "\<forall>r \<in> set ?L. select_one (same_source r) ?D \<noteq> None" and m: "m = source_map ?L ?D" by blast
  show okD: "table_ok ci_id source_tuple ?D" using facts ok(2) by blast
  show "set (rows ?C) \<subseteq> set (rows ?D)" by (simp add: ys)
  have tuple: "source_tuple (r\<lparr>ci_id := i\<rparr>) = source_tuple r" for r i by (simp add: source_tuple_def)
  have distL: "distinct (map ci_id ?L)" using ok(1) by (simp add: table_ok_def)
  have image: "\<exists>q \<in> set (rows ?D). q = r\<lparr>ci_id := ci_id q\<rparr> \<and> counter ?C < ci_id q \<and> map_of m (ci_id r) = Some (ci_id q)"
    if r: "r \<in> set ?L" for r
  proof -
    obtain q where q: "select_one (same_source r) ?D = Some q" using found r by blast
    then have qD: "q \<in> set (rows ?D)" "source_tuple q = source_tuple r" by (auto dest: select_one_SomeD)
    have "q \<notin> set (rows ?C)" using new r qD(2) by (auto simp: new_sources_def)
    with qD ys obtain p where p: "p \<in> set ?L" "q = p\<lparr>ci_id := ci_id q\<rparr>" "counter ?C < ci_id q" by auto
    have "source_tuple p = source_tuple r" using p(2) qD(2) tuple by metis
    then have "p = r" using table_ok_key_unique [OF ok(1)] p(1) r by blast
    with p qD(1) source_map_in [OF distL r, of ?D] q m show ?thesis by auto
  qed
  then show "r \<in> set ?L \<Longrightarrow> \<exists>q \<in> set (rows ?D).
       q = r\<lparr>ci_id := ci_id q\<rparr> \<and> counter ?C < ci_id q \<and> map_of m (ci_id r) = Some (ci_id q)" .
  show "\<exists>r \<in> set ?L. q = r\<lparr>ci_id := ci_id q\<rparr> \<and> map_of m (ci_id r) = Some (ci_id q)"
    if "q \<in> set (rows ?D)" "q \<notin> set (rows ?C)"
  proof -
    from that ys obtain r where r: "r \<in> set ?L" "q = r\<lparr>ci_id := ci_id q\<rparr>" by auto
    from image [OF r(1)] obtain p where p: "p \<in> set (rows ?D)" "p = r\<lparr>ci_id := ci_id p\<rparr>" "map_of m (ci_id r) = Some (ci_id p)"
      by blast
    have "source_tuple p = source_tuple q" using p(2) r(2) tuple by metis
    then have "p = q" using table_ok_key_unique [OF okD] p(1) that(1) by blast
    with r p(3) show ?thesis by blast
  qed
  show "i \<in> ci_id ` set ?L \<and> counter ?C < k" if k: "map_of m i = Some k"
  proof -
    have "i \<in> ci_id ` set ?L" using source_map_out [of i ?L ?D] k m by auto
    with image k show ?thesis by fastforce
  qed
qed

lemma migrated_injective:
  assumes "copy_ledger l c = (m, counts, d)"
    and ok: "table_ok ci_id source_tuple (instances (lf_store l))" "table_ok ci_id source_tuple (instances (lf_store c))"
    and "new_sources (lf_store l) (lf_store c)" and k: "map_of m i = Some k" "map_of m j = Some k"
  shows "i = j"
proof -
  note M = migrated_instances [OF assms(1-4)]
  obtain r p where r: "r \<in> set (rows (instances (lf_store l)))" "i = ci_id r"
    and p: "p \<in> set (rows (instances (lf_store l)))" "j = ci_id p"
    using M(5) [OF k(1)] M(5) [OF k(2)] by blast
  obtain q where q: "q \<in> set (rows (instances (lf_store d)))" "q = r\<lparr>ci_id := ci_id q\<rparr>" "ci_id q = k"
    using M(3) [OF r(1)] k(1) r(2) by auto
  obtain q' where q': "q' \<in> set (rows (instances (lf_store d)))" "q' = p\<lparr>ci_id := ci_id q'\<rparr>" "ci_id q' = k"
    using M(3) [OF p(1)] k(2) p(2) by auto
  have "q = q'" using table_ok_id_unique [OF M(1) q(1) q'(1)] q(3) q'(3) by simp
  then have "source_tuple r = source_tuple p" using q(2) q'(2)
    by (metis instance_row.select_convs(2) instance_row.select_convs(3) source_tuple_def instance_row.surjective
        instance_row.update_convs(1) instance_row.select_convs(4) instance_row.select_convs(6))
  then have "r = p" using table_ok_key_unique [OF ok(1) r(1) p(1)] by simp
  with r p show ?thesis by simp
qed


lemma migrated_event_fresh:
  assumes one: "copy_ledger l c = (m, counts, d)" and ok: "ledger_ok (lf_store l)" "ledger_ok (lf_store c)"
    and new: "new_sources (lf_store l) (lf_store c)"
    and old: "known i (lf_store c)"
  shows "map_of m j \<noteq> Some i"
proof
  assume j: "map_of m j = Some i"
  have tabs: "table_ok ci_id source_tuple (instances (lf_store l))" "table_ok ci_id source_tuple (instances (lf_store c))"
    using ok by (simp_all add: ledger_ok_def tables_ok_def)
  from migrated_instances(5) [OF one tabs new j] known_le [OF tabs(2) old] show False by simp
qed

lemma events_of_unknown:
  assumes "\<forall>e \<in> set (rows (events st)). known (ce_continuation_id e) st" and "\<not> known i st"
  shows "event_log.part i (rows (events st)) = []"
  using assms by (auto simp: event_log.part_def filter_empty_conv)

text \<open>The renaming of the events: injective, fresh, and over distinct keys.\<close>

lemma event_renaming:
  assumes one: "copy_ledger l c = (m, counts, d)" and ok: "ledger_ok (lf_store l)" "ledger_ok (lf_store c)"
    and new: "new_sources (lf_store l) (lf_store c)"
  shows "map_of m i = Some k \<Longrightarrow> map_of m j = Some k \<Longrightarrow> i = j"
    and "e \<in> set (rows (events (lf_store c))) \<Longrightarrow> map_of m i \<noteq> Some (ce_continuation_id e)"
    and "distinct (map (\<lambda>r. (ce_continuation_id r, ce_seq r)) (rows (events (lf_store l))))"
  using migrated_injective [OF one _ _ new] migrated_event_fresh [OF one ok new] ok
  by (auto simp: ledger_ok_def log_ok_def tables_ok_def table_ok_def log_keys_eq)

lemma migrated_parts:
  assumes one: "copy_ledger l c = (m, counts, d)" and ok: "ledger_ok (lf_store l)" "ledger_ok (lf_store c)"
    and new: "new_sources (lf_store l) (lf_store c)"
  shows "map_of m i = Some k \<Longrightarrow> event_log.part k (rows (events (lf_store d))) = event_log.part i (rows (events (lf_store l)))"
    and "(\<And>j. map_of m j \<noteq> Some i) \<Longrightarrow>
      event_log.part i (rows (events (lf_store d))) = event_log.part i (rows (events (lf_store c)))"
proof -
  note F = copy_ledger_fields [OF one] and R = event_renaming [OF one ok new]
  show "event_log.part k (rows (events (lf_store d))) = event_log.part i (rows (events (lf_store l)))" if "map_of m i = Some k"
    unfolding F(5) log_images_eq log_keys_eq
    by (rule event_log.copied_parts(1)) (erule (1) R(1), erule R(2), rule R(3), fact that)
  show "event_log.part i (rows (events (lf_store d))) = event_log.part i (rows (events (lf_store c)))"
    if "\<And>j. map_of m j \<noteq> Some i"
    unfolding F(5) log_images_eq log_keys_eq
    by (rule event_log.copied_parts(2)) (erule (1) R(1), erule R(2), rule R(3), fact that)
qed

text \<open>Every migrated continuation keeps its log, and so does every one that was there.\<close>

lemma migrated_logs:
  assumes one: "copy_ledger l c = (m, counts, d)" and ok: "ledger_ok (lf_store l)" "ledger_ok (lf_store c)"
    and new: "new_sources (lf_store l) (lf_store c)"
  shows "map_of m i = Some k \<Longrightarrow> instance_log k (lf_store d) = instance_log i (lf_store l)"
    and "known i (lf_store c) \<Longrightarrow> instance_log i (lf_store d) = instance_log i (lf_store c)"
  using migrated_parts [OF one ok new] migrated_event_fresh [OF one ok new] by (simp_all add: instance_log_part)

lemma migrated_events_known:
  assumes one: "copy_ledger l c = (m, counts, d)" and ok: "ledger_ok (lf_store l)" "ledger_ok (lf_store c)"
    and new: "new_sources (lf_store l) (lf_store c)" and e: "e \<in> set (rows (events (lf_store d)))"
  shows "known (ce_continuation_id e) (lf_store d)"
proof (cases "\<exists>i. map_of m i = Some (ce_continuation_id e)")
  case True
  then obtain i where i: "map_of m i = Some (ce_continuation_id e)" by blast
  have tabs: "table_ok ci_id source_tuple (instances (lf_store l))" "table_ok ci_id source_tuple (instances (lf_store c))"
    using ok by (simp_all add: ledger_ok_def tables_ok_def)
  from migrated_instances(5) [OF one tabs new i] obtain r where r: "r \<in> set (rows (instances (lf_store l)))" "i = ci_id r"
    by blast
  from migrated_instances(3) [OF one tabs new r(1)] i r(2) show ?thesis by (auto simp: known_source_iff)
next
  case False
  then have none: "\<And>i. map_of m i \<noteq> Some (ce_continuation_id e)" by blast
  have "event_log.part (ce_continuation_id e) (rows (events (lf_store d))) \<noteq> []"
    using e by (auto simp: event_log.part_def filter_empty_conv)
  with migrated_parts(2) [OF one ok new none] events_of_unknown [of "lf_store c" "ce_continuation_id e"] ok(2)
  have "known (ce_continuation_id e) (lf_store c)" by (auto simp: ledger_ok_def log_ok_def)
  with migrated_instances(2) [OF one _ _ new] ok show ?thesis
    by (auto simp: known_source_iff ledger_ok_def tables_ok_def)
qed

lemma migrated_log_ok:
  assumes one: "copy_ledger l c = (m, counts, d)" and ok: "ledger_ok (lf_store l)" "ledger_ok (lf_store c)"
    and new: "new_sources (lf_store l) (lf_store c)"
  shows "log_ok (lf_store d)"
proof -
  have tabs: "table_ok ci_id source_tuple (instances (lf_store l))" "table_ok ci_id source_tuple (instances (lf_store c))"
    using ok by (simp_all add: ledger_ok_def tables_ok_def)
  note M = migrated_instances [OF one tabs new] and L = migrated_logs [OF one ok new]
  have "log_state (instance_log (ci_id q) (lf_store d)) = Some (ci_state q)" if q: "q \<in> set (rows (instances (lf_store d)))" for q
  proof (cases "q \<in> set (rows (instances (lf_store c)))")
    case True
    then have "known (ci_id q) (lf_store c)" by (auto simp: known_source_iff)
    with True L(2) [OF this] ok(2) show ?thesis by (simp add: ledger_ok_def log_ok_def)
  next
    case False
    from M(4) [OF q False] obtain r where r: "r \<in> set (rows (instances (lf_store l)))" "q = r\<lparr>ci_id := ci_id q\<rparr>"
      "map_of m (ci_id r) = Some (ci_id q)" by blast
    have "ci_state q = ci_state r" by (subst r(2)) simp
    with L(1) [OF r(3)] r(1) ok(1) show ?thesis by (simp add: ledger_ok_def log_ok_def)
  qed
  with migrated_events_known [OF one ok new] show ?thesis by (simp add: log_ok_def)
qed

lemma migrated_tables_ok:
  assumes one: "copy_ledger l c = (m, counts, d)" and ok: "ledger_ok (lf_store l)" "ledger_ok (lf_store c)"
    and new: "new_sources (lf_store l) (lf_store c)" and known: "receipts_known (lf_store c)"
  shows "tables_ok (lf_store d)"
proof -
  let ?l = "lf_store l" and ?c = "lf_store c"
  have okl: "tables_ok ?l" and okc: "tables_ok ?c" using ok by (simp_all add: ledger_ok_def)
  have tabs: "table_ok ci_id source_tuple (instances ?l)" "table_ok ci_id source_tuple (instances ?c)"
    using okl okc by (simp_all add: tables_ok_def)
  note F = copy_ledger_fields [OF one] and M = migrated_instances [OF one tabs new]
  note R = event_renaming [OF one ok new]
  have fresh_r: "\<And>r i. r \<in> set (rows (receipts ?c)) \<Longrightarrow> map_of m i \<noteq> Some (or_continuation_id r)"
    using migrated_event_fresh [OF one ok new] known by (auto simp: receipts_known_def)
  have num_e: "numbered ce_continuation_id ce_seq (events (lf_store d))"
    unfolding F(5) log_images_eq log_keys_eq
    by (rule event_log.copied_numbered)
      (use R(1,2) okl okc in \<open>auto simp: tables_ok_def table_ok_def log_keys_eq\<close>)
  have num_r: "numbered or_continuation_id or_version (receipts (lf_store d))"
    unfolding F(4) log_images_eq log_keys_eq
    by (rule receipt_log.copied_numbered)
      (use R(1) fresh_r okl okc in \<open>auto simp: tables_ok_def table_ok_def log_keys_eq\<close>)
  let ?f = "\<lambda>g. if g \<in> sp_policy_id ` set (rows (policies ?l)) then Some g else None"
  have same: "copy_rows policy_key policy_image (rows (policies ?l)) (policies ?c) =
      copy_rows policy_key (log_image (\<lambda>r c i. r\<lparr>sp_id := i, sp_policy_id := c\<rparr>) sp_policy_id ?f) (rows (policies ?l)) (policies ?c)"
    by (rule copy_rows_cong) (simp add: policy_image_def log_image_def)
  have num_p: "numbered sp_policy_id sp_version (policies (lf_store d))"
    unfolding F(9) same unfolding log_keys_eq
    by (rule policy_log.copied_numbered)
      (use new okl okc in \<open>auto simp: tables_ok_def table_ok_def log_keys_eq new_sources_def split: if_splits\<close>)
  show ?thesis
    unfolding tables_ok_def
  proof (intro conjI)
    show "table_ok ci_id source_tuple (instances (lf_store d))" by (rule M(1))
  qed (use okc num_e num_r num_p in \<open>simp_all add: F(3-11) tables_ok_def steps_copied.copy_ok receipts_copied.copy_ok
    events_copied.copy_ok outbox_copied.copy_ok satisfactions_copied.copy_ok policies_copied.copy_ok
    members_copied.copy_ok copy_cursors_distinct copy_listed_facts\<close>)
qed

text \<open>
  C35: a migration of new sources keeps the ledger. When the legacy store and the canonical one are
  sound and share no source and no policy, the canonical store after the migration is sound again -
  ids and keys unique, numbering without gaps, every log a legal run that ends in the state of its
  row - and every continuation of the legacy store is in it with its source, its state and its log.
\<close>

theorem migration_keeps_ledger:
  assumes "migrate_legacy_store p path (Some l) now c = (Migrated row, c1)"
    and "ledger_ok (lf_store l)" and "ledger_ok (lf_store c)" and "new_sources (lf_store l) (lf_store c)"
    and "receipts_known (lf_store c)"
  shows "ledger_ok (lf_store c1) \<and> (\<forall>r \<in> set (rows (instances (lf_store l))). \<exists>q \<in> set (rows (instances (lf_store c1))).
    q = r\<lparr>ci_id := ci_id q\<rparr> \<and> instance_log (ci_id q) (lf_store c1) = instance_log (ci_id r) (lf_store l))"
proof -
  from assms(1) obtain m counts d where one: "copy_ledger l c = (m, counts, d)"
    and "c1 = d\<lparr>lf_migrations := lf_migrations c1\<rparr>" by (rule migrated_copy)
  then have c1: "lf_store c1 = lf_store d" by (metis ledger_file.select_convs(2) ledger_file.surjective ledger_file.update_convs(4))
  have tabs: "table_ok ci_id source_tuple (instances (lf_store l))" "table_ok ci_id source_tuple (instances (lf_store c))"
    using assms(2,3) by (simp_all add: ledger_ok_def tables_ok_def)
  have "ledger_ok (lf_store c1)"
    using migrated_log_ok [OF one assms(2-4)] migrated_tables_ok [OF one assms(2-5)] by (simp add: ledger_ok_def c1)
  moreover have "\<exists>q \<in> set (rows (instances (lf_store c1))). q = r\<lparr>ci_id := ci_id q\<rparr> \<and>
      instance_log (ci_id q) (lf_store c1) = instance_log (ci_id r) (lf_store l)"
    if "r \<in> set (rows (instances (lf_store l)))" for r
    using migrated_instances(3) [OF one tabs assms(4) that] migrated_logs(1) [OF one assms(2-4)] by (auto simp: c1)
  ultimately show ?thesis by blast
qed


subsection \<open>Overlapping sources, and examples\<close>

definition sample_instance :: "cstate \<Rightarrow> instance_row" where
  "sample_instance s = \<lparr>ci_id = 1, ci_board = ''b'', ci_source_task_id = ''t'', ci_source_event_id = ''e'',
     ci_source_graph_id = [], ci_contract_ref = ''c'', ci_verdict = [], ci_continuation_kind = [], ci_state = s,
     ci_origin_ref = [], ci_return_to_ref = [], ci_workspace_ref = [], ci_idempotency_key = ''k'',
     ci_created_at = 0, ci_updated_at = 0\<rparr>"

definition sample_ledger :: "cstate \<Rightarrow> ledger_event list \<Rightarrow> ledger_file" where
  "sample_ledger s es = \<lparr>lf_tables = True, lf_store = empty_store\<lparr>
     instances := \<lparr>rows = [sample_instance s], counter = 1\<rparr>,
     events := \<lparr>rows = map (\<lambda>i. \<lparr>ce_id = Suc i, ce_continuation_id = 1, ce_seq = Suc i, ce_event = es ! i,
       ce_created_at = 0\<rparr>) [0..<length es], counter = length es\<rparr>\<rparr>, lf_keys = [], lf_migrations = empty_table\<rparr>"

definition fresh_ledger :: ledger_file where
  "fresh_ledger = \<lparr>lf_tables = True, lf_store = empty_store, lf_keys = [], lf_migrations = empty_table\<rparr>"

lemmas sample_ledger_defs = sample_ledger_def sample_instance_def fresh_ledger_def empty_store_def empty_table_def

text \<open>
  A source that both stores know keeps its row and gets the later events of the other log: here the row
  stays \<open>DETECTED\<close>, the log says \<open>BLOCKED_INVALID\<close>, and the verification is satisfied.
\<close>

lemma overlap_breaks_log:
  "\<exists>row c1. migrate_legacy_store ''p'' ''q''
      (Some (sample_ledger BLOCKED_INVALID [Created DETECTED, State_Transition DETECTED BLOCKED_INVALID []])) 0
      (sample_ledger DETECTED [Created DETECTED]) = (Migrated row, c1) \<and>
    ve_ok (mg_verification row) \<and> ci_state (hd (rows (instances (lf_store c1)))) = DETECTED \<and>
    log_state (instance_log 1 (lf_store c1)) = Some BLOCKED_INVALID"
proof -
  let ?l = "sample_ledger BLOCKED_INVALID [Created DETECTED, State_Transition DETECTED BLOCKED_INVALID []]"
  let ?c = "sample_ledger DETECTED [Created DETECTED]"
  obtain m counts d where d: "copy_ledger ?l ?c = (m, counts, d)" by (cases "copy_ledger ?l ?c")
  note F = copy_ledger_fields [OF d]
  have m: "m = [(1, 1)]" and inst: "instances (lf_store d) = instances (lf_store ?c)"
    unfolding F(1,2) by (simp_all add: sample_ledger_defs copy_instances_def copy_instance_def select_one_def source_tuple_def)
  have ev: "map ce_event (rows (events (lf_store d))) = [Created DETECTED, State_Transition DETECTED BLOCKED_INVALID []]"
    "\<forall>e \<in> set (rows (events (lf_store d))). ce_continuation_id e = 1"
    unfolding F(5) by (simp_all add: m sample_ledger_defs copy_rows_def copy_row_def event_image_def insert_or_ignore_def
      event_key_def upt_rec)
  from migrate_copies [of "''q''" "''p''" ?l ?c m counts d 0, OF _ _ d] obtain row t
    where run: "migrate_legacy_store ''p'' ''q'' (Some ?l) 0 ?c = (Migrated row, d\<lparr>lf_migrations := t\<rparr>)"
      "mg_verification row = verify_migration (lf_store d) (lf_store ?l) m"
    by (auto simp: sample_ledger_def)
  have "ve_ok (mg_verification row)"
    unfolding run(2) by (simp add: verify_migration_def duplicate_tuples_def inst m sample_ledger_defs Let_def)
  moreover have "ci_state (hd (rows (instances (lf_store d)))) = DETECTED" by (simp add: inst sample_ledger_defs)
  moreover have "log_state (instance_log 1 (lf_store d)) = Some BLOCKED_INVALID"
    using ev by (simp add: instance_log_def select_where_def log_state_def legal_def TERMINAL_STATES_def filter_True)
  ultimately show ?thesis using run(1) by (intro exI [of _ row] exI [of _ "d\<lparr>lf_migrations := t\<rparr>"]) simp
qed

lemma sample_migration:
  obtains row c1 where "migrate_legacy_store ''p'' ''q'' (Some (sample_ledger DETECTED [Created DETECTED])) 0 fresh_ledger =
    (Migrated row, c1)"
  by (cases "copy_ledger (sample_ledger DETECTED [Created DETECTED]) fresh_ledger")
    (auto simp: migrate_legacy_store_def record_migration_receipt_def insert_row_def Let_def sample_ledger_def)

theorem migration_repeats_nothing_witness:
  "\<exists>row c1 row2 c2. migrate_legacy_store ''p'' ''q'' (Some (sample_ledger DETECTED [Created DETECTED])) 0 fresh_ledger =
      (Migrated row, c1) \<and>
    migrate_legacy_store ''p'' ''q'' (Some (sample_ledger DETECTED [Created DETECTED])) 1 c1 = (Migrated row2, c2) \<and>
    same_rows c1 c2"
proof -
  obtain row c1 where run: "migrate_legacy_store ''p'' ''q'' (Some (sample_ledger DETECTED [Created DETECTED])) 0 fresh_ledger =
    (Migrated row, c1)" by (rule sample_migration)
  have "distinct (map cursor_key (cursors (lf_store fresh_ledger)))" by (simp add: sample_ledger_defs)
  from migration_repeats_nothing [OF run this, of 1] run show ?thesis by blast
qed

lemma sample_migrated_ok: "ledger_ok (lf_store (sample_ledger DETECTED [Created DETECTED]))"
  by (simp add: ledger_ok_def tables_ok_def log_ok_def table_ok_def numbered_def select_where_def Let_def known_def
      get_instance_def select_one_def instance_log_def log_state_def sample_ledger_defs)

theorem migration_keeps_ledger_witness:
  "\<exists>row c1. migrate_legacy_store ''p'' ''q'' (Some (sample_ledger DETECTED [Created DETECTED])) 0 fresh_ledger =
      (Migrated row, c1) \<and> ledger_ok (lf_store c1) \<and> rows (instances (lf_store c1)) \<noteq> []"
proof -
  obtain row c1 where run: "migrate_legacy_store ''p'' ''q'' (Some (sample_ledger DETECTED [Created DETECTED])) 0 fresh_ledger =
    (Migrated row, c1)" by (rule sample_migration)
  have empty: "ledger_ok (lf_store fresh_ledger)" "receipts_known (lf_store fresh_ledger)"
    "new_sources (lf_store (sample_ledger DETECTED [Created DETECTED])) (lf_store fresh_ledger)"
    by (simp_all add: ledger_ok_def tables_ok_empty log_ok_def receipts_known_def new_sources_def fresh_ledger_def
        empty_store_def empty_table_def)
      (use tables_ok_empty in \<open>simp add: empty_store_def empty_table_def\<close>)
  from migration_keeps_ledger [OF run sample_migrated_ok empty(1,3,2)] run show ?thesis
    by (auto simp: sample_ledger_def)
qed

end
