(* ===== verification/Origin_Migration.thy ===== *)
theory Origin_Migration
  imports Real_Board Ledger_Control Verdicts
begin

text \<open>
  The canonicalisation of Discord origins and the repair of dead callbacks (\<open>origin_migration.py\<close>): the
  plan, the transaction on the board file, and the second delivery of acknowledgements through a board
  adapter. The board file is the one the adapter of \<open>Real_Board\<close> works on.

  A busy board is a parameter of the apply; an online backup is a copy of both files. The columns of the
  endpoint are always there (\<open>Real_Board\<close>), so a schema is never incompatible, only missing.
\<close>

subsection \<open>Endpoints and tokens\<close>

definition discord :: string where
  "discord = ''discord''"

text \<open>Whether the endpoint is a Discord one, and its chat id.\<close>

definition classify_discord_endpoint :: "string \<Rightarrow> bool \<times> string" where
  "classify_discord_endpoint endpoint =
     (let flags = map_origin_to_flags endpoint [] in
      if flags = [] \<or> flag flags ''platform'' \<noteq> discord then (False, [])
      else (True, dropWhile (\<lambda>c. c = CHR ''#'') (flag flags ''chat_id'')))"

definition reject_symbolic_discord_endpoint :: "string \<Rightarrow> string option" where
  "reject_symbolic_discord_endpoint endpoint =
     (case classify_discord_endpoint endpoint of (is_discord, chat) \<Rightarrow>
        if is_discord \<and> chat \<noteq> [] \<and> \<not> all_digits chat then Some ''symbolic_discord_chat_id_rejected'' else None)"

definition RESEARCH_SOURCE_ALIASES :: "string list" where
  "RESEARCH_SOURCE_ALIASES = [''#research'', ''research'']"

definition source_match_tokens :: "string \<Rightarrow> string list" where
  "source_match_tokens from_id =
     (let src = py_strip from_id in
      if src \<in> set RESEARCH_SOURCE_ALIASES then RESEARCH_SOURCE_ALIASES else if src = [] then [] else [src])"

definition validate_migration_inputs :: "string \<Rightarrow> string \<Rightarrow> string option" where
  "validate_migration_inputs from_id to_id =
     (let src = py_strip from_id; dst = py_strip to_id in
      if \<not> all_digits dst then Some ''discord_target_not_numeric''
      else if src = [] \<or> strip_chars ''#'' src = [] then Some ''discord_source_empty''
      else if src = dst then Some ''discord_source_equals_target''
      else None)"

subsection \<open>Refusals\<close>

type_synonym migration_error = "string \<times> json dict"

definition require_board_schema :: "board_file \<Rightarrow> migration_error option" where
  "require_board_schema b =
     (if bf_origins b = None then Some (''board_schema_missing'', [(''table'', JStr ''kanban_task_origin'')])
      else if bf_receipts b = None then Some (''board_schema_missing'', [(''table'', JStr ''kanban_notify_receipts'')])
      else None)"

text \<open>\<open>order by task_id, thread_id\<close>.\<close>

definition by_task_thread :: "('r \<Rightarrow> string) \<Rightarrow> ('r \<Rightarrow> string) \<Rightarrow> 'r list \<Rightarrow> 'r list" where
  "by_task_thread task thread rs = sort_key task (sort_key thread rs)"

definition origin_rows :: "board_file \<Rightarrow> task_origin list" where
  "origin_rows b = (case bf_origins b of None \<Rightarrow> [] | Some t \<Rightarrow> tb_rows t)"

definition receipt_rows :: "board_file \<Rightarrow> notify_receipt list" where
  "receipt_rows b = (case bf_receipts b of None \<Rightarrow> [] | Some t \<Rightarrow> tb_rows t)"

definition sub_rows :: "board_file \<Rightarrow> kanban_sub list" where
  "sub_rows b = (case bf_subs b of None \<Rightarrow> [] | Some t \<Rightarrow> tb_rows t)"

definition receipt_cols :: "board_file \<Rightarrow> string list" where
  "receipt_cols b = (case bf_receipts b of None \<Rightarrow> [] | Some t \<Rightarrow> tb_cols t)"

definition list_symbolic_discord_origins ::
    "board_file option \<Rightarrow> string \<Rightarrow> migration_error + (string \<times> string \<times> string) list" where
  "list_symbolic_discord_origins bfile from_id =
     (case bfile of
        None \<Rightarrow> Inl (''board_db_missing'', [])
      | Some b \<Rightarrow>
          (case require_board_schema b of
             Some e \<Rightarrow> Inl e
           | None \<Rightarrow>
               (let tokens = source_match_tokens from_id in
                Inr (map (\<lambda>r. (ko_task r, ko_chat r, ko_thread r))
                  (filter (\<lambda>r. \<not> all_digits (ko_chat r) \<and> (tokens = [] \<or> ko_chat r \<in> set tokens))
                    (by_task_thread ko_task ko_thread (filter (\<lambda>r. ko_platform r = discord) (origin_rows b))))))))"

subsection \<open>Merging receipts\<close>

definition NOTIFY_RANK :: "nat dict" where
  "NOTIFY_RANK = [([], 0), (''pending'', 1), (''queued'', 1), (''failed'', 1), (''retrying'', 1), (''delivered'', 3)]"

definition WAKE_RANK :: "nat dict" where
  "WAKE_RANK = [([], 0), (''pending'', 1), (''scheduled'', 2), (''accepted'', 3), (''started'', 4), (''completed'', 5)]"

definition rank_of :: "nat dict \<Rightarrow> string \<Rightarrow> nat" where
  "rank_of rank s = (case dict_get rank s of None \<Rightarrow> 0 | Some n \<Rightarrow> n)"

definition strongest :: "nat dict \<Rightarrow> string \<Rightarrow> string \<Rightarrow> string" where
  "strongest rank s t = (if rank_of rank t < rank_of rank s then s else t)"

text \<open>The selected columns: a column the table does not have reads as empty.\<close>

definition receipt_row_dict :: "string list \<Rightarrow> notify_receipt \<Rightarrow> notify_receipt" where
  "receipt_row_dict cols r =
     (let t = (\<lambda>c v. if c \<in> set cols then v else []); n = (\<lambda>c v. if c \<in> set cols then v else 0) in
      r\<lparr>kr_notify_status := t ''notify_delivery_status'' (kr_notify_status r),
        kr_wake_status := t ''active_wake_status'' (kr_wake_status r),
        kr_ack_status := t ''consumer_ack_status'' (kr_ack_status r),
        kr_notify_at := n ''notify_delivery_at'' (kr_notify_at r), kr_wake_at := n ''active_wake_at'' (kr_wake_at r),
        kr_ack_at := n ''consumer_ack_at'' (kr_ack_at r), kr_updated_at := n ''updated_at'' (kr_updated_at r)\<rparr>)"

definition merge_receipt_facts :: "notify_receipt \<Rightarrow> notify_receipt \<Rightarrow> migration_error + notify_receipt" where
  "merge_receipt_facts source target =
     (if kr_ack_status source \<noteq> [] \<and> kr_ack_status target \<noteq> [] \<and> kr_ack_status source \<noteq> kr_ack_status target
      then Inl (''ambiguous_receipt_merge'', [(''task_id'', JStr (kr_task target)), (''thread_id'', JStr (kr_thread target))])
      else Inr (target
        \<lparr>kr_notify_status := strongest NOTIFY_RANK (kr_notify_status source) (kr_notify_status target),
         kr_wake_status := strongest WAKE_RANK (kr_wake_status source) (kr_wake_status target),
         kr_ack_status := str_or (kr_ack_status target) (kr_ack_status source),
         kr_notify_at := max (kr_notify_at source) (kr_notify_at target),
         kr_wake_at := max (kr_wake_at source) (kr_wake_at target),
         kr_ack_at := max (kr_ack_at source) (kr_ack_at target),
         kr_updated_at := max (kr_updated_at source) (kr_updated_at target)\<rparr>))"

definition RECEIPT_MERGE_COLS :: "string list" where
  "RECEIPT_MERGE_COLS =
     [''notify_delivery_status'', ''active_wake_status'', ''consumer_ack_status'', ''notify_delivery_at'',
      ''active_wake_at'', ''consumer_ack_at'', ''updated_at'']"

text \<open>The assignments of the merge, to the columns the table has.\<close>

definition set_facts :: "string list \<Rightarrow> notify_receipt \<Rightarrow> notify_receipt \<Rightarrow> notify_receipt" where
  "set_facts cols merged r =
     (let t = (\<lambda>c new old. if c \<in> set cols then new else old); n = (\<lambda>c new old. if c \<in> set cols then new else old) in
      r\<lparr>kr_notify_status := t ''notify_delivery_status'' (kr_notify_status merged) (kr_notify_status r),
        kr_wake_status := t ''active_wake_status'' (kr_wake_status merged) (kr_wake_status r),
        kr_ack_status := t ''consumer_ack_status'' (kr_ack_status merged) (kr_ack_status r),
        kr_notify_at := n ''notify_delivery_at'' (kr_notify_at merged) (kr_notify_at r),
        kr_wake_at := n ''active_wake_at'' (kr_wake_at merged) (kr_wake_at r),
        kr_ack_at := n ''consumer_ack_at'' (kr_ack_at merged) (kr_ack_at r),
        kr_updated_at := n ''updated_at'' (kr_updated_at merged) (kr_updated_at r)\<rparr>)"

definition receipt_at :: "notify_receipt list \<Rightarrow> string \<Rightarrow> string \<Rightarrow> string \<Rightarrow> notify_receipt option" where
  "receipt_at rs task chat thread = find (\<lambda>r. receipt_endpoint r = (task, discord, chat, thread)) rs"

text \<open>The task and thread of every receipt of a token, in order.\<close>

definition token_receipts :: "notify_receipt list \<Rightarrow> string \<Rightarrow> (string \<times> string) list" where
  "token_receipts rs token = map (\<lambda>r. (kr_task r, kr_thread r))
     (by_task_thread kr_task kr_thread (filter (\<lambda>r. kr_platform r = discord \<and> kr_chat r = token) rs))"

subsection \<open>Dead callbacks\<close>

record deadletter_entry =
  de_outbox_id :: nat
  de_key :: string
  de_operation :: string
  de_task :: string
  de_status :: string
  de_endpoint :: string

definition deadletter_entry_of :: "outbox_row \<Rightarrow> deadletter_entry" where
  "deadletter_entry_of r =
     \<lparr>de_outbox_id = ob_id r, de_key = ob_idempotency_key r, de_operation = ob_operation r,
      de_task = get_str (ob_payload r) ''task_id'', de_status = get_str (ob_payload r) ''status'',
      de_endpoint = get_str (ob_payload r) ''endpoint''\<rparr>"

text \<open>The join: the rows of the outbox with the board of their continuation.\<close>

definition outbox_boards :: "store \<Rightarrow> (outbox_row \<times> string) list" where
  "outbox_boards st = List.map_filter (\<lambda>r. map_option (\<lambda>i. (r, ci_board i))
     (select_one (\<lambda>i. ci_id i = ob_continuation_id r) (instances st))) (rows (outbox st))"

definition mismatch :: "json dict \<Rightarrow> string \<Rightarrow> migration_error" where
  "mismatch detail reason = (''deadletter_board_task_mismatch'', detail @ [(''reason'', JStr reason)])"

definition endpoint_chat :: "outbox_row \<Rightarrow> string" where
  "endpoint_chat r = snd (classify_discord_endpoint (get_str (ob_payload r) ''endpoint''))"

definition CALLBACK_DEADLETTER :: string where
  "CALLBACK_DEADLETTER = ''callback_deadletter''"

definition check_target :: "string \<Rightarrow> string list \<Rightarrow> outbox_row \<times> string \<Rightarrow> migration_error + deadletter_entry" where
  "check_target board channels rb =
     (let row = fst rb; detail = [(''outbox_id'', JInt (int (ob_id row)))] in
      if snd rb \<noteq> board then Inl (mismatch detail ''wrong_board'')
      else if ob_state row \<noteq> CALLBACK_DEADLETTER then Inl (mismatch detail ''not_callback_deadletter'')
      else if endpoint_chat row \<notin> set channels then Inl (mismatch detail ''endpoint_channel_mismatch'')
      else Inr (deadletter_entry_of row))"

fun collect_entries :: "('a \<Rightarrow> 'e + 'b) \<Rightarrow> 'a list \<Rightarrow> 'e + 'b list" where
  "collect_entries f [] = Inr []"
| "collect_entries f (x # xs) =
     (case f x of
        Inl e \<Rightarrow> Inl e
      | Inr y \<Rightarrow> (case collect_entries f xs of Inl e \<Rightarrow> Inl e | Inr ys \<Rightarrow> Inr (y # ys)))"

definition find_target :: "(outbox_row \<times> string) list \<Rightarrow> nat + string \<Rightarrow> migration_error + outbox_row \<times> string" where
  "find_target rbs sel =
     (case sel of
        Inl i \<Rightarrow>
          (case find (\<lambda>rb. ob_id (fst rb) = i) rbs of
             None \<Rightarrow> Inl (mismatch [(''outbox_id'', JInt (int i))] ''unknown_id'') | Some rb \<Rightarrow> Inr rb)
      | Inr ref \<Rightarrow>
          (case find (\<lambda>rb. ob_idempotency_key (fst rb) = ref) rbs of
             None \<Rightarrow> Inl (mismatch [(''idempotency_key'', JStr ref)] ''unknown_ref'') | Some rb \<Rightarrow> Inr rb))"

text \<open>The explicit ids and references are taken in the order given; a set in the code leaves it open.\<close>

definition select_deadletters ::
    "store option \<Rightarrow> string \<Rightarrow> string list \<Rightarrow> nat list \<Rightarrow> string list \<Rightarrow> migration_error + deadletter_entry list" where
  "select_deadletters st board channels ids refs =
     (let explicit = ids \<noteq> [] \<or> refs \<noteq> [] in
      case st of
        None \<Rightarrow> if explicit then Inl (''canonical_db_missing'', []) else Inr []
      | Some s \<Rightarrow>
          (let rbs = outbox_boards s in
           if explicit then
             (case collect_entries (find_target rbs) (map Inl (remdups ids) @ map Inr (remdups refs)) of
                Inl e \<Rightarrow> Inl e
              | Inr targets \<Rightarrow>
                  (case collect_entries (check_target board channels) targets of
                     Inl e \<Rightarrow> Inl e
                   | Inr entries \<Rightarrow> Inr (sort_key de_outbox_id (remdups entries))))
           else Inr (sort_key de_outbox_id (map (\<lambda>rb. deadletter_entry_of (fst rb))
             (filter (\<lambda>rb. snd rb = board \<and> ob_state (fst rb) = CALLBACK_DEADLETTER \<and> endpoint_chat (fst rb) \<in> set channels)
               rbs)))))"

subsection \<open>The plan\<close>

text \<open>A row of the plan: task, token and thread.\<close>

type_synonym plan_row = "string \<times> string \<times> string"

record discord_plan =
  dp_from :: string
  dp_aliases :: "string list"
  dp_to :: string
  dp_counts :: "(string \<times> nat \<times> nat \<times> nat) list"
  dp_origins :: "plan_row list"
  dp_receipts :: "(plan_row \<times> string) list"
  dp_merged :: "(plan_row \<times> notify_receipt) list"
  dp_subs :: "plan_row list"
  dp_deadletters :: "deadletter_entry list"
  dp_tasks :: "string list"

definition plan_receipt ::
    "string list \<Rightarrow> notify_receipt list \<Rightarrow> string \<Rightarrow> plan_row \<Rightarrow> migration_error + (plan_row \<times> notify_receipt option)" where
  "plan_receipt cols rs dst row =
     (case row of (task, token, thread) \<Rightarrow>
        (case (receipt_at rs task token thread, receipt_at rs task dst thread) of
           (Some s, Some t) \<Rightarrow>
             (case merge_receipt_facts (receipt_row_dict cols s) (receipt_row_dict cols t) of
                Inl e \<Rightarrow> Inl e | Inr merged \<Rightarrow> Inr (row, Some merged))
         | _ \<Rightarrow> Inr (row, None)))"

definition token_origins :: "board_file \<Rightarrow> string \<Rightarrow> plan_row list" where
  "token_origins b token = map (\<lambda>r. (ko_task r, token, ko_thread r))
     (by_task_thread ko_task ko_thread (filter (\<lambda>r. ko_platform r = discord \<and> ko_chat r = token) (origin_rows b)))"

definition token_subs :: "board_file \<Rightarrow> string \<Rightarrow> plan_row list" where
  "token_subs b token = map (\<lambda>r. (kn_task r, token, kn_thread r))
     (sort_key kn_task (filter (\<lambda>r. kn_platform r = discord \<and> kn_chat r = token) (sub_rows b)))"

definition build_discord_plan ::
    "board_file option \<Rightarrow> store option \<Rightarrow> string \<Rightarrow> string \<Rightarrow> string \<Rightarrow> nat list \<Rightarrow> string list \<Rightarrow>
       migration_error + discord_plan" where
  "build_discord_plan bfile st board from_id to_id ids refs =
     (let tokens = source_match_tokens from_id; dst = py_strip to_id in
      case bfile of
        None \<Rightarrow> Inl (''board_db_missing'', [])
      | Some b \<Rightarrow>
          (case require_board_schema b of
             Some e \<Rightarrow> Inl e
           | None \<Rightarrow>
               (let rs = receipt_rows b;
                    prows = concat (map (\<lambda>token. map (\<lambda>(task, thread). (task, token, thread)) (token_receipts rs token)) tokens);
                    oplan = concat (map (token_origins b) tokens)
                in case collect_entries (plan_receipt (receipt_cols b) rs dst) prows of
                     Inl e \<Rightarrow> Inl e
                   | Inr rplan \<Rightarrow>
                       (case select_deadletters st board (tokens @ [dst]) ids refs of
                          Inl e \<Rightarrow> Inl e
                        | Inr dead \<Rightarrow> Inr
                            \<lparr>dp_from = py_strip from_id, dp_aliases = tokens, dp_to = dst,
                             dp_counts = map (\<lambda>token. (token, length (token_origins b token),
                               length (token_receipts rs token), length (token_subs b token))) tokens,
                             dp_origins = oplan,
                             dp_receipts = map (\<lambda>(row, m). (row, if m = None then ''rekey'' else ''merge'')) rplan,
                             dp_merged = List.map_filter (\<lambda>(row, m). map_option (Pair row) m) rplan,
                             dp_subs = concat (map (token_subs b) tokens), dp_deadletters = dead,
                             dp_tasks = sort (remdups (map fst oplan @
                               filter (\<lambda>t. t \<noteq> []) (map de_task dead)))\<rparr>))))"

definition plan_discord_migration ::
    "board_file option \<Rightarrow> store option \<Rightarrow> string \<Rightarrow> string \<Rightarrow> string \<Rightarrow> nat list \<Rightarrow> string list \<Rightarrow>
       migration_error + discord_plan" where
  "plan_discord_migration bfile st board from_id to_id ids refs =
     (case validate_migration_inputs from_id to_id of
        Some e \<Rightarrow> Inl (e, [])
      | None \<Rightarrow> build_discord_plan bfile st board from_id to_id ids refs)"

subsection \<open>The transaction on the board\<close>

record board_stats =
  bs_origins :: nat
  bs_rekeyed :: nat
  bs_merged :: nat
  bs_subs :: nat

definition no_stats :: board_stats where
  "no_stats = \<lparr>bs_origins = 0, bs_rekeyed = 0, bs_merged = 0, bs_subs = 0\<rparr>"

definition at_receipt :: "string \<Rightarrow> string \<Rightarrow> string \<Rightarrow> notify_receipt \<Rightarrow> bool" where
  "at_receipt task chat thread r \<longleftrightarrow> receipt_endpoint r = (task, discord, chat, thread)"

definition rekey_receipt :: "string \<Rightarrow> string \<Rightarrow> string \<Rightarrow> string \<Rightarrow> notify_receipt list \<Rightarrow> notify_receipt list" where
  "rekey_receipt dst task token thread rs = map (\<lambda>r. if at_receipt task token thread r then r\<lparr>kr_chat := dst\<rparr> else r) rs"

definition merge_into ::
    "string list \<Rightarrow> notify_receipt \<Rightarrow> string \<Rightarrow> string \<Rightarrow> string \<Rightarrow> string \<Rightarrow> notify_receipt list \<Rightarrow> notify_receipt list" where
  "merge_into cols merged dst task token thread rs =
     filter (\<lambda>r. \<not> at_receipt task token thread r)
       (map (\<lambda>r. if at_receipt task dst thread r then set_facts cols merged r else r) rs)"

text \<open>
  One receipt of a token: the numbers of rekeyed and merged ones go along. A merge with no column to assign is
  a statement the database refuses.
\<close>

definition move_receipt ::
    "string list \<Rightarrow> string \<Rightarrow> string \<Rightarrow> string \<times> string \<Rightarrow> notify_receipt list \<times> nat \<times> nat \<Rightarrow>
       migration_error + notify_receipt list \<times> nat \<times> nat" where
  "move_receipt cols dst token tt acc =
     (case (tt, acc) of ((task, thread), (rs, rekeyed, merged)) \<Rightarrow>
        (case receipt_at rs task dst thread of
           None \<Rightarrow> Inr (rekey_receipt dst task token thread rs, Suc rekeyed, merged)
         | Some t \<Rightarrow>
             (case receipt_at rs task token thread of
                None \<Rightarrow> Inr acc
              | Some s \<Rightarrow>
                  (case merge_receipt_facts (receipt_row_dict cols s) (receipt_row_dict cols t) of
                     Inl e \<Rightarrow> Inl e
                   | Inr m \<Rightarrow>
                       if filter (\<lambda>c. c \<in> set cols) RECEIPT_MERGE_COLS = [] then Inl (''board_transaction_failed'', [])
                       else Inr (merge_into cols m dst task token thread rs, rekeyed, Suc merged)))))"

fun move_each ::
    "string list \<Rightarrow> string \<Rightarrow> string \<Rightarrow> (string \<times> string) list \<Rightarrow> notify_receipt list \<times> nat \<times> nat \<Rightarrow>
       migration_error + notify_receipt list \<times> nat \<times> nat" where
  "move_each cols dst token [] acc = Inr acc"
| "move_each cols dst token (tt # tts) acc =
     (case move_receipt cols dst token tt acc of Inl e \<Rightarrow> Inl e | Inr acc' \<Rightarrow> move_each cols dst token tts acc')"

fun move_receipts ::
    "string list \<Rightarrow> string \<Rightarrow> string list \<Rightarrow> notify_receipt list \<times> nat \<times> nat \<Rightarrow>
       migration_error + notify_receipt list \<times> nat \<times> nat" where
  "move_receipts cols dst [] acc = Inr acc"
| "move_receipts cols dst (token # tokens) acc =
     (case move_each cols dst token (token_receipts (fst acc) token) acc of
        Inl e \<Rightarrow> Inl e | Inr acc' \<Rightarrow> move_receipts cols dst tokens acc')"

definition on_token :: "string list \<Rightarrow> string \<Rightarrow> string \<Rightarrow> bool" where
  "on_token tokens platform chat \<longleftrightarrow> platform = discord \<and> chat \<in> set tokens"

text \<open>All or nothing: an ambiguous merge rolls the transaction back.\<close>

definition apply_board_transaction ::
    "string list \<Rightarrow> string \<Rightarrow> board_file \<Rightarrow> migration_error + board_stats \<times> board_file" where
  "apply_board_transaction tokens dst b =
     (case move_receipts (receipt_cols b) dst tokens (receipt_rows b, 0, 0) of
        Inl e \<Rightarrow> Inl e
      | Inr (rs, rekeyed, merged) \<Rightarrow> Inr
          (\<lparr>bs_origins = length (filter (\<lambda>r. on_token tokens (ko_platform r) (ko_chat r)) (origin_rows b)),
            bs_rekeyed = rekeyed, bs_merged = merged,
            bs_subs = length (filter (\<lambda>r. on_token tokens (kn_platform r) (kn_chat r)) (sub_rows b))\<rparr>,
           b\<lparr>bf_origins := map_option (\<lambda>t. t\<lparr>tb_rows := map (\<lambda>r. if on_token tokens (ko_platform r) (ko_chat r)
               then r\<lparr>ko_chat := dst\<rparr> else r) (tb_rows t)\<rparr>) (bf_origins b),
             bf_receipts := map_option (\<lambda>t. t\<lparr>tb_rows := rs\<rparr>) (bf_receipts b),
             bf_subs := map_option (\<lambda>t. t\<lparr>tb_rows := filter (\<lambda>r. \<not> on_token tokens (kn_platform r) (kn_chat r))
               (tb_rows t)\<rparr>) (bf_subs b)\<rparr>))"

subsection \<open>The repair of callbacks\<close>

definition numeric_discord_endpoint :: "string \<Rightarrow> string \<Rightarrow> string" where
  "numeric_discord_endpoint endpoint to_id =
     (let flags = map_origin_to_flags endpoint [] in
      if flags = [] \<or> flag flags ''platform'' \<noteq> discord then endpoint
      else join_with '':'' ([discord, to_id] @
        (if flag flags ''thread_id'' = [] then []
         else flag flags ''thread_id'' # (if flag flags ''user_id'' = [] then [] else [flag flags ''user_id'']))))"

record 'w origin_sys =
  og_real :: "'w real_state"
  og_store :: "store option"
  og_backups :: "(board_file option \<times> store option) list"

record repair_report =
  rp_repaired :: "(nat \<times> string \<times> string) list"
  rp_partial :: "(nat \<times> string \<times> string) list"

definition no_repair :: repair_report where
  "no_repair = \<lparr>rp_repaired = [], rp_partial = []\<rparr>"

text \<open>The acknowledgement and its read-back: proven, not proven with the error, or an exception (\<open>None\<close>).\<close>

definition ack_proof ::
    "'w real_state adapter \<Rightarrow> string \<Rightarrow> string \<Rightarrow> string \<Rightarrow> 'w real_state \<Rightarrow> (bool \<times> string) option \<times> 'w real_state" where
  "ack_proof adp task endpoint status s =
     (case a_record_consumer_ack adp of
        None \<Rightarrow> (None, s)
      | Some record_ack \<Rightarrow>
          (case record_ack task endpoint status s of
             (r, s1) \<Rightarrow>
               (let err = take 80 (case br_error r of None \<Rightarrow> ''callback_ack_unverified'' | Some e \<Rightarrow> e) in
                if \<not> br_success r then (Some (False, err), s1)
                else (case a_consumer_ack_satisfied adp of
                    None \<Rightarrow> (Some (True, err), s1)
                  | Some satisfied \<Rightarrow>
                      (case satisfied task endpoint status s1 of
                         (None, s2) \<Rightarrow> (None, s2)
                       | (Some v, s2) \<Rightarrow> (Some (br_success v, err), s2))))))"

definition repair_one ::
    "('w \<Rightarrow> real) \<Rightarrow> 'w real_state adapter \<Rightarrow> string \<Rightarrow> deadletter_entry \<Rightarrow> repair_report \<Rightarrow> 'w origin_sys \<Rightarrow>
       repair_report option \<times> 'w origin_sys" where
  "repair_one clock adp to_id e rep s =
     (case ack_proof adp (de_task e) (numeric_discord_endpoint (de_endpoint e) to_id) (de_status e) (og_real s) of
        (None, r) \<Rightarrow> (None, s\<lparr>og_real := r\<rparr>)
      | (Some (True, _), r) \<Rightarrow>
          (Some (rep\<lparr>rp_repaired := rp_repaired rep @ [(de_outbox_id e, de_task e, de_status e)]\<rparr>),
           s\<lparr>og_real := r, og_store := map_option (\<lambda>st. snd (outbox_mark (de_outbox_id e) ''applied'' [] None None
             (clock (rb_outside r)) st)) (og_store s)\<rparr>)
      | (Some (False, err), r) \<Rightarrow>
          (Some (rep\<lparr>rp_partial := rp_partial rep @ [(de_outbox_id e, de_task e, err)]\<rparr>), s\<lparr>og_real := r\<rparr>))"

fun repair_each ::
    "('w \<Rightarrow> real) \<Rightarrow> 'w real_state adapter \<Rightarrow> string \<Rightarrow> deadletter_entry list \<Rightarrow> repair_report \<Rightarrow> 'w origin_sys \<Rightarrow>
       repair_report option \<times> 'w origin_sys" where
  "repair_each clock adp to_id [] rep s = (Some rep, s)"
| "repair_each clock adp to_id (e # es) rep s =
     (case repair_one clock adp to_id e rep s of
        (None, s') \<Rightarrow> (None, s')
      | (Some rep', s') \<Rightarrow> repair_each clock adp to_id es rep' s')"

text \<open>Without an adapter the repair raises, unless there is nothing to repair.\<close>

definition repair_callback_deadletters ::
    "('w \<Rightarrow> real) \<Rightarrow> 'w real_state adapter option \<Rightarrow> string \<Rightarrow> deadletter_entry list \<Rightarrow> 'w origin_sys \<Rightarrow>
       (string + repair_report) \<times> 'w origin_sys" where
  "repair_callback_deadletters clock adp to_id es s =
     (if es = [] then (Inr no_repair, s)
      else (case adp of
          None \<Rightarrow> (Inl ''callback_repair_adapter_missing'', s)
        | Some a \<Rightarrow>
            (case repair_each clock a to_id es no_repair s of
               (None, s') \<Rightarrow> (Inl ''adapter_exception'', s')
             | (Some rep, s') \<Rightarrow> (Inr rep, s'))))"

subsection \<open>The apply\<close>

datatype discord_result =
    Discord_Refused string "json dict"
  | Discord_Raises string
  | Discord_Applied discord_plan board_stats repair_report

definition nothing_to_migrate :: "discord_plan \<Rightarrow> bool" where
  "nothing_to_migrate p \<longleftrightarrow> dp_origins p = [] \<and> dp_receipts p = [] \<and> dp_subs p = []"

text \<open>\<open>busy allow\<close>: the board refuses the lock, also after the bounded wait that \<open>allow\<close> grants.\<close>

definition board_phase ::
    "(bool \<Rightarrow> bool) \<Rightarrow> bool \<Rightarrow> discord_plan \<Rightarrow> 'w origin_sys \<Rightarrow> migration_error + board_stats \<times> 'w origin_sys" where
  "board_phase busy allow p s =
     (if nothing_to_migrate p then Inr (no_stats, s)
      else if busy allow then Inl (''active_writers_present'', [])
      else (case rb_file (og_real s) of
          None \<Rightarrow> Inl (''board_transaction_failed'', [])
        | Some b \<Rightarrow>
            (case apply_board_transaction (dp_aliases p) (dp_to p) b of
               Inl e \<Rightarrow> Inl e
             | Inr (stats, b') \<Rightarrow> Inr (stats, s\<lparr>og_real := (og_real s)\<lparr>rb_file := Some b'\<rparr>\<rparr>))))"

definition backed_up :: "discord_plan \<Rightarrow> 'w origin_sys \<Rightarrow> 'w origin_sys" where
  "backed_up p s =
     (if nothing_to_migrate p \<and> dp_deadletters p = [] then s
      else s\<lparr>og_backups := og_backups s @ [(rb_file (og_real s), og_store s)]\<rparr>)"

definition apply_discord_migration ::
    "('w \<Rightarrow> real) \<Rightarrow> (bool \<Rightarrow> bool) \<Rightarrow> 'w real_state adapter option \<Rightarrow> bool \<Rightarrow> string \<Rightarrow> string \<Rightarrow> string \<Rightarrow>
       nat list \<Rightarrow> string list \<Rightarrow> 'w origin_sys \<Rightarrow> discord_result \<times> 'w origin_sys" where
  "apply_discord_migration clock busy adp allow board from_id to_id ids refs s =
     (case validate_migration_inputs from_id to_id of
        Some e \<Rightarrow> (Discord_Refused e [], s)
      | None \<Rightarrow>
          if og_store s = None then (Discord_Refused ''canonical_db_missing'' [], s)
          else (case build_discord_plan (rb_file (og_real s)) (og_store s) board from_id to_id ids refs of
              Inl (e, detail) \<Rightarrow> (Discord_Refused e detail, s)
            | Inr p \<Rightarrow>
                (case board_phase busy allow p (backed_up p s) of
                   Inl (e, detail) \<Rightarrow> (Discord_Refused e detail, backed_up p s)
                 | Inr (stats, s1) \<Rightarrow>
                     (case repair_callback_deadletters clock adp (dp_to p) (dp_deadletters p) s1 of
                        (Inl e, s2) \<Rightarrow> (Discord_Raises e, s2)
                      | (Inr rep, s2) \<Rightarrow> (Discord_Applied p stats rep, s2)))))"

end
