(* ===== verification/Origin_Migration_Props.thy ===== *)
theory Origin_Migration_Props
  imports Origin_Migration Requirements
begin

text \<open>
  What the migration of Discord origins promises: after the transaction no row of the board carries a
  symbolic token, no receipt fact is lost in a merge, a second run has nothing to do; and a dead callback
  leaves the dead letters only on a proof that is read back from the board.
\<close>

subsection \<open>Receipts that move\<close>

definition receipt_keys :: "notify_receipt list \<Rightarrow> sub_key set" where
  "receipt_keys rs = set (map receipt_endpoint rs)"

text \<open>The endpoint a receipt has once its token is canonical.\<close>

definition canonical_key :: "string list \<Rightarrow> string \<Rightarrow> sub_key \<Rightarrow> sub_key" where
  "canonical_key tokens dst k =
     (case k of (task, platform, chat, thread) \<Rightarrow> (task, platform, if on_token tokens platform chat then dst else chat, thread))"

text \<open>No fact of the first receipt is weaker in the second.\<close>

definition as_strong :: "notify_receipt \<Rightarrow> notify_receipt \<Rightarrow> bool" where
  "as_strong r r' \<longleftrightarrow>
     rank_of NOTIFY_RANK (kr_notify_status r) \<le> rank_of NOTIFY_RANK (kr_notify_status r') \<and>
     rank_of WAKE_RANK (kr_wake_status r) \<le> rank_of WAKE_RANK (kr_wake_status r') \<and>
     kr_ack_status r \<in> {[], kr_ack_status r'} \<and>
     kr_notify_at r \<le> kr_notify_at r' \<and> kr_wake_at r \<le> kr_wake_at r' \<and> kr_ack_at r \<le> kr_ack_at r' \<and>
     kr_updated_at r \<le> kr_updated_at r'"

definition carried :: "string list \<Rightarrow> string \<Rightarrow> notify_receipt list \<Rightarrow> notify_receipt list \<Rightarrow> bool" where
  "carried tokens dst rs rs' \<longleftrightarrow>
     (\<forall>r \<in> set rs. \<exists>r' \<in> set rs'. canonical_key tokens dst (receipt_endpoint r') = canonical_key tokens dst (receipt_endpoint r) \<and>
        as_strong r r')"

lemma as_strong_refl [simp]: "as_strong r r"
  by (simp add: as_strong_def)

lemma as_strong_trans: "as_strong r s \<Longrightarrow> as_strong s t \<Longrightarrow> as_strong r t"
  by (auto simp: as_strong_def)

lemma carried_refl [simp]: "carried tokens dst rs rs"
  by (auto simp: carried_def)

lemma carried_trans: "carried tokens dst rs ss \<Longrightarrow> carried tokens dst ss ts \<Longrightarrow> carried tokens dst rs ts"
  unfolding carried_def by (metis as_strong_trans)

lemma endpoint_rekeyed [simp]:
  "receipt_endpoint (r\<lparr>kr_chat := c\<rparr>) = (case receipt_endpoint r of (t, p, _, th) \<Rightarrow> (t, p, c, th))"
  "receipt_endpoint (set_facts cols m r) = receipt_endpoint r"
  by (simp_all add: receipt_endpoint_def set_facts_def Let_def)

lemma strongest_rank:
  "rank_of rank s \<le> rank_of rank (strongest rank s t)" "rank_of rank t \<le> rank_of rank (strongest rank s t)"
  by (simp_all add: strongest_def)

lemma merged_as_strong:
  assumes m: "merge_receipt_facts (receipt_row_dict cols s) (receipt_row_dict cols t) = Inr m"
    and cols: "set RECEIPT_MERGE_COLS \<subseteq> set cols"
  shows "as_strong s (set_facts cols m t)" "as_strong t (set_facts cols m t)"
proof -
  have r: "receipt_row_dict cols x = x" for x
    using cols by (simp add: receipt_row_dict_def RECEIPT_MERGE_COLS_def)
  show "as_strong s (set_facts cols m t)" "as_strong t (set_facts cols m t)"
    using m cols
    by (auto simp: r merge_receipt_facts_def set_facts_def as_strong_def RECEIPT_MERGE_COLS_def strongest_rank str_or_def
        split: if_splits)
qed

lemma receipt_at_None: "receipt_at rs task chat thread = None \<longleftrightarrow> (task, discord, chat, thread) \<notin> receipt_keys rs"
  by (force simp: receipt_at_def find_None_iff receipt_keys_def)

lemma receipt_at_Some:
  assumes "receipt_at rs task chat thread = Some r" and "distinct (map receipt_endpoint rs)"
  shows "r \<in> set rs" "receipt_endpoint r = (task, discord, chat, thread)"
    "\<And>q. q \<in> set rs \<Longrightarrow> receipt_endpoint q = (task, discord, chat, thread) \<Longrightarrow> q = r"
proof -
  show r: "r \<in> set rs" "receipt_endpoint r = (task, discord, chat, thread)"
    using assms(1) by (auto simp: receipt_at_def find_Some_iff)
  show "q = r" if "q \<in> set rs" "receipt_endpoint q = (task, discord, chat, thread)" for q
    using assms(2) that r unfolding distinct_map by (metis inj_onD)
qed

text \<open>What moving receipts keeps: the keys stay unique, nothing is lost, other rows are untouched.\<close>

definition moved :: "string list \<Rightarrow> string \<Rightarrow> notify_receipt list \<Rightarrow> notify_receipt list \<Rightarrow> bool" where
  "moved tokens dst rs rs' \<longleftrightarrow>
     distinct (map receipt_endpoint rs') \<and> carried tokens dst rs rs' \<and>
     canonical_key tokens dst ` receipt_keys rs' = canonical_key tokens dst ` receipt_keys rs \<and>
     filter (\<lambda>r. \<not> on_token (dst # tokens) (kr_platform r) (kr_chat r)) rs' =
     filter (\<lambda>r. \<not> on_token (dst # tokens) (kr_platform r) (kr_chat r)) rs"

lemma moved_refl: "distinct (map receipt_endpoint rs) \<Longrightarrow> moved tokens dst rs rs"
  by (simp add: moved_def)

lemma moved_trans: "moved tokens dst rs ss \<Longrightarrow> moved tokens dst ss ts \<Longrightarrow> moved tokens dst rs ts"
  unfolding moved_def by (metis carried_trans)

lemma rekey_keys:
  "map receipt_endpoint (rekey_receipt dst task token thread rs) =
     map (\<lambda>k. if k = (task, discord, token, thread) then (task, discord, dst, thread) else k) (map receipt_endpoint rs)"
  by (auto simp: rekey_receipt_def at_receipt_def)

lemma canonical_move:
  assumes "token \<in> set tokens" and "dst \<notin> set tokens"
  shows "canonical_key tokens dst (task, discord, token, thread) = (task, discord, dst, thread)"
    "canonical_key tokens dst (task, discord, dst, thread) = (task, discord, dst, thread)"
  using assms by (simp_all add: canonical_key_def on_token_def)

lemma filter_map_off:
  assumes "\<And>r. \<not> P (f r) \<and> \<not> P r \<or> f r = r"
  shows "filter P (map f rs) = filter P rs"
proof (induction rs)
  case (Cons r rs)
  then show ?case using assms [of r] by (cases "f r = r") simp_all
qed simp

lemma updated_endpoints:
  "map receipt_endpoint (map (\<lambda>r. if P r then set_facts cols m r else r) rs) = map receipt_endpoint rs"
  by (induction rs) simp_all

lemma filter_endpoints:
  "map receipt_endpoint (filter (\<lambda>r. \<not> receipt_endpoint r = k) rs) = filter (\<lambda>e. e \<noteq> k) (map receipt_endpoint rs)"
  by (simp add: filter_map comp_def)

lemma filter_off:
  assumes "\<And>r. P r \<Longrightarrow> Q r"
  shows "filter P (filter Q rs) = filter P rs"
proof -
  have "(Q r \<and> P r) = P r" for r using assms by blast
  then show ?thesis by (simp add: filter_filter)
qed

lemma rekey_moved:
  assumes d: "distinct (map receipt_endpoint rs)" and free: "receipt_at rs task dst thread = None"
    and token: "token \<in> set tokens" "dst \<notin> set tokens"
  shows "moved tokens dst rs (rekey_receipt dst task token thread rs)"
proof -
  let ?src = "(task, discord, token, thread)" and ?tgt = "(task, discord, dst, thread)"
  let ?g = "\<lambda>k. if k = ?src then ?tgt else k"
  let ?f = "\<lambda>r. if at_receipt task token thread r then r\<lparr>kr_chat := dst\<rparr> else r"
  have free': "?tgt \<notin> receipt_keys rs" using free by (simp add: receipt_at_None)
  have can: "canonical_key tokens dst (?g k) = canonical_key tokens dst k" for k
    using canonical_move [OF token] by simp
  have inj: "inj_on ?g (receipt_keys rs)" using free' by (auto simp: inj_on_def)
  have "distinct (map ?g (map receipt_endpoint rs))"
    unfolding distinct_map [of ?g] using d inj by (simp add: receipt_keys_def)
  then have 1: "distinct (map receipt_endpoint (rekey_receipt dst task token thread rs))" by (simp only: rekey_keys)
  have ep: "receipt_endpoint (?f r) = ?g (receipt_endpoint r)" for r by (simp add: at_receipt_def)
  have strong: "as_strong r (?f r)" for r by (simp add: as_strong_def)
  have 2: "carried tokens dst rs (rekey_receipt dst task token thread rs)"
    unfolding carried_def
  proof
    fix r assume "r \<in> set rs"
    then have "?f r \<in> set (rekey_receipt dst task token thread rs)" by (simp add: rekey_receipt_def)
    moreover have "canonical_key tokens dst (receipt_endpoint (?f r)) = canonical_key tokens dst (receipt_endpoint r)"
      by (simp only: ep can)
    ultimately show "\<exists>r' \<in> set (rekey_receipt dst task token thread rs).
        canonical_key tokens dst (receipt_endpoint r') = canonical_key tokens dst (receipt_endpoint r) \<and> as_strong r r'"
      using strong by blast
  qed
  have "receipt_keys (rekey_receipt dst task token thread rs) = ?g ` receipt_keys rs"
    by (simp only: receipt_keys_def rekey_keys set_map)
  then have 3: "canonical_key tokens dst ` receipt_keys (rekey_receipt dst task token thread rs) =
      canonical_key tokens dst ` receipt_keys rs"
    by (simp only: image_image can)
  let ?P = "\<lambda>r. \<not> on_token (dst # tokens) (kr_platform r) (kr_chat r)"
  have off: "\<not> ?P (?f r) \<and> \<not> ?P r \<or> ?f r = r" for r
    using token by (auto simp: at_receipt_def receipt_endpoint_def on_token_def)
  have 4: "filter ?P (rekey_receipt dst task token thread rs) = filter ?P rs"
    unfolding rekey_receipt_def by (rule filter_map_off [OF off])
  show ?thesis using 1 2 3 4 by (simp add: moved_def)
qed

lemma merge_moved:
  assumes d: "distinct (map receipt_endpoint rs)" and t: "receipt_at rs task dst thread = Some t"
    and s: "receipt_at rs task token thread = Some s"
    and m: "merge_receipt_facts (receipt_row_dict cols s) (receipt_row_dict cols t) = Inr m"
    and cols: "set RECEIPT_MERGE_COLS \<subseteq> set cols"
    and token: "token \<in> set tokens" "dst \<notin> set tokens"
  shows "moved tokens dst rs (merge_into cols m dst task token thread rs)"
proof -
  let ?src = "(task, discord, token, thread)" and ?tgt = "(task, discord, dst, thread)"
  let ?f = "\<lambda>r. if at_receipt task dst thread r then set_facts cols m r else r"
  let ?rs = "merge_into cols m dst task token thread rs"
  have ep: "receipt_endpoint (?f r) = receipt_endpoint r" for r by simp
  have ep': "map receipt_endpoint (map (\<lambda>r. if receipt_endpoint r = ?tgt then set_facts cols m r else r) rs) =
      map receipt_endpoint rs" by (rule updated_endpoints)
  have ne: "?src \<noteq> ?tgt" using token by auto
  have keys: "map receipt_endpoint ?rs = filter (\<lambda>k. k \<noteq> ?src) (map receipt_endpoint rs)"
    using ep' by (simp only: merge_into_def at_receipt_def filter_endpoints)
  have t': "t \<in> set rs" "receipt_endpoint t = ?tgt" by (rule receipt_at_Some [OF t d])+
  have s': "s \<in> set rs" "receipt_endpoint s = ?src" "\<And>q. q \<in> set rs \<Longrightarrow> receipt_endpoint q = ?src \<Longrightarrow> q = s"
    by (rule receipt_at_Some [OF s d])+
  have 1: "distinct (map receipt_endpoint ?rs)" using d by (simp only: keys distinct_filter)
  have there: "?f t \<in> set ?rs" using t' ne by (auto simp: merge_into_def at_receipt_def)
  have can: "canonical_key tokens dst ?src = canonical_key tokens dst ?tgt"
    by (simp add: canonical_move [OF token])
  have 2: "carried tokens dst rs ?rs"
    unfolding carried_def
  proof
    fix r assume r: "r \<in> set rs"
    show "\<exists>r' \<in> set ?rs. canonical_key tokens dst (receipt_endpoint r') = canonical_key tokens dst (receipt_endpoint r) \<and> as_strong r r'"
    proof (cases "receipt_endpoint r = ?src")
      case True
      then have "r = s" using s' r by simp
      then have "as_strong r (?f t)" using merged_as_strong [OF m cols] t' by (simp add: at_receipt_def)
      with there t' True can show ?thesis by (metis ep)
    next
      case False
      have tt: "r = t" if "receipt_endpoint r = ?tgt" using receipt_at_Some(3) [OF t d r that] .
      from False r have "?f r \<in> set ?rs" by (auto simp: merge_into_def at_receipt_def)
      moreover have "as_strong r (?f r)" using merged_as_strong [OF m cols] tt by (auto simp: at_receipt_def)
      ultimately show ?thesis by (metis ep)
    qed
  qed
  have ks: "receipt_keys ?rs = receipt_keys rs - {?src}" unfolding receipt_keys_def keys by auto
  have "?tgt \<in> receipt_keys rs - {?src}" using t' ne unfolding receipt_keys_def by force
  moreover have "receipt_keys rs = insert ?src (receipt_keys rs - {?src})" using s' unfolding receipt_keys_def by force
  ultimately have 3: "canonical_key tokens dst ` receipt_keys ?rs = canonical_key tokens dst ` receipt_keys rs"
    unfolding ks by (metis can image_insert insert_absorb image_eqI)
  let ?P = "\<lambda>r. \<not> on_token (dst # tokens) (kr_platform r) (kr_chat r)"
  have on: "?P r \<Longrightarrow> \<not> at_receipt task token thread r \<and> \<not> at_receipt task dst thread r" for r
    using token by (auto simp: at_receipt_def receipt_endpoint_def on_token_def)
  have same: "?P (?f r) = ?P r" for r by (simp add: set_facts_def Let_def)
  have off: "\<not> ?P (?f r) \<and> \<not> ?P r \<or> ?f r = r" for r
  proof (cases "?P r")
    case True
    then show ?thesis using on by simp
  next
    case False
    then show ?thesis using same [of r] by blast
  qed
  have on': "?P r \<Longrightarrow> \<not> at_receipt task token thread r" for r using on by blast
  have 4: "filter ?P ?rs = filter ?P rs"
    unfolding merge_into_def
    by (rule trans [OF filter_off [of ?P "\<lambda>r. \<not> at_receipt task token thread r", OF on']
      filter_map_off [of ?P ?f, OF off]])
  show ?thesis using 1 2 3 4 by (simp add: moved_def)
qed

lemma rekey_key_set:
  "receipt_keys (rekey_receipt dst task token thread rs) =
     (\<lambda>k. if k = (task, discord, token, thread) then (task, discord, dst, thread) else k) ` receipt_keys rs"
  by (simp only: receipt_keys_def rekey_keys set_map)

lemma merge_key_set:
  "token \<noteq> dst \<Longrightarrow> receipt_keys (merge_into cols m dst task token thread rs) =
     receipt_keys rs - {(task, discord, token, thread)}"
proof -
  have "set (map receipt_endpoint (filter (\<lambda>r. \<not> receipt_endpoint r = k) xs)) = set (map receipt_endpoint xs) - {k}" for k xs
    by auto
  moreover have "set (map receipt_endpoint (map (\<lambda>r. if receipt_endpoint r = k then set_facts cols m r else r) rs)) =
      receipt_keys rs" for k
    by (simp only: updated_endpoints receipt_keys_def)
  ultimately show "receipt_keys (merge_into cols m dst task token thread rs) = receipt_keys rs - {(task, discord, token, thread)}"
    by (simp only: receipt_keys_def merge_into_def at_receipt_def)
qed

lemma move_receipt_step:
  assumes e: "move_receipt cols dst token (task, thread) (rs, a, c) = Inr (rs', a', c')"
    and d: "distinct (map receipt_endpoint rs)" and cols: "set RECEIPT_MERGE_COLS \<subseteq> set cols"
    and token: "token \<in> set tokens" "dst \<notin> set tokens"
  shows "moved tokens dst rs rs'" and "(task, discord, token, thread) \<notin> receipt_keys rs'"
    and "receipt_keys rs' \<subseteq> insert (task, discord, dst, thread) (receipt_keys rs)"
proof -
  let ?src = "(task, discord, token, thread)"
  have ne: "token \<noteq> dst" using token by auto
  have "moved tokens dst rs rs' \<and> ?src \<notin> receipt_keys rs' \<and>
      receipt_keys rs' \<subseteq> insert (task, discord, dst, thread) (receipt_keys rs)"
  proof (cases "receipt_at rs task dst thread")
    case None
    then have "rs' = rekey_receipt dst task token thread rs" using e by (simp add: move_receipt_def)
    then show ?thesis using rekey_moved [OF d None token] rekey_key_set [of dst task token thread rs] ne by auto
  next
    case t: (Some t)
    show ?thesis
    proof (cases "receipt_at rs task token thread")
      case None
      then have "rs' = rs" using e t by (simp add: move_receipt_def)
      then show ?thesis using None moved_refl [OF d] by (auto simp: receipt_at_None)
    next
      case s: (Some s)
      then obtain m where m: "merge_receipt_facts (receipt_row_dict cols s) (receipt_row_dict cols t) = Inr m"
          "rs' = merge_into cols m dst task token thread rs"
        using e t by (auto simp: move_receipt_def split: sum.splits if_splits)
      then show ?thesis using merge_moved [OF d t s m(1) cols token] merge_key_set [OF ne] by auto
    qed
  qed
  then show "moved tokens dst rs rs'" "?src \<notin> receipt_keys rs'"
    "receipt_keys rs' \<subseteq> insert (task, discord, dst, thread) (receipt_keys rs)" by auto
qed

text \<open>The keys that \<open>rs'\<close> has beyond those of \<open>rs\<close> are at the target.\<close>

definition only_target_new :: "string \<Rightarrow> notify_receipt list \<Rightarrow> notify_receipt list \<Rightarrow> bool" where
  "only_target_new dst rs rs' \<longleftrightarrow> (\<forall>t p c th. (t, p, c, th) \<in> receipt_keys rs' \<longrightarrow> c \<noteq> dst \<longrightarrow> (t, p, c, th) \<in> receipt_keys rs)"

lemma only_target_new_trans: "only_target_new dst rs ss \<Longrightarrow> only_target_new dst ss ts \<Longrightarrow> only_target_new dst rs ts"
  unfolding only_target_new_def by blast

lemma move_each_moved:
  assumes "move_each cols dst token tts (rs, a, c) = Inr (rs', a', c')"
    and "distinct (map receipt_endpoint rs)" and "set RECEIPT_MERGE_COLS \<subseteq> set cols"
    and "token \<in> set tokens" "dst \<notin> set tokens"
  shows "moved tokens dst rs rs' \<and> only_target_new dst rs rs' \<and>
    (\<forall>(task, thread) \<in> set tts. (task, discord, token, thread) \<notin> receipt_keys rs')"
  using assms
proof (induction tts arbitrary: rs a c)
  case Nil
  then show ?case by (auto simp: moved_refl only_target_new_def)
next
  case (Cons tt tts)
  obtain task thread where tt: "tt = (task, thread)" by (cases tt)
  obtain rs1 a1 c1 where 1: "move_receipt cols dst token (task, thread) (rs, a, c) = Inr (rs1, a1, c1)"
      "move_each cols dst token tts (rs1, a1, c1) = Inr (rs', a', c')"
    using Cons.prems(1) by (auto simp: tt split: sum.splits)
  note s = move_receipt_step [OF 1(1) Cons.prems(2-5)]
  have d1: "distinct (map receipt_endpoint rs1)" using s(1) by (simp add: moved_def)
  note ih = Cons.IH [OF 1(2) d1 Cons.prems(3-5)]
  have n1: "only_target_new dst rs rs1" using s(3) by (auto simp: only_target_new_def)
  have ne: "token \<noteq> dst" using Cons.prems(4,5) by auto
  have "(task, discord, token, thread) \<notin> receipt_keys rs'" using ih s(2) ne unfolding only_target_new_def by blast
  then show ?case using ih moved_trans [OF s(1)] only_target_new_trans [OF n1] by (simp add: tt)
qed

lemma token_receipts_all:
  assumes "(task, discord, token, thread) \<in> receipt_keys rs"
  shows "(task, thread) \<in> set (token_receipts rs token)"
  using assms by (force simp: token_receipts_def by_task_thread_def receipt_keys_def receipt_endpoint_def)

lemma move_receipts_moved:
  assumes "move_receipts cols dst ts (rs, a, c) = Inr (rs', a', c')"
    and "distinct (map receipt_endpoint rs)" and "set RECEIPT_MERGE_COLS \<subseteq> set cols"
    and "set ts \<subseteq> set tokens" "dst \<notin> set tokens"
  shows "moved tokens dst rs rs' \<and> only_target_new dst rs rs' \<and>
    (\<forall>token \<in> set ts. \<forall>task thread. (task, discord, token, thread) \<notin> receipt_keys rs')"
  using assms
proof (induction ts arbitrary: rs a c)
  case Nil
  then show ?case by (auto simp: moved_refl only_target_new_def)
next
  case (Cons token ts)
  obtain rs1 a1 c1 where 1: "move_each cols dst token (token_receipts rs token) (rs, a, c) = Inr (rs1, a1, c1)"
      "move_receipts cols dst ts (rs1, a1, c1) = Inr (rs', a', c')"
    using Cons.prems(1) by (auto split: sum.splits)
  have t: "token \<in> set tokens" and ts: "set ts \<subseteq> set tokens" using Cons.prems(4) by auto
  note s = move_each_moved [OF 1(1) Cons.prems(2,3) t Cons.prems(5)]
  have d1: "distinct (map receipt_endpoint rs1)" using s by (simp add: moved_def)
  note ih = Cons.IH [OF 1(2) d1 Cons.prems(3) ts Cons.prems(5)]
  have ne: "token \<noteq> dst" using t Cons.prems(5) by auto
  have "(task, discord, token, thread) \<notin> receipt_keys rs1" for task thread
    using s ne token_receipts_all unfolding only_target_new_def by blast
  then have "(task, discord, token, thread) \<notin> receipt_keys rs'" for task thread
    using ih ne unfolding only_target_new_def by blast
  then show ?case using ih s moved_trans only_target_new_trans by (simp) blast
qed

subsection \<open>The transaction\<close>

lemma nothing_to_move:
  assumes "\<And>token task thread. token \<in> set tokens \<Longrightarrow> (task, discord, token, thread) \<notin> receipt_keys rs"
  shows "move_receipts cols dst tokens (rs, a, c) = Inr (rs, a, c)"
  using assms
proof (induction tokens)
  case (Cons token tokens)
  have "filter (\<lambda>r. kr_platform r = discord \<and> kr_chat r = token) rs = []"
    unfolding filter_empty_conv
  proof
    fix r assume "r \<in> set rs"
    then have "(kr_task r, kr_platform r, kr_chat r, kr_thread r) \<in> receipt_keys rs"
      by (auto simp: receipt_keys_def receipt_endpoint_def)
    then show "\<not> (kr_platform r = discord \<and> kr_chat r = token)" using Cons.prems [of token] by auto
  qed
  then have "token_receipts rs token = []" by (simp add: token_receipts_def by_task_thread_def)
  with Cons show ?case by simp
qed simp

lemma transaction_parts:
  assumes "apply_board_transaction tokens dst b = Inr (stats, b')"
  obtains a c where "move_receipts (receipt_cols b) dst tokens (receipt_rows b, 0, 0) = Inr (receipt_rows b', a, c)"
    "receipt_cols b' = receipt_cols b"
    "origin_rows b' = map (\<lambda>r. if on_token tokens (ko_platform r) (ko_chat r) then r\<lparr>ko_chat := dst\<rparr> else r) (origin_rows b)"
    "sub_rows b' = filter (\<lambda>r. \<not> on_token tokens (kn_platform r) (kn_chat r)) (sub_rows b)"
proof -
  obtain rs a c where m: "move_receipts (receipt_cols b) dst tokens (receipt_rows b, 0, 0) = Inr (rs, a, c)"
    using assms by (auto simp: apply_board_transaction_def split: sum.splits)
  have rs: "receipt_rows b' = rs"
  proof (cases "bf_receipts b")
    case None
    then have "receipt_rows b = []" by (simp add: receipt_rows_def)
    then have "rs = []" using m nothing_to_move [of tokens "[]" "receipt_cols b" dst 0 0] by (simp add: receipt_keys_def)
    with None assms m show ?thesis by (auto simp: apply_board_transaction_def receipt_rows_def)
  next
    case (Some t)
    with assms m show ?thesis by (auto simp: apply_board_transaction_def receipt_rows_def)
  qed
  show thesis
    using assms m
    by (intro that [of a c])
      (auto simp: rs apply_board_transaction_def receipt_cols_def origin_rows_def sub_rows_def split: option.splits)
qed

text \<open>
  C36: After a transaction that succeeds, no origin, receipt or subscription carries one of the tokens, and
  receipts stay unique by their key; every receipt has one in the result that is at its canonical key and no
  weaker in any fact, there is no other key, and receipts elsewhere are untouched. A second run changes
  nothing. \<open>apply_discord_migration\<close> runs it only with a target that is none of the tokens.
\<close>

theorem origins_become_canonical:
  assumes e: "apply_board_transaction tokens dst b = Inr (stats, b')" and dst: "dst \<notin> set tokens"
    and d: "distinct (map receipt_endpoint (receipt_rows b))"
    and cols: "set RECEIPT_MERGE_COLS \<subseteq> set (receipt_cols b)"
  shows "(\<forall>r \<in> set (origin_rows b'). \<not> on_token tokens (ko_platform r) (ko_chat r)) \<and>
    (\<forall>r \<in> set (receipt_rows b'). \<not> on_token tokens (kr_platform r) (kr_chat r)) \<and>
    (\<forall>r \<in> set (sub_rows b'). \<not> on_token tokens (kn_platform r) (kn_chat r)) \<and>
    moved tokens dst (receipt_rows b) (receipt_rows b') \<and>
    apply_board_transaction tokens dst b' = Inr (no_stats, b')"
proof -
  obtain a c where p: "move_receipts (receipt_cols b) dst tokens (receipt_rows b, 0, 0) = Inr (receipt_rows b', a, c)"
    "receipt_cols b' = receipt_cols b"
    "origin_rows b' = map (\<lambda>r. if on_token tokens (ko_platform r) (ko_chat r) then r\<lparr>ko_chat := dst\<rparr> else r) (origin_rows b)"
    "sub_rows b' = filter (\<lambda>r. \<not> on_token tokens (kn_platform r) (kn_chat r)) (sub_rows b)"
    by (rule transaction_parts [OF e])
  note m = move_receipts_moved [OF p(1) d cols subset_refl dst]
  have 1: "\<forall>r \<in> set (origin_rows b'). \<not> on_token tokens (ko_platform r) (ko_chat r)"
    using dst by (auto simp: p(3) on_token_def)
  have gone: "(task, discord, token, thread) \<notin> receipt_keys (receipt_rows b')" if "token \<in> set tokens" for token task thread
    using m that by blast
  have 2: "\<forall>r \<in> set (receipt_rows b'). \<not> on_token tokens (kr_platform r) (kr_chat r)"
  proof
    fix r assume "r \<in> set (receipt_rows b')"
    then have "(kr_task r, kr_platform r, kr_chat r, kr_thread r) \<in> receipt_keys (receipt_rows b')"
      by (auto simp: receipt_keys_def receipt_endpoint_def)
    then show "\<not> on_token tokens (kr_platform r) (kr_chat r)" using gone by (auto simp: on_token_def)
  qed
  have 3: "\<forall>r \<in> set (sub_rows b'). \<not> on_token tokens (kn_platform r) (kn_chat r)" by (simp add: p(4))
  have "move_receipts (receipt_cols b') dst tokens (receipt_rows b', 0, 0) = Inr (receipt_rows b', 0, 0)"
    using gone by (rule nothing_to_move)
  moreover have "filter (\<lambda>r. on_token tokens (ko_platform r) (ko_chat r)) (origin_rows b') = []"
    "filter (\<lambda>r. on_token tokens (kn_platform r) (kn_chat r)) (sub_rows b') = []"
    using 1 3 by (simp_all add: filter_empty_conv)
  moreover have "map_option (\<lambda>t. t\<lparr>tb_rows := map (\<lambda>r. if on_token tokens (ko_platform r) (ko_chat r)
      then r\<lparr>ko_chat := dst\<rparr> else r) (tb_rows t)\<rparr>) (bf_origins b') = bf_origins b'"
    using 1 by (cases "bf_origins b'") (simp_all add: origin_rows_def map_idI)
  moreover have "map_option (\<lambda>t. t\<lparr>tb_rows := receipt_rows b'\<rparr>) (bf_receipts b') = bf_receipts b'"
    by (cases "bf_receipts b'") (simp_all add: receipt_rows_def)
  moreover have "map_option (\<lambda>t. t\<lparr>tb_rows := filter (\<lambda>r. \<not> on_token tokens (kn_platform r) (kn_chat r))
      (tb_rows t)\<rparr>) (bf_subs b') = bf_subs b'"
    using 3 by (cases "bf_subs b'") (simp_all add: sub_rows_def)
  ultimately have "apply_board_transaction tokens dst b' = Inr (no_stats, b')"
    unfolding apply_board_transaction_def by (simp add: no_stats_def)
  with 1 2 3 m show ?thesis by blast
qed

subsection \<open>The proof of a repair\<close>

text \<open>The board's own receipt of the acknowledgement.\<close>

definition acked_on_board :: "string \<Rightarrow> string \<Rightarrow> string \<Rightarrow> board_file option \<Rightarrow> bool" where
  "acked_on_board task endpoint status bfile \<longleftrightarrow>
     (\<exists>b flags. bfile = Some b \<and> resolved_flags endpoint = Inr flags \<and>
        (\<exists>r \<in> set (receipt_rows b). receipt_endpoint r = flags_key task flags \<and> kr_ack_status r = status))"

lemma error_dict_fails [simp]: "\<not> dict_success (error_dict e)" "\<not> dict_success (error_dict e @ d)"
  by (simp_all add: dict_success_def error_dict_def dict_get_def)

lemma satisfied_is_acked:
  assumes "dict_success (real_consumer_ack_satisfied task endpoint status bfile)"
  shows "acked_on_board task endpoint status bfile"
proof -
  obtain flags where f: "resolved_flags endpoint = Inr flags"
    using assms by (cases "resolved_flags endpoint") (auto simp: real_consumer_ack_satisfied_def)
  obtain b where b: "bfile = Some b"
    using assms by (cases bfile) (auto simp: real_consumer_ack_satisfied_def f)
  obtain origins rts where t: "bf_origins b = Some origins" "bf_receipts b = Some rts"
    using assms by (cases "bf_origins b"; cases "bf_receipts b") (auto simp: real_consumer_ack_satisfied_def f b)
  obtain r where r: "find (\<lambda>r. receipt_endpoint r = flags_key task flags) (tb_rows rts) = Some r" "kr_ack_status r = status"
    using assms by (auto simp: real_consumer_ack_satisfied_def f b t split: if_splits option.splits)
  then have "r \<in> set (receipt_rows b)" "receipt_endpoint r = flags_key task flags"
    by (auto simp: receipt_rows_def t find_Some_iff)
  with f b r show ?thesis unfolding acked_on_board_def by blast
qed

lemma real_ack_proof:
  assumes "ack_proof (real_adapter dumps c) task endpoint status w = (Some (True, err), w')"
  shows "dict_success (fst (real_record_consumer_ack c task endpoint status w)) \<and>
    acked_on_board task endpoint status (rb_file w')"
proof -
  obtain d w1 where d: "real_record_consumer_ack c task endpoint status w = (d, w1)" by fastforce
  show ?thesis
    using assms satisfied_is_acked
    by (auto simp: ack_proof_def real_adapter_def lift_result_def d board_result_of_def Let_def split: if_splits)
qed

text \<open>The entry was repaired: at its turn the adapter proved the acknowledgement.\<close>

definition repaired_at ::
    "('w \<Rightarrow> real) \<Rightarrow> 'w real_state adapter \<Rightarrow> string \<Rightarrow> deadletter_entry list \<Rightarrow> repair_report \<Rightarrow> 'w origin_sys \<Rightarrow>
       deadletter_entry \<Rightarrow> bool" where
  "repaired_at clock adp to_id es rep s e \<longleftrightarrow>
     (\<exists>before after rep' w err r. es = before @ e # after \<and> repair_each clock adp to_id before rep s = (Some rep', w) \<and>
        ack_proof adp (de_task e) (numeric_discord_endpoint (de_endpoint e) to_id) (de_status e) (og_real w) =
          (Some (True, err), r))"

definition row_repaired ::
    "('w \<Rightarrow> real) \<Rightarrow> 'w real_state adapter \<Rightarrow> string \<Rightarrow> deadletter_entry list \<Rightarrow> repair_report \<Rightarrow> 'w origin_sys \<Rightarrow>
       outbox_row \<Rightarrow> outbox_row \<Rightarrow> bool" where
  "row_repaired clock adp to_id es rep s r r' \<longleftrightarrow>
     r' = r \<or> ob_id r' = ob_id r \<and> ob_state r' = ''applied'' \<and>
       (\<exists>e. de_outbox_id e = ob_id r \<and> repaired_at clock adp to_id es rep s e)"

lemma repaired_at_later:
  assumes "repair_one clock adp to_id e rep s = (Some rep', s')" and "repaired_at clock adp to_id es rep' s' x"
  shows "repaired_at clock adp to_id (e # es) rep s x"
proof -
  obtain before after rep2 w err r where x: "es = before @ x # after"
      "repair_each clock adp to_id before rep' s' = (Some rep2, w)"
      "ack_proof adp (de_task x) (numeric_discord_endpoint (de_endpoint x) to_id) (de_status x) (og_real w) = (Some (True, err), r)"
    using assms(2) unfolding repaired_at_def by blast
  then have "repair_each clock adp to_id (e # before) rep s = (Some rep2, w)" using assms(1) by simp
  moreover have "e # es = (e # before) @ x # after" by (simp add: x)
  ultimately show ?thesis using x(3) unfolding repaired_at_def by blast
qed

lemma repair_one_store:
  assumes "repair_one clock adp to_id e rep s = (o_rep, s')" and "og_store s = Some st"
  shows "og_store s' = Some st \<or>
    (\<exists>now err r. o_rep \<noteq> None \<and> og_store s' = Some (snd (outbox_mark (de_outbox_id e) ''applied'' [] None None now st)) \<and>
       ack_proof adp (de_task e) (numeric_discord_endpoint (de_endpoint e) to_id) (de_status e) (og_real s) = (Some (True, err), r))"
  using assms by (auto simp: repair_one_def split: option.splits prod.splits bool.splits)

lemma repair_each_rows:
  assumes "repair_each clock adp to_id es rep s = (o_rep, s')" and "og_store s = Some st"
  shows "\<exists>t. og_store s' = Some (st\<lparr>outbox := t\<rparr>) \<and>
    list_all2 (row_repaired clock adp to_id es rep s) (rows (outbox st)) (rows t)"
  using assms
proof (induction es arbitrary: rep s st)
  case Nil
  then have "og_store s' = Some (st\<lparr>outbox := outbox st\<rparr>)" by simp
  moreover have "list_all2 (row_repaired clock adp to_id [] rep s) (rows (outbox st)) (rows (outbox st))"
    by (rule list.rel_refl) (simp add: row_repaired_def)
  ultimately show ?case by blast
next
  case (Cons e es)
  obtain rep1 s1 where 1: "repair_one clock adp to_id e rep s = (rep1, s1)" by fastforce
  have step: "\<exists>t1. og_store s1 = Some (st\<lparr>outbox := t1\<rparr>) \<and>
      list_all2 (row_repaired clock adp to_id (e # es) rep s) (rows (outbox st)) (rows t1)"
    using repair_one_store [OF 1 Cons.prems(2)]
  proof
    assume "og_store s1 = Some st"
    then have "og_store s1 = Some (st\<lparr>outbox := outbox st\<rparr>)" by simp
    moreover have "list_all2 (row_repaired clock adp to_id (e # es) rep s) (rows (outbox st)) (rows (outbox st))"
      by (rule list.rel_refl) (simp add: row_repaired_def)
    ultimately show ?thesis by blast
  next
    assume "\<exists>now err r. rep1 \<noteq> None \<and> og_store s1 = Some (snd (outbox_mark (de_outbox_id e) ''applied'' [] None None now st)) \<and>
       ack_proof adp (de_task e) (numeric_discord_endpoint (de_endpoint e) to_id) (de_status e) (og_real s) = (Some (True, err), r)"
    then obtain now err r where m: "og_store s1 = Some (snd (outbox_mark (de_outbox_id e) ''applied'' [] None None now st))"
       "ack_proof adp (de_task e) (numeric_discord_endpoint (de_endpoint e) to_id) (de_status e) (og_real s) = (Some (True, err), r)"
      by blast
    have at: "repaired_at clock adp to_id (e # es) rep s e"
      unfolding repaired_at_def using m(2) by (intro exI [of _ "[]"] exI [of _ es]) auto
    let ?f = "\<lambda>x. if ob_id x = de_outbox_id e then mark_outbox_row ''applied'' [] None None now x else x"
    have "og_store s1 = Some (st\<lparr>outbox := (outbox st)\<lparr>rows := map ?f (rows (outbox st))\<rparr>\<rparr>)"
      by (simp add: m(1) outbox_mark_def update_where_def Let_def)
    moreover have "row_repaired clock adp to_id (e # es) rep s x (?f x)" for x
      using at by (auto simp: row_repaired_def mark_outbox_row_def Let_def)
    then have "list_all2 (row_repaired clock adp to_id (e # es) rep s) (rows (outbox st)) (map ?f (rows (outbox st)))"
      by (simp add: list.rel_map list.rel_refl)
    ultimately show ?thesis by fastforce
  qed
  then obtain t1 where t1: "og_store s1 = Some (st\<lparr>outbox := t1\<rparr>)"
      "list_all2 (row_repaired clock adp to_id (e # es) rep s) (rows (outbox st)) (rows t1)" by blast
  show ?case
  proof (cases rep1)
    case None
    then have "s' = s1" using Cons.prems(1) 1 by simp
    then show ?thesis using t1 by blast
  next
    case (Some rep2)
    then have "repair_each clock adp to_id es rep2 s1 = (o_rep, s')" using Cons.prems(1) 1 by simp
    from Cons.IH [OF this t1(1)] obtain t where t: "og_store s' = Some (st\<lparr>outbox := t\<rparr>)"
        "list_all2 (row_repaired clock adp to_id es rep2 s1) (rows t1) (rows t)" by auto
    have "row_repaired clock adp to_id (e # es) rep s x z"
      if "row_repaired clock adp to_id (e # es) rep s x y" "row_repaired clock adp to_id es rep2 s1 y z" for x y z
      using that repaired_at_later [OF 1 [unfolded Some]] unfolding row_repaired_def by metis
    then have "list_all2 (row_repaired clock adp to_id (e # es) rep s) (rows (outbox st)) (rows t)"
      using list_all2_trans [OF _ t1(2) t(2)] by blast
    with t(1) show ?thesis by blast
  qed
qed

text \<open>The row is a dead callback of the board.\<close>

definition dead_on_board :: "store \<Rightarrow> string \<Rightarrow> outbox_row \<Rightarrow> bool" where
  "dead_on_board st board r \<longleftrightarrow>
     r \<in> set (rows (outbox st)) \<and> ob_state r = CALLBACK_DEADLETTER \<and>
     (\<exists>i \<in> set (rows (instances st)). ci_id i = ob_continuation_id r \<and> ci_board i = board)"

lemma outbox_boards_in:
  assumes "(r, board) \<in> set (outbox_boards st)"
  shows "r \<in> set (rows (outbox st)) \<and> (\<exists>i \<in> set (rows (instances st)). ci_id i = ob_continuation_id r \<and> ci_board i = board)"
proof -
  obtain x where x: "x \<in> set (rows (outbox st))"
      "map_option (\<lambda>i. (x, ci_board i)) (select_one (\<lambda>i. ci_id i = ob_continuation_id x) (instances st)) = Some (r, board)"
    using assms unfolding outbox_boards_def map_filter_mem by blast
  then obtain i where i: "select_one (\<lambda>i. ci_id i = ob_continuation_id x) (instances st) = Some i" "x = r" "ci_board i = board"
    by auto
  then have "i \<in> set (rows (instances st))" "ci_id i = ob_continuation_id r"
    by (auto simp: select_one_def find_Some_iff)
  with x i show ?thesis by auto
qed

lemma sum_list_of_elem:
  assumes "collect_entries f xs = Inr ys" and "y \<in> set ys"
  shows "\<exists>x \<in> set xs. f x = Inr y"
  using assms by (induction xs arbitrary: ys) (auto split: sum.splits)

lemma find_target_in: "find_target rbs sel = Inr rb \<Longrightarrow> rb \<in> set rbs"
  by (auto simp: find_target_def find_Some_iff split: sum.splits option.splits)

lemma selected_dead:
  assumes s: "select_deadletters (Some st) board channels ids refs = Inr es" and e: "e \<in> set es"
  shows "\<exists>r. dead_on_board st board r \<and> e = deadletter_entry_of r"
proof (cases "ids \<noteq> [] \<or> refs \<noteq> []")
  case True
  then obtain targets entries where t:
      "collect_entries (find_target (outbox_boards st)) (map Inl (remdups ids) @ map Inr (remdups refs)) = Inr targets"
      "collect_entries (check_target board channels) targets = Inr entries" "es = sort_key de_outbox_id (remdups entries)"
    using s by (auto simp: select_deadletters_def Let_def split: sum.splits)
  then have "e \<in> set entries" using e by simp
  from sum_list_of_elem [OF t(2) this] obtain rb where rb: "rb \<in> set targets" "check_target board channels rb = Inr e" by blast
  from sum_list_of_elem [OF t(1) rb(1)] have "rb \<in> set (outbox_boards st)" by (blast intro: find_target_in)
  moreover have "snd rb = board" "ob_state (fst rb) = CALLBACK_DEADLETTER" "e = deadletter_entry_of (fst rb)"
    using rb(2) by (auto simp: check_target_def Let_def split: if_splits)
  ultimately show ?thesis using outbox_boards_in [of "fst rb" "snd rb" st] by (auto simp: dead_on_board_def)
next
  case False
  then have "es = sort_key de_outbox_id (map (\<lambda>rb. deadletter_entry_of (fst rb))
      (filter (\<lambda>rb. snd rb = board \<and> ob_state (fst rb) = CALLBACK_DEADLETTER \<and> endpoint_chat (fst rb) \<in> set channels)
         (outbox_boards st)))"
    using s by (simp add: select_deadletters_def Let_def)
  with e obtain rb where "rb \<in> set (outbox_boards st)" "snd rb = board" "ob_state (fst rb) = CALLBACK_DEADLETTER"
      "e = deadletter_entry_of (fst rb)" by auto
  then show ?thesis using outbox_boards_in [of "fst rb" "snd rb" st] by (auto simp: dead_on_board_def)
qed

lemma planned_dead:
  assumes "build_discord_plan bfile (Some st) board from_id to_id ids refs = Inr p"
  obtains channels where "select_deadletters (Some st) board channels ids refs = Inr (dp_deadletters p)"
  using assms by (auto simp: build_discord_plan_def Let_def split: option.splits sum.splits)

lemma board_phase_store: "board_phase busy allow p s = Inr (stats, s1) \<Longrightarrow> og_store s1 = og_store s"
  by (auto simp: board_phase_def split: if_splits option.splits sum.splits)

lemma backed_up_store [simp]: "og_store (backed_up p s) = og_store s" "og_real (backed_up p s) = og_real s"
  by (simp_all add: backed_up_def)

text \<open>
  The proof of a repair: the entry is a dead callback of the board, and at its turn the command line reported
  success for the acknowledgement and the board itself holds the receipt at the numeric endpoint.
\<close>

definition repair_proof ::
    "('w \<Rightarrow> real) \<Rightarrow> (json \<Rightarrow> string) \<Rightarrow> 'w real_config \<Rightarrow> store \<Rightarrow> string \<Rightarrow> discord_plan \<Rightarrow> 'w origin_sys \<Rightarrow>
       outbox_row \<Rightarrow> bool" where
  "repair_proof clock dumps c st board p s r \<longleftrightarrow>
     dead_on_board st board r \<and>
     (\<exists>before after rep w. dp_deadletters p = before @ deadletter_entry_of r # after \<and>
        repair_each clock (real_adapter dumps c) (dp_to p) before no_repair s = (Some rep, w) \<and>
        (let task = get_str (ob_payload r) ''task_id''; status = get_str (ob_payload r) ''status'';
             endpoint = numeric_discord_endpoint (get_str (ob_payload r) ''endpoint'') (dp_to p);
             (d, w') = real_record_consumer_ack c task endpoint status (og_real w)
         in dict_success d \<and> acked_on_board task endpoint status (rb_file w')))"

lemma repaired_at_proof:
  assumes at: "repaired_at clock (real_adapter dumps c) (dp_to p) (dp_deadletters p) no_repair s e"
    and sel: "select_deadletters (Some st) board channels ids refs = Inr (dp_deadletters p)"
    and id: "de_outbox_id e = ob_id r" and r: "r \<in> set (rows (outbox st))" and d: "distinct (map ob_id (rows (outbox st)))"
  shows "repair_proof clock dumps c st board p s r"
proof -
  obtain before after rep w err w' where e: "dp_deadletters p = before @ e # after"
      "repair_each clock (real_adapter dumps c) (dp_to p) before no_repair s = (Some rep, w)"
      "ack_proof (real_adapter dumps c) (de_task e) (numeric_discord_endpoint (de_endpoint e) (dp_to p)) (de_status e) (og_real w) =
        (Some (True, err), w')"
    using at unfolding repaired_at_def by blast
  obtain q where q: "dead_on_board st board q" "e = deadletter_entry_of q"
    using selected_dead [OF sel, of e] e(1) by auto
  have "q = r" using q id r d unfolding dead_on_board_def distinct_map
    by (metis deadletter_entry.simps(1) deadletter_entry_of_def inj_onD)
  with q have q: "dead_on_board st board r" "e = deadletter_entry_of r" by auto
  obtain a w1 where a: "real_record_consumer_ack c (de_task e) (numeric_discord_endpoint (de_endpoint e) (dp_to p)) (de_status e)
      (og_real w) = (a, w1)" by fastforce
  have "w1 = w'" using e(3) a
    by (auto simp: ack_proof_def real_adapter_def lift_result_def Let_def split: if_splits)
  with real_ack_proof [OF e(3)] a have "dict_success a"
      "acked_on_board (de_task e) (numeric_discord_endpoint (de_endpoint e) (dp_to p)) (de_status e) (rb_file w1)" by simp_all
  with q e a show ?thesis by (auto simp: repair_proof_def deadletter_entry_of_def Let_def)
qed

text \<open>
  C37: Whatever the result of an apply with the board's own adapter, the store differs at most in its outbox,
  no row is added or lost, and a row that changed is a dead callback of this board that became applied, with
  the proof of the repair: the acknowledgement reported success and the board holds its receipt.
\<close>

theorem repair_needs_proof:
  assumes "apply_discord_migration clock busy (Some (real_adapter dumps c)) allow board from_id to_id ids refs s = (res, s')"
    and "og_store s = Some st" and "distinct (map ob_id (rows (outbox st)))"
  shows "\<exists>t. og_store s' = Some (st\<lparr>outbox := t\<rparr>) \<and>
    list_all2 (\<lambda>r r'. r' = r \<or> ob_id r' = ob_id r \<and> ob_state r' = ''applied'' \<and>
       (\<exists>p s1. build_discord_plan (rb_file (og_real s)) (Some st) board from_id to_id ids refs = Inr p \<and>
          map_sum id snd (board_phase busy allow p (backed_up p s)) = Inr s1 \<and> repair_proof clock dumps c st board p s1 r))
      (rows (outbox st)) (rows t)"
proof -
  let ?R = "\<lambda>r r'. r' = r \<or> ob_id r' = ob_id r \<and> ob_state r' = ''applied'' \<and>
       (\<exists>p s1. build_discord_plan (rb_file (og_real s)) (Some st) board from_id to_id ids refs = Inr p \<and>
          map_sum id snd (board_phase busy allow p (backed_up p s)) = Inr s1 \<and> repair_proof clock dumps c st board p s1 r)"
  have same: ?thesis if "og_store s' = Some st"
    using that by (intro exI [of _ "outbox st"]) (simp add: list.rel_refl)
  show ?thesis
  proof (cases "\<exists>p stats s1. validate_migration_inputs from_id to_id = None \<and>
      build_discord_plan (rb_file (og_real s)) (Some st) board from_id to_id ids refs = Inr p \<and>
      board_phase busy allow p (backed_up p s) = Inr (stats, s1) \<and> dp_deadletters p \<noteq> []")
    case False
    then have "og_store s' = Some st"
      using assms(1,2)
      by (fastforce simp: apply_discord_migration_def repair_callback_deadletters_def board_phase_store split: option.splits sum.splits prod.splits if_splits)
    then show ?thesis by (rule same)
  next
    case True
    then obtain p stats s1 where p: "validate_migration_inputs from_id to_id = None"
      "build_discord_plan (rb_file (og_real s)) (Some st) board from_id to_id ids refs = Inr p"
      "board_phase busy allow p (backed_up p s) = Inr (stats, s1)" "dp_deadletters p \<noteq> []" by blast
    have st1: "og_store s1 = Some st" using board_phase_store [OF p(3)] assms(2) by simp
    obtain o_rep s2 where e: "repair_each clock (real_adapter dumps c) (dp_to p) (dp_deadletters p) no_repair s1 = (o_rep, s2)"
      by fastforce
    have s': "s' = s2"
      using assms(1) e p assms(2)
      by (auto simp: apply_discord_migration_def repair_callback_deadletters_def split: option.splits)
    obtain channels where sel: "select_deadletters (Some st) board channels ids refs = Inr (dp_deadletters p)"
      by (rule planned_dead [OF p(2)])
    obtain t where t: "og_store s2 = Some (st\<lparr>outbox := t\<rparr>)"
      "list_all2 (row_repaired clock (real_adapter dumps c) (dp_to p) (dp_deadletters p) no_repair s1) (rows (outbox st)) (rows t)"
      using repair_each_rows [OF e st1] by blast
    have "?R r r'" if "row_repaired clock (real_adapter dumps c) (dp_to p) (dp_deadletters p) no_repair s1 r r'"
        "r \<in> set (rows (outbox st))" for r r'
      using that repaired_at_proof [OF _ sel _ that(2) assms(3)] p(2,3) unfolding row_repaired_def by fastforce
    then have "list_all2 ?R (rows (outbox st)) (rows t)"
      using t(2) by (rule list.rel_mono_strong [rotated]) blast
    with t(1) s' show ?thesis by blast
  qed
qed

subsection \<open>Witnesses\<close>

definition sample_receipt :: "string \<Rightarrow> string \<Rightarrow> string \<Rightarrow> notify_receipt" where
  "sample_receipt chat notify ack = \<lparr>kr_task = ''t'', kr_platform = ''discord'', kr_chat = chat, kr_thread = [],
     kr_notify_status = notify, kr_wake_status = [], kr_ack_status = ack, kr_notify_at = 0, kr_wake_at = 0,
     kr_ack_at = 0, kr_updated_at = 0\<rparr>"

text \<open>The target has a receipt of the same task, so the symbolic one is merged.\<close>

definition sample_origin_board :: board_file where
  "sample_origin_board =
     \<lparr>bf_subs = None,
      bf_origins = Some \<lparr>tb_cols = [], tb_rows = [\<lparr>ko_task = ''t'', ko_platform = ''discord'', ko_chat = ''#research'',
        ko_thread = [], ko_chat_type = [], ko_user = []\<rparr>]\<rparr>,
      bf_receipts = Some \<lparr>tb_cols = RECEIPT_MERGE_COLS,
        tb_rows = [sample_receipt ''#research'' ''delivered'' ''acked'', sample_receipt ''42'' ''pending'' []]\<rparr>,
      bf_ack_subs = None, bf_wakes = None,
      bf_new_sub = \<lparr>kn_task = [], kn_platform = [], kn_chat = [], kn_thread = [], kn_profile = [], kn_trigger = False,
        kn_mode = [], kn_chat_type = [], kn_user = [], kn_created_at = 0\<rparr>\<rparr>"

definition sample_moved :: "board_stats \<times> board_file" where
  "sample_moved = projr (apply_board_transaction [''#research'', ''research''] ''42'' sample_origin_board)"

lemma sample_moves:
  "apply_board_transaction [''#research'', ''research''] ''42'' sample_origin_board = Inr (fst sample_moved, snd sample_moved)"
  "map (\<lambda>r. (kr_chat r, kr_notify_status r, kr_ack_status r)) (receipt_rows (snd sample_moved)) =
     [(''42'', ''delivered'', ''acked'')]"
  by code_simp+

theorem origins_become_canonical_witness:
  "list_all (\<lambda>r. \<not> on_token [''#research'', ''research''] (kr_platform r) (kr_chat r)) (receipt_rows (snd sample_moved)) \<and>
   moved [''#research'', ''research''] ''42'' (receipt_rows sample_origin_board) (receipt_rows (snd sample_moved))"
proof -
  have "distinct (map receipt_endpoint (receipt_rows sample_origin_board))"
      "set RECEIPT_MERGE_COLS \<subseteq> set (receipt_cols sample_origin_board)" "''42'' \<notin> set [''#research'', ''research'']"
    by (simp_all add: sample_origin_board_def receipt_rows_def receipt_cols_def sample_receipt_def receipt_endpoint_def)
  then show ?thesis using origins_become_canonical [OF sample_moves(1)] by (simp add: list_all_iff)
qed

definition sample_dead_row :: outbox_row where
  "sample_dead_row = \<lparr>ob_id = 1, ob_continuation_id = 1, ob_step_id = [], ob_operation = ''callback'',
     ob_payload = [(''task_id'', JStr ''t''), (''status'', JStr ''acked''), (''endpoint'', JStr ''discord:#research'')],
     ob_idempotency_key = ''k'', ob_state = ''callback_deadletter'', ob_board_task_id = [], ob_attempts = 8,
     ob_next_attempt_at = 0, ob_last_error = ''e'', ob_created_at = 0, ob_updated_at = 0\<rparr>"

definition sample_dead_store :: store where
  "sample_dead_store = empty_store
     \<lparr>instances := \<lparr>rows = [\<lparr>ci_id = 1, ci_board = ''main'', ci_source_task_id = ''t'', ci_source_event_id = [],
        ci_source_graph_id = [], ci_contract_ref = [], ci_verdict = [], ci_continuation_kind = [], ci_state = RESUMED,
        ci_origin_ref = [], ci_return_to_ref = [], ci_workspace_ref = [], ci_idempotency_key = [], ci_created_at = 0,
        ci_updated_at = 0\<rparr>], counter = 1\<rparr>,
      outbox := \<lparr>rows = [sample_dead_row], counter = 1\<rparr>\<rparr>"

definition sample_ack_config :: "unit real_config" where
  "sample_ack_config = \<lparr>rb_runner = (\<lambda>argv w. (Cli_Answer 0 [] [], w)), rb_loads = (\<lambda>_. Some (JObj [])), rb_clock = (\<lambda>_. 7),
     rb_board = ''main'', rb_hermes_bin = ''hermes'', rb_repair = False\<rparr>"

definition sample_origin_sys :: "unit origin_sys" where
  "sample_origin_sys = \<lparr>og_real = \<lparr>rb_outside = (), rb_file = Some sample_origin_board, rb_task_ids = [], rb_mode_supported = None\<rparr>,
     og_store = Some sample_dead_store, og_backups = []\<rparr>"

definition sample_origin_apply :: "discord_result \<times> unit origin_sys" where
  "sample_origin_apply = apply_discord_migration (\<lambda>_. 7) (\<lambda>_. False) (Some (real_adapter (\<lambda>_. []) sample_ack_config)) False
     ''main'' ''research'' ''42'' [] [] sample_origin_sys"

lemma sample_repaired: "map_option (\<lambda>st. map ob_state (rows (outbox st))) (og_store (snd sample_origin_apply)) = Some [''applied'']"
  by code_simp

theorem repair_needs_proof_witness:
  "\<exists>t. og_store (snd sample_origin_apply) = Some (sample_dead_store\<lparr>outbox := t\<rparr>) \<and>
    list_all2 (\<lambda>r r'. r' = r \<or> ob_id r' = ob_id r \<and> ob_state r' = ''applied'' \<and>
       (\<exists>p s1. build_discord_plan (Some sample_origin_board) (Some sample_dead_store) ''main'' ''research'' ''42'' [] [] = Inr p \<and>
          map_sum id snd (board_phase (\<lambda>_. False) False p (backed_up p sample_origin_sys)) = Inr s1 \<and>
          repair_proof (\<lambda>_. 7) (\<lambda>_. []) sample_ack_config sample_dead_store ''main'' p s1 r))
      [sample_dead_row] (rows t)"
proof -
  have st: "og_store sample_origin_sys = Some sample_dead_store" "rb_file (og_real sample_origin_sys) = Some sample_origin_board"
    by (simp_all add: sample_origin_sys_def)
  have rs: "rows (outbox sample_dead_store) = [sample_dead_row]" by (simp add: sample_dead_store_def)
  have e: "apply_discord_migration (\<lambda>_. 7) (\<lambda>_. False) (Some (real_adapter (\<lambda>_. []) sample_ack_config)) False
      ''main'' ''research'' ''42'' [] [] sample_origin_sys = (fst sample_origin_apply, snd sample_origin_apply)"
    by (simp add: sample_origin_apply_def)
  show ?thesis using repair_needs_proof [OF e st(1)] by (simp add: rs st)
qed

end
