(* ===== verification/Daemon.thy ===== *)
theory Daemon
  imports Ingest Origin_Migration Repo_Config
begin

text \<open>
  The daemon (\<open>daemon.py\<close>): the registry of boards and its overrides (\<open>load_board_registry\<close> of
  \<open>board_events.py\<close>), discovery, the protection verdict and the runtime report, the router of one board,
  a tick, a reconciliation and the wake loop.

  What is on disk is read from the outside world: the directories under the boards root, the overrides
  and the board files. A source, an adapter and a roadmap configuration are made by parameters. The wake
  loop is over the number of times it finds the stop event clear; sleeping and the watcher only decide when.
\<close>

subsection \<open>The registry of boards\<close>

text \<open>\<open>spec.get(a) or spec.get(b)\<close> as a text.\<close>

definition text_of :: "json dict \<Rightarrow> string \<Rightarrow> string \<Rightarrow> string" where
  "text_of spec a b = str_or (get_str spec a) (get_str spec b)"

definition registry_entry_of :: "string \<Rightarrow> json dict \<Rightarrow> string + registry_entry" where
  "registry_entry_of board spec =
     (let endpoint = get_str spec ''default_endpoint'' in
      case reject_symbolic_discord_endpoint endpoint of
        Some e \<Rightarrow> Inl (e @ '':board='' @ board)
      | None \<Rightarrow> Inr
          \<lparr>re_board = board, re_db_identity = str_or (text_of spec ''db_identity'' ''db'') board,
           re_outcome_handlers = (case dict_get spec ''outcome_handlers'' of Some (JArr xs) \<Rightarrow> map py_str xs | _ \<Rightarrow> []),
           re_enabled = cfg_bool spec ''enabled'' True, re_default_endpoint = endpoint,
           re_db_path = get_str spec ''db_path'',
           re_roadmap_config_path = text_of spec ''roadmap_config_path'' ''roadmap_config'',
           re_roadmap_receipts_file = text_of spec ''roadmap_receipts_file'' ''roadmap_receipts''\<rparr>)"

fun registry_entries :: "(string \<times> json) list \<Rightarrow> string + registry_entry dict" where
  "registry_entries [] = Inr []"
| "registry_entries ((board, JObj spec) # rest) =
     (case registry_entry_of board spec of
        Inl e \<Rightarrow> Inl e
      | Inr entry \<Rightarrow> (case registry_entries rest of Inl e \<Rightarrow> Inl e | Inr reg \<Rightarrow> Inr ((board, entry) # reg)))"
| "registry_entries (_ # rest) = registry_entries rest"

text \<open>\<open>js\<close> is \<open>json.loads\<close>, \<open>fl\<close> is \<open>float\<close>.\<close>

definition load_board_registry ::
    "(string \<Rightarrow> json option) \<Rightarrow> (string \<Rightarrow> real \<times> string) \<Rightarrow> string \<Rightarrow> string + registry_entry dict" where
  "load_board_registry js fl text =
     (case (case js text of Some v \<Rightarrow> Inr v | None \<Rightarrow> parse_minimal_yaml fl text) of
        Inl e \<Rightarrow> Inl e
      | Inr (JObj payload) \<Rightarrow>
          (case dict_get payload ''boards'' of Some (JObj boards) \<Rightarrow> registry_entries boards | _ \<Rightarrow> Inr [])
      | Inr _ \<Rightarrow> Inr [])"

subsection \<open>Discovery\<close>

text \<open>
  A directory under the boards root: its name and its board file, if it has one. The path of the root ends
  in a slash.
\<close>

type_synonym board_dirs = "(string \<times> board_file option) list"

definition discovered_entry :: "string \<Rightarrow> registry_entry dict \<Rightarrow> string \<Rightarrow> registry_entry" where
  "discovered_entry broot overrides board =
     (let path = broot @ board @ ''/kanban.db'' in
      case dict_get overrides board of
        None \<Rightarrow>
          \<lparr>re_board = board, re_db_identity = board, re_outcome_handlers = [], re_enabled = True, re_default_endpoint = [],
           re_db_path = path, re_roadmap_config_path = [], re_roadmap_receipts_file = []\<rparr>
      | Some o' \<Rightarrow>
          \<lparr>re_board = board, re_db_identity = str_or (re_db_identity o') board,
           re_outcome_handlers = re_outcome_handlers o', re_enabled = True,
           re_default_endpoint = re_default_endpoint o', re_db_path = str_or (re_db_path o') path,
           re_roadmap_config_path = re_roadmap_config_path o', re_roadmap_receipts_file = re_roadmap_receipts_file o'\<rparr>)"

definition enrolled :: "registry_entry dict \<Rightarrow> string \<times> board_file option \<Rightarrow> bool" where
  "enrolled overrides d \<longleftrightarrow> snd d \<noteq> None \<and>
     (case dict_get overrides (fst d) of None \<Rightarrow> True | Some o' \<Rightarrow> re_enabled o')"

text \<open>\<open>None\<close> for the directories is a root that does not exist, for the overrides a file that does not.\<close>

definition discover_boards ::
    "(string \<Rightarrow> string + registry_entry dict) \<Rightarrow> string \<Rightarrow> board_dirs option \<Rightarrow> string option \<Rightarrow>
       string + registry_entry dict" where
  "discover_boards load broot dirs overrides_text =
     (case (case overrides_text of None \<Rightarrow> Inr [] | Some text \<Rightarrow> load text) of
        Inl e \<Rightarrow> Inl e
      | Inr overrides \<Rightarrow> Inr (case dirs of
            None \<Rightarrow> []
          | Some ds \<Rightarrow> map (\<lambda>d. (fst d, discovered_entry broot overrides (fst d)))
              (filter (enrolled overrides) (sort_key fst ds))))"

subsection \<open>The runtime report\<close>

definition CALLBACK_TRANSPORT :: string where
  "CALLBACK_TRANSPORT = ''kanban_notify_wake''"

record protection_verdict =
  pv_effective :: bool
  pv_typed_origin :: bool
  pv_origin_source :: string
  pv_notify_wake :: bool
  pv_canonical :: bool
  pv_legacy :: bool
  pv_apply :: bool
  pv_warning :: string
  pv_missing :: "string list"

definition board_protection_verdict :: "registry_entry \<Rightarrow> board_file option \<Rightarrow> bool \<Rightarrow> protection_verdict" where
  "board_protection_verdict entry bfile apply =
     (let has_rows = (case bfile of None \<Rightarrow> False | Some b \<Rightarrow> sub_rows b \<noteq> []);
          typed = re_default_endpoint entry \<noteq> [] \<or> has_rows;
          canonical = (case bfile of None \<Rightarrow> False | Some b \<Rightarrow>
            (case bf_subs b of None \<Rightarrow> False | Some t \<Rightarrow> ''delivery_mode'' \<in> set (tb_cols t)));
          legacy = (case bfile of None \<Rightarrow> False | Some b \<Rightarrow> bf_ack_subs b \<noteq> None \<and> bf_wakes b \<noteq> None);
          notify = (canonical \<or> legacy);
          effective = (apply \<and> typed \<and> notify)
      in \<lparr>pv_effective = effective, pv_typed_origin = typed,
          pv_origin_source = (if re_default_endpoint entry \<noteq> [] then ''default_endpoint''
            else if has_rows then ''kanban_notify_subs'' else []),
          pv_notify_wake = notify, pv_canonical = canonical, pv_legacy = legacy, pv_apply = apply,
          pv_warning = (if effective then [] else ''board_lacks_effective_semantic_protection''),
          pv_missing = (if apply then [] else [''apply_disabled'']) @ (if typed then [] else [''typed_origin_missing'']) @
            (if notify then [] else [''notify_wake_unavailable''])\<rparr>)"

text \<open>The cursor of a board as the report shows it; an error leaves it unset.\<close>

datatype cursor_status =
    Cursor_Uninitialized
  | Cursor_Ok nat bool
  | Cursor_Error string

text \<open>The store file: the columns of \<open>board_cursors\<close>, none when the table is missing, and the store.\<close>

definition store_cursor_status :: "(string list \<times> store) option \<Rightarrow> string \<Rightarrow> string \<Rightarrow> cursor_status" where
  "store_cursor_status sfile board identity =
     (case sfile of
        None \<Rightarrow> Cursor_Uninitialized
      | Some (cols, st) \<Rightarrow>
          if cols = [] then Cursor_Error ''cursor_table_missing''
          else if ''last_event_id'' \<notin> set cols then Cursor_Error ''cursor_column_unknown''
          else Cursor_Ok (get_cursor board identity st) (cursor_exists board identity st))"

record board_report =
  bp_board :: string
  bp_identity :: string
  bp_endpoint :: string
  bp_path :: string
  bp_verdict :: protection_verdict
  bp_cursor :: "cursor_status option"

text \<open>\<open>_HANDLERS\<close> of \<open>continuation.py\<close>.\<close>

definition HANDLED_KINDS :: "continuation_kind list" where
  "HANDLED_KINDS = [NEEDS_INPUT, CODE_FIX, SEMANTIC_REFUSAL]"

definition get_handler :: "continuation_kind \<Rightarrow> continuation_kind option" where
  "get_handler kind = (if kind \<in> set HANDLED_KINDS then Some kind else None)"

record runtime_report =
  rn_apply :: bool
  rn_boards :: "board_report list"
  rn_handlers :: "string list"
  rn_transport :: string
  rn_warnings :: "(string \<times> string \<times> string list) list"

definition board_report_of ::
    "(string list \<times> store) option option \<Rightarrow> bool \<Rightarrow> (string \<Rightarrow> board_file option) \<Rightarrow> string \<times> registry_entry \<Rightarrow>
       board_report" where
  "board_report_of st apply file_at be =
     (case be of (board, entry) \<Rightarrow>
        (let identity = str_or (re_db_identity entry) board in
         \<lparr>bp_board = board, bp_identity = identity, bp_endpoint = re_default_endpoint entry, bp_path = re_db_path entry,
          bp_verdict = board_protection_verdict entry (file_at (re_db_path entry)) apply,
          bp_cursor = map_option (\<lambda>sfile. store_cursor_status sfile board identity) st\<rparr>))"

definition runtime_report_of ::
    "(string list \<times> store) option option \<Rightarrow> bool \<Rightarrow> (string \<Rightarrow> board_file option) \<Rightarrow> registry_entry dict \<Rightarrow>
       runtime_report" where
  "runtime_report_of st apply file_at registry =
     (let boards = map (board_report_of st apply file_at) registry in
      \<lparr>rn_apply = apply, rn_boards = boards, rn_handlers = sort (map continuation_kind_value HANDLED_KINDS),
       rn_transport = CALLBACK_TRANSPORT,
       rn_warnings =
         map (\<lambda>b. (bp_board b, pv_warning (bp_verdict b), pv_missing (bp_verdict b)))
           (filter (\<lambda>b. pv_warning (bp_verdict b) \<noteq> []) boards) @
         List.map_filter (\<lambda>b. case bp_cursor b of
             Some (Cursor_Error e) \<Rightarrow> Some (bp_board b, ''cursor_status_unavailable'', [e]) | _ \<Rightarrow> None) boards\<rparr>)"

subsection \<open>The router of one board\<close>

definition route_board_events ::
    "'w ingest_options \<Rightarrow> (string \<Rightarrow> registry_entry \<Rightarrow> event_source) \<Rightarrow> string \<Rightarrow> registry_entry \<Rightarrow>
       ('w sys, py_error + board_outcome) state" where
  "route_board_events io source_factory board entry = do {
     let src = source_factory board entry;
     let identity = es_db_identity src;
     seen \<leftarrow> query (cursor_exists board identity);
     if \<not> seen then do {
       op1 (advance_cursor board identity (es_current_max_seq src));
       ret (Inr (Seeded board (es_current_max_seq src)))
     }
     else do {
       x \<leftarrow> ingest_board_once (io\<lparr>io_default_endpoint := re_default_endpoint entry\<rparr>) board src;
       ret (case x of Inl err \<Rightarrow> Inl err | Inr (rs, n) \<Rightarrow> Inr (Ingested board rs n))
     }
   }"

subsection \<open>The daemon\<close>

text \<open>
  \<open>dm_dirs\<close> and \<open>dm_overrides\<close> read the disk; \<open>dm_roadmap_config\<close> is \<open>None\<close> for a configuration that does
  not load; \<open>dm_promote\<close> holds the ledger file and the graph adapter of the entry, which the apply mode makes.
\<close>

record 'w daemon_config =
  dm_options :: "'w ingest_options"
  dm_load :: "string \<Rightarrow> string + registry_entry dict"
  dm_root :: string
  dm_dirs :: "'w \<Rightarrow> board_dirs option"
  dm_overrides :: "'w \<Rightarrow> string option"
  dm_reconcile_interval :: real
  dm_apply :: bool
  dm_checker :: "(wait_row \<Rightarrow> 'w \<Rightarrow> string option \<times> 'w) option"
  dm_source_factory :: "string \<Rightarrow> registry_entry \<Rightarrow> 'w \<Rightarrow> event_source"
  dm_adapter_factory :: "(string \<Rightarrow> registry_entry \<Rightarrow> 'w adapter) option"
  dm_real_adapter :: "string \<Rightarrow> registry_entry \<Rightarrow> 'w adapter"
  dm_fake_adapter :: "'w adapter"
  dm_roadmap_config :: "string \<Rightarrow> roadmap_switches option"
  dm_promote :: "string \<Rightarrow> registry_entry \<Rightarrow> promotion \<Rightarrow> 'w \<Rightarrow> json dict \<times> 'w"

definition adapter_factory :: "'w daemon_config \<Rightarrow> string \<Rightarrow> registry_entry \<Rightarrow> 'w adapter" where
  "adapter_factory c =
     (case dm_adapter_factory c of
        Some f \<Rightarrow> f
      | None \<Rightarrow> if dm_apply c then dm_real_adapter c else (\<lambda>board entry. dm_fake_adapter c))"

definition daemon_registry :: "'w daemon_config \<Rightarrow> 'w \<Rightarrow> string + registry_entry dict" where
  "daemon_registry c w = discover_boards (dm_load c) (dm_root c) (dm_dirs c w) (dm_overrides c w)"

definition board_options :: "'w daemon_config \<Rightarrow> string \<Rightarrow> registry_entry \<Rightarrow> 'w ingest_options" where
  "board_options c board entry =
     (dm_options c)\<lparr>io_adapter := Some (adapter_factory c board entry), io_roadmap_router := None, io_handle_kinds := None,
        io_roadmap_config := (if re_roadmap_config_path entry = [] then None
          else dm_roadmap_config c (re_roadmap_config_path entry)),
        io_promote := dm_promote c board entry, io_apply := dm_apply c\<rparr>"

fun route_boards ::
    "'w daemon_config \<Rightarrow> (string \<times> registry_entry) list \<Rightarrow> ('w sys, py_error + board_outcome list) state" where
  "route_boards c [] = ret (Inr [])"
| "route_boards c ((board, entry) # rest) = do {
     w \<leftarrow> gets world;
     r \<leftarrow> route_board_events (board_options c board entry) (\<lambda>b e. dm_source_factory c b e w) board entry;
     case r of
       Inl err \<Rightarrow> ret (Inl err)
     | Inr b \<Rightarrow> do {
         more \<leftarrow> route_boards c rest;
         ret (case more of Inl err \<Rightarrow> Inl err | Inr bs \<Rightarrow> Inr (b # bs))
       }
   }"

text \<open>The report of a tick: the boards and the external waits.\<close>

type_synonym tick_report = "board_outcome list \<times> (nat \<times> nat \<times> string) list"

definition tick :: "'w daemon_config \<Rightarrow> ('w sys, py_error + tick_report) state" where
  "tick c = do {
     w \<leftarrow> gets world;
     case daemon_registry c w of
       Inl _ \<Rightarrow> ret (Inl ValueError)
     | Inr registry \<Rightarrow> do {
         r \<leftarrow> route_boards c registry;
         case r of
           Inl err \<Rightarrow> ret (Inl err)
         | Inr bs \<Rightarrow> do {
             waits \<leftarrow> poll_external_wait_conditions
               (case dm_checker c of None \<Rightarrow> default_external_wait_checker | Some f \<Rightarrow> f) None;
             time_now;
             ret (Inr (bs, waits))
           }
       }
   }"

definition reconcile ::
    "'w daemon_config \<Rightarrow> ('w sys, py_error + tick_report \<times> (string list \<times> string list) \<times> nat) state" where
  "reconcile c = do {
     r \<leftarrow> tick c;
     case r of
       Inl err \<Rightarrow> ret (Inl err)
     | Inr report \<Rightarrow> do {
         w \<leftarrow> gets world;
         case daemon_registry c w of
           Inl _ \<Rightarrow> ret (Inl ValueError)
         | Inr registry \<Rightarrow> do {
             x \<leftarrow> reconcile_outbox (\<lambda>board. map_option (adapter_factory c board) (dict_get registry board));
             ret (case x of (Inl err, _) \<Rightarrow> Inl err | (Inr done, n) \<Rightarrow> Inr (report, done, n))
           }
       }
   }"

text \<open>One round of the loop: a tick, and a reconciliation when it is due. The value is the time of the last one.\<close>

definition wake_round :: "'w daemon_config \<Rightarrow> real \<Rightarrow> ('w sys, py_error + real) state" where
  "wake_round c last_reconcile = do {
     r \<leftarrow> tick c;
     case r of
       Inl err \<Rightarrow> ret (Inl err)
     | Inr _ \<Rightarrow> do {
         now \<leftarrow> time_now;
         if now - last_reconcile \<ge> dm_reconcile_interval c then do {
           q \<leftarrow> reconcile c;
           ret (case q of Inl err \<Rightarrow> Inl err | Inr _ \<Rightarrow> Inr now)
         }
         else ret (Inr last_reconcile)
       }
   }"

text \<open>\<open>clear\<close> counts how often the loop finds the stop event clear; the value is the number of ticks.\<close>

fun wake_loop :: "'w daemon_config \<Rightarrow> nat option \<Rightarrow> nat \<Rightarrow> real \<Rightarrow> nat \<Rightarrow> ('w sys, py_error + nat) state" where
  "wake_loop c max_ticks 0 last_reconcile ticks = ret (Inr ticks)"
| "wake_loop c max_ticks (Suc clear) last_reconcile ticks = do {
     r \<leftarrow> wake_round c last_reconcile;
     case r of
       Inl err \<Rightarrow> ret (Inl err)
     | Inr last' \<Rightarrow>
         if (case max_ticks of None \<Rightarrow> False | Some m \<Rightarrow> m \<le> Suc ticks) then ret (Inr (Suc ticks))
         else wake_loop c max_ticks clear last' (Suc ticks)
   }"

definition daemon_run :: "'w daemon_config \<Rightarrow> nat option \<Rightarrow> nat \<Rightarrow> ('w sys, py_error + nat) state" where
  "daemon_run c max_ticks clear = wake_loop c max_ticks clear 0 0"

end
