(* ===== verification/Daemon_Props.thy ===== *)
theory Daemon_Props
  imports Daemon Engine_System
begin

text \<open>
  What the daemon promises: whatever it does is a run of the engine, so every property of all runs holds for
  it; a board it sees for the first time is seeded and its history is not replayed; and the registry and the
  verdicts of its report are what the overrides and the schema say.
\<close>

subsection \<open>The daemon runs the engine\<close>

text \<open>Seeding the cursor of a new board is what \<open>ingest_all_boards\<close> does with it.\<close>

lemma run_seed:
  assumes "\<not> cursor_exists board (es_db_identity src) (db s)"
  shows "run_state (route_board_events io (\<lambda>_ _. src) board entry) s =
      (Inr (Seeded board (es_current_max_seq src)),
       s\<lparr>readings := Suc (readings s),
         db := snd (advance_cursor board (es_db_identity src) (es_current_max_seq src) (clk s (readings s)) (db s))\<rparr>)"
    and "snd (run_state (ingest_all_boards io (\<lambda>_ _. src) None [] [(board, entry\<lparr>re_enabled := True\<rparr>)]) s) =
      s\<lparr>readings := Suc (readings s),
        db := snd (advance_cursor board (es_db_identity src) (es_current_max_seq src) (clk s (readings s)) (db s))\<rparr>"
  using assms by (simp_all add: route_board_events_def ingest_all_boards_def dict_get_def Let_def)

lemma run_routed:
  assumes "cursor_exists board (es_db_identity src) (db s)"
  shows "run_state (route_board_events io (\<lambda>_ _. src) board entry) s =
    (case run_state (ingest_board_once (io\<lparr>io_default_endpoint := re_default_endpoint entry\<rparr>) board src) s of
       (x, t) \<Rightarrow> (case x of Inl err \<Rightarrow> Inl err | Inr (rs, n) \<Rightarrow> Inr (Ingested board rs n), t))"
  using assms by (simp add: route_board_events_def Let_def split: prod.splits sum.splits)

lemma route_constant: "route_board_events io sf board entry = route_board_events io (\<lambda>_ _. sf board entry) board entry"
  by (simp add: route_board_events_def)

lemma runs_route: "effect engine_step\<^sup>*\<^sup>* (route_board_events io sf board entry)"
proof (rule effectI)
  fix s :: "'a sys"
  let ?src = "sf board entry"
  have "engine_step s (snd (run_state (route_board_events io (\<lambda>_ _. ?src) board entry) s))"
  proof (cases "cursor_exists board (es_db_identity ?src) (db s)")
    case True
    have "snd (run_state (route_board_events io (\<lambda>_ _. ?src) board entry) s) =
        snd (run_state (ingest_board_once (io\<lparr>io_default_endpoint := re_default_endpoint entry\<rparr>) board ?src) s)"
      by (simp add: run_routed [OF True] split: prod.splits)
    then show ?thesis by (simp add: engine_step.ingest)
  next
    case False
    have "snd (run_state (route_board_events io (\<lambda>_ _. ?src) board entry) s) =
        snd (run_state (ingest_all_boards io (\<lambda>_ _. ?src) None [] [(board, entry\<lparr>re_enabled := True\<rparr>)]) s)"
      by (simp only: run_seed [OF False] snd_conv)
    then show ?thesis by (simp only: engine_step.ingest_all)
  qed
  then show "engine_step\<^sup>*\<^sup>* s (snd (run_state (route_board_events io sf board entry) s))"
    unfolding route_constant [of io sf] by (rule r_into_rtranclp)
qed

lemmas runs_intros = runs.eff_intros runs_time_now runs_route runs_step [OF engine_step.poll] runs_step [OF engine_step.reconcile]

lemma runs_route_boards: "effect engine_step\<^sup>*\<^sup>* (route_boards c registry)"
  by (induction c registry rule: route_boards.induct) (auto intro!: runs_intros)

lemma runs_tick: "effect engine_step\<^sup>*\<^sup>* (tick c)"
  unfolding tick_def by (intro runs_intros runs_route_boards)

lemma runs_reconcile: "effect engine_step\<^sup>*\<^sup>* (reconcile c)"
  unfolding reconcile_def by (intro runs_intros runs_tick)

lemma runs_wake_round: "effect engine_step\<^sup>*\<^sup>* (wake_round c last_reconcile)"
  unfolding wake_round_def Let_def by (intro runs_intros runs_tick runs_reconcile)

lemma runs_wake_loop: "effect engine_step\<^sup>*\<^sup>* (wake_loop c max_ticks clear last_reconcile ticks)"
proof (induction clear arbitrary: last_reconcile ticks)
  case 0
  show ?case by (simp add: runs.eff_ret)
next
  case (Suc clear)
  show ?case unfolding wake_loop.simps by (intro runs_intros runs_wake_round Suc.IH)
qed

text \<open>
  the daemon refines the engine. Whatever is on disk, whatever adapters, sources and checkers it is given,
  and however often it wakes, what it does to the ledger is a run of the engine; so from an empty ledger it
  keeps the ledger invariant, and from any state it only lets the ledger grow.
\<close>

theorem daemon_runs_the_engine:
  "engine_step\<^sup>*\<^sup>* s (snd (run_state (daemon_run c max_ticks clear) s)) \<and>
   grows (db s) (db (snd (run_state (daemon_run c max_ticks clear) s)))"
proof -
  have run: "engine_step\<^sup>*\<^sup>* s (snd (run_state (daemon_run c max_ticks clear) s))"
    using runs_wake_loop unfolding daemon_run_def effect_def by blast
  then show ?thesis using growing.steps_respect by blast
qed

subsection \<open>New boards\<close>

lemma live_source_exhausted:
  assumes "src = live_source label identity dflt limit kfile"
  shows "es_fetch_events_since src (es_current_max_seq src) = []"
proof (cases kfile)
  case (Some k)
  have "te_id e \<le> foldr max (map te_id (kb_events k)) 0" if "e \<in> set (kb_events k)" for e
    using that foldr_max_ge [of "te_id e" "map te_id (kb_events k)"] by simp
  then have "filter (\<lambda>e. foldr max (map te_id (kb_events k)) 0 < te_id e) (kb_events k) = []"
    by (auto simp: filter_empty_conv not_less)
  then show ?thesis using Some by (simp add: assms live_source_def live_fetch_since_def)
qed (simp add: assms live_source_def)

lemma seeded_cursor:
  assumes new: "\<not> cursor_exists b d st" and st': "st' = snd (advance_cursor b d v now st)"
  shows "cursor_exists b d st'" "get_cursor b d st' = v" "snd (advance_cursor b d v now' st') = st'"
    "st' = st\<lparr>cursors := cursors st'\<rparr>"
proof -
  have none: "find (\<lambda>c. bc_board c = b \<and> bc_db_identity c = d) (cursors st) = None"
    using new by (simp add: cursor_exists_def)
  have zero: "get_cursor b d st = 0" by (simp add: get_cursor_def none)
  have cs: "cursors st' = upsert_cursor b d v now (cursors st)"
    by (simp add: st' advance_cursor_def zero)
  have f: "find (\<lambda>c. bc_board c = b \<and> bc_db_identity c = d) (cursors st') =
      Some \<lparr>bc_board = b, bc_db_identity = d, bc_last_event_id = v, bc_updated_at = now\<rparr>"
    unfolding cs find_upsert_cursor none by simp
  show "cursor_exists b d st'" by (simp add: cursor_exists_def f)
  show v: "get_cursor b d st' = v" by (simp add: get_cursor_def f)
  have other: "c \<in> set (cursors st) \<Longrightarrow> \<not> (bc_board c = b \<and> bc_db_identity c = d)" for c
    using none by (auto simp: find_None_iff)
  then have absent: "\<not> (\<exists>c \<in> set (cursors st). bc_board c = b \<and> bc_db_identity c = d)" by blast
  let ?f = "\<lambda>c. if bc_board c = b \<and> bc_db_identity c = d \<and> bc_last_event_id c < v
      then c\<lparr>bc_last_event_id := v, bc_updated_at := now'\<rparr> else c"
  have cs': "cursors st' = cursors st @ [\<lparr>bc_board = b, bc_db_identity = d, bc_last_event_id = v, bc_updated_at = now\<rparr>]"
    unfolding cs upsert_cursor_def by (simp only: absent if_False)
  have "map ?f (cursors st) = cursors st"
    by (rule map_idI) (use other in \<open>metis (no_types, lifting)\<close>)
  then have "map ?f (cursors st') = cursors st'" unfolding cs' by simp
  moreover have "\<exists>c \<in> set (cursors st'). bc_board c = b \<and> bc_db_identity c = d" unfolding cs' by simp
  ultimately have "upsert_cursor b d v now' (cursors st') = cursors st'"
    unfolding upsert_cursor_def by (simp only: if_True)
  then show "snd (advance_cursor b d v now' st') = st'"
    by (simp add: advance_cursor_def v)
  show "st' = st\<lparr>cursors := cursors st'\<rparr>" by (simp add: st' advance_cursor_def Let_def)
qed

text \<open>
  C39: a board that the daemon sees for the first time is seeded at its newest event: no event is processed,
  nothing outside is touched and only the cursors of the ledger change. While the board has nothing newer,
  the next visit processes no event and changes neither the ledger nor the world.
\<close>

theorem new_board_not_replayed:
  assumes src: "src = live_source label identity dflt limit kfile"
    and new: "\<not> cursor_exists board (es_db_identity src) (db s)"
    and run: "run_state (route_board_events io (\<lambda>_ _. src) board entry) s = (r, s')"
  shows "r = Inr (Seeded board (es_current_max_seq src)) \<and> world s' = world s \<and>
    db s' = (db s)\<lparr>cursors := cursors (db s')\<rparr> \<and>
    (\<exists>s''. run_state (route_board_events io (\<lambda>_ _. src) board entry) s' =
        (Inr (Ingested board [] (es_current_max_seq src)), s'') \<and> db s'' = db s' \<and> world s'' = world s')"
proof -
  let ?v = "es_current_max_seq src" and ?d = "es_db_identity src"
  have s': "r = Inr (Seeded board ?v)"
    "s' = s\<lparr>readings := Suc (readings s), db := snd (advance_cursor board ?d ?v (clk s (readings s)) (db s))\<rparr>"
    using run by (simp_all add: run_seed(1) [OF new])
  have st': "db s' = snd (advance_cursor board ?d ?v (clk s (readings s)) (db s))" by (simp add: s'(2))
  note c = seeded_cursor [OF new st']
  obtain s'' where s'': "run_state (route_board_events io (\<lambda>_ _. src) board entry) s' = (Inr (Ingested board [] ?v), s'')"
      "db s'' = snd (advance_cursor board ?d ?v (clk s' (readings s')) (db s'))" "world s'' = world s'"
    by (simp add: run_routed [OF c(1)] ingest_board_once_def Let_def c(2) live_source_exhausted [OF src])
  show ?thesis using s' s'' c(3,4) by auto
qed

subsection \<open>The registry and the report\<close>

text \<open>
  Discovery enrols exactly the directories that have a board file and are not disabled by an override, in
  the order of their names, and every entry is enabled under its own name.
\<close>

lemma discovered:
  assumes "load text = Inr overrides"
  obtains reg where "discover_boards load broot (Some ds) (Some text) = Inr reg"
    "set (map fst reg) = {b. \<exists>f. (b, Some f) \<in> set ds \<and>
       (case dict_get overrides b of None \<Rightarrow> True | Some o' \<Rightarrow> re_enabled o')}"
    "\<forall>(b, e) \<in> set reg. re_board e = b \<and> re_enabled e \<and> (b \<noteq> [] \<longrightarrow> re_db_identity e \<noteq> [])"
    "sorted (map fst reg)"
proof -
  let ?reg = "map (\<lambda>d. (fst d, discovered_entry broot overrides (fst d))) (filter (enrolled overrides) (sort_key fst ds))"
  have "sorted (map fst (filter (enrolled overrides) (sort_key fst ds)))"
    by (rule sorted_filter) simp
  then have "sorted (map fst ?reg)" by (simp add: comp_def)
  moreover have "\<forall>(b, e) \<in> set ?reg. re_board e = b \<and> re_enabled e \<and> (b \<noteq> [] \<longrightarrow> re_db_identity e \<noteq> [])"
    by (auto simp: discovered_entry_def str_or_def Let_def split: option.splits)
  moreover have "set (map fst ?reg) = {b. \<exists>f. (b, Some f) \<in> set ds \<and>
       (case dict_get overrides b of None \<Rightarrow> True | Some o' \<Rightarrow> re_enabled o')}"
    by (force simp: enrolled_def split: option.splits)
  moreover have "discover_boards load broot (Some ds) (Some text) = Inr ?reg"
    by (simp add: discover_boards_def assms)
  ultimately show thesis using that by blast
qed

text \<open>A verdict is effective exactly when nothing is missing, and warns otherwise.\<close>

lemma effective_iff_nothing_missing:
  "pv_effective (board_protection_verdict entry bfile apply) \<longleftrightarrow> pv_missing (board_protection_verdict entry bfile apply) = []"
  "pv_warning (board_protection_verdict entry bfile apply) = [] \<longleftrightarrow> pv_effective (board_protection_verdict entry bfile apply)"
  by (auto simp: board_protection_verdict_def Let_def)

text \<open>No registry file enrols a board with a symbolic Discord endpoint.\<close>

lemma registry_entries_numeric:
  assumes "registry_entries specs = Inr reg" and "(b, e) \<in> set reg"
  shows "reject_symbolic_discord_endpoint (re_default_endpoint e) = None"
  using assms
  by (induction specs arbitrary: reg rule: registry_entries.induct)
    (auto simp: registry_entry_of_def Let_def split: sum.splits option.splits)

subsection \<open>Witnesses\<close>

definition sample_live_source :: event_source where
  "sample_live_source = live_source ''main'' ''main'' [] 10 (Some
     \<lparr>kb_events = [\<lparr>te_id = 7, te_task_id = ''t'', te_run_id = None, te_kind = ''completed'', te_payload = None,
        te_created_at = 0\<rparr>],
      kb_tasks = [], kb_runs = [], kb_subs = []\<rparr>)"

definition sample_entry :: registry_entry where
  "sample_entry = discovered_entry ''/boards/'' [] ''main''"

definition sample_routing :: "(py_error + board_outcome) \<times> fake_board sys" where
  "sample_routing = run_state (route_board_events sample_io (\<lambda>_ _. sample_live_source) ''main'' sample_entry) sample_sys"

theorem new_board_not_replayed_witness:
  "fst sample_routing = Inr (Seeded ''main'' 7) \<and> db (snd sample_routing) = empty_store\<lparr>cursors := cursors (db (snd sample_routing))\<rparr> \<and>
   (\<exists>s''. run_state (route_board_events sample_io (\<lambda>_ _. sample_live_source) ''main'' sample_entry) (snd sample_routing) =
      (Inr (Ingested ''main'' [] 7), s'') \<and> db s'' = db (snd sample_routing))"
proof -
  have "\<not> cursor_exists ''main'' (es_db_identity sample_live_source) (db sample_sys)"
    by (simp add: cursor_exists_def sample_sys_def empty_store_def)
  moreover have "es_current_max_seq sample_live_source = 7" by (simp add: sample_live_source_def live_source_def)
  moreover have "run_state (route_board_events sample_io (\<lambda>_ _. sample_live_source) ''main'' sample_entry) sample_sys =
      (fst sample_routing, snd sample_routing)" by (simp add: sample_routing_def)
  moreover have "db sample_sys = empty_store" by (simp add: sample_sys_def)
  ultimately show ?thesis
    using new_board_not_replayed [OF sample_live_source_def, of "''main''" sample_sys sample_io sample_entry
      "fst sample_routing" "snd sample_routing"] by auto
qed

end
