(* ===== verification/Reply_Tools.thy ===== *)
theory Reply_Tools
  imports Owner_Input Regex Values
begin

text \<open>
  The tools of the plugin that let a person answer in plain text (\<open>plugins/hermes-agentflow/__init__.py\<close>):
  the open questions of an endpoint, the compilation of a reply into fields, the submission that resumes the
  continuations of a case, and its status. The other tools of the plugin pass their arguments to the command
  line of the engine.
\<close>

subsection \<open>Compiling a reply\<close>

definition URL_RE :: regex where
  "URL_RE = re_seq [re_lit ''http'', re_opt (re_lit ''s''), re_lit ''://'', re_plus re_non_space]"

definition NUMBERED_ITEM_RE :: regex where
  "NUMBERED_ITEM_RE = re_seq [RGroup 1 (re_plus re_digit), re_opt (re_lit '')''), re_spaces, re_opt (re_one_of '':.''),
     re_spaces, RGroup 2 (re_plus (RChar (CNot (COf '',;''))))]"

text \<open>A field as the ledger keeps it: a dictionary with a name.\<close>

type_synonym raw_field = "json dict"

definition raw_name :: "raw_field \<Rightarrow> string" where
  "raw_name f = (case dict_get f ''name'' of None \<Rightarrow> [] | Some v \<Rightarrow> py_str v)"

definition raw_allowed :: "raw_field \<Rightarrow> json list" where
  "raw_allowed f = (case iterate_json (dict_get f ''allowed_values'') of None \<Rightarrow> [] | Some vs \<Rightarrow> vs)"

definition extract_single_value :: "string \<Rightarrow> raw_field \<Rightarrow> json" where
  "extract_single_value text f =
     (if raw_allowed f \<noteq> [] then
        (case find (\<lambda>v. contains_text (py_lower (py_str v)) (py_lower text)) (raw_allowed f) of
           Some v \<Rightarrow> v | None \<Rightarrow> JStr (py_strip text))
      else (case re_finditer URL_RE text of m # _ \<Rightarrow> JStr (group 0 m) | [] \<Rightarrow> JStr (py_strip text)))"

text \<open>One numbered item: the number counts from one, an index out of range is ignored.\<close>

definition numbered_item :: "raw_field list \<Rightarrow> json dict \<Rightarrow> re_match \<Rightarrow> json dict" where
  "numbered_item fs result m =
     (let n = digits_value (group 1 m) in
      if 1 \<le> n \<and> n \<le> length fs
      then dict_set (raw_name (fs ! (n - 1))) (extract_single_value (py_strip (group 2 m)) (fs ! (n - 1))) result
      else result)"

definition compile_reply_text :: "string \<Rightarrow> raw_field list \<Rightarrow> json dict" where
  "compile_reply_text reply fs =
     (let text = py_strip reply in
      if text = [] \<or> fs = [] then []
      else (case fs of
          [f] \<Rightarrow> [(raw_name f, extract_single_value text f)]
        | _ \<Rightarrow> foldl (numbered_item fs) [] (re_finditer NUMBERED_ITEM_RE text)))"

subsection \<open>The members of a case\<close>

definition member_requirements :: "member_row \<Rightarrow> py_error + requirement list" where
  "member_requirements m = sum_list_of (map requirement_from_dict (im_requirements m))"

definition member_contract :: "member_row \<Rightarrow> py_error + input_contract" where
  "member_contract m =
     (case member_requirements m of
        Inl e \<Rightarrow> Inl e
      | Inr reqs \<Rightarrow>
          (case dynamic_owner_input ''generic.owner-input.v1'' ''owner'' [] reqs 1 of
             None \<Rightarrow> Inl ValueError | Some c \<Rightarrow> Inr c))"

definition json_fields :: "json list \<Rightarrow> raw_field list" where
  "json_fields = List.map_filter (\<lambda>v. case v of JObj d \<Rightarrow> Some d | _ \<Rightarrow> None)"

definition candidate_subset :: "input_contract \<Rightarrow> json dict \<Rightarrow> json dict" where
  "candidate_subset c candidate = filter (\<lambda>(n, _). list_ex (\<lambda>f. if_name f = n) (co_fields c)) candidate"

text \<open>What the members get from the candidate, and what is missing.\<close>

fun split_candidate ::
    "json dict \<Rightarrow> member_row list \<Rightarrow> (nat \<times> json dict) list \<times> string list \<Rightarrow>
       py_error + (nat \<times> json dict) list \<times> string list" where
  "split_candidate candidate [] acc = Inr acc"
| "split_candidate candidate (m # ms) (got, missing) =
     (case member_contract m of
        Inl e \<Rightarrow> Inl e
      | Inr c \<Rightarrow>
          (case validate_owner_submission c (candidate_subset c candidate) of (clean, errs) \<Rightarrow>
             split_candidate candidate ms
               (if errs \<noteq> []
                then (got, missing @ map (\<lambda>e. str_nat (im_continuation_id m) @ '':'' @ field_error_text e) errs)
                else (AList.update (im_continuation_id m) clean got, missing))))"

subsection \<open>The submission\<close>

datatype reply_result =
    Reply_Refused string
  | Reply_Already
  | Reply_Incomplete "string list"
  | Reply_Resumed "nat list"

text \<open>The members of a case have different continuations, so the first one with the id is the member.\<close>

definition contract_of_member :: "member_row list \<Rightarrow> nat \<Rightarrow> py_error + input_contract" where
  "contract_of_member ms iid =
     (case find (\<lambda>m. im_continuation_id m = iid) ms of
        Some m \<Rightarrow> member_contract m
      | None \<Rightarrow> (case dynamic_owner_input ''generic.owner-input.v1'' ''owner'' [] [] 1 of
            None \<Rightarrow> Inl ValueError | Some c \<Rightarrow> Inr c))"

definition resume_one ::
    "(string \<Rightarrow> string) \<Rightarrow> string \<Rightarrow> string \<Rightarrow> member_row list \<Rightarrow> nat \<times> json dict \<Rightarrow>
       ('w sys, py_error + nat list) state" where
  "resume_one h owner source ms item = do {
     i \<leftarrow> query (get_instance (fst item));
     case i of
       None \<Rightarrow> ret (Inr [])
     | Some row \<Rightarrow>
         (case contract_of_member ms (fst item) of
            Inl e \<Rightarrow> ret (Inl e)
          | Inr c \<Rightarrow> do {
              x \<leftarrow> on_receipt h None row
                \<lparr>su_owner_ref = owner, su_fields = snd item, su_source_ref = source\<rparr> c;
              ret (Inr (if st_success x then [fst item] else []))
            })
   }"

fun resume_each ::
    "(string \<Rightarrow> string) \<Rightarrow> string \<Rightarrow> string \<Rightarrow> member_row list \<Rightarrow> (nat \<times> json dict) list \<Rightarrow>
       ('w sys, py_error + nat list) state" where
  "resume_each h owner source ms [] = ret (Inr [])"
| "resume_each h owner source ms (item # rest) = do {
     r \<leftarrow> resume_one h owner source ms item;
     case r of
       Inl e \<Rightarrow> ret (Inl e)
     | Inr here \<Rightarrow> do {
         more \<leftarrow> resume_each h owner source ms rest;
         ret (case more of Inl e \<Rightarrow> Inl e | Inr ids \<Rightarrow> Inr (here @ ids))
       }
   }"

text \<open>What is recorded of the reply: the hash of the text and the compiled fields.\<close>

definition apply_reply ::
    "(string \<Rightarrow> string) \<Rightarrow> string \<Rightarrow> string \<Rightarrow> string \<Rightarrow> member_row list \<Rightarrow> (nat \<times> json dict) list \<Rightarrow>
       ('w sys, py_error + reply_result) state" where
  "apply_reply h cid owner source ms got = do {
     r \<leftarrow> resume_each h owner source ms got;
     case r of
       Inl e \<Rightarrow> ret (Inl e)
     | Inr ids \<Rightarrow> do {
         a \<leftarrow> apply_fields cid got ''current_owner_reply'' [];
         case a of
           Inl e \<Rightarrow> ret (Inl e)
         | Inr _ \<Rightarrow> do {
             b \<leftarrow> mark_applied cid;
             ret (case b of Inl e \<Rightarrow> Inl e | Inr _ \<Rightarrow> Inr (Reply_Resumed ids))
           }
       }
   }"

definition submit_to_case ::
    "(string \<Rightarrow> string) \<Rightarrow> string \<Rightarrow> string \<Rightarrow> string \<Rightarrow> string \<Rightarrow> string \<Rightarrow> member_row list \<Rightarrow>
       ('w sys, py_error + reply_result) state" where
  "submit_to_case h cid text owner source message ms =
     (let candidate = compile_reply_text text (json_fields (concat (map im_requirements ms))) in
      case split_candidate candidate ms ([], []) of
        Inl e \<Rightarrow> ret (Inl e)
      | Inr (got, missing) \<Rightarrow> do {
          record_inbound_reply h cid (str_or message (''reply:'' @ cid)) text candidate;
          if missing \<noteq> [] \<or> length got \<noteq> length ms then do {
            c \<leftarrow> mark_needs_clarification cid;
            ret (case c of Inl e \<Rightarrow> Inl e
               | Inr _ \<Rightarrow> Inr (Reply_Incomplete (if missing = [] then [''incomplete_reply''] else missing)))
          }
          else apply_reply h cid owner source ms got
        })"

definition submit_input_text ::
    "(string \<Rightarrow> string) \<Rightarrow> string \<Rightarrow> string \<Rightarrow> string \<Rightarrow> string \<Rightarrow> string \<Rightarrow> string \<Rightarrow>
       ('w sys, py_error + reply_result) state" where
  "submit_input_text h cid endpoint text owner source message =
     (if cid = [] \<or> text = [] then ret (Inr (Reply_Refused ''case_id_and_text_required''))
      else if endpoint = [] then ret (Inr (Reply_Refused ''endpoint_required''))
      else do {
        c \<leftarrow> query (get_case cid);
        case c of
          Inl e \<Rightarrow> ret (Inl e)
        | Inr None \<Rightarrow> ret (Inr (Reply_Refused ''unknown_case''))
        | Inr (Some k) \<Rightarrow>
            if ca_origin_endpoint k \<noteq> endpoint then ret (Inr (Reply_Refused ''origin_mismatch''))
            else if ca_state k = STATE_APPLIED then ret (Inr Reply_Already)
            else do {
              ms \<leftarrow> query (list_interaction_members cid);
              submit_to_case h cid text owner source message ms
            }
      })"

subsection \<open>The inbox and the status\<close>

record rendered_case =
  rx_case :: string
  rx_endpoint :: string
  rx_state :: string
  rx_question :: string
  rx_effort :: string
  rx_continuations :: "nat list"

definition resolved_summary :: "interaction_case \<Rightarrow> store \<Rightarrow> string list" where
  "resolved_summary c st =
     (let n = sum_list (map (\<lambda>i. length (list_requirement_satisfactions i st)) (ca_continuation_ids c)) in
      if n = 0 then [] else [str_nat n @ '' other value(s) already confirmed automatically''])"

definition rendered :: "interaction_case \<Rightarrow> store \<Rightarrow> rendered_case" where
  "rendered c st =
     \<lparr>rx_case = ca_id c, rx_endpoint = ca_origin_endpoint c, rx_state = ca_state c,
      rx_question = compose_question c (resolved_summary c st) [],
      rx_effort = classify_effort (int (ca_question_count c)), rx_continuations = ca_continuation_ids c\<rparr>"

definition render_interaction_case :: "interaction_case \<Rightarrow> ('w sys, py_error + rendered_case) state" where
  "render_interaction_case c = do {
     r \<leftarrow> (if ca_state c \<in> {STATE_COLLECTING, STATE_NEEDS_CLARIFICATION} then mark_asked (ca_id c) else ret (Inr c));
     case r of
       Inl e \<Rightarrow> ret (Inl e)
     | Inr c' \<Rightarrow> query (\<lambda>st. Inr (rendered c' st))
   }"

fun render_each :: "interaction_case list \<Rightarrow> ('w sys, py_error + rendered_case list) state" where
  "render_each [] = ret (Inr [])"
| "render_each (c # cs) = do {
     r \<leftarrow> render_interaction_case c;
     case r of
       Inl e \<Rightarrow> ret (Inl e)
     | Inr x \<Rightarrow> do {
         more \<leftarrow> render_each cs;
         ret (case more of Inl e \<Rightarrow> Inl e | Inr xs \<Rightarrow> Inr (x # xs))
       }
   }"

text \<open>Without an endpoint the cases of every endpoint are open to the caller.\<close>

definition inbox_cases :: "string \<Rightarrow> string \<Rightarrow> store \<Rightarrow> py_error + interaction_case list" where
  "inbox_cases cid endpoint st =
     (if cid \<noteq> [] then
        (case get_case cid st of
           Inl e \<Rightarrow> Inl e
         | Inr None \<Rightarrow> Inr []
         | Inr (Some c) \<Rightarrow> Inr (if endpoint \<noteq> [] \<and> ca_origin_endpoint c \<noteq> endpoint then [] else [c]))
      else list_cases endpoint [] st)"

definition input_inbox :: "string \<Rightarrow> string \<Rightarrow> ('w sys, py_error + rendered_case list) state" where
  "input_inbox cid endpoint = do {
     r \<leftarrow> query (inbox_cases cid endpoint);
     case r of
       Inl e \<Rightarrow> ret (Inl e)
     | Inr cs \<Rightarrow> render_each (filter (\<lambda>c. ca_state c \<notin> {STATE_ANSWERED, STATE_APPLIED}) cs)
   }"

datatype input_status =
    Status_Refused string
  | Status_Shown string "(nat \<times> cstate) list"

definition input_status_of :: "string \<Rightarrow> string \<Rightarrow> store \<Rightarrow> py_error + input_status" where
  "input_status_of cid endpoint st =
     (if cid = [] then Inr (Status_Refused ''case_id_required'')
      else if endpoint = [] then Inr (Status_Refused ''endpoint_required'')
      else (case get_case cid st of
          Inl e \<Rightarrow> Inl e
        | Inr None \<Rightarrow> Inr (Status_Refused ''unknown_case'')
        | Inr (Some c) \<Rightarrow>
            if ca_origin_endpoint c \<noteq> endpoint then Inr (Status_Refused ''origin_mismatch'')
            else (let is = List.map_filter (\<lambda>i. get_instance i st) (ca_continuation_ids c) in
              Inr (Status_Shown
                (if list_ex (\<lambda>i. ci_state i = FAILED_RETRYABLE) is then ''failed retryable''
                 else if ca_state c = STATE_APPLIED then ''resumed''
                 else if ca_state c = STATE_ANSWERED then ''resolved''
                 else ''waiting for you'')
                (map (\<lambda>i. (ci_id i, ci_state i)) is)))))"

end
