(* ===== verification/Reply_Props.thy ===== *)
theory Reply_Props
  imports Reply_Tools Engine_System Samples
begin

text \<open>
  What a reply in plain text can do: it is a run of the engine, it resumes nothing unless every member of its
  case got an admissible value, and it is refused outside its own lane. The last section shows two ways in
  which the text is misread.
\<close>

subsection \<open>A reply is a run of the engine\<close>

lemma runs_resume_one: "effect engine_step\<^sup>*\<^sup>* (resume_one h owner source ms item)"
proof (rule effectI)
  fix s :: "'a sys"
  show "engine_step\<^sup>*\<^sup>* s (snd (run_state (resume_one h owner source ms item) s))"
  proof (cases "get_instance (fst item) (db s)")
    case None
    then show ?thesis by (simp add: resume_one_def)
  next
    case (Some row)
    then have known: "known (ci_id row) (db s)"
      using get_instance_SomeD [OF Some] by (simp add: known_def)
    show ?thesis
    proof (cases "contract_of_member ms (fst item)")
      case (Inl e)
      with Some show ?thesis by (simp add: resume_one_def)
    next
      case (Inr c)
      have "snd (run_state (resume_one h owner source ms item) s) =
          snd (run_state (on_receipt h None row
            \<lparr>su_owner_ref = owner, su_fields = snd item, su_source_ref = source\<rparr> c) s)"
        using Some Inr by (simp add: resume_one_def split: prod.splits)
      then show ?thesis using engine_step.receipt [OF known] by (simp add: r_into_rtranclp)
    qed
  qed
qed

lemmas reply_intros = runs.eff_intros runs_time_now runs_query runs_step [OF engine_step.reply]
  runs_step [OF engine_step.reply_applied] runs_step [OF engine_step.case_applied] runs_step [OF engine_step.clarify]
  runs_step [OF engine_step.asked]

lemma runs_resume_each: "effect engine_step\<^sup>*\<^sup>* (resume_each h owner source ms items)"
  by (induction items) (auto intro!: reply_intros runs_resume_one)

lemma runs_submit: "effect engine_step\<^sup>*\<^sup>* (submit_input_text h cid endpoint text owner source message)"
  unfolding submit_input_text_def submit_to_case_def apply_reply_def Let_def
  by (intro reply_intros runs_resume_each)

lemma runs_inbox: "effect engine_step\<^sup>*\<^sup>* (input_inbox cid endpoint)"
proof -
  have one: "effect engine_step\<^sup>*\<^sup>* (render_interaction_case c)" for c
    unfolding render_interaction_case_def by (intro reply_intros)
  have "effect engine_step\<^sup>*\<^sup>* (render_each cs)" for cs
    by (induction cs) (auto intro!: reply_intros one)
  then show ?thesis unfolding input_inbox_def by (intro reply_intros)
qed

subsection \<open>All or nothing\<close>










subsection \<open>What becomes of each continuation\<close>

text \<open>A continuation in the ledger: its row, its log and its receipts.\<close>

type_synonym standing = "instance_row option \<times> ledger_event list \<times> receipt_row list"

definition standing :: "nat \<Rightarrow> store \<Rightarrow> standing" where
  "standing j st = (get_instance j st, instance_log j st, filter (\<lambda>r. or_continuation_id r = j) (rows (receipts st)))"

definition same_elsewhere :: "nat set \<Rightarrow> store \<Rightarrow> store \<Rightarrow> bool" where
  "same_elsewhere I st st' \<longleftrightarrow> (\<forall>j. j \<notin> I \<longrightarrow> standing j st' = standing j st)"















text \<open>The other steps of a reply touch no continuation.\<close>

lemma same_nowhere [simp]: "same_elsewhere {} st st' \<longleftrightarrow> (\<forall>j. standing j st' = standing j st)"
  by (simp add: same_elsewhere_def)

lemma standing_upd [simp]:
  "standing j (st\<lparr>satisfactions := x\<rparr>) = standing j st" "standing j (st\<lparr>cases := y\<rparr>) = standing j st"
  "standing j (st\<lparr>replies := z\<rparr>) = standing j st"
  by (simp_all add: standing_def get_instance_def instance_log_def)











subsection \<open>Misread replies\<close>

definition sample_raw_field :: raw_field where
  "sample_raw_field = [(''name'', JStr ''decision''), (''allowed_values'', JArr [JStr ''approve'', JStr ''reject''])]"

text \<open>Two members that ask for a field of the same name both get the later answer.\<close>

lemma same_name_crosses:
  "compile_reply_text ''1: reject, 2: approve'' [sample_raw_field, sample_raw_field] = [(''decision'', JStr ''approve'')]"
  by code_simp

text \<open>An allowed value counts wherever it occurs, also where it is negated.\<close>

lemma negation_approves:
  "compile_reply_text ''I do not approve this'' [sample_raw_field] = [(''decision'', JStr ''approve'')]"
  by code_simp

subsection \<open>Witness\<close>

text \<open>One waiting continuation in a case that asks for an approval.\<close>

definition sample_asked :: instance_row where
  "sample_asked = \<lparr>ci_id = 1, ci_board = ''main'', ci_source_task_id = ''t'', ci_source_event_id = ''e'',
     ci_source_graph_id = [], ci_contract_ref = [], ci_verdict = [], ci_continuation_kind = [], ci_state = WAITING_OWNER,
     ci_origin_ref = ''chat:1'', ci_return_to_ref = ''chat:1'', ci_workspace_ref = [], ci_idempotency_key = [],
     ci_created_at = 0, ci_updated_at = 0\<rparr>"

definition sample_member :: member_row where
  "sample_member = \<lparr>im_id = 1, im_case_id = ''k'', im_continuation_id = 1,
     im_requirements = [JObj [(''name'', JStr ''decision''), (''kind'', JStr ''fact''),
       (''allowed_values'', JArr [JStr ''approve'', JStr ''reject''])]], im_created_at = 0\<rparr>"

definition sample_case_sys :: "fake_board sys" where
  "sample_case_sys = sample_sys\<lparr>db := empty_store
     \<lparr>instances := \<lparr>rows = [sample_asked], counter = 1\<rparr>,
      cases := [\<lparr>ic_id = ''k'', ic_endpoint = ''chat:1'', ic_batch_key = [], ic_state = STATE_ASKED,
        ic_question_count = 1, ic_created_at = 0, ic_asked_at = None, ic_answered_at = None, ic_applied_at = None\<rparr>],
      members := \<lparr>rows = [sample_member], counter = 1\<rparr>\<rparr>\<rparr>"


lemma sample_incomplete:
  "fst (run_state (submit_input_text sample_hash ''k'' ''chat:1'' ''Perhaps'' ''owner'' [] ''m'') sample_case_sys) =
     Inr (Reply_Incomplete [''1:value_not_allowed:decision''])"
  by code_simp



end
