(* ===== verification/Roadmap_Watch.thy ===== *)
theory Roadmap_Watch
  imports Loop_Supervisor Repo_Config Graph_Cli Values
begin

text \<open>
  The watchdog of a repository configuration (\<open>roadmap_cli.py\<close>): the loop policy of a configuration,
  reading one task and the list of completed tasks through the command line of the board, the event
  of a task, the file of applied graphs, and the two commands \<open>run_roadmap_promote\<close> and
  \<open>run_roadmap_watch\<close>.

  The command-line runner, the JSON parser, the clock and the hashes are parameters. The receipts
  file is the ledger of applied graphs that was written to it; \<open>None\<close> is a file that is missing or
  cannot be parsed. Argument parsing and the detail texts of errors are left out. An evaluation that
  raises leaves the model's state as it was: with a registry of valid transitions it does not happen.
\<close>

subsection \<open>The policy of a configuration\<close>

definition config_to_loop_policy :: "repo_config \<Rightarrow> bool \<Rightarrow> loop_policy" where
  "config_to_loop_policy c apply = default_loop_policy
     \<lparr>sv_active_mode := (if apply then ''apply'' else ''request_only''), sv_apply_enabled := apply,
      sv_kill_switch := rc_kill_switch c, sv_require_origin_match := rc_require_origin_match c,
      sv_require_policy_resolution := rc_require_policy_resolution c,
      sv_expected_origin := rc_expected_origin c, sv_expected_return_to := rc_expected_return_to c,
      sv_roadmap_auto_continue := True, sv_roadmap_transitions := rc_allowed_transitions c,
      sv_roadmap_max_chain_depth := rc_max_chain_depth c, sv_roadmap_max_promotions := rc_max_promotions c,
      sv_roadmap_cooldown_seconds := rc_cooldown_seconds c,
      sv_roadmap_require_review_edge := rc_require_review_edge c,
      sv_roadmap_require_ack_edge := rc_require_ack_edge c,
      sv_roadmap_require_trusted := rc_require_trusted_assignee c,
      sv_roadmap_trusted := rc_trusted_assignees c,
      sv_roadmap_require_policy_resolution := rc_require_policy_resolution c,
      sv_roadmap_apply_enabled := apply \<and> rc_apply_mode c,
      sv_roadmap_impl_assignee := rc_impl_assignee c, sv_roadmap_review_assignee := rc_review_assignee c,
      sv_roadmap_ack_agent := rc_ack_trigger_agent c, sv_roadmap_board_mode := ''real''\<rparr>"

subsection \<open>Reading the board\<close>

type_synonym 'w board_client = "string list \<Rightarrow> 'w cli_world \<Rightarrow> (int \<times> string) option \<times> 'w cli_world"

definition show_argv :: "string \<Rightarrow> string \<Rightarrow> string list" where
  "show_argv board task = [''hermes'', ''kanban'', ''--board'', board, ''show'', short_text 240 task, ''--json'']"

definition list_argv :: "string \<Rightarrow> string list" where
  "list_argv board = [''hermes'', ''kanban'', ''--board'', board, ''list'', ''--status'', ''done'', ''--json'']"

definition list_at :: "json dict \<Rightarrow> string \<Rightarrow> json list option" where
  "list_at m key = (case dict_get m key of Some (JArr xs) \<Rightarrow> Some xs | _ \<Rightarrow> None)"

text \<open>The answer to \<open>show\<close>: an error, or the task with its runs.\<close>

definition fetched_task ::
    "(string \<Rightarrow> json option) \<Rightarrow> (int \<times> string) option \<Rightarrow> string + json dict \<times> json list" where
  "fetched_task js answer =
     (case answer of
        None \<Rightarrow> Inl ''cli_runner_error''
      | Some (rc, out) \<Rightarrow>
          if rc \<noteq> 0 then Inl ''cli_runner_failed''
          else (case js out of
            Some (JObj data) \<Rightarrow>
              (let task = (case dict_get data ''task'' of Some (JObj t) \<Rightarrow> t | _ \<Rightarrow> data);
                   runs = (case list_at data ''runs'' of Some xs \<Rightarrow> xs
                     | None \<Rightarrow> (case list_at task ''runs'' of Some xs \<Rightarrow> xs | None \<Rightarrow> []))
               in Inr (task, runs))
          | _ \<Rightarrow> Inl ''cli_invalid_json''))"

definition fetch_task_via_cli ::
    "'w board_client \<Rightarrow> (string \<Rightarrow> json option) \<Rightarrow> string \<Rightarrow> string \<Rightarrow> 'w cli_world \<Rightarrow>
       (string + json dict \<times> json list) \<times> 'w cli_world" where
  "fetch_task_via_cli run js board task w = map_prod (fetched_task js) id (run (show_argv board task) w)"

definition task_id_of_item :: "json \<Rightarrow> string" where
  "task_id_of_item v =
     (case v of JObj m \<Rightarrow> str_or (get_str m ''id'') (get_str m ''task_id'') | _ \<Rightarrow> py_str v)"

definition listed_tasks :: "(string \<Rightarrow> json option) \<Rightarrow> (int \<times> string) option \<Rightarrow> string list" where
  "listed_tasks js answer =
     (case answer of
        None \<Rightarrow> []
      | Some (rc, out) \<Rightarrow>
          if rc \<noteq> 0 then []
          else (case js out of
            None \<Rightarrow> []
          | Some data \<Rightarrow>
              (case (case data of JObj m \<Rightarrow> dict_get m ''tasks'' | _ \<Rightarrow> Some data) of
                 Some (JArr items) \<Rightarrow> filter (\<lambda>t. t \<noteq> []) (map task_id_of_item items)
               | _ \<Rightarrow> [])))"

definition list_final_tasks_via_cli ::
    "'w board_client \<Rightarrow> (string \<Rightarrow> json option) \<Rightarrow> string \<Rightarrow> 'w cli_world \<Rightarrow> string list \<times> 'w cli_world" where
  "list_final_tasks_via_cli run js board w = map_prod (listed_tasks js) id (run (list_argv board) w)"

subsection \<open>The event of a task\<close>

text \<open>The first of the keys whose value is a text that is not empty.\<close>

fun task_str :: "json dict \<Rightarrow> string list \<Rightarrow> string" where
  "task_str m [] = []"
| "task_str m (k # ks) =
     (case dict_get m k of Some (JStr s) \<Rightarrow> (if s \<noteq> [] then s else task_str m ks) | _ \<Rightarrow> task_str m ks)"

definition COMPLETED_RUN_STATUSES :: "string list" where
  "COMPLETED_RUN_STATUSES = [''completed'', ''done'', ''success'']"

fun first_number :: "json dict \<Rightarrow> string list \<Rightarrow> real option" where
  "first_number m [] = None"
| "first_number m (k # ks) =
     (case Option.bind (dict_get m k) num_of of Some r \<Rightarrow> Some r | None \<Rightarrow> first_number m ks)"

text \<open>A completed run with a summary: its time, where it has one, and the summary.\<close>

definition run_candidate :: "json \<Rightarrow> (real option \<times> string) option" where
  "run_candidate v =
     (case v of
        JObj m \<Rightarrow>
          if py_lower (get_str m ''status'') \<notin> set COMPLETED_RUN_STATUSES \<and>
             py_lower (get_str m ''outcome'') \<notin> set COMPLETED_RUN_STATUSES then None
          else (case dict_get m ''summary'' of
             Some (JStr s) \<Rightarrow>
               if s = [] then None
               else Some (first_number m [''ended_at'', ''completed_at'', ''started_at'', ''id''], s)
           | _ \<Rightarrow> None)
      | _ \<Rightarrow> None)"

text \<open>\<open>max\<close> keeps the first of equal elements.\<close>

fun latest_run :: "real \<times> string \<Rightarrow> (real \<times> string) list \<Rightarrow> real \<times> string" where
  "latest_run best [] = best"
| "latest_run best (x # xs) = latest_run (if fst best < fst x then x else best) xs"

definition latest_completed_run_summary :: "json list \<Rightarrow> string" where
  "latest_completed_run_summary runs =
     (let cs = List.map_filter run_candidate runs;
          timed = List.map_filter (\<lambda>(t, s). map_option (\<lambda>r. (r, s)) t) cs
      in case (cs, timed) of
           ([], _) \<Rightarrow> []
         | (_, x # xs) \<Rightarrow> snd (latest_run x xs)
         | (c # _, []) \<Rightarrow> snd c)"

definition loop_event_from_task :: "json dict \<Rightarrow> repo_config \<Rightarrow> string \<Rightarrow> json list \<Rightarrow> loop_event" where
  "loop_event_from_task task c event runs =
     (let tid = task_str task [''id'', ''task_id''];
          run_summary = str_or (latest_completed_run_summary runs) (task_str task [''latest_summary'']);
          summary = str_or run_summary (str_or (task_str task [''result'', ''summary''])
            (task_str task [''body'', ''title'']))
      in (mk_loop_event event (str_or tid event))
           \<lparr>le_task := tid, le_summary := summary,
            le_origin := str_or (task_str task [''origin'']) (rc_expected_origin c),
            le_return_to := str_or (task_str task [''return_to'']) (rc_expected_return_to c),
            le_subscription := str_or (task_str task [''subscription_status''])
              (str_or (summary_marker summary ''Subscription-Status'') ''unverified''),
            le_policy_ref := str_or (task_str task [''policy_resolution_ref''])
              (summary_marker summary ''Policy-Resolution-Ref''),
            le_source_final := tid, le_assignee := task_str task [''assignee'']\<rparr>)"

subsection \<open>The commands\<close>

text \<open>What a command is given: the text of the configuration (\<open>None\<close> cannot be read), the board client and its parsers.\<close>

record 'w watch_host =
  wh_config :: "string option"
  wh_path :: string
  wh_client :: "'w board_client option"
  wh_loads :: "string \<Rightarrow> json option"
  wh_float :: "string \<Rightarrow> real \<times> string"
  wh_hash :: "string \<Rightarrow> string"
  wh_content_hash :: "string \<Rightarrow> road_transition dict \<Rightarrow> string"
  wh_time :: "'w cli_world \<Rightarrow> real"

record 'w watch_state =
  ws_world :: "'w cli_world"
  ws_file :: "apply_ledger option"

datatype watch_result =
    Watch_Unfetched string string
  | Watch_Raised string loop_error
  | Watch_Report string loop_report

datatype watch_exit =
    Exit_Error string
  | Exit_Disabled
  | Exit_Promoted loop_report
  | Exit_Watched nat "string list" "watch_result list"

text \<open>The arguments: the receipts file may be left out.\<close>

record watch_args =
  wa_once :: bool
  wa_apply :: bool
  wa_receipts :: bool

text \<open>
  \<open>_load_config\<close> and the guards both commands share. \<open>Inl\<close> is the answer of a command that goes no
  further; an error of another type than \<open>ValueError\<close> or \<open>OSError\<close> escapes.
\<close>

definition load_config :: "'w watch_host \<Rightarrow> py_error + watch_exit + repo_config" where
  "load_config host =
     (case wh_config host of
        None \<Rightarrow> Inr (Inl (Exit_Error ''malformed_config''))
      | Some txt \<Rightarrow>
          (case load_repo_roadmap_config (wh_loads host) (wh_float host) (wh_path host) txt of
             Inl (Registry_Invalid _) \<Rightarrow> Inr (Inl (Exit_Error ''malformed_config''))
           | Inl (Registry_Raises ValueError) \<Rightarrow> Inr (Inl (Exit_Error ''malformed_config''))
           | Inl (Registry_Raises e) \<Rightarrow> Inl e
           | Inr c \<Rightarrow>
               if \<not> rc_enabled c then Inr (Inl Exit_Disabled)
               else if \<not> rc_same_board_only c \<or> rc_board c = [] then Inr (Inl (Exit_Error ''same_board_required''))
               else Inr (Inr c)))"

definition watch_adapter ::
    "'w watch_host \<Rightarrow> repo_config \<Rightarrow> bool \<Rightarrow> 'w board_client \<Rightarrow> 'w cli_state board_adapter option" where
  "watch_adapter host c apply run =
     (if \<not> (apply \<and> rc_apply_mode c) then None
      else Some (cli_graph_adapter
        \<lparr>ca_runner = run, ca_loads = wh_loads host, ca_board = short_text 240 (rc_board c), ca_created_by = [],
         ca_hermes_bin = ''hermes'', ca_subscription_endpoint = []\<rparr>, None))"

text \<open>A command starts with empty ledgers, except for the graphs of the receipts file.\<close>

definition adapter_state :: "'w cli_world \<Rightarrow> 'w cli_state" where
  "adapter_state w = \<lparr>cs_world = w, cs_calls = [], cs_task_ids = []\<rparr>"

definition seeded :: "watch_args \<Rightarrow> 'w watch_state \<Rightarrow> apply_ledger" where
  "seeded a st = (if wa_receipts a then (case ws_file st of None \<Rightarrow> [] | Some l \<Rightarrow> l) else [])"

definition watch_start :: "watch_args \<Rightarrow> 'w watch_state \<Rightarrow> 'w cli_world \<Rightarrow> 'w cli_state loop_state" where
  "watch_start a st w = \<lparr>ls_receipts = [],
     ls_roadmap = \<lparr>as_ledger = [], as_applied = seeded a st, as_board = adapter_state w\<rparr>\<rparr>"

definition loop_world :: "'w cli_state loop_state \<Rightarrow> 'w cli_world" where
  "loop_world s = cs_world (as_board (ls_roadmap s))"

text \<open>The state after a command: the world, and the file if there is one to write.\<close>

definition persisted :: "watch_args \<Rightarrow> 'w cli_state loop_state \<Rightarrow> 'w watch_state \<Rightarrow> 'w watch_state" where
  "persisted a s st = \<lparr>ws_world = loop_world s,
     ws_file = (if wa_receipts a then Some (as_applied (ls_roadmap s)) else ws_file st)\<rparr>"

text \<open>One fetched task, under a new adapter.\<close>

definition evaluate_task ::
    "'w watch_host \<Rightarrow> repo_config \<Rightarrow> bool \<Rightarrow> 'w board_client \<Rightarrow> string \<Rightarrow> json dict \<times> json list \<Rightarrow>
       'w cli_state loop_state \<Rightarrow> loop_error + loop_report \<times> 'w cli_state loop_state" where
  "evaluate_task host c apply run event fetched s =
     (case evaluate_loop_event (wh_hash host) (watch_adapter host c apply run)
             (Some (build_registry (wh_content_hash host) c)) (Loop_Given (config_to_loop_policy c apply))
             (wh_time host (loop_world s)) (loop_event_from_task (fst fetched) c event (snd fetched))
             (with_board (adapter_state (loop_world s)) s) of
        Inl err \<Rightarrow> Inl err
      | Inr (d, s') \<Rightarrow> Inr (build_loop_report (wh_hash host) d, s'))"

definition run_roadmap_promote ::
    "'w watch_host \<Rightarrow> watch_args \<Rightarrow> string \<Rightarrow> 'w watch_state \<Rightarrow> py_error + watch_exit \<times> 'w watch_state" where
  "run_roadmap_promote host a task st =
     (case load_config host of
        Inl err \<Rightarrow> Inl err
      | Inr (Inl answer) \<Rightarrow> Inr (answer, st)
      | Inr (Inr c) \<Rightarrow>
          (case wh_client host of
             None \<Rightarrow> Inr (Exit_Error ''no_board_client'', st)
           | Some run \<Rightarrow>
               (case fetch_task_via_cli run (wh_loads host) (rc_board c) task (ws_world st) of
                  (Inl e, w) \<Rightarrow> Inr (Exit_Error e, st\<lparr>ws_world := w\<rparr>)
                | (Inr fetched, w) \<Rightarrow>
                    (case evaluate_task host c (wa_apply a) run (''roadmap-promote:'' @ task) fetched (watch_start a st w) of
                       Inl err \<Rightarrow> Inr (Exit_Error ''evaluation_failed'', st\<lparr>ws_world := w\<rparr>)
                     | Inr (report, s) \<Rightarrow> Inr (Exit_Promoted report, persisted a s st)))))"

text \<open>The tasks the report of an event names as created.\<close>

definition reported_tasks :: "loop_report \<Rightarrow> string list" where
  "reported_tasks r = (case ly_roadmap (lr_payload (lo_receipt r)) of None \<Rightarrow> [] | Some n \<Rightarrow> no_task_ids n)"

fun created_of :: "watch_result \<Rightarrow> string list" where
  "created_of (Watch_Report t r) = reported_tasks r"
| "created_of _ = []"

definition watch_task ::
    "'w watch_host \<Rightarrow> repo_config \<Rightarrow> bool \<Rightarrow> 'w board_client \<Rightarrow> string \<Rightarrow> 'w cli_state loop_state \<Rightarrow>
       watch_result \<times> 'w cli_state loop_state" where
  "watch_task host c apply run task s =
     (case fetch_task_via_cli run (wh_loads host) (rc_board c) task (loop_world s) of
        (Inl e, w) \<Rightarrow> (Watch_Unfetched task e, with_board (adapter_state w) s)
      | (Inr fetched, w) \<Rightarrow>
          (let s1 = with_board (adapter_state w) s in
           case evaluate_task host c apply run (''roadmap-watch:'' @ task) fetched s1 of
             Inl err \<Rightarrow> (Watch_Raised task err, s1)
           | Inr (report, s2) \<Rightarrow> (Watch_Report task report, s2)))"

fun watch_tasks ::
    "'w watch_host \<Rightarrow> repo_config \<Rightarrow> bool \<Rightarrow> 'w board_client \<Rightarrow> string list \<Rightarrow> 'w cli_state loop_state \<Rightarrow>
       watch_result list \<times> 'w cli_state loop_state" where
  "watch_tasks host c apply run [] s = ([], s)"
| "watch_tasks host c apply run (t # ts) s =
     (case watch_task host c apply run t s of (r, s1) \<Rightarrow>
        map_prod (Cons r) id (watch_tasks host c apply run ts s1))"

definition run_roadmap_watch ::
    "'w watch_host \<Rightarrow> watch_args \<Rightarrow> 'w watch_state \<Rightarrow> py_error + watch_exit \<times> 'w watch_state" where
  "run_roadmap_watch host a st =
     (if \<not> wa_once a then Inr (Exit_Error ''continuous_watch_not_supported'', st)
      else case load_config host of
        Inl err \<Rightarrow> Inl err
      | Inr (Inl answer) \<Rightarrow> Inr (answer, st)
      | Inr (Inr c) \<Rightarrow>
          (case wh_client host of
             None \<Rightarrow> Inr (Exit_Error ''no_board_client'', st)
           | Some run \<Rightarrow>
               (case list_final_tasks_via_cli run (wh_loads host) (rc_board c) (ws_world st) of (tasks, w) \<Rightarrow>
                  (case watch_tasks host c (wa_apply a) run tasks (watch_start a st w) of (results, s) \<Rightarrow>
                     Inr (Exit_Watched (length tasks) (concat (map created_of results)) results, persisted a s st)))))"

end
