(* ===== verification/Watch_Props.thy ===== *)
theory Watch_Props
  imports Roadmap_Watch Loop_Props
begin

text \<open>
  The watchdog of a repository configuration: without both switches it writes nothing, a graph that
  was applied is found again by a later run over the same task, and the limits that a later run does
  not see because its ledgers start empty.
\<close>

subsection \<open>Without an adapter\<close>

lemma loop_world_with_board [simp]: "loop_world (with_board b s) = cs_world b"
  by (simp add: loop_world_def with_board_def)

lemma cs_world_adapter [simp]: "cs_world (adapter_state w) = w"
  by (simp add: adapter_state_def)

lemma applied_with_board [simp]: "as_applied (ls_roadmap (with_board b s)) = as_applied (ls_roadmap s)"
  by (simp add: with_board_def)

lemma board_with_board [simp]: "as_board (ls_roadmap (with_board b s)) = b"
  by (simp add: with_board_def)

lemma attach_without_adapter:
  "attach_roadmap_autopromote h None reg d e p now s = Inr (d', s') \<Longrightarrow>
     as_board s' = as_board s \<and> as_applied s' = as_applied s"
  by (auto simp: attach_roadmap_autopromote_def Let_def split: if_splits sum.splits)

lemma evaluate_without_adapter:
  assumes "evaluate_loop_event h None reg arg clock e s = Inr (d, s')" and "\<not> is_supersession e"
  shows "as_board (ls_roadmap s') = as_board (ls_roadmap s) \<and> as_applied (ls_roadmap s') = as_applied (ls_roadmap s)"
proof -
  obtain p malformed where p: "coerce_loop_policy arg = (p, malformed)" by fastforce
  let ?now = "event_time clock e"
  consider "ls_roadmap s' = ls_roadmap s" | "evaluate_verdict h None reg p e ?now s = Inr (d, s')"
    using assms p by (auto simp: evaluate_loop_event_def record_loop_def Let_def split: if_splits option.splits)
  then show ?thesis
  proof cases
    case 2
    then consider "ls_roadmap s' = ls_roadmap s"
      | d0 rs where "attach_roadmap_autopromote h None reg d0 e p ?now (ls_roadmap s) = Inr (d, rs)" "ls_roadmap s' = rs"
      | "remediate h None p e ?now (loop_verdict e) (loop_blocker e) s = Inr (d, s')"
      by (auto simp: evaluate_verdict_def record_loop_def Let_def split: if_splits sum.splits option.splits)
    then show ?thesis
    proof cases
      case 2
      with attach_without_adapter [OF 2(1)] show ?thesis by simp
    next
      case 3
      then show ?thesis
        by (auto simp: remediate_def Let_def case_prod_beta record_loop_def dest: propose_graph_none split: sum.splits)
    qed simp
  qed simp
qed

lemma evaluate_killed:
  assumes "evaluate_loop_event h ad reg (Loop_Given p) clock e s = Inr (d, s')" and "sv_kill_switch p"
  shows "ls_roadmap s' = ls_roadmap s"
proof -
  obtain q malformed where q: "coerce_loop_policy (Loop_Given p) = (q, malformed)" by fastforce
  then have "malformed \<or> sv_kill_switch q" using assms(2) by (auto simp: coerce_loop_policy_def split: if_splits)
  then have "entry_gate q malformed e \<noteq> None" by (auto simp: entry_gate_def)
  then show ?thesis using assms(1) q
    by (auto simp: evaluate_loop_event_def record_loop_def Let_def split: if_splits)
qed

subsection \<open>Both switches\<close>

text \<open>What the documentation of the board's command line says of its reading commands: they change nothing.\<close>

definition reads_only :: "'w board_client \<Rightarrow> bool" where
  "reads_only run \<longleftrightarrow> (\<forall>board task w. snd (run (show_argv board task) w) = w \<and> snd (run (list_argv board) w) = w)"

definition armed_config :: "watch_args \<Rightarrow> repo_config \<Rightarrow> bool" where
  "armed_config a c \<longleftrightarrow> wa_apply a \<and> rc_apply_mode c \<and> \<not> rc_kill_switch c"

lemma event_of_task_plain [simp]:
  "\<not> is_supersession (loop_event_from_task task c event runs)" "le_occurred_at (loop_event_from_task task c event runs) = 0"
  by (simp_all add: is_supersession_def loop_event_from_task_def mk_loop_event_def Let_def)

lemma evaluate_task_unarmed:
  assumes "evaluate_task host c (wa_apply a) run event fetched s = Inr (r, s')" and "\<not> armed_config a c"
  shows "loop_world s' = loop_world s \<and> as_applied (ls_roadmap s') = as_applied (ls_roadmap s)"
proof -
  let ?e = "loop_event_from_task (fst fetched) c event (snd fetched)" and ?s = "with_board (adapter_state (loop_world s)) s"
  from assms(1) obtain d where run: "evaluate_loop_event (wh_hash host) (watch_adapter host c (wa_apply a) run)
      (Some (build_registry (wh_content_hash host) c)) (Loop_Given (config_to_loop_policy c (wa_apply a)))
      (wh_time host (loop_world s)) ?e ?s = Inr (d, s')"
    by (auto simp: evaluate_task_def split: sum.splits)
  have "as_board (ls_roadmap s') = as_board (ls_roadmap ?s) \<and> as_applied (ls_roadmap s') = as_applied (ls_roadmap ?s)"
  proof (cases "rc_kill_switch c")
    case True
    then have "sv_kill_switch (config_to_loop_policy c (wa_apply a))" by (simp add: config_to_loop_policy_def)
    from evaluate_killed [OF run this] show ?thesis by simp
  next
    case False
    with assms(2) have "watch_adapter host c (wa_apply a) run = None" by (auto simp: watch_adapter_def armed_config_def)
    with run evaluate_without_adapter show ?thesis by fastforce
  qed
  then show ?thesis by (simp add: loop_world_def)
qed

lemma fetch_reads:
  assumes "reads_only run" and "fetch_task_via_cli run js board task w = (x, w')"
  shows "w' = w"
proof -
  have "w' = snd (fetch_task_via_cli run js board task w)" using assms(2) by simp
  then show ?thesis using assms(1) by (simp add: fetch_task_via_cli_def reads_only_def)
qed

lemma watch_task_unarmed:
  assumes "reads_only run" and "\<not> armed_config a c" and "watch_task host c (wa_apply a) run task s = (r, s')"
  shows "loop_world s' = loop_world s \<and> as_applied (ls_roadmap s') = as_applied (ls_roadmap s)"
proof -
  obtain x w where f: "fetch_task_via_cli run (wh_loads host) (rc_board c) task (loop_world s) = (x, w)"
    by (cases "fetch_task_via_cli run (wh_loads host) (rc_board c) task (loop_world s)")
  from fetch_reads [OF assms(1) this] have "w = loop_world s" .
  with f assms(3) show ?thesis
    by (auto simp: watch_task_def Let_def dest: evaluate_task_unarmed [OF _ assms(2)] split: sum.splits)
qed

lemma watch_tasks_unarmed:
  assumes "reads_only run" and "\<not> armed_config a c" and "watch_tasks host c (wa_apply a) run tasks s = (rs, s')"
  shows "loop_world s' = loop_world s \<and> as_applied (ls_roadmap s') = as_applied (ls_roadmap s)"
  using assms(3)
proof (induction tasks arbitrary: s rs)
  case (Cons t ts)
  obtain r s1 where one: "watch_task host c (wa_apply a) run t s = (r, s1)"
    by (cases "watch_task host c (wa_apply a) run t s")
  obtain rs1 s2 where rest: "watch_tasks host c (wa_apply a) run ts s1 = (rs1, s2)"
    by (cases "watch_tasks host c (wa_apply a) run ts s1")
  with Cons.prems one have "s' = s2" by simp
  with Cons.IH [of s1 rs1] rest watch_task_unarmed [OF assms(1,2) one] show ?case by simp
qed simp

lemma listing_reads:
  assumes "reads_only run" and "list_final_tasks_via_cli run js board w = (x, w')"
  shows "w' = w"
proof -
  have "w' = snd (list_final_tasks_via_cli run js board w)" using assms(2) by simp
  then show ?thesis using assms(1) by (simp add: list_final_tasks_via_cli_def reads_only_def)
qed

lemma watch_start_simps [simp]: "loop_world (watch_start a st w) = w" "as_applied (ls_roadmap (watch_start a st w)) = seeded a st"
  by (simp_all add: watch_start_def loop_world_def)

lemma watch_unarmed:
  assumes "run_roadmap_watch host a st = Inr (answer, st')" and "\<forall>run. wh_client host = Some run \<longrightarrow> reads_only run"
    and off: "\<And>c. load_config host = Inr (Inr c) \<Longrightarrow> \<not> armed_config a c"
  shows "ws_world st' = ws_world st \<and> seeded a st' = seeded a st"
proof (cases "st' = st")
  case False
  with assms(1) obtain c run tasks w rs s where r: "load_config host = Inr (Inr c)" "wh_client host = Some run"
    "list_final_tasks_via_cli run (wh_loads host) (rc_board c) (ws_world st) = (tasks, w)"
    "watch_tasks host c (wa_apply a) run tasks (watch_start a st w) = (rs, s)" "st' = persisted a s st"
    by (auto simp: run_roadmap_watch_def split: if_splits sum.splits option.splits prod.splits)
  from r(2) assms(2) have reads: "reads_only run" by blast
  from listing_reads [OF reads r(3)] watch_tasks_unarmed [OF reads off [OF r(1)] r(4)] r(5) show ?thesis
    by (simp add: persisted_def) (simp add: seeded_def)
qed simp

lemma promote_unarmed:
  assumes "run_roadmap_promote host a task st = Inr (answer, st')" and "\<forall>run. wh_client host = Some run \<longrightarrow> reads_only run"
    and off: "\<And>c. load_config host = Inr (Inr c) \<Longrightarrow> \<not> armed_config a c"
  shows "ws_world st' = ws_world st \<and> seeded a st' = seeded a st"
proof (cases "st' = st")
  case False
  with assms(1) obtain c run x w where r: "load_config host = Inr (Inr c)" "wh_client host = Some run"
    "fetch_task_via_cli run (wh_loads host) (rc_board c) task (ws_world st) = (x, w)"
    by (auto simp: run_roadmap_promote_def split: sum.splits option.splits prod.splits)
  from r(2) assms(2) have "reads_only run" by blast
  from fetch_reads [OF this r(3)] have w: "w = ws_world st" .
  from assms(1) r consider "st' = st\<lparr>ws_world := w\<rparr>"
    | fetched report s where "evaluate_task host c (wa_apply a) run (''roadmap-promote:'' @ task) fetched (watch_start a st w) = Inr (report, s)"
      "st' = persisted a s st"
    by (auto simp: run_roadmap_promote_def split: sum.splits)
  then show ?thesis
  proof cases
    case 1
    with w show ?thesis by (simp add: seeded_def)
  next
    case 2
    from evaluate_task_unarmed [OF 2(1) off [OF r(1)]] 2(2) w show ?thesis
      by (simp add: persisted_def) (simp add: seeded_def)
  qed
qed simp

lemma load_config_guards:
  "load_config host = Inr (Inr c) \<Longrightarrow> rc_enabled c \<and> rc_same_board_only c \<and> rc_board c \<noteq> []"
  by (auto simp: load_config_def split: option.splits sum.splits py_error.splits registry_error.splits if_splits)

text \<open>
  C38: the watchdog writes only when it is armed. If the promote or the watch command, on whatever
  tasks and with whatever reports on them, changed anything on the board or in the graphs of the receipts file, then a
  configuration was loaded that is enabled, names its board and keeps to it, has its apply mode on
  and its kill switch off, and the caller passed the apply switch. The reading commands of the
  board's own command line are taken to change nothing.
\<close>

theorem watch_writes_armed:
  assumes "run_roadmap_watch host a st = Inr (answer, st') \<or> run_roadmap_promote host a task st = Inr (answer, st')"
    and "\<forall>run. wh_client host = Some run \<longrightarrow> reads_only run"
    and "\<not> (\<exists>c. load_config host = Inr (Inr c) \<and> rc_enabled c \<and> rc_same_board_only c \<and> rc_board c \<noteq> [] \<and>
      wa_apply a \<and> rc_apply_mode c \<and> \<not> rc_kill_switch c)"
  shows "ws_world st' = ws_world st \<and> seeded a st' = seeded a st"
proof -
  have off: "\<not> armed_config a c" if "load_config host = Inr (Inr c)" for c
    using that load_config_guards [OF that] assms(3) by (auto simp: armed_config_def)
  from assms(1) show ?thesis
  proof
    assume "run_roadmap_watch host a st = Inr (answer, st')"
    from watch_unarmed [OF this assms(2) off] show ?thesis .
  next
    assume "run_roadmap_promote host a task st = Inr (answer, st')"
    from promote_unarmed [OF this assms(2) off] show ?thesis .
  qed
qed

subsection \<open>A later run over the same task\<close>

lemma clock_fields:
  "ev_summary (e\<lparr>ev_occurred_at := t\<rparr>) = ev_summary e"
  "ev_event_id (e\<lparr>ev_occurred_at := t\<rparr>) = ev_event_id e"
  "ev_source_final_ref (e\<lparr>ev_occurred_at := t\<rparr>) = ev_source_final_ref e"
  "ev_source_assignee (e\<lparr>ev_occurred_at := t\<rparr>) = ev_source_assignee e"
  "ev_origin (e\<lparr>ev_occurred_at := t\<rparr>) = ev_origin e"
  "ev_return_to (e\<lparr>ev_occurred_at := t\<rparr>) = ev_return_to e"
  "ev_subscription_status (e\<lparr>ev_occurred_at := t\<rparr>) = ev_subscription_status e"
  "ev_policy_resolution_ref (e\<lparr>ev_occurred_at := t\<rparr>) = ev_policy_resolution_ref e"
  "ev_chain_depth (e\<lparr>ev_occurred_at := t\<rparr>) = ev_chain_depth e"
  by simp_all

lemma ledger_gate_without_history:
  "ledger_gate h p (e\<lparr>ev_occurred_at := t\<rparr>) tr src [] = ledger_gate h p e tr src []"
proof -
  have "last_promotion_time h roadmap [] = None" for roadmap by (simp add: last_promotion_time_def promotions_of_def)
  moreover have "effective_depth h (e\<lparr>ev_occurred_at := t\<rparr>) tr [] = effective_depth h e tr []"
    by (simp add: effective_depth_def)
  ultimately show ?thesis by (simp only: ledger_gate_def Let_def option.case)
qed

lemma evidence_gate_clock: "evidence_gate p (e\<lparr>ev_occurred_at := t\<rparr>) d tr = evidence_gate p e d tr"
  by (simp only: evidence_gate_def clock_fields)

lemma gate_without_history:
  "promotion_gate h p m reg (e\<lparr>ev_occurred_at := t\<rparr>) src [] = promotion_gate h p m reg e src []"
  by (simp only: promotion_gate_def clock_fields evidence_gate_clock ledger_gate_without_history)

lemma propose_without_history:
  assumes "propose_roadmap_promotion h arg reg e [] = Inr (r, l)"
  shows "\<exists>r' l'. propose_roadmap_promotion h arg reg (e\<lparr>ev_occurred_at := t\<rparr>) [] = Inr (r', l') \<and> rs_key r' = rs_key r \<and>
    rs_action r' = rs_action r"
proof -
  have ids: "safe_event_id h (e\<lparr>ev_occurred_at := t\<rparr>) = safe_event_id h e" "safe_source h (e\<lparr>ev_occurred_at := t\<rparr>) = safe_source h e"
    by (simp_all add: safe_event_id_def safe_source_def)
  show ?thesis using assms
    by (auto simp: propose_roadmap_promotion_def ids gate_without_history has_event_def record_and_result_def safe_result_def
        mk_result_def case_prod_beta Let_def split: gate_result.splits sum.splits)
qed

lemma applied_found_again:
  assumes first: "apply_roadmap_promotion h ad rec (Promotion_Given p) reg e s = Inr (Applied r key entry, s1)"
    and fresh: "as_ledger s = []" "as_ledger s2 = []" and kept: "as_applied s2 = as_applied s1"
  shows "\<exists>r2 entry2. apply_roadmap_promotion h ad2 rec2 (Promotion_Given p) reg (e\<lparr>ev_occurred_at := t\<rparr>) s2 =
    Inr (Apply_Duplicate r2 key entry2, s2)"
proof -
  from first obtain r1 l1 where one: "propose_roadmap_promotion h (Promotion_Given p) reg e (as_ledger s) = Inr (r1, l1)"
    "rs_action r1 = ''propose''" "key = key_of_proposal r1" "as_applied s1 = dict_set (safe_ref h key) entry (as_applied s)"
    by (rule applied_cases)
  have "rs_key r1 \<noteq> []" using one(1)
  proof (cases rule: propose_cases)
    case (proposed u depth q)
    then show ?thesis using promotion_key_first safe_string_nonempty by metis
  qed (use one(2) in auto)
  moreover from propose_without_history [OF one(1) [unfolded fresh(1)]] obtain r2 l2 where
    two: "propose_roadmap_promotion h (Promotion_Given p) reg (e\<lparr>ev_occurred_at := t\<rparr>) [] = Inr (r2, l2)" "rs_key r2 = rs_key r1"
    by blast
  ultimately have "key_of_proposal r2 = key" "key \<noteq> []" using one(3) by (simp_all add: key_of_proposal_def)
  then show ?thesis using two(1) fresh(2) kept one(4)
    by (simp add: apply_roadmap_promotion_def apply_get_def Let_def)
qed

text \<open>A decision carries a promotion only when it is the one attached to a GO.\<close>

lemma plain_decision [simp]: "ly_roadmap (lr_payload (ld_receipt (mk_decision h e action reason p now key verdict blocker m))) = None"
  by (simp add: mk_decision_def mk_loop_receipt_def safe_loop_receipt_def safe_loop_payload_def Let_def)

definition noted :: "loop_decision \<Rightarrow> promotion_note option" where
  "noted d = ly_roadmap (lr_payload (ld_receipt d))"

lemma noted_with_note:
  "\<exists>x. noted (with_note h d n) = Some x \<and> no_applied x = nn_applied n \<and> no_duplicate x = nn_duplicate n"
  by (simp add: noted_def with_note_def with_roadmap_receipt_def safe_loop_receipt_def safe_loop_payload_def safe_note_def
      safe_next_slice_def Let_def)

lemma applied_outcome: "nn_applied (note_of_outcome h reg out) \<Longrightarrow> \<exists>r key entry. out = Applied r key entry"
  by (cases out) (simp_all add: note_of_outcome_def note_of_proposal_def Let_def)

definition go_decision :: "(string \<Rightarrow> string) \<Rightarrow> loop_policy \<Rightarrow> loop_event \<Rightarrow> real \<Rightarrow> loop_decision" where
  "go_decision h p e now = mk_decision h e ''stabilize'' ''go_terminal'' p now [] (loop_verdict e) [] no_meta"

lemma promoted_event:
  assumes "evaluate_loop_event h given reg (Loop_Given p) clock e s = Inr (d, s')" and "\<not> is_supersession e"
    and "noted d = Some n" "no_applied n"
  obtains ad r key entry where "given = Some ad" "coerce_loop_policy (Loop_Given p) = (p, False)" "entry_gate p False e = None"
    "apply_effectively_enabled p" "loop_verdict e = ''GO''" "sv_roadmap_auto_continue p"
    "pp_apply_enabled (loop_roadmap_policy p)"
    "apply_roadmap_promotion h (Some (fst ad)) (snd ad) (Promotion_Given (loop_roadmap_policy p)) reg
       (loop_promotion_event e (event_time clock e)) (ls_roadmap s) = Inr (Applied r key entry, ls_roadmap s')"
proof -
  obtain q malformed where q: "coerce_loop_policy (Loop_Given p) = (q, malformed)" by fastforce
  let ?now = "event_time clock e" and ?ad = "if apply_effectively_enabled q then given else None"
  from assms q have entry: "entry_gate q malformed e = None" and verdict: "evaluate_verdict h ?ad reg q e ?now s = Inr (d, s')"
    by (auto simp: evaluate_loop_event_def record_loop_def noted_def Let_def split: if_splits option.splits)
  from entry have wf: "\<not> malformed" by (auto simp: entry_gate_def split: if_splits)
  with q have qp: "q = p" by (auto simp: coerce_loop_policy_def split: if_splits)
  from verdict assms(3) obtain rs where at: "loop_verdict e = ''GO''"
    "attach_roadmap_autopromote h ?ad reg (go_decision h q e ?now) e q ?now (ls_roadmap s) = Inr (d, rs)" "ls_roadmap s' = rs"
    by (auto simp: evaluate_verdict_def remediate_def record_loop_def noted_def go_decision_def case_prod_beta Let_def
        split: if_splits sum.splits option.splits)
  have "\<exists>r key entry. ?ad \<noteq> None \<and> sv_roadmap_auto_continue q \<and> pp_apply_enabled (loop_roadmap_policy q) \<and>
      apply_roadmap_promotion h (map_option fst ?ad) (Option.bind ?ad snd) (Promotion_Given (loop_roadmap_policy q)) reg
        (loop_promotion_event e ?now) (ls_roadmap s) = Inr (Applied r key entry, rs)"
  proof (cases "sv_roadmap_auto_continue q \<and> pp_apply_enabled (loop_roadmap_policy q) \<and> ?ad \<noteq> None")
    case True
    with at(2) obtain out where out: "apply_roadmap_promotion h (map_option fst ?ad) (Option.bind ?ad snd)
        (Promotion_Given (loop_roadmap_policy q)) reg (loop_promotion_event e ?now) (ls_roadmap s) = Inr (out, rs)"
      "d = with_note h (go_decision h q e ?now) (note_of_outcome h reg out)"
      by (auto simp only: attach_roadmap_autopromote_def Let_def simp_thms if_True if_False split: sum.splits prod.splits)
    with assms(3,4) noted_with_note applied_outcome have "\<exists>r key entry. out = Applied r key entry"
      by (metis option.inject)
    with out(1) True show ?thesis by blast
  next
    case False
    show ?thesis
    proof (cases "sv_roadmap_auto_continue q")
      case True
      with False at(2) obtain r where "d = with_note h (go_decision h q e ?now) (note_of_proposal h r)"
        by (cases given) (auto simp: attach_roadmap_autopromote_def Let_def split: sum.splits if_splits)
      with assms(3,4) noted_with_note have "nn_applied (note_of_proposal h r)" by (metis option.inject)
      then show ?thesis by (simp add: note_of_proposal_def)
    next
      case False
      with at(2) have "d = go_decision h q e ?now" by (simp add: attach_roadmap_autopromote_def)
      then have "noted d = None" by (simp add: noted_def go_decision_def)
      with assms(3) show ?thesis by simp
    qed
  qed
  with at q wf qp entry that show ?thesis by (auto split: if_splits)
qed

lemma promoted_event_found:
  assumes "evaluate_loop_event h (Some ad) reg (Loop_Given p) clock e s = Inr (d, s')" and "\<not> is_supersession e"
    and "noted d = Some n" "no_applied n" and "as_ledger (ls_roadmap s) = []"
    and "ls_receipts s2 = []" "as_ledger (ls_roadmap s2) = []" "as_applied (ls_roadmap s2) = as_applied (ls_roadmap s')"
  shows "\<exists>d2 s3 n2. evaluate_loop_event h (Some ad2) reg (Loop_Given p) clock2 e s2 = Inr (d2, s3) \<and> ls_roadmap s3 = ls_roadmap s2 \<and>
    noted d2 = Some n2 \<and> no_duplicate n2"
proof -
  from promoted_event [OF assms(1-4)] obtain ad' r key entry where "Some ad = Some ad'" and one: "coerce_loop_policy (Loop_Given p) = (p, False)"
    "entry_gate p False e = None" "apply_effectively_enabled p" "loop_verdict e = ''GO''" "sv_roadmap_auto_continue p"
    "pp_apply_enabled (loop_roadmap_policy p)"
    "apply_roadmap_promotion h (Some (fst ad')) (snd ad') (Promotion_Given (loop_roadmap_policy p)) reg
       (loop_promotion_event e (event_time clock e)) (ls_roadmap s) = Inr (Applied r key entry, ls_roadmap s')" .
  let ?t = "event_time clock2 e"
  have "loop_promotion_event e ?t = (loop_promotion_event e (event_time clock e))\<lparr>ev_occurred_at := ?t\<rparr>"
    by (simp add: loop_promotion_event_def)
  with applied_found_again [OF one(7) assms(5,7,8)] obtain r2 entry2 where dup: "apply_roadmap_promotion h (Some (fst ad2)) (snd ad2)
      (Promotion_Given (loop_roadmap_policy p)) reg (loop_promotion_event e ?t) (ls_roadmap s2) =
      Inr (Apply_Duplicate r2 key entry2, ls_roadmap s2)" by metis
  let ?d = "with_note h (go_decision h p e ?t) (note_of_outcome h reg (Apply_Duplicate r2 key entry2))"
  have "attach_roadmap_autopromote h (Some ad2) reg (go_decision h p e ?t) e p ?t (ls_roadmap s2) = Inr (?d, ls_roadmap s2)"
    using one(5,6) dup by (simp add: attach_roadmap_autopromote_def)
  then have run: "evaluate_loop_event h (Some ad2) reg (Loop_Given p) clock2 e s2 = Inr (record_loop ?d s2)"
    using one(1-4) assms(2,6)
    by (simp add: evaluate_loop_event_def loop_has_event_def evaluate_verdict_def go_decision_def Let_def)
  have "nn_duplicate (note_of_outcome h reg (Apply_Duplicate r2 key entry2))" by (simp add: note_of_outcome_def)
  with noted_with_note obtain x where "noted ?d = Some x" "no_duplicate x" by blast
  with run show ?thesis by (simp add: record_loop_def)
qed

text \<open>The promotion in a report is the one in the decision, up to sanitising.\<close>

definition reported :: "loop_report \<Rightarrow> promotion_note option" where
  "reported r = ly_roadmap (lr_payload (lo_receipt r))"

lemma reported_noted:
  "reported (build_loop_report h d) = map_option (safe_note h \<circ> safe_note h) (noted d)"
  by (simp add: reported_def noted_def build_loop_report_def safe_decision_dict_def safe_loop_receipt_def
      safe_loop_payload_def option.map_comp Let_def)

lemma safe_note_flags [simp]: "no_applied (safe_note h n) = no_applied n" "no_duplicate (safe_note h n) = no_duplicate n"
  by (simp_all add: safe_note_def)

definition promotes :: "loop_report \<Rightarrow> bool" where
  "promotes r \<longleftrightarrow> (case reported r of None \<Rightarrow> False | Some n \<Rightarrow> no_applied n)"

definition finds_duplicate :: "loop_report \<Rightarrow> bool" where
  "finds_duplicate r \<longleftrightarrow> (case reported r of None \<Rightarrow> False | Some n \<Rightarrow> no_duplicate n)"

lemma host_clock_fields:
  "wh_config (host\<lparr>wh_time := t\<rparr>) = wh_config host" "wh_loads (host\<lparr>wh_time := t\<rparr>) = wh_loads host"
  "wh_float (host\<lparr>wh_time := t\<rparr>) = wh_float host" "wh_path (host\<lparr>wh_time := t\<rparr>) = wh_path host"
  by simp_all

lemma load_config_clock [simp]: "load_config (host\<lparr>wh_time := t\<rparr>) = load_config host"
  unfolding load_config_def host_clock_fields ..

lemma adapter_clock [simp]: "watch_adapter (host\<lparr>wh_time := t\<rparr>) c apply run = watch_adapter host c apply run"
  by (simp add: watch_adapter_def)

lemma evaluate_task_again:
  assumes "evaluate_task host c apply run event fetched s = Inr (r, s')" and "promotes r"
    and "as_ledger (ls_roadmap s) = []" "ls_receipts s2 = []" "as_ledger (ls_roadmap s2) = []"
    and "as_applied (ls_roadmap s2) = as_applied (ls_roadmap s')"
  shows "\<exists>r2 s3. evaluate_task (host\<lparr>wh_time := t\<rparr>) c apply run event fetched s2 = Inr (r2, s3) \<and> finds_duplicate r2 \<and>
    loop_world s3 = loop_world s2 \<and> as_applied (ls_roadmap s3) = as_applied (ls_roadmap s2)"
proof -
  let ?e = "loop_event_from_task (fst fetched) c event (snd fetched)" and ?p = "config_to_loop_policy c apply"
    and ?reg = "Some (build_registry (wh_content_hash host) c)" and ?ad = "watch_adapter host c apply run"
    and ?s = "with_board (adapter_state (loop_world s)) s" and ?s2 = "with_board (adapter_state (loop_world s2)) s2"
  from assms(1) obtain d where one: "evaluate_loop_event (wh_hash host) ?ad ?reg (Loop_Given ?p) (wh_time host (loop_world s)) ?e ?s =
      Inr (d, s')" "r = build_loop_report (wh_hash host) d"
    by (auto simp: evaluate_task_def split: sum.splits)
  from assms(2) one(2) obtain n where n: "noted d = Some n" "no_applied n"
    by (auto simp: promotes_def reported_noted split: option.splits)
  have ledgers: "as_ledger (ls_roadmap ?s) = []" "ls_receipts ?s2 = []" "as_ledger (ls_roadmap ?s2) = []"
    "as_applied (ls_roadmap ?s2) = as_applied (ls_roadmap s')"
    using assms(3-6) by (simp_all add: with_board_def)
  from promoted_event [OF one(1) event_of_task_plain(1) n] obtain ad where Some: "?ad = Some ad" by blast
  from promoted_event_found [OF one(1) [unfolded Some] event_of_task_plain(1) n ledgers] obtain d2 s3 n2 where
    two: "evaluate_loop_event (wh_hash host) (Some ad) ?reg (Loop_Given ?p) (t (loop_world s2)) ?e ?s2 = Inr (d2, s3)"
      "ls_roadmap s3 = ls_roadmap ?s2" "noted d2 = Some n2" "no_duplicate n2" by blast
  then have "evaluate_task (host\<lparr>wh_time := t\<rparr>) c apply run event fetched s2 = Inr (build_loop_report (wh_hash host) d2, s3)"
    using Some by (simp add: evaluate_task_def)
  moreover have "finds_duplicate (build_loop_report (wh_hash host) d2)"
    using two(3,4) by (simp add: finds_duplicate_def reported_noted)
  ultimately show ?thesis using two(2) by (simp add: loop_world_def)
qed

theorem promote_once:
  assumes "load_config host = Inr (Inr c)" "wh_client host = Some run" "wa_receipts a"
    and "run_roadmap_promote host a task st = Inr (Exit_Promoted r, st1)" and "promotes r"
    and "fst (run (show_argv (rc_board c) task) (ws_world st1)) = fst (run (show_argv (rc_board c) task) (ws_world st))"
  shows "\<exists>r2 st2. run_roadmap_promote (host\<lparr>wh_time := t\<rparr>) a task st1 = Inr (Exit_Promoted r2, st2) \<and> finds_duplicate r2 \<and>
    ws_world st2 = snd (run (show_argv (rc_board c) task) (ws_world st1)) \<and> ws_file st2 = ws_file st1"
proof -
  let ?argv = "show_argv (rc_board c) task" and ?ev = "''roadmap-promote:'' @ task"
  let ?w = "snd (run ?argv (ws_world st))" and ?w1 = "snd (run ?argv (ws_world st1))"
  from assms(1,2,4) obtain fetched s where one: "fetched_task (wh_loads host) (fst (run ?argv (ws_world st))) = Inr fetched"
    "evaluate_task host c (wa_apply a) run ?ev fetched (watch_start a st ?w) = Inr (r, s)" "st1 = persisted a s st"
    by (auto simp: run_roadmap_promote_def fetch_task_via_cli_def map_prod_def split: sum.splits prod.splits)
  have kept: "seeded a st1 = as_applied (ls_roadmap s)" "ws_file st1 = Some (as_applied (ls_roadmap s))"
    using one(3) assms(3) by (simp_all add: seeded_def persisted_def)
  have "as_ledger (ls_roadmap (watch_start a st ?w)) = []" "ls_receipts (watch_start a st1 ?w1) = []"
    "as_ledger (ls_roadmap (watch_start a st1 ?w1)) = []"
    "as_applied (ls_roadmap (watch_start a st1 ?w1)) = as_applied (ls_roadmap s)"
    using kept(1) by (simp_all add: watch_start_def)
  from evaluate_task_again [OF one(2) assms(5) this, of t] obtain r2 s3 where two:
    "evaluate_task (host\<lparr>wh_time := t\<rparr>) c (wa_apply a) run ?ev fetched (watch_start a st1 ?w1) = Inr (r2, s3)" "finds_duplicate r2"
    "loop_world s3 = ?w1" "as_applied (ls_roadmap s3) = as_applied (ls_roadmap s)"
    unfolding watch_start_simps kept(1) by blast
  from one(1) assms(6) have "fetch_task_via_cli run (wh_loads host) (rc_board c) task (ws_world st1) = (Inr fetched, ?w1)"
    by (simp add: fetch_task_via_cli_def map_prod_def case_prod_beta)
  with two(1) assms(1,2) have "run_roadmap_promote (host\<lparr>wh_time := t\<rparr>) a task st1 = Inr (Exit_Promoted r2, persisted a s3 st1)"
    by (simp add: run_roadmap_promote_def)
  with two(2-4) kept(2) assms(3) show ?thesis by (simp add: persisted_def)
qed

subsection \<open>What a later run does not see\<close>

text \<open>
  The promotion ledger starts empty in every run, and the key of a promotion contains its depth. A
  source that was promoted behind another one of its roadmap is given depth one by the next run, so
  its key is new, the file does not know it, and the same source is promoted a second time.
\<close>

lemma promotion_text_inj:
  "a @ py_str (JInt 1) @ b = a @ py_str (JInt d) @ b \<Longrightarrow> 0 \<le> d \<Longrightarrow> d = 1"
  using str_nat_inj [of 1 "nat d"] by (simp add: py_str_def str_int_def)

lemma promotion_gate_ledger:
  assumes "promotion_gate h p m reg e src l = Passed t d key"
  shows "ledger_gate h p e t src l = Passed t d key \<and>
    (\<forall>l'. promotion_gate h p m reg e src l' = ledger_gate h p e t src l')"
proof -
  let ?d = "parse_next_slice_directive h (ev_summary e) src"
  have gate: "\<not> m" "pp_auto_continue p" "nd_confidence ?d = ''explicit''" "nd_auto_continue ?d"
      "str_or (pv_verdict (parse_verdict_summary (ev_summary e) src)) (extract_verdict (ev_summary e)) = ''GO''"
    and "\<exists>u. known_transition p reg (nd_transition_id ?d) = Some u \<and> evidence_gate p e ?d u = None \<and>
         ledger_gate h p e u src l = Passed t d key"
    using assms by (auto simp: promotion_gate_def stop_at_def Let_def split: if_splits option.splits)
  then obtain u where u: "known_transition p reg (nd_transition_id ?d) = Some u" "evidence_gate p e ?d u = None"
    "ledger_gate h p e u src l = Passed t d key" by blast
  from ledger_gate_passed [OF u(3)] have "u = t" by simp
  with gate u show ?thesis by (simp add: promotion_gate_def Let_def)
qed

theorem rerun_mints_new_key:
  assumes "promotion_gate h p m reg e src l = Passed t d key" and "1 < d" "ev_chain_depth e = 0" "0 \<le> pp_max_promotions p"
    and clean: "\<And>n. clean_ref (''roadmap:'' @ tr_roadmap_id t @ '':promote:'' @ tr_id t @ '':'' @ py_str (JInt n) @ '':'' @
      take 16 (h (tr_id t @ '':'' @ src)))"
  shows "\<exists>key'. promotion_gate h p m reg e src [] = Passed t 1 key' \<and> key' \<noteq> key"
proof -
  let ?text = "\<lambda>n. ''roadmap:'' @ tr_roadmap_id t @ '':promote:'' @ tr_id t @ '':'' @ py_str (JInt n) @ '':'' @
      take 16 (h (tr_id t @ '':'' @ src))"
  note gate = promotion_gate_ledger [OF assms(1)]
  then have same: "promotion_gate h p m reg e src [] = ledger_gate h p e t src []" by blast
  from gate have d: "d = effective_depth h e t l + 1" "key = promotion_key h t src d"
    "d \<le> pp_max_chain_depth p" "d \<le> tr_max_chain_depth t" "int (count_promotions h (tr_roadmap_id t) l) < pp_max_promotions p"
    using ledger_gate_passed [of h p e t src l t d key] by blast+
  have empty: "effective_depth h e t [] = 0" "count_promotions h r [] = 0" "last_promotion_time h r [] = None" "has_promotion_key h k [] = False" for r k
    using assms(3) by (simp_all add: effective_depth_def current_chain_depth_def promotions_of_def count_promotions_def
        last_promotion_time_def has_promotion_key_def)
  have "ledger_gate h p e t src [] = Passed t 1 (promotion_key h t src 1)"
  proof -
    have "\<not> min (pp_max_chain_depth p) (tr_max_chain_depth t) \<le> 0" and "\<not> pp_max_promotions p \<le> 0"
      using d(3-5) assms(2) by linarith+
    then show ?thesis by (simp add: ledger_gate_def empty Let_def)
  qed
  moreover have "promotion_key h t src 1 \<noteq> promotion_key h t src d"
  proof
    assume "promotion_key h t src 1 = promotion_key h t src d"
    then have "?text 1 = ?text d" unfolding promotion_key_def clean_safe_ref [OF clean] .
    then have "d = 1" using promotion_text_inj [of "''roadmap:'' @ tr_roadmap_id t @ '':promote:'' @ tr_id t @ '':''" _ d] assms(2) by simp
    with assms(2) show False by simp
  qed
  ultimately show ?thesis using same d(2) by simp
qed

subsection \<open>Witness\<close>

text \<open>A configuration whose apply mode is off, on a board with one completed task.\<close>

definition sample_watch_host :: "unit watch_host" where
  "sample_watch_host = \<lparr>wh_config = Some ''config'', wh_path = ''roadmap.json'',
     wh_client = Some (\<lambda>argv w. (Some (0, if ''list'' \<in> set argv then ''list'' else ''show''), w)),
     wh_loads = (\<lambda>t. if t = ''config'' then Some (JObj [(''enabled'', JBool True), (''board'', JStr ''main'')])
       else if t = ''list'' then Some (JArr [JStr ''t1''])
       else Some (JObj [(''id'', JStr ''t1''), (''summary'', JStr sample_report)])),
     wh_float = (\<lambda>_. (0, [])), wh_hash = id, wh_content_hash = (\<lambda>_ _. []), wh_time = (\<lambda>_. 1000)\<rparr>"

definition sample_watch_state :: "unit watch_state" where
  "sample_watch_state = \<lparr>ws_world = \<lparr>cw_outside = (), cw_board_file = None, cw_clock = 0\<rparr>, ws_file = None\<rparr>"

lemma sample_watch_config:
  "\<exists>c. load_config sample_watch_host = Inr (Inr c) \<and> \<not> rc_apply_mode c"
proof -
  have "case load_config sample_watch_host of Inr (Inr c) \<Rightarrow> \<not> rc_apply_mode c | _ \<Rightarrow> False" by code_simp
  then show ?thesis by (auto split: sum.splits)
qed

theorem watch_writes_armed_witness:
  "\<exists>rs created st'. run_roadmap_watch sample_watch_host \<lparr>wa_once = True, wa_apply = True, wa_receipts = True\<rparr> sample_watch_state =
      Inr (Exit_Watched 1 created rs, st') \<and> ws_world st' = ws_world sample_watch_state"
proof -
  let ?a = "\<lparr>wa_once = True, wa_apply = True, wa_receipts = True\<rparr>"
  obtain c where c: "load_config sample_watch_host = Inr (Inr c)" "\<not> rc_apply_mode c" using sample_watch_config by blast
  let ?run = "\<lambda>argv w. (Some (0::int, if ''list'' \<in> set argv then ''list'' else ''show''), w :: unit cli_world)"
  have client: "wh_client sample_watch_host = Some ?run" by (simp add: sample_watch_host_def)
  have listed: "list_final_tasks_via_cli ?run (wh_loads sample_watch_host) b w = ([''t1''], w)" for b w
    by (simp add: list_final_tasks_via_cli_def list_argv_def listed_tasks_def sample_watch_host_def task_id_of_item_def
        py_str_def)
  obtain rs s where "watch_tasks sample_watch_host c (wa_apply ?a) ?run [''t1''] (watch_start ?a sample_watch_state (ws_world sample_watch_state)) = (rs, s)"
    by fastforce
  then have run: "run_roadmap_watch sample_watch_host ?a sample_watch_state =
      Inr (Exit_Watched 1 (concat (map created_of rs)) rs, persisted ?a s sample_watch_state)"
    by (simp add: run_roadmap_watch_def c(1) client listed)
  have "\<forall>run. wh_client sample_watch_host = Some run \<longrightarrow> reads_only run" by (simp add: client reads_only_def)
  from watch_writes_armed [OF disjI1 [OF run] this] c have "ws_world (persisted ?a s sample_watch_state) = ws_world sample_watch_state"
    by auto
  with run show ?thesis by blast
qed

end
