(* ===== verification/Spec2Isabelle.thy ===== *)
theory Spec2Isabelle
  imports Engine_System Remediation_Props Compiler_Props Jobs_Props Acks Graph_Cli Roadmap_Props Register_Props Release Loop_Props Maint_Props Real_Board_Props Gateways Cron_Props Kanban_Bridge Migration_Props Origin_Migration_Props Daemon_Props Reply_Props Watch_Props
begin

text \<open>
  agentflow is the event-driven runtime behind a kanban of agent tasks. It reads the terminal events of task
  boards, classifies each outcome, and either goes on alone (a remediation graph, the next roadmap slice) or
  stops durably until a person, an external condition or a review lets it continue. Beside it stand a ledger
  of worker jobs with gated live dispatch, a loop supervisor, a release trigger and a maintenance runner.
  The package is \<open>src/src/agentflow_hermes\<close>; names of files below are relative to it. Every decision is kept
  in SQLite tables or receipt files, and every effect goes through an injected adapter. The development models
  that decision core and proves the promises its documents make.

  \<^bold>\<open>Conventions.\<close> A dictionary is an association list in insertion order (\<open>Prelude\<close>), JSON is a
  datatype, a table is its rows in insertion order with its autoincrement counter (\<open>Tables\<close>). Stateful code is
  written in the state monad over a record of the ledger, the world behind the adapter and the clock, with the
  clock readings the code makes (\<open>Board\<close>, \<open>Jobs\<close>). Exceptions are values of a sum type. Integers of Python are
  unbounded and are \<open>int\<close> or \<open>nat\<close>; times are reals. Texts are ASCII. Code that is not in the repository is a
  parameter: adapters, the \<open>hermes\<close> and release command lines, the model compiler, hashes, \<open>json.loads\<close> and
  \<open>float\<close>, and the content of files; nothing is assumed of them except where a theorem says so.

  \<^bold>\<open>Shared theories.\<close> \<open>Prelude\<close> (dictionaries, JSON, strings, the locale \<open>effect_order\<close> of reflexive and
  transitive effects, Hoare triples), \<open>Tables\<close> (the locale \<open>keyed_table\<close>: ids and unique keys survive every
  insert, update and upsert), \<open>Values\<close> (substring search, \<open>int\<close>, floor division), \<open>Regex\<close> (the patterns of \<open>re\<close>
  that occur, with the backtracking order), \<open>Sanitize\<close> (\<open>live/sanitize.py\<close>), \<open>Mini_Yaml\<close> and \<open>Repo_Config\<close>
  (\<open>roadmap_config.py\<close>, \<open>continuation_config.py\<close>), \<open>Samples\<close> (the concrete system of the witnesses).

  \<^bold>\<open>The continuation engine.\<close>
  \<open>Ledger\<close>, \<open>Ledger_Control\<close>: the state machine and every operation of \<open>ContinuationStore\<close> in
  \<open>continuation_store.py\<close>; \<open>Migration\<close>: its migration of a legacy store, the doctor and the residue report.
  \<open>Board\<close>, \<open>Delivery\<close>: the adapter interface, the in-memory board and the outbox cycle of
  \<open>continuations/base.py\<close>. \<open>Real_Board\<close>: \<open>RealBoardAdapter\<close> (\<open>board_adapter.py\<close>) over the tables of the board.
  \<open>Requirements\<close>, \<open>Policies\<close>, \<open>Inbox\<close>, \<open>Outcome\<close>: \<open>requirements.py\<close>, \<open>input_contract.py\<close>,
  \<open>standing_policy.py\<close>, \<open>requirement_resolver.py\<close>, \<open>interaction.py\<close>, \<open>outcome.py\<close>.
  \<open>Owner_Input\<close>, \<open>Code_Fix\<close>, \<open>Semantic_Refusal\<close>: the handlers under \<open>continuations/\<close>.
  \<open>Verdicts\<close>, \<open>Compiler\<close>: \<open>remediation.py\<close>, the text fallback and \<open>outcome_compiler.py\<close>.
  \<open>Events\<close>, \<open>Engine\<close>, \<open>Ingest\<close>: \<open>board_events.py\<close> and \<open>continuation_engine.py\<close>. \<open>Daemon\<close>: \<open>daemon.py\<close>.
  \<open>Origin_Migration\<close>: \<open>origin_migration.py\<close>, which works on both the board file and the ledger. \<open>Reply_Tools\<close>:
  the tools of \<open>plugins/hermes-agentflow/__init__.py\<close> through which a person answers in plain text.

  \<^bold>\<open>Jobs, roadmap, loop, release, maintenance.\<close>
  \<open>Jobs\<close>, \<open>Acks\<close>, \<open>Live_Dispatch\<close>, \<open>Gateways\<close>, \<open>Cron_Bridge\<close>: \<open>store.py\<close>, \<open>states.py\<close>, \<open>ack.py\<close>,
  \<open>live/policy.py\<close>, \<open>live/throttle.py\<close>, \<open>live/gateway.py\<close>, \<open>bridges/cron.py\<close>. \<open>Kanban_Bridge\<close>:
  \<open>bridges/kanban.py\<close>. \<open>Graph_Intents\<close>, \<open>Graph_Cli\<close>: \<open>graph_creator.py\<close>. \<open>Templates\<close>, \<open>Roadmap\<close>, \<open>Register\<close>:
  \<open>roadmap_templates.py\<close>, \<open>roadmap.py\<close>, \<open>roadmap_register.py\<close>. \<open>Loop_Supervisor\<close>: \<open>loop_supervisor.py\<close>.
  \<open>Roadmap_Watch\<close>: the two commands of \<open>roadmap_cli.py\<close> with their receipts file.
  \<open>Release\<close>: \<open>release_action.py\<close>. \<open>Maint_Policy\<close>, \<open>Maint_Runner\<close>: the package \<open>maintenance/\<close>.
\<close>

text \<open>
  \<^bold>\<open>How the parts meet.\<close> The daemon discovers boards and calls the router of the engine for each; the router
  compiles an event into an envelope and dispatches on its kind to a handler, the inbox, an external wait or
  the roadmap promotion. Handlers write the ledger and enqueue board operations; the outbox cycle delivers them
  through the adapter. The supervisor reuses the graph intents and the promotion; the bridges enqueue jobs.

  \<^bold>\<open>What is proved.\<close>
  \<^item> \<open>Ledger_Inv\<close>, \<open>Effects\<close>, \<open>Ledger_Growth\<close>, \<open>Ledger_Safety\<close>, \<open>Receipt_Gate\<close>, \<open>Engine_System\<close>: the
    interfaces of the outbox cycle, the graph builders and the handlers are locales over an arbitrary relation
    on systems. A client's lemmas are proved once in them; interpreting them on \<open>grows\<close>, on the invariant
    \<open>ledger_ok\<close> and on the owner gate gives the theorems on all runs of the inductive relation \<open>engine_step\<close>.
  \<^item> \<open>Delivery_Props\<close>: delivery exactly once, the retry schedule, the callback cap. \<open>Owner_Props\<close>, \<open>Plan_Props\<close>,
    \<open>Remediation_Props\<close>: the handlers on every branch. \<open>Compiler_Props\<close>: soundness of compiled envelopes, the
    unsafe-blocker gate, durable payloads.
  \<^item> \<open>Daemon_Props\<close>: the daemon refines the engine, new boards are not replayed. \<open>Migration_Props\<close>: a migration
    keeps the invariant and can be repeated; the locales \<open>copied_table\<close> and \<open>copied_log\<close> hold what copying does
    to one table and to one log. \<open>Origin_Migration_Props\<close>: no symbolic row is left, no fact is lost, and no dead
    callback is repaired without a receipt on the board. \<open>Real_Board_Props\<close>: subscriptions and their repair.
    \<open>Reply_Props\<close>: a reply resumes the waiting members of its case and nothing else, or changes no continuation
    when a value is inadmissible.
  \<^item> \<open>Jobs_Props\<close>, \<open>Cron_Props\<close>: the invariant of the job ledger, the gates of live dispatch, delivery and
    ingestion once. \<open>Kanban_Bridge\<close>: unblocking only on an explicit GO.
  \<^item> \<open>Roadmap_Props\<close>, \<open>Loop_Props\<close>: the gates and the bounds along every sequence of reports and events, plans
    applied whole or not at all. \<open>Register_Props\<close>, \<open>Mini_Yaml\<close>: what is written is read back, and parsing ends.
    \<open>Watch_Props\<close>: the watchdog writes only when armed, and what it cannot see between two runs.
    \<open>Release\<close>: the transcript of commands and answers, and a release exactly when every gate holds and every
    command succeeded. \<open>Maint_Props\<close>: the runner refines a register of keys
    that are spent once, caps, spacing, the latch after a failed smoke test, the life of a trust grant.
  \<^item> A few lemmas show behaviour that a document denies; they stand beside the theorem whose hypothesis excludes
    it (\<open>overlap_breaks_log\<close>, \<open>same_name_crosses\<close>, \<open>blank_graph_unbounded\<close>, \<open>unsafe_bullet_becomes_code_fix\<close>, \<open>own_id_is_provenance\<close>,
    \<open>rerun_mints_new_key\<close>).

  \<^bold>\<open>Termination, bounds and fuel.\<close> No definition has fuel that can run out. Loops over rows are recursions on
  lists; the YAML parser, the matcher and the walks along promotion chains are total by measures on the text or
  on the ledger. The number of rounds of a repetition in a pattern is bounded by the length of the text, since
  every round consumes something. The wake loop of the daemon recurses on how often it finds its stop event
  clear, which is any number. The attempts of the maintenance executor recurse on the configured number.

  \<^bold>\<open>Not modelled.\<close> Argument parsing and printing of the command lines (\<open>cli.py\<close>, \<open>continuation_cli.py\<close>,
  \<open>loop_cli.py\<close>, \<open>release_cli.py\<close>) apart from the ingestion of acknowledgements: they only
  call what is modelled. \<open>policy_ref.py\<close>, which no module of the package calls. The writing of unit files and of
  inotify watches (\<open>service_install.py\<close>, \<open>inotify_watch.py\<close>, the installer), the lock file, the signals and the
  sleeping of the daemon: operating-system calls. The scripts outside the package and the tools of the plugin
  that only pass their arguments to the command line.
  Default paths and environment look-ups; SQLite errors other than the integrity errors and missing tables the
  code handles; crashes between two commits; texts
  outside ASCII; and the concurrency of two processes on one database, beyond what single statements guarantee.
\<close>

end
